(* ===== verification/Prelude.thy ===== *)
theory Prelude
  imports Main "HOL-Library.Word"
begin

unbundle bit_operations_syntax

text \<open>
  Shared ground of the development: machine integer types, the ways a C++ operation of the
  repository can fail, the result type that carries such a failure, the byte representation of
  integers in memory, and generic facts on lists that the components use.

  A C++ operation that can throw, fail an assertion or run into undefined behaviour is a function
  into \<open>'a res\<close>, that is \<open>cxx_error + 'a\<close>: \<open>Inl e\<close> is the abnormal end, \<open>Inr x\<close> the normal one.
  A dereference of a null pointer, a division by zero and a signed overflow are undefined in C++;
  they are values of \<open>cxx_error\<close> here, so that a theorem that an operation returns \<open>Inr\<close> also says
  that none of them happens.
\<close>

section \<open>Integers, failures, results\<close>

type_synonym u8 = "8 word"
type_synonym u16 = "16 word"
type_synonym u32 = "32 word"
type_synonym u64 = "64 word"

datatype cxx_error =
    Out_of_range string      \<comment> \<open>\<open>throw std::out_of_range\<close>\<close>
  | Invalid_argument string  \<comment> \<open>\<open>throw std::invalid_argument\<close>\<close>
  | Logic_error string       \<comment> \<open>\<open>throw std::logic_error\<close>\<close>
  | Assert_failed            \<comment> \<open>\<open>MINGFWQ_ASSERT\<close> of \<open>macro.h\<close>\<close>
  | Null_deref               \<comment> \<open>undefined: a null pointer is dereferenced\<close>
  | Div_by_zero              \<comment> \<open>undefined: integer division by zero\<close>
  | Signed_overflow          \<comment> \<open>undefined: signed arithmetic leaves its range\<close>
  | Bad_access               \<comment> \<open>undefined: an access outside of an object\<close>
  | Bad_shift                \<comment> \<open>undefined: a shift by at least the width of the type\<close>
  | Bad_unlock               \<comment> \<open>undefined: a lock is released by a thread that does not hold it\<close>

type_synonym 'a res = "cxx_error + 'a"

definition bind_res :: "'a res \<Rightarrow> ('a \<Rightarrow> 'b res) \<Rightarrow> 'b res" where
  "bind_res r f = (case r of Inl e \<Rightarrow> Inl e | Inr x \<Rightarrow> f x)"

lemma bind_res_simps [simp]:
  "bind_res (Inl e) f = Inl e"
  "bind_res (Inr x) f = f x"
  by (simp_all add: bind_res_def)

lemma bind_res_Inr_iff:
  "bind_res r f = Inr y \<longleftrightarrow> (\<exists>x. r = Inr x \<and> f x = Inr y)"
  by (cases r) auto

lemma bind_res_Inl_iff:
  "bind_res r f = Inl e \<longleftrightarrow> r = Inl e \<or> (\<exists>x. r = Inr x \<and> f x = Inl e)"
  by (cases r) auto

lemma bind_res_assoc: "bind_res (bind_res r f) g = bind_res r (\<lambda>x. bind_res (f x) g)"
  by (cases r) auto

definition is_ok :: "'a res \<Rightarrow> bool" where
  "is_ok r = (case r of Inl _ \<Rightarrow> False | Inr _ \<Rightarrow> True)"

lemma is_ok_simps [simp]: "\<not> is_ok (Inl e)" "is_ok (Inr x)"
  by (simp_all add: is_ok_def)

lemma is_ok_iff: "is_ok r \<longleftrightarrow> (\<exists>x. r = Inr x)"
  by (cases r) auto

section \<open>Overwriting a block of a list\<close>

text \<open>\<open>overwrite p xs ys\<close> is \<open>memcpy(ys + p, xs, length xs)\<close>.\<close>

definition overwrite :: "nat \<Rightarrow> 'a list \<Rightarrow> 'a list \<Rightarrow> 'a list" where
  "overwrite p xs ys = take p ys @ xs @ drop (p + length xs) ys"

lemma length_overwrite [simp]:
  "p + length xs \<le> length ys \<Longrightarrow> length (overwrite p xs ys) = length ys"
  by (simp add: overwrite_def)

lemma overwrite_Nil [simp]: "overwrite p [] ys = ys"
  by (simp add: overwrite_def)

lemma overwrite_append:
  assumes "p + length xs + length ys \<le> length zs"
  shows "overwrite (p + length xs) ys (overwrite p xs zs) = overwrite p (xs @ ys) zs"
  using assms by (simp add: overwrite_def ac_simps)

lemma overwrite_nth:
  assumes "p + length xs \<le> length ys" "i < length ys"
  shows "overwrite p xs ys ! i = (if p \<le> i \<and> i < p + length xs then xs ! (i - p) else ys ! i)"
  using assms by (auto simp: overwrite_def nth_append)

lemma take_drop_overwrite [simp]:
  "p + length xs \<le> length ys \<Longrightarrow> take (length xs) (drop p (overwrite p xs ys)) = xs"
  by (simp add: overwrite_def)

lemma take_overwrite_before [simp]:
  "n \<le> p \<Longrightarrow> p \<le> length ys \<Longrightarrow> take n (overwrite p xs ys) = take n ys"
  by (simp add: overwrite_def min_def)

lemma take_overwrite:
  assumes "p \<le> n" "n \<le> length ys" "p + length xs \<le> length ys"
  shows "take (max n (p + length xs)) (overwrite p xs ys) = overwrite p xs (take n ys)"
proof (cases "n \<le> p + length xs")
  case True
  with assms show ?thesis by (cases xs) (simp_all add: overwrite_def max_def min_def)
next
  case False
  then have "n - p - length xs = n - (p + length xs)" by simp
  with False assms show ?thesis by (simp add: overwrite_def max_def min_def drop_take)
qed

section \<open>Lists of blocks of one size\<close>

lemma length_concat_blocks:
  "list_all (\<lambda>n. length n = k) ns \<Longrightarrow> length (concat ns) = length ns * k"
  by (induction ns) auto

lemma concat_update_block:
  assumes "list_all (\<lambda>n. length n = k) ns" "i < length ns" "p + length xs \<le> k"
  shows "concat (ns[i := overwrite p xs (ns ! i)]) = overwrite (i * k + p) xs (concat ns)"
  using assms
proof (induction ns arbitrary: i)
  case Nil
  then show ?case by simp
next
  case (Cons n ns)
  show ?case
  proof (cases i)
    case 0
    with Cons.prems show ?thesis by (simp add: overwrite_def)
  next
    case (Suc j)
    with Cons have "concat (ns[j := overwrite p xs (ns ! j)]) = overwrite (j * k + p) xs (concat ns)"
      by simp
    with Suc Cons.prems show ?thesis by (simp add: overwrite_def add.assoc)
  qed
qed

lemma take_drop_block:
  assumes "list_all (\<lambda>n. length n = k) ns" "i < length ns" "p + m \<le> k"
  shows "take m (drop (i * k + p) (concat ns)) = take m (drop p (ns ! i))"
  using assms
proof (induction ns arbitrary: i)
  case (Cons n ns)
  then show ?case by (cases i) (auto simp: add.assoc)
qed simp

section \<open>Words and septets\<close>

lemma unat_of_nat_id: "n < 2 ^ LENGTH('a) \<Longrightarrow> unat (of_nat n :: 'a::len word) = n"
  by (simp add: unat_of_nat)

lemma of_nat_mod128: "(of_nat (n mod 128) :: 'a::len word) = take_bit 7 (of_nat n)"
proof -
  have "take_bit 7 n = n mod 128" by (simp add: take_bit_eq_mod)
  then show ?thesis by (metis of_nat_take_bit)
qed

lemma bit_128: "bit (128 :: 'a::len word) k \<longleftrightarrow> k = 7 \<and> k < LENGTH('a)"
proof -
  have "(128::'a word) = push_bit 7 1" by simp
  then show ?thesis by (simp only: bit_push_bit_iff) (auto simp: bit_1_iff)
qed

lemma continuation_byte: "(of_nat (n mod 128) + 128 :: u8) = of_nat (n mod 128) OR 128"
  unfolding of_nat_mod128 by (rule disjunctive_add) (metis bit_128 bit_take_bit_iff less_irrefl)

lemma septet_split:
  "(of_nat n :: 'a::len word) = of_nat (n mod 128) OR push_bit 7 (of_nat (n div 128))"
proof -
  have "n = n mod 128 + 128 * (n div 128)" by simp
  then have "(of_nat n :: 'a word) = of_nat (n mod 128) + 128 * of_nat (n div 128)"
    by (metis of_nat_add of_nat_mult of_nat_numeral)
  also have "\<dots> = take_bit 7 (of_nat n) + push_bit 7 (of_nat (n div 128))"
    by (simp add: of_nat_mod128 push_bit_eq_mult mult.commute)
  also have "\<dots> = take_bit 7 (of_nat n) OR push_bit 7 (of_nat (n div 128))"
    by (rule disjunctive_add) (auto simp: bit_take_bit_iff bit_push_bit_iff)
  finally show ?thesis by (simp add: of_nat_mod128)
qed

lemma septets:
  "(push_bit i (of_nat n) :: 'a::len word) =
   push_bit i (of_nat (n mod 128)) OR push_bit (i + 7) (of_nat (n div 128))"
  by (subst septet_split) (simp add: add.commute)

lemma unat_low_septet: "unat (v AND 0x7F :: 'a::len word) = unat v mod 128"
proof -
  have "v AND 0x7F = take_bit 7 v" by (simp add: take_bit_eq_mask mask_eq_exp_minus_1)
  then have "unat (v AND 0x7F) = take_bit 7 (unat v)" by (simp only: unsigned_take_bit_eq)
  then show ?thesis by (simp add: take_bit_eq_mod)
qed

lemma unat_drop_septet: "unat (drop_bit 7 v :: 'a::len word) = unat v div 128"
proof -
  have "take_bit LENGTH('a) (unat v) = unat v" by (simp add: take_bit_nat_eq_self_iff)
  then have "unat (drop_bit 7 v) = drop_bit 7 (unat v)"
    by (simp only: unsigned_drop_bit_eq)
  then show ?thesis by (simp add: drop_bit_eq_div)
qed

lemma ucast_unat: "unat (v :: 'a::len word) = n \<Longrightarrow> (ucast v :: 'b::len word) = of_nat n"
  by auto

section \<open>Casts\<close>

lemma sint_u32: "sint (w :: u32) = (if uint w < 2 ^ 31 then uint w else uint w - 2 ^ 32)"
proof -
  have u: "0 \<le> uint w" "uint w < 2 ^ 32" using uint_lt2p [of w] by auto
  have "bit (uint w) 31 \<longleftrightarrow> odd (uint w div 2 ^ 31)" by (simp add: bit_iff_odd)
  moreover have "uint w div 2 ^ 31 = (if uint w < 2 ^ 31 then 0 else 1)"
    using u by (auto simp: zdiv_eq_0_iff int_div_pos_eq [of _ _ 1 "uint w - 2 ^ 31"])
  ultimately show ?thesis using u
    by (simp add: sint_uint signed_take_bit_eq_take_bit_minus take_bit_int_eq_self)
qed

lemma uint_ucast32: "uint (ucast (t :: u64) :: u32) = int (unat t mod 2 ^ 32)"
  by (simp add: unsigned_ucast_eq take_bit_eq_mod zmod_int)

lemma sint_u64: "sint (w :: u64) = (if uint w < 2 ^ 63 then uint w else uint w - 2 ^ 64)"
proof -
  have u: "0 \<le> uint w" "uint w < 2 ^ 64" using uint_lt2p [of w] by auto
  have "bit (uint w) 63 \<longleftrightarrow> odd (uint w div 2 ^ 63)" by (simp add: bit_iff_odd)
  moreover have "uint w div 2 ^ 63 = (if uint w < 2 ^ 63 then 0 else 1)"
    using u by (auto simp: zdiv_eq_0_iff int_div_pos_eq [of _ _ 1 "uint w - 2 ^ 63"])
  ultimately show ?thesis using u
    by (simp add: sint_uint signed_take_bit_eq_take_bit_minus take_bit_int_eq_self)
qed

lemma sint_scast [simp]: "sint (scast (x :: u32) :: u64) = sint x"
  by transfer simp

lemma sint_u64_nat:
  assumes "0 \<le> sint (w :: u64) \<or> uint w < 2 ^ 63"
  shows "sint w = int (unat w)"
proof -
  have u: "uint w < 2 ^ 64" using unsigned_less [of w, where 'a = int] by simp
  have "sint w = uint w"
  proof (cases "uint w < 2 ^ 63")
    case True
    then show ?thesis by (simp only: sint_u64 if_True)
  next
    case False
    then have s: "sint w = uint w - 2 ^ 64" by (simp only: sint_u64 if_False)
    then show ?thesis using assms False u by linarith
  qed
  then show ?thesis by (simp only: uint_nat)
qed

lemma unat_scast:
  assumes "0 \<le> sint (x :: u32)"
  shows "unat (scast x :: u64) = nat (sint x)"
  using sint_u64_nat [of "scast x"] assms unfolding sint_scast by simp

end
