(* ===== verification/Cstring.thy ===== *)
theory Cstring
  imports Prelude
begin

text \<open>
  Text as the components produce and compare it: C strings, which end at the first NUL, numbers in decimal and
  hexadecimal as \<open>operator<<\<close> prints them, and the comparison of \<open>std::string\<close>. Strings are lists of characters.
\<close>

section \<open>C strings\<close>

definition c_str :: "string \<Rightarrow> string" where
  "c_str s = takeWhile (\<lambda>c. c \<noteq> CHR 0x00) s"

lemma c_str_append: "c_str s = s \<Longrightarrow> c_str (s @ t) = s @ c_str t"
  unfolding c_str_def by (simp add: takeWhile_append)

section \<open>Numbers\<close>

definition digit_char :: "nat \<Rightarrow> char" where
  "digit_char d = (if d < 10 then char_of (48 + d) else char_of (87 + d))"

fun to_base :: "nat \<Rightarrow> nat \<Rightarrow> string" where
  "to_base b n =
     (if b < 2 \<or> n < b then [digit_char n] else to_base b (n div b) @ [digit_char (n mod b)])"

declare to_base.simps [simp del]

definition nat_to_string :: "nat \<Rightarrow> string" where
  "nat_to_string n = to_base 10 n"

definition nat_to_hex :: "nat \<Rightarrow> string" where
  "nat_to_hex n = to_base 16 n"

definition int_to_string :: "int \<Rightarrow> string" where
  "int_to_string i = (if i < 0 then ''-'' @ nat_to_string (nat (- i)) else nat_to_string (nat i))"

text \<open>The reading back of digits, as a reference for what the printed text means.\<close>

definition digit_val :: "char \<Rightarrow> nat" where
  "digit_val c = (let n = of_char c in if n < 58 then n - 48 else n - 87)"

definition of_base :: "nat \<Rightarrow> string \<Rightarrow> nat" where
  "of_base b s = foldl (\<lambda>n c. b * n + digit_val c) 0 s"

text \<open>\<open>strtol\<close>, with saturation to the range of \<open>long\<close>, and \<open>atoi\<close>, which truncates its result to \<open>int\<close>.\<close>

definition isspace :: "char \<Rightarrow> bool" where
  "isspace c = (let n = of_char c :: nat in n = 32 \<or> 9 \<le> n \<and> n \<le> 13)"

definition digit_in :: "nat \<Rightarrow> char \<Rightarrow> nat option" where
  "digit_in b c =
     (let n = of_char c;
          d = (if 48 \<le> n \<and> n \<le> 57 then n - 48
               else if 97 \<le> n \<and> n \<le> 122 then n - 87
               else if 65 \<le> n \<and> n \<le> 90 then n - 55
               else b)
      in if d < b then Some d else None)"

fun strtol_digits :: "nat \<Rightarrow> nat \<Rightarrow> string \<Rightarrow> nat" where
  "strtol_digits b acc [] = acc"
| "strtol_digits b acc (c # s) = (case digit_in b c of Some d \<Rightarrow> strtol_digits b (b * acc + d) s | None \<Rightarrow> acc)"

fun strtol_prefix :: "nat \<Rightarrow> string \<Rightarrow> string" where
  "strtol_prefix b (z # x # d # s) =
     (if b = 16 \<and> z = CHR ''0'' \<and> (x = CHR ''x'' \<or> x = CHR ''X'') \<and> digit_in 16 d \<noteq> None then d # s
      else z # x # d # s)"
| "strtol_prefix b s = s"

definition strtol :: "string \<Rightarrow> nat \<Rightarrow> int" where
  "strtol s b =
     (let s = dropWhile isspace s;
          neg = (s \<noteq> [] \<and> hd s = CHR ''-'');
          s = (if s \<noteq> [] \<and> (hd s = CHR ''-'' \<or> hd s = CHR ''+'') then tl s else s);
          n = int (strtol_digits b 0 (strtol_prefix b s))
      in if neg then max (- (2 ^ 63)) (- n) else min (2 ^ 63 - 1) n)"

definition atoi :: "string \<Rightarrow> int" where
  "atoi s = sint (word_of_int (strtol s 10) :: 32 word)"

lemma digit_val_char: "d < 16 \<Longrightarrow> digit_val (digit_char d) = d"
  by (auto simp: digit_val_def digit_char_def Let_def take_bit_eq_mod)

lemma of_base_to_base:
  assumes "2 \<le> b" "b \<le> 16"
  shows "of_base b (to_base b n) = n"
proof (induction n rule: less_induct)
  case (less n)
  show ?case
  proof (cases "n < b")
    case True
    then show ?thesis using assms by (subst to_base.simps) (simp add: of_base_def digit_val_char)
  next
    case False
    then have "n div b < n" using assms(1) by simp
    then have "of_base b (to_base b (n div b)) = n div b" by (rule less)
    moreover have "n mod b < 16" using assms mod_less_divisor [of b n] by linarith
    ultimately show ?thesis using False assms(1)
      by (subst to_base.simps) (simp add: of_base_def digit_val_char)
  qed
qed

lemma to_base_digits: "2 \<le> b \<Longrightarrow> b \<le> 16 \<Longrightarrow> c \<in> set (to_base b n) \<Longrightarrow> c \<in> digit_char ` {..<b}"
proof (induction n rule: less_induct)
  case (less n)
  have "n div b < n" if "b \<le> n" using that less.prems(1) by simp
  then show ?case using less.IH [of "n div b"] less.prems to_base.simps [of b n]
    by (auto split: if_splits)
qed

lemma to_base_nonempty [simp]: "to_base b n \<noteq> []"
  by (subst to_base.simps) simp

text \<open>A character that is no decimal digit separates printed numbers.\<close>

lemma decimal_digits: "c \<in> set (nat_to_string n) \<Longrightarrow> of_char c \<in> {48..<58 :: nat}"
  using to_base_digits [of 10 c n] by (auto simp: nat_to_string_def digit_char_def take_bit_eq_mod)

lemma hex_digits: "c \<in> set (nat_to_hex n) \<Longrightarrow> of_char c \<in> {48..<58 :: nat} \<union> {97..<103}"
  using to_base_digits [of 16 c n] by (auto simp: nat_to_hex_def digit_char_def take_bit_eq_mod)

lemma nat_to_string_nonempty [simp]: "nat_to_string n \<noteq> []"
  by (simp add: nat_to_string_def)

text \<open>\<open>strtol\<close> and \<open>atoi\<close> read a printed number back, up to the first character that is no digit.\<close>

lemma strtol_digits_stop:
  assumes "\<forall>c\<in>set w. of_char c \<in> {48..<58 :: nat}" "r = [] \<or> digit_in 10 (hd r) = None"
  shows "strtol_digits 10 acc (w @ r) = foldl (\<lambda>n c. 10 * n + digit_val c) acc w"
  using assms(1)
proof (induction w arbitrary: acc)
  case Nil
  then show ?case using assms(2) by (cases r) auto
next
  case (Cons c w)
  then have "digit_in 10 c = Some (digit_val c)" by (auto simp: digit_in_def digit_val_def Let_def)
  then show ?case using Cons by simp
qed

lemma strtol_prefix_10: "strtol_prefix 10 s = s"
  by (cases "(10 :: nat, s)" rule: strtol_prefix.cases) simp_all

lemma strtol_nat_to_string:
  assumes "r = [] \<or> digit_in 10 (hd r) = None" "int n < 2 ^ 63"
  shows "strtol (nat_to_string n @ r) 10 = int n"
proof -
  obtain c w where w: "nat_to_string n = c # w" by (cases "nat_to_string n") auto
  have c: "of_char c \<in> {48..<58 :: nat}" using decimal_digits [of c n] w by simp
  then have "\<not> isspace c" "c \<noteq> CHR ''-''" "c \<noteq> CHR ''+''" by (auto simp: isspace_def Let_def)
  moreover have "strtol_digits 10 0 ((c # w) @ r) = n"
    using strtol_digits_stop [of "nat_to_string n" r 0] decimal_digits [of _ n] assms(1) of_base_to_base [of 10 n] w
    by (auto simp: of_base_def nat_to_string_def)
  ultimately show ?thesis using assms(2) by (simp add: strtol_def w Let_def strtol_prefix_10)
qed

lemma sint_small_u32: "0 \<le> i \<Longrightarrow> i < 2 ^ 31 \<Longrightarrow> sint (word_of_int i :: 32 word) = i"
  by (simp add: sint_sbintrunc' signed_take_bit_int_eq_self)

lemma sint_small_u64: "0 \<le> i \<Longrightarrow> i < 2 ^ 63 \<Longrightarrow> sint (word_of_int i :: 64 word) = i"
  by (simp add: sint_sbintrunc' signed_take_bit_int_eq_self)

lemma atoi_nat_to_string:
  assumes "r = [] \<or> digit_in 10 (hd r) = None" "int n < 2 ^ 31"
  shows "atoi (nat_to_string n @ r) = int n"
proof -
  have "strtol (nat_to_string n @ r) 10 = int n" using strtol_nat_to_string [of r n] assms by simp
  then show ?thesis using sint_small_u32 [of "int n"] assms(2) by (simp add: atoi_def)
qed

section \<open>Comparison of strings\<close>

fun string_less :: "string \<Rightarrow> string \<Rightarrow> bool" where
  "string_less xs [] = False"
| "string_less [] (y # ys) = True"
| "string_less (x # xs) (y # ys) =
     ((of_char x :: nat) < of_char y \<or> x = y \<and> string_less xs ys)"

lemma string_less_irrefl: "\<not> string_less a a"
  by (induction a) auto

lemma string_less_trans: "string_less a b \<Longrightarrow> string_less b c \<Longrightarrow> string_less a c"
proof (induction a b arbitrary: c rule: string_less.induct)
  case (2 y ys)
  then show ?case by (cases c) auto
next
  case (3 x xs y ys)
  then show ?case by (cases c) auto
qed simp

lemma string_less_linear: "string_less a b \<or> a = b \<or> string_less b a"
proof (induction a b rule: string_less.induct)
  case (1 xs)
  then show ?case by (cases xs) auto
next
  case (3 x xs y ys)
  have "(of_char x :: nat) = of_char y \<Longrightarrow> x = y" by simp
  with 3 show ?case by (metis linorder_neqE_nat string_less.simps(3))
qed simp

end
