(* ===== verification/Endian.thy ===== *)
theory Endian
  imports Prelude
begin

text \<open>
  Byte order conversion (\<open>mingfwq/endian.h\<close>). An integer of \<open>n\<close> bytes is a \<open>word\<close>; its object
  representation on a host of byte order \<open>bo\<close> is \<open>mem_rep bo w\<close>, which is what \<open>memcpy\<close> from its
  address yields. The host order \<open>MINGFWQ_BYTE_ORDER\<close> is fixed by the preprocessor: it is a
  parameter here, so every statement covers both kinds of machine.
\<close>

unbundle bit_operations_syntax

datatype endian = LITTLE_ENDIAN | BIG_ENDIAN

section \<open>Integers as bytes\<close>

definition le_bytes :: "'a::len word \<Rightarrow> u8 list" where
  "le_bytes w = map (\<lambda>i. ucast (drop_bit (8 * i) w)) [0..<LENGTH('a) div 8]"

primrec of_le :: "u8 list \<Rightarrow> 'a::len word" where
  "of_le [] = 0"
| "of_le (b # bs) = ucast b OR push_bit 8 (of_le bs)"

definition mem_rep :: "endian \<Rightarrow> 'a::len word \<Rightarrow> u8 list" where
  "mem_rep bo w = (case bo of LITTLE_ENDIAN \<Rightarrow> le_bytes w | BIG_ENDIAN \<Rightarrow> rev (le_bytes w))"

definition of_mem :: "endian \<Rightarrow> u8 list \<Rightarrow> 'a::len word" where
  "of_mem bo bs = of_le (case bo of LITTLE_ENDIAN \<Rightarrow> bs | BIG_ENDIAN \<Rightarrow> rev bs)"

section \<open>The conversions of the header\<close>

text \<open>\<open>bswap_16\<close>, \<open>bswap_32\<close> and \<open>bswap_64\<close> of \<open>byteswap.h\<close> reverse the bytes of their argument.\<close>

definition byteswap :: "'a::len word \<Rightarrow> 'a word" where
  "byteswap w = of_le (rev (le_bytes w))"

definition byteswapOnLittleEndian :: "endian \<Rightarrow> 'a::len word \<Rightarrow> 'a word" where
  "byteswapOnLittleEndian bo t = (case bo of BIG_ENDIAN \<Rightarrow> t | LITTLE_ENDIAN \<Rightarrow> byteswap t)"

definition byteswapOnBigEndian :: "endian \<Rightarrow> 'a::len word \<Rightarrow> 'a word" where
  "byteswapOnBigEndian bo t = (case bo of BIG_ENDIAN \<Rightarrow> byteswap t | LITTLE_ENDIAN \<Rightarrow> t)"

section \<open>Lemmas\<close>

lemma length_le_bytes [simp]: "length (le_bytes (w :: 'a::len word)) = LENGTH('a) div 8"
  by (simp add: le_bytes_def)

lemma length_mem_rep [simp]: "length (mem_rep bo (w :: 'a::len word)) = LENGTH('a) div 8"
  by (simp add: mem_rep_def split: endian.split)

lemma bit_of_le:
  "bit (of_le bs :: 'a::len word) i \<longleftrightarrow>
     i < LENGTH('a) \<and> i < 8 * length bs \<and> bit (bs ! (i div 8)) (i mod 8)"
proof (induction bs arbitrary: i)
  case Nil
  then show ?case by simp
next
  case (Cons b bs)
  show ?case
  proof (cases "i < 8")
    case True
    then show ?thesis
      by (auto simp: bit_or_iff bit_push_bit_iff bit_unsigned_iff dest: bit_imp_le_length)
  next
    case False
    then have "i div 8 = Suc ((i - 8) div 8)" "i mod 8 = (i - 8) mod 8"
      by (simp_all add: le_div_geq le_mod_geq)
    moreover have "\<not> bit b i" using False bit_imp_le_length by force
    ultimately show ?thesis using False Cons.IH [of "i - 8"]
      by (auto simp: bit_or_iff bit_push_bit_iff bit_unsigned_iff)
  qed
qed

lemma bit_le_bytes:
  assumes "j < LENGTH('a) div 8" "k < 8"
  shows "bit (le_bytes (w :: 'a::len word) ! j) k \<longleftrightarrow> bit w (8 * j + k)"
  using assms by (auto simp: le_bytes_def bit_unsigned_iff bit_drop_bit_eq)

lemma of_le_le_bytes:
  assumes "8 dvd LENGTH('a)"
  shows "of_le (le_bytes w) = (w :: 'a::len word)"
proof (rule bit_word_eqI)
  fix i assume i: "i < LENGTH('a)"
  obtain n where n: "LENGTH('a) = 8 * n" using assms ..
  have "i div 8 < LENGTH('a) div 8" using i n by (simp add: less_mult_imp_div_less mult.commute)
  then show "bit (of_le (le_bytes w) :: 'a word) i \<longleftrightarrow> bit w i"
    using i n by (simp add: bit_of_le bit_le_bytes)
qed

lemma le_bytes_of_le:
  assumes "8 * length bs = LENGTH('a)"
  shows "le_bytes (of_le bs :: 'a::len word) = bs"
proof (rule nth_equalityI)
  have n: "LENGTH('a) div 8 = length bs" using assms by simp
  then show "length (le_bytes (of_le bs :: 'a word)) = length bs" by simp
  fix j assume "j < length (le_bytes (of_le bs :: 'a word))"
  then have j: "j < length bs" using n by simp
  show "le_bytes (of_le bs :: 'a word) ! j = bs ! j"
  proof (rule bit_word_eqI)
    fix k assume "k < LENGTH(8)"
    then have k: "k < 8" by simp
    have "8 * j + k < 8 * length bs" using j k by simp
    moreover have "(8 * j + k) div 8 = j" "(8 * j + k) mod 8 = k" using k by simp_all
    ultimately show "bit (le_bytes (of_le bs :: 'a word) ! j) k \<longleftrightarrow> bit (bs ! j) k"
      using j k n assms by (simp add: bit_le_bytes bit_of_le)
  qed
qed

lemma of_mem_mem_rep [simp]:
  "8 dvd LENGTH('a) \<Longrightarrow> of_mem bo (mem_rep bo w) = (w :: 'a::len word)"
  by (cases bo) (simp_all add: of_mem_def mem_rep_def of_le_le_bytes)

lemma mem_rep_of_mem:
  "8 * length bs = LENGTH('a) \<Longrightarrow> mem_rep bo (of_mem bo bs :: 'a::len word) = bs"
  by (cases bo) (simp_all add: of_mem_def mem_rep_def le_bytes_of_le)

lemma le_bytes_byteswap:
  "8 dvd LENGTH('a) \<Longrightarrow> le_bytes (byteswap w) = rev (le_bytes (w :: 'a::len word))"
  by (simp add: byteswap_def le_bytes_of_le)

lemma byteswap_byteswap [simp]:
  "8 dvd LENGTH('a) \<Longrightarrow> byteswap (byteswap w) = (w :: 'a::len word)"
  by (simp add: byteswap_def [of "byteswap w"] le_bytes_byteswap of_le_le_bytes)

text \<open>Swapping a value before it is stored stores it in the other byte order.\<close>

lemma mem_rep_byteswap:
  "8 dvd LENGTH('a) \<Longrightarrow> mem_rep bo (byteswap w) = rev (mem_rep bo (w :: 'a::len word))"
  by (cases bo) (simp_all add: mem_rep_def le_bytes_byteswap)

text \<open>
  \<open>byteswapOnLittleEndian\<close>, applied to a 16-, 32- or 64-bit value before it is stored into a
  socket address, stores it in network order (most significant byte first) on a host of either
  byte order, and applied again after loading it gives the value back.
\<close>

theorem byteswapOnLittleEndian_network_order:
  fixes v16 :: u16 and v32 :: u32 and v64 :: u64
  shows "mem_rep bo (byteswapOnLittleEndian bo v16) = mem_rep BIG_ENDIAN v16 \<and>
    mem_rep bo (byteswapOnLittleEndian bo v32) = mem_rep BIG_ENDIAN v32 \<and>
    mem_rep bo (byteswapOnLittleEndian bo v64) = mem_rep BIG_ENDIAN v64 \<and>
    byteswapOnLittleEndian bo (byteswapOnLittleEndian bo v16) = v16 \<and>
    byteswapOnLittleEndian bo (byteswapOnLittleEndian bo v32) = v32 \<and>
    byteswapOnLittleEndian bo (byteswapOnLittleEndian bo v64) = v64"
  by (cases bo) (simp_all add: byteswapOnLittleEndian_def mem_rep_def le_bytes_byteswap)

end
