(* ===== verification/Byte_Store.thy ===== *)
theory Byte_Store
  imports Prelude
begin

text \<open>
  The interface that the typed reads and writes use: a store of bytes with a cursor. \<open>put\<close> replaces
  or extends the bytes at the cursor, \<open>get\<close> takes the next bytes, \<open>seek\<close> moves the cursor; each
  advances the cursor accordingly and leaves the mode (the byte order of the array) alone. The
  provider is \<open>ByteArray\<close>; the lemmas of the locale carry every round trip of the codecs.
\<close>

locale byte_store =
  fixes put :: "'s \<Rightarrow> u8 list \<Rightarrow> 's res"
    and get :: "'s \<Rightarrow> nat \<Rightarrow> (u8 list \<times> 's) res"
    and seek :: "'s \<Rightarrow> nat \<Rightarrow> 's res"
    and pos :: "'s \<Rightarrow> nat"
    and bytes :: "'s \<Rightarrow> u8 list"
    and mode :: "'s \<Rightarrow> 'm"
    and inv :: "'s \<Rightarrow> bool"
  assumes put_law: "inv s \<Longrightarrow> put s bs = Inr s' \<Longrightarrow>
      inv s' \<and> bytes s' = overwrite (pos s) bs (bytes s) \<and> pos s' = pos s + length bs \<and> mode s' = mode s"
    and get_law: "inv s \<Longrightarrow> 0 < n \<Longrightarrow> pos s + n \<le> length (bytes s) \<Longrightarrow>
      \<exists>s'. get s n = Inr (take n (drop (pos s) (bytes s)), s') \<and>
        inv s' \<and> bytes s' = bytes s \<and> pos s' = pos s + n \<and> mode s' = mode s"
    and seek_law: "inv s \<Longrightarrow> p \<le> length (bytes s) \<Longrightarrow>
      \<exists>s'. seek s p = Inr s' \<and> inv s' \<and> bytes s' = bytes s \<and> pos s' = p \<and> mode s' = mode s"
    and pos_law: "inv s \<Longrightarrow> pos s \<le> length (bytes s)"
begin

text \<open>The bytes \<open>bs\<close> are the next ones to be read.\<close>

definition ahead :: "'s \<Rightarrow> u8 list \<Rightarrow> bool" where
  "ahead s bs \<longleftrightarrow> inv s \<and> (\<exists>rest. drop (pos s) (bytes s) = bs @ rest)"

lemma ahead_inv: "ahead s bs \<Longrightarrow> inv s"
  by (simp add: ahead_def)

lemma overwrite_ahead:
  "p \<le> length ys \<Longrightarrow> drop p (overwrite p xs ys) = xs @ drop (p + length xs) ys"
  by (simp add: overwrite_def)

lemma put_seek_ahead:
  assumes "inv s" "put s bs = Inr s1"
  shows "\<exists>s2. seek s1 (pos s) = Inr s2 \<and> ahead s2 bs \<and> pos s2 = pos s \<and> mode s2 = mode s"
proof -
  have s1: "inv s1" "bytes s1 = overwrite (pos s) bs (bytes s)" "mode s1 = mode s"
    using put_law [OF assms] by auto
  have "pos s \<le> length (bytes s1)" using pos_law [OF assms(1)] by (simp add: s1 overwrite_def)
  then obtain s2 where "seek s1 (pos s) = Inr s2" "inv s2" "bytes s2 = bytes s1"
      "pos s2 = pos s" "mode s2 = mode s1"
    using seek_law [OF s1(1)] by blast
  then show ?thesis using s1 pos_law [OF assms(1)] by (auto simp: ahead_def overwrite_ahead)
qed

lemma put_put_seek_ahead:
  assumes "inv s" "put s xs = Inr s1" "put s1 ys = Inr s2"
  shows "\<exists>s3. seek s2 (pos s) = Inr s3 \<and> ahead s3 (xs @ ys) \<and> pos s3 = pos s \<and> mode s3 = mode s"
proof -
  have s1: "inv s1" "bytes s1 = overwrite (pos s) xs (bytes s)" "pos s1 = pos s + length xs"
      "mode s1 = mode s"
    using put_law [OF assms(1,2)] by auto
  have s2: "inv s2" "bytes s2 = overwrite (pos s1) ys (bytes s1)" "mode s2 = mode s1"
    using put_law [OF s1(1) assms(3)] by auto
  have le: "pos s \<le> length (bytes s)" using assms(1) by (rule pos_law)
  have b2: "drop (pos s) (bytes s2) = xs @ ys @ drop (pos s1 + length ys) (bytes s1)"
    using le by (simp add: s2 s1 overwrite_def)
  have "pos s \<le> length (bytes s2)" using le by (simp add: s2 s1 overwrite_def)
  then obtain s3 where "seek s2 (pos s) = Inr s3" "inv s3" "bytes s3 = bytes s2"
      "pos s3 = pos s" "mode s3 = mode s2"
    using seek_law [OF s2(1)] by blast
  then show ?thesis using b2 s1 s2 by (auto simp: ahead_def)
qed

lemma get_ahead:
  assumes "ahead s (xs @ ys)" "xs \<noteq> []"
  shows "\<exists>s'. get s (length xs) = Inr (xs, s') \<and> ahead s' ys \<and> bytes s' = bytes s \<and>
     pos s' = pos s + length xs \<and> mode s' = mode s"
proof -
  from assms(1) obtain rest where rest: "inv s" "drop (pos s) (bytes s) = xs @ ys @ rest"
    by (auto simp: ahead_def)
  have "length (drop (pos s) (bytes s)) \<ge> length xs" by (simp add: rest)
  then have "pos s + length xs \<le> length (bytes s)" using assms(2) by (cases xs) auto
  then obtain s' where s': "get s (length xs) = Inr (take (length xs) (drop (pos s) (bytes s)), s')"
      "inv s'" "bytes s' = bytes s" "pos s' = pos s + length xs" "mode s' = mode s"
    using get_law [OF rest(1), of "length xs"] assms(2) by auto
  have "drop (pos s') (bytes s') = drop (length xs) (drop (pos s) (bytes s))"
    by (simp add: s' add.commute)
  then show ?thesis using s' rest by (auto simp: ahead_def)
qed

end

end
