(* ===== verification/ByteArray.thy ===== *)
theory ByteArray
  imports Endian Byte_Store
begin

text \<open>
  The block list under \<open>ByteArray\<close> (\<open>mingfwq/bytearray.h\<close>, \<open>mingfwq/bytearray.cpp\<close>): the chain of
  nodes, the cursor, growth, raw reads and writes, positioning, the scatter/gather vectors and the
  file transfer.

  The chain reached from \<open>m_root\<close> is the list \<open>m_nodes\<close> (the root is its first element), a node is
  the list of its bytes, and \<open>m_cur\<close> is the index of the node it points to, \<open>None\<close> for \<open>nullptr\<close>.
  Memory from \<open>new char[s]\<close> is uninitialised: \<open>heap_fill k j\<close> is the byte that the \<open>k\<close>-th allocated
  node holds at offset \<open>j\<close> before it is written, an arbitrary function that no theorem constrains;
  \<open>allocs\<close> counts the allocations. Both fields are specification-only.

  \<open>size_t\<close> values are \<open>nat\<close>: they count bytes that lie in memory, so sums do not wrap. The one
  subtraction of the code that can go below zero (\<open>len -= ncap\<close> in \<open>getReadBuffers\<close>) is written
  with its wrap-around.
\<close>

section \<open>State\<close>

type_synonym node = "u8 list"

record ByteArray =
  m_baseSize :: nat
  m_position :: nat
  m_capacity :: nat
  m_size :: nat
  m_endian :: endian
  m_nodes :: "node list"
  m_cur :: "nat option"
  heap_fill :: "nat \<Rightarrow> nat \<Rightarrow> u8"
  allocs :: nat

definition new_Node :: "(nat \<Rightarrow> nat \<Rightarrow> u8) \<Rightarrow> nat \<Rightarrow> nat \<Rightarrow> node" where
  "new_Node fill k s = map (fill k) [0..<s]"

text \<open>\<open>next\<close> of the node with index \<open>i\<close>.\<close>

definition next_node :: "node list \<Rightarrow> nat \<Rightarrow> nat option" where
  "next_node ns i = (if Suc i < length ns then Some (Suc i) else None)"

definition ByteArray_new :: "(nat \<Rightarrow> nat \<Rightarrow> u8) \<Rightarrow> nat \<Rightarrow> ByteArray" where
  "ByteArray_new fill base_size =
     \<lparr>m_baseSize = base_size, m_position = 0, m_capacity = base_size, m_size = 0,
      m_endian = BIG_ENDIAN, m_nodes = [new_Node fill 0 base_size], m_cur = Some 0,
      heap_fill = fill, allocs = 1\<rparr>"

definition getReadSize :: "ByteArray \<Rightarrow> nat" where
  "getReadSize b = m_size b - m_position b"

definition getCapacity :: "ByteArray \<Rightarrow> nat" where
  "getCapacity b = m_capacity b - m_position b"

definition isLittleEndian :: "ByteArray \<Rightarrow> bool" where
  "isLittleEndian b \<longleftrightarrow> m_endian b = LITTLE_ENDIAN"

definition setIsLittleEndian :: "ByteArray \<Rightarrow> bool \<Rightarrow> ByteArray" where
  "setIsLittleEndian b val = b\<lparr>m_endian := (if val then LITTLE_ENDIAN else BIG_ENDIAN)\<rparr>"

section \<open>Growth, clearing, positioning\<close>

definition addCapacity :: "ByteArray \<Rightarrow> nat \<Rightarrow> ByteArray res" where
  "addCapacity b sz =
     (if sz = 0 then Inr b
      else let old_cap = getCapacity b in
        if old_cap > sz then Inr b
        else if m_baseSize b = 0 then Inl Div_by_zero
        else
          let rest = sz - old_cap;
              count = rest div m_baseSize b + (if rest mod m_baseSize b > old_cap then 1 else 0);
              fresh = map (\<lambda>i. new_Node (heap_fill b) (allocs b + i) (m_baseSize b)) [0..<count];
              first = (if count = 0 then None else Some (length (m_nodes b)))
          in Inr (b\<lparr>m_nodes := m_nodes b @ fresh,
                    m_capacity := m_capacity b + count * m_baseSize b,
                    allocs := allocs b + count,
                    m_cur := (if old_cap = 0 then first else m_cur b)\<rparr>))"

definition ba_clear :: "ByteArray \<Rightarrow> ByteArray" where
  "ba_clear b = b\<lparr>m_position := 0, m_size := 0, m_capacity := m_baseSize b,
               m_nodes := take 1 (m_nodes b), m_cur := Some 0\<rparr>"

function setPosition_walk :: "node list \<Rightarrow> nat \<Rightarrow> nat \<Rightarrow> (nat option) res" where
  "setPosition_walk ns cur v =
     (if v > length (ns ! cur) then
        (case next_node ns cur of
           None \<Rightarrow> Inl Null_deref
         | Some cur' \<Rightarrow> setPosition_walk ns cur' (v - length (ns ! cur)))
      else Inr (if v = length (ns ! cur) then next_node ns cur else Some cur))"
  by pat_completeness auto
termination
  by (relation "measure (\<lambda>(ns, cur, v). length ns - cur)") (auto simp: next_node_def split: if_splits)

definition setPosition :: "ByteArray \<Rightarrow> nat \<Rightarrow> ByteArray res" where
  "setPosition b v =
     (if v > m_capacity b then Inl (Out_of_range ''set_position out of range'')
      else
        let b1 = b\<lparr>m_position := v, m_size := (if v > m_size b then v else m_size b)\<rparr>
        in bind_res (setPosition_walk (m_nodes b) 0 v) (\<lambda>cur. Inr (b1\<lparr>m_cur := cur\<rparr>)))"

section \<open>Raw write and read\<close>

function write_loop ::
  "node list \<Rightarrow> nat \<Rightarrow> nat \<Rightarrow> nat \<Rightarrow> nat \<Rightarrow> u8 list \<Rightarrow> (node list \<times> nat option \<times> nat) res" where
  "write_loop ns cur npos ncap pos buf =
     (if buf = [] then Inr (ns, Some cur, pos)
      else if ncap \<ge> length buf then
        Inr (ns[cur := overwrite npos buf (ns ! cur)],
             (if length (ns ! cur) = npos + length buf then next_node ns cur else Some cur),
             pos + length buf)
      else
        (case next_node ns cur of
           None \<Rightarrow> Inl Null_deref
         | Some cur' \<Rightarrow>
             write_loop (ns[cur := overwrite npos (take ncap buf) (ns ! cur)]) cur' 0
               (length (ns ! cur')) (pos + ncap) (drop ncap buf)))"
  by pat_completeness auto
termination
  by (relation "measure (\<lambda>(ns, cur, npos, ncap, pos, buf). length ns - cur)")
    (auto simp: next_node_def split: if_splits)

definition ba_write :: "ByteArray \<Rightarrow> u8 list \<Rightarrow> ByteArray res" where
  "ba_write b buf =
     (if length buf = 0 then Inr b
      else bind_res (addCapacity b (length buf)) (\<lambda>b1.
        if m_baseSize b1 = 0 then Inl Div_by_zero
        else
          let npos = m_position b1 mod m_baseSize b1 in
          (case m_cur b1 of
             None \<Rightarrow> Inl Null_deref
           | Some c \<Rightarrow>
               bind_res (write_loop (m_nodes b1) c npos (length (m_nodes b1 ! c) - npos)
                           (m_position b1) buf)
                 (\<lambda>(ns, cur, pos).
                    Inr (b1\<lparr>m_nodes := ns, m_cur := cur, m_position := pos,
                            m_size := (if pos > m_size b1 then pos else m_size b1)\<rparr>)))))"

function read_loop ::
  "node list \<Rightarrow> nat \<Rightarrow> nat \<Rightarrow> nat \<Rightarrow> nat \<Rightarrow> nat \<Rightarrow> (u8 list \<times> nat option \<times> nat) res" where
  "read_loop ns cur npos ncap pos sz =
     (if sz = 0 then Inr ([], Some cur, pos)
      else if ncap \<ge> sz then
        Inr (take sz (drop npos (ns ! cur)),
             (if length (ns ! cur) = npos + sz then next_node ns cur else Some cur),
             pos + sz)
      else
        (case next_node ns cur of
           None \<Rightarrow> Inl Null_deref
         | Some cur' \<Rightarrow>
             bind_res (read_loop ns cur' 0 (length (ns ! cur')) (pos + ncap) (sz - ncap))
               (\<lambda>(bs, c, p). Inr (take ncap (drop npos (ns ! cur)) @ bs, c, p))))"
  by pat_completeness auto
termination
  by (relation "measure (\<lambda>(ns, cur, npos, ncap, pos, sz). length ns - cur)")
    (auto simp: next_node_def split: if_splits)

definition ba_read :: "ByteArray \<Rightarrow> nat \<Rightarrow> (u8 list \<times> ByteArray) res" where
  "ba_read b sz =
     (if sz > getReadSize b then Inl (Out_of_range ''not enough len'')
      else if m_baseSize b = 0 then Inl Div_by_zero
      else
        let npos = m_position b mod m_baseSize b in
        (case m_cur b of
           None \<Rightarrow> Inl Null_deref
         | Some c \<Rightarrow>
             bind_res (read_loop (m_nodes b) c npos (length (m_nodes b ! c) - npos)
                         (m_position b) sz)
               (\<lambda>(bs, cur, pos). Inr (bs, b\<lparr>m_cur := cur, m_position := pos\<rparr>))))"

text \<open>The \<open>const\<close> overload with an explicit position walks from \<open>m_cur\<close>, whatever the position.\<close>

definition ba_read_at :: "ByteArray \<Rightarrow> nat \<Rightarrow> nat \<Rightarrow> (u8 list) res" where
  "ba_read_at b sz position =
     (if sz > getReadSize b then Inl (Out_of_range ''not enough len'')
      else if m_baseSize b = 0 then Inl Div_by_zero
      else
        let npos = position mod m_baseSize b in
        (case m_cur b of
           None \<Rightarrow> Inl Null_deref
         | Some c \<Rightarrow>
             bind_res (read_loop (m_nodes b) c npos (length (m_nodes b ! c) - npos) position sz)
               (\<lambda>(bs, cur, pos). Inr bs)))"

definition ba_toString :: "ByteArray \<Rightarrow> (u8 list) res" where
  "ba_toString b =
     (if getReadSize b = 0 then Inr [] else ba_read_at b (getReadSize b) (m_position b))"

declare setPosition_walk.simps [simp del] write_loop.simps [simp del] read_loop.simps [simp del]


section \<open>Invariant and abstraction\<close>

text \<open>
  Every node has \<open>m_baseSize\<close> bytes, the capacity is their total, the position lies within the
  data and the data within the capacity, and \<open>m_cur\<close> points to the node that holds the position,
  or is null when the position is at the very end of the chain.
\<close>

definition cur_of :: "nat \<Rightarrow> node list \<Rightarrow> nat \<Rightarrow> nat option" where
  "cur_of k ns p = (if p div k < length ns then Some (p div k) else None)"

definition blocks :: "nat \<Rightarrow> node list \<Rightarrow> bool" where
  "blocks k ns \<longleftrightarrow> k > 0 \<and> ns \<noteq> [] \<and> list_all (\<lambda>n. length n = k) ns"

definition ba_inv :: "ByteArray \<Rightarrow> bool" where
  "ba_inv b \<longleftrightarrow>
     blocks (m_baseSize b) (m_nodes b) \<and>
     m_capacity b = length (m_nodes b) * m_baseSize b \<and>
     m_position b \<le> m_size b \<and> m_size b \<le> m_capacity b \<and>
     m_cur b = cur_of (m_baseSize b) (m_nodes b) (m_position b)"

text \<open>The data of the array: what the nodes hold up to \<open>m_size\<close>.\<close>

definition contents :: "ByteArray \<Rightarrow> u8 list" where
  "contents b = take (m_size b) (concat (m_nodes b))"

text \<open>What is still to be read.\<close>

definition unread :: "ByteArray \<Rightarrow> u8 list" where
  "unread b = drop (m_position b) (contents b)"

lemma blocks_node [simp]: "blocks k ns \<Longrightarrow> i < length ns \<Longrightarrow> length (ns ! i) = k"
  by (simp add: blocks_def list_all_length)

lemma blocks_pos: "blocks k ns \<Longrightarrow> 0 < k"
  by (simp add: blocks_def)

lemma blocks_length_concat [simp]: "blocks k ns \<Longrightarrow> length (concat ns) = length ns * k"
  by (simp add: blocks_def length_concat_blocks)

lemma blocks_update [simp]:
  "blocks k ns \<Longrightarrow> i < length ns \<Longrightarrow> length n = k \<Longrightarrow> blocks k (ns[i := n])"
  using set_update_subset_insert [of ns i n] by (auto simp: blocks_def list_all_iff)

lemma blocks_overwrite:
  assumes "blocks k ns" "i < length ns" "p + length xs \<le> k"
  shows "concat (ns[i := overwrite p xs (ns ! i)]) = overwrite (i * k + p) xs (concat ns)"
  using assms by (intro concat_update_block) (auto simp: blocks_def)

lemma blocks_slice:
  assumes "blocks k ns" "i < length ns" "p + m \<le> k"
  shows "take m (drop p (ns ! i)) = take m (drop (i * k + p) (concat ns))"
  using assms by (intro take_drop_block [symmetric]) (auto simp: blocks_def)

lemma cur_of_within: "p < k \<Longrightarrow> i < length ns \<Longrightarrow> cur_of k ns (i * k + p) = Some i"
  by (simp add: cur_of_def)

lemma cur_of_boundary:
  assumes "0 < k" shows "cur_of k ns (i * k + k) = next_node ns i"
proof -
  have "(i * k + k) div k = Suc i" using assms by simp
  then show ?thesis by (simp add: cur_of_def next_node_def)
qed

lemma cur_of_update [simp]: "cur_of k (ns[i := n]) p = cur_of k ns p"
  by (simp add: cur_of_def)

lemma next_node_update [simp]: "next_node (ns[i := n]) j = next_node ns j"
  by (simp add: next_node_def)

lemma next_node_Some: "next_node ns i = Some j \<longleftrightarrow> j = Suc i \<and> Suc i < length ns"
  by (auto simp: next_node_def)

lemma next_node_None: "next_node ns i = None \<longleftrightarrow> \<not> Suc i < length ns"
  by (auto simp: next_node_def)

text \<open>
  The position of a cursor \<open>(i, p)\<close> is \<open>i * k + p\<close>. What the loop does within the node it is in.
\<close>

lemma write_loop_within:
  assumes "blocks k ns" "i < length ns" "p < k" "p + length buf \<le> k" "buf \<noteq> []"
  shows "write_loop ns i p (k - p) pos buf =
     Inr (ns[i := overwrite p buf (ns ! i)], cur_of k ns (i * k + p + length buf), pos + length buf)"
proof (cases "p + length buf = k")
  case True
  then have "k - p = length buf" "cur_of k ns (i * k + p + length buf) = next_node ns i"
    using cur_of_boundary [OF blocks_pos [OF assms(1)]] by (auto simp: add.assoc)
  with True assms show ?thesis by (simp add: write_loop.simps [of ns])
next
  case False
  with assms have "cur_of k ns (i * k + (p + length buf)) = Some i" by (intro cur_of_within) auto
  moreover have "length buf \<le> k - p" using assms by simp
  ultimately show ?thesis using False assms by (simp add: write_loop.simps [of ns] add.assoc)
qed

lemma write_loop_spec:
  assumes "blocks k ns" "i < length ns" "p < k" "buf \<noteq> []"
    and "i * k + p + length buf \<le> length ns * k"
  shows "\<exists>ns'. write_loop ns i p (k - p) pos buf =
            Inr (ns', cur_of k ns (i * k + p + length buf), pos + length buf) \<and>
          blocks k ns' \<and> length ns' = length ns \<and>
          concat ns' = overwrite (i * k + p) buf (concat ns)"
  using assms
proof (induction "length ns - i" arbitrary: ns i p pos buf rule: less_induct)
  case less
  show ?case
  proof (cases "p + length buf \<le> k")
    case True
    with less.prems show ?thesis
      by (simp add: write_loop_within blocks_overwrite)
  next
    case False
    let ?c = "k - p"
    let ?ns = "ns[i := overwrite p (take ?c buf) (ns ! i)]"
    have eq: "Suc i * k + length (drop ?c buf) = i * k + p + length buf"
      using False less.prems by simp
    have "Suc i * k < length ns * k"
      using eq less.prems False by (cases "drop ?c buf") auto
    then have nxt: "Suc i < length ns" by (metis mult_less_cancel2)
    have bl: "blocks k ?ns" using less.prems by simp
    have "\<exists>ns'. write_loop ?ns (Suc i) 0 (k - 0) (pos + ?c) (drop ?c buf) =
            Inr (ns', cur_of k ?ns (Suc i * k + 0 + length (drop ?c buf)),
                 pos + ?c + length (drop ?c buf)) \<and>
          blocks k ns' \<and> length ns' = length ?ns \<and>
          concat ns' = overwrite (Suc i * k + 0) (drop ?c buf) (concat ?ns)"
      using bl nxt eq less.prems False by (intro less.hyps) (auto simp: blocks_pos)
    then obtain ns' where ns': "write_loop ?ns (Suc i) 0 k (pos + ?c) (drop ?c buf) =
            Inr (ns', cur_of k ns (i * k + p + length buf), pos + length buf)"
          "blocks k ns'" "length ns' = length ns"
          "concat ns' = overwrite (Suc i * k) (drop ?c buf) (concat ?ns)"
      using eq False less.prems by (auto simp: ac_simps)
    have "overwrite (Suc i * k) (drop ?c buf) (concat ?ns) =
          overwrite (i * k + p) (take ?c buf @ drop ?c buf) (concat ns)"
      using overwrite_append [of "i * k + p" "take ?c buf" "drop ?c buf" "concat ns"] less.prems False
      by (simp add: blocks_overwrite add.assoc add.commute [of k] del: append_take_drop_id)
    moreover have "\<not> length buf \<le> ?c" using False less.prems by linarith
    ultimately show ?thesis using ns' less.prems nxt
      by (simp add: write_loop.simps [of ns] next_node_def)
  qed
qed

text \<open>Past the end of the chain the loop dereferences the null \<open>next\<close> pointer.\<close>

lemma write_loop_overrun:
  assumes "blocks k ns" "i < length ns" "p < k" "length ns * k < i * k + p + length buf"
  shows "write_loop ns i p (k - p) pos buf = Inl Null_deref"
  using assms
proof (induction "length ns - i" arbitrary: ns i p pos buf rule: less_induct)
  case less
  have "i * k + k \<le> length ns * k"
    using less.prems(2) by (metis Suc_leI add.commute mult_Suc mult_le_mono1)
  with less.prems have big: "k < p + length buf" by simp
  show ?case
  proof (cases "next_node ns i")
    case None
    with big less.prems show ?thesis by (auto simp: write_loop.simps [of ns])
  next
    case (Some j)
    then have j: "j = Suc i" "Suc i < length ns" by (simp_all add: next_node_Some)
    let ?ns = "ns[i := overwrite p (take (k - p) buf) (ns ! i)]"
    have "write_loop ?ns (Suc i) 0 (k - 0) (pos + (k - p)) (drop (k - p) buf) = Inl Null_deref"
      using big j less.prems by (intro less.hyps) (auto simp: blocks_pos)
    with big j Some less.prems show ?thesis
      by (auto simp: write_loop.simps [of ns])
  qed
qed

lemma read_loop_spec:
  assumes "blocks k ns" "i < length ns" "p < k" "i * k + p + sz \<le> length ns * k"
  shows "read_loop ns i p (k - p) pos sz =
     Inr (take sz (drop (i * k + p) (concat ns)), cur_of k ns (i * k + p + sz), pos + sz)"
  using assms
proof (induction "length ns - i" arbitrary: i p pos sz rule: less_induct)
  case less
  show ?case
  proof (cases "p + sz \<le> k")
    case True
    have "sz \<le> k - p" using True by simp
    moreover have "cur_of k ns (i * k + p + sz) = (if p + sz = k then next_node ns i else Some i)"
      using cur_of_boundary [of k ns i] cur_of_within [of "p + sz" k i ns] less.prems True
      by (auto simp: add.assoc blocks_pos)
    ultimately show ?thesis
      using less.prems True blocks_slice [of k ns i p sz] by (auto simp: read_loop.simps [of ns] cur_of_within)
  next
    case False
    let ?c = "k - p"
    have eq: "Suc i * k + (sz - ?c) = i * k + p + sz" using False less.prems by simp
    have "Suc i * k < length ns * k" using eq less.prems False by simp
    then have nxt: "Suc i < length ns" by (metis mult_less_cancel2)
    have "read_loop ns (Suc i) 0 (k - 0) (pos + ?c) (sz - ?c) =
        Inr (take (sz - ?c) (drop (Suc i * k + 0) (concat ns)),
             cur_of k ns (Suc i * k + 0 + (sz - ?c)), pos + ?c + (sz - ?c))"
      using nxt eq less.prems by (intro less.hyps) auto
    then have IH: "read_loop ns (Suc i) 0 k (pos + ?c) (sz - ?c) =
        Inr (take (sz - ?c) (drop (Suc i * k) (concat ns)), cur_of k ns (i * k + p + sz), pos + sz)"
      using eq False less.prems by (simp add: ac_simps)
    have "take ?c (drop p (ns ! i)) @ take (sz - ?c) (drop (Suc i * k) (concat ns)) =
          take sz (drop (i * k + p) (concat ns))"
      using less.prems blocks_slice [of k ns i p ?c] take_add [of ?c "sz - ?c" "drop (i * k + p) (concat ns)"] False
      by (simp add: add.commute [of _ k])
    moreover have "\<not> sz \<le> ?c" using False less.prems by linarith
    moreover have "read_loop ns i p ?c pos sz =
        bind_res (read_loop ns (Suc i) 0 k (pos + ?c) (sz - ?c))
          (\<lambda>(bs, c, q). Inr (take ?c (drop p (ns ! i)) @ bs, c, q))"
      using calculation nxt less.prems False
      by (subst read_loop.simps) (simp add: next_node_def)
    ultimately show ?thesis by (simp add: IH)
  qed
qed

section \<open>Growth\<close>

text \<open>
  The condition under which \<open>addCapacity\<close> makes room for \<open>n\<close> bytes at the current position. The
  last disjunct is the code's rounding test \<open>size % m_baseSize > old_cap\<close>.
\<close>

definition fits :: "ByteArray \<Rightarrow> nat \<Rightarrow> bool" where
  "fits b n \<longleftrightarrow>
     (let old_cap = getCapacity b; rest = n - old_cap in
      n \<le> old_cap \<or> rest mod m_baseSize b = 0 \<or> rest mod m_baseSize b > old_cap)"

lemma fits_at_end: "getCapacity b = 0 \<Longrightarrow> fits b n"
  by (auto simp: fits_def)

lemma count_enough:
  fixes k rest old :: nat
  assumes "0 < k"
  shows "rest \<le> (rest div k + (if rest mod k > old then 1 else 0)) * k \<longleftrightarrow>
         rest mod k = 0 \<or> rest mod k > old"
proof -
  obtain q r where q: "q = rest div k" and r: "r = rest mod k" "r < k" and eq: "rest = q * k + r"
    using assms by (metis div_mult_mod_eq mod_less_divisor)
  show ?thesis unfolding q [symmetric] r(1) [symmetric] using r(2) by (auto simp: eq)
qed

lemma addCapacity_spec:
  assumes inv: "ba_inv b" and n: "0 < n"
  shows "\<exists>b1. addCapacity b n = Inr b1 \<and> ba_inv b1 \<and> contents b1 = contents b \<and>
     m_position b1 = m_position b \<and> m_size b1 = m_size b \<and> m_baseSize b1 = m_baseSize b \<and>
     m_endian b1 = m_endian b \<and> m_cur b1 \<noteq> None \<and>
     (m_position b + n \<le> m_capacity b1 \<longleftrightarrow> fits b n)"
proof -
  let ?k = "m_baseSize b" and ?ns = "m_nodes b" and ?old = "getCapacity b"
  have bl: "blocks ?k ?ns" and cap: "m_capacity b = length ?ns * ?k"
    and pos: "m_position b \<le> m_size b" "m_size b \<le> m_capacity b"
    and cur: "m_cur b = cur_of ?k ?ns (m_position b)"
    using inv by (auto simp: ba_inv_def)
  have k: "0 < ?k" using bl by (rule blocks_pos)
  have cur_some: "m_cur b \<noteq> None" if "0 < ?old"
  proof -
    have "m_position b < length ?ns * ?k" using that cap by (simp add: getCapacity_def)
    then show ?thesis using k by (simp add: cur cur_of_def less_mult_imp_div_less)
  qed
  show ?thesis
  proof (cases "?old > n")
    case True
    then show ?thesis using n inv cur_some pos
      by (auto simp: addCapacity_def fits_def getCapacity_def Let_def)
  next
    case False
    define rest where "rest = n - ?old"
    define count where "count = rest div ?k + (if rest mod ?k > ?old then 1 else 0)"
    define fresh where "fresh = map (\<lambda>i. new_Node (heap_fill b) (allocs b + i) ?k) [0..<count]"
    define b1 where "b1 = b\<lparr>m_nodes := ?ns @ fresh, m_capacity := m_capacity b + count * ?k,
      allocs := allocs b + count,
      m_cur := (if ?old = 0 then (if count = 0 then None else Some (length ?ns)) else m_cur b)\<rparr>"
    have eq: "addCapacity b n = Inr b1"
      using False n k
      by (simp add: addCapacity_def b1_def Let_def fresh_def count_def rest_def)
    have len: "length fresh = count" and fr: "list_all (\<lambda>x. length x = ?k) fresh"
      by (auto simp: fresh_def new_Node_def list_all_iff)
    have bl1: "blocks ?k (?ns @ fresh)" using bl fr by (simp add: blocks_def)
    have data: "take (m_size b) (concat (?ns @ fresh)) = take (m_size b) (concat ?ns)"
      using bl pos cap by simp
    have cpos: "count \<noteq> 0" if "?old = 0"
      using that n k by (auto simp: count_def rest_def)
    have at_end: "m_position b div ?k = length ?ns" if "?old = 0"
    proof -
      have "m_position b = length ?ns * ?k" using that pos cap by (simp add: getCapacity_def)
      then show ?thesis using k by simp
    qed
    have cur1: "m_cur b1 = cur_of ?k (?ns @ fresh) (m_position b)"
    proof (cases "?old = 0")
      case True
      then show ?thesis using at_end cpos len by (simp add: b1_def cur_of_def)
    next
      case False
      then show ?thesis using cur cur_some by (auto simp: b1_def cur_of_def split: if_splits)
    qed
    have room: "m_position b + n \<le> m_capacity b1 \<longleftrightarrow> fits b n"
    proof -
      have "m_position b + n \<le> m_capacity b1 \<longleftrightarrow> rest \<le> count * ?k"
        using False pos by (auto simp: b1_def rest_def getCapacity_def)
      also have "\<dots> \<longleftrightarrow> rest mod ?k = 0 \<or> rest mod ?k > ?old"
        unfolding count_def by (rule count_enough [OF k])
      also have "\<dots> \<longleftrightarrow> fits b n"
        using False by (auto simp: fits_def rest_def Let_def)
      finally show ?thesis .
    qed
    have "m_cur b1 \<noteq> None" using cpos cur_some by (auto simp: b1_def)
    moreover have "ba_inv b1"
      using bl1 cap len pos cur1 by (simp add: ba_inv_def b1_def add_mult_distrib)
    ultimately show ?thesis
      using eq room data by (intro exI [of _ b1]) (simp add: b1_def contents_def)
  qed
qed

section \<open>What the operations do under the invariant\<close>

lemma ba_new_inv:
  assumes "0 < k"
  shows "ba_inv (ByteArray_new fill k)" "contents (ByteArray_new fill k) = []"
    "m_position (ByteArray_new fill k) = 0" "m_baseSize (ByteArray_new fill k) = k"
    "m_size (ByteArray_new fill k) = 0" "m_capacity (ByteArray_new fill k) = k"
  using assms
  by (simp_all add: ByteArray_new_def ba_inv_def blocks_def cur_of_def contents_def new_Node_def)

lemma ba_clear_spec:
  assumes "ba_inv b"
  shows "ba_inv (ba_clear b)" "contents (ba_clear b) = []" "m_position (ba_clear b) = 0"
    "m_baseSize (ba_clear b) = m_baseSize b" "m_endian (ba_clear b) = m_endian b"
  using assms
  by (cases "m_nodes b"; simp add: ba_inv_def ba_clear_def blocks_def cur_of_def contents_def)+

lemma contents_length [simp]: "ba_inv b \<Longrightarrow> length (contents b) = m_size b"
  by (auto simp: ba_inv_def contents_def)

lemma ba_inv_cur:
  assumes "ba_inv b" "m_position b < m_capacity b"
  shows "m_cur b = Some (m_position b div m_baseSize b)"
    "m_position b div m_baseSize b < length (m_nodes b)"
  using assms by (auto simp: ba_inv_def cur_of_def less_mult_imp_div_less blocks_pos)

lemma ba_inv_cur_None:
  assumes "ba_inv b"
  shows "m_cur b = None \<longleftrightarrow> m_position b = m_capacity b"
proof -
  have k: "0 < m_baseSize b" using assms by (auto simp: ba_inv_def blocks_pos)
  have "m_position b \<le> m_capacity b" using assms by (auto simp: ba_inv_def)
  moreover have "m_cur b \<noteq> None" if "m_position b < m_capacity b"
    using ba_inv_cur(1) [OF assms that] by simp
  moreover have "m_cur b = None" if "m_position b = m_capacity b"
    using that assms k by (auto simp: ba_inv_def cur_of_def)
  ultimately show ?thesis by linarith
qed

text \<open>The two outcomes of \<open>write\<close>: the bytes replace or extend the data, or the growth fell short
  and the copy loop runs off the end of the chain.\<close>

lemma ba_write_ok:
  assumes inv: "ba_inv b" and fit: "fits b (length buf)"
  shows "\<exists>b'. ba_write b buf = Inr b' \<and> ba_inv b' \<and>
     contents b' = overwrite (m_position b) buf (contents b) \<and>
     m_position b' = m_position b + length buf \<and>
     m_size b' = max (m_size b) (m_position b + length buf) \<and>
     m_baseSize b' = m_baseSize b \<and> m_endian b' = m_endian b"
proof (cases "buf = []")
  case True
  then show ?thesis using inv by (auto simp: ba_write_def ba_inv_def)
next
  case False
  then obtain b1 where b1: "addCapacity b (length buf) = Inr b1" "ba_inv b1"
    "contents b1 = contents b" "m_position b1 = m_position b" "m_size b1 = m_size b"
    "m_baseSize b1 = m_baseSize b" "m_endian b1 = m_endian b" "m_cur b1 \<noteq> None"
    "m_position b + length buf \<le> m_capacity b1"
    using addCapacity_spec [OF inv, of "length buf"] fit by auto
  let ?k = "m_baseSize b" and ?ns = "m_nodes b1" and ?p = "m_position b"
  let ?i = "?p div ?k" and ?o = "?p mod ?k"
  have bl: "blocks ?k ?ns" and cap: "m_capacity b1 = length ?ns * ?k"
    and pos: "?p \<le> m_size b" "m_size b \<le> m_capacity b1"
    using b1 by (auto simp: ba_inv_def)
  have k: "0 < ?k" using bl by (rule blocks_pos)
  have "?p < m_capacity b1" using b1(9) False by (cases buf) auto
  then have i: "m_cur b1 = Some ?i" "?i < length ?ns"
    using ba_inv_cur [OF b1(2)] b1 by auto
  have eq: "?i * ?k + ?o = ?p" by simp
  obtain ns' where ns': "write_loop ?ns ?i ?o (?k - ?o) ?p buf =
        Inr (ns', cur_of ?k ?ns (?p + length buf), ?p + length buf)"
      "blocks ?k ns'" "length ns' = length ?ns" "concat ns' = overwrite ?p buf (concat ?ns)"
    using write_loop_spec [OF bl i(2), of ?o buf ?p] False k b1(9) cap eq by auto
  let ?b' = "b1\<lparr>m_nodes := ns', m_cur := cur_of ?k ?ns (?p + length buf),
    m_position := ?p + length buf, m_size := max (m_size b) (?p + length buf)\<rparr>"
  have "ba_write b buf = Inr ?b'"
    using False b1 i k ns'(1) bl by (auto simp: ba_write_def Let_def max_def)
  moreover have "ba_inv ?b'"
    using b1 ns' cap pos by (auto simp: ba_inv_def cur_of_def)
  moreover have "contents ?b' = overwrite ?p buf (contents b)"
    using take_overwrite [of ?p "m_size b" "concat ?ns" buf] b1(3,5,9) ns'(4) bl cap pos
    by (simp add: contents_def)
  ultimately show ?thesis using b1 by (intro exI [of _ ?b']) simp
qed

lemma ba_write_overrun:
  assumes inv: "ba_inv b" and no: "\<not> fits b (length buf)"
  shows "ba_write b buf = Inl Null_deref"
proof -
  have ne: "buf \<noteq> []" using no by (auto simp: fits_def)
  then obtain b1 where b1: "addCapacity b (length buf) = Inr b1" "ba_inv b1"
    "m_position b1 = m_position b" "m_baseSize b1 = m_baseSize b" "m_cur b1 \<noteq> None"
    "\<not> m_position b + length buf \<le> m_capacity b1"
    using addCapacity_spec [OF inv, of "length buf"] no by auto
  let ?k = "m_baseSize b" and ?ns = "m_nodes b1" and ?p = "m_position b"
  have bl: "blocks ?k ?ns" and cap: "m_capacity b1 = length ?ns * ?k"
    using b1 by (auto simp: ba_inv_def)
  have k: "0 < ?k" using bl by (rule blocks_pos)
  have i: "m_cur b1 = Some (?p div ?k)" "?p div ?k < length ?ns"
    using b1 by (auto simp: ba_inv_def cur_of_def split: if_splits)
  have "write_loop ?ns (?p div ?k) (?p mod ?k) (?k - ?p mod ?k) ?p buf = Inl Null_deref"
    using bl i(2) k b1(6) cap by (intro write_loop_overrun) auto
  then show ?thesis using ne b1 i k bl by (simp add: ba_write_def Let_def)
qed

lemma ba_read_ok:
  assumes inv: "ba_inv b" and n: "n \<le> getReadSize b" and cur: "m_position b < m_capacity b"
  shows "ba_read b n = Inr (take n (unread b),
     b\<lparr>m_cur := cur_of (m_baseSize b) (m_nodes b) (m_position b + n), m_position := m_position b + n\<rparr>)"
proof -
  let ?k = "m_baseSize b" and ?ns = "m_nodes b" and ?p = "m_position b"
  have bl: "blocks ?k ?ns" and cap: "m_capacity b = length ?ns * ?k"
    and pos: "?p \<le> m_size b" "m_size b \<le> m_capacity b"
    using inv by (auto simp: ba_inv_def)
  have k: "0 < ?k" using bl by (rule blocks_pos)
  note i = ba_inv_cur [OF inv cur]
  have "?p div ?k * ?k + ?p mod ?k + n \<le> length ?ns * ?k"
    using n pos cap by (simp add: getReadSize_def)
  then have "read_loop ?ns (?p div ?k) (?p mod ?k) (?k - ?p mod ?k) ?p n =
      Inr (take n (drop ?p (concat ?ns)), cur_of ?k ?ns (?p + n), ?p + n)"
    using read_loop_spec [OF bl i(2), of "?p mod ?k" n ?p] k by simp
  moreover have "take n (unread b) = take n (drop ?p (concat ?ns))"
    using n pos by (simp add: unread_def contents_def getReadSize_def drop_take min_def)
  ultimately show ?thesis using n k i bl by (auto simp: ba_read_def Let_def)
qed

lemma ba_inv_advance:
  assumes "ba_inv b" "n \<le> getReadSize b"
  shows "ba_inv (b\<lparr>m_cur := cur_of (m_baseSize b) (m_nodes b) (m_position b + n),
                  m_position := m_position b + n\<rparr>)"
  using assms by (auto simp: ba_inv_def getReadSize_def)

lemma setPosition_walk_spec:
  assumes "blocks k ns" "i < length ns" "i * k + v \<le> length ns * k" "v = 0 \<longrightarrow> i = 0"
  shows "setPosition_walk ns i v = Inr (cur_of k ns (i * k + v))"
  using assms
proof (induction "length ns - i" arbitrary: i v rule: less_induct)
  case less
  have k: "0 < k" using less.prems(1) by (rule blocks_pos)
  show ?case
  proof (cases "v > k")
    case True
    then have "Suc i * k < length ns * k" using less.prems(3) by simp
    then have nxt: "Suc i < length ns" by (metis mult_less_cancel2)
    have "setPosition_walk ns (Suc i) (v - k) = Inr (cur_of k ns (Suc i * k + (v - k)))"
      using True less.prems nxt by (intro less.hyps) auto
    with True nxt less.prems show ?thesis
      by (simp add: setPosition_walk.simps [of ns i] next_node_def ac_simps)
  next
    case False
    then show ?thesis
      using less.prems k cur_of_boundary [of k ns i] cur_of_within [of v k i ns]
      by (auto simp: setPosition_walk.simps [of ns])
  qed
qed

lemma setPosition_ok:
  assumes inv: "ba_inv b" and v: "v \<le> m_capacity b"
  shows "setPosition b v = Inr (b\<lparr>m_position := v, m_size := max (m_size b) v,
           m_cur := cur_of (m_baseSize b) (m_nodes b) v\<rparr>)"
    and "ba_inv (b\<lparr>m_position := v, m_size := max (m_size b) v,
           m_cur := cur_of (m_baseSize b) (m_nodes b) v\<rparr>)"
proof -
  have bl: "blocks (m_baseSize b) (m_nodes b)" "m_capacity b = length (m_nodes b) * m_baseSize b"
    using inv by (auto simp: ba_inv_def)
  have "setPosition_walk (m_nodes b) 0 v = Inr (cur_of (m_baseSize b) (m_nodes b) v)"
    using setPosition_walk_spec [OF bl(1), of 0 v] bl v by (auto simp: blocks_def)
  then show "setPosition b v = Inr (b\<lparr>m_position := v, m_size := max (m_size b) v,
           m_cur := cur_of (m_baseSize b) (m_nodes b) v\<rparr>)"
    using v by (auto simp: setPosition_def Let_def max_def)
  show "ba_inv (b\<lparr>m_position := v, m_size := max (m_size b) v,
           m_cur := cur_of (m_baseSize b) (m_nodes b) v\<rparr>)"
    using inv v by (auto simp: ba_inv_def)
qed

section \<open>The array as a byte store\<close>

lemma contents_upd [simp]: "contents (b\<lparr>m_cur := c, m_position := p\<rparr>) = contents b"
  by (simp add: contents_def)

lemma ba_write_Inr:
  assumes "ba_inv b" "ba_write b buf = Inr b'"
  shows "ba_inv b' \<and> contents b' = overwrite (m_position b) buf (contents b) \<and>
    m_position b' = m_position b + length buf \<and> m_endian b' = m_endian b"
  using ba_write_ok [OF assms(1), of buf] ba_write_overrun [OF assms(1), of buf] assms(2)
  by (cases "fits b (length buf)") auto

interpretation ba: byte_store ba_write ba_read setPosition m_position contents m_endian ba_inv
proof unfold_locales
  fix s bs s'
  assume "ba_inv s" "ba_write s bs = Inr s'"
  then show "ba_inv s' \<and> contents s' = overwrite (m_position s) bs (contents s) \<and>
      m_position s' = m_position s + length bs \<and> m_endian s' = m_endian s"
    by (rule ba_write_Inr)
next
  fix s n
  assume a: "ba_inv s" "0 < n" "m_position s + n \<le> length (contents s)"
  then have n: "n \<le> getReadSize s" "m_position s < m_capacity s"
    by (auto simp: getReadSize_def ba_inv_def)
  show "\<exists>s'. ba_read s n = Inr (take n (drop (m_position s) (contents s)), s') \<and> ba_inv s' \<and>
      contents s' = contents s \<and> m_position s' = m_position s + n \<and> m_endian s' = m_endian s"
    using ba_read_ok [OF a(1) n] ba_inv_advance [OF a(1) n(1)] by (simp add: unread_def)
next
  fix s p
  assume a: "ba_inv s" "p \<le> length (contents s)"
  then have "p \<le> m_capacity s" "max (m_size s) p = m_size s" by (auto simp: ba_inv_def)
  then show "\<exists>s'. setPosition s p = Inr s' \<and> ba_inv s' \<and> contents s' = contents s \<and>
      m_position s' = p \<and> m_endian s' = m_endian s"
    using setPosition_ok [OF a(1), of p] by (simp add: contents_def)
next
  fix s assume "ba_inv s"
  then show "m_position s \<le> length (contents s)" by (simp add: ba_inv_def)
qed

section \<open>Properties\<close>

text \<open>
  C10: \<open>ByteArray::write\<close>, on a well-formed array, has exactly two outcomes. When \<open>addCapacity\<close>
  made enough room (\<open>fits\<close>), it returns, keeps the array well-formed, replaces or extends the data
  at the position by the buffer and advances the position by its length. Otherwise the copy loop
  follows the null \<open>next\<close> pointer of the last node.
\<close>

theorem write_behaviour:
  assumes "ba_inv b"
  shows "if fits b (length buf) then
       \<exists>b'. ba_write b buf = Inr b' \<and> ba_inv b' \<and>
         contents b' = overwrite (m_position b) buf (contents b) \<and>
         m_position b' = m_position b + length buf \<and>
         m_size b' = max (m_size b) (m_position b + length buf)
     else ba_write b buf = Inl Null_deref"
  using ba_write_ok [OF assms, of buf] ba_write_overrun [OF assms, of buf] by auto

theorem write_behaviour_witness:
  "ba_inv (ByteArray_new (\<lambda>_ _. 0) 4) \<and>
   (\<exists>b'. ba_write (ByteArray_new (\<lambda>_ _. 0) 4) [1, 2, 3] = Inr b' \<and> contents b' = [1, 2, 3])"
proof -
  have inv: "ba_inv (ByteArray_new (\<lambda>_ _. 0) 4)" by (simp add: ba_new_inv)
  have "fits (ByteArray_new (\<lambda>_ _. 0) 4) (length [1, 2, 3 :: u8])"
    by (simp add: fits_def getCapacity_def ba_new_inv)
  then show ?thesis
    using write_behaviour [OF inv, of "[1, 2, 3]"] inv by (auto simp: ba_new_inv overwrite_def)
qed

text \<open>
  A fresh \<open>ByteArray\<close> with the default block size of 4096 cannot take a single write of 4097
  bytes: \<open>addCapacity\<close> rounds with \<open>size % m_baseSize > old_cap\<close>, adds no node for the one byte
  that is left over, and the copy loop dereferences a null pointer.
\<close>

lemma write_block_plus_one_crashes:
  assumes "length buf = 4097"
  shows "ba_write (ByteArray_new fill 4096) buf = Inl Null_deref"
  using assms by (intro ba_write_overrun) (simp_all add: ba_new_inv fits_def getCapacity_def)

text \<open>
  C17: \<open>ByteArray::read\<close>, on a well-formed array, throws \<open>out_of_range\<close> when more than
  \<open>getReadSize()\<close> bytes are asked for; otherwise it returns the next bytes of the data and advances
  the position, except that at the very end of the chain, where \<open>m_cur\<close> is null, a read of zero
  bytes dereferences it.
\<close>

theorem read_behaviour:
  assumes "ba_inv b"
  shows "ba_read b n =
     (if n > m_size b - m_position b then Inl (Out_of_range ''not enough len'')
      else if m_position b = m_capacity b then Inl Null_deref
      else Inr (take n (unread b),
             b\<lparr>m_cur := cur_of (m_baseSize b) (m_nodes b) (m_position b + n),
               m_position := m_position b + n\<rparr>))"
proof -
  have "0 < m_baseSize b" "m_position b \<le> m_capacity b"
    using assms by (auto simp: ba_inv_def blocks_pos)
  then show ?thesis
    using ba_read_ok [OF assms, of n] ba_inv_cur_None [OF assms]
    by (auto simp: getReadSize_def ba_read_def)
qed

theorem read_behaviour_witness:
  "ba_inv (ByteArray_new (\<lambda>_ _. 0) 4) \<and>
   ba_read (ByteArray_new (\<lambda>_ _. 0) 4) 1 = Inl (Out_of_range ''not enough len'')"
proof -
  have inv: "ba_inv (ByteArray_new (\<lambda>_ _. 0) 4)" by (simp add: ba_new_inv)
  show ?thesis using inv by (simp add: read_behaviour [OF inv] ba_new_inv)
qed

text \<open>
  \<open>ByteArray::setPosition\<close> throws \<open>out_of_range\<close> beyond the capacity; otherwise its walk along
  the chain ends without a null dereference, \<open>m_cur\<close> points to the node that holds the new
  position (null exactly at the end of the chain), the size grows to the position if it was
  smaller, the bytes of the data are unchanged and the array stays well-formed.
\<close>

theorem setPosition_behaviour:
  assumes "ba_inv b"
  shows "if v > m_capacity b then setPosition b v = Inl (Out_of_range ''set_position out of range'')
     else \<exists>b'. setPosition b v = Inr b' \<and> ba_inv b' \<and> m_position b' = v \<and>
        m_size b' = max (m_size b) v \<and> m_cur b' = cur_of (m_baseSize b) (m_nodes b) v \<and>
        take (m_size b) (contents b') = contents b"
  using setPosition_ok [OF assms, of v]
  by (auto simp: setPosition_def contents_def max_def)

theorem setPosition_behaviour_witness:
  "ba_inv (ByteArray_new (\<lambda>_ _. 0) 4) \<and>
   (\<exists>b'. setPosition (ByteArray_new (\<lambda>_ _. 0) 4) 4 = Inr b' \<and> m_cur b' = None \<and> m_size b' = 4)"
proof -
  have inv: "ba_inv (ByteArray_new (\<lambda>_ _. 0) 4)" by (simp add: ba_new_inv)
  show ?thesis using setPosition_behaviour [OF inv, of 4] inv
    by (auto simp: ba_new_inv cur_of_def) (simp add: ByteArray_new_def)
qed

text \<open>
  \<open>ByteArray::toString\<close> returns exactly the unread data, from the position to the size, and
  never fails on a well-formed array.
\<close>

theorem toString_unread:
  assumes "ba_inv b"
  shows "ba_toString b = Inr (unread b)"
proof (cases "getReadSize b = 0")
  case True
  then show ?thesis using assms by (simp add: ba_toString_def unread_def getReadSize_def)
next
  case False
  then have "m_position b < m_capacity b" using assms by (auto simp: ba_inv_def getReadSize_def)
  then have "ba_read b (getReadSize b) = Inr (take (getReadSize b) (unread b),
     b\<lparr>m_cur := cur_of (m_baseSize b) (m_nodes b) (m_position b + getReadSize b),
       m_position := m_position b + getReadSize b\<rparr>)"
    by (intro ba_read_ok assms) simp_all
  moreover have "length (unread b) = getReadSize b"
    using assms by (simp add: unread_def getReadSize_def)
  ultimately show ?thesis using False
    by (auto simp: ba_toString_def ba_read_at_def ba_read_def Let_def bind_res_def
        split: option.splits sum.splits if_splits)
qed

theorem toString_unread_witness:
  "ba_inv (ByteArray_new (\<lambda>_ _. 0) 4) \<and> ba_toString (ByteArray_new (\<lambda>_ _. 0) 4) = Inr []"
proof -
  have inv: "ba_inv (ByteArray_new (\<lambda>_ _. 0) 4)" by (simp add: ba_new_inv)
  show ?thesis using inv by (simp add: toString_unread [OF inv] unread_def ba_new_inv)
qed

end
