(* ===== verification/ByteArray_IO.thy ===== *)
theory ByteArray_IO
  imports ByteArray
begin

text \<open>
  The operations by which a \<open>ByteArray\<close> exchanges its bytes with the outside (\<open>mingfwq/bytearray.cpp\<close>): the vectors of
  buffers for \<open>recvmsg\<close> and \<open>sendmsg\<close>, the transfer to and from a file, and the hexadecimal dump.

  A buffer \<open>iovec\<close> points into a node: the node's index, the offset \<open>iov_base - ptr\<close> and the length. A file is the list
  of its bytes, or \<open>None\<close> when it cannot be opened. The counters of type \<open>uint64_t\<close> are \<open>nat\<close>, with the wrap-around of
  the one subtraction that can go below zero written out; those of type \<open>int64_t\<close> and \<open>int\<close> are \<open>int\<close>.
\<close>

section \<open>Vectors of buffers\<close>

record iovec =
  iov_node :: nat
  iov_off :: nat
  iov_len :: nat

text \<open>\<open>len -= n\<close> on \<open>uint64_t\<close>.\<close>

definition sub64 :: "nat \<Rightarrow> nat \<Rightarrow> nat" where
  "sub64 len n = (if n \<le> len then len - n else 2 ^ 64 + len - n)"

text \<open>
  The loop of both \<open>getReadBuffers\<close>. In its second branch \<open>ncap\<close> is replaced by the size of the next node before it
  is subtracted from \<open>len\<close>.
\<close>

function read_buffers_loop :: "node list \<Rightarrow> nat \<Rightarrow> nat \<Rightarrow> nat \<Rightarrow> nat \<Rightarrow> iovec list \<Rightarrow> iovec list res" where
  "read_buffers_loop ns cur npos ncap len buffers =
     (if len = 0 then Inr buffers
      else if ncap > len then Inr (buffers @ [\<lparr>iov_node = cur, iov_off = npos, iov_len = len\<rparr>])
      else
        (case next_node ns cur of
           None \<Rightarrow> Inl Null_deref
         | Some cur' \<Rightarrow>
             read_buffers_loop ns cur' 0 (length (ns ! cur')) (sub64 len (length (ns ! cur')))
               (buffers @ [\<lparr>iov_node = cur, iov_off = npos, iov_len = ncap\<rparr>])))"
  by pat_completeness auto
termination
  by (relation "measure (\<lambda>(ns, cur, npos, ncap, len, buffers). length ns - cur)")
    (auto simp: next_node_def split: if_splits)

definition getReadBuffers :: "ByteArray \<Rightarrow> iovec list \<Rightarrow> nat \<Rightarrow> (nat \<times> iovec list) res" where
  "getReadBuffers b buffers len =
     (let len = (if len > getReadSize b then getReadSize b else len)
      in if len = 0 then Inr (0, buffers)
         else if m_baseSize b = 0 then Inl Div_by_zero
         else
           let npos = m_position b mod m_baseSize b in
           (case m_cur b of
              None \<Rightarrow> Inl Null_deref
            | Some cur \<Rightarrow>
                bind_res (read_buffers_loop (m_nodes b) cur npos (length (m_nodes b ! cur) - npos) len buffers)
                  (\<lambda>buffers. Inr (len, buffers))))"

text \<open>\<open>while (count > 0) { cur = cur->next; --count; }\<close>\<close>

fun skip_nodes :: "node list \<Rightarrow> nat option \<Rightarrow> nat \<Rightarrow> (nat option) res" where
  "skip_nodes ns cur 0 = Inr cur"
| "skip_nodes ns None (Suc count) = Inl Null_deref"
| "skip_nodes ns (Some cur) (Suc count) = skip_nodes ns (next_node ns cur) count"

text \<open>The overload with an explicit position; it bounds \<open>len\<close> by what lies after the array's own position.\<close>

definition getReadBuffers_at :: "ByteArray \<Rightarrow> iovec list \<Rightarrow> nat \<Rightarrow> nat \<Rightarrow> (nat \<times> iovec list) res" where
  "getReadBuffers_at b buffers len position =
     (let len = (if len > getReadSize b then getReadSize b else len)
      in if len = 0 then Inr (0, buffers)
         else if m_baseSize b = 0 then Inl Div_by_zero
         else
           let npos = position mod m_baseSize b; count = position div m_baseSize b in
           bind_res (skip_nodes (m_nodes b) (Some 0) count) (\<lambda>cur.
             case cur of
               None \<Rightarrow> Inl Null_deref
             | Some cur \<Rightarrow>
                 bind_res (read_buffers_loop (m_nodes b) cur npos (length (m_nodes b ! cur) - npos) len buffers)
                   (\<lambda>buffers. Inr (len, buffers))))"

function write_buffers_loop :: "node list \<Rightarrow> nat \<Rightarrow> nat \<Rightarrow> nat \<Rightarrow> nat \<Rightarrow> iovec list \<Rightarrow> iovec list res" where
  "write_buffers_loop ns cur npos ncap len buffers =
     (if len = 0 then Inr buffers
      else if ncap \<ge> len then Inr (buffers @ [\<lparr>iov_node = cur, iov_off = npos, iov_len = len\<rparr>])
      else
        (case next_node ns cur of
           None \<Rightarrow> Inl Null_deref
         | Some cur' \<Rightarrow>
             write_buffers_loop ns cur' 0 (length (ns ! cur')) (len - ncap)
               (buffers @ [\<lparr>iov_node = cur, iov_off = npos, iov_len = ncap\<rparr>])))"
  by pat_completeness auto
termination
  by (relation "measure (\<lambda>(ns, cur, npos, ncap, len, buffers). length ns - cur)")
    (auto simp: next_node_def split: if_splits)

definition getWriteBuffers :: "ByteArray \<Rightarrow> iovec list \<Rightarrow> nat \<Rightarrow> (nat \<times> iovec list \<times> ByteArray) res" where
  "getWriteBuffers b buffers len =
     (if len = 0 then Inr (0, buffers, b)
      else bind_res (addCapacity b len) (\<lambda>b.
        if m_baseSize b = 0 then Inl Div_by_zero
        else
          let npos = m_position b mod m_baseSize b in
          (case m_cur b of
             None \<Rightarrow> Inl Null_deref
           | Some cur \<Rightarrow>
               bind_res (write_buffers_loop (m_nodes b) cur npos (length (m_nodes b ! cur) - npos) len buffers)
                 (\<lambda>buffers. Inr (len, buffers, b)))))"

text \<open>The bytes behind a vector of buffers, and what a call that fills the buffers in turn does to the nodes.\<close>

definition iov_bytes :: "node list \<Rightarrow> iovec \<Rightarrow> u8 list" where
  "iov_bytes ns v = take (iov_len v) (drop (iov_off v) (ns ! iov_node v))"

definition gather :: "node list \<Rightarrow> iovec list \<Rightarrow> u8 list" where
  "gather ns buffers = concat (map (iov_bytes ns) buffers)"

fun scatter :: "node list \<Rightarrow> iovec list \<Rightarrow> u8 list \<Rightarrow> node list" where
  "scatter ns [] bs = ns"
| "scatter ns (v # vs) bs =
     scatter (ns[iov_node v := overwrite (iov_off v) (take (iov_len v) bs) (ns ! iov_node v)]) vs (drop (iov_len v) bs)"

section \<open>Files\<close>

text \<open>
  The loop of \<open>writeToFile\<close>; the result is what is handed to \<open>ofs.write\<close>. A negative count is outside of what
  \<open>std::ostream::write\<close> allows.
\<close>

function write_file_loop :: "node list \<Rightarrow> nat \<Rightarrow> nat option \<Rightarrow> int \<Rightarrow> int \<Rightarrow> u8 list \<Rightarrow> u8 list res" where
  "write_file_loop ns k cur pos read_size out =
     (if read_size \<le> 0 then Inr out
      else
        let diff = signed_take_bit 31 (pos mod int k);
            len = (if read_size > int k then int k else read_size) - diff
        in (case cur of
              None \<Rightarrow> Inl Null_deref
            | Some c \<Rightarrow>
                if diff < 0 \<or> len < 0 \<or> diff + len > int (length (ns ! c)) then Inl Bad_access
                else write_file_loop ns k (next_node ns c) (pos + len) (read_size - len)
                       (out @ take (nat len) (drop (nat diff) (ns ! c)))))"
  by pat_completeness auto
termination
  by (relation "measure (\<lambda>(ns, k, cur, pos, rs, out). case cur of None \<Rightarrow> 0 | Some c \<Rightarrow> Suc (length ns - c))")
    (auto simp: next_node_def split: if_splits)

text \<open>\<open>opened\<close>: the stream could be opened for the name. The result's second part is the file's new content.\<close>

definition writeToFile :: "ByteArray \<Rightarrow> bool \<Rightarrow> (bool \<times> u8 list option) res" where
  "writeToFile b opened =
     (if \<not> opened then Inr (False, None)
      else if getReadSize b > 0 \<and> m_baseSize b = 0 then Inl Div_by_zero
      else bind_res (write_file_loop (m_nodes b) (m_baseSize b) (m_cur b) (int (m_position b)) (int (getReadSize b)) [])
             (\<lambda>out. Inr (True, Some out)))"

text \<open>
  The loop of \<open>readFromFile\<close>: the stream reports its end when a read gets less than it asked for. With blocks of size
  zero it never does, so this is a partial function: \<open>None\<close> is a loop that does not end.
\<close>

partial_function (option) read_file_loop :: "nat \<Rightarrow> u8 list \<Rightarrow> ByteArray \<Rightarrow> ByteArray res option" where
  "read_file_loop k file b =
     (case ba_write b (take k file) of
        Inl e \<Rightarrow> Some (Inl e)
      | Inr b \<Rightarrow> if length file < k then Some (Inr b) else read_file_loop k (drop k file) b)"

definition readFromFile :: "ByteArray \<Rightarrow> u8 list option \<Rightarrow> (bool \<times> ByteArray) res option" where
  "readFromFile b file =
     (case file of
        None \<Rightarrow> Some (Inr (False, b))
      | Some bytes \<Rightarrow> map_option (\<lambda>r. bind_res r (\<lambda>b. Inr (True, b))) (read_file_loop (m_baseSize b) bytes b))"

section \<open>The hexadecimal dump\<close>

definition hex_digit :: "nat \<Rightarrow> char" where
  "hex_digit n = ''0123456789abcdef'' ! n"

fun hex_loop :: "nat \<Rightarrow> u8 list \<Rightarrow> string" where
  "hex_loop i [] = []"
| "hex_loop i (c # str) =
     (if i > 0 \<and> i mod 32 = 0 then [CHR 0x0A] else []) @
     [hex_digit (unat c div 16), hex_digit (unat c mod 16), CHR '' ''] @ hex_loop (Suc i) str"

definition toHexString :: "ByteArray \<Rightarrow> string res" where
  "toHexString b = bind_res (ba_toString b) (\<lambda>str. Inr (hex_loop 0 str))"

declare read_buffers_loop.simps [simp del] write_buffers_loop.simps [simp del] write_file_loop.simps [simp del]

section \<open>What the vectors describe\<close>

lemma gather_Nil [simp]: "gather ns [] = []"
  by (simp add: gather_def)

lemma gather_Cons [simp]: "gather ns (v # vs) = iov_bytes ns v @ gather ns vs"
  by (simp add: gather_def)

lemma sub64_le [simp]: "n \<le> len \<Longrightarrow> sub64 len n = len - n"
  by (simp add: sub64_def)

lemma last_node:
  fixes i k n len :: nat
  assumes "i * k + len < n * k" "k \<le> len" shows "Suc i < n"
proof -
  have "Suc i * k < n * k" using assms by simp
  then show ?thesis by (metis mult_less_cancel2)
qed

text \<open>Past the end of the chain, and exactly at its end, the loop follows a null pointer.\<close>

lemma read_buffers_beyond:
  assumes "blocks k ns" "i < length ns" "length ns * k \<le> i * k + len"
  shows "read_buffers_loop ns i 0 k len bufs = Inl Null_deref"
  using assms
proof (induction "length ns - i" arbitrary: i len bufs rule: less_induct)
  case less
  have k: "0 < k" using less.prems(1) by (rule blocks_pos)
  have "Suc i * k \<le> length ns * k" using less.prems(2) by (intro mult_right_mono) auto
  with less.prems(3) have len: "k \<le> len" by simp
  show ?case
  proof (cases "Suc i < length ns")
    case True
    have "read_buffers_loop ns (Suc i) 0 k (len - k) (bufs @ [\<lparr>iov_node = i, iov_off = 0, iov_len = k\<rparr>]) = Inl Null_deref"
      using True less.prems len by (intro less.hyps) auto
    with True less.prems len k show ?thesis
      by (simp add: read_buffers_loop.simps [of ns i] next_node_def)
  next
    case False
    with len k show ?thesis by (simp add: read_buffers_loop.simps [of ns i] next_node_def)
  qed
qed

lemma read_buffers_aligned:
  assumes "blocks k ns" "i < length ns" "i * k + len < length ns * k"
  shows "\<exists>bs. read_buffers_loop ns i 0 k len bufs = Inr (bufs @ bs) \<and>
    gather ns bs = take len (drop (i * k) (concat ns))"
  using assms
proof (induction "length ns - i" arbitrary: i len bufs rule: less_induct)
  case less
  have k: "0 < k" using less.prems(1) by (rule blocks_pos)
  show ?case
  proof (cases "len < k")
    case True
    then show ?thesis
      using blocks_slice [OF less.prems(1,2), of 0 len]
      by (auto simp: read_buffers_loop.simps [of ns i] iov_bytes_def)
  next
    case False
    then have nxt: "Suc i < length ns" using last_node [OF less.prems(3)] by simp
    let ?v = "\<lparr>iov_node = i, iov_off = 0, iov_len = k\<rparr>"
    have "\<exists>bs. read_buffers_loop ns (Suc i) 0 k (len - k) (bufs @ [?v]) = Inr ((bufs @ [?v]) @ bs) \<and>
        gather ns bs = take (len - k) (drop (Suc i * k) (concat ns))"
      using nxt less.prems False by (intro less.hyps) auto
    then obtain bs where bs: "read_buffers_loop ns (Suc i) 0 k (len - k) (bufs @ [?v]) = Inr ((bufs @ [?v]) @ bs)"
        "gather ns bs = take (len - k) (drop (Suc i * k) (concat ns))"
      by blast
    have "iov_bytes ns ?v = take k (drop (i * k) (concat ns))"
      using blocks_slice [OF less.prems(1,2), of 0 k] by (simp add: iov_bytes_def)
    then have "gather ns (?v # bs) = take len (drop (i * k) (concat ns))"
      using bs(2) False take_add [of k "len - k" "drop (i * k) (concat ns)"] by (simp add: add.commute)
    then show ?thesis
      using bs(1) False k nxt less.prems(1,2)
      by (intro exI [of _ "?v # bs"]) (simp add: read_buffers_loop.simps [of ns i] next_node_def)
  qed
qed

lemma read_buffers_within:
  assumes "blocks k ns" "i < length ns" "p + len < k" "0 < len"
  shows "\<exists>bs. read_buffers_loop ns i p (k - p) len bufs = Inr (bufs @ bs) \<and>
    gather ns bs = take len (drop (i * k + p) (concat ns))"
  using assms blocks_slice [OF assms(1,2), of p len]
  by (auto simp: read_buffers_loop.simps [of ns i] iov_bytes_def)

text \<open>From within a node across its end, the loop counts a whole node for the rest of it.\<close>

lemma read_buffers_crossing:
  assumes "blocks k ns" "0 < p" "p < k" "k \<le> p + len" "0 < len" "i * k + p + len \<le> length ns * k"
    "length ns * k + k \<le> 2 ^ 64"
  shows "if len < k then read_buffers_loop ns i p (k - p) len bufs = Inl Null_deref
    else \<exists>bs. read_buffers_loop ns i p (k - p) len bufs = Inr (bufs @ bs) \<and>
      gather ns bs = take (len - p) (drop (i * k + p) (concat ns))"
proof -
  let ?v = "\<lparr>iov_node = i, iov_off = p, iov_len = k - p\<rparr>"
  have i: "i < length ns"
  proof -
    have "i * k < length ns * k" using assms(2,6) by linarith
    then show ?thesis by (metis mult_less_cancel2)
  qed
  have step: "read_buffers_loop ns i p (k - p) len bufs =
      (case next_node ns i of None \<Rightarrow> Inl Null_deref
       | Some j \<Rightarrow> read_buffers_loop ns j 0 (length (ns ! j)) (sub64 len (length (ns ! j))) (bufs @ [?v]))"
  proof -
    have "\<not> len < k - p" using assms(4) by simp
    then show ?thesis using assms(5) by (subst read_buffers_loop.simps) simp
  qed
  show ?thesis
  proof (cases "len < k")
    case True
    show ?thesis
    proof (cases "Suc i < length ns")
      case False
      with True step show ?thesis by (simp add: next_node_def)
    next
      case nxt: True
      have "length ns * k \<le> Suc i * k + sub64 len k" using True assms(7) by (simp add: sub64_def)
      then show ?thesis
        using read_buffers_beyond [OF assms(1) nxt, of "sub64 len k" "bufs @ [?v]"] True step nxt assms(1)
        by (simp add: next_node_def)
    qed
  next
    case False
    then have nxt: "Suc i < length ns" and lt: "Suc i * k + (len - k) < length ns * k"
      using last_node [of i k len "length ns"] assms(2,6) by auto
    obtain bs where bs: "read_buffers_loop ns (Suc i) 0 k (len - k) (bufs @ [?v]) = Inr ((bufs @ [?v]) @ bs)"
        "gather ns bs = take (len - k) (drop (Suc i * k) (concat ns))"
      using read_buffers_aligned [OF assms(1) nxt lt, of "bufs @ [?v]"] by blast
    have "iov_bytes ns ?v = take (k - p) (drop (i * k + p) (concat ns))"
      using blocks_slice [OF assms(1) i, of p "k - p"] assms(3) by (simp add: iov_bytes_def)
    moreover have "i * k + p + (k - p) = Suc i * k" "(k - p) + (len - k) = len - p" using assms(3) False by auto
    ultimately have "gather ns (?v # bs) = take (len - p) (drop (i * k + p) (concat ns))"
      using bs(2) take_add [of "k - p" "len - k" "drop (i * k + p) (concat ns)"] by simp
    then show ?thesis
      using bs(1) False step nxt assms(1)
      by (auto intro!: exI [of _ "?v # bs"] simp: next_node_def)
  qed
qed

lemma unread_front: "m_size b \<le> length (concat (m_nodes b)) \<Longrightarrow> n \<le> getReadSize b \<Longrightarrow>
  take n (unread b) = take n (drop (m_position b) (concat (m_nodes b)))"
  by (simp add: unread_def contents_def getReadSize_def drop_take min_def)

section \<open>The vectors for a write\<close>

text \<open>Filling the buffers in turn with \<open>bs\<close> stores \<open>bs\<close> from the position on.\<close>

lemma write_buffers_scatter:
  assumes "blocks k ns" "i < length ns" "p < k" "i * k + p + len \<le> length ns * k" "0 < len"
  shows "\<exists>vs. write_buffers_loop ns i p (k - p) len bufs = Inr (bufs @ vs) \<and> sum_list (map iov_len vs) = len \<and>
    (\<forall>ns' bs. blocks k ns' \<and> length ns' = length ns \<and> length bs \<le> len \<longrightarrow>
       blocks k (scatter ns' vs bs) \<and> length (scatter ns' vs bs) = length ns \<and>
       concat (scatter ns' vs bs) = overwrite (i * k + p) bs (concat ns'))"
  using assms
proof (induction "length ns - i" arbitrary: i p len bufs rule: less_induct)
  case less
  show ?case
  proof (cases "len \<le> k - p")
    case True
    then show ?thesis
      using less.prems
      by (auto simp: write_buffers_loop.simps [of ns i] blocks_overwrite)
  next
    case False
    let ?c = "k - p"
    let ?v = "\<lparr>iov_node = i, iov_off = p, iov_len = ?c\<rparr>"
    have "Suc i * k + (len - ?c) = i * k + (p + ?c) + (len - ?c)" using less.prems(3) by simp
    also have "\<dots> = i * k + p + (?c + (len - ?c))" by (simp only: add.assoc)
    also have "\<dots> = i * k + p + len" using False by simp
    finally have eq: "Suc i * k + (len - ?c) = i * k + p + len" .
    have "0 < len - ?c" using False by simp
    then have "Suc i * k < Suc i * k + (len - ?c)" by (simp only: less_add_same_cancel1)
    also note eq
    also note less.prems(4)
    finally have "Suc i * k < length ns * k" .
    then have nxt: "Suc i < length ns" by (metis mult_less_cancel2)
    have "\<exists>vs. write_buffers_loop ns (Suc i) 0 (k - 0) (len - ?c) (bufs @ [?v]) = Inr ((bufs @ [?v]) @ vs) \<and>
        sum_list (map iov_len vs) = len - ?c \<and>
        (\<forall>ns' bs. blocks k ns' \<and> length ns' = length ns \<and> length bs \<le> len - ?c \<longrightarrow>
           blocks k (scatter ns' vs bs) \<and> length (scatter ns' vs bs) = length ns \<and>
           concat (scatter ns' vs bs) = overwrite (Suc i * k + 0) bs (concat ns'))"
      using nxt less.prems False eq by (intro less.hyps) auto
    then obtain vs where
        vs: "write_buffers_loop ns (Suc i) 0 k (len - ?c) (bufs @ [?v]) = Inr ((bufs @ [?v]) @ vs)"
          "sum_list (map iov_len vs) = len - ?c"
      and sc: "\<And>ns' bs. blocks k ns' \<Longrightarrow> length ns' = length ns \<Longrightarrow> length bs \<le> len - ?c \<Longrightarrow>
           blocks k (scatter ns' vs bs) \<and> length (scatter ns' vs bs) = length ns \<and>
           concat (scatter ns' vs bs) = overwrite (Suc i * k) bs (concat ns')"
      by auto
    have "blocks k (scatter ns' (?v # vs) bs) \<and> length (scatter ns' (?v # vs) bs) = length ns \<and>
        concat (scatter ns' (?v # vs) bs) = overwrite (i * k + p) bs (concat ns')"
      if ns': "blocks k ns'" "length ns' = length ns" "length bs \<le> len" for ns' bs
    proof -
      let ?ns = "ns'[i := overwrite p (take ?c bs) (ns' ! i)]"
      have bl: "blocks k ?ns" "length ?ns = length ns" using ns' less.prems(2,3) by auto
      have con: "concat ?ns = overwrite (i * k + p) (take ?c bs) (concat ns')"
        using ns' less.prems(2,3) by (intro blocks_overwrite) auto
      have room: "i * k + p + length bs \<le> length (concat ns')" using ns' less.prems(4) by simp
      have "overwrite (Suc i * k) (drop ?c bs) (concat ?ns) = overwrite (i * k + p) bs (concat ns')"
      proof (cases "?c \<le> length bs")
        case True
        then have "Suc i * k = i * k + p + length (take ?c bs)" using less.prems(3) by simp
        have "overwrite (i * k + p + length (take ?c bs)) (drop ?c bs) (concat ?ns) = overwrite (i * k + p) bs (concat ns')"
          unfolding con using overwrite_append [of "i * k + p" "take ?c bs" "drop ?c bs" "concat ns'"] room by simp
        then show ?thesis by (simp only: \<open>Suc i * k = i * k + p + length (take ?c bs)\<close>)
      next
        case False
        then show ?thesis using con by simp
      qed
      then show ?thesis using sc [OF bl, of "drop ?c bs"] ns'(3) by simp
    qed
    then show ?thesis
      using vs False less.prems nxt
      by (intro exI [of _ "?v # vs"]) (simp add: write_buffers_loop.simps [of ns i] next_node_def)
  qed
qed

lemma write_buffers_overrun:
  assumes "blocks k ns" "i < length ns" "p < k" "length ns * k < i * k + p + len"
  shows "write_buffers_loop ns i p (k - p) len bufs = Inl Null_deref"
  using assms
proof (induction "length ns - i" arbitrary: i p len bufs rule: less_induct)
  case less
  have "Suc i * k \<le> length ns * k" using less.prems(2) by (intro mult_right_mono) auto
  then have len: "k - p < len" using less.prems(3,4) by simp
  show ?case
  proof (cases "Suc i < length ns")
    case True
    let ?v = "\<lparr>iov_node = i, iov_off = p, iov_len = k - p\<rparr>"
    have "write_buffers_loop ns (Suc i) 0 (k - 0) (len - (k - p)) (bufs @ [?v]) = Inl Null_deref"
      using True less.prems len by (intro less.hyps) auto
    with True less.prems len show ?thesis
      by (simp add: write_buffers_loop.simps [of ns i] next_node_def)
  next
    case False
    with len show ?thesis by (simp add: write_buffers_loop.simps [of ns i] next_node_def)
  qed
qed

section \<open>The file loops\<close>

lemma int_sized: "0 \<le> x \<Longrightarrow> x < 2 ^ 31 \<Longrightarrow> signed_take_bit 31 (x :: int) = x"
  by (rule signed_take_bit_int_eq_self) auto

lemma write_file_done [simp]: "write_file_loop ns k cur pos 0 out = Inr out"
  by (subst write_file_loop.simps) simp

lemma write_file_aligned:
  assumes "blocks k ns" "i * k + rs \<le> length ns * k" "k < 2 ^ 31"
  shows "write_file_loop ns k (cur_of k ns (i * k)) (int (i * k)) (int rs) out =
    Inr (out @ take rs (drop (i * k) (concat ns)))"
  using assms
proof (induction rs arbitrary: i out rule: less_induct)
  case (less rs)
  have k: "0 < k" using less.prems(1) by (rule blocks_pos)
  show ?case
  proof (cases "rs = 0")
    case False
    then have "i * k < length ns * k" using less.prems(2) by linarith
    then have i: "i < length ns" by (metis mult_less_cancel2)
    then have cur: "cur_of k ns (i * k) = Some i" using cur_of_within [of 0 k i ns] k by simp
    have diff: "signed_take_bit 31 (int (i * k) mod int k) = 0" by simp
    let ?n = "min rs k"
    have step: "write_file_loop ns k (cur_of k ns (i * k)) (int (i * k)) (int rs) out =
        write_file_loop ns k (next_node ns i) (int (i * k + ?n)) (int (rs - ?n))
          (out @ take ?n (drop (i * k) (concat ns)))"
      using False i cur diff less.prems(1) blocks_slice [OF less.prems(1) i, of 0 ?n]
      by (subst write_file_loop.simps) (auto simp: Let_def min_def)
    show ?thesis
    proof (cases "rs < k")
      case True
      then show ?thesis unfolding step by (simp add: min_def)
    next
      case long: False
      then have n: "?n = k" and nxt: "next_node ns i = cur_of k ns (Suc i * k)"
        using cur_of_boundary [OF k, of ns i] by (simp_all add: add.commute)
      have "write_file_loop ns k (cur_of k ns (Suc i * k)) (int (Suc i * k)) (int (rs - k))
          (out @ take k (drop (i * k) (concat ns))) =
          Inr ((out @ take k (drop (i * k) (concat ns))) @ take (rs - k) (drop (Suc i * k) (concat ns)))"
        using False long k less.prems by (intro less.IH) auto
      then show ?thesis
        unfolding step n nxt using long take_add [of k "rs - k" "drop (i * k) (concat ns)"]
        by (simp add: add.commute)
    qed
  qed simp
qed

text \<open>A block that holds fewer bytes than lie before the position in its node: the count comes out wrong.\<close>

lemma write_file_stuck:
  assumes "blocks k ns" "i < length ns" "0 < d" "d < k" "k < 2 ^ 31"
  shows "write_file_loop ns k (Some i) (int (j * k + d)) (int d) out = Inl Null_deref"
  using assms
proof (induction "length ns - i" arbitrary: i rule: less_induct)
  case less
  have "(int j * int k + int d) mod int k = int d" using less.prems(3,4) by simp
  then have diff: "signed_take_bit 31 (int (j * k + d) mod int k) = int d"
    using less.prems(4,5) by (simp add: int_sized)
  have step: "write_file_loop ns k (Some i) (int (j * k + d)) (int d) out =
      write_file_loop ns k (next_node ns i) (int (j * k + d)) (int d) out"
    using less.prems diff by (subst write_file_loop.simps) (simp add: Let_def)
  show ?case
  proof (cases "Suc i < length ns")
    case True
    with less step show ?thesis by (simp add: next_node_def)
  next
    case False
    with less.prems(3) step show ?thesis by (simp add: next_node_def write_file_loop.simps [of ns k None])
  qed
qed

lemma write_file_first:
  assumes "blocks k ns" "i < length ns" "0 < d" "d < k" "k < 2 ^ 31" "0 < rs"
  shows "write_file_loop ns k (Some i) (int (i * k + d)) (int rs) out =
    (let n = min rs k in
     if n < d then Inl Bad_access
     else write_file_loop ns k (next_node ns i) (int (i * k + n)) (int (rs - (n - d)))
            (out @ take (n - d) (drop (i * k + d) (concat ns))))"
proof -
  have "(int i * int k + int d) mod int k = int d" using assms(3,4) by simp
  then have diff: "signed_take_bit 31 (int (i * k + d) mod int k) = int d"
    using assms(4,5) by (simp add: int_sized)
  show ?thesis
    using assms diff blocks_slice [OF assms(1,2), of d "min rs k - d"]
    by (subst write_file_loop.simps) (auto simp: Let_def min_def nat_diff_distrib diff_diff_eq2)
qed

lemma write_file_short:
  assumes "blocks k ns" "i < length ns" "0 < d" "d < k" "k < 2 ^ 31" "0 < rs" "rs < k"
  shows "write_file_loop ns k (Some i) (int (i * k + d)) (int rs) out \<in> {Inl Null_deref, Inl Bad_access}"
proof (cases "rs = d")
  case True
  then show ?thesis using write_file_stuck [OF assms(1-5)] by simp
next
  case False
  show ?thesis
  proof (cases "rs < d")
    case True
    then show ?thesis using write_file_first [OF assms(1-6)] assms(7) by (simp add: Let_def min_def)
  next
    case long: False
    let ?out = "out @ take (rs - d) (drop (i * k + d) (concat ns))"
    have first: "write_file_loop ns k (Some i) (int (i * k + d)) (int rs) out =
        write_file_loop ns k (next_node ns i) (int (i * k + rs)) (int d) ?out"
      using write_file_first [OF assms(1-6)] assms(7) long by (simp add: Let_def min_def)
    have "(int i * int k + int rs) mod int k = int rs" using assms(7) by simp
    then have diff: "signed_take_bit 31 (int (i * k + rs) mod int k) = int rs"
      using assms(5,7) by (simp add: int_sized)
    show ?thesis
    proof (cases "next_node ns i")
      case None
      then show ?thesis using first assms(3) by (simp add: write_file_loop.simps [of ns k None])
    next
      case (Some j)
      then show ?thesis
        unfolding first Some using diff False long assms(3,4)
        by (subst write_file_loop.simps) (simp add: Let_def)
    qed
  qed
qed

section \<open>The operations\<close>

lemma ba_inv_div_mod:
  assumes "ba_inv b"
  shows "m_position b div m_baseSize b * m_baseSize b + m_position b mod m_baseSize b = m_position b"
    "m_position b mod m_baseSize b < m_baseSize b"
  using assms by (auto simp: ba_inv_def blocks_pos)

lemma ba_inv_blocks:
  assumes "ba_inv b"
  shows "blocks (m_baseSize b) (m_nodes b)" "length (m_nodes b) * m_baseSize b = m_capacity b"
    "m_size b \<le> m_capacity b" "0 < m_baseSize b"
  using assms by (auto simp: ba_inv_def blocks_pos)

definition read_len :: "ByteArray \<Rightarrow> nat \<Rightarrow> nat" where
  "read_len b len = min len (getReadSize b)"

lemma getReadBuffers_loop:
  assumes "ba_inv b" "0 < read_len b len"
  shows "getReadBuffers b bufs len =
    (let k = m_baseSize b; d = m_position b mod k in
     bind_res (read_buffers_loop (m_nodes b) (m_position b div k) d (k - d) (read_len b len) bufs)
       (\<lambda>bufs. Inr (read_len b len, bufs)))"
proof -
  have "m_position b < m_capacity b"
    using assms by (auto simp: read_len_def getReadSize_def ba_inv_def)
  note cur = ba_inv_cur [OF assms(1) this]
  have "length (m_nodes b ! (m_position b div m_baseSize b)) = m_baseSize b"
    using cur(2) ba_inv_blocks(1) [OF assms(1)] by simp
  moreover have "(if len > getReadSize b then getReadSize b else len) = read_len b len"
    by (simp add: read_len_def)
  ultimately show ?thesis
    using assms(2) cur(1) ba_inv_blocks(4) [OF assms(1)] by (simp add: getReadBuffers_def Let_def)
qed

lemma getReadBuffers_cases:
  assumes "ba_inv b" "m_capacity b + m_baseSize b \<le> 2 ^ 64"
    and "n = read_len b len" "d = m_position b mod m_baseSize b"
  shows "if n = 0 then getReadBuffers b bufs len = Inr (0, bufs)
    else if d = 0 \<or> d + n < m_baseSize b then
      (if m_position b + n = m_capacity b then getReadBuffers b bufs len = Inl Null_deref
       else \<exists>vs. getReadBuffers b bufs len = Inr (n, bufs @ vs) \<and> gather (m_nodes b) vs = take n (unread b))
    else if n < m_baseSize b then getReadBuffers b bufs len = Inl Null_deref
    else \<exists>vs. getReadBuffers b bufs len = Inr (n, bufs @ vs) \<and> gather (m_nodes b) vs = take (n - d) (unread b)"
proof (cases "n = 0")
  case True
  then show ?thesis
    by (auto simp: assms(3) read_len_def getReadBuffers_def Let_def min_def split: if_splits)
next
  case False
  then have n: "0 < n" "n \<le> getReadSize b" by (auto simp: assms(3) read_len_def)
  let ?k = "m_baseSize b" and ?i = "m_position b div m_baseSize b" and ?ns = "m_nodes b"
  note bl = ba_inv_blocks [OF assms(1)]
  have pos: "?i * ?k + d = m_position b" "d < ?k" using ba_inv_div_mod [OF assms(1)] by (simp_all add: assms(4))
  have room: "m_position b + n \<le> m_capacity b" using n bl(3) by (auto simp: getReadSize_def)
  then have i: "?i < length ?ns" using ba_inv_cur(2) [OF assms(1)] n(1) by simp
  have ahead: "m_size b \<le> length (concat ?ns)" using bl by simp
  have get: "getReadBuffers b bufs len =
      bind_res (read_buffers_loop ?ns ?i d (?k - d) n bufs) (\<lambda>bufs. Inr (n, bufs))"
    using getReadBuffers_loop [OF assms(1), of len bufs] n(1) by (simp add: assms(3) assms(4) Let_def)
  have front: "take m (unread b) = take m (drop (?i * ?k + d) (concat ?ns))" if "m \<le> n" for m
    using unread_front [OF ahead, of m] n(2) that pos(1) by simp
  show ?thesis
  proof (cases "d = 0 \<or> d + n < ?k")
    case flat: True
    show ?thesis
    proof (cases "m_position b + n = m_capacity b")
      case True
      have "d = 0"
      proof (rule ccontr)
        assume "d \<noteq> 0"
        then have "m_position b + n < Suc ?i * ?k" using flat pos(1) by simp
        moreover have "Suc ?i * ?k \<le> m_capacity b" using i bl(2) mult_le_mono1 [of "Suc ?i" "length ?ns" ?k] by simp
        ultimately show False using True by simp
      qed
      then have "length ?ns * ?k \<le> ?i * ?k + n" using True pos(1) bl(2) by linarith
      then have "read_buffers_loop ?ns ?i 0 ?k n bufs = Inl Null_deref"
        by (rule read_buffers_beyond [OF bl(1) i])
      then show ?thesis using get True False \<open>d = 0\<close> by simp
    next
      case short: False
      have "\<exists>vs. read_buffers_loop ?ns ?i d (?k - d) n bufs = Inr (bufs @ vs) \<and>
          gather ?ns vs = take n (drop (?i * ?k + d) (concat ?ns))"
      proof (cases "d = 0")
        case True
        then have "?i * ?k + n < length ?ns * ?k" using short room pos(1) bl(2) by linarith
        then show ?thesis using read_buffers_aligned [OF bl(1) i, of n bufs] True by simp
      next
        case False
        then show ?thesis using flat read_buffers_within [OF bl(1) i _ n(1), of d bufs] by simp
      qed
      then show ?thesis using False flat short get front [of n] by auto
    qed
  next
    case cross: False
    have "if n < ?k then read_buffers_loop ?ns ?i d (?k - d) n bufs = Inl Null_deref
      else \<exists>vs. read_buffers_loop ?ns ?i d (?k - d) n bufs = Inr (bufs @ vs) \<and>
        gather ?ns vs = take (n - d) (drop (?i * ?k + d) (concat ?ns))"
      using cross n(1) pos room bl(2) assms(2)
      by (intro read_buffers_crossing [OF bl(1)]) auto
    then show ?thesis using False cross get front [of "n - d"] by (auto split: if_splits)
  qed
qed

text \<open>
  \<open>getReadBuffers\<close>, on a well-formed array whose unread data does not wrap around \<open>uint64_t\<close>. When the position is at
  the start of a node, or the data lies within the node of the position, the buffers describe exactly the next \<open>len\<close>
  bytes, except that data up to the very end of the chain makes the loop follow a null pointer. When the data crosses the end of a
  node from its middle, the loop subtracts a whole node for the part of it that is left: shorter than a node, it runs
  off the chain; longer, the buffers miss the last bytes, as many as lie before the position in its node, while the
  returned count still includes them.
\<close>

theorem getReadBuffers_behaviour:
  assumes "ba_inv b" "m_capacity b + m_baseSize b \<le> 2 ^ 64"
    and "n = read_len b len" "d = m_position b mod m_baseSize b"
  shows "if n = 0 then getReadBuffers b bufs len = Inr (0, bufs)
    else if d = 0 \<or> d + n < m_baseSize b then
      (if m_position b + n = m_capacity b then getReadBuffers b bufs len = Inl Null_deref
       else \<exists>vs. getReadBuffers b bufs len = Inr (n, bufs @ vs) \<and> gather (m_nodes b) vs = take n (unread b))
    else if n < m_baseSize b then getReadBuffers b bufs len = Inl Null_deref
    else \<exists>vs. getReadBuffers b bufs len = Inr (n, bufs @ vs) \<and> gather (m_nodes b) vs = take (n - d) (unread b)"
  by (rule getReadBuffers_cases [OF assms])

theorem getReadBuffers_behaviour_witness:
  "(let b = ByteArray_new (\<lambda>_ _. 7) 4 \<lparr>m_size := 4\<rparr>
    in ba_inv b \<and> getReadBuffers b [] 9 = Inl Null_deref)"
proof -
  let ?b = "ByteArray_new (\<lambda>_ _. 7) 4 \<lparr>m_size := 4\<rparr>"
  have "ba_inv ?b" by (simp add: ByteArray_new_def ba_inv_def blocks_def cur_of_def new_Node_def)
  then show ?thesis
    using getReadBuffers_behaviour [of ?b 4 9 0 "[]"]
    by (simp add: ByteArray_new_def read_len_def getReadSize_def)
qed

lemma getWriteBuffers_cases:
  assumes "ba_inv b" "0 < len"
  shows "if fits b len then
      \<exists>vs b1. getWriteBuffers b bufs len = Inr (len, bufs @ vs, b1) \<and> sum_list (map iov_len vs) = len \<and>
        ba_inv b1 \<and> contents b1 = contents b \<and> m_position b1 = m_position b \<and>
        (\<forall>bs. length bs \<le> len \<longrightarrow>
          (\<exists>b2. setPosition (b1\<lparr>m_nodes := scatter (m_nodes b1) vs bs\<rparr>) (m_position b1 + length bs) = Inr b2 \<and> ba_inv b2 \<and>
            contents b2 = overwrite (m_position b) bs (contents b) \<and> m_position b2 = m_position b + length bs))
    else getWriteBuffers b bufs len = Inl Null_deref"
proof -
  obtain b1 where b1: "addCapacity b len = Inr b1" "ba_inv b1" "contents b1 = contents b" "m_position b1 = m_position b"
      "m_size b1 = m_size b" "m_cur b1 \<noteq> None" "m_position b + len \<le> m_capacity b1 \<longleftrightarrow> fits b len"
    using addCapacity_spec [OF assms] by auto
  let ?k = "m_baseSize b1" and ?i = "m_position b1 div m_baseSize b1" and ?d = "m_position b1 mod m_baseSize b1"
  note bl = ba_inv_blocks [OF b1(2)] and pos = ba_inv_div_mod [OF b1(2)]
  have cur: "m_cur b1 = Some ?i" "?i < length (m_nodes b1)"
    using b1(2,6) by (auto simp: ba_inv_def cur_of_def split: if_splits)
  have get: "getWriteBuffers b bufs len =
      bind_res (write_buffers_loop (m_nodes b1) ?i ?d (?k - ?d) len bufs) (\<lambda>bufs. Inr (len, bufs, b1))"
    using assms(2) b1(1) cur bl(1,4) by (simp add: getWriteBuffers_def Let_def)
  show ?thesis
  proof (cases "fits b len")
    case False
    then have "write_buffers_loop (m_nodes b1) ?i ?d (?k - ?d) len bufs = Inl Null_deref"
      using b1(4,7) bl(2) pos by (intro write_buffers_overrun [OF bl(1) cur(2)]) auto
    then show ?thesis using False get by simp
  next
    case True
    then have room: "?i * ?k + ?d + len \<le> length (m_nodes b1) * ?k" using b1(4,7) bl(2) pos by simp
    obtain vs where vs: "write_buffers_loop (m_nodes b1) ?i ?d (?k - ?d) len bufs = Inr (bufs @ vs)"
        "sum_list (map iov_len vs) = len"
      and sc: "\<And>ns bs. blocks ?k ns \<Longrightarrow> length ns = length (m_nodes b1) \<Longrightarrow> length bs \<le> len \<Longrightarrow>
        blocks ?k (scatter ns vs bs) \<and> length (scatter ns vs bs) = length (m_nodes b1) \<and>
        concat (scatter ns vs bs) = overwrite (?i * ?k + ?d) bs (concat ns)"
      using write_buffers_scatter [OF bl(1) cur(2) pos(2) room assms(2), of bufs] by blast
    have "\<exists>b2. setPosition (b1\<lparr>m_nodes := scatter (m_nodes b1) vs bs\<rparr>) (m_position b1 + length bs) = Inr b2 \<and> ba_inv b2 \<and>
        contents b2 = overwrite (m_position b) bs (contents b) \<and> m_position b2 = m_position b + length bs"
      if bs: "length bs \<le> len" for bs
    proof -
      note s = sc [OF bl(1) refl bs]
      let ?b = "b1\<lparr>m_nodes := scatter (m_nodes b1) vs bs\<rparr>"
      have inv: "ba_inv ?b" using b1(2) s by (auto simp: ba_inv_def cur_of_def)
      have cap: "m_position b1 + length bs \<le> m_capacity ?b" using room bs bl(2) pos(1) by simp
      have "contents (?b\<lparr>m_position := m_position b1 + length bs, m_size := max (m_size b1) (m_position b1 + length bs),
          m_cur := c\<rparr>) = overwrite (m_position b) bs (contents b)" for c
        using take_overwrite [of "m_position b1" "m_size b1" "concat (m_nodes b1)" bs] s b1(2-4) bl pos(1) cap
        by (simp add: contents_def ba_inv_def)
      then show ?thesis using setPosition_ok [OF inv cap] b1(4) by simp
    qed
    then show ?thesis using True get vs b1(2-4) by auto
  qed
qed

text \<open>
  \<open>getWriteBuffers\<close>, on a well-formed array: when \<open>addCapacity\<close> made enough room (\<open>fits\<close>), it returns buffers of
  \<open>len\<close> bytes in all, and filling them in turn with any \<open>bs\<close> of at most that length and then moving the position behind
  it, as \<open>SocketStream::read\<close> does, leaves a well-formed array whose data is replaced or extended by \<open>bs\<close> at the position. Otherwise it
  follows a null pointer.
\<close>

theorem getWriteBuffers_behaviour:
  assumes "ba_inv b" "0 < len"
  shows "if fits b len then
      \<exists>vs b1. getWriteBuffers b bufs len = Inr (len, bufs @ vs, b1) \<and> sum_list (map iov_len vs) = len \<and>
        ba_inv b1 \<and> contents b1 = contents b \<and> m_position b1 = m_position b \<and>
        (\<forall>bs. length bs \<le> len \<longrightarrow>
          (\<exists>b2. setPosition (b1\<lparr>m_nodes := scatter (m_nodes b1) vs bs\<rparr>) (m_position b1 + length bs) = Inr b2 \<and> ba_inv b2 \<and>
            contents b2 = overwrite (m_position b) bs (contents b) \<and> m_position b2 = m_position b + length bs))
    else getWriteBuffers b bufs len = Inl Null_deref"
  by (rule getWriteBuffers_cases [OF assms])

theorem getWriteBuffers_behaviour_witness:
  "ba_inv (ByteArray_new (\<lambda>_ _. 0) 4) \<and>
   (\<exists>vs b1. getWriteBuffers (ByteArray_new (\<lambda>_ _. 0) 4) [] 8 = Inr (8, vs, b1) \<and> sum_list (map iov_len vs) = 8)"
proof -
  have inv: "ba_inv (ByteArray_new (\<lambda>_ _. 0) 4)" by (simp add: ba_new_inv)
  have "fits (ByteArray_new (\<lambda>_ _. 0) 4) 8" by (simp add: fits_def getCapacity_def ba_new_inv)
  then show ?thesis using getWriteBuffers_behaviour [OF inv, of 8 "[]"] inv by auto
qed

lemma writeToFile_aligned:
  assumes "ba_inv b" "m_baseSize b < 2 ^ 31"
  shows "if m_position b mod m_baseSize b = 0 \<or> getReadSize b = 0 \<or> m_baseSize b \<le> getReadSize b
    then writeToFile b True = Inr (True, Some (unread b))
    else writeToFile b True \<in> {Inl Null_deref, Inl Bad_access}"
proof (cases "getReadSize b = 0")
  case True
  then show ?thesis by (simp add: writeToFile_def unread_def contents_def getReadSize_def)
next
  case False
  let ?k = "m_baseSize b" and ?i = "m_position b div m_baseSize b" and ?d = "m_position b mod m_baseSize b"
  let ?rs = "getReadSize b" and ?ns = "m_nodes b"
  note bl = ba_inv_blocks [OF assms(1)] and pos = ba_inv_div_mod [OF assms(1)]
  have rs: "0 < ?rs" "m_position b + ?rs \<le> m_capacity b" using False bl(3) by (auto simp: getReadSize_def)
  have cur: "m_cur b = Some ?i" "?i < length ?ns" using ba_inv_cur [OF assms(1)] rs by auto
  have wtf: "writeToFile b True =
      bind_res (write_file_loop ?ns ?k (Some ?i) (int (?i * ?k + ?d)) (int ?rs) []) (\<lambda>out. Inr (True, Some out))"
    using bl(4) cur(1) pos(1) by (simp add: writeToFile_def)
  have all: "take ?rs (drop (m_position b) (concat ?ns)) = unread b"
    using bl by (simp add: unread_def contents_def getReadSize_def drop_take min_def)
  show ?thesis
  proof (cases "?d = 0")
    case True
    have "cur_of ?k ?ns (?i * ?k) = Some ?i" using cur_of_within [of 0 ?k ?i ?ns] bl(4) cur(2) by simp
    moreover have at: "?i * ?k = m_position b" using pos(1) True by simp
    ultimately have "write_file_loop ?ns ?k (Some ?i) (int (m_position b)) (int ?rs) [] = Inr (unread b)"
      using write_file_aligned [OF bl(1), of ?i ?rs "[]"] rs(2) bl(2) assms(2) all unfolding at by simp
    then show ?thesis using True wtf unfolding pos(1) by simp
  next
    case d: False
    show ?thesis
    proof (cases "?k \<le> ?rs")
      case False
      then show ?thesis
        using wtf d rs write_file_short [OF bl(1) cur(2) _ pos(2) assms(2) rs(1), of "[]"] by auto
    next
      case True
      have nxt: "next_node ?ns ?i = cur_of ?k ?ns (Suc ?i * ?k)"
        using cur_of_boundary [OF bl(4), of ?ns ?i] by (simp add: add.commute)
      have k: "?d + (?k - ?d) = ?k" "?k - ?d \<le> ?rs" using pos(2) True by auto
      have "Suc ?i * ?k = ?i * ?k + (?d + (?k - ?d))" using k(1) by simp
      then have last: "Suc ?i * ?k = m_position b + (?k - ?d)" by (simp only: add.assoc [symmetric] pos(1))
      have "write_file_loop ?ns ?k (Some ?i) (int (?i * ?k + ?d)) (int ?rs) [] =
          write_file_loop ?ns ?k (cur_of ?k ?ns (Suc ?i * ?k)) (int (Suc ?i * ?k)) (int (?rs - (?k - ?d)))
            (take (?k - ?d) (drop (m_position b) (concat ?ns)))"
        using write_file_first [OF bl(1) cur(2) _ pos(2) assms(2) rs(1), of "[]"] d True nxt pos
        by (simp add: Let_def add.commute)
      also have "\<dots> = Inr (take (?k - ?d) (drop (m_position b) (concat ?ns)) @
          take (?rs - (?k - ?d)) (drop (Suc ?i * ?k) (concat ?ns)))"
        using rs(2) bl(2) k(2) last by (intro write_file_aligned [OF bl(1) _ assms(2)]) simp
      also have "\<dots> = Inr (unread b)"
        using take_add [of "?k - ?d" "?rs - (?k - ?d)" "drop (m_position b) (concat ?ns)"] k(2) last all
        by (simp add: add.commute)
      finally show ?thesis using wtf True by simp
    qed
  qed
qed

text \<open>
  \<open>writeToFile\<close>, on a well-formed array with blocks below 2 GB, writes exactly the unread data when the position is at the
  start of a node, or when at least a block is unread, or nothing. Otherwise it computes a negative count for \<open>ofs.write\<close> or
  runs off the chain.
\<close>

theorem writeToFile_behaviour:
  assumes "ba_inv b" "m_baseSize b < 2 ^ 31"
  shows "if m_position b mod m_baseSize b = 0 \<or> getReadSize b = 0 \<or> m_baseSize b \<le> getReadSize b
    then writeToFile b True = Inr (True, Some (unread b))
    else writeToFile b True \<in> {Inl Null_deref, Inl Bad_access}"
  by (rule writeToFile_aligned [OF assms])

theorem writeToFile_behaviour_witness:
  "(let b = ByteArray_new (\<lambda>_ _. 7) 4 \<lparr>m_size := 3\<rparr>
    in ba_inv b \<and> writeToFile b True = Inr (True, Some [7, 7, 7]))"
proof -
  let ?b = "ByteArray_new (\<lambda>_ _. 7) 4 \<lparr>m_size := 3\<rparr>"
  have inv: "ba_inv ?b" by (simp add: ByteArray_new_def ba_inv_def blocks_def cur_of_def new_Node_def)
  moreover have "unread ?b = [7, 7, 7]"
    by (simp add: ByteArray_new_def unread_def contents_def new_Node_def upt_rec)
  ultimately show ?thesis using writeToFile_behaviour [OF inv] by (simp add: ByteArray_new_def)
qed

lemma overwrite_extend:
  assumes "p \<le> length zs"
  shows "overwrite (p + length xs) ys (overwrite p xs zs) = overwrite p (xs @ ys) zs"
  using assms by (simp add: overwrite_def ac_simps)

lemma fits_aligned:
  assumes "ba_inv b" "m_position b mod m_baseSize b = 0" "n \<le> m_baseSize b"
  shows "fits b n"
proof (cases "getCapacity b = 0")
  case True
  then show ?thesis by (rule fits_at_end)
next
  case False
  note bl = ba_inv_blocks [OF assms(1)]
  have "m_baseSize b dvd getCapacity b"
    using assms(2) bl(2) by (simp add: getCapacity_def dvd_eq_mod_eq_0 [symmetric] dvd_diff_nat flip: bl(2))
  then have "m_baseSize b \<le> getCapacity b" using False by (simp add: dvd_imp_le)
  then show ?thesis using assms(3) by (simp add: fits_def Let_def)
qed

lemma read_file_loop_aligned:
  assumes "ba_inv b" "m_position b mod m_baseSize b = 0"
  shows "\<exists>b'. read_file_loop (m_baseSize b) src b = Some (Inr b') \<and> ba_inv b' \<and>
    contents b' = overwrite (m_position b) src (contents b) \<and> m_position b' = m_position b + length src"
  using assms
proof (induction "length src" arbitrary: src b rule: less_induct)
  case less
  let ?k = "m_baseSize b" and ?chunk = "take (m_baseSize b) src"
  have k: "0 < ?k" by (rule ba_inv_blocks [OF less.prems(1)])
  have "fits b (length ?chunk)" by (rule fits_aligned [OF less.prems]) simp
  then obtain b1 where b1: "ba_write b ?chunk = Inr b1" "ba_inv b1"
      "contents b1 = overwrite (m_position b) ?chunk (contents b)" "m_position b1 = m_position b + length ?chunk"
      "m_baseSize b1 = ?k"
    using ba_write_ok [OF less.prems(1)] by blast
  show ?case
  proof (cases "length src < ?k")
    case True
    then show ?thesis using b1 by (subst read_file_loop.simps) simp
  next
    case False
    then have pos: "m_position b1 = m_position b + length ?chunk" "m_position b1 mod m_baseSize b1 = 0"
      using b1(4,5) less.prems(2) by auto
    have "length (drop ?k src) < length src" using False k by simp
    note IH = less.hyps [OF this b1(2) pos(2)]
    obtain b' where b': "read_file_loop ?k (drop ?k src) b1 = Some (Inr b')" "ba_inv b'"
        "contents b' = overwrite (m_position b1) (drop ?k src) (contents b1)"
        "m_position b' = m_position b1 + length (drop ?k src)"
      using IH unfolding b1(5) by blast
    have "m_position b \<le> length (contents b)" by (rule ba.pos_law [OF less.prems(1)])
    then have "contents b' = overwrite (m_position b) src (contents b)"
      unfolding b'(3) pos(1) b1(3) by (simp only: overwrite_extend append_take_drop_id)
    then show ?thesis using b' b1 False by (subst read_file_loop.simps) simp
  qed
qed

text \<open>
  C19: A file written from an array whose position is at the start of a node and read into a fresh array of any block size
  gives an array with exactly the data that was unread.
\<close>

theorem file_round_trip:
  assumes "ba_inv b" "m_baseSize b < 2 ^ 31" "m_position b mod m_baseSize b = 0" "0 < k"
  shows "\<exists>file b'. writeToFile b True = Inr (True, Some file) \<and>
    readFromFile (ByteArray_new fill k) (Some file) = Some (Inr (True, b')) \<and> ba_inv b' \<and> contents b' = unread b"
proof -
  have "writeToFile b True = Inr (True, Some (unread b))"
    using writeToFile_aligned [OF assms(1,2)] assms(3) by simp
  moreover have "\<exists>b'. read_file_loop k (unread b) (ByteArray_new fill k) = Some (Inr b') \<and> ba_inv b' \<and> contents b' = unread b"
    using read_file_loop_aligned [of "ByteArray_new fill k" "unread b"] ba_new_inv [OF assms(4), of fill]
    by (auto simp: overwrite_def)
  ultimately show ?thesis by (auto simp: readFromFile_def ba_new_inv(4) [OF assms(4)])
qed

theorem file_round_trip_witness:
  "\<exists>b. ba_inv b \<and> unread b = [7, 7, 7] \<and>
   (\<exists>file b'. writeToFile b True = Inr (True, Some file) \<and>
     readFromFile (ByteArray_new (\<lambda>_ _. 0) 2) (Some file) = Some (Inr (True, b')) \<and> contents b' = [7, 7, 7])"
proof -
  let ?b = "ByteArray_new (\<lambda>_ _. 7) 4 \<lparr>m_size := 3\<rparr>"
  have inv: "ba_inv ?b" by (simp add: ByteArray_new_def ba_inv_def blocks_def cur_of_def new_Node_def)
  moreover have u: "unread ?b = [7, 7, 7]"
    by (simp add: ByteArray_new_def unread_def contents_def new_Node_def upt_rec)
  moreover have "m_baseSize ?b = 4" "m_position ?b = 0" by (simp_all add: ByteArray_new_def)
  ultimately show ?thesis using file_round_trip [OF inv, of 2 "\<lambda>_ _. 0"] by (intro exI [of _ ?b]) auto
qed

section \<open>The overload with a position, and the dump\<close>

lemma skip_nodes_index:
  "i + count < length ns \<Longrightarrow> skip_nodes ns (Some i) count = Inr (Some (i + count))"
  by (induction count arbitrary: i) (auto simp: next_node_def)

text \<open>With the array's own position the two overloads of \<open>getReadBuffers\<close> agree, also in their failures.\<close>

lemma getReadBuffers_at_position:
  assumes "ba_inv b"
  shows "getReadBuffers_at b bufs len (m_position b) = getReadBuffers b bufs len"
proof (cases "read_len b len = 0")
  case True
  then show ?thesis
    by (auto simp: getReadBuffers_at_def getReadBuffers_def read_len_def Let_def min_def split: if_splits)
next
  case False
  then have "m_position b < m_capacity b"
    using assms by (auto simp: read_len_def getReadSize_def ba_inv_def)
  note cur = ba_inv_cur [OF assms this]
  show ?thesis
    using cur skip_nodes_index [of 0 "m_position b div m_baseSize b" "m_nodes b"]
    by (simp add: getReadBuffers_at_def getReadBuffers_def Let_def)
qed

lemma hex_loop_length: "length (hex_loop i str) = 3 * length str + card {j. i \<le> j \<and> j < i + length str \<and> 0 < j \<and> j mod 32 = 0}"
proof (induction str arbitrary: i)
  case (Cons c str)
  let ?A = "\<lambda>i n. {j. i \<le> j \<and> j < i + n \<and> 0 < j \<and> j mod 32 = 0}"
  have fin: "finite (?A (Suc i) (length str))" by (rule finite_subset [of _ "{..<Suc i + length str}"]) auto
  have "?A i (Suc (length str)) = (if 0 < i \<and> i mod 32 = 0 then insert i (?A (Suc i) (length str)) else ?A (Suc i) (length str))"
  proof (rule set_eqI)
    show "j \<in> ?A i (Suc (length str)) \<longleftrightarrow>
        j \<in> (if 0 < i \<and> i mod 32 = 0 then insert i (?A (Suc i) (length str)) else ?A (Suc i) (length str))" for j
      by (cases "j = i") auto
  qed
  then show ?case using Cons fin by auto
qed simp

end
