(* ===== verification/ByteArray_Codec.thy ===== *)
theory ByteArray_Codec
  imports ByteArray
begin

text \<open>
  The typed reads and writes of \<open>ByteArray\<close> (\<open>mingfwq/bytearray.cpp\<close>, \<open>writeFint8\<close> to
  \<open>readStringVint\<close>): fixed-width integers in the array's byte order, variable-length integers with
  zigzag coding, floating point values as bit patterns and length-prefixed strings.

  A signed integer is its two's complement bit pattern, a \<open>word\<close>, and \<open>sint\<close> reads it. \<open>float\<close> and
  \<open>double\<close> values are their bit patterns too: the code only copies them with \<open>memcpy\<close>. A
  \<open>std::string\<close> is its list of bytes. The parameter \<open>bo\<close> is the host byte order
  \<open>MINGFWQ_BYTE_ORDER\<close>. \<open>std::string::resize\<close> is taken to succeed: running out of memory is not
  modelled.
\<close>

section \<open>Fixed width\<close>

definition writeF :: "endian \<Rightarrow> ByteArray \<Rightarrow> 'a::len word \<Rightarrow> ByteArray res" where
  "writeF bo b value =
     (let value = (if m_endian b \<noteq> bo then byteswap value else value)
      in ba_write b (mem_rep bo value))"

definition readF :: "endian \<Rightarrow> ByteArray \<Rightarrow> ('a::len word \<times> ByteArray) res" where
  "readF bo b =
     bind_res (ba_read b (LENGTH('a) div 8)) (\<lambda>(bs, b').
       let v = of_mem bo bs in Inr (if m_endian b = bo then v else byteswap v, b'))"

definition writeFint8 :: "endian \<Rightarrow> ByteArray \<Rightarrow> u8 \<Rightarrow> ByteArray res" where
  "writeFint8 bo b value = ba_write b (mem_rep bo value)"
definition writeFuint8 :: "endian \<Rightarrow> ByteArray \<Rightarrow> u8 \<Rightarrow> ByteArray res" where
  "writeFuint8 bo b value = ba_write b (mem_rep bo value)"
definition writeFint16 :: "endian \<Rightarrow> ByteArray \<Rightarrow> u16 \<Rightarrow> ByteArray res" where
  "writeFint16 bo b value = writeF bo b value"
definition writeFuint16 :: "endian \<Rightarrow> ByteArray \<Rightarrow> u16 \<Rightarrow> ByteArray res" where
  "writeFuint16 bo b value = writeF bo b value"
definition writeFint32 :: "endian \<Rightarrow> ByteArray \<Rightarrow> u32 \<Rightarrow> ByteArray res" where
  "writeFint32 bo b value = writeF bo b value"
definition writeFuint32 :: "endian \<Rightarrow> ByteArray \<Rightarrow> u32 \<Rightarrow> ByteArray res" where
  "writeFuint32 bo b value = writeF bo b value"
definition writeFint64 :: "endian \<Rightarrow> ByteArray \<Rightarrow> u64 \<Rightarrow> ByteArray res" where
  "writeFint64 bo b value = writeF bo b value"
definition writeFuint64 :: "endian \<Rightarrow> ByteArray \<Rightarrow> u64 \<Rightarrow> ByteArray res" where
  "writeFuint64 bo b value = writeF bo b value"

definition readFint8 :: "endian \<Rightarrow> ByteArray \<Rightarrow> (u8 \<times> ByteArray) res" where
  "readFint8 bo b = bind_res (ba_read b 1) (\<lambda>(bs, b'). Inr (of_mem bo bs, b'))"
definition readFuint8 :: "endian \<Rightarrow> ByteArray \<Rightarrow> (u8 \<times> ByteArray) res" where
  "readFuint8 bo b = bind_res (ba_read b 1) (\<lambda>(bs, b'). Inr (of_mem bo bs, b'))"
definition readFint16 :: "endian \<Rightarrow> ByteArray \<Rightarrow> (u16 \<times> ByteArray) res" where
  "readFint16 bo b = readF bo b"
definition readFuint16 :: "endian \<Rightarrow> ByteArray \<Rightarrow> (u16 \<times> ByteArray) res" where
  "readFuint16 bo b = readF bo b"
definition readFint32 :: "endian \<Rightarrow> ByteArray \<Rightarrow> (u32 \<times> ByteArray) res" where
  "readFint32 bo b = readF bo b"
definition readFuint32 :: "endian \<Rightarrow> ByteArray \<Rightarrow> (u32 \<times> ByteArray) res" where
  "readFuint32 bo b = readF bo b"
definition readFint64 :: "endian \<Rightarrow> ByteArray \<Rightarrow> (u64 \<times> ByteArray) res" where
  "readFint64 bo b = readF bo b"
definition readFuint64 :: "endian \<Rightarrow> ByteArray \<Rightarrow> (u64 \<times> ByteArray) res" where
  "readFuint64 bo b = readF bo b"

section \<open>Variable length\<close>

text \<open>
  \<open>-v\<close> overflows for the least value, and \<open>v * 2\<close> is a signed product that overflows from
  \<open>2 ^ 30\<close> (\<open>2 ^ 62\<close>) on: both are undefined behaviour, not wrap-around.
\<close>

definition EncodeZigzag32 :: "u32 \<Rightarrow> u32 res" where
  "EncodeZigzag32 v =
     (if sint v < 0 then
        (if sint v = - (2 ^ 31) then Inl Signed_overflow else Inr ((- v) * 2 - 1))
      else if sint v * 2 \<ge> 2 ^ 31 then Inl Signed_overflow else Inr (v * 2))"

definition EncodeZigzag64 :: "u64 \<Rightarrow> u64 res" where
  "EncodeZigzag64 v =
     (if sint v < 0 then
        (if sint v = - (2 ^ 63) then Inl Signed_overflow else Inr ((- v) * 2 - 1))
      else if sint v * 2 \<ge> 2 ^ 63 then Inl Signed_overflow else Inr (v * 2))"

definition DecodeZigzag32 :: "u32 \<Rightarrow> u32" where
  "DecodeZigzag32 v = (drop_bit 1 v) XOR (- (v AND 1))"

definition DecodeZigzag64 :: "u64 \<Rightarrow> u64" where
  "DecodeZigzag64 v = (drop_bit 1 v) XOR (- (v AND 1))"

text \<open>The contents of \<open>tmp\<close> when the loop has ended.\<close>

function tmp_bytes32 :: "u32 \<Rightarrow> u8 list" where
  "tmp_bytes32 value =
     (if value \<ge> 0x80 then (ucast (value AND 0x7F) OR 0x80) # tmp_bytes32 (drop_bit 7 value)
      else [ucast value])"
  by pat_completeness auto
termination
  by (relation "measure unat")
    (auto simp: word_le_nat_alt unat_div drop_bit_eq_div)

function tmp_bytes64 :: "u64 \<Rightarrow> u8 list" where
  "tmp_bytes64 value =
     (if value \<ge> 0x80 then (ucast (value AND 0x7F) OR 0x80) # tmp_bytes64 (drop_bit 7 value)
      else [ucast value])"
  by pat_completeness auto
termination
  by (relation "measure unat")
    (auto simp: word_le_nat_alt unat_div drop_bit_eq_div)

declare tmp_bytes32.simps [simp del] tmp_bytes64.simps [simp del]

text \<open>\<open>tmp\<close> is an array of 5 (10) bytes: a longer result would be written outside of it.\<close>

definition writeUint32 :: "ByteArray \<Rightarrow> u32 \<Rightarrow> ByteArray res" where
  "writeUint32 b value =
     (let tmp = tmp_bytes32 value in if length tmp > 5 then Inl Bad_access else ba_write b tmp)"

definition writeUint64 :: "ByteArray \<Rightarrow> u64 \<Rightarrow> ByteArray res" where
  "writeUint64 b value =
     (let tmp = tmp_bytes64 value in if length tmp > 10 then Inl Bad_access else ba_write b tmp)"

definition writeInt32 :: "ByteArray \<Rightarrow> u32 \<Rightarrow> ByteArray res" where
  "writeInt32 b value = bind_res (EncodeZigzag32 value) (writeUint32 b)"

definition writeInt64 :: "ByteArray \<Rightarrow> u64 \<Rightarrow> ByteArray res" where
  "writeInt64 b value = bind_res (EncodeZigzag64 value) (writeUint64 b)"

function readUint32_loop :: "endian \<Rightarrow> ByteArray \<Rightarrow> nat \<Rightarrow> u32 \<Rightarrow> (u32 \<times> ByteArray) res" where
  "readUint32_loop bo b i result =
     (if i < 32 then
        bind_res (readFuint8 bo b) (\<lambda>(x, b').
          if x < 0x80 then Inr (result OR push_bit i (ucast x), b')
          else readUint32_loop bo b' (i + 7) (result OR push_bit i (ucast (x AND 0x7F))))
      else Inr (result, b))"
  by pat_completeness auto
termination
  by (relation "measure (\<lambda>(bo, b, i, r). 32 - i)") auto

function readUint64_loop :: "endian \<Rightarrow> ByteArray \<Rightarrow> nat \<Rightarrow> u64 \<Rightarrow> (u64 \<times> ByteArray) res" where
  "readUint64_loop bo b i result =
     (if i < 64 then
        bind_res (readFuint8 bo b) (\<lambda>(x, b').
          if x < 0x80 then Inr (result OR push_bit i (ucast x), b')
          else readUint64_loop bo b' (i + 7) (result OR push_bit i (ucast (x AND 0x7F))))
      else Inr (result, b))"
  by pat_completeness auto
termination
  by (relation "measure (\<lambda>(bo, b, i, r). 64 - i)") auto

declare readUint32_loop.simps [simp del] readUint64_loop.simps [simp del]

definition readUint32 :: "endian \<Rightarrow> ByteArray \<Rightarrow> (u32 \<times> ByteArray) res" where
  "readUint32 bo b = readUint32_loop bo b 0 0"

definition readUint64 :: "endian \<Rightarrow> ByteArray \<Rightarrow> (u64 \<times> ByteArray) res" where
  "readUint64 bo b = readUint64_loop bo b 0 0"

definition readInt32 :: "endian \<Rightarrow> ByteArray \<Rightarrow> (u32 \<times> ByteArray) res" where
  "readInt32 bo b = bind_res (readUint32 bo b) (\<lambda>(v, b'). Inr (DecodeZigzag32 v, b'))"

text \<open>\<open>readInt64\<close> decodes the result of \<open>readUint32\<close>, widened to 64 bits.\<close>

definition readInt64 :: "endian \<Rightarrow> ByteArray \<Rightarrow> (u64 \<times> ByteArray) res" where
  "readInt64 bo b = bind_res (readUint32 bo b) (\<lambda>(v, b'). Inr (DecodeZigzag64 (ucast v), b'))"

section \<open>Floating point and strings\<close>

definition writeFloat :: "endian \<Rightarrow> ByteArray \<Rightarrow> u32 \<Rightarrow> ByteArray res" where
  "writeFloat bo b value = writeFuint32 bo b value"

definition writeDouble :: "endian \<Rightarrow> ByteArray \<Rightarrow> u64 \<Rightarrow> ByteArray res" where
  "writeDouble bo b value = writeFuint64 bo b value"

definition readFloat :: "endian \<Rightarrow> ByteArray \<Rightarrow> (u32 \<times> ByteArray) res" where
  "readFloat bo b = readFuint32 bo b"

text \<open>\<open>readBouble\<close> reads 32 bits and widens them.\<close>

definition readBouble :: "endian \<Rightarrow> ByteArray \<Rightarrow> (u64 \<times> ByteArray) res" where
  "readBouble bo b = bind_res (readFuint32 bo b) (\<lambda>(v, b'). Inr (ucast v, b'))"

definition writeStringF16 :: "endian \<Rightarrow> ByteArray \<Rightarrow> u8 list \<Rightarrow> ByteArray res" where
  "writeStringF16 bo b value =
     bind_res (writeFuint16 bo b (of_nat (length value))) (\<lambda>b'. ba_write b' value)"

definition writeStringF32 :: "endian \<Rightarrow> ByteArray \<Rightarrow> u8 list \<Rightarrow> ByteArray res" where
  "writeStringF32 bo b value =
     bind_res (writeFuint32 bo b (of_nat (length value))) (\<lambda>b'. ba_write b' value)"

definition writeStringF64 :: "endian \<Rightarrow> ByteArray \<Rightarrow> u8 list \<Rightarrow> ByteArray res" where
  "writeStringF64 bo b value =
     bind_res (writeFuint64 bo b (of_nat (length value))) (\<lambda>b'. ba_write b' value)"

definition writeStringFVint :: "ByteArray \<Rightarrow> u8 list \<Rightarrow> ByteArray res" where
  "writeStringFVint b value =
     bind_res (writeUint64 b (of_nat (length value))) (\<lambda>b'. ba_write b' value)"

definition writeStringFWithoutLength :: "ByteArray \<Rightarrow> u8 list \<Rightarrow> ByteArray res" where
  "writeStringFWithoutLength b value = ba_write b value"

definition readStringF16 :: "endian \<Rightarrow> ByteArray \<Rightarrow> (u8 list \<times> ByteArray) res" where
  "readStringF16 bo b = bind_res (readFuint16 bo b) (\<lambda>(len, b'). ba_read b' (unat len))"

definition readStringF32 :: "endian \<Rightarrow> ByteArray \<Rightarrow> (u8 list \<times> ByteArray) res" where
  "readStringF32 bo b = bind_res (readFuint32 bo b) (\<lambda>(len, b'). ba_read b' (unat len))"

definition readStringF64 :: "endian \<Rightarrow> ByteArray \<Rightarrow> (u8 list \<times> ByteArray) res" where
  "readStringF64 bo b = bind_res (readFuint64 bo b) (\<lambda>(len, b'). ba_read b' (unat len))"

definition readStringVint :: "endian \<Rightarrow> ByteArray \<Rightarrow> (u8 list \<times> ByteArray) res" where
  "readStringVint bo b = bind_res (readUint64 bo b) (\<lambda>(len, b'). ba_read b' (unat len))"

section \<open>Fixed width: the wire format\<close>

text \<open>Whatever the host, the value is stored in the byte order of the array.\<close>

lemma writeF_wire:
  "8 dvd LENGTH('a) \<Longrightarrow> writeF bo b (v :: 'a::len word) = ba_write b (mem_rep (m_endian b) v)"
  by (cases bo; cases "m_endian b") (simp_all add: writeF_def mem_rep_def le_bytes_byteswap)

lemma of_mem_swap:
  "8 * length bs = LENGTH('a) \<Longrightarrow>
   (if e = bo then of_mem bo bs else byteswap (of_mem bo bs)) = (of_mem e bs :: 'a::len word)"
  by (cases bo; cases e) (simp_all add: of_mem_def byteswap_def le_bytes_of_le)

lemma readF_ahead:
  assumes "ba.ahead b (mem_rep (m_endian b) (v :: 'a::len word) @ rest)" "8 dvd LENGTH('a)"
  shows "\<exists>b'. readF bo b = Inr (v, b') \<and> ba.ahead b' rest \<and> contents b' = contents b \<and>
     m_position b' = m_position b + LENGTH('a) div 8 \<and> m_endian b' = m_endian b"
proof -
  have len: "LENGTH('a) = 8 * (LENGTH('a) div 8)" using assms(2) by simp
  then have "LENGTH('a) div 8 > 0" using len_gt_0 [where 'a='a] by linarith
  then have ne: "mem_rep (m_endian b) v \<noteq> []"
    by (metis length_mem_rep length_0_conv less_numeral_extra(3))
  from ba.get_ahead [OF assms(1) ne] obtain b' where
    b': "ba_read b (LENGTH('a) div 8) = Inr (mem_rep (m_endian b) v, b')" "ba.ahead b' rest"
      "contents b' = contents b" "m_position b' = m_position b + LENGTH('a) div 8"
      "m_endian b' = m_endian b"
    by auto
  have "(if m_endian b = bo then of_mem bo (mem_rep (m_endian b) v)
         else byteswap (of_mem bo (mem_rep (m_endian b) v))) = v"
    using of_mem_swap [of "mem_rep (m_endian b) v" "m_endian b" bo, where 'a='a] assms(2) by simp
  then show ?thesis using b' by (auto simp: readF_def Let_def)
qed

lemma readFuint8_ahead:
  assumes "ba.ahead b (x # rest)"
  shows "\<exists>b'. readFuint8 bo b = Inr (x, b') \<and> ba.ahead b' rest \<and> contents b' = contents b \<and>
     m_position b' = m_position b + 1 \<and> m_endian b' = m_endian b"
proof -
  have "of_mem bo [x] = x" by (cases bo) (simp_all add: of_mem_def)
  then show ?thesis using ba.get_ahead [of b "[x]" rest] assms by (auto simp: readFuint8_def)
qed

section \<open>Variable length: the code over natural numbers\<close>

fun varint :: "nat \<Rightarrow> u8 list" where
  "varint n = (if n \<ge> 128 then of_nat (n mod 128 + 128) # varint (n div 128) else [of_nat n])"

declare varint.simps [simp del]

lemma varint_nonempty [simp]: "varint n \<noteq> []"
  by (simp add: varint.simps [of n])

lemma low_septet: "(ucast (v AND 0x7F :: 'a::len word) :: u8) = of_nat (unat v mod 128)"
  by (rule ucast_unat [OF unat_low_septet])

lemma continuation_septet:
  "unat ((of_nat (n mod 128) + 128 :: u8) AND 0x7F) = n mod 128"
  "\<not> (of_nat (n mod 128) + 128 :: u8) < 0x80"
proof -
  have u: "unat (of_nat (n mod 128 + 128) :: u8) = n mod 128 + 128"
    by (rule unat_of_nat_id) simp
  then show "\<not> (of_nat (n mod 128) + 128 :: u8) < 0x80" by (simp add: word_less_nat_alt)
  show "unat ((of_nat (n mod 128) + 128 :: u8) AND 0x7F) = n mod 128"
    unfolding unat_low_septet using u by simp
qed

lemma final_septet:
  "n < 128 \<Longrightarrow> (of_nat n :: u8) < 0x80" "n < 128 \<Longrightarrow> unat (of_nat n :: u8) = n"
  by (simp_all add: word_less_nat_alt unat_of_nat_id)

lemma tmp_bytes32_varint: "tmp_bytes32 v = varint (unat v)"
proof (induction v rule: tmp_bytes32.induct)
  case (1 v)
  show ?case
  proof (cases "v \<ge> 0x80")
    case True
    then have "unat v \<ge> 128" by (simp add: word_le_nat_alt)
    with True 1 show ?thesis
      by (simp add: tmp_bytes32.simps [of v] varint.simps [of "unat v"] low_septet
          continuation_byte unat_drop_septet)
  next
    case False
    then have "\<not> unat v \<ge> 128" by (simp add: word_le_nat_alt)
    with False show ?thesis by (simp add: tmp_bytes32.simps [of v] varint.simps [of "unat v"])
  qed
qed

lemma tmp_bytes64_varint: "tmp_bytes64 v = varint (unat v)"
proof (induction v rule: tmp_bytes64.induct)
  case (1 v)
  show ?case
  proof (cases "v \<ge> 0x80")
    case True
    then have "unat v \<ge> 128" by (simp add: word_le_nat_alt)
    with True 1 show ?thesis
      by (simp add: tmp_bytes64.simps [of v] varint.simps [of "unat v"] low_septet
          continuation_byte unat_drop_septet)
  next
    case False
    then have "\<not> unat v \<ge> 128" by (simp add: word_le_nat_alt)
    with False show ?thesis by (simp add: tmp_bytes64.simps [of v] varint.simps [of "unat v"])
  qed
qed

lemma varint_length: "n < 128 ^ Suc k \<Longrightarrow> length (varint n) \<le> Suc k"
proof (induction k arbitrary: n)
  case 0
  then show ?case by (simp add: varint.simps [of n])
next
  case (Suc k)
  have "n div 128 < 128 ^ Suc k" using Suc.prems by (simp add: div_less_iff_less_mult)
  then show ?case using Suc.IH by (simp add: varint.simps [of n])
qed

lemma tmp_bytes32_length: "length (tmp_bytes32 v) \<le> 5"
proof -
  have "unat v < 128 ^ Suc 4" using unsigned_less [of v, where 'a=nat] by simp
  then show ?thesis using varint_length [of "unat v" 4] by (simp add: tmp_bytes32_varint)
qed

lemma tmp_bytes64_length: "length (tmp_bytes64 v) \<le> 10"
proof -
  have "unat v < 128 ^ Suc 9" using unsigned_less [of v, where 'a=nat] by simp
  then show ?thesis using varint_length [of "unat v" 9] by (simp add: tmp_bytes64_varint)
qed

text \<open>
  The reading loops over the bytes of a varint: the septets are ored into place, as far as the loop
  goes (5 bytes for 32 bits, 10 for 64), and bits beyond the width are lost.
\<close>

locale varint_reader =
  fixes bo :: endian
    and rd :: "ByteArray \<Rightarrow> nat \<Rightarrow> 'a::len word \<Rightarrow> ('a word \<times> ByteArray) res"
    and top :: nat
  assumes unfold_rd: "rd b i r =
      (if i < LENGTH('a) then
         bind_res (readFuint8 bo b) (\<lambda>(x, b').
           if x < 0x80 then Inr (r OR push_bit i (ucast x), b')
           else rd b' (i + 7) (r OR push_bit i (ucast (x AND 0x7F))))
       else Inr (r, b))"
    and top: "7 dvd top" "top < LENGTH('a)"
begin

lemma rd_continue:
  assumes "ba.ahead b (varint n @ rest)" "128 \<le> n" "i < LENGTH('a)"
  shows "\<exists>b1 r1. rd b i r = rd b1 (i + 7) r1 \<and> ba.ahead b1 (varint (n div 128) @ rest) \<and>
     contents b1 = contents b \<and> m_position b1 = m_position b + 1 \<and> m_endian b1 = m_endian b \<and>
     r1 OR push_bit (i + 7) (of_nat (n div 128)) = r OR push_bit i (of_nat n)"
proof -
  let ?x = "of_nat (n mod 128) + 128 :: u8"
  have v: "varint n = ?x # varint (n div 128)" using assms(2) by (simp add: varint.simps [of n])
  then obtain b1 where b1: "readFuint8 bo b = Inr (?x, b1)"
      "ba.ahead b1 (varint (n div 128) @ rest)" "contents b1 = contents b"
      "m_position b1 = m_position b + 1" "m_endian b1 = m_endian b"
    using readFuint8_ahead [of b ?x "varint (n div 128) @ rest" bo] assms(1) by auto
  let ?r = "r OR push_bit i (ucast (?x AND 0x7F))"
  have "?r OR push_bit (i + 7) (of_nat (n div 128)) = r OR push_bit i (of_nat n)"
    using ucast_unat [OF continuation_septet(1) [of n], where 'b='a]
    by (simp add: septets [of i n] ac_simps)
  moreover have "rd b i r = rd b1 (i + 7) ?r"
    using assms(3) b1(1) continuation_septet(2) [of n] by (subst unfold_rd) simp
  ultimately show ?thesis using b1 by blast
qed

lemma rd_last:
  assumes "ba.ahead b (varint n @ rest)" "n < 128" "i < LENGTH('a)"
  shows "\<exists>b'. rd b i r = Inr (r OR push_bit i (of_nat n), b') \<and> ba.ahead b' rest \<and>
     contents b' = contents b \<and> m_position b' = m_position b + 1 \<and> m_endian b' = m_endian b"
proof -
  have v: "varint n = [of_nat n]" using assms(2) by (simp add: varint.simps [of n])
  then obtain b' where b': "readFuint8 bo b = Inr (of_nat n, b')" "ba.ahead b' rest"
      "contents b' = contents b" "m_position b' = m_position b + 1" "m_endian b' = m_endian b"
    using readFuint8_ahead [of b "of_nat n" rest bo] assms(1) by auto
  moreover have "(ucast (of_nat n :: u8) :: 'a word) = of_nat n" "(of_nat n :: u8) < 0x80"
    using assms(2) final_septet [of n] ucast_unat [of "of_nat n :: u8" n, where 'b='a] by simp_all
  ultimately show ?thesis using assms(3) by (subst unfold_rd) auto
qed

lemma room_step:
  fixes n i :: nat
  assumes "n < 2 ^ (top + 7 - i)" "7 dvd i" "i \<le> top" "128 \<le> n"
  shows "n div 128 < 2 ^ (top + 7 - (i + 7))" "7 dvd i + 7" "i + 7 \<le> top"
proof -
  have "i \<noteq> top" using assms(1,4) by auto
  then show le: "i + 7 \<le> top" using assms(2,3) top(1) by presburger
  show "7 dvd i + 7" using assms(2) by simp
  have "top + 7 - i = 7 + (top + 7 - (i + 7))" using le by simp
  then have "(2::nat) ^ (top + 7 - i) = 2 ^ 7 * 2 ^ (top + 7 - (i + 7))" by (metis power_add)
  then show "n div 128 < 2 ^ (top + 7 - (i + 7))"
    using assms(1) by (simp add: div_less_iff_less_mult mult.commute)
qed

lemma rd_varint:
  assumes "ba.ahead b (varint n @ rest)"
  shows "\<exists>b'. rd b i r = Inr (r OR push_bit i (of_nat n), b') \<and> ba_inv b' \<and>
     contents b' = contents b \<and> m_endian b' = m_endian b \<and>
     (n < 2 ^ (top + 7 - i) \<and> 7 dvd i \<and> i \<le> top \<longrightarrow>
        ba.ahead b' rest \<and> m_position b' = m_position b + length (varint n))"
  using assms
proof (induction n arbitrary: b i r rule: varint.induct)
  case (1 n)
  consider (stop) "\<not> i < LENGTH('a)" | (final) "i < LENGTH('a)" "n < 128" | (more) "i < LENGTH('a)" "128 \<le> n"
    by linarith
  then show ?case
  proof cases
    case stop
    then have "push_bit i (of_nat n) = (0 :: 'a word)"
      by (intro bit_word_eqI) (simp add: bit_push_bit_iff)
    with stop show ?thesis using 1 top(2)
      by (subst unfold_rd) (auto dest: ba.ahead_inv)
  next
    case final
    then show ?thesis using rd_last [OF "1.prems" final(2,1), of r]
      by (auto simp: varint.simps [of n] dest: ba.ahead_inv)
  next
    case more
    obtain b1 r1 where b1: "rd b i r = rd b1 (i + 7) r1" "ba.ahead b1 (varint (n div 128) @ rest)"
        "contents b1 = contents b" "m_position b1 = m_position b + 1" "m_endian b1 = m_endian b"
        "r1 OR push_bit (i + 7) (of_nat (n div 128)) = r OR push_bit i (of_nat n)"
      using rd_continue [OF "1.prems" more(2,1), of r] by blast
    then show ?thesis using "1.IH" [OF more(2) b1(2), of "i + 7" r1] room_step [of n i] more(2)
      by (auto simp: varint.simps [of n])
  qed
qed

end

interpretation v32: varint_reader bo "readUint32_loop bo" 28 for bo
  by unfold_locales (simp_all add: readUint32_loop.simps)

interpretation v64: varint_reader bo "readUint64_loop bo" 63 for bo
  by unfold_locales (simp_all add: readUint64_loop.simps)

section \<open>Zigzag\<close>

lemma unat_drop1: "unat (drop_bit 1 v :: 'a::len word) = unat v div 2"
proof -
  have "take_bit LENGTH('a) (unat v) = unat v" by (simp add: take_bit_nat_eq_self_iff)
  then have "unat (drop_bit 1 v) = drop_bit 1 (unat v)"
    by (simp only: unsigned_drop_bit_eq)
  then show ?thesis by (simp add: drop_bit_eq_div)
qed

lemma half_of_nat:
  "m < 2 ^ LENGTH('a) \<Longrightarrow> drop_bit 1 (of_nat m :: 'a::len word) = of_nat (m div 2)"
  by (metis unat_drop1 unat_of_nat_id word_unat_eq_iff le_less_trans div_le_dividend)

lemma low_bit_of_nat: "(of_nat m AND 1 :: 'a::len word) = of_bool (odd m)"
  unfolding and_one_eq mod_2_eq_odd by simp

lemma zigzag_even:
  "2 * n < 2 ^ LENGTH('a) \<Longrightarrow>
   drop_bit 1 (of_nat (2 * n) :: 'a::len word) XOR - (of_nat (2 * n) AND 1) = of_nat n"
  unfolding low_bit_of_nat by (subst half_of_nat) simp_all

lemma zigzag_odd:
  "2 * n + 1 < 2 ^ LENGTH('a) \<Longrightarrow>
   drop_bit 1 (of_nat (2 * n + 1) :: 'a::len word) XOR - (of_nat (2 * n + 1) AND 1) = - of_nat (n + 1)"
  unfolding low_bit_of_nat by (subst half_of_nat) (simp_all add: not_eq_complement)


lemma zigzag_nonneg:
  fixes v :: "'a::len word"
  assumes "0 \<le> sint v" "sint v * 2 < 2 ^ LENGTH('a)"
  shows "drop_bit 1 (v * 2) XOR - (v * 2 AND 1) = v"
proof -
  let ?n = "nat (sint v)"
  have v: "v = of_nat ?n" using assms(1) by simp
  have "int (2 * ?n) < int (2 ^ LENGTH('a))" using assms by simp
  then have "2 * ?n < 2 ^ LENGTH('a)" by (simp only: of_nat_less_iff)
  moreover have "v * 2 = of_nat (2 * ?n)" using v by (metis of_nat_mult of_nat_numeral mult.commute)
  ultimately show ?thesis using zigzag_even [of ?n, where 'a='a] v by (simp add: mult.commute)
qed

lemma zigzag_neg:
  fixes v :: "'a::len word"
  assumes "sint v < 0" "- sint v * 2 \<le> 2 ^ LENGTH('a)"
  shows "drop_bit 1 ((- v) * 2 - 1) XOR - (((- v) * 2 - 1) AND 1) = v"
proof -
  define n where "n = nat (- sint v) - 1"
  have n: "nat (- sint v) = n + 1" using assms(1) by (simp add: n_def)
  have v: "v = - of_nat (n + 1)" using assms(1) unfolding n [symmetric] by simp
  have "int (2 * n + 1) < int (2 ^ LENGTH('a))" using assms n by simp
  then have "2 * n + 1 < 2 ^ LENGTH('a)" by (simp only: of_nat_less_iff)
  moreover have "(- v) * 2 - 1 = of_nat (2 * n + 1)" by (simp add: v)
  ultimately show ?thesis using zigzag_odd [of n, where 'a='a] v by (simp add: mult.commute)
qed

lemma EncodeZigzag32_decodes: "EncodeZigzag32 v = Inr z \<Longrightarrow> DecodeZigzag32 z = v"
  using zigzag_nonneg [of v] zigzag_neg [of v] sint_greater_eq [of v]
  by (auto simp: EncodeZigzag32_def DecodeZigzag32_def split: if_splits)

lemma EncodeZigzag64_decodes: "EncodeZigzag64 v = Inr z \<Longrightarrow> DecodeZigzag64 z = v"
  using zigzag_nonneg [of v] zigzag_neg [of v] sint_greater_eq [of v]
  by (auto simp: EncodeZigzag64_def DecodeZigzag64_def split: if_splits)

lemma EncodeZigzag32_defined:
  "(\<exists>z. EncodeZigzag32 v = Inr z) \<longleftrightarrow> - (2 ^ 31) < sint v \<and> sint v < 2 ^ 30"
  using sint_greater_eq [of v] by (auto simp: EncodeZigzag32_def)

section \<open>Reading back\<close>

text \<open>
  \<open>r\<close>, run from the position that \<open>b\<close> had, on the array \<open>b1\<close> that a write left, returns \<open>v\<close> and
  ends where the write ended.
\<close>

definition reads_back :: "ByteArray \<Rightarrow> ByteArray \<Rightarrow> (ByteArray \<Rightarrow> ('v \<times> ByteArray) res) \<Rightarrow> 'v \<Rightarrow> bool" where
  "reads_back b b1 r v \<longleftrightarrow>
     (\<exists>b2 b3. setPosition b1 (m_position b) = Inr b2 \<and> r b2 = Inr (v, b3) \<and>
        m_position b3 = m_position b1)"

definition round_trips ::
  "ByteArray \<Rightarrow> ByteArray res \<Rightarrow> (ByteArray \<Rightarrow> ('v \<times> ByteArray) res) \<Rightarrow> 'v \<Rightarrow> bool" where
  "round_trips b w r v \<longleftrightarrow> (\<exists>b1. w = Inr b1 \<and> reads_back b b1 r v)"

lemma reads_backI:
  assumes "ba_inv b" "ba_write b bs = Inr b1"
    and "\<And>b2. ba.ahead b2 bs \<Longrightarrow> m_endian b2 = m_endian b \<Longrightarrow>
      \<exists>b3. r b2 = Inr (v, b3) \<and> m_position b3 = m_position b2 + length bs"
  shows "reads_back b b1 r v"
  using ba.put_seek_ahead [OF assms(1,2)] assms(3) ba_write_Inr [OF assms(1,2)]
  by (fastforce simp: reads_back_def)

lemma round_tripsI:
  assumes "ba_inv b" "fits b (length bs)"
    and "\<And>b2. ba.ahead b2 bs \<Longrightarrow> m_endian b2 = m_endian b \<Longrightarrow>
      \<exists>b3. r b2 = Inr (v, b3) \<and> m_position b3 = m_position b2 + length bs"
  shows "round_trips b (ba_write b bs) r v"
  using ba_write_ok [OF assms(1,2)] reads_backI [OF assms(1) _ assms(3)]
  by (auto simp: round_trips_def)

lemma fixed_round_trip:
  assumes "ba_inv b" "8 dvd LENGTH('a)" "fits b (LENGTH('a) div 8)"
  shows "round_trips b (writeF bo b (v :: 'a::len word)) (readF bo) v"
  unfolding writeF_wire [OF assms(2)]
proof (rule round_tripsI)
  fix b2 assume "ba.ahead b2 (mem_rep (m_endian b) v)" "m_endian b2 = m_endian b"
  then show "\<exists>b3. readF bo b2 = Inr (v, b3) \<and> m_position b3 = m_position b2 + length (mem_rep (m_endian b) v)"
    using readF_ahead [of b2 v "[]" bo] assms(2) by auto
qed (use assms in simp_all)

lemma fixed8_round_trip:
  assumes "ba_inv b" "fits b 1"
  shows "round_trips b (writeFuint8 bo b v) (readFuint8 bo) v"
proof -
  have "mem_rep bo v = [v]" by (cases bo) (simp_all add: mem_rep_def le_bytes_def)
  then show ?thesis using assms round_tripsI [of b "[v]" "readFuint8 bo" v] readFuint8_ahead [of _ v "[]" bo]
    by (auto simp: writeFuint8_def)
qed

lemma unat_lt_len: "unat (v :: 'a::len word) < 2 ^ LENGTH('a)"
  using unsigned_less [of v, where 'a=nat] by simp

lemma unat_lt32: "unat (v :: u32) < 2 ^ (28 + 7 - 0)"
  using unat_lt_len [of v] by (rule less_le_trans) simp

lemma unat_lt64: "unat (v :: u64) < 2 ^ (63 + 7 - 0)"
  using unat_lt_len [of v] by (rule less_le_trans) simp

lemma readUint32_ahead:
  assumes "ba.ahead b (tmp_bytes32 v @ rest)"
  shows "\<exists>b'. readUint32 bo b = Inr (v, b') \<and> ba.ahead b' rest \<and>
     m_position b' = m_position b + length (tmp_bytes32 v)"
  using v32.rd_varint [of b "unat v" rest bo 0 0] assms unat_lt32 [of v]
  by (auto simp: readUint32_def tmp_bytes32_varint)

lemma readUint64_ahead:
  assumes "ba.ahead b (tmp_bytes64 v @ rest)"
  shows "\<exists>b'. readUint64 bo b = Inr (v, b') \<and> ba.ahead b' rest \<and>
     m_position b' = m_position b + length (tmp_bytes64 v)"
  using v64.rd_varint [of b "unat v" rest bo 0 0] assms unat_lt64 [of v]
  by (auto simp: readUint64_def tmp_bytes64_varint)

text \<open>\<open>readUint32\<close> on a 64 bit varint keeps the low 32 bits.\<close>

lemma readUint32_wide:
  assumes "ba.ahead b (tmp_bytes64 z)"
  shows "\<exists>b'. readUint32 bo b = Inr (ucast z, b')"
  using v32.rd_varint [of b "unat z" "[]" bo 0 0] assms
  by (auto simp: readUint32_def tmp_bytes64_varint)

lemma writeUint32_bytes: "writeUint32 b v = ba_write b (tmp_bytes32 v)"
  using tmp_bytes32_length [of v] by (simp add: writeUint32_def Let_def)

lemma writeUint64_bytes: "writeUint64 b v = ba_write b (tmp_bytes64 v)"
  using tmp_bytes64_length [of v] by (simp add: writeUint64_def Let_def)

text \<open>A length prefix \<open>pre\<close> followed by the characters of a non-empty string.\<close>

lemma string_reads_back:
  assumes "ba_inv b" "ba_write b pre = Inr b0" "ba_write b0 s = Inr b1" "s \<noteq> []"
    and len: "\<And>b2. ba.ahead b2 (pre @ s) \<Longrightarrow> m_endian b2 = m_endian b \<Longrightarrow>
      \<exists>b3. rl b2 = Inr (l, b3) \<and> ba.ahead b3 s \<and> m_position b3 = m_position b2 + length pre"
    and n: "n l = length s"
  shows "reads_back b b1 (\<lambda>b. bind_res (rl b) (\<lambda>(l, b'). ba_read b' (n l))) s"
proof -
  obtain b2 where b2: "setPosition b1 (m_position b) = Inr b2" "ba.ahead b2 (pre @ s)"
      "m_position b2 = m_position b" "m_endian b2 = m_endian b"
    using ba.put_put_seek_ahead [OF assms(1-3)] by blast
  then obtain b3 where b3: "rl b2 = Inr (l, b3)" "ba.ahead b3 s"
      "m_position b3 = m_position b2 + length pre" using len by blast
  obtain b4 where b4: "ba_read b3 (length s) = Inr (s, b4)" "m_position b4 = m_position b3 + length s"
    using ba.get_ahead [of b3 s "[]"] b3(2) assms(4) by auto
  have "m_position b1 = m_position b + length pre + length s"
    using ba_write_Inr [OF assms(1,2)] ba_write_Inr [OF _ assms(3)] by simp
  then show ?thesis using b2 b3 b4 n by (auto simp: reads_back_def)
qed

lemma stringF_reads_back:
  assumes "ba_inv b" "8 dvd LENGTH('a)"
    and "bind_res (writeF bo b (of_nat (length s) :: 'a::len word)) (\<lambda>b'. ba_write b' s) = Inr b1"
    and "s \<noteq> []" "length s < 2 ^ LENGTH('a)"
  shows "reads_back b b1
     (\<lambda>b. bind_res (readF bo b) (\<lambda>(l :: 'a word, b'). ba_read b' (unat l))) s"
proof -
  let ?hd = "mem_rep (m_endian b) (of_nat (length s) :: 'a word)"
  obtain b0 where b0: "ba_write b ?hd = Inr b0" "ba_write b0 s = Inr b1"
    using assms(2,3) by (auto simp: bind_res_Inr_iff writeF_wire)
  show ?thesis
  proof (rule string_reads_back [OF assms(1) b0 assms(4)])
    fix b2 assume "ba.ahead b2 (?hd @ s)" "m_endian b2 = m_endian b"
    then show "\<exists>b3. readF bo b2 = Inr (of_nat (length s) :: 'a word, b3) \<and> ba.ahead b3 s \<and>
        m_position b3 = m_position b2 + length ?hd"
      using readF_ahead [of b2 "of_nat (length s) :: 'a word" s bo] assms(2) by auto
  qed (use assms(5) in \<open>simp add: unat_of_nat_id\<close>)
qed

section \<open>Properties\<close>

text \<open>
  Every fixed-width integer and every \<open>float\<close> that is written and for which the array has room
  is read back unchanged by the matching read from the same position, which ends where the write
  ended. This holds for every host byte order and every byte order of the array.
\<close>

theorem fixed_width_round_trip:
  assumes "ba_inv b"
  shows "(fits b 1 \<longrightarrow> round_trips b (writeFint8 bo b v8) (readFint8 bo) v8 \<and>
            round_trips b (writeFuint8 bo b v8) (readFuint8 bo) v8) \<and>
     (fits b 2 \<longrightarrow> round_trips b (writeFint16 bo b v16) (readFint16 bo) v16 \<and>
            round_trips b (writeFuint16 bo b v16) (readFuint16 bo) v16) \<and>
     (fits b 4 \<longrightarrow> round_trips b (writeFint32 bo b v32) (readFint32 bo) v32 \<and>
            round_trips b (writeFuint32 bo b v32) (readFuint32 bo) v32 \<and>
            round_trips b (writeFloat bo b v32) (readFloat bo) v32) \<and>
     (fits b 8 \<longrightarrow> round_trips b (writeFint64 bo b v64) (readFint64 bo) v64 \<and>
            round_trips b (writeFuint64 bo b v64) (readFuint64 bo) v64)"
proof -
  have "writeFint8 bo = writeFuint8 bo" "readFint8 bo = readFuint8 bo"
    by (simp_all add: fun_eq_iff writeFint8_def writeFuint8_def readFint8_def readFuint8_def)
  note e8 = this
  have "writeFint16 bo = writeF bo" "writeFuint16 bo = writeF bo" "writeFint32 bo = writeF bo"
    "writeFuint32 bo = writeF bo" "writeFint64 bo = writeF bo" "writeFuint64 bo = writeF bo"
    "writeFloat bo = writeF bo"
    by (simp_all add: fun_eq_iff writeFint16_def writeFuint16_def writeFint32_def writeFuint32_def
        writeFint64_def writeFuint64_def writeFloat_def)
  note w = this
  have "readFint16 bo = readF bo" "readFuint16 bo = readF bo" "readFint32 bo = readF bo"
    "readFuint32 bo = readF bo" "readFint64 bo = readF bo" "readFuint64 bo = readF bo"
    "readFloat bo = readF bo"
    by (simp_all add: fun_eq_iff readFint16_def readFuint16_def readFint32_def readFuint32_def
        readFint64_def readFuint64_def readFloat_def)
  note r = this
  show ?thesis unfolding e8 w r
    using assms by (auto intro!: fixed8_round_trip fixed_round_trip)
qed

theorem fixed_width_round_trip_witness:
  "round_trips (ByteArray_new (\<lambda>_ _. 0) 4096)
     (writeFuint32 LITTLE_ENDIAN (ByteArray_new (\<lambda>_ _. 0) 4096) 0x01020304)
     (readFuint32 LITTLE_ENDIAN) 0x01020304"
  using fixed_width_round_trip [of "ByteArray_new (\<lambda>_ _. 0) 4096"]
  by (auto simp: ba_new_inv fits_def getCapacity_def)

text \<open>
  C18: The variable-length writers never overrun their \<open>tmp[5]\<close> and \<open>tmp[10]\<close> buffers, and when the
  array has room for the encoding, \<open>readUint32\<close> and \<open>readUint64\<close> return the value written and end
  where the write ended.
\<close>

theorem varint_round_trip:
  assumes "ba_inv b"
  shows "length (tmp_bytes32 v) \<le> 5 \<and> length (tmp_bytes64 w) \<le> 10 \<and>
     (fits b (length (tmp_bytes32 v)) \<longrightarrow> round_trips b (writeUint32 b v) (readUint32 bo) v) \<and>
     (fits b (length (tmp_bytes64 w)) \<longrightarrow> round_trips b (writeUint64 b w) (readUint64 bo) w)"
proof -
  have "round_trips b (writeUint32 b v) (readUint32 bo) v" if "fits b (length (tmp_bytes32 v))"
    unfolding writeUint32_bytes using round_tripsI [OF assms that, of "readUint32 bo" v]
      readUint32_ahead [of _ v "[]" bo] by auto
  moreover have "round_trips b (writeUint64 b w) (readUint64 bo) w" if "fits b (length (tmp_bytes64 w))"
    unfolding writeUint64_bytes using round_tripsI [OF assms that, of "readUint64 bo" w]
      readUint64_ahead [of _ w "[]" bo] by auto
  ultimately show ?thesis using tmp_bytes32_length tmp_bytes64_length by blast
qed

theorem varint_round_trip_witness:
  "round_trips (ByteArray_new (\<lambda>_ _. 0) 4096) (writeUint64 (ByteArray_new (\<lambda>_ _. 0) 4096) 300)
     (readUint64 BIG_ENDIAN) 300"
proof -
  have "length (tmp_bytes64 300) = 2"
    by (simp add: tmp_bytes64_varint varint.simps [of 300] varint.simps [of 2])
  then show ?thesis
    using varint_round_trip [of "ByteArray_new (\<lambda>_ _. 0) 4096" 0 300 BIG_ENDIAN]
    by (simp add: ba_new_inv fits_def getCapacity_def)
qed

text \<open>
  With five bytes of capacity left, \<open>writeInt32\<close> succeeds exactly for the values from
  \<open>- 2 ^ 31 + 1\<close> to \<open>2 ^ 30 - 1\<close>, and there \<open>readInt32\<close> returns the value. Outside that range
  \<open>EncodeZigzag32\<close> computes a signed overflow.
\<close>

theorem int32_behaviour:
  assumes "ba_inv b" "5 \<le> getCapacity b"
  shows "if - (2 ^ 31) < sint v \<and> sint v < 2 ^ 30
     then round_trips b (writeInt32 b v) (readInt32 bo) v
     else writeInt32 b v = Inl Signed_overflow"
proof (cases "EncodeZigzag32 v")
  case (Inl e)
  then have "\<not> (- (2 ^ 31) < sint v \<and> sint v < 2 ^ 30)" "e = Signed_overflow"
    using EncodeZigzag32_defined [of v] by (auto simp: EncodeZigzag32_def split: if_splits)
  then show ?thesis using Inl by (auto simp: writeInt32_def)
next
  case (Inr z)
  then have d: "- (2 ^ 31) < sint v \<and> sint v < 2 ^ 30" "DecodeZigzag32 z = v"
    using EncodeZigzag32_defined [of v] by (auto simp: EncodeZigzag32_decodes)
  have "round_trips b (ba_write b (tmp_bytes32 z)) (readInt32 bo) v"
  proof (rule round_tripsI [OF assms(1)])
    fix b2 assume "ba.ahead b2 (tmp_bytes32 z)"
    then show "\<exists>b3. readInt32 bo b2 = Inr (v, b3) \<and> m_position b3 = m_position b2 + length (tmp_bytes32 z)"
      using readUint32_ahead [of b2 z "[]" bo] d(2) by (auto simp: readInt32_def)
  qed (use assms(2) tmp_bytes32_length [of z] in \<open>simp add: fits_def\<close>)
  then show ?thesis using d(1) Inr by (simp add: writeInt32_def writeUint32_bytes)
qed

theorem int32_behaviour_witness:
  "round_trips (ByteArray_new (\<lambda>_ _. 0) 4096) (writeInt32 (ByteArray_new (\<lambda>_ _. 0) 4096) (-3))
     (readInt32 LITTLE_ENDIAN) (-3)"
  using int32_behaviour [of "ByteArray_new (\<lambda>_ _. 0) 4096" "-3" LITTLE_ENDIAN]
  by (simp add: ba_new_inv getCapacity_def)

text \<open>
  \<open>readInt64\<close> calls \<open>readUint32\<close>: of the zigzag code that \<open>writeInt64\<close> stored it keeps the low
  32 bits. A value comes back unchanged when its code is below \<open>2 ^ 32\<close>, but for example
  \<open>2 ^ 40\<close>, written without error, is read back as 0.
\<close>

theorem readInt64_truncates:
  assumes "ba_inv b" "10 \<le> getCapacity b" "EncodeZigzag64 v = Inr z"
  shows "\<exists>b1 b2 b3. writeInt64 b v = Inr b1 \<and> setPosition b1 (m_position b) = Inr b2 \<and>
     readInt64 bo b2 = Inr (DecodeZigzag64 (take_bit 32 z), b3) \<and>
     (unat z < 2 ^ 32 \<longrightarrow> DecodeZigzag64 (take_bit 32 z) = v) \<and>
     (v = 2 ^ 40 \<longrightarrow> DecodeZigzag64 (take_bit 32 z) = 0)"
proof -
  have "fits b (length (tmp_bytes64 z))"
    using assms(2) tmp_bytes64_length [of z] by (simp add: fits_def)
  then obtain b1 where b1: "ba_write b (tmp_bytes64 z) = Inr b1"
    using ba_write_ok [OF assms(1)] by blast
  then obtain b2 where b2: "setPosition b1 (m_position b) = Inr b2" "ba.ahead b2 (tmp_bytes64 z)"
    using ba.put_seek_ahead [OF assms(1)] by blast
  obtain b3 where b3: "readUint32 bo b2 = Inr (ucast z, b3)"
    using readUint32_wide [OF b2(2)] by blast
  have "(ucast (ucast z :: u32) :: u64) = take_bit 32 z"
    by (rule bit_word_eqI) (auto simp: bit_simps)
  then have r: "readInt64 bo b2 = Inr (DecodeZigzag64 (take_bit 32 z), b3)"
    using b3 by (simp add: readInt64_def)
  have w: "writeInt64 b v = Inr b1" using assms(3) b1 by (simp add: writeInt64_def writeUint64_bytes)
  have "DecodeZigzag64 (take_bit 32 z) = v" if "unat z < 2 ^ 32"
  proof -
    have "take_bit 32 z = z" using that
      by (metis unsigned_take_bit_eq take_bit_nat_eq_self word_unat_eq_iff)
    then show ?thesis using assms(3) by (simp add: EncodeZigzag64_decodes)
  qed
  moreover have "DecodeZigzag64 (take_bit 32 z) = 0" if "v = 2 ^ 40"
  proof -
    have "z = 2 ^ 41" using assms(3) that by (simp add: EncodeZigzag64_def split: if_splits)
    then show ?thesis by (simp add: DecodeZigzag64_def)
  qed
  ultimately show ?thesis using w b2(1) r by blast
qed

theorem readInt64_truncates_witness:
  "\<exists>b1 b2 b3. writeInt64 (ByteArray_new (\<lambda>_ _. 0) 4096) (2 ^ 40) = Inr b1 \<and>
     setPosition b1 0 = Inr b2 \<and> readInt64 LITTLE_ENDIAN b2 = Inr (0, b3)"
proof -
  have "EncodeZigzag64 (2 ^ 40) = Inr (2 ^ 41)" by (simp add: EncodeZigzag64_def)
  then show ?thesis
    using readInt64_truncates [of "ByteArray_new (\<lambda>_ _. 0) 4096" "2 ^ 40" "2 ^ 41" LITTLE_ENDIAN]
    by (auto simp: ba_new_inv getCapacity_def)
qed

text \<open>
  \<open>readBouble\<close> reads four of the eight bytes that \<open>writeDouble\<close> stored, so after a double has
  been written and the position set back to it, the read ends four bytes short of where the write
  ended, and its result has the upper 32 bits clear: the value never survives unless those are.
\<close>

theorem readBouble_short:
  assumes "ba_inv b" "fits b 8"
  shows "\<exists>b1 b2 b3 r. writeDouble bo b v = Inr b1 \<and> setPosition b1 (m_position b) = Inr b2 \<and>
     readBouble bo b2 = Inr (r, b3) \<and> m_position b3 + 4 = m_position b1 \<and> drop_bit 32 r = 0"
proof -
  let ?bs = "mem_rep (m_endian b) v"
  have wr: "writeDouble bo b v = ba_write b ?bs"
    by (simp add: writeDouble_def writeFuint64_def writeF_wire)
  obtain b1 where b1: "ba_write b ?bs = Inr b1" "m_position b1 = m_position b + 8"
    using ba_write_ok [OF assms(1), of ?bs] assms(2) by auto
  obtain b2 where b2: "setPosition b1 (m_position b) = Inr b2" "ba.ahead b2 ?bs"
      "m_position b2 = m_position b"
    using ba.put_seek_ahead [OF assms(1) b1(1)] by blast
  have "ba.ahead b2 (take 4 ?bs @ drop 4 ?bs)" "take 4 ?bs \<noteq> []" "length (take 4 ?bs) = 4"
    using b2(2) by (auto simp flip: length_0_conv)
  then obtain b3 where b3: "ba_read b2 4 = Inr (take 4 ?bs, b3)" "m_position b3 = m_position b2 + 4"
    using ba.get_ahead [of b2 "take 4 ?bs" "drop 4 ?bs"] by (auto simp del: append_take_drop_id)
  obtain x where "readFuint32 bo b2 = Inr (x, b3)"
    using b3(1) by (auto simp: readFuint32_def readF_def Let_def)
  then have "readBouble bo b2 = Inr (ucast x, b3)" by (simp add: readBouble_def)
  moreover have "drop_bit 32 (ucast x :: u64) = 0"
    by (rule bit_word_eqI) (auto simp: bit_simps dest: bit_imp_le_length)
  ultimately show ?thesis using wr b1 b2 b3 by auto
qed

theorem readBouble_short_witness:
  "\<exists>b1 b2 b3 r. writeDouble LITTLE_ENDIAN (ByteArray_new (\<lambda>_ _. 0) 4096) (2 ^ 62) = Inr b1 \<and>
     setPosition b1 0 = Inr b2 \<and> readBouble LITTLE_ENDIAN b2 = Inr (r, b3) \<and> r \<noteq> 2 ^ 62"
proof -
  have "drop_bit 32 (2 ^ 62 :: u64) \<noteq> 0" by simp
  then show ?thesis
    using readBouble_short [of "ByteArray_new (\<lambda>_ _. 0) 4096" LITTLE_ENDIAN "2 ^ 62"]
    by (fastforce simp: ba_new_inv fits_def getCapacity_def)
qed

text \<open>
  The length-prefixed string formats are read back: when \<open>writeStringF16\<close>, \<open>F32\<close>, \<open>F64\<close> or
  \<open>FVint\<close> of a non-empty string returned, the matching reader, started at the old position, returns
  the string and ends where the write ended. \<open>writeStringF16\<close> and \<open>F32\<close> need the length to be
  representable in the prefix, which the code does not check.
\<close>

theorem string_round_trip:
  assumes "ba_inv b" "s \<noteq> []" "length s < 2 ^ 64"
  shows "(writeStringF16 bo b s = Inr b1 \<and> length s < 2 ^ 16 \<longrightarrow> reads_back b b1 (readStringF16 bo) s) \<and>
     (writeStringF32 bo b s = Inr b1 \<and> length s < 2 ^ 32 \<longrightarrow> reads_back b b1 (readStringF32 bo) s) \<and>
     (writeStringF64 bo b s = Inr b1 \<longrightarrow> reads_back b b1 (readStringF64 bo) s) \<and>
     (writeStringFVint b s = Inr b1 \<longrightarrow> reads_back b b1 (readStringVint bo) s)"
proof -
  have r: "readStringF16 bo = (\<lambda>b. bind_res (readF bo b) (\<lambda>(l :: u16, b'). ba_read b' (unat l)))"
    "readStringF32 bo = (\<lambda>b. bind_res (readF bo b) (\<lambda>(l :: u32, b'). ba_read b' (unat l)))"
    "readStringF64 bo = (\<lambda>b. bind_res (readF bo b) (\<lambda>(l :: u64, b'). ba_read b' (unat l)))"
    "readStringVint bo = (\<lambda>b. bind_res (readUint64 bo b) (\<lambda>(l, b'). ba_read b' (unat l)))"
    by (simp_all add: fun_eq_iff readStringF16_def readStringF32_def readStringF64_def
        readStringVint_def readFuint16_def readFuint32_def readFuint64_def)
  have F: "reads_back b b1 (readStringF16 bo) s" if "writeStringF16 bo b s = Inr b1" "length s < 2 ^ 16"
    unfolding r using that assms
    by (intro stringF_reads_back) (simp_all add: writeStringF16_def writeFuint16_def)
  have G: "reads_back b b1 (readStringF32 bo) s" if "writeStringF32 bo b s = Inr b1" "length s < 2 ^ 32"
    unfolding r using that assms
    by (intro stringF_reads_back) (simp_all add: writeStringF32_def writeFuint32_def)
  have H: "reads_back b b1 (readStringF64 bo) s" if "writeStringF64 bo b s = Inr b1"
    unfolding r using that assms
    by (intro stringF_reads_back) (simp_all add: writeStringF64_def writeFuint64_def)
  have V: "reads_back b b1 (readStringVint bo) s" if w: "writeStringFVint b s = Inr b1"
  proof -
    let ?l = "of_nat (length s) :: u64"
    obtain b0 where b0: "ba_write b (tmp_bytes64 ?l) = Inr b0" "ba_write b0 s = Inr b1"
      using w by (auto simp: bind_res_Inr_iff writeStringFVint_def writeUint64_bytes)
    have "unat ?l = length s" using assms(3) by (simp add: unat_of_nat_id)
    then show ?thesis unfolding r
      using readUint64_ahead [of _ ?l s bo]
      by (intro string_reads_back [OF assms(1) b0 assms(2), where l = ?l]) simp_all
  qed
  show ?thesis using F G H V by blast
qed

theorem string_round_trip_witness:
  "\<exists>b1. writeStringF16 LITTLE_ENDIAN (ByteArray_new (\<lambda>_ _. 0) 4096) [104, 105] = Inr b1 \<and>
     reads_back (ByteArray_new (\<lambda>_ _. 0) 4096) b1 (readStringF16 LITTLE_ENDIAN) [104, 105]"
proof -
  let ?b = "ByteArray_new (\<lambda>_ _. 0) 4096" and ?l = "2 :: u16"
  have inv: "ba_inv ?b" by (simp add: ba_new_inv)
  have "fits ?b (length (mem_rep (m_endian ?b) ?l))"
    by (simp add: ba_new_inv fits_def getCapacity_def)
  from ba_write_ok [OF inv this] obtain b0 where b0: "ba_write ?b (mem_rep (m_endian ?b) ?l) = Inr b0"
      "ba_inv b0" "m_position b0 = 2" "m_size b0 = 2" "m_baseSize b0 = 4096"
    by (auto simp: ba_new_inv)
  have "m_capacity b0 mod 4096 = 0" "2 \<le> m_capacity b0"
    using b0 by (auto simp: ba_inv_def)
  then have "fits b0 (length [104, 105 :: u8])" using b0(3,5) by (cases "m_capacity b0 < 4096") (auto simp: fits_def getCapacity_def)
  then obtain b1 where b1: "ba_write b0 [104, 105] = Inr b1" using ba_write_ok [OF b0(2)] by blast
  have "writeStringF16 LITTLE_ENDIAN ?b [104, 105] = Inr b1"
    using b0(1) b1 by (simp add: writeStringF16_def writeFuint16_def writeF_wire)
  then show ?thesis using string_round_trip [OF inv, of "[104, 105]"] by auto
qed

end
