(* ===== verification/Std_Set.thy ===== *)
theory Std_Set
  imports Prelude
begin

text \<open>
  \<open>std::set\<close> and \<open>std::map\<close> as the sequence of their elements in iteration order. The containers of
  the standard library keep that sequence sorted by their comparator \<open>lt\<close>, applied to a key of the
  element (the element itself for a set, the first component for a map), and two elements are the
  same to the container when neither key is before the other. The locale \<open>strict_weak\<close> states what
  the standard requires of a comparator; its lemmas hold for the comparators of the repository
  (\<open>Timer::Comparator\<close>, \<open>CaseInsensitiveLess\<close>), each of which interprets the locale.
\<close>

section \<open>Operations\<close>

definition lower_bound :: "('k \<Rightarrow> 'k \<Rightarrow> bool) \<Rightarrow> ('e \<Rightarrow> 'k) \<Rightarrow> 'k \<Rightarrow> 'e list \<Rightarrow> 'e list" where
  "lower_bound lt key k xs = dropWhile (\<lambda>y. lt (key y) k) xs"

definition before_bound :: "('k \<Rightarrow> 'k \<Rightarrow> bool) \<Rightarrow> ('e \<Rightarrow> 'k) \<Rightarrow> 'k \<Rightarrow> 'e list \<Rightarrow> 'e list" where
  "before_bound lt key k xs = takeWhile (\<lambda>y. lt (key y) k) xs"

definition set_find :: "('k \<Rightarrow> 'k \<Rightarrow> bool) \<Rightarrow> ('e \<Rightarrow> 'k) \<Rightarrow> 'k \<Rightarrow> 'e list \<Rightarrow> 'e option" where
  "set_find lt key k xs =
     (case lower_bound lt key k xs of [] \<Rightarrow> None | y # ys \<Rightarrow> if lt k (key y) then None else Some y)"

text \<open>\<open>insert\<close> keeps an equivalent element that is there; \<open>assign\<close> (\<open>m[k] = v\<close>) replaces its value.\<close>

definition set_insert :: "('k \<Rightarrow> 'k \<Rightarrow> bool) \<Rightarrow> ('e \<Rightarrow> 'k) \<Rightarrow> 'e \<Rightarrow> 'e list \<Rightarrow> 'e list" where
  "set_insert lt key x xs = before_bound lt key (key x) xs @
     (case lower_bound lt key (key x) xs of
        [] \<Rightarrow> [x]
      | y # ys \<Rightarrow> if lt (key x) (key y) then x # y # ys else y # ys)"

definition map_assign :: "('k \<Rightarrow> 'k \<Rightarrow> bool) \<Rightarrow> 'k \<Rightarrow> 'v \<Rightarrow> ('k \<times> 'v) list \<Rightarrow> ('k \<times> 'v) list" where
  "map_assign lt k v xs = before_bound lt fst k xs @
     (case lower_bound lt fst k xs of
        [] \<Rightarrow> [(k, v)]
      | y # ys \<Rightarrow> if lt k (fst y) then (k, v) # y # ys else (fst y, v) # ys)"

text \<open>\<open>erase\<close> of a key: the equivalent element, if there is one, is removed.\<close>

definition set_erase :: "('k \<Rightarrow> 'k \<Rightarrow> bool) \<Rightarrow> ('e \<Rightarrow> 'k) \<Rightarrow> 'k \<Rightarrow> 'e list \<Rightarrow> 'e list" where
  "set_erase lt key k xs = before_bound lt key k xs @
     (case lower_bound lt key k xs of
        [] \<Rightarrow> []
      | y # ys \<Rightarrow> if lt k (key y) then y # ys else ys)"

definition map_lookup :: "('k \<Rightarrow> 'k \<Rightarrow> bool) \<Rightarrow> 'k \<Rightarrow> ('k \<times> 'v) list \<Rightarrow> 'v option" where
  "map_lookup lt k xs = map_option snd (set_find lt fst k xs)"

lemma bound_split: "before_bound lt key k xs @ lower_bound lt key k xs = xs"
  by (simp add: before_bound_def lower_bound_def)

lemma before_boundD: "y \<in> set (before_bound lt key k xs) \<Longrightarrow> y \<in> set xs \<and> lt (key y) k"
  by (auto simp: before_bound_def dest: set_takeWhileD)

lemma lower_bound_hd: "lower_bound lt key k xs = y # ys \<Longrightarrow> \<not> lt (key y) k"
  unfolding lower_bound_def by (metis hd_dropWhile list.sel(1) neq_Nil_conv)

section \<open>Comparators\<close>

locale strict_weak =
  fixes lt :: "'k \<Rightarrow> 'k \<Rightarrow> bool"
  assumes irrefl: "\<not> lt a a"
    and trans: "lt a b \<Longrightarrow> lt b c \<Longrightarrow> lt a c"
    and neg_trans: "\<not> lt a b \<Longrightarrow> \<not> lt b c \<Longrightarrow> \<not> lt a c"
begin

definition equiv :: "'k \<Rightarrow> 'k \<Rightarrow> bool" where
  "equiv a b \<longleftrightarrow> \<not> lt a b \<and> \<not> lt b a"

definition ordered :: "('e \<Rightarrow> 'k) \<Rightarrow> 'e list \<Rightarrow> bool" where
  "ordered key xs \<longleftrightarrow> sorted_wrt (\<lambda>x y. lt (key x) (key y)) xs"

lemma asym: "lt a b \<Longrightarrow> \<not> lt b a"
  using irrefl trans by blast

lemma equiv_refl [simp]: "equiv a a"
  by (simp add: equiv_def irrefl)

lemma equiv_sym: "equiv a b \<longleftrightarrow> equiv b a"
  by (auto simp: equiv_def)

lemma equiv_trans: "equiv a b \<Longrightarrow> equiv b c \<Longrightarrow> equiv a c"
  using neg_trans by (auto simp: equiv_def)

lemma equiv_lt: "equiv a b \<Longrightarrow> lt a c = lt b c" "equiv a b \<Longrightarrow> lt c a = lt c b"
  using neg_trans by (auto simp: equiv_def)

lemma ordered_Nil [simp]: "ordered key []"
  by (simp add: ordered_def)

lemma ordered_Cons: "ordered key (x # xs) \<longleftrightarrow> (\<forall>y\<in>set xs. lt (key x) (key y)) \<and> ordered key xs"
  by (simp add: ordered_def)

lemma ordered_append: "ordered key (xs @ ys) \<longleftrightarrow>
   ordered key xs \<and> ordered key ys \<and> (\<forall>x\<in>set xs. \<forall>y\<in>set ys. lt (key x) (key y))"
  by (auto simp: ordered_def sorted_wrt_append)

lemma ordered_distinct: "ordered key xs \<Longrightarrow> distinct xs"
  by (induction xs) (auto simp: ordered_Cons irrefl)

lemma ordered_cong: "(\<And>x. x \<in> set xs \<Longrightarrow> key x = key' x) \<Longrightarrow> ordered key xs = ordered key' xs"
  by (induction xs) (auto simp: ordered_Cons)

lemma ordered_bounds:
  assumes "ordered key xs"
  shows "ordered key (before_bound lt key k xs)" "ordered key (lower_bound lt key k xs)"
  using assms bound_split [of lt key k xs] by (metis ordered_append)+

lemma lower_bound_set:
  assumes "ordered key xs" "y \<in> set (lower_bound lt key k xs)"
  shows "\<not> lt (key y) k"
proof (cases "lower_bound lt key k xs")
  case (Cons z zs)
  then have "\<not> lt (key z) k" "ordered key (z # zs)" "y \<in> set (z # zs)"
    using lower_bound_hd [of lt key k xs] ordered_bounds(2) [OF assms(1), of k] assms(2) by auto
  then show ?thesis using trans by (auto simp: ordered_Cons)
qed (use assms(2) in simp)

text \<open>The element at the bound is the only one that can be equivalent to the key.\<close>

lemma bound_cases [consumes 1, case_names absent present]:
  assumes "ordered key xs"
  obtains (absent) "xs = before_bound lt key k xs @ lower_bound lt key k xs"
      "\<forall>y\<in>set (lower_bound lt key k xs). lt k (key y)" "\<forall>y\<in>set xs. \<not> equiv k (key y)"
      "\<forall>z zs. lower_bound lt key k xs = z # zs \<longrightarrow> lt k (key z)"
    | (present) y ys where "lower_bound lt key k xs = y # ys" "equiv k (key y)"
      "xs = before_bound lt key k xs @ y # ys" "\<forall>z\<in>set ys. lt k (key z)"
      "\<forall>z\<in>set (before_bound lt key k xs). lt (key z) k"
proof (cases "lower_bound lt key k xs")
  case Nil
  then have "xs = before_bound lt key k xs" using bound_split [of lt key k xs] by simp
  then show ?thesis using Nil before_boundD [of _ lt key k xs]
    by (intro absent) (auto simp: equiv_def)
next
  case (Cons y ys)
  have o: "ordered key (y # ys)" using ordered_bounds(2) [OF assms, of k] Cons by simp
  have eq: "xs = before_bound lt key k xs @ y # ys" using bound_split [of lt key k xs] Cons by simp
  have ny: "\<not> lt (key y) k" using lower_bound_hd [OF Cons] .
  have b: "\<forall>z\<in>set (before_bound lt key k xs). lt (key z) k"
    by (auto dest: before_boundD)
  show ?thesis
  proof (cases "lt k (key y)")
    case True
    then have l: "\<forall>z\<in>set (y # ys). lt k (key z)" using o trans by (auto simp: ordered_Cons)
    then have "\<forall>z\<in>set xs. \<not> equiv k (key z)"
      using b eq by (metis Un_iff equiv_def set_append)
    then show ?thesis using Cons eq l by (intro absent) auto
  next
    case False
    then have "equiv k (key y)" using ny by (simp add: equiv_def)
    moreover from this have "\<forall>z\<in>set ys. lt k (key z)"
      using o equiv_lt(1) [of k "key y"] by (auto simp: ordered_Cons)
    ultimately show ?thesis using Cons eq b by (intro present)
  qed
qed

lemma set_find_Some_iff:
  assumes "ordered key xs"
  shows "set_find lt key k xs = Some y \<longleftrightarrow> y \<in> set xs \<and> equiv k (key y)"
using assms
proof (cases rule: bound_cases [where k = k])
  case absent
  then show ?thesis by (auto simp: set_find_def split: list.splits)
next
  case (present z zs)
  have "y \<in> set xs \<and> equiv k (key y) \<longleftrightarrow> y = z"
    using present(2-5) by (metis Un_iff equiv_def list.set_intros(1) set_ConsD set_append)
  then show ?thesis using present by (auto simp: set_find_def equiv_def)
qed

lemma set_find_None_iff:
  assumes "ordered key xs"
  shows "set_find lt key k xs = None \<longleftrightarrow> (\<forall>y\<in>set xs. \<not> equiv k (key y))"
  using set_find_Some_iff [OF assms, of k] by (cases "set_find lt key k xs") auto

lemma set_insert_spec:
  assumes "ordered key xs"
  shows "ordered key (set_insert lt key x xs) \<and>
     set (set_insert lt key x xs) =
       (if \<exists>y\<in>set xs. equiv (key x) (key y) then set xs else insert x (set xs))"
using assms
proof (cases rule: bound_cases [where k = "key x"])
  case absent
  let ?l = "lower_bound lt key (key x) xs" and ?b = "before_bound lt key (key x) xs"
  have e: "set_insert lt key x xs = ?b @ x # ?l"
    using absent(4) by (auto simp: set_insert_def split: list.splits)
  have "ordered key (?b @ ?l)" using assms absent(1) by simp
  then have "ordered key (?b @ x # ?l)"
    using absent(2) by (auto simp: ordered_append ordered_Cons dest: before_boundD)
  moreover have "set (?b @ x # ?l) = insert x (set xs)" using absent(1) by (metis Un_insert_right list.simps(15) set_append)
  ultimately show ?thesis using absent(3) e by auto
next
  case (present z zs)
  then have "set_insert lt key x xs = xs" by (auto simp: set_insert_def equiv_def)
  moreover have "z \<in> set xs" using present(3) by (metis in_set_conv_decomp)
  ultimately show ?thesis using assms present(2) by auto
qed

lemma set_erase_spec:
  assumes "ordered key xs"
  shows "ordered key (set_erase lt key k xs) \<and>
     set (set_erase lt key k xs) = {y \<in> set xs. \<not> equiv k (key y)}"
using assms
proof (cases rule: bound_cases [where k = k])
  case absent
  then have "set_erase lt key k xs = xs" using bound_split [of lt key k xs]
    by (auto simp: set_erase_def split: list.splits)
  then show ?thesis using assms absent(3) by auto
next
  case (present z zs)
  let ?b = "before_bound lt key k xs"
  have e: "set_erase lt key k xs = ?b @ zs" using present by (auto simp: set_erase_def equiv_def)
  have "ordered key (?b @ z # zs)" using assms present(3) by simp
  then have "ordered key (?b @ zs)" by (auto simp: ordered_append ordered_Cons)
  moreover have "set (?b @ zs) = {y \<in> set xs. \<not> equiv k (key y)}"
    using present(2,4,5) by (subst (2) present(3)) (auto simp: equiv_def)
  ultimately show ?thesis using e by simp
qed

lemma map_assign_spec:
  assumes "ordered fst xs"
  shows "ordered fst (map_assign lt k v xs) \<and>
     map_lookup lt k' (map_assign lt k v xs) = (if equiv k k' then Some v else map_lookup lt k' xs)"
proof -
  let ?b = "before_bound lt fst k xs" and ?l = "lower_bound lt fst k xs"
  obtain z zs where z: "map_assign lt k v xs = ?b @ (z, v) # zs" "equiv k z"
      "\<forall>y\<in>set ?b. lt (fst y) k" "\<forall>y\<in>set zs. lt k (fst y)" "ordered fst ?b" "ordered fst zs"
      "\<And>y. y \<in> set xs \<and> \<not> equiv k (fst y) \<longleftrightarrow> y \<in> set ?b \<union> set zs"
    using assms
  proof (cases rule: bound_cases [where k = k])
    case absent
    have "map_assign lt k v xs = ?b @ (k, v) # ?l"
      using absent(4) by (auto simp: map_assign_def split: list.splits)
    then show ?thesis using absent ordered_bounds [OF assms, of k]
      by (intro that [of k ?l]) (auto dest: before_boundD simp: bound_split set_append [symmetric])
  next
    case (present y ys)
    then have e: "map_assign lt k v xs = ?b @ (fst y, v) # ys"
      by (auto simp: map_assign_def equiv_def)
    have "ordered fst ys" using ordered_bounds(2) [OF assms, of k] present(1) by (simp add: ordered_Cons)
    moreover have "u \<in> set xs \<and> \<not> equiv k (fst u) \<longleftrightarrow> u \<in> set ?b \<union> set ys" for u
      using present(2,4,5) by (subst (1) present(3)) (auto simp: equiv_def)
    ultimately show ?thesis using present e ordered_bounds(1) [OF assms, of k]
      by (intro that [of "fst y" ys]) auto
  qed
  have "lt (fst x) (fst y)" if "x \<in> set ?b" "y \<in> set zs" for x y
    using that z(3,4) trans by blast
  then have o: "ordered fst (map_assign lt k v xs)"
    using z(3-6) equiv_lt [OF z(2)] by (simp add: z(1) ordered_append ordered_Cons)
  have eq_z: "equiv k' z \<longleftrightarrow> equiv k k'" using z(2) equiv_trans equiv_sym by blast
  have mem: "u \<in> set (map_assign lt k v xs) \<longleftrightarrow> u = (z, v) \<or> u \<in> set xs \<and> \<not> equiv k (fst u)" for u
    unfolding z(7) by (auto simp: z(1))
  have eq: "equiv k' (fst u) \<Longrightarrow> equiv k (fst u) \<longleftrightarrow> equiv k k'" for u :: "'k \<times> 'a"
    using equiv_trans equiv_sym by blast
  have "set_find lt fst k' (map_assign lt k v xs) = Some u \<longleftrightarrow>
      (if equiv k k' then u = (z, v) else set_find lt fst k' xs = Some u)" for u
    unfolding set_find_Some_iff [OF o] set_find_Some_iff [OF assms] mem
    using eq [of u] z(2) eq_z by auto
  then have "set_find lt fst k' (map_assign lt k v xs) =
      (if equiv k k' then Some (z, v) else set_find lt fst k' xs)"
    by (metis option.exhaust)
  then show ?thesis using o by (simp add: map_lookup_def)
qed

lemma map_erase_lookup:
  assumes "ordered fst xs"
  shows "map_lookup lt k' (set_erase lt fst k xs) = (if equiv k k' then None else map_lookup lt k' xs)"
proof -
  note e = set_erase_spec [OF assms, of k]
  have "set_find lt fst k' (set_erase lt fst k xs) = Some u \<longleftrightarrow>
      \<not> equiv k k' \<and> set_find lt fst k' xs = Some u" for u
    unfolding set_find_Some_iff [OF assms] set_find_Some_iff [OF conjunct1 [OF e]] conjunct2 [OF e]
    using equiv_trans equiv_sym by blast
  then have "set_find lt fst k' (set_erase lt fst k xs) =
      (if equiv k k' then None else set_find lt fst k' xs)"
    by (metis option.exhaust)
  then show ?thesis by (simp add: map_lookup_def)
qed

end

end
