(* ===== verification/Timers.thy ===== *)
theory Timers
  imports Std_Set
begin

text \<open>
  The timers of \<open>mingfwq/timer.h\<close> and \<open>timer.cpp\<close>. A \<open>Timer::ptr\<close> is an address (\<open>None\<close> is the null
  pointer), the timers live in a heap indexed by addresses, and \<open>m_timers\<close> is the sequence of the
  \<open>std::set\<close> ordered by \<open>Timer::Comparator\<close>, which compares \<open>m_next\<close> and then the addresses.

  Each operation runs under the manager's write lock and is one step. \<open>GetCurrentMS()\<close> is the
  argument \<open>now\<close>, the address that \<open>new Timer\<close> returns is the argument \<open>addr\<close>, and the call of the
  virtual \<open>onTimerInsertedAtFront\<close> is a Boolean result. \<open>Timer::reset\<close> releases the lock inside
  \<open>addTimer\<close>, after the last access to the manager. A \<open>std::function\<close> is \<open>None\<close> when it is empty;
  the manager only moves them. Times are 64 bit unsigned and wrap around.
\<close>

section \<open>State\<close>

text \<open>A callback is the user's function or the \<open>std::bind\<close> of \<open>OnTime\<close> with a condition.\<close>

datatype 'f callback = Plain 'f | Bind_OnTime nat "'f option"

record 'f Timer =
  m_recurring :: bool
  m_ms :: u64
  m_next :: u64
  m_cb :: "'f callback option"

type_synonym 'f timer_heap = "nat \<Rightarrow> 'f Timer"

record 'f TimerManager =
  t_heap :: "'f timer_heap"
  m_timers :: "nat list"
  m_tickled :: bool

section \<open>Operations\<close>

definition Timer_new :: "u64 \<Rightarrow> u64 \<Rightarrow> 'f callback option \<Rightarrow> bool \<Rightarrow> 'f Timer" where
  "Timer_new now ms cb recurring =
     \<lparr>m_recurring = recurring, m_ms = ms, m_next = now + ms, m_cb = cb\<rparr>"

definition Comparator :: "'f timer_heap \<Rightarrow> nat option \<Rightarrow> nat option \<Rightarrow> bool" where
  "Comparator h lhs rhs =
     (case (lhs, rhs) of
        (None, None) \<Rightarrow> False
      | (None, Some _) \<Rightarrow> True
      | (Some _, None) \<Rightarrow> False
      | (Some l, Some r) \<Rightarrow>
          if m_next (h l) < m_next (h r) then True
          else if m_next (h l) > m_next (h r) then False
          else l < r)"

definition timers_find :: "'f TimerManager \<Rightarrow> nat \<Rightarrow> nat option" where
  "timers_find m a = set_find (Comparator (t_heap m)) Some (Some a) (m_timers m)"

definition timers_insert :: "'f TimerManager \<Rightarrow> nat \<Rightarrow> 'f TimerManager" where
  "timers_insert m a = m\<lparr>m_timers := set_insert (Comparator (t_heap m)) Some a (m_timers m)\<rparr>"

definition timers_erase :: "'f TimerManager \<Rightarrow> nat \<Rightarrow> 'f TimerManager" where
  "timers_erase m a = m\<lparr>m_timers := set_erase (Comparator (t_heap m)) Some (Some a) (m_timers m)\<rparr>"

definition TimerManager_new :: "'f timer_heap \<Rightarrow> 'f TimerManager" where
  "TimerManager_new h = \<lparr>t_heap = h, m_timers = [], m_tickled = False\<rparr>"

text \<open>\<open>cancel\<close> passes the result of \<open>find\<close> to \<open>erase\<close> unchecked: \<open>erase(end())\<close> is undefined.\<close>

definition Timer_cancel :: "'f TimerManager \<Rightarrow> nat \<Rightarrow> (bool \<times> 'f TimerManager) res" where
  "Timer_cancel m a =
     (if m_cb (t_heap m a) \<noteq> None then
        let m = m\<lparr>t_heap := (t_heap m)(a := (t_heap m a)\<lparr>m_cb := None\<rparr>)\<rparr>
        in (case timers_find m a of
              None \<Rightarrow> Inl Bad_access
            | Some it \<Rightarrow> Inr (True, timers_erase m it))
      else Inr (False, m))"

definition Timer_refresh :: "u64 \<Rightarrow> 'f TimerManager \<Rightarrow> nat \<Rightarrow> bool \<times> 'f TimerManager" where
  "Timer_refresh now m a =
     (if m_cb (t_heap m a) = None then (False, m)
      else case timers_find m a of
          None \<Rightarrow> (False, m)
        | Some it \<Rightarrow>
            let m1 = timers_erase m it;
                t = t_heap m1 a;
                m2 = m1\<lparr>t_heap := (t_heap m1)(a := t\<lparr>m_next := now + m_ms t\<rparr>)\<rparr>
            in (True, timers_insert m2 a))"

text \<open>\<open>addTimer(val, lock)\<close>: the second result is the call of \<open>onTimerInsertedAtFront\<close>.\<close>

definition addTimer_lock :: "'f TimerManager \<Rightarrow> nat \<Rightarrow> 'f TimerManager \<times> bool" where
  "addTimer_lock m val =
     (let m1 = timers_insert m val;
          at_front = (timers_find m1 val = Some (hd (m_timers m1)) \<and> \<not> m_tickled m1);
          m2 = (if at_front then m1\<lparr>m_tickled := True\<rparr> else m1)
      in (m2, at_front))"

text \<open>\<open>reset\<close> returns its Boolean, the manager and whether \<open>onTimerInsertedAtFront\<close> was called.\<close>

definition Timer_reset :: "u64 \<Rightarrow> 'f TimerManager \<Rightarrow> nat \<Rightarrow> u64 \<Rightarrow> bool \<Rightarrow> bool \<times> 'f TimerManager \<times> bool" where
  "Timer_reset now m a ms from_now =
     (if ms = m_ms (t_heap m a) \<and> \<not> from_now then (False, m, False)
      else if m_cb (t_heap m a) = None then (False, m, False)
      else case timers_find m a of
          None \<Rightarrow> (False, m, False)
        | Some it \<Rightarrow>
            let m1 = timers_erase m it;
                t = t_heap m1 a;
                start = (if from_now then now else m_next t - m_ms t);
                m2 = m1\<lparr>t_heap := (t_heap m1)(a := t\<lparr>m_ms := ms, m_next := start + ms\<rparr>)\<rparr>
            in (True, addTimer_lock m2 a))"

definition addTimer ::
  "u64 \<Rightarrow> 'f TimerManager \<Rightarrow> nat \<Rightarrow> u64 \<Rightarrow> 'f callback option \<Rightarrow> bool \<Rightarrow> 'f TimerManager \<times> bool" where
  "addTimer now m addr ms cb recurring =
     addTimer_lock (m\<lparr>t_heap := (t_heap m)(addr := Timer_new now ms cb recurring)\<rparr>) addr"

text \<open>\<open>OnTime\<close>: the function that is called, if any; \<open>lock_cond\<close> is \<open>weak_ptr::lock\<close>.\<close>

definition OnTime :: "(nat \<Rightarrow> bool) \<Rightarrow> nat \<Rightarrow> 'f option \<Rightarrow> 'f option option" where
  "OnTime lock_cond weak_cond cb = (if lock_cond weak_cond then Some cb else None)"

definition callback_call :: "(nat \<Rightarrow> bool) \<Rightarrow> 'f callback \<Rightarrow> 'f option option" where
  "callback_call lock_cond c =
     (case c of Plain f \<Rightarrow> Some (Some f) | Bind_OnTime w cb \<Rightarrow> OnTime lock_cond w cb)"

definition addConditionTimer ::
  "u64 \<Rightarrow> 'f TimerManager \<Rightarrow> nat \<Rightarrow> u64 \<Rightarrow> 'f option \<Rightarrow> nat \<Rightarrow> bool \<Rightarrow> 'f TimerManager \<times> bool" where
  "addConditionTimer now m addr ms cb weak_cond recurring =
     addTimer now m addr ms (Some (Bind_OnTime weak_cond cb)) recurring"

definition getNextTimer :: "u64 \<Rightarrow> 'f TimerManager \<Rightarrow> u64 \<times> 'f TimerManager" where
  "getNextTimer now m0 =
     (let m = m0\<lparr>m_tickled := False\<rparr>
      in (case m_timers m of
            [] \<Rightarrow> (- 1, m)
          | next # _ \<Rightarrow>
              if now \<ge> m_next (t_heap m next) then (0, m) else (m_next (t_heap m next) - now, m)))"

text \<open>
  \<open>listExpiredCb\<close>: the iterator \<open>it\<close> splits the sequence; \<open>now_addr\<close> is the address of the probe
  timer that is compared by \<open>lower_bound\<close>. The loop re-inserts the recurring timers.
\<close>

definition expire_one :: "u64 \<Rightarrow> 'f TimerManager \<Rightarrow> nat \<Rightarrow> 'f callback option \<times> 'f TimerManager" where
  "expire_one now m a =
     (let t = t_heap m a
      in (m_cb t,
          if m_recurring t then
            timers_insert (m\<lparr>t_heap := (t_heap m)(a := t\<lparr>m_next := now + m_ms t\<rparr>)\<rparr>) a
          else m\<lparr>t_heap := (t_heap m)(a := t\<lparr>m_cb := None\<rparr>)\<rparr>))"

fun expire_loop :: "u64 \<Rightarrow> nat list \<Rightarrow> 'f TimerManager \<Rightarrow> 'f callback option list \<times> 'f TimerManager" where
  "expire_loop now [] m = ([], m)"
| "expire_loop now (a # as) m =
     (let (cb, m1) = expire_one now m a; (cbs, m2) = expire_loop now as m1 in (cb # cbs, m2))"

definition expired_split :: "u64 \<Rightarrow> nat \<Rightarrow> 'f TimerManager \<Rightarrow> nat list \<times> nat list" where
  "expired_split now now_addr m =
     (let h = (t_heap m)(now_addr := \<lparr>m_recurring = False, m_ms = 0, m_next = now, m_cb = None\<rparr>);
          less = before_bound (Comparator h) Some (Some now_addr) (m_timers m);
          it = lower_bound (Comparator h) Some (Some now_addr) (m_timers m)
      in (less @ takeWhile (\<lambda>a. m_next (h a) = now) it, dropWhile (\<lambda>a. m_next (h a) = now) it))"

definition listExpiredCb ::
  "u64 \<Rightarrow> nat \<Rightarrow> 'f TimerManager \<Rightarrow> 'f callback option list \<times> 'f TimerManager" where
  "listExpiredCb now now_addr m =
     (if m_timers m = [] then ([], m)
      else let (expired, rest) = expired_split now now_addr m
           in expire_loop now expired (m\<lparr>m_timers := rest\<rparr>))"

definition hasTimer :: "'f TimerManager \<Rightarrow> bool" where
  "hasTimer m = (m_timers m \<noteq> [])"

section \<open>The comparator and the invariant\<close>

interpretation tc: strict_weak "Comparator h" for h :: "'f timer_heap"
  by unfold_locales (auto simp: Comparator_def split: option.splits if_splits)

abbreviation timers_ordered :: "'f timer_heap \<Rightarrow> nat list \<Rightarrow> bool" where
  "timers_ordered h xs \<equiv> strict_weak.ordered (Comparator h) Some xs"

text \<open>
  The set is ordered by the current deadlines, and a timer that is not in the set has an empty
  callback.
\<close>

definition timer_inv :: "'f TimerManager \<Rightarrow> bool" where
  "timer_inv m \<longleftrightarrow> timers_ordered (t_heap m) (m_timers m) \<and>
     (\<forall>a. a \<notin> set (m_timers m) \<longrightarrow> m_cb (t_heap m a) = None)"

lemma Comparator_same: "strict_weak.equiv (Comparator h) (Some a) (Some b) \<longleftrightarrow> a = b"
  by (auto simp: tc.equiv_def Comparator_def split: if_splits)

lemma Comparator_Some:
  "Comparator h (Some a) (Some b) \<longleftrightarrow>
     m_next (h a) < m_next (h b) \<or> m_next (h a) = m_next (h b) \<and> a < b"
  by (auto simp: Comparator_def)

lemma timers_ordered_cong:
  "(\<And>a. a \<in> set xs \<Longrightarrow> m_next (h a) = m_next (h' a)) \<Longrightarrow> timers_ordered h xs = timers_ordered h' xs"
  by (induction xs) (auto simp: tc.ordered_Cons Comparator_Some)

lemma timers_find_iff:
  "timers_ordered (t_heap m) (m_timers m) \<Longrightarrow>
   timers_find m a = (if a \<in> set (m_timers m) then Some a else None)"
  using tc.set_find_Some_iff [of "t_heap m" Some "m_timers m" "Some a"]
    tc.set_find_None_iff [of "t_heap m" Some "m_timers m" "Some a"]
  by (auto simp: timers_find_def Comparator_same)

lemma timers_insert_spec:
  assumes "timers_ordered (t_heap m) (m_timers m)"
  shows "timers_ordered (t_heap m) (m_timers (timers_insert m a))"
    and "set (m_timers (timers_insert m a)) = insert a (set (m_timers m))"
    and "t_heap (timers_insert m a) = t_heap m" "m_tickled (timers_insert m a) = m_tickled m"
  using tc.set_insert_spec [OF assms, of a] by (auto simp: timers_insert_def Comparator_same)

lemma timers_erase_spec:
  assumes "timers_ordered (t_heap m) (m_timers m)"
  shows "timers_ordered (t_heap m) (m_timers (timers_erase m a))"
    and "set (m_timers (timers_erase m a)) = set (m_timers m) - {a}"
    and "t_heap (timers_erase m a) = t_heap m" "m_tickled (timers_erase m a) = m_tickled m"
  using tc.set_erase_spec [OF assms, of "Some a"] by (auto simp: timers_erase_def Comparator_same)

lemma timers_ordered_hd:
  assumes "timers_ordered h (a # as)" "b \<in> set (a # as)"
  shows "m_next (h a) \<le> m_next (h b)"
  using assms by (auto simp: tc.ordered_Cons Comparator_Some)

section \<open>Expiry\<close>

text \<open>The probe's address does not matter: the split is by deadline.\<close>

lemma filter_split:
  "xs = ys @ zs \<Longrightarrow> \<forall>y\<in>set ys. P y \<Longrightarrow> \<forall>z\<in>set zs. \<not> P z \<Longrightarrow>
   filter P xs = ys \<and> filter (\<lambda>x. \<not> P x) xs = zs"
  by (simp add: filter_id_conv filter_empty_conv)

lemma expired_split_eq:
  assumes "timers_ordered (t_heap m) (m_timers m)" "now_addr \<notin> set (m_timers m)"
  shows "expired_split now now_addr m =
     (filter (\<lambda>a. m_next (t_heap m a) \<le> now) (m_timers m),
      filter (\<lambda>a. m_next (t_heap m a) > now) (m_timers m))"
proof -
  define h where "h = (t_heap m)(now_addr := \<lparr>m_recurring = False, m_ms = 0, m_next = now, m_cb = None\<rparr>)"
  let ?less = "before_bound (Comparator h) Some (Some now_addr) (m_timers m)"
  let ?it = "lower_bound (Comparator h) Some (Some now_addr) (m_timers m)"
  let ?eq = "takeWhile (\<lambda>a. m_next (h a) = now) ?it" and ?rest = "dropWhile (\<lambda>a. m_next (h a) = now) ?it"
  have hn: "m_next (h now_addr) = now" by (simp add: h_def)
  have o: "timers_ordered h (m_timers m)"
    using assms by (subst timers_ordered_cong [where h' = "t_heap m"]) (auto simp: h_def)
  have all: "m_timers m = (?less @ ?eq) @ ?rest"
    using bound_split [of "Comparator h" Some "Some now_addr" "m_timers m"] by simp
  have early: "m_next (h a) \<le> now" if "a \<in> set (?less @ ?eq)" for a
    using that before_boundD [of a "Comparator h" Some "Some now_addr" "m_timers m"]
    by (auto simp: Comparator_Some hn dest: set_takeWhileD)
  have ge: "m_next (h a) \<ge> now" if "a \<in> set ?it" for a
    using tc.lower_bound_set [OF o that] by (auto simp: Comparator_Some hn not_less_iff_gr_or_eq)
  have late: "m_next (h a) > now" if "a \<in> set ?rest" for a
  proof -
    obtain b bs where Cons: "?rest = b # bs" using \<open>a \<in> set ?rest\<close> by (cases ?rest) auto
    have "m_next (h b) \<noteq> now" "b \<in> set ?it"
      using Cons by (metis (mono_tags, lifting) hd_dropWhile list.sel(1) neq_Nil_conv)
        (metis Cons list.set_intros(1) set_dropWhileD)
    then have "m_next (h b) > now" using ge [of b] by auto
    moreover have "timers_ordered h (b # bs)"
      using o Cons all by (metis tc.ordered_append)
    ultimately show ?thesis using timers_ordered_hd [of h b bs a] that Cons by auto
  qed
  have same: "m_next (h a) = m_next (t_heap m a)" if "a \<in> set (m_timers m)" for a
    using that assms(2) by (auto simp: h_def)
  let ?P = "\<lambda>a. m_next (h a) \<le> now"
  have "filter ?P (m_timers m) = ?less @ ?eq \<and> filter (\<lambda>a. \<not> ?P a) (m_timers m) = ?rest"
    by (rule filter_split [OF all]) (use early late in \<open>auto simp: not_le\<close>)
  then have "?less @ ?eq = filter (\<lambda>a. m_next (t_heap m a) \<le> now) (m_timers m)"
    "?rest = filter (\<lambda>a. m_next (t_heap m a) > now) (m_timers m)"
    using same by (auto simp: not_le cong: filter_cong)
  then show ?thesis by (simp add: expired_split_def h_def [symmetric] Let_def)
qed

text \<open>What expiry makes of a timer.\<close>

definition after_expiry :: "u64 \<Rightarrow> 'f Timer \<Rightarrow> 'f Timer" where
  "after_expiry now t =
     (if m_recurring t then t\<lparr>m_next := now + m_ms t\<rparr> else t\<lparr>m_cb := None\<rparr>)"

lemma expire_loop_spec:
  assumes "timers_ordered (t_heap m) (m_timers m)" "distinct as" "set as \<inter> set (m_timers m) = {}"
    "expire_loop now as m = (cbs, m')"
  shows "cbs = map (\<lambda>a. m_cb (t_heap m a)) as \<and>
     timers_ordered (t_heap m') (m_timers m') \<and>
     set (m_timers m') = set (m_timers m) \<union> {a \<in> set as. m_recurring (t_heap m a)} \<and>
     t_heap m' = (\<lambda>a. if a \<in> set as then after_expiry now (t_heap m a) else t_heap m a) \<and>
     m_tickled m' = m_tickled m"
  using assms
proof (induction as arbitrary: m cbs)
  case Nil
  then show ?case by simp
next
  case (Cons a as)
  let ?t = "t_heap m a"
  obtain cb m1 where m1: "expire_one now m a = (cb, m1)" by fastforce
  obtain cs where cs: "expire_loop now as m1 = (cs, m')" "cbs = cb # cs"
    using Cons.prems(4) m1 by (auto split: prod.splits)
  let ?m0 = "m\<lparr>t_heap := (t_heap m)(a := after_expiry now ?t)\<rparr>"
  have o: "timers_ordered (t_heap ?m0) (m_timers ?m0)"
    using Cons.prems(1,3) by (subst timers_ordered_cong [where h' = "t_heap m"]) auto
  have h1: "cb = m_cb ?t" "t_heap m1 = (t_heap m)(a := after_expiry now ?t)"
      "m_tickled m1 = m_tickled m" "timers_ordered (t_heap m1) (m_timers m1)"
      "set (m_timers m1) = set (m_timers m) \<union> (if m_recurring ?t then {a} else {})"
    using m1 o timers_insert_spec [OF o, of a]
    by (auto simp: expire_one_def Let_def after_expiry_def split: if_splits)
  have dis: "set as \<inter> set (m_timers m1) = {}" using Cons.prems(2,3) h1(5) by auto
  note IH = Cons.IH [OF h1(4) _ dis cs(1)]
  have na: "a \<notin> set as" using Cons.prems(2) by simp
  have "cs = map (\<lambda>b. m_cb (t_heap m b)) as" using IH Cons.prems(2) na by (auto simp: h1(2))
  moreover have "t_heap m' = (\<lambda>b. if b \<in> set (a # as) then after_expiry now (t_heap m b) else t_heap m b)"
    using IH Cons.prems(2) na by (auto simp: h1(2) fun_eq_iff)
  moreover have "set (m_timers m') = set (m_timers m) \<union> {b \<in> set (a # as). m_recurring (t_heap m b)}"
    using IH Cons.prems(2) na h1(5) by (auto simp: h1(2))
  ultimately show ?case using IH Cons.prems(2) cs(2) h1 by auto
qed

lemma listExpiredCb_spec:
  assumes "timers_ordered (t_heap m) (m_timers m)" "now_addr \<notin> set (m_timers m)"
    "listExpiredCb now now_addr m = (cbs, m')"
  shows "cbs = map (\<lambda>a. m_cb (t_heap m a)) (filter (\<lambda>a. m_next (t_heap m a) \<le> now) (m_timers m)) \<and>
     timers_ordered (t_heap m') (m_timers m') \<and>
     set (m_timers m') =
       {a \<in> set (m_timers m). m_next (t_heap m a) > now \<or> m_recurring (t_heap m a)} \<and>
     t_heap m' = (\<lambda>a. if a \<in> set (m_timers m) \<and> m_next (t_heap m a) \<le> now
        then after_expiry now (t_heap m a) else t_heap m a) \<and>
     m_tickled m' = m_tickled m"
proof (cases "m_timers m = []")
  case True
  then show ?thesis using assms by (auto simp: listExpiredCb_def)
next
  case False
  let ?e = "filter (\<lambda>a. m_next (t_heap m a) \<le> now) (m_timers m)"
  let ?r = "filter (\<lambda>a. m_next (t_heap m a) > now) (m_timers m)"
  let ?m = "m\<lparr>m_timers := ?r\<rparr>"
  have l: "expire_loop now ?e ?m = (cbs, m')"
    using assms False by (simp add: listExpiredCb_def expired_split_eq)
  have "timers_ordered (t_heap ?m) (m_timers ?m)"
    using assms(1) by (simp add: tc.ordered_def sorted_wrt_filter)
  moreover have "distinct ?e" using tc.ordered_distinct [OF assms(1)] by simp
  moreover have "set ?e \<inter> set (m_timers ?m) = {}" by (auto simp: not_le)
  ultimately show ?thesis using expire_loop_spec [OF _ _ _ l] by (auto simp: not_le fun_eq_iff)
qed

section \<open>Invariant\<close>

lemma timer_invI:
  "timers_ordered (t_heap m) (m_timers m) \<Longrightarrow>
   (\<And>a. a \<notin> set (m_timers m) \<Longrightarrow> m_cb (t_heap m a) = None) \<Longrightarrow> timer_inv m"
  by (simp add: timer_inv_def)

text \<open>\<open>detached m a\<close>: the timer \<open>a\<close> is outside of the set, between its removal and its insertion.\<close>

definition detached :: "'f TimerManager \<Rightarrow> nat \<Rightarrow> bool" where
  "detached m a \<longleftrightarrow> timers_ordered (t_heap m) (m_timers m) \<and> a \<notin> set (m_timers m) \<and>
     (\<forall>b. b \<notin> set (m_timers m) \<longrightarrow> b \<noteq> a \<longrightarrow> m_cb (t_heap m b) = None)"

lemma detached_fresh: "timer_inv m \<Longrightarrow> a \<notin> set (m_timers m) \<Longrightarrow> detached m a"
  by (simp add: timer_inv_def detached_def)

lemma detached_erase: "timer_inv m \<Longrightarrow> detached (timers_erase m a) a"
  using timers_erase_spec [of m a] by (auto simp: timer_inv_def detached_def)

lemma detached_update: "detached m a \<Longrightarrow> detached (m\<lparr>t_heap := (t_heap m)(a := t)\<rparr>) a"
  unfolding detached_def by (subst timers_ordered_cong [where h' = "t_heap m"]) auto

lemma detached_insert:
  "detached m a \<Longrightarrow> timer_inv (timers_insert m a) \<and>
     set (m_timers (timers_insert m a)) = insert a (set (m_timers m))"
  using timers_insert_spec [of m a] by (auto simp: timer_inv_def detached_def)

lemma detached_dead: "detached m a \<Longrightarrow> m_cb (t_heap m a) = None \<Longrightarrow> timer_inv m"
  by (auto simp: timer_inv_def detached_def)

lemma timer_inv_tickled [simp]: "timer_inv (m\<lparr>m_tickled := b\<rparr>) = timer_inv m"
  by (simp add: timer_inv_def)

lemma addTimer_lock_spec:
  assumes "detached m a"
  shows "timer_inv (fst (addTimer_lock m a)) \<and>
     set (m_timers (fst (addTimer_lock m a))) = insert a (set (m_timers m)) \<and>
     t_heap (fst (addTimer_lock m a)) = t_heap m"
  using detached_insert [OF assms] timers_insert_spec(3) [of m a] assms
  by (auto simp: addTimer_lock_def Let_def detached_def)

text \<open>The notification: the new timer is before all others and none was sent since \<open>getNextTimer\<close>.\<close>

lemma addTimer_lock_front:
  assumes "detached m a"
  shows "snd (addTimer_lock m a) \<longleftrightarrow>
     \<not> m_tickled m \<and> (\<forall>b\<in>set (m_timers m). Comparator (t_heap m) (Some a) (Some b))"
    "m_tickled (fst (addTimer_lock m a)) = (m_tickled m \<or> snd (addTimer_lock m a))"
proof -
  let ?m = "timers_insert m a"
  have o: "timers_ordered (t_heap m) (m_timers ?m)" "set (m_timers ?m) = insert a (set (m_timers m))"
      "t_heap ?m = t_heap m" "m_tickled ?m = m_tickled m" "a \<notin> set (m_timers m)"
    using timers_insert_spec [of m a] assms by (auto simp: detached_def)
  obtain c cs where c: "m_timers ?m = c # cs" using o(2) by (cases "m_timers ?m") auto
  have "a = c \<longleftrightarrow> (\<forall>b\<in>set (m_timers m). Comparator (t_heap m) (Some a) (Some b))"
  proof
    assume "a = c"
    then show "\<forall>b\<in>set (m_timers m). Comparator (t_heap m) (Some a) (Some b)"
      using o c by (auto simp: tc.ordered_Cons)
  next
    assume all: "\<forall>b\<in>set (m_timers m). Comparator (t_heap m) (Some a) (Some b)"
    show "a = c"
    proof (rule ccontr)
      assume "a \<noteq> c"
      then have "c \<in> set (m_timers m)" "a \<in> set cs" using o(2) c by auto
      then show False using all o(1) c tc.asym [of "t_heap m" "Some a" "Some c"]
        by (auto simp: tc.ordered_Cons)
    qed
  qed
  moreover have "timers_find ?m a = Some a" using o by (subst timers_find_iff) auto
  ultimately show "snd (addTimer_lock m a) \<longleftrightarrow>
     \<not> m_tickled m \<and> (\<forall>b\<in>set (m_timers m). Comparator (t_heap m) (Some a) (Some b))"
    using c o(4) by (auto simp: addTimer_lock_def Let_def)
  show "m_tickled (fst (addTimer_lock m a)) = (m_tickled m \<or> snd (addTimer_lock m a))"
    using o(4) by (auto simp: addTimer_lock_def Let_def)
qed

lemma cancel_inv:
  assumes "timer_inv m"
  shows "\<exists>m'. Timer_cancel m a = Inr (m_cb (t_heap m a) \<noteq> None, m') \<and> timer_inv m' \<and>
     m_cb (t_heap m' a) = None \<and>
     set (m_timers m') = (if m_cb (t_heap m a) \<noteq> None then set (m_timers m) - {a} else set (m_timers m)) \<and>
     (\<forall>b. b \<noteq> a \<longrightarrow> t_heap m' b = t_heap m b) \<and> m_tickled m' = m_tickled m"
proof (cases "m_cb (t_heap m a) = None")
  case True
  then show ?thesis using assms by (auto simp: Timer_cancel_def)
next
  case False
  then have a: "a \<in> set (m_timers m)" using assms by (auto simp: timer_inv_def)
  let ?m = "m\<lparr>t_heap := (t_heap m)(a := (t_heap m a)\<lparr>m_cb := None\<rparr>)\<rparr>"
  have o: "timers_ordered (t_heap ?m) (m_timers ?m)"
    using assms by (subst timers_ordered_cong [where h' = "t_heap m"]) (auto simp: timer_inv_def)
  then have "timers_find ?m a = Some a" using a by (simp add: timers_find_iff)
  then have e: "Timer_cancel m a = Inr (True, timers_erase ?m a)"
    using False by (auto simp: Timer_cancel_def Let_def)
  have "timer_inv (timers_erase ?m a)"
    using timers_erase_spec [OF o, of a] assms by (auto simp: timer_inv_def)
  then show ?thesis using e False timers_erase_spec [OF o, of a] by auto
qed

lemma refresh_inv:
  assumes "timer_inv m"
  shows "timer_inv (snd (Timer_refresh now m a))"
  using assms detached_erase [OF assms, of a]
  by (auto simp: Timer_refresh_def Let_def timers_find_iff timer_inv_def [of m]
      intro!: conjunct1 [OF detached_insert] detached_update split: option.splits)

lemma reset_inv:
  assumes "timer_inv m"
  shows "timer_inv (fst (snd (Timer_reset now m a ms from_now)))"
  using assms detached_erase [OF assms, of a]
  by (auto simp: Timer_reset_def Let_def timers_find_iff timer_inv_def [of m]
      intro!: conjunct1 [OF addTimer_lock_spec] detached_update split: option.splits)

lemma addTimer_inv:
  assumes "timer_inv m" "addr \<notin> set (m_timers m)"
  shows "timer_inv (fst (addTimer now m addr ms cb recurring))"
  using addTimer_lock_spec [OF detached_update [OF detached_fresh [OF assms]]]
  by (simp add: addTimer_def)

lemma listExpiredCb_inv:
  assumes "timer_inv m" "now_addr \<notin> set (m_timers m)"
  shows "timer_inv (snd (listExpiredCb now now_addr m))"
proof -
  obtain cbs m' where r: "listExpiredCb now now_addr m = (cbs, m')" by fastforce
  have "timers_ordered (t_heap m) (m_timers m)" using assms(1) by (simp add: timer_inv_def)
  from listExpiredCb_spec [OF this assms(2) r] show ?thesis
    using assms(1) by (auto simp: r timer_inv_def after_expiry_def not_less)
qed

section \<open>Histories\<close>

text \<open>
  Any interleaving of the manager's operations, one lock-protected operation per step. The address of
  a new timer or of the probe is one that no timer of the set occupies.
\<close>

inductive timer_step :: "'f TimerManager \<Rightarrow> 'f TimerManager \<Rightarrow> bool" where
  step_add: "addr \<notin> set (m_timers m) \<Longrightarrow> timer_step m (fst (addTimer now m addr ms cb recurring))"
| step_addCondition: "addr \<notin> set (m_timers m) \<Longrightarrow>
    timer_step m (fst (addConditionTimer now m addr ms f weak_cond recurring))"
| step_cancel: "Timer_cancel m a = Inr (r, m') \<Longrightarrow> timer_step m m'"
| step_refresh: "timer_step m (snd (Timer_refresh now m a))"
| step_reset: "timer_step m (fst (snd (Timer_reset now m a ms from_now)))"
| step_next: "timer_step m (snd (getNextTimer now m))"
| step_expire: "now_addr \<notin> set (m_timers m) \<Longrightarrow> timer_step m (snd (listExpiredCb now now_addr m))"

inductive timer_reachable :: "'f TimerManager \<Rightarrow> bool" where
  reach_new: "(\<And>a. m_cb (h a) = None) \<Longrightarrow> timer_reachable (TimerManager_new h)"
| reach_step: "timer_reachable m \<Longrightarrow> timer_step m m' \<Longrightarrow> timer_reachable m'"

lemma getNextTimer_state: "snd (getNextTimer now m) = m\<lparr>m_tickled := False\<rparr>"
  by (simp add: getNextTimer_def Let_def split: list.splits)

lemma timer_step_inv:
  assumes "timer_step m m'" "timer_inv m"
  shows "timer_inv m'"
  using assms
proof (cases rule: timer_step.cases)
  case (step_cancel a r)
  then show ?thesis using cancel_inv [OF assms(2), of a] by auto
qed (auto simp: addTimer_inv addConditionTimer_def refresh_inv reset_inv getNextTimer_state
    listExpiredCb_inv)

lemma timer_reachable_inv: "timer_reachable m \<Longrightarrow> timer_inv m"
  by (induction rule: timer_reachable.induct)
    (simp add: TimerManager_new_def timer_inv_def, rule timer_step_inv)

lemma diff_le_word: "(n :: u64) < a \<Longrightarrow> a \<le> b \<Longrightarrow> a - n \<le> b - n"
  using unat_sub [of n a] unat_sub [of n b] by (simp add: word_le_nat_alt word_less_nat_alt)

section \<open>Properties\<close>

text \<open>
  C1: In every state that any sequence of timer operations can reach, the set is sorted by the
  current deadlines without duplicates although the deadlines are mutable, and \<open>Timer::cancel\<close>, on
  any timer, never passes \<open>end()\<close> to \<open>erase\<close>: it returns whether the timer was active, and
  afterwards the timer is neither in the set nor active.
\<close>

theorem timer_cancel_safe:
  assumes "timer_reachable m"
  shows "sorted_wrt (\<lambda>a b. Comparator (t_heap m) (Some a) (Some b)) (m_timers m) \<and>
     distinct (m_timers m) \<and>
     (\<exists>m'. Timer_cancel m a = Inr (m_cb (t_heap m a) \<noteq> None, m') \<and> m_cb (t_heap m' a) = None \<and>
        (m_cb (t_heap m a) \<noteq> None \<longrightarrow> set (m_timers m') = set (m_timers m) - {a}))"
proof -
  have inv: "timer_inv m" using assms by (rule timer_reachable_inv)
  then have "timers_ordered (t_heap m) (m_timers m)" by (simp add: timer_inv_def)
  then show ?thesis using cancel_inv [OF inv, of a] tc.ordered_distinct [of "t_heap m" Some "m_timers m"]
    by (auto simp: tc.ordered_def)
qed

theorem timer_cancel_safe_witness:
  "\<exists>m'. Timer_cancel (fst (addTimer 5 (TimerManager_new
        (\<lambda>_. \<lparr>m_recurring = False, m_ms = 0, m_next = 0, m_cb = None\<rparr>)) 7 10 (Some (Plain ())) False)) 7
     = Inr (True, m') \<and> m_timers m' = []"
proof -
  let ?h = "\<lambda>_ :: nat. \<lparr>m_recurring = False, m_ms = 0, m_next = 0, m_cb = None :: unit callback option\<rparr>"
  let ?m = "fst (addTimer 5 (TimerManager_new ?h) 7 10 (Some (Plain ())) False)"
  have "timer_reachable (TimerManager_new ?h)" by (rule reach_new) simp
  moreover have "timer_step (TimerManager_new ?h) ?m"
    by (rule step_add) (simp add: TimerManager_new_def)
  ultimately have r: "timer_reachable ?m" by (rule reach_step)
  have "m_timers ?m = [7]" "m_cb (t_heap ?m 7) = Some (Plain ())"
    by (simp_all add: addTimer_def addTimer_lock_def timers_insert_def set_insert_def before_bound_def
        lower_bound_def TimerManager_new_def Timer_new_def Let_def)
  then show ?thesis using timer_cancel_safe [OF r, of 7] by auto
qed

text \<open>
  C2: \<open>listExpiredCb\<close> returns the callbacks of exactly the timers whose deadline has been reached, in
  the order of their deadlines. One-shot timers among them leave the set and lose their callback;
  recurring ones stay, due \<open>m_ms\<close> after now (modulo \<open>2 ^ 64\<close>); all other timers are untouched.
\<close>

theorem listExpiredCb_behaviour:
  assumes "timer_reachable m" "now_addr \<notin> set (m_timers m)" "listExpiredCb now now_addr m = (cbs, m')"
  shows "cbs = map (\<lambda>a. m_cb (t_heap m a)) (filter (\<lambda>a. m_next (t_heap m a) \<le> now) (m_timers m)) \<and>
     sorted (map (\<lambda>a. m_next (t_heap m a)) (m_timers m)) \<and>
     set (m_timers m') = {a \<in> set (m_timers m). m_next (t_heap m a) > now \<or> m_recurring (t_heap m a)} \<and>
     (\<forall>a. t_heap m' a =
       (if a \<in> set (m_timers m) \<and> m_next (t_heap m a) \<le> now then
          if m_recurring (t_heap m a) then (t_heap m a)\<lparr>m_next := now + m_ms (t_heap m a)\<rparr>
          else (t_heap m a)\<lparr>m_cb := None\<rparr>
        else t_heap m a))"
proof -
  have o: "timers_ordered (t_heap m) (m_timers m)"
    using timer_reachable_inv [OF assms(1)] by (simp add: timer_inv_def)
  then have "sorted (map (\<lambda>a. m_next (t_heap m a)) (m_timers m))"
    by (induction "m_timers m" arbitrary: m)
      (use o in \<open>auto simp: tc.ordered_def sorted_map Comparator_Some elim!: sorted_wrt_mono_rel [rotated]\<close>)
  then show ?thesis using listExpiredCb_spec [OF o assms(2,3)] by (simp add: after_expiry_def)
qed

text \<open>
  C3: \<open>getNextTimer\<close> returns the largest \<open>uint64_t\<close> when there is no timer, and otherwise the time to
  the earliest deadline, clamped at zero: it is zero exactly when some timer is due, and no timer
  falls due before the returned time has passed.
\<close>

theorem getNextTimer_behaviour:
  assumes "timer_reachable m" "getNextTimer now m = (d, m')"
  shows "m' = m\<lparr>m_tickled := False\<rparr> \<and>
     (\<not> hasTimer m \<longrightarrow> d = 2 ^ 64 - 1) \<and>
     (hasTimer m \<longrightarrow>
        (\<exists>a\<in>set (m_timers m). d = (if m_next (t_heap m a) \<le> now then 0 else m_next (t_heap m a) - now)) \<and>
        (d = 0 \<longleftrightarrow> (\<exists>a\<in>set (m_timers m). m_next (t_heap m a) \<le> now)) \<and>
        (\<forall>a\<in>set (m_timers m). now < m_next (t_heap m a) \<longrightarrow> d \<le> m_next (t_heap m a) - now))"
proof -
  have o: "timers_ordered (t_heap m) (m_timers m)"
    using timer_reachable_inv [OF assms(1)] by (simp add: timer_inv_def)
  show ?thesis
  proof (cases "m_timers m")
    case Nil
    then show ?thesis using assms(2) by (auto simp: getNextTimer_def hasTimer_def)
  next
    case (Cons a as)
    let ?n = "m_next (t_heap m a)"
    have le: "?n \<le> m_next (t_heap m b)" if "b \<in> set (m_timers m)" for b
      using timers_ordered_hd [of "t_heap m" a as b] o that Cons by simp
    have d: "d = (if ?n \<le> now then 0 else ?n - now)" "m' = m\<lparr>m_tickled := False\<rparr>"
      using assms(2) Cons by (auto simp: getNextTimer_def Let_def split: if_splits)
    moreover have "d = 0 \<longleftrightarrow> ?n \<le> now" using d(1) by auto
    moreover have "?n \<le> now \<longleftrightarrow> (\<exists>b\<in>set (m_timers m). m_next (t_heap m b) \<le> now)"
      using le Cons by (metis list.set_intros(1) order_trans)
    moreover have "d \<le> m_next (t_heap m b) - now" if "b \<in> set (m_timers m)" "now < m_next (t_heap m b)" for b
      using diff_le_word [OF _ le [OF that(1)], of now] by (cases "?n \<le> now") (simp_all add: d(1))
    moreover have "a \<in> set (m_timers m)" "hasTimer m" using Cons by (simp_all add: hasTimer_def)
    ultimately show ?thesis by blast
  qed
qed

theorem listExpiredCb_behaviour_witness:
  "listExpiredCb 15 0 (fst (addTimer 5 (TimerManager_new
        (\<lambda>_. \<lparr>m_recurring = False, m_ms = 0, m_next = 0, m_cb = None\<rparr>)) 7 10 (Some (Plain ())) True))
     = ([Some (Plain ())], snd (listExpiredCb 15 0 (fst (addTimer 5 (TimerManager_new
        (\<lambda>_. \<lparr>m_recurring = False, m_ms = 0, m_next = 0, m_cb = None\<rparr>)) 7 10 (Some (Plain ())) True))))"
proof -
  let ?h = "\<lambda>_ :: nat. \<lparr>m_recurring = False, m_ms = 0, m_next = 0, m_cb = None :: unit callback option\<rparr>"
  let ?m = "fst (addTimer 5 (TimerManager_new ?h) 7 10 (Some (Plain ())) True)"
  obtain cbs m' where r: "listExpiredCb 15 0 ?m = (cbs, m')" by fastforce
  have reach: "timer_reachable ?m"
    by (rule reach_step [OF reach_new step_add]) (simp_all add: TimerManager_new_def)
  have e: "m_timers ?m = [7]" "t_heap ?m 7 = Timer_new 5 10 (Some (Plain ())) True"
    by (simp_all add: addTimer_def addTimer_lock_def timers_insert_def set_insert_def before_bound_def
        lower_bound_def TimerManager_new_def Let_def)
  then have "cbs = [Some (Plain ())]"
    using listExpiredCb_behaviour [OF reach _ r] by (simp add: Timer_new_def)
  then show ?thesis using r by simp
qed

theorem getNextTimer_behaviour_witness:
  "fst (getNextTimer 5 (fst (addTimer 5 (TimerManager_new
        (\<lambda>_. \<lparr>m_recurring = False, m_ms = 0, m_next = 0, m_cb = None\<rparr>)) 7 10 (Some (Plain ())) True))) = 10"
proof -
  let ?h = "\<lambda>_ :: nat. \<lparr>m_recurring = False, m_ms = 0, m_next = 0, m_cb = None :: unit callback option\<rparr>"
  let ?m = "fst (addTimer 5 (TimerManager_new ?h) 7 10 (Some (Plain ())) True)"
  obtain d m' where r: "getNextTimer 5 ?m = (d, m')" by fastforce
  have reach: "timer_reachable ?m"
    by (rule reach_step [OF reach_new step_add]) (simp_all add: TimerManager_new_def)
  have e: "m_timers ?m = [7]" "t_heap ?m 7 = Timer_new 5 10 (Some (Plain ())) True"
    by (simp_all add: addTimer_def addTimer_lock_def timers_insert_def set_insert_def before_bound_def
        lower_bound_def TimerManager_new_def Let_def)
  then show ?thesis
    using getNextTimer_behaviour [OF reach r] r by (simp add: Timer_new_def hasTimer_def)
qed

text \<open>
  C4: \<open>addTimer\<close> activates the timer with the deadline \<open>now + ms\<close> (modulo \<open>2 ^ 64\<close>) and calls
  \<open>onTimerInsertedAtFront\<close> exactly when the new timer is before all others in the set and no such
  call was made since the last \<open>getNextTimer\<close>: a waiting \<open>epoll_wait\<close> is woken whenever its timeout
  has become too long, and only once. A condition timer's callback runs only while its condition
  object is alive.
\<close>

theorem addTimer_behaviour:
  assumes "timer_reachable m" "addr \<notin> set (m_timers m)" "addTimer now m addr ms cb recurring = (m', notified)"
  shows "set (m_timers m') = insert addr (set (m_timers m)) \<and>
     m_next (t_heap m' addr) = now + ms \<and> m_cb (t_heap m' addr) = cb \<and>
     (\<forall>a. a \<noteq> addr \<longrightarrow> t_heap m' a = t_heap m a) \<and>
     (notified \<longleftrightarrow> \<not> m_tickled m \<and>
        (\<forall>a\<in>set (m_timers m). now + ms < m_next (t_heap m a) \<or> now + ms = m_next (t_heap m a) \<and> addr < a)) \<and>
     m_tickled m' = (m_tickled m \<or> notified) \<and>
     (\<forall>w f alive. cb = Some (Bind_OnTime w f) \<longrightarrow> \<not> alive w \<longrightarrow> callback_call alive (the cb) = None)"
proof -
  let ?m = "m\<lparr>t_heap := (t_heap m)(addr := Timer_new now ms cb recurring)\<rparr>"
  have d: "detached ?m addr"
    using detached_update [OF detached_fresh [OF timer_reachable_inv [OF assms(1)] assms(2)]] .
  have r: "m' = fst (addTimer_lock ?m addr)" "notified = snd (addTimer_lock ?m addr)"
    using assms(3) by (simp_all add: addTimer_def)
  have "(\<forall>b\<in>set (m_timers m). Comparator (t_heap ?m) (Some addr) (Some b)) \<longleftrightarrow>
     (\<forall>a\<in>set (m_timers m). now + ms < m_next (t_heap m a) \<or> now + ms = m_next (t_heap m a) \<and> addr < a)"
    using assms(2) by (intro ball_cong) (auto simp: Comparator_Some Timer_new_def)
  then show ?thesis using addTimer_lock_spec [OF d] addTimer_lock_front [OF d]
    by (auto simp: r Timer_new_def callback_call_def OnTime_def)
qed

theorem addTimer_behaviour_witness:
  "snd (addTimer 5 (TimerManager_new
        (\<lambda>_. \<lparr>m_recurring = False, m_ms = 0, m_next = 0, m_cb = None\<rparr>)) 7 10 (Some (Plain ())) True)"
proof -
  let ?h = "\<lambda>_ :: nat. \<lparr>m_recurring = False, m_ms = 0, m_next = 0, m_cb = None :: unit callback option\<rparr>"
  have reach: "timer_reachable (TimerManager_new ?h)" by (rule reach_new) simp
  show ?thesis
    using addTimer_behaviour [OF reach _ prod.collapse [symmetric], of 7 5 10 "Some (Plain ())" True]
    by (simp add: TimerManager_new_def)
qed

text \<open>
  The deadline wraps around: a timer added with an interval of \<open>2 ^ 64 - now\<close> or more gets a
  deadline that lies in the past, and the next \<open>listExpiredCb\<close> runs its callback at once.
\<close>

lemma addTimer_wraps:
  assumes "timer_reachable m" "addr \<notin> set (m_timers m)" "uint now + uint ms \<ge> 2 ^ 64"
    "now_addr \<notin> insert addr (set (m_timers m))"
  shows "cb \<in> set (fst (listExpiredCb now now_addr (fst (addTimer now m addr ms cb recurring))))"
proof -
  let ?m0 = "m\<lparr>t_heap := (t_heap m)(addr := Timer_new now ms cb recurring)\<rparr>"
  define m1 where "m1 = fst (addTimer now m addr ms cb recurring)"
  have d: "detached ?m0 addr"
    using detached_update [OF detached_fresh [OF timer_reachable_inv [OF assms(1)] assms(2)]] .
  have "fst (addTimer_lock ?m0 addr) = m1" by (simp add: m1_def addTimer_def)
  then have m1: "timer_inv m1" "set (m_timers m1) = insert addr (set (m_timers m))"
      "t_heap m1 addr = Timer_new now ms cb recurring"
    using addTimer_lock_spec [OF d] by simp_all
  have "now + ms \<le> now" using assms(3) uint_lt2p [of ms]
    by (simp add: word_le_def uint_plus_if' split: if_splits)
  then have "addr \<in> set (filter (\<lambda>a. m_next (t_heap m1 a) \<le> now) (m_timers m1))"
    using m1 by (simp add: Timer_new_def)
  moreover have "timers_ordered (t_heap m1) (m_timers m1)" "now_addr \<notin> set (m_timers m1)"
    using assms(4) m1(1,2) by (simp_all add: timer_inv_def)
  ultimately have "m_cb (t_heap m1 addr) \<in> set (fst (listExpiredCb now now_addr m1))"
    using listExpiredCb_spec [of m1 now_addr now "fst (listExpiredCb now now_addr m1)"
        "snd (listExpiredCb now now_addr m1)"] by auto
  then show ?thesis using m1(3) by (simp add: m1_def Timer_new_def)
qed

end
