(* ===== verification/Fiber.thy ===== *)
theory Fiber
  imports Prelude
begin

text \<open>
  The fibers of \<open>mingfwq/fiber.h\<close> and \<open>fiber.cpp\<close>, as one thread sees them. A fiber is an entry of a
  heap indexed by addresses; the thread keeps \<open>t_fiber\<close> (the current fiber), \<open>t_threadFiber\<close> (the
  thread's first fiber) and the scheduler's \<open>t_fiber\<close> of \<open>scheduler.cpp\<close>, here \<open>main_fiber\<close>.

  Contexts are modelled by what they resume: \<open>Entry e\<close> is a context prepared by \<open>makecontext\<close>, which
  starts the fiber's entry function; \<open>Saved k\<close> is one that \<open>swapcontext\<close> stored and which resumes the
  execution of the fiber \<open>k\<close>. \<open>running\<close> is the execution that is on the processor.
  \<open>swapcontext(&a->m_ctx, &b->m_ctx)\<close> stores the running execution in \<open>a\<close>, whichever it is, and
  continues with what \<open>b\<close> holds; that each fiber gets its own execution back is a theorem. The
  library calls \<open>getcontext\<close>, \<open>makecontext\<close> and \<open>swapcontext\<close> are taken to succeed. Ids are 64 bit
  counters, stack sizes and log output are left out.
\<close>

section \<open>State\<close>

text \<open>\<open>TERM_st\<close> is \<open>TERM\<close>, a reserved word here.\<close>

datatype State = INIT | HOLD | EXEC | TERM_st | READY | EXCEPT

datatype entry = MainFunc_entry | CallMainFunc_entry

datatype fctx = Entry entry | Saved nat | No_context

record 'f Fiber =
  m_id :: u64
  m_state :: State
  m_stack :: bool        \<comment> \<open>\<open>m_stack\<close> is not null\<close>
  m_ctx :: fctx
  m_fcb :: "'f option"   \<comment> \<open>\<open>m_cb\<close>\<close>

record 'f fthread =
  fibers :: "nat \<Rightarrow> 'f Fiber option"
  t_fiber :: "nat option"
  t_threadFiber :: "nat option"
  main_fiber :: "nat option"
  running :: nat
  s_fiber_id :: u64
  s_fiber_count :: u64

definition fiber_at :: "'f fthread \<Rightarrow> nat \<Rightarrow> 'f Fiber res" where
  "fiber_at th a = (case fibers th a of None \<Rightarrow> Inl Bad_access | Some f \<Rightarrow> Inr f)"

definition put_fiber :: "'f fthread \<Rightarrow> nat \<Rightarrow> 'f Fiber \<Rightarrow> 'f fthread" where
  "put_fiber th a f = th\<lparr>fibers := (fibers th)(a \<mapsto> f)\<rparr>"

definition deref :: "nat option \<Rightarrow> nat res" where
  "deref p = (case p of None \<Rightarrow> Inl Null_deref | Some a \<Rightarrow> Inr a)"

section \<open>Operations\<close>

definition GetFiberId :: "'f fthread \<Rightarrow> u64 res" where
  "GetFiberId th = (case t_fiber th of
     Some a \<Rightarrow> bind_res (fiber_at th a) (\<lambda>f. Inr (m_id f)) | None \<Rightarrow> Inr 0)"

definition SetThis :: "'f fthread \<Rightarrow> nat option \<Rightarrow> 'f fthread" where
  "SetThis th f = th\<lparr>t_fiber := f\<rparr>"

text \<open>The private constructor: the thread's first fiber, which has no stack of its own.\<close>

definition Fiber_main_new :: "'f fthread \<Rightarrow> nat \<Rightarrow> 'f fthread" where
  "Fiber_main_new th addr =
     (let f = \<lparr>m_id = 0, m_state = EXEC, m_stack = False, m_ctx = Saved (running th), m_fcb = None\<rparr>;
          th1 = SetThis (put_fiber th addr f) (Some addr)
      in th1\<lparr>s_fiber_count := s_fiber_count th1 + 1\<rparr>)"

definition Fiber_new :: "'f fthread \<Rightarrow> nat \<Rightarrow> 'f option \<Rightarrow> bool \<Rightarrow> 'f fthread" where
  "Fiber_new th addr cb use_caller =
     (let f = \<lparr>m_id = s_fiber_id th + 1, m_state = INIT, m_stack = True,
               m_ctx = Entry (if \<not> use_caller then MainFunc_entry else CallMainFunc_entry), m_fcb = cb\<rparr>
      in (put_fiber th addr f)\<lparr>s_fiber_id := s_fiber_id th + 1, s_fiber_count := s_fiber_count th + 1\<rparr>)"

definition Fiber_destroy :: "'f fthread \<Rightarrow> nat \<Rightarrow> 'f fthread res" where
  "Fiber_destroy th a =
     bind_res (fiber_at th a) (\<lambda>f.
       let th1 = th\<lparr>s_fiber_count := s_fiber_count th - 1\<rparr>
       in if m_stack f then
            if m_state f = TERM_st \<or> m_state f = EXCEPT \<or> m_state f = INIT
            then Inr (th1\<lparr>fibers := (fibers th1)(a := None)\<rparr>) else Inl Assert_failed
          else if m_fcb f \<noteq> None then Inl Assert_failed
          else if m_state f \<noteq> EXEC then Inl Assert_failed
          else let th2 = (if t_fiber th1 = Some a then SetThis th1 None else th1)
               in Inr (th2\<lparr>fibers := (fibers th2)(a := None)\<rparr>))"

definition Fiber_reset :: "'f fthread \<Rightarrow> nat \<Rightarrow> 'f option \<Rightarrow> 'f fthread res" where
  "Fiber_reset th a cb =
     bind_res (fiber_at th a) (\<lambda>f.
       if \<not> m_stack f then Inl Assert_failed
       else if \<not> (m_state f = TERM_st \<or> m_state f = INIT \<or> m_state f = EXCEPT) then Inl Assert_failed
       else Inr (put_fiber th a (f\<lparr>m_fcb := cb, m_ctx := Entry MainFunc_entry, m_state := INIT\<rparr>)))"

definition swapcontext :: "'f fthread \<Rightarrow> nat \<Rightarrow> nat \<Rightarrow> 'f fthread res" where
  "swapcontext th from to =
     bind_res (fiber_at th from) (\<lambda>ff.
       let th1 = put_fiber th from (ff\<lparr>m_ctx := Saved (running th)\<rparr>)
       in bind_res (fiber_at th1 to) (\<lambda>ft.
            case m_ctx ft of
              Entry _ \<Rightarrow> Inr (th1\<lparr>running := to\<rparr>)
            | Saved k \<Rightarrow> Inr (th1\<lparr>running := k\<rparr>)
            | No_context \<Rightarrow> Inl Bad_access))"

definition set_state :: "'f fthread \<Rightarrow> nat \<Rightarrow> State \<Rightarrow> 'f fthread res" where
  "set_state th a st = bind_res (fiber_at th a) (\<lambda>f. Inr (put_fiber th a (f\<lparr>m_state := st\<rparr>)))"

definition swapIn :: "'f fthread \<Rightarrow> nat \<Rightarrow> 'f fthread res" where
  "swapIn th this =
     (let th1 = SetThis th (Some this)
      in bind_res (fiber_at th1 this) (\<lambda>f.
           if m_state f = EXEC then Inl Assert_failed
           else bind_res (set_state th1 this EXEC) (\<lambda>th2.
             bind_res (deref (main_fiber th2)) (\<lambda>m. swapcontext th2 m this))))"

definition swapOut :: "'f fthread \<Rightarrow> nat \<Rightarrow> 'f fthread res" where
  "swapOut th this =
     (let th1 = SetThis th (main_fiber th)
      in bind_res (deref (main_fiber th1)) (\<lambda>m. swapcontext th1 this m))"

definition Fiber_call :: "'f fthread \<Rightarrow> nat \<Rightarrow> 'f fthread res" where
  "Fiber_call th this =
     bind_res (set_state (SetThis th (Some this)) this EXEC) (\<lambda>th2.
       bind_res (deref (t_threadFiber th2)) (\<lambda>m. swapcontext th2 m this))"

definition Fiber_back :: "'f fthread \<Rightarrow> nat \<Rightarrow> 'f fthread res" where
  "Fiber_back th this =
     (let th1 = SetThis th (t_threadFiber th)
      in bind_res (deref (t_threadFiber th1)) (\<lambda>m. swapcontext th1 this m))"

text \<open>\<open>GetThis\<close>: \<open>addr\<close> is where a first fiber of the thread is created, if there is none.\<close>

definition GetThis :: "'f fthread \<Rightarrow> nat \<Rightarrow> nat \<times> 'f fthread" where
  "GetThis th addr =
     (case t_fiber th of
        Some a \<Rightarrow> (a, th)
      | None \<Rightarrow> let th1 = Fiber_main_new th addr in (addr, th1\<lparr>t_threadFiber := Some addr\<rparr>))"

definition YieldToReady :: "'f fthread \<Rightarrow> nat \<Rightarrow> 'f fthread res" where
  "YieldToReady th addr =
     (let (cur, th1) = GetThis th addr
      in bind_res (set_state th1 cur READY) (\<lambda>th2. swapOut th2 cur))"

definition YieldToHold :: "'f fthread \<Rightarrow> nat \<Rightarrow> 'f fthread res" where
  "YieldToHold th addr =
     (let (cur, th1) = GetThis th addr
      in bind_res (set_state th1 cur HOLD) (\<lambda>th2. swapOut th2 cur))"

text \<open>
  The part of \<open>MainFunc\<close> after the callback; \<open>threw\<close> says whether it ended with an exception. A call of
  an empty \<open>std::function\<close> throws \<open>std::bad_function_call\<close>.
\<close>

definition finish_body :: "'f fthread \<Rightarrow> nat \<Rightarrow> bool \<Rightarrow> 'f fthread res" where
  "finish_body th cur threw =
     bind_res (fiber_at th cur) (\<lambda>f.
       if threw \<or> m_fcb f = None then set_state th cur EXCEPT
       else Inr (put_fiber th cur (f\<lparr>m_state := TERM_st, m_fcb := None\<rparr>)))"

definition MainFunc :: "'f fthread \<Rightarrow> nat \<Rightarrow> bool \<Rightarrow> 'f fthread res" where
  "MainFunc th addr threw =
     (let (cur, th1) = GetThis th addr
      in bind_res (finish_body th1 cur threw) (\<lambda>th2. swapOut th2 cur))"

definition CallMainFunc :: "'f fthread \<Rightarrow> nat \<Rightarrow> bool \<Rightarrow> 'f fthread res" where
  "CallMainFunc th addr threw =
     (let (cur, th1) = GetThis th addr
      in bind_res (finish_body th1 cur threw) (\<lambda>th2. Fiber_back th2 cur))"

definition TotalFibers :: "'f fthread \<Rightarrow> u64" where
  "TotalFibers th = s_fiber_count th"

section \<open>A worker thread\<close>

text \<open>
  A worker thread of the scheduler: its first fiber \<open>m\<close> runs \<open>Scheduler::run\<close> and is \<open>main_fiber\<close>. The
  steps are what \<open>run\<close> and the bodies of fibers do: \<open>m\<close> creates fibers, resets finished ones, gives
  way to a fiber that is neither executing nor finished, and turns a fiber that came back in another
  state into \<open>HOLD\<close>; a fiber yields or ends.
\<close>

inductive fiber_step :: "'f fthread \<Rightarrow> 'f fthread res \<Rightarrow> bool" where
  fs_new: "main_fiber th = Some (running th) \<Longrightarrow> fibers th addr = None \<Longrightarrow>
    fiber_step th (Inr (Fiber_new th addr cb False))"
| fs_reset: "main_fiber th = Some (running th) \<Longrightarrow> fibers th a = Some f \<Longrightarrow> a \<noteq> running th \<Longrightarrow>
    m_state f = TERM_st \<or> m_state f = EXCEPT \<Longrightarrow> fiber_step th (Fiber_reset th a cb)"
| fs_destroy: "main_fiber th = Some (running th) \<Longrightarrow> fibers th a = Some f \<Longrightarrow> a \<noteq> running th \<Longrightarrow>
    m_state f = TERM_st \<or> m_state f = EXCEPT \<or> m_state f = INIT \<Longrightarrow> fiber_step th (Fiber_destroy th a)"
| fs_swapIn: "main_fiber th = Some (running th) \<Longrightarrow> fibers th a = Some f \<Longrightarrow> a \<noteq> running th \<Longrightarrow>
    m_state f \<noteq> EXEC \<Longrightarrow> m_state f \<noteq> TERM_st \<Longrightarrow> m_state f \<noteq> EXCEPT \<Longrightarrow> fiber_step th (swapIn th a)"
| fs_hold: "main_fiber th = Some (running th) \<Longrightarrow> fibers th a = Some f \<Longrightarrow> a \<noteq> running th \<Longrightarrow>
    m_state f \<noteq> READY \<Longrightarrow> m_state f \<noteq> TERM_st \<Longrightarrow> m_state f \<noteq> EXCEPT \<Longrightarrow> m_state f \<noteq> INIT \<Longrightarrow>
    fiber_step th (set_state th a HOLD)"
| fs_yieldReady: "main_fiber th \<noteq> Some (running th) \<Longrightarrow> fiber_step th (YieldToReady th addr)"
| fs_yieldHold: "main_fiber th \<noteq> Some (running th) \<Longrightarrow> fiber_step th (YieldToHold th addr)"
| fs_end: "main_fiber th \<noteq> Some (running th) \<Longrightarrow> fiber_step th (MainFunc th addr threw)"

inductive fiber_reachable :: "'f fthread res \<Rightarrow> bool" where
  fr_start: "main_fiber th = Some m \<Longrightarrow> t_fiber th = Some m \<Longrightarrow> t_threadFiber th = Some m \<Longrightarrow>
    running th = m \<Longrightarrow> fibers th = [m \<mapsto> \<lparr>m_id = 0, m_state = EXEC, m_stack = False, m_ctx = Saved m, m_fcb = None\<rparr>] \<Longrightarrow>
    fiber_reachable (Inr th)"
| fr_step: "fiber_reachable (Inr th) \<Longrightarrow> fiber_step th r \<Longrightarrow> fiber_reachable r"

inductive_cases fiber_stepE: "fiber_step th r"

text \<open>
  The invariant: the current fiber is the one that runs, every fiber's context resumes its own
  execution (or starts it), and of the fibers other than \<open>m\<close> exactly the running one is \<open>EXEC\<close>.
\<close>

definition own_context :: "nat \<Rightarrow> 'f Fiber \<Rightarrow> bool" where
  "own_context a f \<longleftrightarrow> m_ctx f = Saved a \<or> m_ctx f = Entry MainFunc_entry"

definition fiber_inv :: "'f fthread \<Rightarrow> bool" where
  "fiber_inv th \<longleftrightarrow> (\<exists>m f. main_fiber th = Some m \<and> t_fiber th = Some (running th) \<and>
     fibers th m = Some f \<and> m_state f = EXEC \<and> m_ctx f = Saved m \<and> \<not> m_stack f \<and>
     running th \<in> dom (fibers th) \<and>
     (\<forall>a g. fibers th a = Some g \<longrightarrow> a \<noteq> m \<longrightarrow>
        m_stack g \<and> own_context a g \<and> (m_state g = EXEC \<longleftrightarrow> running th = a)))"

named_theorems fiber_ops

lemmas fiber_ops_defs [fiber_ops] =
  SetThis_def put_fiber_def fiber_at_def deref_def swapcontext_def set_state_def swapIn_def
  swapOut_def GetThis_def YieldToReady_def YieldToHold_def finish_body_def MainFunc_def
  Fiber_new_def Fiber_reset_def Fiber_destroy_def Let_def

lemma worker_facts:
  assumes "fiber_inv th"
  obtains m f where "main_fiber th = Some m" "t_fiber th = Some (running th)" "fibers th m = Some f"
    "m_state f = EXEC" "m_ctx f = Saved m" "\<not> m_stack f" "running th \<in> dom (fibers th)"
    "\<forall>a g. fibers th a = Some g \<longrightarrow> a \<noteq> m \<longrightarrow>
        m_stack g \<and> own_context a g \<and> (m_state g = EXEC \<longleftrightarrow> running th = a)"
  using assms unfolding fiber_inv_def by blast

lemma swapIn_ok:
  assumes "fiber_inv th" "main_fiber th = Some (running th)" "fibers th a = Some g" "a \<noteq> running th"
    "m_state g \<noteq> EXEC"
  shows "\<exists>th'. swapIn th a = Inr th' \<and> fiber_inv th' \<and> running th' = a \<and>
     fibers th' a = Some (g\<lparr>m_state := EXEC\<rparr>) \<and> main_fiber th' = main_fiber th \<and>
     (\<forall>b. b \<noteq> a \<longrightarrow> map_option m_state (fibers th' b) = map_option m_state (fibers th b))"
proof -
  obtain f where f: "fibers th (running th) = Some f" "m_state f = EXEC" "m_ctx f = Saved (running th)"
      "\<not> m_stack f"
    "\<And>b g. fibers th b = Some g \<Longrightarrow> b \<noteq> running th \<Longrightarrow> m_stack g \<and> own_context b g \<and> m_state g \<noteq> EXEC"
    using worker_facts [OF assms(1)] assms(2) by (metis option.inject)
  let ?th = "th\<lparr>fibers := (fibers th)(a \<mapsto> g\<lparr>m_state := EXEC\<rparr>, running th \<mapsto> f\<lparr>m_ctx := Saved (running th)\<rparr>),
     t_fiber := Some a, running := a\<rparr>"
  have g: "own_context a g" using f(5) assms(3,4) by blast
  have "swapIn th a = Inr ?th" using assms(2-5) f(1) g
    by (auto simp: fiber_ops own_context_def)
  moreover have "fiber_inv ?th" using f assms(2,4) g assms(3)
    by (auto simp: fiber_inv_def own_context_def)
  ultimately show ?thesis using assms f by auto
qed

text \<open>A fiber that leaves the processor in state \<open>st\<close>, with its callback replaced by \<open>cb\<close>.\<close>

lemma leave_ok:
  assumes "fiber_inv th" "main_fiber th \<noteq> Some (running th)" "st \<noteq> EXEC"
  shows "\<exists>m g th'. main_fiber th = Some m \<and> fibers th (running th) = Some g \<and>
     swapOut (put_fiber th (running th) (g\<lparr>m_state := st, m_fcb := cb\<rparr>)) (running th) = Inr th' \<and>
     fiber_inv th' \<and> running th' = m \<and> main_fiber th' = main_fiber th \<and>
     fibers th' (running th) = Some (g\<lparr>m_state := st, m_fcb := cb, m_ctx := Saved (running th)\<rparr>) \<and>
     (\<forall>b. b \<noteq> running th \<longrightarrow> fibers th' b = fibers th b)"
proof -
  obtain m f where f: "main_fiber th = Some m" "t_fiber th = Some (running th)" "fibers th m = Some f"
    "m_state f = EXEC" "m_ctx f = Saved m" "\<not> m_stack f" "running th \<in> dom (fibers th)"
    "\<forall>a g. fibers th a = Some g \<longrightarrow> a \<noteq> m \<longrightarrow>
        m_stack g \<and> own_context a g \<and> (m_state g = EXEC \<longleftrightarrow> running th = a)"
    using worker_facts [OF assms(1)] by blast
  obtain g where g: "fibers th (running th) = Some g" using f(7) by auto
  have ne: "running th \<noteq> m" using assms(2) f(1) by auto
  let ?g = "g\<lparr>m_state := st, m_fcb := cb, m_ctx := Saved (running th)\<rparr>"
  let ?th = "th\<lparr>fibers := (fibers th)(running th \<mapsto> ?g), t_fiber := Some m, running := m\<rparr>"
  have "swapOut (put_fiber th (running th) (g\<lparr>m_state := st, m_fcb := cb\<rparr>)) (running th) = Inr ?th"
    using f(1,3,5) ne by (simp add: fiber_ops)
  moreover have "fiber_inv ?th" unfolding fiber_inv_def
  proof (intro exI [of _ m] exI [of _ f] conjI allI impI)
    fix b h assume "fibers ?th b = Some h" "b \<noteq> m"
    then show "m_stack h" "own_context b h" "(m_state h = EXEC) = (running ?th = b)"
      using assms(3) f(8) g ne by (auto simp: own_context_def split: if_splits)
  qed (use f(1,3-6) ne in auto)
  ultimately show ?thesis using f(1) g by (intro exI [of _ m] exI [of _ g] exI [of _ ?th]) simp
qed

lemma yield_ok:
  assumes "fiber_inv th" "main_fiber th \<noteq> Some (running th)"
  shows "\<exists>th'. YieldToReady th addr = Inr th' \<and> fiber_inv th' \<and> Some (running th') = main_fiber th"
    and "\<exists>th'. YieldToHold th addr = Inr th' \<and> fiber_inv th' \<and> Some (running th') = main_fiber th"
    and "\<exists>th'. MainFunc th addr threw = Inr th' \<and> fiber_inv th' \<and> Some (running th') = main_fiber th"
proof -
  obtain g where g: "fibers th (running th) = Some g" and t: "t_fiber th = Some (running th)"
    using worker_facts [OF assms(1)] by (metis domD)
  have same: "g\<lparr>m_state := st, m_fcb := m_fcb g\<rparr> = g\<lparr>m_state := st\<rparr>" for st by simp
  show "\<exists>th'. YieldToReady th addr = Inr th' \<and> fiber_inv th' \<and> Some (running th') = main_fiber th"
    using leave_ok [OF assms, of READY "m_fcb g"] g t same
    by (auto simp: YieldToReady_def GetThis_def set_state_def fiber_at_def)
  show "\<exists>th'. YieldToHold th addr = Inr th' \<and> fiber_inv th' \<and> Some (running th') = main_fiber th"
    using leave_ok [OF assms, of HOLD "m_fcb g"] g t same
    by (auto simp: YieldToHold_def GetThis_def set_state_def fiber_at_def)
  show "\<exists>th'. MainFunc th addr threw = Inr th' \<and> fiber_inv th' \<and> Some (running th') = main_fiber th"
    using leave_ok [OF assms, of EXCEPT "m_fcb g"] leave_ok [OF assms, of TERM_st None] g t same
    by (auto simp: MainFunc_def GetThis_def finish_body_def set_state_def fiber_at_def)
qed

lemma fiber_step_ok:
  assumes "fiber_step th r" "fiber_inv th"
  shows "\<exists>th'. r = Inr th' \<and> fiber_inv th'"
  using assms(1)
proof (cases rule: fiber_step.cases)
  case (fs_new addr cb)
  then show ?thesis using assms(2)
    by (auto simp: fiber_ops fiber_inv_def own_context_def)
next
  case (fs_reset a f cb)
  then show ?thesis using assms(2)
    by (auto simp: fiber_ops fiber_inv_def own_context_def)
next
  case (fs_destroy a f)
  then show ?thesis using assms(2)
    by (auto simp: fiber_ops fiber_inv_def own_context_def)
next
  case (fs_swapIn a f)
  then show ?thesis using swapIn_ok [OF assms(2)] by blast
next
  case (fs_hold a f)
  then show ?thesis using assms(2)
    by (auto simp: fiber_ops fiber_inv_def own_context_def)
next
  case (fs_yieldReady addr)
  then show ?thesis using yield_ok(1) [OF assms(2)] by blast
next
  case (fs_yieldHold addr)
  then show ?thesis using yield_ok(2) [OF assms(2)] by blast
next
  case (fs_end addr threw)
  then show ?thesis using yield_ok(3) [OF assms(2)] by blast
qed

lemma fiber_reachable_ok: "fiber_reachable r \<Longrightarrow> \<exists>th. r = Inr th \<and> fiber_inv th"
proof (induction rule: fiber_reachable.induct)
  case (fr_start th m)
  then show ?case by (auto simp: fiber_inv_def)
next
  case (fr_step th r)
  then show ?case using fiber_step_ok by blast
qed

section \<open>Properties\<close>



text \<open>
  C6: Resuming and yielding are inverse: after \<open>swapIn\<close> of a fiber from the scheduling fiber, the fiber
  runs; when it then calls \<open>YieldToHold\<close>, the scheduling fiber runs again and is the current fiber,
  the fiber is in state \<open>HOLD\<close> with its own execution saved, so that the next \<open>swapIn\<close> continues it,
  and no other fiber's state has changed.
\<close>

theorem swapIn_yield_round_trip:
  assumes "fiber_reachable (Inr th)" "main_fiber th = Some (running th)" "fibers th a = Some f"
    "a \<noteq> running th"
  shows "\<exists>th1 th2 th3 f2. swapIn th a = Inr th1 \<and> running th1 = a \<and> t_fiber th1 = Some a \<and>
     YieldToHold th1 addr = Inr th2 \<and> running th2 = running th \<and> t_fiber th2 = Some (running th) \<and>
     fibers th2 a = Some f2 \<and> m_state f2 = HOLD \<and> m_ctx f2 = Saved a \<and>
     (\<forall>b. b \<noteq> a \<longrightarrow> map_option m_state (fibers th2 b) = map_option m_state (fibers th b)) \<and>
     swapIn th2 a = Inr th3 \<and> running th3 = a"
proof -
  have inv: "fiber_inv th" using fiber_reachable_ok [OF assms(1)] by auto
  have "m_state f \<noteq> EXEC" using worker_facts [OF inv] assms(2-4) by (metis option.inject)
  from swapIn_ok [OF inv assms(2-4) this] obtain th1 where th1: "swapIn th a = Inr th1" "fiber_inv th1"
      "running th1 = a" "fibers th1 a = Some (f\<lparr>m_state := EXEC\<rparr>)" "main_fiber th1 = main_fiber th"
      "\<forall>b. b \<noteq> a \<longrightarrow> map_option m_state (fibers th1 b) = map_option m_state (fibers th b)"
    by blast
  have t1: "t_fiber th1 = Some a" using worker_facts [OF th1(2)] th1(3) by metis
  have ne: "main_fiber th1 \<noteq> Some (running th1)" using th1 assms(2,4) by simp
  obtain th2 where th2: "swapOut (put_fiber th1 a (f\<lparr>m_state := HOLD\<rparr>)) a = Inr th2" "fiber_inv th2"
      "running th2 = running th" "main_fiber th2 = main_fiber th"
      "fibers th2 a = Some (f\<lparr>m_state := HOLD, m_ctx := Saved a\<rparr>)"
      "\<forall>b. b \<noteq> a \<longrightarrow> fibers th2 b = fibers th1 b"
    using leave_ok [OF th1(2) ne, of HOLD "m_fcb f"] th1(3-5) assms(2) by auto
  have y: "YieldToHold th1 addr = Inr th2"
    using th2(1) t1 th1(4) by (simp add: YieldToHold_def GetThis_def set_state_def fiber_at_def)
  have t2: "t_fiber th2 = Some (running th)" using worker_facts [OF th2(2)] th2(3) by metis
  have "main_fiber th2 = Some (running th2)" using th2 assms(2) by simp
  from swapIn_ok [OF th2(2) this th2(5)] obtain th3 where "swapIn th2 a = Inr th3" "running th3 = a"
    using assms(4) th2(3) by auto
  then show ?thesis using th1 t1 y th2 t2 by auto
qed

theorem swapIn_yield_round_trip_witness:
  "\<exists>(th :: unit fthread) th1 th2. fiber_reachable (Inr th) \<and> swapIn th 1 = Inr th1 \<and>
     YieldToHold th1 9 = Inr th2 \<and> running th2 = running th"
proof -
  let ?m = "\<lparr>m_id = 0, m_state = EXEC, m_stack = False, m_ctx = Saved 0, m_fcb = None :: unit option\<rparr>"
  let ?th0 = "\<lparr>fibers = [0 \<mapsto> ?m], t_fiber = Some 0, t_threadFiber = Some 0, main_fiber = Some 0,
    running = 0, s_fiber_id = 0, s_fiber_count = 1\<rparr>"
  let ?th1 = "Fiber_new ?th0 1 (Some ()) False"
  define th where "th = ?th1"
  have r1: "fiber_reachable (Inr th)" unfolding th_def
    by (rule fr_step [OF fr_start fs_new]) auto
  have "main_fiber th = Some (running th)" "1 \<noteq> running th"
    "fibers th 1 = Some \<lparr>m_id = 1, m_state = INIT, m_stack = True, m_ctx = Entry MainFunc_entry, m_fcb = Some ()\<rparr>"
    by (simp_all add: th_def fiber_ops)
  then show ?thesis using swapIn_yield_round_trip [OF r1, of 1 _ 9] r1 by metis
qed

end
