(* ===== verification/Scheduler.thy ===== *)
theory Scheduler
  imports Fiber "HOL-Library.Multiset"
begin

text \<open>
  The fiber scheduler of \<open>mingfwq/scheduler.h\<close> and \<open>scheduler.cpp\<close>: the queue of tasks, \<open>schedule\<close>,
  \<open>start\<close>, \<open>stop\<close>, \<open>stopping\<close> and the loop of \<open>run\<close>. The body of \<open>run\<close> is cut where other threads can
  interleave: the locked search of the queue, the dispatch of what it found, the return from a fiber
  and the follow-up. Each piece is a function on the shared scheduler, the states of the fibers and
  the thread's locals; \<open>run_step\<close> interleaves the threads. What a fiber does while it runs is left
  open: it comes back in any state that \<open>Fiber\<close> allows, and anybody may schedule tasks meanwhile.

  The calls of the virtual \<open>tickle\<close> are a Boolean result. The counters are integers; that they never
  go below zero, where \<open>size_t\<close> would wrap, is a theorem. Creating and joining the operating system
  threads is not modelled beyond their number and ids.
\<close>

section \<open>State\<close>

record 'f FiberAndThread =
  ft_fiber :: "nat option"
  ft_cb :: "'f option"
  ft_thread :: int

record 'f Scheduler =
  m_fibers :: "'f FiberAndThread list"
  m_sname :: string
  m_threads :: nat               \<comment> \<open>\<open>m_threads.size()\<close>\<close>
  m_threadIds :: "int list"
  m_rootFiber :: "nat option"
  m_threadCount :: nat
  m_activeThreadCount :: int
  m_idleThreadCount :: int
  m_stopping :: bool
  m_autoStop :: bool
  m_rootThread :: int

text \<open>The locals of \<open>run\<close> and the point it has reached.\<close>

datatype 'f phase =
    Loop_top
  | Picked "'f FiberAndThread option"   \<comment> \<open>after the locked search; \<open>is_active\<close> iff a task was found\<close>
  | In_fiber nat
  | After_fiber nat
  | In_cb nat
  | After_cb nat
  | In_idle
  | Exited

record 'f runner =
  r_tid :: int
  r_cb_fiber :: "nat option"
  r_idle_fiber :: nat
  r_phase :: "'f phase"

type_synonym fiber_states = "nat \<Rightarrow> State"

section \<open>Scheduling tasks\<close>

definition ft_empty :: "'f FiberAndThread" where
  "ft_empty = \<lparr>ft_fiber = None, ft_cb = None, ft_thread = -1\<rparr>"

definition ft_of_fiber :: "nat option \<Rightarrow> int \<Rightarrow> 'f FiberAndThread" where
  "ft_of_fiber f thr = \<lparr>ft_fiber = f, ft_cb = None, ft_thread = thr\<rparr>"

definition ft_of_cb :: "'f option \<Rightarrow> int \<Rightarrow> 'f FiberAndThread" where
  "ft_of_cb f thr = \<lparr>ft_fiber = None, ft_cb = f, ft_thread = thr\<rparr>"

definition scheduleNoLock :: "'f Scheduler \<Rightarrow> 'f FiberAndThread \<Rightarrow> bool \<times> 'f Scheduler" where
  "scheduleNoLock s ft =
     (let need_tickle = (m_fibers s = [])
      in (need_tickle,
          if ft_fiber ft \<noteq> None \<or> ft_cb ft \<noteq> None then s\<lparr>m_fibers := m_fibers s @ [ft]\<rparr> else s))"

definition schedule :: "'f Scheduler \<Rightarrow> 'f FiberAndThread \<Rightarrow> bool \<times> 'f Scheduler" where
  "schedule s ft = scheduleNoLock s ft"

fun schedule_range :: "'f Scheduler \<Rightarrow> 'f option list \<Rightarrow> bool \<times> 'f Scheduler" where
  "schedule_range s [] = (False, s)"
| "schedule_range s (cb # cbs) =
     (let (t1, s1) = scheduleNoLock s (ft_of_cb cb (-1)); (t2, s2) = schedule_range s1 cbs
      in (t1 \<or> t2, s2))"

section \<open>Life cycle\<close>

text \<open>
  The constructor: \<open>sched_this\<close> is \<open>t_scheduler\<close> (a scheduler runs on this thread already), \<open>tid\<close> the
  thread id, \<open>root\<close> the address of the new root fiber.
\<close>

definition Scheduler_new :: "nat \<Rightarrow> bool \<Rightarrow> string \<Rightarrow> bool \<Rightarrow> int \<Rightarrow> nat \<Rightarrow> 'f Scheduler res" where
  "Scheduler_new threads use_caller name sched_this tid root =
     (if \<not> threads > 0 then Inl Assert_failed
      else if use_caller then
        (if sched_this then Inl Assert_failed
         else Inr \<lparr>m_fibers = [], m_sname = name, m_threads = 0, m_threadIds = [tid],
           m_rootFiber = Some root, m_threadCount = threads - 1, m_activeThreadCount = 0,
           m_idleThreadCount = 0, m_stopping = True, m_autoStop = False, m_rootThread = tid\<rparr>)
      else Inr \<lparr>m_fibers = [], m_sname = name, m_threads = 0, m_threadIds = [],
           m_rootFiber = None, m_threadCount = threads, m_activeThreadCount = 0,
           m_idleThreadCount = 0, m_stopping = True, m_autoStop = False, m_rootThread = -1\<rparr>)"

definition Scheduler_destroy :: "'f Scheduler \<Rightarrow> unit res" where
  "Scheduler_destroy s = (if m_stopping s then Inr () else Inl Assert_failed)"

text \<open>\<open>start\<close>: \<open>ids\<close> gives the ids of the new threads.\<close>

definition Scheduler_start :: "'f Scheduler \<Rightarrow> (nat \<Rightarrow> int) \<Rightarrow> 'f Scheduler res" where
  "Scheduler_start s ids =
     (if \<not> m_stopping s then Inr s
      else let s1 = s\<lparr>m_stopping := False\<rparr>
           in if m_threads s1 \<noteq> 0 then Inl Assert_failed
              else Inr (s1\<lparr>m_threads := m_threadCount s1,
                     m_threadIds := m_threadIds s1 @ map ids [0..<m_threadCount s1]\<rparr>))"

definition Scheduler_stopping :: "'f Scheduler \<Rightarrow> bool" where
  "Scheduler_stopping s = (m_autoStop s \<and> m_stopping s \<and> m_fibers s = [] \<and> m_activeThreadCount s = 0)"

text \<open>
  \<open>stop\<close>, up to the joining of the threads: the result says whether it returned early, how many times
  it called \<open>tickle\<close> and whether it ran the root fiber. \<open>stopping\<close> is virtual: the argument \<open>stopping_v\<close>
  is the override's result for the state it is called in.
\<close>

definition Scheduler_stop ::
  "'f Scheduler \<Rightarrow> fiber_states \<Rightarrow> bool \<Rightarrow> ('f Scheduler \<Rightarrow> bool) \<Rightarrow> ('f Scheduler \<times> bool \<times> nat \<times> bool) res" where
  "Scheduler_stop s fs this_is_current stopping_v =
     (let s1 = s\<lparr>m_autoStop := True\<rparr>;
          quick = (case m_rootFiber s1 of None \<Rightarrow> False
            | Some r \<Rightarrow> m_threadCount s1 = 0 \<and> (fs r = TERM_st \<or> fs r = INIT));
          s2 = (if quick then s1\<lparr>m_stopping := True\<rparr> else s1)
      in if quick \<and> stopping_v s2 then Inr (s2, True, 0, False)
         else if (m_rootThread s2 \<noteq> -1) \<noteq> this_is_current then Inl Assert_failed
         else let s3 = s2\<lparr>m_stopping := True\<rparr>;
                  tickles = m_threadCount s3 + (if m_rootFiber s3 \<noteq> None then 1 else 0);
                  call_root = (m_rootFiber s3 \<noteq> None \<and> \<not> stopping_v s3)
              in Inr (s3\<lparr>m_threads := 0\<rparr>, False, tickles, call_root))"

section \<open>The loop of run\<close>

text \<open>
  The search under the lock: the task found, what is left of the queue and \<open>tickle_me\<close>. A task is
  passed over if it is bound to another thread or its fiber is executing.
\<close>

fun pick_loop ::
  "fiber_states \<Rightarrow> int \<Rightarrow> 'f FiberAndThread list \<Rightarrow> bool \<Rightarrow>
   ('f FiberAndThread option \<times> 'f FiberAndThread list \<times> bool) res" where
  "pick_loop fs tid [] tickle_me = Inr (None, [], tickle_me)"
| "pick_loop fs tid (it # its) tickle_me =
     (if ft_thread it \<noteq> -1 \<and> ft_thread it \<noteq> tid then
        bind_res (pick_loop fs tid its True) (\<lambda>(r, rest, t). Inr (r, it # rest, t))
      else if ft_fiber it = None \<and> ft_cb it = None then Inl Assert_failed
      else if (case ft_fiber it of Some f \<Rightarrow> fs f = EXEC | None \<Rightarrow> False) then
        bind_res (pick_loop fs tid its tickle_me) (\<lambda>(r, rest, t). Inr (r, it # rest, t))
      else Inr (Some it, its, tickle_me \<or> its \<noteq> []))"

definition run_pick ::
  "'f Scheduler \<Rightarrow> fiber_states \<Rightarrow> 'f runner \<Rightarrow> ('f Scheduler \<times> 'f runner \<times> bool) res" where
  "run_pick s fs r =
     bind_res (pick_loop fs (r_tid r) (m_fibers s) False) (\<lambda>(found, rest, tickle_me).
       Inr (s\<lparr>m_fibers := rest,
              m_activeThreadCount := m_activeThreadCount s + (if found \<noteq> None then 1 else 0)\<rparr>,
            r\<lparr>r_phase := Picked found\<rparr>, tickle_me))"

text \<open>
  The dispatch: \<open>swapIn\<close> of the task's fiber, of the thread's fiber for callbacks (reused after
  \<open>Fiber::reset\<close>, or new at \<open>addr\<close>), or of the idle fiber.
\<close>

definition run_dispatch ::
  "'f Scheduler \<Rightarrow> fiber_states \<Rightarrow> 'f runner \<Rightarrow> 'f FiberAndThread option \<Rightarrow> nat \<Rightarrow>
   ('f Scheduler \<times> fiber_states \<times> 'f runner) res" where
  "run_dispatch s fs r found addr =
     (let ft = (case found of Some t \<Rightarrow> t | None \<Rightarrow> ft_empty);
          live = (case ft_fiber ft of Some f \<Rightarrow> fs f \<noteq> TERM_st \<and> fs f \<noteq> EXCEPT | None \<Rightarrow> False)
      in if live then
           let f = the (ft_fiber ft)
           in if fs f = EXEC then Inl Assert_failed
              else Inr (s, fs(f := EXEC), r\<lparr>r_phase := In_fiber f\<rparr>)
         else if ft_cb ft \<noteq> None then
           (case r_cb_fiber r of
              Some g \<Rightarrow>
                if fs g = TERM_st \<or> fs g = INIT \<or> fs g = EXCEPT
                then Inr (s, fs(g := EXEC), r\<lparr>r_phase := In_cb g\<rparr>) else Inl Assert_failed
            | None \<Rightarrow> Inr (s, fs(addr := EXEC), r\<lparr>r_cb_fiber := Some addr, r_phase := In_cb addr\<rparr>))
         else if found \<noteq> None then
           Inr (s\<lparr>m_activeThreadCount := m_activeThreadCount s - 1\<rparr>, fs, r\<lparr>r_phase := Loop_top\<rparr>)
         else if fs (r_idle_fiber r) = TERM_st then Inr (s, fs, r\<lparr>r_phase := Exited\<rparr>)
         else if fs (r_idle_fiber r) = EXEC then Inl Assert_failed
         else Inr (s\<lparr>m_idleThreadCount := m_idleThreadCount s + 1\<rparr>, fs(r_idle_fiber r := EXEC),
                   r\<lparr>r_phase := In_idle\<rparr>))"

text \<open>\<open>swapIn\<close> has returned: the counter goes down before the fiber's state is looked at.\<close>

definition run_back :: "'f Scheduler \<Rightarrow> 'f runner \<Rightarrow> 'f Scheduler \<times> 'f runner" where
  "run_back s r =
     (case r_phase r of
        In_fiber f \<Rightarrow> (s\<lparr>m_activeThreadCount := m_activeThreadCount s - 1\<rparr>, r\<lparr>r_phase := After_fiber f\<rparr>)
      | In_cb g \<Rightarrow> (s\<lparr>m_activeThreadCount := m_activeThreadCount s - 1\<rparr>, r\<lparr>r_phase := After_cb g\<rparr>)
      | _ \<Rightarrow> (s, r))"

definition run_after ::
  "'f Scheduler \<Rightarrow> fiber_states \<Rightarrow> 'f runner \<Rightarrow> 'f Scheduler \<times> fiber_states \<times> 'f runner \<times> bool" where
  "run_after s fs r =
     (case r_phase r of
        After_fiber f \<Rightarrow>
          if fs f = READY then
            let (t, s1) = schedule s (ft_of_fiber (Some f) (-1)) in (s1, fs, r\<lparr>r_phase := Loop_top\<rparr>, t)
          else if fs f \<noteq> TERM_st \<and> fs f \<noteq> EXCEPT then (s, fs(f := HOLD), r\<lparr>r_phase := Loop_top\<rparr>, False)
          else (s, fs, r\<lparr>r_phase := Loop_top\<rparr>, False)
      | After_cb g \<Rightarrow>
          if fs g = READY then
            let (t, s1) = schedule s (ft_of_fiber (Some g) (-1))
            in (s1, fs, r\<lparr>r_cb_fiber := None, r_phase := Loop_top\<rparr>, t)
          else if fs g = TERM_st \<or> fs g = EXCEPT then (s, fs(g := INIT), r\<lparr>r_phase := Loop_top\<rparr>, False)
          else (s, fs(g := HOLD), r\<lparr>r_cb_fiber := None, r_phase := Loop_top\<rparr>, False)
      | In_idle \<Rightarrow>
          (s\<lparr>m_idleThreadCount := m_idleThreadCount s - 1\<rparr>,
           if fs (r_idle_fiber r) \<noteq> TERM_st \<and> fs (r_idle_fiber r) \<noteq> EXCEPT
           then fs(r_idle_fiber r := HOLD) else fs, r\<lparr>r_phase := Loop_top\<rparr>, False)
      | _ \<Rightarrow> (s, fs, r, False))"

text \<open>\<open>Scheduler::idle\<close>: one turn of its loop; it ends (the fiber terminates) when stopping.\<close>

definition Scheduler_idle :: "bool \<Rightarrow> State" where
  "Scheduler_idle stopping_v = (if stopping_v then TERM_st else HOLD)"

section \<open>The search\<close>

definition eligible :: "fiber_states \<Rightarrow> int \<Rightarrow> 'f FiberAndThread \<Rightarrow> bool" where
  "eligible fs tid t \<longleftrightarrow> (ft_thread t = -1 \<or> ft_thread t = tid) \<and>
     (\<forall>f. ft_fiber t = Some f \<longrightarrow> fs f \<noteq> EXEC)"

definition proper :: "'f FiberAndThread \<Rightarrow> bool" where
  "proper t \<longleftrightarrow> ft_fiber t \<noteq> None \<or> ft_cb t \<noteq> None"

definition bound_elsewhere :: "int \<Rightarrow> 'f FiberAndThread \<Rightarrow> bool" where
  "bound_elsewhere tid t \<longleftrightarrow> ft_thread t \<noteq> -1 \<and> ft_thread t \<noteq> tid"

text \<open>The specification of the search: the first eligible task, if there is one, is taken out.\<close>

definition pick_result ::
  "fiber_states \<Rightarrow> int \<Rightarrow> 'f FiberAndThread list \<Rightarrow> bool \<Rightarrow>
   'f FiberAndThread option \<Rightarrow> 'f FiberAndThread list \<Rightarrow> bool \<Rightarrow> bool" where
  "pick_result fs tid q tk0 found rest tk \<longleftrightarrow>
     (case found of
        None \<Rightarrow> rest = q \<and> (\<forall>t\<in>set q. \<not> eligible fs tid t) \<and>
          tk = (tk0 \<or> (\<exists>t\<in>set q. bound_elsewhere tid t))
      | Some t \<Rightarrow> \<exists>pre post. q = pre @ t # post \<and> rest = pre @ post \<and> eligible fs tid t \<and>
          (\<forall>u\<in>set pre. \<not> eligible fs tid u) \<and>
          tk = (tk0 \<or> post \<noteq> [] \<or> (\<exists>u\<in>set pre. bound_elsewhere tid u)))"

lemma pick_result_SomeI:
  assumes "q = pre @ t # post" "rest = pre @ post" "eligible fs tid t"
    "\<forall>u\<in>set pre. \<not> eligible fs tid u"
    "tk = (tk0 \<or> post \<noteq> [] \<or> (\<exists>u\<in>set pre. bound_elsewhere tid u))"
  shows "pick_result fs tid q tk0 (Some t) rest tk"
  unfolding pick_result_def option.case using assms by blast

lemma pick_result_skip:
  assumes "pick_result fs tid its (tk0 \<or> bound_elsewhere tid it) found rest tk" "\<not> eligible fs tid it"
  shows "pick_result fs tid (it # its) tk0 found (it # rest) tk"
proof (cases found)
  case None
  then show ?thesis using assms by (auto simp: pick_result_def)
next
  case (Some t)
  then obtain pre post where "its = pre @ t # post" "rest = pre @ post" "eligible fs tid t"
      "\<forall>u\<in>set pre. \<not> eligible fs tid u"
      "tk = (tk0 \<or> bound_elsewhere tid it \<or> post \<noteq> [] \<or> (\<exists>u\<in>set pre. bound_elsewhere tid u))"
    using assms(1) by (auto simp: pick_result_def)
  then show ?thesis unfolding Some using assms(2)
    by (intro pick_result_SomeI [of _ "it # pre" _ post]) auto
qed

lemma pick_loop_spec:
  assumes "\<forall>t\<in>set q. proper t"
  shows "\<exists>found rest tk. pick_loop fs tid q tk0 = Inr (found, rest, tk) \<and>
     pick_result fs tid q tk0 found rest tk"
  using assms
proof (induction q arbitrary: tk0)
  case Nil
  then show ?case by (simp add: pick_result_def)
next
  case (Cons it its)
  then have its: "\<forall>t\<in>set its. proper t" by simp
  consider (other) "bound_elsewhere tid it"
    | (busy) f where "\<not> bound_elsewhere tid it" "ft_fiber it = Some f" "fs f = EXEC"
    | (take) "eligible fs tid it"
    unfolding eligible_def bound_elsewhere_def by blast
  then show ?case
  proof cases
    case other
    then have "\<not> eligible fs tid it" by (auto simp: eligible_def bound_elsewhere_def)
    with other Cons.IH [OF its, of True] pick_result_skip [of fs tid its tk0 it] show ?thesis
      by (auto simp: bound_elsewhere_def)
  next
    case busy
    then have "\<not> eligible fs tid it" by (auto simp: eligible_def)
    with busy Cons.IH [OF its, of tk0] pick_result_skip [of fs tid its tk0 it] show ?thesis
      by (auto simp: bound_elsewhere_def)
  next
    case take
    then have "pick_loop fs tid (it # its) tk0 = Inr (Some it, its, tk0 \<or> its \<noteq> [])"
      using Cons.prems by (auto simp: eligible_def proper_def split: option.splits)
    moreover have "pick_result fs tid (it # its) tk0 (Some it) its (tk0 \<or> its \<noteq> [])"
      using take by (intro pick_result_SomeI [of _ "[]" _ its]) auto
    ultimately show ?thesis by blast
  qed
qed

section \<open>All threads together\<close>

text \<open>
  \<open>w_n\<close> threads run \<open>Scheduler::run\<close>. Two history variables record every task that entered the queue
  and every task that a thread took out of it.
\<close>

record 'f world =
  w_sch :: "'f Scheduler"
  w_fs :: fiber_states
  w_n :: nat
  w_run :: "nat \<Rightarrow> 'f runner"
  w_log :: "'f FiberAndThread multiset"
  w_taken :: "'f FiberAndThread multiset"

definition added :: "'f Scheduler \<Rightarrow> 'f Scheduler \<Rightarrow> 'f FiberAndThread multiset" where
  "added s s' = mset (m_fibers s') - mset (m_fibers s)"

definition taken_of :: "'f phase \<Rightarrow> 'f FiberAndThread multiset" where
  "taken_of p = (case p of Picked (Some t) \<Rightarrow> {#t#} | _ \<Rightarrow> {#})"

inductive run_step :: "'f world \<Rightarrow> 'f world res \<Rightarrow> bool" where
  rs_schedule: "schedule (w_sch w) ft = (t, s') \<Longrightarrow>
    run_step w (Inr (w\<lparr>w_sch := s', w_log := w_log w + added (w_sch w) s'\<rparr>))"
| rs_pick: "i < w_n w \<Longrightarrow> r_phase (w_run w i) = Loop_top \<Longrightarrow>
    run_step w (bind_res (run_pick (w_sch w) (w_fs w) (w_run w i)) (\<lambda>(s', r', t).
      Inr (w\<lparr>w_sch := s', w_run := (w_run w)(i := r'), w_taken := w_taken w + taken_of (r_phase r')\<rparr>)))"
| rs_dispatch: "i < w_n w \<Longrightarrow> r_phase (w_run w i) = Picked found \<Longrightarrow>
    run_step w (bind_res (run_dispatch (w_sch w) (w_fs w) (w_run w i) found addr) (\<lambda>(s', fs', r').
      Inr (w\<lparr>w_sch := s', w_fs := fs', w_run := (w_run w)(i := r')\<rparr>)))"
| rs_mark: "i < w_n w \<Longrightarrow> r_phase (w_run w i) = In_fiber f \<or> r_phase (w_run w i) = In_cb f \<Longrightarrow> st \<noteq> INIT \<Longrightarrow>
    run_step w (Inr (w\<lparr>w_fs := (w_fs w)(f := st)\<rparr>))"
| rs_back: "i < w_n w \<Longrightarrow> run_back (w_sch w) (w_run w i) = (s', r') \<Longrightarrow>
    run_step w (Inr (w\<lparr>w_sch := s', w_run := (w_run w)(i := r')\<rparr>))"
| rs_idle: "i < w_n w \<Longrightarrow> r_phase (w_run w i) = In_idle \<Longrightarrow>
    run_step w (Inr (w\<lparr>w_fs := (w_fs w)(r_idle_fiber (w_run w i) := Scheduler_idle b)\<rparr>))"
| rs_after: "i < w_n w \<Longrightarrow> run_after (w_sch w) (w_fs w) (w_run w i) = (s', fs', r', t) \<Longrightarrow>
    run_step w (Inr (w\<lparr>w_sch := s', w_fs := fs', w_run := (w_run w)(i := r'),
      w_log := w_log w + added (w_sch w) s'\<rparr>))"
| rs_stop: "run_step w (Inr (w\<lparr>w_sch := (w_sch w)\<lparr>m_autoStop := True, m_stopping := True\<rparr>\<rparr>))"

inductive run_reachable :: "'f world \<Rightarrow> bool" where
  rr_start: "m_fibers (w_sch w) = [] \<Longrightarrow> m_activeThreadCount (w_sch w) = 0 \<Longrightarrow>
    m_idleThreadCount (w_sch w) = 0 \<Longrightarrow> (\<And>i. r_phase (w_run w i) = Loop_top) \<Longrightarrow>
    w_log w = {#} \<Longrightarrow> w_taken w = {#} \<Longrightarrow> run_reachable w"
| rr_step: "run_reachable w \<Longrightarrow> run_step w (Inr w') \<Longrightarrow> run_reachable w'"

definition is_active :: "'f phase \<Rightarrow> bool" where
  "is_active p = (case p of Picked (Some _) \<Rightarrow> True | In_fiber _ \<Rightarrow> True | In_cb _ \<Rightarrow> True | _ \<Rightarrow> False)"

lemma is_active_simps [simp]:
  "\<not> is_active Loop_top" "is_active (Picked found) \<longleftrightarrow> found \<noteq> None" "is_active (In_fiber f)"
  "\<not> is_active (After_fiber f)" "is_active (In_cb f)" "\<not> is_active (After_cb f)"
  "\<not> is_active In_idle" "\<not> is_active Exited"
  by (auto simp: is_active_def split: option.splits)

definition count_in :: "('f phase \<Rightarrow> bool) \<Rightarrow> nat \<Rightarrow> (nat \<Rightarrow> 'f runner) \<Rightarrow> int" where
  "count_in P n g = int (card {i. i < n \<and> P (r_phase (g i))})"

lemma count_in_update [simp]:
  assumes "i < n"
  shows "count_in P n (g(i := r)) =
     count_in P n g - (if P (r_phase (g i)) then 1 else 0) + (if P (r_phase r) then 1 else 0)"
proof -
  let ?A = "{j. j < n \<and> j \<noteq> i \<and> P (r_phase (g j))}"
  have split: "{j. j < n \<and> P (r_phase (h j))} =
      {j. j < n \<and> j \<noteq> i \<and> P (r_phase (h j))} \<union> (if P (r_phase (h i)) then {i} else {})" for h :: "nat \<Rightarrow> 'a runner"
    using assms by auto
  have card: "card (?A \<union> {i}) = card ?A + 1" by (subst card_Un_disjoint) auto
  have "{j. j < n \<and> j \<noteq> i \<and> P (r_phase ((g(i := r)) j))} = ?A" by auto
  then show ?thesis using card split [of g] split [of "g(i := r)"] by (simp add: count_in_def)
qed

definition threads_in :: "('f phase \<Rightarrow> bool) \<Rightarrow> 'f world \<Rightarrow> int" where
  "threads_in P w = count_in P (w_n w) (w_run w)"

definition sched_inv :: "'f world \<Rightarrow> bool" where
  "sched_inv w \<longleftrightarrow>
     m_activeThreadCount (w_sch w) = threads_in is_active w \<and>
     m_idleThreadCount (w_sch w) = threads_in (\<lambda>p. p = In_idle) w \<and>
     (\<forall>t\<in>set (m_fibers (w_sch w)). proper t) \<and>
     w_log w = mset (m_fibers (w_sch w)) + w_taken w"

lemma schedule_spec:
  assumes "schedule s ft = (t, s')"
  shows "m_fibers s' = m_fibers s @ (if proper ft then [ft] else [])"
    "m_activeThreadCount s' = m_activeThreadCount s" "m_idleThreadCount s' = m_idleThreadCount s"
    "mset (m_fibers s') = mset (m_fibers s) + added s s'" "t = (m_fibers s = [])"
    "\<forall>u\<in>set (m_fibers s). proper u \<Longrightarrow> \<forall>u\<in>set (m_fibers s'). proper u"
  using assms by (auto simp: schedule_def scheduleNoLock_def Let_def added_def proper_def split: if_splits)

lemma pick_inv:
  assumes "sched_inv w" "i < w_n w" "r_phase (w_run w i) = Loop_top"
    "run_pick (w_sch w) (w_fs w) (w_run w i) = Inr (s', r', t)"
  shows "sched_inv (w\<lparr>w_sch := s', w_run := (w_run w)(i := r'), w_taken := w_taken w + taken_of (r_phase r')\<rparr>)"
proof -
  let ?q = "m_fibers (w_sch w)"
  have pr: "\<forall>t\<in>set ?q. proper t" using assms(1) by (simp add: sched_inv_def)
  obtain found rest tk where p: "pick_loop (w_fs w) (r_tid (w_run w i)) ?q False = Inr (found, rest, tk)"
      "pick_result (w_fs w) (r_tid (w_run w i)) ?q False found rest tk"
    using pick_loop_spec [OF pr] by blast
  have r: "s' = (w_sch w)\<lparr>m_fibers := rest, m_activeThreadCount := m_activeThreadCount (w_sch w) +
        (if found \<noteq> None then 1 else 0)\<rparr>" "r' = (w_run w i)\<lparr>r_phase := Picked found\<rparr>"
    using assms(4) p(1) by (auto simp: run_pick_def)
  have q: "mset ?q = mset rest + taken_of (Picked found)" "set rest \<subseteq> set ?q"
    using p(2) by (auto simp: pick_result_def taken_of_def split: option.splits)
  show ?thesis using assms(1-3) pr q
    by (auto simp: sched_inv_def r threads_in_def split: option.splits)
qed

lemma dispatch_inv:
  assumes "sched_inv w" "i < w_n w" "r_phase (w_run w i) = Picked found"
    "run_dispatch (w_sch w) (w_fs w) (w_run w i) found addr = Inr (s', fs', r')"
  shows "sched_inv (w\<lparr>w_sch := s', w_fs := fs', w_run := (w_run w)(i := r')\<rparr>)"
  using assms
  by (auto simp: sched_inv_def run_dispatch_def Let_def threads_in_def ft_empty_def split: option.splits if_splits)

lemma back_inv:
  assumes "sched_inv w" "i < w_n w" "run_back (w_sch w) (w_run w i) = (s', r')"
  shows "sched_inv (w\<lparr>w_sch := s', w_run := (w_run w)(i := r')\<rparr>)"
  using assms
  by (auto simp: sched_inv_def run_back_def threads_in_def split: phase.splits)

lemma after_inv:
  assumes "sched_inv w" "i < w_n w" "run_after (w_sch w) (w_fs w) (w_run w i) = (s', fs', r', t)"
  shows "sched_inv (w\<lparr>w_sch := s', w_fs := fs', w_run := (w_run w)(i := r'),
      w_log := w_log w + added (w_sch w) s'\<rparr>)"
proof -
  consider (queued) f where "schedule (w_sch w) (ft_of_fiber (Some f) (-1)) = (t, s')"
      "\<not> is_active (r_phase (w_run w i))" "r_phase (w_run w i) \<noteq> In_idle" "r_phase r' = Loop_top"
    | (same) "m_fibers s' = m_fibers (w_sch w)" "m_activeThreadCount s' = m_activeThreadCount (w_sch w)"
      "m_idleThreadCount s' = m_idleThreadCount (w_sch w) - (if r_phase (w_run w i) = In_idle then 1 else 0)"
      "is_active (r_phase r') = is_active (r_phase (w_run w i))" "r_phase r' \<noteq> In_idle"
    using assms(3)
    by (cases "r_phase (w_run w i)")
      (auto simp: run_after_def split: prod.splits if_splits)
  then show ?thesis
  proof cases
    case queued
    note sp = schedule_spec [OF queued(1)]
    show ?thesis using assms(1,2) queued(2-4) sp(2,3,4) sp(6)
      by (auto simp: sched_inv_def threads_in_def)
  next
    case same
    then show ?thesis using assms(1,2)
      by (auto simp: sched_inv_def threads_in_def added_def)
  qed
qed

lemma run_step_inv:
  assumes "run_step w (Inr w')" "sched_inv w"
  shows "sched_inv w'"
  using assms(1)
proof (cases rule: run_step.cases)
  case (rs_schedule ft t s')
  note sp = schedule_spec [OF rs_schedule(2)]
  show ?thesis using rs_schedule(1) sp(2,3,4) sp(6) assms(2)
    by (auto simp: sched_inv_def threads_in_def)
next
  case (rs_pick i)
  from rs_pick(1) [symmetric] show ?thesis using pick_inv [OF assms(2) rs_pick(2,3)]
    by (auto simp: bind_res_Inr_iff)
next
  case (rs_dispatch i found addr)
  from rs_dispatch(1) [symmetric] show ?thesis using dispatch_inv [OF assms(2) rs_dispatch(2,3)]
    by (auto simp: bind_res_Inr_iff)
next
  case (rs_back i s' r')
  then show ?thesis using back_inv [OF assms(2)] by simp
next
  case (rs_after i s' fs' r' t)
  then show ?thesis using after_inv [OF assms(2)] by simp
qed (use assms(2) in \<open>auto simp: sched_inv_def threads_in_def\<close>)

lemma run_reachable_inv: "run_reachable w \<Longrightarrow> sched_inv w"
proof (induction rule: run_reachable.induct)
  case (rr_start w)
  then show ?case by (simp add: sched_inv_def threads_in_def count_in_def)
next
  case (rr_step w w')
  then show ?case using run_step_inv by blast
qed

section \<open>Properties\<close>

text \<open>
  C8: The locked search of \<open>run\<close> takes the first task of the queue that this thread may run: one that
  is not bound to another thread and whose fiber is not executing. It leaves the other tasks in
  order, never fails its assertion on a queue of proper tasks, and asks for another thread to be
  woken exactly when a task remains behind the one taken or a task bound elsewhere was passed.
\<close>

theorem run_search_fifo:
  assumes "\<forall>t\<in>set q. ft_fiber t \<noteq> None \<or> ft_cb t \<noteq> None"
  shows "\<exists>found rest tk. pick_loop fs tid q False = Inr (found, rest, tk) \<and>
     found = find (eligible fs tid) q \<and>
     (case found of
        None \<Rightarrow> rest = q \<and> tk = (\<exists>t\<in>set q. bound_elsewhere tid t)
      | Some t \<Rightarrow> rest = remove1 t q \<and>
          (\<exists>pre post. q = pre @ t # post \<and> rest = pre @ post \<and>
             tk = (post \<noteq> [] \<or> (\<exists>u\<in>set pre. bound_elsewhere tid u))))"
proof -
  have "\<forall>t\<in>set q. proper t" using assms by (simp add: proper_def)
  then obtain found rest tk where p: "pick_loop fs tid q False = Inr (found, rest, tk)"
      "pick_result fs tid q False found rest tk"
    using pick_loop_spec by blast
  show ?thesis
  proof (cases found)
    case None
    then have "find (eligible fs tid) q = None"
      using p(2) by (auto simp: pick_result_def find_None_iff)
    then show ?thesis using p None by (auto simp: pick_result_def)
  next
    case (Some t)
    then obtain pre post where q: "q = pre @ t # post" "rest = pre @ post" "eligible fs tid t"
        "\<forall>u\<in>set pre. \<not> eligible fs tid u" "tk = (post \<noteq> [] \<or> (\<exists>u\<in>set pre. bound_elsewhere tid u))"
      using p(2) by (auto simp: pick_result_def)
    have "find (eligible fs tid) q = Some t"
      unfolding q(1) using q(3,4) by (induction pre) auto
    moreover have "remove1 t q = rest" using q(1-4) by (auto simp: remove1_append)
    ultimately show ?thesis using p(1) Some q(1,2,5) by auto
  qed
qed

theorem run_search_fifo_witness:
  "\<exists>tk. pick_loop (\<lambda>_. HOLD) 7 [ft_of_cb (Some ()) 8, ft_of_cb (Some ()) (-1)] False =
     Inr (Some (ft_of_cb (Some ()) (-1)), [ft_of_cb (Some ()) 8], tk)"
  using run_search_fifo [of "[ft_of_cb (Some ()) 8, ft_of_cb (Some ()) (-1)]" "\<lambda>_. HOLD" 7]
  by (auto simp: ft_of_cb_def eligible_def)



text \<open>
  C9: When \<open>Scheduler::stopping\<close> holds, \<open>stop\<close> was requested, every task that was ever scheduled has been
  handed to a thread, and no thread holds or runs one.
\<close>

theorem stopping_means_drained:
  assumes "run_reachable w" "Scheduler_stopping (w_sch w)"
  shows "m_autoStop (w_sch w) \<and> w_taken w = w_log w \<and>
     (\<forall>i < w_n w. \<not> is_active (r_phase (w_run w i)))"
  using run_reachable_inv [OF assms(1)] assms(2)
  by (auto simp: sched_inv_def threads_in_def count_in_def Scheduler_stopping_def)

theorem stopping_means_drained_witness:
  "\<exists>w :: unit world. run_reachable w \<and> Scheduler_stopping (w_sch w) \<and> w_taken w = w_log w"
proof -
  let ?s = "\<lparr>m_fibers = [], m_sname = [], m_threads = 0, m_threadIds = [], m_rootFiber = None,
    m_threadCount = 1, m_activeThreadCount = 0, m_idleThreadCount = 0, m_stopping = True,
    m_autoStop = True, m_rootThread = -1\<rparr> :: unit Scheduler"
  let ?w = "\<lparr>w_sch = ?s, w_fs = \<lambda>_. INIT, w_n = 1,
    w_run = \<lambda>_. \<lparr>r_tid = 1, r_cb_fiber = None, r_idle_fiber = 0, r_phase = Loop_top\<rparr>,
    w_log = {#}, w_taken = {#}\<rparr>"
  have r: "run_reachable ?w" by (rule rr_start) simp_all
  moreover have st: "Scheduler_stopping (w_sch ?w)" by (simp add: Scheduler_stopping_def)
  ultimately show ?thesis using stopping_means_drained [OF r st] by blast
qed

text \<open>
  \<open>YieldToHold\<close> marks the fiber \<open>HOLD\<close> before its context is saved. In between, when the fiber has been
  scheduled (an event fired, a timer expired), the search of another thread takes it, because it is
  not \<open>EXEC\<close>, and \<open>swapIn\<close> on that thread succeeds: both threads now run the same fiber. Without the
  early mark the search would pass it over.
\<close>

theorem yieldToHold_race:
  fixes th1 th2 :: "'f fthread"
  assumes "own_context f g" "m_state g = EXEC" "running th1 = f"
    and "main_fiber th2 = Some (running th2)" "fibers th2 = (fibers th1)(f \<mapsto> g\<lparr>m_state := HOLD\<rparr>)"
    and "fibers th1 f = Some g" "f \<noteq> running th2" "running th2 \<in> dom (fibers th1)"
    and fs: "fs = (\<lambda>a. case fibers th2 a of Some h \<Rightarrow> m_state h | None \<Rightarrow> TERM_st)"
  shows "(\<exists>th1'. set_state th1 f HOLD = Inr th1' \<and> fibers th1' = fibers th2 \<and> running th1' = f) \<and>
     pick_loop fs tid [ft_of_fiber (Some f) (-1) :: 'f FiberAndThread] False =
       Inr (Some (ft_of_fiber (Some f) (-1)), [], False) \<and>
     (\<exists>th2'. swapIn th2 f = Inr th2' \<and> running th2' = f) \<and>
     pick_loop (fs(f := EXEC)) tid [ft_of_fiber (Some f) (-1) :: 'f FiberAndThread] False =
       Inr (None, [ft_of_fiber (Some f) (-1)], False)"
proof -
  have fsf: "fs f = HOLD" using fs assms(5) by simp
  obtain h where h: "fibers th1 (running th2) = Some h" using assms(8) by auto
  have "\<exists>th2'. swapIn th2 f = Inr th2' \<and> running th2' = f"
    using assms(1,4,5,7) h by (auto simp: fiber_ops own_context_def)
  then show ?thesis using fsf assms(3,5,6)
    by (auto simp: ft_of_fiber_def set_state_def fiber_at_def put_fiber_def)
qed

theorem yieldToHold_race_witness:
  "\<exists>(th1 :: unit fthread) (th2 :: unit fthread) th2'. running th1 = 1 \<and> swapIn th2 1 = Inr th2' \<and> running th2' = 1"
proof -
  let ?m = "\<lambda>k. \<lparr>m_id = 0, m_state = EXEC, m_stack = False, m_ctx = Saved k, m_fcb = None :: unit option\<rparr>"
  let ?g = "\<lparr>m_id = 1, m_state = EXEC, m_stack = True, m_ctx = Entry MainFunc_entry, m_fcb = Some ()\<rparr>"
  let ?th1 = "\<lparr>fibers = [0 \<mapsto> ?m 0, 1 \<mapsto> ?g, 2 \<mapsto> ?m 2], t_fiber = Some 1, t_threadFiber = Some 0,
    main_fiber = Some 0, running = 1, s_fiber_id = 0, s_fiber_count = 1\<rparr>"
  let ?th2 = "\<lparr>fibers = (fibers ?th1)(1 \<mapsto> ?g\<lparr>m_state := HOLD\<rparr>), t_fiber = Some 2, t_threadFiber = Some 2,
    main_fiber = Some 2, running = 2, s_fiber_id = 0, s_fiber_count = 1\<rparr>"
  have own: "own_context 1 ?g" by (simp add: own_context_def)
  have "\<exists>th2'. swapIn ?th2 1 = Inr th2' \<and> running th2' = 1"
    using yieldToHold_race [OF own, of ?th1 ?th2 "\<lambda>a. case fibers ?th2 a of Some h \<Rightarrow> m_state h | None \<Rightarrow> TERM_st" 0]
    by simp
  then obtain th2' where "swapIn ?th2 1 = Inr th2'" "running th2' = 1" by blast
  moreover have "running ?th1 = 1" by simp
  ultimately show ?thesis by blast
qed

end
