(* ===== verification/IOManager.thy ===== *)
theory IOManager
  imports Timers Scheduler
begin

text \<open>
  The epoll-based scheduler of \<open>mingfwq/iomanager.h\<close> and \<open>iomanager.cpp\<close>: the table of descriptor
  contexts, \<open>addEvent\<close>, \<open>delEvent\<close>, \<open>cancelEvent\<close>, \<open>cancelAll\<close>, the handling of what \<open>epoll_wait\<close> delivers
  and \<open>stopping\<close>. It is a \<open>Scheduler\<close> and a \<open>TimerManager\<close>; events hand their fibers and callbacks to
  the scheduler they were registered with, so the state holds all schedulers, and \<open>io_self\<close> is the
  manager's own. Each operation runs under the lock of the descriptor context and is one step; the
  growth of the table in \<open>addEvent\<close> is a step of its own, because it happens under another lock.

  \<open>epoll_ctl\<close> is a parameter: a function of the operation, the descriptor and the event mask to the
  return code. Event sets are 32 bit masks with the values of the enumeration; the constants of
  \<open><sys/epoll.h>\<close> are written out. \<open>m_pendingEventCount\<close> is an integer; that it does not go below
  zero is part of the invariant. \<open>fd * 1.5\<close> is computed exactly, and \<open>(int)m_FdContexts.size()\<close> is
  the size: tables of \<open>2 ^ 31\<close> contexts are out of reach.
\<close>

section \<open>State\<close>

abbreviation EV_NONE :: u32 where "EV_NONE \<equiv> 0"
abbreviation EV_READ :: u32 where "EV_READ \<equiv> 1"
abbreviation EV_WRITE :: u32 where "EV_WRITE \<equiv> 4"
abbreviation EPOLLIN :: u32 where "EPOLLIN \<equiv> 1"
abbreviation EPOLLOUT :: u32 where "EPOLLOUT \<equiv> 4"
abbreviation EPOLLERR :: u32 where "EPOLLERR \<equiv> 8"
abbreviation EPOLLHUP :: u32 where "EPOLLHUP \<equiv> 16"
abbreviation EPOLLET :: u32 where "EPOLLET \<equiv> 2147483648"

datatype epoll_op = EPOLL_CTL_ADD | EPOLL_CTL_MOD | EPOLL_CTL_DEL

type_synonym epoll_fun = "epoll_op \<Rightarrow> int \<Rightarrow> u32 \<Rightarrow> int"

record 'f EventContext =
  ec_scheduler :: "nat option"
  ec_fiber :: "nat option"
  ec_cb :: "'f callback option"

record 'f FdContext =
  fd_fd :: int
  fd_read :: "'f EventContext"
  fd_write :: "'f EventContext"
  fd_events :: u32

record 'f IOManager =
  m_FdContexts :: "'f FdContext list"
  m_pendingEventCount :: int
  io_scheds :: "nat \<Rightarrow> 'f callback Scheduler"
  io_self :: nat
  io_timers :: "'f TimerManager"

definition ec_null :: "'f EventContext" where
  "ec_null = \<lparr>ec_scheduler = None, ec_fiber = None, ec_cb = None\<rparr>"

definition FdContext_new :: "nat \<Rightarrow> 'f FdContext" where
  "FdContext_new i = \<lparr>fd_fd = int i, fd_read = ec_null, fd_write = ec_null, fd_events = EV_NONE\<rparr>"

section \<open>Descriptor contexts\<close>

definition getContext :: "'f FdContext \<Rightarrow> u32 \<Rightarrow> 'f EventContext res" where
  "getContext c event =
     (if event = EV_READ then Inr (fd_read c)
      else if event = EV_WRITE then Inr (fd_write c)
      else Inl Assert_failed)"

definition putContext :: "'f FdContext \<Rightarrow> u32 \<Rightarrow> 'f EventContext \<Rightarrow> 'f FdContext" where
  "putContext c event ec = (if event = EV_READ then c\<lparr>fd_read := ec\<rparr> else c\<lparr>fd_write := ec\<rparr>)"

definition resetContext :: "'f EventContext \<Rightarrow> 'f EventContext" where
  "resetContext ec = ec\<lparr>ec_scheduler := None, ec_fiber := None, ec_cb := None\<rparr>"

text \<open>\<open>schedule(&ctx.cb)\<close> and \<open>schedule(&ctx.fiber)\<close> swap the callback or the fiber out of the context.\<close>

definition triggerEvent ::
  "(nat \<Rightarrow> 'f callback Scheduler) \<Rightarrow> 'f FdContext \<Rightarrow> u32 \<Rightarrow>
   ((nat \<Rightarrow> 'f callback Scheduler) \<times> 'f FdContext) res" where
  "triggerEvent scheds c event =
     (if fd_events c AND event = 0 then Inl Assert_failed
      else let c1 = c\<lparr>fd_events := fd_events c AND NOT event\<rparr>
           in bind_res (getContext c1 event) (\<lambda>ctx.
                case ec_scheduler ctx of
                  None \<Rightarrow> Inl Null_deref
                | Some s \<Rightarrow>
                    let (ft, ctx1) =
                      (if ec_cb ctx \<noteq> None then (ft_of_cb (ec_cb ctx) (-1), ctx\<lparr>ec_cb := None\<rparr>)
                       else (ft_of_fiber (ec_fiber ctx) (-1), ctx\<lparr>ec_fiber := None\<rparr>));
                      (_, s') = schedule (scheds s) ft
                    in Inr (scheds(s := s'), putContext c1 event (ctx1\<lparr>ec_scheduler := None\<rparr>))))"

section \<open>The manager\<close>

definition contextResize :: "'f IOManager \<Rightarrow> nat \<Rightarrow> 'f IOManager" where
  "contextResize io sz =
     io\<lparr>m_FdContexts := take sz (m_FdContexts io) @
         map FdContext_new [length (m_FdContexts io)..<sz]\<rparr>"

definition context_at :: "'f IOManager \<Rightarrow> int \<Rightarrow> 'f FdContext res" where
  "context_at io fd =
     (if 0 \<le> fd \<and> fd < int (length (m_FdContexts io)) then Inr (m_FdContexts io ! nat fd)
      else Inl Bad_access)"

definition put_context :: "'f IOManager \<Rightarrow> int \<Rightarrow> 'f FdContext \<Rightarrow> 'f IOManager" where
  "put_context io fd c = io\<lparr>m_FdContexts := (m_FdContexts io)[nat fd := c]\<rparr>"

text \<open>The write-locked part of \<open>addEvent\<close>: taken when the table was too small at the time it was read.\<close>

definition addEvent_grow :: "'f IOManager \<Rightarrow> int \<Rightarrow> 'f IOManager" where
  "addEvent_grow io fd = contextResize io (nat (fd * 3 div 2))"

text \<open>
  The rest of \<open>addEvent\<close>. \<open>cur\<close> is the current scheduler, \<open>fiber\<close> and \<open>fiber_state\<close> the current fiber.
\<close>

definition addEvent_register ::
  "epoll_fun \<Rightarrow> nat option \<Rightarrow> nat \<Rightarrow> State \<Rightarrow> 'f IOManager \<Rightarrow> int \<Rightarrow> u32 \<Rightarrow> 'f callback option \<Rightarrow>
   (int \<times> 'f IOManager) res" where
  "addEvent_register epoll_ctl cur fiber fiber_state io fd event cb =
     bind_res (context_at io fd) (\<lambda>c.
       if fd_events c AND event \<noteq> 0 then Inl Assert_failed
       else let op_code = (if fd_events c \<noteq> 0 then EPOLL_CTL_MOD else EPOLL_CTL_ADD)
            in if epoll_ctl op_code fd (EPOLLET OR fd_events c OR event) \<noteq> 0 then Inr (-1, io)
               else let c1 = c\<lparr>fd_events := fd_events c OR event\<rparr>
                    in bind_res (getContext c1 event) (\<lambda>ec.
                         if ec_scheduler ec \<noteq> None \<or> ec_fiber ec \<noteq> None \<or> ec_cb ec \<noteq> None
                         then Inl Assert_failed
                         else if cb = None \<and> fiber_state \<noteq> EXEC then Inl Assert_failed
                         else let ec1 = (if cb \<noteq> None then ec\<lparr>ec_scheduler := cur, ec_cb := cb\<rparr>
                                         else ec\<lparr>ec_scheduler := cur, ec_fiber := Some fiber\<rparr>)
                              in Inr (0, (put_context io fd (putContext c1 event ec1))
                                   \<lparr>m_pendingEventCount := m_pendingEventCount io + 1\<rparr>)))"

definition addEvent ::
  "epoll_fun \<Rightarrow> nat option \<Rightarrow> nat \<Rightarrow> State \<Rightarrow> 'f IOManager \<Rightarrow> int \<Rightarrow> u32 \<Rightarrow> 'f callback option \<Rightarrow>
   (int \<times> 'f IOManager) res" where
  "addEvent epoll_ctl cur fiber fiber_state io fd event cb =
     (if int (length (m_FdContexts io)) > fd
      then addEvent_register epoll_ctl cur fiber fiber_state io fd event cb
      else addEvent_register epoll_ctl cur fiber fiber_state (addEvent_grow io fd) fd event cb)"

definition delEvent :: "epoll_fun \<Rightarrow> 'f IOManager \<Rightarrow> int \<Rightarrow> u32 \<Rightarrow> (bool \<times> 'f IOManager) res" where
  "delEvent epoll_ctl io fd event =
     (if int (length (m_FdContexts io)) \<le> fd then Inr (False, io)
      else bind_res (context_at io fd) (\<lambda>c.
        if fd_events c AND event = 0 then Inr (False, io)
        else let new_events = fd_events c AND NOT event;
                 op_code = (if new_events \<noteq> 0 then EPOLL_CTL_MOD else EPOLL_CTL_DEL)
             in if epoll_ctl op_code fd (EPOLLET OR new_events) \<noteq> 0 then Inr (False, io)
                else let c1 = c\<lparr>fd_events := new_events\<rparr>
                     in bind_res (getContext c1 event) (\<lambda>ec.
                          Inr (True, (put_context io fd (putContext c1 event (resetContext ec)))
                            \<lparr>m_pendingEventCount := m_pendingEventCount io - 1\<rparr>))))"

definition cancelEvent :: "epoll_fun \<Rightarrow> 'f IOManager \<Rightarrow> int \<Rightarrow> u32 \<Rightarrow> (bool \<times> 'f IOManager) res" where
  "cancelEvent epoll_ctl io fd event =
     (if int (length (m_FdContexts io)) \<le> fd then Inr (False, io)
      else bind_res (context_at io fd) (\<lambda>c.
        if fd_events c AND event = 0 then Inr (False, io)
        else let new_events = fd_events c AND NOT event;
                 op_code = (if new_events \<noteq> 0 then EPOLL_CTL_MOD else EPOLL_CTL_DEL)
             in if epoll_ctl op_code fd (EPOLLET OR new_events) \<noteq> 0 then Inr (False, io)
                else bind_res (triggerEvent (io_scheds io) c event) (\<lambda>(scheds, c1).
                       Inr (True, (put_context io fd c1)
                         \<lparr>io_scheds := scheds, m_pendingEventCount := m_pendingEventCount io - 1\<rparr>))))"

text \<open>Triggering one event if it is among \<open>which\<close>, and counting it.\<close>

definition trigger_if ::
  "'f IOManager \<Rightarrow> int \<Rightarrow> u32 \<Rightarrow> u32 \<Rightarrow> 'f IOManager res" where
  "trigger_if io fd which event =
     (if which AND event = 0 then Inr io
      else bind_res (context_at io fd) (\<lambda>c.
        bind_res (triggerEvent (io_scheds io) c event) (\<lambda>(scheds, c1).
          Inr ((put_context io fd c1)
            \<lparr>io_scheds := scheds, m_pendingEventCount := m_pendingEventCount io - 1\<rparr>))))"

definition events_at :: "'f IOManager \<Rightarrow> int \<Rightarrow> u32" where
  "events_at io fd = fd_events (m_FdContexts io ! nat fd)"

definition cancelAll :: "epoll_fun \<Rightarrow> 'f IOManager \<Rightarrow> int \<Rightarrow> (bool \<times> 'f IOManager) res" where
  "cancelAll epoll_ctl io fd =
     (if int (length (m_FdContexts io)) \<le> fd then Inr (False, io)
      else bind_res (context_at io fd) (\<lambda>c.
        if fd_events c = 0 then Inr (False, io)
        else if epoll_ctl EPOLL_CTL_DEL fd 0 \<noteq> 0 then Inr (False, io)
        else bind_res (trigger_if io fd (fd_events c) EV_READ) (\<lambda>io1.
          bind_res (trigger_if io1 fd (events_at io1 fd) EV_WRITE) (\<lambda>io2.
            if events_at io2 fd \<noteq> 0 then Inl Assert_failed else Inr (True, io2)))))"

definition hasIdleThreads :: "'f IOManager \<Rightarrow> bool" where
  "hasIdleThreads io = (m_idleThreadCount (io_scheds io (io_self io)) > 0)"

text \<open>\<open>tickle\<close>: \<open>rt\<close> is the result of writing one byte to the pipe.\<close>

definition IOManager_tickle :: "'f IOManager \<Rightarrow> int \<Rightarrow> unit res" where
  "IOManager_tickle io rt =
     (if \<not> hasIdleThreads io then Inr () else if rt = 1 then Inr () else Inl Assert_failed)"

definition IOManager_stopping :: "u64 \<Rightarrow> 'f IOManager \<Rightarrow> bool \<times> u64 \<times> 'f IOManager" where
  "IOManager_stopping now io =
     (let (timeout, tm) = getNextTimer now (io_timers io)
      in (timeout = - 1 \<and> m_pendingEventCount io = 0 \<and> Scheduler_stopping (io_scheds io (io_self io)),
          timeout, io\<lparr>io_timers := tm\<rparr>))"

section \<open>idle\<close>

text \<open>The timeout passed to \<open>epoll_wait\<close>: the cast to \<open>int\<close> reads the low 32 bits as signed.\<close>

definition idle_timeout :: "u64 \<Rightarrow> int" where
  "idle_timeout next_timeout =
     (let t = (if next_timeout \<noteq> - 1 then
                 if sint (ucast next_timeout :: u32) > 3000 then 3000 else next_timeout
               else 3000)
      in sint (ucast t :: u32))"

text \<open>One delivered event on a descriptor: \<open>ev\<close> is \<open>event.events\<close>.\<close>

definition idle_event :: "epoll_fun \<Rightarrow> 'f IOManager \<Rightarrow> int \<Rightarrow> u32 \<Rightarrow> 'f IOManager res" where
  "idle_event epoll_ctl io fd ev0 =
     bind_res (context_at io fd) (\<lambda>c.
       let ev = (if ev0 AND (EPOLLERR OR EPOLLHUP) \<noteq> 0 then ev0 OR (EPOLLIN OR EPOLLOUT) else ev0);
           real_events = (if ev AND EPOLLIN \<noteq> 0 then EV_READ else 0) OR
                         (if ev AND EPOLLOUT \<noteq> 0 then EV_WRITE else 0)
       in if fd_events c AND real_events = EV_NONE then Inr io
          else let left_events = fd_events c AND NOT real_events;
                   op_code = (if left_events \<noteq> 0 then EPOLL_CTL_MOD else EPOLL_CTL_DEL)
               in if epoll_ctl op_code (fd_fd c) (EPOLLET OR left_events) \<noteq> 0 then Inr io
                  else bind_res (trigger_if io fd real_events EV_READ) (\<lambda>io1.
                    trigger_if io1 fd real_events EV_WRITE))"

text \<open>
  One turn of the loop of \<open>idle\<close>: \<open>Inr None\<close> when the manager is stopping. \<open>wait\<close> stands for
  \<open>epoll_wait\<close>, with \<open>None\<close> for the wake-up pipe; \<open>addr\<close> is the address of the probe timer.
\<close>

definition idle_expired :: "u64 \<Rightarrow> nat \<Rightarrow> 'f IOManager \<Rightarrow> 'f IOManager" where
  "idle_expired now addr io =
     (let (cbs, tm) = listExpiredCb now addr (io_timers io);
          self = io_self io;
          (_, s') = schedule_range (io_scheds io self) cbs
      in io\<lparr>io_timers := tm, io_scheds := (io_scheds io)(self := s')\<rparr>)"

fun idle_events :: "epoll_fun \<Rightarrow> 'f IOManager \<Rightarrow> (int \<times> u32) option list \<Rightarrow> 'f IOManager res" where
  "idle_events epoll_ctl io [] = Inr io"
| "idle_events epoll_ctl io (None # es) = idle_events epoll_ctl io es"
| "idle_events epoll_ctl io (Some (fd, ev) # es) =
     bind_res (idle_event epoll_ctl io fd ev) (\<lambda>io1. idle_events epoll_ctl io1 es)"

definition idle_turn ::
  "epoll_fun \<Rightarrow> (int \<Rightarrow> (int \<times> u32) option list) \<Rightarrow> u64 \<Rightarrow> u64 \<Rightarrow> nat \<Rightarrow> 'f IOManager \<Rightarrow> 'f IOManager option res" where
  "idle_turn epoll_ctl wait now now2 addr io =
     (let (stop, next_timeout, io1) = IOManager_stopping now io
      in if stop then Inr None
         else bind_res (idle_events epoll_ctl (idle_expired now2 addr io1) (wait (idle_timeout next_timeout)))
           (\<lambda>io2. Inr (Some io2)))"

section \<open>Invariant\<close>

definition armed :: "'f EventContext \<Rightarrow> bool" where
  "armed ec \<longleftrightarrow> ec_scheduler ec \<noteq> None \<and> (ec_fiber ec = None) \<noteq> (ec_cb ec = None)"

definition ctx_ok :: "'f FdContext \<Rightarrow> bool" where
  "ctx_ok c \<longleftrightarrow> fd_events c \<in> {0, 1, 4, 5} \<and>
     (if fd_events c AND EV_READ \<noteq> 0 then armed (fd_read c) else fd_read c = ec_null) \<and>
     (if fd_events c AND EV_WRITE \<noteq> 0 then armed (fd_write c) else fd_write c = ec_null)"

definition pending :: "'f FdContext \<Rightarrow> int" where
  "pending c = (if fd_events c AND EV_READ \<noteq> 0 then 1 else 0) + (if fd_events c AND EV_WRITE \<noteq> 0 then 1 else 0)"

definition io_inv :: "'f IOManager \<Rightarrow> bool" where
  "io_inv io \<longleftrightarrow> (\<forall>c\<in>set (m_FdContexts io). ctx_ok c) \<and>
     (\<forall>i<length (m_FdContexts io). fd_fd (m_FdContexts io ! i) = int i) \<and>
     m_pendingEventCount io = sum_list (map pending (m_FdContexts io))"

lemma sum_list_update_int:
  "i < length xs \<Longrightarrow> sum_list (xs[i := x]) = sum_list xs - xs ! i + (x :: int)"
  by (induction xs arbitrary: i) (auto split: nat.splits)

lemma pending_nonneg: "0 \<le> pending c"
  by (simp add: pending_def)

lemma ctx_ok_new [simp]: "ctx_ok (FdContext_new i)" "pending (FdContext_new i) = 0"
  by (simp_all add: ctx_ok_def FdContext_new_def pending_def)

lemma context_at_iff: "context_at io fd = Inr c \<longleftrightarrow>
   0 \<le> fd \<and> nat fd < length (m_FdContexts io) \<and> c = m_FdContexts io ! nat fd"
  by (auto simp: context_at_def)

lemma events_at_context: "context_at io fd = Inr c \<Longrightarrow> events_at io fd = fd_events c"
  by (auto simp: context_at_iff events_at_def)

lemma fd_events_putContext [simp]: "fd_events (putContext c event ec) = fd_events c"
  by (simp add: putContext_def)

lemma or_and_zero: "(a OR b) AND c = 0 \<longleftrightarrow> a AND c = 0 \<and> b AND c = (0 :: u32)"
  by (simp add: bit.conj_disj_distrib2 or_eq_0_iff)

lemma put_inv:
  assumes "io_inv io" "context_at io fd = Inr c" "ctx_ok c'" "fd_fd c' = fd_fd c"
    "n = m_pendingEventCount io + pending c' - pending c"
    "m_FdContexts io' = (m_FdContexts io)[nat fd := c']" "m_pendingEventCount io' = n"
  shows "io_inv io'"
proof -
  let ?cs = "m_FdContexts io"
  have fd: "nat fd < length ?cs" "c = ?cs ! nat fd" using assms(2) by (auto simp: context_at_iff)
  have "sum_list (map pending (?cs[nat fd := c'])) = sum_list (map pending ?cs) - pending c + pending c'"
    using fd by (simp add: map_update sum_list_update_int)
  moreover have "\<forall>c\<in>set (?cs[nat fd := c']). ctx_ok c"
    using assms(1,3) set_update_subset_insert [of ?cs "nat fd" c'] by (auto simp: io_inv_def)
  moreover have "\<forall>i<length ?cs. fd_fd (?cs[nat fd := c'] ! i) = int i"
    using assms(1,4) fd by (auto simp: io_inv_def nth_list_update)
  ultimately show ?thesis using assms(1,5-7) by (simp add: io_inv_def)
qed

lemma context_ok: "io_inv io \<Longrightarrow> context_at io fd = Inr c \<Longrightarrow> ctx_ok c \<and> fd_fd c = fd"
  by (auto simp: io_inv_def context_at_iff)

lemma ctx_ok_events:
  "ctx_ok c \<Longrightarrow> fd_events c = 0 \<or> fd_events c = 1 \<or> fd_events c = 4 \<or> fd_events c = 5"
  by (auto simp: ctx_ok_def)

text \<open>Triggering an event that is registered: the armed context is emptied into its scheduler.\<close>

definition event_task :: "'f EventContext \<Rightarrow> 'f callback FiberAndThread" where
  "event_task ec = (if ec_cb ec \<noteq> None then ft_of_cb (ec_cb ec) (-1) else ft_of_fiber (ec_fiber ec) (-1))"

definition the_context :: "'f FdContext \<Rightarrow> u32 \<Rightarrow> 'f EventContext" where
  "the_context c event = (if event = EV_READ then fd_read c else fd_write c)"

lemma triggerEvent_ok:
  assumes "ctx_ok c" "event = EV_READ \<or> event = EV_WRITE" "fd_events c AND event \<noteq> 0"
  shows "\<exists>sid. ec_scheduler (the_context c event) = Some sid \<and> proper (event_task (the_context c event)) \<and>
     triggerEvent scheds c event =
       Inr (scheds(sid := snd (schedule (scheds sid) (event_task (the_context c event)))),
            putContext (c\<lparr>fd_events := fd_events c AND NOT event\<rparr>) event ec_null)"
proof -
  let ?ec = "the_context c event"
  have a: "armed ?ec" using assms by (auto simp: ctx_ok_def the_context_def)
  then obtain sid where sid: "ec_scheduler ?ec = Some sid" by (auto simp: armed_def)
  have "proper (event_task ?ec)" using a
    by (auto simp: armed_def event_task_def proper_def ft_of_cb_def ft_of_fiber_def)
  moreover have "triggerEvent scheds c event =
       Inr (scheds(sid := snd (schedule (scheds sid) (event_task ?ec))),
            putContext (c\<lparr>fd_events := fd_events c AND NOT event\<rparr>) event ec_null)"
    using a sid assms(2,3)
    by (auto simp: triggerEvent_def getContext_def the_context_def event_task_def armed_def ec_null_def
        putContext_def Let_def split: prod.splits)
  ultimately show ?thesis using sid by blast
qed

lemma cleared_ok:
  assumes "ctx_ok c" "event = EV_READ \<or> event = EV_WRITE" "fd_events c AND event \<noteq> 0"
    "c' = putContext (c\<lparr>fd_events := fd_events c AND NOT event\<rparr>) event ec_null"
  shows "ctx_ok c' \<and> pending c' = pending c - 1 \<and> fd_fd c' = fd_fd c \<and> fd_events c' = fd_events c AND NOT event \<and>
     (\<forall>e. e \<noteq> event \<longrightarrow> e = EV_READ \<or> e = EV_WRITE \<longrightarrow> the_context c' e = the_context c e)"
  using ctx_ok_events [OF assms(1)] assms
  by (elim disjE) (auto simp: ctx_ok_def pending_def putContext_def the_context_def)

lemma armed_ok:
  assumes "ctx_ok c" "event = EV_READ \<or> event = EV_WRITE" "fd_events c AND event = 0" "armed ec"
    "c' = putContext (c\<lparr>fd_events := fd_events c OR event\<rparr>) event ec"
  shows "ctx_ok c' \<and> pending c' = pending c + 1 \<and> fd_fd c' = fd_fd c"
  using ctx_ok_events [OF assms(1)] assms
  by (elim disjE) (auto simp: ctx_ok_def pending_def putContext_def)

lemma trigger_if_ok:
  assumes "io_inv io" "context_at io fd = Inr c" "event = EV_READ \<or> event = EV_WRITE"
    "which AND event \<noteq> 0 \<longrightarrow> fd_events c AND event \<noteq> 0"
  shows "\<exists>io'. trigger_if io fd which event = Inr io' \<and> io_inv io' \<and>
     length (m_FdContexts io') = length (m_FdContexts io) \<and>
     (if which AND event = 0 then io' = io
      else (\<exists>sid. ec_scheduler (the_context c event) = Some sid \<and>
        io_scheds io' = (io_scheds io)(sid := snd (schedule (io_scheds io sid) (event_task (the_context c event)))) \<and>
        context_at io' fd = Inr (putContext (c\<lparr>fd_events := fd_events c AND NOT event\<rparr>) event ec_null) \<and>
        m_pendingEventCount io' = m_pendingEventCount io - 1))"
proof (cases "which AND event = 0")
  case True
  then show ?thesis using assms(1) by (simp add: trigger_if_def)
next
  case False
  note ok = context_ok [OF assms(1,2)]
  let ?c' = "putContext (c\<lparr>fd_events := fd_events c AND NOT event\<rparr>) event ec_null"
  obtain sid where t: "ec_scheduler (the_context c event) = Some sid"
     "triggerEvent (io_scheds io) c event =
       Inr ((io_scheds io)(sid := snd (schedule (io_scheds io sid) (event_task (the_context c event)))), ?c')"
    using triggerEvent_ok [of c event "io_scheds io"] ok assms(3,4) False by blast
  let ?io = "(put_context io fd ?c')\<lparr>io_scheds := (io_scheds io)(sid := snd (schedule (io_scheds io sid)
      (event_task (the_context c event)))), m_pendingEventCount := m_pendingEventCount io - 1\<rparr>"
  have "trigger_if io fd which event = Inr ?io"
    using False assms(2) t(2) by (simp add: trigger_if_def)
  moreover have "io_inv ?io"
    using cleared_ok [of c event ?c'] ok assms(3,4) False
    by (intro put_inv [OF assms(1,2), of ?c']) (auto simp: put_context_def)
  moreover have "context_at ?io fd = Inr ?c'"
    using assms(2) by (auto simp: context_at_iff put_context_def)
  ultimately show ?thesis using False t(1) by (intro exI [of _ ?io]) (simp add: put_context_def)
qed

section \<open>The operations keep the invariant\<close>

lemma contextResize_inv:
  assumes "io_inv io" "length (m_FdContexts io) \<le> sz"
  shows "io_inv (contextResize io sz)" "length (m_FdContexts (contextResize io sz)) = sz"
    "i < length (m_FdContexts io) \<Longrightarrow> m_FdContexts (contextResize io sz) ! i = m_FdContexts io ! i"
proof -
  let ?cs = "m_FdContexts io"
  have eq: "m_FdContexts (contextResize io sz) = ?cs @ map FdContext_new [length ?cs..<sz]"
    using assms(2) by (simp add: contextResize_def)
  have "sum_list (map pending (map FdContext_new [length ?cs..<sz])) = (0 :: int)"
    by (simp add: o_def)
  moreover have "m_pendingEventCount (contextResize io sz) = m_pendingEventCount io"
    by (simp add: contextResize_def)
  moreover have "fd_fd (FdContext_new i) = int i" for i by (simp add: FdContext_new_def)
  ultimately show "io_inv (contextResize io sz)" using assms(1)
    by (auto simp: io_inv_def eq nth_append)
  show "length (m_FdContexts (contextResize io sz)) = sz" using assms(2) by (simp add: eq)
  show "m_FdContexts (contextResize io sz) ! i = ?cs ! i" if "i < length ?cs"
    using that by (simp add: eq nth_append)
qed

lemma addEvent_register_ok:
  assumes "io_inv io" "context_at io fd = Inr c" "event = EV_READ \<or> event = EV_WRITE"
    "fd_events c AND event = 0" "cb \<noteq> None \<or> st = EXEC"
  shows "if epoll_ctl (if fd_events c \<noteq> 0 then EPOLL_CTL_MOD else EPOLL_CTL_ADD) fd
            (EPOLLET OR fd_events c OR event) = 0
     then \<exists>io' c'. addEvent_register epoll_ctl (Some sid) f st io fd event cb = Inr (0, io') \<and> io_inv io' \<and>
        m_pendingEventCount io' = m_pendingEventCount io + 1 \<and>
        context_at io' fd = Inr c' \<and> fd_events c' = fd_events c OR event \<and>
        the_context c' event = \<lparr>ec_scheduler = Some sid, ec_fiber = (if cb \<noteq> None then None else Some f), ec_cb = cb\<rparr> \<and>
        length (m_FdContexts io') = length (m_FdContexts io)
     else addEvent_register epoll_ctl (Some sid) f st io fd event cb = Inr (-1, io)"
proof -
  note ok = context_ok [OF assms(1,2)]
  have null: "the_context c event = ec_null" using ok assms(3,4) by (auto simp: ctx_ok_def the_context_def)
  let ?ec = "\<lparr>ec_scheduler = Some sid, ec_fiber = (if cb \<noteq> None then None else Some f), ec_cb = cb\<rparr>"
  let ?c' = "putContext (c\<lparr>fd_events := fd_events c OR event\<rparr>) event ?ec"
  let ?io = "(put_context io fd ?c')\<lparr>m_pendingEventCount := m_pendingEventCount io + 1\<rparr>"
  have r: "addEvent_register epoll_ctl (Some sid) f st io fd event cb =
     (if epoll_ctl (if fd_events c \<noteq> 0 then EPOLL_CTL_MOD else EPOLL_CTL_ADD) fd
            (EPOLLET OR fd_events c OR event) = 0 then Inr (0, ?io) else Inr (-1, io))"
    using assms(2-5) null
    by (auto simp: addEvent_register_def getContext_def the_context_def ec_null_def putContext_def)
  have "armed ?ec" by (auto simp: armed_def)
  then have "io_inv ?io" using armed_ok [of c event ?ec ?c'] ok assms(3,4)
    by (intro put_inv [OF assms(1,2), of ?c']) (auto simp: put_context_def)
  moreover have "context_at ?io fd = Inr ?c'"
    using assms(2) by (auto simp: context_at_iff put_context_def)
  moreover have "fd_events ?c' = fd_events c OR event" "the_context ?c' event = ?ec"
    using assms(3) by (auto simp: putContext_def the_context_def)
  ultimately show ?thesis unfolding r by (auto simp: put_context_def)
qed

lemma delEvent_ok:
  assumes "io_inv io" "0 \<le> fd" "event = EV_READ \<or> event = EV_WRITE"
  shows "\<exists>b io'. delEvent epoll_ctl io fd event = Inr (b, io') \<and> io_inv io' \<and>
     m_pendingEventCount io' = m_pendingEventCount io - (if b then 1 else 0) \<and> io_scheds io' = io_scheds io \<and>
     length (m_FdContexts io') = length (m_FdContexts io) \<and>
     (if b then events_at io fd AND event \<noteq> 0 \<and> events_at io' fd = events_at io fd AND NOT event else io' = io)"
proof (cases "fd < int (length (m_FdContexts io))")
  case True
  then obtain c where c: "context_at io fd = Inr c" using assms(2) by (auto simp: context_at_def)
  note ok = context_ok [OF assms(1) c]
  let ?c' = "putContext (c\<lparr>fd_events := fd_events c AND NOT event\<rparr>) event ec_null"
  let ?io = "(put_context io fd ?c')\<lparr>m_pendingEventCount := m_pendingEventCount io - 1\<rparr>"
  have ev: "events_at io fd = fd_events c" using c by (auto simp: context_at_iff events_at_def)
  have "resetContext ec = ec_null" for ec :: "'a EventContext"
    by (simp add: resetContext_def ec_null_def)
  then have r: "delEvent epoll_ctl io fd event = Inr (False, io) \<or>
      fd_events c AND event \<noteq> 0 \<and> delEvent epoll_ctl io fd event = Inr (True, ?io)"
    using True c assms(3) by (auto simp: delEvent_def getContext_def Let_def)
  have "fd_events c AND event \<noteq> 0 \<Longrightarrow> io_inv ?io"
    using cleared_ok [of c event ?c'] ok assms(3)
    by (intro put_inv [OF assms(1) c, of ?c']) (auto simp: put_context_def)
  moreover have "events_at ?io fd = fd_events c AND NOT event"
    using c assms(3) by (auto simp: events_at_def put_context_def putContext_def context_at_iff)
  moreover have "io_scheds ?io = io_scheds io" "length (m_FdContexts ?io) = length (m_FdContexts io)"
    by (simp_all add: put_context_def)
  ultimately show ?thesis using r
  proof (elim disjE conjE)
    assume "delEvent epoll_ctl io fd event = Inr (False, io)"
    then show ?thesis using assms(1) by (intro exI [of _ False] exI [of _ io]) simp
  next
    assume e: "fd_events c AND event \<noteq> 0" "delEvent epoll_ctl io fd event = Inr (True, ?io)"
    assume "fd_events c AND event \<noteq> 0 \<Longrightarrow> io_inv ?io" "events_at ?io fd = fd_events c AND NOT event"
      "io_scheds ?io = io_scheds io" "length (m_FdContexts ?io) = length (m_FdContexts io)"
    then show ?thesis unfolding e(2) using e(1) ev by (intro exI [of _ True] exI [of _ ?io]) simp
  qed
qed (use assms in \<open>auto simp: delEvent_def\<close>)

lemma cancelEvent_ok:
  assumes "io_inv io" "0 \<le> fd" "event = EV_READ \<or> event = EV_WRITE"
  shows "\<exists>b io'. cancelEvent epoll_ctl io fd event = Inr (b, io') \<and> io_inv io' \<and>
     m_pendingEventCount io' = m_pendingEventCount io - (if b then 1 else 0) \<and>
     length (m_FdContexts io') = length (m_FdContexts io) \<and>
     (if b then \<exists>c sid. context_at io fd = Inr c \<and> fd_events c AND event \<noteq> 0 \<and>
        events_at io' fd = fd_events c AND NOT event \<and> ec_scheduler (the_context c event) = Some sid \<and>
        io_scheds io' = (io_scheds io)(sid := snd (schedule (io_scheds io sid) (event_task (the_context c event))))
      else io' = io)"
proof (cases "fd < int (length (m_FdContexts io))")
  case True
  then obtain c where c: "context_at io fd = Inr c" using assms(2) by (auto simp: context_at_def)
  let ?rest = "fd_events c AND NOT event"
  let ?rc = "epoll_ctl (if ?rest \<noteq> 0 then EPOLL_CTL_MOD else EPOLL_CTL_DEL) fd (EPOLLET OR ?rest)"
  show ?thesis
  proof (cases "fd_events c AND event = 0 \<or> ?rc \<noteq> 0")
    case f: True
    then have "cancelEvent epoll_ctl io fd event = Inr (False, io)"
      using True c unfolding cancelEvent_def by (cases "fd_events c AND event = 0") (simp_all add: Let_def)
    then show ?thesis using assms(1) by (intro exI [of _ False] exI [of _ io]) simp
  next
    case f: False
    have ee: "event AND event \<noteq> 0" using assms(3) by auto
    then have e: "cancelEvent epoll_ctl io fd event = bind_res (trigger_if io fd event event) (\<lambda>io'. Inr (True, io'))"
      using True c f by (cases "triggerEvent (io_scheds io) c event")
        (auto simp: cancelEvent_def Let_def trigger_if_def)
    obtain io' sid where t: "trigger_if io fd event event = Inr io'" "io_inv io'"
        "length (m_FdContexts io') = length (m_FdContexts io)" "ec_scheduler (the_context c event) = Some sid"
        "io_scheds io' = (io_scheds io)(sid := snd (schedule (io_scheds io sid) (event_task (the_context c event))))"
        "context_at io' fd = Inr (putContext (c\<lparr>fd_events := fd_events c AND NOT event\<rparr>) event ec_null)"
        "m_pendingEventCount io' = m_pendingEventCount io - 1"
      using trigger_if_ok [OF assms(1) c assms(3), of event] f ee by auto
    have "events_at io' fd = fd_events c AND NOT event"
      using events_at_context [OF t(6)] by simp
    then show ?thesis using e t c f by auto
  qed
qed (use assms in \<open>auto simp: cancelEvent_def\<close>)

text \<open>Triggering the registered events among \<open>which\<close>: what \<open>cancelAll\<close> and \<open>idle\<close> do.\<close>

lemma trigger_both_ok:
  assumes "io_inv io" "context_at io fd = Inr c" "which = 0 \<or> which = 1 \<or> which = 4 \<or> which = 5"
    "which AND NOT (fd_events c) = 0"
  shows "\<exists>io1 io2. trigger_if io fd which EV_READ = Inr io1 \<and> trigger_if io1 fd which EV_WRITE = Inr io2 \<and>
     io_inv io2 \<and> length (m_FdContexts io2) = length (m_FdContexts io) \<and>
     events_at io1 fd = fd_events c AND NOT (which AND EV_READ) \<and>
     events_at io2 fd = fd_events c AND NOT which \<and>
     m_pendingEventCount io2 = m_pendingEventCount io -
       (if which AND EV_READ \<noteq> 0 then 1 else 0) - (if which AND EV_WRITE \<noteq> 0 then 1 else 0)"
proof -
  note ok = context_ok [OF assms(1,2)]
  note ev = ctx_ok_events [OF conjunct1 [OF ok]]
  have sub: "which AND e \<noteq> 0 \<longrightarrow> fd_events c AND e \<noteq> 0" if "e = EV_READ \<or> e = EV_WRITE" for e
    using that ev assms(3,4) by (elim disjE) simp_all
  obtain io1 where io1: "trigger_if io fd which EV_READ = Inr io1" "io_inv io1"
      "length (m_FdContexts io1) = length (m_FdContexts io)"
      "if which AND EV_READ = 0 then io1 = io else
        context_at io1 fd = Inr (putContext (c\<lparr>fd_events := fd_events c AND NOT EV_READ\<rparr>) EV_READ ec_null) \<and>
        m_pendingEventCount io1 = m_pendingEventCount io - 1"
    using trigger_if_ok [OF assms(1,2), of EV_READ which] sub [of EV_READ] by (auto split: if_splits)
  define c1 where "c1 = (if which AND EV_READ = 0 then c
     else putContext (c\<lparr>fd_events := fd_events c AND NOT EV_READ\<rparr>) EV_READ ec_null)"
  have c1: "context_at io1 fd = Inr c1" "fd_events c1 = fd_events c AND NOT (which AND EV_READ)"
    using io1(4) assms(2,3) by (auto simp: c1_def putContext_def)
  have "which AND EV_WRITE \<noteq> 0 \<longrightarrow> fd_events c1 AND EV_WRITE \<noteq> 0"
    using ev assms(3,4) unfolding c1(2) by (elim disjE) simp_all
  then obtain io2 where io2: "trigger_if io1 fd which EV_WRITE = Inr io2" "io_inv io2"
      "length (m_FdContexts io2) = length (m_FdContexts io1)"
      "if which AND EV_WRITE = 0 then io2 = io1 else
        context_at io2 fd = Inr (putContext (c1\<lparr>fd_events := fd_events c1 AND NOT EV_WRITE\<rparr>) EV_WRITE ec_null) \<and>
        m_pendingEventCount io2 = m_pendingEventCount io1 - 1"
    using trigger_if_ok [OF io1(2) c1(1), of EV_WRITE which] by (auto split: if_splits)
  have "events_at io2 fd = fd_events c AND NOT which"
    using io2(4) events_at_context [OF c1(1)] c1(2) ev assms(3)
    by (elim disjE) (auto dest!: events_at_context split: if_splits)
  moreover have "m_pendingEventCount io2 = m_pendingEventCount io -
       (if which AND EV_READ \<noteq> 0 then 1 else 0) - (if which AND EV_WRITE \<noteq> 0 then 1 else 0)"
    using io1(4) io2(4) by (auto split: if_splits)
  ultimately show ?thesis using io1(1,3) io2(1-3) events_at_context [OF c1(1)] c1(2) by auto
qed

lemma cancelAll_ok:
  assumes "io_inv io" "0 \<le> fd"
  shows "\<exists>b io'. cancelAll epoll_ctl io fd = Inr (b, io') \<and> io_inv io' \<and>
     length (m_FdContexts io') = length (m_FdContexts io) \<and>
     (if b then events_at io' fd = 0 \<and> m_pendingEventCount io' < m_pendingEventCount io else io' = io)"
proof (cases "fd < int (length (m_FdContexts io))")
  case True
  then obtain c where c: "context_at io fd = Inr c" using assms(2) by (auto simp: context_at_def)
  note ev = ctx_ok_events [OF conjunct1 [OF context_ok [OF assms(1) c]]]
  show ?thesis
  proof (cases "fd_events c = 0 \<or> epoll_ctl EPOLL_CTL_DEL fd 0 \<noteq> 0")
    case f: True
    then have "cancelAll epoll_ctl io fd = Inr (False, io)"
      using True c by (auto simp: cancelAll_def)
    then show ?thesis using assms(1) by (intro exI [of _ False] exI [of _ io]) simp
  next
    case f: False
    have z: "fd_events c AND NOT (fd_events c) = 0" by simp
    obtain io1 io2 where t: "trigger_if io fd (fd_events c) EV_READ = Inr io1"
        "trigger_if io1 fd (fd_events c) EV_WRITE = Inr io2" "io_inv io2"
        "length (m_FdContexts io2) = length (m_FdContexts io)"
        "events_at io1 fd = fd_events c AND NOT (fd_events c AND EV_READ)" "events_at io2 fd = 0"
        "m_pendingEventCount io2 = m_pendingEventCount io -
          (if fd_events c AND EV_READ \<noteq> 0 then 1 else 0) - (if fd_events c AND EV_WRITE \<noteq> 0 then 1 else 0)"
      using trigger_both_ok [OF assms(1) c ev z] by auto
    have same: "(events_at io1 fd AND EV_WRITE = 0) = (fd_events c AND EV_WRITE = 0)"
      using ev unfolding t(5) by (elim disjE) simp_all
    then have "trigger_if io1 fd (events_at io1 fd) EV_WRITE = Inr io2"
      using t(2) by (simp add: trigger_if_def)
    then have "cancelAll epoll_ctl io fd = Inr (True, io2)"
      using True c f t(1,6) by (simp add: cancelAll_def)
    moreover have "m_pendingEventCount io2 < m_pendingEventCount io"
      using t(7) f ev by auto
    ultimately show ?thesis using t(3,4,6) by auto
  qed
qed (use assms in \<open>auto simp: cancelAll_def\<close>)

definition delivered :: "u32 \<Rightarrow> u32" where
  "delivered ev0 =
     (let ev = (if ev0 AND (EPOLLERR OR EPOLLHUP) \<noteq> 0 then ev0 OR (EPOLLIN OR EPOLLOUT) else ev0)
      in (if ev AND EPOLLIN \<noteq> 0 then EV_READ else 0) OR (if ev AND EPOLLOUT \<noteq> 0 then EV_WRITE else 0))"

lemma delivered_cases: "delivered ev = 0 \<or> delivered ev = 1 \<or> delivered ev = 4 \<or> delivered ev = 5"
  by (simp add: delivered_def Let_def)

lemma idle_event_eq:
  assumes "context_at io fd = Inr c"
  shows "idle_event epoll_ctl io fd ev =
     (let left = fd_events c AND NOT (delivered ev) in
      if fd_events c AND delivered ev = EV_NONE then Inr io
      else if epoll_ctl (if left \<noteq> 0 then EPOLL_CTL_MOD else EPOLL_CTL_DEL) (fd_fd c) (EPOLLET OR left) \<noteq> 0
      then Inr io
      else bind_res (trigger_if io fd (delivered ev) EV_READ) (\<lambda>io1. trigger_if io1 fd (delivered ev) EV_WRITE))"
  using assms by (simp add: idle_event_def delivered_def Let_def)

lemma idle_event_ok:
  assumes "io_inv io" "context_at io fd = Inr c" "delivered ev AND NOT (fd_events c) = 0"
  shows "\<exists>io'. idle_event epoll_ctl io fd ev = Inr io' \<and> io_inv io' \<and>
     length (m_FdContexts io') = length (m_FdContexts io) \<and>
     (io' = io \<or> events_at io' fd = fd_events c AND NOT (delivered ev))"
proof -
  obtain io1 io2 where t: "trigger_if io fd (delivered ev) EV_READ = Inr io1"
      "trigger_if io1 fd (delivered ev) EV_WRITE = Inr io2" "io_inv io2"
      "length (m_FdContexts io2) = length (m_FdContexts io)"
      "events_at io2 fd = fd_events c AND NOT (delivered ev)"
    using trigger_both_ok [OF assms(1,2) delivered_cases assms(3)] by blast
  then show ?thesis unfolding idle_event_eq [OF assms(2)] using assms(1) by (simp add: Let_def)
qed

section \<open>Histories\<close>

definition registered :: "'f IOManager \<Rightarrow> int \<Rightarrow> u32 \<Rightarrow> bool" where
  "registered io fd event \<longleftrightarrow> fd < int (length (m_FdContexts io)) \<and> events_at io fd AND event \<noteq> 0"

text \<open>
  Any sequence of complete operations: no event is added twice, \<open>addEvent\<close> is called on a thread with a
  scheduler and, without a callback, from an executing fiber; the kernel delivers registered events.
\<close>

inductive io_step :: "'f IOManager \<Rightarrow> 'f IOManager \<Rightarrow> bool" where
  is_add: "0 \<le> fd \<Longrightarrow> event = EV_READ \<or> event = EV_WRITE \<Longrightarrow> \<not> registered io fd event \<Longrightarrow>
    cb \<noteq> None \<or> st = EXEC \<Longrightarrow> addEvent epoll_ctl (Some sid) f st io fd event cb = Inr (r, io') \<Longrightarrow>
    io_step io io'"
| is_del: "0 \<le> fd \<Longrightarrow> event = EV_READ \<or> event = EV_WRITE \<Longrightarrow>
    delEvent epoll_ctl io fd event = Inr (b, io') \<Longrightarrow> io_step io io'"
| is_cancel: "0 \<le> fd \<Longrightarrow> event = EV_READ \<or> event = EV_WRITE \<Longrightarrow>
    cancelEvent epoll_ctl io fd event = Inr (b, io') \<Longrightarrow> io_step io io'"
| is_cancelAll: "0 \<le> fd \<Longrightarrow> cancelAll epoll_ctl io fd = Inr (b, io') \<Longrightarrow> io_step io io'"
| is_idle: "context_at io fd = Inr c \<Longrightarrow> delivered ev AND NOT (fd_events c) = 0 \<Longrightarrow>
    idle_event epoll_ctl io fd ev = Inr io' \<Longrightarrow> io_step io io'"
| is_expired: "io_step io (idle_expired now addr io)"
| is_stopping: "io_step io (snd (snd (IOManager_stopping now io)))"

inductive io_reachable :: "'f IOManager \<Rightarrow> bool" where
  ir_new: "m_FdContexts io = [] \<Longrightarrow> m_pendingEventCount io = 0 \<Longrightarrow> io_reachable (contextResize io 32)"
| ir_step: "io_reachable io \<Longrightarrow> io_step io io' \<Longrightarrow> io_reachable io'"

definition io_inv32 :: "'f IOManager \<Rightarrow> bool" where
  "io_inv32 io \<longleftrightarrow> io_inv io \<and> 32 \<le> length (m_FdContexts io)"

lemma addEvent_ok:
  assumes "io_inv32 io" "0 \<le> fd" "event = EV_READ \<or> event = EV_WRITE" "\<not> registered io fd event"
    "cb \<noteq> None \<or> st = EXEC"
  shows "\<exists>r io'. addEvent epoll_ctl (Some sid) f st io fd event cb = Inr (r, io') \<and> io_inv32 io' \<and>
     (if r = 0 then m_pendingEventCount io' = m_pendingEventCount io + 1 \<and> registered io' fd event
      else r = -1 \<and> m_pendingEventCount io' = m_pendingEventCount io \<and> \<not> registered io' fd event)"
proof -
  let ?cs = "m_FdContexts io"
  define io0 where "io0 = (if int (length ?cs) > fd then io else addEvent_grow io fd)"
  have e: "addEvent epoll_ctl (Some sid) f st io fd event cb =
      addEvent_register epoll_ctl (Some sid) f st io0 fd event cb"
    by (simp add: addEvent_def io0_def)
  have grow: "length ?cs \<le> nat (fd * 3 div 2)" "nat fd < nat (fd * 3 div 2)" if "\<not> int (length ?cs) > fd"
    using that assms(1) by (auto simp: io_inv32_def)
  have inv0: "io_inv32 io0" "nat fd < length (m_FdContexts io0)" "m_pendingEventCount io0 = m_pendingEventCount io"
    using assms(1,2) contextResize_inv [of io "nat (fd * 3 div 2)"] grow
    by (auto simp: io0_def io_inv32_def addEvent_grow_def contextResize_def [of io "nat (fd * 3 div 2)"])
  then obtain c where c: "context_at io0 fd = Inr c" using assms(2) by (simp add: context_at_iff)
  have un: "fd_events c AND event = 0"
  proof (cases "int (length ?cs) > fd")
    case True
    then show ?thesis using c assms(4) events_at_context [OF c] by (simp add: io0_def registered_def)
  next
    case False
    have "length ?cs \<le> nat fd" using False assms(2) by auto
    moreover from this have "nat fd - length ?cs < nat (fd * 3 div 2) - length ?cs"
      using grow(2) [OF False] by (rule diff_less_mono [rotated])
    moreover have "[length ?cs..<nat (fd * 3 div 2)] ! (nat fd - length ?cs) = nat fd"
      using \<open>length ?cs \<le> nat fd\<close> grow(2) [OF False] by (subst nth_upt) linarith+
    ultimately have "m_FdContexts (addEvent_grow io fd) ! nat fd = FdContext_new (nat fd)"
      using grow(1) [OF False] by (simp add: addEvent_grow_def contextResize_def nth_append)
    then show ?thesis using c False by (auto simp: io0_def context_at_iff FdContext_new_def)
  qed
  have "registered io' fd event \<longleftrightarrow> fd_events d AND event \<noteq> 0" if "context_at io' fd = Inr d" for io' :: "'a IOManager" and d
    using that events_at_context [OF that] by (auto simp: registered_def context_at_iff)
  moreover have "(fd_events c OR event) AND event \<noteq> 0"
    using assms(3) ctx_ok_events [of c] context_ok [of io0 fd c] inv0(1) c
    by (auto simp: io_inv32_def)
  note calculation = calculation this
  note reg = addEvent_register_ok [of io0 fd c event cb st epoll_ctl sid f]
  let ?rc = "epoll_ctl (if fd_events c \<noteq> 0 then EPOLL_CTL_MOD else EPOLL_CTL_ADD) fd
     (EPOLLET OR fd_events c OR event)"
  show ?thesis
  proof (cases "?rc = 0")
    case True
    then obtain io' c' where "addEvent_register epoll_ctl (Some sid) f st io0 fd event cb = Inr (0, io')"
        "io_inv io'" "m_pendingEventCount io' = m_pendingEventCount io0 + 1" "context_at io' fd = Inr c'"
        "fd_events c' = fd_events c OR event" "length (m_FdContexts io') = length (m_FdContexts io0)"
      using reg inv0 c assms(3,5) un by (auto simp: io_inv32_def)
    then show ?thesis unfolding e using calculation inv0 by (auto simp: io_inv32_def)
  next
    case False
    then have "addEvent_register epoll_ctl (Some sid) f st io0 fd event cb = Inr (-1, io0)"
      using reg inv0 c assms(3,5) un by (simp add: io_inv32_def)
    then show ?thesis unfolding e using calculation(1) [OF c] inv0 un
      by (intro exI [of _ "-1"] exI [of _ io0]) simp
  qed
qed

lemma io_step_inv:
  assumes "io_step io io'" "io_inv32 io"
  shows "io_inv32 io'"
  using assms(1)
proof (cases rule: io_step.cases)
  case (is_add fd event cb st epoll_ctl sid f r)
  then show ?thesis using addEvent_ok [OF assms(2), of fd event cb st epoll_ctl sid f] by auto
next
  case (is_del fd event epoll_ctl b)
  then show ?thesis using delEvent_ok [of io fd event epoll_ctl] assms(2) by (auto simp: io_inv32_def)
next
  case (is_cancel fd event epoll_ctl b)
  then show ?thesis using cancelEvent_ok [of io fd event epoll_ctl] assms(2) by (auto simp: io_inv32_def)
next
  case (is_cancelAll fd epoll_ctl b)
  then show ?thesis using cancelAll_ok [of io fd epoll_ctl] assms(2) by (auto simp: io_inv32_def)
next
  case (is_idle fd c ev epoll_ctl)
  then show ?thesis using idle_event_ok [of io fd c ev epoll_ctl] assms(2) by (auto simp: io_inv32_def)
qed (use assms(2) in \<open>auto simp: io_inv32_def io_inv_def idle_expired_def IOManager_stopping_def Let_def
      split: prod.splits\<close>)

lemma io_reachable_inv: "io_reachable io \<Longrightarrow> io_inv32 io"
proof (induction rule: io_reachable.induct)
  case (ir_new io)
  then have "io_inv io" by (simp add: io_inv_def)
  then show ?case using contextResize_inv [of io 32] ir_new by (simp add: io_inv32_def)
next
  case (ir_step io io')
  then show ?case using io_step_inv by blast
qed

section \<open>Properties\<close>


text \<open>A manager with an empty table, for the examples.\<close>

definition io_example :: "unit IOManager" where
  "io_example = \<lparr>m_FdContexts = [], m_pendingEventCount = 0,
     io_scheds = (\<lambda>_. \<lparr>m_fibers = [], m_sname = [], m_threads = 0, m_threadIds = [], m_rootFiber = None,
       m_threadCount = 1, m_activeThreadCount = 0, m_idleThreadCount = 0, m_stopping = False,
       m_autoStop = False, m_rootThread = -1\<rparr>),
     io_self = 0, io_timers = TimerManager_new (\<lambda>_. Timer_new 0 0 None False)\<rparr>"

lemma io_example_reachable: "io_reachable (contextResize io_example 32)"
  by (rule ir_new) (simp_all add: io_example_def)

lemma io_example_context: "i < 32 \<Longrightarrow> context_at (contextResize io_example 32) (int i) = Inr (FdContext_new i)"
  by (simp add: contextResize_def io_example_def context_at_def nth_append)

lemma io_example_events: "events_at (contextResize io_example 32) 5 = 0"
  using events_at_context [OF io_example_context [of 5]] by (simp add: FdContext_new_def)


text \<open>
  C11: \<open>cancelEvent\<close> on a registered event, when \<open>epoll_ctl\<close> succeeds, removes the event and hands exactly
  its callback or fiber to the scheduler it was registered with; when it returns false nothing
  changes.
\<close>

theorem cancelEvent_behaviour:
  assumes "io_reachable io" "0 \<le> fd" "event = EV_READ \<or> event = EV_WRITE"
    "cancelEvent epoll_ctl io fd event = Inr (b, io')"
  shows "if b then \<exists>c sid. context_at io fd = Inr c \<and> registered io fd event \<and> \<not> registered io' fd event \<and>
       ec_scheduler (the_context c event) = Some sid \<and>
       m_fibers (io_scheds io' sid) = m_fibers (io_scheds io sid) @ [event_task (the_context c event)] \<and>
       (\<forall>s. s \<noteq> sid \<longrightarrow> io_scheds io' s = io_scheds io s) \<and>
       m_pendingEventCount io' = m_pendingEventCount io - 1
     else io' = io"
proof (cases b)
  case True
  have i: "io_inv io" using io_reachable_inv [OF assms(1)] by (simp add: io_inv32_def)
  obtain c sid where c: "m_pendingEventCount io' = m_pendingEventCount io - 1"
      "context_at io fd = Inr c" "fd_events c AND event \<noteq> 0" "events_at io' fd = fd_events c AND NOT event"
      "ec_scheduler (the_context c event) = Some sid"
      "io_scheds io' = (io_scheds io)(sid := snd (schedule (io_scheds io sid) (event_task (the_context c event))))"
    using cancelEvent_ok [OF i assms(2,3), of epoll_ctl] assms(4) True by auto
  have "proper (event_task (the_context c event))"
    using triggerEvent_ok [OF _ assms(3) c(3)] context_ok [OF i c(2)] by blast
  then have "m_fibers (snd (schedule (io_scheds io sid) (event_task (the_context c event)))) =
      m_fibers (io_scheds io sid) @ [event_task (the_context c event)]"
    using schedule_spec(1) [OF prod.collapse [symmetric], of "io_scheds io sid" "event_task (the_context c event)"]
    by simp
  moreover have "registered io fd event"
    using events_at_context [OF c(2)] c(2,3) by (auto simp: registered_def context_at_iff)
  moreover have "events_at io' fd AND event = 0"
    unfolding c(4) by (simp add: and.assoc)
  ultimately show ?thesis using True c by (auto simp: registered_def)
next
  case False
  have i: "io_inv io" using io_reachable_inv [OF assms(1)] by (simp add: io_inv32_def)
  show ?thesis using cancelEvent_ok [OF i assms(2,3), of epoll_ctl] assms(4) False by auto
qed

theorem cancelEvent_behaviour_witness:
  "cancelEvent (\<lambda>_ _ _. 0) (contextResize io_example 32) 5 EV_READ = Inr (False, contextResize io_example 32)"
proof -
  obtain b io' where r: "cancelEvent (\<lambda>_ _ _. 0) (contextResize io_example 32) 5 EV_READ = Inr (b, io')"
    using cancelEvent_ok [of "contextResize io_example 32" 5 EV_READ "\<lambda>_ _ _. 0"]
      io_reachable_inv [OF io_example_reachable] unfolding io_inv32_def by auto
  have "\<not> registered (contextResize io_example 32) 5 EV_READ"
    by (simp add: registered_def io_example_events)
  then show ?thesis using cancelEvent_behaviour [OF io_example_reachable _ _ r] r by (cases b) auto
qed

text \<open>
  An error or hang-up on a descriptor for which only \<open>READ\<close> is registered stops the program: \<open>idle\<close>
  turns \<open>EPOLLERR\<close> or \<open>EPOLLHUP\<close> into both events without masking them by the registered ones, and
  \<open>triggerEvent(WRITE)\<close> fails its assertion.
\<close>

theorem idle_hangup_asserts:
  assumes "io_reachable io" "context_at io fd = Inr c" "fd_events c = EV_READ"
    "ev AND (EPOLLERR OR EPOLLHUP) \<noteq> 0" "epoll_ctl EPOLL_CTL_DEL fd EPOLLET = 0"
  shows "idle_event epoll_ctl io fd ev = Inl Assert_failed"
proof -
  have i: "io_inv io" using io_reachable_inv [OF assms(1)] by (simp add: io_inv32_def)
  have fd: "fd_fd c = fd" using context_ok [OF i assms(2)] by simp
  have "(ev OR (EPOLLIN OR EPOLLOUT)) AND EPOLLIN \<noteq> 0" "(ev OR (EPOLLIN OR EPOLLOUT)) AND EPOLLOUT \<noteq> 0"
    by (simp_all add: or_and_zero)
  then have d: "delivered ev = 5" using assms(4) by (simp add: delivered_def Let_def)
  obtain io1 where t: "trigger_if io fd 5 EV_READ = Inr io1"
      "context_at io1 fd = Inr (putContext (c\<lparr>fd_events := fd_events c AND NOT EV_READ\<rparr>) EV_READ ec_null)"
    using trigger_if_ok [OF i assms(2), of EV_READ 5] assms(3) by auto
  have "trigger_if io1 fd 5 EV_WRITE = Inl Assert_failed"
    using t(2) assms(3) by (simp add: trigger_if_def triggerEvent_def)
  then show ?thesis unfolding idle_event_eq [OF assms(2)] using assms(3,5) fd d t(1)
    by (simp add: Let_def)
qed

theorem idle_hangup_asserts_witness:
  "\<exists>io :: unit IOManager. io_reachable io \<and>
     idle_event (\<lambda>_ _ _. 0) io 5 EPOLLHUP = Inl Assert_failed"
proof -
  let ?io0 = "contextResize io_example 32"
  have i0: "io_inv32 ?io0" using io_reachable_inv [OF io_example_reachable] .
  have c0: "context_at ?io0 5 = Inr (FdContext_new 5)" using io_example_context [of 5] by simp
  obtain io c where a: "addEvent_register (\<lambda>_ _ _. 0) (Some 0) 3 EXEC ?io0 5 EV_READ None = Inr (0, io)"
      "context_at io 5 = Inr c" "fd_events c = EV_READ"
    using addEvent_register_ok [of ?io0 5 "FdContext_new 5" EV_READ None EXEC "\<lambda>_ _ _. 0" 0 3] i0 c0
    by (auto simp: io_inv32_def FdContext_new_def)
  have "int (length (m_FdContexts ?io0)) > 5" using i0 by (simp add: io_inv32_def)
  then have add: "addEvent (\<lambda>_ _ _. 0) (Some 0) 3 EXEC ?io0 5 EV_READ None = Inr (0, io)"
    using a(1) by (simp add: addEvent_def)
  have "\<not> registered ?io0 5 EV_READ" by (simp add: registered_def io_example_events)
  then have "io_step ?io0 io" using is_add [OF _ _ _ _ add] by simp
  then have r: "io_reachable io" using io_example_reachable ir_step by blast
  show ?thesis using idle_hangup_asserts [OF r a(2,3), of EPOLLHUP "\<lambda>_ _ _. 0"] r by auto
qed

text \<open>
  C40: The timeout that \<open>idle\<close> passes to \<open>epoll_wait\<close> is at most 3000 ms, and it is the time to the next
  timer or 3000 ms, whichever is less, as long as that time is below \<open>2 ^ 31\<close> ms or there is no
  timer. For the next timer between \<open>2 ^ 31\<close> and \<open>2 ^ 32\<close> ms away the cast makes it negative, and
  \<open>epoll_wait\<close> blocks without limit.
\<close>

theorem idle_timeout_behaviour:
  "idle_timeout t \<le> 3000 \<and>
   (t = - 1 \<longrightarrow> idle_timeout t = 3000) \<and>
   (unat t < 2 ^ 31 \<longrightarrow> idle_timeout t = min 3000 (int (unat t))) \<and>
   (2 ^ 31 \<le> unat t \<and> unat t < 2 ^ 32 \<longrightarrow> idle_timeout t < 0)"
proof -
  have s: "sint (ucast t :: u32) = (if unat t mod 2 ^ 32 < 2 ^ 31 then int (unat t mod 2 ^ 32)
      else int (unat t mod 2 ^ 32) - 2 ^ 32)"
    by (simp add: sint_u32 uint_ucast32)
  have e: "idle_timeout t = (if t = - 1 then 3000 else min 3000 (sint (ucast t :: u32)))"
    by (simp add: idle_timeout_def Let_def min_def)
  have "unat t = 2 ^ 64 - 1" if "t = - 1" using that by (simp add: unsigned_minus_1_eq_mask mask_eq_exp_minus_1)
  then have "t \<noteq> - 1" if "unat t < 2 ^ 32" using that by auto
  moreover have "uint t < 4294967296" if "unat t < 4294967296"
    using that by (simp only: unat_eq_nat_uint nat_less_iff [OF unsigned_greater_eq] of_nat_numeral)
  ultimately show ?thesis unfolding e s by auto
qed

theorem idle_timeout_behaviour_witness:
  "idle_timeout 10 = 10 \<and> idle_timeout (2 ^ 31) < 0"
  using idle_timeout_behaviour [of 10] idle_timeout_behaviour [of "2 ^ 31"] by simp

text \<open>
  The write-locked growth in \<open>addEvent\<close> does not look at the size again. When two threads both found
  the table too small, the second one, with the smaller descriptor, shrinks it: the contexts of the
  first are dropped, \<open>delEvent\<close> and \<open>cancelEvent\<close> no longer find the registered event, and
  \<open>m_pendingEventCount\<close> never returns to zero.
\<close>

theorem addEvent_growth_race:
  assumes "io_reachable io" "int (length (m_FdContexts io)) \<le> fd2" "fd2 * 3 div 2 \<le> fd1"
    "addEvent (\<lambda>_ _ _. 0) (Some sid) f EXEC io fd1 EV_READ cb = Inr (0, io1)"
  shows "int (length (m_FdContexts io)) \<le> fd1 \<and> registered io1 fd1 EV_READ \<and>
     m_pendingEventCount io1 = m_pendingEventCount io + 1 \<and>
     \<not> registered (addEvent_grow io1 fd2) fd1 EV_READ \<and>
     delEvent epoll_ctl (addEvent_grow io1 fd2) fd1 EV_READ = Inr (False, addEvent_grow io1 fd2) \<and>
     cancelEvent epoll_ctl (addEvent_grow io1 fd2) fd1 EV_READ = Inr (False, addEvent_grow io1 fd2) \<and>
     m_pendingEventCount (addEvent_grow io1 fd2) = m_pendingEventCount io + 1"
proof -
  have inv: "io_inv32 io" using assms(1) by (rule io_reachable_inv)
  then have fd2: "32 \<le> fd2" using assms(2) by (simp add: io_inv32_def)
  then have le: "int (length (m_FdContexts io)) \<le> fd1" "0 \<le> fd1" using assms(2,3) by linarith+
  then have "\<not> registered io fd1 EV_READ" by (simp add: registered_def)
  then have r: "registered io1 fd1 EV_READ" "m_pendingEventCount io1 = m_pendingEventCount io + 1"
      "int (length (m_FdContexts io1)) > fd1"
    using addEvent_ok [OF inv le(2), of EV_READ cb EXEC "\<lambda>_ _ _. 0" sid f] assms(4)
    by (auto simp: registered_def)
  have "length (m_FdContexts (addEvent_grow io1 fd2)) = nat (fd2 * 3 div 2)"
    using r(3) assms(3) fd2 by (auto simp: addEvent_grow_def contextResize_def min_def)
  then have short: "int (length (m_FdContexts (addEvent_grow io1 fd2))) \<le> fd1"
    using assms(3) fd2 by auto
  moreover have "m_pendingEventCount (addEvent_grow io1 fd2) = m_pendingEventCount io1"
    by (simp add: addEvent_grow_def contextResize_def)
  ultimately show ?thesis using le(1) r by (simp add: registered_def delEvent_def cancelEvent_def)
qed

theorem addEvent_growth_race_witness:
  "\<exists>io1. addEvent (\<lambda>_ _ _. 0) (Some 0) 3 EXEC (contextResize io_example 32) 100 EV_READ None = Inr (0, io1) \<and>
     cancelEvent (\<lambda>_ _ _. 0) (addEvent_grow io1 40) 100 EV_READ = Inr (False, addEvent_grow io1 40) \<and>
     m_pendingEventCount (addEvent_grow io1 40) = 1"
proof -
  let ?io0 = "contextResize io_example 32"
  have len: "length (m_FdContexts ?io0) = 32" "m_pendingEventCount ?io0 = 0"
    by (simp_all add: contextResize_def io_example_def)
  have "length (m_FdContexts (addEvent_grow ?io0 100)) = 150"
    using len(1) by (simp add: addEvent_grow_def contextResize_def [of ?io0])
  then have c: "context_at (addEvent_grow ?io0 100) 100 = Inr (FdContext_new 100)"
    using len(1) by (simp add: context_at_def addEvent_grow_def contextResize_def [of ?io0] nth_append)
  have inv: "io_inv (addEvent_grow ?io0 100)"
    using contextResize_inv(1) [of ?io0 150] io_reachable_inv [OF io_example_reachable] len(1)
    by (simp add: addEvent_grow_def io_inv32_def)
  obtain io1 where "addEvent (\<lambda>_ _ _. 0) (Some 0) 3 EXEC ?io0 100 EV_READ None = Inr (0, io1)"
    using addEvent_register_ok [OF inv c, of EV_READ None EXEC "\<lambda>_ _ _. 0" 0 3] len(1)
    by (auto simp: addEvent_def FdContext_new_def)
  then show ?thesis
    using addEvent_growth_race [OF io_example_reachable, of 40 100 0 3 None io1 "\<lambda>_ _ _. 0"] len by auto
qed

end
