(* ===== verification/Fd_Manager.thy ===== *)
theory Fd_Manager
  imports Prelude
begin

text \<open>
  The table of descriptor properties of \<open>mingfwq/fd_manager.h\<close> and \<open>fd_manager.cpp\<close>: \<open>FdCtx\<close> and
  \<open>FdManager\<close>. The table holds the contexts themselves; a null pointer is \<open>None\<close>. The calls \<open>fstat\<close> and
  \<open>fcntl_f\<close> are parameters: a record of functions on a state \<open>'os\<close> of the operating system.

  The locale \<open>fd_table\<close> is the interface that the hooked system calls use: a partial map from
  descriptors to contexts with \<open>get\<close>, \<open>get\<close> with creation and \<open>del\<close>; \<open>FdManager\<close> provides it.
\<close>

section \<open>Interface\<close>

locale fd_table =
  fixes lookup :: "'t \<Rightarrow> int \<Rightarrow> 'c option"
    and ensure :: "'c \<Rightarrow> 't \<Rightarrow> int \<Rightarrow> 't"
    and remove :: "'t \<Rightarrow> int \<Rightarrow> 't"
    and inv :: "'t \<Rightarrow> bool"
    and valid :: "int \<Rightarrow> bool"
  assumes ensure_inv: "inv t \<Longrightarrow> valid fd \<Longrightarrow> inv (ensure c t fd)"
    and remove_inv: "inv t \<Longrightarrow> valid fd \<Longrightarrow> inv (remove t fd)"
    and lookup_ensure: "inv t \<Longrightarrow> valid fd \<Longrightarrow> valid fd' \<Longrightarrow>
      lookup (ensure c t fd) fd' = (if fd' = fd \<and> lookup t fd = None then Some c else lookup t fd')"
    and lookup_remove: "inv t \<Longrightarrow> valid fd \<Longrightarrow> valid fd' \<Longrightarrow>
      lookup (remove t fd) fd' = (if fd' = fd then None else lookup t fd')"
begin

lemma ensure_present:
  "inv t \<Longrightarrow> valid fd \<Longrightarrow> lookup (ensure c t fd) fd \<noteq> None"
  by (simp add: lookup_ensure)

lemma ensure_keeps:
  "inv t \<Longrightarrow> valid fd \<Longrightarrow> lookup t fd = Some d \<Longrightarrow> lookup (ensure c t fd) fd = Some d"
  by (simp add: lookup_ensure)

lemma remove_ensure:
  "inv t \<Longrightarrow> valid fd \<Longrightarrow> lookup (ensure c (remove t fd) fd) fd = Some c"
  by (simp add: lookup_ensure lookup_remove remove_inv)

end

section \<open>State\<close>

record FdCtx =
  m_isInit :: bool
  m_isSocket :: bool
  m_sysNonblock :: bool
  m_userNonblock :: bool
  m_isClosed :: bool
  m_fd :: int
  m_recvTimeout :: u64
  m_sendTimeout :: u64

text \<open>\<open>os_fstat\<close> is \<open>None\<close> when \<open>fstat\<close> fails and otherwise says whether the descriptor is a socket.\<close>

record 'os os_api =
  os_fstat :: "'os \<Rightarrow> int \<Rightarrow> bool option"
  os_getfl :: "'os \<Rightarrow> int \<Rightarrow> u32"
  os_setfl :: "'os \<Rightarrow> int \<Rightarrow> u32 \<Rightarrow> 'os \<times> int"

abbreviation O_NONBLOCK :: u32 where "O_NONBLOCK \<equiv> 0x800"

datatype timeout_so = SO_RCVTIMEO | SO_SNDTIMEO

type_synonym fd_table_t = "FdCtx option list"

section \<open>FdCtx\<close>

definition FdCtx_init :: "'os os_api \<Rightarrow> 'os \<Rightarrow> FdCtx \<Rightarrow> bool \<times> FdCtx \<times> 'os" where
  "FdCtx_init api os c =
     (if m_isInit c then (True, c, os)
      else let st = os_fstat api os (m_fd c);
               c1 = c\<lparr>m_recvTimeout := -1, m_sendTimeout := -1, m_isInit := (st \<noteq> None),
                      m_isSocket := (st = Some True)\<rparr>;
               flags = os_getfl api os (m_fd c);
               os1 = (if m_isSocket c1 \<and> flags AND O_NONBLOCK = 0
                      then fst (os_setfl api os (m_fd c) (flags OR O_NONBLOCK)) else os);
               c2 = c1\<lparr>m_sysNonblock := m_isSocket c1, m_userNonblock := False, m_isClosed := False\<rparr>
           in (m_isInit c2, c2, os1))"

definition FdCtx_new :: "'os os_api \<Rightarrow> 'os \<Rightarrow> int \<Rightarrow> FdCtx \<times> 'os" where
  "FdCtx_new api os fd =
     (let (_, c, os1) = FdCtx_init api os
        \<lparr>m_isInit = False, m_isSocket = False, m_sysNonblock = False, m_userNonblock = False,
         m_isClosed = False, m_fd = fd, m_recvTimeout = -1, m_sendTimeout = -1\<rparr>
      in (c, os1))"

definition setUserNonblock :: "FdCtx \<Rightarrow> bool \<Rightarrow> FdCtx" where
  "setUserNonblock c v = c\<lparr>m_userNonblock := v\<rparr>"
definition getUserNonblock :: "FdCtx \<Rightarrow> bool" where
  "getUserNonblock c = m_userNonblock c"

text \<open>Both accessors of the system flag use the user flag.\<close>

definition setSysNonblock :: "FdCtx \<Rightarrow> bool \<Rightarrow> FdCtx" where
  "setSysNonblock c v = c\<lparr>m_userNonblock := v\<rparr>"
definition getSysNonblock :: "FdCtx \<Rightarrow> bool" where
  "getSysNonblock c = m_userNonblock c"

definition setTimeout :: "FdCtx \<Rightarrow> timeout_so \<Rightarrow> u64 \<Rightarrow> FdCtx" where
  "setTimeout c so v = (if so = SO_RCVTIMEO then c\<lparr>m_recvTimeout := v\<rparr> else c\<lparr>m_sendTimeout := v\<rparr>)"
definition getTimeout :: "FdCtx \<Rightarrow> timeout_so \<Rightarrow> u64" where
  "getTimeout c so = (if so = SO_RCVTIMEO then m_recvTimeout c else m_sendTimeout c)"

section \<open>FdManager\<close>

definition FdManager_new :: fd_table_t where
  "FdManager_new = replicate 64 None"

text \<open>\<open>(int)m_datas.size()\<close>: the cast reads the low 32 bits as signed.\<close>

definition int_size :: "'a list \<Rightarrow> int" where
  "int_size xs = sint (of_nat (length xs) :: u32)"

definition vec_resize :: "nat \<Rightarrow> 'a \<Rightarrow> 'a list \<Rightarrow> 'a list" where
  "vec_resize n x xs = take n xs @ replicate (n - length xs) x"

definition vec_index :: "'a list \<Rightarrow> int \<Rightarrow> 'a res" where
  "vec_index xs i = (if 0 \<le> i \<and> i < int (length xs) then Inr (xs ! nat i) else Inl Bad_access)"

definition FdManager_get ::
  "'os os_api \<Rightarrow> 'os \<Rightarrow> fd_table_t \<Rightarrow> int \<Rightarrow> bool \<Rightarrow> (FdCtx option \<times> fd_table_t \<times> 'os) res" where
  "FdManager_get api os ds fd auto_create =
     (if fd = -1 then Inr (None, ds, os)
      else
        let create =
          (let (ctx, os1) = FdCtx_new api os fd;
               ds1 = (if fd \<ge> int_size ds then vec_resize (nat (fd * 3 div 2)) None ds else ds)
           in if 0 \<le> fd \<and> fd < int (length ds1)
              then Inr (Some ctx, ds1[nat fd := Some ctx], os1) else Inl Bad_access)
        in if int_size ds \<le> fd then
             (if \<not> auto_create then Inr (None, ds, os) else create)
           else bind_res (vec_index ds fd) (\<lambda>c.
             if c \<noteq> None \<or> \<not> auto_create then Inr (c, ds, os) else create))"

definition FdManager_del :: "fd_table_t \<Rightarrow> int \<Rightarrow> fd_table_t res" where
  "FdManager_del ds fd =
     (if int_size ds \<le> fd then Inr ds
      else bind_res (vec_index ds fd) (\<lambda>_. Inr (ds[nat fd := None])))"

section \<open>The table as a partial map\<close>

definition fd_lookup :: "fd_table_t \<Rightarrow> int \<Rightarrow> FdCtx option" where
  "fd_lookup ds fd = (if 0 \<le> fd \<and> fd < int (length ds) then ds ! nat fd else None)"

definition fd_ensure :: "FdCtx \<Rightarrow> fd_table_t \<Rightarrow> int \<Rightarrow> fd_table_t" where
  "fd_ensure c ds fd =
     (if fd_lookup ds fd \<noteq> None then ds
      else (if fd < int (length ds) then ds else vec_resize (nat (fd * 3 div 2)) None ds)[nat fd := Some c])"

definition fd_remove :: "fd_table_t \<Rightarrow> int \<Rightarrow> fd_table_t" where
  "fd_remove ds fd = (if int (length ds) \<le> fd then ds else ds[nat fd := None])"

definition fd_inv :: "fd_table_t \<Rightarrow> bool" where
  "fd_inv ds \<longleftrightarrow> 64 \<le> length ds \<and> length ds < 2 ^ 31"

definition fd_valid :: "int \<Rightarrow> bool" where
  "fd_valid fd \<longleftrightarrow> 0 \<le> fd \<and> fd < 2 ^ 30"

lemma int_size_small: "length xs < 2 ^ 31 \<Longrightarrow> int_size xs = int (length xs)"
proof -
  assume a: "length xs < 2 ^ 31"
  have "uint (of_nat (length xs) :: u32) = int (length xs)"
    using a by (simp add: unsigned_of_nat take_bit_nat_eq_self)
  then show ?thesis using a by (simp add: int_size_def sint_u32)
qed

lemma vec_resize_grow:
  assumes "length xs \<le> n"
  shows "length (vec_resize n x xs) = n"
    "i < n \<Longrightarrow> vec_resize n x xs ! i = (if i < length xs then xs ! i else x)"
  using assms by (auto simp: vec_resize_def nth_append)

lemma grown:
  assumes "fd_inv ds" "fd_valid fd" "\<not> fd < int (length ds)"
  shows "length ds \<le> nat (fd * 3 div 2)" "nat fd < nat (fd * 3 div 2)" "nat (fd * 3 div 2) < 2 ^ 31"
  using assms by (auto simp: fd_inv_def fd_valid_def)

lemma fd_ensure_length:
  assumes "fd_inv ds" "fd_valid fd"
  shows "length ds \<le> length (fd_ensure c ds fd)" "fd_inv (fd_ensure c ds fd)"
  using assms grown [OF assms]
  by (auto simp: fd_ensure_def fd_inv_def vec_resize_grow)

interpretation fdm: fd_table fd_lookup fd_ensure fd_remove fd_inv fd_valid
proof unfold_locales
  fix t fd fd' c
  assume a: "fd_inv t" "fd_valid fd" "fd_valid fd'"
  show "fd_lookup (fd_ensure c t fd) fd' = (if fd' = fd \<and> fd_lookup t fd = None then Some c else fd_lookup t fd')"
  proof (cases "fd < int (length t)")
    case True
    then show ?thesis using a
      by (auto simp: fd_ensure_def fd_lookup_def fd_valid_def nth_list_update)
  next
    case False
    note g = grown [OF a(1,2) False]
    have n: "fd_lookup t fd = None" using False by (simp add: fd_lookup_def)
    show ?thesis using False g a(2,3) n
      by (auto simp: fd_ensure_def fd_lookup_def [of _ fd'] fd_valid_def vec_resize_grow nth_list_update)
  qed
next
  fix t fd fd'
  assume a: "fd_inv t" "fd_valid fd" "fd_valid fd'"
  then show "fd_lookup (fd_remove t fd) fd' = (if fd' = fd then None else fd_lookup t fd')"
    by (auto simp: fd_remove_def fd_lookup_def fd_valid_def nth_list_update)
qed (simp add: fd_ensure_length(2), simp add: fd_remove_def fd_inv_def)

text \<open>\<open>get\<close> and \<open>del\<close> are the operations of the interface.\<close>

lemma FdManager_get_eq:
  assumes "fd_inv ds" "fd_valid fd"
  shows "FdManager_get api os ds fd auto_create =
     (if fd_lookup ds fd \<noteq> None \<or> \<not> auto_create then Inr (fd_lookup ds fd, ds, os)
      else let (c, os1) = FdCtx_new api os fd in Inr (Some c, fd_ensure c ds fd, os1))"
proof -
  have sz: "int_size ds = int (length ds)" using assms(1) by (simp add: fd_inv_def int_size_small)
  have fd: "0 \<le> fd" "fd \<noteq> -1" using assms(2) by (auto simp: fd_valid_def)
  show ?thesis
  proof (cases "fd < int (length ds)")
    case True
    then show ?thesis using fd
      by (auto simp: FdManager_get_def sz vec_index_def fd_lookup_def fd_ensure_def Let_def split: prod.splits)
  next
    case False
    note g = grown [OF assms False]
    have "fd_lookup ds fd = None" using False by (simp add: fd_lookup_def)
    moreover have "fd < int (length (vec_resize (nat (fd * 3 div 2)) None ds))"
      using g fd by (simp add: vec_resize_grow)
    ultimately show ?thesis using False fd
      by (auto simp: FdManager_get_def sz fd_ensure_def Let_def split: prod.splits)
  qed
qed

lemma FdManager_del_eq:
  assumes "fd_inv ds" "fd_valid fd"
  shows "FdManager_del ds fd = Inr (fd_remove ds fd)"
  using assms
  by (auto simp: FdManager_del_def fd_remove_def vec_index_def int_size_small fd_inv_def fd_valid_def)

section \<open>Properties\<close>

text \<open>
  C20: \<open>FdManager\<close> is a map from descriptors to contexts. On a table of at least 64 entries (the
  constructor's) and descriptors from 0 to \<open>2 ^ 30 - 1\<close>, \<open>get\<close> and \<open>del\<close> never index outside of the
  vector although \<open>get\<close> grows it to only \<open>fd * 1.5\<close>; \<open>get\<close> with creation returns the context already
  there, or creates one and leaves all others alone; after \<open>del\<close> the descriptor has none.
\<close>

theorem fd_manager_is_map:
  assumes "fd_inv ds" "fd_valid fd" "fd_valid fd'"
  shows "(\<exists>c ds' os'. FdManager_get api os ds fd True = Inr (Some c, ds', os') \<and> fd_inv ds' \<and>
        (case fd_lookup ds fd of Some d \<Rightarrow> c = d \<and> ds' = ds | None \<Rightarrow> c = fst (FdCtx_new api os fd)) \<and>
        fd_lookup ds' fd' = (if fd' = fd then Some c else fd_lookup ds fd')) \<and>
     FdManager_get api os ds fd False = Inr (fd_lookup ds fd, ds, os) \<and>
     (\<exists>ds'. FdManager_del ds fd = Inr ds' \<and> fd_inv ds' \<and>
        fd_lookup ds' fd' = (if fd' = fd then None else fd_lookup ds fd'))"
proof -
  have d: "\<exists>ds'. FdManager_del ds fd = Inr ds' \<and> fd_inv ds' \<and>
        fd_lookup ds' fd' = (if fd' = fd then None else fd_lookup ds fd')"
    using FdManager_del_eq [OF assms(1,2)] fdm.lookup_remove [OF assms] fdm.remove_inv [OF assms(1,2)] by simp
  obtain c0 os0 where c0: "FdCtx_new api os fd = (c0, os0)" by fastforce
  have g: "\<exists>c ds' os'. FdManager_get api os ds fd True = Inr (Some c, ds', os') \<and> fd_inv ds' \<and>
        (case fd_lookup ds fd of Some d \<Rightarrow> c = d \<and> ds' = ds | None \<Rightarrow> c = fst (FdCtx_new api os fd)) \<and>
        fd_lookup ds' fd' = (if fd' = fd then Some c else fd_lookup ds fd')"
  proof (cases "fd_lookup ds fd")
    case None
    then have "FdManager_get api os ds fd True = Inr (Some c0, fd_ensure c0 ds fd, os0)"
      using FdManager_get_eq [OF assms(1,2), of api os True] c0 by simp
    then show ?thesis using None c0 fdm.lookup_ensure [OF assms, of c0]
        fdm.ensure_inv [OF assms(1,2), of c0] by auto
  next
    case (Some e)
    then show ?thesis using FdManager_get_eq [OF assms(1,2), of api os True] assms(1) by auto
  qed
  show ?thesis using d g FdManager_get_eq [OF assms(1,2), of api os False] by auto
qed

theorem fd_manager_is_map_witness:
  "\<exists>c ds' os'. FdManager_get \<lparr>os_fstat = \<lambda>_ _. Some True, os_getfl = \<lambda>os fd. os, os_setfl = \<lambda>_ _ v. (v, 0)\<rparr>
     0 FdManager_new 100 True = Inr (Some c, ds', os')"
proof -
  have "fd_inv FdManager_new" "fd_valid 100" by (simp_all add: fd_inv_def FdManager_new_def fd_valid_def)
  note v = this
  show ?thesis using fd_manager_is_map [OF v v(2), of "\<lparr>os_fstat = \<lambda>_ _. Some True,
      os_getfl = \<lambda>os fd. os, os_setfl = \<lambda>_ _ v. (v, 0)\<rparr>" 0] by blast
qed

end
