(* ===== verification/Hook.thy ===== *)
theory Hook
  imports Fd_Manager IOManager "HOL-Library.Signed_Division"
begin

text \<open>
  The hooked system calls of \<open>mingfwq/hook.h\<close> and \<open>hook.cpp\<close>. The original functions (\<open>read_f\<close>,
  \<open>connect_f\<close>, ...) belong to the C library: they are parameters, the answers of an environment. For
  the retry loop of \<open>do_io\<close> the environment answers the successive calls of the original function,
  the successive \<open>addEvent\<close> calls, and tells the value of \<open>tinfo->cancelled\<close> each time the fiber is
  resumed. The loop may run forever, so it is a partial function whose value \<open>None\<close> means that it does
  not return; a trace records what it did. The thread-local \<open>t_hook_enable\<close>, the descriptor table and
  the state of the operating system form the record \<open>hook_state\<close>.
\<close>

section \<open>State\<close>

abbreviation EINTR :: int where "EINTR \<equiv> 4"
abbreviation EBADF :: int where "EBADF \<equiv> 9"
abbreviation EAGAIN :: int where "EAGAIN \<equiv> 11"
abbreviation ETIMEDOUT :: int where "ETIMEDOUT \<equiv> 110"
abbreviation EINPROGRESS :: int where "EINPROGRESS \<equiv> 115"

datatype io_action = Call | Add_timer u64 | Add_event u32 | Yield | Cancel_timer

record io_env =
  env_call :: "nat \<Rightarrow> int \<times> int"       \<comment> \<open>result and \<open>errno\<close> of the \<open>k\<close>-th call of the original function\<close>
  env_add :: "nat \<Rightarrow> int \<times> int"        \<comment> \<open>the same for the \<open>w\<close>-th \<open>addEvent\<close>\<close>
  env_cancelled :: "nat \<Rightarrow> int"         \<comment> \<open>\<open>tinfo->cancelled\<close> after the \<open>w\<close>-th resumption\<close>
  env_iom :: bool                      \<comment> \<open>\<open>IOManager::GetThis()\<close> is not null\<close>

record 'os hook_state =
  t_hook_enable :: bool
  h_fds :: fd_table_t
  h_os :: 'os

section \<open>Input and output\<close>

text \<open>From the label \<open>retry\<close>: \<open>k\<close> calls and \<open>w\<close> waits have been made.\<close>

partial_function (option) do_io_retry ::
  "io_env \<Rightarrow> u64 \<Rightarrow> u32 \<Rightarrow> nat \<Rightarrow> nat \<Rightarrow> io_action list \<Rightarrow> ((int \<times> int) res \<times> io_action list) option" where
  "do_io_retry e to event k w tr =
     (if fst (env_call e k) = -1 \<and> snd (env_call e k) = EINTR
      then do_io_retry e to event (Suc k) w (tr @ [Call])
      else if fst (env_call e k) = -1 \<and> snd (env_call e k) = EAGAIN then
        if \<not> env_iom e then Some (Inl Null_deref, tr @ [Call])
        else if fst (env_add e w) \<noteq> 0 then
          Some (Inr (-1, snd (env_add e w)),
            tr @ [Call] @ (if to \<noteq> -1 then [Add_timer to] else []) @ [Add_event event] @
            (if to \<noteq> -1 then [Cancel_timer] else []))
        else if env_cancelled e w \<noteq> 0 then
          Some (Inr (-1, env_cancelled e w),
            tr @ [Call] @ (if to \<noteq> -1 then [Add_timer to] else []) @ [Add_event event, Yield] @
            (if to \<noteq> -1 then [Cancel_timer] else []))
        else do_io_retry e to event (Suc k) (Suc w)
            (tr @ [Call] @ (if to \<noteq> -1 then [Add_timer to] else []) @ [Add_event event, Yield] @
            (if to \<noteq> -1 then [Cancel_timer] else []))
      else Some (Inr (env_call e k), tr @ [Call]))"

definition do_io ::
  "io_env \<Rightarrow> bool \<Rightarrow> FdCtx option \<Rightarrow> u32 \<Rightarrow> timeout_so \<Rightarrow> ((int \<times> int) res \<times> io_action list) option" where
  "do_io e hook_enable ctx event so =
     (if \<not> hook_enable then Some (Inr (env_call e 0), [Call])
      else case ctx of
          None \<Rightarrow> Some (Inr (env_call e 0), [Call])
        | Some c \<Rightarrow>
            if m_isClosed c then Some (Inr (-1, EBADF), [])
            else if \<not> m_isSocket c \<or> getUserNonblock c then Some (Inr (env_call e 0), [Call])
            else do_io_retry e (getTimeout c so) event 0 0 [])"

definition hook_read :: "io_env \<Rightarrow> bool \<Rightarrow> FdCtx option \<Rightarrow> ((int \<times> int) res \<times> io_action list) option" where
  "hook_read e en ctx = do_io e en ctx EV_READ SO_RCVTIMEO"

definition hook_write :: "io_env \<Rightarrow> bool \<Rightarrow> FdCtx option \<Rightarrow> ((int \<times> int) res \<times> io_action list) option" where
  "hook_write e en ctx = do_io e en ctx EV_WRITE SO_SNDTIMEO"

text \<open>
  \<open>connect_with_timeout\<close>: \<open>so_error\<close> is the result of \<open>getsockopt_f(SO_ERROR)\<close>, \<open>None\<close> when it fails.
  Call 0 of the environment is \<open>connect_f\<close>.
\<close>

definition connect_with_timeout ::
  "io_env \<Rightarrow> bool \<Rightarrow> FdCtx option \<Rightarrow> int option \<Rightarrow> int \<Rightarrow> u64 \<Rightarrow> (int \<times> int) res \<times> io_action list" where
  "connect_with_timeout e hook_enable ctx so_error errno timeout_ms =
     (if \<not> hook_enable then (Inr (env_call e 0), [Call])
      else case ctx of
          None \<Rightarrow> (Inr (-1, EBADF), [])
        | Some c \<Rightarrow>
            if m_isClosed c then (Inr (-1, EBADF), [])
            else if \<not> m_isSocket c then (Inr (env_call e 0), [Call])
            else if getUserNonblock c then (Inr (env_call e 0), [Call])
            else let (n, err) = env_call e 0
              in if n = 0 then (Inr (0, err), [Call])
                 else if n \<noteq> -1 \<or> err \<noteq> EINPROGRESS then (Inr (n, err), [Call])
                 else if \<not> env_iom e then (Inl Null_deref, [Call])
                 else let timer = (timeout_ms \<noteq> -1);
                          tr = [Call] @ (if timer then [Add_timer timeout_ms] else []) @ [Add_event EV_WRITE] @
                               (if fst (env_add e 0) = 0 then [Yield] else []) @ (if timer then [Cancel_timer] else [])
                      in if fst (env_add e 0) = 0 \<and> env_cancelled e 0 \<noteq> 0 then (Inr (-1, env_cancelled e 0), tr)
                         else (case so_error of
                             None \<Rightarrow> (Inr (-1, errno), tr)
                           | Some error \<Rightarrow> if error = 0 then (Inr (0, errno), tr) else (Inr (-1, error), tr)))"

section \<open>Sleeping\<close>

text \<open>The interval passed to \<open>addTimer\<close>: \<open>unsigned\<close> arithmetic wraps, \<open>int timeout_ms\<close> truncates.\<close>

definition sleep_ms :: "u32 \<Rightarrow> u64" where
  "sleep_ms seconds = ucast (seconds * 1000)"

definition usleep_ms :: "u32 \<Rightarrow> u64" where
  "usleep_ms usec = ucast (usec div 1000)"

definition nanosleep_ms :: "u64 \<Rightarrow> u64 \<Rightarrow> u64" where
  "nanosleep_ms tv_sec tv_nsec =
     (let timeout_ms = ucast (tv_sec * 1000 + word_of_int (sint tv_nsec sdiv 1000 sdiv 1000)) :: u32
      in scast timeout_ms)"

section \<open>Descriptors\<close>

definition hook_socket :: "'os os_api \<Rightarrow> int \<Rightarrow> 'os hook_state \<Rightarrow> (int \<times> 'os hook_state) res" where
  "hook_socket api socket_f h =
     (if \<not> t_hook_enable h then Inr (socket_f, h)
      else if socket_f = -1 then Inr (socket_f, h)
      else bind_res (FdManager_get api (h_os h) (h_fds h) socket_f True) (\<lambda>(_, ds, os).
        Inr (socket_f, h\<lparr>h_fds := ds, h_os := os\<rparr>)))"

text \<open>\<open>accept\<close>, given the result of \<open>do_io\<close> on the listening socket.\<close>

definition hook_accept :: "'os os_api \<Rightarrow> int \<Rightarrow> 'os hook_state \<Rightarrow> (int \<times> 'os hook_state) res" where
  "hook_accept api fd h =
     (if fd \<ge> 0 then
        bind_res (FdManager_get api (h_os h) (h_fds h) fd True) (\<lambda>(_, ds, os).
          Inr (fd, h\<lparr>h_fds := ds, h_os := os\<rparr>))
      else Inr (fd, h))"

text \<open>\<open>close\<close>: the second result says whether \<open>cancelAll\<close> was called.\<close>

definition hook_close :: "'os os_api \<Rightarrow> bool \<Rightarrow> int \<Rightarrow> 'os hook_state \<Rightarrow> (bool \<times> 'os hook_state) res" where
  "hook_close api has_iom fd h =
     (if t_hook_enable h then Inr (False, h)
      else bind_res (FdManager_get api (h_os h) (h_fds h) fd False) (\<lambda>(ctx, ds, os).
        if ctx = None then
          bind_res (FdManager_del ds fd) (\<lambda>ds'. Inr (has_iom, h\<lparr>h_fds := ds', h_os := os\<rparr>))
        else Inr (False, h\<lparr>h_fds := ds, h_os := os\<rparr>)))"

datatype fcntl_cmd = F_SETFL u32 | F_GETFL | F_other

definition fd_put :: "fd_table_t \<Rightarrow> int \<Rightarrow> FdCtx \<Rightarrow> fd_table_t" where
  "fd_put ds fd c = ds[nat fd := Some c]"

text \<open>\<open>fcntl\<close>: all other commands are passed to \<open>fcntl_f\<close> unchanged; \<open>other_rt\<close> is their result.\<close>

definition hook_fcntl :: "'os os_api \<Rightarrow> int \<Rightarrow> int \<Rightarrow> fcntl_cmd \<Rightarrow> 'os hook_state \<Rightarrow> (int \<times> 'os hook_state) res" where
  "hook_fcntl api other_rt fd cmd h =
     (case cmd of
        F_SETFL arg \<Rightarrow>
          bind_res (FdManager_get api (h_os h) (h_fds h) fd False) (\<lambda>(ctx, ds, os).
            case ctx of
              None \<Rightarrow> let (os', rt) = os_setfl api os fd arg in Inr (rt, h\<lparr>h_os := os'\<rparr>)
            | Some c \<Rightarrow>
                if m_isClosed c \<or> \<not> m_isSocket c then
                  let (os', rt) = os_setfl api os fd arg in Inr (rt, h\<lparr>h_os := os'\<rparr>)
                else let c1 = setUserNonblock c (arg AND O_NONBLOCK \<noteq> 0);
                         arg1 = (if getSysNonblock c1 then arg OR O_NONBLOCK else arg AND NOT O_NONBLOCK);
                         (os', rt) = os_setfl api os fd arg1
                     in Inr (rt, h\<lparr>h_fds := fd_put ds fd c1, h_os := os'\<rparr>))
      | F_GETFL \<Rightarrow>
          let arg = os_getfl api (h_os h) fd
          in bind_res (FdManager_get api (h_os h) (h_fds h) fd False) (\<lambda>(ctx, ds, os).
            case ctx of
              None \<Rightarrow> Inr (sint arg, h)
            | Some c \<Rightarrow>
                if m_isClosed c \<or> m_isSocket c then Inr (sint arg, h)
                else if getUserNonblock c then Inr (sint (arg OR O_NONBLOCK), h)
                else Inr (sint (arg AND NOT O_NONBLOCK), h))
      | F_other \<Rightarrow> Inr (other_rt, h))"

text \<open>\<open>ioctl\<close> with \<open>FIONBIO\<close>: \<open>rt\<close> and the new system state are those of \<open>ioctl_f\<close>.\<close>

definition hook_ioctl_FIONBIO :: "'os os_api \<Rightarrow> int \<Rightarrow> bool \<Rightarrow> 'os hook_state \<Rightarrow> 'os hook_state res" where
  "hook_ioctl_FIONBIO api fd user_nonblock h =
     bind_res (FdManager_get api (h_os h) (h_fds h) fd False) (\<lambda>(ctx, ds, os).
       case ctx of
         None \<Rightarrow> Inr h
       | Some c \<Rightarrow> if m_isClosed c \<or> m_isSocket c then Inr h
                   else Inr (h\<lparr>h_fds := fd_put ds fd (setUserNonblock c user_nonblock)\<rparr>))"

definition hook_setsockopt_timeo ::
  "'os os_api \<Rightarrow> int \<Rightarrow> timeout_so \<Rightarrow> u64 \<Rightarrow> u64 \<Rightarrow> 'os hook_state \<Rightarrow> 'os hook_state res" where
  "hook_setsockopt_timeo api fd so tv_sec tv_usec h =
     (if \<not> t_hook_enable h then Inr h
      else bind_res (FdManager_get api (h_os h) (h_fds h) fd False) (\<lambda>(ctx, ds, os).
        case ctx of
          None \<Rightarrow> Inr h
        | Some c \<Rightarrow> Inr (h\<lparr>h_fds := fd_put ds fd (setTimeout c so
            (tv_sec * 1000 + word_of_int (sint tv_usec sdiv 1000)))\<rparr>)))"

section \<open>The retry loop\<close>

definition interrupted :: "io_env \<Rightarrow> nat \<Rightarrow> bool" where
  "interrupted e k \<longleftrightarrow> fst (env_call e k) = -1 \<and> snd (env_call e k) = EINTR"

definition not_ready :: "io_env \<Rightarrow> nat \<Rightarrow> bool" where
  "not_ready e k \<longleftrightarrow> fst (env_call e k) = -1 \<and> snd (env_call e k) = EAGAIN"

text \<open>The number of waits among the first \<open>k\<close> calls, and their trace.\<close>

fun waits :: "io_env \<Rightarrow> nat \<Rightarrow> nat" where
  "waits e 0 = 0"
| "waits e (Suc k) = waits e k + (if not_ready e k then 1 else 0)"

definition wait_trace :: "u64 \<Rightarrow> u32 \<Rightarrow> io_action list" where
  "wait_trace to event = (if to \<noteq> -1 then [Add_timer to] else []) @ [Add_event event, Yield] @
     (if to \<noteq> -1 then [Cancel_timer] else [])"

fun trace_of :: "io_env \<Rightarrow> u64 \<Rightarrow> u32 \<Rightarrow> nat \<Rightarrow> io_action list" where
  "trace_of e to event 0 = []"
| "trace_of e to event (Suc k) =
     trace_of e to event k @ [Call] @ (if not_ready e k then wait_trace to event else [])"

definition retried :: "io_env \<Rightarrow> nat \<Rightarrow> bool" where
  "retried e k \<longleftrightarrow> (\<forall>j<k. interrupted e j \<or> not_ready e j) \<and>
     (\<forall>w<waits e k. fst (env_add e w) = 0 \<and> env_cancelled e w = 0)"

lemma retried_Suc: "retried e (Suc k) \<Longrightarrow> retried e k"
  by (auto simp: retried_def split: if_splits)

lemma do_io_retry_steps:
  assumes "env_iom e" "retried e k"
  shows "do_io_retry e to event 0 0 [] = do_io_retry e to event k (waits e k) (trace_of e to event k)"
  using assms(2)
proof (induction k)
  case 0
  then show ?case by simp
next
  case (Suc k)
  let ?w = "waits e k"
  have IH: "do_io_retry e to event 0 0 [] = do_io_retry e to event k ?w (trace_of e to event k)"
    using Suc retried_Suc by blast
  have k: "interrupted e k \<or> not_ready e k" using Suc.prems by (simp add: retried_def)
  show ?case
  proof (cases "not_ready e k")
    case True
    then have "fst (env_add e ?w) = 0" "env_cancelled e ?w = 0"
      using Suc.prems by (auto simp: retried_def)
    then show ?thesis unfolding IH using True assms(1)
      by (subst do_io_retry.simps) (simp add: not_ready_def wait_trace_def)
  next
    case False
    then show ?thesis unfolding IH using k
      by (subst do_io_retry.simps) (auto simp: interrupted_def not_ready_def)
  qed
qed

lemma timers_balanced:
  "length (filter (\<lambda>a. a = Add_timer to) (trace_of e to event k)) =
   length (filter (\<lambda>a. a = Cancel_timer) (trace_of e to event k))"
  by (induction k) (auto simp: wait_trace_def)

section \<open>Properties\<close>

text \<open>
  C24: \<open>do_io\<close> on a socket in blocking mode returns what the first call of the original function returns
  that is neither interrupted nor would block. Each call that would block waits for the event on the
  descriptor, with the socket's timeout as a timer if one is set; no timer is left behind. When
  the fiber is resumed by the timer, \<open>do_io\<close> returns -1 with \<open>ETIMEDOUT\<close>, and it makes no further call.
\<close>

theorem do_io_behaviour:
  assumes "env_iom e" "\<not> m_isClosed c" "m_isSocket c" "\<not> getUserNonblock c" "retried e k"
  shows "(\<not> interrupted e k \<and> \<not> not_ready e k \<longrightarrow>
        do_io e True (Some c) event so = Some (Inr (env_call e k), trace_of e (getTimeout c so) event k @ [Call])) \<and>
     (not_ready e k \<and> fst (env_add e (waits e k)) = 0 \<and> env_cancelled e (waits e k) = ETIMEDOUT \<longrightarrow>
        do_io e True (Some c) event so =
          Some (Inr (-1, ETIMEDOUT), trace_of e (getTimeout c so) event (Suc k))) \<and>
     length (filter (\<lambda>a. a = Add_timer (getTimeout c so)) (trace_of e (getTimeout c so) event (Suc k))) =
     length (filter (\<lambda>a. a = Cancel_timer) (trace_of e (getTimeout c so) event (Suc k)))"
proof -
  let ?to = "getTimeout c so"
  have d: "do_io e True (Some c) event so = do_io_retry e ?to event k (waits e k) (trace_of e ?to event k)"
    using assms(2-4) do_io_retry_steps [OF assms(1,5)] by (simp add: do_io_def)
  have "\<not> interrupted e k \<and> \<not> not_ready e k \<Longrightarrow>
      do_io e True (Some c) event so = Some (Inr (env_call e k), trace_of e ?to event k @ [Call])"
    unfolding d by (subst do_io_retry.simps) (auto simp: interrupted_def not_ready_def)
  moreover have "not_ready e k \<and> fst (env_add e (waits e k)) = 0 \<and> env_cancelled e (waits e k) = ETIMEDOUT \<Longrightarrow>
        do_io e True (Some c) event so = Some (Inr (-1, ETIMEDOUT), trace_of e ?to event (Suc k))"
    unfolding d using assms(1) by (subst do_io_retry.simps) (simp add: not_ready_def wait_trace_def)
  ultimately show ?thesis using timers_balanced [of ?to e event "Suc k"] by blast
qed

theorem do_io_behaviour_witness:
  "do_io \<lparr>env_call = (\<lambda>k. if k = 0 then (-1, EAGAIN) else (7, 0)), env_add = (\<lambda>_. (0, 0)),
       env_cancelled = (\<lambda>_. 0), env_iom = True\<rparr> True
     (Some \<lparr>m_isInit = True, m_isSocket = True, m_sysNonblock = True, m_userNonblock = False,
       m_isClosed = False, m_fd = 5, m_recvTimeout = 100, m_sendTimeout = -1\<rparr>) EV_READ SO_RCVTIMEO =
   Some (Inr (7, 0), [Call, Add_timer 100, Add_event EV_READ, Yield, Cancel_timer, Call])"
proof -
  let ?e = "\<lparr>env_call = (\<lambda>k. if k = 0 then (-1, EAGAIN) else (7, 0)), env_add = (\<lambda>_. (0, 0)),
       env_cancelled = (\<lambda>_. 0), env_iom = True\<rparr>"
  let ?c = "\<lparr>m_isInit = True, m_isSocket = True, m_sysNonblock = True, m_userNonblock = False,
       m_isClosed = False, m_fd = 5, m_recvTimeout = 100, m_sendTimeout = -1\<rparr>"
  have r: "retried ?e 1" by (simp add: retried_def not_ready_def)
  have t: "trace_of ?e 100 EV_READ 1 = [Call, Add_timer 100, Add_event EV_READ, Yield, Cancel_timer]"
    by (simp add: not_ready_def wait_trace_def)
  show ?thesis
    using do_io_behaviour [of ?e ?c 1 EV_READ SO_RCVTIMEO] r t
    by (simp add: interrupted_def not_ready_def getUserNonblock_def getTimeout_def del: trace_of.simps)
qed

text \<open>
  \<open>close\<close> does nothing but close the descriptor when hooking is enabled, so the descriptor's context
  stays in the table. When the operating system gives the same number to a new socket, \<open>socket\<close> and
  \<open>accept\<close> find the old context: the new socket keeps the old timeouts and flags, and it is never made
  non-blocking, so a later \<open>read\<close> blocks the whole thread.
\<close>

theorem close_leaves_stale_context:
  assumes "t_hook_enable h" "fd_inv (h_fds h)" "fd_valid fd" "fd_lookup (h_fds h) fd = Some c"
  shows "hook_close api has_iom fd h = Inr (False, h) \<and>
     hook_socket api fd (h\<lparr>h_os := os'\<rparr>) = Inr (fd, h\<lparr>h_os := os'\<rparr>) \<and>
     hook_accept api fd (h\<lparr>h_os := os'\<rparr>) = Inr (fd, h\<lparr>h_os := os'\<rparr>)"
proof -
  have "FdManager_get api os' (h_fds h) fd True = Inr (Some c, h_fds h, os')"
    using FdManager_get_eq [OF assms(2,3), of api os' True] assms(4) by simp
  then show ?thesis using assms(1,3)
    by (auto simp: hook_close_def hook_socket_def hook_accept_def fd_valid_def)
qed

theorem close_leaves_stale_context_witness:
  "\<exists>h :: u32 hook_state. fd_lookup (h_fds h) 5 \<noteq> None \<and>
     hook_close \<lparr>os_fstat = \<lambda>_ _. Some True, os_getfl = \<lambda>os fd. os, os_setfl = \<lambda>_ _ v. (v, 0)\<rparr> True 5 h =
     Inr (False, h)"
proof -
  let ?api = "\<lparr>os_fstat = \<lambda>_ _. Some True, os_getfl = \<lambda>os fd. os, os_setfl = \<lambda>_ _ v. (v, 0)\<rparr> :: u32 os_api"
  let ?c = "fst (FdCtx_new ?api 0 5)"
  let ?h = "\<lparr>t_hook_enable = True, h_fds = fd_ensure ?c FdManager_new 5, h_os = 0\<rparr> :: u32 hook_state"
  have inv: "fd_inv FdManager_new" "fd_valid 5" by (simp_all add: fd_inv_def FdManager_new_def fd_valid_def)
  have "fd_lookup FdManager_new 5 = None" by (simp add: fd_lookup_def FdManager_new_def)
  then have l: "fd_lookup (h_fds ?h) 5 = Some ?c" using fdm.lookup_ensure [OF inv inv(2), of ?c] by simp
  moreover have "fd_inv (h_fds ?h)" using fdm.ensure_inv [OF inv, of ?c] by simp
  ultimately show ?thesis
    using close_leaves_stale_context [of ?h 5 ?c ?api True] inv(2) by (intro exI [of _ ?h]) simp
qed

text \<open>
  A socket's kernel flag \<open>O_NONBLOCK\<close>, which the framework sets when the socket is created, is lost
  by \<open>fcntl(fd, F_SETFL, flags)\<close> without \<open>O_NONBLOCK\<close>: \<open>getSysNonblock\<close> reads the user flag, so the hook
  clears the bit, and \<open>do_io\<close> still treats the socket as one whose calls return \<open>EAGAIN\<close>.
\<close>

theorem fcntl_clears_nonblock:
  assumes "fd_inv (h_fds h)" "fd_valid fd" "fd_lookup (h_fds h) fd = Some c" "m_isSocket c" "\<not> m_isClosed c"
    "flags AND O_NONBLOCK = 0"
    and setfl: "\<And>os fd fl. os_getfl api (fst (os_setfl api os fd fl)) fd = fl"
  shows "\<exists>rt h' c'. hook_fcntl api other_rt fd (F_SETFL flags) h = Inr (rt, h') \<and>
     os_getfl api (h_os h') fd AND O_NONBLOCK = 0 \<and>
     fd_lookup (h_fds h') fd = Some c' \<and> m_isSocket c' \<and> \<not> getUserNonblock c' \<and> m_sysNonblock c' = m_sysNonblock c"
proof -
  let ?c = "setUserNonblock c False"
  obtain os' rt where os': "os_setfl api (h_os h) fd (flags AND NOT O_NONBLOCK) = (os', rt)" by fastforce
  have fd: "0 \<le> fd" "nat fd < length (h_fds h)"
    using assms(2,3) by (auto simp: fd_valid_def fd_lookup_def split: if_splits)
  have "hook_fcntl api other_rt fd (F_SETFL flags) h =
      Inr (rt, h\<lparr>h_fds := fd_put (h_fds h) fd ?c, h_os := os'\<rparr>)"
    using FdManager_get_eq [OF assms(1,2), of api "h_os h" False] assms(3-6) os'
    by (simp add: hook_fcntl_def setUserNonblock_def getSysNonblock_def)
  moreover have "os_getfl api os' fd AND O_NONBLOCK = 0"
    using setfl [of "h_os h" fd "flags AND NOT O_NONBLOCK"] os' by (simp add: and.assoc)
  moreover have "fd_lookup (fd_put (h_fds h) fd ?c) fd = Some ?c"
    using fd by (simp add: fd_lookup_def fd_put_def)
  ultimately show ?thesis using assms(4) by (auto simp: setUserNonblock_def getUserNonblock_def)
qed

theorem fcntl_clears_nonblock_witness:
  "\<exists>(h :: u32 hook_state) rt h'.
     hook_fcntl \<lparr>os_fstat = \<lambda>_ _. Some True, os_getfl = \<lambda>os fd. os, os_setfl = \<lambda>_ _ v. (v, 0)\<rparr> 0 5 (F_SETFL 2) h =
     Inr (rt, h') \<and> h_os h' AND O_NONBLOCK = 0"
proof -
  let ?api = "\<lparr>os_fstat = \<lambda>_ _. Some True, os_getfl = \<lambda>os fd. os, os_setfl = \<lambda>_ _ v. (v, 0)\<rparr> :: u32 os_api"
  let ?c = "fst (FdCtx_new ?api 0 5)"
  let ?h = "\<lparr>t_hook_enable = True, h_fds = fd_ensure ?c FdManager_new 5, h_os = O_NONBLOCK\<rparr> :: u32 hook_state"
  have inv: "fd_inv FdManager_new" "fd_valid 5" by (simp_all add: fd_inv_def FdManager_new_def fd_valid_def)
  have "fd_lookup FdManager_new 5 = None" by (simp add: fd_lookup_def FdManager_new_def)
  then have l: "fd_lookup (h_fds ?h) 5 = Some ?c" using fdm.lookup_ensure [OF inv inv(2), of ?c] by simp
  have i: "fd_inv (h_fds ?h)" using fdm.ensure_inv [OF inv, of ?c] by simp
  have "m_isSocket ?c" "\<not> m_isClosed ?c" by (simp_all add: FdCtx_new_def FdCtx_init_def)
  then show ?thesis using fcntl_clears_nonblock [OF i inv(2) l, of 2 ?api 0] by auto
qed

end
