(* ===== verification/Address.thy ===== *)
theory Address
  imports Endian Cstring Std_Set
begin

text \<open>
  The network addresses of \<open>mingfwq/address.h\<close> and \<open>address.cpp\<close>. The socket address structures of the kernel are
  records with the fields of Linux; integers in them have the byte order that the code stores, an IPv6
  address is its 16 bytes. The class hierarchy is the datatype \<open>Address\<close>. \<open>bo\<close> is the byte order of the machine.
  \<open>getaddrinfo\<close>, \<open>getifaddrs\<close> and \<open>inet_pton\<close> are parameters. Accesses outside of an array and shifts by the
  width of a type or more are errors of the result type.
\<close>

section \<open>Socket addresses\<close>

definition AF_UNSPEC :: u16 where "AF_UNSPEC = 0"
definition AF_UNIX :: u16 where "AF_UNIX = 1"
definition AF_INET :: u16 where "AF_INET = 2"
definition AF_INET6 :: u16 where "AF_INET6 = 10"

record sockaddr_in =
  sin_family :: u16
  sin_port :: u16
  s_addr :: u32
  sin_zero :: "u8 list"

record sockaddr_in6 =
  sin6_family :: u16
  sin6_port :: u16
  sin6_flowinfo :: u32
  sin6_addr :: "u8 list"
  sin6_scope_id :: u32

record sockaddr_un =
  sun_family :: u16
  sun_path :: string

datatype Address =
    IPv4Address sockaddr_in
  | IPv6Address sockaddr_in6
  | UnixAddress sockaddr_un nat
  | UnknowAddress u16 "u8 list"

text \<open>What a \<open>sockaddr*\<close> from the system points to, by its family.\<close>

datatype sockaddr = Sock_in sockaddr_in | Sock_in6 sockaddr_in6 | Sock_other u16 "u8 list"

fun sa_family :: "sockaddr \<Rightarrow> u16" where
  "sa_family (Sock_in a) = AF_INET"
| "sa_family (Sock_in6 a) = AF_INET6"
| "sa_family (Sock_other f d) = f"

section \<open>Bits\<close>

definition CreateMask :: "u32 \<Rightarrow> u32 res" where
  "CreateMask bits =
     (let shift = (4 * 8 - ucast bits - 1 :: u64)
      in if unat shift < 32 then Inr (push_bit (unat shift) 1) else Inl Bad_shift)"

function CountBytes_loop :: "u32 \<Rightarrow> u32 \<Rightarrow> u32" where
  "CountBytes_loop value result =
     (if value \<noteq> 0 then CountBytes_loop (value AND (value - 1)) (result + 1) else result)"
  by pat_completeness auto

definition CountBytes :: "u32 \<Rightarrow> u32" where
  "CountBytes value = CountBytes_loop value 0"

text \<open>The loop ends, because each round clears the lowest bit that is set.\<close>

lemma bit_and_pred_int:
  "0 < (n :: int) \<Longrightarrow> bit n i \<and> bit (n - 1) i \<longleftrightarrow> bit n i \<and> (\<exists>j<i. bit n j)"
proof (induction i arbitrary: n)
  case 0
  then show ?case by (simp add: bit_0)
next
  case (Suc i)
  obtain m where m: "n = 2 * m \<or> n = 2 * m + 1" by (metis oddE evenE)
  have s: "(\<exists>j<Suc i. P j) \<longleftrightarrow> P 0 \<or> (\<exists>j<i. P (Suc j))" for P :: "nat \<Rightarrow> bool"
    by (auto simp: less_Suc_eq_0_disj)
  have h: "bit (2 * m) (Suc k) = bit m k" "bit (1 + 2 * m) (Suc k) = bit m k" for m :: int and k
    by (simp_all add: bit_Suc)
  from m show ?case
  proof
    assume n: "n = 2 * m"
    have "n - 1 = 1 + 2 * (m - 1)" using n by simp
    then have "bit (n - 1) (Suc i) = bit (m - 1) i" by (simp only: h)
    then show ?thesis using Suc.IH [of m] Suc.prems n by (simp add: s h bit_0)
  next
    assume n: "n = 2 * m + 1"
    then show ?thesis by (simp add: s h bit_0 bit_Suc)
  qed
qed

lemma word_pred_less: "(v :: 'a::len word) \<noteq> 0 \<Longrightarrow> v - 1 < v"
  by (metis antisym_conv3 less_eq_dec_triv_imp word_le_less_eq)

lemma bit_and_pred:
  assumes "(v :: 'a::len word) \<noteq> 0"
  shows "bit (v AND (v - 1)) i \<longleftrightarrow> bit v i \<and> (\<exists>j<i. bit v j)"
proof -
  have p: "0 < uint v" using assms by (metis less_le uint_0_iff uint_ge_0)
  have "(uint v - 1) mod 2 ^ LENGTH('a) = uint v - 1"
    by (rule mod_pos_pos_trivial) (use p uint_lt2p [of v] in linarith)+
  then have u: "uint (v - 1) = uint v - 1" by (simp add: uint_word_ariths)
  have "bit v k = bit (uint v) k" for k by (auto simp: bit_uint_iff dest: bit_imp_le_length)
  moreover have "bit (v - 1) k = bit (uint v - 1) k" for k
    unfolding u [symmetric] by (auto simp: bit_uint_iff dest: bit_imp_le_length)
  ultimately show ?thesis using bit_and_pred_int [OF p, of i] by (simp only: bit_and_iff)
qed

lemma card_clear_lowest:
  assumes "(v :: 'a::len word) \<noteq> 0"
  shows "card {i. bit v i} = Suc (card {i. bit (v AND (v - 1)) i})"
proof -
  let ?S = "{i. bit v i}"
  have f: "finite ?S" by (rule finite_subset [of _ "{..<LENGTH('a)}"]) (auto dest: bit_imp_le_length)
  have n: "?S \<noteq> {}" using assms by (auto simp: bit_eq_iff)
  have m: "Min ?S \<in> ?S" "\<And>i. bit v i \<Longrightarrow> Min ?S \<le> i" using Min_in [OF f n] Min_le [OF f] by simp_all
  have "bit (v AND (v - 1)) i \<longleftrightarrow> i \<in> ?S \<and> i \<noteq> Min ?S" for i
  proof -
    have "(\<exists>j<i. bit v j) \<longleftrightarrow> Min ?S < i" using m by (meson le_less_trans mem_Collect_eq)
    then show ?thesis unfolding bit_and_pred [OF assms] using m(2) [of i] by (metis le_neq_implies_less less_irrefl mem_Collect_eq)
  qed
  then have "{i. bit (v AND (v - 1)) i} = ?S - {Min ?S}" by auto
  then show ?thesis using f n Min_in [OF f n] by (metis card_Suc_Diff1)
qed

termination CountBytes_loop
proof (relation "measure (unat \<circ> fst)")
  fix v r :: u32 assume v: "v \<noteq> 0"
  have "v AND (v - 1) \<le> v - 1" by (rule word_and_le1)
  then have "v AND (v - 1) < v" using word_pred_less [OF v] by (rule le_less_trans)
  then show "((v AND (v - 1), r + 1), v, r) \<in> measure (unat \<circ> fst)" by (simp add: word_less_nat_alt)
qed simp

declare CountBytes_loop.simps [simp del]

section \<open>Address\<close>

definition Address_Create :: "sockaddr option \<Rightarrow> Address option" where
  "Address_Create addr =
     (case addr of
        None \<Rightarrow> None
      | Some (Sock_in a) \<Rightarrow> Some (IPv4Address a)
      | Some (Sock_in6 a) \<Rightarrow> Some (IPv6Address a)
      | Some (Sock_other f d) \<Rightarrow> Some (UnknowAddress f d))"

fun getFamily :: "Address \<Rightarrow> u16" where
  "getFamily (IPv4Address a) = sin_family a"
| "getFamily (IPv6Address a) = sin6_family a"
| "getFamily (UnixAddress a n) = sun_family a"
| "getFamily (UnknowAddress f d) = f"

text \<open>\<open>getAddr()\<close>: the bytes of the structure.\<close>

fun getAddr :: "endian \<Rightarrow> Address \<Rightarrow> u8 list" where
  "getAddr bo (IPv4Address a) =
     mem_rep bo (sin_family a) @ mem_rep bo (sin_port a) @ mem_rep bo (s_addr a) @ sin_zero a"
| "getAddr bo (IPv6Address a) =
     mem_rep bo (sin6_family a) @ mem_rep bo (sin6_port a) @ mem_rep bo (sin6_flowinfo a) @ sin6_addr a @
     mem_rep bo (sin6_scope_id a)"
| "getAddr bo (UnixAddress a n) = mem_rep bo (sun_family a) @ map of_char (sun_path a)"
| "getAddr bo (UnknowAddress f d) = mem_rep bo f @ d"

fun getAddrLen :: "Address \<Rightarrow> nat" where
  "getAddrLen (IPv4Address a) = 16"
| "getAddrLen (IPv6Address a) = 28"
| "getAddrLen (UnixAddress a n) = n"
| "getAddrLen (UnknowAddress f d) = 16"

definition setAddrLen :: "Address \<Rightarrow> nat \<Rightarrow> Address" where
  "setAddrLen a v = (case a of UnixAddress s n \<Rightarrow> UnixAddress s v | _ \<Rightarrow> a)"

text \<open>\<open>memcmp\<close>: negative, zero or positive; reading beyond an object is undefined.\<close>

fun bytes_cmp :: "u8 list \<Rightarrow> u8 list \<Rightarrow> int" where
  "bytes_cmp (x # xs) (y # ys) = (if x < y then - 1 else if y < x then 1 else bytes_cmp xs ys)"
| "bytes_cmp _ _ = 0"

definition memcmp :: "u8 list \<Rightarrow> u8 list \<Rightarrow> nat \<Rightarrow> int res" where
  "memcmp a b n =
     (if n \<le> length a \<and> n \<le> length b then Inr (bytes_cmp (take n a) (take n b)) else Inl Bad_access)"

definition Address_less :: "endian \<Rightarrow> Address \<Rightarrow> Address \<Rightarrow> bool res" where
  "Address_less bo this rhs =
     (let minlen = min (getAddrLen this) (getAddrLen rhs)
      in bind_res (memcmp (getAddr bo this) (getAddr bo rhs) minlen) (\<lambda>result.
           if result < 0 then Inr True
           else if result > 0 then Inr False
           else if getAddrLen this < getAddrLen rhs then Inr True
           else Inr False))"

definition Address_eq :: "endian \<Rightarrow> Address \<Rightarrow> Address \<Rightarrow> bool res" where
  "Address_eq bo this rhs =
     (if getAddrLen this = getAddrLen rhs then
        bind_res (memcmp (getAddr bo this) (getAddr bo rhs) (getAddrLen this)) (\<lambda>r. Inr (r \<noteq> 0))
      else Inr False)"

definition Address_neq :: "endian \<Rightarrow> Address \<Rightarrow> Address \<Rightarrow> bool res" where
  "Address_neq bo this rhs = bind_res (Address_eq bo this rhs) (\<lambda>r. Inr (\<not> r))"

section \<open>IPv4\<close>

definition IPv4Address_new :: "endian \<Rightarrow> u32 \<Rightarrow> u16 \<Rightarrow> sockaddr_in" where
  "IPv4Address_new bo address port =
     \<lparr>sin_family = AF_INET, sin_port = byteswapOnLittleEndian bo port,
      s_addr = byteswapOnLittleEndian bo address, sin_zero = replicate 8 0\<rparr>"

text \<open>\<open>inet_pton\<close> returns its result and, when that is 1, the address in network order.\<close>

definition IPv4Address_Create :: "endian \<Rightarrow> (string \<Rightarrow> int \<times> u32) \<Rightarrow> string \<Rightarrow> u16 \<Rightarrow> sockaddr_in option" where
  "IPv4Address_Create bo inet_pton address port =
     (let rt = (IPv4Address_new bo 0 0)\<lparr>sin_port := byteswapOnLittleEndian bo port\<rparr>;
          result = fst (inet_pton address);
          rt = (if result = 1 then rt\<lparr>s_addr := snd (inet_pton address)\<rparr> else rt)
      in if result < 0 then None else Some rt)"

definition IPv4Address_insert :: "endian \<Rightarrow> sockaddr_in \<Rightarrow> string" where
  "IPv4Address_insert bo a =
     (let addr = byteswapOnLittleEndian bo (s_addr a) in
      nat_to_string (unat (drop_bit 24 addr AND 0xff)) @ ''.'' @
      nat_to_string (unat (drop_bit 16 addr AND 0xff)) @ ''.'' @
      nat_to_string (unat (drop_bit 8 addr AND 0xff)) @ ''.'' @
      nat_to_string (unat (addr AND 0xff)) @
      '':'' @ nat_to_string (unat (byteswapOnLittleEndian bo (sin_port a))))"

definition v4_broadcastAddress :: "endian \<Rightarrow> sockaddr_in \<Rightarrow> u32 \<Rightarrow> sockaddr_in option res" where
  "v4_broadcastAddress bo a prefix_len =
     (if prefix_len > 32 then Inr None
      else bind_res (CreateMask prefix_len) (\<lambda>m.
        Inr (Some (a\<lparr>s_addr := s_addr a OR byteswapOnLittleEndian bo m\<rparr>))))"

definition v4_networdAddress :: "endian \<Rightarrow> sockaddr_in \<Rightarrow> u32 \<Rightarrow> sockaddr_in option res" where
  "v4_networdAddress bo a prefix_len =
     (if prefix_len > 32 then Inr None
      else bind_res (CreateMask prefix_len) (\<lambda>m.
        Inr (Some (a\<lparr>s_addr := s_addr a AND byteswapOnLittleEndian bo m\<rparr>))))"

definition v4_subnetMask :: "endian \<Rightarrow> u32 \<Rightarrow> sockaddr_in option res" where
  "v4_subnetMask bo prefix_len =
     bind_res (CreateMask prefix_len) (\<lambda>m.
       Inr (Some \<lparr>sin_family = AF_INET, sin_port = 0, s_addr = NOT (byteswapOnLittleEndian bo m),
                  sin_zero = replicate 8 0\<rparr>))"

definition v4_getPort :: "endian \<Rightarrow> sockaddr_in \<Rightarrow> u32" where
  "v4_getPort bo a = ucast (byteswapOnLittleEndian bo (sin_port a))"

definition v4_setPort :: "endian \<Rightarrow> sockaddr_in \<Rightarrow> u16 \<Rightarrow> sockaddr_in" where
  "v4_setPort bo a v = a\<lparr>sin_port := byteswapOnLittleEndian bo v\<rparr>"

section \<open>IPv6\<close>

definition IPv6Address_empty :: sockaddr_in6 where
  "IPv6Address_empty =
     \<lparr>sin6_family = AF_INET6, sin6_port = 0, sin6_flowinfo = 0, sin6_addr = replicate 16 0, sin6_scope_id = 0\<rparr>"

text \<open>The port is a \<open>uint32_t\<close> here: it is swapped as four bytes and cut to two.\<close>

definition IPv6Address_new :: "endian \<Rightarrow> u8 list \<Rightarrow> u32 \<Rightarrow> sockaddr_in6" where
  "IPv6Address_new bo address port =
     IPv6Address_empty\<lparr>sin6_port := ucast (byteswapOnLittleEndian bo port), sin6_addr := take 16 address\<rparr>"

definition IPv6Address_Create :: "endian \<Rightarrow> (string \<Rightarrow> int \<times> u8 list) \<Rightarrow> string \<Rightarrow> u16 \<Rightarrow> sockaddr_in6" where
  "IPv6Address_Create bo inet_pton address port =
     (let rt = IPv6Address_empty\<lparr>sin6_port := byteswapOnLittleEndian bo port\<rparr>;
          result = fst (inet_pton address)
      in if result = 1 then rt\<lparr>sin6_addr := snd (inet_pton address)\<rparr> else rt)"

text \<open>The arrays \<open>__u6_addr16\<close> and \<open>__u6_addr32\<close> over the 16 bytes.\<close>

definition u6_addr16 :: "endian \<Rightarrow> sockaddr_in6 \<Rightarrow> u16 list" where
  "u6_addr16 bo a = map (\<lambda>i. of_mem bo (take 2 (drop (2 * i) (sin6_addr a)))) [0..<8]"

definition get_u6_addr32 :: "endian \<Rightarrow> sockaddr_in6 \<Rightarrow> nat \<Rightarrow> u32 res" where
  "get_u6_addr32 bo a i =
     (if i < 4 then Inr (of_mem bo (take 4 (drop (4 * i) (sin6_addr a)))) else Inl Bad_access)"

definition set_u6_addr32 :: "endian \<Rightarrow> sockaddr_in6 \<Rightarrow> nat \<Rightarrow> u32 \<Rightarrow> sockaddr_in6 res" where
  "set_u6_addr32 bo a i v =
     (if i < 4 then Inr (a\<lparr>sin6_addr := take (4 * i) (sin6_addr a) @ mem_rep bo v @ drop (4 * i + 4) (sin6_addr a)\<rparr>)
      else Inl Bad_access)"

fun insert6_loop :: "endian \<Rightarrow> u16 list \<Rightarrow> nat \<Rightarrow> nat \<Rightarrow> bool \<Rightarrow> string \<times> bool" where
  "insert6_loop bo addr 0 i used_zeros = ([], used_zeros)"
| "insert6_loop bo addr (Suc todo) i used_zeros =
     (if addr ! i = 0 \<and> \<not> used_zeros then insert6_loop bo addr todo (i + 1) used_zeros
      else
        let zeros = (i \<noteq> 0 \<and> addr ! (i - 1) = 0 \<and> \<not> used_zeros);
            (rest, used) = insert6_loop bo addr todo (i + 1) (used_zeros \<or> zeros)
        in ((if zeros then '':'' else []) @ (if i \<noteq> 0 then '':'' else []) @
            nat_to_hex (unat (byteswapOnLittleEndian bo (addr ! i))) @ rest, used))"

definition IPv6Address_insert :: "endian \<Rightarrow> sockaddr_in6 \<Rightarrow> string" where
  "IPv6Address_insert bo a =
     (let addr = u6_addr16 bo a; (text, used_zeros) = insert6_loop bo addr 8 0 False
      in ''['' @ text @ (if \<not> used_zeros \<and> addr ! 7 = 0 then ''::'' else []) @
         '']:'' @ nat_to_string (unat (byteswapOnLittleEndian bo (sin6_port a))))"

text \<open>The loop \<open>for(i = from; i < to; ++i) addr32[i] = 0xff\<close>.\<close>

fun fill_u6_addr32 :: "endian \<Rightarrow> sockaddr_in6 \<Rightarrow> nat list \<Rightarrow> sockaddr_in6 res" where
  "fill_u6_addr32 bo a [] = Inr a"
| "fill_u6_addr32 bo a (i # is) = bind_res (set_u6_addr32 bo a i 0xff) (\<lambda>a. fill_u6_addr32 bo a is)"

definition v6_broadcastAddress :: "endian \<Rightarrow> sockaddr_in6 \<Rightarrow> u32 \<Rightarrow> sockaddr_in6 res" where
  "v6_broadcastAddress bo a prefix_len =
     (let k = unat prefix_len div 8 in
      bind_res (CreateMask (prefix_len mod 8)) (\<lambda>m.
      bind_res (get_u6_addr32 bo a k) (\<lambda>w.
      bind_res (set_u6_addr32 bo a k (w OR m)) (\<lambda>a.
      fill_u6_addr32 bo a [k + 1..<16]))))"

definition v6_networdAddress :: "endian \<Rightarrow> sockaddr_in6 \<Rightarrow> u32 \<Rightarrow> sockaddr_in6 res" where
  "v6_networdAddress bo a prefix_len =
     (let k = unat prefix_len div 8 in
      bind_res (CreateMask (prefix_len mod 8)) (\<lambda>m.
      bind_res (get_u6_addr32 bo a k) (\<lambda>w. set_u6_addr32 bo a k (w AND m))))"

definition v6_subnetMask :: "endian \<Rightarrow> u32 \<Rightarrow> sockaddr_in6 res" where
  "v6_subnetMask bo prefix_len =
     (let k = unat prefix_len div 8 in
      bind_res (CreateMask (prefix_len mod 8)) (\<lambda>m.
      bind_res (set_u6_addr32 bo IPv6Address_empty k (NOT m)) (\<lambda>a.
      fill_u6_addr32 bo a [0..<k])))"

definition v6_getPort :: "endian \<Rightarrow> sockaddr_in6 \<Rightarrow> u32" where
  "v6_getPort bo a = ucast (byteswapOnLittleEndian bo (sin6_port a))"

definition v6_setPort :: "endian \<Rightarrow> sockaddr_in6 \<Rightarrow> u16 \<Rightarrow> sockaddr_in6" where
  "v6_setPort bo a v = a\<lparr>sin6_port := byteswapOnLittleEndian bo v\<rparr>"

section \<open>Unix and unknown addresses\<close>

text \<open>\<open>sizeof(sun_path - 1)\<close> is the size of a pointer.\<close>

definition MAX_PATH_LEN :: nat where "MAX_PATH_LEN = 8"
definition offset_sun_path :: nat where "offset_sun_path = 2"
definition size_sun_path :: nat where "size_sun_path = 108"

definition UnixAddress_empty :: Address where
  "UnixAddress_empty =
     UnixAddress \<lparr>sun_family = AF_UNIX, sun_path = replicate size_sun_path CHR 0x00\<rparr> (offset_sun_path + MAX_PATH_LEN)"

definition UnixAddress_new :: "string \<Rightarrow> Address res" where
  "UnixAddress_new path =
     (let m_length = length path + 1;
          m_length = (if path \<noteq> [] \<and> hd path = CHR 0x00 then m_length - 1 else m_length)
      in if m_length > size_sun_path then Inl (Logic_error ''path too long'')
         else Inr (UnixAddress
           \<lparr>sun_family = AF_UNIX,
            sun_path = take m_length (path @ [CHR 0x00]) @ replicate (size_sun_path - m_length) CHR 0x00\<rparr>
           (m_length + offset_sun_path)))"

definition UnixAddress_insert :: "sockaddr_un \<Rightarrow> nat \<Rightarrow> string" where
  "UnixAddress_insert a m_length =
     (if m_length > offset_sun_path \<and> sun_path a ! 0 = CHR 0x00
      then [CHR 0x5C, CHR ''0''] @ take (m_length - offset_sun_path - 1) (drop 1 (sun_path a))
      else c_str (sun_path a))"

definition UnknowAddress_new :: "int \<Rightarrow> Address" where
  "UnknowAddress_new family = UnknowAddress (word_of_int family) (replicate 14 0)"

definition UnknowAddress_insert :: "u16 \<Rightarrow> string" where
  "UnknowAddress_insert family = ''[UnkonwAddress family = '' @ nat_to_string (unat family) @ '']''"

fun Address_insert :: "endian \<Rightarrow> Address \<Rightarrow> string" where
  "Address_insert bo (IPv4Address a) = IPv4Address_insert bo a"
| "Address_insert bo (IPv6Address a) = IPv6Address_insert bo a"
| "Address_insert bo (UnixAddress a n) = UnixAddress_insert a n"
| "Address_insert bo (UnknowAddress f d) = UnknowAddress_insert f"

section \<open>Lookups\<close>

definition memchr :: "char \<Rightarrow> string \<Rightarrow> nat option" where
  "memchr c s = (let k = length (takeWhile (\<lambda>x. x \<noteq> c) s) in if k < length s then Some k else None)"

text \<open>\<open>Lookup\<close> splits the host into node and service; the pointer \<open>service\<close> is the C string it points to.\<close>

definition split_ipv6 :: "string \<Rightarrow> string \<times> string option" where
  "split_ipv6 host =
     (if host \<noteq> [] \<and> hd host = CHR ''['' then
        (case memchr CHR '']'' (tl host) of
           None \<Rightarrow> ([], None)
         | Some k \<Rightarrow> (take k (tl host),
             if take 1 (drop (k + 2) host) = '':'' then Some (c_str (drop (k + 3) host)) else None))
      else ([], None))"

definition split_host :: "string \<Rightarrow> string \<times> string option" where
  "split_host host =
     (let (node, service) = split_ipv6 host;
          (node, service) =
            (if node = [] then
               (case memchr CHR '':'' host of
                  None \<Rightarrow> (node, None)
                | Some k \<Rightarrow>
                    if memchr CHR '':'' (drop (k + 1) host) = None
                    then (take k host, Some (c_str (drop (k + 1) host)))
                    else (node, Some (c_str (drop k host))))
             else (node, service))
      in (if node = [] then host else node, service))"

type_synonym getaddrinfo_fun = "string \<Rightarrow> string option \<Rightarrow> int \<times> int \<times> int \<Rightarrow> int \<times> sockaddr option list"

definition Address_Lookup :: "getaddrinfo_fun \<Rightarrow> string \<Rightarrow> int \<Rightarrow> int \<Rightarrow> int \<Rightarrow> bool \<times> Address option list" where
  "Address_Lookup getaddrinfo host family type protocol =
     (let (node, service) = split_host host;
          (error, results) = getaddrinfo (c_str node) service (family, type, protocol)
      in if error \<noteq> 0 then (False, []) else (True, map Address_Create results))"

definition LookupAny :: "getaddrinfo_fun \<Rightarrow> string \<Rightarrow> int \<Rightarrow> int \<Rightarrow> int \<Rightarrow> Address option res" where
  "LookupAny getaddrinfo host family type protocol =
     (case Address_Lookup getaddrinfo host family type protocol of
        (True, r # _) \<Rightarrow> Inr r
      | (True, []) \<Rightarrow> Inl Bad_access
      | (False, _) \<Rightarrow> Inr None)"

fun is_ip :: "Address option \<Rightarrow> bool" where
  "is_ip (Some (IPv4Address a)) = True"
| "is_ip (Some (IPv6Address a)) = True"
| "is_ip _ = False"

definition LookupAnyIPAddress :: "getaddrinfo_fun \<Rightarrow> string \<Rightarrow> int \<Rightarrow> int \<Rightarrow> int \<Rightarrow> Address option" where
  "LookupAnyIPAddress getaddrinfo host family type protocol =
     (let (ok, result) = Address_Lookup getaddrinfo host family type protocol
      in if ok then (case List.find is_ip result of Some v \<Rightarrow> v | None \<Rightarrow> None) else None)"

definition EAI_NONAME :: int where "EAI_NONAME = - 2"

definition IPAddress_Create :: "endian \<Rightarrow> getaddrinfo_fun \<Rightarrow> string \<Rightarrow> u16 \<Rightarrow> Address option res" where
  "IPAddress_Create bo getaddrinfo address port =
     (let (error, results) = getaddrinfo (c_str address) None (uint AF_UNSPEC, 0, 0)
      in if error = EAI_NONAME then Inr None
         else if error \<noteq> 0 then Inl Bad_access
         else case results of
           [] \<Rightarrow> Inl Null_deref
         | r # _ \<Rightarrow> Inr (case Address_Create r of
             Some (IPv4Address a) \<Rightarrow> Some (IPv4Address (v4_setPort bo a port))
           | Some (IPv6Address a) \<Rightarrow> Some (IPv6Address (v6_setPort bo a port))
           | _ \<Rightarrow> None))"

section \<open>Interfaces\<close>

record ifaddrs =
  ifa_name :: string
  ifa_addr :: "sockaddr option"
  ifa_netmask :: "sockaddr option"

text \<open>A \<open>std::multimap\<close>: sorted by key, a new element behind those with an equal key.\<close>

fun multimap_insert :: "string \<Rightarrow> 'v \<Rightarrow> (string \<times> 'v) list \<Rightarrow> (string \<times> 'v) list" where
  "multimap_insert k v [] = [(k, v)]"
| "multimap_insert k v (x # xs) = (if string_less k (fst x) then (k, v) # x # xs else x # multimap_insert k v xs)"

definition equal_range :: "string \<Rightarrow> (string \<times> 'v) list \<Rightarrow> (string \<times> 'v) list" where
  "equal_range k m = filter (\<lambda>x. \<not> string_less (fst x) k \<and> \<not> string_less k (fst x)) m"

fun sum_u6_addr32 :: "endian \<Rightarrow> sockaddr_in6 \<Rightarrow> nat list \<Rightarrow> u32 \<Rightarrow> u32 res" where
  "sum_u6_addr32 bo a [] prefix_length = Inr prefix_length"
| "sum_u6_addr32 bo a (i # is) prefix_length =
     bind_res (get_u6_addr32 bo a i) (\<lambda>w. sum_u6_addr32 bo a is (prefix_length + CountBytes w))"

definition interface_entry :: "endian \<Rightarrow> int \<Rightarrow> ifaddrs \<Rightarrow> (Address \<times> u32) option res" where
  "interface_entry bo family next =
     (case ifa_addr next of
        None \<Rightarrow> Inl Null_deref
      | Some addr \<Rightarrow>
          if family \<noteq> uint AF_UNSPEC \<and> family \<noteq> uint (sa_family addr) then Inr None
          else (case addr of
            Sock_in a \<Rightarrow> Inr (Some (IPv4Address a, CountBytes (s_addr a)))
          | Sock_in6 a \<Rightarrow> bind_res (sum_u6_addr32 bo a [0..<16] 0) (\<lambda>n. Inr (Some (IPv6Address a, n)))
          | Sock_other f d \<Rightarrow> Inr None))"

fun interface_loop :: "endian \<Rightarrow> int \<Rightarrow> ifaddrs list \<Rightarrow> (string \<times> Address \<times> u32) list \<Rightarrow>
    (string \<times> Address \<times> u32) list res" where
  "interface_loop bo family [] result = Inr result"
| "interface_loop bo family (next # rest) result =
     bind_res (interface_entry bo family next) (\<lambda>e.
       interface_loop bo family rest
         (case e of None \<Rightarrow> result | Some x \<Rightarrow> multimap_insert (ifa_name next) x result))"

definition GetInterfaceAddresses ::
    "endian \<Rightarrow> ifaddrs list option \<Rightarrow> int \<Rightarrow> (bool \<times> (string \<times> Address \<times> u32) list) res" where
  "GetInterfaceAddresses bo getifaddrs family =
     (case getifaddrs of
        None \<Rightarrow> Inr (False, [])
      | Some results \<Rightarrow> bind_res (interface_loop bo family results []) (\<lambda>r. Inr (True, r)))"

text \<open>The condition \<open>iface.empty(), iface == "*"\<close> is its second half.\<close>

definition GetInterfaceAddresses_of ::
    "endian \<Rightarrow> ifaddrs list option \<Rightarrow> string \<Rightarrow> int \<Rightarrow> (bool \<times> (Address \<times> u32) list) res" where
  "GetInterfaceAddresses_of bo getifaddrs iface family =
     (if iface = ''*'' then
        Inr (True,
          (if family = uint AF_INET \<or> family = uint AF_UNSPEC then [(IPv4Address (IPv4Address_new bo 0 0), 0)] else []) @
          (if family = uint AF_INET6 \<or> family = uint AF_UNSPEC then [(IPv6Address IPv6Address_empty, 0)] else []))
      else bind_res (GetInterfaceAddresses bo getifaddrs family) (\<lambda>(ok, results).
        if \<not> ok then Inr (False, []) else Inr (True, map snd (equal_range iface results))))"

section \<open>Bits and bytes\<close>

lemma CountBytes_loop_eq: "CountBytes_loop v r = r + of_nat (card {i. bit v i})"
proof (induction v r rule: CountBytes_loop.induct)
  case (1 v r)
  then show ?case
    by (subst CountBytes_loop.simps) (auto simp: card_clear_lowest bot_fun_def)
qed

lemma bit_byteswap:
  assumes "8 dvd LENGTH('a)" "i < LENGTH('a)"
  shows "bit (byteswap (w :: 'a::len word)) i \<longleftrightarrow> bit w (8 * (LENGTH('a) div 8 - 1 - i div 8) + i mod 8)"
proof -
  have n: "8 * (LENGTH('a) div 8) = LENGTH('a)" using assms(1) by simp
  then have i: "i div 8 < LENGTH('a) div 8" using assms(2) by linarith
  then have "rev (le_bytes w) ! (i div 8) = le_bytes w ! (LENGTH('a) div 8 - 1 - i div 8)"
    by (simp add: rev_nth)
  moreover have "bit (le_bytes w ! (LENGTH('a) div 8 - 1 - i div 8)) (i mod 8) \<longleftrightarrow>
      bit w (8 * (LENGTH('a) div 8 - 1 - i div 8) + i mod 8)"
    using i by (intro bit_le_bytes) auto
  ultimately show ?thesis using assms(2) n by (simp add: byteswap_def bit_of_le)
qed

lemma byteswap_bitwise:
  assumes "8 dvd LENGTH('a)"
  shows "byteswap (a OR b) = byteswap a OR byteswap (b :: 'a::len word)"
    "byteswap (a AND b) = byteswap a AND byteswap b"
    "byteswap (NOT a) = NOT (byteswap a)"
proof -
  have l: "8 * (LENGTH('a) div 8 - 1 - i div 8) + i mod 8 < LENGTH('a)" if "i < LENGTH('a)" for i
  proof -
    have "i div 8 < LENGTH('a) div 8" using that assms by (auto simp: dvd_def)
    moreover have "8 * (LENGTH('a) div 8) = LENGTH('a)" using assms by simp
    moreover have "i mod 8 < 8" by simp
    ultimately show ?thesis by linarith
  qed
  show "byteswap (a OR b) = byteswap a OR byteswap b" "byteswap (a AND b) = byteswap a AND byteswap b"
    "byteswap (NOT a) = NOT (byteswap a)"
    by (rule bit_word_eqI; use l in \<open>simp add: bit_simps bit_byteswap [OF assms]\<close>)+
qed

lemma network_bitwise:
  "byteswapOnLittleEndian bo (a OR b) = byteswapOnLittleEndian bo a OR byteswapOnLittleEndian bo (b :: u32)"
  "byteswapOnLittleEndian bo (a AND b) = byteswapOnLittleEndian bo a AND byteswapOnLittleEndian bo b"
  "byteswapOnLittleEndian bo (NOT a) = NOT (byteswapOnLittleEndian bo a)"
  by (cases bo; simp add: byteswapOnLittleEndian_def byteswap_bitwise)+

lemma network_twice [simp]:
  "byteswapOnLittleEndian bo (byteswapOnLittleEndian bo (a :: u32)) = a"
  "byteswapOnLittleEndian bo (byteswapOnLittleEndian bo (p :: u16)) = p"
  by (cases bo; simp add: byteswapOnLittleEndian_def)+

lemma unat_ucast_u32: "unat (ucast (p :: u32) :: u64) = unat p"
proof -
  have "unat p < 2 ^ 32" using unsigned_less [of p, where 'a = nat] by simp
  then show ?thesis by (simp add: unsigned_ucast_eq take_bit_nat_eq_self)
qed

lemma CreateMask_cases:
  "CreateMask p = (if unat p \<le> 31 then Inr (push_bit (31 - unat p) 1) else Inl Bad_shift)"
proof -
  have "unat (31 - ucast p :: u64) = 31 - unat p" if "unat p \<le> 31"
  proof -
    have "(ucast p :: u64) \<le> 31" using that by (simp add: word_le_nat_alt unat_ucast_u32)
    then show ?thesis by (simp add: unat_sub unat_ucast_u32)
  qed
  moreover have "unat p \<le> 31" if s: "unat (31 - ucast p :: u64) < 32"
  proof -
    have "31 - ucast p \<le> (31 :: u64)" using s by (simp add: word_le_nat_alt)
    from unat_sub [OF this] show ?thesis by (simp add: unat_ucast_u32)
  qed
  ultimately show ?thesis by (auto simp: CreateMask_def Let_def)
qed

section \<open>The order on addresses\<close>

fun byte_less :: "u8 list \<Rightarrow> u8 list \<Rightarrow> bool" where
  "byte_less xs [] = False"
| "byte_less [] (y # ys) = True"
| "byte_less (x # xs) (y # ys) = (x < y \<or> x = y \<and> byte_less xs ys)"

lemma byte_less_irrefl: "\<not> byte_less a a"
  by (induction a) auto

lemma byte_less_trans: "byte_less a b \<Longrightarrow> byte_less b c \<Longrightarrow> byte_less a c"
proof (induction a b arbitrary: c rule: byte_less.induct)
  case (3 x xs y ys)
  then show ?case by (cases c) auto
next
  case (2 y ys)
  then show ?case by (cases c) auto
qed simp

lemma byte_less_linear: "byte_less a b \<or> a = b \<or> byte_less b a"
  by (induction a b rule: byte_less.induct) (auto, metis byte_less.simps(2) neq_Nil_conv)

interpretation addr: strict_weak byte_less
proof unfold_locales
  fix a b c
  show "\<not> byte_less a a" by (rule byte_less_irrefl)
  show "byte_less a b \<Longrightarrow> byte_less b c \<Longrightarrow> byte_less a c" by (rule byte_less_trans)
  show "\<not> byte_less a b \<Longrightarrow> \<not> byte_less b c \<Longrightarrow> \<not> byte_less a c"
    using byte_less_linear byte_less_trans by metis
qed

definition Address_wf :: "Address \<Rightarrow> bool" where
  "Address_wf a =
     (case a of
        IPv4Address s \<Rightarrow> length (sin_zero s) = 8
      | IPv6Address s \<Rightarrow> length (sin6_addr s) = 16
      | UnixAddress s n \<Rightarrow> length (sun_path s) = size_sun_path \<and> n \<le> offset_sun_path + size_sun_path
      | UnknowAddress f d \<Rightarrow> length d = 14)"

abbreviation addr_key :: "endian \<Rightarrow> Address \<Rightarrow> u8 list" where
  "addr_key bo a \<equiv> take (getAddrLen a) (getAddr bo a)"

lemma addr_len: "Address_wf a \<Longrightarrow> getAddrLen a \<le> length (getAddr bo a)"
  by (cases a) (simp_all add: Address_wf_def size_sun_path_def offset_sun_path_def)

lemma bytes_cmp_less:
  assumes "m = min i j" "i \<le> length a" "j \<le> length b"
  shows "byte_less (take i a) (take j b) \<longleftrightarrow>
     bytes_cmp (take m a) (take m b) < 0 \<or> bytes_cmp (take m a) (take m b) = 0 \<and> i < j"
  using assms
proof (induction a arbitrary: b i j m)
  case Nil
  then show ?case by (cases b; cases j) auto
next
  case (Cons x a)
  show ?case
  proof (cases "i = 0 \<or> j = 0")
    case True
    then show ?thesis using Cons.prems by (cases b; cases i; cases j) auto
  next
    case False
    then obtain i' j' y b' where "i = Suc i'" "j = Suc j'" "b = y # b'"
      using Cons.prems by (cases b; cases i; cases j) auto
    then show ?thesis using Cons by (auto simp: not_less_iff_gr_or_eq)
  qed
qed

lemma bytes_cmp_zero: "length a = length b \<Longrightarrow> bytes_cmp a b = 0 \<longleftrightarrow> a = b"
  by (induction a b rule: list_induct2) auto

lemma Address_less_key:
  assumes "Address_wf a" "Address_wf b"
  shows "Address_less bo a b = Inr (byte_less (addr_key bo a) (addr_key bo b))"
proof -
  let ?m = "min (getAddrLen a) (getAddrLen b)"
  have l: "getAddrLen a \<le> length (getAddr bo a)" "getAddrLen b \<le> length (getAddr bo b)"
    using assms addr_len by auto
  then have "memcmp (getAddr bo a) (getAddr bo b) ?m =
      Inr (bytes_cmp (take ?m (getAddr bo a)) (take ?m (getAddr bo b)))" by (auto simp: memcmp_def)
  then show ?thesis using bytes_cmp_less [OF refl l]
    by (auto simp: Address_less_def Let_def not_less_iff_gr_or_eq)
qed

lemma Address_eq_key:
  assumes "Address_wf a" "Address_wf b"
  shows "Address_eq bo a b = Inr (getAddrLen a = getAddrLen b \<and> addr_key bo a \<noteq> addr_key bo b)"
  using addr_len [OF assms(1), of bo] addr_len [OF assms(2), of bo]
  by (auto simp: Address_eq_def memcmp_def bytes_cmp_zero)

section \<open>Properties\<close>

text \<open>
  C38: \<open>CountBytes\<close>, the loop \<open>value &= value - 1\<close>, ends for every value and counts its bits: it is equal to the
  number of the positions at which a bit is set.
\<close>

theorem CountBytes_popcount: "CountBytes v = of_nat (card {i. bit v i})"
  by (simp add: CountBytes_def CountBytes_loop_eq)

text \<open>
  The order on addresses. On well-formed addresses of any kind \<open>operator<\<close> never reads outside of an object and
  is a strict total order on the bytes of the addresses: irreflexive, transitive, and two addresses of which
  none is less have the same bytes. \<open>operator==\<close> is not equality: it is true for two addresses of the same
  length exactly when their bytes differ, so that no address is equal to itself.
\<close>

theorem address_order:
  assumes "Address_wf a" "Address_wf b" "Address_wf c"
  shows "Address_less bo a a = Inr False \<and>
     (Address_less bo a b = Inr True \<and> Address_less bo b c = Inr True \<longrightarrow> Address_less bo a c = Inr True) \<and>
     (Address_less bo a b = Inr False \<and> Address_less bo b a = Inr False \<longrightarrow> addr_key bo a = addr_key bo b) \<and>
     (\<exists>r. Address_less bo a b = Inr r) \<and>
     Address_eq bo a b = Inr (getAddrLen a = getAddrLen b \<and> addr_key bo a \<noteq> addr_key bo b) \<and>
     Address_eq bo a a = Inr False \<and> Address_neq bo a a = Inr True"
  using assms addr.irrefl [of "addr_key bo a"] byte_less_linear [of "addr_key bo a" "addr_key bo b"]
    addr.trans [of "addr_key bo a" "addr_key bo b" "addr_key bo c"]
  by (auto simp: Address_less_key Address_eq_key Address_neq_def)

theorem address_order_witness:
  "Address_less LITTLE_ENDIAN (UnknowAddress_new 1) (UnknowAddress_new 2) = Inr True \<and>
   Address_eq LITTLE_ENDIAN (UnknowAddress_new 1) (UnknowAddress_new 1) = Inr False"
proof -
  have w: "Address_wf (UnknowAddress_new n)" for n by (simp add: Address_wf_def UnknowAddress_new_def)
  have "Address_less LITTLE_ENDIAN (UnknowAddress_new 1) (UnknowAddress_new 2) = Inr True" by code_simp
  then show ?thesis using address_order [OF w w w, of LITTLE_ENDIAN 1 1 1] by simp
qed

text \<open>A reader of the dotted text \<open>a.b.c.d:port\<close>, as a reference for what \<open>insert\<close> prints.\<close>

definition upto_char :: "char \<Rightarrow> string \<Rightarrow> string \<times> string" where
  "upto_char c s = (takeWhile (\<lambda>x. x \<noteq> c) s, drop 1 (dropWhile (\<lambda>x. x \<noteq> c) s))"

definition read_dotted :: "string \<Rightarrow> u32 \<times> u16" where
  "read_dotted s =
     (let (a, s) = upto_char CHR ''.'' s; (b, s) = upto_char CHR ''.'' s; (c, s) = upto_char CHR ''.'' s;
          (d, s) = upto_char CHR '':'' s
      in (of_nat (((of_base 10 a * 256 + of_base 10 b) * 256 + of_base 10 c) * 256 + of_base 10 d), of_nat (of_base 10 s)))"

lemma upto_char_number:
  assumes "c \<in> {CHR ''.'', CHR '':''}"
  shows "upto_char c (nat_to_string n @ c # s) = (nat_to_string n, s)"
proof -
  have "c \<notin> set (nat_to_string n)" using assms decimal_digits [of c n] by auto
  then have "\<forall>x\<in>set (nat_to_string n). x \<noteq> c" by metis
  then show ?thesis by (simp add: upto_char_def)
qed

lemma read_number: "of_base 10 (nat_to_string n) = n"
  by (simp add: nat_to_string_def of_base_to_base)

lemma four_bytes:
  fixes w :: u32
  shows "16777216 * unat (drop_bit 24 w AND 0xff) + 65536 * unat (drop_bit 16 w AND 0xff) +
     unat (drop_bit 8 w AND 0xff) * 256 + unat (w AND 0xff) = unat w"
proof -
  let ?n = "unat w"
  have m: "(x :: u32) AND 0xff = take_bit 8 x" for x
    by (simp add: take_bit_eq_mask mask_eq_exp_minus_1)
  have "unat (x AND 0xff) = unat x mod 256" for x :: u32 unfolding m unsigned_take_bit_eq by (simp add: take_bit_eq_mod)
  moreover have n: "?n < 2 ^ 32" using unsigned_less [of w, where 'a = nat] by simp
  moreover have "unat (drop_bit k w) = ?n div 2 ^ k" for k
    using n unfolding unsigned_drop_bit_eq by (simp add: drop_bit_eq_div take_bit_nat_eq_self)
  moreover have "16777216 * (n div 16777216) + 65536 * (n div 65536 mod 256) + n div 256 mod 256 * 256 + n mod 256 = n"
    for n :: nat
  proof -
    have "n div 65536 = 256 * (n div 16777216) + n div 65536 mod 256"
      using div_mult2_eq [of n 65536 256] by simp
    moreover have "n div 256 = 256 * (n div 65536) + n div 256 mod 256"
      using div_mult2_eq [of n 256 256] by simp
    moreover have "n = 256 * (n div 256) + n mod 256" by simp
    ultimately show ?thesis by linarith
  qed
  ultimately show ?thesis by simp
qed

text \<open>
  The text of an IPv4 address. The text of an address made from a number and a port reads back as that number
  and that port, on machines of both byte orders; the port is returned by \<open>getPort\<close>, and after \<open>setPort\<close>, for
  IPv6 as well, the new one is. The constructor of \<open>IPv6Address\<close> from bytes, whose port has 32 bits, loses the
  port on a little-endian machine: \<open>getPort\<close> is 0 for every port below 65536.
\<close>

theorem address_text_and_port:
  "read_dotted (IPv4Address_insert bo (IPv4Address_new bo address port)) = (address, port) \<and>
   v4_getPort bo (IPv4Address_new bo address port) = ucast port \<and>
   v4_getPort bo (v4_setPort bo a q) = ucast q \<and> v6_getPort bo (v6_setPort bo a6 q) = ucast q \<and>
   v6_getPort LITTLE_ENDIAN (IPv6Address_new LITTLE_ENDIAN bytes (ucast port)) = 0"
proof -
  have n: "upto_char CHR ''.'' (nat_to_string n @ CHR ''.'' # s) = (nat_to_string n, s)"
    "upto_char CHR '':'' (nat_to_string n @ CHR '':'' # s) = (nat_to_string n, s)" for n s
    by (rule upto_char_number, simp)+
  have "(ucast (byteswap (ucast port :: u32)) :: u16) = 0"
  proof (rule bit_word_eqI)
    fix i assume "i < LENGTH(16)"
    then have i: "i < 16" by simp
    then have "i div 8 < 2" by (simp add: less_mult_imp_div_less)
    then have "16 \<le> 8 * (3 - i div 8) + i mod 8" by linarith
    then have "\<not> bit port (8 * (3 - i div 8) + i mod 8)" using bit_imp_le_length [of port] by fastforce
    then show "bit (ucast (byteswap (ucast port :: u32)) :: u16) i = bit 0 i"
      using i by (simp add: bit_simps bit_byteswap)
  qed
  moreover have "byteswap (0 :: u16) = 0" by code_simp
  ultimately have "v6_getPort LITTLE_ENDIAN (IPv6Address_new LITTLE_ENDIAN bytes (ucast port)) = 0"
    by (simp add: v6_getPort_def IPv6Address_new_def byteswapOnLittleEndian_def)
  moreover have "read_dotted (IPv4Address_insert bo (IPv4Address_new bo address port)) = (address, port)"
    by (simp add: read_dotted_def IPv4Address_insert_def IPv4Address_new_def n Let_def read_number four_bytes
        del: of_nat_add of_nat_mult)
  ultimately show ?thesis
    by (simp add: v4_getPort_def v4_setPort_def v6_getPort_def v6_setPort_def IPv4Address_new_def)
qed

text \<open>
  Broadcast address, network address and mask of an IPv4 address, in host byte order, for a prefix length \<open>p\<close> up
  to 31: the code sets, keeps or clears only bit \<open>31 - p\<close>, where the definition of the prefix asks for the \<open>32 - p\<close>
  low bits. So the network address has at most one bit, the mask has 31 bits for every \<open>p\<close>, and the broadcast
  address is the right one only if the other low bits are set already. For \<open>p = 32\<close> the shift is undefined.
  For IPv6 the broadcast address is undefined for every prefix length, because the loops write elements 4
  to 15 of an array of four; network address and mask are from prefix length 32 on.
\<close>

theorem subnet_single_bit:
  fixes a :: sockaddr_in and bo :: endian
  defines "h \<equiv> byteswapOnLittleEndian bo (s_addr a)"
  shows "(unat p \<le> 31 \<longrightarrow>
       (\<exists>b n m. v4_broadcastAddress bo a p = Inr (Some b) \<and> v4_networdAddress bo a p = Inr (Some n) \<and>
          v4_subnetMask bo p = Inr (Some m) \<and>
          byteswapOnLittleEndian bo (s_addr b) = h OR push_bit (31 - unat p) 1 \<and>
          byteswapOnLittleEndian bo (s_addr n) = h AND push_bit (31 - unat p) 1 \<and>
          byteswapOnLittleEndian bo (s_addr m) = NOT (push_bit (31 - unat p) 1) \<and>
          (byteswapOnLittleEndian bo (s_addr b) = h OR mask (32 - unat p) \<longleftrightarrow> (\<forall>i < 31 - unat p. bit h i)))) \<and>
     (p = 32 \<longrightarrow> v4_broadcastAddress bo a p = Inl Bad_shift \<and> v4_networdAddress bo a p = Inl Bad_shift) \<and>
     (32 \<le> unat p \<longrightarrow> v4_subnetMask bo p = Inl Bad_shift) \<and>
     v6_broadcastAddress bo a6 p = Inl Bad_access \<and>
     (32 \<le> unat p \<longrightarrow> v6_networdAddress bo a6 p = Inl Bad_access \<and> v6_subnetMask bo p = Inl Bad_access)"
proof (intro conjI impI)
  assume p: "unat p \<le> 31"
  then have "\<not> p > 32" by (simp add: word_less_nat_alt)
  moreover have "h OR push_bit (31 - unat p) 1 = h OR mask (32 - unat p) \<longleftrightarrow> (\<forall>i < 31 - unat p. bit h i)"
  proof -
    have "(bit h i \<or> i = 31 - unat p) = (bit h i \<or> i < 32 - unat p) \<longleftrightarrow> (i < 31 - unat p \<longrightarrow> bit h i)" for i
      using p by (cases "i = 31 - unat p") auto
    moreover have "i < 32" if "i < 31 - unat p" for i using that by simp
    ultimately show ?thesis by (simp add: bit_eq_iff bit_simps) metis
  qed
  ultimately show "\<exists>b n m. v4_broadcastAddress bo a p = Inr (Some b) \<and> v4_networdAddress bo a p = Inr (Some n) \<and>
      v4_subnetMask bo p = Inr (Some m) \<and>
      byteswapOnLittleEndian bo (s_addr b) = h OR push_bit (31 - unat p) 1 \<and>
      byteswapOnLittleEndian bo (s_addr n) = h AND push_bit (31 - unat p) 1 \<and>
      byteswapOnLittleEndian bo (s_addr m) = NOT (push_bit (31 - unat p) 1) \<and>
      (byteswapOnLittleEndian bo (s_addr b) = h OR mask (32 - unat p) \<longleftrightarrow> (\<forall>i < 31 - unat p. bit h i))"
    using p by (simp add: v4_broadcastAddress_def v4_networdAddress_def v4_subnetMask_def CreateMask_cases
        network_bitwise h_def)
next
  have m: "unat (p mod 8) \<le> 31" by (simp add: unat_mod)
  show "v6_broadcastAddress bo a6 p = Inl Bad_access"
  proof (cases "unat p div 8 < 4")
    case True
    have "fill_u6_addr32 bo x (is @ 4 # js) = Inl Bad_access" for x "is" js
      by (induction "is" arbitrary: x) (auto simp: set_u6_addr32_def bind_res_Inl_iff)
    moreover have "[unat p div 8 + 1..<16] = [unat p div 8 + 1..<4] @ 4 # [5..<16]"
      using True upt_add_eq_append [of "unat p div 8 + 1" 4 12] by (simp add: upt_rec [of 4 16])
    ultimately show ?thesis using True m
      by (simp add: v6_broadcastAddress_def CreateMask_cases get_u6_addr32_def set_u6_addr32_def Let_def)
  qed (use m in \<open>simp add: v6_broadcastAddress_def CreateMask_cases get_u6_addr32_def Let_def\<close>)
  assume "32 \<le> unat p"
  then have "\<not> unat p div 8 < 4" by simp
  then show "v6_networdAddress bo a6 p = Inl Bad_access" "v6_subnetMask bo p = Inl Bad_access"
    using m by (simp_all add: v6_networdAddress_def v6_subnetMask_def CreateMask_cases get_u6_addr32_def
        set_u6_addr32_def Let_def)
qed (auto simp: v4_broadcastAddress_def v4_networdAddress_def v4_subnetMask_def CreateMask_cases)

theorem subnet_single_bit_witness:
  "\<exists>b. v4_broadcastAddress LITTLE_ENDIAN (IPv4Address_new LITTLE_ENDIAN 0xC0A80101 0) 24 = Inr (Some b) \<and>
     byteswapOnLittleEndian LITTLE_ENDIAN (s_addr b) = 0xC0A80181"
proof -
  have "(0xC0A80101 OR push_bit 7 1 :: u32) = 0xC0A80181" by (simp add: push_bit_eq_mult)
  then show ?thesis
    using subnet_single_bit [of 24 LITTLE_ENDIAN "IPv4Address_new LITTLE_ENDIAN 0xC0A80101 0"]
    by (auto simp: IPv4Address_new_def)
qed

lemma memchr_Some: "c \<notin> set a \<Longrightarrow> memchr c (a @ c # b) = Some (length a)"
proof -
  assume "c \<notin> set a"
  then have "\<forall>x\<in>set a. x \<noteq> c" by metis
  then show ?thesis by (simp add: memchr_def)
qed

lemma memchr_None: "c \<notin> set s \<Longrightarrow> memchr c s = None"
proof -
  assume "c \<notin> set s"
  then have "takeWhile (\<lambda>x. x \<noteq> c) s = s" by auto
  then show ?thesis unfolding memchr_def by (simp only: Let_def less_irrefl if_False)
qed

lemma memchr_member: "c \<in> set s \<Longrightarrow> memchr c s \<noteq> None"
  using memchr_Some by (metis option.distinct(1) split_list_first)

text \<open>
  How \<open>Lookup\<close> splits its argument. \<open>host\<close> without a colon has no service; \<open>host:service\<close> and \<open>[ipv6]:service\<close> are
  split at the colon and \<open>[ipv6]\<close> loses its brackets. An IPv6 address without brackets, with at least two
  colons, is kept as node, but the text from its first colon on is passed to \<open>getaddrinfo\<close> as service.
\<close>

theorem split_host_behaviour:
  assumes "CHR '':'' \<notin> set h" "h \<noteq> []" "hd h \<noteq> CHR ''[''" "CHR '':'' \<notin> set p" "c_str p = p"
    "CHR '']'' \<notin> set v" "v \<noteq> []"
  shows "split_host h = (h, None) \<and> split_host (h @ '':'' @ p) = (h, Some p) \<and>
     split_host (''['' @ v @ '']:'' @ p) = (v, Some p) \<and> split_host (''['' @ v @ '']'') = (v, None) \<and>
     (CHR '':'' \<in> set q \<longrightarrow> split_host (h @ '':'' @ q) = (h @ '':'' @ q, Some (c_str ('':'' @ q))))"
proof (intro conjI impI)
  have v6: "split_ipv6 (h @ s) = ([], None)" for s using assms(2,3) by (simp add: split_ipv6_def)
  show "split_host h = (h, None)" using v6 [of "[]"] assms(1,2) by (simp add: split_host_def memchr_None)
  show "split_host (h @ '':'' @ p) = (h, Some p)"
    using v6 [of "'':'' @ p"] assms memchr_Some [of "CHR '':''" h p] by (simp add: split_host_def memchr_None)
  show "split_host (h @ '':'' @ q) = (h @ '':'' @ q, Some (c_str ('':'' @ q)))" if "CHR '':'' \<in> set q"
    using v6 [of "'':'' @ q"] assms memchr_Some [of "CHR '':''" h q] memchr_member [OF that]
    by (simp add: split_host_def)
  show "split_host (''['' @ v @ '']:'' @ p) = (v, Some p)"
    using assms memchr_Some [of "CHR '']''" v "'':'' @ p"] by (simp add: split_host_def split_ipv6_def numeral_3_eq_3)
  show "split_host (''['' @ v @ '']'') = (v, None)"
    using assms memchr_Some [of "CHR '']''" v "[]"] by (simp add: split_host_def split_ipv6_def)
qed

theorem split_host_behaviour_witness:
  "split_host ''a.b:80'' = (''a.b'', Some ''80'') \<and> split_host ''[::1]:80'' = (''::1'', Some ''80'') \<and>
   split_host ''fe80::1'' = (''fe80::1'', Some ''::1'')"
proof -
  have c: "c_str ''80'' = ''80''" "c_str ''::1'' = ''::1''" by code_simp+
  show ?thesis
    using split_host_behaviour [of "''a.b''" "''80''" "''::1''" "[]"]
      split_host_behaviour [of "''fe80''" "''80''" "''::1''" "'':1''"] c by simp
qed

end
