(* ===== verification/Socket.thy ===== *)
theory Socket
  imports Address Hook
begin

text \<open>
  The class \<open>Socket\<close> of \<open>mingfwq/socket.h\<close> and \<open>socket.cpp\<close>. The socket calls of the kernel are the fields of the
  parameter \<open>sock_sys\<close>, functions on a state \<open>'os\<close>; their hooked versions are those of the theory Hook where they
  touch the table of descriptors (\<open>socket\<close>, \<open>accept\<close>, \<open>close\<close>, \<open>setsockopt\<close>). The state of the world is the record
  \<open>hook_state\<close>, which holds that table. A buffer of \<open>getpeername\<close> and \<open>getsockname\<close> is the address object itself.
  Addresses passed to operations are not null. Log messages are not modelled here.
\<close>

section \<open>State and system calls\<close>

abbreviation SOCK_STREAM :: int where "SOCK_STREAM \<equiv> 1"
abbreviation SOCK_DGRAM :: int where "SOCK_DGRAM \<equiv> 2"
abbreviation SOL_SOCKET :: int where "SOL_SOCKET \<equiv> 1"
abbreviation SO_REUSEADDR :: int where "SO_REUSEADDR \<equiv> 2"
abbreviation SO_ERROR :: int where "SO_ERROR \<equiv> 4"
abbreviation IPPROTO_TCP :: int where "IPPROTO_TCP \<equiv> 6"
abbreviation TCP_NODELAY :: int where "TCP_NODELAY \<equiv> 1"
abbreviation SOMAXCONN :: int where "SOMAXCONN \<equiv> 4096"

record Socket =
  m_sock :: int
  m_family :: int
  m_type :: int
  m_protocol :: int
  m_isConnected :: bool
  m_localAddress :: "Address option"
  m_remoteAddress :: "Address option"

text \<open>The value of an option: an \<open>int\<close> or a \<open>timeval\<close>.\<close>

datatype optval = Opt_int u32 | Opt_timeval u64 u64

text \<open>A transfer: the buffers to send, or the sizes of the buffers to fill, the peer and the flags.\<close>

datatype transfer =
    Send "u8 list" int
  | Sendmsg "u8 list list" "Address option" int
  | Sendto "u8 list" Address int
  | Recv nat int
  | Recvmsg "nat list" "Address option" int
  | Recvfrom nat Address int

record 'os sock_sys =
  sys_socket :: "int \<Rightarrow> int \<Rightarrow> int \<Rightarrow> 'os \<Rightarrow> int \<times> 'os"
  sys_accept :: "int \<Rightarrow> 'os \<Rightarrow> int \<times> 'os"
  sys_bind :: "int \<Rightarrow> Address \<Rightarrow> 'os \<Rightarrow> int \<times> 'os"
  sys_connect :: "int \<Rightarrow> Address \<Rightarrow> u64 option \<Rightarrow> 'os \<Rightarrow> int \<times> 'os"
  sys_listen :: "int \<Rightarrow> int \<Rightarrow> 'os \<Rightarrow> int \<times> 'os"
  sys_close :: "int \<Rightarrow> 'os \<Rightarrow> 'os"
  sys_setsockopt :: "int \<Rightarrow> int \<Rightarrow> int \<Rightarrow> optval \<Rightarrow> 'os \<Rightarrow> int \<times> 'os"
  sys_getsockopt :: "int \<Rightarrow> int \<Rightarrow> int \<Rightarrow> 'os \<Rightarrow> int \<times> u32"
  sys_getpeername :: "int \<Rightarrow> Address \<Rightarrow> 'os \<Rightarrow> int \<times> Address \<times> nat"
  sys_getsockname :: "int \<Rightarrow> Address \<Rightarrow> 'os \<Rightarrow> int \<times> Address \<times> nat"
  sys_transfer :: "transfer \<Rightarrow> int \<Rightarrow> 'os \<Rightarrow> int \<times> u8 list list \<times> 'os"
  sys_iom :: bool

section \<open>The hooked calls\<close>

definition call_socket :: "'os os_api \<Rightarrow> 'os sock_sys \<Rightarrow> int \<Rightarrow> int \<Rightarrow> int \<Rightarrow> 'os hook_state \<Rightarrow> (int \<times> 'os hook_state) res" where
  "call_socket api sys family type protocol h =
     (let (fd, os) = sys_socket sys family type protocol (h_os h)
      in hook_socket api fd (h\<lparr>h_os := os\<rparr>))"

definition call_accept :: "'os os_api \<Rightarrow> 'os sock_sys \<Rightarrow> int \<Rightarrow> 'os hook_state \<Rightarrow> (int \<times> 'os hook_state) res" where
  "call_accept api sys sock h =
     (let (fd, os) = sys_accept sys sock (h_os h)
      in hook_accept api fd (h\<lparr>h_os := os\<rparr>))"

text \<open>\<open>close\<close>: the bookkeeping of the hook and then \<open>close_f\<close>.\<close>

definition call_close :: "'os os_api \<Rightarrow> 'os sock_sys \<Rightarrow> int \<Rightarrow> 'os hook_state \<Rightarrow> 'os hook_state res" where
  "call_close api sys fd h =
     bind_res (hook_close api (sys_iom sys) fd h) (\<lambda>(_, h). Inr (h\<lparr>h_os := sys_close sys fd (h_os h)\<rparr>))"

fun opt_number :: "timeout_so \<Rightarrow> int" where
  "opt_number SO_RCVTIMEO = 20"
| "opt_number SO_SNDTIMEO = 21"

definition hook_setsockopt ::
    "'os os_api \<Rightarrow> 'os sock_sys \<Rightarrow> int \<Rightarrow> int \<Rightarrow> int \<Rightarrow> optval \<Rightarrow> 'os hook_state \<Rightarrow> (int \<times> 'os hook_state) res" where
  "hook_setsockopt api sys fd level optname val h =
     bind_res
       (case val of
          Opt_timeval tv_sec tv_usec \<Rightarrow>
            if level = SOL_SOCKET \<and> optname = opt_number SO_RCVTIMEO
            then hook_setsockopt_timeo api fd SO_RCVTIMEO tv_sec tv_usec h
            else if level = SOL_SOCKET \<and> optname = opt_number SO_SNDTIMEO
            then hook_setsockopt_timeo api fd SO_SNDTIMEO tv_sec tv_usec h
            else Inr h
        | Opt_int v \<Rightarrow> Inr h)
       (\<lambda>h. let (rt, os) = sys_setsockopt sys fd level optname val (h_os h) in Inr (rt, h\<lparr>h_os := os\<rparr>))"

section \<open>Construction and options\<close>

definition Socket_new :: "int \<Rightarrow> int \<Rightarrow> int \<Rightarrow> Socket" where
  "Socket_new family type protocol =
     \<lparr>m_sock = - 1, m_family = family, m_type = type, m_protocol = protocol, m_isConnected = False,
      m_localAddress = None, m_remoteAddress = None\<rparr>"

definition CreateTCP :: "Address \<Rightarrow> Socket" where
  "CreateTCP address = Socket_new (uint (getFamily address)) SOCK_STREAM 0"
definition CreateUDP :: "Address \<Rightarrow> Socket" where
  "CreateUDP address = Socket_new (uint (getFamily address)) SOCK_DGRAM 0"
definition CreateTCPSocket :: Socket where
  "CreateTCPSocket = Socket_new (uint AF_INET) SOCK_STREAM 0"
definition CreateUDPSocket :: Socket where
  "CreateUDPSocket = Socket_new (uint AF_INET) SOCK_DGRAM 0"
definition CreateTCPSocket6 :: Socket where
  "CreateTCPSocket6 = Socket_new (uint AF_INET6) SOCK_STREAM 0"
definition CreateUDPSocket6 :: Socket where
  "CreateUDPSocket6 = Socket_new (uint AF_INET6) SOCK_DGRAM 0"
definition CreateUnixTCPSocket :: Socket where
  "CreateUnixTCPSocket = Socket_new (uint AF_UNIX) SOCK_STREAM 0"
definition CreateUnixUDPSocket :: Socket where
  "CreateUnixUDPSocket = Socket_new (uint AF_UNIX) SOCK_DGRAM 0"

definition isValid :: "Socket \<Rightarrow> bool" where
  "isValid s \<longleftrightarrow> m_sock s \<noteq> - 1"

definition getTinmeout :: "'os os_api \<Rightarrow> timeout_so \<Rightarrow> Socket \<Rightarrow> 'os hook_state \<Rightarrow> u64 res" where
  "getTinmeout api so s h =
     bind_res (FdManager_get api (h_os h) (h_fds h) (m_sock s) False) (\<lambda>(ctx, _, _).
       case ctx of Some c \<Rightarrow> Inr (getTimeout c so) | None \<Rightarrow> Inr (- 1))"

definition getSendTinmeout :: "'os os_api \<Rightarrow> Socket \<Rightarrow> 'os hook_state \<Rightarrow> u64 res" where
  "getSendTinmeout api s h = getTinmeout api SO_SNDTIMEO s h"
definition getRecvTinmeout :: "'os os_api \<Rightarrow> Socket \<Rightarrow> 'os hook_state \<Rightarrow> u64 res" where
  "getRecvTinmeout api s h = getTinmeout api SO_RCVTIMEO s h"

definition Socket_setOption ::
    "'os os_api \<Rightarrow> 'os sock_sys \<Rightarrow> int \<Rightarrow> int \<Rightarrow> optval \<Rightarrow> Socket \<Rightarrow> 'os hook_state \<Rightarrow> (bool \<times> 'os hook_state) res" where
  "Socket_setOption api sys level option val s h =
     bind_res (hook_setsockopt api sys (m_sock s) level option val h) (\<lambda>(rt, h). Inr (rt = 0, h))"

definition Socket_getOption :: "'os sock_sys \<Rightarrow> int \<Rightarrow> int \<Rightarrow> Socket \<Rightarrow> 'os hook_state \<Rightarrow> bool \<times> u32" where
  "Socket_getOption sys level option s h =
     (let (rt, v) = sys_getsockopt sys (m_sock s) level option (h_os h) in (rt = 0, v))"

text \<open>\<open>timeval tv{int(v / 1000), int(v % 1000 * 1000)}\<close>: both parts are cut to 32 bits.\<close>

definition timeval_of_ms :: "u64 \<Rightarrow> optval" where
  "timeval_of_ms v =
     Opt_timeval (word_of_int (sint (word_of_int (sint v sdiv 1000) :: u32)))
                 (word_of_int (sint (word_of_int (sint v smod 1000 * 1000) :: u32)))"

definition setSendTimeout ::
    "'os os_api \<Rightarrow> 'os sock_sys \<Rightarrow> u64 \<Rightarrow> Socket \<Rightarrow> 'os hook_state \<Rightarrow> 'os hook_state res" where
  "setSendTimeout api sys v s h =
     bind_res (Socket_setOption api sys SOL_SOCKET (opt_number SO_SNDTIMEO) (timeval_of_ms v) s h) (\<lambda>(_, h). Inr h)"

definition setRecvTimeout ::
    "'os os_api \<Rightarrow> 'os sock_sys \<Rightarrow> u64 \<Rightarrow> Socket \<Rightarrow> 'os hook_state \<Rightarrow> 'os hook_state res" where
  "setRecvTimeout api sys v s h =
     bind_res (Socket_setOption api sys SOL_SOCKET (opt_number SO_RCVTIMEO) (timeval_of_ms v) s h) (\<lambda>(_, h). Inr h)"

definition getError :: "'os sock_sys \<Rightarrow> Socket \<Rightarrow> 'os hook_state \<Rightarrow> int" where
  "getError sys s h =
     (let (ok, error) = Socket_getOption sys SOL_SOCKET SO_ERROR s h in if \<not> ok then - 1 else sint error)"

definition initSock :: "'os os_api \<Rightarrow> 'os sock_sys \<Rightarrow> Socket \<Rightarrow> 'os hook_state \<Rightarrow> 'os hook_state res" where
  "initSock api sys s h =
     bind_res (Socket_setOption api sys SOL_SOCKET SO_REUSEADDR (Opt_int 1) s h) (\<lambda>(_, h).
       if m_type s = SOCK_STREAM then
         bind_res (Socket_setOption api sys IPPROTO_TCP TCP_NODELAY (Opt_int 1) s h) (\<lambda>(_, h). Inr h)
       else Inr h)"

definition newSock :: "'os os_api \<Rightarrow> 'os sock_sys \<Rightarrow> Socket \<Rightarrow> 'os hook_state \<Rightarrow> (Socket \<times> 'os hook_state) res" where
  "newSock api sys s h =
     bind_res (call_socket api sys (m_family s) (m_type s) (m_protocol s) h) (\<lambda>(fd, h).
       let s = s\<lparr>m_sock := fd\<rparr>
       in if fd \<noteq> - 1 then bind_res (initSock api sys s h) (\<lambda>h. Inr (s, h)) else Inr (s, h))"

section \<open>Addresses of a socket\<close>

text \<open>The \<open>switch\<close> over the family; the case \<open>AF_UNIX\<close> falls through to the default.\<close>

definition empty_address :: "endian \<Rightarrow> int \<Rightarrow> Address" where
  "empty_address bo family =
     (if family = uint AF_INET then IPv4Address (IPv4Address_new bo 0 0)
      else if family = uint AF_INET6 then IPv6Address IPv6Address_empty
      else UnknowAddress_new family)"

definition filled_address :: "int \<Rightarrow> Address \<Rightarrow> nat \<Rightarrow> Address res" where
  "filled_address family result addrlen =
     (if family = uint AF_UNIX then
        case result of UnixAddress a n \<Rightarrow> Inr (setAddrLen result addrlen) | _ \<Rightarrow> Inl Null_deref
      else Inr result)"

definition getRemoteAddress :: "endian \<Rightarrow> 'os sock_sys \<Rightarrow> Socket \<Rightarrow> 'os hook_state \<Rightarrow> (Address \<times> Socket) res" where
  "getRemoteAddress bo sys s h =
     (case m_remoteAddress s of
        Some a \<Rightarrow> Inr (a, s)
      | None \<Rightarrow>
          let (rt, result, addrlen) = sys_getpeername sys (m_sock s) (empty_address bo (m_family s)) (h_os h)
          in if rt \<noteq> 0 then Inr (UnknowAddress_new (m_family s), s)
             else bind_res (filled_address (m_family s) result addrlen) (\<lambda>result.
               Inr (result, s\<lparr>m_remoteAddress := Some result\<rparr>)))"

definition getLocalAddress :: "endian \<Rightarrow> 'os sock_sys \<Rightarrow> Socket \<Rightarrow> 'os hook_state \<Rightarrow> (Address \<times> Socket) res" where
  "getLocalAddress bo sys s h =
     (case m_localAddress s of
        Some a \<Rightarrow> Inr (a, s)
      | None \<Rightarrow>
          let (rt, result, addrlen) = sys_getsockname sys (m_sock s) (empty_address bo (m_family s)) (h_os h)
          in if rt \<noteq> 0 then Inr (UnknowAddress_new (m_family s), s)
             else bind_res (filled_address (m_family s) result addrlen) (\<lambda>result.
               Inr (result, s\<lparr>m_localAddress := Some result\<rparr>)))"

section \<open>Life of a socket\<close>

text \<open>\<open>close\<close>: \<open>m_isConnected = -1\<close> stores \<open>true\<close>.\<close>

definition Socket_close :: "'os os_api \<Rightarrow> 'os sock_sys \<Rightarrow> Socket \<Rightarrow> 'os hook_state \<Rightarrow> (bool \<times> Socket \<times> 'os hook_state) res" where
  "Socket_close api sys s h =
     (if \<not> m_isConnected s \<and> m_sock s = - 1 then Inr (True, s, h)
      else
        let s = s\<lparr>m_isConnected := True\<rparr>
        in if m_sock s \<noteq> - 1 then
             bind_res (call_close api sys (m_sock s) h) (\<lambda>h. Inr (False, s\<lparr>m_sock := - 1\<rparr>, h))
           else Inr (False, s, h))"

definition Socket_init ::
    "endian \<Rightarrow> 'os os_api \<Rightarrow> 'os sock_sys \<Rightarrow> int \<Rightarrow> Socket \<Rightarrow> 'os hook_state \<Rightarrow> (bool \<times> Socket \<times> 'os hook_state) res" where
  "Socket_init bo api sys sock s h =
     bind_res (FdManager_get api (h_os h) (h_fds h) sock False) (\<lambda>(ctx, _, _).
       case ctx of
         None \<Rightarrow> Inr (False, s, h)
       | Some c \<Rightarrow>
           if m_isSocket c \<and> \<not> m_isClosed c then
             let s = s\<lparr>m_sock := sock, m_isConnected := True\<rparr>
             in bind_res (initSock api sys s h) (\<lambda>h.
                bind_res (getLocalAddress bo sys s h) (\<lambda>(_, s).
                bind_res (getRemoteAddress bo sys s h) (\<lambda>(_, s). Inr (True, s, h))))
           else Inr (False, s, h))"

text \<open>
  \<open>accept\<close> returns the new socket or a null pointer; a new object that is not returned is destroyed, and its
  destructor closes it, which for a socket without a descriptor does nothing.
\<close>

definition Socket_accept ::
    "endian \<Rightarrow> 'os os_api \<Rightarrow> 'os sock_sys \<Rightarrow> Socket \<Rightarrow> 'os hook_state \<Rightarrow> (Socket option \<times> 'os hook_state) res" where
  "Socket_accept bo api sys s h =
     (let sock = Socket_new (m_family s) (m_type s) (m_protocol s)
      in bind_res (call_accept api sys (m_sock s) h) (\<lambda>(newsock, h).
           if newsock = - 1 then Inr (None, h)
           else bind_res (Socket_init bo api sys newsock sock h) (\<lambda>(ok, sock, h).
             if ok then Inr (Some sock, h)
             else bind_res (Socket_close api sys sock h) (\<lambda>(_, _, h). Inr (None, h)))))"

definition Socket_connect ::
    "endian \<Rightarrow> 'os os_api \<Rightarrow> 'os sock_sys \<Rightarrow> Address \<Rightarrow> u64 \<Rightarrow> Socket \<Rightarrow> 'os hook_state \<Rightarrow>
     (bool \<times> Socket \<times> 'os hook_state) res" where
  "Socket_connect bo api sys addr timeout_ms s h =
     (let s = s\<lparr>m_remoteAddress := Some addr\<rparr>
      in bind_res (if \<not> isValid s then newSock api sys s h else Inr (s, h)) (\<lambda>(s, h).
           if \<not> isValid s then Inr (False, s, h)
           else if uint (getFamily addr) \<noteq> m_family s then Inr (False, s, h)
           else
             let (rt, os) = sys_connect sys (m_sock s) addr (if timeout_ms = - 1 then None else Some timeout_ms) (h_os h);
                 h = h\<lparr>h_os := os\<rparr>
             in if rt \<noteq> 0 then bind_res (Socket_close api sys s h) (\<lambda>(_, s, h). Inr (False, s, h))
                else
                  let s = s\<lparr>m_isConnected := True\<rparr>
                  in bind_res (getRemoteAddress bo sys s h) (\<lambda>(_, s).
                     bind_res (getLocalAddress bo sys s h) (\<lambda>(_, s). Inr (True, s, h)))))"

text \<open>For a Unix address \<open>bind\<close> first tries to connect a socket of its own, destroyed at the end.\<close>

definition bind_probe ::
    "endian \<Rightarrow> 'os os_api \<Rightarrow> 'os sock_sys \<Rightarrow> Address \<Rightarrow> 'os hook_state \<Rightarrow> (bool \<times> 'os hook_state) res" where
  "bind_probe bo api sys addr h =
     (case addr of
        UnixAddress a n \<Rightarrow>
          bind_res (Socket_connect bo api sys addr (- 1) CreateUnixTCPSocket h) (\<lambda>(ok, sock, h).
          bind_res (Socket_close api sys sock h) (\<lambda>(_, _, h). Inr (ok, h)))
      | _ \<Rightarrow> Inr (False, h))"

definition Socket_bind ::
    "endian \<Rightarrow> 'os os_api \<Rightarrow> 'os sock_sys \<Rightarrow> Address \<Rightarrow> Socket \<Rightarrow> 'os hook_state \<Rightarrow> (bool \<times> Socket \<times> 'os hook_state) res" where
  "Socket_bind bo api sys addr s h =
     bind_res (if \<not> isValid s then newSock api sys s h else Inr (s, h)) (\<lambda>(s, h).
       if \<not> isValid s then Inr (False, s, h)
       else if uint (getFamily addr) \<noteq> m_family s then Inr (False, s, h)
       else bind_res (bind_probe bo api sys addr h) (\<lambda>(used, h).
         if used then Inr (False, s, h)
         else
           let (rt, os) = sys_bind sys (m_sock s) addr (h_os h);
               h = h\<lparr>h_os := os\<rparr>
           in if rt \<noteq> 0 then Inr (False, s, h)
              else bind_res (getLocalAddress bo sys s h) (\<lambda>(_, s). Inr (True, s, h))))"

definition Socket_listen ::
    "'os os_api \<Rightarrow> 'os sock_sys \<Rightarrow> int \<Rightarrow> Socket \<Rightarrow> 'os hook_state \<Rightarrow> (bool \<times> Socket \<times> 'os hook_state) res" where
  "Socket_listen api sys backlog s h =
     (if \<not> isValid s then Inr (False, s, h)
      else
        let (rt, os) = sys_listen sys (m_sock s) backlog (h_os h);
            h = h\<lparr>h_os := os\<rparr>
        in if rt \<noteq> 0 then bind_res (Socket_close api sys s h) (\<lambda>(_, s, h). Inr (False, s, h))
           else Inr (True, s, h))"

section \<open>Transfers\<close>

text \<open>All of \<open>send\<close>, \<open>sendTo\<close>, \<open>recv\<close> and \<open>recvFrom\<close> check \<open>isConnected()\<close>; the result is an \<open>int\<close>.\<close>

definition Socket_transfer :: "'os sock_sys \<Rightarrow> transfer \<Rightarrow> Socket \<Rightarrow> 'os hook_state \<Rightarrow> int \<times> u8 list list \<times> 'os hook_state" where
  "Socket_transfer sys t s h =
     (if m_isConnected s then
        let (rt, bufs, os) = sys_transfer sys t (m_sock s) (h_os h)
        in (sint (word_of_int rt :: u32), bufs, h\<lparr>h_os := os\<rparr>)
      else (- 1, [], h))"

definition Socket_send :: "'os sock_sys \<Rightarrow> u8 list \<Rightarrow> int \<Rightarrow> Socket \<Rightarrow> 'os hook_state \<Rightarrow> int \<times> u8 list list \<times> 'os hook_state" where
  "Socket_send sys buffer flags = Socket_transfer sys (Send buffer flags)"
definition Socket_send_iov :: "'os sock_sys \<Rightarrow> u8 list list \<Rightarrow> int \<Rightarrow> Socket \<Rightarrow> 'os hook_state \<Rightarrow> int \<times> u8 list list \<times> 'os hook_state" where
  "Socket_send_iov sys buffers flags = Socket_transfer sys (Sendmsg buffers None flags)"
definition Socket_sendTo :: "'os sock_sys \<Rightarrow> u8 list \<Rightarrow> Address \<Rightarrow> int \<Rightarrow> Socket \<Rightarrow> 'os hook_state \<Rightarrow> int \<times> u8 list list \<times> 'os hook_state" where
  "Socket_sendTo sys buffer to flags = Socket_transfer sys (Sendto buffer to flags)"
definition Socket_sendTo_iov :: "'os sock_sys \<Rightarrow> u8 list list \<Rightarrow> Address \<Rightarrow> int \<Rightarrow> Socket \<Rightarrow> 'os hook_state \<Rightarrow> int \<times> u8 list list \<times> 'os hook_state" where
  "Socket_sendTo_iov sys buffers to flags = Socket_transfer sys (Sendmsg buffers (Some to) flags)"
definition Socket_recv :: "'os sock_sys \<Rightarrow> nat \<Rightarrow> int \<Rightarrow> Socket \<Rightarrow> 'os hook_state \<Rightarrow> int \<times> u8 list list \<times> 'os hook_state" where
  "Socket_recv sys len flags = Socket_transfer sys (Recv len flags)"
definition Socket_recv_iov :: "'os sock_sys \<Rightarrow> nat list \<Rightarrow> int \<Rightarrow> Socket \<Rightarrow> 'os hook_state \<Rightarrow> int \<times> u8 list list \<times> 'os hook_state" where
  "Socket_recv_iov sys lens flags = Socket_transfer sys (Recvmsg lens None flags)"
definition Socket_recvFrom :: "'os sock_sys \<Rightarrow> nat \<Rightarrow> Address \<Rightarrow> int \<Rightarrow> Socket \<Rightarrow> 'os hook_state \<Rightarrow> int \<times> u8 list list \<times> 'os hook_state" where
  "Socket_recvFrom sys len from flags = Socket_transfer sys (Recvfrom len from flags)"
definition Socket_recvFrom_iov :: "'os sock_sys \<Rightarrow> nat list \<Rightarrow> Address \<Rightarrow> int \<Rightarrow> Socket \<Rightarrow> 'os hook_state \<Rightarrow> int \<times> u8 list list \<times> 'os hook_state" where
  "Socket_recvFrom_iov sys lens from flags = Socket_transfer sys (Recvmsg lens (Some from) flags)"

section \<open>Cancelling events\<close>

definition Socket_cancelRead :: "epoll_fun \<Rightarrow> Socket \<Rightarrow> 'f IOManager option \<Rightarrow> (bool \<times> 'f IOManager) res" where
  "Socket_cancelRead epoll_ctl s iom =
     (case iom of None \<Rightarrow> Inl Null_deref | Some io \<Rightarrow> cancelEvent epoll_ctl io (m_sock s) EV_READ)"
definition Socket_cancelWrite :: "epoll_fun \<Rightarrow> Socket \<Rightarrow> 'f IOManager option \<Rightarrow> (bool \<times> 'f IOManager) res" where
  "Socket_cancelWrite epoll_ctl s iom =
     (case iom of None \<Rightarrow> Inl Null_deref | Some io \<Rightarrow> cancelEvent epoll_ctl io (m_sock s) EV_WRITE)"
definition Socket_cancelAccept :: "epoll_fun \<Rightarrow> Socket \<Rightarrow> 'f IOManager option \<Rightarrow> (bool \<times> 'f IOManager) res" where
  "Socket_cancelAccept epoll_ctl s iom =
     (case iom of None \<Rightarrow> Inl Null_deref | Some io \<Rightarrow> cancelEvent epoll_ctl io (m_sock s) EV_READ)"
definition Socket_cancelAll :: "epoll_fun \<Rightarrow> Socket \<Rightarrow> 'f IOManager option \<Rightarrow> (bool \<times> 'f IOManager) res" where
  "Socket_cancelAll epoll_ctl s iom =
     (case iom of None \<Rightarrow> Inl Null_deref | Some io \<Rightarrow> cancelAll epoll_ctl io (m_sock s))"

section \<open>Closing\<close>

lemma call_close_hooked:
  "t_hook_enable h \<Longrightarrow> call_close api sys fd h = Inr (h\<lparr>h_os := sys_close sys fd (h_os h)\<rparr>)"
  by (simp add: call_close_def hook_close_def)

lemma Socket_close_result:
  assumes "Socket_close api sys s h = Inr (r, s', h')" "m_isConnected s \<or> isValid s"
  shows "\<not> r" "m_isConnected s'" "m_sock s' = - 1"
  using assms by (auto simp: Socket_close_def isValid_def Let_def bind_res_Inr_iff split: if_splits)

text \<open>
  A socket that has been open or connected never looks closed. \<open>close\<close> returns \<open>false\<close> and leaves it connected
  without a descriptor; closing it again returns \<open>false\<close> again and changes nothing; a transfer is then passed to the
  system with the descriptor -1. A connection attempt that the system refuses ends in the same state, so that
  \<open>isConnected()\<close> holds after a failed \<open>connect\<close>.
\<close>

theorem close_stays_connected:
  assumes "t_hook_enable h" "m_isConnected s \<or> isValid s"
  shows "(\<exists>s' h'. Socket_close api sys s h = Inr (False, s', h') \<and> m_isConnected s' \<and> \<not> isValid s' \<and>
      Socket_close api sys s' h' = Inr (False, s', h') \<and>
      Socket_transfer sys t s' h' =
        (let (rt, bufs, os) = sys_transfer sys t (- 1) (h_os h')
         in (sint (word_of_int rt :: u32), bufs, h'\<lparr>h_os := os\<rparr>))) \<and>
    (isValid s \<and> uint (getFamily addr) = m_family s \<and>
      fst (sys_connect sys (m_sock s) addr (if timeout_ms = - 1 then None else Some timeout_ms) (h_os h)) \<noteq> 0 \<longrightarrow>
      (\<exists>s' h'. Socket_connect bo api sys addr timeout_ms s h = Inr (False, s', h') \<and> m_isConnected s' \<and>
        \<not> isValid s' \<and> m_remoteAddress s' = Some addr))"
proof (intro conjI impI)
  let ?c = "s\<lparr>m_isConnected := True, m_sock := - 1\<rparr>"
  have close: "\<exists>h'. Socket_close api sys s h = Inr (False, s\<lparr>m_isConnected := True, m_sock := - 1\<rparr>, h')"
    if "t_hook_enable h" "m_isConnected s \<or> isValid s" for s :: Socket and h :: "'a hook_state"
    using that by (auto simp: Socket_close_def isValid_def Let_def call_close_hooked intro!: Socket.equality)
  have c: "Socket_close api sys ?c h' = Inr (False, ?c, h')" for h' by (simp add: Socket_close_def Let_def)
  show "\<exists>s' h'. Socket_close api sys s h = Inr (False, s', h') \<and> m_isConnected s' \<and> \<not> isValid s' \<and>
      Socket_close api sys s' h' = Inr (False, s', h') \<and>
      Socket_transfer sys t s' h' =
        (let (rt, bufs, os) = sys_transfer sys t (- 1) (h_os h')
         in (sint (word_of_int rt :: u32), bufs, h'\<lparr>h_os := os\<rparr>))"
    using close [OF assms] c by (intro exI [of _ ?c]) (auto simp: isValid_def Socket_transfer_def)
  assume "isValid s \<and> uint (getFamily addr) = m_family s \<and>
      fst (sys_connect sys (m_sock s) addr (if timeout_ms = - 1 then None else Some timeout_ms) (h_os h)) \<noteq> 0"
  then have a: "isValid s" "uint (getFamily addr) = m_family s"
    "fst (sys_connect sys (m_sock s) addr (if timeout_ms = - 1 then None else Some timeout_ms) (h_os h)) \<noteq> 0" by blast+
  obtain rt os where r: "sys_connect sys (m_sock s) addr (if timeout_ms = - 1 then None else Some timeout_ms) (h_os h) = (rt, os)"
    by fastforce
  have "isValid (s\<lparr>m_remoteAddress := Some addr\<rparr>)" using a(1) by (simp add: isValid_def)
  then obtain h' where "Socket_close api sys (s\<lparr>m_remoteAddress := Some addr\<rparr>) (h\<lparr>h_os := os\<rparr>) =
      Inr (False, (s\<lparr>m_remoteAddress := Some addr\<rparr>)\<lparr>m_isConnected := True, m_sock := - 1\<rparr>, h')"
    using close [of "h\<lparr>h_os := os\<rparr>" "s\<lparr>m_remoteAddress := Some addr\<rparr>"] assms(1) by auto
  then show "\<exists>s' h'. Socket_connect bo api sys addr timeout_ms s h = Inr (False, s', h') \<and> m_isConnected s' \<and>
        \<not> isValid s' \<and> m_remoteAddress s' = Some addr"
    using a r by (simp add: Socket_connect_def Let_def isValid_def)
qed

text \<open>A kernel whose only socket is the descriptor 3 and which refuses connections.\<close>

definition sample_api :: "unit os_api" where
  "sample_api = \<lparr>os_fstat = (\<lambda>os fd. Some True), os_getfl = (\<lambda>os fd. 0), os_setfl = (\<lambda>os fd v. (os, 0))\<rparr>"

definition sample_sys :: "int \<Rightarrow> unit sock_sys" where
  "sample_sys connect_rt =
     \<lparr>sys_socket = (\<lambda>f t p os. (3, os)), sys_accept = (\<lambda>s os. (- 1, os)), sys_bind = (\<lambda>s a os. (0, os)),
      sys_connect = (\<lambda>s a t os. (connect_rt, os)), sys_listen = (\<lambda>s b os. (0, os)), sys_close = (\<lambda>s os. os),
      sys_setsockopt = (\<lambda>s l n v os. (0, os)), sys_getsockopt = (\<lambda>s l n os. (0, 0)),
      sys_getpeername = (\<lambda>s a os. (0, a, getAddrLen a)), sys_getsockname = (\<lambda>s a os. (0, a, getAddrLen a)),
      sys_transfer = (\<lambda>t s os. (if s = - 1 then - 1 else 0, [], os)), sys_iom = True\<rparr>"

definition sample_ctx :: FdCtx where
  "sample_ctx = \<lparr>m_isInit = True, m_isSocket = True, m_sysNonblock = True, m_userNonblock = False,
     m_isClosed = False, m_fd = 3, m_recvTimeout = - 1, m_sendTimeout = 5000\<rparr>"

definition sample_world :: "unit hook_state" where
  "sample_world = \<lparr>t_hook_enable = True, h_fds = (replicate 64 None)[3 := Some sample_ctx], h_os = ()\<rparr>"

definition sample_addr :: Address where
  "sample_addr = IPv4Address (IPv4Address_new LITTLE_ENDIAN 0x7f000001 80)"

theorem close_stays_connected_witness:
  "(\<exists>s' h'. Socket_close sample_api (sample_sys 0) (CreateTCPSocket\<lparr>m_sock := 3\<rparr>) sample_world = Inr (False, s', h') \<and>
     m_isConnected s' \<and> Socket_close sample_api (sample_sys 0) s' h' = Inr (False, s', h')) \<and>
   (\<exists>s' h'. Socket_connect LITTLE_ENDIAN sample_api (sample_sys (- 1)) sample_addr (- 1)
       (CreateTCPSocket\<lparr>m_sock := 3\<rparr>) sample_world = Inr (False, s', h') \<and> m_isConnected s' \<and> \<not> isValid s')"
proof -
  have h: "t_hook_enable sample_world" by (simp add: sample_world_def)
  have v: "isValid (CreateTCPSocket\<lparr>m_sock := 3\<rparr>)" by (simp add: isValid_def)
  have f: "uint (getFamily sample_addr) = m_family (CreateTCPSocket\<lparr>m_sock := 3\<rparr>)"
    by (simp add: sample_addr_def IPv4Address_new_def CreateTCPSocket_def Socket_new_def)
  have r: "fst (sys_connect (sample_sys (- 1)) (m_sock (CreateTCPSocket\<lparr>m_sock := 3\<rparr>)) sample_addr
      (if (- 1 :: u64) = - 1 then None else Some (- 1)) (h_os sample_world)) \<noteq> 0"
    by (simp add: sample_sys_def)
  show ?thesis
    using close_stays_connected [OF h disjI2 [OF v], of sample_api "sample_sys 0"]
      close_stays_connected [OF h disjI2 [OF v], of sample_api "sample_sys (- 1)" _ sample_addr "- 1" LITTLE_ENDIAN] v f r
    by meson
qed

section \<open>Unix sockets\<close>

text \<open>
  A connected or bound Unix socket cannot learn its own address: the buffer is an address of unknown family,
  because the case \<open>AF_UNIX\<close> falls through, and when the system has filled it the failed cast to \<open>UnixAddress\<close> is
  dereferenced. So a \<open>connect\<close> that the system accepts, and a \<open>bind\<close> that it accepts, crash.
\<close>

theorem unix_socket_crashes:
  assumes "m_family s = uint AF_UNIX" "getFamily addr = AF_UNIX" "isValid s" "m_localAddress s = None"
    "\<And>os. \<exists>f d n. sys_getsockname sys (m_sock s) (UnknowAddress_new (uint AF_UNIX)) os = (0, UnknowAddress f d, n)"
  shows "fst (sys_connect sys (m_sock s) addr None (h_os h)) = 0 \<Longrightarrow>
      Socket_connect bo api sys addr (- 1) s h = Inl Null_deref"
    and "bind_probe bo api sys addr h = Inr (False, h1) \<Longrightarrow> fst (sys_bind sys (m_sock s) addr (h_os h1)) = 0 \<Longrightarrow>
      Socket_bind bo api sys addr s h = Inl Null_deref"
proof -
  have e: "empty_address bo (uint AF_UNIX) = UnknowAddress_new (uint AF_UNIX)"
    by (simp add: empty_address_def AF_UNIX_def AF_INET_def AF_INET6_def)
  have l: "getLocalAddress bo sys s' h' = Inl Null_deref"
    if "m_family s' = uint AF_UNIX" "m_localAddress s' = None" "m_sock s' = m_sock s" for s' and h' :: "'a hook_state"
    using that assms(5) [of "h_os h'"] by (auto simp: getLocalAddress_def e filled_address_def)
  show "Socket_connect bo api sys addr (- 1) s h = Inl Null_deref"
    if "fst (sys_connect sys (m_sock s) addr None (h_os h)) = 0"
    using that assms(1-4) l
    by (auto simp: Socket_connect_def isValid_def Let_def getRemoteAddress_def split: prod.splits)
  show "Socket_bind bo api sys addr s h = Inl Null_deref"
    if "bind_probe bo api sys addr h = Inr (False, h1)" "fst (sys_bind sys (m_sock s) addr (h_os h1)) = 0"
    using that assms(1-4) l by (auto simp: Socket_bind_def isValid_def Let_def split: prod.splits)
qed

theorem unix_socket_crashes_witness:
  "Socket_connect LITTLE_ENDIAN sample_api (sample_sys 0) (UnixAddress \<lparr>sun_family = AF_UNIX, sun_path = ''/s''\<rparr> 4) (- 1)
     (CreateUnixTCPSocket\<lparr>m_sock := 3\<rparr>) sample_world = Inl Null_deref"
  by (rule unix_socket_crashes(1))
    (simp_all add: CreateUnixTCPSocket_def Socket_new_def isValid_def sample_sys_def UnknowAddress_new_def)

section \<open>Timeouts\<close>

lemma setsockopt_int_fds:
  "hook_setsockopt api sys fd level opt (Opt_int v) h = Inr (rt, h') \<Longrightarrow>
   h_fds h' = h_fds h \<and> t_hook_enable h' = t_hook_enable h"
  by (auto simp: hook_setsockopt_def split: prod.splits)

lemma initSock_fds:
  "initSock api sys s h = Inr h' \<Longrightarrow> h_fds h' = h_fds h \<and> t_hook_enable h' = t_hook_enable h"
  by (fastforce simp: initSock_def Socket_setOption_def bind_res_Inr_iff dest: setsockopt_int_fds split: if_splits)

lemma getTinmeout_lookup:
  assumes "fd_inv (h_fds h)" "fd_valid (m_sock s)"
  shows "getTinmeout api so s h =
    Inr (case fd_lookup (h_fds h) (m_sock s) of Some c \<Rightarrow> getTimeout c so | None \<Rightarrow> - 1)"
  using FdManager_get_eq [OF assms, of api "h_os h" False] by (simp add: getTinmeout_def split: option.split)

text \<open>The milliseconds that the hook computes from the structure the socket builds.\<close>

lemma timeval_roundtrip:
  assumes "0 \<le> sint v" "sint v < 1000 * 2 ^ 31"
  shows "\<exists>tv_sec tv_usec. timeval_of_ms v = Opt_timeval tv_sec tv_usec \<and>
    tv_sec * 1000 + word_of_int (sint tv_usec sdiv 1000) = v"
proof -
  let ?q = "sint v div 1000" and ?r = "sint v mod 1000"
  have d: "sint v sdiv 1000 = ?q" "sint v smod 1000 = ?r"
    using assms(1) by (simp_all add: signed_divide_int_def signed_modulo_int_def sgn_if)
  have q: "0 \<le> ?q" "?q < 2 ^ 31" using assms by auto
  have r: "0 \<le> ?r * 1000" "?r * 1000 < 2 ^ 31" using pos_mod_bound [of 1000 "sint v"] by auto
  have u: "sint (word_of_int (?r * 1000) :: u64) sdiv 1000 = ?r"
    using r by (subst sint_small_u64) (simp_all add: signed_divide_int_def sgn_if)
  have "(word_of_int ?q :: u64) * 1000 + word_of_int ?r = word_of_int (?q * 1000 + ?r)"
    by (simp only: of_int_add of_int_mult of_int_numeral)
  then have "(word_of_int ?q :: u64) * 1000 + word_of_int ?r = v" by (simp only: div_mult_mod_eq) simp
  moreover have "timeval_of_ms v = Opt_timeval (word_of_int ?q) (word_of_int (?r * 1000))"
    unfolding timeval_of_ms_def d sint_small_u32 [OF q] sint_small_u32 [OF r] by (rule refl)
  ultimately show ?thesis using u by (intro exI [of _ "word_of_int ?q"] exI [of _ "word_of_int (?r * 1000)"]) (simp only: simp_thms)
qed

lemma set_timeout_effect:
  assumes "t_hook_enable h" "fd_inv (h_fds h)" "fd_valid (m_sock s)" "fd_lookup (h_fds h) (m_sock s) = Some c"
    "0 \<le> sint v" "sint v < 1000 * 2 ^ 31" "so = SO_RCVTIMEO \<or> so = SO_SNDTIMEO"
  shows "\<exists>r h'. Socket_setOption api sys SOL_SOCKET (opt_number so) (timeval_of_ms v) s h = Inr (r, h') \<and>
    fd_inv (h_fds h') \<and> fd_lookup (h_fds h') (m_sock s) = Some (setTimeout c so v)"
proof -
  obtain a b where t: "timeval_of_ms v = Opt_timeval a b" "a * 1000 + word_of_int (sint b sdiv 1000) = v"
    using timeval_roundtrip [OF assms(5,6)] by blast
  let ?ds = "fd_put (h_fds h) (m_sock s) (setTimeout c so v)"
  have "FdManager_get api (h_os h) (h_fds h) (m_sock s) False = Inr (Some c, h_fds h, h_os h)"
    using FdManager_get_eq [OF assms(2,3)] assms(4) by simp
  then have "hook_setsockopt_timeo api (m_sock s) so a b h = Inr (h\<lparr>h_fds := ?ds\<rparr>)"
    using assms(1) t(2) by (simp add: hook_setsockopt_timeo_def)
  moreover have "fd_inv ?ds" "fd_lookup ?ds (m_sock s) = Some (setTimeout c so v)"
    using assms(2-4) by (auto simp: fd_put_def fd_inv_def fd_lookup_def split: if_splits)
  ultimately show ?thesis using t(1) assms(7)
    by (auto simp: Socket_setOption_def hook_setsockopt_def split: prod.splits)
qed

text \<open>
  With hooks enabled, the timeout set on a socket that the descriptor table knows is the timeout read back, for
  0 up to 1000 * 2^31 - 1 milliseconds: the conversion to seconds and microseconds and the hook's conversion back
  lose nothing, and the other direction's timeout does not change.
\<close>

theorem timeout_roundtrip:
  assumes "t_hook_enable h" "fd_inv (h_fds h)" "fd_valid (m_sock s)" "fd_lookup (h_fds h) (m_sock s) = Some c"
    "0 \<le> sint v" "sint v < 1000 * 2 ^ 31"
  shows "(\<exists>h'. setSendTimeout api sys v s h = Inr h' \<and> getSendTinmeout api s h' = Inr v \<and>
      getRecvTinmeout api s h' = getRecvTinmeout api s h) \<and>
    (\<exists>h'. setRecvTimeout api sys v s h = Inr h' \<and> getRecvTinmeout api s h' = Inr v \<and>
      getSendTinmeout api s h' = getSendTinmeout api s h)"
proof (intro conjI)
  note g = getTinmeout_lookup [OF _ assms(3)] and old = getTinmeout_lookup [OF assms(2,3)]
  show "\<exists>h'. setSendTimeout api sys v s h = Inr h' \<and> getSendTinmeout api s h' = Inr v \<and>
      getRecvTinmeout api s h' = getRecvTinmeout api s h"
    using set_timeout_effect [OF assms, of SO_SNDTIMEO api sys] old assms(4)
    by (auto simp: g setSendTimeout_def getSendTinmeout_def getRecvTinmeout_def setTimeout_def getTimeout_def)
  show "\<exists>h'. setRecvTimeout api sys v s h = Inr h' \<and> getRecvTinmeout api s h' = Inr v \<and>
      getSendTinmeout api s h' = getSendTinmeout api s h"
    using set_timeout_effect [OF assms, of SO_RCVTIMEO api sys] old assms(4)
    by (auto simp: g setRecvTimeout_def getSendTinmeout_def getRecvTinmeout_def setTimeout_def getTimeout_def)
qed

lemma sample_world_ok: "t_hook_enable sample_world" "fd_inv (h_fds sample_world)" "fd_valid 3"
    "fd_lookup (h_fds sample_world) 3 = Some sample_ctx"
  by (simp_all add: sample_world_def fd_inv_def fd_valid_def fd_lookup_def)

theorem timeout_roundtrip_witness:
  "\<exists>h'. setSendTimeout sample_api (sample_sys 0) 2500 (CreateTCPSocket\<lparr>m_sock := 3\<rparr>) sample_world = Inr h' \<and>
     getSendTinmeout sample_api (CreateTCPSocket\<lparr>m_sock := 3\<rparr>) h' = Inr 2500"
proof -
  have "sint (2500 :: u64) = 2500" by simp
  then show ?thesis
    using timeout_roundtrip [of sample_world "CreateTCPSocket\<lparr>m_sock := 3\<rparr>" sample_ctx 2500 sample_api "sample_sys 0"]
      sample_world_ok by auto
qed

text \<open>
  The timeouts of a closed socket survive it. With hooks enabled \<open>close\<close> leaves the descriptor's context in the
  table, so a socket that is later created and receives the same descriptor number from the system starts with the
  timeouts of the old one.
\<close>

theorem stale_timeout_after_close:
  assumes "t_hook_enable h" "fd_inv (h_fds h)" "fd_valid (m_sock s)" "fd_lookup (h_fds h) (m_sock s) = Some c"
    "Socket_close api sys s h = Inr (r, s', h1)"
    "sys_socket sys (m_family n) (m_type n) (m_protocol n) (h_os h1) = (m_sock s, os)"
    "newSock api sys n h1 = Inr (n', h2)"
  shows "m_sock n' = m_sock s \<and> getSendTinmeout api n' h2 = Inr (m_sendTimeout c) \<and>
    getRecvTinmeout api n' h2 = Inr (m_recvTimeout c)"
proof (intro conjI)
  have v: "m_sock s \<noteq> - 1" using assms(3) by (auto simp: fd_valid_def)
  have h1: "h_fds h1 = h_fds h" "t_hook_enable h1"
    using assms(1,5) v by (auto simp: Socket_close_def call_close_hooked Let_def)
  have "FdManager_get api os (h_fds h1) (m_sock s) True = Inr (Some c, h_fds h1, os)"
    using FdManager_get_eq [OF assms(2,3)] assms(4) h1(1) by simp
  then have "call_socket api sys (m_family n) (m_type n) (m_protocol n) h1 =
      Inr (m_sock s, h1\<lparr>h_fds := h_fds h1, h_os := os\<rparr>)"
    using assms(6) h1(2) v by (simp add: call_socket_def hook_socket_def)
  then have "m_sock n' = m_sock s \<and> initSock api sys n' (h1\<lparr>h_fds := h_fds h1, h_os := os\<rparr>) = Inr h2"
    using assms(7) v by (auto simp: newSock_def Let_def bind_res_Inr_iff)
  then have n: "m_sock n' = m_sock s" "h_fds h2 = h_fds h" using initSock_fds h1 by fastforce+
  show "m_sock n' = m_sock s" by (rule n(1))
  show "getSendTinmeout api n' h2 = Inr (m_sendTimeout c)" "getRecvTinmeout api n' h2 = Inr (m_recvTimeout c)"
    using getTinmeout_lookup [of h2 n'] assms(2-4) n
    by (simp_all add: getSendTinmeout_def getRecvTinmeout_def getTimeout_def)
qed

theorem stale_timeout_after_close_witness:
  "\<exists>r s' h1 n' h2. Socket_close sample_api (sample_sys 0) (CreateTCPSocket\<lparr>m_sock := 3\<rparr>) sample_world = Inr (r, s', h1) \<and>
     newSock sample_api (sample_sys 0) CreateTCPSocket h1 = Inr (n', h2) \<and>
     getSendTinmeout sample_api n' h2 = Inr 5000"
proof -
  let ?s = "CreateTCPSocket\<lparr>m_sock := 3\<rparr>"
  obtain r s' h1 where c: "Socket_close sample_api (sample_sys 0) ?s sample_world = Inr (r, s', h1)"
      "h_fds h1 = h_fds sample_world" "t_hook_enable h1"
    using sample_world_ok(1) by (auto simp: Socket_close_def call_close_hooked Let_def)
  have "\<exists>n' h2. newSock sample_api (sample_sys 0) CreateTCPSocket h1 = Inr (n', h2)"
    using c(2,3)
    by (auto simp: FdManager_get_eq [OF sample_world_ok(2,3)] sample_world_ok(4) Let_def newSock_def call_socket_def hook_socket_def sample_sys_def initSock_def Socket_setOption_def
        hook_setsockopt_def CreateTCPSocket_def Socket_new_def)
  then obtain n' h2 where n: "newSock sample_api (sample_sys 0) CreateTCPSocket h1 = Inr (n', h2)" by blast
  have "m_sock n' = m_sock ?s \<and> getSendTinmeout sample_api n' h2 = Inr (m_sendTimeout sample_ctx) \<and>
      getRecvTinmeout sample_api n' h2 = Inr (m_recvTimeout sample_ctx)"
    by (rule stale_timeout_after_close [OF sample_world_ok(1,2) _ _ c(1) _ n, of sample_ctx "h_os h1"])
      (simp_all add: sample_world_ok sample_sys_def)
  then show ?thesis using c(1) n by (auto simp: sample_ctx_def)
qed

end
