(* ===== verification/Stream_IO.thy ===== *)
theory Stream_IO
  imports Prelude
begin

text \<open>
  \<open>mingfwq/stream.h\<close> and \<open>stream.cpp\<close>: the four loops \<open>readFixSize\<close> and \<open>writeFixSize\<close> over the virtual functions
  \<open>read\<close> and \<open>write\<close>, which are parameters, as they are pure virtual in the class. They return an \<open>int\<close>, here its
  32 bits; the loops keep it in a \<open>len0t\<close>, 64 bits, by sign extension.

  Memory around a buffer is a function from the signed distance to the buffer's start to the byte there, so
  that accesses in front of the buffer are visible. The rest of the state (the peer, the kernel, for the
  byte-array variants also the byte array) is the parameter \<open>'s\<close>. A loop may run forever, so it is a partial
  function into \<open>option\<close>: \<open>None\<close> is a loop that does not end.
\<close>

section \<open>Definitions\<close>

type_synonym memory = "int \<Rightarrow> char"

definition store :: "memory \<Rightarrow> int \<Rightarrow> char list \<Rightarrow> memory" where
  "store m p bs = (\<lambda>a. if p \<le> a \<and> a < p + int (length bs) then bs ! nat (a - p) else m a)"

definition fetch :: "memory \<Rightarrow> int \<Rightarrow> nat \<Rightarrow> char list" where
  "fetch m p n = map (\<lambda>i. m (p + int i)) [0..<n]"

text \<open>\<open>read(buffer, length)\<close>, with the argument \<open>length\<close> called \<open>len0\<close> below: the result, the bytes stored at \<open>buffer\<close>, the new state; \<open>write\<close> likewise.\<close>

type_synonym 's reader = "'s \<Rightarrow> u64 \<Rightarrow> u32 \<times> char list \<times> 's"
type_synonym 's writer = "'s \<Rightarrow> char list \<Rightarrow> u32 \<times> 's"

text \<open>The loop that the four functions share; \<open>io\<close> is the call with the pointer \<open>buffer + offset\<close> and \<open>left\<close>.\<close>

partial_function (option) fix_loop ::
    "('c \<Rightarrow> u64 \<Rightarrow> u64 \<Rightarrow> u32 \<times> 'c) \<Rightarrow> u64 \<Rightarrow> u64 \<Rightarrow> u64 \<Rightarrow> 'c \<Rightarrow> (u32 \<times> 'c) option" where
  "fix_loop io len0 left offset c =
     (if left > 0 then
        (let r = io c offset left; len = scast (fst r) :: u64 in
         if len \<le> 0 then Some (ucast len, snd r)
         else fix_loop io len0 (left - len) (offset + len) (snd r))
      else Some (ucast len0, c))"

definition readFixSize :: "'s reader \<Rightarrow> memory \<Rightarrow> u64 \<Rightarrow> 's \<Rightarrow> (u32 \<times> memory \<times> 's) option" where
  "readFixSize read buffer len0 s =
     fix_loop (\<lambda>(buffer, s) offset left.
         (case read s left of (len, bs, s') \<Rightarrow> (len, store buffer (sint offset) bs, s')))
       len0 len0 0 (buffer, s)"

definition readFixSize_ba :: "('s \<Rightarrow> u64 \<Rightarrow> u32 \<times> 's) \<Rightarrow> u64 \<Rightarrow> 's \<Rightarrow> (u32 \<times> 's) option" where
  "readFixSize_ba read len0 s = fix_loop (\<lambda>s offset left. read s left) len0 len0 0 s"

definition writeFixSize :: "'s writer \<Rightarrow> memory \<Rightarrow> u64 \<Rightarrow> 's \<Rightarrow> (u32 \<times> 's) option" where
  "writeFixSize write buffer len0 s =
     fix_loop (\<lambda>s offset left. write s (fetch buffer (sint offset) (unat left))) len0 len0 0 s"

definition writeFixSize_ba :: "('s \<Rightarrow> u64 \<Rightarrow> u32 \<times> 's) \<Rightarrow> u64 \<Rightarrow> 's \<Rightarrow> (u32 \<times> 's) option" where
  "writeFixSize_ba write len0 s = fix_loop (\<lambda>s offset left. write s left) len0 len0 0 s"

text \<open>
  \<open>SocketStream\<close> (\<open>socket_stream.cpp\<close>): \<open>isConnected\<close>, \<open>recv\<close> and \<open>send\<close> are those of the stream's socket; a stream
  without a socket is not connected.
\<close>

definition SocketStream_read :: "('s \<Rightarrow> bool) \<Rightarrow> 's reader \<Rightarrow> 's reader" where
  "SocketStream_read isConnected recv s n = (if \<not> isConnected s then (- 1, [], s) else recv s n)"

definition SocketStream_write :: "('s \<Rightarrow> bool) \<Rightarrow> 's writer \<Rightarrow> 's writer" where
  "SocketStream_write isConnected send s bs = (if \<not> isConnected s then (- 1, s) else send s bs)"

section \<open>Memory\<close>

lemma store_Nil [simp]: "store m p [] = m"
  by (rule ext) (auto simp: store_def)

lemma store_store [simp]: "store (store m p as) (p + int (length as)) bs = store m p (as @ bs)"
proof (rule ext)
  fix a
  have "nat (a - (p + int (length as))) = nat (a - p) - length as" by linarith
  then show "store (store m p as) (p + int (length as)) bs a = store m p (as @ bs) a"
    by (auto simp: store_def nth_append)
qed

lemma fetch_store: "fetch (store m p bs) p (length bs) = bs"
  by (rule nth_equalityI) (auto simp: fetch_def store_def)

lemma length_fetch [simp]: "length (fetch m p n) = n"
  by (simp add: fetch_def)

section \<open>The loop\<close>

text \<open>
  What the calls of \<open>read\<close> of one loop deliver when none fails: the bytes, the state after them, and whether
  they are as many as asked for or end before.
\<close>

inductive delivered :: "'s reader \<Rightarrow> 's \<Rightarrow> u64 \<Rightarrow> char list \<Rightarrow> 's \<Rightarrow> bool \<Rightarrow> bool" for read where
  full: "delivered read s 0 [] s True"
| eof: "0 < left \<Longrightarrow> read s left = (0, [], s') \<Longrightarrow> delivered read s left [] s' False"
| more: "0 < left \<Longrightarrow> read s left = (len, bs, s') \<Longrightarrow> 0 < sint len \<Longrightarrow>
    delivered read s' (left - scast len) bs' s'' f \<Longrightarrow> delivered read s left (bs @ bs') s'' f"

text \<open>A \<open>read\<close> that does not fail and keeps to the documented result: the number of bytes stored, at most \<open>length\<close>.\<close>

definition reads_well :: "'s reader \<Rightarrow> bool" where
  "reads_well read \<longleftrightarrow> (\<forall>s left. case read s left of (len, bs, s') \<Rightarrow>
     0 \<le> sint len \<and> length bs = nat (sint len) \<and> length bs \<le> unat left)"

lemma reads_wellD:
  assumes "reads_well read" "read s left = (len, bs, s')"
  shows "0 \<le> sint len" "length bs = nat (sint len)" "length bs \<le> unat left"
    "unat (scast len :: u64) = length bs" "unat (left - scast len) = unat left - length bs"
proof -
  have "case read s left of (len, bs, s') \<Rightarrow> 0 \<le> sint len \<and> length bs = nat (sint len) \<and> length bs \<le> unat left"
    using assms(1) by (simp only: reads_well_def)
  then show l: "0 \<le> sint len" "length bs = nat (sint len)" "length bs \<le> unat left" using assms(2) by simp_all
  show u: "unat (scast len :: u64) = length bs" using l unat_scast [of len] by simp
  then have "scast len \<le> left" using l(3) by (simp add: word_le_nat_alt)
  then show "unat (left - scast len) = unat left - length bs" using u by (simp add: unat_sub)
qed

lemma scast_pos: "0 < sint (len :: u32) \<Longrightarrow> (scast len :: u64) \<noteq> 0"
  by (metis less_irrefl sint_0 sint_scast)

lemma delivered_total:
  assumes "reads_well read"
  shows "\<exists>bs s' f. delivered read s left bs s' f \<and> (f \<longleftrightarrow> length bs = unat left) \<and> length bs \<le> unat left"
proof (induction "unat left" arbitrary: left s rule: less_induct)
  case less
  obtain len bs s' where r: "read s left = (len, bs, s')" by (metis prod_cases3)
  note d = reads_wellD [OF assms r]
  show ?case
  proof (cases "left = 0 \<or> len = 0")
    case True
    then have "left = 0 \<and> delivered read s left [] s True \<or> 0 < left \<and> delivered read s left [] s' False"
      using d(2) r delivered.full [of read s] delivered.eof [of left read s s']
      by (cases "left = 0") (auto simp: word_gt_0)
    then show ?thesis
    proof (elim disjE conjE)
      assume "0 < left" "delivered read s left [] s' False"
      then show ?thesis by (intro exI [of _ "[]"] exI [of _ s'] exI [of _ False]) (auto simp: unat_gt_0 word_gt_0)
    qed (intro exI [of _ "[]"] exI [of _ s] exI [of _ True], simp)
  next
    case False
    then have p: "0 < sint len" "0 < left" using d(1) by (auto simp: word_gt_0 order_le_less signed_eq_0_iff)
    then have "unat (left - scast len) < unat left" using d(2,3,5) by simp
    from less [OF this, of s'] obtain bs' s'' f where
      "delivered read s' (left - scast len) bs' s'' f" "f \<longleftrightarrow> length bs' = unat (left - scast len)"
      "length bs' \<le> unat (left - scast len)" by blast
    then show ?thesis using delivered.more [where read = read and s = s and left = left, OF p(2) r p(1)] d(3,5)
      by (intro exI [of _ "bs @ bs'"] exI [of _ s''] exI [of _ f]) auto
  qed
qed

lemma sint_small: "unat (w :: u64) < 2 ^ 63 \<Longrightarrow> sint w = int (unat w)"
proof (rule sint_u64_nat, rule disjI2)
  assume "unat w < 2 ^ 63"
  then have "int (unat w) < int (2 ^ 63)" by (simp only: of_nat_less_iff)
  then show "uint w < 2 ^ 63" by (simp only: uint_nat of_nat_power of_nat_numeral)
qed

abbreviation read_io :: "'s reader \<Rightarrow> memory \<times> 's \<Rightarrow> u64 \<Rightarrow> u64 \<Rightarrow> u32 \<times> memory \<times> 's" where
  "read_io read \<equiv> (\<lambda>(buffer, s) offset left.
     (case read s left of (len, bs, s') \<Rightarrow> (len, store buffer (sint offset) bs, s')))"

lemma fix_loop_delivered:
  assumes "reads_well read"
  shows "delivered read s left bs s' f \<Longrightarrow> unat offset + unat left < 2 ^ 63 \<Longrightarrow>
    fix_loop (read_io read) n left offset (buffer, s) =
      Some (if f then ucast n else 0, store buffer (sint offset) bs, s')"
proof (induction arbitrary: offset buffer rule: delivered.induct)
  case (more left s len bs s' bs' s'' f)
  note d = reads_wellD [OF assms more.hyps(2)]
  have o: "unat (offset + scast len) = unat offset + length bs"
    using d(3,4) more.prems by (simp add: unat_word_ariths)
  then have "unat (offset + scast len) + unat (left - scast len) < 2 ^ 63" using d(3,5) more.prems by simp
  from more.IH [OF this, of "store buffer (sint offset) bs"]
  have "fix_loop (read_io read) n (left - scast len) (offset + scast len) (store buffer (sint offset) bs, s') =
     Some (if f then ucast n else 0, store buffer (sint offset) (bs @ bs'), s'')"
    using o d(3) more.prems by (simp add: sint_small)
  then show ?case using more.hyps scast_pos [of len] by (subst fix_loop.simps) (simp add: Let_def)
qed (subst fix_loop.simps, simp add: Let_def)+

lemma delivered_length: "delivered read s left bs s' f \<Longrightarrow> reads_well read \<Longrightarrow> f \<Longrightarrow> length bs = unat left"
proof (induction rule: delivered.induct)
  case (more left s len bs s' bs' s'' f)
  then show ?case using reads_wellD [OF more.prems(1) more.hyps(2)] by simp
qed auto

lemma fix_loop_result:
  assumes "fix_loop io n left offset c = Some y"
  shows "fst y = 0 \<or> fst y = ucast n"
proof (rule fix_loop.raw_induct [OF _ assms, of "\<lambda>io n left offset c y. fst y = 0 \<or> fst y = ucast n"])
  fix loop :: "('a \<Rightarrow> u64 \<Rightarrow> u64 \<Rightarrow> u32 \<times> 'a) \<Rightarrow> u64 \<Rightarrow> u64 \<Rightarrow> u64 \<Rightarrow> 'a \<Rightarrow> (u32 \<times> 'a) option" and io n left offset c y
  assume "\<And>io n left offset c y. loop io n left offset c = Some y \<Longrightarrow> fst y = 0 \<or> fst y = ucast n"
    and "(if 0 < left then let r = io c offset left; len = scast (fst r) :: u64 in
        if len \<le> 0 then Some (ucast len, snd r) else loop io n (left - len) (offset + len) (snd r)
      else Some (ucast n, c)) = Some y"
  then show "fst y = 0 \<or> fst y = ucast n" by (auto simp: Let_def split: if_splits)
qed

lemma unat_lt_pow64: "unat (w :: u64) < 2 ^ 64"
  using unsigned_less [of w, where 'a = nat] by simp

lemma fix_loop_fails:
  assumes "\<And>offset left. io c offset left = (- 1, c)"
  shows "fix_loop io n left offset c = Some (ucast n, c)"
proof (induction "2 ^ 64 - unat left" arbitrary: left offset rule: less_induct)
  case less
  show ?case
  proof (cases "left = 0")
    case False
    have "fix_loop io n (left + 1) (offset - 1) c = Some (ucast n, c)"
    proof (cases "left + 1 = 0")
      case False
      then have "unat (left + 1) = Suc (unat left)" using unatSuc [of left] by (simp add: add.commute)
      moreover have "unat left < 2 ^ 64" by (rule unat_lt_pow64)
      ultimately show ?thesis by (intro less) simp
    qed (subst fix_loop.simps, simp)
    then show ?thesis using False by (subst fix_loop.simps) (simp add: assms Let_def word_gt_0)
  qed (subst fix_loop.simps, simp)
qed

section \<open>Properties\<close>

text \<open>
  C32: \<open>readFixSize\<close> on a stream whose \<open>read\<close> does not fail: it returns, having stored exactly the bytes that the
  calls delivered, in order, from the start of the buffer and no byte elsewhere; the result is the
  requested length when all of them came, and 0 when the stream ended before.
\<close>

theorem readFixSize_behaviour:
  assumes "reads_well read" "unat n < 2 ^ 63"
  shows "\<exists>bs s' f. delivered read s n bs s' f \<and> (f \<longleftrightarrow> length bs = unat n) \<and> length bs \<le> unat n \<and>
     readFixSize read buffer n s = Some (if f then ucast n else 0, store buffer 0 bs, s')"
proof -
  obtain bs s' f where d: "delivered read s n bs s' f" "f \<longleftrightarrow> length bs = unat n" "length bs \<le> unat n"
    using delivered_total [OF assms(1)] by blast
  from fix_loop_delivered [OF assms(1) d(1), of 0 n buffer] assms(2)
  have "readFixSize read buffer n s = Some (if f then ucast n else 0, store buffer 0 bs, s')"
    by (simp add: readFixSize_def)
  then show ?thesis using d by blast
qed

text \<open>A stream that holds \<open>s\<close> and delivers at most three bytes a call.\<close>

definition chunked :: "char list reader" where
  "chunked s left = (let k = min (min 3 (length s)) (unat left) in (of_nat k, take k s, drop k s))"

lemma chunked_well: "reads_well chunked"
proof -
  have "sint (of_nat k :: u32) = int k" if "k \<le> 3" for k :: nat
    using that by (auto simp: le_Suc_eq numeral_3_eq_3)
  then show ?thesis by (auto simp: reads_well_def chunked_def Let_def)
qed

inductive_simps delivered_left: "delivered read s left bs s' f"

theorem readFixSize_behaviour_witness:
  "readFixSize chunked (\<lambda>_. CHR 0x00) 5 ''abcdefg'' = Some (5, store (\<lambda>_. CHR 0x00) 0 ''abcde'', ''fg'')"
proof -
  have z: "delivered chunked ''fg'' 0 bs s' f \<longleftrightarrow> bs = [] \<and> s' = ''fg'' \<and> f" for bs s' f
    by (subst delivered_left) auto
  have t: "delivered chunked ''defg'' 2 bs s' f \<longleftrightarrow> bs = ''de'' \<and> s' = ''fg'' \<and> f" for bs s' f
    by (subst delivered_left) (auto simp: chunked_def z)
  have "delivered chunked ''abcdefg'' 5 bs s' f \<longleftrightarrow> bs = ''abcde'' \<and> s' = ''fg'' \<and> f" for bs s' f
    by (subst delivered_left) (auto simp: chunked_def t)
  then show ?thesis using readFixSize_behaviour [OF chunked_well, of 5 "''abcdefg''" "\<lambda>_. CHR 0x00"] by simp
qed

text \<open>
  The four loops do not report a failing call, because the comparison \<open>len <= 0\<close> is on a \<open>size_t\<close>: the result
  is always 0 or the requested length. After a result -1 the loop goes on with one byte more to move and the
  pointer one byte lower: a \<open>read\<close> that fails once and then delivers all it is asked for overwrites the byte
  in front of the buffer, and a \<open>write\<close> that fails once is then given that byte to send. When every call
  fails, the loop makes 2^64 calls less the requested length and reports success without moving a byte.
\<close>

theorem fixSize_ignores_errors:
  "(readFixSize read buffer n s = Some (r, x) \<longrightarrow> r = 0 \<or> r = ucast n) \<and>
   (readFixSize_ba rd n s = Some (r, s') \<longrightarrow> r = 0 \<or> r = ucast n) \<and>
   (writeFixSize write buffer n s = Some (r, s') \<longrightarrow> r = 0 \<or> r = ucast n) \<and>
   (writeFixSize_ba wr n s = Some (r, s') \<longrightarrow> r = 0 \<or> r = ucast n) \<and>
   ((\<forall>k. read s k = (- 1, [], s)) \<longrightarrow> readFixSize read buffer n s = Some (ucast n, buffer, s)) \<and>
   ((\<forall>bs. write s bs = (- 1, s)) \<longrightarrow> writeFixSize write buffer n s = Some (ucast n, s)) \<and>
   (0 < n \<and> n + 1 \<noteq> 0 \<and> read s n = (- 1, [], sa) \<and> read sa (n + 1) = (len, bs, sb) \<and> scast len = n + 1 \<longrightarrow>
      readFixSize read buffer n s = Some (ucast n, store buffer (- 1) bs, sb)) \<and>
   (0 < n \<and> n + 1 \<noteq> 0 \<and> write s (fetch buffer 0 (unat n)) = (- 1, sa) \<longrightarrow>
      writeFixSize write buffer n s =
        (case write sa (fetch buffer (- 1) (unat (n + 1))) of (len, sb) \<Rightarrow>
           if len = 0 then Some (0, sb)
           else fix_loop (\<lambda>s offset left. write s (fetch buffer (sint offset) (unat left))) n
             (n + 1 - scast len) (scast len - 1) sb))"
proof (intro conjI impI)
  assume "\<forall>k. read s k = (- 1, [], s)"
  then show "readFixSize read buffer n s = Some (ucast n, buffer, s)"
    unfolding readFixSize_def by (intro fix_loop_fails) simp
next
  assume "\<forall>bs. write s bs = (- 1, s)"
  then show "writeFixSize write buffer n s = Some (ucast n, s)"
    unfolding writeFixSize_def by (intro fix_loop_fails) simp
next
  assume a: "0 < n \<and> n + 1 \<noteq> 0 \<and> read s n = (- 1, [], sa) \<and> read sa (n + 1) = (len, bs, sb) \<and> scast len = n + 1"
  have "fix_loop (read_io read) n 0 n (store buffer (- 1) bs, sb) = Some (ucast n, store buffer (- 1) bs, sb)"
    by (subst fix_loop.simps) simp
  then have "fix_loop (read_io read) n (n + 1) (- 1) (buffer, sa) = Some (ucast n, store buffer (- 1) bs, sb)"
    using a by (subst fix_loop.simps) (simp add: Let_def word_gt_0)
  then show "readFixSize read buffer n s = Some (ucast n, store buffer (- 1) bs, sb)"
    unfolding readFixSize_def using a by (subst fix_loop.simps) (simp add: Let_def)
next
  assume a: "0 < n \<and> n + 1 \<noteq> 0 \<and> write s (fetch buffer 0 (unat n)) = (- 1, sa)"
  let ?io = "\<lambda>s offset left. write s (fetch buffer (sint offset) (unat left))"
  have "writeFixSize write buffer n s = fix_loop ?io n (n + 1) (- 1) sa"
    unfolding writeFixSize_def using a by (subst fix_loop.simps) (simp add: Let_def)
  also have "\<dots> = (case write sa (fetch buffer (- 1) (unat (n + 1))) of (len, sb) \<Rightarrow>
      if len = 0 then Some (0, sb) else fix_loop ?io n (n + 1 - scast len) (scast len - 1) sb)"
  proof -
    have "(scast len :: u64) = 0 \<longleftrightarrow> len = 0" for len :: u32
      by (metis scast_0 signed_eq_0_iff sint_scast)
    then show ?thesis using a
      by (subst fix_loop.simps) (simp add: Let_def word_gt_0 split: prod.split)
  qed
  finally show "writeFixSize write buffer n s = (case write sa (fetch buffer (- 1) (unat (n + 1))) of (len, sb) \<Rightarrow>
      if len = 0 then Some (0, sb) else fix_loop ?io n (n + 1 - scast len) (scast len - 1) sb)" .
qed (auto simp: readFixSize_def readFixSize_ba_def writeFixSize_def writeFixSize_ba_def dest!: fix_loop_result)

theorem fixSize_ignores_errors_witness:
  "readFixSize (\<lambda>(s :: bool) k. if s then (3, ''xyz'', s) else (- 1, [], True)) (\<lambda>_. CHR 0x00) 2 False =
   Some (2, store (\<lambda>_. CHR 0x00) (- 1) ''xyz'', True)"
  using fixSize_ignores_errors [where n = 2 and s = False and sa = True and sb = True and len = 3 and bs = "''xyz''"
    and buffer = "\<lambda>_. CHR 0x00" and read = "\<lambda>s k. if s then (3, ''xyz'', s) else (- 1, [], True)"]
  by simp

end
