(* ===== verification/Socket_Stream.thy ===== *)
theory Socket_Stream
  imports ByteArray_IO Socket Stream_IO
begin

text \<open>
  The class \<open>SocketStream\<close> of \<open>mingfwq/socket_stream.h\<close> and \<open>socket_stream.cpp\<close> over the classes \<open>Socket\<close> and
  \<open>ByteArray\<close>: construction, destruction, closing and the transfers of byte arrays through vectors of buffers. The
  transfers of raw buffers are in the theory Stream_IO. The system fills the buffers of a \<open>recvmsg\<close> in turn.
\<close>

section \<open>Definitions\<close>

record SocketStream =
  ss_socket :: "Socket option"
  ss_owner :: bool

definition SocketStream_new :: "Socket option \<Rightarrow> bool \<Rightarrow> SocketStream" where
  "SocketStream_new sock owner = \<lparr>ss_socket = sock, ss_owner = owner\<rparr>"

definition SocketStream_isConnected :: "SocketStream \<Rightarrow> bool" where
  "SocketStream_isConnected ss \<longleftrightarrow> (case ss_socket ss of None \<Rightarrow> False | Some sock \<Rightarrow> m_isConnected sock)"

definition SocketStream_close ::
    "'os os_api \<Rightarrow> 'os sock_sys \<Rightarrow> SocketStream \<Rightarrow> 'os hook_state \<Rightarrow> (SocketStream \<times> 'os hook_state) res" where
  "SocketStream_close api sys ss h =
     (case ss_socket ss of
        None \<Rightarrow> Inr (ss, h)
      | Some sock \<Rightarrow> bind_res (Socket_close api sys sock h) (\<lambda>(_, sock, h). Inr (ss\<lparr>ss_socket := Some sock\<rparr>, h)))"

definition SocketStream_destroy ::
    "'os os_api \<Rightarrow> 'os sock_sys \<Rightarrow> SocketStream \<Rightarrow> 'os hook_state \<Rightarrow> (SocketStream \<times> 'os hook_state) res" where
  "SocketStream_destroy api sys ss h =
     (if ss_owner ss \<and> ss_socket ss \<noteq> None then SocketStream_close api sys ss h else Inr (ss, h))"

text \<open>\<open>&iovs[0]\<close> of an empty vector is an access outside of it.\<close>

definition SocketStream_read_ba ::
    "'os sock_sys \<Rightarrow> SocketStream \<Rightarrow> ByteArray \<Rightarrow> nat \<Rightarrow> 'os hook_state \<Rightarrow> (int \<times> ByteArray \<times> 'os hook_state) res" where
  "SocketStream_read_ba sys ss ba len h =
     (if \<not> SocketStream_isConnected ss then Inr (- 1, ba, h)
      else bind_res (getWriteBuffers ba [] len) (\<lambda>(_, iovs, ba).
        if iovs = [] then Inl Bad_access
        else
          let (rt, bufs, h) = Socket_recv_iov sys (map iov_len iovs) 0 (the (ss_socket ss)) h;
              ba = ba\<lparr>m_nodes := scatter (m_nodes ba) iovs (concat bufs)\<rparr>
          in if rt > 0 then bind_res (setPosition ba (m_position ba + nat rt)) (\<lambda>ba. Inr (rt, ba, h))
             else Inr (rt, ba, h)))"

definition SocketStream_write_ba ::
    "'os sock_sys \<Rightarrow> SocketStream \<Rightarrow> ByteArray \<Rightarrow> nat \<Rightarrow> 'os hook_state \<Rightarrow> (int \<times> ByteArray \<times> 'os hook_state) res" where
  "SocketStream_write_ba sys ss ba len h =
     (if \<not> SocketStream_isConnected ss then Inr (- 1, ba, h)
      else bind_res (getReadBuffers ba [] len) (\<lambda>(_, iovs).
        if iovs = [] then Inl Bad_access
        else
          let (rt, _, h) = Socket_send_iov sys (map (iov_bytes (m_nodes ba)) iovs) 0 (the (ss_socket ss)) h
          in if rt > 0 then bind_res (setPosition ba (m_position ba + nat rt)) (\<lambda>ba. Inr (rt, ba, h))
             else Inr (rt, ba, h)))"

section \<open>Lemmas\<close>

lemma int_result: "0 \<le> n \<Longrightarrow> n < 2 ^ 31 \<Longrightarrow> sint (word_of_int n :: u32) = n"
  by (simp add: sint_sbintrunc' int_sized)

lemma nat_result: "n < 2 ^ 31 \<Longrightarrow> sint (word_of_nat n :: u32) = int n"
  using int_result [of "int n"] by simp

lemma scatter_Nil [simp]: "scatter ns vs [] = ns"
  by (induction vs arbitrary: ns) auto

text \<open>What a \<open>recvmsg\<close> that stores \<open>rt\<close> bytes, or fails, does to a well-formed array.\<close>

lemma read_ba_effect:
  assumes "ba_inv ba" "0 < len" "fits ba len" "ss_socket ss = Some sock" "m_isConnected sock"
    and "\<And>lens. sum_list lens = len \<Longrightarrow> sys_transfer sys (Recvmsg lens None 0) (m_sock sock) (h_os h) = (rt, bufs, os)"
    and "rt = int (length (concat bufs)) \<or> rt = - 1 \<and> concat bufs = []" "length (concat bufs) \<le> len" "len < 2 ^ 31"
  shows "\<exists>ba'. SocketStream_read_ba sys ss ba len h = Inr (rt, ba', h\<lparr>h_os := os\<rparr>) \<and> ba_inv ba' \<and>
    contents ba' = overwrite (m_position ba) (concat bufs) (contents ba) \<and>
    m_position ba' = m_position ba + length (concat bufs)"
proof -
  obtain vs b1 where vs: "getWriteBuffers ba [] len = Inr (len, vs, b1)" "sum_list (map iov_len vs) = len"
      "ba_inv b1" "contents b1 = contents ba" "m_position b1 = m_position ba"
    and store: "\<And>bs. length bs \<le> len \<Longrightarrow>
      \<exists>b2. setPosition (b1\<lparr>m_nodes := scatter (m_nodes b1) vs bs\<rparr>) (m_position b1 + length bs) = Inr b2 \<and> ba_inv b2 \<and>
        contents b2 = overwrite (m_position ba) bs (contents ba) \<and> m_position b2 = m_position ba + length bs"
    using getWriteBuffers_cases [OF assms(1,2), of "[]"] assms(3) by auto
  have ne: "vs \<noteq> []" using vs(2) assms(2) by auto
  have rt: "sint (word_of_int rt :: u32) = rt" using assms(7-9) int_result [of rt] by auto
  have recv: "Socket_recv_iov sys (map iov_len vs) 0 sock h = (rt, bufs, h\<lparr>h_os := os\<rparr>)"
    using assms(5) assms(6) [OF vs(2)] rt by (simp add: Socket_recv_iov_def Socket_transfer_def)
  show ?thesis
  proof (cases "rt > 0")
    case True
    then have "nat rt = length (concat bufs)" using assms(7) by auto
    then show ?thesis
      using True store [OF assms(8)] vs(1) ne recv assms(4,5)
      by (auto simp: SocketStream_read_ba_def SocketStream_isConnected_def)
  next
    case False
    then have e: "concat bufs = []" using assms(7) by auto
    show ?thesis
      using False vs ne recv assms(4,5)
      by (auto simp: SocketStream_read_ba_def SocketStream_isConnected_def e simp del: concat_eq_Nil_conv)
  qed
qed

lemma gather_map: "concat (map (iov_bytes ns) vs) = gather ns vs"
  by (simp add: gather_def)

lemma write_ba_effect:
  assumes "ba_inv ba" "m_capacity ba + m_baseSize ba \<le> 2 ^ 64" "m_position ba mod m_baseSize ba = 0"
    and "n = read_len ba len" "0 < n" "m_position ba + n < m_capacity ba" "ss_socket ss = Some sock" "m_isConnected sock"
    and "\<And>bufs. concat bufs = take n (unread ba) \<Longrightarrow>
      sys_transfer sys (Sendmsg bufs None 0) (m_sock sock) (h_os h) = (int m, rs, os)" "m \<le> n" "n < 2 ^ 31"
  shows "\<exists>ba'. SocketStream_write_ba sys ss ba len h = Inr (int m, ba', h\<lparr>h_os := os\<rparr>) \<and> ba_inv ba' \<and>
    contents ba' = contents ba \<and> m_position ba' = m_position ba + m"
proof -
  obtain vs where vs: "getReadBuffers ba [] len = Inr (n, vs)" "gather (m_nodes ba) vs = take n (unread ba)"
    using getReadBuffers_cases [OF assms(1,2,4) refl, of "[]"] assms(3,5,6) by auto
  have n: "n \<le> getReadSize ba" using assms(4) by (simp add: read_len_def)
  then have "take n (unread ba) \<noteq> []" using assms(1,5) by (auto simp: unread_def getReadSize_def contents_def ba_inv_def)
  then have ne: "vs \<noteq> []" using vs(2) by auto
  have send: "Socket_send_iov sys (map (iov_bytes (m_nodes ba)) vs) 0 sock h = (int m, rs, h\<lparr>h_os := os\<rparr>)"
    using assms(8,10,11) assms(9) [of "map (iov_bytes (m_nodes ba)) vs"] vs(2)
    by (simp add: Socket_send_iov_def Socket_transfer_def gather_map nat_result)
  have p: "m_position ba + m \<le> m_capacity ba" "max (m_size ba) (m_position ba + m) = m_size ba"
    using assms(1,6,10) n by (auto simp: ba_inv_def getReadSize_def)
  show ?thesis
    using setPosition_ok [OF assms(1) p(1)] vs(1) ne send assms(1,7,8) p(2)
    by (cases "m = 0") (auto simp: SocketStream_write_ba_def SocketStream_isConnected_def contents_def)
qed

section \<open>From one array to another\<close>

text \<open>
  A connection as the two ends of a byte queue: \<open>sendmsg\<close> appends the bytes of its buffers, \<open>recvmsg\<close> takes as many
  as its buffers hold or are there.
\<close>

definition queue_sys :: "u8 list sock_sys \<Rightarrow> bool" where
  "queue_sys sys \<longleftrightarrow>
     (\<forall>bufs fd q. sys_transfer sys (Sendmsg bufs None 0) fd q = (int (length (concat bufs)), [], q @ concat bufs)) \<and>
     (\<forall>lens fd q. sys_transfer sys (Recvmsg lens None 0) fd q =
        (int (min (sum_list lens) (length q)), [take (sum_list lens) q], drop (sum_list lens) q))"

text \<open>
  C33: Over a connection that keeps the bytes in order, \<open>SocketStream::write\<close> of a byte array whose position is at the start of
  a node, for data that ends before the end of its chain, returns the number of bytes, advances the position by it and changes nothing else of the data;
  \<open>SocketStream::read\<close> at the other end into an array with room for them returns the same number, and that array's data is replaced or
  extended at its position by exactly these bytes.
\<close>

theorem stream_transfer:
  assumes "queue_sys sys" "h_os h = []"
    and "ba_inv a" "m_capacity a + m_baseSize a \<le> 2 ^ 64" "m_position a mod m_baseSize a = 0"
    and "n = read_len a len" "0 < n" "n < 2 ^ 31" "m_position a + n < m_capacity a"
    and "ss_socket sender = Some sock1" "m_isConnected sock1" "ss_socket receiver = Some sock2" "m_isConnected sock2"
    and "ba_inv b" "n \<le> room" "room < 2 ^ 31" "fits b room"
  shows "\<exists>a' h1 b' h2. SocketStream_write_ba sys sender a len h = Inr (int n, a', h1) \<and>
    ba_inv a' \<and> contents a' = contents a \<and> m_position a' = m_position a + n \<and>
    SocketStream_read_ba sys receiver b room h1 = Inr (int n, b', h2) \<and> ba_inv b' \<and> h_os h2 = [] \<and>
    contents b' = overwrite (m_position b) (take n (unread a)) (contents b) \<and> m_position b' = m_position b + n"
proof -
  let ?data = "take n (unread a)" and ?h1 = "h\<lparr>h_os := take n (unread a)\<rparr>"
  have "n \<le> getReadSize a" using assms(6) by (simp add: read_len_def)
  then have len: "length ?data = n" using assms(3) by (auto simp: unread_def getReadSize_def contents_def ba_inv_def)
  have send: "sys_transfer sys (Sendmsg bufs None 0) (m_sock sock1) (h_os h) = (int n, [], ?data)"
    if "concat bufs = ?data" for bufs
    using assms(1,2) len by (simp add: queue_sys_def that)
  have recv: "sys_transfer sys (Recvmsg lens None 0) (m_sock sock2) (h_os ?h1) = (int n, [?data], [])"
    if "sum_list lens = room" for lens
    using assms(1,15) len by (simp add: queue_sys_def that min_def)
  obtain a' where "SocketStream_write_ba sys sender a len h = Inr (int n, a', ?h1)" "ba_inv a'"
      "contents a' = contents a" "m_position a' = m_position a + n"
    using write_ba_effect [OF assms(3-7,9-11) send _ assms(8)] by auto
  moreover obtain b' where "SocketStream_read_ba sys receiver b room ?h1 = Inr (int n, b', ?h1\<lparr>h_os := []\<rparr>)" "ba_inv b'"
      "contents b' = overwrite (m_position b) ?data (contents b)" "m_position b' = m_position b + n"
    using read_ba_effect [OF assms(14) _ assms(17,12,13) recv _ _ assms(16)] assms(7,15) len by auto
  ultimately show ?thesis by (intro exI [of _ a'] exI [of _ ?h1] exI [of _ b'] exI [of _ "?h1\<lparr>h_os := []\<rparr>"]) simp
qed

definition sample_queue :: "u8 list sock_sys" where
  "sample_queue =
     \<lparr>sys_socket = (\<lambda>f t p os. (3, os)), sys_accept = (\<lambda>s os. (- 1, os)), sys_bind = (\<lambda>s a os. (0, os)),
      sys_connect = (\<lambda>s a t os. (0, os)), sys_listen = (\<lambda>s b os. (0, os)), sys_close = (\<lambda>s os. os),
      sys_setsockopt = (\<lambda>s l n v os. (0, os)), sys_getsockopt = (\<lambda>s l n os. (0, 0)),
      sys_getpeername = (\<lambda>s a os. (0, a, getAddrLen a)), sys_getsockname = (\<lambda>s a os. (0, a, getAddrLen a)),
      sys_transfer = (\<lambda>t s q. case t of
          Sendmsg bufs _ _ \<Rightarrow> (int (length (concat bufs)), [], q @ concat bufs)
        | Recvmsg lens _ _ \<Rightarrow> (int (min (sum_list lens) (length q)), [take (sum_list lens) q], drop (sum_list lens) q)
        | _ \<Rightarrow> (- 1, [], q)), sys_iom = True\<rparr>"

theorem stream_transfer_witness:
  "let a = ByteArray_new (\<lambda>_ _. 7) 4 \<lparr>m_size := 3\<rparr>; b = ByteArray_new (\<lambda>_ _. 0) 2;
      h = \<lparr>t_hook_enable = False, h_fds = [], h_os = []\<rparr>; ss = SocketStream_new (Some (CreateTCPSocket\<lparr>m_isConnected := True\<rparr>)) True
   in \<exists>a' h1 b' h2. SocketStream_write_ba sample_queue ss a 100 h = Inr (3, a', h1) \<and>
        SocketStream_read_ba sample_queue ss b 8 h1 = Inr (3, b', h2) \<and> contents b' = [7, 7, 7]"
proof -
  let ?a = "ByteArray_new (\<lambda>_ _. 7) 4 \<lparr>m_size := 3\<rparr>" and ?b = "ByteArray_new (\<lambda>_ _. 0) 2"
  let ?h = "\<lparr>t_hook_enable = False, h_fds = [], h_os = []\<rparr>" and ?s = "CreateTCPSocket\<lparr>m_isConnected := True\<rparr>"
  have a: "ba_inv ?a" "m_position ?a = 0" "m_baseSize ?a = 4" "m_capacity ?a = 4" "read_len ?a 100 = 3"
      "unread ?a = [7, 7, 7]"
    by (simp_all add: ByteArray_new_def ba_inv_def blocks_def cur_of_def new_Node_def read_len_def getReadSize_def
        unread_def contents_def upt_rec)
  have q: "queue_sys sample_queue" by (simp add: queue_sys_def sample_queue_def)
  have b: "ba_inv ?b" "fits ?b 8" "m_position ?b = 0" "contents ?b = []" by (simp_all add: ba_new_inv fits_def getCapacity_def)
  show ?thesis
    using stream_transfer [OF q _ a(1) _ _ a(5) [symmetric], of ?h "SocketStream_new (Some ?s) True" ?s
        "SocketStream_new (Some ?s) True" ?s ?b 8] a b
    by (auto simp: Let_def SocketStream_new_def overwrite_def)
qed

text \<open>
  An array filled to the end of its chain cannot be written: with the default block size, 4096 bytes written into a
  fresh array and rewound make \<open>SocketStream::write\<close> follow a null pointer.
\<close>

lemma write_full_chain_crashes:
  assumes "ba_inv a" "m_capacity a + m_baseSize a \<le> 2 ^ 64" "m_position a mod m_baseSize a = 0"
    and "m_position a < m_size a" "m_size a = m_capacity a" "getReadSize a \<le> len" "SocketStream_isConnected ss"
  shows "SocketStream_write_ba sys ss a len h = Inl Null_deref"
proof -
  have "read_len a len = getReadSize a" "m_position a + getReadSize a = m_capacity a" "0 < getReadSize a"
    using assms(4-6) by (simp_all add: read_len_def getReadSize_def)
  then show ?thesis
    using getReadBuffers_cases [OF assms(1,2) refl refl, of len "[]"] assms(3,7) by (simp add: SocketStream_write_ba_def)
qed

end
