(* ===== verification/Http.thy ===== *)
theory Http
  imports Std_Set Cstring "HOL-Library.Sublist"
begin

text \<open>
  The HTTP data structures of \<open>mingfwq/http/http.h\<close> and \<open>http.cpp\<close>: methods and status codes, requests
  and responses with their case-insensitive maps, and their output. The enumerations \<open>HttpMethod\<close> and
  \<open>HttpStatus\<close> are their numbers, because the code indexes and prints them; the tables are those of the
  macros \<open>HTTP_METHOD_MAP\<close> and \<open>HTTP_STATUS_MAP\<close>. Strings are lists of characters; \<open>c_str()\<close> passed to a
  C function ends at the first NUL. \<open>strcasecmp\<close> is that of the C locale. \<open>boost::lexical_cast\<close> is a
  parameter, \<open>None\<close> for a failed conversion.
\<close>

section \<open>C strings\<close>

definition lower :: "char \<Rightarrow> nat" where
  "lower c = (let n = of_char c in if 65 \<le> n \<and> n \<le> 90 then n + 32 else n)"

fun strcase_less :: "char list \<Rightarrow> char list \<Rightarrow> bool" where
  "strcase_less [] [] = False"
| "strcase_less [] (y # ys) = True"
| "strcase_less (x # xs) [] = False"
| "strcase_less (x # xs) (y # ys) =
     (if lower x < lower y then True else if lower x > lower y then False else strcase_less xs ys)"

definition strcasecmp_eq :: "string \<Rightarrow> string \<Rightarrow> bool" where
  "strcasecmp_eq a b = (map lower (c_str a) = map lower (c_str b))"

definition CaseInsensitiveLess :: "string \<Rightarrow> string \<Rightarrow> bool" where
  "CaseInsensitiveLess lhs rhs = strcase_less (c_str lhs) (c_str rhs)"

section \<open>Methods and status codes\<close>

type_synonym HttpMethod = nat
type_synonym HttpStatus = nat

definition HTTP_METHOD_MAP :: "(nat \<times> string) list" where
  "HTTP_METHOD_MAP =
    [(0, ''DELETE''), (1, ''GET''), (2, ''HEAD''), (3, ''POST''), (4, ''PUT''),
     (5, ''CONNECT''), (6, ''OPTIONS''), (7, ''TRACE''), (8, ''COPY''), (9, ''LOCK''),
     (10, ''MKCOL''), (11, ''MOVE''), (12, ''PROPFIND''), (13, ''PROPPATCH''), (14, ''SEARCH''),
     (15, ''UNLOCK''), (16, ''BIND''), (17, ''REBIND''), (18, ''UNBIND''), (19, ''ACL''),
     (20, ''REPORT''), (21, ''MKACTIVITY''), (22, ''CHECKOUT''), (23, ''MERGE''), (24, ''M-SEARCH''),
     (25, ''NOTIFY''), (26, ''SUBSCRIBE''), (27, ''UNSUBSCRIBE''), (28, ''PATCH''), (29, ''PURGE''),
     (30, ''MKCALENDAR''), (31, ''LINK''), (32, ''UNLINK''), (33, ''SOURCE'')]"

definition INVALID_METHOD :: HttpMethod where
  "INVALID_METHOD = 34"

definition HTTP_STATUS_MAP :: "(nat \<times> string) list" where
  "HTTP_STATUS_MAP =
    [(100, ''Continue''), (101, ''Switching Protocols''), (102, ''Processing''),
     (200, ''OK''), (201, ''Created''), (202, ''Accepted''),
     (203, ''Non-Authoritative Information''), (204, ''No Content''), (205, ''Reset Content''),
     (206, ''Partial Content''), (207, ''Multi-Status''), (208, ''Already Reported''),
     (226, ''IM Used''), (300, ''Multiple Choices''), (301, ''Moved Permanently''),
     (302, ''Found''), (303, ''See Other''), (304, ''Not Modified''),
     (305, ''Use Proxy''), (307, ''Temporary Redirect''), (308, ''Permanent Redirect''),
     (400, ''Bad Request''), (401, ''Unauthorized''), (402, ''Payment Required''),
     (403, ''Forbidden''), (404, ''Not Found''), (405, ''Method Not Allowed''),
     (406, ''Not Acceptable''), (407, ''Proxy Authentication Required''), (408, ''Request Timeout''),
     (409, ''Conflict''), (410, ''Gone''), (411, ''Length Required''),
     (412, ''Precondition Failed''), (413, ''Payload Too Large''), (414, ''URI Too Long''),
     (415, ''Unsupported Media Type''), (416, ''Range Not Satisfiable''), (417, ''Expectation Failed''),
     (421, ''Misdirected Request''), (422, ''Unprocessable Entity''), (423, ''Locked''),
     (424, ''Failed Dependency''), (426, ''Upgrade Required''), (428, ''Precondition Required''),
     (429, ''Too Many Requests''), (431, ''Request Header Fields Too Large''), (451, ''Unavailable For Legal Reasons''),
     (500, ''Internal Server Error''), (501, ''Not Implemented''), (502, ''Bad Gateway''),
     (503, ''Service Unavailable''), (504, ''Gateway Timeout''), (505, ''HTTP Version Not Supported''),
     (506, ''Variant Also Negotiates''), (507, ''Insufficient Storage''), (508, ''Loop Detected''),
     (510, ''Not Extended''), (511, ''Network Authentication Required'')]"

text \<open>The chains of comparisons that the macros expand to.\<close>

fun first_method :: "(string \<Rightarrow> bool) \<Rightarrow> (nat \<times> string) list \<Rightarrow> HttpMethod" where
  "first_method p [] = INVALID_METHOD"
| "first_method p ((num, s) # ms) = (if p s then num else first_method p ms)"

definition StringToHttpMethod :: "string \<Rightarrow> HttpMethod" where
  "StringToHttpMethod m = first_method (\<lambda>s. s = c_str m) HTTP_METHOD_MAP"

definition CharsToHttpMethod :: "string \<Rightarrow> HttpMethod" where
  "CharsToHttpMethod m = first_method (\<lambda>s. take (length s) (c_str m) = s) HTTP_METHOD_MAP"

definition HttpMethodToString :: "HttpMethod \<Rightarrow> string" where
  "HttpMethodToString m =
     (if m \<ge> length HTTP_METHOD_MAP then ''<unkonwn>'' else map snd HTTP_METHOD_MAP ! m)"

definition HttpStatusToString :: "HttpStatus \<Rightarrow> string" where
  "HttpStatusToString s = (case map_of HTTP_STATUS_MAP s of Some d \<Rightarrow> d | None \<Rightarrow> ''<unknown>'')"

section \<open>Maps with case-insensitive keys\<close>

type_synonym MapType = "(string \<times> string) list"

definition map_get :: "MapType \<Rightarrow> string \<Rightarrow> string \<Rightarrow> string" where
  "map_get m key def = (case map_lookup CaseInsensitiveLess key m of None \<Rightarrow> def | Some v \<Rightarrow> v)"

definition map_set :: "MapType \<Rightarrow> string \<Rightarrow> string \<Rightarrow> MapType" where
  "map_set m key val = map_assign CaseInsensitiveLess key val m"

definition map_del :: "MapType \<Rightarrow> string \<Rightarrow> MapType" where
  "map_del m key = set_erase CaseInsensitiveLess fst key m"

definition map_has :: "MapType \<Rightarrow> string \<Rightarrow> string option" where
  "map_has m key = map_lookup CaseInsensitiveLess key m"

definition checkGetAs :: "(string \<Rightarrow> 't option) \<Rightarrow> MapType \<Rightarrow> string \<Rightarrow> 't \<Rightarrow> bool \<times> 't" where
  "checkGetAs lexical_cast m key def =
     (case map_lookup CaseInsensitiveLess key m of
        None \<Rightarrow> (False, def)
      | Some s \<Rightarrow> (case lexical_cast s of Some v \<Rightarrow> (True, v) | None \<Rightarrow> (False, def)))"

definition getAs :: "(string \<Rightarrow> 't option) \<Rightarrow> MapType \<Rightarrow> string \<Rightarrow> 't \<Rightarrow> 't" where
  "getAs lexical_cast m key def =
     (case map_lookup CaseInsensitiveLess key m of
        None \<Rightarrow> def
      | Some s \<Rightarrow> (case lexical_cast s of Some v \<Rightarrow> v | None \<Rightarrow> def))"

section \<open>Requests\<close>

record HttpRequest =
  rq_method :: HttpMethod
  rq_version :: u8
  rq_close :: bool
  rq_path :: string
  rq_query :: string
  rq_fragment :: string
  rq_body :: string
  rq_headers :: MapType
  rq_params :: MapType
  rq_cookies :: MapType

definition HttpRequest_new :: "u8 \<Rightarrow> bool \<Rightarrow> HttpRequest" where
  "HttpRequest_new version close =
     \<lparr>rq_method = 1, rq_version = version, rq_close = close, rq_path = ''/'', rq_query = [],
      rq_fragment = [], rq_body = [], rq_headers = [], rq_params = [], rq_cookies = []\<rparr>"

definition getHeader :: "HttpRequest \<Rightarrow> string \<Rightarrow> string \<Rightarrow> string" where
  "getHeader r key def = map_get (rq_headers r) key def"
definition getParam :: "HttpRequest \<Rightarrow> string \<Rightarrow> string \<Rightarrow> string" where
  "getParam r key def = map_get (rq_params r) key def"
definition getCookie :: "HttpRequest \<Rightarrow> string \<Rightarrow> string \<Rightarrow> string" where
  "getCookie r key def = map_get (rq_cookies r) key def"
definition setHeader :: "HttpRequest \<Rightarrow> string \<Rightarrow> string \<Rightarrow> HttpRequest" where
  "setHeader r key val = r\<lparr>rq_headers := map_set (rq_headers r) key val\<rparr>"
definition setParam :: "HttpRequest \<Rightarrow> string \<Rightarrow> string \<Rightarrow> HttpRequest" where
  "setParam r key val = r\<lparr>rq_params := map_set (rq_params r) key val\<rparr>"
definition setCookie :: "HttpRequest \<Rightarrow> string \<Rightarrow> string \<Rightarrow> HttpRequest" where
  "setCookie r key val = r\<lparr>rq_cookies := map_set (rq_cookies r) key val\<rparr>"
definition delHeader :: "HttpRequest \<Rightarrow> string \<Rightarrow> HttpRequest" where
  "delHeader r key = r\<lparr>rq_headers := map_del (rq_headers r) key\<rparr>"
definition delParam :: "HttpRequest \<Rightarrow> string \<Rightarrow> HttpRequest" where
  "delParam r key = r\<lparr>rq_params := map_del (rq_params r) key\<rparr>"
definition delCookie :: "HttpRequest \<Rightarrow> string \<Rightarrow> HttpRequest" where
  "delCookie r key = r\<lparr>rq_cookies := map_del (rq_cookies r) key\<rparr>"

text \<open>\<open>has...(key, val)\<close>: the value is written to \<open>*val\<close> when found; \<open>val\<close> is \<open>None\<close> for a null pointer.\<close>

definition store_found :: "string option \<Rightarrow> string option \<Rightarrow> bool \<times> string option" where
  "store_found found val =
     (case found of None \<Rightarrow> (False, val) | Some v \<Rightarrow> (True, if val \<noteq> None then Some v else None))"
definition hasHeader :: "HttpRequest \<Rightarrow> string \<Rightarrow> string option \<Rightarrow> bool \<times> string option" where
  "hasHeader r key val = store_found (map_has (rq_headers r) key) val"
definition hasParam :: "HttpRequest \<Rightarrow> string \<Rightarrow> string option \<Rightarrow> bool \<times> string option" where
  "hasParam r key val = store_found (map_has (rq_params r) key) val"
definition hasCookie :: "HttpRequest \<Rightarrow> string \<Rightarrow> string option \<Rightarrow> bool \<times> string option" where
  "hasCookie r key val = store_found (map_has (rq_cookies r) key) val"

text \<open>The typed accessors \<open>checkGetHeaderAs\<close>, \<open>getHeaderAs\<close> and those of parameters and cookies.\<close>

definition checkGetHeaderAs :: "(string \<Rightarrow> 't option) \<Rightarrow> HttpRequest \<Rightarrow> string \<Rightarrow> 't \<Rightarrow> bool \<times> 't" where
  "checkGetHeaderAs lexical_cast r key def = checkGetAs lexical_cast (rq_headers r) key def"
definition getHeaderAs :: "(string \<Rightarrow> 't option) \<Rightarrow> HttpRequest \<Rightarrow> string \<Rightarrow> 't \<Rightarrow> 't" where
  "getHeaderAs lexical_cast r key def = getAs lexical_cast (rq_headers r) key def"
definition checkGetParamAs :: "(string \<Rightarrow> 't option) \<Rightarrow> HttpRequest \<Rightarrow> string \<Rightarrow> 't \<Rightarrow> bool \<times> 't" where
  "checkGetParamAs lexical_cast r key def = checkGetAs lexical_cast (rq_params r) key def"
definition getParamAs :: "(string \<Rightarrow> 't option) \<Rightarrow> HttpRequest \<Rightarrow> string \<Rightarrow> 't \<Rightarrow> 't" where
  "getParamAs lexical_cast r key def = getAs lexical_cast (rq_params r) key def"
definition checkGetCookieAs :: "(string \<Rightarrow> 't option) \<Rightarrow> HttpRequest \<Rightarrow> string \<Rightarrow> 't \<Rightarrow> bool \<times> 't" where
  "checkGetCookieAs lexical_cast r key def = checkGetAs lexical_cast (rq_cookies r) key def"
definition getCookieAs :: "(string \<Rightarrow> 't option) \<Rightarrow> HttpRequest \<Rightarrow> string \<Rightarrow> 't \<Rightarrow> 't" where
  "getCookieAs lexical_cast r key def = getAs lexical_cast (rq_cookies r) key def"

abbreviation CRLF :: string where "CRLF \<equiv> [CHR 0x0D, CHR 0x0A]"

definition version_string :: "u8 \<Rightarrow> string" where
  "version_string v = nat_to_string (unat (drop_bit 4 v)) @ ''.'' @ nat_to_string (unat (v AND 0x0F))"

definition dump_headers :: "string \<Rightarrow> MapType \<Rightarrow> string" where
  "dump_headers sep hs =
     concat (map (\<lambda>(k, v). if strcasecmp_eq k ''connection'' then [] else k @ sep @ v @ CRLF) hs)"

definition HttpRequest_dump :: "HttpRequest \<Rightarrow> string" where
  "HttpRequest_dump r =
     HttpMethodToString (rq_method r) @ '' '' @ rq_path r @ (if rq_query r = [] then [] else ''?'') @ rq_query r @
     (if rq_fragment r = [] then [] else ''#'') @ rq_fragment r @ '' HTTP/'' @ version_string (rq_version r) @ CRLF @
     ''connection: '' @ (if rq_close r then ''close'' else ''keep-alive'') @ CRLF @
     dump_headers '':'' (rq_headers r) @
     (if rq_body r \<noteq> [] then ''content-length: '' @ nat_to_string (length (rq_body r)) @ CRLF @ CRLF @ rq_body r @ CRLF
      else CRLF)"

section \<open>Responses\<close>

record HttpResponse =
  rs_status :: HttpStatus
  rs_version :: u8
  rs_close :: bool
  rs_body :: string
  rs_reason :: string
  rs_headers :: MapType

definition HttpResponse_new :: "u8 \<Rightarrow> bool \<Rightarrow> HttpResponse" where
  "HttpResponse_new version close =
     \<lparr>rs_status = 200, rs_version = version, rs_close = close, rs_body = [], rs_reason = [], rs_headers = []\<rparr>"

definition resp_getHeader :: "HttpResponse \<Rightarrow> string \<Rightarrow> string \<Rightarrow> string" where
  "resp_getHeader r key def = map_get (rs_headers r) key def"
definition resp_setHeader :: "HttpResponse \<Rightarrow> string \<Rightarrow> string \<Rightarrow> HttpResponse" where
  "resp_setHeader r key val = r\<lparr>rs_headers := map_set (rs_headers r) key val\<rparr>"
definition resp_delHeader :: "HttpResponse \<Rightarrow> string \<Rightarrow> HttpResponse" where
  "resp_delHeader r key = r\<lparr>rs_headers := map_del (rs_headers r) key\<rparr>"

definition resp_checkGetHeaderAs :: "(string \<Rightarrow> 't option) \<Rightarrow> HttpResponse \<Rightarrow> string \<Rightarrow> 't \<Rightarrow> bool \<times> 't" where
  "resp_checkGetHeaderAs lexical_cast r key def = checkGetAs lexical_cast (rs_headers r) key def"
definition resp_getHeaderAs :: "(string \<Rightarrow> 't option) \<Rightarrow> HttpResponse \<Rightarrow> string \<Rightarrow> 't \<Rightarrow> 't" where
  "resp_getHeaderAs lexical_cast r key def = getAs lexical_cast (rs_headers r) key def"

definition HttpResponse_dump :: "HttpResponse \<Rightarrow> string" where
  "HttpResponse_dump r =
     ''HTTP/'' @ version_string (rs_version r) @ '' '' @ nat_to_string (rs_status r) @ '' '' @
     (if rs_reason r = [] then HttpStatusToString (rs_status r) else rs_reason r) @ CRLF @
     dump_headers '': '' (rs_headers r) @
     ''connection: '' @ (if rs_close r then ''close'' else ''keep-alive'') @ CRLF @
     (if rs_body r \<noteq> [] then ''content-length: '' @ nat_to_string (length (rs_body r)) @ CRLF @ CRLF @ rs_body r
      else CRLF)"

section \<open>The comparator\<close>

lemma strcase_less_irrefl: "\<not> strcase_less a a"
  by (induction a) auto

lemma strcase_less_trans: "strcase_less a b \<Longrightarrow> strcase_less b c \<Longrightarrow> strcase_less a c"
proof (induction a b arbitrary: c rule: strcase_less.induct)
  case (4 x xs y ys)
  then show ?case by (cases c) (auto split: if_splits)
qed (auto elim: strcase_less.elims)

lemma strcase_neither: "\<not> strcase_less a b \<and> \<not> strcase_less b a \<longleftrightarrow> map lower a = map lower b"
  by (induction a b rule: strcase_less.induct) auto

lemma strcase_less_cong:
  "map lower a = map lower a' \<Longrightarrow> map lower b = map lower b' \<Longrightarrow> strcase_less a b = strcase_less a' b'"
proof (induction a b arbitrary: a' b' rule: strcase_less.induct)
  case (4 x xs y ys)
  then show ?case by (cases a'; cases b') auto
qed auto

interpretation ci: strict_weak CaseInsensitiveLess
proof unfold_locales
  fix a b c
  show "\<not> CaseInsensitiveLess a a" by (simp add: CaseInsensitiveLess_def strcase_less_irrefl)
  show "CaseInsensitiveLess a b \<Longrightarrow> CaseInsensitiveLess b c \<Longrightarrow> CaseInsensitiveLess a c"
    unfolding CaseInsensitiveLess_def by (rule strcase_less_trans)
  show "\<not> CaseInsensitiveLess a b \<Longrightarrow> \<not> CaseInsensitiveLess b c \<Longrightarrow> \<not> CaseInsensitiveLess a c"
    unfolding CaseInsensitiveLess_def
    by (metis strcase_less_cong strcase_less_trans strcase_neither)
qed

lemma ci_equiv: "ci.equiv a b \<longleftrightarrow> strcasecmp_eq a b"
  by (simp add: ci.equiv_def CaseInsensitiveLess_def strcasecmp_eq_def strcase_neither)

section \<open>Methods\<close>

lemma first_method_unique:
  "(m, s) \<in> set ms \<Longrightarrow> p s \<Longrightarrow> \<forall>(n, t)\<in>set ms. p t \<longrightarrow> n = m \<Longrightarrow> first_method p ms = m"
  by (induction ms) auto

text \<open>No method name is a prefix of another, none contains NUL, and each is at its number.\<close>

lemma method_table:
  "\<forall>(m, s)\<in>set HTTP_METHOD_MAP. \<forall>(n, t)\<in>set HTTP_METHOD_MAP. prefix s t \<longrightarrow> n = m"
  "\<forall>(m, s)\<in>set HTTP_METHOD_MAP. c_str s = s"
  "map fst HTTP_METHOD_MAP = [0..<34]" "length HTTP_METHOD_MAP = 34"
  by code_simp+

lemma method_entry:
  assumes "m < 34"
  shows "(m, HttpMethodToString m) \<in> set HTTP_METHOD_MAP"
proof -
  have l: "length HTTP_METHOD_MAP = 34" by (rule method_table(4))
  have "fst (HTTP_METHOD_MAP ! m) = m"
    using assms method_table(3) by (metis l nth_map nth_upt add_0)
  moreover have "snd (HTTP_METHOD_MAP ! m) = HttpMethodToString m"
    using assms l by (simp add: HttpMethodToString_def)
  ultimately show ?thesis using assms l by (metis nth_mem prod.collapse)
qed

section \<open>Properties\<close>

text \<open>The maps that assignments and erasures build from the empty map.\<close>

inductive built_map :: "MapType \<Rightarrow> bool" where
  built_empty: "built_map []"
| built_set: "built_map m \<Longrightarrow> built_map (map_set m k v)"
| built_del: "built_map m \<Longrightarrow> built_map (map_del m k)"

lemma built_ordered: "built_map m \<Longrightarrow> ci.ordered fst m"
proof (induction rule: built_map.induct)
  case (built_set m k v)
  then show ?case using ci.map_assign_spec [of m k v] by (simp add: map_set_def)
next
  case (built_del m k)
  then show ?case using ci.set_erase_spec [of fst m k] by (simp add: map_del_def)
qed simp

text \<open>
  C26: The header map of a request treats keys that differ only in case (up to a NUL) as one: after
  \<open>setHeader\<close> every spelling of the key gives the new value, after \<open>delHeader\<close> none does, \<open>hasHeader\<close>
  agrees with \<open>getHeader\<close>, and all other headers, the parameters and the cookies are untouched. The
  same holds for parameters, cookies and the headers of a response, which use the same map.
\<close>

theorem header_map_laws:
  assumes "built_map (rq_headers r)"
  shows "getHeader (setHeader r k v) k' d = (if strcasecmp_eq k k' then v else getHeader r k' d) \<and>
     getHeader (delHeader r k) k' d = (if strcasecmp_eq k k' then d else getHeader r k' d) \<and>
     fst (hasHeader (setHeader r k v) k' w) = (strcasecmp_eq k k' \<or> fst (hasHeader r k' w)) \<and>
     fst (hasHeader (delHeader r k) k' w) = (\<not> strcasecmp_eq k k' \<and> fst (hasHeader r k' w)) \<and>
     getParam (setHeader r k v) k' d = getParam r k' d \<and> getCookie (setHeader r k v) k' d = getCookie r k' d \<and>
     built_map (rq_headers (setHeader r k v)) \<and> built_map (rq_headers (delHeader r k))"
proof -
  have o: "ci.ordered fst (rq_headers r)" using assms by (rule built_ordered)
  have s: "map_lookup CaseInsensitiveLess k' (map_set (rq_headers r) k v) =
      (if strcasecmp_eq k k' then Some v else map_lookup CaseInsensitiveLess k' (rq_headers r))"
    using ci.map_assign_spec [OF o, of k v k'] by (simp add: map_set_def ci_equiv)
  have e: "map_lookup CaseInsensitiveLess k' (map_del (rq_headers r) k) =
      (if strcasecmp_eq k k' then None else map_lookup CaseInsensitiveLess k' (rq_headers r))"
    using ci.map_erase_lookup [OF o, of k' k] by (simp add: map_del_def ci_equiv)
  have "built_map (rq_headers (setHeader r k v))" "built_map (rq_headers (delHeader r k))"
    using assms by (simp_all add: setHeader_def delHeader_def built_set built_del)
  then show ?thesis using s e
    by (auto simp: getHeader_def setHeader_def delHeader_def hasHeader_def getParam_def getCookie_def
        map_get_def map_has_def store_found_def split: option.splits)
qed

theorem header_map_laws_witness:
  "getHeader (setHeader (HttpRequest_new 0x11 True) ''Host'' ''a'') ''hOST'' ''b'' = ''a''"
proof -
  have b: "built_map (rq_headers (HttpRequest_new 0x11 True))"
    by (simp add: HttpRequest_new_def built_empty)
  have "strcasecmp_eq ''Host'' ''hOST''" by code_simp
  then show ?thesis using header_map_laws [OF b, of "''Host''" "''a''" "''hOST''" "''b''"] by simp
qed

text \<open>
  Each of the 34 methods is recognised from its name by \<open>StringToHttpMethod\<close> and, whatever follows
  the name, by \<open>CharsToHttpMethod\<close>, which compares only as many characters as the name has; so the
  latter also takes \<open>GETTY\<close> for \<open>GET\<close>. A string that is no method's name is invalid for the former.
\<close>

theorem method_round_trip:
  assumes "m < 34"
  shows "StringToHttpMethod (HttpMethodToString m) = m \<and>
     CharsToHttpMethod (HttpMethodToString m @ rest) = m \<and>
     (x \<notin> snd ` set HTTP_METHOD_MAP \<and> c_str x = x \<longrightarrow> StringToHttpMethod x = INVALID_METHOD)"
proof -
  let ?s = "HttpMethodToString m"
  have e: "(m, ?s) \<in> set HTTP_METHOD_MAP" using assms by (rule method_entry)
  have c: "c_str ?s = ?s" using e method_table(2) by auto
  have uniq: "n = m" if "(n, t) \<in> set HTTP_METHOD_MAP" "prefix t ?s \<or> prefix ?s t" for n t
    using that e method_table(1) by fastforce
  have "StringToHttpMethod ?s = m" unfolding StringToHttpMethod_def c
  proof (rule first_method_unique [OF e])
    show "\<forall>(n, t)\<in>set HTTP_METHOD_MAP. t = ?s \<longrightarrow> n = m"
      using uniq by (metis (mono_tags, lifting) case_prodI2 prefix_order.order_refl)
  qed simp
  moreover have "CharsToHttpMethod (?s @ rest) = m" unfolding CharsToHttpMethod_def c_str_append [OF c]
  proof (rule first_method_unique [OF e])
    show "\<forall>(n, t)\<in>set HTTP_METHOD_MAP. take (length t) (?s @ c_str rest) = t \<longrightarrow> n = m"
    proof (clarify)
      fix n t assume "(n, t) \<in> set HTTP_METHOD_MAP" and t: "take (length t) (?s @ c_str rest) = t"
      moreover have "prefix t (?s @ c_str rest)" using t by (metis take_is_prefix)
      then have "prefix t ?s \<or> prefix ?s t" by (rule prefix_same_cases) simp
      ultimately show "n = m" using uniq by blast
    qed
  qed simp
  moreover have "StringToHttpMethod x = INVALID_METHOD" if "x \<notin> snd ` set HTTP_METHOD_MAP" "c_str x = x"
  proof -
    have "x \<notin> snd ` set ms \<Longrightarrow> first_method (\<lambda>s. s = x) ms = INVALID_METHOD" for ms
      by (induction ms) force+
    then show ?thesis using that by (simp add: StringToHttpMethod_def)
  qed
  ultimately show ?thesis by blast
qed

theorem method_round_trip_witness:
  "StringToHttpMethod ''POST'' = 3 \<and> CharsToHttpMethod ''GETTY'' = 1"
proof -
  have "HttpMethodToString 3 = ''POST''" "HttpMethodToString 1 = ''GET''" by code_simp+
  then show ?thesis using method_round_trip [of 3] method_round_trip [of 1 "''TY''"] by simp
qed

end
