(* ===== verification/Servlet.thy ===== *)
theory Servlet
  imports Http
begin

text \<open>
  The servlets of \<open>mingfwq/http/servlet.h\<close> and \<open>servlet.cpp\<close>: the servlet kinds with their \<open>handle\<close>, and the
  dispatcher that finds a servlet for the path of a request. A \<open>Servlet::ptr\<close> is a \<open>servlet option\<close>, \<open>None\<close>
  the null pointer. Request, response and session are shared objects that \<open>handle\<close> may change: \<open>handle\<close>
  takes their states and returns their new states with the result; the session's state is a type
  parameter. Each dispatcher operation runs under \<open>m_mutex\<close> and is one step. \<open>fnmatch\<close> is a parameter,
  true when the C function returns 0.
\<close>

section \<open>Servlets\<close>

type_synonym 's exchange = "HttpRequest \<times> HttpResponse \<times> 's"
type_synonym 's callback = "'s exchange \<Rightarrow> u32 \<times> 's exchange"

datatype 's servlet =
    FunctionServlet "'s callback"
  | NotFoundServlet
  | UserServlet string "'s callback"   \<comment> \<open>any other subclass: its name and its \<open>handle\<close>\<close>

fun getName :: "'s servlet \<Rightarrow> string" where
  "getName (FunctionServlet cb) = ''FunctionServlet''"
| "getName NotFoundServlet = ''NotFoundServlet''"
| "getName (UserServlet name h) = name"

definition RSP_BODY :: string where
  "RSP_BODY = ''<html><head><title>404 Not Found'' @
     ''</title></head><body><center><h1>404 Not Found</h1></center>'' @
     ''<hr><center>mingfwq/1.0.0</center></body></html>''"

definition NotFoundServlet_handle :: "'s callback" where
  "NotFoundServlet_handle = (\<lambda>(request, response, session).
     let response = response\<lparr>rs_status := 404\<rparr>;
         response = resp_setHeader response ''Server'' ''mingfwq/1.0.0'';
         response = resp_setHeader response ''Content-Type'' ''text/html'';
         response = response\<lparr>rs_body := RSP_BODY\<rparr>
     in (0, request, response, session))"

definition servlet_handle :: "'s servlet \<Rightarrow> 's callback" where
  "servlet_handle slt x =
     (case slt of FunctionServlet cb \<Rightarrow> cb x | NotFoundServlet \<Rightarrow> NotFoundServlet_handle x | UserServlet _ h \<Rightarrow> h x)"

section \<open>The dispatcher\<close>

record 's ServletDispath =
  m_datas :: "string \<rightharpoonup> 's servlet option"
  m_globs :: "(string \<times> 's servlet option) list"
  m_default :: "'s servlet option"

definition ServletDispath_new :: "'s ServletDispath" where
  "ServletDispath_new = \<lparr>m_datas = Map.empty, m_globs = [], m_default = Some NotFoundServlet\<rparr>"

definition addServlet :: "'s ServletDispath \<Rightarrow> string \<Rightarrow> 's servlet option \<Rightarrow> 's ServletDispath" where
  "addServlet d uri slt = d\<lparr>m_datas := (m_datas d)(uri \<mapsto> slt)\<rparr>"

definition addServlet_cb :: "'s ServletDispath \<Rightarrow> string \<Rightarrow> 's callback \<Rightarrow> 's ServletDispath" where
  "addServlet_cb d uri cb = d\<lparr>m_datas := (m_datas d)(uri \<mapsto> Some (FunctionServlet cb))\<rparr>"

text \<open>The loop that erases the first pattern that \<open>fnmatch\<close> matches against \<open>uri\<close>.\<close>

fun erase_glob :: "(string \<Rightarrow> string \<Rightarrow> bool) \<Rightarrow> string \<Rightarrow> (string \<times> 'v) list \<Rightarrow> (string \<times> 'v) list" where
  "erase_glob fnmatch uri [] = []"
| "erase_glob fnmatch uri (g # gs) =
     (if fnmatch (c_str (fst g)) (c_str uri) then gs else g # erase_glob fnmatch uri gs)"

definition addGlobServlet ::
    "(string \<Rightarrow> string \<Rightarrow> bool) \<Rightarrow> 's ServletDispath \<Rightarrow> string \<Rightarrow> 's servlet option \<Rightarrow> 's ServletDispath" where
  "addGlobServlet fnmatch d uri slt = d\<lparr>m_globs := erase_glob fnmatch uri (m_globs d) @ [(uri, slt)]\<rparr>"

definition addGlobServlet_cb ::
    "(string \<Rightarrow> string \<Rightarrow> bool) \<Rightarrow> 's ServletDispath \<Rightarrow> string \<Rightarrow> 's callback \<Rightarrow> 's ServletDispath" where
  "addGlobServlet_cb fnmatch d uri cb = addGlobServlet fnmatch d uri (Some (FunctionServlet cb))"

definition delServlet :: "'s ServletDispath \<Rightarrow> string \<Rightarrow> 's ServletDispath" where
  "delServlet d uri = d\<lparr>m_datas := (m_datas d)(uri := None)\<rparr>"

definition delGlobServlet :: "(string \<Rightarrow> string \<Rightarrow> bool) \<Rightarrow> 's ServletDispath \<Rightarrow> string \<Rightarrow> 's ServletDispath" where
  "delGlobServlet fnmatch d uri = d\<lparr>m_globs := erase_glob fnmatch uri (m_globs d)\<rparr>"

definition setDefault :: "'s ServletDispath \<Rightarrow> 's servlet option \<Rightarrow> 's ServletDispath" where
  "setDefault d v = d\<lparr>m_default := v\<rparr>"

definition getServlet :: "'s ServletDispath \<Rightarrow> string \<Rightarrow> 's servlet option" where
  "getServlet d uri = (case m_datas d uri of None \<Rightarrow> None | Some s \<Rightarrow> s)"

fun find_glob :: "string \<Rightarrow> (string \<times> 'v) list \<Rightarrow> 'v option" where
  "find_glob uri [] = None"
| "find_glob uri (g # gs) = (if uri = fst g then Some (snd g) else find_glob uri gs)"

definition getGlobServlet :: "'s ServletDispath \<Rightarrow> string \<Rightarrow> 's servlet option" where
  "getGlobServlet d uri = (case find_glob uri (m_globs d) of Some s \<Rightarrow> s | None \<Rightarrow> None)"

definition getMatchedServlet :: "'s ServletDispath \<Rightarrow> string \<Rightarrow> 's servlet option" where
  "getMatchedServlet d uri =
     (case m_datas d uri of
        Some s \<Rightarrow> s
      | None \<Rightarrow> (case find_glob uri (m_globs d) of Some s \<Rightarrow> s | None \<Rightarrow> m_default d))"

definition ServletDispath_handle :: "'s ServletDispath \<Rightarrow> 's callback" where
  "ServletDispath_handle d x =
     (case getMatchedServlet d (rq_path (fst x)) of
        Some it \<Rightarrow> (0, snd (servlet_handle it x))
      | None \<Rightarrow> (0, x))"

section \<open>Lemmas\<close>

lemma find_glob_append [simp]:
  "find_glob u (gs @ hs) = (case find_glob u gs of Some s \<Rightarrow> Some s | None \<Rightarrow> find_glob u hs)"
  by (induction gs) auto

lemma find_glob_None_iff: "find_glob u gs = None \<longleftrightarrow> u \<notin> fst ` set gs"
  by (induction gs) auto

lemma erase_glob_subset: "set (erase_glob f u gs) \<subseteq> set gs"
  by (induction gs) auto

lemma erase_glob_first:
  "\<forall>a\<in>set as. \<not> f (c_str (fst a)) (c_str u) \<Longrightarrow> f (c_str (fst g)) (c_str u) \<Longrightarrow>
   erase_glob f u (as @ g # bs) = as @ bs"
  by (induction as) auto

lemma erase_glob_none: "\<forall>g\<in>set gs. \<not> f (c_str (fst g)) (c_str u) \<Longrightarrow> erase_glob f u gs = gs"
  by (induction gs) auto

section \<open>Properties\<close>


text \<open>
  A glob servlet serves only the path that is its pattern, character by character: whatever \<open>fnmatch\<close> says
  of the pattern and a path, a path that is not equal to a registered pattern and has no exact servlet is
  served by the default servlet, although \<open>servlet.h\<close> documents \<open>m_globs\<close> as fuzzy matches of patterns like
  \<open>/mingfwq/*\<close>. Registering a pattern removes the first registered pattern that matches the new one as a
  path, so that a more specific pattern replaces a more general one; all other patterns stay in order.
\<close>

theorem glob_servlets_match_literally:
  fixes d :: "'s ServletDispath" and fnmatch :: "string \<Rightarrow> string \<Rightarrow> bool" and pat :: string
    and s :: "'s servlet option"
  defines "d' \<equiv> addGlobServlet fnmatch d pat s"
  shows "(m_datas d u = None \<and> u \<noteq> pat \<and> u \<notin> fst ` set (m_globs d) \<longrightarrow> getMatchedServlet d' u = m_default d) \<and>
     (m_datas d pat = None \<and> pat \<notin> fst ` set (m_globs d) \<longrightarrow> getMatchedServlet d' pat = s) \<and>
     (\<forall>as g bs. m_globs d = as @ g # bs \<and> (\<forall>a\<in>set as. \<not> fnmatch (c_str (fst a)) (c_str pat)) \<and>
        fnmatch (c_str (fst g)) (c_str pat) \<longrightarrow> m_globs d' = as @ bs @ [(pat, s)]) \<and>
     ((\<forall>g\<in>set (m_globs d). \<not> fnmatch (c_str (fst g)) (c_str pat)) \<longrightarrow> m_globs d' = m_globs d @ [(pat, s)])"
proof (intro conjI impI allI)
  assume *: "m_datas d u = None \<and> u \<noteq> pat \<and> u \<notin> fst ` set (m_globs d)"
  then have "find_glob u (erase_glob fnmatch pat (m_globs d)) = None"
    using erase_glob_subset [of fnmatch pat "m_globs d"] by (auto simp: find_glob_None_iff)
  then show "getMatchedServlet d' u = m_default d"
    using * by (simp add: d'_def getMatchedServlet_def addGlobServlet_def)
next
  assume *: "m_datas d pat = None \<and> pat \<notin> fst ` set (m_globs d)"
  then have "find_glob pat (erase_glob fnmatch pat (m_globs d)) = None"
    using erase_glob_subset [of fnmatch pat "m_globs d"] by (auto simp: find_glob_None_iff)
  then show "getMatchedServlet d' pat = s"
    using * by (simp add: d'_def getMatchedServlet_def addGlobServlet_def)
next
  fix as g bs
  assume *: "m_globs d = as @ g # bs \<and> (\<forall>a\<in>set as. \<not> fnmatch (c_str (fst a)) (c_str pat)) \<and>
        fnmatch (c_str (fst g)) (c_str pat)"
  then have "erase_glob fnmatch pat (as @ g # bs) = as @ bs" by (simp add: erase_glob_first)
  then show "m_globs d' = as @ bs @ [(pat, s)]" using * by (simp add: d'_def addGlobServlet_def)
next
  assume "\<forall>g\<in>set (m_globs d). \<not> fnmatch (c_str (fst g)) (c_str pat)"
  then show "m_globs d' = m_globs d @ [(pat, s)]"
    by (simp add: d'_def addGlobServlet_def erase_glob_none)
qed

theorem glob_servlets_match_literally_witness:
  "getMatchedServlet (addGlobServlet (\<lambda>p u. p = ''/a/*'') (ServletDispath_new :: unit ServletDispath) ''/a/*''
     (Some (UserServlet ''x'' (\<lambda>x. (0, x))))) ''/a/b'' = Some NotFoundServlet"
  using glob_servlets_match_literally [of "ServletDispath_new :: unit ServletDispath" "''/a/b''" "''/a/*''"
      "\<lambda>p u. p = ''/a/*''" "Some (UserServlet ''x'' (\<lambda>x. (0, x)))"]
  by (simp add: ServletDispath_new_def)

end
