(* ===== verification/Ragel.thy ===== *)
theory Ragel
  imports Prelude
begin

text \<open>
  The control flow of the state machines that Ragel generated (option \<open>-G2\<close>) in \<open>http11_parser.rl.cpp\<close>,
  \<open>httpclient_parser.rl.cpp\<close> and \<open>uri.rl.cpp\<close>. The code of a state \<open>case n:\<close> selects a label by the next byte:
  \<open>goto st0\<close> is the error, \<open>goto stm\<close> goes on in the state \<open>m\<close>, and \<open>goto trk\<close> performs actions first. At
  \<open>stm\<close> the pointer \<open>p\<close> moves on and is compared with \<open>pe\<close>. A state is here a function from the byte to the
  transition it selects, and the machine runs a \<open>switch\<close> over the states. An action works on the state
  \<open>'s\<close> of the parser and tells whether it leaves the machine (\<open>goto _out\<close>, or an exception).
\<close>

section \<open>The machine\<close>

text \<open>\<open>None\<close> is the label \<open>st0\<close>.\<close>

type_synonym 'a trans = "('a list \<times> nat) option"

definition goto_st :: "nat \<Rightarrow> 'a trans" where
  "goto_st n = (if n = 0 then None else Some ([], n))"

lemma goto_st_simps [simp]: "goto_st 0 = None" "goto_st (Suc n) = Some ([], Suc n)"
    "goto_st (numeral k) = Some ([], numeral k)" "goto_st 1 = Some ([], 1)"
  by (simp_all add: goto_st_def)

text \<open>The value of a \<open>char\<close>, which is signed.\<close>

definition schar :: "char \<Rightarrow> int" where
  "schar c = (let n = of_char c in if n < 128 then n else n - 256)"

lemma schar_eq_iff [simp]: "schar c = schar d \<longleftrightarrow> c = d"
proof
  assume e: "schar c = schar d"
  have "(of_char c :: int) < 256 \<and> 0 \<le> (of_char c :: int)" for c :: char
    using of_char_mod_256 [of c, where 'a = int] pos_mod_bound [of 256 "of_char c :: int"]
      pos_mod_sign [of 256 "of_char c :: int"] by simp
  from this [of c] this [of d]
  have "of_char c = (of_char d :: int)" using e by (simp add: schar_def Let_def split: if_splits)
  then show "c = d" by simp
qed simp

fun do_actions :: "('a \<Rightarrow> nat \<Rightarrow> 's \<Rightarrow> 's \<times> bool) \<Rightarrow> 'a list \<Rightarrow> nat \<Rightarrow> 's \<Rightarrow> 's \<times> bool" where
  "do_actions act [] p s = (s, False)"
| "do_actions act (a # as) p s = (case act a p s of (s, out) \<Rightarrow> if out then (s, True) else do_actions act as p s)"

text \<open>
  The run from the state \<open>cs\<close> over the bytes from \<open>p\<close> to \<open>pe\<close>: the parser's state, the last state of the machine,
  and the pointer.
\<close>

fun ragel_run :: "(nat \<Rightarrow> int \<Rightarrow> 'a trans) \<Rightarrow> ('a \<Rightarrow> nat \<Rightarrow> 's \<Rightarrow> 's \<times> bool) \<Rightarrow> nat \<Rightarrow> char list \<Rightarrow> nat \<Rightarrow> 's \<Rightarrow> 's \<times> nat \<times> nat" where
  "ragel_run switch act cs [] p s = (s, cs, p)"
| "ragel_run switch act cs (c # w) p s =
     (case switch cs (schar c) of
        None \<Rightarrow> (s, 0, p)
      | Some (as, t) \<Rightarrow>
          (case do_actions act as p s of
             (s, out) \<Rightarrow> if out then (s, t, p + 1) else ragel_run switch act t w (p + 1) s))"

section \<open>Runs\<close>

lemma ragel_run_pointer:
  "ragel_run switch act cs w p s = (s', t, q) \<Longrightarrow> p \<le> q \<and> q \<le> p + length w"
proof (induction w arbitrary: cs p s)
  case (Cons c w)
  then show ?case
    by (auto split: option.splits prod.splits if_splits dest!: Cons.IH)
qed simp

text \<open>A run over two parts goes on from the end of the first part, unless it stopped there.\<close>

definition stays :: "(nat \<Rightarrow> int \<Rightarrow> 'a trans) \<Rightarrow> ('a \<Rightarrow> nat \<Rightarrow> 's \<Rightarrow> 's \<times> bool) \<Rightarrow> nat \<Rightarrow> char list \<Rightarrow> nat \<Rightarrow> 's \<Rightarrow> 's \<Rightarrow> nat \<Rightarrow> bool" where
  "stays switch act cs w p s s' t \<longleftrightarrow>
     (\<forall>v. ragel_run switch act cs (w @ v) p s = ragel_run switch act t v (p + length w) s')"

lemma stays_run: "stays switch act cs w p s s' t \<Longrightarrow> ragel_run switch act cs w p s = (s', t, p + length w)"
  unfolding stays_def by (metis append_Nil2 ragel_run.simps(1))

lemma stays_append_run: "stays switch act cs w p s s' t \<Longrightarrow>
    ragel_run switch act cs (w @ v) p s = ragel_run switch act t v (p + length w) s'"
  by (simp add: stays_def)

lemma stays_Nil [intro]: "stays switch act cs [] p s s cs"
  by (simp add: stays_def)

lemma stays_step:
  assumes "switch cs (schar c) = Some (as, t)" "do_actions act as p s = (s', False)"
  shows "stays switch act cs [c] p s s' t"
  using assms by (simp add: stays_def)

lemma stays_trans:
  assumes "stays switch act cs u p s s' t" "stays switch act t v (p + length u) s' s'' t'"
  shows "stays switch act cs (u @ v) p s s'' t'"
  using assms by (simp add: stays_def add.assoc)

lemma stays_loop:
  assumes "\<And>c. c \<in> set w \<Longrightarrow> switch cs (schar c) = Some ([], cs)"
  shows "stays switch act cs w p s s cs"
  using assms
proof (induction w arbitrary: p)
  case (Cons c w)
  have "stays switch act cs ([c] @ w) p s s cs"
    by (rule stays_trans [OF stays_step]) (use Cons in auto)
  then show ?case by simp
qed auto

text \<open>A word whose first character has a transition to a state that the other characters do not leave.\<close>

lemma stays_segment:
  assumes "w \<noteq> []" "switch a (schar (hd w)) = Some (as, b)" "do_actions act as p s = (s', False)"
    and "\<And>c. c \<in> set (tl w) \<Longrightarrow> switch b (schar c) = Some ([], b)"
  shows "stays switch act a w p s s' b"
proof -
  obtain c v where w: "w = c # v" using assms(1) by (cases w) auto
  have "stays switch act a ([c] @ v) p s s' b"
    by (rule stays_trans [OF stays_step stays_loop]) (use assms w in auto)
  then show ?thesis by (simp add: w)
qed

end
