(* ===== verification/Http_Parser.thy ===== *)
theory Http_Parser
  imports Http Http11_Machine
begin

text \<open>
  The request parser of \<open>mingfwq/http/http_parser.h\<close>, \<open>http_parser.cpp\<close> and \<open>http11_parser.rl.cpp\<close>: the machine that
  Ragel generated, whose states are in the theory Http11_Machine, the code around it, and the callbacks. A machine
  runs over a part of a buffer, calls the callbacks of the parser (the events), moves the parser's marks, and
  ends in a state after a number of bytes. A callback gets a pointer \<open>at\<close> into the buffer and a length; \<open>at\<close> is
  here the list of bytes from there to the buffer's end. The functions around the machine take it as an argument, so
  that their lemmas hold for every machine. \<open>boost::lexical_cast<uint64_t>\<close> is a parameter.
\<close>

section \<open>The generated request parser\<close>

record http_parser =
  cs :: int
  body_start :: nat
  content_len :: int
  nread :: nat
  mark :: nat
  field_start :: nat
  field_len :: nat
  query_start :: nat
  xml_sent :: int
  json_sent :: int
  uri_relaxed :: int

datatype request_event =
    request_method string nat
  | request_uri string nat
  | fragment string nat
  | request_path string nat
  | query_string string nat
  | http_version string nat
  | header_done string nat
  | http_field string nat string nat

text \<open>A run of a machine: its events, the parser with its marks moved, the last state and the bytes consumed.\<close>

type_synonym ('e, 'p) machine = "'p \<Rightarrow> char list \<Rightarrow> nat \<Rightarrow> nat \<Rightarrow> 'e list \<times> 'p \<times> int \<times> nat"

definition http_parser_start :: int where "http_parser_start = 1"
definition http_parser_first_final :: int where "http_parser_first_final = 348"
definition http_parser_error :: int where "http_parser_error = 0"

text \<open>\<open>init\<close> sets all members but \<open>query_start\<close> and \<open>uri_relaxed\<close>.\<close>

definition http_parser_init :: "http_parser \<Rightarrow> http_parser" where
  "http_parser_init p =
     p\<lparr>cs := http_parser_start, body_start := 0, content_len := 0, mark := 0, nread := 0, field_len := 0,
       field_start := 0, xml_sent := 0, json_sent := 0\<rparr>"

text \<open>\<open>LEN(AT, FPC)\<close> is a difference of \<open>size_t\<close>.\<close>

definition LEN :: "nat \<Rightarrow> nat \<Rightarrow> nat" where
  "LEN at p = unat (of_nat p - of_nat at :: 64 word)"

lemma LEN_le: "at \<le> p \<Longrightarrow> p < 2 ^ 64 \<Longrightarrow> LEN at p = p - at"
  by (simp add: LEN_def unat_sub_if' unat_of_nat take_bit_nat_eq_self)

lemma LEN_gt: "p < at \<Longrightarrow> at < 2 ^ 64 \<Longrightarrow> LEN at p = 2 ^ 64 - (at - p)"
  by (simp add: LEN_def unat_sub_if' unat_of_nat take_bit_nat_eq_self word_le_nat_alt)

text \<open>The actions, on the parser and the events so far; \<open>pe\<close> is the end of the part.\<close>

type_synonym http_run = "http_parser \<times> request_event list"

fun do_h_mark :: "char list \<Rightarrow> nat \<Rightarrow> nat \<Rightarrow> http_run \<Rightarrow> http_run \<times> bool" where
  "do_h_mark buffer pe p (r, evs) =
     ((r\<lparr>mark := p\<rparr>, evs), False)"

fun do_h_start_field :: "char list \<Rightarrow> nat \<Rightarrow> nat \<Rightarrow> http_run \<Rightarrow> http_run \<times> bool" where
  "do_h_start_field buffer pe p (r, evs) =
     ((r\<lparr>field_start := p\<rparr>, evs), False)"

fun do_h_write_field :: "char list \<Rightarrow> nat \<Rightarrow> nat \<Rightarrow> http_run \<Rightarrow> http_run \<times> bool" where
  "do_h_write_field buffer pe p (r, evs) =
     ((r\<lparr>field_len := LEN (field_start r) p\<rparr>, evs), False)"

fun do_h_start_value :: "char list \<Rightarrow> nat \<Rightarrow> nat \<Rightarrow> http_run \<Rightarrow> http_run \<times> bool" where
  "do_h_start_value buffer pe p (r, evs) =
     ((r\<lparr>mark := p\<rparr>, evs), False)"

fun do_h_write_value :: "char list \<Rightarrow> nat \<Rightarrow> nat \<Rightarrow> http_run \<Rightarrow> http_run \<times> bool" where
  "do_h_write_value buffer pe p (r, evs) =
     ((r, evs @ [http_field (drop (field_start r) buffer) (field_len r) (drop (mark r) buffer) (LEN (mark r) p)]), False)"

fun do_h_request_method :: "char list \<Rightarrow> nat \<Rightarrow> nat \<Rightarrow> http_run \<Rightarrow> http_run \<times> bool" where
  "do_h_request_method buffer pe p (r, evs) =
     ((r, evs @ [request_method (drop (mark r) buffer) (LEN (mark r) p)]), False)"

fun do_h_request_uri :: "char list \<Rightarrow> nat \<Rightarrow> nat \<Rightarrow> http_run \<Rightarrow> http_run \<times> bool" where
  "do_h_request_uri buffer pe p (r, evs) =
     ((r, evs @ [request_uri (drop (mark r) buffer) (LEN (mark r) p)]), False)"

fun do_h_fragment :: "char list \<Rightarrow> nat \<Rightarrow> nat \<Rightarrow> http_run \<Rightarrow> http_run \<times> bool" where
  "do_h_fragment buffer pe p (r, evs) =
     ((r, evs @ [fragment (drop (mark r) buffer) (LEN (mark r) p)]), False)"

fun do_h_start_query :: "char list \<Rightarrow> nat \<Rightarrow> nat \<Rightarrow> http_run \<Rightarrow> http_run \<times> bool" where
  "do_h_start_query buffer pe p (r, evs) =
     ((r\<lparr>query_start := p\<rparr>, evs), False)"

fun do_h_query_string :: "char list \<Rightarrow> nat \<Rightarrow> nat \<Rightarrow> http_run \<Rightarrow> http_run \<times> bool" where
  "do_h_query_string buffer pe p (r, evs) =
     ((r, evs @ [query_string (drop (query_start r) buffer) (LEN (query_start r) p)]), False)"

fun do_h_http_version :: "char list \<Rightarrow> nat \<Rightarrow> nat \<Rightarrow> http_run \<Rightarrow> http_run \<times> bool" where
  "do_h_http_version buffer pe p (r, evs) =
     ((r, evs @ [http_version (drop (mark r) buffer) (LEN (mark r) p)]), False)"

fun do_h_request_path :: "char list \<Rightarrow> nat \<Rightarrow> nat \<Rightarrow> http_run \<Rightarrow> http_run \<times> bool" where
  "do_h_request_path buffer pe p (r, evs) =
     ((r, evs @ [request_path (drop (mark r) buffer) (LEN (mark r) p)]), False)"

fun do_h_done :: "char list \<Rightarrow> nat \<Rightarrow> nat \<Rightarrow> http_run \<Rightarrow> http_run \<times> bool" where
  "do_h_done buffer pe p (r, evs) =
     (if xml_sent r \<noteq> 0 \<or> json_sent r \<noteq> 0
      then ((r\<lparr>body_start := mark r, content_len := sint (of_nat (LEN (mark r) p + 1) :: 32 word)\<rparr>, evs), True)
      else ((r\<lparr>body_start := p + 1\<rparr>, evs @ [header_done (drop (p + 1) buffer) (pe - p - 1)]), True))"

fun do_h_xml :: "char list \<Rightarrow> nat \<Rightarrow> nat \<Rightarrow> http_run \<Rightarrow> http_run \<times> bool" where
  "do_h_xml buffer pe p (r, evs) =
     ((r\<lparr>xml_sent := 1\<rparr>, evs), False)"

fun do_h_json :: "char list \<Rightarrow> nat \<Rightarrow> nat \<Rightarrow> http_run \<Rightarrow> http_run \<times> bool" where
  "do_h_json buffer pe p (r, evs) =
     ((r\<lparr>json_sent := 1\<rparr>, evs), False)"

primrec http_act :: "char list \<Rightarrow> nat \<Rightarrow> http_action \<Rightarrow> nat \<Rightarrow> http_run \<Rightarrow> http_run \<times> bool" where
  "http_act buffer pe h_mark = do_h_mark buffer pe"
| "http_act buffer pe h_start_field = do_h_start_field buffer pe"
| "http_act buffer pe h_write_field = do_h_write_field buffer pe"
| "http_act buffer pe h_start_value = do_h_start_value buffer pe"
| "http_act buffer pe h_write_value = do_h_write_value buffer pe"
| "http_act buffer pe h_request_method = do_h_request_method buffer pe"
| "http_act buffer pe h_request_uri = do_h_request_uri buffer pe"
| "http_act buffer pe h_fragment = do_h_fragment buffer pe"
| "http_act buffer pe h_start_query = do_h_start_query buffer pe"
| "http_act buffer pe h_query_string = do_h_query_string buffer pe"
| "http_act buffer pe h_http_version = do_h_http_version buffer pe"
| "http_act buffer pe h_request_path = do_h_request_path buffer pe"
| "http_act buffer pe h_done = do_h_done buffer pe"
| "http_act buffer pe h_xml = do_h_xml buffer pe"
| "http_act buffer pe h_json = do_h_json buffer pe"

text \<open>
  The machine. A state that the \<open>switch\<close> does not have, as that of an error, falls through to the first label
  behind the \<open>switch\<close>, which sets the state 2.
\<close>

definition http_machine :: "(request_event, http_parser) machine" where
  "http_machine parser buffer len off =
     (if off < len \<and> \<not> (1 \<le> cs parser \<and> cs parser \<le> 349) then ([], parser, 2, 0)
      else case ragel_run (http_switch (uri_relaxed parser \<noteq> 0)) (http_act buffer len) (nat (cs parser))
             (take (len - off) (drop off buffer)) off (parser, []) of
        ((parser, evs), cs', p) \<Rightarrow> (evs, parser, int cs', p - off))"

definition http_parser_has_error :: "http_parser \<Rightarrow> bool" where
  "http_parser_has_error p \<longleftrightarrow> cs p = http_parser_error"

definition http_parser_is_finished :: "http_parser \<Rightarrow> bool" where
  "http_parser_is_finished p \<longleftrightarrow> cs p \<ge> http_parser_first_final"

definition http_parser_finish :: "http_parser \<Rightarrow> int" where
  "http_parser_finish p =
     (if http_parser_has_error p then - 1 else if http_parser_is_finished p then 1 else 0)"

definition http_parser_execute :: "(request_event, http_parser) machine \<Rightarrow> http_parser \<Rightarrow> char list \<Rightarrow> nat \<Rightarrow> nat \<Rightarrow>
    (request_event list \<times> http_parser \<times> nat) res" where
  "http_parser_execute machine parser buffer len off =
     (if len = 0 then Inr ([], parser, 0)
      else let parser = parser\<lparr>nread := 0, mark := 0, field_len := 0, field_start := 0\<rparr>
      in if \<not> off \<le> len then Inl Assert_failed
      else case machine parser buffer len off of (evs, parser, cs', k) \<Rightarrow>
        if \<not> k \<le> len - off then Inl Assert_failed
        else let parser = (if \<not> http_parser_has_error parser then parser\<lparr>cs := cs'\<rparr> else parser);
                 parser = parser\<lparr>nread := nread parser + k\<rparr>
        in if nread parser \<le> len \<and> body_start parser \<le> len \<and> mark parser < len \<and>
              field_len parser \<le> len \<and> field_start parser < len
           then Inr (evs, parser, nread parser)
           else Inl Assert_failed)"

section \<open>HttpRequestParser\<close>

record HttpRequestParser =
  rp_parser :: http_parser
  rp_data :: HttpRequest
  rp_error :: int

definition rp_setError :: "HttpRequestParser \<Rightarrow> int \<Rightarrow> HttpRequestParser" where
  "rp_setError p v = p\<lparr>rp_error := v\<rparr>"

definition HttpRequestParser_new :: "http_parser \<Rightarrow> HttpRequestParser" where
  "HttpRequestParser_new raw =
     \<lparr>rp_parser = http_parser_init raw, rp_data = HttpRequest_new 0x11 True, rp_error = 0\<rparr>"

text \<open>\<open>std::string(at, n)\<close>: a length above the largest possible one throws \<open>std::length_error\<close>.\<close>

definition std_string :: "string \<Rightarrow> nat \<Rightarrow> string res" where
  "std_string at n =
     (if int n \<ge> 2 ^ 63 - 1 then Inl (Logic_error ''length_error'')
      else if n > length at then Inl Bad_access
      else Inr (take n at))"

lemma std_string_ok [simp]: "n \<le> length at \<Longrightarrow> n < 2 ^ 63 - 1 \<Longrightarrow> std_string at n = Inr (take n at)"
  by (simp add: std_string_def)

definition on_request_method :: "HttpRequestParser \<Rightarrow> string \<Rightarrow> nat \<Rightarrow> HttpRequestParser" where
  "on_request_method parser at n =
     (let m = CharsToHttpMethod at
      in if m = INVALID_METHOD then rp_setError parser 1000
         else parser\<lparr>rp_data := (rp_data parser)\<lparr>rq_method := m\<rparr>\<rparr>)"

definition on_request_fragment :: "HttpRequestParser \<Rightarrow> string \<Rightarrow> nat \<Rightarrow> HttpRequestParser res" where
  "on_request_fragment parser at n =
     bind_res (std_string at n) (\<lambda>v. Inr (parser\<lparr>rp_data := (rp_data parser)\<lparr>rq_fragment := v\<rparr>\<rparr>))"

definition on_request_path :: "HttpRequestParser \<Rightarrow> string \<Rightarrow> nat \<Rightarrow> HttpRequestParser res" where
  "on_request_path parser at n =
     bind_res (std_string at n) (\<lambda>v. Inr (parser\<lparr>rp_data := (rp_data parser)\<lparr>rq_path := v\<rparr>\<rparr>))"

definition on_request_query :: "HttpRequestParser \<Rightarrow> string \<Rightarrow> nat \<Rightarrow> HttpRequestParser res" where
  "on_request_query parser at n =
     bind_res (std_string at n) (\<lambda>v. Inr (parser\<lparr>rp_data := (rp_data parser)\<lparr>rq_query := v\<rparr>\<rparr>))"

text \<open>\<open>strncmp(a, b, n) == 0\<close>: equal up to the first NUL or \<open>n\<close> characters.\<close>

definition strncmp_eq :: "string \<Rightarrow> string \<Rightarrow> nat \<Rightarrow> bool" where
  "strncmp_eq a b n = (take n (c_str a @ [CHR 0x00]) = take n (c_str b @ [CHR 0x00]))"

definition parse_version :: "string \<Rightarrow> nat \<Rightarrow> u8 option" where
  "parse_version at n =
     (if strncmp_eq at ''HTTP/1.1'' n then Some 0x11
      else if strncmp_eq at ''HTTP/1.0'' n then Some 0x10 else None)"

definition on_request_version :: "HttpRequestParser \<Rightarrow> string \<Rightarrow> nat \<Rightarrow> HttpRequestParser" where
  "on_request_version parser at n =
     (let (v, parser) = (case parse_version at n of
             Some v \<Rightarrow> (v, parser) | None \<Rightarrow> (0, rp_setError parser 1001))
      in parser\<lparr>rp_data := (rp_data parser)\<lparr>rq_version := v\<rparr>\<rparr>)"

definition on_request_http_field :: "HttpRequestParser \<Rightarrow> string \<Rightarrow> nat \<Rightarrow> string \<Rightarrow> nat \<Rightarrow> HttpRequestParser res" where
  "on_request_http_field parser field flen value vlen =
     (if flen = 0 then Inr parser
      else bind_res (std_string field flen) (\<lambda>k. bind_res (std_string value vlen) (\<lambda>v.
        Inr (parser\<lparr>rp_data := setHeader (rp_data parser) k v\<rparr>))))"

text \<open>The callbacks that the constructor installs.\<close>

fun on_request :: "HttpRequestParser \<Rightarrow> request_event \<Rightarrow> HttpRequestParser res" where
  "on_request p (request_method at n) = Inr (on_request_method p at n)"
| "on_request p (request_uri at n) = Inr p"
| "on_request p (fragment at n) = on_request_fragment p at n"
| "on_request p (request_path at n) = on_request_path p at n"
| "on_request p (query_string at n) = on_request_query p at n"
| "on_request p (http_version at n) = Inr (on_request_version p at n)"
| "on_request p (header_done at n) = Inr p"
| "on_request p (http_field f fl v vl) = on_request_http_field p f fl v vl"

fun on_requests :: "HttpRequestParser \<Rightarrow> request_event list \<Rightarrow> HttpRequestParser res" where
  "on_requests p [] = Inr p"
| "on_requests p (e # es) = bind_res (on_request p e) (\<lambda>p. on_requests p es)"

definition getContentLength :: "(string \<Rightarrow> u64 option) \<Rightarrow> HttpRequestParser \<Rightarrow> u64" where
  "getContentLength lexical_cast p = getHeaderAs lexical_cast (rp_data p) ''content-length'' 0"

text \<open>\<open>memmove(data, data + src, n)\<close> in a buffer; outside of the buffer it is undefined.\<close>

definition memmove_front :: "char list \<Rightarrow> nat \<Rightarrow> nat \<Rightarrow> char list res" where
  "memmove_front data src n =
     (if src + n \<le> length data then Inr (take n (drop src data) @ drop n data) else Inl Bad_access)"

definition request_execute :: "(request_event, http_parser) machine \<Rightarrow> HttpRequestParser \<Rightarrow> char list \<Rightarrow> nat \<Rightarrow> nat \<Rightarrow>
    (HttpRequestParser \<times> char list \<times> nat) res" where
  "request_execute machine p data len off =
     bind_res (http_parser_execute machine (rp_parser p) data len off) (\<lambda>(evs, parser, offset).
     bind_res (on_requests p evs) (\<lambda>p.
       if offset > len + off then Inl Bad_access
       else bind_res (memmove_front data (off + offset) (len + off - offset)) (\<lambda>data.
         Inr (p\<lparr>rp_parser := parser\<rparr>, data, offset))))"

definition request_isFinished :: "HttpRequestParser \<Rightarrow> int" where
  "request_isFinished p = http_parser_finish (rp_parser p)"

definition request_hasError :: "HttpRequestParser \<Rightarrow> bool" where
  "request_hasError p \<longleftrightarrow> rp_error p \<noteq> 0 \<or> http_parser_has_error (rp_parser p)"

end
