(* ===== verification/Http_Session.thy ===== *)
theory Http_Session
  imports Http_Parser Stream_IO
begin

text \<open>
  \<open>mingfwq/http/http_session.cpp\<close>: receiving a request and sending a response over a socket stream. \<open>read\<close>, \<open>write\<close>
  and \<open>close\<close> are those of the stream; the size of the buffer is a parameter, as is its uninitialised content.
  The receiving loop ends only when the parser finishes or something fails, so it is a partial function.
\<close>

section \<open>recvRequest\<close>

text \<open>The bytes that a call of \<open>read\<close> stores in an array; it is undefined to store beyond its end.\<close>

definition put_bytes :: "char list \<Rightarrow> nat \<Rightarrow> char list \<Rightarrow> char list res" where
  "put_bytes data p bs =
     (if p + length bs \<le> length data then Inr (take p data @ bs @ drop (p + length bs) data) else Inl Bad_access)"

type_synonym 's recv_end = "((HttpRequestParser \<times> char list \<times> nat) option \<times> 's) res"

partial_function (option) recv_loop ::
    "(request_event, http_parser) machine \<Rightarrow> 's reader \<Rightarrow> ('s \<Rightarrow> 's) \<Rightarrow> nat \<Rightarrow> HttpRequestParser \<Rightarrow>
     char list \<Rightarrow> nat \<Rightarrow> 's \<Rightarrow> 's recv_end option" where
  "recv_loop machine read close buff_size parser data offset s =
     (let r = read s (of_nat (buff_size - offset)); len = sint (fst r); s = snd (snd r) in
      if len \<le> 0 then Some (Inr (None, close s))
      else case put_bytes data offset (fst (snd r)) of
        Inl e \<Rightarrow> Some (Inl e)
      | Inr data \<Rightarrow> (case request_execute machine parser data (nat len) offset of
          Inl e \<Rightarrow> Some (Inl e)
        | Inr (parser, data, nparser) \<Rightarrow>
            if request_hasError parser then Some (Inr (None, close s))
            else let offset = nat len - nparser in
              if offset = buff_size then Some (Inr (None, close s))
              else if request_isFinished parser \<noteq> 0 then Some (Inr (Some (parser, data, offset), s))
              else recv_loop machine read close buff_size parser data offset s))"

text \<open>
  The body: \<open>readFixSize(&body[len], length)\<close> sees the body as memory around its position \<open>len\<close>. What it stores
  outside of the body is not followed further.
\<close>

definition as_memory :: "char list \<Rightarrow> nat \<Rightarrow> memory" where
  "as_memory body p = (\<lambda>a. if - int p \<le> a \<and> a < int (length body) - int p then body ! nat (a + int p) else CHR 0x00)"

definition of_memory :: "memory \<Rightarrow> nat \<Rightarrow> nat \<Rightarrow> char list" where
  "of_memory m p n = map (\<lambda>i. m (int i - int p)) [0..<n]"

definition recv_body :: "(string \<Rightarrow> u64 option) \<Rightarrow> 's reader \<Rightarrow> ('s \<Rightarrow> 's) \<Rightarrow> HttpRequestParser \<Rightarrow> char list \<Rightarrow> nat \<Rightarrow> 's \<Rightarrow>
    (HttpRequest option \<times> 's) option" where
  "recv_body lexical_cast read close parser data offset s =
     (let length0 = sint (getContentLength lexical_cast parser) in
      if length0 > 0 then
        let body = replicate (nat length0) CHR 0x00;
            len = (if length0 \<ge> int offset then offset else nat length0);
            body = take len data @ drop len body;
            left = length0 - int offset
        in if left > 0 then
             (case readFixSize read (as_memory body len) (word_of_int left) s of
                None \<Rightarrow> None
              | Some (r, m, s) \<Rightarrow>
                  if sint r \<le> 0 then Some (None, close s)
                  else Some (Some ((rp_data parser)\<lparr>rq_body := of_memory m len (nat length0)\<rparr>), s))
           else Some (Some (rp_data parser), s)
      else Some (Some (rp_data parser), s))"

definition recvRequest :: "(request_event, http_parser) machine \<Rightarrow> (string \<Rightarrow> u64 option) \<Rightarrow> 's reader \<Rightarrow> ('s \<Rightarrow> 's) \<Rightarrow>
    http_parser \<Rightarrow> char list \<Rightarrow> 's \<Rightarrow> ((HttpRequest option \<times> 's) res) option" where
  "recvRequest machine lexical_cast read close raw buffer s =
     (case recv_loop machine read close (length buffer) (HttpRequestParser_new raw) buffer 0 s of
        None \<Rightarrow> None
      | Some (Inl e) \<Rightarrow> Some (Inl e)
      | Some (Inr (None, s)) \<Rightarrow> Some (Inr (None, s))
      | Some (Inr (Some (parser, data, offset), s)) \<Rightarrow>
          map_option Inr (recv_body lexical_cast read close parser data offset s))"

definition sendResponse :: "'s writer \<Rightarrow> HttpResponse \<Rightarrow> 's \<Rightarrow> (u32 \<times> 's) option" where
  "sendResponse write rsp s =
     (let data = HttpResponse_dump rsp in writeFixSize write (as_memory data 0) (of_nat (length data)) s)"

section \<open>Lemmas\<close>

lemma on_request_body: "on_request p e = Inr q \<Longrightarrow> rq_body (rp_data q) = rq_body (rp_data p)"
  by (cases e) (auto simp: on_request_method_def rp_setError_def on_request_fragment_def on_request_path_def
      on_request_query_def on_request_version_def on_request_http_field_def setHeader_def Let_def bind_res_Inr_iff
      split: option.splits if_splits)

lemma on_requests_body: "on_requests p es = Inr q \<Longrightarrow> rq_body (rp_data q) = rq_body (rp_data p)"
  by (induction es arbitrary: p) (auto simp: bind_res_Inr_iff on_request_body)

lemma of_memory_store:
  assumes "p + length bs = length body"
  shows "of_memory (store (as_memory body p) 0 bs) p (length body) = take p body @ bs"
proof (rule nth_equalityI)
  fix i assume "i < length (of_memory (store (as_memory body p) 0 bs) p (length body))"
  then have i: "i < length body" by (simp add: of_memory_def)
  show "of_memory (store (as_memory body p) 0 bs) p (length body) ! i = (take p body @ bs) ! i"
  proof (cases "i < p")
    case True
    then show ?thesis using i by (simp add: of_memory_def store_def as_memory_def nth_append)
  next
    case False
    then have "nat (int i - int p) = i - p" by linarith
    then show ?thesis using False i assms by (simp add: of_memory_def store_def nth_append)
  qed
qed (use assms in \<open>simp add: of_memory_def\<close>)

text \<open>The first round of the loop, when the whole header comes with the first call of \<open>read\<close>.\<close>

lemma recv_loop_first:
  assumes "read s (of_nat (length buffer)) = (len, pkt, s')" "sint len = int (length pkt)"
    and "length pkt \<le> length buffer" "pkt = hdr @ extra" "hdr \<noteq> []"
    and "http_parser_execute machine (http_parser_init raw) (pkt @ drop (length pkt) buffer) (length pkt) 0 =
       Inr (evs, P, length hdr)"
    and "on_requests (HttpRequestParser_new raw) evs = Inr q0" "q = q0\<lparr>rp_parser := P\<rparr>" "\<not> request_hasError q" "request_isFinished q \<noteq> 0"
  shows "\<exists>rest. recv_loop machine read close (length buffer) (HttpRequestParser_new raw) buffer 0 s =
     Some (Inr (Some (q, extra @ rest, length extra), s'))"
proof -
  let ?d = "pkt @ drop (length pkt) buffer"
  have k: "0 < length pkt" "length pkt - length hdr = length extra" "length extra \<noteq> length buffer" "length hdr \<le> length pkt"
    using assms(3-5) by auto
  have "put_bytes buffer 0 pkt = Inr ?d" using assms(3) by (simp add: put_bytes_def)
  moreover have "memmove_front ?d (length hdr) (length extra) = Inr (extra @ drop (length extra) ?d)"
    using assms(3,4) by (simp add: memmove_front_def)
  then have "request_execute machine (HttpRequestParser_new raw) ?d (length pkt) 0 =
     Inr (q, extra @ drop (length extra) ?d, length hdr)"
    using assms(6-8) k by (simp add: request_execute_def HttpRequestParser_new_def del: drop_append)
  ultimately show ?thesis using assms(1,2,9,10) k
    by (intro exI [of _ "drop (length extra) ?d"], subst recv_loop.simps) (simp add: Let_def del: drop_append)
qed

section \<open>Properties\<close>

text \<open>
  The body of a request whose header comes with the first call of \<open>read\<close>, followed by the bytes \<open>extra\<close> of the
  body. When more of the body is to come (content length above the number of bytes of \<open>extra\<close>), and the
  stream delivers it without failing, the request's body is \<open>extra\<close> followed by what is delivered. When
  \<open>extra\<close> already holds the whole body, \<open>recvRequest\<close> returns a request with an empty body: \<open>setBody\<close> is called
  only in the branch that reads more.
\<close>

theorem recvRequest_body:
  assumes "read s (of_nat (length buffer)) = (len, pkt, s')" "sint len = int (length pkt)"
    and "length pkt \<le> length buffer" "pkt = hdr @ extra" "hdr \<noteq> []"
    and "http_parser_execute machine (http_parser_init raw) (pkt @ drop (length pkt) buffer) (length pkt) 0 =
       Inr (evs, P, length hdr)"
    and "on_requests (HttpRequestParser_new raw) evs = Inr q0" "q = q0\<lparr>rp_parser := P\<rparr>" "\<not> request_hasError q" "request_isFinished q \<noteq> 0"
    and "sint (getContentLength lexical_cast q) = int n" "0 < n" "n < 2 ^ 31"
  shows "(n \<le> length extra \<longrightarrow> recvRequest machine lexical_cast read close raw buffer s = Some (Inr (Some (rp_data q), s')) \<and>
        rq_body (rp_data q) = []) \<and>
     (length extra < n \<and> reads_well read \<and> delivered read s' (of_nat (n - length extra)) bs s'' True \<longrightarrow>
        recvRequest machine lexical_cast read close raw buffer s =
          Some (Inr (Some ((rp_data q)\<lparr>rq_body := extra @ bs\<rparr>), s'')))"
proof (intro conjI impI)
  obtain rest where l: "recv_loop machine read close (length buffer) (HttpRequestParser_new raw) buffer 0 s =
     Some (Inr (Some (q, extra @ rest, length extra), s'))" using recv_loop_first [where read = read and s = s, OF assms(1-10)] by blast
  show "rq_body (rp_data q) = []" using on_requests_body [OF assms(7)] assms(8) by (simp add: HttpRequestParser_new_def HttpRequest_new_def)
  show "recvRequest machine lexical_cast read close raw buffer s = Some (Inr (Some (rp_data q), s'))" if "n \<le> length extra"
    using l that assms(11,12) by (simp add: recvRequest_def recv_body_def Let_def)
  assume a: "length extra < n \<and> reads_well read \<and> delivered read s' (of_nat (n - length extra)) bs s'' True"
  then obtain k where n: "n = length extra + k" "0 < k" using less_imp_add_positive by blast
  let ?w = "of_nat k :: u64" let ?b = "extra @ replicate k CHR 0x00"
  have d: "delivered read s' ?w bs s'' True" "reads_well read" using a n(1) by simp_all
  have k: "unat ?w = k" "k < 2 ^ 31" using assms(13) n by (auto simp: unat_of_nat take_bit_nat_eq_self)
  have l': "length bs = k" using delivered_length [OF d] k(1) by simp
  have "readFixSize read (as_memory ?b (length extra)) ?w s' =
      Some (ucast ?w, store (as_memory ?b (length extra)) 0 bs, s'')"
    using fix_loop_delivered [OF d(2,1), of 0 ?w] k by (simp add: readFixSize_def)
  moreover have "0 < sint (ucast ?w :: u32)" using k n by (simp add: sint_u32 uint_ucast32)
  moreover have "of_memory (store (as_memory ?b (length extra)) 0 bs) (length extra) n = extra @ bs"
    using of_memory_store [of "length extra" bs ?b] n(1) l' by simp
  ultimately show "recvRequest machine lexical_cast read close raw buffer s =
      Some (Inr (Some ((rp_data q)\<lparr>rq_body := extra @ bs\<rparr>), s''))"
    using l n assms(11) by (simp add: recvRequest_def recv_body_def Let_def replicate_add nat_int_add)
qed

text \<open>An instance: a client that sends a request with its body at once.\<close>

definition one_packet :: "char list reader" where
  "one_packet s n = (let k = min 100 (min (length s) (unat n)) in (of_nat k, take k s, drop k s))"

definition three :: "string \<Rightarrow> u64 option" where
  "three x = (if x = ''3'' then Some 3 else None)"

definition sample_raw_http :: http_parser where
  "sample_raw_http = \<lparr>cs = 0, body_start = 0, content_len = 0, nread = 0, mark = 0, field_start = 0, field_len = 0,
     query_start = 0, xml_sent = 0, json_sent = 0, uri_relaxed = 0\<rparr>"

definition sample_post :: string where
  "sample_post = ''POST / HTTP/1.1'' @ CRLF @ ''content-length: 3'' @ CRLF @ CRLF"

theorem recvRequest_body_witness:
  "\<exists>rq. recvRequest http_machine three one_packet (\<lambda>s. s) sample_raw_http (replicate 50 (CHR ''x'')) (sample_post @ ''abc'') =
     Some (Inr (Some rq, [])) \<and> rq_body rq = []"
proof -
  let ?b = "replicate 50 (CHR ''x'')" and ?t = "sample_post @ ''abc''"
  have l: "length sample_post = 38" by (simp add: sample_post_def)
  have "case http_parser_execute http_machine (http_parser_init sample_raw_http) (?t @ drop 41 ?b) 41 0 of
      Inl e \<Rightarrow> False
    | Inr (evs, P, k) \<Rightarrow> k = 38 \<and> http_parser_finish P = 1 \<and>
        (case on_requests (HttpRequestParser_new sample_raw_http) evs of
           Inl e \<Rightarrow> False
         | Inr q \<Rightarrow> rp_error q = 0 \<and> getHeaderAs three (rp_data q) ''content-length'' 0 = 3)"
    by code_simp
  then obtain evs P q where 1: "http_parser_execute http_machine (http_parser_init sample_raw_http) (?t @ drop 41 ?b) 41 0 =
        Inr (evs, P, 38)" "http_parser_finish P = 1"
      "on_requests (HttpRequestParser_new sample_raw_http) evs = Inr q" "rp_error q = 0"
      "getHeaderAs three (rp_data q) ''content-length'' 0 = 3"
    by (auto split: sum.splits)
  let ?q = "q\<lparr>rp_parser := P\<rparr>"
  have no: "\<not> http_parser_has_error P" using 1(2) by (auto simp: http_parser_finish_def)
  have e: "one_packet ?t (of_nat (length ?b)) = (41, ?t, [])" using l by (simp add: one_packet_def Let_def)
  have "(3 \<le> length ''abc'' \<longrightarrow> recvRequest http_machine three one_packet (\<lambda>s. s) sample_raw_http ?b ?t =
        Some (Inr (Some (rp_data ?q), [])) \<and> rq_body (rp_data ?q) = []) \<and>
     (length ''abc'' < 3 \<and> reads_well one_packet \<and> delivered one_packet [] (of_nat (3 - length ''abc'')) [] [] True \<longrightarrow>
        recvRequest http_machine three one_packet (\<lambda>s. s) sample_raw_http ?b ?t =
          Some (Inr (Some ((rp_data ?q)\<lparr>rq_body := ''abc'' @ []\<rparr>), [])))"
  proof (rule recvRequest_body [of one_packet ?t ?b 41 ?t "[]" sample_post "''abc''" http_machine
        sample_raw_http evs P q ?q])
    show "http_parser_execute http_machine (http_parser_init sample_raw_http) (?t @ drop (length ?t) ?b) (length ?t) 0 =
        Inr (evs, P, length sample_post)" using 1(1) l by simp
    show "sint (getContentLength three ?q) = int 3" using 1(5) by (simp add: getContentLength_def)
  qed (use 1 no l e in \<open>auto simp: sample_post_def request_hasError_def request_isFinished_def\<close>)
  then show ?thesis by auto
qed

end
