(* ===== verification/Http11_Bounds.thy ===== *)
theory Http11_Bounds
  imports Http_Session
begin

text \<open>
  What holds of every run of the request parser, whatever the bytes are: the state stays one of the machine's, the
  marks stay inside of the part that is parsed, so that no assertion fails, and the callbacks get texts inside of the
  buffer. The last needs an order of the actions, which is checked for all transitions of the machine: the length
  of a field's name is written between its start and its value, and a query is started before it is reported.
\<close>

section \<open>The order of the actions\<close>

text \<open>Two facts, whether the length of the field is known and whether the query has been started, through actions.\<close>

fun http_flow :: "bool \<Rightarrow> bool \<Rightarrow> http_action list \<Rightarrow> (bool \<times> bool) option" where
  "http_flow f q [] = Some (f, q)"
| "http_flow f q (h_start_field # as) = http_flow False q as"
| "http_flow f q (h_write_field # as) = http_flow True q as"
| "http_flow f q (h_start_query # as) = http_flow f True as"
| "http_flow f q (h_write_value # as) = (if f then http_flow f q as else None)"
| "http_flow f q (h_query_string # as) = (if q then http_flow f q as else None)"
| "http_flow f q (_ # as) = http_flow f q as"

text \<open>The states behind the colon of a field, and those inside of a query.\<close>

definition in_value :: "nat \<Rightarrow> bool" where
  "in_value s \<longleftrightarrow> s = 15 \<or> s = 16"

definition in_query :: "nat \<Rightarrow> bool" where
  "in_query s \<longleftrightarrow> 30 \<le> s \<and> s \<le> 32"

definition http_orderly :: "nat \<Rightarrow> http_action trans \<Rightarrow> bool" where
  "http_orderly s tr =
     (case tr of
        None \<Rightarrow> True
      | Some (as, t) \<Rightarrow> 1 \<le> t \<and> t \<le> 349 \<and> (h_done \<in> set as \<longrightarrow> 348 \<le> t) \<and>
          (case http_flow (in_value s) (in_query s) as of
             None \<Rightarrow> False
           | Some (f, q) \<Rightarrow> (in_value t \<longrightarrow> f) \<and> (in_query t \<longrightarrow> q)))"

lemma orderly_if:
  "http_orderly s (if b then x else y) = (if b then http_orderly s x else http_orderly s y)"
  by simp

lemma orderly_None: "http_orderly s None"
  by (simp add: http_orderly_def)

lemma orderly_Some:
  "http_orderly s (Some (as, t)) \<longleftrightarrow> 1 \<le> t \<and> t \<le> 349 \<and> (h_done \<in> set as \<longrightarrow> 348 \<le> t) \<and>
     (case http_flow (in_value s) (in_query s) as of
        None \<Rightarrow> False
      | Some (f, q) \<Rightarrow> (in_value t \<longrightarrow> f) \<and> (in_query t \<longrightarrow> q))"
  by (simp add: http_orderly_def)

lemmas orderly_simps = orderly_if orderly_None orderly_Some Let_def http_tr_defs in_value_def in_query_def

lemma orderly_cases0: "http_orderly s (http_cases0 rel s c)"
  unfolding http_states0 by (simp add: orderly_simps cong: if_cong)

lemma orderly_cases1: "http_orderly s (http_cases1 rel s c)"
  unfolding http_states1 by (simp add: orderly_simps cong: if_cong)

lemma orderly_cases2: "http_orderly s (http_cases2 rel s c)"
  unfolding http_states2 by (simp add: orderly_simps cong: if_cong)

lemma orderly_cases3: "http_orderly s (http_cases3 rel s c)"
  unfolding http_states3 by (simp add: orderly_simps cong: if_cong)

lemma orderly_cases4: "http_orderly s (http_cases4 rel s c)"
  unfolding http_states4 by (simp add: orderly_simps cong: if_cong)

lemma orderly_cases5: "http_orderly s (http_cases5 rel s c)"
  unfolding http_states5 by (simp add: orderly_simps cong: if_cong)

lemma orderly_cases6: "http_orderly s (http_cases6 rel s c)"
  unfolding http_states6 by (simp add: orderly_simps cong: if_cong)

lemma orderly_cases7: "http_orderly s (http_cases7 rel s c)"
  unfolding http_states7 by (simp add: orderly_simps cong: if_cong)

lemma orderly_cases8: "http_orderly s (http_cases8 rel s c)"
  unfolding http_states8 by (simp add: orderly_simps cong: if_cong)

lemma orderly_cases9: "http_orderly s (http_cases9 rel s c)"
  unfolding http_states9 by (simp add: orderly_simps cong: if_cong)

lemma orderly_cases10: "http_orderly s (http_cases10 rel s c)"
  unfolding http_states10 by (simp add: orderly_simps cong: if_cong)

lemma http_switch_orderly: "http_orderly s (http_switch rel s c)"
  unfolding http_switch_def
  by (simp add: orderly_cases0 orderly_cases1 orderly_cases2 orderly_cases3 orderly_cases4 orderly_cases5
      orderly_cases6 orderly_cases7 orderly_cases8 orderly_cases9 orderly_cases10)

section \<open>Marks and texts\<close>

text \<open>A text that a callback gets lies inside of the buffer, so that \<open>std::string(at, n)\<close> can be made.\<close>

definition text_in :: "string \<Rightarrow> nat \<Rightarrow> bool" where
  "text_in at n \<longleftrightarrow> n \<le> length at \<and> n < 2 ^ 63 - 1"

fun event_in :: "request_event \<Rightarrow> bool" where
  "event_in (request_method at n) = text_in at n"
| "event_in (request_uri at n) = text_in at n"
| "event_in (fragment at n) = text_in at n"
| "event_in (request_path at n) = text_in at n"
| "event_in (query_string at n) = text_in at n"
| "event_in (http_version at n) = text_in at n"
| "event_in (header_done at n) = text_in at n"
| "event_in (http_field f fl v vl) = (text_in f fl \<and> text_in v vl)"

definition marks_in :: "nat \<Rightarrow> http_parser \<Rightarrow> bool" where
  "marks_in len r \<longleftrightarrow> mark r < len \<and> field_start r < len \<and> field_len r \<le> len \<and> body_start r \<le> len"

text \<open>What holds at the pointer \<open>p\<close>, with the two facts.\<close>

definition run_ok :: "nat \<Rightarrow> nat \<Rightarrow> bool \<Rightarrow> bool \<Rightarrow> http_run \<Rightarrow> bool" where
  "run_ok len p f q s \<longleftrightarrow> (case s of (r, evs) \<Rightarrow>
     marks_in len r \<and> mark r \<le> p \<and> field_start r \<le> p \<and> (f \<longrightarrow> field_start r + field_len r \<le> p) \<and>
     (q \<longrightarrow> query_start r \<le> p) \<and> list_all event_in evs)"

lemma text_in_mark:
  assumes "m \<le> p" "p \<le> length buffer" "length buffer < 2 ^ 63 - 1"
  shows "text_in (drop m buffer) (LEN m p)"
proof -
  have "LEN m p = p - m" using assms by (simp add: LEN_le)
  moreover have "p - m \<le> length buffer - m" "p - m < 2 ^ 63 - 1" using assms by linarith+
  ultimately show ?thesis by (simp add: text_in_def)
qed

lemma http_flow_Cons:
  "http_flow f q (a # as) = (case http_flow f q [a] of None \<Rightarrow> None | Some (f, q) \<Rightarrow> http_flow f q as)"
  by (cases a) simp_all

lemma http_act_ok:
  assumes "http_flow f q [a] = Some (f', q')" "run_ok len p f q (r, evs)"
    and "p < len" "len \<le> length buffer" "length buffer < 2 ^ 63 - 1"
    and "http_act buffer len a p (r, evs) = ((r', evs'), out)"
  shows "run_ok len p f' q' (r', evs') \<and> (out \<longleftrightarrow> a = h_done) \<and> (a \<noteq> h_done \<longrightarrow> body_start r' = body_start r)"
proof -
  have ok: "marks_in len r" "mark r \<le> p" "field_start r \<le> p" "f \<Longrightarrow> field_start r + field_len r \<le> p"
    "q \<Longrightarrow> query_start r \<le> p" "list_all event_in evs"
    using assms(2) by (auto simp: run_ok_def)
  have t: "text_in (drop m buffer) (LEN m p)" if "m \<le> p" for m
    using text_in_mark [OF that _ assms(5)] assms(3,4) by simp
  have l: "LEN (field_start r) p = p - field_start r" using ok(3) assms(3-5) by (simp add: LEN_le)
  show ?thesis
  proof (cases a)
    case h_write_value
    then have f: f f' "q' = q" using assms(1) by (auto split: if_splits)
    have "field_len r \<le> length buffer - field_start r" "field_len r < 2 ^ 63 - 1"
      using ok(4) [OF f(1)] assms(3-5) by linarith+
    then have "text_in (drop (field_start r) buffer) (field_len r)" by (simp add: text_in_def)
    then show ?thesis using assms(6) h_write_value f ok t by (auto simp: run_ok_def)
  next
    case h_done
    then have "f' = f" "q' = q" using assms(1) by auto
    moreover have "len - p - 1 \<le> length buffer - (p + 1)" "len - p - 1 < 2 ^ 63 - 1" using assms(3-5) by linarith+
    then have "text_in (drop (p + 1) buffer) (len - p - 1)" by (simp add: text_in_def)
    ultimately show ?thesis using assms(3,6) h_done ok by (auto simp: run_ok_def marks_in_def split: if_splits)
  next
    case h_query_string
    then have q: q q' "f' = f" using assms(1) by (auto split: if_splits)
    then show ?thesis using assms(6) h_query_string ok t by (auto simp: run_ok_def)
  qed (use assms(1,3,6) ok t l in \<open>auto simp: run_ok_def marks_in_def\<close>)
qed

lemma do_actions_ok:
  assumes "http_flow f q as = Some (f', q')" "run_ok len p f q s"
    and "p < len" "len \<le> length buffer" "length buffer < 2 ^ 63 - 1"
    and "do_actions (http_act buffer len) as p s = (s', out)"
  shows "run_ok len p (\<not> out \<and> f') (\<not> out \<and> q') s' \<and>
    (out \<longleftrightarrow> h_done \<in> set as) \<and> (body_start (fst s') \<noteq> body_start (fst s) \<longrightarrow> out)"
  using assms(1,2,6)
proof (induction as arbitrary: f q s)
  case (Cons a as)
  obtain r evs r1 evs1 o1 where s: "s = (r, evs)" "http_act buffer len a p (r, evs) = ((r1, evs1), o1)"
    by (metis surj_pair)
  obtain f1 q1 where f: "http_flow f q [a] = Some (f1, q1)" "http_flow f1 q1 as = Some (f', q')"
    using Cons.prems(1) by (subst (asm) http_flow_Cons) (auto split: option.splits)
  have 1: "run_ok len p f1 q1 (r1, evs1)" "o1 \<longleftrightarrow> a = h_done" "a \<noteq> h_done \<longrightarrow> body_start r1 = body_start r"
    using http_act_ok [OF f(1) _ assms(3-5) s(2)] Cons.prems(2) s(1) by auto
  show ?case
  proof (cases o1)
    case True
    then show ?thesis using Cons.prems(3) s 1 by (auto simp: run_ok_def)
  next
    case False
    then show ?thesis using Cons.IH [OF f(2) 1(1)] Cons.prems(3) s 1 by auto
  qed
qed simp

lemma run_ok_mono: "run_ok len p f q s \<Longrightarrow> p \<le> p' \<Longrightarrow> (f' \<Longrightarrow> f) \<Longrightarrow> (q' \<Longrightarrow> q) \<Longrightarrow> run_ok len p' f' q' s"
  by (auto simp: run_ok_def)

text \<open>A whole run, whatever the bytes are.\<close>

lemma http_run_ok:
  assumes "ragel_run (http_switch rel) (http_act buffer len) c w p s = (s', t, e)"
    and "run_ok len p (in_value c) (in_query c) s" "c \<le> 349"
    and "p + length w \<le> len" "len \<le> length buffer" "length buffer < 2 ^ 63 - 1"
  shows "run_ok len e False (in_query t) s' \<and> t \<le> 349 \<and> (t < 348 \<longrightarrow> body_start (fst s') = body_start (fst s))"
  using assms(1-4)
proof (induction w arbitrary: c p s)
  case Nil
  then show ?case by (auto elim: run_ok_mono)
next
  case (Cons x w)
  note ord = http_switch_orderly [of c rel "schar x"]
  show ?case
  proof (cases "http_switch rel c (schar x)")
    case None
    then show ?thesis using Cons.prems by (auto simp: in_query_def elim: run_ok_mono)
  next
    case (Some tr)
    obtain as u where tr: "tr = (as, u)" by fastforce
    obtain s1 out where a: "do_actions (http_act buffer len) as p s = (s1, out)" by fastforce
    have u: "1 \<le> u" "u \<le> 349" "h_done \<in> set as \<Longrightarrow> 348 \<le> u" using ord Some tr by (auto simp: http_orderly_def)
    obtain f q where fl: "http_flow (in_value c) (in_query c) as = Some (f, q)" "in_value u \<longrightarrow> f" "in_query u \<longrightarrow> q"
      using ord Some tr by (auto simp: http_orderly_def split: option.splits)
    have ok: "run_ok len p (\<not> out \<and> f) (\<not> out \<and> q) s1" "out \<longleftrightarrow> h_done \<in> set as"
        "body_start (fst s1) \<noteq> body_start (fst s) \<longrightarrow> out"
      using do_actions_ok [OF fl(1) Cons.prems(2) _ assms(5,6) a] Cons.prems(4) by auto
    show ?thesis
    proof (cases out)
      case True
      then have r: "s' = s1" "t = u" "e = p + 1" using Cons.prems(1) Some tr a by auto
      have "\<not> in_query u" using u(3) ok(2) True by (auto simp: in_query_def)
      then show ?thesis using r ok u True by (auto elim: run_ok_mono)
    next
      case False
      then have "ragel_run (http_switch rel) (http_act buffer len) u w (p + 1) s1 = (s', t, e)"
        using Cons.prems(1) Some tr a by simp
      moreover have "run_ok len (p + 1) (in_value u) (in_query u) s1"
        by (rule run_ok_mono [OF ok(1)]) (use fl False in auto)
      ultimately show ?thesis using Cons.IH [of u "p + 1" s1] u(2) Cons.prems(4) ok(3) False by auto
    qed
  qed
qed

section \<open>The parser\<close>

text \<open>
  What holds of a parser between the packets of a request: the state is one of the machine's or that of an error, and
  the body's start is set when the header is finished.
\<close>

definition parser_ok :: "http_parser \<Rightarrow> bool" where
  "parser_ok r \<longleftrightarrow> 0 \<le> cs r \<and> cs r \<le> 349 \<and> (cs r < http_parser_first_final \<longrightarrow> body_start r = 0)"

lemma on_requests_in: "list_all event_in evs \<Longrightarrow> \<exists>q. on_requests p evs = Inr q \<and> rp_parser q = rp_parser p"
proof (induction evs arbitrary: p)
  case (Cons e evs)
  have "\<exists>q. on_request p e = Inr q \<and> rp_parser q = rp_parser p"
    using Cons.prems by (cases e) (auto simp: on_request_method_def rp_setError_def on_request_fragment_def on_request_path_def
      on_request_query_def on_request_version_def on_request_http_field_def text_in_def Let_def split: option.splits)
  then obtain q where q: "on_request p e = Inr q" "rp_parser q = rp_parser p" by blast
  obtain z where "on_requests q evs = Inr z" "rp_parser z = rp_parser q" using Cons.IH [of q] Cons.prems by auto
  then show ?case using q by auto
qed simp

lemma http_machine_ok:
  assumes "parser_ok r" "cs r < http_parser_first_final" "mark r = 0" "field_start r = 0" "field_len r = 0"
    and "0 < len" "off \<le> len" "len \<le> length buffer" "length buffer < 2 ^ 63 - 1"
    and "in_query (nat (cs r)) \<Longrightarrow> query_start r \<le> off"
    and "http_machine r buffer len off = (evs, r', t, k)"
  shows "marks_in len r' \<and> k \<le> len - off \<and> 0 \<le> t \<and> t \<le> 349 \<and> list_all event_in evs \<and>
    (in_query (nat t) \<longrightarrow> query_start r' \<le> off + k) \<and> (t < 348 \<longrightarrow> body_start r' = 0)"
proof (cases "off < len \<and> \<not> (1 \<le> cs r \<and> cs r \<le> 349)")
  case True
  then show ?thesis using assms by (auto simp: http_machine_def marks_in_def parser_ok_def in_query_def)
next
  case False
  let ?w = "take (len - off) (drop off buffer)"
  obtain s' u e where e: "ragel_run (http_switch (uri_relaxed r \<noteq> 0)) (http_act buffer len) (nat (cs r)) ?w off (r, []) = (s', u, e)"
    by (metis surj_pair)
  obtain r1 evs1 where s': "s' = (r1, evs1)" by fastforce
  have l: "length ?w = len - off" using assms(7,8) by simp
  have p: "off \<le> e" "e \<le> len" using ragel_run_pointer [OF e] l assms(7) by auto
  have "run_ok len off (in_value (nat (cs r))) (in_query (nat (cs r))) (r, [])"
    using assms(1-6,10) by (auto simp: run_ok_def marks_in_def parser_ok_def)
  from http_run_ok [OF e this] have "run_ok len e False (in_query u) s'" "u \<le> 349" "u < 348 \<longrightarrow> body_start r1 = body_start r"
    using assms(1,7-9) l s' by (auto simp: parser_ok_def)
  moreover have "evs = evs1" "r' = r1" "t = int u" "k = e - off" using assms(11) e s' False by (auto simp: http_machine_def)
  ultimately show ?thesis using p s' assms(1,2) by (auto simp: run_ok_def parser_ok_def)
qed

text \<open>The machine works on a copy of the state, and the count of bytes is kept by the code around it.\<close>

lemma http_act_frame: "http_act buffer len a p (r, evs) = ((r', evs'), out) \<Longrightarrow> cs r' = cs r \<and> nread r' = nread r"
  by (cases a) (auto split: if_splits)

lemma do_actions_frame: "do_actions (http_act buffer len) as p s = (s', out) \<Longrightarrow> cs (fst s') = cs (fst s) \<and> nread (fst s') = nread (fst s)"
proof (induction as arbitrary: s)
  case (Cons a as)
  obtain r evs r1 evs1 o1 where s: "s = (r, evs)" "http_act buffer len a p (r, evs) = ((r1, evs1), o1)"
    by (metis surj_pair)
  then show ?case using Cons.prems Cons.IH [of "(r1, evs1)"] http_act_frame [OF s(2)] by (auto split: if_splits)
qed simp

lemma http_run_frame: "ragel_run sw (http_act buffer len) c w p s = (s', t, e) \<Longrightarrow> cs (fst s') = cs (fst s) \<and> nread (fst s') = nread (fst s)"
proof (induction w arbitrary: c p s)
  case (Cons x w)
  show ?case
  proof (cases "sw c (schar x)")
    case (Some tr)
    obtain as u s1 out where a: "tr = (as, u)" "do_actions (http_act buffer len) as p s = (s1, out)" by (metis surj_pair)
    then show ?thesis using Cons.prems Some Cons.IH [of u "p + 1" s1] do_actions_frame [OF a(2)] by (auto split: if_splits)
  qed (use Cons.prems in simp)
qed simp

lemma http_machine_frame: "http_machine r buffer len off = (evs, r', t, k) \<Longrightarrow> cs r' = cs r \<and> nread r' = nread r"
  by (auto simp: http_machine_def split: prod.splits if_splits dest!: http_run_frame)

text \<open>
  C15: The parser of a request is well-typed. Between packets its state is one of the machine's states or the error, and the
  start of the body is set exactly when the header is finished. Whatever bytes a packet has, \<open>execute\<close> on a parser
  that is not finished keeps this, fails no assertion, gives every callback a text inside of the buffer, and returns with
  the buffer as long as before; the only exception is a parser that was left inside of a query.
\<close>

theorem request_execute_type:
  assumes "parser_ok (rp_parser p)" "cs (rp_parser p) < http_parser_first_final" "\<not> in_query (nat (cs (rp_parser p)))"
    and "len \<le> length data" "length data < 2 ^ 63 - 1"
  shows "\<exists>q data' k. request_execute http_machine p data len 0 = Inr (q, data', k) \<and> k \<le> len \<and>
    length data' = length data \<and> parser_ok (rp_parser q)"
proof (cases "len = 0")
  case True
  then show ?thesis using assms(1) by (simp add: request_execute_def http_parser_execute_def memmove_front_def)
next
  case False
  let ?r = "(rp_parser p)\<lparr>nread := 0, mark := 0, field_len := 0, field_start := 0\<rparr>"
  obtain evs r t k where m: "http_machine ?r data len 0 = (evs, r, t, k)" by (metis surj_pair)
  have c: "cs r = cs (rp_parser p)" using http_machine_frame [OF m] by simp
  have ok: "marks_in len r" "k \<le> len" "0 \<le> t" "t \<le> 349" "list_all event_in evs" "t < 348 \<longrightarrow> body_start r = 0"
    using http_machine_ok [OF _ _ _ _ _ _ _ assms(4,5) _ m] assms(1-3) False by (auto simp: parser_ok_def)
  obtain q where q: "on_requests p evs = Inr q" using on_requests_in [OF ok(5)] by blast
  let ?f = "(if \<not> http_parser_has_error r then r\<lparr>cs := t\<rparr> else r)\<lparr>nread := k\<rparr>"
  have n: "nread (if \<not> http_parser_has_error r then r\<lparr>cs := t\<rparr> else r) = 0" using http_machine_frame [OF m] by simp
  have "http_parser_execute http_machine (rp_parser p) data len 0 = Inr (evs, ?f, k)"
    using False m n ok(1,2) by (simp add: http_parser_execute_def marks_in_def Let_def)
  then have "request_execute http_machine p data len 0 =
      Inr (q\<lparr>rp_parser := ?f\<rparr>, take (len - k) (drop k data) @ drop (len - k) data, k)"
    using q ok(2) assms(4) by (simp add: request_execute_def memmove_front_def)
  moreover have "cs (rp_parser p) = 0 \<Longrightarrow> body_start r = body_start (rp_parser p)" using m False by (auto simp: http_machine_def)
  then have "parser_ok ?f"
    using ok c assms(1,2) by (auto simp: parser_ok_def http_parser_has_error_def http_parser_error_def
        http_parser_first_final_def split: if_splits)
  ultimately show ?thesis using ok(2) assms(4) by auto
qed

theorem request_execute_type_witness:
  "\<exists>q data' k. request_execute http_machine (HttpRequestParser_new sample_raw_http) (''GET /x'' @ CRLF @ ''abc'') 8 0 =
      Inr (q, data', k) \<and> k \<le> 8 \<and> length data' = 11 \<and> parser_ok (rp_parser q)"
proof -
  let ?t = "''GET /x'' @ CRLF @ ''abc''" and ?p = "HttpRequestParser_new sample_raw_http"
  have l: "length ?t = 11" by simp
  have "parser_ok (rp_parser ?p)" "cs (rp_parser ?p) < http_parser_first_final" "\<not> in_query (nat (cs (rp_parser ?p)))"
    by (simp_all add: HttpRequestParser_new_def http_parser_init_def parser_ok_def in_query_def http_parser_start_def
        http_parser_first_final_def)
  from request_execute_type [OF this, of 8 ?t] show ?thesis unfolding l by simp
qed

end
