(* ===== verification/Http11_Text.thy ===== *)
theory Http11_Text
  imports Http11_Bounds
begin

text \<open>
  What the request parser makes of a text. A request line and headers are followed through the states of the machine
  in segments; each segment ends in a known state and has called callbacks whose joint effect on the request is
  known.
\<close>

section \<open>Character classes\<close>

definition method_char :: "char \<Rightarrow> bool" where
  "method_char c = (let x = schar c in 48 \<le> x \<and> x \<le> 57 \<or> 65 \<le> x \<and> x \<le> 90)"

text \<open>The characters of a path segment that need no encoding.\<close>

definition segment_char :: "char \<Rightarrow> bool" where
  "segment_char c = (let x = schar c in
     x = 33 \<or> x = 36 \<or> 38 \<le> x \<and> x \<le> 46 \<or> 48 \<le> x \<and> x \<le> 59 \<or> x = 61 \<or> 64 \<le> x \<and> x \<le> 90 \<or> x = 95 \<or>
     97 \<le> x \<and> x \<le> 122 \<or> x = 126)"

definition target_char :: "char \<Rightarrow> bool" where
  "target_char c \<longleftrightarrow> segment_char c \<or> schar c = 47"

definition args_char :: "char \<Rightarrow> bool" where
  "args_char c \<longleftrightarrow> target_char c \<or> schar c = 63"

definition field_char :: "char \<Rightarrow> bool" where
  "field_char c = (let x = schar c in
     x = 33 \<or> 35 \<le> x \<and> x \<le> 39 \<or> x = 42 \<or> x = 43 \<or> x = 45 \<or> x = 46 \<or> 48 \<le> x \<and> x \<le> 57 \<or> 65 \<le> x \<and> x \<le> 90 \<or>
     94 \<le> x \<and> x \<le> 122 \<or> x = 124 \<or> x = 126)"

definition value_start :: "char \<Rightarrow> bool" where
  "value_start c = (let x = schar c in 33 \<le> x \<and> x \<le> 126 \<or> x < 0)"

definition value_char :: "char \<Rightarrow> bool" where
  "value_char c \<longleftrightarrow> value_start c \<or> schar c = 32 \<or> schar c = 9"

lemmas http_char_defs = value_char_def value_start_def field_char_def args_char_def target_char_def segment_char_def
  method_char_def

section \<open>States\<close>

lemma http_switch_at:
  "http_switch rel 1 = http_st1 rel" "http_switch rel 3 = http_st3 rel" "http_switch rel 4 = http_st4 rel"
  "http_switch rel 5 = http_st5 rel" "http_switch rel 6 = http_st6 rel" "http_switch rel 7 = http_st7 rel"
  "http_switch rel 8 = http_st8 rel" "http_switch rel 9 = http_st9 rel" "http_switch rel 10 = http_st10 rel"
  "http_switch rel 11 = http_st11 rel" "http_switch rel 12 = http_st12 rel" "http_switch rel 13 = http_st13 rel"
  "http_switch rel 14 = http_st14 rel" "http_switch rel 15 = http_st15 rel" "http_switch rel 16 = http_st16 rel"
  "http_switch rel 17 = http_st17 rel" "http_switch rel 18 = http_st18 rel" "http_switch rel 20 = http_st20 rel"
  "http_switch rel 21 = http_st21 rel" "http_switch rel 26 = http_st26 rel" "http_switch rel 29 = http_st29 rel"
  "http_switch rel 30 = http_st30 rel" "http_switch rel 33 = http_st33 rel"
  by (simp_all add: fun_eq_iff http_switch_def http_cases0_def http_cases1_def)

lemma schar_http_delims:
  "schar CHR '' '' = 32" "schar CHR ''/'' = 47" "schar CHR ''?'' = 63" "schar CHR ''#'' = 35" "schar CHR '':'' = 58"
  "schar CHR 0x0D = 13" "schar CHR 0x0A = 10" "schar CHR ''H'' = 72" "schar CHR ''T'' = 84" "schar CHR ''P'' = 80"
  "schar CHR ''.'' = 46" "schar CHR ''0'' = 48" "schar CHR ''1'' = 49"
  by (simp_all add: schar_def)

lemma http_loops:
  "target_char c \<Longrightarrow> http_st26 rel (schar c) = Some ([], 26)"
  "args_char c \<Longrightarrow> http_st30 rel (schar c) = Some ([], 30)"
  "args_char c \<Longrightarrow> http_st21 rel (schar c) = Some ([], 21)"
  "field_char c \<Longrightarrow> http_st14 rel (schar c) = Some ([], 14)"
  "value_char c \<Longrightarrow> http_st16 rel (schar c) = Some ([], 16)"
  unfolding http_char_defs Let_def http_st26_def http_st30_def http_st21_def http_st14_def http_st16_def
  by (((elim disjE; simp add: widec_def) | simp add: widec_def))+

lemma http_starts:
  "segment_char c \<Longrightarrow> http_st33 rel (schar c) = Some ([], 26)"
  "args_char c \<Longrightarrow> http_st29 rel (schar c) = Some ([h_start_query], 30)"
  "args_char c \<Longrightarrow> http_st20 rel (schar c) = Some ([h_mark], 21)"
  "field_char c \<Longrightarrow> http_st13 rel (schar c) = Some ([h_start_field], 14)"
  "value_start c \<Longrightarrow> http_st15 rel (schar c) = Some ([h_start_value], 16)"
  unfolding http_char_defs Let_def http_st33_def http_st29_def http_st20_def http_st13_def http_st15_def http_tr_defs
  by (((elim disjE; simp add: widec_def) | simp add: widec_def))+

section \<open>Steps and what they do to the request\<close>

text \<open>
  The machine goes from the state \<open>a\<close> over \<open>w\<close> to the state \<open>b\<close>, changes the parser from \<open>R\<close> to \<open>R'\<close>, and the
  callbacks that it makes change the request by \<open>f\<close>.
\<close>

definition http_steps :: "bool \<Rightarrow> char list \<Rightarrow> nat \<Rightarrow> nat \<Rightarrow> string \<Rightarrow> nat \<Rightarrow> http_parser \<Rightarrow> nat \<Rightarrow> http_parser \<Rightarrow>
    (HttpRequest \<Rightarrow> HttpRequest) \<Rightarrow> bool" where
  "http_steps rel buffer pe a w p R b R' f \<longleftrightarrow>
     (\<exists>es. (\<forall>E. stays (http_switch rel) (http_act buffer pe) a w p (R, E) (R', E @ es) b) \<and>
        (\<forall>P. on_requests P es = Inr (P\<lparr>rp_data := f (rp_data P)\<rparr>)))"

lemma on_requests_append:
  "on_requests P (es @ fs) = bind_res (on_requests P es) (\<lambda>P. on_requests P fs)"
  by (induction es arbitrary: P) (auto simp: bind_res_def split: sum.splits)

lemma http_steps_trans:
  assumes "http_steps rel buffer pe a u p R b R1 f" "http_steps rel buffer pe b v (p + length u) R1 c R2 g"
  shows "http_steps rel buffer pe a (u @ v) p R c R2 (g \<circ> f)"
proof -
  obtain es where e: "\<And>E. stays (http_switch rel) (http_act buffer pe) a u p (R, E) (R1, E @ es) b"
    "\<And>P. on_requests P es = Inr (P\<lparr>rp_data := f (rp_data P)\<rparr>)" using assms(1) by (auto simp: http_steps_def)
  obtain fs where f: "\<And>E. stays (http_switch rel) (http_act buffer pe) b v (p + length u) (R1, E) (R2, E @ fs) c"
    "\<And>P. on_requests P fs = Inr (P\<lparr>rp_data := g (rp_data P)\<rparr>)" using assms(2) by (auto simp: http_steps_def)
  show ?thesis unfolding http_steps_def
    by (intro exI [of _ "es @ fs"] conjI allI)
      (use stays_trans [OF e(1) f(1)] e(2) f(2) in \<open>simp_all add: on_requests_append\<close>)
qed

text \<open>One character whose actions call no callback.\<close>

lemma http_step_quiet:
  assumes "http_switch rel a (schar c) = Some (as, b)"
    and "\<And>E. do_actions (http_act buffer pe) as p (R, E) = ((R', E), False)"
  shows "http_steps rel buffer pe a [c] p R b R' id"
  unfolding http_steps_def
  by (intro exI [of _ "[]"] conjI allI; simp; rule stays_step; rule assms)

lemma http_step_loop:
  assumes "\<And>c. c \<in> set w \<Longrightarrow> http_switch rel a (schar c) = Some ([], a)"
  shows "http_steps rel buffer pe a w p R a R id"
  unfolding http_steps_def
  by (intro exI [of _ "[]"] conjI allI; simp; rule stays_loop; rule assms)

lemma http_step_word:
  assumes "w \<noteq> []" "http_switch rel a (schar (hd w)) = Some (as, b)"
    and "\<And>E. do_actions (http_act buffer pe) as p (R, E) = ((R', E), False)"
    and "\<And>c. c \<in> set (tl w) \<Longrightarrow> http_switch rel b (schar c) = Some ([], b)"
  shows "http_steps rel buffer pe a w p R b R' id"
  unfolding http_steps_def
  by (intro exI [of _ "[]"] conjI allI; simp; rule stays_segment; rule assms)

text \<open>One character with callbacks.\<close>

lemma http_step_calls:
  assumes "http_switch rel a (schar c) = Some (as, b)"
    and "\<And>E. do_actions (http_act buffer pe) as p (R, E) = ((R', E @ es), False)"
    and "\<And>P. on_requests P es = Inr (P\<lparr>rp_data := f (rp_data P)\<rparr>)"
  shows "http_steps rel buffer pe a [c] p R b R' f"
  unfolding http_steps_def
  by (intro exI [of _ es] conjI allI assms(3); rule stays_step; rule assms)

text \<open>The text between a mark and the pointer, as a callback gets it.\<close>

lemma callback_text:
  assumes "drop m buffer = w @ r" "m \<le> p" "p = m + length w" "length buffer < 2 ^ 63 - 1" "m \<le> length buffer"
  shows "std_string (drop m buffer) (LEN m p) = Inr w"
proof -
  have "length (drop m buffer) = length w + length r" using assms(1) by simp
  then have "p \<le> length buffer" using assms(3,5) by simp
  then have "LEN m p = length w" using assms(2-4) by (simp add: LEN_le)
  then show ?thesis using assms(1,4) \<open>p \<le> length buffer\<close> assms(3) by simp
qed

section \<open>The request line\<close>

lemma http_method_states:
  "method_char c \<Longrightarrow> http_switch rel 1 (schar c) = Some ([h_mark], 2)"
  "method_char c \<Longrightarrow> http_switch rel 2 (schar c) = Some ([], 175)"
  "method_char c \<Longrightarrow> n \<in> {175..<193} \<Longrightarrow> http_switch rel n (schar c) = Some ([], n + 1)"
  "n \<in> insert 2 {175..<194} \<Longrightarrow> http_switch rel n 32 = Some ([h_request_method], 3)"
proof -
  have n: "{175..<193} = {175, 176, 177, 178, 179, 180, 181, 182, 183, 184, 185, 186, 187, 188, 189, 190, 191, 192 :: nat}"
    "{175..<194} = insert 193 {175..<193 :: nat}" by (rule set_eqI; simp; presburger)+
  note sw = http_switch_def http_cases0_def http_cases5_def http_cases6_def http_tr_defs
  show "method_char c \<Longrightarrow> http_switch rel 1 (schar c) = Some ([h_mark], 2)"
    "method_char c \<Longrightarrow> http_switch rel 2 (schar c) = Some ([], 175)"
    unfolding method_char_def Let_def by (elim disjE; simp add: sw http_st1_def http_st2_def)+
  note st = http_st175_def http_st176_def http_st177_def http_st178_def http_st179_def http_st180_def http_st181_def
    http_st182_def http_st183_def http_st184_def http_st185_def http_st186_def http_st187_def http_st188_def
    http_st189_def http_st190_def http_st191_def http_st192_def http_st193_def http_st2_def
  show "method_char c \<Longrightarrow> n \<in> {175..<193} \<Longrightarrow> http_switch rel n (schar c) = Some ([], n + 1)"
    unfolding n method_char_def Let_def insert_iff empty_iff by (elim disjE; simp add: sw st)
  show "n \<in> insert 2 {175..<194} \<Longrightarrow> http_switch rel n 32 = Some ([h_request_method], 3)"
    unfolding n insert_iff empty_iff by (elim disjE; simp add: sw st)
qed

text \<open>The facts about the buffer that every segment with a callback needs.\<close>

definition buffer_at :: "char list \<Rightarrow> nat \<Rightarrow> string \<Rightarrow> bool" where
  "buffer_at buffer m w \<longleftrightarrow> length buffer < 2 ^ 63 - 1 \<and> m \<le> length buffer \<and> (\<exists>r. drop m buffer = w @ r)"

lemma buffer_at_append: "buffer_at buffer m (u @ v) \<Longrightarrow> buffer_at buffer m u \<and> buffer_at buffer (m + length u) v"
proof -
  assume a: "buffer_at buffer m (u @ v)"
  then obtain r where r: "drop m buffer = u @ v @ r" by (auto simp: buffer_at_def)
  then have l: "length buffer - m = length u + length v + length r" by (metis add.assoc length_append length_drop)
  moreover have "drop (m + length u) buffer = v @ r"
    using r by (metis add.commute append_eq_conv_conj drop_drop)
  ultimately show ?thesis using a r by (auto simp: buffer_at_def)
qed

lemma buffer_text:
  assumes "buffer_at buffer m w"
  shows "std_string (drop m buffer) (LEN m (m + length w)) = Inr w"
  using assms callback_text [of m buffer w _ "m + length w"] by (auto simp: buffer_at_def)

lemma LEN_add: "buffer_at buffer m w \<Longrightarrow> LEN m (m + length w) = length w"
proof -
  assume a: "buffer_at buffer m w"
  then obtain r where "drop m buffer = w @ r" by (auto simp: buffer_at_def)
  then have "m + length w \<le> length buffer" using a
    by (metis buffer_at_def add_le_cancel_left le_add1 le_add_diff_inverse length_append length_drop)
  then show ?thesis using a by (simp add: buffer_at_def LEN_le)
qed

fun method_state :: "nat \<Rightarrow> nat" where
  "method_state k = (if k = 1 then 2 else 173 + k)"

lemma method_word:
  assumes "w \<noteq> []" "list_all method_char w" "length w \<le> 20"
  shows "http_steps rel buffer pe 1 w p R (method_state (length w)) (R\<lparr>mark := p\<rparr>) id"
  using assms
proof (induction w rule: rev_nonempty_induct)
  case (single c)
  have "http_steps rel buffer pe 1 [c] p R 2 (R\<lparr>mark := p\<rparr>) id"
    by (rule http_step_quiet [where as = "[h_mark]"]) (use single in \<open>simp_all add: http_method_states(1) del: One_nat_def\<close>)
  then show ?case by (simp add: id_def)
next
  case (snoc c w)
  have l: "0 < length w" "length w \<le> 19" using snoc by auto
  then have "length w = 1 \<or> 2 \<le> length w" by linarith
  have "http_steps rel buffer pe (method_state (length w)) [c] (p + length w) (R\<lparr>mark := p\<rparr>)
      (method_state (length (w @ [c]))) (R\<lparr>mark := p\<rparr>) id"
  proof (rule http_step_quiet [where as = "[]"])
    show "http_switch rel (method_state (length w)) (schar c) = Some ([], method_state (length (w @ [c])))"
      using snoc.prems l \<open>length w = 1 \<or> 2 \<le> length w\<close> http_method_states(3) [of c "173 + length w" rel] by (auto simp: http_method_states(2))
  qed simp
  moreover have "http_steps rel buffer pe 1 w p R (method_state (length w)) (R\<lparr>mark := p\<rparr>) id"
    by (rule snoc.IH) (use snoc.prems in simp_all)
  ultimately show ?case
    by (rule http_steps_trans [where f = id and g = id, unfolded comp_id, rotated])
qed

lemma method_names:
  "\<forall>(m, s)\<in>set HTTP_METHOD_MAP. m \<noteq> 24 \<longrightarrow> list_all method_char s \<and> s \<noteq> [] \<and> length s \<le> 20"
  by code_simp

lemma run_method:
  assumes "m < 34" "m \<noteq> 24" "buffer_at buffer p (HttpMethodToString m @ w)"
  shows "http_steps rel buffer pe 1 (HttpMethodToString m @ '' '') p R 3 (R\<lparr>mark := p\<rparr>) (rq_method_update (\<lambda>_. m))"
proof -
  let ?s = "HttpMethodToString m"
  have s: "list_all method_char ?s" "?s \<noteq> []" "length ?s \<le> 20" using method_names method_entry [OF assms(1)] assms(2) by auto
  then have l: "0 < length ?s" by simp
  obtain r where "drop p buffer = ?s @ r" using assms(3) by (auto simp: buffer_at_def)
  then have c: "CharsToHttpMethod (drop p buffer) = m" using method_round_trip [OF assms(1)] by simp
  have "http_steps rel buffer pe (method_state (length ?s)) '' '' (p + length ?s) (R\<lparr>mark := p\<rparr>) 3 (R\<lparr>mark := p\<rparr>)
      (rq_method_update (\<lambda>_. m))"
  proof (rule http_step_calls)
    show "http_switch rel (method_state (length ?s)) (schar CHR '' '') = Some ([h_request_method], 3)"
    proof -
      have "length ?s = 1 \<or> 2 \<le> length ?s" using l by linarith
      then have "method_state (length ?s) \<in> insert 2 {175..<194}" using s(3) by auto
      then show ?thesis unfolding schar_http_delims by (rule http_method_states(4))
    qed
    show "do_actions (http_act buffer pe) [h_request_method] (p + length ?s) (R\<lparr>mark := p\<rparr>, E) =
        ((R\<lparr>mark := p\<rparr>, E @ [request_method (drop p buffer) (LEN p (p + length ?s))]), False)" for E
      by simp
  qed (use c assms(1) in \<open>simp add: on_request_method_def INVALID_METHOD_def\<close>)
  from http_steps_trans [OF method_word [OF s(2,1,3)] this] show ?thesis by simp
qed

definition path_ok :: "string \<Rightarrow> bool" where
  "path_ok w \<longleftrightarrow> w \<noteq> [] \<and> hd w = CHR ''/'' \<and> list_all target_char w \<and> (tl w \<noteq> [] \<longrightarrow> segment_char (hd (tl w)))"

lemma run_path:
  assumes "path_ok w"
  shows "\<exists>b\<in>{26, 33}. http_steps rel buffer pe 3 w p R b (R\<lparr>mark := p\<rparr>) id"
proof -
  obtain v where w: "w = ''/'' @ v" "v \<noteq> [] \<longrightarrow> segment_char (hd v)" "list_all target_char v"
    using assms by (cases w) (auto simp: path_ok_def)
  have 1: "http_steps rel buffer pe 3 ''/'' p R 33 (R\<lparr>mark := p\<rparr>) id"
    by (rule http_step_quiet [where as = "[h_mark]"])
      (simp_all add: http_switch_at schar_http_delims http_st3_def widec_def http_tr_defs)
  show ?thesis
  proof (cases "v = []")
    case True
    then show ?thesis using 1 w by auto
  next
    case False
    have 2: "http_steps rel buffer pe 33 v (p + 1) (R\<lparr>mark := p\<rparr>) 26 (R\<lparr>mark := p\<rparr>) id"
      by (rule http_step_word [where as = "[]"])
        (use False w in \<open>auto simp: http_switch_at http_starts list_all_iff dest: list.set_sel(2) intro!: http_loops\<close>)
    show ?thesis using http_steps_trans [OF 1, of v] 2 w(1) by auto
  qed
qed

lemma path_end:
  assumes "a \<in> {26, 33}" "buffer_at buffer (mark R) w"
  shows "http_steps rel buffer pe a '' '' (mark R + length w) R 4 R (rq_path_update (\<lambda>_. w))"
    and "http_steps rel buffer pe a ''?'' (mark R + length w) R 29 R (rq_path_update (\<lambda>_. w))"
    and "http_steps rel buffer pe a ''#'' (mark R + length w) R 20 R (rq_path_update (\<lambda>_. w))"
proof -
  let ?d = "drop (mark R) buffer" and ?n = "LEN (mark R) (mark R + length w)"
  note t = buffer_text [OF assms(2)]
  show "http_steps rel buffer pe a '' '' (mark R + length w) R 4 R (rq_path_update (\<lambda>_. w))"
    by (rule http_step_calls [where as = "[h_request_path, h_request_uri]" and es = "[request_path ?d ?n, request_uri ?d ?n]"])
      (use assms(1) t in \<open>auto simp: http_switch_at schar_http_delims http_st26_def http_st33_def widec_def http_tr_defs
        on_request_path_def\<close>)
  show "http_steps rel buffer pe a ''?'' (mark R + length w) R 29 R (rq_path_update (\<lambda>_. w))"
    by (rule http_step_calls [where as = "[h_request_path]" and es = "[request_path ?d ?n]"])
      (use assms(1) t in \<open>auto simp: http_switch_at schar_http_delims http_st26_def http_st33_def widec_def http_tr_defs
        on_request_path_def\<close>)
  show "http_steps rel buffer pe a ''#'' (mark R + length w) R 20 R (rq_path_update (\<lambda>_. w))"
    by (rule http_step_calls [where as = "[h_request_path, h_request_uri]" and es = "[request_path ?d ?n, request_uri ?d ?n]"])
      (use assms(1) t in \<open>auto simp: http_switch_at schar_http_delims http_st26_def http_st33_def widec_def http_tr_defs
        on_request_path_def\<close>)
qed

lemma run_args:
  assumes "list_all args_char w" "w \<noteq> []"
  shows "http_steps rel buffer pe 29 w p R 30 (R\<lparr>query_start := p\<rparr>) id"
    and "http_steps rel buffer pe 20 w p R 21 (R\<lparr>mark := p\<rparr>) id"
proof -
  have c: "args_char (hd w)" "c \<in> set (tl w) \<Longrightarrow> args_char c" for c
    using assms by (auto simp: list_all_iff dest: list.set_sel(2))
  show "http_steps rel buffer pe 29 w p R 30 (R\<lparr>query_start := p\<rparr>) id"
    by (rule http_step_word [where as = "[h_start_query]"])
      (use c assms(2) in \<open>auto simp: http_switch_at http_starts intro!: http_loops\<close>)
  show "http_steps rel buffer pe 20 w p R 21 (R\<lparr>mark := p\<rparr>) id"
    by (rule http_step_word [where as = "[h_mark]"])
      (use c assms(2) in \<open>auto simp: http_switch_at http_starts intro!: http_loops\<close>)
qed

lemma query_end:
  assumes "buffer_at buffer (query_start R) w"
  shows "http_steps rel buffer pe 30 '' '' (query_start R + length w) R 4 R (rq_query_update (\<lambda>_. w))"
    and "http_steps rel buffer pe 30 ''#'' (query_start R + length w) R 20 R (rq_query_update (\<lambda>_. w))"
proof -
  let ?p = "query_start R + length w"
  let ?es = "[query_string (drop (query_start R) buffer) (LEN (query_start R) ?p),
      request_uri (drop (mark R) buffer) (LEN (mark R) ?p)]"
  note t = buffer_text [OF assms]
  show "http_steps rel buffer pe 30 '' '' ?p R 4 R (rq_query_update (\<lambda>_. w))"
    "http_steps rel buffer pe 30 ''#'' ?p R 20 R (rq_query_update (\<lambda>_. w))"
    by (rule http_step_calls [where as = "[h_query_string, h_request_uri]" and es = ?es];
      use t in \<open>simp add: http_switch_at schar_http_delims http_st30_def widec_def http_tr_defs on_request_query_def\<close>)+
qed

lemma fragment_end:
  assumes "buffer_at buffer (mark R) w"
  shows "http_steps rel buffer pe 21 '' '' (mark R + length w) R 4 R (rq_fragment_update (\<lambda>_. w))"
  by (rule http_step_calls [where as = "[h_fragment]" and es = "[fragment (drop (mark R) buffer) (LEN (mark R) (mark R + length w))]"])
    (use buffer_text [OF assms] in \<open>simp_all add: http_switch_at schar_http_delims http_st21_def widec_def http_tr_defs
      on_request_fragment_def\<close>)

text \<open>The version. \<open>strncmp\<close> compares the eight characters up to the line's end.\<close>

definition version_text :: "u8 \<Rightarrow> string" where
  "version_text v = ''HTTP/1.'' @ (if v = 0x11 then ''1'' else ''0'')"

lemma run_version:
  assumes "v = 0x11 \<or> v = 0x10" "buffer_at buffer p (version_text v @ CRLF)"
  shows "http_steps rel buffer pe 4 (version_text v @ CRLF) p R 13 (R\<lparr>mark := p\<rparr>) (rq_version_update (\<lambda>_. v))"
proof -
  have b: "buffer_at buffer p (version_text v)" using buffer_at_append [OF assms(2)] by blast
  have l: "length (version_text v) = 8" by (simp add: version_text_def)
  have n: "LEN p (p + 8) = 8" using LEN_add [OF b] l by simp
  obtain r where r: "drop p buffer = version_text v @ CRLF @ r" using assms(2) by (auto simp: buffer_at_def)
  have v: "parse_version (drop p buffer) 8 = Some v"
    using assms(1) by (auto simp: r parse_version_def strncmp_eq_def version_text_def c_str_def)
  have 1: "http_steps rel buffer pe 4 (version_text v) p R 12 (R\<lparr>mark := p\<rparr>) id"
    unfolding http_steps_def stays_def
    by (intro exI [of _ "[]"])
      (use assms(1) in \<open>auto simp: version_text_def http_switch_at schar_http_delims http_st4_def http_st5_def http_st6_def
        http_st7_def http_st8_def http_st9_def http_st10_def http_st11_def http_tr_defs\<close>)
  have 2: "http_steps rel buffer pe 12 [CHR 0x0D] (p + 8) (R\<lparr>mark := p\<rparr>) 17 (R\<lparr>mark := p\<rparr>) (rq_version_update (\<lambda>_. v))"
    by (rule http_step_calls [where as = "[h_http_version]" and es = "[http_version (drop p buffer) 8]"])
      (use n v in \<open>simp_all add: http_switch_at schar_http_delims http_st12_def http_tr_defs on_request_version_def\<close>)
  have 3: "http_steps rel buffer pe 17 [CHR 0x0A] (p + 8 + length [CHR 0x0D]) (R\<lparr>mark := p\<rparr>) 13 (R\<lparr>mark := p\<rparr>) id"
    by (rule http_step_quiet [where as = "[]"]) (simp_all add: http_switch_at schar_http_delims http_st17_def)
  show ?thesis using http_steps_trans [OF 1 http_steps_trans [OF 2 3, folded l]] by simp
qed

section \<open>Headers\<close>

definition field_ok :: "string \<times> string \<Rightarrow> bool" where
  "field_ok kv \<longleftrightarrow> (case kv of (k, v) \<Rightarrow> k \<noteq> [] \<and> list_all field_char k \<and> list_all value_char v \<and> (v \<noteq> [] \<longrightarrow> value_start (hd v)))"

text \<open>The blanks between the colon and the value move the mark.\<close>

lemma run_field:
  assumes "field_ok (k, v)" "sp = [] \<or> sp = '' ''" "buffer_at buffer p (k @ '':'' @ sp @ v @ CRLF)"
  shows "\<exists>R'. http_steps rel buffer pe 13 (k @ '':'' @ sp @ v @ CRLF) p R 13 R' (\<lambda>d. setHeader d k v) \<and>
     xml_sent R' = xml_sent R \<and> json_sent R' = json_sent R"
proof -
  have k: "k \<noteq> []" "field_char (hd k)" "\<And>c. c \<in> set (tl k) \<Longrightarrow> field_char c"
    using assms(1) by (auto simp: field_ok_def list_all_iff dest: list.set_sel(2))
  let ?R1 = "R\<lparr>field_start := p\<rparr>" and ?n = "length k"
  let ?R2 = "?R1\<lparr>field_len := ?n\<rparr>" and ?m = "p + ?n + 1 + length sp"
  let ?R4 = "?R2\<lparr>mark := ?m\<rparr>"
  have bk: "buffer_at buffer p k" "buffer_at buffer (p + ?n) ('':'' @ sp @ v @ CRLF)"
    using buffer_at_append [OF assms(3)] by auto
  then have "buffer_at buffer (p + ?n + 1) (sp @ v @ CRLF)" using buffer_at_append [of buffer "p + ?n" "'':''"] by auto
  then have bv: "buffer_at buffer ?m v" using buffer_at_append [of buffer "p + ?n + 1" sp] buffer_at_append [of buffer ?m v] by auto
  have 1: "http_steps rel buffer pe 13 k p R 14 ?R1 id"
    by (rule http_step_word [where as = "[h_start_field]"]) (use k in \<open>auto simp: http_switch_at http_starts intro!: http_loops\<close>)
  have 2: "http_steps rel buffer pe 14 '':'' (p + ?n) ?R1 15 ?R2 id"
    by (rule http_step_quiet [where as = "[h_write_field]"])
      (use LEN_add [OF bk(1)] in \<open>simp_all add: http_switch_at schar_http_delims http_st14_def http_tr_defs\<close>)
  obtain R3 where 3: "http_steps rel buffer pe 15 sp (p + ?n + 1) ?R2 15 R3 id" "R3\<lparr>mark := ?m\<rparr> = ?R4"
  proof (cases "sp = []")
    case True
    then show ?thesis using http_step_loop [of "[]"] that [of ?R2] by simp
  next
    case False
    have "http_steps rel buffer pe 15 '' '' (p + ?n + 1) ?R2 15 (?R2\<lparr>mark := p + ?n + 1\<rparr>) id"
      by (rule http_step_quiet [where as = "[h_start_value]"])
        (simp_all add: http_switch_at schar_http_delims http_st15_def http_tr_defs)
    then show ?thesis using that False assms(2) by simp
  qed
  let ?e = "http_field (drop p buffer) ?n (drop ?m buffer) (length v)"
  have e: "on_requests P [?e] = Inr (P\<lparr>rp_data := setHeader (rp_data P) k v\<rparr>)" for P
    using buffer_text [OF bk(1)] buffer_text [OF bv] LEN_add [OF bk(1)] LEN_add [OF bv] k(1)
    by (simp add: on_request_http_field_def)
  have 4: "http_steps rel buffer pe 15 (v @ [CHR 0x0D]) ?m R3 17 ?R4 (\<lambda>d. setHeader d k v)"
  proof (cases "v = []")
    case True
    have "http_steps rel buffer pe 15 [CHR 0x0D] ?m R3 17 ?R4 (\<lambda>d. setHeader d k v)"
      by (rule http_step_calls [where as = "[h_start_value, h_write_value]" and es = "[?e]", OF _ _ e])
        (use 3(2) LEN_add [OF bv] True in \<open>auto simp: http_switch_at schar_http_delims http_st15_def http_tr_defs\<close>)
    then show ?thesis using True by simp
  next
    case False
    then have c: "value_start (hd v)" "\<And>c. c \<in> set (tl v) \<Longrightarrow> value_char c"
      using assms(1) by (auto simp: field_ok_def list_all_iff dest: list.set_sel(2))
    have "http_steps rel buffer pe 15 v ?m R3 16 ?R4 id"
      by (rule http_step_word [where as = "[h_start_value]"])
        (use c False 3(2) in \<open>auto simp: http_switch_at http_starts intro!: http_loops\<close>)
    moreover have "http_steps rel buffer pe 16 [CHR 0x0D] (?m + length v) ?R4 17 ?R4 (\<lambda>d. setHeader d k v)"
      by (rule http_step_calls [where as = "[h_write_value]" and es = "[?e]", OF _ _ e])
        (use LEN_add [OF bv] in \<open>simp_all add: http_switch_at schar_http_delims http_st16_def http_tr_defs\<close>)
    ultimately show ?thesis using http_steps_trans by fastforce
  qed
  have 5: "http_steps rel buffer pe 17 [CHR 0x0A] (?m + length (v @ [CHR 0x0D])) ?R4 13 ?R4 id"
    by (rule http_step_quiet [where as = "[]"]) (simp_all add: http_switch_at schar_http_delims http_st17_def)
  have 45: "http_steps rel buffer pe 15 (v @ CRLF) ?m R3 13 ?R4 (\<lambda>d. setHeader d k v)"
    using http_steps_trans [OF 4 5] by (simp add: comp_def)
  have 345: "http_steps rel buffer pe 15 (sp @ v @ CRLF) (p + ?n + 1) ?R2 13 ?R4 (\<lambda>d. setHeader d k v)"
    using http_steps_trans [OF 3(1) 45] by (simp add: comp_def)
  have 2345: "http_steps rel buffer pe 14 ('':'' @ sp @ v @ CRLF) (p + ?n) ?R1 13 ?R4 (\<lambda>d. setHeader d k v)"
    using http_steps_trans [OF 2, of "sp @ v @ CRLF" 13 ?R4] 345 by (simp add: comp_def)
  show ?thesis using http_steps_trans [OF 1 2345] by (intro exI [of _ ?R4]) (simp add: comp_def)
qed

text \<open>The fields of a header; \<open>sp\<close> is the blank that may follow a colon.\<close>

fun fields_text :: "(string \<times> string \<times> string) list \<Rightarrow> string" where
  "fields_text [] = []"
| "fields_text ((k, sp, v) # fs) = k @ '':'' @ sp @ v @ CRLF @ fields_text fs"

fun set_fields :: "(string \<times> string \<times> string) list \<Rightarrow> HttpRequest \<Rightarrow> HttpRequest" where
  "set_fields [] d = d"
| "set_fields ((k, sp, v) # fs) d = set_fields fs (setHeader d k v)"

fun fields_ok :: "(string \<times> string \<times> string) list \<Rightarrow> bool" where
  "fields_ok [] = True"
| "fields_ok ((k, sp, v) # fs) \<longleftrightarrow> field_ok (k, v) \<and> (sp = [] \<or> sp = '' '') \<and> fields_ok fs"

definition same_sent :: "http_parser \<Rightarrow> http_parser \<Rightarrow> bool" where
  "same_sent R R' \<longleftrightarrow> xml_sent R' = xml_sent R \<and> json_sent R' = json_sent R"

lemma run_fields:
  assumes "fields_ok fs" "buffer_at buffer p (fields_text fs)"
  shows "\<exists>R'. http_steps rel buffer pe 13 (fields_text fs) p R 13 R' (set_fields fs) \<and> same_sent R R'"
  using assms
proof (induction fs arbitrary: p R)
  case Nil
  then show ?case using http_step_loop [of "[]"] by (intro exI [of _ R]) (simp add: same_sent_def id_def fun_eq_iff)
next
  case (Cons kv fs)
  obtain k sp v where kv: "kv = (k, sp, v)" by (cases kv)
  let ?w = "k @ '':'' @ sp @ v @ CRLF"
  have b: "buffer_at buffer p ?w" "buffer_at buffer (p + length ?w) (fields_text fs)"
    using buffer_at_append [of buffer p ?w "fields_text fs"] Cons.prems(2) kv by auto
  obtain R1 where 1: "http_steps rel buffer pe 13 ?w p R 13 R1 (\<lambda>d. setHeader d k v)" "same_sent R R1"
    using run_field [OF _ _ b(1), of rel pe R] Cons.prems(1) kv by (auto simp: same_sent_def)
  obtain R2 where 2: "http_steps rel buffer pe 13 (fields_text fs) (p + length ?w) R1 13 R2 (set_fields fs)" "same_sent R1 R2"
    using Cons.IH [OF _ b(2), of R1] Cons.prems(1) kv by auto
  have "http_steps rel buffer pe 13 (?w @ fields_text fs) p R 13 R2 (set_fields fs \<circ> (\<lambda>d. setHeader d k v))"
    by (rule http_steps_trans [OF 1(1) 2(1)])
  moreover have "set_fields (kv # fs) = set_fields fs \<circ> (\<lambda>d. setHeader d k v)" by (simp add: kv fun_eq_iff)
  ultimately show ?case using 1(2) 2(2) kv by (intro exI [of _ R2]) (simp add: same_sent_def comp_def)
qed

section \<open>The target of a request\<close>

definition target_tail :: "string \<Rightarrow> string \<Rightarrow> string" where
  "target_tail q f = (if q = [] then [] else ''?'' @ q) @ (if f = [] then [] else ''#'' @ f)"

definition set_tail :: "string \<Rightarrow> string \<Rightarrow> HttpRequest \<Rightarrow> HttpRequest" where
  "set_tail q f d = (let d = (if q = [] then d else d\<lparr>rq_query := q\<rparr>) in if f = [] then d else d\<lparr>rq_fragment := f\<rparr>)"

lemma run_fragment:
  assumes "list_all args_char f" "f \<noteq> []" "buffer_at buffer p f"
  shows "http_steps rel buffer pe 20 (f @ '' '') p R 4 (R\<lparr>mark := p\<rparr>) (rq_fragment_update (\<lambda>_. f))"
proof -
  have "http_steps rel buffer pe 21 '' '' (p + length f) (R\<lparr>mark := p\<rparr>) 4 (R\<lparr>mark := p\<rparr>) (rq_fragment_update (\<lambda>_. f))"
    using fragment_end [of buffer "R\<lparr>mark := p\<rparr>" f] assms(3) by simp
  from http_steps_trans [OF run_args(2) [OF assms(1,2)] this] show ?thesis by simp
qed

lemma run_query:
  assumes "list_all args_char q" "q \<noteq> []" "buffer_at buffer p q"
  shows "http_steps rel buffer pe 29 (q @ '' '') p R 4 (R\<lparr>query_start := p\<rparr>) (rq_query_update (\<lambda>_. q))"
    and "http_steps rel buffer pe 29 (q @ ''#'') p R 20 (R\<lparr>query_start := p\<rparr>) (rq_query_update (\<lambda>_. q))"
proof -
  let ?R = "R\<lparr>query_start := p\<rparr>"
  have "http_steps rel buffer pe 30 '' '' (p + length q) ?R 4 ?R (rq_query_update (\<lambda>_. q))"
    "http_steps rel buffer pe 30 ''#'' (p + length q) ?R 20 ?R (rq_query_update (\<lambda>_. q))"
    using query_end [of buffer ?R q] assms(3) by simp_all
  from this [THEN http_steps_trans [OF run_args(1) [OF assms(1,2)]]]
  show "http_steps rel buffer pe 29 (q @ '' '') p R 4 ?R (rq_query_update (\<lambda>_. q))"
    "http_steps rel buffer pe 29 (q @ ''#'') p R 20 ?R (rq_query_update (\<lambda>_. q))" by simp_all
qed

lemma run_target:
  assumes "path_ok w" "list_all args_char q" "list_all args_char f"
    and "buffer_at buffer p (w @ target_tail q f)"
  shows "\<exists>R'. http_steps rel buffer pe 3 (w @ target_tail q f @ '' '') p R 4 R' (\<lambda>d. set_tail q f (d\<lparr>rq_path := w\<rparr>)) \<and>
     same_sent R R'"
proof -
  let ?R = "R\<lparr>mark := p\<rparr>" and ?n = "p + length w"
  obtain b where b: "b \<in> {26, 33}" "http_steps rel buffer pe 3 w p R b ?R id"
    using run_path [OF assms(1)] by blast
  have bw: "buffer_at buffer (mark ?R) w" "buffer_at buffer ?n (target_tail q f)"
    using buffer_at_append [OF assms(4)] by simp_all
  have step: "http_steps rel buffer pe 3 (w @ [c]) p R s ?R (rq_path_update (\<lambda>_. w))"
    if "http_steps rel buffer pe b [c] (mark ?R + length w) ?R s ?R (rq_path_update (\<lambda>_. w))" for c s
    using http_steps_trans [OF b(2), of "[c]" s ?R] that by simp
  note ends = path_end [OF b(1) bw(1), THEN step]
  show ?thesis
  proof (cases "q = []")
    case True
    show ?thesis
    proof (cases "f = []")
      case True
      then show ?thesis using ends(1) \<open>q = []\<close> by (intro exI [of _ ?R]) (simp add: target_tail_def set_tail_def same_sent_def)
    next
      case False
      then have bf: "buffer_at buffer (p + length (w @ ''#'')) f"
        using bw(2) True buffer_at_append [of buffer ?n "''#''" f] by (simp add: target_tail_def)
      from http_steps_trans [OF ends(3) run_fragment [OF assms(3) False bf]] show ?thesis
        using True False by (intro exI [of _ "?R\<lparr>mark := p + length (w @ ''#'')\<rparr>"])
          (simp add: target_tail_def set_tail_def same_sent_def comp_def)
    qed
  next
    case False
    have bq: "buffer_at buffer (p + length (w @ ''?'')) (q @ (if f = [] then [] else ''#'' @ f))"
      using bw(2) False buffer_at_append [of buffer ?n "''?''"] by (simp add: target_tail_def)
    note q = run_query [OF assms(2) False conjunct1 [OF buffer_at_append [OF bq]]]
    show ?thesis
    proof (cases "f = []")
      case True
      from http_steps_trans [OF ends(2) q(1)] show ?thesis
        using True False by (intro exI [of _ "?R\<lparr>query_start := p + length (w @ ''?'')\<rparr>"])
          (simp add: target_tail_def set_tail_def same_sent_def comp_def)
    next
      case ff: False
      let ?m = "p + length (w @ ''?'') + length (q @ ''#'')"
      have "buffer_at buffer ?m f"
        using bq ff buffer_at_append [of buffer "p + length (w @ ''?'')" "q @ ''#''" f] by simp
      then have "http_steps rel buffer pe 20 (f @ '' '') ?m (?R\<lparr>query_start := p + length (w @ ''?'')\<rparr>) 4
          (?R\<lparr>query_start := p + length (w @ ''?''), mark := ?m\<rparr>) (rq_fragment_update (\<lambda>_. f))"
        by (rule run_fragment [OF assms(3) ff])
      from http_steps_trans [OF ends(2) http_steps_trans [OF q(2) this]] show ?thesis
        using False ff by (intro exI [of _ "?R\<lparr>query_start := p + length (w @ ''?''), mark := ?m\<rparr>"])
          (simp add: target_tail_def set_tail_def same_sent_def comp_def)
    qed
  qed
qed

section \<open>A whole request\<close>

text \<open>The text of a request up to the empty line.\<close>

definition head_text :: "HttpMethod \<Rightarrow> string \<Rightarrow> string \<Rightarrow> string \<Rightarrow> u8 \<Rightarrow> (string \<times> string \<times> string) list \<Rightarrow> string" where
  "head_text m w q f v fs =
     (HttpMethodToString m @ '' '') @ (w @ target_tail q f @ '' '') @ (version_text v @ CRLF) @ fields_text fs"

definition head_ok :: "HttpMethod \<Rightarrow> string \<Rightarrow> string \<Rightarrow> string \<Rightarrow> u8 \<Rightarrow> (string \<times> string \<times> string) list \<Rightarrow> bool" where
  "head_ok m w q f v fs \<longleftrightarrow> m < 34 \<and> m \<noteq> 24 \<and> path_ok w \<and> list_all args_char q \<and> list_all args_char f \<and>
     (v = 0x11 \<or> v = 0x10) \<and> fields_ok fs"

definition set_head :: "HttpMethod \<Rightarrow> string \<Rightarrow> string \<Rightarrow> string \<Rightarrow> u8 \<Rightarrow> (string \<times> string \<times> string) list \<Rightarrow> HttpRequest \<Rightarrow> HttpRequest" where
  "set_head m w q f v fs d = set_fields fs ((set_tail q f (d\<lparr>rq_method := m, rq_path := w\<rparr>))\<lparr>rq_version := v\<rparr>)"

lemma run_head:
  assumes "head_ok m w q f v fs" "buffer_at buffer p (head_text m w q f v fs)"
  shows "\<exists>R'. http_steps rel buffer pe 1 (head_text m w q f v fs) p R 13 R' (set_head m w q f v fs) \<and> same_sent R R'"
proof -
  let ?a = "HttpMethodToString m @ '' ''" and ?b = "w @ target_tail q f @ '' ''" and ?c = "version_text v @ CRLF"
  let ?p1 = "p + length ?a"
  let ?p2 = "?p1 + length ?b"
  let ?p3 = "?p2 + length ?c"
  note ok = assms(1) [unfolded head_ok_def]
  have b: "buffer_at buffer p ?a" "buffer_at buffer ?p1 ?b" "buffer_at buffer ?p2 ?c" "buffer_at buffer ?p3 (fields_text fs)"
    using assms(2) unfolding head_text_def by (blast dest: buffer_at_append)+
  have bt: "buffer_at buffer ?p1 (w @ target_tail q f)"
    using b(2) buffer_at_append [of buffer ?p1 "w @ target_tail q f" "'' ''"] by simp
  have 1: "http_steps rel buffer pe 1 ?a p R 3 (R\<lparr>mark := p\<rparr>) (rq_method_update (\<lambda>_. m))"
    using run_method b(1) ok by blast
  obtain R2 where 2: "http_steps rel buffer pe 3 ?b ?p1 (R\<lparr>mark := p\<rparr>) 4 R2 (\<lambda>d. set_tail q f (d\<lparr>rq_path := w\<rparr>))"
      "same_sent (R\<lparr>mark := p\<rparr>) R2"
    using run_target [OF _ _ _ bt] ok by blast
  have 3: "http_steps rel buffer pe 4 ?c ?p2 R2 13 (R2\<lparr>mark := ?p2\<rparr>) (rq_version_update (\<lambda>_. v))"
    using run_version b(3) ok by blast
  obtain R4 where 4: "http_steps rel buffer pe 13 (fields_text fs) ?p3 (R2\<lparr>mark := ?p2\<rparr>) 13 R4 (set_fields fs)"
      "same_sent (R2\<lparr>mark := ?p2\<rparr>) R4"
    using run_fields b(4) ok by blast
  have s: "same_sent R R4" using 2(2) 4(2) by (simp add: same_sent_def)
  have "http_steps rel buffer pe 1 (?a @ ?b @ ?c @ fields_text fs) p R 13 R4
      (((set_fields fs \<circ> rq_version_update (\<lambda>_. v)) \<circ> (\<lambda>d. set_tail q f (d\<lparr>rq_path := w\<rparr>))) \<circ> rq_method_update (\<lambda>_. m))"
    using http_steps_trans [OF 1 http_steps_trans [OF 2(1) http_steps_trans [OF 3 4(1)]]] by simp
  then show ?thesis using s by (intro exI [of _ R4]) (simp add: head_text_def set_head_def [abs_def] comp_def)
qed

text \<open>The empty line ends the run, unless the request was marked as XML or JSON.\<close>

lemma run_whole_head:
  assumes "head_ok m w q f v fs" "buffer_at buffer p (head_text m w q f v fs)" "xml_sent R = 0" "json_sent R = 0"
  shows "\<exists>R' es. ragel_run (http_switch rel) (http_act buffer pe) 1 (head_text m w q f v fs @ CRLF @ rest) p (R, []) =
      ((R', es), 348, p + length (head_text m w q f v fs) + 2) \<and>
    (\<forall>P. on_requests P es = Inr (P\<lparr>rp_data := set_head m w q f v fs (rp_data P)\<rparr>))"
proof -
  let ?h = "head_text m w q f v fs"
  let ?n = "p + length ?h"
  obtain R1 where R1: "http_steps rel buffer pe 1 ?h p R 13 R1 (set_head m w q f v fs)" "same_sent R R1"
    using run_head [OF assms(1,2)] by blast
  obtain es where e: "\<And>E. stays (http_switch rel) (http_act buffer pe) 1 ?h p (R, E) (R1, E @ es) 13"
      "\<And>P. on_requests P es = Inr (P\<lparr>rp_data := set_head m w q f v fs (rp_data P)\<rparr>)"
    using R1(1) by (auto simp: http_steps_def)
  have c: "http_switch rel 13 (schar CHR 0x0D) = Some ([h_start_field], 18)"
      "http_switch rel 18 (schar CHR 0x0A) = Some ([h_done], 348)"
    by (simp_all add: http_switch_at schar_http_delims http_st13_def http_st18_def http_tr_defs)
  let ?R = "R1\<lparr>field_start := ?n, body_start := ?n + 2\<rparr>"
  have s: "xml_sent R1 = 0" "json_sent R1 = 0" using R1(2) assms(3,4) by (simp_all add: same_sent_def)
  have "ragel_run (http_switch rel) (http_act buffer pe) 1 (?h @ CRLF @ rest) p (R, []) =
      ragel_run (http_switch rel) (http_act buffer pe) 13 (CRLF @ rest) ?n (R1, es)"
    using stays_append_run [OF e(1) [of "[]"]] by simp
  also have "\<dots> = ((?R, es @ [header_done (drop (?n + 2) buffer) (pe - (?n + 1) - 1)]), 348, ?n + 2)"
    using c s by simp
  finally show ?thesis using e(2) by (intro exI conjI) (auto simp: on_requests_append)
qed

lemma fresh_request:
  assumes "head_ok m w q f v fs" "data = head_text m w q f v fs @ CRLF @ rest" "len \<le> length data"
    and "length (head_text m w q f v fs) + 2 \<le> len" "length data < 2 ^ 63 - 1"
  shows "\<exists>q' P. request_execute http_machine (HttpRequestParser_new raw) data len 0 =
      Inr (q', take (len - length (head_text m w q f v fs) - 2) rest @ drop (len - length (head_text m w q f v fs) - 2) data,
        length (head_text m w q f v fs) + 2) \<and>
    rp_data q' = set_head m w q f v fs (HttpRequest_new 0x11 True) \<and> rp_error q' = 0 \<and> cs (rp_parser q') = 348"
proof -
  let ?h = "head_text m w q f v fs" and ?p = "HttpRequestParser_new raw"
  let ?r = "(rp_parser ?p)\<lparr>nread := 0, mark := 0, field_len := 0, field_start := 0\<rparr>"
  have r: "cs ?r = 1" "xml_sent ?r = 0" "json_sent ?r = 0" "parser_ok ?r"
    by (simp_all add: HttpRequestParser_new_def http_parser_init_def http_parser_start_def parser_ok_def)
  obtain n where n: "len = length ?h + 2 + n" using assms(4) le_Suc_ex by blast
  obtain v' where v': "take len data = ?h @ CRLF @ v'" "v' = take (len - length ?h - 2) rest"
    by (rule that [of "take n rest"]) (simp_all add: n assms(2))
  have b: "buffer_at data 0 ?h" using assms(2,5) by (auto simp: buffer_at_def)
  obtain R es where R: "ragel_run (http_switch (uri_relaxed ?r \<noteq> 0)) (http_act data len) 1 (?h @ CRLF @ v') 0 (?r, []) =
        ((R, es), 348, 0 + length ?h + 2)"
      "\<And>P. on_requests P es = Inr (P\<lparr>rp_data := set_head m w q f v fs (rp_data P)\<rparr>)"
    using run_whole_head [OF assms(1) b r(2,3)] by blast
  have m: "http_machine ?r data len 0 = (es, R, 348, length ?h + 2)"
    using R(1) r(1) v'(1) by (simp add: http_machine_def)
  have ok: "marks_in len R" "nread R = 0" "cs R = 1"
    using http_machine_ok [OF r(4) _ _ _ _ _ _ assms(3,5) _ m] http_machine_frame [OF m] r(1) assms(4)
    by (simp_all add: in_query_def http_parser_first_final_def)
  have "http_parser_execute http_machine (rp_parser ?p) data len 0 = Inr (es, R\<lparr>cs := 348, nread := length ?h + 2\<rparr>, length ?h + 2)"
    using m ok assms(4) by (simp add: http_parser_execute_def marks_in_def Let_def http_parser_has_error_def http_parser_error_def)
  moreover have "memmove_front data (length ?h + 2) (len - (length ?h + 2)) =
      Inr (take (len - length ?h - 2) rest @ drop (len - length ?h - 2) data)"
  proof -
    have "drop (length ?h + 2) data = rest" using assms(2) by simp
    then show ?thesis using assms(3,4) by (simp add: memmove_front_def)
  qed
  ultimately show ?thesis using R(2) [of ?p] assms(4)
    by (simp add: request_execute_def HttpRequestParser_new_def)
qed

end
