(* ===== verification/Http11_Roundtrip.thy ===== *)
theory Http11_Roundtrip
  imports Http11_Text
begin

text \<open>
  \<open>HttpRequest::dump\<close> and the request parser: what is printed is read back. The two sides are of different origin, the
  printer of \<open>http.cpp\<close> and the machine of \<open>http11_parser.rl.cpp\<close> with the callbacks of \<open>http_parser.cpp\<close>. At the end
  requests that are split over two packets are considered, for which the marks of the first packet are lost.
\<close>

section \<open>Header fields\<close>

fun field_lookup :: "(string \<times> string \<times> string) list \<Rightarrow> string \<Rightarrow> string option" where
  "field_lookup [] k = None"
| "field_lookup ((k', sp, v) # fs) k =
     (case field_lookup fs k of Some u \<Rightarrow> Some u | None \<Rightarrow> if strcasecmp_eq k' k then Some v else None)"

lemma field_lookup_append:
  "field_lookup (fs @ gs) k = (case field_lookup gs k of Some u \<Rightarrow> Some u | None \<Rightarrow> field_lookup fs k)"
  by (induction fs) (auto split: option.splits)

lemma fields_text_append: "fields_text (fs @ gs) = fields_text fs @ fields_text gs"
  by (induction fs) auto

lemma fields_ok_append [simp]: "fields_ok (fs @ gs) \<longleftrightarrow> fields_ok fs \<and> fields_ok gs"
  by (induction fs) auto

lemma map_has_set_fields:
  assumes "ci.ordered fst (rq_headers d)"
  shows "map_has (rq_headers (set_fields fs d)) k =
    (case field_lookup fs k of Some v \<Rightarrow> Some v | None \<Rightarrow> map_has (rq_headers d) k)"
  using assms
proof (induction fs arbitrary: d)
  case (Cons kv fs)
  obtain k' sp v where kv: "kv = (k', sp, v)" by (cases kv)
  have "ci.ordered fst (rq_headers (setHeader d k' v))"
      "map_has (rq_headers (setHeader d k' v)) k = (if strcasecmp_eq k' k then Some v else map_has (rq_headers d) k)"
    using ci.map_assign_spec [OF Cons.prems, of k' v k] by (simp_all add: setHeader_def map_set_def map_has_def ci_equiv)
  then show ?case using Cons.IH kv by (simp split: option.splits)
qed simp

lemma set_fields_other:
  "rq_method (set_fields fs d) = rq_method d" "rq_path (set_fields fs d) = rq_path d"
  "rq_query (set_fields fs d) = rq_query d" "rq_fragment (set_fields fs d) = rq_fragment d"
  "rq_version (set_fields fs d) = rq_version d" "rq_close (set_fields fs d) = rq_close d"
  by (induction fs d rule: set_fields.induct) (simp_all add: setHeader_def)

text \<open>The fields of an ordered map that \<open>dump\<close> prints.\<close>

definition map_fields :: "MapType \<Rightarrow> (string \<times> string \<times> string) list" where
  "map_fields m = map (\<lambda>(k, v). (k, [], v)) (filter (\<lambda>(k, v). \<not> strcasecmp_eq k ''connection'') m)"

lemma dump_headers_fields: "dump_headers '':'' m = fields_text (map_fields m)"
  by (induction m) (auto simp: dump_headers_def map_fields_def)

lemma map_fields_ok: "(\<And>k v. (k, v) \<in> set m \<Longrightarrow> field_ok (k, v)) \<Longrightarrow> fields_ok (map_fields m)"
  by (induction m) (auto simp: map_fields_def)

lemma field_lookup_Some: "field_lookup fs k = Some v \<Longrightarrow> \<exists>k' sp. (k', sp, v) \<in> set fs \<and> strcasecmp_eq k' k"
proof (induction fs)
  case (Cons kv fs)
  show ?case
  proof (cases "field_lookup fs k")
    case None
    then show ?thesis using Cons.prems by (cases kv) (simp split: if_splits, blast)
  next
    case (Some u)
    then have "\<exists>k' sp. (k', sp, v) \<in> set fs \<and> strcasecmp_eq k' k" using Cons by (cases kv) simp
    then show ?thesis by (meson list.set_intros(2))
  qed
qed simp

lemma field_lookup_None: "field_lookup fs k = None \<longleftrightarrow> (\<forall>(k', sp, v)\<in>set fs. \<not> strcasecmp_eq k' k)"
  by (induction fs) (auto split: option.splits)

lemma map_has_Some_iff:
  assumes "ci.ordered fst m"
  shows "map_has m k = Some v \<longleftrightarrow> (\<exists>k'. (k', v) \<in> set m \<and> strcasecmp_eq k k')"
  using ci.set_find_Some_iff [OF assms, of k] by (auto simp: map_has_def map_lookup_def ci_equiv)

lemma map_has_Nil [simp]: "map_has [] k = None"
  using map_has_Some_iff [of "[]" k] by (cases "map_has [] k") auto

lemma map_fields_lookup:
  assumes "ci.ordered fst m"
  shows "field_lookup (map_fields m) k = (if strcasecmp_eq k ''connection'' then None else map_has m k)"
proof (cases "field_lookup (map_fields m) k")
  case None
  have "map_has m k = None" if "\<not> strcasecmp_eq k ''connection''"
  proof (rule ccontr)
    assume "map_has m k \<noteq> None"
    then obtain v k' where "(k', v) \<in> set m" "strcasecmp_eq k k'" using map_has_Some_iff [OF assms] by auto
    moreover from this have "\<not> strcasecmp_eq k' ''connection''" using that by (simp add: strcasecmp_eq_def)
    ultimately have "(k', [], v) \<in> set (map_fields m)" "strcasecmp_eq k' k"
      by (auto simp: map_fields_def strcasecmp_eq_def)
    then show False using None field_lookup_None [of "map_fields m" k] by blast
  qed
  then show ?thesis using None by simp
next
  case (Some v)
  then obtain k' where k: "(k', v) \<in> set m" "\<not> strcasecmp_eq k' ''connection''" "strcasecmp_eq k' k"
    using field_lookup_Some [OF Some] by (auto simp: map_fields_def)
  then have "\<not> strcasecmp_eq k ''connection''" by (simp add: strcasecmp_eq_def)
  moreover have "map_has m k = Some v" using map_has_Some_iff [OF assms] k by (auto simp: strcasecmp_eq_def)
  ultimately show ?thesis using Some by simp
qed

section \<open>Printing and parsing\<close>

definition dump_fields :: "HttpRequest \<Rightarrow> (string \<times> string \<times> string) list" where
  "dump_fields r =
     (''connection'', '' '', if rq_close r then ''close'' else ''keep-alive'') # map_fields (rq_headers r) @
     (if rq_body r = [] then [] else [(''content-length'', '' '', nat_to_string (length (rq_body r)))])"

definition dump_rest :: "HttpRequest \<Rightarrow> string" where
  "dump_rest r = (if rq_body r = [] then [] else rq_body r @ CRLF)"

definition request_ok :: "HttpRequest \<Rightarrow> bool" where
  "request_ok r \<longleftrightarrow> rq_method r < 34 \<and> rq_method r \<noteq> 24 \<and> path_ok (rq_path r) \<and> list_all args_char (rq_query r) \<and>
     list_all args_char (rq_fragment r) \<and> (rq_version r = 0x11 \<or> rq_version r = 0x10) \<and>
     list_all field_ok (rq_headers r)"

lemma version_text_string: "v = 0x11 \<or> v = 0x10 \<Longrightarrow> ''HTTP/'' @ version_string v = version_text v"
proof -
  have "version_string 0x11 = ''1.1''" "version_string 0x10 = ''1.0''" by code_simp+
  then show "v = 0x11 \<or> v = 0x10 \<Longrightarrow> ''HTTP/'' @ version_string v = version_text v" by (auto simp: version_text_def)
qed

lemma dump_text:
  assumes "rq_version r = 0x11 \<or> rq_version r = 0x10"
  shows "HttpRequest_dump r = head_text (rq_method r) (rq_path r) (rq_query r) (rq_fragment r) (rq_version r) (dump_fields r) @
    CRLF @ dump_rest r"
proof -
  have v: "''HTTP/'' @ version_string (rq_version r) @ x = version_text (rq_version r) @ x" for x
    using version_text_string [OF assms] by (metis append.assoc)
  show ?thesis using v
    by (simp add: HttpRequest_dump_def head_text_def target_tail_def dump_fields_def dump_rest_def dump_headers_fields
        fields_text_append)
qed

lemma decimal_value: "list_all value_char (nat_to_string n)" "value_start (hd (nat_to_string n))"
proof -
  have "value_start c" if "c \<in> set (nat_to_string n)" for c
  proof -
    have "of_char c \<in> {48..<58 :: nat}" using decimal_digits that by blast
    moreover have "int (of_char c) = (of_char c :: int)" by (rule of_nat_of_char)
    ultimately have "48 \<le> (of_char c :: int)" "(of_char c :: int) < 58" by auto
    then show ?thesis by (simp add: value_start_def schar_def Let_def)
  qed
  then show "list_all value_char (nat_to_string n)" "value_start (hd (nat_to_string n))"
    by (auto simp: list_all_iff value_char_def)
qed

lemma dump_fields_ok:
  assumes "list_all field_ok (rq_headers r)"
  shows "fields_ok (dump_fields r)"
proof -
  have "fields_ok (map_fields (rq_headers r))" using assms by (auto simp: list_all_iff intro: map_fields_ok)
  moreover have "field_ok (''connection'', ''close'')" "field_ok (''connection'', ''keep-alive'')" "list_all field_char ''content-length''"
    by (simp_all add: field_ok_def field_char_def value_char_def value_start_def schar_def Let_def)
  ultimately show ?thesis using decimal_value by (auto simp: dump_fields_def field_ok_def)
qed
lemma dump_parsed:
  assumes "request_ok r" "built_map (rq_headers r)"
    and "data = HttpRequest_dump r @ rest" "length data < 2 ^ 63 - 1"
  shows "\<exists>q k. request_execute http_machine (HttpRequestParser_new raw) data (length (HttpRequest_dump r)) 0 =
       Inr (q, dump_rest r @ drop (length (dump_rest r)) data, k) \<and>
     k + length (dump_rest r) = length (HttpRequest_dump r) \<and> request_isFinished q = 1 \<and> \<not> request_hasError q \<and>
     rq_method (rp_data q) = rq_method r \<and> rq_version (rp_data q) = rq_version r \<and> rq_path (rp_data q) = rq_path r \<and>
     rq_query (rp_data q) = rq_query r \<and> rq_fragment (rp_data q) = rq_fragment r \<and>
     (\<forall>key. map_has (rq_headers (rp_data q)) key = field_lookup (dump_fields r) key) \<and> rq_close (rp_data q)"
proof -
  let ?fs = "dump_fields r" and ?d = "HttpRequest_dump r"
  let ?h = "head_text (rq_method r) (rq_path r) (rq_query r) (rq_fragment r) (rq_version r) ?fs"
  note ok = assms(1) [unfolded request_ok_def]
  have o: "ci.ordered fst (rq_headers r)" using assms(2) by (rule built_ordered)
  have h: "head_ok (rq_method r) (rq_path r) (rq_query r) (rq_fragment r) (rq_version r) ?fs"
    using ok dump_fields_ok by (simp add: head_ok_def)
  have t: "?d = ?h @ CRLF @ dump_rest r" using dump_text ok by blast
  have dt: "data = ?h @ CRLF @ (dump_rest r @ rest)" "length ?d \<le> length data" "length ?h + 2 \<le> length ?d"
      "length ?d - length ?h - 2 = length (dump_rest r)"
    using assms(3) t by simp_all
  obtain q where q: "request_execute http_machine (HttpRequestParser_new raw) data (length ?d) 0 =
        Inr (q, dump_rest r @ drop (length (dump_rest r)) data, length ?h + 2)"
      "rp_data q = set_head (rq_method r) (rq_path r) (rq_query r) (rq_fragment r) (rq_version r) ?fs (HttpRequest_new 0x11 True)"
      "rp_error q = 0" "cs (rp_parser q) = 348"
    using fresh_request [OF h dt(1-3) assms(4), of raw] dt(4) by auto
  have e: "set_tail (rq_query r) (rq_fragment r) ((HttpRequest_new 0x11 True)\<lparr>rq_method := rq_method r, rq_path := rq_path r\<rparr>) =
      (HttpRequest_new 0x11 True)\<lparr>rq_method := rq_method r, rq_path := rq_path r, rq_query := rq_query r, rq_fragment := rq_fragment r\<rparr>"
    by (simp add: set_tail_def HttpRequest_new_def Let_def)
  have m: "map_has (rq_headers (rp_data q)) key = field_lookup ?fs key" for key
    unfolding q(2) set_head_def e by (subst map_has_set_fields)
      (simp_all add: HttpRequest_new_def split: option.splits)
  show ?thesis
    by (intro exI [of _ q] exI [of _ "length ?h + 2"] conjI allI)
      (use q e m t in \<open>simp_all add: set_head_def set_fields_other request_isFinished_def http_parser_finish_def
        request_hasError_def http_parser_has_error_def http_parser_error_def http_parser_is_finished_def
        http_parser_first_final_def HttpRequest_new_def\<close>)
qed

lemma dump_fields_lookup:
  assumes "ci.ordered fst (rq_headers r)"
  shows "field_lookup (dump_fields r) key =
    (if strcasecmp_eq ''content-length'' key \<and> rq_body r \<noteq> [] then Some (nat_to_string (length (rq_body r)))
     else if strcasecmp_eq ''connection'' key then Some (if rq_close r then ''close'' else ''keep-alive'')
     else map_has (rq_headers r) key)"
  using map_fields_lookup [OF assms, of key]
  by (auto simp: dump_fields_def field_lookup_append strcasecmp_eq_def split: option.splits)

text \<open>
  C14: What \<open>HttpRequest::dump\<close> prints is read back by \<open>HttpRequestParser\<close>. For a request with a method of the table
  other than \<open>M-SEARCH\<close>, version 1.0 or 1.1, and a path, query, fragment and headers of characters that need no
  encoding, a fresh parser reads the text of the request, whatever follows it, to the end of the header without an error;
  method, version, path, query and fragment are those of the request, every header has its value, the connection header
  that of the request's flag, and the content length that of the body. The body is left in the front of the buffer.
\<close>

theorem request_roundtrip:
  assumes "request_ok r" "built_map (rq_headers r)"
    and "data = HttpRequest_dump r @ rest" "length data < 2 ^ 63 - 1"
  shows "\<exists>q data' k. request_execute http_machine (HttpRequestParser_new raw) data (length (HttpRequest_dump r)) 0 = Inr (q, data', k) \<and>
     request_isFinished q = 1 \<and> \<not> request_hasError q \<and>
     rq_method (rp_data q) = rq_method r \<and> rq_version (rp_data q) = rq_version r \<and> rq_path (rp_data q) = rq_path r \<and>
     rq_query (rp_data q) = rq_query r \<and> rq_fragment (rp_data q) = rq_fragment r \<and>
     (\<forall>key. map_has (rq_headers (rp_data q)) key =
        (if strcasecmp_eq ''content-length'' key \<and> rq_body r \<noteq> [] then Some (nat_to_string (length (rq_body r)))
         else if strcasecmp_eq ''connection'' key then Some (if rq_close r then ''close'' else ''keep-alive'')
         else map_has (rq_headers r) key)) \<and>
     take (length (HttpRequest_dump r) - k) data' = (if rq_body r = [] then [] else rq_body r @ CRLF)"
proof -
  obtain q k where q: "request_execute http_machine (HttpRequestParser_new raw) data (length (HttpRequest_dump r)) 0 =
        Inr (q, dump_rest r @ drop (length (dump_rest r)) data, k)"
      "k + length (dump_rest r) = length (HttpRequest_dump r)" "request_isFinished q = 1" "\<not> request_hasError q"
      "rq_method (rp_data q) = rq_method r" "rq_version (rp_data q) = rq_version r" "rq_path (rp_data q) = rq_path r"
      "rq_query (rp_data q) = rq_query r" "rq_fragment (rp_data q) = rq_fragment r"
      "\<forall>key. map_has (rq_headers (rp_data q)) key = field_lookup (dump_fields r) key"
    using dump_parsed [OF assms, of raw] by blast
  have "length (HttpRequest_dump r) - k = length (dump_rest r)" using q(2) by linarith
  then have t: "take (length (HttpRequest_dump r) - k) (dump_rest r @ drop (length (dump_rest r)) data) =
      (if rq_body r = [] then [] else rq_body r @ CRLF)" by (simp add: dump_rest_def)
  note h = q(10) [unfolded dump_fields_lookup [OF built_ordered [OF assms(2)]]]
  show ?thesis by (intro exI conjI) (rule q(1) q(3) q(4) q(5) q(6) q(7) q(8) q(9) h t)+
qed

definition sample_request :: HttpRequest where
  "sample_request = (setHeader (HttpRequest_new 0x11 True) ''Host'' ''a'')\<lparr>rq_method := 3, rq_path := ''/x'',
     rq_query := ''n=1'', rq_body := ''abc''\<rparr>"

theorem request_roundtrip_witness:
  "\<exists>q data' k. request_execute http_machine (HttpRequestParser_new sample_raw_http) (HttpRequest_dump sample_request @ ''zz'')
       (length (HttpRequest_dump sample_request)) 0 = Inr (q, data', k) \<and>
     rq_path (rp_data q) = ''/x'' \<and> map_has (rq_headers (rp_data q)) ''HOST'' = Some ''a''"
proof -
  let ?d = "HttpRequest_dump sample_request @ ''zz''"
  have ok: "request_ok sample_request" by code_simp
  have b: "built_map (rq_headers sample_request)"
    by (simp add: sample_request_def setHeader_def HttpRequest_new_def built_set built_empty)
  have l: "int (length ?d) < 2 ^ 63 - 1" by code_simp
  then have "length ?d < 2 ^ 63 - 1" by simp
  moreover have "map_has (rq_headers sample_request) ''HOST'' = Some ''a''" "\<not> strcasecmp_eq ''content-length'' ''HOST''"
      "\<not> strcasecmp_eq ''connection'' ''HOST''" "rq_path sample_request = ''/x''" by code_simp+
  ultimately show ?thesis using request_roundtrip [OF ok b refl, of "''zz''" sample_raw_http] by fastforce
qed

section \<open>Requests in two packets\<close>

text \<open>
  A packet that ends inside of the header is consumed completely, and the parser keeps its state. The marks are
  positions in this packet; the next packet is read to the front of the buffer.
\<close>

definition fresh_parser :: "http_parser \<Rightarrow> http_parser" where
  "fresh_parser raw = (http_parser_init raw)\<lparr>nread := 0, mark := 0, field_len := 0, field_start := 0\<rparr>"

lemma first_packet:
  assumes "http_steps (uri_relaxed raw \<noteq> 0) data (length pkt) 1 pkt 0 (fresh_parser raw) b R f"
    and "data = pkt @ r" "length data < 2 ^ 63 - 1" "pkt \<noteq> []"
  shows "request_execute http_machine (HttpRequestParser_new raw) data (length pkt) 0 =
     Inr (\<lparr>rp_parser = R\<lparr>cs := int b, nread := length pkt\<rparr>, rp_data = f (HttpRequest_new 0x11 True), rp_error = 0\<rparr>,
       data, length pkt)"
proof -
  let ?P = "HttpRequestParser_new raw" and ?r = "fresh_parser raw"
  have r: "cs ?r = 1" "parser_ok ?r" "uri_relaxed ?r = uri_relaxed raw" "mark ?r = 0" "field_start ?r = 0" "field_len ?r = 0"
    by (simp_all add: fresh_parser_def http_parser_init_def http_parser_start_def parser_ok_def)
  obtain es where e: "ragel_run (http_switch (uri_relaxed raw \<noteq> 0)) (http_act data (length pkt)) 1 pkt 0 (?r, []) = ((R, es), b, length pkt)"
      "on_requests ?P es = Inr (?P\<lparr>rp_data := f (rp_data ?P)\<rparr>)"
    using assms(1) unfolding http_steps_def by (metis append_Nil plus_nat.add_0 stays_run)
  have m: "http_machine ?r data (length pkt) 0 = (es, R, int b, length pkt)"
    using e(1) r(1,3) assms(2) by (simp add: http_machine_def)
  have ok: "marks_in (length pkt) R" "nread R = 0" "cs R = 1"
    using http_machine_ok [OF r(2) _ r(4-6) _ _ _ assms(3) _ m] http_machine_frame [OF m] r(1) assms(2,4)
    by (simp_all add: in_query_def http_parser_first_final_def fresh_parser_def)
  have "http_parser_execute http_machine (http_parser_init raw) data (length pkt) 0 =
      Inr (es, R\<lparr>cs := int b, nread := length pkt\<rparr>, length pkt)"
    using m ok assms(4) by (simp add: http_parser_execute_def marks_in_def Let_def http_parser_has_error_def
        http_parser_error_def fresh_parser_def)
  then show ?thesis using e(2) assms(2) by (simp add: request_execute_def memmove_front_def HttpRequestParser_new_def)
qed

text \<open>The machine only adds to the events.\<close>

lemma http_act_shift:
  "http_act buffer pe a p (r, E @ es) = (case http_act buffer pe a p (r, es) of ((r', es'), out) \<Rightarrow> ((r', E @ es'), out))"
  by (cases a) simp_all

lemma do_actions_shift:
  "do_actions (http_act buffer pe) as p (r, E @ es) =
     (case do_actions (http_act buffer pe) as p (r, es) of ((r', es'), out) \<Rightarrow> ((r', E @ es'), out))"
  by (induction as arbitrary: r es) (simp_all add: http_act_shift split: prod.splits)

lemma http_run_shift:
  "ragel_run sw (http_act buffer pe) c w p (r, E @ es) =
     (case ragel_run sw (http_act buffer pe) c w p (r, es) of ((r', es'), t, e) \<Rightarrow> ((r', E @ es'), t, e))"
proof (induction w arbitrary: c p r es)
  case (Cons x w)
  then show ?case by (simp add: do_actions_shift split: option.splits prod.splits)
qed simp

text \<open>A packet whose query continues the query of the packet before, and ends in front of where that one started.\<close>

lemma second_query_packet:
  assumes "cs R = 30" "length q < query_start R" "list_all args_char q"
    and "data = (q @ '' '' @ v) @ r" "query_start R \<le> length data" "length data < 2 ^ 63 - 1" "body_start R = 0"
  shows "request_execute http_machine \<lparr>rp_parser = R, rp_data = d, rp_error = e\<rparr> data (length (q @ '' '' @ v)) 0 =
    Inl (Logic_error ''length_error'')"
proof -
  let ?len = "length (q @ '' '' @ v)" and ?sw = "http_switch (uri_relaxed R \<noteq> 0)"
  let ?act = "http_act data ?len"
  let ?R = "R\<lparr>nread := 0, mark := 0, field_len := 0, field_start := 0\<rparr>"
  let ?ev = "query_string (drop (query_start R) data) (LEN (query_start R) (length q))"
  let ?es = "[?ev, request_uri data (LEN 0 (length q))]"
  have "stays ?sw ?act 30 q 0 (?R, []) (?R, []) 30"
    by (rule stays_loop) (use assms(3) in \<open>auto simp: http_switch_at list_all_iff intro: http_loops\<close>)
  moreover have "stays ?sw ?act 30 '' '' (length q) (?R, []) (?R, ?es) 4"
    by (rule stays_step [where as = "[h_query_string, h_request_uri]"])
      (simp_all add: http_switch_at schar_http_delims http_st30_def widec_def http_tr_defs)
  ultimately have a: "ragel_run ?sw ?act 30 (q @ '' '' @ v) 0 (?R, []) = ragel_run ?sw ?act 4 v (length q + 1) (?R, ?es)"
    by (simp add: stays_def)
  obtain R' es t k where b: "ragel_run ?sw ?act 4 v (length q + 1) (?R, []) = ((R', es), t, k)" by (metis surj_pair)
  have "run_ok ?len (length q + 1) (in_value 4) (in_query 4) (?R, [])"
    using assms(7) by (simp add: run_ok_def marks_in_def in_value_def in_query_def)
  from http_run_ok [OF b this] have "run_ok ?len k False (in_query t) (R', es)" using assms(4,6) by simp
  moreover have "ragel_run ?sw ?act 30 (q @ '' '' @ v) 0 (?R, []) = ((R', ?es @ es), t, k)"
    using a b http_run_shift [of ?sw data ?len 4 v "length q + 1" ?R ?es "[]"] by simp
  then have m: "http_machine ?R data ?len 0 = (?es @ es, R', int t, k)"
    using assms(1,4) by (simp add: http_machine_def)
  moreover have "k \<le> ?len" using ragel_run_pointer [OF b] by simp
  ultimately have "http_parser_execute http_machine R data ?len 0 = Inr (?es @ es, R'\<lparr>cs := int t, nread := k\<rparr>, k)"
    using http_machine_frame [OF m] assms(1)
    by (simp add: http_parser_execute_def run_ok_def marks_in_def Let_def http_parser_has_error_def http_parser_error_def)
  moreover have "2 ^ 63 \<le> LEN (query_start R) (length q)"
  proof -
    have "(2 :: nat) ^ 63 - 1 < 2 ^ 64" by simp
    then have "query_start R < 2 ^ 64" using assms(5,6) by linarith
    then have "LEN (query_start R) (length q) = 2 ^ 64 - (query_start R - length q)" using assms(2) by (intro LEN_gt)
    moreover have "(2 :: nat) ^ 64 = 2 ^ 63 + 2 ^ 63" by simp
    ultimately show ?thesis using assms(2,5,6) by linarith
  qed
  then have "int (2 ^ 63) \<le> int (LEN (query_start R) (length q))" by (simp only: of_nat_le_iff)
  then have "int (LEN (query_start R) (length q)) \<ge> 2 ^ 63 - 1" by simp
  then have "std_string (drop (query_start R) data) (LEN (query_start R) (length q)) = Inl (Logic_error ''length_error'')"
    by (simp add: std_string_def)
  ultimately show ?thesis by (simp add: request_execute_def on_request_query_def)
qed

text \<open>
  A request whose query is split over two packets ends the session with an exception. When the first packet ends
  inside of the query and the second brings the rest of it, of fewer characters than stand in front of the query, the
  parser reports the query with the start it had in the first packet and a length below zero, and the callback's
  \<open>std::string\<close> throws \<open>std::length_error\<close>, which nothing catches in \<open>recvRequest\<close>.
\<close>

theorem split_query_throws:
  assumes "m < 34" "m \<noteq> 24" "path_ok w" "list_all args_char q1" "q1 \<noteq> []" "list_all args_char q2"
    and "length q2 < length (HttpMethodToString m @ '' '' @ w @ ''?'')"
    and "pkt1 = HttpMethodToString m @ '' '' @ w @ ''?'' @ q1" "pkt2 = q2 @ '' '' @ v"
    and "read s (of_nat (length buffer)) = (len1, pkt1, s1)" "sint len1 = int (length pkt1)" "length pkt1 \<le> length buffer"
    and "read s1 (of_nat (length buffer)) = (len2, pkt2, s2)" "sint len2 = int (length pkt2)" "length pkt2 \<le> length buffer"
    and "length buffer < 2 ^ 63 - 1"
  shows "recvRequest http_machine lexical_cast read close raw buffer s = Some (Inl (Logic_error ''length_error''))"
proof -
  let ?d1 = "pkt1 @ drop (length pkt1) buffer" and ?rel = "uri_relaxed raw \<noteq> 0" and ?n = "length pkt1"
  let ?a = "HttpMethodToString m @ '' ''" and ?F = "fresh_parser raw"
  let ?R1 = "?F\<lparr>mark := length ?a\<rparr>"
  let ?q = "length (?a @ w @ ''?'')"
  let ?R = "?R1\<lparr>query_start := ?q\<rparr>"
  have l: "length ?d1 = length buffer" "length ?d1 < 2 ^ 63 - 1" using assms(12,16) by simp_all
  then have b: "buffer_at ?d1 0 (?a @ w @ ''?'' @ q1)" using assms(8) by (auto simp: buffer_at_def)
  have ba: "buffer_at ?d1 0 ?a" "buffer_at ?d1 (length ?a) w"
    using buffer_at_append [OF b] buffer_at_append [of ?d1 "0 + length ?a" w "''?'' @ q1"] by simp_all
  have 1: "http_steps ?rel ?d1 ?n 1 ?a 0 ?F 3 (?F\<lparr>mark := 0\<rparr>) (rq_method_update (\<lambda>_. m))"
    using run_method [OF assms(1,2)] ba(1) by blast
  obtain st where st: "st \<in> {26, 33}" "http_steps ?rel ?d1 ?n 3 w (length ?a) (?F\<lparr>mark := 0\<rparr>) st ?R1 id"
    using run_path [OF assms(3), of ?rel ?d1 ?n "length ?a" "?F\<lparr>mark := 0\<rparr>"] by auto
  have 3: "http_steps ?rel ?d1 ?n st ''?'' (length ?a + length w) ?R1 29 ?R1 (rq_path_update (\<lambda>_. w))"
    using path_end(2) [OF st(1), of ?d1 ?R1 w] ba(2) by simp
  have 4: "http_steps ?rel ?d1 ?n 29 q1 (length ?a + length w + length ''?'') ?R1 30 ?R id"
    using run_args(1) [OF assms(4,5), of ?rel ?d1 ?n ?q ?R1] by (simp add: add.assoc)
  have 23: "http_steps ?rel ?d1 ?n 3 (w @ ''?'' @ q1) (0 + length ?a) (?F\<lparr>mark := 0\<rparr>) 30 ?R (rq_path_update (\<lambda>_. w))"
    using http_steps_trans [OF st(2) http_steps_trans [OF 3 4]] by simp
  obtain f where 5: "http_steps ?rel ?d1 ?n 1 pkt1 0 ?F 30 ?R f"
    using http_steps_trans [OF 1 23] assms(8) by auto
  let ?P = "?R\<lparr>cs := int 30, nread := ?n\<rparr>"
  let ?p = "\<lparr>rp_parser = ?P, rp_data = f (HttpRequest_new 0x11 True), rp_error = 0\<rparr>"
  have ne: "pkt1 \<noteq> []" using assms(5,8) by simp
  have e1: "request_execute http_machine (HttpRequestParser_new raw) ?d1 ?n 0 = Inr (?p, ?d1, ?n)"
    by (rule first_packet [OF 5 refl l(2) ne])
  have np: "\<not> request_hasError ?p" "request_isFinished ?p = 0"
    by (simp_all add: request_hasError_def request_isFinished_def http_parser_has_error_def http_parser_finish_def
        http_parser_error_def http_parser_is_finished_def http_parser_first_final_def)
  let ?d2 = "pkt2 @ drop (length pkt2) ?d1"
  have "body_start ?P = 0" by (simp add: fresh_parser_def http_parser_init_def)
  moreover have "?q \<le> length ?d2" using assms(8,12,15) l(1) by simp
  ultimately have e2: "request_execute http_machine ?p ?d2 (length pkt2) 0 = Inl (Logic_error ''length_error'')"
    using second_query_packet [of ?P q2 ?d2 v "drop (length pkt2) ?d1"] assms(6,7,9,15,16) l(1) by simp
  have "put_bytes buffer 0 pkt1 = Inr ?d1" "put_bytes ?d1 0 pkt2 = Inr ?d2"
    using assms(12,15) l(1) by (simp_all add: put_bytes_def)
  moreover have "0 < ?n" "0 < length pkt2" using ne assms(9) by auto
  moreover from this have "length buffer \<noteq> 0" using assms(12) by linarith
  ultimately have "recv_loop http_machine read close (length buffer) (HttpRequestParser_new raw) buffer 0 s =
      Some (Inl (Logic_error ''length_error''))"
    using assms(10,11,13,14) e1 e2 np
    by (subst recv_loop.simps, simp add: Let_def, subst recv_loop.simps, simp add: Let_def)
  then show ?thesis by (simp add: recvRequest_def)
qed

theorem split_query_throws_witness:
  "recvRequest http_machine (\<lambda>v. None) (\<lambda>s n. case s of [] \<Rightarrow> (0, [], []) | p # ps \<Rightarrow> (of_nat (length p), p, ps)) (\<lambda>s. s)
     sample_raw_http (replicate 40 (CHR ''x'')) [''GET /x?a=1'', ''2 HTTP/1.1''] = Some (Inl (Logic_error ''length_error''))"
proof (rule split_query_throws [where m = 1 and w = "''/x''" and ?q1.0 = "''a=1''" and ?q2.0 = "''2''" and v = "''HTTP/1.1''" and
      ?len1.0 = 10 and ?len2.0 = 10 and ?s1.0 = "[''2 HTTP/1.1'']" and ?s2.0 = "[]" and ?pkt1.0 = "''GET /x?a=1''" and
      ?pkt2.0 = "''2 HTTP/1.1''"])
  have g: "HttpMethodToString 1 = ''GET''" by code_simp
  show "length ''2'' < length (HttpMethodToString 1 @ '' '' @ ''/x'' @ ''?'')"
    "''GET /x?a=1'' = HttpMethodToString 1 @ '' '' @ ''/x'' @ ''?'' @ ''a=1''" by (simp_all add: g [unfolded One_nat_def])
  show "path_ok ''/x''" "list_all args_char ''a=1''" "list_all args_char ''2''" by code_simp+
qed simp_all

end
