(* ===== verification/Uri_Machine.thy ===== *)
theory Uri_Machine
  imports Ragel
begin

text \<open>
  The states and transitions of the machine \<open>uri_parser\<close> in \<open>mingfwq/uri.rl.cpp\<close>: \<open>uri_trk\<close> is the code at the label
  \<open>trk\<close>, the actions and the state that follows, and \<open>uri_stn\<close> the code of \<open>case n\<close>.
\<close>

datatype uri_action =
    marku | markh | save_scheme | save_port | save_userinfo | save_host | save_path | save_query | save_fragment

section \<open>Transitions\<close>

definition uri_tr467 :: "uri_action trans" where
  "uri_tr467 = Some ([marku, save_query], 453)"

definition uri_tr469 :: "uri_action trans" where
  "uri_tr469 = Some ([save_query], 453)"

definition uri_tr474 :: "uri_action trans" where
  "uri_tr474 = Some ([markh, save_host], 453)"

definition uri_tr485 :: "uri_action trans" where
  "uri_tr485 = Some ([save_host], 453)"

definition uri_tr489 :: "uri_action trans" where
  "uri_tr489 = Some ([markh, save_port], 453)"

definition uri_tr493 :: "uri_action trans" where
  "uri_tr493 = Some ([save_port], 453)"

definition uri_tr548 :: "uri_action trans" where
  "uri_tr548 = Some ([markh, save_host, save_path], 453)"

definition uri_tr559 :: "uri_action trans" where
  "uri_tr559 = Some ([save_host, markh, save_path], 453)"

definition uri_tr563 :: "uri_action trans" where
  "uri_tr563 = Some ([save_path], 453)"

definition uri_tr566 :: "uri_action trans" where
  "uri_tr566 = Some ([markh, save_port, save_path], 453)"

definition uri_tr570 :: "uri_action trans" where
  "uri_tr570 = Some ([save_port, markh, save_path], 453)"

definition uri_tr462 :: "uri_action trans" where
  "uri_tr462 = Some ([marku], 454)"

definition uri_tr463 :: "uri_action trans" where
  "uri_tr463 = Some ([marku], 1)"

definition uri_tr476 :: "uri_action trans" where
  "uri_tr476 = Some ([markh, save_host], 455)"

definition uri_tr486 :: "uri_action trans" where
  "uri_tr486 = Some ([save_host], 455)"

definition uri_tr490 :: "uri_action trans" where
  "uri_tr490 = Some ([markh, save_port], 455)"

definition uri_tr494 :: "uri_action trans" where
  "uri_tr494 = Some ([save_port], 455)"

definition uri_tr482 :: "uri_action trans" where
  "uri_tr482 = Some ([markh, save_host], 456)"

definition uri_tr488 :: "uri_action trans" where
  "uri_tr488 = Some ([save_host], 456)"

definition uri_tr492 :: "uri_action trans" where
  "uri_tr492 = Some ([markh, save_port], 456)"

definition uri_tr496 :: "uri_action trans" where
  "uri_tr496 = Some ([save_port], 456)"

definition uri_tr556 :: "uri_action trans" where
  "uri_tr556 = Some ([markh, save_host, save_path], 456)"

definition uri_tr562 :: "uri_action trans" where
  "uri_tr562 = Some ([save_host, markh, save_path], 456)"

definition uri_tr565 :: "uri_action trans" where
  "uri_tr565 = Some ([save_path], 456)"

definition uri_tr569 :: "uri_action trans" where
  "uri_tr569 = Some ([markh, save_port, save_path], 456)"

definition uri_tr573 :: "uri_action trans" where
  "uri_tr573 = Some ([save_port, markh, save_path], 456)"

definition uri_tr466 :: "uri_action trans" where
  "uri_tr466 = Some ([marku], 457)"

definition uri_tr468 :: "uri_action trans" where
  "uri_tr468 = Some ([marku], 7)"

definition uri_tr472 :: "uri_action trans" where
  "uri_tr472 = Some ([markh], 9)"

definition uri_tr507 :: "uri_action trans" where
  "uri_tr507 = Some ([markh, save_host], 461)"

definition uri_tr487 :: "uri_action trans" where
  "uri_tr487 = Some ([save_host], 461)"

definition uri_tr491 :: "uri_action trans" where
  "uri_tr491 = Some ([markh], 462)"

definition uri_tr473 :: "uri_action trans" where
  "uri_tr473 = Some ([markh], 467)"

definition uri_tr475 :: "uri_action trans" where
  "uri_tr475 = Some ([markh], 31)"

definition uri_tr481 :: "uri_action trans" where
  "uri_tr481 = Some ([markh, save_host], 468)"

definition uri_tr499 :: "uri_action trans" where
  "uri_tr499 = Some ([save_host], 468)"

definition uri_tr38 :: "uri_action trans" where
  "uri_tr38 = Some ([save_userinfo], 469)"

definition uri_tr483 :: "uri_action trans" where
  "uri_tr483 = Some ([markh, save_userinfo], 469)"

definition uri_tr501 :: "uri_action trans" where
  "uri_tr501 = Some ([markh], 470)"

definition uri_tr502 :: "uri_action trans" where
  "uri_tr502 = Some ([markh], 36)"

definition uri_tr503 :: "uri_action trans" where
  "uri_tr503 = Some ([markh], 471)"

definition uri_tr504 :: "uri_action trans" where
  "uri_tr504 = Some ([markh], 485)"

definition uri_tr506 :: "uri_action trans" where
  "uri_tr506 = Some ([markh], 486)"

definition uri_tr505 :: "uri_action trans" where
  "uri_tr505 = Some ([markh], 487)"

definition uri_tr484 :: "uri_action trans" where
  "uri_tr484 = Some ([markh], 38)"

definition uri_tr500 :: "uri_action trans" where
  "uri_tr500 = Some ([markh], 489)"

definition uri_tr477 :: "uri_action trans" where
  "uri_tr477 = Some ([markh], 490)"

definition uri_tr478 :: "uri_action trans" where
  "uri_tr478 = Some ([markh], 504)"

definition uri_tr480 :: "uri_action trans" where
  "uri_tr480 = Some ([markh], 505)"

definition uri_tr479 :: "uri_action trans" where
  "uri_tr479 = Some ([markh], 506)"

definition uri_tr461 :: "uri_action trans" where
  "uri_tr461 = Some ([marku], 508)"

definition uri_tr543 :: "uri_action trans" where
  "uri_tr543 = Some ([save_scheme], 509)"

definition uri_tr546 :: "uri_action trans" where
  "uri_tr546 = Some ([markh], 229)"

definition uri_tr550 :: "uri_action trans" where
  "uri_tr550 = Some ([markh, save_host], 513)"

definition uri_tr567 :: "uri_action trans" where
  "uri_tr567 = Some ([markh, save_port], 513)"

definition uri_tr560 :: "uri_action trans" where
  "uri_tr560 = Some ([save_host, markh], 513)"

definition uri_tr571 :: "uri_action trans" where
  "uri_tr571 = Some ([save_port, markh], 513)"

definition uri_tr584 :: "uri_action trans" where
  "uri_tr584 = Some ([markh, save_host], 514)"

definition uri_tr561 :: "uri_action trans" where
  "uri_tr561 = Some ([save_host], 514)"

definition uri_tr568 :: "uri_action trans" where
  "uri_tr568 = Some ([markh], 515)"

definition uri_tr547 :: "uri_action trans" where
  "uri_tr547 = Some ([markh], 520)"

definition uri_tr549 :: "uri_action trans" where
  "uri_tr549 = Some ([markh], 253)"

definition uri_tr555 :: "uri_action trans" where
  "uri_tr555 = Some ([markh, save_host], 521)"

definition uri_tr576 :: "uri_action trans" where
  "uri_tr576 = Some ([save_host], 521)"

definition uri_tr263 :: "uri_action trans" where
  "uri_tr263 = Some ([save_userinfo], 522)"

definition uri_tr557 :: "uri_action trans" where
  "uri_tr557 = Some ([markh, save_userinfo], 522)"

definition uri_tr578 :: "uri_action trans" where
  "uri_tr578 = Some ([markh], 523)"

definition uri_tr579 :: "uri_action trans" where
  "uri_tr579 = Some ([markh], 258)"

definition uri_tr580 :: "uri_action trans" where
  "uri_tr580 = Some ([markh], 524)"

definition uri_tr581 :: "uri_action trans" where
  "uri_tr581 = Some ([markh], 538)"

definition uri_tr583 :: "uri_action trans" where
  "uri_tr583 = Some ([markh], 539)"

definition uri_tr582 :: "uri_action trans" where
  "uri_tr582 = Some ([markh], 540)"

definition uri_tr558 :: "uri_action trans" where
  "uri_tr558 = Some ([markh], 260)"

definition uri_tr577 :: "uri_action trans" where
  "uri_tr577 = Some ([markh], 542)"

definition uri_tr551 :: "uri_action trans" where
  "uri_tr551 = Some ([markh], 543)"

definition uri_tr552 :: "uri_action trans" where
  "uri_tr552 = Some ([markh], 557)"

definition uri_tr554 :: "uri_action trans" where
  "uri_tr554 = Some ([markh], 558)"

definition uri_tr553 :: "uri_action trans" where
  "uri_tr553 = Some ([markh], 559)"

section \<open>States\<close>

definition uri_st451 :: "int \<Rightarrow> uri_action trans" where
  "uri_st451 c =
     (if c = 34 \<or> c = 58 \<or> c = 60 \<or> c = 62 \<or> c = 96 \<or> c = 127 then goto_st 0
      else if c = 35 then goto_st 453
      else if c = 37 then goto_st 3
      else if c = 47 then goto_st 458
      else if c = 63 then goto_st 456
      else if c < 91
      then (if c > 32
            then (if 65 \<le> c \<and> c \<le> 90 then uri_tr461
                  else goto_st 452)
            else if c \<ge> 0 then goto_st 0
            else goto_st 452)
      else if c > 94
      then (if c > 122
            then (if 123 \<le> c \<and> c \<le> 125 then goto_st 0
                  else goto_st 452)
            else if c \<ge> 97 then uri_tr461
            else goto_st 452)
      else goto_st 0)"

definition uri_st452 :: "int \<Rightarrow> uri_action trans" where
  "uri_st452 c =
     (if c = 34 \<or> c = 58 \<or> c = 60 \<or> c = 62 \<or> c = 96 \<or> c = 127 then goto_st 0
      else if c = 35 then goto_st 453
      else if c = 37 then goto_st 3
      else if c = 47 then goto_st 455
      else if c = 63 then goto_st 456
      else if c < 91
      then (if 0 \<le> c \<and> c \<le> 32 then goto_st 0
            else goto_st 452)
      else if c > 94
      then (if 123 \<le> c \<and> c \<le> 125 then goto_st 0
            else goto_st 452)
      else goto_st 0)"

definition uri_st453 :: "int \<Rightarrow> uri_action trans" where
  "uri_st453 c =
     (if c = 37 then uri_tr463
      else if c = 60 \<or> c = 62 \<or> c = 96 \<or> c = 127 then goto_st 0
      else if c < 34
      then (if 0 \<le> c \<and> c \<le> 32 then goto_st 0
            else uri_tr462)
      else if c > 35
      then (if c > 94
            then (if 123 \<le> c \<and> c \<le> 125 then goto_st 0
                  else uri_tr462)
            else if c \<ge> 91 then goto_st 0
            else uri_tr462)
      else goto_st 0)"

definition uri_st454 :: "int \<Rightarrow> uri_action trans" where
  "uri_st454 c =
     (if c = 37 then goto_st 1
      else if c = 60 \<or> c = 62 \<or> c = 96 \<or> c = 127 then goto_st 0
      else if c < 34
      then (if 0 \<le> c \<and> c \<le> 32 then goto_st 0
            else goto_st 454)
      else if c > 35
      then (if c > 94
            then (if 123 \<le> c \<and> c \<le> 125 then goto_st 0
                  else goto_st 454)
            else if c \<ge> 91 then goto_st 0
            else goto_st 454)
      else goto_st 0)"

definition uri_st1 :: "int \<Rightarrow> uri_action trans" where
  "uri_st1 c =
     (if c < 65
      then (if 48 \<le> c \<and> c \<le> 57 then goto_st 2
            else goto_st 0)
      else if c > 70
      then (if 97 \<le> c \<and> c \<le> 102 then goto_st 2
            else goto_st 0)
      else goto_st 2)"

definition uri_st2 :: "int \<Rightarrow> uri_action trans" where
  "uri_st2 c =
     (if c < 65
      then (if 48 \<le> c \<and> c \<le> 57 then goto_st 454
            else goto_st 0)
      else if c > 70
      then (if 97 \<le> c \<and> c \<le> 102 then goto_st 454
            else goto_st 0)
      else goto_st 454)"

definition uri_st3 :: "int \<Rightarrow> uri_action trans" where
  "uri_st3 c =
     (if c < 65
      then (if 48 \<le> c \<and> c \<le> 57 then goto_st 4
            else goto_st 0)
      else if c > 70
      then (if 97 \<le> c \<and> c \<le> 102 then goto_st 4
            else goto_st 0)
      else goto_st 4)"

definition uri_st4 :: "int \<Rightarrow> uri_action trans" where
  "uri_st4 c =
     (if c < 65
      then (if 48 \<le> c \<and> c \<le> 57 then goto_st 452
            else goto_st 0)
      else if c > 70
      then (if 97 \<le> c \<and> c \<le> 102 then goto_st 452
            else goto_st 0)
      else goto_st 452)"

definition uri_st455 :: "int \<Rightarrow> uri_action trans" where
  "uri_st455 c =
     (if c = 34 \<or> c = 60 \<or> c = 62 \<or> c = 96 \<or> c = 127 then goto_st 0
      else if c = 35 then goto_st 453
      else if c = 37 then goto_st 5
      else if c = 63 then goto_st 456
      else if c < 91
      then (if 0 \<le> c \<and> c \<le> 32 then goto_st 0
            else goto_st 455)
      else if c > 94
      then (if 123 \<le> c \<and> c \<le> 125 then goto_st 0
            else goto_st 455)
      else goto_st 0)"

definition uri_st5 :: "int \<Rightarrow> uri_action trans" where
  "uri_st5 c =
     (if c < 65
      then (if 48 \<le> c \<and> c \<le> 57 then goto_st 6
            else goto_st 0)
      else if c > 70
      then (if 97 \<le> c \<and> c \<le> 102 then goto_st 6
            else goto_st 0)
      else goto_st 6)"

definition uri_st6 :: "int \<Rightarrow> uri_action trans" where
  "uri_st6 c =
     (if c < 65
      then (if 48 \<le> c \<and> c \<le> 57 then goto_st 455
            else goto_st 0)
      else if c > 70
      then (if 97 \<le> c \<and> c \<le> 102 then goto_st 455
            else goto_st 0)
      else goto_st 455)"

definition uri_st456 :: "int \<Rightarrow> uri_action trans" where
  "uri_st456 c =
     (if c = 34 \<or> c = 60 \<or> c = 62 \<or> c = 96 \<or> c = 127 then goto_st 0
      else if c = 35 then uri_tr467
      else if c = 37 then uri_tr468
      else if c < 91
      then (if 0 \<le> c \<and> c \<le> 32 then goto_st 0
            else uri_tr466)
      else if c > 94
      then (if 123 \<le> c \<and> c \<le> 125 then goto_st 0
            else uri_tr466)
      else goto_st 0)"

definition uri_st457 :: "int \<Rightarrow> uri_action trans" where
  "uri_st457 c =
     (if c = 34 \<or> c = 60 \<or> c = 62 \<or> c = 96 \<or> c = 127 then goto_st 0
      else if c = 35 then uri_tr469
      else if c = 37 then goto_st 7
      else if c < 91
      then (if 0 \<le> c \<and> c \<le> 32 then goto_st 0
            else goto_st 457)
      else if c > 94
      then (if 123 \<le> c \<and> c \<le> 125 then goto_st 0
            else goto_st 457)
      else goto_st 0)"

definition uri_st7 :: "int \<Rightarrow> uri_action trans" where
  "uri_st7 c =
     (if c < 65
      then (if 48 \<le> c \<and> c \<le> 57 then goto_st 8
            else goto_st 0)
      else if c > 70
      then (if 97 \<le> c \<and> c \<le> 102 then goto_st 8
            else goto_st 0)
      else goto_st 8)"

definition uri_st8 :: "int \<Rightarrow> uri_action trans" where
  "uri_st8 c =
     (if c < 65
      then (if 48 \<le> c \<and> c \<le> 57 then goto_st 457
            else goto_st 0)
      else if c > 70
      then (if 97 \<le> c \<and> c \<le> 102 then goto_st 457
            else goto_st 0)
      else goto_st 457)"

definition uri_st458 :: "int \<Rightarrow> uri_action trans" where
  "uri_st458 c =
     (if c = 34 \<or> c = 60 \<or> c = 62 \<or> c = 96 \<or> c = 127 then goto_st 0
      else if c = 35 then goto_st 453
      else if c = 37 then goto_st 5
      else if c = 47 then goto_st 459
      else if c = 63 then goto_st 456
      else if c < 91
      then (if 0 \<le> c \<and> c \<le> 32 then goto_st 0
            else goto_st 455)
      else if c > 94
      then (if 123 \<le> c \<and> c \<le> 125 then goto_st 0
            else goto_st 455)
      else goto_st 0)"

definition uri_st459 :: "int \<Rightarrow> uri_action trans" where
  "uri_st459 c =
     (if c = 2 then uri_tr472
      else if c = 33 \<or> c = 59 \<or> c = 61 \<or> c = 95 \<or> c = 126 then uri_tr473
      else if c = 35 then uri_tr474
      else if c = 37 then uri_tr475
      else if c = 47 then uri_tr476
      else if c = 48 then uri_tr477
      else if c = 49 then uri_tr478
      else if c = 50 then uri_tr479
      else if c = 58 then uri_tr481
      else if c = 63 then uri_tr482
      else if c = 64 then uri_tr483
      else if c = 91 then uri_tr484
      else if c < 51
      then (if 36 \<le> c \<and> c \<le> 46 then uri_tr473
            else goto_st 0)
      else if c > 57
      then (if c > 90
            then (if 97 \<le> c \<and> c \<le> 122 then uri_tr473
                  else goto_st 0)
            else if c \<ge> 65 then uri_tr473
            else goto_st 0)
      else uri_tr480)"

definition uri_st9 :: "int \<Rightarrow> uri_action trans" where
  "uri_st9 c =
     (if 48 \<le> c \<and> c \<le> 52 then goto_st 10
      else goto_st 0)"

definition uri_st10 :: "int \<Rightarrow> uri_action trans" where
  "uri_st10 c =
     (if 48 \<le> c \<and> c \<le> 57 then goto_st 11
      else goto_st 0)"

definition uri_st11 :: "int \<Rightarrow> uri_action trans" where
  "uri_st11 c =
     (if c = 46 then goto_st 12
      else goto_st 0)"

definition uri_st12 :: "int \<Rightarrow> uri_action trans" where
  "uri_st12 c =
     (if c = 2 then goto_st 13
      else if c = 48 then goto_st 15
      else if c = 49 then goto_st 27
      else if c = 50 then goto_st 29
      else if 51 \<le> c \<and> c \<le> 57 then goto_st 28
      else goto_st 0)"

definition uri_st13 :: "int \<Rightarrow> uri_action trans" where
  "uri_st13 c =
     (if 48 \<le> c \<and> c \<le> 52 then goto_st 14
      else goto_st 0)"

definition uri_st14 :: "int \<Rightarrow> uri_action trans" where
  "uri_st14 c =
     (if 48 \<le> c \<and> c \<le> 57 then goto_st 15
      else goto_st 0)"

definition uri_st15 :: "int \<Rightarrow> uri_action trans" where
  "uri_st15 c =
     (if c = 46 then goto_st 16
      else goto_st 0)"

definition uri_st16 :: "int \<Rightarrow> uri_action trans" where
  "uri_st16 c =
     (if c = 2 then goto_st 17
      else if c = 48 then goto_st 19
      else if c = 49 then goto_st 23
      else if c = 50 then goto_st 25
      else if 51 \<le> c \<and> c \<le> 57 then goto_st 24
      else goto_st 0)"

definition uri_st17 :: "int \<Rightarrow> uri_action trans" where
  "uri_st17 c =
     (if 48 \<le> c \<and> c \<le> 52 then goto_st 18
      else goto_st 0)"

definition uri_st18 :: "int \<Rightarrow> uri_action trans" where
  "uri_st18 c =
     (if 48 \<le> c \<and> c \<le> 57 then goto_st 19
      else goto_st 0)"

definition uri_st19 :: "int \<Rightarrow> uri_action trans" where
  "uri_st19 c =
     (if c = 46 then goto_st 20
      else goto_st 0)"

definition uri_st20 :: "int \<Rightarrow> uri_action trans" where
  "uri_st20 c =
     (if c = 2 then goto_st 21
      else if c = 48 then goto_st 460
      else if c = 49 then goto_st 463
      else if c = 50 then goto_st 465
      else if 51 \<le> c \<and> c \<le> 57 then goto_st 464
      else goto_st 0)"

definition uri_st21 :: "int \<Rightarrow> uri_action trans" where
  "uri_st21 c =
     (if 48 \<le> c \<and> c \<le> 52 then goto_st 22
      else goto_st 0)"

definition uri_st22 :: "int \<Rightarrow> uri_action trans" where
  "uri_st22 c =
     (if 48 \<le> c \<and> c \<le> 57 then goto_st 460
      else goto_st 0)"

definition uri_st460 :: "int \<Rightarrow> uri_action trans" where
  "uri_st460 c =
     (if c = 35 then uri_tr485
      else if c = 47 then uri_tr486
      else if c = 58 then uri_tr487
      else if c = 63 then uri_tr488
      else goto_st 0)"

definition uri_st461 :: "int \<Rightarrow> uri_action trans" where
  "uri_st461 c =
     (if c = 35 then uri_tr489
      else if c = 47 then uri_tr490
      else if c = 63 then uri_tr492
      else if 48 \<le> c \<and> c \<le> 57 then uri_tr491
      else goto_st 0)"

definition uri_st462 :: "int \<Rightarrow> uri_action trans" where
  "uri_st462 c =
     (if c = 35 then uri_tr493
      else if c = 47 then uri_tr494
      else if c = 63 then uri_tr496
      else if 48 \<le> c \<and> c \<le> 57 then goto_st 462
      else goto_st 0)"

definition uri_st463 :: "int \<Rightarrow> uri_action trans" where
  "uri_st463 c =
     (if c = 35 then uri_tr485
      else if c = 47 then uri_tr486
      else if c = 58 then uri_tr487
      else if c = 63 then uri_tr488
      else if 48 \<le> c \<and> c \<le> 57 then goto_st 464
      else goto_st 0)"

definition uri_st464 :: "int \<Rightarrow> uri_action trans" where
  "uri_st464 c =
     (if c = 35 then uri_tr485
      else if c = 47 then uri_tr486
      else if c = 58 then uri_tr487
      else if c = 63 then uri_tr488
      else if 48 \<le> c \<and> c \<le> 57 then goto_st 460
      else goto_st 0)"

definition uri_st465 :: "int \<Rightarrow> uri_action trans" where
  "uri_st465 c =
     (if c = 35 then uri_tr485
      else if c = 47 then uri_tr486
      else if c = 53 then goto_st 466
      else if c = 58 then uri_tr487
      else if c = 63 then uri_tr488
      else if 48 \<le> c \<and> c \<le> 57 then goto_st 460
      else goto_st 0)"

definition uri_st466 :: "int \<Rightarrow> uri_action trans" where
  "uri_st466 c =
     (if c = 35 then uri_tr485
      else if c = 47 then uri_tr486
      else if c = 58 then uri_tr487
      else if c = 63 then uri_tr488
      else if 48 \<le> c \<and> c \<le> 53 then goto_st 460
      else goto_st 0)"

definition uri_st23 :: "int \<Rightarrow> uri_action trans" where
  "uri_st23 c =
     (if c = 46 then goto_st 20
      else if 48 \<le> c \<and> c \<le> 57 then goto_st 24
      else goto_st 0)"

definition uri_st24 :: "int \<Rightarrow> uri_action trans" where
  "uri_st24 c =
     (if c = 46 then goto_st 20
      else if 48 \<le> c \<and> c \<le> 57 then goto_st 19
      else goto_st 0)"

definition uri_st25 :: "int \<Rightarrow> uri_action trans" where
  "uri_st25 c =
     (if c = 46 then goto_st 20
      else if c = 53 then goto_st 26
      else if 48 \<le> c \<and> c \<le> 57 then goto_st 19
      else goto_st 0)"

definition uri_st26 :: "int \<Rightarrow> uri_action trans" where
  "uri_st26 c =
     (if c = 46 then goto_st 20
      else if 48 \<le> c \<and> c \<le> 53 then goto_st 19
      else goto_st 0)"

definition uri_st27 :: "int \<Rightarrow> uri_action trans" where
  "uri_st27 c =
     (if c = 46 then goto_st 16
      else if 48 \<le> c \<and> c \<le> 57 then goto_st 28
      else goto_st 0)"

definition uri_st28 :: "int \<Rightarrow> uri_action trans" where
  "uri_st28 c =
     (if c = 46 then goto_st 16
      else if 48 \<le> c \<and> c \<le> 57 then goto_st 15
      else goto_st 0)"

definition uri_st29 :: "int \<Rightarrow> uri_action trans" where
  "uri_st29 c =
     (if c = 46 then goto_st 16
      else if c = 53 then goto_st 30
      else if 48 \<le> c \<and> c \<le> 57 then goto_st 15
      else goto_st 0)"

definition uri_st30 :: "int \<Rightarrow> uri_action trans" where
  "uri_st30 c =
     (if c = 46 then goto_st 16
      else if 48 \<le> c \<and> c \<le> 53 then goto_st 15
      else goto_st 0)"

definition uri_st467 :: "int \<Rightarrow> uri_action trans" where
  "uri_st467 c =
     (if c = 33 \<or> c = 61 \<or> c = 95 \<or> c = 126 then goto_st 467
      else if c = 35 then uri_tr485
      else if c = 37 then goto_st 31
      else if c = 47 then uri_tr486
      else if c = 58 then uri_tr499
      else if c = 63 then uri_tr488
      else if c = 64 then uri_tr38
      else if c < 65
      then (if 36 \<le> c \<and> c \<le> 59 then goto_st 467
            else goto_st 0)
      else if c > 90
      then (if 97 \<le> c \<and> c \<le> 122 then goto_st 467
            else goto_st 0)
      else goto_st 467)"

definition uri_st31 :: "int \<Rightarrow> uri_action trans" where
  "uri_st31 c =
     (if c < 65
      then (if 48 \<le> c \<and> c \<le> 57 then goto_st 32
            else goto_st 0)
      else if c > 70
      then (if 97 \<le> c \<and> c \<le> 102 then goto_st 32
            else goto_st 0)
      else goto_st 32)"

definition uri_st32 :: "int \<Rightarrow> uri_action trans" where
  "uri_st32 c =
     (if c < 65
      then (if 48 \<le> c \<and> c \<le> 57 then goto_st 467
            else goto_st 0)
      else if c > 70
      then (if 97 \<le> c \<and> c \<le> 102 then goto_st 467
            else goto_st 0)
      else goto_st 467)"

definition uri_st468 :: "int \<Rightarrow> uri_action trans" where
  "uri_st468 c =
     (if c = 33 \<or> c = 61 \<or> c = 95 \<or> c = 126 then goto_st 33
      else if c = 35 then uri_tr489
      else if c = 37 then goto_st 34
      else if c = 47 then uri_tr490
      else if c = 63 then uri_tr492
      else if c = 64 then uri_tr38
      else if c < 58
      then (if c > 46
            then (if 48 \<le> c \<and> c \<le> 57 then uri_tr500
                  else goto_st 0)
            else if c \<ge> 36 then goto_st 33
            else goto_st 0)
      else if c > 59
      then (if c > 90
            then (if 97 \<le> c \<and> c \<le> 122 then goto_st 33
                  else goto_st 0)
            else if c \<ge> 65 then goto_st 33
            else goto_st 0)
      else goto_st 33)"

definition uri_st33 :: "int \<Rightarrow> uri_action trans" where
  "uri_st33 c =
     (if c = 33 \<or> c = 61 \<or> c = 95 \<or> c = 126 then goto_st 33
      else if c = 37 then goto_st 34
      else if c = 64 then uri_tr38
      else if c < 48
      then (if 36 \<le> c \<and> c \<le> 46 then goto_st 33
            else goto_st 0)
      else if c > 59
      then (if c > 90
            then (if 97 \<le> c \<and> c \<le> 122 then goto_st 33
                  else goto_st 0)
            else if c \<ge> 65 then goto_st 33
            else goto_st 0)
      else goto_st 33)"

definition uri_st34 :: "int \<Rightarrow> uri_action trans" where
  "uri_st34 c =
     (if c < 65
      then (if 48 \<le> c \<and> c \<le> 57 then goto_st 35
            else goto_st 0)
      else if c > 70
      then (if 97 \<le> c \<and> c \<le> 102 then goto_st 35
            else goto_st 0)
      else goto_st 35)"

definition uri_st35 :: "int \<Rightarrow> uri_action trans" where
  "uri_st35 c =
     (if c < 65
      then (if 48 \<le> c \<and> c \<le> 57 then goto_st 33
            else goto_st 0)
      else if c > 70
      then (if 97 \<le> c \<and> c \<le> 102 then goto_st 33
            else goto_st 0)
      else goto_st 33)"

definition uri_st469 :: "int \<Rightarrow> uri_action trans" where
  "uri_st469 c =
     (if c = 2 then uri_tr472
      else if c = 33 \<or> c = 59 \<or> c = 61 \<or> c = 95 \<or> c = 126 then uri_tr501
      else if c = 35 then uri_tr474
      else if c = 37 then uri_tr502
      else if c = 47 then uri_tr476
      else if c = 48 then uri_tr503
      else if c = 49 then uri_tr504
      else if c = 50 then uri_tr505
      else if c = 58 then uri_tr507
      else if c = 63 then uri_tr482
      else if c = 91 then uri_tr484
      else if c < 51
      then (if 36 \<le> c \<and> c \<le> 46 then uri_tr501
            else goto_st 0)
      else if c > 57
      then (if c > 90
            then (if 97 \<le> c \<and> c \<le> 122 then uri_tr501
                  else goto_st 0)
            else if c \<ge> 65 then uri_tr501
            else goto_st 0)
      else uri_tr506)"

definition uri_st470 :: "int \<Rightarrow> uri_action trans" where
  "uri_st470 c =
     (if c = 33 \<or> c = 61 \<or> c = 95 \<or> c = 126 then goto_st 470
      else if c = 35 then uri_tr485
      else if c = 37 then goto_st 36
      else if c = 47 then uri_tr486
      else if c = 58 then uri_tr487
      else if c = 63 then uri_tr488
      else if c < 65
      then (if 36 \<le> c \<and> c \<le> 59 then goto_st 470
            else goto_st 0)
      else if c > 90
      then (if 97 \<le> c \<and> c \<le> 122 then goto_st 470
            else goto_st 0)
      else goto_st 470)"

definition uri_st36 :: "int \<Rightarrow> uri_action trans" where
  "uri_st36 c =
     (if c < 65
      then (if 48 \<le> c \<and> c \<le> 57 then goto_st 37
            else goto_st 0)
      else if c > 70
      then (if 97 \<le> c \<and> c \<le> 102 then goto_st 37
            else goto_st 0)
      else goto_st 37)"

definition uri_st37 :: "int \<Rightarrow> uri_action trans" where
  "uri_st37 c =
     (if c < 65
      then (if 48 \<le> c \<and> c \<le> 57 then goto_st 470
            else goto_st 0)
      else if c > 70
      then (if 97 \<le> c \<and> c \<le> 102 then goto_st 470
            else goto_st 0)
      else goto_st 470)"

definition uri_st471 :: "int \<Rightarrow> uri_action trans" where
  "uri_st471 c =
     (if c = 33 \<or> c = 61 \<or> c = 95 \<or> c = 126 then goto_st 470
      else if c = 35 then uri_tr485
      else if c = 37 then goto_st 36
      else if c = 46 then goto_st 472
      else if c = 47 then uri_tr486
      else if c = 58 then uri_tr487
      else if c = 63 then uri_tr488
      else if c < 65
      then (if 36 \<le> c \<and> c \<le> 59 then goto_st 470
            else goto_st 0)
      else if c > 90
      then (if 97 \<le> c \<and> c \<le> 122 then goto_st 470
            else goto_st 0)
      else goto_st 470)"

definition uri_st472 :: "int \<Rightarrow> uri_action trans" where
  "uri_st472 c =
     (if c = 2 then goto_st 13
      else if c = 33 \<or> c = 59 \<or> c = 61 \<or> c = 95 \<or> c = 126 then goto_st 470
      else if c = 35 then uri_tr485
      else if c = 37 then goto_st 36
      else if c = 47 then uri_tr486
      else if c = 48 then goto_st 473
      else if c = 49 then goto_st 481
      else if c = 50 then goto_st 483
      else if c = 58 then uri_tr487
      else if c = 63 then uri_tr488
      else if c < 51
      then (if 36 \<le> c \<and> c \<le> 46 then goto_st 470
            else goto_st 0)
      else if c > 57
      then (if c > 90
            then (if 97 \<le> c \<and> c \<le> 122 then goto_st 470
                  else goto_st 0)
            else if c \<ge> 65 then goto_st 470
            else goto_st 0)
      else goto_st 482)"

definition uri_st473 :: "int \<Rightarrow> uri_action trans" where
  "uri_st473 c =
     (if c = 33 \<or> c = 61 \<or> c = 95 \<or> c = 126 then goto_st 470
      else if c = 35 then uri_tr485
      else if c = 37 then goto_st 36
      else if c = 46 then goto_st 474
      else if c = 47 then uri_tr486
      else if c = 58 then uri_tr487
      else if c = 63 then uri_tr488
      else if c < 65
      then (if 36 \<le> c \<and> c \<le> 59 then goto_st 470
            else goto_st 0)
      else if c > 90
      then (if 97 \<le> c \<and> c \<le> 122 then goto_st 470
            else goto_st 0)
      else goto_st 470)"

definition uri_st474 :: "int \<Rightarrow> uri_action trans" where
  "uri_st474 c =
     (if c = 2 then goto_st 17
      else if c = 33 \<or> c = 59 \<or> c = 61 \<or> c = 95 \<or> c = 126 then goto_st 470
      else if c = 35 then uri_tr485
      else if c = 37 then goto_st 36
      else if c = 47 then uri_tr486
      else if c = 48 then goto_st 475
      else if c = 49 then goto_st 477
      else if c = 50 then goto_st 479
      else if c = 58 then uri_tr487
      else if c = 63 then uri_tr488
      else if c < 51
      then (if 36 \<le> c \<and> c \<le> 46 then goto_st 470
            else goto_st 0)
      else if c > 57
      then (if c > 90
            then (if 97 \<le> c \<and> c \<le> 122 then goto_st 470
                  else goto_st 0)
            else if c \<ge> 65 then goto_st 470
            else goto_st 0)
      else goto_st 478)"

definition uri_st475 :: "int \<Rightarrow> uri_action trans" where
  "uri_st475 c =
     (if c = 33 \<or> c = 61 \<or> c = 95 \<or> c = 126 then goto_st 470
      else if c = 35 then uri_tr485
      else if c = 37 then goto_st 36
      else if c = 46 then goto_st 476
      else if c = 47 then uri_tr486
      else if c = 58 then uri_tr487
      else if c = 63 then uri_tr488
      else if c < 65
      then (if 36 \<le> c \<and> c \<le> 59 then goto_st 470
            else goto_st 0)
      else if c > 90
      then (if 97 \<le> c \<and> c \<le> 122 then goto_st 470
            else goto_st 0)
      else goto_st 470)"

definition uri_st476 :: "int \<Rightarrow> uri_action trans" where
  "uri_st476 c =
     (if c = 2 then goto_st 21
      else if c = 33 \<or> c = 61 \<or> c = 95 \<or> c = 126 then goto_st 470
      else if c = 35 then uri_tr485
      else if c = 37 then goto_st 36
      else if c = 47 then uri_tr486
      else if c = 58 then uri_tr487
      else if c = 63 then uri_tr488
      else if c < 65
      then (if 36 \<le> c \<and> c \<le> 59 then goto_st 470
            else goto_st 0)
      else if c > 90
      then (if 97 \<le> c \<and> c \<le> 122 then goto_st 470
            else goto_st 0)
      else goto_st 470)"

definition uri_st477 :: "int \<Rightarrow> uri_action trans" where
  "uri_st477 c =
     (if c = 33 \<or> c = 59 \<or> c = 61 \<or> c = 95 \<or> c = 126 then goto_st 470
      else if c = 35 then uri_tr485
      else if c = 37 then goto_st 36
      else if c = 46 then goto_st 476
      else if c = 47 then uri_tr486
      else if c = 58 then uri_tr487
      else if c = 63 then uri_tr488
      else if c < 48
      then (if 36 \<le> c \<and> c \<le> 45 then goto_st 470
            else goto_st 0)
      else if c > 57
      then (if c > 90
            then (if 97 \<le> c \<and> c \<le> 122 then goto_st 470
                  else goto_st 0)
            else if c \<ge> 65 then goto_st 470
            else goto_st 0)
      else goto_st 478)"

definition uri_st478 :: "int \<Rightarrow> uri_action trans" where
  "uri_st478 c =
     (if c = 33 \<or> c = 59 \<or> c = 61 \<or> c = 95 \<or> c = 126 then goto_st 470
      else if c = 35 then uri_tr485
      else if c = 37 then goto_st 36
      else if c = 46 then goto_st 476
      else if c = 47 then uri_tr486
      else if c = 58 then uri_tr487
      else if c = 63 then uri_tr488
      else if c < 48
      then (if 36 \<le> c \<and> c \<le> 45 then goto_st 470
            else goto_st 0)
      else if c > 57
      then (if c > 90
            then (if 97 \<le> c \<and> c \<le> 122 then goto_st 470
                  else goto_st 0)
            else if c \<ge> 65 then goto_st 470
            else goto_st 0)
      else goto_st 475)"

definition uri_st479 :: "int \<Rightarrow> uri_action trans" where
  "uri_st479 c =
     (if c = 33 \<or> c = 59 \<or> c = 61 \<or> c = 95 \<or> c = 126 then goto_st 470
      else if c = 35 then uri_tr485
      else if c = 37 then goto_st 36
      else if c = 46 then goto_st 476
      else if c = 47 then uri_tr486
      else if c = 53 then goto_st 480
      else if c = 58 then uri_tr487
      else if c = 63 then uri_tr488
      else if c < 48
      then (if 36 \<le> c \<and> c \<le> 45 then goto_st 470
            else goto_st 0)
      else if c > 57
      then (if c > 90
            then (if 97 \<le> c \<and> c \<le> 122 then goto_st 470
                  else goto_st 0)
            else if c \<ge> 65 then goto_st 470
            else goto_st 0)
      else goto_st 475)"

definition uri_st480 :: "int \<Rightarrow> uri_action trans" where
  "uri_st480 c =
     (if c = 33 \<or> c = 61 \<or> c = 95 \<or> c = 126 then goto_st 470
      else if c = 35 then uri_tr485
      else if c = 37 then goto_st 36
      else if c = 46 then goto_st 476
      else if c = 47 then uri_tr486
      else if c = 58 then uri_tr487
      else if c = 63 then uri_tr488
      else if c < 54
      then (if c > 45
            then (if 48 \<le> c \<and> c \<le> 53 then goto_st 475
                  else goto_st 0)
            else if c \<ge> 36 then goto_st 470
            else goto_st 0)
      else if c > 59
      then (if c > 90
            then (if 97 \<le> c \<and> c \<le> 122 then goto_st 470
                  else goto_st 0)
            else if c \<ge> 65 then goto_st 470
            else goto_st 0)
      else goto_st 470)"

definition uri_st481 :: "int \<Rightarrow> uri_action trans" where
  "uri_st481 c =
     (if c = 33 \<or> c = 59 \<or> c = 61 \<or> c = 95 \<or> c = 126 then goto_st 470
      else if c = 35 then uri_tr485
      else if c = 37 then goto_st 36
      else if c = 46 then goto_st 474
      else if c = 47 then uri_tr486
      else if c = 58 then uri_tr487
      else if c = 63 then uri_tr488
      else if c < 48
      then (if 36 \<le> c \<and> c \<le> 45 then goto_st 470
            else goto_st 0)
      else if c > 57
      then (if c > 90
            then (if 97 \<le> c \<and> c \<le> 122 then goto_st 470
                  else goto_st 0)
            else if c \<ge> 65 then goto_st 470
            else goto_st 0)
      else goto_st 482)"

definition uri_st482 :: "int \<Rightarrow> uri_action trans" where
  "uri_st482 c =
     (if c = 33 \<or> c = 59 \<or> c = 61 \<or> c = 95 \<or> c = 126 then goto_st 470
      else if c = 35 then uri_tr485
      else if c = 37 then goto_st 36
      else if c = 46 then goto_st 474
      else if c = 47 then uri_tr486
      else if c = 58 then uri_tr487
      else if c = 63 then uri_tr488
      else if c < 48
      then (if 36 \<le> c \<and> c \<le> 45 then goto_st 470
            else goto_st 0)
      else if c > 57
      then (if c > 90
            then (if 97 \<le> c \<and> c \<le> 122 then goto_st 470
                  else goto_st 0)
            else if c \<ge> 65 then goto_st 470
            else goto_st 0)
      else goto_st 473)"

definition uri_st483 :: "int \<Rightarrow> uri_action trans" where
  "uri_st483 c =
     (if c = 33 \<or> c = 59 \<or> c = 61 \<or> c = 95 \<or> c = 126 then goto_st 470
      else if c = 35 then uri_tr485
      else if c = 37 then goto_st 36
      else if c = 46 then goto_st 474
      else if c = 47 then uri_tr486
      else if c = 53 then goto_st 484
      else if c = 58 then uri_tr487
      else if c = 63 then uri_tr488
      else if c < 48
      then (if 36 \<le> c \<and> c \<le> 45 then goto_st 470
            else goto_st 0)
      else if c > 57
      then (if c > 90
            then (if 97 \<le> c \<and> c \<le> 122 then goto_st 470
                  else goto_st 0)
            else if c \<ge> 65 then goto_st 470
            else goto_st 0)
      else goto_st 473)"

definition uri_st484 :: "int \<Rightarrow> uri_action trans" where
  "uri_st484 c =
     (if c = 33 \<or> c = 61 \<or> c = 95 \<or> c = 126 then goto_st 470
      else if c = 35 then uri_tr485
      else if c = 37 then goto_st 36
      else if c = 46 then goto_st 474
      else if c = 47 then uri_tr486
      else if c = 58 then uri_tr487
      else if c = 63 then uri_tr488
      else if c < 54
      then (if c > 45
            then (if 48 \<le> c \<and> c \<le> 53 then goto_st 473
                  else goto_st 0)
            else if c \<ge> 36 then goto_st 470
            else goto_st 0)
      else if c > 59
      then (if c > 90
            then (if 97 \<le> c \<and> c \<le> 122 then goto_st 470
                  else goto_st 0)
            else if c \<ge> 65 then goto_st 470
            else goto_st 0)
      else goto_st 470)"

definition uri_st485 :: "int \<Rightarrow> uri_action trans" where
  "uri_st485 c =
     (if c = 33 \<or> c = 59 \<or> c = 61 \<or> c = 95 \<or> c = 126 then goto_st 470
      else if c = 35 then uri_tr485
      else if c = 37 then goto_st 36
      else if c = 46 then goto_st 472
      else if c = 47 then uri_tr486
      else if c = 58 then uri_tr487
      else if c = 63 then uri_tr488
      else if c < 48
      then (if 36 \<le> c \<and> c \<le> 45 then goto_st 470
            else goto_st 0)
      else if c > 57
      then (if c > 90
            then (if 97 \<le> c \<and> c \<le> 122 then goto_st 470
                  else goto_st 0)
            else if c \<ge> 65 then goto_st 470
            else goto_st 0)
      else goto_st 486)"

definition uri_st486 :: "int \<Rightarrow> uri_action trans" where
  "uri_st486 c =
     (if c = 33 \<or> c = 59 \<or> c = 61 \<or> c = 95 \<or> c = 126 then goto_st 470
      else if c = 35 then uri_tr485
      else if c = 37 then goto_st 36
      else if c = 46 then goto_st 472
      else if c = 47 then uri_tr486
      else if c = 58 then uri_tr487
      else if c = 63 then uri_tr488
      else if c < 48
      then (if 36 \<le> c \<and> c \<le> 45 then goto_st 470
            else goto_st 0)
      else if c > 57
      then (if c > 90
            then (if 97 \<le> c \<and> c \<le> 122 then goto_st 470
                  else goto_st 0)
            else if c \<ge> 65 then goto_st 470
            else goto_st 0)
      else goto_st 471)"

definition uri_st487 :: "int \<Rightarrow> uri_action trans" where
  "uri_st487 c =
     (if c = 33 \<or> c = 59 \<or> c = 61 \<or> c = 95 \<or> c = 126 then goto_st 470
      else if c = 35 then uri_tr485
      else if c = 37 then goto_st 36
      else if c = 46 then goto_st 472
      else if c = 47 then uri_tr486
      else if c = 53 then goto_st 488
      else if c = 58 then uri_tr487
      else if c = 63 then uri_tr488
      else if c < 48
      then (if 36 \<le> c \<and> c \<le> 45 then goto_st 470
            else goto_st 0)
      else if c > 57
      then (if c > 90
            then (if 97 \<le> c \<and> c \<le> 122 then goto_st 470
                  else goto_st 0)
            else if c \<ge> 65 then goto_st 470
            else goto_st 0)
      else goto_st 471)"

definition uri_st488 :: "int \<Rightarrow> uri_action trans" where
  "uri_st488 c =
     (if c = 33 \<or> c = 61 \<or> c = 95 \<or> c = 126 then goto_st 470
      else if c = 35 then uri_tr485
      else if c = 37 then goto_st 36
      else if c = 46 then goto_st 472
      else if c = 47 then uri_tr486
      else if c = 58 then uri_tr487
      else if c = 63 then uri_tr488
      else if c < 54
      then (if c > 45
            then (if 48 \<le> c \<and> c \<le> 53 then goto_st 471
                  else goto_st 0)
            else if c \<ge> 36 then goto_st 470
            else goto_st 0)
      else if c > 59
      then (if c > 90
            then (if 97 \<le> c \<and> c \<le> 122 then goto_st 470
                  else goto_st 0)
            else if c \<ge> 65 then goto_st 470
            else goto_st 0)
      else goto_st 470)"

definition uri_st38 :: "int \<Rightarrow> uri_action trans" where
  "uri_st38 c =
     (if c = 58 then goto_st 146
      else if c = 118 then goto_st 225
      else if c < 65
      then (if 48 \<le> c \<and> c \<le> 57 then goto_st 39
            else goto_st 0)
      else if c > 70
      then (if 97 \<le> c \<and> c \<le> 102 then goto_st 39
            else goto_st 0)
      else goto_st 39)"

definition uri_st39 :: "int \<Rightarrow> uri_action trans" where
  "uri_st39 c =
     (if c = 58 then goto_st 43
      else if c < 65
      then (if 48 \<le> c \<and> c \<le> 57 then goto_st 40
            else goto_st 0)
      else if c > 70
      then (if 97 \<le> c \<and> c \<le> 102 then goto_st 40
            else goto_st 0)
      else goto_st 40)"

definition uri_st40 :: "int \<Rightarrow> uri_action trans" where
  "uri_st40 c =
     (if c = 58 then goto_st 43
      else if c < 65
      then (if 48 \<le> c \<and> c \<le> 57 then goto_st 41
            else goto_st 0)
      else if c > 70
      then (if 97 \<le> c \<and> c \<le> 102 then goto_st 41
            else goto_st 0)
      else goto_st 41)"

definition uri_st41 :: "int \<Rightarrow> uri_action trans" where
  "uri_st41 c =
     (if c = 58 then goto_st 43
      else if c < 65
      then (if 48 \<le> c \<and> c \<le> 57 then goto_st 42
            else goto_st 0)
      else if c > 70
      then (if 97 \<le> c \<and> c \<le> 102 then goto_st 42
            else goto_st 0)
      else goto_st 42)"

definition uri_st42 :: "int \<Rightarrow> uri_action trans" where
  "uri_st42 c =
     (if c = 58 then goto_st 43
      else goto_st 0)"

definition uri_st43 :: "int \<Rightarrow> uri_action trans" where
  "uri_st43 c =
     (if c = 58 then goto_st 141
      else if c < 65
      then (if 48 \<le> c \<and> c \<le> 57 then goto_st 44
            else goto_st 0)
      else if c > 70
      then (if 97 \<le> c \<and> c \<le> 102 then goto_st 44
            else goto_st 0)
      else goto_st 44)"

definition uri_st44 :: "int \<Rightarrow> uri_action trans" where
  "uri_st44 c =
     (if c = 58 then goto_st 48
      else if c < 65
      then (if 48 \<le> c \<and> c \<le> 57 then goto_st 45
            else goto_st 0)
      else if c > 70
      then (if 97 \<le> c \<and> c \<le> 102 then goto_st 45
            else goto_st 0)
      else goto_st 45)"

definition uri_st45 :: "int \<Rightarrow> uri_action trans" where
  "uri_st45 c =
     (if c = 58 then goto_st 48
      else if c < 65
      then (if 48 \<le> c \<and> c \<le> 57 then goto_st 46
            else goto_st 0)
      else if c > 70
      then (if 97 \<le> c \<and> c \<le> 102 then goto_st 46
            else goto_st 0)
      else goto_st 46)"

definition uri_st46 :: "int \<Rightarrow> uri_action trans" where
  "uri_st46 c =
     (if c = 58 then goto_st 48
      else if c < 65
      then (if 48 \<le> c \<and> c \<le> 57 then goto_st 47
            else goto_st 0)
      else if c > 70
      then (if 97 \<le> c \<and> c \<le> 102 then goto_st 47
            else goto_st 0)
      else goto_st 47)"

definition uri_st47 :: "int \<Rightarrow> uri_action trans" where
  "uri_st47 c =
     (if c = 58 then goto_st 48
      else goto_st 0)"

definition uri_st48 :: "int \<Rightarrow> uri_action trans" where
  "uri_st48 c =
     (if c = 58 then goto_st 136
      else if c < 65
      then (if 48 \<le> c \<and> c \<le> 57 then goto_st 49
            else goto_st 0)
      else if c > 70
      then (if 97 \<le> c \<and> c \<le> 102 then goto_st 49
            else goto_st 0)
      else goto_st 49)"

definition uri_st49 :: "int \<Rightarrow> uri_action trans" where
  "uri_st49 c =
     (if c = 58 then goto_st 53
      else if c < 65
      then (if 48 \<le> c \<and> c \<le> 57 then goto_st 50
            else goto_st 0)
      else if c > 70
      then (if 97 \<le> c \<and> c \<le> 102 then goto_st 50
            else goto_st 0)
      else goto_st 50)"

definition uri_st50 :: "int \<Rightarrow> uri_action trans" where
  "uri_st50 c =
     (if c = 58 then goto_st 53
      else if c < 65
      then (if 48 \<le> c \<and> c \<le> 57 then goto_st 51
            else goto_st 0)
      else if c > 70
      then (if 97 \<le> c \<and> c \<le> 102 then goto_st 51
            else goto_st 0)
      else goto_st 51)"

definition uri_st51 :: "int \<Rightarrow> uri_action trans" where
  "uri_st51 c =
     (if c = 58 then goto_st 53
      else if c < 65
      then (if 48 \<le> c \<and> c \<le> 57 then goto_st 52
            else goto_st 0)
      else if c > 70
      then (if 97 \<le> c \<and> c \<le> 102 then goto_st 52
            else goto_st 0)
      else goto_st 52)"

definition uri_st52 :: "int \<Rightarrow> uri_action trans" where
  "uri_st52 c =
     (if c = 58 then goto_st 53
      else goto_st 0)"

definition uri_st53 :: "int \<Rightarrow> uri_action trans" where
  "uri_st53 c =
     (if c = 58 then goto_st 131
      else if c < 65
      then (if 48 \<le> c \<and> c \<le> 57 then goto_st 54
            else goto_st 0)
      else if c > 70
      then (if 97 \<le> c \<and> c \<le> 102 then goto_st 54
            else goto_st 0)
      else goto_st 54)"

definition uri_st54 :: "int \<Rightarrow> uri_action trans" where
  "uri_st54 c =
     (if c = 58 then goto_st 58
      else if c < 65
      then (if 48 \<le> c \<and> c \<le> 57 then goto_st 55
            else goto_st 0)
      else if c > 70
      then (if 97 \<le> c \<and> c \<le> 102 then goto_st 55
            else goto_st 0)
      else goto_st 55)"

definition uri_st55 :: "int \<Rightarrow> uri_action trans" where
  "uri_st55 c =
     (if c = 58 then goto_st 58
      else if c < 65
      then (if 48 \<le> c \<and> c \<le> 57 then goto_st 56
            else goto_st 0)
      else if c > 70
      then (if 97 \<le> c \<and> c \<le> 102 then goto_st 56
            else goto_st 0)
      else goto_st 56)"

definition uri_st56 :: "int \<Rightarrow> uri_action trans" where
  "uri_st56 c =
     (if c = 58 then goto_st 58
      else if c < 65
      then (if 48 \<le> c \<and> c \<le> 57 then goto_st 57
            else goto_st 0)
      else if c > 70
      then (if 97 \<le> c \<and> c \<le> 102 then goto_st 57
            else goto_st 0)
      else goto_st 57)"

definition uri_st57 :: "int \<Rightarrow> uri_action trans" where
  "uri_st57 c =
     (if c = 58 then goto_st 58
      else goto_st 0)"

definition uri_st58 :: "int \<Rightarrow> uri_action trans" where
  "uri_st58 c =
     (if c = 58 then goto_st 126
      else if c < 65
      then (if 48 \<le> c \<and> c \<le> 57 then goto_st 59
            else goto_st 0)
      else if c > 70
      then (if 97 \<le> c \<and> c \<le> 102 then goto_st 59
            else goto_st 0)
      else goto_st 59)"

definition uri_st59 :: "int \<Rightarrow> uri_action trans" where
  "uri_st59 c =
     (if c = 58 then goto_st 63
      else if c < 65
      then (if 48 \<le> c \<and> c \<le> 57 then goto_st 60
            else goto_st 0)
      else if c > 70
      then (if 97 \<le> c \<and> c \<le> 102 then goto_st 60
            else goto_st 0)
      else goto_st 60)"

definition uri_st60 :: "int \<Rightarrow> uri_action trans" where
  "uri_st60 c =
     (if c = 58 then goto_st 63
      else if c < 65
      then (if 48 \<le> c \<and> c \<le> 57 then goto_st 61
            else goto_st 0)
      else if c > 70
      then (if 97 \<le> c \<and> c \<le> 102 then goto_st 61
            else goto_st 0)
      else goto_st 61)"

definition uri_st61 :: "int \<Rightarrow> uri_action trans" where
  "uri_st61 c =
     (if c = 58 then goto_st 63
      else if c < 65
      then (if 48 \<le> c \<and> c \<le> 57 then goto_st 62
            else goto_st 0)
      else if c > 70
      then (if 97 \<le> c \<and> c \<le> 102 then goto_st 62
            else goto_st 0)
      else goto_st 62)"

definition uri_st62 :: "int \<Rightarrow> uri_action trans" where
  "uri_st62 c =
     (if c = 58 then goto_st 63
      else goto_st 0)"

definition uri_st63 :: "int \<Rightarrow> uri_action trans" where
  "uri_st63 c =
     (if c = 58 then goto_st 113
      else if c < 65
      then (if 48 \<le> c \<and> c \<le> 57 then goto_st 64
            else goto_st 0)
      else if c > 70
      then (if 97 \<le> c \<and> c \<le> 102 then goto_st 64
            else goto_st 0)
      else goto_st 64)"

definition uri_st64 :: "int \<Rightarrow> uri_action trans" where
  "uri_st64 c =
     (if c = 58 then goto_st 68
      else if c < 65
      then (if 48 \<le> c \<and> c \<le> 57 then goto_st 65
            else goto_st 0)
      else if c > 70
      then (if 97 \<le> c \<and> c \<le> 102 then goto_st 65
            else goto_st 0)
      else goto_st 65)"

definition uri_st65 :: "int \<Rightarrow> uri_action trans" where
  "uri_st65 c =
     (if c = 58 then goto_st 68
      else if c < 65
      then (if 48 \<le> c \<and> c \<le> 57 then goto_st 66
            else goto_st 0)
      else if c > 70
      then (if 97 \<le> c \<and> c \<le> 102 then goto_st 66
            else goto_st 0)
      else goto_st 66)"

definition uri_st66 :: "int \<Rightarrow> uri_action trans" where
  "uri_st66 c =
     (if c = 58 then goto_st 68
      else if c < 65
      then (if 48 \<le> c \<and> c \<le> 57 then goto_st 67
            else goto_st 0)
      else if c > 70
      then (if 97 \<le> c \<and> c \<le> 102 then goto_st 67
            else goto_st 0)
      else goto_st 67)"

definition uri_st67 :: "int \<Rightarrow> uri_action trans" where
  "uri_st67 c =
     (if c = 58 then goto_st 68
      else goto_st 0)"

definition uri_st68 :: "int \<Rightarrow> uri_action trans" where
  "uri_st68 c =
     (if c = 2 then goto_st 69
      else if c = 48 then goto_st 96
      else if c = 49 then goto_st 104
      else if c = 50 then goto_st 107
      else if c = 58 then goto_st 111
      else if c < 65
      then (if 51 \<le> c \<and> c \<le> 57 then goto_st 110
            else goto_st 0)
      else if c > 70
      then (if 97 \<le> c \<and> c \<le> 102 then goto_st 112
            else goto_st 0)
      else goto_st 112)"

definition uri_st69 :: "int \<Rightarrow> uri_action trans" where
  "uri_st69 c =
     (if 48 \<le> c \<and> c \<le> 52 then goto_st 70
      else goto_st 0)"

definition uri_st70 :: "int \<Rightarrow> uri_action trans" where
  "uri_st70 c =
     (if 48 \<le> c \<and> c \<le> 57 then goto_st 71
      else goto_st 0)"

definition uri_st71 :: "int \<Rightarrow> uri_action trans" where
  "uri_st71 c =
     (if c = 46 then goto_st 72
      else goto_st 0)"

definition uri_st72 :: "int \<Rightarrow> uri_action trans" where
  "uri_st72 c =
     (if c = 2 then goto_st 73
      else if c = 48 then goto_st 75
      else if c = 49 then goto_st 92
      else if c = 50 then goto_st 94
      else if 51 \<le> c \<and> c \<le> 57 then goto_st 93
      else goto_st 0)"

definition uri_st73 :: "int \<Rightarrow> uri_action trans" where
  "uri_st73 c =
     (if 48 \<le> c \<and> c \<le> 52 then goto_st 74
      else goto_st 0)"

definition uri_st74 :: "int \<Rightarrow> uri_action trans" where
  "uri_st74 c =
     (if 48 \<le> c \<and> c \<le> 57 then goto_st 75
      else goto_st 0)"

definition uri_st75 :: "int \<Rightarrow> uri_action trans" where
  "uri_st75 c =
     (if c = 46 then goto_st 76
      else goto_st 0)"

definition uri_st76 :: "int \<Rightarrow> uri_action trans" where
  "uri_st76 c =
     (if c = 2 then goto_st 77
      else if c = 48 then goto_st 79
      else if c = 49 then goto_st 88
      else if c = 50 then goto_st 90
      else if 51 \<le> c \<and> c \<le> 57 then goto_st 89
      else goto_st 0)"

definition uri_st77 :: "int \<Rightarrow> uri_action trans" where
  "uri_st77 c =
     (if 48 \<le> c \<and> c \<le> 52 then goto_st 78
      else goto_st 0)"

definition uri_st78 :: "int \<Rightarrow> uri_action trans" where
  "uri_st78 c =
     (if 48 \<le> c \<and> c \<le> 57 then goto_st 79
      else goto_st 0)"

definition uri_st79 :: "int \<Rightarrow> uri_action trans" where
  "uri_st79 c =
     (if c = 46 then goto_st 80
      else goto_st 0)"

definition uri_st80 :: "int \<Rightarrow> uri_action trans" where
  "uri_st80 c =
     (if c = 2 then goto_st 81
      else if c = 48 then goto_st 83
      else if c = 49 then goto_st 84
      else if c = 50 then goto_st 86
      else if 51 \<le> c \<and> c \<le> 57 then goto_st 85
      else goto_st 0)"

definition uri_st81 :: "int \<Rightarrow> uri_action trans" where
  "uri_st81 c =
     (if 48 \<le> c \<and> c \<le> 52 then goto_st 82
      else goto_st 0)"

definition uri_st82 :: "int \<Rightarrow> uri_action trans" where
  "uri_st82 c =
     (if 48 \<le> c \<and> c \<le> 57 then goto_st 83
      else goto_st 0)"

definition uri_st83 :: "int \<Rightarrow> uri_action trans" where
  "uri_st83 c =
     (if c = 93 then goto_st 460
      else goto_st 0)"

definition uri_st84 :: "int \<Rightarrow> uri_action trans" where
  "uri_st84 c =
     (if c = 93 then goto_st 460
      else if 48 \<le> c \<and> c \<le> 57 then goto_st 85
      else goto_st 0)"

definition uri_st85 :: "int \<Rightarrow> uri_action trans" where
  "uri_st85 c =
     (if c = 93 then goto_st 460
      else if 48 \<le> c \<and> c \<le> 57 then goto_st 83
      else goto_st 0)"

definition uri_st86 :: "int \<Rightarrow> uri_action trans" where
  "uri_st86 c =
     (if c = 53 then goto_st 87
      else if c = 93 then goto_st 460
      else if 48 \<le> c \<and> c \<le> 57 then goto_st 83
      else goto_st 0)"

definition uri_st87 :: "int \<Rightarrow> uri_action trans" where
  "uri_st87 c =
     (if c = 93 then goto_st 460
      else if 48 \<le> c \<and> c \<le> 53 then goto_st 83
      else goto_st 0)"

definition uri_st88 :: "int \<Rightarrow> uri_action trans" where
  "uri_st88 c =
     (if c = 46 then goto_st 80
      else if 48 \<le> c \<and> c \<le> 57 then goto_st 89
      else goto_st 0)"

definition uri_st89 :: "int \<Rightarrow> uri_action trans" where
  "uri_st89 c =
     (if c = 46 then goto_st 80
      else if 48 \<le> c \<and> c \<le> 57 then goto_st 79
      else goto_st 0)"

definition uri_st90 :: "int \<Rightarrow> uri_action trans" where
  "uri_st90 c =
     (if c = 46 then goto_st 80
      else if c = 53 then goto_st 91
      else if 48 \<le> c \<and> c \<le> 57 then goto_st 79
      else goto_st 0)"

definition uri_st91 :: "int \<Rightarrow> uri_action trans" where
  "uri_st91 c =
     (if c = 46 then goto_st 80
      else if 48 \<le> c \<and> c \<le> 53 then goto_st 79
      else goto_st 0)"

definition uri_st92 :: "int \<Rightarrow> uri_action trans" where
  "uri_st92 c =
     (if c = 46 then goto_st 76
      else if 48 \<le> c \<and> c \<le> 57 then goto_st 93
      else goto_st 0)"

definition uri_st93 :: "int \<Rightarrow> uri_action trans" where
  "uri_st93 c =
     (if c = 46 then goto_st 76
      else if 48 \<le> c \<and> c \<le> 57 then goto_st 75
      else goto_st 0)"

definition uri_st94 :: "int \<Rightarrow> uri_action trans" where
  "uri_st94 c =
     (if c = 46 then goto_st 76
      else if c = 53 then goto_st 95
      else if 48 \<le> c \<and> c \<le> 57 then goto_st 75
      else goto_st 0)"

definition uri_st95 :: "int \<Rightarrow> uri_action trans" where
  "uri_st95 c =
     (if c = 46 then goto_st 76
      else if 48 \<le> c \<and> c \<le> 53 then goto_st 75
      else goto_st 0)"

definition uri_st96 :: "int \<Rightarrow> uri_action trans" where
  "uri_st96 c =
     (if c = 46 then goto_st 72
      else if c = 58 then goto_st 100
      else if c < 65
      then (if 48 \<le> c \<and> c \<le> 57 then goto_st 97
            else goto_st 0)
      else if c > 70
      then (if 97 \<le> c \<and> c \<le> 102 then goto_st 97
            else goto_st 0)
      else goto_st 97)"

definition uri_st97 :: "int \<Rightarrow> uri_action trans" where
  "uri_st97 c =
     (if c = 58 then goto_st 100
      else if c < 65
      then (if 48 \<le> c \<and> c \<le> 57 then goto_st 98
            else goto_st 0)
      else if c > 70
      then (if 97 \<le> c \<and> c \<le> 102 then goto_st 98
            else goto_st 0)
      else goto_st 98)"

definition uri_st98 :: "int \<Rightarrow> uri_action trans" where
  "uri_st98 c =
     (if c = 58 then goto_st 100
      else if c < 65
      then (if 48 \<le> c \<and> c \<le> 57 then goto_st 99
            else goto_st 0)
      else if c > 70
      then (if 97 \<le> c \<and> c \<le> 102 then goto_st 99
            else goto_st 0)
      else goto_st 99)"

definition uri_st99 :: "int \<Rightarrow> uri_action trans" where
  "uri_st99 c =
     (if c = 58 then goto_st 100
      else goto_st 0)"

definition uri_st100 :: "int \<Rightarrow> uri_action trans" where
  "uri_st100 c =
     (if c = 58 then goto_st 83
      else if c < 65
      then (if 48 \<le> c \<and> c \<le> 57 then goto_st 101
            else goto_st 0)
      else if c > 70
      then (if 97 \<le> c \<and> c \<le> 102 then goto_st 101
            else goto_st 0)
      else goto_st 101)"

definition uri_st101 :: "int \<Rightarrow> uri_action trans" where
  "uri_st101 c =
     (if c = 93 then goto_st 460
      else if c < 65
      then (if 48 \<le> c \<and> c \<le> 57 then goto_st 102
            else goto_st 0)
      else if c > 70
      then (if 97 \<le> c \<and> c \<le> 102 then goto_st 102
            else goto_st 0)
      else goto_st 102)"

definition uri_st102 :: "int \<Rightarrow> uri_action trans" where
  "uri_st102 c =
     (if c = 93 then goto_st 460
      else if c < 65
      then (if 48 \<le> c \<and> c \<le> 57 then goto_st 103
            else goto_st 0)
      else if c > 70
      then (if 97 \<le> c \<and> c \<le> 102 then goto_st 103
            else goto_st 0)
      else goto_st 103)"

definition uri_st103 :: "int \<Rightarrow> uri_action trans" where
  "uri_st103 c =
     (if c = 93 then goto_st 460
      else if c < 65
      then (if 48 \<le> c \<and> c \<le> 57 then goto_st 83
            else goto_st 0)
      else if c > 70
      then (if 97 \<le> c \<and> c \<le> 102 then goto_st 83
            else goto_st 0)
      else goto_st 83)"

definition uri_st104 :: "int \<Rightarrow> uri_action trans" where
  "uri_st104 c =
     (if c = 46 then goto_st 72
      else if c = 58 then goto_st 100
      else if c < 65
      then (if 48 \<le> c \<and> c \<le> 57 then goto_st 105
            else goto_st 0)
      else if c > 70
      then (if 97 \<le> c \<and> c \<le> 102 then goto_st 97
            else goto_st 0)
      else goto_st 97)"

definition uri_st105 :: "int \<Rightarrow> uri_action trans" where
  "uri_st105 c =
     (if c = 46 then goto_st 72
      else if c = 58 then goto_st 100
      else if c < 65
      then (if 48 \<le> c \<and> c \<le> 57 then goto_st 106
            else goto_st 0)
      else if c > 70
      then (if 97 \<le> c \<and> c \<le> 102 then goto_st 98
            else goto_st 0)
      else goto_st 98)"

definition uri_st106 :: "int \<Rightarrow> uri_action trans" where
  "uri_st106 c =
     (if c = 46 then goto_st 72
      else if c = 58 then goto_st 100
      else if c < 65
      then (if 48 \<le> c \<and> c \<le> 57 then goto_st 99
            else goto_st 0)
      else if c > 70
      then (if 97 \<le> c \<and> c \<le> 102 then goto_st 99
            else goto_st 0)
      else goto_st 99)"

definition uri_st107 :: "int \<Rightarrow> uri_action trans" where
  "uri_st107 c =
     (if c = 46 then goto_st 72
      else if c = 53 then goto_st 109
      else if c = 58 then goto_st 100
      else if c < 65
      then (if 48 \<le> c \<and> c \<le> 57 then goto_st 108
            else goto_st 0)
      else if c > 70
      then (if 97 \<le> c \<and> c \<le> 102 then goto_st 97
            else goto_st 0)
      else goto_st 97)"

definition uri_st108 :: "int \<Rightarrow> uri_action trans" where
  "uri_st108 c =
     (if c = 46 then goto_st 72
      else if c = 58 then goto_st 100
      else if c < 65
      then (if 48 \<le> c \<and> c \<le> 57 then goto_st 98
            else goto_st 0)
      else if c > 70
      then (if 97 \<le> c \<and> c \<le> 102 then goto_st 98
            else goto_st 0)
      else goto_st 98)"

definition uri_st109 :: "int \<Rightarrow> uri_action trans" where
  "uri_st109 c =
     (if c = 46 then goto_st 72
      else if c = 58 then goto_st 100
      else if c < 54
      then (if 48 \<le> c \<and> c \<le> 53 then goto_st 106
            else goto_st 0)
      else if c > 57
      then (if c > 70
            then (if 97 \<le> c \<and> c \<le> 102 then goto_st 98
                  else goto_st 0)
            else if c \<ge> 65 then goto_st 98
            else goto_st 0)
      else goto_st 98)"

definition uri_st110 :: "int \<Rightarrow> uri_action trans" where
  "uri_st110 c =
     (if c = 46 then goto_st 72
      else if c = 58 then goto_st 100
      else if c < 65
      then (if 48 \<le> c \<and> c \<le> 57 then goto_st 108
            else goto_st 0)
      else if c > 70
      then (if 97 \<le> c \<and> c \<le> 102 then goto_st 97
            else goto_st 0)
      else goto_st 97)"

definition uri_st111 :: "int \<Rightarrow> uri_action trans" where
  "uri_st111 c =
     (if c < 65
      then (if 48 \<le> c \<and> c \<le> 57 then goto_st 101
            else goto_st 0)
      else if c > 70
      then (if 97 \<le> c \<and> c \<le> 102 then goto_st 101
            else goto_st 0)
      else goto_st 101)"

definition uri_st112 :: "int \<Rightarrow> uri_action trans" where
  "uri_st112 c =
     (if c = 58 then goto_st 100
      else if c < 65
      then (if 48 \<le> c \<and> c \<le> 57 then goto_st 97
            else goto_st 0)
      else if c > 70
      then (if 97 \<le> c \<and> c \<le> 102 then goto_st 97
            else goto_st 0)
      else goto_st 97)"

definition uri_st113 :: "int \<Rightarrow> uri_action trans" where
  "uri_st113 c =
     (if c = 2 then goto_st 69
      else if c = 48 then goto_st 114
      else if c = 49 then goto_st 118
      else if c = 50 then goto_st 121
      else if c < 65
      then (if 51 \<le> c \<and> c \<le> 57 then goto_st 124
            else goto_st 0)
      else if c > 70
      then (if 97 \<le> c \<and> c \<le> 102 then goto_st 125
            else goto_st 0)
      else goto_st 125)"

definition uri_st114 :: "int \<Rightarrow> uri_action trans" where
  "uri_st114 c =
     (if c = 46 then goto_st 72
      else if c = 58 then goto_st 111
      else if c < 65
      then (if 48 \<le> c \<and> c \<le> 57 then goto_st 115
            else goto_st 0)
      else if c > 70
      then (if 97 \<le> c \<and> c \<le> 102 then goto_st 115
            else goto_st 0)
      else goto_st 115)"

definition uri_st115 :: "int \<Rightarrow> uri_action trans" where
  "uri_st115 c =
     (if c = 58 then goto_st 111
      else if c < 65
      then (if 48 \<le> c \<and> c \<le> 57 then goto_st 116
            else goto_st 0)
      else if c > 70
      then (if 97 \<le> c \<and> c \<le> 102 then goto_st 116
            else goto_st 0)
      else goto_st 116)"

definition uri_st116 :: "int \<Rightarrow> uri_action trans" where
  "uri_st116 c =
     (if c = 58 then goto_st 111
      else if c < 65
      then (if 48 \<le> c \<and> c \<le> 57 then goto_st 117
            else goto_st 0)
      else if c > 70
      then (if 97 \<le> c \<and> c \<le> 102 then goto_st 117
            else goto_st 0)
      else goto_st 117)"

definition uri_st117 :: "int \<Rightarrow> uri_action trans" where
  "uri_st117 c =
     (if c = 58 then goto_st 111
      else goto_st 0)"

definition uri_st118 :: "int \<Rightarrow> uri_action trans" where
  "uri_st118 c =
     (if c = 46 then goto_st 72
      else if c = 58 then goto_st 111
      else if c < 65
      then (if 48 \<le> c \<and> c \<le> 57 then goto_st 119
            else goto_st 0)
      else if c > 70
      then (if 97 \<le> c \<and> c \<le> 102 then goto_st 115
            else goto_st 0)
      else goto_st 115)"

definition uri_st119 :: "int \<Rightarrow> uri_action trans" where
  "uri_st119 c =
     (if c = 46 then goto_st 72
      else if c = 58 then goto_st 111
      else if c < 65
      then (if 48 \<le> c \<and> c \<le> 57 then goto_st 120
            else goto_st 0)
      else if c > 70
      then (if 97 \<le> c \<and> c \<le> 102 then goto_st 116
            else goto_st 0)
      else goto_st 116)"

definition uri_st120 :: "int \<Rightarrow> uri_action trans" where
  "uri_st120 c =
     (if c = 46 then goto_st 72
      else if c = 58 then goto_st 111
      else if c < 65
      then (if 48 \<le> c \<and> c \<le> 57 then goto_st 117
            else goto_st 0)
      else if c > 70
      then (if 97 \<le> c \<and> c \<le> 102 then goto_st 117
            else goto_st 0)
      else goto_st 117)"

definition uri_st121 :: "int \<Rightarrow> uri_action trans" where
  "uri_st121 c =
     (if c = 46 then goto_st 72
      else if c = 53 then goto_st 123
      else if c = 58 then goto_st 111
      else if c < 65
      then (if 48 \<le> c \<and> c \<le> 57 then goto_st 122
            else goto_st 0)
      else if c > 70
      then (if 97 \<le> c \<and> c \<le> 102 then goto_st 115
            else goto_st 0)
      else goto_st 115)"

definition uri_st122 :: "int \<Rightarrow> uri_action trans" where
  "uri_st122 c =
     (if c = 46 then goto_st 72
      else if c = 58 then goto_st 111
      else if c < 65
      then (if 48 \<le> c \<and> c \<le> 57 then goto_st 116
            else goto_st 0)
      else if c > 70
      then (if 97 \<le> c \<and> c \<le> 102 then goto_st 116
            else goto_st 0)
      else goto_st 116)"

definition uri_st123 :: "int \<Rightarrow> uri_action trans" where
  "uri_st123 c =
     (if c = 46 then goto_st 72
      else if c = 58 then goto_st 111
      else if c < 54
      then (if 48 \<le> c \<and> c \<le> 53 then goto_st 120
            else goto_st 0)
      else if c > 57
      then (if c > 70
            then (if 97 \<le> c \<and> c \<le> 102 then goto_st 116
                  else goto_st 0)
            else if c \<ge> 65 then goto_st 116
            else goto_st 0)
      else goto_st 116)"

definition uri_st124 :: "int \<Rightarrow> uri_action trans" where
  "uri_st124 c =
     (if c = 46 then goto_st 72
      else if c = 58 then goto_st 111
      else if c < 65
      then (if 48 \<le> c \<and> c \<le> 57 then goto_st 122
            else goto_st 0)
      else if c > 70
      then (if 97 \<le> c \<and> c \<le> 102 then goto_st 115
            else goto_st 0)
      else goto_st 115)"

definition uri_st125 :: "int \<Rightarrow> uri_action trans" where
  "uri_st125 c =
     (if c = 58 then goto_st 111
      else if c < 65
      then (if 48 \<le> c \<and> c \<le> 57 then goto_st 115
            else goto_st 0)
      else if c > 70
      then (if 97 \<le> c \<and> c \<le> 102 then goto_st 115
            else goto_st 0)
      else goto_st 115)"

definition uri_st126 :: "int \<Rightarrow> uri_action trans" where
  "uri_st126 c =
     (if c < 65
      then (if 48 \<le> c \<and> c \<le> 57 then goto_st 127
            else goto_st 0)
      else if c > 70
      then (if 97 \<le> c \<and> c \<le> 102 then goto_st 127
            else goto_st 0)
      else goto_st 127)"

definition uri_st127 :: "int \<Rightarrow> uri_action trans" where
  "uri_st127 c =
     (if c = 58 then goto_st 113
      else if c < 65
      then (if 48 \<le> c \<and> c \<le> 57 then goto_st 128
            else goto_st 0)
      else if c > 70
      then (if 97 \<le> c \<and> c \<le> 102 then goto_st 128
            else goto_st 0)
      else goto_st 128)"

definition uri_st128 :: "int \<Rightarrow> uri_action trans" where
  "uri_st128 c =
     (if c = 58 then goto_st 113
      else if c < 65
      then (if 48 \<le> c \<and> c \<le> 57 then goto_st 129
            else goto_st 0)
      else if c > 70
      then (if 97 \<le> c \<and> c \<le> 102 then goto_st 129
            else goto_st 0)
      else goto_st 129)"

definition uri_st129 :: "int \<Rightarrow> uri_action trans" where
  "uri_st129 c =
     (if c = 58 then goto_st 113
      else if c < 65
      then (if 48 \<le> c \<and> c \<le> 57 then goto_st 130
            else goto_st 0)
      else if c > 70
      then (if 97 \<le> c \<and> c \<le> 102 then goto_st 130
            else goto_st 0)
      else goto_st 130)"

definition uri_st130 :: "int \<Rightarrow> uri_action trans" where
  "uri_st130 c =
     (if c = 58 then goto_st 113
      else goto_st 0)"

definition uri_st131 :: "int \<Rightarrow> uri_action trans" where
  "uri_st131 c =
     (if c < 65
      then (if 48 \<le> c \<and> c \<le> 57 then goto_st 132
            else goto_st 0)
      else if c > 70
      then (if 97 \<le> c \<and> c \<le> 102 then goto_st 132
            else goto_st 0)
      else goto_st 132)"

definition uri_st132 :: "int \<Rightarrow> uri_action trans" where
  "uri_st132 c =
     (if c = 58 then goto_st 126
      else if c < 65
      then (if 48 \<le> c \<and> c \<le> 57 then goto_st 133
            else goto_st 0)
      else if c > 70
      then (if 97 \<le> c \<and> c \<le> 102 then goto_st 133
            else goto_st 0)
      else goto_st 133)"

definition uri_st133 :: "int \<Rightarrow> uri_action trans" where
  "uri_st133 c =
     (if c = 58 then goto_st 126
      else if c < 65
      then (if 48 \<le> c \<and> c \<le> 57 then goto_st 134
            else goto_st 0)
      else if c > 70
      then (if 97 \<le> c \<and> c \<le> 102 then goto_st 134
            else goto_st 0)
      else goto_st 134)"

definition uri_st134 :: "int \<Rightarrow> uri_action trans" where
  "uri_st134 c =
     (if c = 58 then goto_st 126
      else if c < 65
      then (if 48 \<le> c \<and> c \<le> 57 then goto_st 135
            else goto_st 0)
      else if c > 70
      then (if 97 \<le> c \<and> c \<le> 102 then goto_st 135
            else goto_st 0)
      else goto_st 135)"

definition uri_st135 :: "int \<Rightarrow> uri_action trans" where
  "uri_st135 c =
     (if c = 58 then goto_st 126
      else goto_st 0)"

definition uri_st136 :: "int \<Rightarrow> uri_action trans" where
  "uri_st136 c =
     (if c < 65
      then (if 48 \<le> c \<and> c \<le> 57 then goto_st 137
            else goto_st 0)
      else if c > 70
      then (if 97 \<le> c \<and> c \<le> 102 then goto_st 137
            else goto_st 0)
      else goto_st 137)"

definition uri_st137 :: "int \<Rightarrow> uri_action trans" where
  "uri_st137 c =
     (if c = 58 then goto_st 131
      else if c < 65
      then (if 48 \<le> c \<and> c \<le> 57 then goto_st 138
            else goto_st 0)
      else if c > 70
      then (if 97 \<le> c \<and> c \<le> 102 then goto_st 138
            else goto_st 0)
      else goto_st 138)"

definition uri_st138 :: "int \<Rightarrow> uri_action trans" where
  "uri_st138 c =
     (if c = 58 then goto_st 131
      else if c < 65
      then (if 48 \<le> c \<and> c \<le> 57 then goto_st 139
            else goto_st 0)
      else if c > 70
      then (if 97 \<le> c \<and> c \<le> 102 then goto_st 139
            else goto_st 0)
      else goto_st 139)"

definition uri_st139 :: "int \<Rightarrow> uri_action trans" where
  "uri_st139 c =
     (if c = 58 then goto_st 131
      else if c < 65
      then (if 48 \<le> c \<and> c \<le> 57 then goto_st 140
            else goto_st 0)
      else if c > 70
      then (if 97 \<le> c \<and> c \<le> 102 then goto_st 140
            else goto_st 0)
      else goto_st 140)"

definition uri_st140 :: "int \<Rightarrow> uri_action trans" where
  "uri_st140 c =
     (if c = 58 then goto_st 131
      else goto_st 0)"

definition uri_st141 :: "int \<Rightarrow> uri_action trans" where
  "uri_st141 c =
     (if c < 65
      then (if 48 \<le> c \<and> c \<le> 57 then goto_st 142
            else goto_st 0)
      else if c > 70
      then (if 97 \<le> c \<and> c \<le> 102 then goto_st 142
            else goto_st 0)
      else goto_st 142)"

definition uri_st142 :: "int \<Rightarrow> uri_action trans" where
  "uri_st142 c =
     (if c = 58 then goto_st 136
      else if c < 65
      then (if 48 \<le> c \<and> c \<le> 57 then goto_st 143
            else goto_st 0)
      else if c > 70
      then (if 97 \<le> c \<and> c \<le> 102 then goto_st 143
            else goto_st 0)
      else goto_st 143)"

definition uri_st143 :: "int \<Rightarrow> uri_action trans" where
  "uri_st143 c =
     (if c = 58 then goto_st 136
      else if c < 65
      then (if 48 \<le> c \<and> c \<le> 57 then goto_st 144
            else goto_st 0)
      else if c > 70
      then (if 97 \<le> c \<and> c \<le> 102 then goto_st 144
            else goto_st 0)
      else goto_st 144)"

definition uri_st144 :: "int \<Rightarrow> uri_action trans" where
  "uri_st144 c =
     (if c = 58 then goto_st 136
      else if c < 65
      then (if 48 \<le> c \<and> c \<le> 57 then goto_st 145
            else goto_st 0)
      else if c > 70
      then (if 97 \<le> c \<and> c \<le> 102 then goto_st 145
            else goto_st 0)
      else goto_st 145)"

definition uri_st145 :: "int \<Rightarrow> uri_action trans" where
  "uri_st145 c =
     (if c = 58 then goto_st 136
      else goto_st 0)"

definition uri_st146 :: "int \<Rightarrow> uri_action trans" where
  "uri_st146 c =
     (if c = 58 then goto_st 147
      else goto_st 0)"

definition uri_st147 :: "int \<Rightarrow> uri_action trans" where
  "uri_st147 c =
     (if c = 2 then goto_st 69
      else if c = 48 then goto_st 148
      else if c = 49 then goto_st 217
      else if c = 50 then goto_st 220
      else if c = 93 then goto_st 460
      else if c < 65
      then (if 51 \<le> c \<and> c \<le> 57 then goto_st 223
            else goto_st 0)
      else if c > 70
      then (if 97 \<le> c \<and> c \<le> 102 then goto_st 224
            else goto_st 0)
      else goto_st 224)"

definition uri_st148 :: "int \<Rightarrow> uri_action trans" where
  "uri_st148 c =
     (if c = 46 then goto_st 72
      else if c = 58 then goto_st 152
      else if c = 93 then goto_st 460
      else if c < 65
      then (if 48 \<le> c \<and> c \<le> 57 then goto_st 149
            else goto_st 0)
      else if c > 70
      then (if 97 \<le> c \<and> c \<le> 102 then goto_st 149
            else goto_st 0)
      else goto_st 149)"

definition uri_st149 :: "int \<Rightarrow> uri_action trans" where
  "uri_st149 c =
     (if c = 58 then goto_st 152
      else if c = 93 then goto_st 460
      else if c < 65
      then (if 48 \<le> c \<and> c \<le> 57 then goto_st 150
            else goto_st 0)
      else if c > 70
      then (if 97 \<le> c \<and> c \<le> 102 then goto_st 150
            else goto_st 0)
      else goto_st 150)"

definition uri_st150 :: "int \<Rightarrow> uri_action trans" where
  "uri_st150 c =
     (if c = 58 then goto_st 152
      else if c = 93 then goto_st 460
      else if c < 65
      then (if 48 \<le> c \<and> c \<le> 57 then goto_st 151
            else goto_st 0)
      else if c > 70
      then (if 97 \<le> c \<and> c \<le> 102 then goto_st 151
            else goto_st 0)
      else goto_st 151)"

definition uri_st151 :: "int \<Rightarrow> uri_action trans" where
  "uri_st151 c =
     (if c = 58 then goto_st 152
      else if c = 93 then goto_st 460
      else goto_st 0)"

definition uri_st152 :: "int \<Rightarrow> uri_action trans" where
  "uri_st152 c =
     (if c = 2 then goto_st 69
      else if c = 48 then goto_st 153
      else if c = 49 then goto_st 209
      else if c = 50 then goto_st 212
      else if c < 65
      then (if 51 \<le> c \<and> c \<le> 57 then goto_st 215
            else goto_st 0)
      else if c > 70
      then (if 97 \<le> c \<and> c \<le> 102 then goto_st 216
            else goto_st 0)
      else goto_st 216)"

definition uri_st153 :: "int \<Rightarrow> uri_action trans" where
  "uri_st153 c =
     (if c = 46 then goto_st 72
      else if c = 58 then goto_st 157
      else if c = 93 then goto_st 460
      else if c < 65
      then (if 48 \<le> c \<and> c \<le> 57 then goto_st 154
            else goto_st 0)
      else if c > 70
      then (if 97 \<le> c \<and> c \<le> 102 then goto_st 154
            else goto_st 0)
      else goto_st 154)"

definition uri_st154 :: "int \<Rightarrow> uri_action trans" where
  "uri_st154 c =
     (if c = 58 then goto_st 157
      else if c = 93 then goto_st 460
      else if c < 65
      then (if 48 \<le> c \<and> c \<le> 57 then goto_st 155
            else goto_st 0)
      else if c > 70
      then (if 97 \<le> c \<and> c \<le> 102 then goto_st 155
            else goto_st 0)
      else goto_st 155)"

definition uri_st155 :: "int \<Rightarrow> uri_action trans" where
  "uri_st155 c =
     (if c = 58 then goto_st 157
      else if c = 93 then goto_st 460
      else if c < 65
      then (if 48 \<le> c \<and> c \<le> 57 then goto_st 156
            else goto_st 0)
      else if c > 70
      then (if 97 \<le> c \<and> c \<le> 102 then goto_st 156
            else goto_st 0)
      else goto_st 156)"

definition uri_st156 :: "int \<Rightarrow> uri_action trans" where
  "uri_st156 c =
     (if c = 58 then goto_st 157
      else if c = 93 then goto_st 460
      else goto_st 0)"

definition uri_st157 :: "int \<Rightarrow> uri_action trans" where
  "uri_st157 c =
     (if c = 2 then goto_st 69
      else if c = 48 then goto_st 158
      else if c = 49 then goto_st 201
      else if c = 50 then goto_st 204
      else if c < 65
      then (if 51 \<le> c \<and> c \<le> 57 then goto_st 207
            else goto_st 0)
      else if c > 70
      then (if 97 \<le> c \<and> c \<le> 102 then goto_st 208
            else goto_st 0)
      else goto_st 208)"

definition uri_st158 :: "int \<Rightarrow> uri_action trans" where
  "uri_st158 c =
     (if c = 46 then goto_st 72
      else if c = 58 then goto_st 162
      else if c = 93 then goto_st 460
      else if c < 65
      then (if 48 \<le> c \<and> c \<le> 57 then goto_st 159
            else goto_st 0)
      else if c > 70
      then (if 97 \<le> c \<and> c \<le> 102 then goto_st 159
            else goto_st 0)
      else goto_st 159)"

definition uri_st159 :: "int \<Rightarrow> uri_action trans" where
  "uri_st159 c =
     (if c = 58 then goto_st 162
      else if c = 93 then goto_st 460
      else if c < 65
      then (if 48 \<le> c \<and> c \<le> 57 then goto_st 160
            else goto_st 0)
      else if c > 70
      then (if 97 \<le> c \<and> c \<le> 102 then goto_st 160
            else goto_st 0)
      else goto_st 160)"

definition uri_st160 :: "int \<Rightarrow> uri_action trans" where
  "uri_st160 c =
     (if c = 58 then goto_st 162
      else if c = 93 then goto_st 460
      else if c < 65
      then (if 48 \<le> c \<and> c \<le> 57 then goto_st 161
            else goto_st 0)
      else if c > 70
      then (if 97 \<le> c \<and> c \<le> 102 then goto_st 161
            else goto_st 0)
      else goto_st 161)"

definition uri_st161 :: "int \<Rightarrow> uri_action trans" where
  "uri_st161 c =
     (if c = 58 then goto_st 162
      else if c = 93 then goto_st 460
      else goto_st 0)"

definition uri_st162 :: "int \<Rightarrow> uri_action trans" where
  "uri_st162 c =
     (if c = 2 then goto_st 69
      else if c = 48 then goto_st 163
      else if c = 49 then goto_st 193
      else if c = 50 then goto_st 196
      else if c < 65
      then (if 51 \<le> c \<and> c \<le> 57 then goto_st 199
            else goto_st 0)
      else if c > 70
      then (if 97 \<le> c \<and> c \<le> 102 then goto_st 200
            else goto_st 0)
      else goto_st 200)"

definition uri_st163 :: "int \<Rightarrow> uri_action trans" where
  "uri_st163 c =
     (if c = 46 then goto_st 72
      else if c = 58 then goto_st 167
      else if c = 93 then goto_st 460
      else if c < 65
      then (if 48 \<le> c \<and> c \<le> 57 then goto_st 164
            else goto_st 0)
      else if c > 70
      then (if 97 \<le> c \<and> c \<le> 102 then goto_st 164
            else goto_st 0)
      else goto_st 164)"

definition uri_st164 :: "int \<Rightarrow> uri_action trans" where
  "uri_st164 c =
     (if c = 58 then goto_st 167
      else if c = 93 then goto_st 460
      else if c < 65
      then (if 48 \<le> c \<and> c \<le> 57 then goto_st 165
            else goto_st 0)
      else if c > 70
      then (if 97 \<le> c \<and> c \<le> 102 then goto_st 165
            else goto_st 0)
      else goto_st 165)"

definition uri_st165 :: "int \<Rightarrow> uri_action trans" where
  "uri_st165 c =
     (if c = 58 then goto_st 167
      else if c = 93 then goto_st 460
      else if c < 65
      then (if 48 \<le> c \<and> c \<le> 57 then goto_st 166
            else goto_st 0)
      else if c > 70
      then (if 97 \<le> c \<and> c \<le> 102 then goto_st 166
            else goto_st 0)
      else goto_st 166)"

definition uri_st166 :: "int \<Rightarrow> uri_action trans" where
  "uri_st166 c =
     (if c = 58 then goto_st 167
      else if c = 93 then goto_st 460
      else goto_st 0)"

definition uri_st167 :: "int \<Rightarrow> uri_action trans" where
  "uri_st167 c =
     (if c = 2 then goto_st 69
      else if c = 48 then goto_st 168
      else if c = 49 then goto_st 185
      else if c = 50 then goto_st 188
      else if c < 65
      then (if 51 \<le> c \<and> c \<le> 57 then goto_st 191
            else goto_st 0)
      else if c > 70
      then (if 97 \<le> c \<and> c \<le> 102 then goto_st 192
            else goto_st 0)
      else goto_st 192)"

definition uri_st168 :: "int \<Rightarrow> uri_action trans" where
  "uri_st168 c =
     (if c = 46 then goto_st 72
      else if c = 58 then goto_st 172
      else if c = 93 then goto_st 460
      else if c < 65
      then (if 48 \<le> c \<and> c \<le> 57 then goto_st 169
            else goto_st 0)
      else if c > 70
      then (if 97 \<le> c \<and> c \<le> 102 then goto_st 169
            else goto_st 0)
      else goto_st 169)"

definition uri_st169 :: "int \<Rightarrow> uri_action trans" where
  "uri_st169 c =
     (if c = 58 then goto_st 172
      else if c = 93 then goto_st 460
      else if c < 65
      then (if 48 \<le> c \<and> c \<le> 57 then goto_st 170
            else goto_st 0)
      else if c > 70
      then (if 97 \<le> c \<and> c \<le> 102 then goto_st 170
            else goto_st 0)
      else goto_st 170)"

definition uri_st170 :: "int \<Rightarrow> uri_action trans" where
  "uri_st170 c =
     (if c = 58 then goto_st 172
      else if c = 93 then goto_st 460
      else if c < 65
      then (if 48 \<le> c \<and> c \<le> 57 then goto_st 171
            else goto_st 0)
      else if c > 70
      then (if 97 \<le> c \<and> c \<le> 102 then goto_st 171
            else goto_st 0)
      else goto_st 171)"

definition uri_st171 :: "int \<Rightarrow> uri_action trans" where
  "uri_st171 c =
     (if c = 58 then goto_st 172
      else if c = 93 then goto_st 460
      else goto_st 0)"

definition uri_st172 :: "int \<Rightarrow> uri_action trans" where
  "uri_st172 c =
     (if c = 2 then goto_st 69
      else if c = 48 then goto_st 173
      else if c = 49 then goto_st 177
      else if c = 50 then goto_st 180
      else if c < 65
      then (if 51 \<le> c \<and> c \<le> 57 then goto_st 183
            else goto_st 0)
      else if c > 70
      then (if 97 \<le> c \<and> c \<le> 102 then goto_st 184
            else goto_st 0)
      else goto_st 184)"

definition uri_st173 :: "int \<Rightarrow> uri_action trans" where
  "uri_st173 c =
     (if c = 46 then goto_st 72
      else if c = 58 then goto_st 111
      else if c = 93 then goto_st 460
      else if c < 65
      then (if 48 \<le> c \<and> c \<le> 57 then goto_st 174
            else goto_st 0)
      else if c > 70
      then (if 97 \<le> c \<and> c \<le> 102 then goto_st 174
            else goto_st 0)
      else goto_st 174)"

definition uri_st174 :: "int \<Rightarrow> uri_action trans" where
  "uri_st174 c =
     (if c = 58 then goto_st 111
      else if c = 93 then goto_st 460
      else if c < 65
      then (if 48 \<le> c \<and> c \<le> 57 then goto_st 175
            else goto_st 0)
      else if c > 70
      then (if 97 \<le> c \<and> c \<le> 102 then goto_st 175
            else goto_st 0)
      else goto_st 175)"

definition uri_st175 :: "int \<Rightarrow> uri_action trans" where
  "uri_st175 c =
     (if c = 58 then goto_st 111
      else if c = 93 then goto_st 460
      else if c < 65
      then (if 48 \<le> c \<and> c \<le> 57 then goto_st 176
            else goto_st 0)
      else if c > 70
      then (if 97 \<le> c \<and> c \<le> 102 then goto_st 176
            else goto_st 0)
      else goto_st 176)"

definition uri_st176 :: "int \<Rightarrow> uri_action trans" where
  "uri_st176 c =
     (if c = 58 then goto_st 111
      else if c = 93 then goto_st 460
      else goto_st 0)"

definition uri_st177 :: "int \<Rightarrow> uri_action trans" where
  "uri_st177 c =
     (if c = 46 then goto_st 72
      else if c = 58 then goto_st 111
      else if c = 93 then goto_st 460
      else if c < 65
      then (if 48 \<le> c \<and> c \<le> 57 then goto_st 178
            else goto_st 0)
      else if c > 70
      then (if 97 \<le> c \<and> c \<le> 102 then goto_st 174
            else goto_st 0)
      else goto_st 174)"

definition uri_st178 :: "int \<Rightarrow> uri_action trans" where
  "uri_st178 c =
     (if c = 46 then goto_st 72
      else if c = 58 then goto_st 111
      else if c = 93 then goto_st 460
      else if c < 65
      then (if 48 \<le> c \<and> c \<le> 57 then goto_st 179
            else goto_st 0)
      else if c > 70
      then (if 97 \<le> c \<and> c \<le> 102 then goto_st 175
            else goto_st 0)
      else goto_st 175)"

definition uri_st179 :: "int \<Rightarrow> uri_action trans" where
  "uri_st179 c =
     (if c = 46 then goto_st 72
      else if c = 58 then goto_st 111
      else if c = 93 then goto_st 460
      else if c < 65
      then (if 48 \<le> c \<and> c \<le> 57 then goto_st 176
            else goto_st 0)
      else if c > 70
      then (if 97 \<le> c \<and> c \<le> 102 then goto_st 176
            else goto_st 0)
      else goto_st 176)"

definition uri_st180 :: "int \<Rightarrow> uri_action trans" where
  "uri_st180 c =
     (if c = 46 then goto_st 72
      else if c = 53 then goto_st 182
      else if c = 58 then goto_st 111
      else if c = 93 then goto_st 460
      else if c < 65
      then (if 48 \<le> c \<and> c \<le> 57 then goto_st 181
            else goto_st 0)
      else if c > 70
      then (if 97 \<le> c \<and> c \<le> 102 then goto_st 174
            else goto_st 0)
      else goto_st 174)"

definition uri_st181 :: "int \<Rightarrow> uri_action trans" where
  "uri_st181 c =
     (if c = 46 then goto_st 72
      else if c = 58 then goto_st 111
      else if c = 93 then goto_st 460
      else if c < 65
      then (if 48 \<le> c \<and> c \<le> 57 then goto_st 175
            else goto_st 0)
      else if c > 70
      then (if 97 \<le> c \<and> c \<le> 102 then goto_st 175
            else goto_st 0)
      else goto_st 175)"

definition uri_st182 :: "int \<Rightarrow> uri_action trans" where
  "uri_st182 c =
     (if c = 46 then goto_st 72
      else if c = 58 then goto_st 111
      else if c = 93 then goto_st 460
      else if c < 54
      then (if 48 \<le> c \<and> c \<le> 53 then goto_st 179
            else goto_st 0)
      else if c > 57
      then (if c > 70
            then (if 97 \<le> c \<and> c \<le> 102 then goto_st 175
                  else goto_st 0)
            else if c \<ge> 65 then goto_st 175
            else goto_st 0)
      else goto_st 175)"

definition uri_st183 :: "int \<Rightarrow> uri_action trans" where
  "uri_st183 c =
     (if c = 46 then goto_st 72
      else if c = 58 then goto_st 111
      else if c = 93 then goto_st 460
      else if c < 65
      then (if 48 \<le> c \<and> c \<le> 57 then goto_st 181
            else goto_st 0)
      else if c > 70
      then (if 97 \<le> c \<and> c \<le> 102 then goto_st 174
            else goto_st 0)
      else goto_st 174)"

definition uri_st184 :: "int \<Rightarrow> uri_action trans" where
  "uri_st184 c =
     (if c = 58 then goto_st 111
      else if c = 93 then goto_st 460
      else if c < 65
      then (if 48 \<le> c \<and> c \<le> 57 then goto_st 174
            else goto_st 0)
      else if c > 70
      then (if 97 \<le> c \<and> c \<le> 102 then goto_st 174
            else goto_st 0)
      else goto_st 174)"

definition uri_st185 :: "int \<Rightarrow> uri_action trans" where
  "uri_st185 c =
     (if c = 46 then goto_st 72
      else if c = 58 then goto_st 172
      else if c = 93 then goto_st 460
      else if c < 65
      then (if 48 \<le> c \<and> c \<le> 57 then goto_st 186
            else goto_st 0)
      else if c > 70
      then (if 97 \<le> c \<and> c \<le> 102 then goto_st 169
            else goto_st 0)
      else goto_st 169)"

definition uri_st186 :: "int \<Rightarrow> uri_action trans" where
  "uri_st186 c =
     (if c = 46 then goto_st 72
      else if c = 58 then goto_st 172
      else if c = 93 then goto_st 460
      else if c < 65
      then (if 48 \<le> c \<and> c \<le> 57 then goto_st 187
            else goto_st 0)
      else if c > 70
      then (if 97 \<le> c \<and> c \<le> 102 then goto_st 170
            else goto_st 0)
      else goto_st 170)"

definition uri_st187 :: "int \<Rightarrow> uri_action trans" where
  "uri_st187 c =
     (if c = 46 then goto_st 72
      else if c = 58 then goto_st 172
      else if c = 93 then goto_st 460
      else if c < 65
      then (if 48 \<le> c \<and> c \<le> 57 then goto_st 171
            else goto_st 0)
      else if c > 70
      then (if 97 \<le> c \<and> c \<le> 102 then goto_st 171
            else goto_st 0)
      else goto_st 171)"

definition uri_st188 :: "int \<Rightarrow> uri_action trans" where
  "uri_st188 c =
     (if c = 46 then goto_st 72
      else if c = 53 then goto_st 190
      else if c = 58 then goto_st 172
      else if c = 93 then goto_st 460
      else if c < 65
      then (if 48 \<le> c \<and> c \<le> 57 then goto_st 189
            else goto_st 0)
      else if c > 70
      then (if 97 \<le> c \<and> c \<le> 102 then goto_st 169
            else goto_st 0)
      else goto_st 169)"

definition uri_st189 :: "int \<Rightarrow> uri_action trans" where
  "uri_st189 c =
     (if c = 46 then goto_st 72
      else if c = 58 then goto_st 172
      else if c = 93 then goto_st 460
      else if c < 65
      then (if 48 \<le> c \<and> c \<le> 57 then goto_st 170
            else goto_st 0)
      else if c > 70
      then (if 97 \<le> c \<and> c \<le> 102 then goto_st 170
            else goto_st 0)
      else goto_st 170)"

definition uri_st190 :: "int \<Rightarrow> uri_action trans" where
  "uri_st190 c =
     (if c = 46 then goto_st 72
      else if c = 58 then goto_st 172
      else if c = 93 then goto_st 460
      else if c < 54
      then (if 48 \<le> c \<and> c \<le> 53 then goto_st 187
            else goto_st 0)
      else if c > 57
      then (if c > 70
            then (if 97 \<le> c \<and> c \<le> 102 then goto_st 170
                  else goto_st 0)
            else if c \<ge> 65 then goto_st 170
            else goto_st 0)
      else goto_st 170)"

definition uri_st191 :: "int \<Rightarrow> uri_action trans" where
  "uri_st191 c =
     (if c = 46 then goto_st 72
      else if c = 58 then goto_st 172
      else if c = 93 then goto_st 460
      else if c < 65
      then (if 48 \<le> c \<and> c \<le> 57 then goto_st 189
            else goto_st 0)
      else if c > 70
      then (if 97 \<le> c \<and> c \<le> 102 then goto_st 169
            else goto_st 0)
      else goto_st 169)"

definition uri_st192 :: "int \<Rightarrow> uri_action trans" where
  "uri_st192 c =
     (if c = 58 then goto_st 172
      else if c = 93 then goto_st 460
      else if c < 65
      then (if 48 \<le> c \<and> c \<le> 57 then goto_st 169
            else goto_st 0)
      else if c > 70
      then (if 97 \<le> c \<and> c \<le> 102 then goto_st 169
            else goto_st 0)
      else goto_st 169)"

definition uri_st193 :: "int \<Rightarrow> uri_action trans" where
  "uri_st193 c =
     (if c = 46 then goto_st 72
      else if c = 58 then goto_st 167
      else if c = 93 then goto_st 460
      else if c < 65
      then (if 48 \<le> c \<and> c \<le> 57 then goto_st 194
            else goto_st 0)
      else if c > 70
      then (if 97 \<le> c \<and> c \<le> 102 then goto_st 164
            else goto_st 0)
      else goto_st 164)"

definition uri_st194 :: "int \<Rightarrow> uri_action trans" where
  "uri_st194 c =
     (if c = 46 then goto_st 72
      else if c = 58 then goto_st 167
      else if c = 93 then goto_st 460
      else if c < 65
      then (if 48 \<le> c \<and> c \<le> 57 then goto_st 195
            else goto_st 0)
      else if c > 70
      then (if 97 \<le> c \<and> c \<le> 102 then goto_st 165
            else goto_st 0)
      else goto_st 165)"

definition uri_st195 :: "int \<Rightarrow> uri_action trans" where
  "uri_st195 c =
     (if c = 46 then goto_st 72
      else if c = 58 then goto_st 167
      else if c = 93 then goto_st 460
      else if c < 65
      then (if 48 \<le> c \<and> c \<le> 57 then goto_st 166
            else goto_st 0)
      else if c > 70
      then (if 97 \<le> c \<and> c \<le> 102 then goto_st 166
            else goto_st 0)
      else goto_st 166)"

definition uri_st196 :: "int \<Rightarrow> uri_action trans" where
  "uri_st196 c =
     (if c = 46 then goto_st 72
      else if c = 53 then goto_st 198
      else if c = 58 then goto_st 167
      else if c = 93 then goto_st 460
      else if c < 65
      then (if 48 \<le> c \<and> c \<le> 57 then goto_st 197
            else goto_st 0)
      else if c > 70
      then (if 97 \<le> c \<and> c \<le> 102 then goto_st 164
            else goto_st 0)
      else goto_st 164)"

definition uri_st197 :: "int \<Rightarrow> uri_action trans" where
  "uri_st197 c =
     (if c = 46 then goto_st 72
      else if c = 58 then goto_st 167
      else if c = 93 then goto_st 460
      else if c < 65
      then (if 48 \<le> c \<and> c \<le> 57 then goto_st 165
            else goto_st 0)
      else if c > 70
      then (if 97 \<le> c \<and> c \<le> 102 then goto_st 165
            else goto_st 0)
      else goto_st 165)"

definition uri_st198 :: "int \<Rightarrow> uri_action trans" where
  "uri_st198 c =
     (if c = 46 then goto_st 72
      else if c = 58 then goto_st 167
      else if c = 93 then goto_st 460
      else if c < 54
      then (if 48 \<le> c \<and> c \<le> 53 then goto_st 195
            else goto_st 0)
      else if c > 57
      then (if c > 70
            then (if 97 \<le> c \<and> c \<le> 102 then goto_st 165
                  else goto_st 0)
            else if c \<ge> 65 then goto_st 165
            else goto_st 0)
      else goto_st 165)"

definition uri_st199 :: "int \<Rightarrow> uri_action trans" where
  "uri_st199 c =
     (if c = 46 then goto_st 72
      else if c = 58 then goto_st 167
      else if c = 93 then goto_st 460
      else if c < 65
      then (if 48 \<le> c \<and> c \<le> 57 then goto_st 197
            else goto_st 0)
      else if c > 70
      then (if 97 \<le> c \<and> c \<le> 102 then goto_st 164
            else goto_st 0)
      else goto_st 164)"

definition uri_st200 :: "int \<Rightarrow> uri_action trans" where
  "uri_st200 c =
     (if c = 58 then goto_st 167
      else if c = 93 then goto_st 460
      else if c < 65
      then (if 48 \<le> c \<and> c \<le> 57 then goto_st 164
            else goto_st 0)
      else if c > 70
      then (if 97 \<le> c \<and> c \<le> 102 then goto_st 164
            else goto_st 0)
      else goto_st 164)"

definition uri_st201 :: "int \<Rightarrow> uri_action trans" where
  "uri_st201 c =
     (if c = 46 then goto_st 72
      else if c = 58 then goto_st 162
      else if c = 93 then goto_st 460
      else if c < 65
      then (if 48 \<le> c \<and> c \<le> 57 then goto_st 202
            else goto_st 0)
      else if c > 70
      then (if 97 \<le> c \<and> c \<le> 102 then goto_st 159
            else goto_st 0)
      else goto_st 159)"

definition uri_st202 :: "int \<Rightarrow> uri_action trans" where
  "uri_st202 c =
     (if c = 46 then goto_st 72
      else if c = 58 then goto_st 162
      else if c = 93 then goto_st 460
      else if c < 65
      then (if 48 \<le> c \<and> c \<le> 57 then goto_st 203
            else goto_st 0)
      else if c > 70
      then (if 97 \<le> c \<and> c \<le> 102 then goto_st 160
            else goto_st 0)
      else goto_st 160)"

definition uri_st203 :: "int \<Rightarrow> uri_action trans" where
  "uri_st203 c =
     (if c = 46 then goto_st 72
      else if c = 58 then goto_st 162
      else if c = 93 then goto_st 460
      else if c < 65
      then (if 48 \<le> c \<and> c \<le> 57 then goto_st 161
            else goto_st 0)
      else if c > 70
      then (if 97 \<le> c \<and> c \<le> 102 then goto_st 161
            else goto_st 0)
      else goto_st 161)"

definition uri_st204 :: "int \<Rightarrow> uri_action trans" where
  "uri_st204 c =
     (if c = 46 then goto_st 72
      else if c = 53 then goto_st 206
      else if c = 58 then goto_st 162
      else if c = 93 then goto_st 460
      else if c < 65
      then (if 48 \<le> c \<and> c \<le> 57 then goto_st 205
            else goto_st 0)
      else if c > 70
      then (if 97 \<le> c \<and> c \<le> 102 then goto_st 159
            else goto_st 0)
      else goto_st 159)"

definition uri_st205 :: "int \<Rightarrow> uri_action trans" where
  "uri_st205 c =
     (if c = 46 then goto_st 72
      else if c = 58 then goto_st 162
      else if c = 93 then goto_st 460
      else if c < 65
      then (if 48 \<le> c \<and> c \<le> 57 then goto_st 160
            else goto_st 0)
      else if c > 70
      then (if 97 \<le> c \<and> c \<le> 102 then goto_st 160
            else goto_st 0)
      else goto_st 160)"

definition uri_st206 :: "int \<Rightarrow> uri_action trans" where
  "uri_st206 c =
     (if c = 46 then goto_st 72
      else if c = 58 then goto_st 162
      else if c = 93 then goto_st 460
      else if c < 54
      then (if 48 \<le> c \<and> c \<le> 53 then goto_st 203
            else goto_st 0)
      else if c > 57
      then (if c > 70
            then (if 97 \<le> c \<and> c \<le> 102 then goto_st 160
                  else goto_st 0)
            else if c \<ge> 65 then goto_st 160
            else goto_st 0)
      else goto_st 160)"

definition uri_st207 :: "int \<Rightarrow> uri_action trans" where
  "uri_st207 c =
     (if c = 46 then goto_st 72
      else if c = 58 then goto_st 162
      else if c = 93 then goto_st 460
      else if c < 65
      then (if 48 \<le> c \<and> c \<le> 57 then goto_st 205
            else goto_st 0)
      else if c > 70
      then (if 97 \<le> c \<and> c \<le> 102 then goto_st 159
            else goto_st 0)
      else goto_st 159)"

definition uri_st208 :: "int \<Rightarrow> uri_action trans" where
  "uri_st208 c =
     (if c = 58 then goto_st 162
      else if c = 93 then goto_st 460
      else if c < 65
      then (if 48 \<le> c \<and> c \<le> 57 then goto_st 159
            else goto_st 0)
      else if c > 70
      then (if 97 \<le> c \<and> c \<le> 102 then goto_st 159
            else goto_st 0)
      else goto_st 159)"

definition uri_st209 :: "int \<Rightarrow> uri_action trans" where
  "uri_st209 c =
     (if c = 46 then goto_st 72
      else if c = 58 then goto_st 157
      else if c = 93 then goto_st 460
      else if c < 65
      then (if 48 \<le> c \<and> c \<le> 57 then goto_st 210
            else goto_st 0)
      else if c > 70
      then (if 97 \<le> c \<and> c \<le> 102 then goto_st 154
            else goto_st 0)
      else goto_st 154)"

definition uri_st210 :: "int \<Rightarrow> uri_action trans" where
  "uri_st210 c =
     (if c = 46 then goto_st 72
      else if c = 58 then goto_st 157
      else if c = 93 then goto_st 460
      else if c < 65
      then (if 48 \<le> c \<and> c \<le> 57 then goto_st 211
            else goto_st 0)
      else if c > 70
      then (if 97 \<le> c \<and> c \<le> 102 then goto_st 155
            else goto_st 0)
      else goto_st 155)"

definition uri_st211 :: "int \<Rightarrow> uri_action trans" where
  "uri_st211 c =
     (if c = 46 then goto_st 72
      else if c = 58 then goto_st 157
      else if c = 93 then goto_st 460
      else if c < 65
      then (if 48 \<le> c \<and> c \<le> 57 then goto_st 156
            else goto_st 0)
      else if c > 70
      then (if 97 \<le> c \<and> c \<le> 102 then goto_st 156
            else goto_st 0)
      else goto_st 156)"

definition uri_st212 :: "int \<Rightarrow> uri_action trans" where
  "uri_st212 c =
     (if c = 46 then goto_st 72
      else if c = 53 then goto_st 214
      else if c = 58 then goto_st 157
      else if c = 93 then goto_st 460
      else if c < 65
      then (if 48 \<le> c \<and> c \<le> 57 then goto_st 213
            else goto_st 0)
      else if c > 70
      then (if 97 \<le> c \<and> c \<le> 102 then goto_st 154
            else goto_st 0)
      else goto_st 154)"

definition uri_st213 :: "int \<Rightarrow> uri_action trans" where
  "uri_st213 c =
     (if c = 46 then goto_st 72
      else if c = 58 then goto_st 157
      else if c = 93 then goto_st 460
      else if c < 65
      then (if 48 \<le> c \<and> c \<le> 57 then goto_st 155
            else goto_st 0)
      else if c > 70
      then (if 97 \<le> c \<and> c \<le> 102 then goto_st 155
            else goto_st 0)
      else goto_st 155)"

definition uri_st214 :: "int \<Rightarrow> uri_action trans" where
  "uri_st214 c =
     (if c = 46 then goto_st 72
      else if c = 58 then goto_st 157
      else if c = 93 then goto_st 460
      else if c < 54
      then (if 48 \<le> c \<and> c \<le> 53 then goto_st 211
            else goto_st 0)
      else if c > 57
      then (if c > 70
            then (if 97 \<le> c \<and> c \<le> 102 then goto_st 155
                  else goto_st 0)
            else if c \<ge> 65 then goto_st 155
            else goto_st 0)
      else goto_st 155)"

definition uri_st215 :: "int \<Rightarrow> uri_action trans" where
  "uri_st215 c =
     (if c = 46 then goto_st 72
      else if c = 58 then goto_st 157
      else if c = 93 then goto_st 460
      else if c < 65
      then (if 48 \<le> c \<and> c \<le> 57 then goto_st 213
            else goto_st 0)
      else if c > 70
      then (if 97 \<le> c \<and> c \<le> 102 then goto_st 154
            else goto_st 0)
      else goto_st 154)"

definition uri_st216 :: "int \<Rightarrow> uri_action trans" where
  "uri_st216 c =
     (if c = 58 then goto_st 157
      else if c = 93 then goto_st 460
      else if c < 65
      then (if 48 \<le> c \<and> c \<le> 57 then goto_st 154
            else goto_st 0)
      else if c > 70
      then (if 97 \<le> c \<and> c \<le> 102 then goto_st 154
            else goto_st 0)
      else goto_st 154)"

definition uri_st217 :: "int \<Rightarrow> uri_action trans" where
  "uri_st217 c =
     (if c = 46 then goto_st 72
      else if c = 58 then goto_st 152
      else if c = 93 then goto_st 460
      else if c < 65
      then (if 48 \<le> c \<and> c \<le> 57 then goto_st 218
            else goto_st 0)
      else if c > 70
      then (if 97 \<le> c \<and> c \<le> 102 then goto_st 149
            else goto_st 0)
      else goto_st 149)"

definition uri_st218 :: "int \<Rightarrow> uri_action trans" where
  "uri_st218 c =
     (if c = 46 then goto_st 72
      else if c = 58 then goto_st 152
      else if c = 93 then goto_st 460
      else if c < 65
      then (if 48 \<le> c \<and> c \<le> 57 then goto_st 219
            else goto_st 0)
      else if c > 70
      then (if 97 \<le> c \<and> c \<le> 102 then goto_st 150
            else goto_st 0)
      else goto_st 150)"

definition uri_st219 :: "int \<Rightarrow> uri_action trans" where
  "uri_st219 c =
     (if c = 46 then goto_st 72
      else if c = 58 then goto_st 152
      else if c = 93 then goto_st 460
      else if c < 65
      then (if 48 \<le> c \<and> c \<le> 57 then goto_st 151
            else goto_st 0)
      else if c > 70
      then (if 97 \<le> c \<and> c \<le> 102 then goto_st 151
            else goto_st 0)
      else goto_st 151)"

definition uri_st220 :: "int \<Rightarrow> uri_action trans" where
  "uri_st220 c =
     (if c = 46 then goto_st 72
      else if c = 53 then goto_st 222
      else if c = 58 then goto_st 152
      else if c = 93 then goto_st 460
      else if c < 65
      then (if 48 \<le> c \<and> c \<le> 57 then goto_st 221
            else goto_st 0)
      else if c > 70
      then (if 97 \<le> c \<and> c \<le> 102 then goto_st 149
            else goto_st 0)
      else goto_st 149)"

definition uri_st221 :: "int \<Rightarrow> uri_action trans" where
  "uri_st221 c =
     (if c = 46 then goto_st 72
      else if c = 58 then goto_st 152
      else if c = 93 then goto_st 460
      else if c < 65
      then (if 48 \<le> c \<and> c \<le> 57 then goto_st 150
            else goto_st 0)
      else if c > 70
      then (if 97 \<le> c \<and> c \<le> 102 then goto_st 150
            else goto_st 0)
      else goto_st 150)"

definition uri_st222 :: "int \<Rightarrow> uri_action trans" where
  "uri_st222 c =
     (if c = 46 then goto_st 72
      else if c = 58 then goto_st 152
      else if c = 93 then goto_st 460
      else if c < 54
      then (if 48 \<le> c \<and> c \<le> 53 then goto_st 219
            else goto_st 0)
      else if c > 57
      then (if c > 70
            then (if 97 \<le> c \<and> c \<le> 102 then goto_st 150
                  else goto_st 0)
            else if c \<ge> 65 then goto_st 150
            else goto_st 0)
      else goto_st 150)"

definition uri_st223 :: "int \<Rightarrow> uri_action trans" where
  "uri_st223 c =
     (if c = 46 then goto_st 72
      else if c = 58 then goto_st 152
      else if c = 93 then goto_st 460
      else if c < 65
      then (if 48 \<le> c \<and> c \<le> 57 then goto_st 221
            else goto_st 0)
      else if c > 70
      then (if 97 \<le> c \<and> c \<le> 102 then goto_st 149
            else goto_st 0)
      else goto_st 149)"

definition uri_st224 :: "int \<Rightarrow> uri_action trans" where
  "uri_st224 c =
     (if c = 58 then goto_st 152
      else if c = 93 then goto_st 460
      else if c < 65
      then (if 48 \<le> c \<and> c \<le> 57 then goto_st 149
            else goto_st 0)
      else if c > 70
      then (if 97 \<le> c \<and> c \<le> 102 then goto_st 149
            else goto_st 0)
      else goto_st 149)"

definition uri_st225 :: "int \<Rightarrow> uri_action trans" where
  "uri_st225 c =
     (if c < 65
      then (if 48 \<le> c \<and> c \<le> 57 then goto_st 226
            else goto_st 0)
      else if c > 70
      then (if 97 \<le> c \<and> c \<le> 102 then goto_st 226
            else goto_st 0)
      else goto_st 226)"

definition uri_st226 :: "int \<Rightarrow> uri_action trans" where
  "uri_st226 c =
     (if c = 46 then goto_st 227
      else if c < 65
      then (if 48 \<le> c \<and> c \<le> 57 then goto_st 226
            else goto_st 0)
      else if c > 70
      then (if 97 \<le> c \<and> c \<le> 102 then goto_st 226
            else goto_st 0)
      else goto_st 226)"

definition uri_st227 :: "int \<Rightarrow> uri_action trans" where
  "uri_st227 c =
     (if c = 33 \<or> c = 36 \<or> c = 61 \<or> c = 95 \<or> c = 126 then goto_st 228
      else if c < 48
      then (if 38 \<le> c \<and> c \<le> 46 then goto_st 228
            else goto_st 0)
      else if c > 59
      then (if c > 90
            then (if 97 \<le> c \<and> c \<le> 122 then goto_st 228
                  else goto_st 0)
            else if c \<ge> 65 then goto_st 228
            else goto_st 0)
      else goto_st 228)"

definition uri_st228 :: "int \<Rightarrow> uri_action trans" where
  "uri_st228 c =
     (if c = 33 \<or> c = 36 \<or> c = 61 \<or> c = 95 \<or> c = 126 then goto_st 228
      else if c = 93 then goto_st 460
      else if c < 48
      then (if 38 \<le> c \<and> c \<le> 46 then goto_st 228
            else goto_st 0)
      else if c > 59
      then (if c > 90
            then (if 97 \<le> c \<and> c \<le> 122 then goto_st 228
                  else goto_st 0)
            else if c \<ge> 65 then goto_st 228
            else goto_st 0)
      else goto_st 228)"

definition uri_st489 :: "int \<Rightarrow> uri_action trans" where
  "uri_st489 c =
     (if c = 33 \<or> c = 61 \<or> c = 95 \<or> c = 126 then goto_st 33
      else if c = 35 then uri_tr493
      else if c = 37 then goto_st 34
      else if c = 47 then uri_tr494
      else if c = 63 then uri_tr496
      else if c = 64 then uri_tr38
      else if c < 58
      then (if c > 46
            then (if 48 \<le> c \<and> c \<le> 57 then goto_st 489
                  else goto_st 0)
            else if c \<ge> 36 then goto_st 33
            else goto_st 0)
      else if c > 59
      then (if c > 90
            then (if 97 \<le> c \<and> c \<le> 122 then goto_st 33
                  else goto_st 0)
            else if c \<ge> 65 then goto_st 33
            else goto_st 0)
      else goto_st 33)"

definition uri_st490 :: "int \<Rightarrow> uri_action trans" where
  "uri_st490 c =
     (if c = 33 \<or> c = 61 \<or> c = 95 \<or> c = 126 then goto_st 467
      else if c = 35 then uri_tr485
      else if c = 37 then goto_st 31
      else if c = 46 then goto_st 491
      else if c = 47 then uri_tr486
      else if c = 58 then uri_tr499
      else if c = 63 then uri_tr488
      else if c = 64 then uri_tr38
      else if c < 65
      then (if 36 \<le> c \<and> c \<le> 59 then goto_st 467
            else goto_st 0)
      else if c > 90
      then (if 97 \<le> c \<and> c \<le> 122 then goto_st 467
            else goto_st 0)
      else goto_st 467)"

definition uri_st491 :: "int \<Rightarrow> uri_action trans" where
  "uri_st491 c =
     (if c = 2 then goto_st 13
      else if c = 33 \<or> c = 59 \<or> c = 61 \<or> c = 95 \<or> c = 126 then goto_st 467
      else if c = 35 then uri_tr485
      else if c = 37 then goto_st 31
      else if c = 47 then uri_tr486
      else if c = 48 then goto_st 492
      else if c = 49 then goto_st 500
      else if c = 50 then goto_st 502
      else if c = 58 then uri_tr499
      else if c = 63 then uri_tr488
      else if c = 64 then uri_tr38
      else if c < 51
      then (if 36 \<le> c \<and> c \<le> 46 then goto_st 467
            else goto_st 0)
      else if c > 57
      then (if c > 90
            then (if 97 \<le> c \<and> c \<le> 122 then goto_st 467
                  else goto_st 0)
            else if c \<ge> 65 then goto_st 467
            else goto_st 0)
      else goto_st 501)"

definition uri_st492 :: "int \<Rightarrow> uri_action trans" where
  "uri_st492 c =
     (if c = 33 \<or> c = 61 \<or> c = 95 \<or> c = 126 then goto_st 467
      else if c = 35 then uri_tr485
      else if c = 37 then goto_st 31
      else if c = 46 then goto_st 493
      else if c = 47 then uri_tr486
      else if c = 58 then uri_tr499
      else if c = 63 then uri_tr488
      else if c = 64 then uri_tr38
      else if c < 65
      then (if 36 \<le> c \<and> c \<le> 59 then goto_st 467
            else goto_st 0)
      else if c > 90
      then (if 97 \<le> c \<and> c \<le> 122 then goto_st 467
            else goto_st 0)
      else goto_st 467)"

definition uri_st493 :: "int \<Rightarrow> uri_action trans" where
  "uri_st493 c =
     (if c = 2 then goto_st 17
      else if c = 33 \<or> c = 59 \<or> c = 61 \<or> c = 95 \<or> c = 126 then goto_st 467
      else if c = 35 then uri_tr485
      else if c = 37 then goto_st 31
      else if c = 47 then uri_tr486
      else if c = 48 then goto_st 494
      else if c = 49 then goto_st 496
      else if c = 50 then goto_st 498
      else if c = 58 then uri_tr499
      else if c = 63 then uri_tr488
      else if c = 64 then uri_tr38
      else if c < 51
      then (if 36 \<le> c \<and> c \<le> 46 then goto_st 467
            else goto_st 0)
      else if c > 57
      then (if c > 90
            then (if 97 \<le> c \<and> c \<le> 122 then goto_st 467
                  else goto_st 0)
            else if c \<ge> 65 then goto_st 467
            else goto_st 0)
      else goto_st 497)"

definition uri_st494 :: "int \<Rightarrow> uri_action trans" where
  "uri_st494 c =
     (if c = 33 \<or> c = 61 \<or> c = 95 \<or> c = 126 then goto_st 467
      else if c = 35 then uri_tr485
      else if c = 37 then goto_st 31
      else if c = 46 then goto_st 495
      else if c = 47 then uri_tr486
      else if c = 58 then uri_tr499
      else if c = 63 then uri_tr488
      else if c = 64 then uri_tr38
      else if c < 65
      then (if 36 \<le> c \<and> c \<le> 59 then goto_st 467
            else goto_st 0)
      else if c > 90
      then (if 97 \<le> c \<and> c \<le> 122 then goto_st 467
            else goto_st 0)
      else goto_st 467)"

definition uri_st495 :: "int \<Rightarrow> uri_action trans" where
  "uri_st495 c =
     (if c = 2 then goto_st 21
      else if c = 33 \<or> c = 61 \<or> c = 95 \<or> c = 126 then goto_st 467
      else if c = 35 then uri_tr485
      else if c = 37 then goto_st 31
      else if c = 47 then uri_tr486
      else if c = 58 then uri_tr499
      else if c = 63 then uri_tr488
      else if c = 64 then uri_tr38
      else if c < 65
      then (if 36 \<le> c \<and> c \<le> 59 then goto_st 467
            else goto_st 0)
      else if c > 90
      then (if 97 \<le> c \<and> c \<le> 122 then goto_st 467
            else goto_st 0)
      else goto_st 467)"

definition uri_st496 :: "int \<Rightarrow> uri_action trans" where
  "uri_st496 c =
     (if c = 33 \<or> c = 59 \<or> c = 61 \<or> c = 95 \<or> c = 126 then goto_st 467
      else if c = 35 then uri_tr485
      else if c = 37 then goto_st 31
      else if c = 46 then goto_st 495
      else if c = 47 then uri_tr486
      else if c = 58 then uri_tr499
      else if c = 63 then uri_tr488
      else if c = 64 then uri_tr38
      else if c < 48
      then (if 36 \<le> c \<and> c \<le> 45 then goto_st 467
            else goto_st 0)
      else if c > 57
      then (if c > 90
            then (if 97 \<le> c \<and> c \<le> 122 then goto_st 467
                  else goto_st 0)
            else if c \<ge> 65 then goto_st 467
            else goto_st 0)
      else goto_st 497)"

definition uri_st497 :: "int \<Rightarrow> uri_action trans" where
  "uri_st497 c =
     (if c = 33 \<or> c = 59 \<or> c = 61 \<or> c = 95 \<or> c = 126 then goto_st 467
      else if c = 35 then uri_tr485
      else if c = 37 then goto_st 31
      else if c = 46 then goto_st 495
      else if c = 47 then uri_tr486
      else if c = 58 then uri_tr499
      else if c = 63 then uri_tr488
      else if c = 64 then uri_tr38
      else if c < 48
      then (if 36 \<le> c \<and> c \<le> 45 then goto_st 467
            else goto_st 0)
      else if c > 57
      then (if c > 90
            then (if 97 \<le> c \<and> c \<le> 122 then goto_st 467
                  else goto_st 0)
            else if c \<ge> 65 then goto_st 467
            else goto_st 0)
      else goto_st 494)"

definition uri_st498 :: "int \<Rightarrow> uri_action trans" where
  "uri_st498 c =
     (if c = 33 \<or> c = 59 \<or> c = 61 \<or> c = 95 \<or> c = 126 then goto_st 467
      else if c = 35 then uri_tr485
      else if c = 37 then goto_st 31
      else if c = 46 then goto_st 495
      else if c = 47 then uri_tr486
      else if c = 53 then goto_st 499
      else if c = 58 then uri_tr499
      else if c = 63 then uri_tr488
      else if c = 64 then uri_tr38
      else if c < 48
      then (if 36 \<le> c \<and> c \<le> 45 then goto_st 467
            else goto_st 0)
      else if c > 57
      then (if c > 90
            then (if 97 \<le> c \<and> c \<le> 122 then goto_st 467
                  else goto_st 0)
            else if c \<ge> 65 then goto_st 467
            else goto_st 0)
      else goto_st 494)"

definition uri_st499 :: "int \<Rightarrow> uri_action trans" where
  "uri_st499 c =
     (if c = 33 \<or> c = 61 \<or> c = 95 \<or> c = 126 then goto_st 467
      else if c = 35 then uri_tr485
      else if c = 37 then goto_st 31
      else if c = 46 then goto_st 495
      else if c = 47 then uri_tr486
      else if c = 58 then uri_tr499
      else if c = 63 then uri_tr488
      else if c = 64 then uri_tr38
      else if c < 54
      then (if c > 45
            then (if 48 \<le> c \<and> c \<le> 53 then goto_st 494
                  else goto_st 0)
            else if c \<ge> 36 then goto_st 467
            else goto_st 0)
      else if c > 59
      then (if c > 90
            then (if 97 \<le> c \<and> c \<le> 122 then goto_st 467
                  else goto_st 0)
            else if c \<ge> 65 then goto_st 467
            else goto_st 0)
      else goto_st 467)"

definition uri_st500 :: "int \<Rightarrow> uri_action trans" where
  "uri_st500 c =
     (if c = 33 \<or> c = 59 \<or> c = 61 \<or> c = 95 \<or> c = 126 then goto_st 467
      else if c = 35 then uri_tr485
      else if c = 37 then goto_st 31
      else if c = 46 then goto_st 493
      else if c = 47 then uri_tr486
      else if c = 58 then uri_tr499
      else if c = 63 then uri_tr488
      else if c = 64 then uri_tr38
      else if c < 48
      then (if 36 \<le> c \<and> c \<le> 45 then goto_st 467
            else goto_st 0)
      else if c > 57
      then (if c > 90
            then (if 97 \<le> c \<and> c \<le> 122 then goto_st 467
                  else goto_st 0)
            else if c \<ge> 65 then goto_st 467
            else goto_st 0)
      else goto_st 501)"

definition uri_st501 :: "int \<Rightarrow> uri_action trans" where
  "uri_st501 c =
     (if c = 33 \<or> c = 59 \<or> c = 61 \<or> c = 95 \<or> c = 126 then goto_st 467
      else if c = 35 then uri_tr485
      else if c = 37 then goto_st 31
      else if c = 46 then goto_st 493
      else if c = 47 then uri_tr486
      else if c = 58 then uri_tr499
      else if c = 63 then uri_tr488
      else if c = 64 then uri_tr38
      else if c < 48
      then (if 36 \<le> c \<and> c \<le> 45 then goto_st 467
            else goto_st 0)
      else if c > 57
      then (if c > 90
            then (if 97 \<le> c \<and> c \<le> 122 then goto_st 467
                  else goto_st 0)
            else if c \<ge> 65 then goto_st 467
            else goto_st 0)
      else goto_st 492)"

definition uri_st502 :: "int \<Rightarrow> uri_action trans" where
  "uri_st502 c =
     (if c = 33 \<or> c = 59 \<or> c = 61 \<or> c = 95 \<or> c = 126 then goto_st 467
      else if c = 35 then uri_tr485
      else if c = 37 then goto_st 31
      else if c = 46 then goto_st 493
      else if c = 47 then uri_tr486
      else if c = 53 then goto_st 503
      else if c = 58 then uri_tr499
      else if c = 63 then uri_tr488
      else if c = 64 then uri_tr38
      else if c < 48
      then (if 36 \<le> c \<and> c \<le> 45 then goto_st 467
            else goto_st 0)
      else if c > 57
      then (if c > 90
            then (if 97 \<le> c \<and> c \<le> 122 then goto_st 467
                  else goto_st 0)
            else if c \<ge> 65 then goto_st 467
            else goto_st 0)
      else goto_st 492)"

definition uri_st503 :: "int \<Rightarrow> uri_action trans" where
  "uri_st503 c =
     (if c = 33 \<or> c = 61 \<or> c = 95 \<or> c = 126 then goto_st 467
      else if c = 35 then uri_tr485
      else if c = 37 then goto_st 31
      else if c = 46 then goto_st 493
      else if c = 47 then uri_tr486
      else if c = 58 then uri_tr499
      else if c = 63 then uri_tr488
      else if c = 64 then uri_tr38
      else if c < 54
      then (if c > 45
            then (if 48 \<le> c \<and> c \<le> 53 then goto_st 492
                  else goto_st 0)
            else if c \<ge> 36 then goto_st 467
            else goto_st 0)
      else if c > 59
      then (if c > 90
            then (if 97 \<le> c \<and> c \<le> 122 then goto_st 467
                  else goto_st 0)
            else if c \<ge> 65 then goto_st 467
            else goto_st 0)
      else goto_st 467)"

definition uri_st504 :: "int \<Rightarrow> uri_action trans" where
  "uri_st504 c =
     (if c = 33 \<or> c = 59 \<or> c = 61 \<or> c = 95 \<or> c = 126 then goto_st 467
      else if c = 35 then uri_tr485
      else if c = 37 then goto_st 31
      else if c = 46 then goto_st 491
      else if c = 47 then uri_tr486
      else if c = 58 then uri_tr499
      else if c = 63 then uri_tr488
      else if c = 64 then uri_tr38
      else if c < 48
      then (if 36 \<le> c \<and> c \<le> 45 then goto_st 467
            else goto_st 0)
      else if c > 57
      then (if c > 90
            then (if 97 \<le> c \<and> c \<le> 122 then goto_st 467
                  else goto_st 0)
            else if c \<ge> 65 then goto_st 467
            else goto_st 0)
      else goto_st 505)"

definition uri_st505 :: "int \<Rightarrow> uri_action trans" where
  "uri_st505 c =
     (if c = 33 \<or> c = 59 \<or> c = 61 \<or> c = 95 \<or> c = 126 then goto_st 467
      else if c = 35 then uri_tr485
      else if c = 37 then goto_st 31
      else if c = 46 then goto_st 491
      else if c = 47 then uri_tr486
      else if c = 58 then uri_tr499
      else if c = 63 then uri_tr488
      else if c = 64 then uri_tr38
      else if c < 48
      then (if 36 \<le> c \<and> c \<le> 45 then goto_st 467
            else goto_st 0)
      else if c > 57
      then (if c > 90
            then (if 97 \<le> c \<and> c \<le> 122 then goto_st 467
                  else goto_st 0)
            else if c \<ge> 65 then goto_st 467
            else goto_st 0)
      else goto_st 490)"

definition uri_st506 :: "int \<Rightarrow> uri_action trans" where
  "uri_st506 c =
     (if c = 33 \<or> c = 59 \<or> c = 61 \<or> c = 95 \<or> c = 126 then goto_st 467
      else if c = 35 then uri_tr485
      else if c = 37 then goto_st 31
      else if c = 46 then goto_st 491
      else if c = 47 then uri_tr486
      else if c = 53 then goto_st 507
      else if c = 58 then uri_tr499
      else if c = 63 then uri_tr488
      else if c = 64 then uri_tr38
      else if c < 48
      then (if 36 \<le> c \<and> c \<le> 45 then goto_st 467
            else goto_st 0)
      else if c > 57
      then (if c > 90
            then (if 97 \<le> c \<and> c \<le> 122 then goto_st 467
                  else goto_st 0)
            else if c \<ge> 65 then goto_st 467
            else goto_st 0)
      else goto_st 490)"

definition uri_st507 :: "int \<Rightarrow> uri_action trans" where
  "uri_st507 c =
     (if c = 33 \<or> c = 61 \<or> c = 95 \<or> c = 126 then goto_st 467
      else if c = 35 then uri_tr485
      else if c = 37 then goto_st 31
      else if c = 46 then goto_st 491
      else if c = 47 then uri_tr486
      else if c = 58 then uri_tr499
      else if c = 63 then uri_tr488
      else if c = 64 then uri_tr38
      else if c < 54
      then (if c > 45
            then (if 48 \<le> c \<and> c \<le> 53 then goto_st 490
                  else goto_st 0)
            else if c \<ge> 36 then goto_st 467
            else goto_st 0)
      else if c > 59
      then (if c > 90
            then (if 97 \<le> c \<and> c \<le> 122 then goto_st 467
                  else goto_st 0)
            else if c \<ge> 65 then goto_st 467
            else goto_st 0)
      else goto_st 467)"

definition uri_st508 :: "int \<Rightarrow> uri_action trans" where
  "uri_st508 c =
     (if c = 34 \<or> c = 60 \<or> c = 62 \<or> c = 96 \<or> c = 127 then goto_st 0
      else if c = 35 then goto_st 453
      else if c = 37 then goto_st 3
      else if c = 43 then goto_st 508
      else if c = 47 then goto_st 455
      else if c = 58 then uri_tr543
      else if c = 63 then goto_st 456
      else if c < 65
      then (if c > 32
            then (if 45 \<le> c \<and> c \<le> 57 then goto_st 508
                  else goto_st 452)
            else if c \<ge> 0 then goto_st 0
            else goto_st 452)
      else if c > 90
      then (if c < 97
            then (if 91 \<le> c \<and> c \<le> 94 then goto_st 0
                  else goto_st 452)
            else if c > 122
            then (if 123 \<le> c \<and> c \<le> 125 then goto_st 0
                  else goto_st 452)
            else goto_st 508)
      else goto_st 508)"

definition uri_st509 :: "int \<Rightarrow> uri_action trans" where
  "uri_st509 c =
     (if c = 34 \<or> c = 60 \<or> c = 62 \<or> c = 96 \<or> c = 127 then goto_st 0
      else if c = 35 then goto_st 453
      else if c = 37 then goto_st 5
      else if c = 47 then goto_st 510
      else if c = 63 then goto_st 456
      else if c < 91
      then (if 0 \<le> c \<and> c \<le> 32 then goto_st 0
            else goto_st 455)
      else if c > 94
      then (if 123 \<le> c \<and> c \<le> 125 then goto_st 0
            else goto_st 455)
      else goto_st 0)"

definition uri_st510 :: "int \<Rightarrow> uri_action trans" where
  "uri_st510 c =
     (if c = 34 \<or> c = 60 \<or> c = 62 \<or> c = 96 \<or> c = 127 then goto_st 0
      else if c = 35 then goto_st 453
      else if c = 37 then goto_st 5
      else if c = 47 then goto_st 511
      else if c = 63 then goto_st 456
      else if c < 91
      then (if 0 \<le> c \<and> c \<le> 32 then goto_st 0
            else goto_st 455)
      else if c > 94
      then (if 123 \<le> c \<and> c \<le> 125 then goto_st 0
            else goto_st 455)
      else goto_st 0)"

definition uri_st511 :: "int \<Rightarrow> uri_action trans" where
  "uri_st511 c =
     (if c = 2 then uri_tr546
      else if c = 33 \<or> c = 59 \<or> c = 61 \<or> c = 95 \<or> c = 126 then uri_tr547
      else if c = 35 then uri_tr548
      else if c = 37 then uri_tr549
      else if c = 47 then uri_tr550
      else if c = 48 then uri_tr551
      else if c = 49 then uri_tr552
      else if c = 50 then uri_tr553
      else if c = 58 then uri_tr555
      else if c = 63 then uri_tr556
      else if c = 64 then uri_tr557
      else if c = 91 then uri_tr558
      else if c < 51
      then (if 36 \<le> c \<and> c \<le> 46 then uri_tr547
            else goto_st 0)
      else if c > 57
      then (if c > 90
            then (if 97 \<le> c \<and> c \<le> 122 then uri_tr547
                  else goto_st 0)
            else if c \<ge> 65 then uri_tr547
            else goto_st 0)
      else uri_tr554)"

definition uri_st229 :: "int \<Rightarrow> uri_action trans" where
  "uri_st229 c =
     (if 48 \<le> c \<and> c \<le> 52 then goto_st 230
      else goto_st 0)"

definition uri_st230 :: "int \<Rightarrow> uri_action trans" where
  "uri_st230 c =
     (if 48 \<le> c \<and> c \<le> 57 then goto_st 231
      else goto_st 0)"

definition uri_st231 :: "int \<Rightarrow> uri_action trans" where
  "uri_st231 c =
     (if c = 46 then goto_st 232
      else goto_st 0)"

definition uri_st232 :: "int \<Rightarrow> uri_action trans" where
  "uri_st232 c =
     (if c = 2 then goto_st 233
      else if c = 48 then goto_st 235
      else if c = 49 then goto_st 249
      else if c = 50 then goto_st 251
      else if 51 \<le> c \<and> c \<le> 57 then goto_st 250
      else goto_st 0)"

definition uri_st233 :: "int \<Rightarrow> uri_action trans" where
  "uri_st233 c =
     (if 48 \<le> c \<and> c \<le> 52 then goto_st 234
      else goto_st 0)"

definition uri_st234 :: "int \<Rightarrow> uri_action trans" where
  "uri_st234 c =
     (if 48 \<le> c \<and> c \<le> 57 then goto_st 235
      else goto_st 0)"

definition uri_st235 :: "int \<Rightarrow> uri_action trans" where
  "uri_st235 c =
     (if c = 46 then goto_st 236
      else goto_st 0)"

definition uri_st236 :: "int \<Rightarrow> uri_action trans" where
  "uri_st236 c =
     (if c = 2 then goto_st 237
      else if c = 48 then goto_st 239
      else if c = 49 then goto_st 245
      else if c = 50 then goto_st 247
      else if 51 \<le> c \<and> c \<le> 57 then goto_st 246
      else goto_st 0)"

definition uri_st237 :: "int \<Rightarrow> uri_action trans" where
  "uri_st237 c =
     (if 48 \<le> c \<and> c \<le> 52 then goto_st 238
      else goto_st 0)"

definition uri_st238 :: "int \<Rightarrow> uri_action trans" where
  "uri_st238 c =
     (if 48 \<le> c \<and> c \<le> 57 then goto_st 239
      else goto_st 0)"

definition uri_st239 :: "int \<Rightarrow> uri_action trans" where
  "uri_st239 c =
     (if c = 46 then goto_st 240
      else goto_st 0)"

definition uri_st240 :: "int \<Rightarrow> uri_action trans" where
  "uri_st240 c =
     (if c = 2 then goto_st 241
      else if c = 48 then goto_st 512
      else if c = 49 then goto_st 516
      else if c = 50 then goto_st 518
      else if 51 \<le> c \<and> c \<le> 57 then goto_st 517
      else goto_st 0)"

definition uri_st241 :: "int \<Rightarrow> uri_action trans" where
  "uri_st241 c =
     (if 48 \<le> c \<and> c \<le> 52 then goto_st 242
      else goto_st 0)"

definition uri_st242 :: "int \<Rightarrow> uri_action trans" where
  "uri_st242 c =
     (if 48 \<le> c \<and> c \<le> 57 then goto_st 512
      else goto_st 0)"

definition uri_st512 :: "int \<Rightarrow> uri_action trans" where
  "uri_st512 c =
     (if c = 35 then uri_tr559
      else if c = 47 then uri_tr560
      else if c = 58 then uri_tr561
      else if c = 63 then uri_tr562
      else goto_st 0)"

definition uri_st513 :: "int \<Rightarrow> uri_action trans" where
  "uri_st513 c =
     (if c = 34 \<or> c = 60 \<or> c = 62 \<or> c = 96 \<or> c = 127 then goto_st 0
      else if c = 35 then uri_tr563
      else if c = 37 then goto_st 243
      else if c = 63 then uri_tr565
      else if c < 91
      then (if 0 \<le> c \<and> c \<le> 32 then goto_st 0
            else goto_st 513)
      else if c > 94
      then (if 123 \<le> c \<and> c \<le> 125 then goto_st 0
            else goto_st 513)
      else goto_st 0)"

definition uri_st243 :: "int \<Rightarrow> uri_action trans" where
  "uri_st243 c =
     (if c < 65
      then (if 48 \<le> c \<and> c \<le> 57 then goto_st 244
            else goto_st 0)
      else if c > 70
      then (if 97 \<le> c \<and> c \<le> 102 then goto_st 244
            else goto_st 0)
      else goto_st 244)"

definition uri_st244 :: "int \<Rightarrow> uri_action trans" where
  "uri_st244 c =
     (if c < 65
      then (if 48 \<le> c \<and> c \<le> 57 then goto_st 513
            else goto_st 0)
      else if c > 70
      then (if 97 \<le> c \<and> c \<le> 102 then goto_st 513
            else goto_st 0)
      else goto_st 513)"

definition uri_st514 :: "int \<Rightarrow> uri_action trans" where
  "uri_st514 c =
     (if c = 35 then uri_tr566
      else if c = 47 then uri_tr567
      else if c = 63 then uri_tr569
      else if 48 \<le> c \<and> c \<le> 57 then uri_tr568
      else goto_st 0)"

definition uri_st515 :: "int \<Rightarrow> uri_action trans" where
  "uri_st515 c =
     (if c = 35 then uri_tr570
      else if c = 47 then uri_tr571
      else if c = 63 then uri_tr573
      else if 48 \<le> c \<and> c \<le> 57 then goto_st 515
      else goto_st 0)"

definition uri_st516 :: "int \<Rightarrow> uri_action trans" where
  "uri_st516 c =
     (if c = 35 then uri_tr559
      else if c = 47 then uri_tr560
      else if c = 58 then uri_tr561
      else if c = 63 then uri_tr562
      else if 48 \<le> c \<and> c \<le> 57 then goto_st 517
      else goto_st 0)"

definition uri_st517 :: "int \<Rightarrow> uri_action trans" where
  "uri_st517 c =
     (if c = 35 then uri_tr559
      else if c = 47 then uri_tr560
      else if c = 58 then uri_tr561
      else if c = 63 then uri_tr562
      else if 48 \<le> c \<and> c \<le> 57 then goto_st 512
      else goto_st 0)"

definition uri_st518 :: "int \<Rightarrow> uri_action trans" where
  "uri_st518 c =
     (if c = 35 then uri_tr559
      else if c = 47 then uri_tr560
      else if c = 53 then goto_st 519
      else if c = 58 then uri_tr561
      else if c = 63 then uri_tr562
      else if 48 \<le> c \<and> c \<le> 57 then goto_st 512
      else goto_st 0)"

definition uri_st519 :: "int \<Rightarrow> uri_action trans" where
  "uri_st519 c =
     (if c = 35 then uri_tr559
      else if c = 47 then uri_tr560
      else if c = 58 then uri_tr561
      else if c = 63 then uri_tr562
      else if 48 \<le> c \<and> c \<le> 53 then goto_st 512
      else goto_st 0)"

definition uri_st245 :: "int \<Rightarrow> uri_action trans" where
  "uri_st245 c =
     (if c = 46 then goto_st 240
      else if 48 \<le> c \<and> c \<le> 57 then goto_st 246
      else goto_st 0)"

definition uri_st246 :: "int \<Rightarrow> uri_action trans" where
  "uri_st246 c =
     (if c = 46 then goto_st 240
      else if 48 \<le> c \<and> c \<le> 57 then goto_st 239
      else goto_st 0)"

definition uri_st247 :: "int \<Rightarrow> uri_action trans" where
  "uri_st247 c =
     (if c = 46 then goto_st 240
      else if c = 53 then goto_st 248
      else if 48 \<le> c \<and> c \<le> 57 then goto_st 239
      else goto_st 0)"

definition uri_st248 :: "int \<Rightarrow> uri_action trans" where
  "uri_st248 c =
     (if c = 46 then goto_st 240
      else if 48 \<le> c \<and> c \<le> 53 then goto_st 239
      else goto_st 0)"

definition uri_st249 :: "int \<Rightarrow> uri_action trans" where
  "uri_st249 c =
     (if c = 46 then goto_st 236
      else if 48 \<le> c \<and> c \<le> 57 then goto_st 250
      else goto_st 0)"

definition uri_st250 :: "int \<Rightarrow> uri_action trans" where
  "uri_st250 c =
     (if c = 46 then goto_st 236
      else if 48 \<le> c \<and> c \<le> 57 then goto_st 235
      else goto_st 0)"

definition uri_st251 :: "int \<Rightarrow> uri_action trans" where
  "uri_st251 c =
     (if c = 46 then goto_st 236
      else if c = 53 then goto_st 252
      else if 48 \<le> c \<and> c \<le> 57 then goto_st 235
      else goto_st 0)"

definition uri_st252 :: "int \<Rightarrow> uri_action trans" where
  "uri_st252 c =
     (if c = 46 then goto_st 236
      else if 48 \<le> c \<and> c \<le> 53 then goto_st 235
      else goto_st 0)"

definition uri_st520 :: "int \<Rightarrow> uri_action trans" where
  "uri_st520 c =
     (if c = 33 \<or> c = 61 \<or> c = 95 \<or> c = 126 then goto_st 520
      else if c = 35 then uri_tr559
      else if c = 37 then goto_st 253
      else if c = 47 then uri_tr560
      else if c = 58 then uri_tr576
      else if c = 63 then uri_tr562
      else if c = 64 then uri_tr263
      else if c < 65
      then (if 36 \<le> c \<and> c \<le> 59 then goto_st 520
            else goto_st 0)
      else if c > 90
      then (if 97 \<le> c \<and> c \<le> 122 then goto_st 520
            else goto_st 0)
      else goto_st 520)"

definition uri_st253 :: "int \<Rightarrow> uri_action trans" where
  "uri_st253 c =
     (if c < 65
      then (if 48 \<le> c \<and> c \<le> 57 then goto_st 254
            else goto_st 0)
      else if c > 70
      then (if 97 \<le> c \<and> c \<le> 102 then goto_st 254
            else goto_st 0)
      else goto_st 254)"

definition uri_st254 :: "int \<Rightarrow> uri_action trans" where
  "uri_st254 c =
     (if c < 65
      then (if 48 \<le> c \<and> c \<le> 57 then goto_st 520
            else goto_st 0)
      else if c > 70
      then (if 97 \<le> c \<and> c \<le> 102 then goto_st 520
            else goto_st 0)
      else goto_st 520)"

definition uri_st521 :: "int \<Rightarrow> uri_action trans" where
  "uri_st521 c =
     (if c = 33 \<or> c = 61 \<or> c = 95 \<or> c = 126 then goto_st 255
      else if c = 35 then uri_tr566
      else if c = 37 then goto_st 256
      else if c = 47 then uri_tr567
      else if c = 63 then uri_tr569
      else if c = 64 then uri_tr263
      else if c < 58
      then (if c > 46
            then (if 48 \<le> c \<and> c \<le> 57 then uri_tr577
                  else goto_st 0)
            else if c \<ge> 36 then goto_st 255
            else goto_st 0)
      else if c > 59
      then (if c > 90
            then (if 97 \<le> c \<and> c \<le> 122 then goto_st 255
                  else goto_st 0)
            else if c \<ge> 65 then goto_st 255
            else goto_st 0)
      else goto_st 255)"

definition uri_st255 :: "int \<Rightarrow> uri_action trans" where
  "uri_st255 c =
     (if c = 33 \<or> c = 61 \<or> c = 95 \<or> c = 126 then goto_st 255
      else if c = 37 then goto_st 256
      else if c = 64 then uri_tr263
      else if c < 48
      then (if 36 \<le> c \<and> c \<le> 46 then goto_st 255
            else goto_st 0)
      else if c > 59
      then (if c > 90
            then (if 97 \<le> c \<and> c \<le> 122 then goto_st 255
                  else goto_st 0)
            else if c \<ge> 65 then goto_st 255
            else goto_st 0)
      else goto_st 255)"

definition uri_st256 :: "int \<Rightarrow> uri_action trans" where
  "uri_st256 c =
     (if c < 65
      then (if 48 \<le> c \<and> c \<le> 57 then goto_st 257
            else goto_st 0)
      else if c > 70
      then (if 97 \<le> c \<and> c \<le> 102 then goto_st 257
            else goto_st 0)
      else goto_st 257)"

definition uri_st257 :: "int \<Rightarrow> uri_action trans" where
  "uri_st257 c =
     (if c < 65
      then (if 48 \<le> c \<and> c \<le> 57 then goto_st 255
            else goto_st 0)
      else if c > 70
      then (if 97 \<le> c \<and> c \<le> 102 then goto_st 255
            else goto_st 0)
      else goto_st 255)"

definition uri_st522 :: "int \<Rightarrow> uri_action trans" where
  "uri_st522 c =
     (if c = 2 then uri_tr546
      else if c = 33 \<or> c = 59 \<or> c = 61 \<or> c = 95 \<or> c = 126 then uri_tr578
      else if c = 35 then uri_tr548
      else if c = 37 then uri_tr579
      else if c = 47 then uri_tr550
      else if c = 48 then uri_tr580
      else if c = 49 then uri_tr581
      else if c = 50 then uri_tr582
      else if c = 58 then uri_tr584
      else if c = 63 then uri_tr556
      else if c = 91 then uri_tr558
      else if c < 51
      then (if 36 \<le> c \<and> c \<le> 46 then uri_tr578
            else goto_st 0)
      else if c > 57
      then (if c > 90
            then (if 97 \<le> c \<and> c \<le> 122 then uri_tr578
                  else goto_st 0)
            else if c \<ge> 65 then uri_tr578
            else goto_st 0)
      else uri_tr583)"

definition uri_st523 :: "int \<Rightarrow> uri_action trans" where
  "uri_st523 c =
     (if c = 33 \<or> c = 61 \<or> c = 95 \<or> c = 126 then goto_st 523
      else if c = 35 then uri_tr559
      else if c = 37 then goto_st 258
      else if c = 47 then uri_tr560
      else if c = 58 then uri_tr561
      else if c = 63 then uri_tr562
      else if c < 65
      then (if 36 \<le> c \<and> c \<le> 59 then goto_st 523
            else goto_st 0)
      else if c > 90
      then (if 97 \<le> c \<and> c \<le> 122 then goto_st 523
            else goto_st 0)
      else goto_st 523)"

definition uri_st258 :: "int \<Rightarrow> uri_action trans" where
  "uri_st258 c =
     (if c < 65
      then (if 48 \<le> c \<and> c \<le> 57 then goto_st 259
            else goto_st 0)
      else if c > 70
      then (if 97 \<le> c \<and> c \<le> 102 then goto_st 259
            else goto_st 0)
      else goto_st 259)"

definition uri_st259 :: "int \<Rightarrow> uri_action trans" where
  "uri_st259 c =
     (if c < 65
      then (if 48 \<le> c \<and> c \<le> 57 then goto_st 523
            else goto_st 0)
      else if c > 70
      then (if 97 \<le> c \<and> c \<le> 102 then goto_st 523
            else goto_st 0)
      else goto_st 523)"

definition uri_st524 :: "int \<Rightarrow> uri_action trans" where
  "uri_st524 c =
     (if c = 33 \<or> c = 61 \<or> c = 95 \<or> c = 126 then goto_st 523
      else if c = 35 then uri_tr559
      else if c = 37 then goto_st 258
      else if c = 46 then goto_st 525
      else if c = 47 then uri_tr560
      else if c = 58 then uri_tr561
      else if c = 63 then uri_tr562
      else if c < 65
      then (if 36 \<le> c \<and> c \<le> 59 then goto_st 523
            else goto_st 0)
      else if c > 90
      then (if 97 \<le> c \<and> c \<le> 122 then goto_st 523
            else goto_st 0)
      else goto_st 523)"

definition uri_st525 :: "int \<Rightarrow> uri_action trans" where
  "uri_st525 c =
     (if c = 2 then goto_st 233
      else if c = 33 \<or> c = 59 \<or> c = 61 \<or> c = 95 \<or> c = 126 then goto_st 523
      else if c = 35 then uri_tr559
      else if c = 37 then goto_st 258
      else if c = 47 then uri_tr560
      else if c = 48 then goto_st 526
      else if c = 49 then goto_st 534
      else if c = 50 then goto_st 536
      else if c = 58 then uri_tr561
      else if c = 63 then uri_tr562
      else if c < 51
      then (if 36 \<le> c \<and> c \<le> 46 then goto_st 523
            else goto_st 0)
      else if c > 57
      then (if c > 90
            then (if 97 \<le> c \<and> c \<le> 122 then goto_st 523
                  else goto_st 0)
            else if c \<ge> 65 then goto_st 523
            else goto_st 0)
      else goto_st 535)"

definition uri_st526 :: "int \<Rightarrow> uri_action trans" where
  "uri_st526 c =
     (if c = 33 \<or> c = 61 \<or> c = 95 \<or> c = 126 then goto_st 523
      else if c = 35 then uri_tr559
      else if c = 37 then goto_st 258
      else if c = 46 then goto_st 527
      else if c = 47 then uri_tr560
      else if c = 58 then uri_tr561
      else if c = 63 then uri_tr562
      else if c < 65
      then (if 36 \<le> c \<and> c \<le> 59 then goto_st 523
            else goto_st 0)
      else if c > 90
      then (if 97 \<le> c \<and> c \<le> 122 then goto_st 523
            else goto_st 0)
      else goto_st 523)"

definition uri_st527 :: "int \<Rightarrow> uri_action trans" where
  "uri_st527 c =
     (if c = 2 then goto_st 237
      else if c = 33 \<or> c = 59 \<or> c = 61 \<or> c = 95 \<or> c = 126 then goto_st 523
      else if c = 35 then uri_tr559
      else if c = 37 then goto_st 258
      else if c = 47 then uri_tr560
      else if c = 48 then goto_st 528
      else if c = 49 then goto_st 530
      else if c = 50 then goto_st 532
      else if c = 58 then uri_tr561
      else if c = 63 then uri_tr562
      else if c < 51
      then (if 36 \<le> c \<and> c \<le> 46 then goto_st 523
            else goto_st 0)
      else if c > 57
      then (if c > 90
            then (if 97 \<le> c \<and> c \<le> 122 then goto_st 523
                  else goto_st 0)
            else if c \<ge> 65 then goto_st 523
            else goto_st 0)
      else goto_st 531)"

definition uri_st528 :: "int \<Rightarrow> uri_action trans" where
  "uri_st528 c =
     (if c = 33 \<or> c = 61 \<or> c = 95 \<or> c = 126 then goto_st 523
      else if c = 35 then uri_tr559
      else if c = 37 then goto_st 258
      else if c = 46 then goto_st 529
      else if c = 47 then uri_tr560
      else if c = 58 then uri_tr561
      else if c = 63 then uri_tr562
      else if c < 65
      then (if 36 \<le> c \<and> c \<le> 59 then goto_st 523
            else goto_st 0)
      else if c > 90
      then (if 97 \<le> c \<and> c \<le> 122 then goto_st 523
            else goto_st 0)
      else goto_st 523)"

definition uri_st529 :: "int \<Rightarrow> uri_action trans" where
  "uri_st529 c =
     (if c = 2 then goto_st 241
      else if c = 33 \<or> c = 61 \<or> c = 95 \<or> c = 126 then goto_st 523
      else if c = 35 then uri_tr559
      else if c = 37 then goto_st 258
      else if c = 47 then uri_tr560
      else if c = 58 then uri_tr561
      else if c = 63 then uri_tr562
      else if c < 65
      then (if 36 \<le> c \<and> c \<le> 59 then goto_st 523
            else goto_st 0)
      else if c > 90
      then (if 97 \<le> c \<and> c \<le> 122 then goto_st 523
            else goto_st 0)
      else goto_st 523)"

definition uri_st530 :: "int \<Rightarrow> uri_action trans" where
  "uri_st530 c =
     (if c = 33 \<or> c = 59 \<or> c = 61 \<or> c = 95 \<or> c = 126 then goto_st 523
      else if c = 35 then uri_tr559
      else if c = 37 then goto_st 258
      else if c = 46 then goto_st 529
      else if c = 47 then uri_tr560
      else if c = 58 then uri_tr561
      else if c = 63 then uri_tr562
      else if c < 48
      then (if 36 \<le> c \<and> c \<le> 45 then goto_st 523
            else goto_st 0)
      else if c > 57
      then (if c > 90
            then (if 97 \<le> c \<and> c \<le> 122 then goto_st 523
                  else goto_st 0)
            else if c \<ge> 65 then goto_st 523
            else goto_st 0)
      else goto_st 531)"

definition uri_st531 :: "int \<Rightarrow> uri_action trans" where
  "uri_st531 c =
     (if c = 33 \<or> c = 59 \<or> c = 61 \<or> c = 95 \<or> c = 126 then goto_st 523
      else if c = 35 then uri_tr559
      else if c = 37 then goto_st 258
      else if c = 46 then goto_st 529
      else if c = 47 then uri_tr560
      else if c = 58 then uri_tr561
      else if c = 63 then uri_tr562
      else if c < 48
      then (if 36 \<le> c \<and> c \<le> 45 then goto_st 523
            else goto_st 0)
      else if c > 57
      then (if c > 90
            then (if 97 \<le> c \<and> c \<le> 122 then goto_st 523
                  else goto_st 0)
            else if c \<ge> 65 then goto_st 523
            else goto_st 0)
      else goto_st 528)"

definition uri_st532 :: "int \<Rightarrow> uri_action trans" where
  "uri_st532 c =
     (if c = 33 \<or> c = 59 \<or> c = 61 \<or> c = 95 \<or> c = 126 then goto_st 523
      else if c = 35 then uri_tr559
      else if c = 37 then goto_st 258
      else if c = 46 then goto_st 529
      else if c = 47 then uri_tr560
      else if c = 53 then goto_st 533
      else if c = 58 then uri_tr561
      else if c = 63 then uri_tr562
      else if c < 48
      then (if 36 \<le> c \<and> c \<le> 45 then goto_st 523
            else goto_st 0)
      else if c > 57
      then (if c > 90
            then (if 97 \<le> c \<and> c \<le> 122 then goto_st 523
                  else goto_st 0)
            else if c \<ge> 65 then goto_st 523
            else goto_st 0)
      else goto_st 528)"

definition uri_st533 :: "int \<Rightarrow> uri_action trans" where
  "uri_st533 c =
     (if c = 33 \<or> c = 61 \<or> c = 95 \<or> c = 126 then goto_st 523
      else if c = 35 then uri_tr559
      else if c = 37 then goto_st 258
      else if c = 46 then goto_st 529
      else if c = 47 then uri_tr560
      else if c = 58 then uri_tr561
      else if c = 63 then uri_tr562
      else if c < 54
      then (if c > 45
            then (if 48 \<le> c \<and> c \<le> 53 then goto_st 528
                  else goto_st 0)
            else if c \<ge> 36 then goto_st 523
            else goto_st 0)
      else if c > 59
      then (if c > 90
            then (if 97 \<le> c \<and> c \<le> 122 then goto_st 523
                  else goto_st 0)
            else if c \<ge> 65 then goto_st 523
            else goto_st 0)
      else goto_st 523)"

definition uri_st534 :: "int \<Rightarrow> uri_action trans" where
  "uri_st534 c =
     (if c = 33 \<or> c = 59 \<or> c = 61 \<or> c = 95 \<or> c = 126 then goto_st 523
      else if c = 35 then uri_tr559
      else if c = 37 then goto_st 258
      else if c = 46 then goto_st 527
      else if c = 47 then uri_tr560
      else if c = 58 then uri_tr561
      else if c = 63 then uri_tr562
      else if c < 48
      then (if 36 \<le> c \<and> c \<le> 45 then goto_st 523
            else goto_st 0)
      else if c > 57
      then (if c > 90
            then (if 97 \<le> c \<and> c \<le> 122 then goto_st 523
                  else goto_st 0)
            else if c \<ge> 65 then goto_st 523
            else goto_st 0)
      else goto_st 535)"

definition uri_st535 :: "int \<Rightarrow> uri_action trans" where
  "uri_st535 c =
     (if c = 33 \<or> c = 59 \<or> c = 61 \<or> c = 95 \<or> c = 126 then goto_st 523
      else if c = 35 then uri_tr559
      else if c = 37 then goto_st 258
      else if c = 46 then goto_st 527
      else if c = 47 then uri_tr560
      else if c = 58 then uri_tr561
      else if c = 63 then uri_tr562
      else if c < 48
      then (if 36 \<le> c \<and> c \<le> 45 then goto_st 523
            else goto_st 0)
      else if c > 57
      then (if c > 90
            then (if 97 \<le> c \<and> c \<le> 122 then goto_st 523
                  else goto_st 0)
            else if c \<ge> 65 then goto_st 523
            else goto_st 0)
      else goto_st 526)"

definition uri_st536 :: "int \<Rightarrow> uri_action trans" where
  "uri_st536 c =
     (if c = 33 \<or> c = 59 \<or> c = 61 \<or> c = 95 \<or> c = 126 then goto_st 523
      else if c = 35 then uri_tr559
      else if c = 37 then goto_st 258
      else if c = 46 then goto_st 527
      else if c = 47 then uri_tr560
      else if c = 53 then goto_st 537
      else if c = 58 then uri_tr561
      else if c = 63 then uri_tr562
      else if c < 48
      then (if 36 \<le> c \<and> c \<le> 45 then goto_st 523
            else goto_st 0)
      else if c > 57
      then (if c > 90
            then (if 97 \<le> c \<and> c \<le> 122 then goto_st 523
                  else goto_st 0)
            else if c \<ge> 65 then goto_st 523
            else goto_st 0)
      else goto_st 526)"

definition uri_st537 :: "int \<Rightarrow> uri_action trans" where
  "uri_st537 c =
     (if c = 33 \<or> c = 61 \<or> c = 95 \<or> c = 126 then goto_st 523
      else if c = 35 then uri_tr559
      else if c = 37 then goto_st 258
      else if c = 46 then goto_st 527
      else if c = 47 then uri_tr560
      else if c = 58 then uri_tr561
      else if c = 63 then uri_tr562
      else if c < 54
      then (if c > 45
            then (if 48 \<le> c \<and> c \<le> 53 then goto_st 526
                  else goto_st 0)
            else if c \<ge> 36 then goto_st 523
            else goto_st 0)
      else if c > 59
      then (if c > 90
            then (if 97 \<le> c \<and> c \<le> 122 then goto_st 523
                  else goto_st 0)
            else if c \<ge> 65 then goto_st 523
            else goto_st 0)
      else goto_st 523)"

definition uri_st538 :: "int \<Rightarrow> uri_action trans" where
  "uri_st538 c =
     (if c = 33 \<or> c = 59 \<or> c = 61 \<or> c = 95 \<or> c = 126 then goto_st 523
      else if c = 35 then uri_tr559
      else if c = 37 then goto_st 258
      else if c = 46 then goto_st 525
      else if c = 47 then uri_tr560
      else if c = 58 then uri_tr561
      else if c = 63 then uri_tr562
      else if c < 48
      then (if 36 \<le> c \<and> c \<le> 45 then goto_st 523
            else goto_st 0)
      else if c > 57
      then (if c > 90
            then (if 97 \<le> c \<and> c \<le> 122 then goto_st 523
                  else goto_st 0)
            else if c \<ge> 65 then goto_st 523
            else goto_st 0)
      else goto_st 539)"

definition uri_st539 :: "int \<Rightarrow> uri_action trans" where
  "uri_st539 c =
     (if c = 33 \<or> c = 59 \<or> c = 61 \<or> c = 95 \<or> c = 126 then goto_st 523
      else if c = 35 then uri_tr559
      else if c = 37 then goto_st 258
      else if c = 46 then goto_st 525
      else if c = 47 then uri_tr560
      else if c = 58 then uri_tr561
      else if c = 63 then uri_tr562
      else if c < 48
      then (if 36 \<le> c \<and> c \<le> 45 then goto_st 523
            else goto_st 0)
      else if c > 57
      then (if c > 90
            then (if 97 \<le> c \<and> c \<le> 122 then goto_st 523
                  else goto_st 0)
            else if c \<ge> 65 then goto_st 523
            else goto_st 0)
      else goto_st 524)"

definition uri_st540 :: "int \<Rightarrow> uri_action trans" where
  "uri_st540 c =
     (if c = 33 \<or> c = 59 \<or> c = 61 \<or> c = 95 \<or> c = 126 then goto_st 523
      else if c = 35 then uri_tr559
      else if c = 37 then goto_st 258
      else if c = 46 then goto_st 525
      else if c = 47 then uri_tr560
      else if c = 53 then goto_st 541
      else if c = 58 then uri_tr561
      else if c = 63 then uri_tr562
      else if c < 48
      then (if 36 \<le> c \<and> c \<le> 45 then goto_st 523
            else goto_st 0)
      else if c > 57
      then (if c > 90
            then (if 97 \<le> c \<and> c \<le> 122 then goto_st 523
                  else goto_st 0)
            else if c \<ge> 65 then goto_st 523
            else goto_st 0)
      else goto_st 524)"

definition uri_st541 :: "int \<Rightarrow> uri_action trans" where
  "uri_st541 c =
     (if c = 33 \<or> c = 61 \<or> c = 95 \<or> c = 126 then goto_st 523
      else if c = 35 then uri_tr559
      else if c = 37 then goto_st 258
      else if c = 46 then goto_st 525
      else if c = 47 then uri_tr560
      else if c = 58 then uri_tr561
      else if c = 63 then uri_tr562
      else if c < 54
      then (if c > 45
            then (if 48 \<le> c \<and> c \<le> 53 then goto_st 524
                  else goto_st 0)
            else if c \<ge> 36 then goto_st 523
            else goto_st 0)
      else if c > 59
      then (if c > 90
            then (if 97 \<le> c \<and> c \<le> 122 then goto_st 523
                  else goto_st 0)
            else if c \<ge> 65 then goto_st 523
            else goto_st 0)
      else goto_st 523)"

definition uri_st260 :: "int \<Rightarrow> uri_action trans" where
  "uri_st260 c =
     (if c = 58 then goto_st 368
      else if c = 118 then goto_st 447
      else if c < 65
      then (if 48 \<le> c \<and> c \<le> 57 then goto_st 261
            else goto_st 0)
      else if c > 70
      then (if 97 \<le> c \<and> c \<le> 102 then goto_st 261
            else goto_st 0)
      else goto_st 261)"

definition uri_st261 :: "int \<Rightarrow> uri_action trans" where
  "uri_st261 c =
     (if c = 58 then goto_st 265
      else if c < 65
      then (if 48 \<le> c \<and> c \<le> 57 then goto_st 262
            else goto_st 0)
      else if c > 70
      then (if 97 \<le> c \<and> c \<le> 102 then goto_st 262
            else goto_st 0)
      else goto_st 262)"

definition uri_st262 :: "int \<Rightarrow> uri_action trans" where
  "uri_st262 c =
     (if c = 58 then goto_st 265
      else if c < 65
      then (if 48 \<le> c \<and> c \<le> 57 then goto_st 263
            else goto_st 0)
      else if c > 70
      then (if 97 \<le> c \<and> c \<le> 102 then goto_st 263
            else goto_st 0)
      else goto_st 263)"

definition uri_st263 :: "int \<Rightarrow> uri_action trans" where
  "uri_st263 c =
     (if c = 58 then goto_st 265
      else if c < 65
      then (if 48 \<le> c \<and> c \<le> 57 then goto_st 264
            else goto_st 0)
      else if c > 70
      then (if 97 \<le> c \<and> c \<le> 102 then goto_st 264
            else goto_st 0)
      else goto_st 264)"

definition uri_st264 :: "int \<Rightarrow> uri_action trans" where
  "uri_st264 c =
     (if c = 58 then goto_st 265
      else goto_st 0)"

definition uri_st265 :: "int \<Rightarrow> uri_action trans" where
  "uri_st265 c =
     (if c = 58 then goto_st 363
      else if c < 65
      then (if 48 \<le> c \<and> c \<le> 57 then goto_st 266
            else goto_st 0)
      else if c > 70
      then (if 97 \<le> c \<and> c \<le> 102 then goto_st 266
            else goto_st 0)
      else goto_st 266)"

definition uri_st266 :: "int \<Rightarrow> uri_action trans" where
  "uri_st266 c =
     (if c = 58 then goto_st 270
      else if c < 65
      then (if 48 \<le> c \<and> c \<le> 57 then goto_st 267
            else goto_st 0)
      else if c > 70
      then (if 97 \<le> c \<and> c \<le> 102 then goto_st 267
            else goto_st 0)
      else goto_st 267)"

definition uri_st267 :: "int \<Rightarrow> uri_action trans" where
  "uri_st267 c =
     (if c = 58 then goto_st 270
      else if c < 65
      then (if 48 \<le> c \<and> c \<le> 57 then goto_st 268
            else goto_st 0)
      else if c > 70
      then (if 97 \<le> c \<and> c \<le> 102 then goto_st 268
            else goto_st 0)
      else goto_st 268)"

definition uri_st268 :: "int \<Rightarrow> uri_action trans" where
  "uri_st268 c =
     (if c = 58 then goto_st 270
      else if c < 65
      then (if 48 \<le> c \<and> c \<le> 57 then goto_st 269
            else goto_st 0)
      else if c > 70
      then (if 97 \<le> c \<and> c \<le> 102 then goto_st 269
            else goto_st 0)
      else goto_st 269)"

definition uri_st269 :: "int \<Rightarrow> uri_action trans" where
  "uri_st269 c =
     (if c = 58 then goto_st 270
      else goto_st 0)"

definition uri_st270 :: "int \<Rightarrow> uri_action trans" where
  "uri_st270 c =
     (if c = 58 then goto_st 358
      else if c < 65
      then (if 48 \<le> c \<and> c \<le> 57 then goto_st 271
            else goto_st 0)
      else if c > 70
      then (if 97 \<le> c \<and> c \<le> 102 then goto_st 271
            else goto_st 0)
      else goto_st 271)"

definition uri_st271 :: "int \<Rightarrow> uri_action trans" where
  "uri_st271 c =
     (if c = 58 then goto_st 275
      else if c < 65
      then (if 48 \<le> c \<and> c \<le> 57 then goto_st 272
            else goto_st 0)
      else if c > 70
      then (if 97 \<le> c \<and> c \<le> 102 then goto_st 272
            else goto_st 0)
      else goto_st 272)"

definition uri_st272 :: "int \<Rightarrow> uri_action trans" where
  "uri_st272 c =
     (if c = 58 then goto_st 275
      else if c < 65
      then (if 48 \<le> c \<and> c \<le> 57 then goto_st 273
            else goto_st 0)
      else if c > 70
      then (if 97 \<le> c \<and> c \<le> 102 then goto_st 273
            else goto_st 0)
      else goto_st 273)"

definition uri_st273 :: "int \<Rightarrow> uri_action trans" where
  "uri_st273 c =
     (if c = 58 then goto_st 275
      else if c < 65
      then (if 48 \<le> c \<and> c \<le> 57 then goto_st 274
            else goto_st 0)
      else if c > 70
      then (if 97 \<le> c \<and> c \<le> 102 then goto_st 274
            else goto_st 0)
      else goto_st 274)"

definition uri_st274 :: "int \<Rightarrow> uri_action trans" where
  "uri_st274 c =
     (if c = 58 then goto_st 275
      else goto_st 0)"

definition uri_st275 :: "int \<Rightarrow> uri_action trans" where
  "uri_st275 c =
     (if c = 58 then goto_st 353
      else if c < 65
      then (if 48 \<le> c \<and> c \<le> 57 then goto_st 276
            else goto_st 0)
      else if c > 70
      then (if 97 \<le> c \<and> c \<le> 102 then goto_st 276
            else goto_st 0)
      else goto_st 276)"

definition uri_st276 :: "int \<Rightarrow> uri_action trans" where
  "uri_st276 c =
     (if c = 58 then goto_st 280
      else if c < 65
      then (if 48 \<le> c \<and> c \<le> 57 then goto_st 277
            else goto_st 0)
      else if c > 70
      then (if 97 \<le> c \<and> c \<le> 102 then goto_st 277
            else goto_st 0)
      else goto_st 277)"

definition uri_st277 :: "int \<Rightarrow> uri_action trans" where
  "uri_st277 c =
     (if c = 58 then goto_st 280
      else if c < 65
      then (if 48 \<le> c \<and> c \<le> 57 then goto_st 278
            else goto_st 0)
      else if c > 70
      then (if 97 \<le> c \<and> c \<le> 102 then goto_st 278
            else goto_st 0)
      else goto_st 278)"

definition uri_st278 :: "int \<Rightarrow> uri_action trans" where
  "uri_st278 c =
     (if c = 58 then goto_st 280
      else if c < 65
      then (if 48 \<le> c \<and> c \<le> 57 then goto_st 279
            else goto_st 0)
      else if c > 70
      then (if 97 \<le> c \<and> c \<le> 102 then goto_st 279
            else goto_st 0)
      else goto_st 279)"

definition uri_st279 :: "int \<Rightarrow> uri_action trans" where
  "uri_st279 c =
     (if c = 58 then goto_st 280
      else goto_st 0)"

definition uri_st280 :: "int \<Rightarrow> uri_action trans" where
  "uri_st280 c =
     (if c = 58 then goto_st 348
      else if c < 65
      then (if 48 \<le> c \<and> c \<le> 57 then goto_st 281
            else goto_st 0)
      else if c > 70
      then (if 97 \<le> c \<and> c \<le> 102 then goto_st 281
            else goto_st 0)
      else goto_st 281)"

definition uri_st281 :: "int \<Rightarrow> uri_action trans" where
  "uri_st281 c =
     (if c = 58 then goto_st 285
      else if c < 65
      then (if 48 \<le> c \<and> c \<le> 57 then goto_st 282
            else goto_st 0)
      else if c > 70
      then (if 97 \<le> c \<and> c \<le> 102 then goto_st 282
            else goto_st 0)
      else goto_st 282)"

definition uri_st282 :: "int \<Rightarrow> uri_action trans" where
  "uri_st282 c =
     (if c = 58 then goto_st 285
      else if c < 65
      then (if 48 \<le> c \<and> c \<le> 57 then goto_st 283
            else goto_st 0)
      else if c > 70
      then (if 97 \<le> c \<and> c \<le> 102 then goto_st 283
            else goto_st 0)
      else goto_st 283)"

definition uri_st283 :: "int \<Rightarrow> uri_action trans" where
  "uri_st283 c =
     (if c = 58 then goto_st 285
      else if c < 65
      then (if 48 \<le> c \<and> c \<le> 57 then goto_st 284
            else goto_st 0)
      else if c > 70
      then (if 97 \<le> c \<and> c \<le> 102 then goto_st 284
            else goto_st 0)
      else goto_st 284)"

definition uri_st284 :: "int \<Rightarrow> uri_action trans" where
  "uri_st284 c =
     (if c = 58 then goto_st 285
      else goto_st 0)"

definition uri_st285 :: "int \<Rightarrow> uri_action trans" where
  "uri_st285 c =
     (if c = 58 then goto_st 335
      else if c < 65
      then (if 48 \<le> c \<and> c \<le> 57 then goto_st 286
            else goto_st 0)
      else if c > 70
      then (if 97 \<le> c \<and> c \<le> 102 then goto_st 286
            else goto_st 0)
      else goto_st 286)"

definition uri_st286 :: "int \<Rightarrow> uri_action trans" where
  "uri_st286 c =
     (if c = 58 then goto_st 290
      else if c < 65
      then (if 48 \<le> c \<and> c \<le> 57 then goto_st 287
            else goto_st 0)
      else if c > 70
      then (if 97 \<le> c \<and> c \<le> 102 then goto_st 287
            else goto_st 0)
      else goto_st 287)"

definition uri_st287 :: "int \<Rightarrow> uri_action trans" where
  "uri_st287 c =
     (if c = 58 then goto_st 290
      else if c < 65
      then (if 48 \<le> c \<and> c \<le> 57 then goto_st 288
            else goto_st 0)
      else if c > 70
      then (if 97 \<le> c \<and> c \<le> 102 then goto_st 288
            else goto_st 0)
      else goto_st 288)"

definition uri_st288 :: "int \<Rightarrow> uri_action trans" where
  "uri_st288 c =
     (if c = 58 then goto_st 290
      else if c < 65
      then (if 48 \<le> c \<and> c \<le> 57 then goto_st 289
            else goto_st 0)
      else if c > 70
      then (if 97 \<le> c \<and> c \<le> 102 then goto_st 289
            else goto_st 0)
      else goto_st 289)"

definition uri_st289 :: "int \<Rightarrow> uri_action trans" where
  "uri_st289 c =
     (if c = 58 then goto_st 290
      else goto_st 0)"

definition uri_st290 :: "int \<Rightarrow> uri_action trans" where
  "uri_st290 c =
     (if c = 2 then goto_st 291
      else if c = 48 then goto_st 318
      else if c = 49 then goto_st 326
      else if c = 50 then goto_st 329
      else if c = 58 then goto_st 333
      else if c < 65
      then (if 51 \<le> c \<and> c \<le> 57 then goto_st 332
            else goto_st 0)
      else if c > 70
      then (if 97 \<le> c \<and> c \<le> 102 then goto_st 334
            else goto_st 0)
      else goto_st 334)"

definition uri_st291 :: "int \<Rightarrow> uri_action trans" where
  "uri_st291 c =
     (if 48 \<le> c \<and> c \<le> 52 then goto_st 292
      else goto_st 0)"

definition uri_st292 :: "int \<Rightarrow> uri_action trans" where
  "uri_st292 c =
     (if 48 \<le> c \<and> c \<le> 57 then goto_st 293
      else goto_st 0)"

definition uri_st293 :: "int \<Rightarrow> uri_action trans" where
  "uri_st293 c =
     (if c = 46 then goto_st 294
      else goto_st 0)"

definition uri_st294 :: "int \<Rightarrow> uri_action trans" where
  "uri_st294 c =
     (if c = 2 then goto_st 295
      else if c = 48 then goto_st 297
      else if c = 49 then goto_st 314
      else if c = 50 then goto_st 316
      else if 51 \<le> c \<and> c \<le> 57 then goto_st 315
      else goto_st 0)"

definition uri_st295 :: "int \<Rightarrow> uri_action trans" where
  "uri_st295 c =
     (if 48 \<le> c \<and> c \<le> 52 then goto_st 296
      else goto_st 0)"

definition uri_st296 :: "int \<Rightarrow> uri_action trans" where
  "uri_st296 c =
     (if 48 \<le> c \<and> c \<le> 57 then goto_st 297
      else goto_st 0)"

definition uri_st297 :: "int \<Rightarrow> uri_action trans" where
  "uri_st297 c =
     (if c = 46 then goto_st 298
      else goto_st 0)"

definition uri_st298 :: "int \<Rightarrow> uri_action trans" where
  "uri_st298 c =
     (if c = 2 then goto_st 299
      else if c = 48 then goto_st 301
      else if c = 49 then goto_st 310
      else if c = 50 then goto_st 312
      else if 51 \<le> c \<and> c \<le> 57 then goto_st 311
      else goto_st 0)"

definition uri_st299 :: "int \<Rightarrow> uri_action trans" where
  "uri_st299 c =
     (if 48 \<le> c \<and> c \<le> 52 then goto_st 300
      else goto_st 0)"

definition uri_st300 :: "int \<Rightarrow> uri_action trans" where
  "uri_st300 c =
     (if 48 \<le> c \<and> c \<le> 57 then goto_st 301
      else goto_st 0)"

definition uri_st301 :: "int \<Rightarrow> uri_action trans" where
  "uri_st301 c =
     (if c = 46 then goto_st 302
      else goto_st 0)"

definition uri_st302 :: "int \<Rightarrow> uri_action trans" where
  "uri_st302 c =
     (if c = 2 then goto_st 303
      else if c = 48 then goto_st 305
      else if c = 49 then goto_st 306
      else if c = 50 then goto_st 308
      else if 51 \<le> c \<and> c \<le> 57 then goto_st 307
      else goto_st 0)"

definition uri_st303 :: "int \<Rightarrow> uri_action trans" where
  "uri_st303 c =
     (if 48 \<le> c \<and> c \<le> 52 then goto_st 304
      else goto_st 0)"

definition uri_st304 :: "int \<Rightarrow> uri_action trans" where
  "uri_st304 c =
     (if 48 \<le> c \<and> c \<le> 57 then goto_st 305
      else goto_st 0)"

definition uri_st305 :: "int \<Rightarrow> uri_action trans" where
  "uri_st305 c =
     (if c = 93 then goto_st 512
      else goto_st 0)"

definition uri_st306 :: "int \<Rightarrow> uri_action trans" where
  "uri_st306 c =
     (if c = 93 then goto_st 512
      else if 48 \<le> c \<and> c \<le> 57 then goto_st 307
      else goto_st 0)"

definition uri_st307 :: "int \<Rightarrow> uri_action trans" where
  "uri_st307 c =
     (if c = 93 then goto_st 512
      else if 48 \<le> c \<and> c \<le> 57 then goto_st 305
      else goto_st 0)"

definition uri_st308 :: "int \<Rightarrow> uri_action trans" where
  "uri_st308 c =
     (if c = 53 then goto_st 309
      else if c = 93 then goto_st 512
      else if 48 \<le> c \<and> c \<le> 57 then goto_st 305
      else goto_st 0)"

definition uri_st309 :: "int \<Rightarrow> uri_action trans" where
  "uri_st309 c =
     (if c = 93 then goto_st 512
      else if 48 \<le> c \<and> c \<le> 53 then goto_st 305
      else goto_st 0)"

definition uri_st310 :: "int \<Rightarrow> uri_action trans" where
  "uri_st310 c =
     (if c = 46 then goto_st 302
      else if 48 \<le> c \<and> c \<le> 57 then goto_st 311
      else goto_st 0)"

definition uri_st311 :: "int \<Rightarrow> uri_action trans" where
  "uri_st311 c =
     (if c = 46 then goto_st 302
      else if 48 \<le> c \<and> c \<le> 57 then goto_st 301
      else goto_st 0)"

definition uri_st312 :: "int \<Rightarrow> uri_action trans" where
  "uri_st312 c =
     (if c = 46 then goto_st 302
      else if c = 53 then goto_st 313
      else if 48 \<le> c \<and> c \<le> 57 then goto_st 301
      else goto_st 0)"

definition uri_st313 :: "int \<Rightarrow> uri_action trans" where
  "uri_st313 c =
     (if c = 46 then goto_st 302
      else if 48 \<le> c \<and> c \<le> 53 then goto_st 301
      else goto_st 0)"

definition uri_st314 :: "int \<Rightarrow> uri_action trans" where
  "uri_st314 c =
     (if c = 46 then goto_st 298
      else if 48 \<le> c \<and> c \<le> 57 then goto_st 315
      else goto_st 0)"

definition uri_st315 :: "int \<Rightarrow> uri_action trans" where
  "uri_st315 c =
     (if c = 46 then goto_st 298
      else if 48 \<le> c \<and> c \<le> 57 then goto_st 297
      else goto_st 0)"

definition uri_st316 :: "int \<Rightarrow> uri_action trans" where
  "uri_st316 c =
     (if c = 46 then goto_st 298
      else if c = 53 then goto_st 317
      else if 48 \<le> c \<and> c \<le> 57 then goto_st 297
      else goto_st 0)"

definition uri_st317 :: "int \<Rightarrow> uri_action trans" where
  "uri_st317 c =
     (if c = 46 then goto_st 298
      else if 48 \<le> c \<and> c \<le> 53 then goto_st 297
      else goto_st 0)"

definition uri_st318 :: "int \<Rightarrow> uri_action trans" where
  "uri_st318 c =
     (if c = 46 then goto_st 294
      else if c = 58 then goto_st 322
      else if c < 65
      then (if 48 \<le> c \<and> c \<le> 57 then goto_st 319
            else goto_st 0)
      else if c > 70
      then (if 97 \<le> c \<and> c \<le> 102 then goto_st 319
            else goto_st 0)
      else goto_st 319)"

definition uri_st319 :: "int \<Rightarrow> uri_action trans" where
  "uri_st319 c =
     (if c = 58 then goto_st 322
      else if c < 65
      then (if 48 \<le> c \<and> c \<le> 57 then goto_st 320
            else goto_st 0)
      else if c > 70
      then (if 97 \<le> c \<and> c \<le> 102 then goto_st 320
            else goto_st 0)
      else goto_st 320)"

definition uri_st320 :: "int \<Rightarrow> uri_action trans" where
  "uri_st320 c =
     (if c = 58 then goto_st 322
      else if c < 65
      then (if 48 \<le> c \<and> c \<le> 57 then goto_st 321
            else goto_st 0)
      else if c > 70
      then (if 97 \<le> c \<and> c \<le> 102 then goto_st 321
            else goto_st 0)
      else goto_st 321)"

definition uri_st321 :: "int \<Rightarrow> uri_action trans" where
  "uri_st321 c =
     (if c = 58 then goto_st 322
      else goto_st 0)"

definition uri_st322 :: "int \<Rightarrow> uri_action trans" where
  "uri_st322 c =
     (if c = 58 then goto_st 305
      else if c < 65
      then (if 48 \<le> c \<and> c \<le> 57 then goto_st 323
            else goto_st 0)
      else if c > 70
      then (if 97 \<le> c \<and> c \<le> 102 then goto_st 323
            else goto_st 0)
      else goto_st 323)"

definition uri_st323 :: "int \<Rightarrow> uri_action trans" where
  "uri_st323 c =
     (if c = 93 then goto_st 512
      else if c < 65
      then (if 48 \<le> c \<and> c \<le> 57 then goto_st 324
            else goto_st 0)
      else if c > 70
      then (if 97 \<le> c \<and> c \<le> 102 then goto_st 324
            else goto_st 0)
      else goto_st 324)"

definition uri_st324 :: "int \<Rightarrow> uri_action trans" where
  "uri_st324 c =
     (if c = 93 then goto_st 512
      else if c < 65
      then (if 48 \<le> c \<and> c \<le> 57 then goto_st 325
            else goto_st 0)
      else if c > 70
      then (if 97 \<le> c \<and> c \<le> 102 then goto_st 325
            else goto_st 0)
      else goto_st 325)"

definition uri_st325 :: "int \<Rightarrow> uri_action trans" where
  "uri_st325 c =
     (if c = 93 then goto_st 512
      else if c < 65
      then (if 48 \<le> c \<and> c \<le> 57 then goto_st 305
            else goto_st 0)
      else if c > 70
      then (if 97 \<le> c \<and> c \<le> 102 then goto_st 305
            else goto_st 0)
      else goto_st 305)"

definition uri_st326 :: "int \<Rightarrow> uri_action trans" where
  "uri_st326 c =
     (if c = 46 then goto_st 294
      else if c = 58 then goto_st 322
      else if c < 65
      then (if 48 \<le> c \<and> c \<le> 57 then goto_st 327
            else goto_st 0)
      else if c > 70
      then (if 97 \<le> c \<and> c \<le> 102 then goto_st 319
            else goto_st 0)
      else goto_st 319)"

definition uri_st327 :: "int \<Rightarrow> uri_action trans" where
  "uri_st327 c =
     (if c = 46 then goto_st 294
      else if c = 58 then goto_st 322
      else if c < 65
      then (if 48 \<le> c \<and> c \<le> 57 then goto_st 328
            else goto_st 0)
      else if c > 70
      then (if 97 \<le> c \<and> c \<le> 102 then goto_st 320
            else goto_st 0)
      else goto_st 320)"

definition uri_st328 :: "int \<Rightarrow> uri_action trans" where
  "uri_st328 c =
     (if c = 46 then goto_st 294
      else if c = 58 then goto_st 322
      else if c < 65
      then (if 48 \<le> c \<and> c \<le> 57 then goto_st 321
            else goto_st 0)
      else if c > 70
      then (if 97 \<le> c \<and> c \<le> 102 then goto_st 321
            else goto_st 0)
      else goto_st 321)"

definition uri_st329 :: "int \<Rightarrow> uri_action trans" where
  "uri_st329 c =
     (if c = 46 then goto_st 294
      else if c = 53 then goto_st 331
      else if c = 58 then goto_st 322
      else if c < 65
      then (if 48 \<le> c \<and> c \<le> 57 then goto_st 330
            else goto_st 0)
      else if c > 70
      then (if 97 \<le> c \<and> c \<le> 102 then goto_st 319
            else goto_st 0)
      else goto_st 319)"

definition uri_st330 :: "int \<Rightarrow> uri_action trans" where
  "uri_st330 c =
     (if c = 46 then goto_st 294
      else if c = 58 then goto_st 322
      else if c < 65
      then (if 48 \<le> c \<and> c \<le> 57 then goto_st 320
            else goto_st 0)
      else if c > 70
      then (if 97 \<le> c \<and> c \<le> 102 then goto_st 320
            else goto_st 0)
      else goto_st 320)"

definition uri_st331 :: "int \<Rightarrow> uri_action trans" where
  "uri_st331 c =
     (if c = 46 then goto_st 294
      else if c = 58 then goto_st 322
      else if c < 54
      then (if 48 \<le> c \<and> c \<le> 53 then goto_st 328
            else goto_st 0)
      else if c > 57
      then (if c > 70
            then (if 97 \<le> c \<and> c \<le> 102 then goto_st 320
                  else goto_st 0)
            else if c \<ge> 65 then goto_st 320
            else goto_st 0)
      else goto_st 320)"

definition uri_st332 :: "int \<Rightarrow> uri_action trans" where
  "uri_st332 c =
     (if c = 46 then goto_st 294
      else if c = 58 then goto_st 322
      else if c < 65
      then (if 48 \<le> c \<and> c \<le> 57 then goto_st 330
            else goto_st 0)
      else if c > 70
      then (if 97 \<le> c \<and> c \<le> 102 then goto_st 319
            else goto_st 0)
      else goto_st 319)"

definition uri_st333 :: "int \<Rightarrow> uri_action trans" where
  "uri_st333 c =
     (if c < 65
      then (if 48 \<le> c \<and> c \<le> 57 then goto_st 323
            else goto_st 0)
      else if c > 70
      then (if 97 \<le> c \<and> c \<le> 102 then goto_st 323
            else goto_st 0)
      else goto_st 323)"

definition uri_st334 :: "int \<Rightarrow> uri_action trans" where
  "uri_st334 c =
     (if c = 58 then goto_st 322
      else if c < 65
      then (if 48 \<le> c \<and> c \<le> 57 then goto_st 319
            else goto_st 0)
      else if c > 70
      then (if 97 \<le> c \<and> c \<le> 102 then goto_st 319
            else goto_st 0)
      else goto_st 319)"

definition uri_st335 :: "int \<Rightarrow> uri_action trans" where
  "uri_st335 c =
     (if c = 2 then goto_st 291
      else if c = 48 then goto_st 336
      else if c = 49 then goto_st 340
      else if c = 50 then goto_st 343
      else if c < 65
      then (if 51 \<le> c \<and> c \<le> 57 then goto_st 346
            else goto_st 0)
      else if c > 70
      then (if 97 \<le> c \<and> c \<le> 102 then goto_st 347
            else goto_st 0)
      else goto_st 347)"

definition uri_st336 :: "int \<Rightarrow> uri_action trans" where
  "uri_st336 c =
     (if c = 46 then goto_st 294
      else if c = 58 then goto_st 333
      else if c < 65
      then (if 48 \<le> c \<and> c \<le> 57 then goto_st 337
            else goto_st 0)
      else if c > 70
      then (if 97 \<le> c \<and> c \<le> 102 then goto_st 337
            else goto_st 0)
      else goto_st 337)"

definition uri_st337 :: "int \<Rightarrow> uri_action trans" where
  "uri_st337 c =
     (if c = 58 then goto_st 333
      else if c < 65
      then (if 48 \<le> c \<and> c \<le> 57 then goto_st 338
            else goto_st 0)
      else if c > 70
      then (if 97 \<le> c \<and> c \<le> 102 then goto_st 338
            else goto_st 0)
      else goto_st 338)"

definition uri_st338 :: "int \<Rightarrow> uri_action trans" where
  "uri_st338 c =
     (if c = 58 then goto_st 333
      else if c < 65
      then (if 48 \<le> c \<and> c \<le> 57 then goto_st 339
            else goto_st 0)
      else if c > 70
      then (if 97 \<le> c \<and> c \<le> 102 then goto_st 339
            else goto_st 0)
      else goto_st 339)"

definition uri_st339 :: "int \<Rightarrow> uri_action trans" where
  "uri_st339 c =
     (if c = 58 then goto_st 333
      else goto_st 0)"

definition uri_st340 :: "int \<Rightarrow> uri_action trans" where
  "uri_st340 c =
     (if c = 46 then goto_st 294
      else if c = 58 then goto_st 333
      else if c < 65
      then (if 48 \<le> c \<and> c \<le> 57 then goto_st 341
            else goto_st 0)
      else if c > 70
      then (if 97 \<le> c \<and> c \<le> 102 then goto_st 337
            else goto_st 0)
      else goto_st 337)"

definition uri_st341 :: "int \<Rightarrow> uri_action trans" where
  "uri_st341 c =
     (if c = 46 then goto_st 294
      else if c = 58 then goto_st 333
      else if c < 65
      then (if 48 \<le> c \<and> c \<le> 57 then goto_st 342
            else goto_st 0)
      else if c > 70
      then (if 97 \<le> c \<and> c \<le> 102 then goto_st 338
            else goto_st 0)
      else goto_st 338)"

definition uri_st342 :: "int \<Rightarrow> uri_action trans" where
  "uri_st342 c =
     (if c = 46 then goto_st 294
      else if c = 58 then goto_st 333
      else if c < 65
      then (if 48 \<le> c \<and> c \<le> 57 then goto_st 339
            else goto_st 0)
      else if c > 70
      then (if 97 \<le> c \<and> c \<le> 102 then goto_st 339
            else goto_st 0)
      else goto_st 339)"

definition uri_st343 :: "int \<Rightarrow> uri_action trans" where
  "uri_st343 c =
     (if c = 46 then goto_st 294
      else if c = 53 then goto_st 345
      else if c = 58 then goto_st 333
      else if c < 65
      then (if 48 \<le> c \<and> c \<le> 57 then goto_st 344
            else goto_st 0)
      else if c > 70
      then (if 97 \<le> c \<and> c \<le> 102 then goto_st 337
            else goto_st 0)
      else goto_st 337)"

definition uri_st344 :: "int \<Rightarrow> uri_action trans" where
  "uri_st344 c =
     (if c = 46 then goto_st 294
      else if c = 58 then goto_st 333
      else if c < 65
      then (if 48 \<le> c \<and> c \<le> 57 then goto_st 338
            else goto_st 0)
      else if c > 70
      then (if 97 \<le> c \<and> c \<le> 102 then goto_st 338
            else goto_st 0)
      else goto_st 338)"

definition uri_st345 :: "int \<Rightarrow> uri_action trans" where
  "uri_st345 c =
     (if c = 46 then goto_st 294
      else if c = 58 then goto_st 333
      else if c < 54
      then (if 48 \<le> c \<and> c \<le> 53 then goto_st 342
            else goto_st 0)
      else if c > 57
      then (if c > 70
            then (if 97 \<le> c \<and> c \<le> 102 then goto_st 338
                  else goto_st 0)
            else if c \<ge> 65 then goto_st 338
            else goto_st 0)
      else goto_st 338)"

definition uri_st346 :: "int \<Rightarrow> uri_action trans" where
  "uri_st346 c =
     (if c = 46 then goto_st 294
      else if c = 58 then goto_st 333
      else if c < 65
      then (if 48 \<le> c \<and> c \<le> 57 then goto_st 344
            else goto_st 0)
      else if c > 70
      then (if 97 \<le> c \<and> c \<le> 102 then goto_st 337
            else goto_st 0)
      else goto_st 337)"

definition uri_st347 :: "int \<Rightarrow> uri_action trans" where
  "uri_st347 c =
     (if c = 58 then goto_st 333
      else if c < 65
      then (if 48 \<le> c \<and> c \<le> 57 then goto_st 337
            else goto_st 0)
      else if c > 70
      then (if 97 \<le> c \<and> c \<le> 102 then goto_st 337
            else goto_st 0)
      else goto_st 337)"

definition uri_st348 :: "int \<Rightarrow> uri_action trans" where
  "uri_st348 c =
     (if c < 65
      then (if 48 \<le> c \<and> c \<le> 57 then goto_st 349
            else goto_st 0)
      else if c > 70
      then (if 97 \<le> c \<and> c \<le> 102 then goto_st 349
            else goto_st 0)
      else goto_st 349)"

definition uri_st349 :: "int \<Rightarrow> uri_action trans" where
  "uri_st349 c =
     (if c = 58 then goto_st 335
      else if c < 65
      then (if 48 \<le> c \<and> c \<le> 57 then goto_st 350
            else goto_st 0)
      else if c > 70
      then (if 97 \<le> c \<and> c \<le> 102 then goto_st 350
            else goto_st 0)
      else goto_st 350)"

definition uri_st350 :: "int \<Rightarrow> uri_action trans" where
  "uri_st350 c =
     (if c = 58 then goto_st 335
      else if c < 65
      then (if 48 \<le> c \<and> c \<le> 57 then goto_st 351
            else goto_st 0)
      else if c > 70
      then (if 97 \<le> c \<and> c \<le> 102 then goto_st 351
            else goto_st 0)
      else goto_st 351)"

definition uri_st351 :: "int \<Rightarrow> uri_action trans" where
  "uri_st351 c =
     (if c = 58 then goto_st 335
      else if c < 65
      then (if 48 \<le> c \<and> c \<le> 57 then goto_st 352
            else goto_st 0)
      else if c > 70
      then (if 97 \<le> c \<and> c \<le> 102 then goto_st 352
            else goto_st 0)
      else goto_st 352)"

definition uri_st352 :: "int \<Rightarrow> uri_action trans" where
  "uri_st352 c =
     (if c = 58 then goto_st 335
      else goto_st 0)"

definition uri_st353 :: "int \<Rightarrow> uri_action trans" where
  "uri_st353 c =
     (if c < 65
      then (if 48 \<le> c \<and> c \<le> 57 then goto_st 354
            else goto_st 0)
      else if c > 70
      then (if 97 \<le> c \<and> c \<le> 102 then goto_st 354
            else goto_st 0)
      else goto_st 354)"

definition uri_st354 :: "int \<Rightarrow> uri_action trans" where
  "uri_st354 c =
     (if c = 58 then goto_st 348
      else if c < 65
      then (if 48 \<le> c \<and> c \<le> 57 then goto_st 355
            else goto_st 0)
      else if c > 70
      then (if 97 \<le> c \<and> c \<le> 102 then goto_st 355
            else goto_st 0)
      else goto_st 355)"

definition uri_st355 :: "int \<Rightarrow> uri_action trans" where
  "uri_st355 c =
     (if c = 58 then goto_st 348
      else if c < 65
      then (if 48 \<le> c \<and> c \<le> 57 then goto_st 356
            else goto_st 0)
      else if c > 70
      then (if 97 \<le> c \<and> c \<le> 102 then goto_st 356
            else goto_st 0)
      else goto_st 356)"

definition uri_st356 :: "int \<Rightarrow> uri_action trans" where
  "uri_st356 c =
     (if c = 58 then goto_st 348
      else if c < 65
      then (if 48 \<le> c \<and> c \<le> 57 then goto_st 357
            else goto_st 0)
      else if c > 70
      then (if 97 \<le> c \<and> c \<le> 102 then goto_st 357
            else goto_st 0)
      else goto_st 357)"

definition uri_st357 :: "int \<Rightarrow> uri_action trans" where
  "uri_st357 c =
     (if c = 58 then goto_st 348
      else goto_st 0)"

definition uri_st358 :: "int \<Rightarrow> uri_action trans" where
  "uri_st358 c =
     (if c < 65
      then (if 48 \<le> c \<and> c \<le> 57 then goto_st 359
            else goto_st 0)
      else if c > 70
      then (if 97 \<le> c \<and> c \<le> 102 then goto_st 359
            else goto_st 0)
      else goto_st 359)"

definition uri_st359 :: "int \<Rightarrow> uri_action trans" where
  "uri_st359 c =
     (if c = 58 then goto_st 353
      else if c < 65
      then (if 48 \<le> c \<and> c \<le> 57 then goto_st 360
            else goto_st 0)
      else if c > 70
      then (if 97 \<le> c \<and> c \<le> 102 then goto_st 360
            else goto_st 0)
      else goto_st 360)"

definition uri_st360 :: "int \<Rightarrow> uri_action trans" where
  "uri_st360 c =
     (if c = 58 then goto_st 353
      else if c < 65
      then (if 48 \<le> c \<and> c \<le> 57 then goto_st 361
            else goto_st 0)
      else if c > 70
      then (if 97 \<le> c \<and> c \<le> 102 then goto_st 361
            else goto_st 0)
      else goto_st 361)"

definition uri_st361 :: "int \<Rightarrow> uri_action trans" where
  "uri_st361 c =
     (if c = 58 then goto_st 353
      else if c < 65
      then (if 48 \<le> c \<and> c \<le> 57 then goto_st 362
            else goto_st 0)
      else if c > 70
      then (if 97 \<le> c \<and> c \<le> 102 then goto_st 362
            else goto_st 0)
      else goto_st 362)"

definition uri_st362 :: "int \<Rightarrow> uri_action trans" where
  "uri_st362 c =
     (if c = 58 then goto_st 353
      else goto_st 0)"

definition uri_st363 :: "int \<Rightarrow> uri_action trans" where
  "uri_st363 c =
     (if c < 65
      then (if 48 \<le> c \<and> c \<le> 57 then goto_st 364
            else goto_st 0)
      else if c > 70
      then (if 97 \<le> c \<and> c \<le> 102 then goto_st 364
            else goto_st 0)
      else goto_st 364)"

definition uri_st364 :: "int \<Rightarrow> uri_action trans" where
  "uri_st364 c =
     (if c = 58 then goto_st 358
      else if c < 65
      then (if 48 \<le> c \<and> c \<le> 57 then goto_st 365
            else goto_st 0)
      else if c > 70
      then (if 97 \<le> c \<and> c \<le> 102 then goto_st 365
            else goto_st 0)
      else goto_st 365)"

definition uri_st365 :: "int \<Rightarrow> uri_action trans" where
  "uri_st365 c =
     (if c = 58 then goto_st 358
      else if c < 65
      then (if 48 \<le> c \<and> c \<le> 57 then goto_st 366
            else goto_st 0)
      else if c > 70
      then (if 97 \<le> c \<and> c \<le> 102 then goto_st 366
            else goto_st 0)
      else goto_st 366)"

definition uri_st366 :: "int \<Rightarrow> uri_action trans" where
  "uri_st366 c =
     (if c = 58 then goto_st 358
      else if c < 65
      then (if 48 \<le> c \<and> c \<le> 57 then goto_st 367
            else goto_st 0)
      else if c > 70
      then (if 97 \<le> c \<and> c \<le> 102 then goto_st 367
            else goto_st 0)
      else goto_st 367)"

definition uri_st367 :: "int \<Rightarrow> uri_action trans" where
  "uri_st367 c =
     (if c = 58 then goto_st 358
      else goto_st 0)"

definition uri_st368 :: "int \<Rightarrow> uri_action trans" where
  "uri_st368 c =
     (if c = 58 then goto_st 369
      else goto_st 0)"

definition uri_st369 :: "int \<Rightarrow> uri_action trans" where
  "uri_st369 c =
     (if c = 2 then goto_st 291
      else if c = 48 then goto_st 370
      else if c = 49 then goto_st 439
      else if c = 50 then goto_st 442
      else if c = 93 then goto_st 512
      else if c < 65
      then (if 51 \<le> c \<and> c \<le> 57 then goto_st 445
            else goto_st 0)
      else if c > 70
      then (if 97 \<le> c \<and> c \<le> 102 then goto_st 446
            else goto_st 0)
      else goto_st 446)"

definition uri_st370 :: "int \<Rightarrow> uri_action trans" where
  "uri_st370 c =
     (if c = 46 then goto_st 294
      else if c = 58 then goto_st 374
      else if c = 93 then goto_st 512
      else if c < 65
      then (if 48 \<le> c \<and> c \<le> 57 then goto_st 371
            else goto_st 0)
      else if c > 70
      then (if 97 \<le> c \<and> c \<le> 102 then goto_st 371
            else goto_st 0)
      else goto_st 371)"

definition uri_st371 :: "int \<Rightarrow> uri_action trans" where
  "uri_st371 c =
     (if c = 58 then goto_st 374
      else if c = 93 then goto_st 512
      else if c < 65
      then (if 48 \<le> c \<and> c \<le> 57 then goto_st 372
            else goto_st 0)
      else if c > 70
      then (if 97 \<le> c \<and> c \<le> 102 then goto_st 372
            else goto_st 0)
      else goto_st 372)"

definition uri_st372 :: "int \<Rightarrow> uri_action trans" where
  "uri_st372 c =
     (if c = 58 then goto_st 374
      else if c = 93 then goto_st 512
      else if c < 65
      then (if 48 \<le> c \<and> c \<le> 57 then goto_st 373
            else goto_st 0)
      else if c > 70
      then (if 97 \<le> c \<and> c \<le> 102 then goto_st 373
            else goto_st 0)
      else goto_st 373)"

definition uri_st373 :: "int \<Rightarrow> uri_action trans" where
  "uri_st373 c =
     (if c = 58 then goto_st 374
      else if c = 93 then goto_st 512
      else goto_st 0)"

definition uri_st374 :: "int \<Rightarrow> uri_action trans" where
  "uri_st374 c =
     (if c = 2 then goto_st 291
      else if c = 48 then goto_st 375
      else if c = 49 then goto_st 431
      else if c = 50 then goto_st 434
      else if c < 65
      then (if 51 \<le> c \<and> c \<le> 57 then goto_st 437
            else goto_st 0)
      else if c > 70
      then (if 97 \<le> c \<and> c \<le> 102 then goto_st 438
            else goto_st 0)
      else goto_st 438)"

definition uri_st375 :: "int \<Rightarrow> uri_action trans" where
  "uri_st375 c =
     (if c = 46 then goto_st 294
      else if c = 58 then goto_st 379
      else if c = 93 then goto_st 512
      else if c < 65
      then (if 48 \<le> c \<and> c \<le> 57 then goto_st 376
            else goto_st 0)
      else if c > 70
      then (if 97 \<le> c \<and> c \<le> 102 then goto_st 376
            else goto_st 0)
      else goto_st 376)"

definition uri_st376 :: "int \<Rightarrow> uri_action trans" where
  "uri_st376 c =
     (if c = 58 then goto_st 379
      else if c = 93 then goto_st 512
      else if c < 65
      then (if 48 \<le> c \<and> c \<le> 57 then goto_st 377
            else goto_st 0)
      else if c > 70
      then (if 97 \<le> c \<and> c \<le> 102 then goto_st 377
            else goto_st 0)
      else goto_st 377)"

definition uri_st377 :: "int \<Rightarrow> uri_action trans" where
  "uri_st377 c =
     (if c = 58 then goto_st 379
      else if c = 93 then goto_st 512
      else if c < 65
      then (if 48 \<le> c \<and> c \<le> 57 then goto_st 378
            else goto_st 0)
      else if c > 70
      then (if 97 \<le> c \<and> c \<le> 102 then goto_st 378
            else goto_st 0)
      else goto_st 378)"

definition uri_st378 :: "int \<Rightarrow> uri_action trans" where
  "uri_st378 c =
     (if c = 58 then goto_st 379
      else if c = 93 then goto_st 512
      else goto_st 0)"

definition uri_st379 :: "int \<Rightarrow> uri_action trans" where
  "uri_st379 c =
     (if c = 2 then goto_st 291
      else if c = 48 then goto_st 380
      else if c = 49 then goto_st 423
      else if c = 50 then goto_st 426
      else if c < 65
      then (if 51 \<le> c \<and> c \<le> 57 then goto_st 429
            else goto_st 0)
      else if c > 70
      then (if 97 \<le> c \<and> c \<le> 102 then goto_st 430
            else goto_st 0)
      else goto_st 430)"

definition uri_st380 :: "int \<Rightarrow> uri_action trans" where
  "uri_st380 c =
     (if c = 46 then goto_st 294
      else if c = 58 then goto_st 384
      else if c = 93 then goto_st 512
      else if c < 65
      then (if 48 \<le> c \<and> c \<le> 57 then goto_st 381
            else goto_st 0)
      else if c > 70
      then (if 97 \<le> c \<and> c \<le> 102 then goto_st 381
            else goto_st 0)
      else goto_st 381)"

definition uri_st381 :: "int \<Rightarrow> uri_action trans" where
  "uri_st381 c =
     (if c = 58 then goto_st 384
      else if c = 93 then goto_st 512
      else if c < 65
      then (if 48 \<le> c \<and> c \<le> 57 then goto_st 382
            else goto_st 0)
      else if c > 70
      then (if 97 \<le> c \<and> c \<le> 102 then goto_st 382
            else goto_st 0)
      else goto_st 382)"

definition uri_st382 :: "int \<Rightarrow> uri_action trans" where
  "uri_st382 c =
     (if c = 58 then goto_st 384
      else if c = 93 then goto_st 512
      else if c < 65
      then (if 48 \<le> c \<and> c \<le> 57 then goto_st 383
            else goto_st 0)
      else if c > 70
      then (if 97 \<le> c \<and> c \<le> 102 then goto_st 383
            else goto_st 0)
      else goto_st 383)"

definition uri_st383 :: "int \<Rightarrow> uri_action trans" where
  "uri_st383 c =
     (if c = 58 then goto_st 384
      else if c = 93 then goto_st 512
      else goto_st 0)"

definition uri_st384 :: "int \<Rightarrow> uri_action trans" where
  "uri_st384 c =
     (if c = 2 then goto_st 291
      else if c = 48 then goto_st 385
      else if c = 49 then goto_st 415
      else if c = 50 then goto_st 418
      else if c < 65
      then (if 51 \<le> c \<and> c \<le> 57 then goto_st 421
            else goto_st 0)
      else if c > 70
      then (if 97 \<le> c \<and> c \<le> 102 then goto_st 422
            else goto_st 0)
      else goto_st 422)"

definition uri_st385 :: "int \<Rightarrow> uri_action trans" where
  "uri_st385 c =
     (if c = 46 then goto_st 294
      else if c = 58 then goto_st 389
      else if c = 93 then goto_st 512
      else if c < 65
      then (if 48 \<le> c \<and> c \<le> 57 then goto_st 386
            else goto_st 0)
      else if c > 70
      then (if 97 \<le> c \<and> c \<le> 102 then goto_st 386
            else goto_st 0)
      else goto_st 386)"

definition uri_st386 :: "int \<Rightarrow> uri_action trans" where
  "uri_st386 c =
     (if c = 58 then goto_st 389
      else if c = 93 then goto_st 512
      else if c < 65
      then (if 48 \<le> c \<and> c \<le> 57 then goto_st 387
            else goto_st 0)
      else if c > 70
      then (if 97 \<le> c \<and> c \<le> 102 then goto_st 387
            else goto_st 0)
      else goto_st 387)"

definition uri_st387 :: "int \<Rightarrow> uri_action trans" where
  "uri_st387 c =
     (if c = 58 then goto_st 389
      else if c = 93 then goto_st 512
      else if c < 65
      then (if 48 \<le> c \<and> c \<le> 57 then goto_st 388
            else goto_st 0)
      else if c > 70
      then (if 97 \<le> c \<and> c \<le> 102 then goto_st 388
            else goto_st 0)
      else goto_st 388)"

definition uri_st388 :: "int \<Rightarrow> uri_action trans" where
  "uri_st388 c =
     (if c = 58 then goto_st 389
      else if c = 93 then goto_st 512
      else goto_st 0)"

definition uri_st389 :: "int \<Rightarrow> uri_action trans" where
  "uri_st389 c =
     (if c = 2 then goto_st 291
      else if c = 48 then goto_st 390
      else if c = 49 then goto_st 407
      else if c = 50 then goto_st 410
      else if c < 65
      then (if 51 \<le> c \<and> c \<le> 57 then goto_st 413
            else goto_st 0)
      else if c > 70
      then (if 97 \<le> c \<and> c \<le> 102 then goto_st 414
            else goto_st 0)
      else goto_st 414)"

definition uri_st390 :: "int \<Rightarrow> uri_action trans" where
  "uri_st390 c =
     (if c = 46 then goto_st 294
      else if c = 58 then goto_st 394
      else if c = 93 then goto_st 512
      else if c < 65
      then (if 48 \<le> c \<and> c \<le> 57 then goto_st 391
            else goto_st 0)
      else if c > 70
      then (if 97 \<le> c \<and> c \<le> 102 then goto_st 391
            else goto_st 0)
      else goto_st 391)"

definition uri_st391 :: "int \<Rightarrow> uri_action trans" where
  "uri_st391 c =
     (if c = 58 then goto_st 394
      else if c = 93 then goto_st 512
      else if c < 65
      then (if 48 \<le> c \<and> c \<le> 57 then goto_st 392
            else goto_st 0)
      else if c > 70
      then (if 97 \<le> c \<and> c \<le> 102 then goto_st 392
            else goto_st 0)
      else goto_st 392)"

definition uri_st392 :: "int \<Rightarrow> uri_action trans" where
  "uri_st392 c =
     (if c = 58 then goto_st 394
      else if c = 93 then goto_st 512
      else if c < 65
      then (if 48 \<le> c \<and> c \<le> 57 then goto_st 393
            else goto_st 0)
      else if c > 70
      then (if 97 \<le> c \<and> c \<le> 102 then goto_st 393
            else goto_st 0)
      else goto_st 393)"

definition uri_st393 :: "int \<Rightarrow> uri_action trans" where
  "uri_st393 c =
     (if c = 58 then goto_st 394
      else if c = 93 then goto_st 512
      else goto_st 0)"

definition uri_st394 :: "int \<Rightarrow> uri_action trans" where
  "uri_st394 c =
     (if c = 2 then goto_st 291
      else if c = 48 then goto_st 395
      else if c = 49 then goto_st 399
      else if c = 50 then goto_st 402
      else if c < 65
      then (if 51 \<le> c \<and> c \<le> 57 then goto_st 405
            else goto_st 0)
      else if c > 70
      then (if 97 \<le> c \<and> c \<le> 102 then goto_st 406
            else goto_st 0)
      else goto_st 406)"

definition uri_st395 :: "int \<Rightarrow> uri_action trans" where
  "uri_st395 c =
     (if c = 46 then goto_st 294
      else if c = 58 then goto_st 333
      else if c = 93 then goto_st 512
      else if c < 65
      then (if 48 \<le> c \<and> c \<le> 57 then goto_st 396
            else goto_st 0)
      else if c > 70
      then (if 97 \<le> c \<and> c \<le> 102 then goto_st 396
            else goto_st 0)
      else goto_st 396)"

definition uri_st396 :: "int \<Rightarrow> uri_action trans" where
  "uri_st396 c =
     (if c = 58 then goto_st 333
      else if c = 93 then goto_st 512
      else if c < 65
      then (if 48 \<le> c \<and> c \<le> 57 then goto_st 397
            else goto_st 0)
      else if c > 70
      then (if 97 \<le> c \<and> c \<le> 102 then goto_st 397
            else goto_st 0)
      else goto_st 397)"

definition uri_st397 :: "int \<Rightarrow> uri_action trans" where
  "uri_st397 c =
     (if c = 58 then goto_st 333
      else if c = 93 then goto_st 512
      else if c < 65
      then (if 48 \<le> c \<and> c \<le> 57 then goto_st 398
            else goto_st 0)
      else if c > 70
      then (if 97 \<le> c \<and> c \<le> 102 then goto_st 398
            else goto_st 0)
      else goto_st 398)"

definition uri_st398 :: "int \<Rightarrow> uri_action trans" where
  "uri_st398 c =
     (if c = 58 then goto_st 333
      else if c = 93 then goto_st 512
      else goto_st 0)"

definition uri_st399 :: "int \<Rightarrow> uri_action trans" where
  "uri_st399 c =
     (if c = 46 then goto_st 294
      else if c = 58 then goto_st 333
      else if c = 93 then goto_st 512
      else if c < 65
      then (if 48 \<le> c \<and> c \<le> 57 then goto_st 400
            else goto_st 0)
      else if c > 70
      then (if 97 \<le> c \<and> c \<le> 102 then goto_st 396
            else goto_st 0)
      else goto_st 396)"

definition uri_st400 :: "int \<Rightarrow> uri_action trans" where
  "uri_st400 c =
     (if c = 46 then goto_st 294
      else if c = 58 then goto_st 333
      else if c = 93 then goto_st 512
      else if c < 65
      then (if 48 \<le> c \<and> c \<le> 57 then goto_st 401
            else goto_st 0)
      else if c > 70
      then (if 97 \<le> c \<and> c \<le> 102 then goto_st 397
            else goto_st 0)
      else goto_st 397)"

definition uri_st401 :: "int \<Rightarrow> uri_action trans" where
  "uri_st401 c =
     (if c = 46 then goto_st 294
      else if c = 58 then goto_st 333
      else if c = 93 then goto_st 512
      else if c < 65
      then (if 48 \<le> c \<and> c \<le> 57 then goto_st 398
            else goto_st 0)
      else if c > 70
      then (if 97 \<le> c \<and> c \<le> 102 then goto_st 398
            else goto_st 0)
      else goto_st 398)"

definition uri_st402 :: "int \<Rightarrow> uri_action trans" where
  "uri_st402 c =
     (if c = 46 then goto_st 294
      else if c = 53 then goto_st 404
      else if c = 58 then goto_st 333
      else if c = 93 then goto_st 512
      else if c < 65
      then (if 48 \<le> c \<and> c \<le> 57 then goto_st 403
            else goto_st 0)
      else if c > 70
      then (if 97 \<le> c \<and> c \<le> 102 then goto_st 396
            else goto_st 0)
      else goto_st 396)"

definition uri_st403 :: "int \<Rightarrow> uri_action trans" where
  "uri_st403 c =
     (if c = 46 then goto_st 294
      else if c = 58 then goto_st 333
      else if c = 93 then goto_st 512
      else if c < 65
      then (if 48 \<le> c \<and> c \<le> 57 then goto_st 397
            else goto_st 0)
      else if c > 70
      then (if 97 \<le> c \<and> c \<le> 102 then goto_st 397
            else goto_st 0)
      else goto_st 397)"

definition uri_st404 :: "int \<Rightarrow> uri_action trans" where
  "uri_st404 c =
     (if c = 46 then goto_st 294
      else if c = 58 then goto_st 333
      else if c = 93 then goto_st 512
      else if c < 54
      then (if 48 \<le> c \<and> c \<le> 53 then goto_st 401
            else goto_st 0)
      else if c > 57
      then (if c > 70
            then (if 97 \<le> c \<and> c \<le> 102 then goto_st 397
                  else goto_st 0)
            else if c \<ge> 65 then goto_st 397
            else goto_st 0)
      else goto_st 397)"

definition uri_st405 :: "int \<Rightarrow> uri_action trans" where
  "uri_st405 c =
     (if c = 46 then goto_st 294
      else if c = 58 then goto_st 333
      else if c = 93 then goto_st 512
      else if c < 65
      then (if 48 \<le> c \<and> c \<le> 57 then goto_st 403
            else goto_st 0)
      else if c > 70
      then (if 97 \<le> c \<and> c \<le> 102 then goto_st 396
            else goto_st 0)
      else goto_st 396)"

definition uri_st406 :: "int \<Rightarrow> uri_action trans" where
  "uri_st406 c =
     (if c = 58 then goto_st 333
      else if c = 93 then goto_st 512
      else if c < 65
      then (if 48 \<le> c \<and> c \<le> 57 then goto_st 396
            else goto_st 0)
      else if c > 70
      then (if 97 \<le> c \<and> c \<le> 102 then goto_st 396
            else goto_st 0)
      else goto_st 396)"

definition uri_st407 :: "int \<Rightarrow> uri_action trans" where
  "uri_st407 c =
     (if c = 46 then goto_st 294
      else if c = 58 then goto_st 394
      else if c = 93 then goto_st 512
      else if c < 65
      then (if 48 \<le> c \<and> c \<le> 57 then goto_st 408
            else goto_st 0)
      else if c > 70
      then (if 97 \<le> c \<and> c \<le> 102 then goto_st 391
            else goto_st 0)
      else goto_st 391)"

definition uri_st408 :: "int \<Rightarrow> uri_action trans" where
  "uri_st408 c =
     (if c = 46 then goto_st 294
      else if c = 58 then goto_st 394
      else if c = 93 then goto_st 512
      else if c < 65
      then (if 48 \<le> c \<and> c \<le> 57 then goto_st 409
            else goto_st 0)
      else if c > 70
      then (if 97 \<le> c \<and> c \<le> 102 then goto_st 392
            else goto_st 0)
      else goto_st 392)"

definition uri_st409 :: "int \<Rightarrow> uri_action trans" where
  "uri_st409 c =
     (if c = 46 then goto_st 294
      else if c = 58 then goto_st 394
      else if c = 93 then goto_st 512
      else if c < 65
      then (if 48 \<le> c \<and> c \<le> 57 then goto_st 393
            else goto_st 0)
      else if c > 70
      then (if 97 \<le> c \<and> c \<le> 102 then goto_st 393
            else goto_st 0)
      else goto_st 393)"

definition uri_st410 :: "int \<Rightarrow> uri_action trans" where
  "uri_st410 c =
     (if c = 46 then goto_st 294
      else if c = 53 then goto_st 412
      else if c = 58 then goto_st 394
      else if c = 93 then goto_st 512
      else if c < 65
      then (if 48 \<le> c \<and> c \<le> 57 then goto_st 411
            else goto_st 0)
      else if c > 70
      then (if 97 \<le> c \<and> c \<le> 102 then goto_st 391
            else goto_st 0)
      else goto_st 391)"

definition uri_st411 :: "int \<Rightarrow> uri_action trans" where
  "uri_st411 c =
     (if c = 46 then goto_st 294
      else if c = 58 then goto_st 394
      else if c = 93 then goto_st 512
      else if c < 65
      then (if 48 \<le> c \<and> c \<le> 57 then goto_st 392
            else goto_st 0)
      else if c > 70
      then (if 97 \<le> c \<and> c \<le> 102 then goto_st 392
            else goto_st 0)
      else goto_st 392)"

definition uri_st412 :: "int \<Rightarrow> uri_action trans" where
  "uri_st412 c =
     (if c = 46 then goto_st 294
      else if c = 58 then goto_st 394
      else if c = 93 then goto_st 512
      else if c < 54
      then (if 48 \<le> c \<and> c \<le> 53 then goto_st 409
            else goto_st 0)
      else if c > 57
      then (if c > 70
            then (if 97 \<le> c \<and> c \<le> 102 then goto_st 392
                  else goto_st 0)
            else if c \<ge> 65 then goto_st 392
            else goto_st 0)
      else goto_st 392)"

definition uri_st413 :: "int \<Rightarrow> uri_action trans" where
  "uri_st413 c =
     (if c = 46 then goto_st 294
      else if c = 58 then goto_st 394
      else if c = 93 then goto_st 512
      else if c < 65
      then (if 48 \<le> c \<and> c \<le> 57 then goto_st 411
            else goto_st 0)
      else if c > 70
      then (if 97 \<le> c \<and> c \<le> 102 then goto_st 391
            else goto_st 0)
      else goto_st 391)"

definition uri_st414 :: "int \<Rightarrow> uri_action trans" where
  "uri_st414 c =
     (if c = 58 then goto_st 394
      else if c = 93 then goto_st 512
      else if c < 65
      then (if 48 \<le> c \<and> c \<le> 57 then goto_st 391
            else goto_st 0)
      else if c > 70
      then (if 97 \<le> c \<and> c \<le> 102 then goto_st 391
            else goto_st 0)
      else goto_st 391)"

definition uri_st415 :: "int \<Rightarrow> uri_action trans" where
  "uri_st415 c =
     (if c = 46 then goto_st 294
      else if c = 58 then goto_st 389
      else if c = 93 then goto_st 512
      else if c < 65
      then (if 48 \<le> c \<and> c \<le> 57 then goto_st 416
            else goto_st 0)
      else if c > 70
      then (if 97 \<le> c \<and> c \<le> 102 then goto_st 386
            else goto_st 0)
      else goto_st 386)"

definition uri_st416 :: "int \<Rightarrow> uri_action trans" where
  "uri_st416 c =
     (if c = 46 then goto_st 294
      else if c = 58 then goto_st 389
      else if c = 93 then goto_st 512
      else if c < 65
      then (if 48 \<le> c \<and> c \<le> 57 then goto_st 417
            else goto_st 0)
      else if c > 70
      then (if 97 \<le> c \<and> c \<le> 102 then goto_st 387
            else goto_st 0)
      else goto_st 387)"

definition uri_st417 :: "int \<Rightarrow> uri_action trans" where
  "uri_st417 c =
     (if c = 46 then goto_st 294
      else if c = 58 then goto_st 389
      else if c = 93 then goto_st 512
      else if c < 65
      then (if 48 \<le> c \<and> c \<le> 57 then goto_st 388
            else goto_st 0)
      else if c > 70
      then (if 97 \<le> c \<and> c \<le> 102 then goto_st 388
            else goto_st 0)
      else goto_st 388)"

definition uri_st418 :: "int \<Rightarrow> uri_action trans" where
  "uri_st418 c =
     (if c = 46 then goto_st 294
      else if c = 53 then goto_st 420
      else if c = 58 then goto_st 389
      else if c = 93 then goto_st 512
      else if c < 65
      then (if 48 \<le> c \<and> c \<le> 57 then goto_st 419
            else goto_st 0)
      else if c > 70
      then (if 97 \<le> c \<and> c \<le> 102 then goto_st 386
            else goto_st 0)
      else goto_st 386)"

definition uri_st419 :: "int \<Rightarrow> uri_action trans" where
  "uri_st419 c =
     (if c = 46 then goto_st 294
      else if c = 58 then goto_st 389
      else if c = 93 then goto_st 512
      else if c < 65
      then (if 48 \<le> c \<and> c \<le> 57 then goto_st 387
            else goto_st 0)
      else if c > 70
      then (if 97 \<le> c \<and> c \<le> 102 then goto_st 387
            else goto_st 0)
      else goto_st 387)"

definition uri_st420 :: "int \<Rightarrow> uri_action trans" where
  "uri_st420 c =
     (if c = 46 then goto_st 294
      else if c = 58 then goto_st 389
      else if c = 93 then goto_st 512
      else if c < 54
      then (if 48 \<le> c \<and> c \<le> 53 then goto_st 417
            else goto_st 0)
      else if c > 57
      then (if c > 70
            then (if 97 \<le> c \<and> c \<le> 102 then goto_st 387
                  else goto_st 0)
            else if c \<ge> 65 then goto_st 387
            else goto_st 0)
      else goto_st 387)"

definition uri_st421 :: "int \<Rightarrow> uri_action trans" where
  "uri_st421 c =
     (if c = 46 then goto_st 294
      else if c = 58 then goto_st 389
      else if c = 93 then goto_st 512
      else if c < 65
      then (if 48 \<le> c \<and> c \<le> 57 then goto_st 419
            else goto_st 0)
      else if c > 70
      then (if 97 \<le> c \<and> c \<le> 102 then goto_st 386
            else goto_st 0)
      else goto_st 386)"

definition uri_st422 :: "int \<Rightarrow> uri_action trans" where
  "uri_st422 c =
     (if c = 58 then goto_st 389
      else if c = 93 then goto_st 512
      else if c < 65
      then (if 48 \<le> c \<and> c \<le> 57 then goto_st 386
            else goto_st 0)
      else if c > 70
      then (if 97 \<le> c \<and> c \<le> 102 then goto_st 386
            else goto_st 0)
      else goto_st 386)"

definition uri_st423 :: "int \<Rightarrow> uri_action trans" where
  "uri_st423 c =
     (if c = 46 then goto_st 294
      else if c = 58 then goto_st 384
      else if c = 93 then goto_st 512
      else if c < 65
      then (if 48 \<le> c \<and> c \<le> 57 then goto_st 424
            else goto_st 0)
      else if c > 70
      then (if 97 \<le> c \<and> c \<le> 102 then goto_st 381
            else goto_st 0)
      else goto_st 381)"

definition uri_st424 :: "int \<Rightarrow> uri_action trans" where
  "uri_st424 c =
     (if c = 46 then goto_st 294
      else if c = 58 then goto_st 384
      else if c = 93 then goto_st 512
      else if c < 65
      then (if 48 \<le> c \<and> c \<le> 57 then goto_st 425
            else goto_st 0)
      else if c > 70
      then (if 97 \<le> c \<and> c \<le> 102 then goto_st 382
            else goto_st 0)
      else goto_st 382)"

definition uri_st425 :: "int \<Rightarrow> uri_action trans" where
  "uri_st425 c =
     (if c = 46 then goto_st 294
      else if c = 58 then goto_st 384
      else if c = 93 then goto_st 512
      else if c < 65
      then (if 48 \<le> c \<and> c \<le> 57 then goto_st 383
            else goto_st 0)
      else if c > 70
      then (if 97 \<le> c \<and> c \<le> 102 then goto_st 383
            else goto_st 0)
      else goto_st 383)"

definition uri_st426 :: "int \<Rightarrow> uri_action trans" where
  "uri_st426 c =
     (if c = 46 then goto_st 294
      else if c = 53 then goto_st 428
      else if c = 58 then goto_st 384
      else if c = 93 then goto_st 512
      else if c < 65
      then (if 48 \<le> c \<and> c \<le> 57 then goto_st 427
            else goto_st 0)
      else if c > 70
      then (if 97 \<le> c \<and> c \<le> 102 then goto_st 381
            else goto_st 0)
      else goto_st 381)"

definition uri_st427 :: "int \<Rightarrow> uri_action trans" where
  "uri_st427 c =
     (if c = 46 then goto_st 294
      else if c = 58 then goto_st 384
      else if c = 93 then goto_st 512
      else if c < 65
      then (if 48 \<le> c \<and> c \<le> 57 then goto_st 382
            else goto_st 0)
      else if c > 70
      then (if 97 \<le> c \<and> c \<le> 102 then goto_st 382
            else goto_st 0)
      else goto_st 382)"

definition uri_st428 :: "int \<Rightarrow> uri_action trans" where
  "uri_st428 c =
     (if c = 46 then goto_st 294
      else if c = 58 then goto_st 384
      else if c = 93 then goto_st 512
      else if c < 54
      then (if 48 \<le> c \<and> c \<le> 53 then goto_st 425
            else goto_st 0)
      else if c > 57
      then (if c > 70
            then (if 97 \<le> c \<and> c \<le> 102 then goto_st 382
                  else goto_st 0)
            else if c \<ge> 65 then goto_st 382
            else goto_st 0)
      else goto_st 382)"

definition uri_st429 :: "int \<Rightarrow> uri_action trans" where
  "uri_st429 c =
     (if c = 46 then goto_st 294
      else if c = 58 then goto_st 384
      else if c = 93 then goto_st 512
      else if c < 65
      then (if 48 \<le> c \<and> c \<le> 57 then goto_st 427
            else goto_st 0)
      else if c > 70
      then (if 97 \<le> c \<and> c \<le> 102 then goto_st 381
            else goto_st 0)
      else goto_st 381)"

definition uri_st430 :: "int \<Rightarrow> uri_action trans" where
  "uri_st430 c =
     (if c = 58 then goto_st 384
      else if c = 93 then goto_st 512
      else if c < 65
      then (if 48 \<le> c \<and> c \<le> 57 then goto_st 381
            else goto_st 0)
      else if c > 70
      then (if 97 \<le> c \<and> c \<le> 102 then goto_st 381
            else goto_st 0)
      else goto_st 381)"

definition uri_st431 :: "int \<Rightarrow> uri_action trans" where
  "uri_st431 c =
     (if c = 46 then goto_st 294
      else if c = 58 then goto_st 379
      else if c = 93 then goto_st 512
      else if c < 65
      then (if 48 \<le> c \<and> c \<le> 57 then goto_st 432
            else goto_st 0)
      else if c > 70
      then (if 97 \<le> c \<and> c \<le> 102 then goto_st 376
            else goto_st 0)
      else goto_st 376)"

definition uri_st432 :: "int \<Rightarrow> uri_action trans" where
  "uri_st432 c =
     (if c = 46 then goto_st 294
      else if c = 58 then goto_st 379
      else if c = 93 then goto_st 512
      else if c < 65
      then (if 48 \<le> c \<and> c \<le> 57 then goto_st 433
            else goto_st 0)
      else if c > 70
      then (if 97 \<le> c \<and> c \<le> 102 then goto_st 377
            else goto_st 0)
      else goto_st 377)"

definition uri_st433 :: "int \<Rightarrow> uri_action trans" where
  "uri_st433 c =
     (if c = 46 then goto_st 294
      else if c = 58 then goto_st 379
      else if c = 93 then goto_st 512
      else if c < 65
      then (if 48 \<le> c \<and> c \<le> 57 then goto_st 378
            else goto_st 0)
      else if c > 70
      then (if 97 \<le> c \<and> c \<le> 102 then goto_st 378
            else goto_st 0)
      else goto_st 378)"

definition uri_st434 :: "int \<Rightarrow> uri_action trans" where
  "uri_st434 c =
     (if c = 46 then goto_st 294
      else if c = 53 then goto_st 436
      else if c = 58 then goto_st 379
      else if c = 93 then goto_st 512
      else if c < 65
      then (if 48 \<le> c \<and> c \<le> 57 then goto_st 435
            else goto_st 0)
      else if c > 70
      then (if 97 \<le> c \<and> c \<le> 102 then goto_st 376
            else goto_st 0)
      else goto_st 376)"

definition uri_st435 :: "int \<Rightarrow> uri_action trans" where
  "uri_st435 c =
     (if c = 46 then goto_st 294
      else if c = 58 then goto_st 379
      else if c = 93 then goto_st 512
      else if c < 65
      then (if 48 \<le> c \<and> c \<le> 57 then goto_st 377
            else goto_st 0)
      else if c > 70
      then (if 97 \<le> c \<and> c \<le> 102 then goto_st 377
            else goto_st 0)
      else goto_st 377)"

definition uri_st436 :: "int \<Rightarrow> uri_action trans" where
  "uri_st436 c =
     (if c = 46 then goto_st 294
      else if c = 58 then goto_st 379
      else if c = 93 then goto_st 512
      else if c < 54
      then (if 48 \<le> c \<and> c \<le> 53 then goto_st 433
            else goto_st 0)
      else if c > 57
      then (if c > 70
            then (if 97 \<le> c \<and> c \<le> 102 then goto_st 377
                  else goto_st 0)
            else if c \<ge> 65 then goto_st 377
            else goto_st 0)
      else goto_st 377)"

definition uri_st437 :: "int \<Rightarrow> uri_action trans" where
  "uri_st437 c =
     (if c = 46 then goto_st 294
      else if c = 58 then goto_st 379
      else if c = 93 then goto_st 512
      else if c < 65
      then (if 48 \<le> c \<and> c \<le> 57 then goto_st 435
            else goto_st 0)
      else if c > 70
      then (if 97 \<le> c \<and> c \<le> 102 then goto_st 376
            else goto_st 0)
      else goto_st 376)"

definition uri_st438 :: "int \<Rightarrow> uri_action trans" where
  "uri_st438 c =
     (if c = 58 then goto_st 379
      else if c = 93 then goto_st 512
      else if c < 65
      then (if 48 \<le> c \<and> c \<le> 57 then goto_st 376
            else goto_st 0)
      else if c > 70
      then (if 97 \<le> c \<and> c \<le> 102 then goto_st 376
            else goto_st 0)
      else goto_st 376)"

definition uri_st439 :: "int \<Rightarrow> uri_action trans" where
  "uri_st439 c =
     (if c = 46 then goto_st 294
      else if c = 58 then goto_st 374
      else if c = 93 then goto_st 512
      else if c < 65
      then (if 48 \<le> c \<and> c \<le> 57 then goto_st 440
            else goto_st 0)
      else if c > 70
      then (if 97 \<le> c \<and> c \<le> 102 then goto_st 371
            else goto_st 0)
      else goto_st 371)"

definition uri_st440 :: "int \<Rightarrow> uri_action trans" where
  "uri_st440 c =
     (if c = 46 then goto_st 294
      else if c = 58 then goto_st 374
      else if c = 93 then goto_st 512
      else if c < 65
      then (if 48 \<le> c \<and> c \<le> 57 then goto_st 441
            else goto_st 0)
      else if c > 70
      then (if 97 \<le> c \<and> c \<le> 102 then goto_st 372
            else goto_st 0)
      else goto_st 372)"

definition uri_st441 :: "int \<Rightarrow> uri_action trans" where
  "uri_st441 c =
     (if c = 46 then goto_st 294
      else if c = 58 then goto_st 374
      else if c = 93 then goto_st 512
      else if c < 65
      then (if 48 \<le> c \<and> c \<le> 57 then goto_st 373
            else goto_st 0)
      else if c > 70
      then (if 97 \<le> c \<and> c \<le> 102 then goto_st 373
            else goto_st 0)
      else goto_st 373)"

definition uri_st442 :: "int \<Rightarrow> uri_action trans" where
  "uri_st442 c =
     (if c = 46 then goto_st 294
      else if c = 53 then goto_st 444
      else if c = 58 then goto_st 374
      else if c = 93 then goto_st 512
      else if c < 65
      then (if 48 \<le> c \<and> c \<le> 57 then goto_st 443
            else goto_st 0)
      else if c > 70
      then (if 97 \<le> c \<and> c \<le> 102 then goto_st 371
            else goto_st 0)
      else goto_st 371)"

definition uri_st443 :: "int \<Rightarrow> uri_action trans" where
  "uri_st443 c =
     (if c = 46 then goto_st 294
      else if c = 58 then goto_st 374
      else if c = 93 then goto_st 512
      else if c < 65
      then (if 48 \<le> c \<and> c \<le> 57 then goto_st 372
            else goto_st 0)
      else if c > 70
      then (if 97 \<le> c \<and> c \<le> 102 then goto_st 372
            else goto_st 0)
      else goto_st 372)"

definition uri_st444 :: "int \<Rightarrow> uri_action trans" where
  "uri_st444 c =
     (if c = 46 then goto_st 294
      else if c = 58 then goto_st 374
      else if c = 93 then goto_st 512
      else if c < 54
      then (if 48 \<le> c \<and> c \<le> 53 then goto_st 441
            else goto_st 0)
      else if c > 57
      then (if c > 70
            then (if 97 \<le> c \<and> c \<le> 102 then goto_st 372
                  else goto_st 0)
            else if c \<ge> 65 then goto_st 372
            else goto_st 0)
      else goto_st 372)"

definition uri_st445 :: "int \<Rightarrow> uri_action trans" where
  "uri_st445 c =
     (if c = 46 then goto_st 294
      else if c = 58 then goto_st 374
      else if c = 93 then goto_st 512
      else if c < 65
      then (if 48 \<le> c \<and> c \<le> 57 then goto_st 443
            else goto_st 0)
      else if c > 70
      then (if 97 \<le> c \<and> c \<le> 102 then goto_st 371
            else goto_st 0)
      else goto_st 371)"

definition uri_st446 :: "int \<Rightarrow> uri_action trans" where
  "uri_st446 c =
     (if c = 58 then goto_st 374
      else if c = 93 then goto_st 512
      else if c < 65
      then (if 48 \<le> c \<and> c \<le> 57 then goto_st 371
            else goto_st 0)
      else if c > 70
      then (if 97 \<le> c \<and> c \<le> 102 then goto_st 371
            else goto_st 0)
      else goto_st 371)"

definition uri_st447 :: "int \<Rightarrow> uri_action trans" where
  "uri_st447 c =
     (if c < 65
      then (if 48 \<le> c \<and> c \<le> 57 then goto_st 448
            else goto_st 0)
      else if c > 70
      then (if 97 \<le> c \<and> c \<le> 102 then goto_st 448
            else goto_st 0)
      else goto_st 448)"

definition uri_st448 :: "int \<Rightarrow> uri_action trans" where
  "uri_st448 c =
     (if c = 46 then goto_st 449
      else if c < 65
      then (if 48 \<le> c \<and> c \<le> 57 then goto_st 448
            else goto_st 0)
      else if c > 70
      then (if 97 \<le> c \<and> c \<le> 102 then goto_st 448
            else goto_st 0)
      else goto_st 448)"

definition uri_st449 :: "int \<Rightarrow> uri_action trans" where
  "uri_st449 c =
     (if c = 33 \<or> c = 36 \<or> c = 61 \<or> c = 95 \<or> c = 126 then goto_st 450
      else if c < 48
      then (if 38 \<le> c \<and> c \<le> 46 then goto_st 450
            else goto_st 0)
      else if c > 59
      then (if c > 90
            then (if 97 \<le> c \<and> c \<le> 122 then goto_st 450
                  else goto_st 0)
            else if c \<ge> 65 then goto_st 450
            else goto_st 0)
      else goto_st 450)"

definition uri_st450 :: "int \<Rightarrow> uri_action trans" where
  "uri_st450 c =
     (if c = 33 \<or> c = 36 \<or> c = 61 \<or> c = 95 \<or> c = 126 then goto_st 450
      else if c = 93 then goto_st 512
      else if c < 48
      then (if 38 \<le> c \<and> c \<le> 46 then goto_st 450
            else goto_st 0)
      else if c > 59
      then (if c > 90
            then (if 97 \<le> c \<and> c \<le> 122 then goto_st 450
                  else goto_st 0)
            else if c \<ge> 65 then goto_st 450
            else goto_st 0)
      else goto_st 450)"

definition uri_st542 :: "int \<Rightarrow> uri_action trans" where
  "uri_st542 c =
     (if c = 33 \<or> c = 61 \<or> c = 95 \<or> c = 126 then goto_st 255
      else if c = 35 then uri_tr570
      else if c = 37 then goto_st 256
      else if c = 47 then uri_tr571
      else if c = 63 then uri_tr573
      else if c = 64 then uri_tr263
      else if c < 58
      then (if c > 46
            then (if 48 \<le> c \<and> c \<le> 57 then goto_st 542
                  else goto_st 0)
            else if c \<ge> 36 then goto_st 255
            else goto_st 0)
      else if c > 59
      then (if c > 90
            then (if 97 \<le> c \<and> c \<le> 122 then goto_st 255
                  else goto_st 0)
            else if c \<ge> 65 then goto_st 255
            else goto_st 0)
      else goto_st 255)"

definition uri_st543 :: "int \<Rightarrow> uri_action trans" where
  "uri_st543 c =
     (if c = 33 \<or> c = 61 \<or> c = 95 \<or> c = 126 then goto_st 520
      else if c = 35 then uri_tr559
      else if c = 37 then goto_st 253
      else if c = 46 then goto_st 544
      else if c = 47 then uri_tr560
      else if c = 58 then uri_tr576
      else if c = 63 then uri_tr562
      else if c = 64 then uri_tr263
      else if c < 65
      then (if 36 \<le> c \<and> c \<le> 59 then goto_st 520
            else goto_st 0)
      else if c > 90
      then (if 97 \<le> c \<and> c \<le> 122 then goto_st 520
            else goto_st 0)
      else goto_st 520)"

definition uri_st544 :: "int \<Rightarrow> uri_action trans" where
  "uri_st544 c =
     (if c = 2 then goto_st 233
      else if c = 33 \<or> c = 59 \<or> c = 61 \<or> c = 95 \<or> c = 126 then goto_st 520
      else if c = 35 then uri_tr559
      else if c = 37 then goto_st 253
      else if c = 47 then uri_tr560
      else if c = 48 then goto_st 545
      else if c = 49 then goto_st 553
      else if c = 50 then goto_st 555
      else if c = 58 then uri_tr576
      else if c = 63 then uri_tr562
      else if c = 64 then uri_tr263
      else if c < 51
      then (if 36 \<le> c \<and> c \<le> 46 then goto_st 520
            else goto_st 0)
      else if c > 57
      then (if c > 90
            then (if 97 \<le> c \<and> c \<le> 122 then goto_st 520
                  else goto_st 0)
            else if c \<ge> 65 then goto_st 520
            else goto_st 0)
      else goto_st 554)"

definition uri_st545 :: "int \<Rightarrow> uri_action trans" where
  "uri_st545 c =
     (if c = 33 \<or> c = 61 \<or> c = 95 \<or> c = 126 then goto_st 520
      else if c = 35 then uri_tr559
      else if c = 37 then goto_st 253
      else if c = 46 then goto_st 546
      else if c = 47 then uri_tr560
      else if c = 58 then uri_tr576
      else if c = 63 then uri_tr562
      else if c = 64 then uri_tr263
      else if c < 65
      then (if 36 \<le> c \<and> c \<le> 59 then goto_st 520
            else goto_st 0)
      else if c > 90
      then (if 97 \<le> c \<and> c \<le> 122 then goto_st 520
            else goto_st 0)
      else goto_st 520)"

definition uri_st546 :: "int \<Rightarrow> uri_action trans" where
  "uri_st546 c =
     (if c = 2 then goto_st 237
      else if c = 33 \<or> c = 59 \<or> c = 61 \<or> c = 95 \<or> c = 126 then goto_st 520
      else if c = 35 then uri_tr559
      else if c = 37 then goto_st 253
      else if c = 47 then uri_tr560
      else if c = 48 then goto_st 547
      else if c = 49 then goto_st 549
      else if c = 50 then goto_st 551
      else if c = 58 then uri_tr576
      else if c = 63 then uri_tr562
      else if c = 64 then uri_tr263
      else if c < 51
      then (if 36 \<le> c \<and> c \<le> 46 then goto_st 520
            else goto_st 0)
      else if c > 57
      then (if c > 90
            then (if 97 \<le> c \<and> c \<le> 122 then goto_st 520
                  else goto_st 0)
            else if c \<ge> 65 then goto_st 520
            else goto_st 0)
      else goto_st 550)"

definition uri_st547 :: "int \<Rightarrow> uri_action trans" where
  "uri_st547 c =
     (if c = 33 \<or> c = 61 \<or> c = 95 \<or> c = 126 then goto_st 520
      else if c = 35 then uri_tr559
      else if c = 37 then goto_st 253
      else if c = 46 then goto_st 548
      else if c = 47 then uri_tr560
      else if c = 58 then uri_tr576
      else if c = 63 then uri_tr562
      else if c = 64 then uri_tr263
      else if c < 65
      then (if 36 \<le> c \<and> c \<le> 59 then goto_st 520
            else goto_st 0)
      else if c > 90
      then (if 97 \<le> c \<and> c \<le> 122 then goto_st 520
            else goto_st 0)
      else goto_st 520)"

definition uri_st548 :: "int \<Rightarrow> uri_action trans" where
  "uri_st548 c =
     (if c = 2 then goto_st 241
      else if c = 33 \<or> c = 61 \<or> c = 95 \<or> c = 126 then goto_st 520
      else if c = 35 then uri_tr559
      else if c = 37 then goto_st 253
      else if c = 47 then uri_tr560
      else if c = 58 then uri_tr576
      else if c = 63 then uri_tr562
      else if c = 64 then uri_tr263
      else if c < 65
      then (if 36 \<le> c \<and> c \<le> 59 then goto_st 520
            else goto_st 0)
      else if c > 90
      then (if 97 \<le> c \<and> c \<le> 122 then goto_st 520
            else goto_st 0)
      else goto_st 520)"

definition uri_st549 :: "int \<Rightarrow> uri_action trans" where
  "uri_st549 c =
     (if c = 33 \<or> c = 59 \<or> c = 61 \<or> c = 95 \<or> c = 126 then goto_st 520
      else if c = 35 then uri_tr559
      else if c = 37 then goto_st 253
      else if c = 46 then goto_st 548
      else if c = 47 then uri_tr560
      else if c = 58 then uri_tr576
      else if c = 63 then uri_tr562
      else if c = 64 then uri_tr263
      else if c < 48
      then (if 36 \<le> c \<and> c \<le> 45 then goto_st 520
            else goto_st 0)
      else if c > 57
      then (if c > 90
            then (if 97 \<le> c \<and> c \<le> 122 then goto_st 520
                  else goto_st 0)
            else if c \<ge> 65 then goto_st 520
            else goto_st 0)
      else goto_st 550)"

definition uri_st550 :: "int \<Rightarrow> uri_action trans" where
  "uri_st550 c =
     (if c = 33 \<or> c = 59 \<or> c = 61 \<or> c = 95 \<or> c = 126 then goto_st 520
      else if c = 35 then uri_tr559
      else if c = 37 then goto_st 253
      else if c = 46 then goto_st 548
      else if c = 47 then uri_tr560
      else if c = 58 then uri_tr576
      else if c = 63 then uri_tr562
      else if c = 64 then uri_tr263
      else if c < 48
      then (if 36 \<le> c \<and> c \<le> 45 then goto_st 520
            else goto_st 0)
      else if c > 57
      then (if c > 90
            then (if 97 \<le> c \<and> c \<le> 122 then goto_st 520
                  else goto_st 0)
            else if c \<ge> 65 then goto_st 520
            else goto_st 0)
      else goto_st 547)"

definition uri_st551 :: "int \<Rightarrow> uri_action trans" where
  "uri_st551 c =
     (if c = 33 \<or> c = 59 \<or> c = 61 \<or> c = 95 \<or> c = 126 then goto_st 520
      else if c = 35 then uri_tr559
      else if c = 37 then goto_st 253
      else if c = 46 then goto_st 548
      else if c = 47 then uri_tr560
      else if c = 53 then goto_st 552
      else if c = 58 then uri_tr576
      else if c = 63 then uri_tr562
      else if c = 64 then uri_tr263
      else if c < 48
      then (if 36 \<le> c \<and> c \<le> 45 then goto_st 520
            else goto_st 0)
      else if c > 57
      then (if c > 90
            then (if 97 \<le> c \<and> c \<le> 122 then goto_st 520
                  else goto_st 0)
            else if c \<ge> 65 then goto_st 520
            else goto_st 0)
      else goto_st 547)"

definition uri_st552 :: "int \<Rightarrow> uri_action trans" where
  "uri_st552 c =
     (if c = 33 \<or> c = 61 \<or> c = 95 \<or> c = 126 then goto_st 520
      else if c = 35 then uri_tr559
      else if c = 37 then goto_st 253
      else if c = 46 then goto_st 548
      else if c = 47 then uri_tr560
      else if c = 58 then uri_tr576
      else if c = 63 then uri_tr562
      else if c = 64 then uri_tr263
      else if c < 54
      then (if c > 45
            then (if 48 \<le> c \<and> c \<le> 53 then goto_st 547
                  else goto_st 0)
            else if c \<ge> 36 then goto_st 520
            else goto_st 0)
      else if c > 59
      then (if c > 90
            then (if 97 \<le> c \<and> c \<le> 122 then goto_st 520
                  else goto_st 0)
            else if c \<ge> 65 then goto_st 520
            else goto_st 0)
      else goto_st 520)"

definition uri_st553 :: "int \<Rightarrow> uri_action trans" where
  "uri_st553 c =
     (if c = 33 \<or> c = 59 \<or> c = 61 \<or> c = 95 \<or> c = 126 then goto_st 520
      else if c = 35 then uri_tr559
      else if c = 37 then goto_st 253
      else if c = 46 then goto_st 546
      else if c = 47 then uri_tr560
      else if c = 58 then uri_tr576
      else if c = 63 then uri_tr562
      else if c = 64 then uri_tr263
      else if c < 48
      then (if 36 \<le> c \<and> c \<le> 45 then goto_st 520
            else goto_st 0)
      else if c > 57
      then (if c > 90
            then (if 97 \<le> c \<and> c \<le> 122 then goto_st 520
                  else goto_st 0)
            else if c \<ge> 65 then goto_st 520
            else goto_st 0)
      else goto_st 554)"

definition uri_st554 :: "int \<Rightarrow> uri_action trans" where
  "uri_st554 c =
     (if c = 33 \<or> c = 59 \<or> c = 61 \<or> c = 95 \<or> c = 126 then goto_st 520
      else if c = 35 then uri_tr559
      else if c = 37 then goto_st 253
      else if c = 46 then goto_st 546
      else if c = 47 then uri_tr560
      else if c = 58 then uri_tr576
      else if c = 63 then uri_tr562
      else if c = 64 then uri_tr263
      else if c < 48
      then (if 36 \<le> c \<and> c \<le> 45 then goto_st 520
            else goto_st 0)
      else if c > 57
      then (if c > 90
            then (if 97 \<le> c \<and> c \<le> 122 then goto_st 520
                  else goto_st 0)
            else if c \<ge> 65 then goto_st 520
            else goto_st 0)
      else goto_st 545)"

definition uri_st555 :: "int \<Rightarrow> uri_action trans" where
  "uri_st555 c =
     (if c = 33 \<or> c = 59 \<or> c = 61 \<or> c = 95 \<or> c = 126 then goto_st 520
      else if c = 35 then uri_tr559
      else if c = 37 then goto_st 253
      else if c = 46 then goto_st 546
      else if c = 47 then uri_tr560
      else if c = 53 then goto_st 556
      else if c = 58 then uri_tr576
      else if c = 63 then uri_tr562
      else if c = 64 then uri_tr263
      else if c < 48
      then (if 36 \<le> c \<and> c \<le> 45 then goto_st 520
            else goto_st 0)
      else if c > 57
      then (if c > 90
            then (if 97 \<le> c \<and> c \<le> 122 then goto_st 520
                  else goto_st 0)
            else if c \<ge> 65 then goto_st 520
            else goto_st 0)
      else goto_st 545)"

definition uri_st556 :: "int \<Rightarrow> uri_action trans" where
  "uri_st556 c =
     (if c = 33 \<or> c = 61 \<or> c = 95 \<or> c = 126 then goto_st 520
      else if c = 35 then uri_tr559
      else if c = 37 then goto_st 253
      else if c = 46 then goto_st 546
      else if c = 47 then uri_tr560
      else if c = 58 then uri_tr576
      else if c = 63 then uri_tr562
      else if c = 64 then uri_tr263
      else if c < 54
      then (if c > 45
            then (if 48 \<le> c \<and> c \<le> 53 then goto_st 545
                  else goto_st 0)
            else if c \<ge> 36 then goto_st 520
            else goto_st 0)
      else if c > 59
      then (if c > 90
            then (if 97 \<le> c \<and> c \<le> 122 then goto_st 520
                  else goto_st 0)
            else if c \<ge> 65 then goto_st 520
            else goto_st 0)
      else goto_st 520)"

definition uri_st557 :: "int \<Rightarrow> uri_action trans" where
  "uri_st557 c =
     (if c = 33 \<or> c = 59 \<or> c = 61 \<or> c = 95 \<or> c = 126 then goto_st 520
      else if c = 35 then uri_tr559
      else if c = 37 then goto_st 253
      else if c = 46 then goto_st 544
      else if c = 47 then uri_tr560
      else if c = 58 then uri_tr576
      else if c = 63 then uri_tr562
      else if c = 64 then uri_tr263
      else if c < 48
      then (if 36 \<le> c \<and> c \<le> 45 then goto_st 520
            else goto_st 0)
      else if c > 57
      then (if c > 90
            then (if 97 \<le> c \<and> c \<le> 122 then goto_st 520
                  else goto_st 0)
            else if c \<ge> 65 then goto_st 520
            else goto_st 0)
      else goto_st 558)"

definition uri_st558 :: "int \<Rightarrow> uri_action trans" where
  "uri_st558 c =
     (if c = 33 \<or> c = 59 \<or> c = 61 \<or> c = 95 \<or> c = 126 then goto_st 520
      else if c = 35 then uri_tr559
      else if c = 37 then goto_st 253
      else if c = 46 then goto_st 544
      else if c = 47 then uri_tr560
      else if c = 58 then uri_tr576
      else if c = 63 then uri_tr562
      else if c = 64 then uri_tr263
      else if c < 48
      then (if 36 \<le> c \<and> c \<le> 45 then goto_st 520
            else goto_st 0)
      else if c > 57
      then (if c > 90
            then (if 97 \<le> c \<and> c \<le> 122 then goto_st 520
                  else goto_st 0)
            else if c \<ge> 65 then goto_st 520
            else goto_st 0)
      else goto_st 543)"

definition uri_st559 :: "int \<Rightarrow> uri_action trans" where
  "uri_st559 c =
     (if c = 33 \<or> c = 59 \<or> c = 61 \<or> c = 95 \<or> c = 126 then goto_st 520
      else if c = 35 then uri_tr559
      else if c = 37 then goto_st 253
      else if c = 46 then goto_st 544
      else if c = 47 then uri_tr560
      else if c = 53 then goto_st 560
      else if c = 58 then uri_tr576
      else if c = 63 then uri_tr562
      else if c = 64 then uri_tr263
      else if c < 48
      then (if 36 \<le> c \<and> c \<le> 45 then goto_st 520
            else goto_st 0)
      else if c > 57
      then (if c > 90
            then (if 97 \<le> c \<and> c \<le> 122 then goto_st 520
                  else goto_st 0)
            else if c \<ge> 65 then goto_st 520
            else goto_st 0)
      else goto_st 543)"

definition uri_st560 :: "int \<Rightarrow> uri_action trans" where
  "uri_st560 c =
     (if c = 33 \<or> c = 61 \<or> c = 95 \<or> c = 126 then goto_st 520
      else if c = 35 then uri_tr559
      else if c = 37 then goto_st 253
      else if c = 46 then goto_st 544
      else if c = 47 then uri_tr560
      else if c = 58 then uri_tr576
      else if c = 63 then uri_tr562
      else if c = 64 then uri_tr263
      else if c < 54
      then (if c > 45
            then (if 48 \<le> c \<and> c \<le> 53 then goto_st 543
                  else goto_st 0)
            else if c \<ge> 36 then goto_st 520
            else goto_st 0)
      else if c > 59
      then (if c > 90
            then (if 97 \<le> c \<and> c \<le> 122 then goto_st 520
                  else goto_st 0)
            else if c \<ge> 65 then goto_st 520
            else goto_st 0)
      else goto_st 520)"

section \<open>The machine\<close>

text \<open>The \<open>switch\<close>, in blocks of 32 states.\<close>

definition uri_cases0 :: "nat \<Rightarrow> int \<Rightarrow> uri_action trans" where
  "uri_cases0 cs c =
     (if cs = 1 then uri_st1 c
      else if cs = 2 then uri_st2 c
      else if cs = 3 then uri_st3 c
      else if cs = 4 then uri_st4 c
      else if cs = 5 then uri_st5 c
      else if cs = 6 then uri_st6 c
      else if cs = 7 then uri_st7 c
      else if cs = 8 then uri_st8 c
      else if cs = 9 then uri_st9 c
      else if cs = 10 then uri_st10 c
      else if cs = 11 then uri_st11 c
      else if cs = 12 then uri_st12 c
      else if cs = 13 then uri_st13 c
      else if cs = 14 then uri_st14 c
      else if cs = 15 then uri_st15 c
      else if cs = 16 then uri_st16 c
      else if cs = 17 then uri_st17 c
      else if cs = 18 then uri_st18 c
      else if cs = 19 then uri_st19 c
      else if cs = 20 then uri_st20 c
      else if cs = 21 then uri_st21 c
      else if cs = 22 then uri_st22 c
      else if cs = 23 then uri_st23 c
      else if cs = 24 then uri_st24 c
      else if cs = 25 then uri_st25 c
      else if cs = 26 then uri_st26 c
      else if cs = 27 then uri_st27 c
      else if cs = 28 then uri_st28 c
      else if cs = 29 then uri_st29 c
      else if cs = 30 then uri_st30 c
      else if cs = 31 then uri_st31 c
      else None)"

definition uri_cases1 :: "nat \<Rightarrow> int \<Rightarrow> uri_action trans" where
  "uri_cases1 cs c =
     (if cs = 32 then uri_st32 c
      else if cs = 33 then uri_st33 c
      else if cs = 34 then uri_st34 c
      else if cs = 35 then uri_st35 c
      else if cs = 36 then uri_st36 c
      else if cs = 37 then uri_st37 c
      else if cs = 38 then uri_st38 c
      else if cs = 39 then uri_st39 c
      else if cs = 40 then uri_st40 c
      else if cs = 41 then uri_st41 c
      else if cs = 42 then uri_st42 c
      else if cs = 43 then uri_st43 c
      else if cs = 44 then uri_st44 c
      else if cs = 45 then uri_st45 c
      else if cs = 46 then uri_st46 c
      else if cs = 47 then uri_st47 c
      else if cs = 48 then uri_st48 c
      else if cs = 49 then uri_st49 c
      else if cs = 50 then uri_st50 c
      else if cs = 51 then uri_st51 c
      else if cs = 52 then uri_st52 c
      else if cs = 53 then uri_st53 c
      else if cs = 54 then uri_st54 c
      else if cs = 55 then uri_st55 c
      else if cs = 56 then uri_st56 c
      else if cs = 57 then uri_st57 c
      else if cs = 58 then uri_st58 c
      else if cs = 59 then uri_st59 c
      else if cs = 60 then uri_st60 c
      else if cs = 61 then uri_st61 c
      else if cs = 62 then uri_st62 c
      else if cs = 63 then uri_st63 c
      else None)"

definition uri_cases2 :: "nat \<Rightarrow> int \<Rightarrow> uri_action trans" where
  "uri_cases2 cs c =
     (if cs = 64 then uri_st64 c
      else if cs = 65 then uri_st65 c
      else if cs = 66 then uri_st66 c
      else if cs = 67 then uri_st67 c
      else if cs = 68 then uri_st68 c
      else if cs = 69 then uri_st69 c
      else if cs = 70 then uri_st70 c
      else if cs = 71 then uri_st71 c
      else if cs = 72 then uri_st72 c
      else if cs = 73 then uri_st73 c
      else if cs = 74 then uri_st74 c
      else if cs = 75 then uri_st75 c
      else if cs = 76 then uri_st76 c
      else if cs = 77 then uri_st77 c
      else if cs = 78 then uri_st78 c
      else if cs = 79 then uri_st79 c
      else if cs = 80 then uri_st80 c
      else if cs = 81 then uri_st81 c
      else if cs = 82 then uri_st82 c
      else if cs = 83 then uri_st83 c
      else if cs = 84 then uri_st84 c
      else if cs = 85 then uri_st85 c
      else if cs = 86 then uri_st86 c
      else if cs = 87 then uri_st87 c
      else if cs = 88 then uri_st88 c
      else if cs = 89 then uri_st89 c
      else if cs = 90 then uri_st90 c
      else if cs = 91 then uri_st91 c
      else if cs = 92 then uri_st92 c
      else if cs = 93 then uri_st93 c
      else if cs = 94 then uri_st94 c
      else if cs = 95 then uri_st95 c
      else None)"

definition uri_cases3 :: "nat \<Rightarrow> int \<Rightarrow> uri_action trans" where
  "uri_cases3 cs c =
     (if cs = 96 then uri_st96 c
      else if cs = 97 then uri_st97 c
      else if cs = 98 then uri_st98 c
      else if cs = 99 then uri_st99 c
      else if cs = 100 then uri_st100 c
      else if cs = 101 then uri_st101 c
      else if cs = 102 then uri_st102 c
      else if cs = 103 then uri_st103 c
      else if cs = 104 then uri_st104 c
      else if cs = 105 then uri_st105 c
      else if cs = 106 then uri_st106 c
      else if cs = 107 then uri_st107 c
      else if cs = 108 then uri_st108 c
      else if cs = 109 then uri_st109 c
      else if cs = 110 then uri_st110 c
      else if cs = 111 then uri_st111 c
      else if cs = 112 then uri_st112 c
      else if cs = 113 then uri_st113 c
      else if cs = 114 then uri_st114 c
      else if cs = 115 then uri_st115 c
      else if cs = 116 then uri_st116 c
      else if cs = 117 then uri_st117 c
      else if cs = 118 then uri_st118 c
      else if cs = 119 then uri_st119 c
      else if cs = 120 then uri_st120 c
      else if cs = 121 then uri_st121 c
      else if cs = 122 then uri_st122 c
      else if cs = 123 then uri_st123 c
      else if cs = 124 then uri_st124 c
      else if cs = 125 then uri_st125 c
      else if cs = 126 then uri_st126 c
      else if cs = 127 then uri_st127 c
      else None)"

definition uri_cases4 :: "nat \<Rightarrow> int \<Rightarrow> uri_action trans" where
  "uri_cases4 cs c =
     (if cs = 128 then uri_st128 c
      else if cs = 129 then uri_st129 c
      else if cs = 130 then uri_st130 c
      else if cs = 131 then uri_st131 c
      else if cs = 132 then uri_st132 c
      else if cs = 133 then uri_st133 c
      else if cs = 134 then uri_st134 c
      else if cs = 135 then uri_st135 c
      else if cs = 136 then uri_st136 c
      else if cs = 137 then uri_st137 c
      else if cs = 138 then uri_st138 c
      else if cs = 139 then uri_st139 c
      else if cs = 140 then uri_st140 c
      else if cs = 141 then uri_st141 c
      else if cs = 142 then uri_st142 c
      else if cs = 143 then uri_st143 c
      else if cs = 144 then uri_st144 c
      else if cs = 145 then uri_st145 c
      else if cs = 146 then uri_st146 c
      else if cs = 147 then uri_st147 c
      else if cs = 148 then uri_st148 c
      else if cs = 149 then uri_st149 c
      else if cs = 150 then uri_st150 c
      else if cs = 151 then uri_st151 c
      else if cs = 152 then uri_st152 c
      else if cs = 153 then uri_st153 c
      else if cs = 154 then uri_st154 c
      else if cs = 155 then uri_st155 c
      else if cs = 156 then uri_st156 c
      else if cs = 157 then uri_st157 c
      else if cs = 158 then uri_st158 c
      else if cs = 159 then uri_st159 c
      else None)"

definition uri_cases5 :: "nat \<Rightarrow> int \<Rightarrow> uri_action trans" where
  "uri_cases5 cs c =
     (if cs = 160 then uri_st160 c
      else if cs = 161 then uri_st161 c
      else if cs = 162 then uri_st162 c
      else if cs = 163 then uri_st163 c
      else if cs = 164 then uri_st164 c
      else if cs = 165 then uri_st165 c
      else if cs = 166 then uri_st166 c
      else if cs = 167 then uri_st167 c
      else if cs = 168 then uri_st168 c
      else if cs = 169 then uri_st169 c
      else if cs = 170 then uri_st170 c
      else if cs = 171 then uri_st171 c
      else if cs = 172 then uri_st172 c
      else if cs = 173 then uri_st173 c
      else if cs = 174 then uri_st174 c
      else if cs = 175 then uri_st175 c
      else if cs = 176 then uri_st176 c
      else if cs = 177 then uri_st177 c
      else if cs = 178 then uri_st178 c
      else if cs = 179 then uri_st179 c
      else if cs = 180 then uri_st180 c
      else if cs = 181 then uri_st181 c
      else if cs = 182 then uri_st182 c
      else if cs = 183 then uri_st183 c
      else if cs = 184 then uri_st184 c
      else if cs = 185 then uri_st185 c
      else if cs = 186 then uri_st186 c
      else if cs = 187 then uri_st187 c
      else if cs = 188 then uri_st188 c
      else if cs = 189 then uri_st189 c
      else if cs = 190 then uri_st190 c
      else if cs = 191 then uri_st191 c
      else None)"

definition uri_cases6 :: "nat \<Rightarrow> int \<Rightarrow> uri_action trans" where
  "uri_cases6 cs c =
     (if cs = 192 then uri_st192 c
      else if cs = 193 then uri_st193 c
      else if cs = 194 then uri_st194 c
      else if cs = 195 then uri_st195 c
      else if cs = 196 then uri_st196 c
      else if cs = 197 then uri_st197 c
      else if cs = 198 then uri_st198 c
      else if cs = 199 then uri_st199 c
      else if cs = 200 then uri_st200 c
      else if cs = 201 then uri_st201 c
      else if cs = 202 then uri_st202 c
      else if cs = 203 then uri_st203 c
      else if cs = 204 then uri_st204 c
      else if cs = 205 then uri_st205 c
      else if cs = 206 then uri_st206 c
      else if cs = 207 then uri_st207 c
      else if cs = 208 then uri_st208 c
      else if cs = 209 then uri_st209 c
      else if cs = 210 then uri_st210 c
      else if cs = 211 then uri_st211 c
      else if cs = 212 then uri_st212 c
      else if cs = 213 then uri_st213 c
      else if cs = 214 then uri_st214 c
      else if cs = 215 then uri_st215 c
      else if cs = 216 then uri_st216 c
      else if cs = 217 then uri_st217 c
      else if cs = 218 then uri_st218 c
      else if cs = 219 then uri_st219 c
      else if cs = 220 then uri_st220 c
      else if cs = 221 then uri_st221 c
      else if cs = 222 then uri_st222 c
      else if cs = 223 then uri_st223 c
      else None)"

definition uri_cases7 :: "nat \<Rightarrow> int \<Rightarrow> uri_action trans" where
  "uri_cases7 cs c =
     (if cs = 224 then uri_st224 c
      else if cs = 225 then uri_st225 c
      else if cs = 226 then uri_st226 c
      else if cs = 227 then uri_st227 c
      else if cs = 228 then uri_st228 c
      else if cs = 229 then uri_st229 c
      else if cs = 230 then uri_st230 c
      else if cs = 231 then uri_st231 c
      else if cs = 232 then uri_st232 c
      else if cs = 233 then uri_st233 c
      else if cs = 234 then uri_st234 c
      else if cs = 235 then uri_st235 c
      else if cs = 236 then uri_st236 c
      else if cs = 237 then uri_st237 c
      else if cs = 238 then uri_st238 c
      else if cs = 239 then uri_st239 c
      else if cs = 240 then uri_st240 c
      else if cs = 241 then uri_st241 c
      else if cs = 242 then uri_st242 c
      else if cs = 243 then uri_st243 c
      else if cs = 244 then uri_st244 c
      else if cs = 245 then uri_st245 c
      else if cs = 246 then uri_st246 c
      else if cs = 247 then uri_st247 c
      else if cs = 248 then uri_st248 c
      else if cs = 249 then uri_st249 c
      else if cs = 250 then uri_st250 c
      else if cs = 251 then uri_st251 c
      else if cs = 252 then uri_st252 c
      else if cs = 253 then uri_st253 c
      else if cs = 254 then uri_st254 c
      else if cs = 255 then uri_st255 c
      else None)"

definition uri_cases8 :: "nat \<Rightarrow> int \<Rightarrow> uri_action trans" where
  "uri_cases8 cs c =
     (if cs = 256 then uri_st256 c
      else if cs = 257 then uri_st257 c
      else if cs = 258 then uri_st258 c
      else if cs = 259 then uri_st259 c
      else if cs = 260 then uri_st260 c
      else if cs = 261 then uri_st261 c
      else if cs = 262 then uri_st262 c
      else if cs = 263 then uri_st263 c
      else if cs = 264 then uri_st264 c
      else if cs = 265 then uri_st265 c
      else if cs = 266 then uri_st266 c
      else if cs = 267 then uri_st267 c
      else if cs = 268 then uri_st268 c
      else if cs = 269 then uri_st269 c
      else if cs = 270 then uri_st270 c
      else if cs = 271 then uri_st271 c
      else if cs = 272 then uri_st272 c
      else if cs = 273 then uri_st273 c
      else if cs = 274 then uri_st274 c
      else if cs = 275 then uri_st275 c
      else if cs = 276 then uri_st276 c
      else if cs = 277 then uri_st277 c
      else if cs = 278 then uri_st278 c
      else if cs = 279 then uri_st279 c
      else if cs = 280 then uri_st280 c
      else if cs = 281 then uri_st281 c
      else if cs = 282 then uri_st282 c
      else if cs = 283 then uri_st283 c
      else if cs = 284 then uri_st284 c
      else if cs = 285 then uri_st285 c
      else if cs = 286 then uri_st286 c
      else if cs = 287 then uri_st287 c
      else None)"

definition uri_cases9 :: "nat \<Rightarrow> int \<Rightarrow> uri_action trans" where
  "uri_cases9 cs c =
     (if cs = 288 then uri_st288 c
      else if cs = 289 then uri_st289 c
      else if cs = 290 then uri_st290 c
      else if cs = 291 then uri_st291 c
      else if cs = 292 then uri_st292 c
      else if cs = 293 then uri_st293 c
      else if cs = 294 then uri_st294 c
      else if cs = 295 then uri_st295 c
      else if cs = 296 then uri_st296 c
      else if cs = 297 then uri_st297 c
      else if cs = 298 then uri_st298 c
      else if cs = 299 then uri_st299 c
      else if cs = 300 then uri_st300 c
      else if cs = 301 then uri_st301 c
      else if cs = 302 then uri_st302 c
      else if cs = 303 then uri_st303 c
      else if cs = 304 then uri_st304 c
      else if cs = 305 then uri_st305 c
      else if cs = 306 then uri_st306 c
      else if cs = 307 then uri_st307 c
      else if cs = 308 then uri_st308 c
      else if cs = 309 then uri_st309 c
      else if cs = 310 then uri_st310 c
      else if cs = 311 then uri_st311 c
      else if cs = 312 then uri_st312 c
      else if cs = 313 then uri_st313 c
      else if cs = 314 then uri_st314 c
      else if cs = 315 then uri_st315 c
      else if cs = 316 then uri_st316 c
      else if cs = 317 then uri_st317 c
      else if cs = 318 then uri_st318 c
      else if cs = 319 then uri_st319 c
      else None)"

definition uri_cases10 :: "nat \<Rightarrow> int \<Rightarrow> uri_action trans" where
  "uri_cases10 cs c =
     (if cs = 320 then uri_st320 c
      else if cs = 321 then uri_st321 c
      else if cs = 322 then uri_st322 c
      else if cs = 323 then uri_st323 c
      else if cs = 324 then uri_st324 c
      else if cs = 325 then uri_st325 c
      else if cs = 326 then uri_st326 c
      else if cs = 327 then uri_st327 c
      else if cs = 328 then uri_st328 c
      else if cs = 329 then uri_st329 c
      else if cs = 330 then uri_st330 c
      else if cs = 331 then uri_st331 c
      else if cs = 332 then uri_st332 c
      else if cs = 333 then uri_st333 c
      else if cs = 334 then uri_st334 c
      else if cs = 335 then uri_st335 c
      else if cs = 336 then uri_st336 c
      else if cs = 337 then uri_st337 c
      else if cs = 338 then uri_st338 c
      else if cs = 339 then uri_st339 c
      else if cs = 340 then uri_st340 c
      else if cs = 341 then uri_st341 c
      else if cs = 342 then uri_st342 c
      else if cs = 343 then uri_st343 c
      else if cs = 344 then uri_st344 c
      else if cs = 345 then uri_st345 c
      else if cs = 346 then uri_st346 c
      else if cs = 347 then uri_st347 c
      else if cs = 348 then uri_st348 c
      else if cs = 349 then uri_st349 c
      else if cs = 350 then uri_st350 c
      else if cs = 351 then uri_st351 c
      else None)"

definition uri_cases11 :: "nat \<Rightarrow> int \<Rightarrow> uri_action trans" where
  "uri_cases11 cs c =
     (if cs = 352 then uri_st352 c
      else if cs = 353 then uri_st353 c
      else if cs = 354 then uri_st354 c
      else if cs = 355 then uri_st355 c
      else if cs = 356 then uri_st356 c
      else if cs = 357 then uri_st357 c
      else if cs = 358 then uri_st358 c
      else if cs = 359 then uri_st359 c
      else if cs = 360 then uri_st360 c
      else if cs = 361 then uri_st361 c
      else if cs = 362 then uri_st362 c
      else if cs = 363 then uri_st363 c
      else if cs = 364 then uri_st364 c
      else if cs = 365 then uri_st365 c
      else if cs = 366 then uri_st366 c
      else if cs = 367 then uri_st367 c
      else if cs = 368 then uri_st368 c
      else if cs = 369 then uri_st369 c
      else if cs = 370 then uri_st370 c
      else if cs = 371 then uri_st371 c
      else if cs = 372 then uri_st372 c
      else if cs = 373 then uri_st373 c
      else if cs = 374 then uri_st374 c
      else if cs = 375 then uri_st375 c
      else if cs = 376 then uri_st376 c
      else if cs = 377 then uri_st377 c
      else if cs = 378 then uri_st378 c
      else if cs = 379 then uri_st379 c
      else if cs = 380 then uri_st380 c
      else if cs = 381 then uri_st381 c
      else if cs = 382 then uri_st382 c
      else if cs = 383 then uri_st383 c
      else None)"

definition uri_cases12 :: "nat \<Rightarrow> int \<Rightarrow> uri_action trans" where
  "uri_cases12 cs c =
     (if cs = 384 then uri_st384 c
      else if cs = 385 then uri_st385 c
      else if cs = 386 then uri_st386 c
      else if cs = 387 then uri_st387 c
      else if cs = 388 then uri_st388 c
      else if cs = 389 then uri_st389 c
      else if cs = 390 then uri_st390 c
      else if cs = 391 then uri_st391 c
      else if cs = 392 then uri_st392 c
      else if cs = 393 then uri_st393 c
      else if cs = 394 then uri_st394 c
      else if cs = 395 then uri_st395 c
      else if cs = 396 then uri_st396 c
      else if cs = 397 then uri_st397 c
      else if cs = 398 then uri_st398 c
      else if cs = 399 then uri_st399 c
      else if cs = 400 then uri_st400 c
      else if cs = 401 then uri_st401 c
      else if cs = 402 then uri_st402 c
      else if cs = 403 then uri_st403 c
      else if cs = 404 then uri_st404 c
      else if cs = 405 then uri_st405 c
      else if cs = 406 then uri_st406 c
      else if cs = 407 then uri_st407 c
      else if cs = 408 then uri_st408 c
      else if cs = 409 then uri_st409 c
      else if cs = 410 then uri_st410 c
      else if cs = 411 then uri_st411 c
      else if cs = 412 then uri_st412 c
      else if cs = 413 then uri_st413 c
      else if cs = 414 then uri_st414 c
      else if cs = 415 then uri_st415 c
      else None)"

definition uri_cases13 :: "nat \<Rightarrow> int \<Rightarrow> uri_action trans" where
  "uri_cases13 cs c =
     (if cs = 416 then uri_st416 c
      else if cs = 417 then uri_st417 c
      else if cs = 418 then uri_st418 c
      else if cs = 419 then uri_st419 c
      else if cs = 420 then uri_st420 c
      else if cs = 421 then uri_st421 c
      else if cs = 422 then uri_st422 c
      else if cs = 423 then uri_st423 c
      else if cs = 424 then uri_st424 c
      else if cs = 425 then uri_st425 c
      else if cs = 426 then uri_st426 c
      else if cs = 427 then uri_st427 c
      else if cs = 428 then uri_st428 c
      else if cs = 429 then uri_st429 c
      else if cs = 430 then uri_st430 c
      else if cs = 431 then uri_st431 c
      else if cs = 432 then uri_st432 c
      else if cs = 433 then uri_st433 c
      else if cs = 434 then uri_st434 c
      else if cs = 435 then uri_st435 c
      else if cs = 436 then uri_st436 c
      else if cs = 437 then uri_st437 c
      else if cs = 438 then uri_st438 c
      else if cs = 439 then uri_st439 c
      else if cs = 440 then uri_st440 c
      else if cs = 441 then uri_st441 c
      else if cs = 442 then uri_st442 c
      else if cs = 443 then uri_st443 c
      else if cs = 444 then uri_st444 c
      else if cs = 445 then uri_st445 c
      else if cs = 446 then uri_st446 c
      else if cs = 447 then uri_st447 c
      else None)"

definition uri_cases14 :: "nat \<Rightarrow> int \<Rightarrow> uri_action trans" where
  "uri_cases14 cs c =
     (if cs = 448 then uri_st448 c
      else if cs = 449 then uri_st449 c
      else if cs = 450 then uri_st450 c
      else if cs = 451 then uri_st451 c
      else if cs = 452 then uri_st452 c
      else if cs = 453 then uri_st453 c
      else if cs = 454 then uri_st454 c
      else if cs = 455 then uri_st455 c
      else if cs = 456 then uri_st456 c
      else if cs = 457 then uri_st457 c
      else if cs = 458 then uri_st458 c
      else if cs = 459 then uri_st459 c
      else if cs = 460 then uri_st460 c
      else if cs = 461 then uri_st461 c
      else if cs = 462 then uri_st462 c
      else if cs = 463 then uri_st463 c
      else if cs = 464 then uri_st464 c
      else if cs = 465 then uri_st465 c
      else if cs = 466 then uri_st466 c
      else if cs = 467 then uri_st467 c
      else if cs = 468 then uri_st468 c
      else if cs = 469 then uri_st469 c
      else if cs = 470 then uri_st470 c
      else if cs = 471 then uri_st471 c
      else if cs = 472 then uri_st472 c
      else if cs = 473 then uri_st473 c
      else if cs = 474 then uri_st474 c
      else if cs = 475 then uri_st475 c
      else if cs = 476 then uri_st476 c
      else if cs = 477 then uri_st477 c
      else if cs = 478 then uri_st478 c
      else if cs = 479 then uri_st479 c
      else None)"

definition uri_cases15 :: "nat \<Rightarrow> int \<Rightarrow> uri_action trans" where
  "uri_cases15 cs c =
     (if cs = 480 then uri_st480 c
      else if cs = 481 then uri_st481 c
      else if cs = 482 then uri_st482 c
      else if cs = 483 then uri_st483 c
      else if cs = 484 then uri_st484 c
      else if cs = 485 then uri_st485 c
      else if cs = 486 then uri_st486 c
      else if cs = 487 then uri_st487 c
      else if cs = 488 then uri_st488 c
      else if cs = 489 then uri_st489 c
      else if cs = 490 then uri_st490 c
      else if cs = 491 then uri_st491 c
      else if cs = 492 then uri_st492 c
      else if cs = 493 then uri_st493 c
      else if cs = 494 then uri_st494 c
      else if cs = 495 then uri_st495 c
      else if cs = 496 then uri_st496 c
      else if cs = 497 then uri_st497 c
      else if cs = 498 then uri_st498 c
      else if cs = 499 then uri_st499 c
      else if cs = 500 then uri_st500 c
      else if cs = 501 then uri_st501 c
      else if cs = 502 then uri_st502 c
      else if cs = 503 then uri_st503 c
      else if cs = 504 then uri_st504 c
      else if cs = 505 then uri_st505 c
      else if cs = 506 then uri_st506 c
      else if cs = 507 then uri_st507 c
      else if cs = 508 then uri_st508 c
      else if cs = 509 then uri_st509 c
      else if cs = 510 then uri_st510 c
      else if cs = 511 then uri_st511 c
      else None)"

definition uri_cases16 :: "nat \<Rightarrow> int \<Rightarrow> uri_action trans" where
  "uri_cases16 cs c =
     (if cs = 512 then uri_st512 c
      else if cs = 513 then uri_st513 c
      else if cs = 514 then uri_st514 c
      else if cs = 515 then uri_st515 c
      else if cs = 516 then uri_st516 c
      else if cs = 517 then uri_st517 c
      else if cs = 518 then uri_st518 c
      else if cs = 519 then uri_st519 c
      else if cs = 520 then uri_st520 c
      else if cs = 521 then uri_st521 c
      else if cs = 522 then uri_st522 c
      else if cs = 523 then uri_st523 c
      else if cs = 524 then uri_st524 c
      else if cs = 525 then uri_st525 c
      else if cs = 526 then uri_st526 c
      else if cs = 527 then uri_st527 c
      else if cs = 528 then uri_st528 c
      else if cs = 529 then uri_st529 c
      else if cs = 530 then uri_st530 c
      else if cs = 531 then uri_st531 c
      else if cs = 532 then uri_st532 c
      else if cs = 533 then uri_st533 c
      else if cs = 534 then uri_st534 c
      else if cs = 535 then uri_st535 c
      else if cs = 536 then uri_st536 c
      else if cs = 537 then uri_st537 c
      else if cs = 538 then uri_st538 c
      else if cs = 539 then uri_st539 c
      else if cs = 540 then uri_st540 c
      else if cs = 541 then uri_st541 c
      else if cs = 542 then uri_st542 c
      else if cs = 543 then uri_st543 c
      else None)"

definition uri_cases17 :: "nat \<Rightarrow> int \<Rightarrow> uri_action trans" where
  "uri_cases17 cs c =
     (if cs = 544 then uri_st544 c
      else if cs = 545 then uri_st545 c
      else if cs = 546 then uri_st546 c
      else if cs = 547 then uri_st547 c
      else if cs = 548 then uri_st548 c
      else if cs = 549 then uri_st549 c
      else if cs = 550 then uri_st550 c
      else if cs = 551 then uri_st551 c
      else if cs = 552 then uri_st552 c
      else if cs = 553 then uri_st553 c
      else if cs = 554 then uri_st554 c
      else if cs = 555 then uri_st555 c
      else if cs = 556 then uri_st556 c
      else if cs = 557 then uri_st557 c
      else if cs = 558 then uri_st558 c
      else if cs = 559 then uri_st559 c
      else if cs = 560 then uri_st560 c
      else None)"

definition uri_switch :: "nat \<Rightarrow> int \<Rightarrow> uri_action trans" where
  "uri_switch cs c =
     (if cs < 32 then uri_cases0 cs c
      else if cs < 64 then uri_cases1 cs c
      else if cs < 96 then uri_cases2 cs c
      else if cs < 128 then uri_cases3 cs c
      else if cs < 160 then uri_cases4 cs c
      else if cs < 192 then uri_cases5 cs c
      else if cs < 224 then uri_cases6 cs c
      else if cs < 256 then uri_cases7 cs c
      else if cs < 288 then uri_cases8 cs c
      else if cs < 320 then uri_cases9 cs c
      else if cs < 352 then uri_cases10 cs c
      else if cs < 384 then uri_cases11 cs c
      else if cs < 416 then uri_cases12 cs c
      else if cs < 448 then uri_cases13 cs c
      else if cs < 480 then uri_cases14 cs c
      else if cs < 512 then uri_cases15 cs c
      else if cs < 544 then uri_cases16 cs c
      else uri_cases17 cs c)"

text \<open>The actions at the end of the text.\<close>

definition uri_eof :: "nat \<Rightarrow> uri_action list" where
  "uri_eof cs =
     (if cs \<in> {462, 489} then [save_port]
      else if cs \<in> {460, 463, 464, 465, 466, 467, 470, 471, 472, 473, 474, 475, 476, 477, 478, 479, 480, 481, 482,
           483, 484, 485, 486, 487, 488, 490, 491, 492, 493, 494, 495, 496, 497, 498, 499, 500, 501, 502,
           503, 504, 505, 506, 507} then [save_host]
      else if cs = 513 then [save_path]
      else if cs = 457 then [save_query]
      else if cs = 454 then [save_fragment]
      else if cs = 456 then [marku, save_query]
      else if cs = 453 then [marku, save_fragment]
      else if cs \<in> {461, 468} then [markh, save_port]
      else if cs \<in> {459, 469} then [markh, save_host]
      else if cs \<in> {514, 521} then [markh, save_port, save_path]
      else if cs \<in> {511, 522} then [markh, save_host, save_path]
      else if cs \<in> {515, 542} then [save_port, markh, save_path]
      else if cs \<in> {512, 516, 517, 518, 519, 520, 523, 524, 525, 526, 527, 528, 529, 530, 531, 532, 533, 534, 535,
           536, 537, 538, 539, 540, 541, 543, 544, 545, 546, 547, 548, 549, 550, 551, 552, 553, 554, 555,
           556, 557, 558, 559, 560} then [save_host, markh, save_path]
      else [])"

lemmas uri_tr_defs =
  uri_tr467_def uri_tr469_def uri_tr474_def uri_tr485_def uri_tr489_def uri_tr493_def uri_tr548_def
  uri_tr559_def uri_tr563_def uri_tr566_def uri_tr570_def uri_tr462_def uri_tr463_def uri_tr476_def
  uri_tr486_def uri_tr490_def uri_tr494_def uri_tr482_def uri_tr488_def uri_tr492_def uri_tr496_def
  uri_tr556_def uri_tr562_def uri_tr565_def uri_tr569_def uri_tr573_def uri_tr466_def uri_tr468_def
  uri_tr472_def uri_tr507_def uri_tr487_def uri_tr491_def uri_tr473_def uri_tr475_def uri_tr481_def
  uri_tr499_def uri_tr38_def uri_tr483_def uri_tr501_def uri_tr502_def uri_tr503_def uri_tr504_def
  uri_tr506_def uri_tr505_def uri_tr484_def uri_tr500_def uri_tr477_def uri_tr478_def uri_tr480_def
  uri_tr479_def uri_tr461_def uri_tr543_def uri_tr546_def uri_tr550_def uri_tr567_def uri_tr560_def
  uri_tr571_def uri_tr584_def uri_tr561_def uri_tr568_def uri_tr547_def uri_tr549_def uri_tr555_def
  uri_tr576_def uri_tr263_def uri_tr557_def uri_tr578_def uri_tr579_def uri_tr580_def uri_tr581_def
  uri_tr583_def uri_tr582_def uri_tr558_def uri_tr577_def uri_tr551_def uri_tr552_def uri_tr554_def
  uri_tr553_def

lemmas uri_switch_defs =
  uri_switch_def uri_cases0_def uri_cases1_def uri_cases2_def uri_cases3_def uri_cases4_def uri_cases5_def
  uri_cases6_def uri_cases7_def uri_cases8_def uri_cases9_def uri_cases10_def uri_cases11_def uri_cases12_def
  uri_cases13_def uri_cases14_def uri_cases15_def uri_cases16_def uri_cases17_def

lemmas uri_states0 =
  uri_cases0_def uri_st1_def uri_st2_def uri_st3_def uri_st4_def uri_st5_def uri_st6_def uri_st7_def
  uri_st8_def uri_st9_def uri_st10_def uri_st11_def uri_st12_def uri_st13_def uri_st14_def uri_st15_def
  uri_st16_def uri_st17_def uri_st18_def uri_st19_def uri_st20_def uri_st21_def uri_st22_def uri_st23_def
  uri_st24_def uri_st25_def uri_st26_def uri_st27_def uri_st28_def uri_st29_def uri_st30_def uri_st31_def

lemmas uri_states1 =
  uri_cases1_def uri_st32_def uri_st33_def uri_st34_def uri_st35_def uri_st36_def uri_st37_def uri_st38_def
  uri_st39_def uri_st40_def uri_st41_def uri_st42_def uri_st43_def uri_st44_def uri_st45_def uri_st46_def
  uri_st47_def uri_st48_def uri_st49_def uri_st50_def uri_st51_def uri_st52_def uri_st53_def uri_st54_def
  uri_st55_def uri_st56_def uri_st57_def uri_st58_def uri_st59_def uri_st60_def uri_st61_def uri_st62_def
  uri_st63_def

lemmas uri_states2 =
  uri_cases2_def uri_st64_def uri_st65_def uri_st66_def uri_st67_def uri_st68_def uri_st69_def uri_st70_def
  uri_st71_def uri_st72_def uri_st73_def uri_st74_def uri_st75_def uri_st76_def uri_st77_def uri_st78_def
  uri_st79_def uri_st80_def uri_st81_def uri_st82_def uri_st83_def uri_st84_def uri_st85_def uri_st86_def
  uri_st87_def uri_st88_def uri_st89_def uri_st90_def uri_st91_def uri_st92_def uri_st93_def uri_st94_def
  uri_st95_def

lemmas uri_states3 =
  uri_cases3_def uri_st96_def uri_st97_def uri_st98_def uri_st99_def uri_st100_def uri_st101_def uri_st102_def
  uri_st103_def uri_st104_def uri_st105_def uri_st106_def uri_st107_def uri_st108_def uri_st109_def
  uri_st110_def uri_st111_def uri_st112_def uri_st113_def uri_st114_def uri_st115_def uri_st116_def
  uri_st117_def uri_st118_def uri_st119_def uri_st120_def uri_st121_def uri_st122_def uri_st123_def
  uri_st124_def uri_st125_def uri_st126_def uri_st127_def

lemmas uri_states4 =
  uri_cases4_def uri_st128_def uri_st129_def uri_st130_def uri_st131_def uri_st132_def uri_st133_def
  uri_st134_def uri_st135_def uri_st136_def uri_st137_def uri_st138_def uri_st139_def uri_st140_def
  uri_st141_def uri_st142_def uri_st143_def uri_st144_def uri_st145_def uri_st146_def uri_st147_def
  uri_st148_def uri_st149_def uri_st150_def uri_st151_def uri_st152_def uri_st153_def uri_st154_def
  uri_st155_def uri_st156_def uri_st157_def uri_st158_def uri_st159_def

lemmas uri_states5 =
  uri_cases5_def uri_st160_def uri_st161_def uri_st162_def uri_st163_def uri_st164_def uri_st165_def
  uri_st166_def uri_st167_def uri_st168_def uri_st169_def uri_st170_def uri_st171_def uri_st172_def
  uri_st173_def uri_st174_def uri_st175_def uri_st176_def uri_st177_def uri_st178_def uri_st179_def
  uri_st180_def uri_st181_def uri_st182_def uri_st183_def uri_st184_def uri_st185_def uri_st186_def
  uri_st187_def uri_st188_def uri_st189_def uri_st190_def uri_st191_def

lemmas uri_states6 =
  uri_cases6_def uri_st192_def uri_st193_def uri_st194_def uri_st195_def uri_st196_def uri_st197_def
  uri_st198_def uri_st199_def uri_st200_def uri_st201_def uri_st202_def uri_st203_def uri_st204_def
  uri_st205_def uri_st206_def uri_st207_def uri_st208_def uri_st209_def uri_st210_def uri_st211_def
  uri_st212_def uri_st213_def uri_st214_def uri_st215_def uri_st216_def uri_st217_def uri_st218_def
  uri_st219_def uri_st220_def uri_st221_def uri_st222_def uri_st223_def

lemmas uri_states7 =
  uri_cases7_def uri_st224_def uri_st225_def uri_st226_def uri_st227_def uri_st228_def uri_st229_def
  uri_st230_def uri_st231_def uri_st232_def uri_st233_def uri_st234_def uri_st235_def uri_st236_def
  uri_st237_def uri_st238_def uri_st239_def uri_st240_def uri_st241_def uri_st242_def uri_st243_def
  uri_st244_def uri_st245_def uri_st246_def uri_st247_def uri_st248_def uri_st249_def uri_st250_def
  uri_st251_def uri_st252_def uri_st253_def uri_st254_def uri_st255_def

lemmas uri_states8 =
  uri_cases8_def uri_st256_def uri_st257_def uri_st258_def uri_st259_def uri_st260_def uri_st261_def
  uri_st262_def uri_st263_def uri_st264_def uri_st265_def uri_st266_def uri_st267_def uri_st268_def
  uri_st269_def uri_st270_def uri_st271_def uri_st272_def uri_st273_def uri_st274_def uri_st275_def
  uri_st276_def uri_st277_def uri_st278_def uri_st279_def uri_st280_def uri_st281_def uri_st282_def
  uri_st283_def uri_st284_def uri_st285_def uri_st286_def uri_st287_def

lemmas uri_states9 =
  uri_cases9_def uri_st288_def uri_st289_def uri_st290_def uri_st291_def uri_st292_def uri_st293_def
  uri_st294_def uri_st295_def uri_st296_def uri_st297_def uri_st298_def uri_st299_def uri_st300_def
  uri_st301_def uri_st302_def uri_st303_def uri_st304_def uri_st305_def uri_st306_def uri_st307_def
  uri_st308_def uri_st309_def uri_st310_def uri_st311_def uri_st312_def uri_st313_def uri_st314_def
  uri_st315_def uri_st316_def uri_st317_def uri_st318_def uri_st319_def

lemmas uri_states10 =
  uri_cases10_def uri_st320_def uri_st321_def uri_st322_def uri_st323_def uri_st324_def uri_st325_def
  uri_st326_def uri_st327_def uri_st328_def uri_st329_def uri_st330_def uri_st331_def uri_st332_def
  uri_st333_def uri_st334_def uri_st335_def uri_st336_def uri_st337_def uri_st338_def uri_st339_def
  uri_st340_def uri_st341_def uri_st342_def uri_st343_def uri_st344_def uri_st345_def uri_st346_def
  uri_st347_def uri_st348_def uri_st349_def uri_st350_def uri_st351_def

lemmas uri_states11 =
  uri_cases11_def uri_st352_def uri_st353_def uri_st354_def uri_st355_def uri_st356_def uri_st357_def
  uri_st358_def uri_st359_def uri_st360_def uri_st361_def uri_st362_def uri_st363_def uri_st364_def
  uri_st365_def uri_st366_def uri_st367_def uri_st368_def uri_st369_def uri_st370_def uri_st371_def
  uri_st372_def uri_st373_def uri_st374_def uri_st375_def uri_st376_def uri_st377_def uri_st378_def
  uri_st379_def uri_st380_def uri_st381_def uri_st382_def uri_st383_def

lemmas uri_states12 =
  uri_cases12_def uri_st384_def uri_st385_def uri_st386_def uri_st387_def uri_st388_def uri_st389_def
  uri_st390_def uri_st391_def uri_st392_def uri_st393_def uri_st394_def uri_st395_def uri_st396_def
  uri_st397_def uri_st398_def uri_st399_def uri_st400_def uri_st401_def uri_st402_def uri_st403_def
  uri_st404_def uri_st405_def uri_st406_def uri_st407_def uri_st408_def uri_st409_def uri_st410_def
  uri_st411_def uri_st412_def uri_st413_def uri_st414_def uri_st415_def

lemmas uri_states13 =
  uri_cases13_def uri_st416_def uri_st417_def uri_st418_def uri_st419_def uri_st420_def uri_st421_def
  uri_st422_def uri_st423_def uri_st424_def uri_st425_def uri_st426_def uri_st427_def uri_st428_def
  uri_st429_def uri_st430_def uri_st431_def uri_st432_def uri_st433_def uri_st434_def uri_st435_def
  uri_st436_def uri_st437_def uri_st438_def uri_st439_def uri_st440_def uri_st441_def uri_st442_def
  uri_st443_def uri_st444_def uri_st445_def uri_st446_def uri_st447_def

lemmas uri_states14 =
  uri_cases14_def uri_st448_def uri_st449_def uri_st450_def uri_st451_def uri_st452_def uri_st453_def
  uri_st454_def uri_st455_def uri_st456_def uri_st457_def uri_st458_def uri_st459_def uri_st460_def
  uri_st461_def uri_st462_def uri_st463_def uri_st464_def uri_st465_def uri_st466_def uri_st467_def
  uri_st468_def uri_st469_def uri_st470_def uri_st471_def uri_st472_def uri_st473_def uri_st474_def
  uri_st475_def uri_st476_def uri_st477_def uri_st478_def uri_st479_def

lemmas uri_states15 =
  uri_cases15_def uri_st480_def uri_st481_def uri_st482_def uri_st483_def uri_st484_def uri_st485_def
  uri_st486_def uri_st487_def uri_st488_def uri_st489_def uri_st490_def uri_st491_def uri_st492_def
  uri_st493_def uri_st494_def uri_st495_def uri_st496_def uri_st497_def uri_st498_def uri_st499_def
  uri_st500_def uri_st501_def uri_st502_def uri_st503_def uri_st504_def uri_st505_def uri_st506_def
  uri_st507_def uri_st508_def uri_st509_def uri_st510_def uri_st511_def

lemmas uri_states16 =
  uri_cases16_def uri_st512_def uri_st513_def uri_st514_def uri_st515_def uri_st516_def uri_st517_def
  uri_st518_def uri_st519_def uri_st520_def uri_st521_def uri_st522_def uri_st523_def uri_st524_def
  uri_st525_def uri_st526_def uri_st527_def uri_st528_def uri_st529_def uri_st530_def uri_st531_def
  uri_st532_def uri_st533_def uri_st534_def uri_st535_def uri_st536_def uri_st537_def uri_st538_def
  uri_st539_def uri_st540_def uri_st541_def uri_st542_def uri_st543_def

lemmas uri_states17 =
  uri_cases17_def uri_st544_def uri_st545_def uri_st546_def uri_st547_def uri_st548_def uri_st549_def
  uri_st550_def uri_st551_def uri_st552_def uri_st553_def uri_st554_def uri_st555_def uri_st556_def
  uri_st557_def uri_st558_def uri_st559_def uri_st560_def

end
