(* ===== verification/Uri.thy ===== *)
theory Uri
  imports Address Uri_Machine
begin

text \<open>
  The class \<open>Uri\<close> of \<open>mingfwq/uri.h\<close> and \<open>uri.rl.cpp\<close>. \<open>Uri::Create\<close> runs the machine of the theory Uri_Machine over
  the text. \<open>mark\<close> is a position in the text, or null. A \<open>std::string\<close> made from a null pointer with a length throws
  \<open>std::logic_error\<close>.
\<close>

record Uri =
  m_scheme :: string
  m_userinfo :: string
  m_host :: string
  m_path :: string
  m_query :: string
  m_fragment :: string
  m_port :: int

definition Uri_new :: Uri where
  "Uri_new = \<lparr>m_scheme = [], m_userinfo = [], m_host = [], m_path = [], m_query = [], m_fragment = [], m_port = 0\<rparr>"

section \<open>Parsing\<close>

record uri_state =
  us_uri :: Uri
  us_mark :: "nat option"
  us_error :: "cxx_error option"

definition uri_throw :: "cxx_error \<Rightarrow> uri_state \<Rightarrow> uri_state \<times> bool" where
  "uri_throw e s = (s\<lparr>us_error := Some e\<rparr>, True)"

text \<open>\<open>std::string(mark, p - mark)\<close> given to \<open>store\<close>.\<close>

definition uri_save :: "string \<Rightarrow> nat \<Rightarrow> (string \<Rightarrow> Uri \<Rightarrow> Uri) \<Rightarrow> uri_state \<Rightarrow> uri_state \<times> bool" where
  "uri_save uristr p store s =
     (case us_mark s of
        None \<Rightarrow> uri_throw (Logic_error ''basic_string: construction from null'') s
      | Some mark \<Rightarrow> (s\<lparr>us_uri := store (take (p - mark) (drop mark uristr)) (us_uri s)\<rparr>, False))"

definition null_mark :: "uri_state \<times> bool \<Rightarrow> uri_state \<times> bool" where
  "null_mark r = (if snd r then r else ((fst r)\<lparr>us_mark := None\<rparr>, False))"

definition do_marku :: "string \<Rightarrow> nat \<Rightarrow> uri_state \<Rightarrow> uri_state \<times> bool" where
  [simp]: "do_marku uristr p s =
     (s\<lparr>us_mark := Some p\<rparr>, False)"

definition do_markh :: "string \<Rightarrow> nat \<Rightarrow> uri_state \<Rightarrow> uri_state \<times> bool" where
  [simp]: "do_markh uristr p s =
     (s\<lparr>us_mark := Some p\<rparr>, False)"

definition do_save_scheme :: "string \<Rightarrow> nat \<Rightarrow> uri_state \<Rightarrow> uri_state \<times> bool" where
  [simp]: "do_save_scheme uristr p s =
     null_mark (uri_save uristr p (\<lambda>v. m_scheme_update (\<lambda>_. v)) s)"

definition do_save_port :: "string \<Rightarrow> nat \<Rightarrow> uri_state \<Rightarrow> uri_state \<times> bool" where
  [simp]: "do_save_port uristr p s =
     null_mark
       (case us_mark s of
          None \<Rightarrow> uri_throw Null_deref s
        | Some mark \<Rightarrow>
            if p \<noteq> mark then (s\<lparr>us_uri := (us_uri s)\<lparr>m_port := atoi (drop mark uristr)\<rparr>\<rparr>, False) else (s, False))"

definition do_save_userinfo :: "string \<Rightarrow> nat \<Rightarrow> uri_state \<Rightarrow> uri_state \<times> bool" where
  [simp]: "do_save_userinfo uristr p s =
     null_mark (if us_mark s \<noteq> None then uri_save uristr p (\<lambda>v. m_userinfo_update (\<lambda>_. v)) s else (s, False))"

definition do_save_host :: "string \<Rightarrow> nat \<Rightarrow> uri_state \<Rightarrow> uri_state \<times> bool" where
  [simp]: "do_save_host uristr p s =
     (if us_mark s \<noteq> None then uri_save uristr p (\<lambda>v. m_host_update (\<lambda>_. v)) s else (s, False))"

definition do_save_path :: "string \<Rightarrow> nat \<Rightarrow> uri_state \<Rightarrow> uri_state \<times> bool" where
  [simp]: "do_save_path uristr p s =
     null_mark (uri_save uristr p (\<lambda>v. m_path_update (\<lambda>_. v)) s)"

definition do_save_query :: "string \<Rightarrow> nat \<Rightarrow> uri_state \<Rightarrow> uri_state \<times> bool" where
  [simp]: "do_save_query uristr p s =
     null_mark (uri_save uristr p (\<lambda>v. m_query_update (\<lambda>_. v)) s)"

definition do_save_fragment :: "string \<Rightarrow> nat \<Rightarrow> uri_state \<Rightarrow> uri_state \<times> bool" where
  [simp]: "do_save_fragment uristr p s =
     null_mark (uri_save uristr p (\<lambda>v. m_fragment_update (\<lambda>_. v)) s)"

primrec uri_act :: "string \<Rightarrow> uri_action \<Rightarrow> nat \<Rightarrow> uri_state \<Rightarrow> uri_state \<times> bool" where
  "uri_act uristr marku = do_marku uristr"
| "uri_act uristr markh = do_markh uristr"
| "uri_act uristr save_scheme = do_save_scheme uristr"
| "uri_act uristr save_port = do_save_port uristr"
| "uri_act uristr save_userinfo = do_save_userinfo uristr"
| "uri_act uristr save_host = do_save_host uristr"
| "uri_act uristr save_path = do_save_path uristr"
| "uri_act uristr save_query = do_save_query uristr"
| "uri_act uristr save_fragment = do_save_fragment uristr"

definition uri_parser_start :: nat where "uri_parser_start = 451"
definition uri_parser_error :: nat where "uri_parser_error = 0"
definition uri_parser_first_final :: nat where "uri_parser_first_final = 451"

text \<open>The actions at the end of the text; they are skipped after \<open>goto _out\<close>.\<close>

definition uri_finish :: "string \<Rightarrow> uri_state \<times> nat \<times> nat \<Rightarrow> uri_state \<times> nat" where
  "uri_finish uristr r =
     (case r of (s, cs, p) \<Rightarrow>
        if us_error s = None \<and> p = length uristr \<and> cs \<noteq> uri_parser_error
        then (fst (do_actions (uri_act uristr) (uri_eof cs) p s), cs)
        else (s, cs))"

definition uri_exec :: "string \<Rightarrow> uri_state \<times> nat" where
  "uri_exec uristr =
     uri_finish uristr
       (ragel_run uri_switch (uri_act uristr) uri_parser_start uristr 0
          \<lparr>us_uri = Uri_new, us_mark = None, us_error = None\<rparr>)"

definition Uri_Create :: "string \<Rightarrow> Uri option res" where
  "Uri_Create uristr =
     (case uri_exec uristr of
        (s, cs) \<Rightarrow>
          (case us_error s of
             Some e \<Rightarrow> Inl e
           | None \<Rightarrow>
               if cs = uri_parser_error then Inr None
               else if cs \<ge> uri_parser_first_final then Inr (Some (us_uri s))
               else Inr None))"

section \<open>Accessors\<close>

definition isDefaultPort :: "Uri \<Rightarrow> bool" where
  "isDefaultPort u =
     (if m_port u = 0 then True
      else if m_scheme u = ''http'' \<or> m_scheme u = ''ws'' then m_port u = 80
      else if m_scheme u = ''https'' \<or> m_scheme u = ''wss'' then m_port u = 443
      else False)"

definition getPath :: "Uri \<Rightarrow> string" where
  "getPath u = (if m_path u = [] then ''/'' else m_path u)"

definition getPort :: "Uri \<Rightarrow> int" where
  "getPort u =
     (if m_port u \<noteq> 0 then m_port u
      else if m_scheme u = ''http'' \<or> m_scheme u = ''ws'' then 80
      else if m_scheme u = ''https'' \<or> m_scheme u = ''wss'' then 443
      else m_port u)"

definition Uri_dump :: "Uri \<Rightarrow> string" where
  "Uri_dump u =
     m_scheme u @ ''://'' @ m_userinfo u @ (if m_userinfo u = [] then [] else ''@'') @ m_host u @
     (if isDefaultPort u then [] else '':'' @ int_to_string (m_port u)) @ getPath u @
     (if m_query u = [] then [] else ''?'') @ m_query u @
     (if m_fragment u = [] then [] else ''#'') @ m_fragment u"

definition Uri_toString :: "Uri \<Rightarrow> string" where
  "Uri_toString u = Uri_dump u"

text \<open>\<open>setPort\<close> of an address takes a \<open>uint16_t\<close>.\<close>

definition addr_setPort :: "endian \<Rightarrow> Address \<Rightarrow> int \<Rightarrow> Address" where
  "addr_setPort bo a port =
     (case a of
        IPv4Address s \<Rightarrow> IPv4Address (v4_setPort bo s (word_of_int port))
      | IPv6Address s \<Rightarrow> IPv6Address (v6_setPort bo s (word_of_int port))
      | _ \<Rightarrow> a)"

definition createAddress :: "endian \<Rightarrow> getaddrinfo_fun \<Rightarrow> Uri \<Rightarrow> Address option" where
  "createAddress bo getaddrinfo u =
     map_option (\<lambda>a. addr_setPort bo a (getPort u))
       (LookupAnyIPAddress getaddrinfo (m_host u) (uint AF_INET) 0 0)"

text \<open>The text leaves the port out exactly when the scheme alone gives the same port.\<close>

lemma port_omitted_iff: "isDefaultPort u \<longleftrightarrow> getPort (u\<lparr>m_port := 0\<rparr>) = getPort u"
  by (auto simp: isDefaultPort_def getPort_def)

lemma getPort_default:
  "isDefaultPort u \<Longrightarrow> m_scheme u = ''http'' \<Longrightarrow> getPort u = 80"
  "isDefaultPort u \<Longrightarrow> m_scheme u = ''https'' \<Longrightarrow> getPort u = 443"
  by (auto simp: isDefaultPort_def getPort_def split: if_splits)

end
