(* ===== verification/Uri_Text.thy ===== *)
theory Uri_Text
  imports Uri
begin

text \<open>
  What \<open>Uri::Create\<close> makes of a text. The texts of absolute URIs are followed through the states of the machine in
  segments: scheme, user information, host, port, path, query and fragment. Each segment is a loop at one state
  with a step before it.
\<close>

section \<open>Character classes\<close>

definition alpha_char :: "char \<Rightarrow> bool" where
  "alpha_char c = (let x = schar c in 65 \<le> x \<and> x \<le> 90 \<or> 97 \<le> x \<and> x \<le> 122)"

definition digit_char_p :: "char \<Rightarrow> bool" where
  "digit_char_p c = (let x = schar c in 48 \<le> x \<and> x \<le> 57)"

definition scheme_char :: "char \<Rightarrow> bool" where
  "scheme_char c \<longleftrightarrow> alpha_char c \<or> digit_char_p c \<or> schar c \<in> {43, 45, 46}"

text \<open>\<open>unreserved\<close> and \<open>sub_delims\<close>, without the digits.\<close>

definition name_start :: "char \<Rightarrow> bool" where
  "name_start c \<longleftrightarrow> alpha_char c \<or> 38 \<le> schar c \<and> schar c \<le> 46 \<or> schar c \<in> {33, 36, 59, 61, 95, 126}"

definition name_char :: "char \<Rightarrow> bool" where
  "name_char c \<longleftrightarrow> name_start c \<or> digit_char_p c"

text \<open>\<open>pchar\<close> without percent encoding, with the bytes above 127, and the slash.\<close>

definition path_char :: "char \<Rightarrow> bool" where
  "path_char c \<longleftrightarrow> name_char c \<or> schar c < 0 \<or> schar c \<in> {47, 58, 64}"

definition query_char :: "char \<Rightarrow> bool" where
  "query_char c \<longleftrightarrow> path_char c \<or> schar c = 63"

lemmas char_class_defs = query_char_def path_char_def name_char_def name_start_def scheme_char_def digit_char_p_def
  alpha_char_def

section \<open>States\<close>

lemma uri_switch_at:
  "uri_switch 451 = uri_st451" "uri_switch 453 = uri_st453" "uri_switch 454 = uri_st454" "uri_switch 456 = uri_st456"
  "uri_switch 457 = uri_st457" "uri_switch 508 = uri_st508" "uri_switch 509 = uri_st509" "uri_switch 510 = uri_st510"
  "uri_switch 511 = uri_st511" "uri_switch 513 = uri_st513" "uri_switch 514 = uri_st514" "uri_switch 515 = uri_st515"
  "uri_switch 520 = uri_st520" "uri_switch 521 = uri_st521" "uri_switch 522 = uri_st522" "uri_switch 523 = uri_st523"
  "uri_switch 542 = uri_st542"
  by (simp_all add: fun_eq_iff uri_switch_def uri_cases14_def uri_cases15_def uri_cases16_def)

text \<open>Loops and first characters.\<close>

lemma uri_loops:
  "scheme_char c \<Longrightarrow> uri_st508 (schar c) = Some ([], 508)"
  "name_char c \<Longrightarrow> uri_st520 (schar c) = Some ([], 520)"
  "name_char c \<Longrightarrow> uri_st523 (schar c) = Some ([], 523)"
  "digit_char_p c \<Longrightarrow> uri_st542 (schar c) = Some ([], 542)"
  "digit_char_p c \<Longrightarrow> uri_st515 (schar c) = Some ([], 515)"
  "path_char c \<Longrightarrow> uri_st513 (schar c) = Some ([], 513)"
  "query_char c \<Longrightarrow> uri_st457 (schar c) = Some ([], 457)"
  "query_char c \<Longrightarrow> uri_st454 (schar c) = Some ([], 454)"
  unfolding char_class_defs Let_def insert_iff empty_iff uri_st508_def uri_st520_def uri_st523_def uri_st542_def
    uri_st515_def uri_st513_def uri_st457_def uri_st454_def
  by (((elim disjE; simp) | simp))+

lemma uri_starts:
  "alpha_char c \<Longrightarrow> uri_st451 (schar c) = Some ([marku], 508)"
  "name_start c \<Longrightarrow> uri_st511 (schar c) = Some ([markh], 520)"
  "name_start c \<Longrightarrow> uri_st522 (schar c) = Some ([markh], 523)"
  "digit_char_p c \<Longrightarrow> uri_st521 (schar c) = Some ([markh], 542)"
  "digit_char_p c \<Longrightarrow> uri_st514 (schar c) = Some ([markh], 515)"
  "query_char c \<Longrightarrow> uri_st456 (schar c) = Some ([marku], 457)"
  "query_char c \<Longrightarrow> uri_st453 (schar c) = Some ([marku], 454)"
  unfolding char_class_defs Let_def insert_iff empty_iff uri_st451_def uri_st511_def uri_st522_def uri_st521_def
    uri_st514_def uri_st456_def uri_st453_def uri_tr_defs
  by (((elim disjE; simp) | simp))+

section \<open>Segments\<close>

abbreviation uri_run :: "string \<Rightarrow> nat \<Rightarrow> string \<Rightarrow> nat \<Rightarrow> uri_state \<Rightarrow> uri_state \<times> nat \<times> nat" where
  "uri_run str cs w p s \<equiv> ragel_run uri_switch (uri_act str) cs w p s"

definition scheme_text :: "string \<Rightarrow> bool" where
  "scheme_text w \<longleftrightarrow> w \<noteq> [] \<and> alpha_char (hd w) \<and> list_all scheme_char w"

text \<open>A name without a digit in front, which would send the machine into the states of IPv4 addresses.\<close>

definition name_text :: "string \<Rightarrow> bool" where
  "name_text w \<longleftrightarrow> w \<noteq> [] \<and> name_start (hd w) \<and> list_all name_char w"

lemma in_tl: "c \<in> set (tl w) \<Longrightarrow> list_all P w \<Longrightarrow> P c"
  by (cases w) (auto simp: list_all_iff)

lemma run_segment:
  assumes "w \<noteq> []" "uri_switch a (schar (hd w)) = Some ([act], b)" "act = marku \<or> act = markh"
    and "\<And>c. c \<in> set (tl w) \<Longrightarrow> uri_switch b (schar c) = Some ([], b)"
  shows "uri_run str a (w @ r) p s = uri_run str b r (p + length w) (s\<lparr>us_mark := Some p\<rparr>)"
  by (rule stays_append_run, rule stays_segment [where as = "[act]"]) (use assms in auto)

lemma run_scheme:
  "scheme_text w \<Longrightarrow> uri_run str 451 (w @ r) p s = uri_run str 508 r (p + length w) (s\<lparr>us_mark := Some p\<rparr>)"
  by (rule run_segment [where act = marku])
    (auto simp: scheme_text_def uri_switch_at uri_starts intro!: uri_loops elim: in_tl)

lemma run_name:
  "name_text w \<Longrightarrow> uri_run str 511 (w @ r) p s = uri_run str 520 r (p + length w) (s\<lparr>us_mark := Some p\<rparr>)"
  "name_text w \<Longrightarrow> uri_run str 522 (w @ r) p s = uri_run str 523 r (p + length w) (s\<lparr>us_mark := Some p\<rparr>)"
  by (rule run_segment [where act = markh];
      auto simp: name_text_def uri_switch_at uri_starts intro!: uri_loops elim: in_tl)+

lemma run_port:
  "list_all digit_char_p w \<Longrightarrow> w \<noteq> [] \<Longrightarrow>
   uri_run str 521 (w @ r) p s = uri_run str 542 r (p + length w) (s\<lparr>us_mark := Some p\<rparr>)"
  "list_all digit_char_p w \<Longrightarrow> w \<noteq> [] \<Longrightarrow>
   uri_run str 514 (w @ r) p s = uri_run str 515 r (p + length w) (s\<lparr>us_mark := Some p\<rparr>)"
  by (rule run_segment [where act = markh];
      cases w; auto simp: uri_switch_at uri_starts list_all_iff intro!: uri_loops)+

lemma run_query_text:
  "list_all query_char w \<Longrightarrow> w \<noteq> [] \<Longrightarrow>
   uri_run str 456 (w @ r) p s = uri_run str 457 r (p + length w) (s\<lparr>us_mark := Some p\<rparr>)"
  "list_all query_char w \<Longrightarrow> w \<noteq> [] \<Longrightarrow>
   uri_run str 453 (w @ r) p s = uri_run str 454 r (p + length w) (s\<lparr>us_mark := Some p\<rparr>)"
  by (rule run_segment [where act = marku];
      cases w; auto simp: uri_switch_at uri_starts list_all_iff intro!: uri_loops)+

lemma run_path_loop:
  "list_all path_char w \<Longrightarrow> uri_run str 513 (w @ r) p s = uri_run str 513 r (p + length w) s"
  by (rule stays_append_run [OF stays_loop]) (auto simp: list_all_iff uri_switch_at uri_loops)

text \<open>What is saved: the text between the mark and the pointer.\<close>

lemma saved_text: "drop m str = w @ r \<Longrightarrow> take (m + length w - m) (drop m str) = w"
  by simp

lemma schar_delims: "schar CHR '':'' = 58" "schar CHR ''/'' = 47" "schar CHR ''?'' = 63" "schar CHR ''#'' = 35" "schar CHR ''@'' = 64"
  by (simp_all add: schar_def)

text \<open>The delimiters, with the name, the digits or the path before them.\<close>

lemma run_scheme_end:
  assumes "drop m str = w @ r" "us_mark s = Some m"
  shows "uri_run str 508 (''://'' @ v) (m + length w) s =
    uri_run str 511 v (m + length w + 3) (s\<lparr>us_uri := (us_uri s)\<lparr>m_scheme := w\<rparr>, us_mark := None\<rparr>)"
  using assms by (simp add: uri_switch_at schar_delims uri_st508_def uri_st509_def uri_st510_def uri_tr_defs uri_save_def null_mark_def
      numeral_3_eq_3)

lemma run_userinfo_end:
  assumes "drop m str = w @ r" "us_mark s = Some m"
  shows "uri_run str 520 (''@'' @ v) (m + length w) s =
    uri_run str 522 v (m + length w + 1) (s\<lparr>us_uri := (us_uri s)\<lparr>m_userinfo := w\<rparr>, us_mark := None\<rparr>)"
  using assms by (simp add: uri_switch_at schar_delims uri_st520_def uri_tr_defs uri_save_def null_mark_def)

lemma run_host_end:
  assumes "drop m str = w @ r" "us_mark s = Some m" "b = 520 \<or> b = 523"
  shows "uri_run str b ('':'' @ v) (m + length w) s =
      uri_run str (if b = 520 then 521 else 514) v (m + length w + 1) (s\<lparr>us_uri := (us_uri s)\<lparr>m_host := w\<rparr>\<rparr>)"
    and "uri_run str b (''/'' @ v) (m + length w) s =
      uri_run str 513 v (m + length w + 1) (s\<lparr>us_uri := (us_uri s)\<lparr>m_host := w\<rparr>, us_mark := Some (m + length w)\<rparr>)"
  using assms by (auto simp: uri_switch_at schar_delims uri_st520_def uri_st523_def uri_tr_defs uri_save_def)

lemma run_port_end:
  assumes "drop m str = w @ r" "us_mark s = Some m" "w \<noteq> []" "b = 542 \<or> b = 515"
  shows "uri_run str b (''/'' @ v) (m + length w) s =
      uri_run str 513 v (m + length w + 1)
        (s\<lparr>us_uri := (us_uri s)\<lparr>m_port := atoi (w @ r)\<rparr>, us_mark := Some (m + length w)\<rparr>)"
  using assms by (auto simp: uri_switch_at schar_delims uri_st542_def uri_st515_def uri_tr_defs null_mark_def)

lemma run_path_end:
  assumes "drop m str = w @ r" "us_mark s = Some m"
  shows "uri_run str 513 (''?'' @ v) (m + length w) s =
      uri_run str 456 v (m + length w + 1) (s\<lparr>us_uri := (us_uri s)\<lparr>m_path := w\<rparr>, us_mark := None\<rparr>)"
    and "uri_run str 513 (''#'' @ v) (m + length w) s =
      uri_run str 453 v (m + length w + 1) (s\<lparr>us_uri := (us_uri s)\<lparr>m_path := w\<rparr>, us_mark := None\<rparr>)"
  using assms by (auto simp: uri_switch_at schar_delims uri_st513_def uri_tr_defs uri_save_def null_mark_def)

lemma run_query_end:
  assumes "drop m str = w @ r" "us_mark s = Some m"
  shows "uri_run str 457 (''#'' @ v) (m + length w) s =
      uri_run str 453 v (m + length w + 1) (s\<lparr>us_uri := (us_uri s)\<lparr>m_query := w\<rparr>, us_mark := None\<rparr>)"
  using assms by (auto simp: uri_switch_at schar_delims uri_st457_def uri_tr_defs uri_save_def null_mark_def)

section \<open>Absolute URIs\<close>

definition tail_text :: "string \<Rightarrow> string \<Rightarrow> string" where
  "tail_text q f = (if q = [] then [] else ''?'' @ q) @ (if f = [] then [] else ''#'' @ f)"

lemma drop_more: "drop m str = w @ r \<Longrightarrow> drop (m + length w) str = r"
  by (metis add.commute append_eq_conv_conj drop_drop)

lemma drop_length: "drop m str = w \<Longrightarrow> m \<le> length str \<Longrightarrow> m + length w = length str"
  by auto

lemma finish_at:
  assumes "us_error s = None" "cs \<noteq> 0" "p = length str"
  shows "uri_finish str (s, cs, p) = (fst (do_actions (uri_act str) (uri_eof cs) (length str) s), cs)"
  using assms by (simp add: uri_finish_def uri_parser_error_def)

lemma eof_at: "uri_eof 513 = [save_path]" "uri_eof 457 = [save_query]" "uri_eof 454 = [save_fragment]"
  by (simp_all add: uri_eof_def)

lemma finish_saves:
  assumes "drop m str = w" "us_mark s = Some m" "us_error s = None" "m \<le> length str"
  shows "uri_finish str (s, 513, m + length w) = (s\<lparr>us_uri := (us_uri s)\<lparr>m_path := w\<rparr>, us_mark := None\<rparr>, 513)"
    and "uri_finish str (s, 457, m + length w) = (s\<lparr>us_uri := (us_uri s)\<lparr>m_query := w\<rparr>, us_mark := None\<rparr>, 457)"
    and "uri_finish str (s, 454, m + length w) = (s\<lparr>us_uri := (us_uri s)\<lparr>m_fragment := w\<rparr>, us_mark := None\<rparr>, 454)"
  using assms by (auto simp: finish_at eof_at uri_save_def null_mark_def)

lemma finish_fragment:
  assumes "drop m str = f" "f \<noteq> []" "list_all query_char f" "us_error s = None" "m \<le> length str"
  shows "uri_finish str (uri_run str 453 f m s) =
    (s\<lparr>us_uri := (us_uri s)\<lparr>m_fragment := f\<rparr>, us_mark := None\<rparr>, 454)"
  using run_query_text(2) [OF assms(3,2), of str "[]" m s] finish_saves(3) [of m str f "s\<lparr>us_mark := Some m\<rparr>"] assms
  by simp

lemma finish_tail:
  assumes "drop m str = pth @ tail_text q f" "us_mark s = Some m" "us_error s = None" "m \<le> length str"
    and "list_all query_char q" "list_all query_char f" "m_query (us_uri s) = []" "m_fragment (us_uri s) = []"
  shows "\<exists>cs\<ge>451. uri_finish str (uri_run str 513 (tail_text q f) (m + length pth) s) =
    (s\<lparr>us_uri := (us_uri s)\<lparr>m_path := pth, m_query := q, m_fragment := f\<rparr>, us_mark := None\<rparr>, cs)"
proof -
  note d = drop_more [OF assms(1)]
  have l: "m + length pth + length (tail_text q f) = length str" using drop_length [OF assms(1,4)] by simp
  consider "q = []" "f = []" | "q = []" "f \<noteq> []" | "q \<noteq> []" "f = []" | "q \<noteq> []" "f \<noteq> []" by blast
  then show ?thesis
  proof cases
    case 1
    then show ?thesis using finish_saves(1) [of m str pth s] assms by (auto simp: tail_text_def)
  next
    case 2
    have f: "drop (m + length pth + 1) str = f" using drop_more [of "m + length pth" str "''#''" f] d 2 by (simp add: tail_text_def)
    have "m + length pth + 1 \<le> length str" using l 2 by (simp add: tail_text_def)
    from finish_fragment [OF f 2(2) assms(6) _ this] show ?thesis
      using run_path_end(2) [OF assms(1,2), of f] 2 assms(3,7) by (auto simp: tail_text_def)
  next
    case 3
    have q: "drop (m + length pth + 1) str = q" using drop_more [of "m + length pth" str "''?''" q] d 3 by (simp add: tail_text_def)
    have b: "m + length pth + 1 \<le> length str" using l 3 by (simp add: tail_text_def)
    show ?thesis
      using run_path_end(1) [OF assms(1,2), of q] run_query_text(1) [OF assms(5) 3(1), of str "[]"] 3 assms(3,8)
        finish_saves(2) [OF q _ _ b] by (auto simp: tail_text_def)
  next
    case 4
    have q: "drop (m + length pth + 1) str = q @ ''#'' @ f"
      using drop_more [of "m + length pth" str "''?''" "q @ ''#'' @ f"] d 4 by (simp add: tail_text_def)
    have f: "drop (m + length pth + 1 + length q + 1) str = f"
      using drop_more [OF drop_more [OF q]] by simp
    have b: "m + length pth + 1 + length q + 1 \<le> length str" using l 4 by (simp add: tail_text_def)
    let ?s1 = "s\<lparr>us_uri := (us_uri s)\<lparr>m_path := pth\<rparr>, us_mark := None\<rparr>"
    let ?s2 = "?s1\<lparr>us_mark := Some (m + length pth + 1)\<rparr>"
    have "uri_run str 513 (tail_text q f) (m + length pth) s = uri_run str 456 (q @ ''#'' @ f) (m + length pth + 1) ?s1"
      using run_path_end(1) [OF assms(1,2), of "q @ ''#'' @ f"] 4 by (simp add: tail_text_def del: ragel_run.simps)
    also have "\<dots> = uri_run str 457 (''#'' @ f) (m + length pth + 1 + length q) ?s2"
      by (rule run_query_text(1) [OF assms(5) 4(1)])
    also have "\<dots> = uri_run str 453 f (m + length pth + 1 + length q + 1)
        (?s2\<lparr>us_uri := (us_uri ?s2)\<lparr>m_query := q\<rparr>, us_mark := None\<rparr>)"
      by (rule run_query_end [OF q]) simp
    finally show ?thesis using finish_fragment [OF f 4(2) assms(6) _ b] assms(3) by auto
  qed
qed

definition userinfo_text :: "string \<Rightarrow> string" where
  "userinfo_text ui = (if ui = [] then [] else ui @ ''@'')"

definition port_text :: "nat \<Rightarrow> string" where
  "port_text n = (if n = 0 then [] else '':'' @ nat_to_string n)"

lemma same_userinfo: "m_userinfo (us_uri s) = [] \<Longrightarrow> s\<lparr>us_uri := (us_uri s)\<lparr>m_userinfo := []\<rparr>\<rparr> = s"
  by (cases s; cases "us_uri s") simp

lemma same_mark: "us_mark s = None \<Longrightarrow> s\<lparr>us_uri := u, us_mark := None\<rparr> = s\<lparr>us_uri := u\<rparr>"
  by (cases s) simp

lemma same_port: "m_port u = 0 \<Longrightarrow> u\<lparr>m_host := w, m_port := 0\<rparr> = u\<lparr>m_host := w\<rparr>"
  by (cases u) simp

lemma run_userinfo:
  assumes "drop m str = userinfo_text ui @ r" "ui = [] \<or> name_text ui" "us_mark s = None" "m_userinfo (us_uri s) = []"
  shows "uri_run str 511 (userinfo_text ui @ r) m s =
    uri_run str (if ui = [] then 511 else 522) r (m + length (userinfo_text ui)) (s\<lparr>us_uri := (us_uri s)\<lparr>m_userinfo := ui\<rparr>\<rparr>)"
proof (cases "ui = []")
  case True
  then show ?thesis using assms(4) by (simp add: userinfo_text_def same_userinfo)
next
  case False
  then have d: "drop m str = ui @ ''@'' @ r" "name_text ui" using assms by (auto simp: userinfo_text_def)
  have "uri_run str 511 (ui @ ''@'' @ r) m s = uri_run str 520 (''@'' @ r) (m + length ui) (s\<lparr>us_mark := Some m\<rparr>)"
    by (rule run_name(1) [OF d(2)])
  also have "\<dots> = uri_run str 522 r (m + length ui + 1) (s\<lparr>us_uri := (us_uri s)\<lparr>m_userinfo := ui\<rparr>, us_mark := None\<rparr>)"
    using run_userinfo_end [OF d(1), of "s\<lparr>us_mark := Some m\<rparr>" r] by (simp del: ragel_run.simps)
  finally show ?thesis using False assms(3) by (simp add: userinfo_text_def same_mark del: ragel_run.simps)
qed

lemma digit_chars: "list_all digit_char_p (nat_to_string n)"
proof -
  have "digit_char_p c" if "c \<in> set (nat_to_string n)" for c
  proof -
    have "of_char c = int (of_char c)" by (simp only: of_nat_of_char)
    then show ?thesis using decimal_digits [OF that] by (simp add: digit_char_p_def schar_def Let_def)
  qed
  then show ?thesis by (simp add: list_all_iff)
qed

lemma run_host:
  assumes "drop m str = host @ port_text n @ ''/'' @ v" "name_text host" "int n < 2 ^ 31" "a = 511 \<or> a = 522"
    and "m_port (us_uri s) = 0"
  shows "uri_run str a (host @ port_text n @ ''/'' @ v) m s =
    uri_run str 513 v (m + length host + length (port_text n) + 1)
      (s\<lparr>us_uri := (us_uri s)\<lparr>m_host := host, m_port := int n\<rparr>, us_mark := Some (m + length host + length (port_text n))\<rparr>)"
proof -
  let ?b = "if a = 511 then 520 else 523 :: nat"
  let ?s1 = "s\<lparr>us_mark := Some m\<rparr>"
  have 1: "uri_run str a (host @ port_text n @ ''/'' @ v) m s =
      uri_run str ?b (port_text n @ ''/'' @ v) (m + length host) ?s1"
    using assms(4) run_name [OF assms(2)] by auto
  show ?thesis
  proof (cases "n = 0")
    case True
    then show ?thesis
      using run_host_end(2) [OF assms(1), of ?s1 ?b v] 1 assms(5)
      by (simp add: port_text_def same_port del: ragel_run.simps)
  next
    case False
    let ?ds = "nat_to_string n" and ?m = "m + length host + 1"
    let ?c = "if a = 511 then 521 else 514 :: nat" and ?d = "if a = 511 then 542 else 515 :: nat"
    let ?s2 = "?s1\<lparr>us_uri := (us_uri s)\<lparr>m_host := host\<rparr>\<rparr>"
    have "drop (m + length host) str = '':'' @ ?ds @ ''/'' @ v"
      using drop_more [OF assms(1)] False by (simp add: port_text_def)
    from drop_more [OF this] have d: "drop ?m str = ?ds @ ''/'' @ v" by simp
    have "uri_run str ?b (port_text n @ ''/'' @ v) (m + length host) ?s1 = uri_run str ?c (?ds @ ''/'' @ v) ?m ?s2"
      using run_host_end(1) [OF assms(1), of ?s1 ?b "?ds @ ''/'' @ v"] False by (simp add: port_text_def del: ragel_run.simps)
    also have "\<dots> = uri_run str ?d (''/'' @ v) (?m + length ?ds) (?s2\<lparr>us_mark := Some ?m\<rparr>)"
      by (simp add: run_port digit_chars del: ragel_run.simps)
    also have "\<dots> = uri_run str 513 v (?m + length ?ds + 1)
        (?s2\<lparr>us_uri := (us_uri ?s2)\<lparr>m_port := atoi (?ds @ ''/'' @ v)\<rparr>, us_mark := Some (?m + length ?ds)\<rparr>)"
      using run_port_end [OF d, of "?s2\<lparr>us_mark := Some ?m\<rparr>" ?d v] by (simp del: ragel_run.simps)
    also have "atoi (?ds @ ''/'' @ v) = int n"
      using atoi_nat_to_string [of "''/'' @ v" n] assms(3) by (simp add: digit_in_def)
    finally show ?thesis using 1 False by (simp add: port_text_def del: ragel_run.simps)
  qed
qed

section \<open>Round trip\<close>

text \<open>The URIs whose text can be read back.\<close>

definition uri_ok :: "Uri \<Rightarrow> bool" where
  "uri_ok u \<longleftrightarrow> scheme_text (m_scheme u) \<and> (m_userinfo u = [] \<or> name_text (m_userinfo u)) \<and> name_text (m_host u) \<and>
     0 \<le> m_port u \<and> m_port u < 2 ^ 31 \<and>
     (m_path u = [] \<or> hd (m_path u) = CHR ''/'' \<and> list_all path_char (tl (m_path u))) \<and>
     list_all query_char (m_query u) \<and> list_all query_char (m_fragment u)"

lemma Uri_dump_text:
  "0 \<le> m_port u \<Longrightarrow> Uri_dump u = m_scheme u @ ''://'' @ userinfo_text (m_userinfo u) @ m_host u @
     port_text (if isDefaultPort u then 0 else nat (m_port u)) @ getPath u @ tail_text (m_query u) (m_fragment u)"
  by (auto simp: Uri_dump_def userinfo_text_def port_text_def tail_text_def int_to_string_def isDefaultPort_def)

text \<open>
  C16: The text of a URI is read back. For every URI with a scheme, a host that is a name, and characters that need no
  encoding, \<open>Uri::Create\<close> of \<open>toString()\<close> returns a URI with the same parts, where an empty path
  has become \<open>/\<close> and the default port of the scheme is left out, and both URIs have the same port, path and text.
\<close>

theorem uri_roundtrip:
  assumes "uri_ok u"
  shows "\<exists>v. Uri_Create (Uri_toString u) = Inr (Some v) \<and>
     v = u\<lparr>m_path := getPath u, m_port := (if isDefaultPort u then 0 else m_port u)\<rparr> \<and>
     getPort v = getPort u \<and> getPath v = getPath u \<and> Uri_toString v = Uri_toString u"
proof -
  define n where "n = (if isDefaultPort u then 0 else nat (m_port u))"
  let ?ui = "userinfo_text (m_userinfo u)" and ?t = "tail_text (m_query u) (m_fragment u)"
  define str where "str = Uri_toString u"
  obtain w where pth: "getPath u = ''/'' @ w" "list_all path_char w"
    using assms by (cases "m_path u") (auto simp: uri_ok_def getPath_def)
  have str: "str = m_scheme u @ ''://'' @ ?ui @ m_host u @ port_text n @ ''/'' @ w @ ?t"
    using assms Uri_dump_text [of u] pth by (simp add: str_def Uri_toString_def uri_ok_def n_def)
  let ?i = "\<lparr>us_uri = Uri_new, us_mark = None, us_error = None\<rparr>"
  let ?p1 = "length (m_scheme u) + 3" and ?u1 = "Uri_new\<lparr>m_scheme := m_scheme u\<rparr>"
  let ?p2 = "?p1 + length ?ui" and ?u2 = "Uri_new\<lparr>m_scheme := m_scheme u, m_userinfo := m_userinfo u\<rparr>"
  let ?p3 = "?p2 + length (m_host u) + length (port_text n)"
  let ?u3 = "?u2\<lparr>m_host := m_host u, m_port := int n\<rparr>"
  have n: "int n < 2 ^ 31" using assms by (auto simp: uri_ok_def n_def)
  have d1: "drop ?p1 str = ?ui @ m_host u @ port_text n @ ''/'' @ w @ ?t" by (simp add: str)
  have d2: "drop ?p2 str = m_host u @ port_text n @ ''/'' @ w @ ?t" using drop_more [OF d1] .
  have d3: "drop ?p3 str = (''/'' @ w) @ ?t" using drop_more [OF drop_more [OF d2]] by simp
  have "uri_run str 451 str 0 ?i = uri_run str 508 (''://'' @ drop ?p1 str) (length (m_scheme u)) (?i\<lparr>us_mark := Some 0\<rparr>)"
    using run_scheme [of "m_scheme u" str "''://'' @ drop ?p1 str" 0 ?i] assms
    by (simp add: uri_ok_def str del: ragel_run.simps)
  also have "\<dots> = uri_run str 511 (drop ?p1 str) ?p1 (?i\<lparr>us_uri := ?u1\<rparr>)"
    using run_scheme_end [of 0 str "m_scheme u" "''://'' @ drop ?p1 str" "?i\<lparr>us_mark := Some 0\<rparr>" "drop ?p1 str"]
    by (simp add: str del: ragel_run.simps)
  also have "\<dots> = uri_run str (if m_userinfo u = [] then 511 else 522) (drop ?p2 str) ?p2 (?i\<lparr>us_uri := ?u2\<rparr>)"
    using run_userinfo [OF d1, of "?i\<lparr>us_uri := ?u1\<rparr>"] assms d1 d2
    by (simp add: uri_ok_def Uri_new_def del: ragel_run.simps)
  also have "\<dots> = uri_run str 513 (w @ ?t) (?p3 + 1) (?i\<lparr>us_uri := ?u3, us_mark := Some ?p3\<rparr>)"
    using run_host [OF d2 _ n, of _ "?i\<lparr>us_uri := ?u2\<rparr>"] assms d2
    by (simp add: uri_ok_def Uri_new_def del: ragel_run.simps)
  also have "\<dots> = uri_run str 513 ?t (?p3 + length (''/'' @ w)) (?i\<lparr>us_uri := ?u3, us_mark := Some ?p3\<rparr>)"
    using run_path_loop [OF pth(2), of str ?t "?p3 + 1"] by (simp add: add.assoc del: ragel_run.simps)
  finally have r: "uri_exec str = uri_finish str (uri_run str 513 ?t (?p3 + length (''/'' @ w))
      (?i\<lparr>us_uri := ?u3, us_mark := Some ?p3\<rparr>))"
    by (simp add: uri_exec_def uri_parser_start_def)
  have b: "?p3 \<le> length str" by (simp add: str)
  obtain cs where "cs \<ge> 451" "uri_exec str =
      (?i\<lparr>us_uri := ?u3\<lparr>m_path := ''/'' @ w, m_query := m_query u, m_fragment := m_fragment u\<rparr>, us_mark := None\<rparr>, cs)"
    using finish_tail [OF d3, of "?i\<lparr>us_uri := ?u3, us_mark := Some ?p3\<rparr>"] b assms r
    by (auto simp: uri_ok_def Uri_new_def)
  moreover have "?u3\<lparr>m_path := ''/'' @ w, m_query := m_query u, m_fragment := m_fragment u\<rparr> =
      u\<lparr>m_path := getPath u, m_port := (if isDefaultPort u then 0 else m_port u)\<rparr>"
    using assms pth(1) by (auto simp: uri_ok_def Uri_new_def n_def intro!: Uri.equality)
  ultimately have c: "Uri_Create str = Inr (Some (u\<lparr>m_path := getPath u, m_port := (if isDefaultPort u then 0 else m_port u)\<rparr>))"
    by (simp add: Uri_Create_def uri_parser_error_def uri_parser_first_final_def)
  let ?v = "u\<lparr>m_path := getPath u, m_port := (if isDefaultPort u then 0 else m_port u)\<rparr>"
  have v: "getPort ?v = getPort u" "getPath ?v = getPath u" "isDefaultPort ?v = isDefaultPort u"
    by (auto simp: getPort_def getPath_def isDefaultPort_def)
  then have "Uri_toString ?v = Uri_toString u" by (simp add: Uri_toString_def Uri_dump_def)
  with c v show ?thesis unfolding str_def by blast
qed

theorem uri_roundtrip_witness:
  "Uri_Create ''http://me@a-b.org:8080/x/y?k=1#top'' =
     Inr (Some \<lparr>m_scheme = ''http'', m_userinfo = ''me'', m_host = ''a-b.org'', m_path = ''/x/y'', m_query = ''k=1'',
       m_fragment = ''top'', m_port = 8080\<rparr>)"
proof -
  let ?u = "\<lparr>m_scheme = ''http'', m_userinfo = ''me'', m_host = ''a-b.org'', m_path = ''/x/y'', m_query = ''k=1'',
       m_fragment = ''top'', m_port = 8080\<rparr>"
  have "uri_ok ?u" by (simp add: uri_ok_def scheme_text_def name_text_def char_class_defs schar_def Let_def)
  moreover have "Uri_toString ?u = ''http://me@a-b.org:8080/x/y?k=1#top''"
    by (simp add: Uri_toString_def Uri_dump_def isDefaultPort_def getPath_def int_to_string_def nat_to_string_def
        to_base.simps digit_char_def char_of_eq_iff)
  ultimately show ?thesis using uri_roundtrip [of ?u] by (simp add: isDefaultPort_def getPath_def)
qed

section \<open>What is lost\<close>

text \<open>The machine up to the end of the authority, for a URI without user information and port.\<close>

lemma run_to_host:
  assumes "scheme_text w" "name_text host" "str = w @ ''://'' @ host @ r"
  shows "uri_run str 451 str 0 \<lparr>us_uri = Uri_new, us_mark = None, us_error = None\<rparr> =
    uri_run str 520 r (length w + 3 + length host)
      \<lparr>us_uri = Uri_new\<lparr>m_scheme := w\<rparr>, us_mark = Some (length w + 3), us_error = None\<rparr>"
proof -
  let ?i = "\<lparr>us_uri = Uri_new, us_mark = None, us_error = None\<rparr>"
  have "uri_run str 451 str 0 ?i = uri_run str 508 (''://'' @ host @ r) (length w) (?i\<lparr>us_mark := Some 0\<rparr>)"
    using run_scheme [OF assms(1), of str "''://'' @ host @ r" 0 ?i] assms(3) by (simp del: ragel_run.simps)
  also have "\<dots> = uri_run str 511 (host @ r) (length w + 3) (?i\<lparr>us_uri := Uri_new\<lparr>m_scheme := w\<rparr>\<rparr>)"
    using run_scheme_end [of 0 str w "''://'' @ host @ r" "?i\<lparr>us_mark := Some 0\<rparr>" "host @ r"] assms(3)
    by (simp del: ragel_run.simps)
  also have "\<dots> = uri_run str 520 r (length w + 3 + length host) (?i\<lparr>us_uri := Uri_new\<lparr>m_scheme := w\<rparr>, us_mark := Some (length w + 3)\<rparr>)"
    using run_name(1) [OF assms(2)] by simp
  finally show ?thesis by simp
qed

text \<open>
  A URI with a colon after the host and no port makes \<open>Uri::Create\<close> throw, whether the text ends there or a path
  follows, although the grammar accepts an empty port: the action for the port has cleared the mark when the
  action for the path makes a string from it.
\<close>

theorem uri_empty_port_throws:
  assumes "scheme_text w" "name_text host" "pth = [] \<or> hd pth = CHR ''/'' \<and> list_all path_char (tl pth)"
  shows "Uri_Create (w @ ''://'' @ host @ '':'' @ pth) = Inl (Logic_error ''basic_string: construction from null'')"
proof -
  define str where "str = w @ ''://'' @ host @ '':'' @ pth"
  let ?p = "length w + 3 + length host"
  let ?s = "\<lparr>us_uri = Uri_new\<lparr>m_scheme := w, m_host := host\<rparr>, us_mark = Some (length w + 3), us_error = None\<rparr>"
  have d: "drop (length w + 3) str = host @ '':'' @ pth" by (simp add: str_def)
  have "uri_run str 451 str 0 \<lparr>us_uri = Uri_new, us_mark = None, us_error = None\<rparr> = uri_run str 521 pth (?p + 1) ?s"
    using run_to_host [OF assms(1,2) str_def]
      run_host_end(1) [OF d, of "\<lparr>us_uri = Uri_new\<lparr>m_scheme := w\<rparr>, us_mark = Some (length w + 3), us_error = None\<rparr>" 520 pth]
    by (simp del: ragel_run.simps)
  then have r: "uri_exec str = uri_finish str (uri_run str 521 pth (?p + 1) ?s)"
    by (simp add: uri_exec_def uri_parser_start_def)
  have "us_error (fst (uri_exec str)) = Some (Logic_error ''basic_string: construction from null'')"
  proof (cases pth)
    case Nil
    then have "?p + 1 = length str" by (simp add: str_def)
    then show ?thesis unfolding r Nil
      by (simp add: finish_at uri_eof_def null_mark_def uri_save_def uri_throw_def)
  next
    case (Cons c v)
    then have c: "c = CHR ''/''" "list_all path_char v" using assms(3) by auto
    have "uri_run str 521 pth (?p + 1) ?s = uri_run str 513 v (?p + 2) (?s\<lparr>us_mark := None\<rparr>)"
      using Cons c(1) by (simp add: uri_switch_at schar_delims uri_st521_def uri_tr_defs null_mark_def)
    also have "\<dots> = (?s\<lparr>us_mark := None\<rparr>, 513, ?p + 2 + length v)"
      using run_path_loop [OF c(2), of str "[]" "?p + 2"] by simp
    finally show ?thesis unfolding r using Cons
      by (simp add: finish_at eof_at str_def null_mark_def uri_save_def uri_throw_def)
  qed
  then show ?thesis unfolding str_def [symmetric] by (cases "uri_exec str") (simp add: Uri_Create_def)
qed

theorem uri_empty_port_throws_witness:
  "Uri_Create ''http://a.b:/x'' = Inl (Logic_error ''basic_string: construction from null'')"
  using uri_empty_port_throws [of "''http''" "''a.b''" "''/x''"]
  by (simp add: scheme_text_def name_text_def char_class_defs schar_def Let_def)

text \<open>
  A relative reference with a path is accepted and the path is dropped, so that \<open>getPath()\<close> is \<open>/\<close>. And of user
  information with a password of digits only the password is kept, because the machine marks a possible port.
\<close>

theorem uri_path_lost:
  assumes "pth = ''/'' @ c # w" "path_char c" "c \<noteq> CHR ''/''" "list_all path_char w"
  shows "Uri_Create pth = Inr (Some Uri_new)"
proof -
  let ?i = "\<lparr>us_uri = Uri_new, us_mark = None, us_error = None\<rparr>"
  have at: "uri_switch 458 = uri_st458" "uri_switch 455 = uri_st455"
    by (simp_all add: fun_eq_iff uri_switch_def uri_cases14_def)
  have sl: "schar c \<noteq> 47" using assms(3) schar_eq_iff [of c "CHR ''/''"] by (simp add: schar_delims del: schar_eq_iff)
  have f: "uri_st458 (schar c) = Some ([], 455)"
    using assms(2) sl unfolding char_class_defs Let_def insert_iff empty_iff uri_st458_def by (elim disjE; simp)
  have l: "path_char d \<Longrightarrow> uri_st455 (schar d) = Some ([], 455)" for d
    unfolding char_class_defs Let_def insert_iff empty_iff uri_st455_def by (elim disjE; simp)
  have "uri_run pth 451 pth 0 ?i = uri_run pth 455 w 2 ?i"
    using f by (simp add: assms(1) uri_switch_at at schar_delims uri_st451_def numeral_2_eq_2)
  also have "\<dots> = (?i, 455, 2 + length w)"
    by (rule stays_run, rule stays_loop) (use assms(4) l in \<open>auto simp: list_all_iff at\<close>)
  finally have "uri_exec pth = (?i, 455)"
    using finish_at [of ?i 455 "length pth" pth] by (simp add: uri_exec_def uri_parser_start_def assms(1) uri_eof_def)
  then show ?thesis by (simp add: Uri_Create_def uri_parser_error_def uri_parser_first_final_def)
qed

lemma uri_password_only:
  assumes "scheme_text w" "name_text user" "list_all digit_char_p ds" "ds \<noteq> []" "name_text host"
  shows "Uri_Create (w @ ''://'' @ user @ '':'' @ ds @ ''@'' @ host @ ''/'') =
    Inr (Some (Uri_new\<lparr>m_scheme := w, m_userinfo := ds, m_host := host, m_path := ''/''\<rparr>))"
proof -
  define r where "r = host @ ''/''"
  define str where "str = w @ ''://'' @ user @ '':'' @ ds @ ''@'' @ r"
  let ?p = "length w + 3 + length user" and ?i = "\<lparr>us_uri = Uri_new, us_mark = None, us_error = None\<rparr>"
  let ?q = "?p + 1 + length ds + 1"
  let ?u = "Uri_new\<lparr>m_scheme := w, m_host := user\<rparr>"
  have d1: "drop (length w + 3) str = user @ '':'' @ ds @ ''@'' @ r" by (simp add: str_def)
  have d2: "drop (?p + 1) str = ds @ ''@'' @ r" using drop_more [OF drop_more [OF d1]] by simp
  have d3: "drop ?q str = r" using drop_more [OF drop_more [OF d2]] by simp
  note d = d1 d2 d3
  have "uri_run str 451 str 0 ?i = uri_run str 521 (ds @ ''@'' @ r) (?p + 1) (?i\<lparr>us_uri := ?u, us_mark := Some (length w + 3)\<rparr>)"
    using run_to_host [OF assms(1,2) str_def]
      run_host_end(1) [OF d(1), of "?i\<lparr>us_uri := Uri_new\<lparr>m_scheme := w\<rparr>, us_mark := Some (length w + 3)\<rparr>" 520 "ds @ ''@'' @ r"]
    by (simp del: ragel_run.simps)
  also have "\<dots> = uri_run str 542 (''@'' @ r) (?p + 1 + length ds) (?i\<lparr>us_uri := ?u, us_mark := Some (?p + 1)\<rparr>)"
    using run_port(1) [OF assms(3,4)] by simp
  also have "\<dots> = uri_run str 522 r ?q (?i\<lparr>us_uri := ?u\<lparr>m_userinfo := ds\<rparr>\<rparr>)"
    using d(2) by (simp add: uri_switch_at schar_delims uri_st542_def uri_tr_defs uri_save_def null_mark_def)
  also have "\<dots> = uri_run str 513 [] (?q + length host + 1)
      (?i\<lparr>us_uri := ?u\<lparr>m_userinfo := ds, m_host := host\<rparr>, us_mark := Some (?q + length host)\<rparr>)"
    using run_host [of ?q str host 0 "[]" 522 "?i\<lparr>us_uri := ?u\<lparr>m_userinfo := ds\<rparr>\<rparr>"] d(3) assms(5)
    by (simp add: port_text_def r_def Uri_new_def del: ragel_run.simps)
  finally have r: "uri_exec str = uri_finish str (?i\<lparr>us_uri := ?u\<lparr>m_userinfo := ds, m_host := host\<rparr>,
      us_mark := Some (?q + length host)\<rparr>, 513, ?q + length host + length ''/'')"
    by (simp add: uri_exec_def uri_parser_start_def)
  have "drop (?q + length host) str = ''/''" "?q + length host \<le> length str"
    using drop_more [OF d3 [unfolded r_def]] by (simp_all add: str_def r_def)
  from finish_saves(1) [OF this(1) _ _ this(2)] show ?thesis
    using r by (simp add: str_def r_def Uri_Create_def uri_parser_error_def uri_parser_first_final_def Uri_new_def)
qed

end
