(* ===== verification/Httpclient_Machine.thy ===== *)
theory Httpclient_Machine
  imports Ragel
begin

text \<open>
  The states and transitions of the machine \<open>httpclient_parser\<close> in \<open>mingfwq/http/httpclient_parser.rl.cpp\<close>:
  \<open>client_trk\<close> is the code at the label \<open>trk\<close>, the actions and the state that follows, and \<open>client_stn\<close> the code
  of \<open>case n\<close>.
\<close>

datatype client_action =
    c_mark | c_start_field | c_write_field | c_start_value | c_write_content_len | c_conn_close | c_write_value
  | c_reason_phrase | c_status_code | c_http_version | c_chunk_size | c_trans_chunked | c_done

section \<open>Transitions\<close>

definition client_tr0 :: "client_action trans" where
  "client_tr0 = Some ([c_mark], 2)"

definition client_tr3 :: "client_action trans" where
  "client_tr3 = Some ([c_chunk_size, c_done], 120)"

definition client_tr7 :: "client_action trans" where
  "client_tr7 = Some ([c_done], 120)"

definition client_tr9 :: "client_action trans" where
  "client_tr9 = Some ([c_write_field, c_start_value, c_write_value, c_done], 120)"

definition client_tr15 :: "client_action trans" where
  "client_tr15 = Some ([c_write_value, c_done], 120)"

definition client_tr74 :: "client_action trans" where
  "client_tr74 = Some ([c_conn_close, c_done], 120)"

definition client_tr4 :: "client_action trans" where
  "client_tr4 = Some ([c_chunk_size], 3)"

definition client_tr10 :: "client_action trans" where
  "client_tr10 = Some ([c_write_field, c_start_value, c_write_value], 3)"

definition client_tr16 :: "client_action trans" where
  "client_tr16 = Some ([c_write_value], 3)"

definition client_tr75 :: "client_action trans" where
  "client_tr75 = Some ([c_conn_close], 3)"

definition client_tr6 :: "client_action trans" where
  "client_tr6 = Some ([c_chunk_size], 4)"

definition client_tr12 :: "client_action trans" where
  "client_tr12 = Some ([c_write_field, c_start_value, c_write_value], 4)"

definition client_tr18 :: "client_action trans" where
  "client_tr18 = Some ([c_write_value], 4)"

definition client_tr8 :: "client_action trans" where
  "client_tr8 = Some ([c_start_field], 5)"

definition client_tr13 :: "client_action trans" where
  "client_tr13 = Some ([c_write_field, c_start_value], 6)"

definition client_tr14 :: "client_action trans" where
  "client_tr14 = Some ([c_start_value], 7)"

definition client_tr2 :: "client_action trans" where
  "client_tr2 = Some ([c_mark], 8)"

definition client_tr26 :: "client_action trans" where
  "client_tr26 = Some ([c_http_version], 16)"

definition client_tr27 :: "client_action trans" where
  "client_tr27 = Some ([c_mark], 17)"

definition client_tr28 :: "client_action trans" where
  "client_tr28 = Some ([c_status_code], 18)"

definition client_tr30 :: "client_action trans" where
  "client_tr30 = Some ([c_mark], 19)"

definition client_tr45 :: "client_action trans" where
  "client_tr45 = Some ([c_write_value], 20)"

definition client_tr32 :: "client_action trans" where
  "client_tr32 = Some ([c_reason_phrase], 20)"

definition client_tr42 :: "client_action trans" where
  "client_tr42 = Some ([c_start_value, c_write_value], 20)"

definition client_tr111 :: "client_action trans" where
  "client_tr111 = Some ([c_write_value, c_trans_chunked], 20)"

definition client_tr113 :: "client_action trans" where
  "client_tr113 = Some ([c_trans_chunked], 20)"

definition client_tr158 :: "client_action trans" where
  "client_tr158 = Some ([c_write_content_len, c_write_value], 20)"

definition client_tr35 :: "client_action trans" where
  "client_tr35 = Some ([c_start_field], 21)"

definition client_tr76 :: "client_action trans" where
  "client_tr76 = Some ([c_conn_close, c_start_field], 21)"

definition client_tr41 :: "client_action trans" where
  "client_tr41 = Some ([c_start_value], 22)"

definition client_tr39 :: "client_action trans" where
  "client_tr39 = Some ([c_write_field], 22)"

definition client_tr40 :: "client_action trans" where
  "client_tr40 = Some ([c_start_value], 23)"

definition client_tr46 :: "client_action trans" where
  "client_tr46 = Some ([c_write_value], 24)"

definition client_tr33 :: "client_action trans" where
  "client_tr33 = Some ([c_reason_phrase], 24)"

definition client_tr43 :: "client_action trans" where
  "client_tr43 = Some ([c_start_value, c_write_value], 24)"

definition client_tr159 :: "client_action trans" where
  "client_tr159 = Some ([c_write_content_len, c_write_value], 24)"

definition client_tr36 :: "client_action trans" where
  "client_tr36 = Some ([c_start_field], 25)"

definition client_tr77 :: "client_action trans" where
  "client_tr77 = Some ([c_conn_close, c_start_field], 25)"

definition client_tr59 :: "client_action trans" where
  "client_tr59 = Some ([c_start_value], 35)"

definition client_tr58 :: "client_action trans" where
  "client_tr58 = Some ([c_write_field], 35)"

definition client_tr60 :: "client_action trans" where
  "client_tr60 = Some ([c_start_value, c_write_value], 36)"

definition client_tr136 :: "client_action trans" where
  "client_tr136 = Some ([c_write_value], 43)"

definition client_tr37 :: "client_action trans" where
  "client_tr37 = Some ([c_start_field], 44)"

definition client_tr78 :: "client_action trans" where
  "client_tr78 = Some ([c_conn_close, c_start_field], 44)"

definition client_tr96 :: "client_action trans" where
  "client_tr96 = Some ([c_start_value], 61)"

definition client_tr95 :: "client_action trans" where
  "client_tr95 = Some ([c_write_field], 61)"

definition client_tr97 :: "client_action trans" where
  "client_tr97 = Some ([c_start_value, c_write_value], 62)"

definition client_tr104 :: "client_action trans" where
  "client_tr104 = Some ([c_start_value], 64)"

definition client_tr112 :: "client_action trans" where
  "client_tr112 = Some ([c_write_value], 71)"

definition client_tr101 :: "client_action trans" where
  "client_tr101 = Some ([c_done], 121)"

definition client_tr103 :: "client_action trans" where
  "client_tr103 = Some ([c_start_value, c_start_field], 73)"

definition client_tr98 :: "client_action trans" where
  "client_tr98 = Some ([c_start_value, c_write_value], 80)"

definition client_tr99 :: "client_action trans" where
  "client_tr99 = Some ([c_start_value], 81)"

definition client_tr137 :: "client_action trans" where
  "client_tr137 = Some ([c_write_value], 88)"

definition client_tr64 :: "client_action trans" where
  "client_tr64 = Some ([c_done], 122)"

definition client_tr66 :: "client_action trans" where
  "client_tr66 = Some ([c_start_field], 90)"

definition client_tr61 :: "client_action trans" where
  "client_tr61 = Some ([c_start_value, c_write_value], 95)"

definition client_tr62 :: "client_action trans" where
  "client_tr62 = Some ([c_start_value], 96)"

definition client_tr149 :: "client_action trans" where
  "client_tr149 = Some ([c_start_value], 112)"

definition client_tr148 :: "client_action trans" where
  "client_tr148 = Some ([c_write_field], 112)"

definition client_tr150 :: "client_action trans" where
  "client_tr150 = Some ([c_start_value, c_write_value], 113)"

definition client_tr157 :: "client_action trans" where
  "client_tr157 = Some ([c_start_value], 115)"

definition client_tr154 :: "client_action trans" where
  "client_tr154 = Some ([c_done], 123)"

definition client_tr156 :: "client_action trans" where
  "client_tr156 = Some ([c_start_value, c_start_field], 117)"

definition client_tr151 :: "client_action trans" where
  "client_tr151 = Some ([c_start_value, c_write_value], 118)"

definition client_tr152 :: "client_action trans" where
  "client_tr152 = Some ([c_start_value], 119)"

section \<open>States\<close>

definition client_st1 :: "int \<Rightarrow> client_action trans" where
  "client_st1 c =
     (if c = 72 then client_tr2
      else if c < 65
      then (if 48 \<le> c \<and> c \<le> 57 then client_tr0
            else goto_st 0)
      else if c > 70
      then (if 97 \<le> c \<and> c \<le> 102 then client_tr0
            else goto_st 0)
      else client_tr0)"

definition client_st2 :: "int \<Rightarrow> client_action trans" where
  "client_st2 c =
     (if c = 10 then client_tr3
      else if c = 13 then client_tr4
      else if c = 59 then client_tr6
      else if c < 65
      then (if 48 \<le> c \<and> c \<le> 57 then goto_st 2
            else goto_st 0)
      else if c > 70
      then (if 97 \<le> c \<and> c \<le> 102 then goto_st 2
            else goto_st 0)
      else goto_st 2)"

definition client_st120 :: "int \<Rightarrow> client_action trans" where
  "client_st120 c =
     goto_st 0"

definition client_st3 :: "int \<Rightarrow> client_action trans" where
  "client_st3 c =
     (if c = 10 then client_tr7
      else goto_st 0)"

definition client_st4 :: "int \<Rightarrow> client_action trans" where
  "client_st4 c =
     (if c = 33 \<or> c = 124 \<or> c = 126 then client_tr8
      else if c < 45
      then (if c > 39
            then (if 42 \<le> c \<and> c \<le> 43 then client_tr8
                  else goto_st 0)
            else if c \<ge> 35 then client_tr8
            else goto_st 0)
      else if c > 46
      then (if c < 65
            then (if 48 \<le> c \<and> c \<le> 57 then client_tr8
                  else goto_st 0)
            else if c > 90
            then (if 94 \<le> c \<and> c \<le> 122 then client_tr8
                  else goto_st 0)
            else client_tr8)
      else client_tr8)"

definition client_st5 :: "int \<Rightarrow> client_action trans" where
  "client_st5 c =
     (if c = 10 then client_tr9
      else if c = 13 then client_tr10
      else if c = 33 \<or> c = 124 \<or> c = 126 then goto_st 5
      else if c = 59 then client_tr12
      else if c = 61 then client_tr13
      else if c < 45
      then (if c > 39
            then (if 42 \<le> c \<and> c \<le> 43 then goto_st 5
                  else goto_st 0)
            else if c \<ge> 35 then goto_st 5
            else goto_st 0)
      else if c > 46
      then (if c < 65
            then (if 48 \<le> c \<and> c \<le> 57 then goto_st 5
                  else goto_st 0)
            else if c > 90
            then (if 94 \<le> c \<and> c \<le> 122 then goto_st 5
                  else goto_st 0)
            else goto_st 5)
      else goto_st 5)"

definition client_st6 :: "int \<Rightarrow> client_action trans" where
  "client_st6 c =
     (if c = 33 \<or> c = 124 \<or> c = 126 then client_tr14
      else if c < 45
      then (if c > 39
            then (if 42 \<le> c \<and> c \<le> 43 then client_tr14
                  else goto_st 0)
            else if c \<ge> 35 then client_tr14
            else goto_st 0)
      else if c > 46
      then (if c < 65
            then (if 48 \<le> c \<and> c \<le> 57 then client_tr14
                  else goto_st 0)
            else if c > 90
            then (if 94 \<le> c \<and> c \<le> 122 then client_tr14
                  else goto_st 0)
            else client_tr14)
      else client_tr14)"

definition client_st7 :: "int \<Rightarrow> client_action trans" where
  "client_st7 c =
     (if c = 10 then client_tr15
      else if c = 13 then client_tr16
      else if c = 33 \<or> c = 124 \<or> c = 126 then goto_st 7
      else if c = 59 then client_tr18
      else if c < 45
      then (if c > 39
            then (if 42 \<le> c \<and> c \<le> 43 then goto_st 7
                  else goto_st 0)
            else if c \<ge> 35 then goto_st 7
            else goto_st 0)
      else if c > 46
      then (if c < 65
            then (if 48 \<le> c \<and> c \<le> 57 then goto_st 7
                  else goto_st 0)
            else if c > 90
            then (if 94 \<le> c \<and> c \<le> 122 then goto_st 7
                  else goto_st 0)
            else goto_st 7)
      else goto_st 7)"

definition client_st8 :: "int \<Rightarrow> client_action trans" where
  "client_st8 c =
     (if c = 84 then goto_st 9
      else goto_st 0)"

definition client_st9 :: "int \<Rightarrow> client_action trans" where
  "client_st9 c =
     (if c = 84 then goto_st 10
      else goto_st 0)"

definition client_st10 :: "int \<Rightarrow> client_action trans" where
  "client_st10 c =
     (if c = 80 then goto_st 11
      else goto_st 0)"

definition client_st11 :: "int \<Rightarrow> client_action trans" where
  "client_st11 c =
     (if c = 47 then goto_st 12
      else goto_st 0)"

definition client_st12 :: "int \<Rightarrow> client_action trans" where
  "client_st12 c =
     (if 48 \<le> c \<and> c \<le> 57 then goto_st 13
      else goto_st 0)"

definition client_st13 :: "int \<Rightarrow> client_action trans" where
  "client_st13 c =
     (if c = 46 then goto_st 14
      else if 48 \<le> c \<and> c \<le> 57 then goto_st 13
      else goto_st 0)"

definition client_st14 :: "int \<Rightarrow> client_action trans" where
  "client_st14 c =
     (if 48 \<le> c \<and> c \<le> 57 then goto_st 15
      else goto_st 0)"

definition client_st15 :: "int \<Rightarrow> client_action trans" where
  "client_st15 c =
     (if c = 32 then client_tr26
      else if 48 \<le> c \<and> c \<le> 57 then goto_st 15
      else goto_st 0)"

definition client_st16 :: "int \<Rightarrow> client_action trans" where
  "client_st16 c =
     (if 48 \<le> c \<and> c \<le> 57 then client_tr27
      else goto_st 0)"

definition client_st17 :: "int \<Rightarrow> client_action trans" where
  "client_st17 c =
     (if c = 32 then client_tr28
      else if 48 \<le> c \<and> c \<le> 57 then goto_st 17
      else goto_st 0)"

definition client_st18 :: "int \<Rightarrow> client_action trans" where
  "client_st18 c =
     (if c = 10 then goto_st 0
      else client_tr30)"

definition client_st19 :: "int \<Rightarrow> client_action trans" where
  "client_st19 c =
     (if c = 10 then client_tr32
      else if c = 13 then client_tr33
      else goto_st 19)"

definition client_st20 :: "int \<Rightarrow> client_action trans" where
  "client_st20 c =
     (if c = 10 then client_tr7
      else if c = 13 then goto_st 3
      else if c = 33 \<or> c = 124 \<or> c = 126 then client_tr35
      else if c = 67 \<or> c = 99 then client_tr36
      else if c = 84 \<or> c = 116 then client_tr37
      else if c < 45
      then (if c > 39
            then (if 42 \<le> c \<and> c \<le> 43 then client_tr35
                  else goto_st 0)
            else if c \<ge> 35 then client_tr35
            else goto_st 0)
      else if c > 46
      then (if c < 65
            then (if 48 \<le> c \<and> c \<le> 57 then client_tr35
                  else goto_st 0)
            else if c > 90
            then (if 94 \<le> c \<and> c \<le> 122 then client_tr35
                  else goto_st 0)
            else client_tr35)
      else client_tr35)"

definition client_st21 :: "int \<Rightarrow> client_action trans" where
  "client_st21 c =
     (if c = 33 \<or> c = 124 \<or> c = 126 then goto_st 21
      else if c = 58 then client_tr39
      else if c < 45
      then (if c > 39
            then (if 42 \<le> c \<and> c \<le> 43 then goto_st 21
                  else goto_st 0)
            else if c \<ge> 35 then goto_st 21
            else goto_st 0)
      else if c > 46
      then (if c < 65
            then (if 48 \<le> c \<and> c \<le> 57 then goto_st 21
                  else goto_st 0)
            else if c > 90
            then (if 94 \<le> c \<and> c \<le> 122 then goto_st 21
                  else goto_st 0)
            else goto_st 21)
      else goto_st 21)"

definition client_st22 :: "int \<Rightarrow> client_action trans" where
  "client_st22 c =
     (if c = 10 then client_tr42
      else if c = 13 then client_tr43
      else if c = 32 then client_tr41
      else if 9 \<le> c \<and> c \<le> 12 then client_tr41
      else client_tr40)"

definition client_st23 :: "int \<Rightarrow> client_action trans" where
  "client_st23 c =
     (if c = 10 then client_tr45
      else if c = 13 then client_tr46
      else goto_st 23)"

definition client_st24 :: "int \<Rightarrow> client_action trans" where
  "client_st24 c =
     (if c = 10 then goto_st 20
      else goto_st 0)"

definition client_st25 :: "int \<Rightarrow> client_action trans" where
  "client_st25 c =
     (if c = 33 \<or> c = 124 \<or> c = 126 then goto_st 21
      else if c = 58 then client_tr39
      else if c = 79 \<or> c = 111 then goto_st 26
      else if c < 45
      then (if c > 39
            then (if 42 \<le> c \<and> c \<le> 43 then goto_st 21
                  else goto_st 0)
            else if c \<ge> 35 then goto_st 21
            else goto_st 0)
      else if c > 46
      then (if c < 65
            then (if 48 \<le> c \<and> c \<le> 57 then goto_st 21
                  else goto_st 0)
            else if c > 90
            then (if 94 \<le> c \<and> c \<le> 122 then goto_st 21
                  else goto_st 0)
            else goto_st 21)
      else goto_st 21)"

definition client_st26 :: "int \<Rightarrow> client_action trans" where
  "client_st26 c =
     (if c = 33 \<or> c = 124 \<or> c = 126 then goto_st 21
      else if c = 58 then client_tr39
      else if c = 78 \<or> c = 110 then goto_st 27
      else if c < 45
      then (if c > 39
            then (if 42 \<le> c \<and> c \<le> 43 then goto_st 21
                  else goto_st 0)
            else if c \<ge> 35 then goto_st 21
            else goto_st 0)
      else if c > 46
      then (if c < 65
            then (if 48 \<le> c \<and> c \<le> 57 then goto_st 21
                  else goto_st 0)
            else if c > 90
            then (if 94 \<le> c \<and> c \<le> 122 then goto_st 21
                  else goto_st 0)
            else goto_st 21)
      else goto_st 21)"

definition client_st27 :: "int \<Rightarrow> client_action trans" where
  "client_st27 c =
     (if c = 33 \<or> c = 124 \<or> c = 126 then goto_st 21
      else if c = 58 then client_tr39
      else if c = 78 \<or> c = 110 then goto_st 28
      else if c = 84 \<or> c = 116 then goto_st 101
      else if c < 45
      then (if c > 39
            then (if 42 \<le> c \<and> c \<le> 43 then goto_st 21
                  else goto_st 0)
            else if c \<ge> 35 then goto_st 21
            else goto_st 0)
      else if c > 46
      then (if c < 65
            then (if 48 \<le> c \<and> c \<le> 57 then goto_st 21
                  else goto_st 0)
            else if c > 90
            then (if 94 \<le> c \<and> c \<le> 122 then goto_st 21
                  else goto_st 0)
            else goto_st 21)
      else goto_st 21)"

definition client_st28 :: "int \<Rightarrow> client_action trans" where
  "client_st28 c =
     (if c = 33 \<or> c = 124 \<or> c = 126 then goto_st 21
      else if c = 58 then client_tr39
      else if c = 69 \<or> c = 101 then goto_st 29
      else if c < 45
      then (if c > 39
            then (if 42 \<le> c \<and> c \<le> 43 then goto_st 21
                  else goto_st 0)
            else if c \<ge> 35 then goto_st 21
            else goto_st 0)
      else if c > 46
      then (if c < 65
            then (if 48 \<le> c \<and> c \<le> 57 then goto_st 21
                  else goto_st 0)
            else if c > 90
            then (if 94 \<le> c \<and> c \<le> 122 then goto_st 21
                  else goto_st 0)
            else goto_st 21)
      else goto_st 21)"

definition client_st29 :: "int \<Rightarrow> client_action trans" where
  "client_st29 c =
     (if c = 33 \<or> c = 124 \<or> c = 126 then goto_st 21
      else if c = 58 then client_tr39
      else if c = 67 \<or> c = 99 then goto_st 30
      else if c < 45
      then (if c > 39
            then (if 42 \<le> c \<and> c \<le> 43 then goto_st 21
                  else goto_st 0)
            else if c \<ge> 35 then goto_st 21
            else goto_st 0)
      else if c > 46
      then (if c < 65
            then (if 48 \<le> c \<and> c \<le> 57 then goto_st 21
                  else goto_st 0)
            else if c > 90
            then (if 94 \<le> c \<and> c \<le> 122 then goto_st 21
                  else goto_st 0)
            else goto_st 21)
      else goto_st 21)"

definition client_st30 :: "int \<Rightarrow> client_action trans" where
  "client_st30 c =
     (if c = 33 \<or> c = 124 \<or> c = 126 then goto_st 21
      else if c = 58 then client_tr39
      else if c = 84 \<or> c = 116 then goto_st 31
      else if c < 45
      then (if c > 39
            then (if 42 \<le> c \<and> c \<le> 43 then goto_st 21
                  else goto_st 0)
            else if c \<ge> 35 then goto_st 21
            else goto_st 0)
      else if c > 46
      then (if c < 65
            then (if 48 \<le> c \<and> c \<le> 57 then goto_st 21
                  else goto_st 0)
            else if c > 90
            then (if 94 \<le> c \<and> c \<le> 122 then goto_st 21
                  else goto_st 0)
            else goto_st 21)
      else goto_st 21)"

definition client_st31 :: "int \<Rightarrow> client_action trans" where
  "client_st31 c =
     (if c = 33 \<or> c = 124 \<or> c = 126 then goto_st 21
      else if c = 58 then client_tr39
      else if c = 73 \<or> c = 105 then goto_st 32
      else if c < 45
      then (if c > 39
            then (if 42 \<le> c \<and> c \<le> 43 then goto_st 21
                  else goto_st 0)
            else if c \<ge> 35 then goto_st 21
            else goto_st 0)
      else if c > 46
      then (if c < 65
            then (if 48 \<le> c \<and> c \<le> 57 then goto_st 21
                  else goto_st 0)
            else if c > 90
            then (if 94 \<le> c \<and> c \<le> 122 then goto_st 21
                  else goto_st 0)
            else goto_st 21)
      else goto_st 21)"

definition client_st32 :: "int \<Rightarrow> client_action trans" where
  "client_st32 c =
     (if c = 33 \<or> c = 124 \<or> c = 126 then goto_st 21
      else if c = 58 then client_tr39
      else if c = 79 \<or> c = 111 then goto_st 33
      else if c < 45
      then (if c > 39
            then (if 42 \<le> c \<and> c \<le> 43 then goto_st 21
                  else goto_st 0)
            else if c \<ge> 35 then goto_st 21
            else goto_st 0)
      else if c > 46
      then (if c < 65
            then (if 48 \<le> c \<and> c \<le> 57 then goto_st 21
                  else goto_st 0)
            else if c > 90
            then (if 94 \<le> c \<and> c \<le> 122 then goto_st 21
                  else goto_st 0)
            else goto_st 21)
      else goto_st 21)"

definition client_st33 :: "int \<Rightarrow> client_action trans" where
  "client_st33 c =
     (if c = 33 \<or> c = 124 \<or> c = 126 then goto_st 21
      else if c = 58 then client_tr39
      else if c = 78 \<or> c = 110 then goto_st 34
      else if c < 45
      then (if c > 39
            then (if 42 \<le> c \<and> c \<le> 43 then goto_st 21
                  else goto_st 0)
            else if c \<ge> 35 then goto_st 21
            else goto_st 0)
      else if c > 46
      then (if c < 65
            then (if 48 \<le> c \<and> c \<le> 57 then goto_st 21
                  else goto_st 0)
            else if c > 90
            then (if 94 \<le> c \<and> c \<le> 122 then goto_st 21
                  else goto_st 0)
            else goto_st 21)
      else goto_st 21)"

definition client_st34 :: "int \<Rightarrow> client_action trans" where
  "client_st34 c =
     (if c = 33 \<or> c = 124 \<or> c = 126 then goto_st 21
      else if c = 58 then client_tr58
      else if c < 45
      then (if c > 39
            then (if 42 \<le> c \<and> c \<le> 43 then goto_st 21
                  else goto_st 0)
            else if c \<ge> 35 then goto_st 21
            else goto_st 0)
      else if c > 46
      then (if c < 65
            then (if 48 \<le> c \<and> c \<le> 57 then goto_st 21
                  else goto_st 0)
            else if c > 90
            then (if 94 \<le> c \<and> c \<le> 122 then goto_st 21
                  else goto_st 0)
            else goto_st 21)
      else goto_st 21)"

definition client_st35 :: "int \<Rightarrow> client_action trans" where
  "client_st35 c =
     (if c = 10 then client_tr60
      else if c = 13 then client_tr61
      else if c = 32 then client_tr59
      else if c = 67 \<or> c = 99 then client_tr62
      else if 9 \<le> c \<and> c \<le> 12 then client_tr59
      else client_tr40)"

definition client_st36 :: "int \<Rightarrow> client_action trans" where
  "client_st36 c =
     (if c = 10 then client_tr64
      else if c = 13 then goto_st 89
      else if c = 32 then goto_st 37
      else if c = 33 \<or> c = 124 \<or> c = 126 then client_tr35
      else if c = 67 \<or> c = 99 then client_tr66
      else if c = 84 \<or> c = 116 then client_tr37
      else if c < 45
      then (if c < 35
            then (if 9 \<le> c \<and> c \<le> 12 then goto_st 37
                  else goto_st 0)
            else if c > 39
            then (if 42 \<le> c \<and> c \<le> 43 then client_tr35
                  else goto_st 0)
            else client_tr35)
      else if c > 46
      then (if c < 65
            then (if 48 \<le> c \<and> c \<le> 57 then client_tr35
                  else goto_st 0)
            else if c > 90
            then (if 94 \<le> c \<and> c \<le> 122 then client_tr35
                  else goto_st 0)
            else client_tr35)
      else client_tr35)"

definition client_st37 :: "int \<Rightarrow> client_action trans" where
  "client_st37 c =
     (if c = 32 then goto_st 37
      else if c = 67 \<or> c = 99 then goto_st 38
      else if 9 \<le> c \<and> c \<le> 13 then goto_st 37
      else goto_st 0)"

definition client_st38 :: "int \<Rightarrow> client_action trans" where
  "client_st38 c =
     (if c = 76 \<or> c = 108 then goto_st 39
      else goto_st 0)"

definition client_st39 :: "int \<Rightarrow> client_action trans" where
  "client_st39 c =
     (if c = 79 \<or> c = 111 then goto_st 40
      else goto_st 0)"

definition client_st40 :: "int \<Rightarrow> client_action trans" where
  "client_st40 c =
     (if c = 83 \<or> c = 115 then goto_st 41
      else goto_st 0)"

definition client_st41 :: "int \<Rightarrow> client_action trans" where
  "client_st41 c =
     (if c = 69 \<or> c = 101 then goto_st 42
      else goto_st 0)"

definition client_st42 :: "int \<Rightarrow> client_action trans" where
  "client_st42 c =
     (if c = 10 then goto_st 43
      else if c = 13 then goto_st 88
      else goto_st 0)"

definition client_st43 :: "int \<Rightarrow> client_action trans" where
  "client_st43 c =
     (if c = 10 then client_tr74
      else if c = 13 then client_tr75
      else if c = 33 \<or> c = 124 \<or> c = 126 then client_tr76
      else if c = 67 \<or> c = 99 then client_tr77
      else if c = 84 \<or> c = 116 then client_tr78
      else if c < 45
      then (if c > 39
            then (if 42 \<le> c \<and> c \<le> 43 then client_tr76
                  else goto_st 0)
            else if c \<ge> 35 then client_tr76
            else goto_st 0)
      else if c > 46
      then (if c < 65
            then (if 48 \<le> c \<and> c \<le> 57 then client_tr76
                  else goto_st 0)
            else if c > 90
            then (if 94 \<le> c \<and> c \<le> 122 then client_tr76
                  else goto_st 0)
            else client_tr76)
      else client_tr76)"

definition client_st44 :: "int \<Rightarrow> client_action trans" where
  "client_st44 c =
     (if c = 33 \<or> c = 124 \<or> c = 126 then goto_st 21
      else if c = 58 then client_tr39
      else if c = 82 \<or> c = 114 then goto_st 45
      else if c < 45
      then (if c > 39
            then (if 42 \<le> c \<and> c \<le> 43 then goto_st 21
                  else goto_st 0)
            else if c \<ge> 35 then goto_st 21
            else goto_st 0)
      else if c > 46
      then (if c < 65
            then (if 48 \<le> c \<and> c \<le> 57 then goto_st 21
                  else goto_st 0)
            else if c > 90
            then (if 94 \<le> c \<and> c \<le> 122 then goto_st 21
                  else goto_st 0)
            else goto_st 21)
      else goto_st 21)"

definition client_st45 :: "int \<Rightarrow> client_action trans" where
  "client_st45 c =
     (if c = 33 \<or> c = 124 \<or> c = 126 then goto_st 21
      else if c = 58 then client_tr39
      else if c = 65 \<or> c = 97 then goto_st 46
      else if c < 45
      then (if c > 39
            then (if 42 \<le> c \<and> c \<le> 43 then goto_st 21
                  else goto_st 0)
            else if c \<ge> 35 then goto_st 21
            else goto_st 0)
      else if c > 46
      then (if c < 66
            then (if 48 \<le> c \<and> c \<le> 57 then goto_st 21
                  else goto_st 0)
            else if c > 90
            then (if 94 \<le> c \<and> c \<le> 122 then goto_st 21
                  else goto_st 0)
            else goto_st 21)
      else goto_st 21)"

definition client_st46 :: "int \<Rightarrow> client_action trans" where
  "client_st46 c =
     (if c = 33 \<or> c = 124 \<or> c = 126 then goto_st 21
      else if c = 58 then client_tr39
      else if c = 78 \<or> c = 110 then goto_st 47
      else if c < 45
      then (if c > 39
            then (if 42 \<le> c \<and> c \<le> 43 then goto_st 21
                  else goto_st 0)
            else if c \<ge> 35 then goto_st 21
            else goto_st 0)
      else if c > 46
      then (if c < 65
            then (if 48 \<le> c \<and> c \<le> 57 then goto_st 21
                  else goto_st 0)
            else if c > 90
            then (if 94 \<le> c \<and> c \<le> 122 then goto_st 21
                  else goto_st 0)
            else goto_st 21)
      else goto_st 21)"

definition client_st47 :: "int \<Rightarrow> client_action trans" where
  "client_st47 c =
     (if c = 33 \<or> c = 124 \<or> c = 126 then goto_st 21
      else if c = 58 then client_tr39
      else if c = 83 \<or> c = 115 then goto_st 48
      else if c < 45
      then (if c > 39
            then (if 42 \<le> c \<and> c \<le> 43 then goto_st 21
                  else goto_st 0)
            else if c \<ge> 35 then goto_st 21
            else goto_st 0)
      else if c > 46
      then (if c < 65
            then (if 48 \<le> c \<and> c \<le> 57 then goto_st 21
                  else goto_st 0)
            else if c > 90
            then (if 94 \<le> c \<and> c \<le> 122 then goto_st 21
                  else goto_st 0)
            else goto_st 21)
      else goto_st 21)"

definition client_st48 :: "int \<Rightarrow> client_action trans" where
  "client_st48 c =
     (if c = 33 \<or> c = 124 \<or> c = 126 then goto_st 21
      else if c = 58 then client_tr39
      else if c = 70 \<or> c = 102 then goto_st 49
      else if c < 45
      then (if c > 39
            then (if 42 \<le> c \<and> c \<le> 43 then goto_st 21
                  else goto_st 0)
            else if c \<ge> 35 then goto_st 21
            else goto_st 0)
      else if c > 46
      then (if c < 65
            then (if 48 \<le> c \<and> c \<le> 57 then goto_st 21
                  else goto_st 0)
            else if c > 90
            then (if 94 \<le> c \<and> c \<le> 122 then goto_st 21
                  else goto_st 0)
            else goto_st 21)
      else goto_st 21)"

definition client_st49 :: "int \<Rightarrow> client_action trans" where
  "client_st49 c =
     (if c = 33 \<or> c = 124 \<or> c = 126 then goto_st 21
      else if c = 58 then client_tr39
      else if c = 69 \<or> c = 101 then goto_st 50
      else if c < 45
      then (if c > 39
            then (if 42 \<le> c \<and> c \<le> 43 then goto_st 21
                  else goto_st 0)
            else if c \<ge> 35 then goto_st 21
            else goto_st 0)
      else if c > 46
      then (if c < 65
            then (if 48 \<le> c \<and> c \<le> 57 then goto_st 21
                  else goto_st 0)
            else if c > 90
            then (if 94 \<le> c \<and> c \<le> 122 then goto_st 21
                  else goto_st 0)
            else goto_st 21)
      else goto_st 21)"

definition client_st50 :: "int \<Rightarrow> client_action trans" where
  "client_st50 c =
     (if c = 33 \<or> c = 124 \<or> c = 126 then goto_st 21
      else if c = 58 then client_tr39
      else if c = 82 \<or> c = 114 then goto_st 51
      else if c < 45
      then (if c > 39
            then (if 42 \<le> c \<and> c \<le> 43 then goto_st 21
                  else goto_st 0)
            else if c \<ge> 35 then goto_st 21
            else goto_st 0)
      else if c > 46
      then (if c < 65
            then (if 48 \<le> c \<and> c \<le> 57 then goto_st 21
                  else goto_st 0)
            else if c > 90
            then (if 94 \<le> c \<and> c \<le> 122 then goto_st 21
                  else goto_st 0)
            else goto_st 21)
      else goto_st 21)"

definition client_st51 :: "int \<Rightarrow> client_action trans" where
  "client_st51 c =
     (if c = 33 \<or> c = 46 \<or> c = 124 \<or> c = 126 then goto_st 21
      else if c = 45 then goto_st 52
      else if c = 58 then client_tr39
      else if c < 48
      then (if c > 39
            then (if 42 \<le> c \<and> c \<le> 43 then goto_st 21
                  else goto_st 0)
            else if c \<ge> 35 then goto_st 21
            else goto_st 0)
      else if c > 57
      then (if c > 90
            then (if 94 \<le> c \<and> c \<le> 122 then goto_st 21
                  else goto_st 0)
            else if c \<ge> 65 then goto_st 21
            else goto_st 0)
      else goto_st 21)"

definition client_st52 :: "int \<Rightarrow> client_action trans" where
  "client_st52 c =
     (if c = 33 \<or> c = 124 \<or> c = 126 then goto_st 21
      else if c = 58 then client_tr39
      else if c = 69 \<or> c = 101 then goto_st 53
      else if c < 45
      then (if c > 39
            then (if 42 \<le> c \<and> c \<le> 43 then goto_st 21
                  else goto_st 0)
            else if c \<ge> 35 then goto_st 21
            else goto_st 0)
      else if c > 46
      then (if c < 65
            then (if 48 \<le> c \<and> c \<le> 57 then goto_st 21
                  else goto_st 0)
            else if c > 90
            then (if 94 \<le> c \<and> c \<le> 122 then goto_st 21
                  else goto_st 0)
            else goto_st 21)
      else goto_st 21)"

definition client_st53 :: "int \<Rightarrow> client_action trans" where
  "client_st53 c =
     (if c = 33 \<or> c = 124 \<or> c = 126 then goto_st 21
      else if c = 58 then client_tr39
      else if c = 78 \<or> c = 110 then goto_st 54
      else if c < 45
      then (if c > 39
            then (if 42 \<le> c \<and> c \<le> 43 then goto_st 21
                  else goto_st 0)
            else if c \<ge> 35 then goto_st 21
            else goto_st 0)
      else if c > 46
      then (if c < 65
            then (if 48 \<le> c \<and> c \<le> 57 then goto_st 21
                  else goto_st 0)
            else if c > 90
            then (if 94 \<le> c \<and> c \<le> 122 then goto_st 21
                  else goto_st 0)
            else goto_st 21)
      else goto_st 21)"

definition client_st54 :: "int \<Rightarrow> client_action trans" where
  "client_st54 c =
     (if c = 33 \<or> c = 124 \<or> c = 126 then goto_st 21
      else if c = 58 then client_tr39
      else if c = 67 \<or> c = 99 then goto_st 55
      else if c < 45
      then (if c > 39
            then (if 42 \<le> c \<and> c \<le> 43 then goto_st 21
                  else goto_st 0)
            else if c \<ge> 35 then goto_st 21
            else goto_st 0)
      else if c > 46
      then (if c < 65
            then (if 48 \<le> c \<and> c \<le> 57 then goto_st 21
                  else goto_st 0)
            else if c > 90
            then (if 94 \<le> c \<and> c \<le> 122 then goto_st 21
                  else goto_st 0)
            else goto_st 21)
      else goto_st 21)"

definition client_st55 :: "int \<Rightarrow> client_action trans" where
  "client_st55 c =
     (if c = 33 \<or> c = 124 \<or> c = 126 then goto_st 21
      else if c = 58 then client_tr39
      else if c = 79 \<or> c = 111 then goto_st 56
      else if c < 45
      then (if c > 39
            then (if 42 \<le> c \<and> c \<le> 43 then goto_st 21
                  else goto_st 0)
            else if c \<ge> 35 then goto_st 21
            else goto_st 0)
      else if c > 46
      then (if c < 65
            then (if 48 \<le> c \<and> c \<le> 57 then goto_st 21
                  else goto_st 0)
            else if c > 90
            then (if 94 \<le> c \<and> c \<le> 122 then goto_st 21
                  else goto_st 0)
            else goto_st 21)
      else goto_st 21)"

definition client_st56 :: "int \<Rightarrow> client_action trans" where
  "client_st56 c =
     (if c = 33 \<or> c = 124 \<or> c = 126 then goto_st 21
      else if c = 58 then client_tr39
      else if c = 68 \<or> c = 100 then goto_st 57
      else if c < 45
      then (if c > 39
            then (if 42 \<le> c \<and> c \<le> 43 then goto_st 21
                  else goto_st 0)
            else if c \<ge> 35 then goto_st 21
            else goto_st 0)
      else if c > 46
      then (if c < 65
            then (if 48 \<le> c \<and> c \<le> 57 then goto_st 21
                  else goto_st 0)
            else if c > 90
            then (if 94 \<le> c \<and> c \<le> 122 then goto_st 21
                  else goto_st 0)
            else goto_st 21)
      else goto_st 21)"

definition client_st57 :: "int \<Rightarrow> client_action trans" where
  "client_st57 c =
     (if c = 33 \<or> c = 124 \<or> c = 126 then goto_st 21
      else if c = 58 then client_tr39
      else if c = 73 \<or> c = 105 then goto_st 58
      else if c < 45
      then (if c > 39
            then (if 42 \<le> c \<and> c \<le> 43 then goto_st 21
                  else goto_st 0)
            else if c \<ge> 35 then goto_st 21
            else goto_st 0)
      else if c > 46
      then (if c < 65
            then (if 48 \<le> c \<and> c \<le> 57 then goto_st 21
                  else goto_st 0)
            else if c > 90
            then (if 94 \<le> c \<and> c \<le> 122 then goto_st 21
                  else goto_st 0)
            else goto_st 21)
      else goto_st 21)"

definition client_st58 :: "int \<Rightarrow> client_action trans" where
  "client_st58 c =
     (if c = 33 \<or> c = 124 \<or> c = 126 then goto_st 21
      else if c = 58 then client_tr39
      else if c = 78 \<or> c = 110 then goto_st 59
      else if c < 45
      then (if c > 39
            then (if 42 \<le> c \<and> c \<le> 43 then goto_st 21
                  else goto_st 0)
            else if c \<ge> 35 then goto_st 21
            else goto_st 0)
      else if c > 46
      then (if c < 65
            then (if 48 \<le> c \<and> c \<le> 57 then goto_st 21
                  else goto_st 0)
            else if c > 90
            then (if 94 \<le> c \<and> c \<le> 122 then goto_st 21
                  else goto_st 0)
            else goto_st 21)
      else goto_st 21)"

definition client_st59 :: "int \<Rightarrow> client_action trans" where
  "client_st59 c =
     (if c = 33 \<or> c = 124 \<or> c = 126 then goto_st 21
      else if c = 58 then client_tr39
      else if c = 71 \<or> c = 103 then goto_st 60
      else if c < 45
      then (if c > 39
            then (if 42 \<le> c \<and> c \<le> 43 then goto_st 21
                  else goto_st 0)
            else if c \<ge> 35 then goto_st 21
            else goto_st 0)
      else if c > 46
      then (if c < 65
            then (if 48 \<le> c \<and> c \<le> 57 then goto_st 21
                  else goto_st 0)
            else if c > 90
            then (if 94 \<le> c \<and> c \<le> 122 then goto_st 21
                  else goto_st 0)
            else goto_st 21)
      else goto_st 21)"

definition client_st60 :: "int \<Rightarrow> client_action trans" where
  "client_st60 c =
     (if c = 33 \<or> c = 124 \<or> c = 126 then goto_st 21
      else if c = 58 then client_tr95
      else if c < 45
      then (if c > 39
            then (if 42 \<le> c \<and> c \<le> 43 then goto_st 21
                  else goto_st 0)
            else if c \<ge> 35 then goto_st 21
            else goto_st 0)
      else if c > 46
      then (if c < 65
            then (if 48 \<le> c \<and> c \<le> 57 then goto_st 21
                  else goto_st 0)
            else if c > 90
            then (if 94 \<le> c \<and> c \<le> 122 then goto_st 21
                  else goto_st 0)
            else goto_st 21)
      else goto_st 21)"

definition client_st61 :: "int \<Rightarrow> client_action trans" where
  "client_st61 c =
     (if c = 10 then client_tr97
      else if c = 13 then client_tr98
      else if c = 32 then client_tr96
      else if c = 67 \<or> c = 99 then client_tr99
      else if 9 \<le> c \<and> c \<le> 12 then client_tr96
      else client_tr40)"

definition client_st62 :: "int \<Rightarrow> client_action trans" where
  "client_st62 c =
     (if c = 10 then client_tr101
      else if c = 13 then goto_st 72
      else if c = 32 then goto_st 63
      else if c = 33 \<or> c = 124 \<or> c = 126 then client_tr35
      else if c = 67 \<or> c = 99 then client_tr103
      else if c = 84 \<or> c = 116 then client_tr37
      else if c < 45
      then (if c < 35
            then (if 9 \<le> c \<and> c \<le> 12 then goto_st 63
                  else goto_st 0)
            else if c > 39
            then (if 42 \<le> c \<and> c \<le> 43 then client_tr35
                  else goto_st 0)
            else client_tr35)
      else if c > 46
      then (if c < 65
            then (if 48 \<le> c \<and> c \<le> 57 then client_tr35
                  else goto_st 0)
            else if c > 90
            then (if 94 \<le> c \<and> c \<le> 122 then client_tr35
                  else goto_st 0)
            else client_tr35)
      else client_tr35)"

definition client_st63 :: "int \<Rightarrow> client_action trans" where
  "client_st63 c =
     (if c = 32 then goto_st 63
      else if c = 67 \<or> c = 99 then client_tr104
      else if 9 \<le> c \<and> c \<le> 13 then goto_st 63
      else goto_st 0)"

definition client_st64 :: "int \<Rightarrow> client_action trans" where
  "client_st64 c =
     (if c = 72 \<or> c = 104 then goto_st 65
      else goto_st 0)"

definition client_st65 :: "int \<Rightarrow> client_action trans" where
  "client_st65 c =
     (if c = 85 \<or> c = 117 then goto_st 66
      else goto_st 0)"

definition client_st66 :: "int \<Rightarrow> client_action trans" where
  "client_st66 c =
     (if c = 78 \<or> c = 110 then goto_st 67
      else goto_st 0)"

definition client_st67 :: "int \<Rightarrow> client_action trans" where
  "client_st67 c =
     (if c = 75 \<or> c = 107 then goto_st 68
      else goto_st 0)"

definition client_st68 :: "int \<Rightarrow> client_action trans" where
  "client_st68 c =
     (if c = 69 \<or> c = 101 then goto_st 69
      else goto_st 0)"

definition client_st69 :: "int \<Rightarrow> client_action trans" where
  "client_st69 c =
     (if c = 68 \<or> c = 100 then goto_st 70
      else goto_st 0)"

definition client_st70 :: "int \<Rightarrow> client_action trans" where
  "client_st70 c =
     (if c = 10 then client_tr111
      else if c = 13 then client_tr112
      else goto_st 0)"

definition client_st71 :: "int \<Rightarrow> client_action trans" where
  "client_st71 c =
     (if c = 10 then client_tr113
      else goto_st 0)"

definition client_st121 :: "int \<Rightarrow> client_action trans" where
  "client_st121 c =
     (if c = 32 then goto_st 63
      else if c = 67 \<or> c = 99 then client_tr104
      else if 9 \<le> c \<and> c \<le> 13 then goto_st 63
      else goto_st 0)"

definition client_st72 :: "int \<Rightarrow> client_action trans" where
  "client_st72 c =
     (if c = 10 then client_tr101
      else if c = 32 then goto_st 63
      else if c = 67 \<or> c = 99 then client_tr104
      else if 9 \<le> c \<and> c \<le> 13 then goto_st 63
      else goto_st 0)"

definition client_st73 :: "int \<Rightarrow> client_action trans" where
  "client_st73 c =
     (if c = 33 \<or> c = 124 \<or> c = 126 then goto_st 21
      else if c = 58 then client_tr39
      else if c = 72 \<or> c = 104 then goto_st 74
      else if c = 79 \<or> c = 111 then goto_st 26
      else if c < 45
      then (if c > 39
            then (if 42 \<le> c \<and> c \<le> 43 then goto_st 21
                  else goto_st 0)
            else if c \<ge> 35 then goto_st 21
            else goto_st 0)
      else if c > 46
      then (if c < 65
            then (if 48 \<le> c \<and> c \<le> 57 then goto_st 21
                  else goto_st 0)
            else if c > 90
            then (if 94 \<le> c \<and> c \<le> 122 then goto_st 21
                  else goto_st 0)
            else goto_st 21)
      else goto_st 21)"

definition client_st74 :: "int \<Rightarrow> client_action trans" where
  "client_st74 c =
     (if c = 33 \<or> c = 124 \<or> c = 126 then goto_st 21
      else if c = 58 then client_tr39
      else if c = 85 \<or> c = 117 then goto_st 75
      else if c < 45
      then (if c > 39
            then (if 42 \<le> c \<and> c \<le> 43 then goto_st 21
                  else goto_st 0)
            else if c \<ge> 35 then goto_st 21
            else goto_st 0)
      else if c > 46
      then (if c < 65
            then (if 48 \<le> c \<and> c \<le> 57 then goto_st 21
                  else goto_st 0)
            else if c > 90
            then (if 94 \<le> c \<and> c \<le> 122 then goto_st 21
                  else goto_st 0)
            else goto_st 21)
      else goto_st 21)"

definition client_st75 :: "int \<Rightarrow> client_action trans" where
  "client_st75 c =
     (if c = 33 \<or> c = 124 \<or> c = 126 then goto_st 21
      else if c = 58 then client_tr39
      else if c = 78 \<or> c = 110 then goto_st 76
      else if c < 45
      then (if c > 39
            then (if 42 \<le> c \<and> c \<le> 43 then goto_st 21
                  else goto_st 0)
            else if c \<ge> 35 then goto_st 21
            else goto_st 0)
      else if c > 46
      then (if c < 65
            then (if 48 \<le> c \<and> c \<le> 57 then goto_st 21
                  else goto_st 0)
            else if c > 90
            then (if 94 \<le> c \<and> c \<le> 122 then goto_st 21
                  else goto_st 0)
            else goto_st 21)
      else goto_st 21)"

definition client_st76 :: "int \<Rightarrow> client_action trans" where
  "client_st76 c =
     (if c = 33 \<or> c = 124 \<or> c = 126 then goto_st 21
      else if c = 58 then client_tr39
      else if c = 75 \<or> c = 107 then goto_st 77
      else if c < 45
      then (if c > 39
            then (if 42 \<le> c \<and> c \<le> 43 then goto_st 21
                  else goto_st 0)
            else if c \<ge> 35 then goto_st 21
            else goto_st 0)
      else if c > 46
      then (if c < 65
            then (if 48 \<le> c \<and> c \<le> 57 then goto_st 21
                  else goto_st 0)
            else if c > 90
            then (if 94 \<le> c \<and> c \<le> 122 then goto_st 21
                  else goto_st 0)
            else goto_st 21)
      else goto_st 21)"

definition client_st77 :: "int \<Rightarrow> client_action trans" where
  "client_st77 c =
     (if c = 33 \<or> c = 124 \<or> c = 126 then goto_st 21
      else if c = 58 then client_tr39
      else if c = 69 \<or> c = 101 then goto_st 78
      else if c < 45
      then (if c > 39
            then (if 42 \<le> c \<and> c \<le> 43 then goto_st 21
                  else goto_st 0)
            else if c \<ge> 35 then goto_st 21
            else goto_st 0)
      else if c > 46
      then (if c < 65
            then (if 48 \<le> c \<and> c \<le> 57 then goto_st 21
                  else goto_st 0)
            else if c > 90
            then (if 94 \<le> c \<and> c \<le> 122 then goto_st 21
                  else goto_st 0)
            else goto_st 21)
      else goto_st 21)"

definition client_st78 :: "int \<Rightarrow> client_action trans" where
  "client_st78 c =
     (if c = 33 \<or> c = 124 \<or> c = 126 then goto_st 21
      else if c = 58 then client_tr39
      else if c = 68 \<or> c = 100 then goto_st 79
      else if c < 45
      then (if c > 39
            then (if 42 \<le> c \<and> c \<le> 43 then goto_st 21
                  else goto_st 0)
            else if c \<ge> 35 then goto_st 21
            else goto_st 0)
      else if c > 46
      then (if c < 65
            then (if 48 \<le> c \<and> c \<le> 57 then goto_st 21
                  else goto_st 0)
            else if c > 90
            then (if 94 \<le> c \<and> c \<le> 122 then goto_st 21
                  else goto_st 0)
            else goto_st 21)
      else goto_st 21)"

definition client_st79 :: "int \<Rightarrow> client_action trans" where
  "client_st79 c =
     (if c = 10 then client_tr111
      else if c = 13 then client_tr112
      else if c = 33 \<or> c = 124 \<or> c = 126 then goto_st 21
      else if c = 58 then client_tr39
      else if c < 45
      then (if c > 39
            then (if 42 \<le> c \<and> c \<le> 43 then goto_st 21
                  else goto_st 0)
            else if c \<ge> 35 then goto_st 21
            else goto_st 0)
      else if c > 46
      then (if c < 65
            then (if 48 \<le> c \<and> c \<le> 57 then goto_st 21
                  else goto_st 0)
            else if c > 90
            then (if 94 \<le> c \<and> c \<le> 122 then goto_st 21
                  else goto_st 0)
            else goto_st 21)
      else goto_st 21)"

definition client_st80 :: "int \<Rightarrow> client_action trans" where
  "client_st80 c =
     (if c = 10 then goto_st 62
      else if c = 32 then goto_st 63
      else if c = 67 \<or> c = 99 then client_tr104
      else if 9 \<le> c \<and> c \<le> 13 then goto_st 63
      else goto_st 0)"

definition client_st81 :: "int \<Rightarrow> client_action trans" where
  "client_st81 c =
     (if c = 10 then client_tr45
      else if c = 13 then client_tr46
      else if c = 72 \<or> c = 104 then goto_st 82
      else goto_st 23)"

definition client_st82 :: "int \<Rightarrow> client_action trans" where
  "client_st82 c =
     (if c = 10 then client_tr45
      else if c = 13 then client_tr46
      else if c = 85 \<or> c = 117 then goto_st 83
      else goto_st 23)"

definition client_st83 :: "int \<Rightarrow> client_action trans" where
  "client_st83 c =
     (if c = 10 then client_tr45
      else if c = 13 then client_tr46
      else if c = 78 \<or> c = 110 then goto_st 84
      else goto_st 23)"

definition client_st84 :: "int \<Rightarrow> client_action trans" where
  "client_st84 c =
     (if c = 10 then client_tr45
      else if c = 13 then client_tr46
      else if c = 75 \<or> c = 107 then goto_st 85
      else goto_st 23)"

definition client_st85 :: "int \<Rightarrow> client_action trans" where
  "client_st85 c =
     (if c = 10 then client_tr45
      else if c = 13 then client_tr46
      else if c = 69 \<or> c = 101 then goto_st 86
      else goto_st 23)"

definition client_st86 :: "int \<Rightarrow> client_action trans" where
  "client_st86 c =
     (if c = 10 then client_tr45
      else if c = 13 then client_tr46
      else if c = 68 \<or> c = 100 then goto_st 87
      else goto_st 23)"

definition client_st87 :: "int \<Rightarrow> client_action trans" where
  "client_st87 c =
     (if c = 10 then client_tr111
      else if c = 13 then client_tr112
      else goto_st 23)"

definition client_st88 :: "int \<Rightarrow> client_action trans" where
  "client_st88 c =
     (if c = 10 then goto_st 43
      else goto_st 0)"

definition client_st122 :: "int \<Rightarrow> client_action trans" where
  "client_st122 c =
     (if c = 32 then goto_st 37
      else if c = 67 \<or> c = 99 then goto_st 38
      else if 9 \<le> c \<and> c \<le> 13 then goto_st 37
      else goto_st 0)"

definition client_st89 :: "int \<Rightarrow> client_action trans" where
  "client_st89 c =
     (if c = 10 then client_tr64
      else if c = 32 then goto_st 37
      else if c = 67 \<or> c = 99 then goto_st 38
      else if 9 \<le> c \<and> c \<le> 13 then goto_st 37
      else goto_st 0)"

definition client_st90 :: "int \<Rightarrow> client_action trans" where
  "client_st90 c =
     (if c = 33 \<or> c = 124 \<or> c = 126 then goto_st 21
      else if c = 58 then client_tr39
      else if c = 76 \<or> c = 108 then goto_st 91
      else if c = 79 \<or> c = 111 then goto_st 26
      else if c < 45
      then (if c > 39
            then (if 42 \<le> c \<and> c \<le> 43 then goto_st 21
                  else goto_st 0)
            else if c \<ge> 35 then goto_st 21
            else goto_st 0)
      else if c > 46
      then (if c < 65
            then (if 48 \<le> c \<and> c \<le> 57 then goto_st 21
                  else goto_st 0)
            else if c > 90
            then (if 94 \<le> c \<and> c \<le> 122 then goto_st 21
                  else goto_st 0)
            else goto_st 21)
      else goto_st 21)"

definition client_st91 :: "int \<Rightarrow> client_action trans" where
  "client_st91 c =
     (if c = 33 \<or> c = 124 \<or> c = 126 then goto_st 21
      else if c = 58 then client_tr39
      else if c = 79 \<or> c = 111 then goto_st 92
      else if c < 45
      then (if c > 39
            then (if 42 \<le> c \<and> c \<le> 43 then goto_st 21
                  else goto_st 0)
            else if c \<ge> 35 then goto_st 21
            else goto_st 0)
      else if c > 46
      then (if c < 65
            then (if 48 \<le> c \<and> c \<le> 57 then goto_st 21
                  else goto_st 0)
            else if c > 90
            then (if 94 \<le> c \<and> c \<le> 122 then goto_st 21
                  else goto_st 0)
            else goto_st 21)
      else goto_st 21)"

definition client_st92 :: "int \<Rightarrow> client_action trans" where
  "client_st92 c =
     (if c = 33 \<or> c = 124 \<or> c = 126 then goto_st 21
      else if c = 58 then client_tr39
      else if c = 83 \<or> c = 115 then goto_st 93
      else if c < 45
      then (if c > 39
            then (if 42 \<le> c \<and> c \<le> 43 then goto_st 21
                  else goto_st 0)
            else if c \<ge> 35 then goto_st 21
            else goto_st 0)
      else if c > 46
      then (if c < 65
            then (if 48 \<le> c \<and> c \<le> 57 then goto_st 21
                  else goto_st 0)
            else if c > 90
            then (if 94 \<le> c \<and> c \<le> 122 then goto_st 21
                  else goto_st 0)
            else goto_st 21)
      else goto_st 21)"

definition client_st93 :: "int \<Rightarrow> client_action trans" where
  "client_st93 c =
     (if c = 33 \<or> c = 124 \<or> c = 126 then goto_st 21
      else if c = 58 then client_tr39
      else if c = 69 \<or> c = 101 then goto_st 94
      else if c < 45
      then (if c > 39
            then (if 42 \<le> c \<and> c \<le> 43 then goto_st 21
                  else goto_st 0)
            else if c \<ge> 35 then goto_st 21
            else goto_st 0)
      else if c > 46
      then (if c < 65
            then (if 48 \<le> c \<and> c \<le> 57 then goto_st 21
                  else goto_st 0)
            else if c > 90
            then (if 94 \<le> c \<and> c \<le> 122 then goto_st 21
                  else goto_st 0)
            else goto_st 21)
      else goto_st 21)"

definition client_st94 :: "int \<Rightarrow> client_action trans" where
  "client_st94 c =
     (if c = 10 then goto_st 43
      else if c = 13 then goto_st 88
      else if c = 33 \<or> c = 124 \<or> c = 126 then goto_st 21
      else if c = 58 then client_tr39
      else if c < 45
      then (if c > 39
            then (if 42 \<le> c \<and> c \<le> 43 then goto_st 21
                  else goto_st 0)
            else if c \<ge> 35 then goto_st 21
            else goto_st 0)
      else if c > 46
      then (if c < 65
            then (if 48 \<le> c \<and> c \<le> 57 then goto_st 21
                  else goto_st 0)
            else if c > 90
            then (if 94 \<le> c \<and> c \<le> 122 then goto_st 21
                  else goto_st 0)
            else goto_st 21)
      else goto_st 21)"

definition client_st95 :: "int \<Rightarrow> client_action trans" where
  "client_st95 c =
     (if c = 10 then goto_st 36
      else if c = 32 then goto_st 37
      else if c = 67 \<or> c = 99 then goto_st 38
      else if 9 \<le> c \<and> c \<le> 13 then goto_st 37
      else goto_st 0)"

definition client_st96 :: "int \<Rightarrow> client_action trans" where
  "client_st96 c =
     (if c = 10 then client_tr45
      else if c = 13 then client_tr46
      else if c = 76 \<or> c = 108 then goto_st 97
      else goto_st 23)"

definition client_st97 :: "int \<Rightarrow> client_action trans" where
  "client_st97 c =
     (if c = 10 then client_tr45
      else if c = 13 then client_tr46
      else if c = 79 \<or> c = 111 then goto_st 98
      else goto_st 23)"

definition client_st98 :: "int \<Rightarrow> client_action trans" where
  "client_st98 c =
     (if c = 10 then client_tr45
      else if c = 13 then client_tr46
      else if c = 83 \<or> c = 115 then goto_st 99
      else goto_st 23)"

definition client_st99 :: "int \<Rightarrow> client_action trans" where
  "client_st99 c =
     (if c = 10 then client_tr45
      else if c = 13 then client_tr46
      else if c = 69 \<or> c = 101 then goto_st 100
      else goto_st 23)"

definition client_st100 :: "int \<Rightarrow> client_action trans" where
  "client_st100 c =
     (if c = 10 then client_tr136
      else if c = 13 then client_tr137
      else goto_st 23)"

definition client_st101 :: "int \<Rightarrow> client_action trans" where
  "client_st101 c =
     (if c = 33 \<or> c = 124 \<or> c = 126 then goto_st 21
      else if c = 58 then client_tr39
      else if c = 69 \<or> c = 101 then goto_st 102
      else if c < 45
      then (if c > 39
            then (if 42 \<le> c \<and> c \<le> 43 then goto_st 21
                  else goto_st 0)
            else if c \<ge> 35 then goto_st 21
            else goto_st 0)
      else if c > 46
      then (if c < 65
            then (if 48 \<le> c \<and> c \<le> 57 then goto_st 21
                  else goto_st 0)
            else if c > 90
            then (if 94 \<le> c \<and> c \<le> 122 then goto_st 21
                  else goto_st 0)
            else goto_st 21)
      else goto_st 21)"

definition client_st102 :: "int \<Rightarrow> client_action trans" where
  "client_st102 c =
     (if c = 33 \<or> c = 124 \<or> c = 126 then goto_st 21
      else if c = 58 then client_tr39
      else if c = 78 \<or> c = 110 then goto_st 103
      else if c < 45
      then (if c > 39
            then (if 42 \<le> c \<and> c \<le> 43 then goto_st 21
                  else goto_st 0)
            else if c \<ge> 35 then goto_st 21
            else goto_st 0)
      else if c > 46
      then (if c < 65
            then (if 48 \<le> c \<and> c \<le> 57 then goto_st 21
                  else goto_st 0)
            else if c > 90
            then (if 94 \<le> c \<and> c \<le> 122 then goto_st 21
                  else goto_st 0)
            else goto_st 21)
      else goto_st 21)"

definition client_st103 :: "int \<Rightarrow> client_action trans" where
  "client_st103 c =
     (if c = 33 \<or> c = 124 \<or> c = 126 then goto_st 21
      else if c = 58 then client_tr39
      else if c = 84 \<or> c = 116 then goto_st 104
      else if c < 45
      then (if c > 39
            then (if 42 \<le> c \<and> c \<le> 43 then goto_st 21
                  else goto_st 0)
            else if c \<ge> 35 then goto_st 21
            else goto_st 0)
      else if c > 46
      then (if c < 65
            then (if 48 \<le> c \<and> c \<le> 57 then goto_st 21
                  else goto_st 0)
            else if c > 90
            then (if 94 \<le> c \<and> c \<le> 122 then goto_st 21
                  else goto_st 0)
            else goto_st 21)
      else goto_st 21)"

definition client_st104 :: "int \<Rightarrow> client_action trans" where
  "client_st104 c =
     (if c = 33 \<or> c = 46 \<or> c = 124 \<or> c = 126 then goto_st 21
      else if c = 45 then goto_st 105
      else if c = 58 then client_tr39
      else if c < 48
      then (if c > 39
            then (if 42 \<le> c \<and> c \<le> 43 then goto_st 21
                  else goto_st 0)
            else if c \<ge> 35 then goto_st 21
            else goto_st 0)
      else if c > 57
      then (if c > 90
            then (if 94 \<le> c \<and> c \<le> 122 then goto_st 21
                  else goto_st 0)
            else if c \<ge> 65 then goto_st 21
            else goto_st 0)
      else goto_st 21)"

definition client_st105 :: "int \<Rightarrow> client_action trans" where
  "client_st105 c =
     (if c = 33 \<or> c = 124 \<or> c = 126 then goto_st 21
      else if c = 58 then client_tr39
      else if c = 76 \<or> c = 108 then goto_st 106
      else if c < 45
      then (if c > 39
            then (if 42 \<le> c \<and> c \<le> 43 then goto_st 21
                  else goto_st 0)
            else if c \<ge> 35 then goto_st 21
            else goto_st 0)
      else if c > 46
      then (if c < 65
            then (if 48 \<le> c \<and> c \<le> 57 then goto_st 21
                  else goto_st 0)
            else if c > 90
            then (if 94 \<le> c \<and> c \<le> 122 then goto_st 21
                  else goto_st 0)
            else goto_st 21)
      else goto_st 21)"

definition client_st106 :: "int \<Rightarrow> client_action trans" where
  "client_st106 c =
     (if c = 33 \<or> c = 124 \<or> c = 126 then goto_st 21
      else if c = 58 then client_tr39
      else if c = 69 \<or> c = 101 then goto_st 107
      else if c < 45
      then (if c > 39
            then (if 42 \<le> c \<and> c \<le> 43 then goto_st 21
                  else goto_st 0)
            else if c \<ge> 35 then goto_st 21
            else goto_st 0)
      else if c > 46
      then (if c < 65
            then (if 48 \<le> c \<and> c \<le> 57 then goto_st 21
                  else goto_st 0)
            else if c > 90
            then (if 94 \<le> c \<and> c \<le> 122 then goto_st 21
                  else goto_st 0)
            else goto_st 21)
      else goto_st 21)"

definition client_st107 :: "int \<Rightarrow> client_action trans" where
  "client_st107 c =
     (if c = 33 \<or> c = 124 \<or> c = 126 then goto_st 21
      else if c = 58 then client_tr39
      else if c = 78 \<or> c = 110 then goto_st 108
      else if c < 45
      then (if c > 39
            then (if 42 \<le> c \<and> c \<le> 43 then goto_st 21
                  else goto_st 0)
            else if c \<ge> 35 then goto_st 21
            else goto_st 0)
      else if c > 46
      then (if c < 65
            then (if 48 \<le> c \<and> c \<le> 57 then goto_st 21
                  else goto_st 0)
            else if c > 90
            then (if 94 \<le> c \<and> c \<le> 122 then goto_st 21
                  else goto_st 0)
            else goto_st 21)
      else goto_st 21)"

definition client_st108 :: "int \<Rightarrow> client_action trans" where
  "client_st108 c =
     (if c = 33 \<or> c = 124 \<or> c = 126 then goto_st 21
      else if c = 58 then client_tr39
      else if c = 71 \<or> c = 103 then goto_st 109
      else if c < 45
      then (if c > 39
            then (if 42 \<le> c \<and> c \<le> 43 then goto_st 21
                  else goto_st 0)
            else if c \<ge> 35 then goto_st 21
            else goto_st 0)
      else if c > 46
      then (if c < 65
            then (if 48 \<le> c \<and> c \<le> 57 then goto_st 21
                  else goto_st 0)
            else if c > 90
            then (if 94 \<le> c \<and> c \<le> 122 then goto_st 21
                  else goto_st 0)
            else goto_st 21)
      else goto_st 21)"

definition client_st109 :: "int \<Rightarrow> client_action trans" where
  "client_st109 c =
     (if c = 33 \<or> c = 124 \<or> c = 126 then goto_st 21
      else if c = 58 then client_tr39
      else if c = 84 \<or> c = 116 then goto_st 110
      else if c < 45
      then (if c > 39
            then (if 42 \<le> c \<and> c \<le> 43 then goto_st 21
                  else goto_st 0)
            else if c \<ge> 35 then goto_st 21
            else goto_st 0)
      else if c > 46
      then (if c < 65
            then (if 48 \<le> c \<and> c \<le> 57 then goto_st 21
                  else goto_st 0)
            else if c > 90
            then (if 94 \<le> c \<and> c \<le> 122 then goto_st 21
                  else goto_st 0)
            else goto_st 21)
      else goto_st 21)"

definition client_st110 :: "int \<Rightarrow> client_action trans" where
  "client_st110 c =
     (if c = 33 \<or> c = 124 \<or> c = 126 then goto_st 21
      else if c = 58 then client_tr39
      else if c = 72 \<or> c = 104 then goto_st 111
      else if c < 45
      then (if c > 39
            then (if 42 \<le> c \<and> c \<le> 43 then goto_st 21
                  else goto_st 0)
            else if c \<ge> 35 then goto_st 21
            else goto_st 0)
      else if c > 46
      then (if c < 65
            then (if 48 \<le> c \<and> c \<le> 57 then goto_st 21
                  else goto_st 0)
            else if c > 90
            then (if 94 \<le> c \<and> c \<le> 122 then goto_st 21
                  else goto_st 0)
            else goto_st 21)
      else goto_st 21)"

definition client_st111 :: "int \<Rightarrow> client_action trans" where
  "client_st111 c =
     (if c = 33 \<or> c = 124 \<or> c = 126 then goto_st 21
      else if c = 58 then client_tr148
      else if c < 45
      then (if c > 39
            then (if 42 \<le> c \<and> c \<le> 43 then goto_st 21
                  else goto_st 0)
            else if c \<ge> 35 then goto_st 21
            else goto_st 0)
      else if c > 46
      then (if c < 65
            then (if 48 \<le> c \<and> c \<le> 57 then goto_st 21
                  else goto_st 0)
            else if c > 90
            then (if 94 \<le> c \<and> c \<le> 122 then goto_st 21
                  else goto_st 0)
            else goto_st 21)
      else goto_st 21)"

definition client_st112 :: "int \<Rightarrow> client_action trans" where
  "client_st112 c =
     (if c = 10 then client_tr150
      else if c = 13 then client_tr151
      else if c = 32 then client_tr149
      else if c > 12
      then (if 48 \<le> c \<and> c \<le> 57 then client_tr152
            else client_tr40)
      else if c \<ge> 9 then client_tr149
      else client_tr40)"

definition client_st113 :: "int \<Rightarrow> client_action trans" where
  "client_st113 c =
     (if c = 10 then client_tr154
      else if c = 13 then goto_st 116
      else if c = 32 then goto_st 114
      else if c = 33 \<or> c = 124 \<or> c = 126 then client_tr35
      else if c = 67 \<or> c = 99 then client_tr36
      else if c = 84 \<or> c = 116 then client_tr37
      else if c < 45
      then (if c < 35
            then (if 9 \<le> c \<and> c \<le> 12 then goto_st 114
                  else goto_st 0)
            else if c > 39
            then (if 42 \<le> c \<and> c \<le> 43 then client_tr35
                  else goto_st 0)
            else client_tr35)
      else if c > 46
      then (if c < 65
            then (if 48 \<le> c \<and> c \<le> 57 then client_tr156
                  else goto_st 0)
            else if c > 90
            then (if 94 \<le> c \<and> c \<le> 122 then client_tr35
                  else goto_st 0)
            else client_tr35)
      else client_tr35)"

definition client_st114 :: "int \<Rightarrow> client_action trans" where
  "client_st114 c =
     (if c = 32 then goto_st 114
      else if c > 13
      then (if 48 \<le> c \<and> c \<le> 57 then client_tr157
            else goto_st 0)
      else if c \<ge> 9 then goto_st 114
      else goto_st 0)"

definition client_st115 :: "int \<Rightarrow> client_action trans" where
  "client_st115 c =
     (if c = 10 then client_tr158
      else if c = 13 then client_tr159
      else if 48 \<le> c \<and> c \<le> 57 then goto_st 115
      else goto_st 0)"

definition client_st123 :: "int \<Rightarrow> client_action trans" where
  "client_st123 c =
     (if c = 32 then goto_st 114
      else if c > 13
      then (if 48 \<le> c \<and> c \<le> 57 then client_tr157
            else goto_st 0)
      else if c \<ge> 9 then goto_st 114
      else goto_st 0)"

definition client_st116 :: "int \<Rightarrow> client_action trans" where
  "client_st116 c =
     (if c = 10 then client_tr154
      else if c = 32 then goto_st 114
      else if c > 13
      then (if 48 \<le> c \<and> c \<le> 57 then client_tr157
            else goto_st 0)
      else if c \<ge> 9 then goto_st 114
      else goto_st 0)"

definition client_st117 :: "int \<Rightarrow> client_action trans" where
  "client_st117 c =
     (if c = 10 then client_tr158
      else if c = 13 then client_tr159
      else if c = 33 \<or> c = 124 \<or> c = 126 then goto_st 21
      else if c = 58 then client_tr39
      else if c < 45
      then (if c > 39
            then (if 42 \<le> c \<and> c \<le> 43 then goto_st 21
                  else goto_st 0)
            else if c \<ge> 35 then goto_st 21
            else goto_st 0)
      else if c > 46
      then (if c < 65
            then (if 48 \<le> c \<and> c \<le> 57 then goto_st 117
                  else goto_st 0)
            else if c > 90
            then (if 94 \<le> c \<and> c \<le> 122 then goto_st 21
                  else goto_st 0)
            else goto_st 21)
      else goto_st 21)"

definition client_st118 :: "int \<Rightarrow> client_action trans" where
  "client_st118 c =
     (if c = 10 then goto_st 113
      else if c = 32 then goto_st 114
      else if c > 13
      then (if 48 \<le> c \<and> c \<le> 57 then client_tr157
            else goto_st 0)
      else if c \<ge> 9 then goto_st 114
      else goto_st 0)"

definition client_st119 :: "int \<Rightarrow> client_action trans" where
  "client_st119 c =
     (if c = 10 then client_tr158
      else if c = 13 then client_tr159
      else if 48 \<le> c \<and> c \<le> 57 then goto_st 119
      else goto_st 23)"

section \<open>The machine\<close>

text \<open>The \<open>switch\<close>, in blocks of 32 states.\<close>

definition client_cases0 :: "nat \<Rightarrow> int \<Rightarrow> client_action trans" where
  "client_cases0 cs c =
     (if cs = 1 then client_st1 c
      else if cs = 2 then client_st2 c
      else if cs = 3 then client_st3 c
      else if cs = 4 then client_st4 c
      else if cs = 5 then client_st5 c
      else if cs = 6 then client_st6 c
      else if cs = 7 then client_st7 c
      else if cs = 8 then client_st8 c
      else if cs = 9 then client_st9 c
      else if cs = 10 then client_st10 c
      else if cs = 11 then client_st11 c
      else if cs = 12 then client_st12 c
      else if cs = 13 then client_st13 c
      else if cs = 14 then client_st14 c
      else if cs = 15 then client_st15 c
      else if cs = 16 then client_st16 c
      else if cs = 17 then client_st17 c
      else if cs = 18 then client_st18 c
      else if cs = 19 then client_st19 c
      else if cs = 20 then client_st20 c
      else if cs = 21 then client_st21 c
      else if cs = 22 then client_st22 c
      else if cs = 23 then client_st23 c
      else if cs = 24 then client_st24 c
      else if cs = 25 then client_st25 c
      else if cs = 26 then client_st26 c
      else if cs = 27 then client_st27 c
      else if cs = 28 then client_st28 c
      else if cs = 29 then client_st29 c
      else if cs = 30 then client_st30 c
      else if cs = 31 then client_st31 c
      else None)"

definition client_cases1 :: "nat \<Rightarrow> int \<Rightarrow> client_action trans" where
  "client_cases1 cs c =
     (if cs = 32 then client_st32 c
      else if cs = 33 then client_st33 c
      else if cs = 34 then client_st34 c
      else if cs = 35 then client_st35 c
      else if cs = 36 then client_st36 c
      else if cs = 37 then client_st37 c
      else if cs = 38 then client_st38 c
      else if cs = 39 then client_st39 c
      else if cs = 40 then client_st40 c
      else if cs = 41 then client_st41 c
      else if cs = 42 then client_st42 c
      else if cs = 43 then client_st43 c
      else if cs = 44 then client_st44 c
      else if cs = 45 then client_st45 c
      else if cs = 46 then client_st46 c
      else if cs = 47 then client_st47 c
      else if cs = 48 then client_st48 c
      else if cs = 49 then client_st49 c
      else if cs = 50 then client_st50 c
      else if cs = 51 then client_st51 c
      else if cs = 52 then client_st52 c
      else if cs = 53 then client_st53 c
      else if cs = 54 then client_st54 c
      else if cs = 55 then client_st55 c
      else if cs = 56 then client_st56 c
      else if cs = 57 then client_st57 c
      else if cs = 58 then client_st58 c
      else if cs = 59 then client_st59 c
      else if cs = 60 then client_st60 c
      else if cs = 61 then client_st61 c
      else if cs = 62 then client_st62 c
      else if cs = 63 then client_st63 c
      else None)"

definition client_cases2 :: "nat \<Rightarrow> int \<Rightarrow> client_action trans" where
  "client_cases2 cs c =
     (if cs = 64 then client_st64 c
      else if cs = 65 then client_st65 c
      else if cs = 66 then client_st66 c
      else if cs = 67 then client_st67 c
      else if cs = 68 then client_st68 c
      else if cs = 69 then client_st69 c
      else if cs = 70 then client_st70 c
      else if cs = 71 then client_st71 c
      else if cs = 72 then client_st72 c
      else if cs = 73 then client_st73 c
      else if cs = 74 then client_st74 c
      else if cs = 75 then client_st75 c
      else if cs = 76 then client_st76 c
      else if cs = 77 then client_st77 c
      else if cs = 78 then client_st78 c
      else if cs = 79 then client_st79 c
      else if cs = 80 then client_st80 c
      else if cs = 81 then client_st81 c
      else if cs = 82 then client_st82 c
      else if cs = 83 then client_st83 c
      else if cs = 84 then client_st84 c
      else if cs = 85 then client_st85 c
      else if cs = 86 then client_st86 c
      else if cs = 87 then client_st87 c
      else if cs = 88 then client_st88 c
      else if cs = 89 then client_st89 c
      else if cs = 90 then client_st90 c
      else if cs = 91 then client_st91 c
      else if cs = 92 then client_st92 c
      else if cs = 93 then client_st93 c
      else if cs = 94 then client_st94 c
      else if cs = 95 then client_st95 c
      else None)"

definition client_cases3 :: "nat \<Rightarrow> int \<Rightarrow> client_action trans" where
  "client_cases3 cs c =
     (if cs = 96 then client_st96 c
      else if cs = 97 then client_st97 c
      else if cs = 98 then client_st98 c
      else if cs = 99 then client_st99 c
      else if cs = 100 then client_st100 c
      else if cs = 101 then client_st101 c
      else if cs = 102 then client_st102 c
      else if cs = 103 then client_st103 c
      else if cs = 104 then client_st104 c
      else if cs = 105 then client_st105 c
      else if cs = 106 then client_st106 c
      else if cs = 107 then client_st107 c
      else if cs = 108 then client_st108 c
      else if cs = 109 then client_st109 c
      else if cs = 110 then client_st110 c
      else if cs = 111 then client_st111 c
      else if cs = 112 then client_st112 c
      else if cs = 113 then client_st113 c
      else if cs = 114 then client_st114 c
      else if cs = 115 then client_st115 c
      else if cs = 116 then client_st116 c
      else if cs = 117 then client_st117 c
      else if cs = 118 then client_st118 c
      else if cs = 119 then client_st119 c
      else if cs = 120 then client_st120 c
      else if cs = 121 then client_st121 c
      else if cs = 122 then client_st122 c
      else if cs = 123 then client_st123 c
      else None)"

definition client_switch :: "nat \<Rightarrow> int \<Rightarrow> client_action trans" where
  "client_switch cs c =
     (if cs < 32 then client_cases0 cs c
      else if cs < 64 then client_cases1 cs c
      else if cs < 96 then client_cases2 cs c
      else client_cases3 cs c)"

lemmas client_tr_defs =
  client_tr0_def client_tr3_def client_tr7_def client_tr9_def client_tr15_def client_tr74_def client_tr4_def
  client_tr10_def client_tr16_def client_tr75_def client_tr6_def client_tr12_def client_tr18_def client_tr8_def
  client_tr13_def client_tr14_def client_tr2_def client_tr26_def client_tr27_def client_tr28_def
  client_tr30_def client_tr45_def client_tr32_def client_tr42_def client_tr111_def client_tr113_def
  client_tr158_def client_tr35_def client_tr76_def client_tr41_def client_tr39_def client_tr40_def
  client_tr46_def client_tr33_def client_tr43_def client_tr159_def client_tr36_def client_tr77_def
  client_tr59_def client_tr58_def client_tr60_def client_tr136_def client_tr37_def client_tr78_def
  client_tr96_def client_tr95_def client_tr97_def client_tr104_def client_tr112_def client_tr101_def
  client_tr103_def client_tr98_def client_tr99_def client_tr137_def client_tr64_def client_tr66_def
  client_tr61_def client_tr62_def client_tr149_def client_tr148_def client_tr150_def client_tr157_def
  client_tr154_def client_tr156_def client_tr151_def client_tr152_def

lemmas client_switch_defs =
  client_switch_def client_cases0_def client_cases1_def client_cases2_def client_cases3_def

lemmas client_states0 =
  client_cases0_def client_st1_def client_st2_def client_st3_def client_st4_def client_st5_def client_st6_def
  client_st7_def client_st8_def client_st9_def client_st10_def client_st11_def client_st12_def client_st13_def
  client_st14_def client_st15_def client_st16_def client_st17_def client_st18_def client_st19_def
  client_st20_def client_st21_def client_st22_def client_st23_def client_st24_def client_st25_def
  client_st26_def client_st27_def client_st28_def client_st29_def client_st30_def client_st31_def

lemmas client_states1 =
  client_cases1_def client_st32_def client_st33_def client_st34_def client_st35_def client_st36_def
  client_st37_def client_st38_def client_st39_def client_st40_def client_st41_def client_st42_def
  client_st43_def client_st44_def client_st45_def client_st46_def client_st47_def client_st48_def
  client_st49_def client_st50_def client_st51_def client_st52_def client_st53_def client_st54_def
  client_st55_def client_st56_def client_st57_def client_st58_def client_st59_def client_st60_def
  client_st61_def client_st62_def client_st63_def

lemmas client_states2 =
  client_cases2_def client_st64_def client_st65_def client_st66_def client_st67_def client_st68_def
  client_st69_def client_st70_def client_st71_def client_st72_def client_st73_def client_st74_def
  client_st75_def client_st76_def client_st77_def client_st78_def client_st79_def client_st80_def
  client_st81_def client_st82_def client_st83_def client_st84_def client_st85_def client_st86_def
  client_st87_def client_st88_def client_st89_def client_st90_def client_st91_def client_st92_def
  client_st93_def client_st94_def client_st95_def

lemmas client_states3 =
  client_cases3_def client_st96_def client_st97_def client_st98_def client_st99_def client_st100_def
  client_st101_def client_st102_def client_st103_def client_st104_def client_st105_def client_st106_def
  client_st107_def client_st108_def client_st109_def client_st110_def client_st111_def client_st112_def
  client_st113_def client_st114_def client_st115_def client_st116_def client_st117_def client_st118_def
  client_st119_def client_st120_def client_st121_def client_st122_def client_st123_def

end
