(* ===== verification/Http_Client.thy ===== *)
theory Http_Client
  imports Http_Session Httpclient_Machine
begin

text \<open>
  The response side of the HTTP client: \<open>HttpResponseParser\<close> of \<open>mingfwq/http/http_parser.cpp\<close>, the generated
  machine of \<open>httpclient_parser.rl.cpp\<close>, whose states are in the theory Httpclient_Machine, with the code around it,
  and \<open>HttpConnection::recvResponse\<close> and \<open>sendRequest\<close> of \<open>http_connection.cpp\<close>. As for requests the functions
  around the machine take it as an argument; \<open>read\<close>, \<open>write\<close> and \<open>close\<close> of the stream are parameters. The loops
  may run forever and are partial functions.
\<close>

section \<open>The generated response parser\<close>

record httpclient_parser =
  cp_cs :: int
  cp_body_start :: nat
  cp_content_len :: int
  cp_status :: int
  cp_chunked :: int
  cp_chunks_done :: int
  cp_close :: int
  cp_nread :: nat
  cp_mark :: nat
  cp_field_start :: nat
  cp_field_len :: nat

definition httpclient_parser_start :: int where "httpclient_parser_start = 1"
definition httpclient_parser_first_final :: int where "httpclient_parser_first_final = 120"
definition httpclient_parser_error :: int where "httpclient_parser_error = 0"

text \<open>\<open>init\<close> sets all members but \<open>status\<close>.\<close>

definition httpclient_parser_init :: "httpclient_parser \<Rightarrow> httpclient_parser" where
  "httpclient_parser_init p =
     \<lparr>cp_cs = httpclient_parser_start, cp_body_start = 0, cp_content_len = - 1, cp_status = cp_status p,
      cp_chunked = 0, cp_chunks_done = 0, cp_close = 0, cp_nread = 0, cp_mark = 0, cp_field_start = 0,
      cp_field_len = 0\<rparr>"

definition httpclient_parser_has_error :: "httpclient_parser \<Rightarrow> bool" where
  "httpclient_parser_has_error p \<longleftrightarrow> cp_cs p = httpclient_parser_error"

definition httpclient_parser_is_finished :: "httpclient_parser \<Rightarrow> bool" where
  "httpclient_parser_is_finished p \<longleftrightarrow> cp_cs p = httpclient_parser_first_final"

definition httpclient_parser_finish :: "httpclient_parser \<Rightarrow> int" where
  "httpclient_parser_finish p =
     (if httpclient_parser_has_error p then - 1 else if httpclient_parser_is_finished p then 1 else 0)"

datatype response_event =
    reason_phrase string nat
  | status_code string nat
  | chunk_size string nat
  | response_version string nat
  | response_header_done string nat
  | last_chunk string nat
  | response_field string nat string nat

text \<open>The actions, on the parser and the events so far; \<open>pe\<close> is the end of the part.\<close>

type_synonym client_run = "httpclient_parser \<times> response_event list"

text \<open>\<open>parser->content_len = strtol(...)\<close> converts a \<open>long\<close> to \<open>int\<close>.\<close>

definition strtol_int :: "string \<Rightarrow> nat \<Rightarrow> int" where
  "strtol_int s b = sint (word_of_int (strtol s b) :: 32 word)"

fun do_c_mark :: "char list \<Rightarrow> nat \<Rightarrow> nat \<Rightarrow> client_run \<Rightarrow> client_run \<times> bool" where
  "do_c_mark buffer pe p (r, evs) =
     ((r\<lparr>cp_mark := p\<rparr>, evs), False)"

fun do_c_start_field :: "char list \<Rightarrow> nat \<Rightarrow> nat \<Rightarrow> client_run \<Rightarrow> client_run \<times> bool" where
  "do_c_start_field buffer pe p (r, evs) =
     ((r\<lparr>cp_field_start := p\<rparr>, evs), False)"

fun do_c_write_field :: "char list \<Rightarrow> nat \<Rightarrow> nat \<Rightarrow> client_run \<Rightarrow> client_run \<times> bool" where
  "do_c_write_field buffer pe p (r, evs) =
     ((r\<lparr>cp_field_len := LEN (cp_field_start r) p\<rparr>, evs), False)"

fun do_c_start_value :: "char list \<Rightarrow> nat \<Rightarrow> nat \<Rightarrow> client_run \<Rightarrow> client_run \<times> bool" where
  "do_c_start_value buffer pe p (r, evs) =
     ((r\<lparr>cp_mark := p\<rparr>, evs), False)"

fun do_c_write_content_len :: "char list \<Rightarrow> nat \<Rightarrow> nat \<Rightarrow> client_run \<Rightarrow> client_run \<times> bool" where
  "do_c_write_content_len buffer pe p (r, evs) =
     ((r\<lparr>cp_content_len := strtol_int (drop (cp_mark r) buffer) 10\<rparr>, evs), False)"

fun do_c_conn_close :: "char list \<Rightarrow> nat \<Rightarrow> nat \<Rightarrow> client_run \<Rightarrow> client_run \<times> bool" where
  "do_c_conn_close buffer pe p (r, evs) =
     ((r\<lparr>cp_close := 1\<rparr>, evs), False)"

fun do_c_write_value :: "char list \<Rightarrow> nat \<Rightarrow> nat \<Rightarrow> client_run \<Rightarrow> client_run \<times> bool" where
  "do_c_write_value buffer pe p (r, evs) =
     ((r, evs @ [response_field (drop (cp_field_start r) buffer) (cp_field_len r)
        (drop (cp_mark r) buffer) (LEN (cp_mark r) p)]), False)"

fun do_c_reason_phrase :: "char list \<Rightarrow> nat \<Rightarrow> nat \<Rightarrow> client_run \<Rightarrow> client_run \<times> bool" where
  "do_c_reason_phrase buffer pe p (r, evs) =
     ((r, evs @ [reason_phrase (drop (cp_mark r) buffer) (LEN (cp_mark r) p)]), False)"

fun do_c_status_code :: "char list \<Rightarrow> nat \<Rightarrow> nat \<Rightarrow> client_run \<Rightarrow> client_run \<times> bool" where
  "do_c_status_code buffer pe p (r, evs) =
     ((r, evs @ [status_code (drop (cp_mark r) buffer) (LEN (cp_mark r) p)]), False)"

fun do_c_http_version :: "char list \<Rightarrow> nat \<Rightarrow> nat \<Rightarrow> client_run \<Rightarrow> client_run \<times> bool" where
  "do_c_http_version buffer pe p (r, evs) =
     ((r, evs @ [response_version (drop (cp_mark r) buffer) (LEN (cp_mark r) p)]), False)"

fun do_c_chunk_size :: "char list \<Rightarrow> nat \<Rightarrow> nat \<Rightarrow> client_run \<Rightarrow> client_run \<times> bool" where
  "do_c_chunk_size buffer pe p (r, evs) =
     (let n = strtol_int (drop (cp_mark r) buffer) 16; at = drop (cp_mark r) buffer; l = LEN (cp_mark r) p in
      ((r\<lparr>cp_chunked := 1, cp_content_len := n, cp_chunks_done := (if n \<le> 0 then 1 else 0)\<rparr>,
        evs @ [if n \<le> 0 then last_chunk at l else chunk_size at l]), False))"

fun do_c_trans_chunked :: "char list \<Rightarrow> nat \<Rightarrow> nat \<Rightarrow> client_run \<Rightarrow> client_run \<times> bool" where
  "do_c_trans_chunked buffer pe p (r, evs) =
     ((r\<lparr>cp_chunked := 1\<rparr>, evs), False)"

fun do_c_done :: "char list \<Rightarrow> nat \<Rightarrow> nat \<Rightarrow> client_run \<Rightarrow> client_run \<times> bool" where
  "do_c_done buffer pe p (r, evs) =
     ((r\<lparr>cp_body_start := p + 1\<rparr>, evs @ [response_header_done (drop (p + 1) buffer) (pe - p - 1)]), True)"

primrec client_act :: "char list \<Rightarrow> nat \<Rightarrow> client_action \<Rightarrow> nat \<Rightarrow> client_run \<Rightarrow> client_run \<times> bool" where
  "client_act buffer pe c_mark = do_c_mark buffer pe"
| "client_act buffer pe c_start_field = do_c_start_field buffer pe"
| "client_act buffer pe c_write_field = do_c_write_field buffer pe"
| "client_act buffer pe c_start_value = do_c_start_value buffer pe"
| "client_act buffer pe c_write_content_len = do_c_write_content_len buffer pe"
| "client_act buffer pe c_conn_close = do_c_conn_close buffer pe"
| "client_act buffer pe c_write_value = do_c_write_value buffer pe"
| "client_act buffer pe c_reason_phrase = do_c_reason_phrase buffer pe"
| "client_act buffer pe c_status_code = do_c_status_code buffer pe"
| "client_act buffer pe c_http_version = do_c_http_version buffer pe"
| "client_act buffer pe c_chunk_size = do_c_chunk_size buffer pe"
| "client_act buffer pe c_trans_chunked = do_c_trans_chunked buffer pe"
| "client_act buffer pe c_done = do_c_done buffer pe"

text \<open>As for requests, a state that the \<open>switch\<close> does not have leads to the state 2.\<close>

definition httpclient_machine :: "(response_event, httpclient_parser) machine" where
  "httpclient_machine parser buffer len off =
     (if off < len \<and> \<not> (1 \<le> cp_cs parser \<and> cp_cs parser \<le> 123) then ([], parser, 2, 0)
      else case ragel_run client_switch (client_act buffer len) (nat (cp_cs parser))
             (take (len - off) (drop off buffer)) off (parser, []) of
        ((parser, evs), cs', p) \<Rightarrow> (evs, parser, int cs', p - off))"

definition httpclient_parser_execute ::
    "(response_event, httpclient_parser) machine \<Rightarrow> httpclient_parser \<Rightarrow> char list \<Rightarrow> nat \<Rightarrow> nat \<Rightarrow>
     (response_event list \<times> httpclient_parser \<times> int) res" where
  "httpclient_parser_execute machine parser buffer len off =
     (if \<not> off \<le> len then Inl Assert_failed
      else if \<not> len < length buffer then Inl Bad_access
      else if buffer ! len \<noteq> CHR 0x00 then Inl Assert_failed
      else case machine parser buffer len off of (evs, parser, cs', k) \<Rightarrow>
        let parser = parser\<lparr>cp_cs := cs', cp_nread := cp_nread parser + k\<rparr>
        in if \<not> k \<le> len - off \<or> \<not> cp_nread parser \<le> len \<or> \<not> cp_body_start parser \<le> len then Inl Assert_failed
           else if cp_mark parser < len \<and> cp_field_len parser \<le> len \<and> cp_field_start parser < len
           then Inr (evs, parser, int (cp_nread parser))
           else Inr (evs, parser, - 1))"

section \<open>HttpResponseParser\<close>

record HttpResponseParser =
  sp_parser :: httpclient_parser
  sp_data :: HttpResponse
  sp_error :: int

definition HttpResponseParser_new :: "httpclient_parser \<Rightarrow> HttpResponseParser" where
  "HttpResponseParser_new raw =
     \<lparr>sp_parser = httpclient_parser_init raw, sp_data = HttpResponse_new 0x11 True, sp_error = 0\<rparr>"

definition on_response_reason :: "HttpResponseParser \<Rightarrow> string \<Rightarrow> nat \<Rightarrow> HttpResponseParser res" where
  "on_response_reason p at n =
     bind_res (std_string at n) (\<lambda>v. Inr (p\<lparr>sp_data := (sp_data p)\<lparr>rs_reason := v\<rparr>\<rparr>))"

definition on_response_status :: "HttpResponseParser \<Rightarrow> string \<Rightarrow> nat \<Rightarrow> HttpResponseParser" where
  "on_response_status p at n = p\<lparr>sp_data := (sp_data p)\<lparr>rs_status := nat (atoi at)\<rparr>\<rparr>"

definition on_response_version :: "HttpResponseParser \<Rightarrow> string \<Rightarrow> nat \<Rightarrow> HttpResponseParser" where
  "on_response_version p at n =
     (let (v, p) = (case parse_version at n of Some v \<Rightarrow> (v, p) | None \<Rightarrow> (0, p\<lparr>sp_error := 1001\<rparr>))
      in p\<lparr>sp_data := (sp_data p)\<lparr>rs_version := v\<rparr>\<rparr>)"

definition on_response_http_field ::
    "HttpResponseParser \<Rightarrow> string \<Rightarrow> nat \<Rightarrow> string \<Rightarrow> nat \<Rightarrow> HttpResponseParser res" where
  "on_response_http_field p field flen value vlen =
     (if flen = 0 then Inr p
      else bind_res (std_string field flen) (\<lambda>k. bind_res (std_string value vlen) (\<lambda>v.
        Inr (p\<lparr>sp_data := resp_setHeader (sp_data p) k v\<rparr>))))"

fun on_response :: "HttpResponseParser \<Rightarrow> response_event \<Rightarrow> HttpResponseParser res" where
  "on_response p (reason_phrase at n) = on_response_reason p at n"
| "on_response p (status_code at n) = Inr (on_response_status p at n)"
| "on_response p (chunk_size at n) = Inr p"
| "on_response p (response_version at n) = Inr (on_response_version p at n)"
| "on_response p (response_header_done at n) = Inr p"
| "on_response p (last_chunk at n) = Inr p"
| "on_response p (response_field f fl v vl) = on_response_http_field p f fl v vl"

fun on_responses :: "HttpResponseParser \<Rightarrow> response_event list \<Rightarrow> HttpResponseParser res" where
  "on_responses p [] = Inr p"
| "on_responses p (e # es) = bind_res (on_response p e) (\<lambda>p. on_responses p es)"

text \<open>\<open>execute\<close>: the result -1 of the frame becomes the largest \<open>size_t\<close>, so that the move starts one byte before.\<close>

definition response_execute ::
    "(response_event, httpclient_parser) machine \<Rightarrow> HttpResponseParser \<Rightarrow> char list \<Rightarrow> nat \<Rightarrow> bool \<Rightarrow> nat \<Rightarrow>
     (HttpResponseParser \<times> char list \<times> int) res" where
  "response_execute machine p data len chunck off =
     (let p = (if chunck then p\<lparr>sp_parser := httpclient_parser_init (sp_parser p)\<rparr> else p)
      in bind_res (httpclient_parser_execute machine (sp_parser p) data len off) (\<lambda>(evs, parser, offset).
         bind_res (on_responses p evs) (\<lambda>p.
           let p = p\<lparr>sp_parser := parser\<rparr>;
               src = int off + offset; count = int len - int off - offset
           in if src < 0 \<or> count < 0 then Inl Bad_access
              else bind_res (memmove_front data (nat src) (nat count)) (\<lambda>data. Inr (p, data, offset)))))"

definition response_isFinished :: "HttpResponseParser \<Rightarrow> int" where
  "response_isFinished p = httpclient_parser_finish (sp_parser p)"

definition response_hasError :: "HttpResponseParser \<Rightarrow> bool" where
  "response_hasError p \<longleftrightarrow> sp_error p \<noteq> 0 \<or> httpclient_parser_has_error (sp_parser p)"

definition response_getContentLength :: "(string \<Rightarrow> u64 option) \<Rightarrow> HttpResponseParser \<Rightarrow> u64" where
  "response_getContentLength lexical_cast p = resp_getHeaderAs lexical_cast (sp_data p) ''content-length'' 0"

section \<open>recvResponse\<close>

text \<open>
  One call of \<open>read(data + len, buff_size - len)\<close> with what follows it in both loops: the terminating NUL, the
  parser, and the tests. \<open>Inl None\<close> is the return of a null pointer, after \<open>close()\<close>.
\<close>

definition read_and_parse ::
    "(response_event, httpclient_parser) machine \<Rightarrow> 's reader \<Rightarrow> ('s \<Rightarrow> 's) \<Rightarrow> nat \<Rightarrow> HttpResponseParser \<Rightarrow>
     char list \<Rightarrow> nat \<Rightarrow> 's \<Rightarrow> ((HttpResponseParser \<times> char list \<times> nat) option \<times> 's) res" where
  "read_and_parse machine read close buff_size parser data offset s =
     (let r = read s (of_nat (buff_size - offset)); rt = sint (fst r); s = snd (snd r) in
      if rt \<le> 0 then Inr (None, close s)
      else bind_res (put_bytes data offset (fst (snd r))) (\<lambda>data.
        let len = nat rt + offset in
        bind_res (put_bytes data len [CHR 0x00]) (\<lambda>data.
        bind_res (response_execute machine parser data len True 0) (\<lambda>(parser, data, nparse).
          if response_hasError parser then Inr (None, close s)
          else let offset = nat (int len - nparse) in
            if offset = buff_size then Inr (None, close s)
            else Inr (Some (parser, data, offset), s)))))"

text \<open>The two loops that run until the parser is finished: the header, and the head of a chunk.\<close>

partial_function (option) parse_loop ::
    "(response_event, httpclient_parser) machine \<Rightarrow> 's reader \<Rightarrow> ('s \<Rightarrow> 's) \<Rightarrow> nat \<Rightarrow> HttpResponseParser \<Rightarrow>
     char list \<Rightarrow> nat \<Rightarrow> 's \<Rightarrow> ((HttpResponseParser \<times> char list \<times> nat) option \<times> 's) res option" where
  "parse_loop machine read close buff_size parser data offset s =
     (case read_and_parse machine read close buff_size parser data offset s of
        Inl e \<Rightarrow> Some (Inl e)
      | Inr (None, s) \<Rightarrow> Some (Inr (None, s))
      | Inr (Some (parser, data, offset), s) \<Rightarrow>
          if response_isFinished parser \<noteq> 0 then Some (Inr (Some (parser, data, offset), s))
          else parse_loop machine read close buff_size parser data offset s)"

text \<open>\<open>while(left > 0)\<close>: the rest of a chunk; the buffer's content is not needed afterwards.\<close>

partial_function (option) left_loop ::
    "'s reader \<Rightarrow> ('s \<Rightarrow> 's) \<Rightarrow> nat \<Rightarrow> string \<Rightarrow> int \<Rightarrow> 's \<Rightarrow> (string option \<times> 's) option" where
  "left_loop read close buff_size body left s =
     (if left > 0 then
        let r = read s (word_of_int (if left > int buff_size then int buff_size else left));
            rt = sint (fst r); s = snd (snd r)
        in if rt \<le> 0 then Some (None, close s)
           else left_loop read close buff_size (body @ take (nat rt) (fst (snd r))) (left - rt) s
      else Some (Some body, s))"

text \<open>
  The data of one chunk, after its head: the body, the buffer and the number of bytes left in it. A negative
  length passed to \<open>append\<close> throws \<open>std::length_error\<close>.
\<close>

definition chunk_data ::
    "'s reader \<Rightarrow> ('s \<Rightarrow> 's) \<Rightarrow> nat \<Rightarrow> HttpResponseParser \<Rightarrow> string \<Rightarrow> char list \<Rightarrow> nat \<Rightarrow> 's \<Rightarrow>
     ((string \<times> char list \<times> nat) option \<times> 's) res option" where
  "chunk_data read close buff_size parser body data len0 s =
     (let len = int len0 - 2; content_len = cp_content_len (sp_parser parser) in
      if content_len \<le> len then
        if content_len < 0 then Some (Inl (Logic_error ''length_error''))
        else (case memmove_front data (nat content_len) (nat (len - content_len)) of
                Inl e \<Rightarrow> Some (Inl e)
              | Inr data' \<Rightarrow>
                  Some (Inr (Some (body @ take (nat content_len) data, data', nat (len - content_len)), s)))
      else if len < 0 then Some (Inl (Logic_error ''length_error''))
      else (case left_loop read close buff_size (body @ take (nat len) data) (content_len - len) s of
              None \<Rightarrow> None
            | Some (None, s) \<Rightarrow> Some (Inr (None, s))
            | Some (Some body, s) \<Rightarrow> Some (Inr (Some (body, data, 0), s))))"

partial_function (option) chunk_loop ::
    "(response_event, httpclient_parser) machine \<Rightarrow> 's reader \<Rightarrow> ('s \<Rightarrow> 's) \<Rightarrow> nat \<Rightarrow> HttpResponseParser \<Rightarrow> string \<Rightarrow>
     char list \<Rightarrow> nat \<Rightarrow> 's \<Rightarrow> ((HttpResponseParser \<times> string) option \<times> 's) res option" where
  "chunk_loop machine read close buff_size parser body data len s =
     (case parse_loop machine read close buff_size parser data len s of
        None \<Rightarrow> None
      | Some (Inl e) \<Rightarrow> Some (Inl e)
      | Some (Inr (None, s)) \<Rightarrow> Some (Inr (None, s))
      | Some (Inr (Some (parser, data, len), s)) \<Rightarrow>
          (case chunk_data read close buff_size parser body data len s of
             None \<Rightarrow> None
           | Some (Inl e) \<Rightarrow> Some (Inl e)
           | Some (Inr (None, s)) \<Rightarrow> Some (Inr (None, s))
           | Some (Inr (Some (body, data, len), s)) \<Rightarrow>
               if cp_chunks_done (sp_parser parser) \<noteq> 0
               then chunk_loop machine read close buff_size parser body data len s
               else Some (Inr (Some (parser, body), s))))"

text \<open>The body of a response that is not chunked.\<close>

definition response_body ::
    "(string \<Rightarrow> u64 option) \<Rightarrow> 's reader \<Rightarrow> ('s \<Rightarrow> 's) \<Rightarrow> HttpResponseParser \<Rightarrow> char list \<Rightarrow> nat \<Rightarrow> 's \<Rightarrow>
     (HttpResponse option \<times> 's) option" where
  "response_body lexical_cast read close parser data offset s =
     (let length0 = sint (response_getContentLength lexical_cast parser) in
      if length0 > 0 then
        let body = replicate (nat length0) CHR 0x00;
            len = (if length0 \<ge> int offset then offset else nat length0);
            body = take len data @ drop len body;
            left = length0 - int offset
        in if left > 0 then
             (case readFixSize read (as_memory body len) (word_of_int left) s of
                None \<Rightarrow> None
              | Some (r, m, s) \<Rightarrow>
                  if sint r \<le> 0 then Some (None, close s)
                  else Some (Some ((sp_data parser)\<lparr>rs_body := of_memory m len (nat length0)\<rparr>), s))
           else Some (Some (sp_data parser), s)
      else Some (Some (sp_data parser), s))"

text \<open>\<open>buffer\<close> is the new array of \<open>buff_size + 1\<close> bytes, \<open>raw\<close> the uninitialised parser.\<close>

definition recvResponse ::
    "(response_event, httpclient_parser) machine \<Rightarrow> (string \<Rightarrow> u64 option) \<Rightarrow> 's reader \<Rightarrow> ('s \<Rightarrow> 's) \<Rightarrow>
     httpclient_parser \<Rightarrow> char list \<Rightarrow> 's \<Rightarrow> (HttpResponse option \<times> 's) res option" where
  "recvResponse machine lexical_cast read close raw buffer s =
     (let buff_size = length buffer - 1 in
      case parse_loop machine read close buff_size (HttpResponseParser_new raw) buffer 0 s of
        None \<Rightarrow> None
      | Some (Inl e) \<Rightarrow> Some (Inl e)
      | Some (Inr (None, s)) \<Rightarrow> Some (Inr (None, s))
      | Some (Inr (Some (parser, data, offset), s)) \<Rightarrow>
          if cp_chunked (sp_parser parser) \<noteq> 0 then
            (case chunk_loop machine read close buff_size parser [] data offset s of
               None \<Rightarrow> None
             | Some (Inl e) \<Rightarrow> Some (Inl e)
             | Some (Inr (None, s)) \<Rightarrow> Some (Inr (None, s))
             | Some (Inr (Some (parser, body), s)) \<Rightarrow> Some (Inr (Some ((sp_data parser)\<lparr>rs_body := body\<rparr>), s)))
          else map_option Inr (response_body lexical_cast read close parser data offset s))"

definition sendRequest :: "'s writer \<Rightarrow> HttpRequest \<Rightarrow> 's \<Rightarrow> (u32 \<times> 's) option" where
  "sendRequest write req s =
     (let data = HttpRequest_dump req in writeFixSize write (as_memory data 0) (of_nat (length data)) s)"

section \<open>One round\<close>

lemma put_bytes_front: "length bs \<le> length data \<Longrightarrow> put_bytes data 0 bs = Inr (bs @ drop (length bs) data)"
  by (simp add: put_bytes_def)

text \<open>The buffer after a packet has been read to its front and the NUL stored behind it.\<close>

definition with_packet :: "char list \<Rightarrow> char list \<Rightarrow> char list" where
  "with_packet pkt data = pkt @ [CHR 0x00] @ drop (length pkt + 1) data"

lemma length_with_packet [simp]: "length pkt < length data \<Longrightarrow> length (with_packet pkt data) = length data"
  by (simp add: with_packet_def)

lemma store_packet:
  assumes "length pkt < length data"
  shows "bind_res (put_bytes data 0 pkt) (\<lambda>d. put_bytes d (length pkt) [CHR 0x00]) = Inr (with_packet pkt data)"
  using assms by (simp add: put_bytes_def with_packet_def)

lemma read_and_parse_front:
  assumes "read s (of_nat buff_size) = (len, pkt, s')" "sint len = int (length pkt)" "pkt \<noteq> []"
    and "length pkt < length data"
    and "httpclient_parser_execute machine (httpclient_parser_init (sp_parser p)) (with_packet pkt data) (length pkt) 0 =
       Inr (evs, P, int k)" "k \<le> length pkt"
    and "on_responses (p\<lparr>sp_parser := httpclient_parser_init (sp_parser p)\<rparr>) evs = Inr p'" "q = p'\<lparr>sp_parser := P\<rparr>"
  shows "read_and_parse machine read close buff_size p data 0 s =
     (if response_hasError q then Inr (None, close s')
      else if length pkt - k = buff_size then Inr (None, close s')
      else Inr (Some (q, take (length pkt - k) (drop k (with_packet pkt data)) @ drop (length pkt - k) (with_packet pkt data),
                 length pkt - k), s'))"
proof -
  let ?d = "with_packet pkt data"
  have l: "length pkt < length ?d" using assms(4) by simp
  then have "k + (length pkt - k) \<le> length ?d" using assms(6) by linarith
  moreover have "nat (int (length pkt) - int k) = length pkt - k" by linarith
  ultimately have "response_execute machine p ?d (length pkt) True 0 =
      Inr (q, take (length pkt - k) (drop k ?d) @ drop (length pkt - k) ?d, int k)"
    using assms(5-8) by (simp add: response_execute_def memmove_front_def Let_def)
  moreover obtain d where "put_bytes data 0 pkt = Inr d" "put_bytes d (length pkt) [CHR 0x00] = Inr ?d"
    using store_packet [OF assms(4)] by (auto simp: bind_res_Inr_iff)
  ultimately show ?thesis using assms(1-3) \<open>nat (int (length pkt) - int k) = length pkt - k\<close>
    by (simp add: read_and_parse_def Let_def)
qed

lemma init_new: "httpclient_parser_init (sp_parser (HttpResponseParser_new raw)) = httpclient_parser_init raw"
    "(HttpResponseParser_new raw)\<lparr>sp_parser := httpclient_parser_init raw\<rparr> = HttpResponseParser_new raw"
  by (simp_all add: HttpResponseParser_new_def httpclient_parser_init_def)

lemma schar_of_char: "schar c = (if (of_char c :: nat) < 128 then int (of_char c) else int (of_char c) - 256)"
proof -
  have e: "int (of_char c) = (of_char c :: int)" by (rule of_nat_of_char)
  then have "(of_char c :: int) < 128 \<longleftrightarrow> (of_char c :: nat) < 128" by linarith
  with e show ?thesis by (simp only: schar_def Let_def)
qed

lemma client_start_error:
  assumes "c \<noteq> CHR ''H''" "digit_in 16 c = None"
  shows "client_switch 1 (schar c) = None"
proof -
  obtain n where n: "(of_char c :: nat) = n" by simp
  have b: "n < 256" using n of_char_mod_256 [of c, where 'a = nat] mod_less_divisor [of 256 n] by simp
  have "\<not> (48 \<le> n \<and> n \<le> 57)" "\<not> (97 \<le> n \<and> n \<le> 102)" "\<not> (65 \<le> n \<and> n \<le> 70)"
    using assms(2) n by (auto simp: digit_in_def Let_def split: if_splits)
  moreover have "n \<noteq> 72"
  proof
    assume "n = 72"
    then have "(of_char c :: nat) = of_char (CHR ''H'')" using n by simp
    then show False using assms(1) by (simp only: of_char_eq_iff)
  qed
  ultimately have "schar c \<noteq> 72" "\<not> (48 \<le> schar c \<and> schar c \<le> 57)" "\<not> (97 \<le> schar c \<and> schar c \<le> 102)"
      "\<not> (65 \<le> schar c \<and> schar c \<le> 70)" using b unfolding schar_of_char n by (auto split: if_splits)
  then show ?thesis by (auto simp: client_switch_def client_cases0_def client_st1_def)
qed

text \<open>
  A response whose header comes in two parts is lost. When the first part is accepted but does not finish the
  header, the next round initialises the parser again and reads the second part as the beginning of a response.
  Unless it begins with \<open>H\<close> or with a hexadecimal digit, which the machine takes for the size of a chunk, that is an
  error: the connection is closed and no response is returned.
\<close>

theorem split_header_lost:
  assumes "read s (of_nat (length buffer - 1)) = (len1, pkt1, s1)" "sint len1 = int (length pkt1)" "pkt1 \<noteq> []"
    and "read s1 (of_nat (length buffer - 1)) = (len2, pkt2, s2)" "sint len2 = int (length pkt2)" "pkt2 \<noteq> []"
    and "length pkt1 < length buffer" "length pkt2 < length buffer"
    and "httpclient_parser_execute httpclient_machine (httpclient_parser_init raw) (with_packet pkt1 buffer) (length pkt1) 0 =
       Inr (evs, P, int (length pkt1))"
    and "on_responses (HttpResponseParser_new raw) evs = Inr p"
    and "\<not> response_hasError (p\<lparr>sp_parser := P\<rparr>)" "response_isFinished (p\<lparr>sp_parser := P\<rparr>) = 0"
    and "hd pkt2 \<noteq> CHR ''H''" "digit_in 16 (hd pkt2) = None"
  shows "recvResponse httpclient_machine lexical_cast read close raw buffer s = Some (Inr (None, close s2))"
proof -
  let ?n = "length buffer - 1" and ?d = "with_packet pkt1 buffer" and ?q = "p\<lparr>sp_parser := P\<rparr>"
  have "?n \<noteq> 0" using assms(3,7) by (cases pkt1) auto
  then have r1: "read_and_parse httpclient_machine read close ?n (HttpResponseParser_new raw) buffer 0 s = Inr (Some (?q, ?d, 0), s1)"
    using read_and_parse_front [where read = read and s = s and p = "HttpResponseParser_new raw", OF assms(1-3,7) _ order_refl _ refl]
      assms(9-11) by (simp add: init_new)
  have l2: "length pkt2 < length ?d" using assms(7,8) by simp
  have "httpclient_parser_execute httpclient_machine (httpclient_parser_init P) (with_packet pkt2 ?d) (length pkt2) 0 =
      Inr ([], (httpclient_parser_init P)\<lparr>cp_cs := 0\<rparr>, int 0)"
    using assms(6) l2 client_start_error [OF assms(13,14)] by (cases pkt2) (simp_all add: httpclient_parser_execute_def
        httpclient_machine_def httpclient_parser_init_def httpclient_parser_start_def with_packet_def)
  then have r2: "read_and_parse httpclient_machine read close ?n ?q ?d 0 s1 = Inr (None, close s2)"
    using read_and_parse_front [where read = read and s = s1 and p = ?q and k = 0, OF assms(4-6) l2 _ _ _ refl]
    by (simp add: response_hasError_def httpclient_parser_has_error_def httpclient_parser_error_def)
  have "parse_loop httpclient_machine read close ?n (HttpResponseParser_new raw) buffer 0 s = Some (Inr (None, close s2))"
    using r1 r2 assms(12) by (subst parse_loop.simps, simp, subst parse_loop.simps, simp)
  then show ?thesis by (simp add: recvResponse_def Let_def)
qed

fun packets :: "char list list reader" where
  "packets [] n = (0, [], [])"
| "packets (p # ps) n = (of_nat (length p), p, ps)"

definition sample_raw :: httpclient_parser where
  "sample_raw = \<lparr>cp_cs = 0, cp_body_start = 0, cp_content_len = 0, cp_status = 0, cp_chunked = 0, cp_chunks_done = 0,
     cp_close = 0, cp_nread = 0, cp_mark = 0, cp_field_start = 0, cp_field_len = 0\<rparr>"

definition sample_header :: string where
  "sample_header = ''HTTP/1.1 200 OK'' @ CRLF @ ''server: m''"

theorem split_header_lost_witness:
  "recvResponse httpclient_machine (\<lambda>s. None) packets (\<lambda>s. []) sample_raw (replicate 40 (CHR ''x''))
     [sample_header, ''ingfwq'' @ CRLF @ CRLF] = Some (Inr (None, []))"
proof -
  let ?P = "httpclient_parser_init sample_raw"
  have "case httpclient_parser_execute httpclient_machine ?P (with_packet sample_header (replicate 40 (CHR ''x'')))
          (length sample_header) 0 of
      Inl e \<Rightarrow> False
    | Inr (evs, P, k) \<Rightarrow> k = int (length sample_header) \<and>
        (case on_responses (HttpResponseParser_new sample_raw) evs of
           Inl e \<Rightarrow> False
         | Inr p \<Rightarrow> \<not> response_hasError (p\<lparr>sp_parser := P\<rparr>) \<and> response_isFinished (p\<lparr>sp_parser := P\<rparr>) = 0)"
    by code_simp
  then obtain evs P p where e: "httpclient_parser_execute httpclient_machine ?P (with_packet sample_header (replicate 40 (CHR ''x'')))
          (length sample_header) 0 = Inr (evs, P, int (length sample_header))"
      "on_responses (HttpResponseParser_new sample_raw) evs = Inr p"
      "\<not> response_hasError (p\<lparr>sp_parser := P\<rparr>)" "response_isFinished (p\<lparr>sp_parser := P\<rparr>) = 0"
    by (auto split: sum.splits)
  show ?thesis
    by (rule split_header_lost [where ?s1.0 = "[''ingfwq'' @ CRLF @ CRLF]" and ?s2.0 = "[]" and
          ?len1.0 = 26 and ?len2.0 = 10 and ?pkt1.0 = sample_header and ?pkt2.0 = "''ingfwq'' @ CRLF @ CRLF",
          OF _ _ _ _ _ _ _ _ e])
      (simp_all add: sample_header_def digit_in_def Let_def)
qed

text \<open>
  C39: Of a chunked response only the first chunk becomes the body. When the first chunk is complete in the buffer and
  is not the last one, the loop ends at once, because it continues only while the chunks are done; the
  response is returned with the data of that chunk and nothing more is read from the connection.
\<close>

theorem first_chunk_only:
  assumes "parse_loop machine read close (length buffer - 1) (HttpResponseParser_new raw) buffer 0 s =
      Some (Inr (Some (p, data, off), s1))" "cp_chunked (sp_parser p) \<noteq> 0"
    and "parse_loop machine read close (length buffer - 1) p data off s1 = Some (Inr (Some (q, data', len), s2))"
    and "cp_chunks_done (sp_parser q) = 0" "cp_content_len (sp_parser q) = int n" "n + 2 \<le> len" "len \<le> length data'"
  shows "recvResponse machine lexical_cast read close raw buffer s =
    Some (Inr (Some ((sp_data q)\<lparr>rs_body := take n data'\<rparr>), s2))"
proof -
  have "nat (int len - 2 - int n) = len - 2 - n" using assms(6) by linarith
  then have "memmove_front data' n (nat (int len - 2 - int n)) = Inr (take (len - 2 - n) (drop n data') @ drop (len - 2 - n) data')"
    using assms(6,7) by (simp add: memmove_front_def)
  then have "chunk_data read close (length buffer - 1) q [] data' len s2 =
      Some (Inr (Some (take n data', take (len - 2 - n) (drop n data') @ drop (len - 2 - n) data',
        nat (int len - 2 - int n)), s2))"
    using assms(5,6) by (simp add: chunk_data_def Let_def)
  then have "chunk_loop machine read close (length buffer - 1) p [] data off s1 = Some (Inr (Some (q, take n data'), s2))"
    using assms(3,4) by (subst chunk_loop.simps) simp
  then show ?thesis using assms(1,2) by (simp add: recvResponse_def Let_def)
qed

text \<open>The theorem at the response of a server that sends two chunks and then the last one.\<close>

definition chunked_header :: string where
  "chunked_header = ''HTTP/1.1 200 OK'' @ CRLF @ ''transfer-encoding: chunked'' @ CRLF @ CRLF"

definition chunk :: "string \<Rightarrow> string" where
  "chunk w = ''3'' @ CRLF @ w @ CRLF"

fun quiet_event :: "response_event \<Rightarrow> bool" where
  "quiet_event (chunk_size at n) = True"
| "quiet_event (last_chunk at n) = True"
| "quiet_event (response_header_done at n) = True"
| "quiet_event _ = False"

lemma quiet_events: "list_all quiet_event evs \<Longrightarrow> on_responses p evs = Inr p"
proof (induction evs)
  case (Cons e evs)
  then show ?case by (cases e) auto
qed simp

lemma parse_loop_once:
  assumes "read_and_parse machine read close buff_size parser data offset s = Inr (Some (p, d, off), s')"
    "response_isFinished p \<noteq> 0"
  shows "parse_loop machine read close buff_size parser data offset s = Some (Inr (Some (p, d, off), s'))"
  using assms by (subst parse_loop.simps) simp

theorem first_chunk_only_witness:
  "\<exists>r. recvResponse httpclient_machine (\<lambda>s. None) packets (\<lambda>s. s) sample_raw (replicate 60 (CHR ''x''))
       [chunked_header, chunk ''abc'', chunk ''def'', ''0'' @ CRLF @ CRLF] =
     Some (Inr (Some r, [chunk ''def'', ''0'' @ CRLF @ CRLF])) \<and> rs_body r = ''abc''"
proof -
  let ?m = httpclient_machine and ?P = "httpclient_parser_init sample_raw" and ?new = "HttpResponseParser_new sample_raw"
  let ?b = "replicate 60 (CHR ''x'')" and ?r = "[chunk ''def'', ''0'' @ CRLF @ CRLF]"
  let ?d = "with_packet chunked_header ?b"
  let ?e = "with_packet (chunk ''abc'') ?d"
  have "case httpclient_parser_execute ?m ?P ?d (length chunked_header) 0 of
      Inl e \<Rightarrow> False
    | Inr (evs, P, k) \<Rightarrow> k = int (length chunked_header) \<and> cp_status P = 0 \<and> cp_chunked P \<noteq> 0 \<and>
        httpclient_parser_finish P = 1 \<and> (case on_responses ?new evs of Inl e \<Rightarrow> False | Inr p \<Rightarrow> sp_error p = 0)"
    by code_simp
  then obtain evs P p where 1: "httpclient_parser_execute ?m ?P ?d (length chunked_header) 0 = Inr (evs, P, int (length chunked_header))"
      "cp_status P = 0" "cp_chunked P \<noteq> 0" "httpclient_parser_finish P = 1" "on_responses ?new evs = Inr p" "sp_error p = 0"
    by (auto split: sum.splits)
  have "case httpclient_parser_execute ?m ?P ?e (length (chunk ''abc'')) 0 of
      Inl e \<Rightarrow> False
    | Inr (evs, P, k) \<Rightarrow> k = 3 \<and> cp_content_len P = 3 \<and> cp_chunks_done P = 0 \<and> httpclient_parser_finish P = 1 \<and>
        list_all quiet_event evs"
    by code_simp
  then obtain evs2 Q where 2: "httpclient_parser_execute ?m ?P ?e (length (chunk ''abc'')) 0 = Inr (evs2, Q, int 3)"
      "cp_content_len Q = int 3" "cp_chunks_done Q = 0" "httpclient_parser_finish Q = 1" "list_all quiet_event evs2"
    by (auto split: sum.splits)
  let ?p = "p\<lparr>sp_parser := P\<rparr>" and ?q = "p\<lparr>sp_parser := Q\<rparr>"
  let ?e' = "take 5 (drop 3 ?e) @ drop 5 ?e"
  have i: "httpclient_parser_init (sp_parser ?p) = ?P"
    using 1(2) by (simp add: httpclient_parser_init_def sample_raw_def)
  have no: "\<not> httpclient_parser_has_error P" "\<not> httpclient_parser_has_error Q"
    using 1(4) 2(4) by (auto simp: httpclient_parser_finish_def)
  have l: "length chunked_header = 47" "length (chunk ''abc'') = 8" "chunk ''abc'' \<noteq> []"
    by (simp_all add: chunked_header_def chunk_def)
  have "read_and_parse ?m packets (\<lambda>s. s) 59 ?new ?b 0 (chunked_header # chunk ''abc'' # ?r) =
      Inr (Some (?p, ?d, 0), chunk ''abc'' # ?r)"
    using read_and_parse_front [of packets "chunked_header # chunk ''abc'' # ?r" 59 47 chunked_header "chunk ''abc'' # ?r" ?b ?m
        ?new evs P 47 p ?p "\<lambda>s. s"] 1 no l
    by (simp add: init_new response_hasError_def chunked_header_def)
  moreover have "read_and_parse ?m packets (\<lambda>s. s) 59 ?p ?d 0 (chunk ''abc'' # ?r) = Inr (Some (?q, ?e', 5), ?r)"
    using read_and_parse_front [of packets "chunk ''abc'' # ?r" 59 8 "chunk ''abc''" ?r ?d ?m ?p evs2 Q 3
        "p\<lparr>sp_parser := ?P\<rparr>" ?q "\<lambda>s. s"] 2 no l i 1(6) quiet_events [OF 2(5)]
    by (simp add: response_hasError_def)
  moreover have "5 \<le> length ?e'" "take 3 ?e' = ''abc''"
    using l by (simp_all add: with_packet_def chunk_def)
  ultimately show ?thesis
    using first_chunk_only [of ?m packets "\<lambda>s. s" ?b sample_raw _ ?p ?d 0 "chunk ''abc'' # ?r" ?q ?e' 5 ?r 3]
      parse_loop_once [of ?m packets "\<lambda>s. s" 59] 1(3,4) 2(2-4)
    by (simp add: response_isFinished_def)
qed

end
