(* ===== verification/Http_Connection.thy ===== *)
theory Http_Connection
  imports Http_Client Socket Uri
begin

text \<open>
  The HTTP client of \<open>mingfwq/http/http_connection.h\<close> and \<open>http_connection.cpp\<close>: requests with a connection of
  their own and the pool of connections. A connection is a socket with the two counters of \<open>HttpConnection\<close>; its
  stream reads, writes and closes that socket as in the theory Socket, so that the state of the stream is the socket with the
  world. A pointer to a connection has one owner, the pool or the request that uses it, and is the connection
  itself. \<open>getaddrinfo\<close>, the URI machine, the response machine and the texts of system errors are
  parameters, as are the buffer and the uninitialised parser of a request. \<open>None\<close> means that a call does not return.
\<close>

section \<open>Results\<close>

datatype Error =
    OK | INVALID_URL | INVALID_HOST | CONNECT_FAIL | SEND_CLOSE_BY_PEER | SEND_SOCKET_ERROR | TIMEOUT
  | CREATE_SOCKET_ERROR | POOL_GET_CONNECTION | POOL_INVALID_CONNECTION

record HttpResult =
  hr_result :: Error
  hr_response :: "HttpResponse option"
  hr_error :: string

definition HttpResult_new :: "Error \<Rightarrow> HttpResponse option \<Rightarrow> string \<Rightarrow> HttpResult" where
  "HttpResult_new r p e = \<lparr>hr_result = r, hr_response = p, hr_error = e\<rparr>"

definition Error_value :: "Error \<Rightarrow> nat" where
  "Error_value e = (case e of OK \<Rightarrow> 0 | INVALID_URL \<Rightarrow> 1 | INVALID_HOST \<Rightarrow> 2 | CONNECT_FAIL \<Rightarrow> 3
     | SEND_CLOSE_BY_PEER \<Rightarrow> 4 | SEND_SOCKET_ERROR \<Rightarrow> 5 | TIMEOUT \<Rightarrow> 6 | CREATE_SOCKET_ERROR \<Rightarrow> 7
     | POOL_GET_CONNECTION \<Rightarrow> 8 | POOL_INVALID_CONNECTION \<Rightarrow> 9)"

text \<open>Without a response the conditional makes a \<open>std::string\<close> from a null pointer, which throws.\<close>

definition HttpResult_toString :: "HttpResult \<Rightarrow> string res" where
  "HttpResult_toString r =
     (case hr_response r of
        None \<Rightarrow> Inl (Logic_error ''basic_string: construction from null'')
      | Some p \<Rightarrow> Inr (''[HttpResult reslut = '' @ nat_to_string (Error_value (hr_result r)) @
          '',error = '' @ hr_error r @ '',response'' @ HttpResponse_dump p))"

text \<open>What the client gets from outside of the repository and from the machine it runs on.\<close>

record 'os client_env =
  ce_bo :: endian
  ce_api :: "'os os_api"
  ce_sys :: "'os sock_sys"
  ce_getaddrinfo :: getaddrinfo_fun
  ce_cast :: "string \<Rightarrow> u64 option"
  ce_raw :: httpclient_parser
  ce_buffer :: "char list"
  ce_errno :: "'os \<Rightarrow> string"

section \<open>The stream of a connection\<close>

type_synonym 'os conn = "Socket \<times> 'os hook_state"

definition conn_read :: "'os sock_sys \<Rightarrow> 'os conn reader" where
  "conn_read sys = SocketStream_read (\<lambda>(s, h). m_isConnected s)
     (\<lambda>(s, h) n. let (rt, bufs, h) = Socket_recv sys (unat n) 0 s h
                in (word_of_int rt, map (\<lambda>b. char_of (unat b)) (concat bufs), (s, h)))"

definition conn_write :: "'os sock_sys \<Rightarrow> 'os conn writer" where
  "conn_write sys = SocketStream_write (\<lambda>(s, h). m_isConnected s)
     (\<lambda>(s, h) bs. let (rt, bufs, h) = Socket_send sys (map of_char bs) 0 s h in (word_of_int rt, (s, h)))"

text \<open>\<open>SocketStream::close\<close>; closing fails only for a descriptor outside of the descriptor table.\<close>

definition conn_close :: "'os os_api \<Rightarrow> 'os sock_sys \<Rightarrow> 'os conn \<Rightarrow> 'os conn" where
  "conn_close api sys c =
     (case c of (s, h) \<Rightarrow> (case Socket_close api sys s h of Inl e \<Rightarrow> (s, h) | Inr (_, s, h) \<Rightarrow> (s, h)))"

section \<open>Requests\<close>

text \<open>The loop over the headers that are given, with \<open>has_host\<close>.\<close>

fun add_headers :: "(string \<times> string) list \<Rightarrow> HttpRequest \<Rightarrow> bool \<Rightarrow> HttpRequest \<times> bool" where
  "add_headers [] req has_host = (req, has_host)"
| "add_headers ((k, v) # hs) req has_host =
     (if strcasecmp_eq k ''connection'' then
        add_headers hs (if strcasecmp_eq k ''keep-alive'' then req\<lparr>rq_close := False\<rparr> else req) has_host
      else
        add_headers hs (setHeader req k v)
          (if \<not> has_host \<or> strcasecmp_eq k ''host'' then v \<noteq> [] else has_host))"

definition build_request :: "HttpMethod \<Rightarrow> Uri \<Rightarrow> (string \<times> string) list \<Rightarrow> string \<Rightarrow> HttpRequest" where
  "build_request method uri headers body =
     (let req = (HttpRequest_new 0x11 True)\<lparr>rq_path := getPath uri, rq_query := m_query uri,
            rq_fragment := m_fragment uri, rq_method := method\<rparr>;
          (req, has_host) = add_headers headers req False;
          req = (if \<not> has_host then setHeader req ''Host'' (m_host uri) else req)
      in req\<lparr>rq_body := body\<rparr>)"

text \<open>
  From \<open>setRecvTimeout\<close> on, the part that \<open>HttpConnection::DoRequest\<close> and \<open>HttpConnectionPool::doRequest\<close> share: the
  result, the socket and the world.
\<close>

definition exchange ::
    "'os client_env \<Rightarrow> HttpRequest \<Rightarrow> Address \<Rightarrow> u64 \<Rightarrow> 'os conn \<Rightarrow> (HttpResult \<times> 'os conn) res option" where
  "exchange E req addr timeout_ms c =
     (case setRecvTimeout (ce_api E) (ce_sys E) timeout_ms (fst c) (snd c) of
        Inl e \<Rightarrow> Some (Inl e)
      | Inr h \<Rightarrow>
          (case sendRequest (conn_write (ce_sys E)) req (fst c, h) of
             None \<Rightarrow> None
           | Some (rt, c) \<Rightarrow>
               if sint rt = 0 then
                 Some (Inr (HttpResult_new SEND_CLOSE_BY_PEER None
                   (''send request closed  by peer: '' @ Address_insert (ce_bo E) addr), c))
               else if sint rt < 0 then
                 Some (Inr (HttpResult_new SEND_SOCKET_ERROR None
                   (''send request socket error,errno = '' @ ce_errno E (h_os (snd c))), c))
               else
                 (case recvResponse httpclient_machine (ce_cast E) (conn_read (ce_sys E)) (conn_close (ce_api E) (ce_sys E))
                         (ce_raw E) (ce_buffer E) c of
                    None \<Rightarrow> None
                  | Some (Inl e) \<Rightarrow> Some (Inl e)
                  | Some (Inr (None, c)) \<Rightarrow>
                      (case getRecvTinmeout (ce_api E) (fst c) (snd c) of
                         Inl e \<Rightarrow> Some (Inl e)
                       | Inr t \<Rightarrow> Some (Inr (HttpResult_new TIMEOUT None
                           (''timeout:'' @ nat_to_string (unat timeout_ms) @ '',GetrecvTimeout:'' @ int_to_string (sint t)), c)))
                  | Some (Inr (Some res, c)) \<Rightarrow> Some (Inr (HttpResult_new OK (Some res) ''OK'', c)))))"

text \<open>The connection and the socket are destroyed when the function returns: the socket is closed.\<close>

definition DoRequest_req ::
    "'os client_env \<Rightarrow> HttpRequest \<Rightarrow> Uri \<Rightarrow> u64 \<Rightarrow> 'os hook_state \<Rightarrow> (HttpResult \<times> 'os hook_state) res option" where
  "DoRequest_req E req uri timeout_ms h =
     (case createAddress (ce_bo E) (ce_getaddrinfo E) uri of
        None \<Rightarrow> Some (Inr (HttpResult_new INVALID_HOST None (''invalid host: '' @ m_host uri), h))
      | Some addr \<Rightarrow>
          (case Socket_connect (ce_bo E) (ce_api E) (ce_sys E) addr (- 1) (CreateTCP addr) h of
             Inl e \<Rightarrow> Some (Inl e)
           | Inr (ok, s, h) \<Rightarrow>
               if \<not> ok then
                 Some (Inr (HttpResult_new CONNECT_FAIL None (''connect fail: '' @ Address_insert (ce_bo E) addr),
                   snd (conn_close (ce_api E) (ce_sys E) (s, h))))
               else map_option (\<lambda>r. bind_res r (\<lambda>(res, c). Inr (res, snd (conn_close (ce_api E) (ce_sys E) c))))
                      (exchange E req addr timeout_ms (s, h))))"

definition DoRequest_uri ::
    "'os client_env \<Rightarrow> HttpMethod \<Rightarrow> Uri \<Rightarrow> u64 \<Rightarrow> (string \<times> string) list \<Rightarrow> string \<Rightarrow> 'os hook_state \<Rightarrow>
     (HttpResult \<times> 'os hook_state) res option" where
  "DoRequest_uri E method uri timeout_ms headers body h =
     DoRequest_req E (build_request method uri headers body) uri timeout_ms h"

definition DoRequest ::
    "'os client_env \<Rightarrow> HttpMethod \<Rightarrow> string \<Rightarrow> u64 \<Rightarrow> (string \<times> string) list \<Rightarrow> string \<Rightarrow> 'os hook_state \<Rightarrow>
     (HttpResult \<times> 'os hook_state) res option" where
  "DoRequest E method url timeout_ms headers body h =
     (case Uri_Create url of
        Inl e \<Rightarrow> Some (Inl e)
      | Inr None \<Rightarrow> Some (Inr (HttpResult_new INVALID_URL None (''invalid url: '' @ url), h))
      | Inr (Some uri) \<Rightarrow> DoRequest_uri E method uri timeout_ms headers body h)"

definition DoGet_uri :: "'os client_env \<Rightarrow> Uri \<Rightarrow> u64 \<Rightarrow> (string \<times> string) list \<Rightarrow> string \<Rightarrow> 'os hook_state \<Rightarrow>
     (HttpResult \<times> 'os hook_state) res option" where
  "DoGet_uri E uri timeout_ms headers body h = DoRequest_uri E 1 uri timeout_ms headers body h"

definition DoGet :: "'os client_env \<Rightarrow> string \<Rightarrow> u64 \<Rightarrow> (string \<times> string) list \<Rightarrow> string \<Rightarrow> 'os hook_state \<Rightarrow>
     (HttpResult \<times> 'os hook_state) res option" where
  "DoGet E url timeout_ms headers body h =
     (case Uri_Create url of
        Inl e \<Rightarrow> Some (Inl e)
      | Inr None \<Rightarrow> Some (Inr (HttpResult_new INVALID_URL None (''invalid url: '' @ url), h))
      | Inr (Some uri) \<Rightarrow> DoGet_uri E uri timeout_ms headers body h)"

definition DoPost_uri :: "'os client_env \<Rightarrow> Uri \<Rightarrow> u64 \<Rightarrow> (string \<times> string) list \<Rightarrow> string \<Rightarrow> 'os hook_state \<Rightarrow>
     (HttpResult \<times> 'os hook_state) res option" where
  "DoPost_uri E uri timeout_ms headers body h = DoRequest_uri E 3 uri timeout_ms headers body h"

definition DoPost :: "'os client_env \<Rightarrow> string \<Rightarrow> u64 \<Rightarrow> (string \<times> string) list \<Rightarrow> string \<Rightarrow> 'os hook_state \<Rightarrow>
     (HttpResult \<times> 'os hook_state) res option" where
  "DoPost E url timeout_ms headers body h =
     (case Uri_Create url of
        Inl e \<Rightarrow> Some (Inl e)
      | Inr None \<Rightarrow> Some (Inr (HttpResult_new INVALID_URL None (''invalid url: '' @ url), h))
      | Inr (Some uri) \<Rightarrow> DoPost_uri E uri timeout_ms headers body h)"

section \<open>The pool\<close>

record HttpConnection =
  hc_sock :: Socket
  hc_createTime :: u64
  hc_request :: u64

definition HttpConnection_new :: "Socket \<Rightarrow> HttpConnection" where
  "HttpConnection_new sock = \<lparr>hc_sock = sock, hc_createTime = 0, hc_request = 0\<rparr>"

record HttpConnectionPool =
  pl_host :: string
  pl_vhost :: string
  pl_port :: u32
  pl_maxSize :: u32
  pl_maxAliveTime :: u32
  pl_maxRequest :: u32
  pl_conns :: "HttpConnection list"
  pl_total :: int

definition HttpConnectionPool_new :: "string \<Rightarrow> string \<Rightarrow> u32 \<Rightarrow> u32 \<Rightarrow> u32 \<Rightarrow> u32 \<Rightarrow> HttpConnectionPool" where
  "HttpConnectionPool_new host vhost port max_size max_alive_time max_request =
     \<lparr>pl_host = host, pl_vhost = vhost, pl_port = port, pl_maxSize = max_size, pl_maxAliveTime = max_alive_time,
      pl_maxRequest = max_request, pl_conns = [], pl_total = 0\<rparr>"

text \<open>The search: \<open>continue\<close> does not remove the connection from the list. The limits are \<open>int32_t\<close>, sign extended.\<close>

partial_function (option) conn_search ::
    "u32 \<Rightarrow> u64 \<Rightarrow> HttpConnection list \<Rightarrow> HttpConnection list \<Rightarrow>
     (HttpConnection option \<times> HttpConnection list \<times> HttpConnection list) option" where
  "conn_search maxAliveTime now_ms conns invalid_conns =
     (case conns of
        [] \<Rightarrow> Some (None, [], invalid_conns)
      | conn # rest \<Rightarrow>
          if \<not> m_isConnected (hc_sock conn) then conn_search maxAliveTime now_ms conns (invalid_conns @ [conn])
          else if hc_createTime conn + scast maxAliveTime > now_ms
          then conn_search maxAliveTime now_ms conns (invalid_conns @ [conn])
          else Some (Some conn, rest, invalid_conns))"

fun delete_all :: "'os os_api \<Rightarrow> 'os sock_sys \<Rightarrow> HttpConnection list \<Rightarrow> 'os hook_state \<Rightarrow> 'os hook_state" where
  "delete_all api sys [] h = h"
| "delete_all api sys (c # conns) h = delete_all api sys conns (snd (conn_close api sys (hc_sock c, h)))"

definition getConnection ::
    "'os client_env \<Rightarrow> u64 \<Rightarrow> HttpConnectionPool \<Rightarrow> 'os hook_state \<Rightarrow>
     (HttpConnection option \<times> HttpConnectionPool \<times> 'os hook_state) res option" where
  "getConnection E now_ms pool h =
     (case conn_search (pl_maxAliveTime pool) now_ms (pl_conns pool) [] of
        None \<Rightarrow> None
      | Some (ptr, conns, invalid_conns) \<Rightarrow>
          let pool = pool\<lparr>pl_conns := conns, pl_total := pl_total pool - int (length invalid_conns)\<rparr>;
              h = delete_all (ce_api E) (ce_sys E) invalid_conns h
          in (case ptr of
               Some conn \<Rightarrow> Some (Inr (Some conn, pool, h))
             | None \<Rightarrow>
                 (case LookupAnyIPAddress (ce_getaddrinfo E) (pl_host pool) (uint AF_INET) 0 0 of
                    None \<Rightarrow> Some (Inr (None, pool, h))
                  | Some a \<Rightarrow>
                      let addr = addr_setPort (ce_bo E) a (sint (pl_port pool))
                      in (case Socket_connect (ce_bo E) (ce_api E) (ce_sys E) addr (- 1) (CreateTCP addr) h of
                           Inl e \<Rightarrow> Some (Inl e)
                         | Inr (ok, s, h) \<Rightarrow>
                             if \<not> ok then Some (Inr (None, pool, snd (conn_close (ce_api E) (ce_sys E) (s, h))))
                             else Some (Inr (Some (HttpConnection_new s), pool\<lparr>pl_total := pl_total pool + 1\<rparr>, h))))))"

definition ReleasePtr ::
    "'os client_env \<Rightarrow> u64 \<Rightarrow> HttpConnection \<Rightarrow> HttpConnectionPool \<Rightarrow> 'os hook_state \<Rightarrow> HttpConnectionPool \<times> 'os hook_state" where
  "ReleasePtr E now_ms ptr pool h =
     (let ptr = ptr\<lparr>hc_request := hc_request ptr + 1\<rparr>
      in if \<not> m_isConnected (hc_sock ptr) \<or> hc_createTime ptr + scast (pl_maxAliveTime pool) \<ge> now_ms \<or>
            hc_request ptr > scast (pl_maxRequest pool)
         then (pool\<lparr>pl_total := pl_total pool - 1\<rparr>, snd (conn_close (ce_api E) (ce_sys E) (hc_sock ptr, h)))
         else (pool\<lparr>pl_conns := pl_conns pool @ [ptr]\<rparr>, h))"

text \<open>\<open>doRequest(req, timeout_ms)\<close> at the time \<open>now_ms\<close>; the connection is released at \<open>end_ms\<close>.\<close>

definition pool_doRequest_req ::
    "'os client_env \<Rightarrow> u64 \<Rightarrow> u64 \<Rightarrow> HttpRequest \<Rightarrow> u64 \<Rightarrow> HttpConnectionPool \<Rightarrow> 'os hook_state \<Rightarrow>
     (HttpResult \<times> HttpConnectionPool \<times> 'os hook_state) res option" where
  "pool_doRequest_req E now_ms end_ms req timeout_ms pool h =
     (case getConnection E now_ms pool h of
        None \<Rightarrow> None
      | Some (Inl e) \<Rightarrow> Some (Inl e)
      | Some (Inr (None, pool, h)) \<Rightarrow>
          Some (Inr (HttpResult_new POOL_GET_CONNECTION None
            (''pool get connection fail:'' @ pl_host pool @ '',port:'' @ int_to_string (sint (pl_port pool))), pool, h))
      | Some (Inr (Some conn, pool, h)) \<Rightarrow>
          (case getRemoteAddress (ce_bo E) (ce_sys E) (hc_sock conn) h of
             Inl e \<Rightarrow> Some (Inl e)
           | Inr (addr, s) \<Rightarrow>
               (case exchange E req addr timeout_ms (s, h) of
                  None \<Rightarrow> None
                | Some (Inl e) \<Rightarrow> Some (Inl e)
                | Some (Inr (res, (s, h))) \<Rightarrow>
                    let (pool, h) = ReleasePtr E end_ms (conn\<lparr>hc_sock := s\<rparr>) pool h
                    in Some (Inr (res, pool, h)))))"

definition pool_build_request :: "HttpConnectionPool \<Rightarrow> HttpMethod \<Rightarrow> string \<Rightarrow> (string \<times> string) list \<Rightarrow> string \<Rightarrow> HttpRequest" where
  "pool_build_request pool method url headers body =
     (let req = (HttpRequest_new 0x11 True)\<lparr>rq_path := url, rq_method := method, rq_close := False\<rparr>;
          (req, has_host) = add_headers headers req False;
          req = (if \<not> has_host then
                   if pl_vhost pool = [] then setHeader req ''host'' (pl_host pool)
                   else setHeader req ''host'' (pl_vhost pool)
                 else req)
      in req\<lparr>rq_body := body\<rparr>)"

definition pool_doRequest ::
    "'os client_env \<Rightarrow> u64 \<Rightarrow> u64 \<Rightarrow> HttpMethod \<Rightarrow> string \<Rightarrow> u64 \<Rightarrow> (string \<times> string) list \<Rightarrow> string \<Rightarrow>
     HttpConnectionPool \<Rightarrow> 'os hook_state \<Rightarrow> (HttpResult \<times> HttpConnectionPool \<times> 'os hook_state) res option" where
  "pool_doRequest E now_ms end_ms method url timeout_ms headers body pool h =
     pool_doRequest_req E now_ms end_ms (pool_build_request pool method url headers body) timeout_ms pool h"

definition uri_target :: "Uri \<Rightarrow> string" where
  "uri_target uri =
     getPath uri @ (if m_query uri = [] then [] else ''?'') @ m_query uri @
     (if m_fragment uri = [] then [] else ''#'') @ m_fragment uri"

definition pool_doRequest_uri ::
    "'os client_env \<Rightarrow> u64 \<Rightarrow> u64 \<Rightarrow> HttpMethod \<Rightarrow> Uri \<Rightarrow> u64 \<Rightarrow> (string \<times> string) list \<Rightarrow> string \<Rightarrow>
     HttpConnectionPool \<Rightarrow> 'os hook_state \<Rightarrow> (HttpResult \<times> HttpConnectionPool \<times> 'os hook_state) res option" where
  "pool_doRequest_uri E now_ms end_ms method uri timeout_ms headers body pool h =
     pool_doRequest E now_ms end_ms method (uri_target uri) timeout_ms headers body pool h"

definition pool_doGet ::
    "'os client_env \<Rightarrow> u64 \<Rightarrow> u64 \<Rightarrow> string \<Rightarrow> u64 \<Rightarrow> (string \<times> string) list \<Rightarrow> string \<Rightarrow>
     HttpConnectionPool \<Rightarrow> 'os hook_state \<Rightarrow> (HttpResult \<times> HttpConnectionPool \<times> 'os hook_state) res option" where
  "pool_doGet E now_ms end_ms url timeout_ms headers body pool h =
     pool_doRequest E now_ms end_ms 1 url timeout_ms headers body pool h"

definition pool_doGet_uri ::
    "'os client_env \<Rightarrow> u64 \<Rightarrow> u64 \<Rightarrow> Uri \<Rightarrow> u64 \<Rightarrow> (string \<times> string) list \<Rightarrow> string \<Rightarrow>
     HttpConnectionPool \<Rightarrow> 'os hook_state \<Rightarrow> (HttpResult \<times> HttpConnectionPool \<times> 'os hook_state) res option" where
  "pool_doGet_uri E now_ms end_ms uri timeout_ms headers body pool h =
     pool_doGet E now_ms end_ms (uri_target uri) timeout_ms headers body pool h"

definition pool_doPost ::
    "'os client_env \<Rightarrow> u64 \<Rightarrow> u64 \<Rightarrow> string \<Rightarrow> u64 \<Rightarrow> (string \<times> string) list \<Rightarrow> string \<Rightarrow>
     HttpConnectionPool \<Rightarrow> 'os hook_state \<Rightarrow> (HttpResult \<times> HttpConnectionPool \<times> 'os hook_state) res option" where
  "pool_doPost E now_ms end_ms url timeout_ms headers body pool h =
     pool_doRequest E now_ms end_ms 3 url timeout_ms headers body pool h"

definition pool_doPost_uri ::
    "'os client_env \<Rightarrow> u64 \<Rightarrow> u64 \<Rightarrow> Uri \<Rightarrow> u64 \<Rightarrow> (string \<times> string) list \<Rightarrow> string \<Rightarrow>
     HttpConnectionPool \<Rightarrow> 'os hook_state \<Rightarrow> (HttpResult \<times> HttpConnectionPool \<times> 'os hook_state) res option" where
  "pool_doPost_uri E now_ms end_ms uri timeout_ms headers body pool h =
     pool_doPost E now_ms end_ms (uri_target uri) timeout_ms headers body pool h"

section \<open>Headers of a request\<close>

lemma add_headers_close: "rq_close (fst (add_headers hs req b)) = rq_close req"
proof -
  have "\<not> strcasecmp_eq k ''keep-alive''" if "strcasecmp_eq k ''connection''" for k
    using that by (auto simp: strcasecmp_eq_def c_str_def lower_def)
  then show ?thesis
    by (induction hs req b rule: add_headers.induct) (auto simp: setHeader_def)
qed

lemma add_headers_ordered:
  "ci.ordered fst (rq_headers req) \<Longrightarrow> ci.ordered fst (rq_headers (fst (add_headers hs req b)))"
  by (induction hs req b rule: add_headers.induct) (auto simp: setHeader_def map_set_def ci.map_assign_spec)

lemma strcasecmp_eq_trans: "strcasecmp_eq a b \<Longrightarrow> strcasecmp_eq a c \<longleftrightarrow> strcasecmp_eq b c"
  by (simp add: strcasecmp_eq_def)

lemma add_headers_lookup:
  assumes "ci.ordered fst (rq_headers req)" "\<forall>(k, v)\<in>set hs. \<not> strcasecmp_eq k x"
  shows "map_lookup CaseInsensitiveLess x (rq_headers (fst (add_headers hs req b))) =
    map_lookup CaseInsensitiveLess x (rq_headers req)"
  using assms
  by (induction hs req b rule: add_headers.induct)
    (auto simp: setHeader_def map_set_def ci.map_assign_spec ci_equiv)

lemma has_host_latched:
  "(\<forall>(k, v)\<in>set hs. \<not> strcasecmp_eq k ''host'') \<Longrightarrow>
   snd (add_headers hs req b) \<longleftrightarrow> b \<or> (\<exists>(k, v)\<in>set hs. \<not> strcasecmp_eq k ''connection'' \<and> v \<noteq> [])"
  by (induction hs req b rule: add_headers.induct) auto

text \<open>
  The headers of a request that the client builds. The request has no host header when the caller gives any other
  header with a value (but no host header), although HTTP/1.1 requires one; only without such headers is the
  host of the URI used. And the request asks to close the connection whatever the caller gives: a header
  \<open>connection: keep-alive\<close> is dropped without effect.
\<close>

theorem request_headers:
  assumes "\<forall>(k, v)\<in>set headers. \<not> strcasecmp_eq k ''host''"
  shows "map_has (rq_headers (build_request method uri headers body)) ''host'' =
      (if \<exists>(k, v)\<in>set headers. \<not> strcasecmp_eq k ''connection'' \<and> v \<noteq> [] then None else Some (m_host uri))"
    and "rq_close (build_request method uri headers body)"
proof -
  define req where "req = (HttpRequest_new 0x11 True)\<lparr>rq_path := getPath uri, rq_query := m_query uri,
    rq_fragment := m_fragment uri, rq_method := method\<rparr>"
  have e: "rq_headers req = []" "rq_close req" by (simp_all add: req_def HttpRequest_new_def)
  obtain r b where a: "add_headers headers req False = (r, b)" by fastforce
  have o: "ci.ordered fst (rq_headers r)" using add_headers_ordered [of req headers False] a e by simp
  have b: "b \<longleftrightarrow> (\<exists>(k, v)\<in>set headers. \<not> strcasecmp_eq k ''connection'' \<and> v \<noteq> [])"
    using has_host_latched [OF assms, of req False] a by simp
  have l: "map_lookup CaseInsensitiveLess ''host'' (rq_headers r) = None"
    using add_headers_lookup [of req headers "''host''" False] a e assms
    by (simp add: map_lookup_def set_find_def lower_bound_def)
  have h: "strcasecmp_eq ''Host'' ''host''" by (simp add: strcasecmp_eq_def c_str_def lower_def)
  have r: "build_request method uri headers body =
      (if \<not> b then setHeader r ''Host'' (m_host uri) else r)\<lparr>rq_body := body\<rparr>"
    using a by (simp add: build_request_def req_def [symmetric] Let_def)
  show "map_has (rq_headers (build_request method uri headers body)) ''host'' =
      (if \<exists>(k, v)\<in>set headers. \<not> strcasecmp_eq k ''connection'' \<and> v \<noteq> [] then None else Some (m_host uri))"
    using b l h o by (simp add: r map_has_def setHeader_def map_set_def ci.map_assign_spec ci_equiv)
  show "rq_close (build_request method uri headers body)"
    using add_headers_close [of headers req False] a e by (simp add: r setHeader_def)
qed

theorem request_headers_witness:
  "map_has (rq_headers (build_request 1 (Uri_new\<lparr>m_host := ''a.b''\<rparr>)
     [(''Accept'', ''text''), (''Connection'', ''keep-alive'')] [])) ''host'' = None \<and>
   rq_close (build_request 1 (Uri_new\<lparr>m_host := ''a.b''\<rparr>) [(''Accept'', ''text''), (''Connection'', ''keep-alive'')] []) \<and>
   map_has (rq_headers (build_request 1 (Uri_new\<lparr>m_host := ''a.b''\<rparr>) [] [])) ''host'' = Some ''a.b''"
  using request_headers [of "[(''Accept'', ''text''), (''Connection'', ''keep-alive'')]" 1 "Uri_new\<lparr>m_host := ''a.b''\<rparr>" "[]"]
    request_headers [of "[]" 1 "Uri_new\<lparr>m_host := ''a.b''\<rparr>" "[]"]
  by (simp add: strcasecmp_eq_def c_str_def lower_def)

section \<open>The pool's search\<close>

definition usable :: "u32 \<Rightarrow> u64 \<Rightarrow> HttpConnection \<Rightarrow> bool" where
  "usable maxAliveTime now_ms conn \<longleftrightarrow>
     m_isConnected (hc_sock conn) \<and> \<not> hc_createTime conn + scast maxAliveTime > now_ms"

lemma conn_search_usable:
  "conn_search maxAliveTime now_ms [] acc = Some (None, [], acc)"
  "usable maxAliveTime now_ms conn \<Longrightarrow> conn_search maxAliveTime now_ms (conn # rest) acc = Some (Some conn, rest, acc)"
  by (subst conn_search.simps, simp add: usable_def)+

lemma conn_search_hangs:
  assumes "\<not> usable maxAliveTime now_ms conn"
  shows "conn_search maxAliveTime now_ms (conn # rest) acc = None"
proof (rule ccontr)
  assume "conn_search maxAliveTime now_ms (conn # rest) acc \<noteq> None"
  then obtain y where "conn_search maxAliveTime now_ms (conn # rest) acc = Some y" by blast
  then have "conn # rest = conn # rest \<longrightarrow> maxAliveTime = maxAliveTime \<longrightarrow> now_ms = now_ms \<longrightarrow> False"
  proof (rule conn_search.raw_induct [rotated, of _ _ _ _ _
        "\<lambda>m n c i y. c = conn # rest \<longrightarrow> m = maxAliveTime \<longrightarrow> n = now_ms \<longrightarrow> False"])
    fix search :: "u32 \<Rightarrow> u64 \<Rightarrow> HttpConnection list \<Rightarrow> HttpConnection list \<Rightarrow>
        (HttpConnection option \<times> HttpConnection list \<times> HttpConnection list) option" and m n c i y
    assume IH: "\<And>m n c i y. search m n c i = Some y \<Longrightarrow> c = conn # rest \<longrightarrow> m = maxAliveTime \<longrightarrow> n = now_ms \<longrightarrow> False"
    assume step: "(case c of [] \<Rightarrow> Some (None, [], i)
        | conn # rest \<Rightarrow>
            if \<not> m_isConnected (hc_sock conn) then search m n c (i @ [conn])
            else if n < hc_createTime conn + scast m then search m n c (i @ [conn])
            else Some (Some conn, rest, i)) = Some y"
    show "c = conn # rest \<longrightarrow> m = maxAliveTime \<longrightarrow> n = now_ms \<longrightarrow> False"
    proof (intro impI)
      assume e: "c = conn # rest" "m = maxAliveTime" "n = now_ms"
      with step assms have "search m n c (i @ [conn]) = Some y" by (auto simp: usable_def split: if_splits)
      from IH [OF this] e show False by blast
    qed
  qed
  then show False by simp
qed

text \<open>
  When \<open>getConnection\<close> returns. With an empty pool or a usable first connection the search ends at once, and in
  the second case takes that connection out of the pool. When the first connection is not connected, or its age limit
  lies in the future, the search never ends: the connection stays at the front of the list.
\<close>

theorem getConnection_search:
  "(\<exists>r. conn_search (pl_maxAliveTime pool) now_ms (pl_conns pool) [] = Some r) \<longleftrightarrow>
     pl_conns pool = [] \<or> usable (pl_maxAliveTime pool) now_ms (hd (pl_conns pool))"
  "pl_conns pool = conn # rest \<and> usable (pl_maxAliveTime pool) now_ms conn \<Longrightarrow>
     getConnection E now_ms pool h = Some (Inr (Some conn, pool\<lparr>pl_conns := rest\<rparr>, h))"
  "pl_conns pool = conn # rest \<and> \<not> usable (pl_maxAliveTime pool) now_ms conn \<Longrightarrow>
     getConnection E now_ms pool h = None"
proof -
  show "(\<exists>r. conn_search (pl_maxAliveTime pool) now_ms (pl_conns pool) [] = Some r) \<longleftrightarrow>
     pl_conns pool = [] \<or> usable (pl_maxAliveTime pool) now_ms (hd (pl_conns pool))"
  proof (cases "pl_conns pool")
    case (Cons conn rest)
    then show ?thesis
      by (cases "usable (pl_maxAliveTime pool) now_ms conn") (simp_all add: conn_search_usable conn_search_hangs)
  qed (simp add: conn_search_usable)
qed (auto simp: getConnection_def conn_search_usable conn_search_hangs Let_def)

definition sample_client :: "unit client_env" where
  "sample_client =
     \<lparr>ce_bo = LITTLE_ENDIAN, ce_api = sample_api, ce_sys = sample_sys 0,
      ce_getaddrinfo = (\<lambda>node service hints. (0, [Some (Sock_in (IPv4Address_new LITTLE_ENDIAN 0x7f000001 80))])),
      ce_cast = (\<lambda>v. None), ce_raw = sample_raw,
      ce_buffer = [], ce_errno = (\<lambda>os. [])\<rparr>"

theorem getConnection_search_witness:
  "\<exists>conn pool. pl_conns pool = [conn] \<and> pl_maxAliveTime pool = 30000 \<and>
     getConnection sample_client 1000000 pool sample_world = Some (Inr (Some conn, pool\<lparr>pl_conns := []\<rparr>, sample_world)) \<and>
     getConnection sample_client 1000 pool sample_world = None"
proof -
  let ?c = "HttpConnection_new (CreateTCPSocket\<lparr>m_isConnected := True\<rparr>)"
  let ?p = "(HttpConnectionPool_new ''a.b'' [] 80 10 30000 2)\<lparr>pl_conns := [?c]\<rparr>"
  have u: "usable 30000 1000000 ?c" "\<not> usable 30000 1000 ?c"
    by (simp_all add: usable_def HttpConnection_new_def)
  show ?thesis
    using getConnection_search(2) [of ?p ?c "[]" 1000000 sample_client sample_world]
      getConnection_search(3) [of ?p ?c "[]" 1000 sample_client sample_world] u
    by (intro exI [of _ ?c] exI [of _ ?p]) (simp add: HttpConnectionPool_new_def)
qed

section \<open>The life of a pool\<close>

text \<open>
  A pool at the time \<open>t\<close> with the connections \<open>out\<close> that requests hold. Requests interleave: each takes a connection,
  may change its socket and the world in any way, and gives it back; time does not run backwards.
\<close>

inductive pool_run :: "'os client_env \<Rightarrow> HttpConnectionPool \<Rightarrow> u64 \<Rightarrow> HttpConnectionPool \<Rightarrow> HttpConnection list \<Rightarrow> 'os hook_state \<Rightarrow> bool"
  for E pool0 where
  start: "pl_conns pool0 = [] \<Longrightarrow> pl_total pool0 = 0 \<Longrightarrow> pool_run E pool0 t pool0 [] h"
| time: "pool_run E pool0 t pool out h \<Longrightarrow> t \<le> t' \<Longrightarrow> pool_run E pool0 t' pool out h'"
| take: "pool_run E pool0 t pool out h \<Longrightarrow> getConnection E t pool h = Some (Inr (Some conn, pool', h')) \<Longrightarrow>
     pool_run E pool0 t pool' (conn # out) h'"
| fail: "pool_run E pool0 t pool out h \<Longrightarrow> getConnection E t pool h = Some (Inr (None, pool', h')) \<Longrightarrow>
     pool_run E pool0 t pool' out h'"
| use: "pool_run E pool0 t pool (as @ conn # bs) h \<Longrightarrow> pool_run E pool0 t pool (as @ conn\<lparr>hc_sock := s\<rparr> # bs) h'"
| release: "pool_run E pool0 t pool (as @ conn # bs) h \<Longrightarrow> ReleasePtr E t conn pool h = (pool', h') \<Longrightarrow>
     pool_run E pool0 t pool' (as @ bs) h'"

definition pool_inv :: "HttpConnectionPool \<Rightarrow> u64 \<Rightarrow> HttpConnectionPool \<Rightarrow> HttpConnection list \<Rightarrow> bool" where
  "pool_inv pool0 t pool out \<longleftrightarrow>
     pl_maxAliveTime pool = pl_maxAliveTime pool0 \<and> pl_maxRequest pool = pl_maxRequest pool0 \<and>
     pl_total pool = int (length (pl_conns pool) + length out) \<and>
     (\<forall>conn\<in>set (pl_conns pool). usable (pl_maxAliveTime pool0) t conn \<and>
        hc_request conn \<le> scast (pl_maxRequest pool0)) \<and>
     (\<forall>conn\<in>set (pl_conns pool) \<union> set out. hc_createTime conn = 0)"

lemma getConnection_first:
  assumes "\<forall>conn\<in>set (pl_conns pool). usable (pl_maxAliveTime pool) t conn"
  shows "getConnection E t pool h \<noteq> None"
    and "getConnection E t pool h = Some (Inr (Some conn, pool', h')) \<Longrightarrow>
      (\<exists>rest. pl_conns pool = conn # rest \<and> pool' = pool\<lparr>pl_conns := rest\<rparr> \<and> h' = h) \<or>
      (pl_conns pool = [] \<and> pool' = pool\<lparr>pl_total := pl_total pool + 1\<rparr> \<and> (\<exists>s. conn = HttpConnection_new s))"
    and "getConnection E t pool h = Some (Inr (None, pool', h')) \<Longrightarrow> pl_conns pool = [] \<and> pool' = pool"
  using assms
  by (cases "pl_conns pool";
      auto simp: getConnection_def conn_search_usable Let_def split: option.splits sum.splits if_splits)+

lemma usable_later: "usable m t conn \<Longrightarrow> t \<le> t' \<Longrightarrow> usable m t' conn"
  by (auto simp: usable_def)

lemma pool_run_inv: "pool_run E pool0 t pool out h \<Longrightarrow> pool_inv pool0 t pool out"
proof (induction rule: pool_run.induct)
  case (take t pool out h conn pool' h')
  then have "\<forall>conn\<in>set (pl_conns pool). usable (pl_maxAliveTime pool) t conn" by (simp add: pool_inv_def)
  from getConnection_first(2) [OF this take.hyps(2)] take.IH show ?case
    by (auto simp: pool_inv_def HttpConnection_new_def)
next
  case (fail t pool out h pool' h')
  then have "\<forall>conn\<in>set (pl_conns pool). usable (pl_maxAliveTime pool) t conn" by (simp add: pool_inv_def)
  from getConnection_first(3) [OF this fail.hyps(2)] fail.IH show ?case by (auto simp: pool_inv_def)
next
  case (release t pool as conn bs h pool' h')
  then show ?case
    by (auto simp: pool_inv_def ReleasePtr_def usable_def Let_def split: if_splits)
qed (auto simp: pool_inv_def usable_later)



definition sample_pool :: HttpConnectionPool where
  "sample_pool = HttpConnectionPool_new ''a.b'' [] 80 10 30000 2"

lemma sample_connect:
  assumes "addr = IPv4Address a" "sin_family a = AF_INET"
  shows "\<exists>s. Socket_connect LITTLE_ENDIAN sample_api (sample_sys 0) addr (- 1) (CreateTCP addr) sample_world =
     Inr (True, s, sample_world) \<and> m_isConnected s"
proof -
  have n: "newSock sample_api (sample_sys 0) s sample_world = Inr (s\<lparr>m_sock := 3\<rparr>, sample_world)" for s
    by (simp add: FdManager_get_eq [OF sample_world_ok(2,3)] sample_world_ok(1,4) Let_def newSock_def call_socket_def
        hook_socket_def sample_sys_def initSock_def Socket_setOption_def hook_setsockopt_def)
  have c: "sys_connect (sample_sys 0) sock b t os = (0, os)"
    "sys_getsockname (sample_sys 0) sock b os = (0, b, getAddrLen b)" for sock b t os
    by (simp_all add: sample_sys_def)
  show ?thesis
    using assms by (simp add: Socket_connect_def CreateTCP_def Socket_new_def isValid_def n c Let_def getRemoteAddress_def
        getLocalAddress_def filled_address_def empty_address_def AF_INET_def AF_UNIX_def)
qed

lemma sample_getConnection:
  "\<exists>s. getConnection sample_client 40000 sample_pool sample_world =
     Some (Inr (Some (HttpConnection_new s), sample_pool\<lparr>pl_total := 1\<rparr>, sample_world)) \<and> m_isConnected s"
proof -
  define a where "a = v4_setPort LITTLE_ENDIAN (IPv4Address_new LITTLE_ENDIAN 0x7f000001 80) 80"
  have "sin_family a = AF_INET" by (simp add: a_def v4_setPort_def IPv4Address_new_def)
  then obtain s where s: "Socket_connect LITTLE_ENDIAN sample_api (sample_sys 0) (IPv4Address a) (- 1)
      (CreateTCP (IPv4Address a)) sample_world = Inr (True, s, sample_world)" "m_isConnected s"
    using sample_connect [of "IPv4Address a" a] by blast
  show ?thesis
    using s by (intro exI [of _ s]) (simp add: getConnection_def sample_pool_def HttpConnectionPool_new_def conn_search_usable
        sample_client_def LookupAnyIPAddress_def Address_Lookup_def Address_Create_def addr_setPort_def a_def Let_def
        split: prod.splits)
qed


text \<open>
  A dead connection comes back. When the exchange of a request fails, the connection has been closed; but its
  socket still looks connected, so unless it has served its last request the pool takes it back, and the next
  \<open>getConnection\<close> of a pool that was empty hands out that connection without a descriptor.
\<close>

theorem dead_connection_reused:
  assumes "Socket_close (ce_api E) (ce_sys E) (hc_sock conn) h = Inr (r, s, h1)" "m_isConnected (hc_sock conn)"
    and "hc_createTime conn = 0" "scast (pl_maxAliveTime pool) < end_ms" "end_ms \<le> now_ms"
    and "hc_request conn + 1 \<le> scast (pl_maxRequest pool)" "pl_conns pool = []"
  shows "\<exists>pool1 h2 dead. ReleasePtr E end_ms (conn\<lparr>hc_sock := s\<rparr>) pool h1 = (pool1, h2) \<and>
     pl_conns pool1 = [dead] \<and> \<not> isValid (hc_sock dead) \<and>
     getConnection E now_ms pool1 h3 = Some (Inr (Some dead, pool1\<lparr>pl_conns := []\<rparr>, h3))"
proof -
  have s: "m_isConnected s" "m_sock s = - 1" using Socket_close_result [OF assms(1)] assms(2) by auto
  let ?d = "conn\<lparr>hc_sock := s, hc_request := hc_request conn + 1\<rparr>"
  have "ReleasePtr E end_ms (conn\<lparr>hc_sock := s\<rparr>) pool h1 = (pool\<lparr>pl_conns := [?d]\<rparr>, h1)"
    using assms(3,4,6,7) s by (simp add: ReleasePtr_def not_le not_less Let_def)
  moreover have "usable (pl_maxAliveTime pool) now_ms ?d" using s assms(3-5) by (simp add: usable_def)
  ultimately show ?thesis
    using s by (auto simp: getConnection_def conn_search_usable isValid_def)
qed

theorem dead_connection_reused_witness:
  "\<exists>s dead h1 pool1. ReleasePtr sample_client 40000 ((HttpConnection_new CreateTCPSocket)\<lparr>hc_sock := s\<rparr>) sample_pool h1 = (pool1, h1) \<and>
     getConnection sample_client 40000 pool1 sample_world = Some (Inr (Some dead, pool1\<lparr>pl_conns := []\<rparr>, sample_world)) \<and>
     \<not> isValid (hc_sock dead)"
proof -
  let ?s = "CreateTCPSocket\<lparr>m_sock := 3, m_isConnected := True\<rparr>"
  let ?c = "HttpConnection_new ?s"
  obtain r s h1 where c: "Socket_close sample_api (sample_sys 0) ?s sample_world = Inr (r, s, h1)"
    using sample_world_ok(1) by (auto simp: Socket_close_def call_close_hooked Let_def)
  have s: "m_isConnected s" using Socket_close_result [OF c] by simp
  have d: "\<exists>pool1 h2 dead. ReleasePtr sample_client 40000 (?c\<lparr>hc_sock := s\<rparr>) sample_pool h1 = (pool1, h2) \<and>
     pl_conns pool1 = [dead] \<and> \<not> isValid (hc_sock dead) \<and>
     getConnection sample_client 40000 pool1 sample_world = Some (Inr (Some dead, pool1\<lparr>pl_conns := []\<rparr>, sample_world))"
    by (rule dead_connection_reused [where r = r and h = sample_world])
      (simp_all add: c sample_client_def HttpConnection_new_def sample_pool_def HttpConnectionPool_new_def)
  then have "snd (ReleasePtr sample_client 40000 (?c\<lparr>hc_sock := s\<rparr>) sample_pool h1) = h1"
    using s by (simp add: ReleasePtr_def HttpConnection_new_def sample_pool_def HttpConnectionPool_new_def Let_def)
  with d show ?thesis by (fastforce simp: HttpConnection_new_def)
qed

end
