(* ===== verification/Tcp_Server.thy ===== *)
theory Tcp_Server
  imports Socket
begin

text \<open>
  The class \<open>TcpServer\<close> of \<open>mingfwq/tcp_server.h\<close> and \<open>tcp_server.cpp\<close>. Its sockets are shared: the server's list and
  the tasks that accept on them hold pointers to the same objects, so that closing a socket is seen by both. A
  pointer is a number, the objects are in a heap, and \<open>tw_refs\<close> counts the owners outside of the server's list; a
  socket is destroyed, and so closed, with its last owner. The base class's \<open>handleClient\<close> only logs. Tasks are handed to the schedulers of the theory Scheduler.
  The loop of \<open>startAccpet\<close> is given by its rounds, between which other tasks run. Log messages are left out.
\<close>

section \<open>State\<close>

text \<open>What the server schedules.\<close>

datatype server_task = startAccpet_task nat | handleClient_task nat | stop_task

record TcpServer =
  ts_socks :: "nat list"
  ts_worker :: nat
  ts_acceptworker :: nat
  ts_recvTimeout :: u64
  ts_name :: string
  ts_isStop :: bool

record 'os tcp_world =
  tw_heap :: "nat \<Rightarrow> Socket"
  tw_refs :: "nat \<Rightarrow> nat"
  tw_next :: nat
  tw_io :: "server_task IOManager"
  tw_hook :: "'os hook_state"

record 'os tcp_env =
  te_bo :: endian
  te_api :: "'os os_api"
  te_sys :: "'os sock_sys"
  te_epoll :: epoll_fun

text \<open>The configured timeout \<open>tcp_server.readtimeout\<close> is an argument of the constructor.\<close>

definition TcpServer_new :: "nat \<Rightarrow> nat \<Rightarrow> u64 \<Rightarrow> TcpServer" where
  "TcpServer_new worker accept_worker read_timeout =
     \<lparr>ts_socks = [], ts_worker = worker, ts_acceptworker = accept_worker, ts_recvTimeout = read_timeout,
      ts_name = ''mingfwq/1.0.0'', ts_isStop = True\<rparr>"

definition tcp_readtimeout_default :: u64 where
  "tcp_readtimeout_default = 60 * 1000 * 2"

definition TcpServer_setRecvTimeout :: "'m TcpServer_scheme \<Rightarrow> u64 \<Rightarrow> 'm TcpServer_scheme" where
  "TcpServer_setRecvTimeout srv v = srv\<lparr>ts_recvTimeout := v\<rparr>"

definition TcpServer_setName :: "'m TcpServer_scheme \<Rightarrow> string \<Rightarrow> 'm TcpServer_scheme" where
  "TcpServer_setName srv v = srv\<lparr>ts_name := v\<rparr>"

definition TcpServer_handleClient :: "'os tcp_world \<Rightarrow> 'os tcp_world" where
  "TcpServer_handleClient w = w"

section \<open>Sockets and tasks\<close>

definition new_socket :: "Socket \<Rightarrow> nat \<Rightarrow> 'os tcp_world \<Rightarrow> nat \<times> 'os tcp_world" where
  "new_socket sock owners w =
     (let p = tw_next w
      in (p, w\<lparr>tw_heap := (tw_heap w)(p := sock), tw_refs := (tw_refs w)(p := owners), tw_next := p + 1\<rparr>))"

definition close_socket :: "'os tcp_env \<Rightarrow> nat \<Rightarrow> 'os tcp_world \<Rightarrow> 'os tcp_world res" where
  "close_socket E p w =
     bind_res (Socket_close (te_api E) (te_sys E) (tw_heap w p) (tw_hook w)) (\<lambda>(_, sock, h).
       Inr (w\<lparr>tw_heap := (tw_heap w)(p := sock), tw_hook := h\<rparr>))"

text \<open>The server's list lets go of its sockets; those without another owner are destroyed.\<close>

fun release_socks :: "'os tcp_env \<Rightarrow> nat list \<Rightarrow> 'os tcp_world \<Rightarrow> 'os tcp_world res" where
  "release_socks E [] w = Inr w"
| "release_socks E (p # ps) w =
     bind_res (if tw_refs w p = 0 then close_socket E p w else Inr w) (release_socks E ps)"

definition schedule_task :: "nat \<Rightarrow> server_task \<Rightarrow> 'os tcp_world \<Rightarrow> 'os tcp_world" where
  "schedule_task sched t w =
     (let (_, s) = schedule (io_scheds (tw_io w) sched) (ft_of_cb (Some (Plain t)) (- 1))
      in w\<lparr>tw_io := (tw_io w)\<lparr>io_scheds := (io_scheds (tw_io w))(sched := s)\<rparr>\<rparr>)"

section \<open>Operations\<close>

text \<open>One turn of the loop of \<open>bind\<close>: the new socket, or a null pointer when the address is appended to \<open>fails\<close>.\<close>

definition bind_one :: "'os tcp_env \<Rightarrow> Address \<Rightarrow> 'os tcp_world \<Rightarrow> (nat option \<times> 'os tcp_world) res" where
  "bind_one E addr w =
     bind_res (Socket_bind (te_bo E) (te_api E) (te_sys E) addr (CreateTCP addr) (tw_hook w)) (\<lambda>(ok, sock, h).
       if \<not> ok then
         bind_res (Socket_close (te_api E) (te_sys E) sock h) (\<lambda>(_, _, h). Inr (None, w\<lparr>tw_hook := h\<rparr>))
       else bind_res (Socket_listen (te_api E) (te_sys E) SOMAXCONN sock h) (\<lambda>(ok, sock, h).
         if \<not> ok then
           bind_res (Socket_close (te_api E) (te_sys E) sock h) (\<lambda>(_, _, h). Inr (None, w\<lparr>tw_hook := h\<rparr>))
         else let (p, w) = new_socket sock 0 (w\<lparr>tw_hook := h\<rparr>) in Inr (Some p, w)))"

fun bind_loop ::
    "'os tcp_env \<Rightarrow> Address list \<Rightarrow> nat list \<Rightarrow> Address list \<Rightarrow> 'os tcp_world \<Rightarrow> (nat list \<times> Address list \<times> 'os tcp_world) res" where
  "bind_loop E [] socks fails w = Inr (socks, fails, w)"
| "bind_loop E (addr # addrs) socks fails w =
     bind_res (bind_one E addr w) (\<lambda>(p, w).
       case p of
         None \<Rightarrow> bind_loop E addrs socks (fails @ [addr]) w
       | Some p \<Rightarrow> bind_loop E addrs (socks @ [p]) fails w)"

text \<open>\<open>bind(addrs, fails)\<close>; \<open>fails\<close> is the caller's vector.\<close>

definition TcpServer_bind ::
    "'os tcp_env \<Rightarrow> Address list \<Rightarrow> Address list \<Rightarrow> 'm TcpServer_scheme \<Rightarrow> 'os tcp_world \<Rightarrow>
     (bool \<times> Address list \<times> 'm TcpServer_scheme \<times> 'os tcp_world) res" where
  "TcpServer_bind E addrs fails srv w =
     bind_res (bind_loop E addrs (ts_socks srv) fails w) (\<lambda>(socks, fails, w).
       if fails \<noteq> [] then
         bind_res (release_socks E socks w) (\<lambda>w. Inr (False, fails, srv\<lparr>ts_socks := []\<rparr>, w))
       else Inr (True, fails, srv\<lparr>ts_socks := socks\<rparr>, w))"

definition TcpServer_bind_addr ::
    "'os tcp_env \<Rightarrow> Address \<Rightarrow> 'm TcpServer_scheme \<Rightarrow> 'os tcp_world \<Rightarrow> (bool \<times> 'm TcpServer_scheme \<times> 'os tcp_world) res" where
  "TcpServer_bind_addr E addr srv w =
     bind_res (TcpServer_bind E [addr] [] srv w) (\<lambda>(ok, _, srv, w). Inr (ok, srv, w))"

text \<open>
  One round of \<open>while (!m_isStop)\<close> on the socket \<open>p\<close>; the result says whether the loop goes on. The new client is
  owned by the task that handles it.
\<close>

definition startAccpet_round ::
    "'os tcp_env \<Rightarrow> 'm TcpServer_scheme \<Rightarrow> nat \<Rightarrow> 'os tcp_world \<Rightarrow> (bool \<times> 'os tcp_world) res" where
  "startAccpet_round E srv p w =
     (if ts_isStop srv then Inr (False, w)
      else bind_res (Socket_accept (te_bo E) (te_api E) (te_sys E) (tw_heap w p) (tw_hook w)) (\<lambda>(client, h).
        case client of
          None \<Rightarrow> Inr (True, w\<lparr>tw_hook := h\<rparr>)
        | Some client \<Rightarrow>
            bind_res (setRecvTimeout (te_api E) (te_sys E) (ts_recvTimeout srv) client h) (\<lambda>h.
              let (c, w) = new_socket client 1 (w\<lparr>tw_hook := h\<rparr>)
              in Inr (True, schedule_task (ts_worker srv) (handleClient_task c) w))))"

fun schedule_accepts :: "nat \<Rightarrow> nat list \<Rightarrow> 'os tcp_world \<Rightarrow> 'os tcp_world" where
  "schedule_accepts sched [] w = w"
| "schedule_accepts sched (p # ps) w =
     schedule_accepts sched ps
       (schedule_task sched (startAccpet_task p) (w\<lparr>tw_refs := (tw_refs w)(p := tw_refs w p + 1)\<rparr>))"

definition TcpServer_start ::
    "'m TcpServer_scheme \<Rightarrow> 'os tcp_world \<Rightarrow> bool \<times> 'm TcpServer_scheme \<times> 'os tcp_world" where
  "TcpServer_start srv w =
     (if \<not> ts_isStop srv then (True, srv, w)
      else let srv = srv\<lparr>ts_isStop := False\<rparr>
           in (True, srv, schedule_accepts (ts_acceptworker srv) (ts_socks srv) w))"

definition TcpServer_stop :: "'m TcpServer_scheme \<Rightarrow> 'os tcp_world \<Rightarrow> 'm TcpServer_scheme \<times> 'os tcp_world" where
  "TcpServer_stop srv w = (srv\<lparr>ts_isStop := True\<rparr>, schedule_task (ts_acceptworker srv) stop_task w)"

text \<open>The task of \<open>stop\<close>, which the manager of the accepting tasks runs.\<close>

fun cancel_and_close :: "'os tcp_env \<Rightarrow> nat list \<Rightarrow> 'os tcp_world \<Rightarrow> 'os tcp_world res" where
  "cancel_and_close E [] w = Inr w"
| "cancel_and_close E (p # ps) w =
     bind_res (Socket_cancelAll (te_epoll E) (tw_heap w p) (Some (tw_io w))) (\<lambda>(_, io).
       bind_res (close_socket E p (w\<lparr>tw_io := io\<rparr>)) (cancel_and_close E ps))"

definition run_stop_task ::
    "'os tcp_env \<Rightarrow> 'm TcpServer_scheme \<Rightarrow> 'os tcp_world \<Rightarrow> ('m TcpServer_scheme \<times> 'os tcp_world) res" where
  "run_stop_task E srv w =
     bind_res (cancel_and_close E (ts_socks srv) w) (\<lambda>w.
     bind_res (release_socks E (ts_socks srv) w) (\<lambda>w. Inr (srv\<lparr>ts_socks := []\<rparr>, w)))"

fun close_socks :: "'os tcp_env \<Rightarrow> nat list \<Rightarrow> 'os tcp_world \<Rightarrow> 'os tcp_world res" where
  "close_socks E [] w = Inr w"
| "close_socks E (p # ps) w = bind_res (close_socket E p w) (close_socks E ps)"

text \<open>The destructor.\<close>

definition TcpServer_destroy :: "'os tcp_env \<Rightarrow> 'm TcpServer_scheme \<Rightarrow> 'os tcp_world \<Rightarrow> 'os tcp_world res" where
  "TcpServer_destroy E srv w = bind_res (close_socks E (ts_socks srv) w) (release_socks E (ts_socks srv))"

section \<open>Lemmas\<close>

lemma Socket_close_closed: "Socket_close api sys s h = Inr (r, s', h') \<Longrightarrow> m_sock s' = - 1"
  by (auto simp: Socket_close_def Let_def bind_res_Inr_iff split: if_splits)

lemma close_socket_effect:
  assumes "close_socket E p w = Inr w'"
  shows "m_sock (tw_heap w' q) = (if q = p then - 1 else m_sock (tw_heap w q))" "tw_refs w' = tw_refs w"
    "tw_next w' = tw_next w" "tw_io w' = tw_io w" "q \<noteq> p \<Longrightarrow> tw_heap w' q = tw_heap w q"
  using assms by (auto simp: close_socket_def bind_res_Inr_iff dest: Socket_close_closed)

lemma release_socks_effect:
  assumes "release_socks E ps w = Inr w'"
  shows "tw_refs w' = tw_refs w \<and> tw_next w' = tw_next w \<and>
    m_sock (tw_heap w' q) = (if q \<in> set ps \<and> tw_refs w q = 0 then - 1 else m_sock (tw_heap w q))"
  using assms
proof (induction ps arbitrary: w)
  case (Cons p ps)
  then obtain w1 where w1: "(if tw_refs w p = 0 then close_socket E p w else Inr w) = Inr w1" "release_socks E ps w1 = Inr w'"
    by (auto simp: bind_res_Inr_iff)
  have "tw_refs w1 = tw_refs w" "tw_next w1 = tw_next w"
      "m_sock (tw_heap w1 q) = (if q = p \<and> tw_refs w p = 0 then - 1 else m_sock (tw_heap w q))"
    using w1(1) close_socket_effect [of E p w w1] by (auto split: if_splits)
  then show ?case using Cons.IH [OF w1(2)] by auto
qed simp

lemma cancel_and_close_effect:
  assumes "cancel_and_close E ps w = Inr w'"
  shows "tw_refs w' = tw_refs w \<and> m_sock (tw_heap w' q) = (if q \<in> set ps then - 1 else m_sock (tw_heap w q))"
  using assms
proof (induction ps arbitrary: w)
  case (Cons p ps)
  then obtain io w1 where w1: "close_socket E p (w\<lparr>tw_io := io\<rparr>) = Inr w1" "cancel_and_close E ps w1 = Inr w'"
    by (auto simp: bind_res_Inr_iff)
  show ?case using Cons.IH [OF w1(2)] close_socket_effect [OF w1(1)] by auto
qed simp

lemma schedule_task_frame [simp]:
  "tw_heap (schedule_task s t w) = tw_heap w" "tw_refs (schedule_task s t w) = tw_refs w"
  "tw_next (schedule_task s t w) = tw_next w" "tw_hook (schedule_task s t w) = tw_hook w"
  by (simp_all add: schedule_task_def split: prod.splits)

lemma schedule_accepts_frame [simp]:
  "tw_heap (schedule_accepts s ps w) = tw_heap w" "tw_hook (schedule_accepts s ps w) = tw_hook w"
  by (induction ps arbitrary: w) simp_all

text \<open>The tasks in the queue of a scheduler that are the server's.\<close>

definition queued :: "'os tcp_world \<Rightarrow> nat \<Rightarrow> server_task list" where
  "queued w s = List.map_filter (\<lambda>ft. case ft_cb ft of Some (Plain t) \<Rightarrow> Some t | _ \<Rightarrow> None) (m_fibers (io_scheds (tw_io w) s))"

lemma queued_schedule: "queued (schedule_task s t w) s' = queued w s' @ (if s = s' then [t] else [])"
  by (simp add: queued_def schedule_task_def schedule_def scheduleNoLock_def ft_of_cb_def List.map_filter_def)

lemma queued_accepts:
  "queued (schedule_accepts s ps w) s' = queued w s' @ (if s = s' then map startAccpet_task ps else [])"
proof (induction ps arbitrary: w)
  case (Cons p ps)
  have "queued (w\<lparr>tw_refs := r\<rparr>) s' = queued w s'" for r by (simp add: queued_def)
  then show ?case using Cons by (simp add: queued_schedule)
qed simp

lemma Socket_listen_valid: "Socket_listen api sys n s h = Inr (True, s', h') \<Longrightarrow> isValid s'"
  by (auto simp: Socket_listen_def isValid_def bind_res_Inr_iff Let_def split: if_splits prod.splits)

lemma bind_one_effect:
  assumes "bind_one E addr w = Inr (p, w')"
  shows "(\<forall>q. q \<noteq> tw_next w \<longrightarrow> tw_heap w' q = tw_heap w q \<and> tw_refs w' q = tw_refs w q) \<and> tw_next w \<le> tw_next w' \<and>
    (p \<noteq> None \<longrightarrow> p = Some (tw_next w) \<and> isValid (tw_heap w' (tw_next w)) \<and> tw_refs w' (tw_next w) = 0 \<and>
      tw_next w' = tw_next w + 1) \<and> (p = None \<longrightarrow> tw_heap w' = tw_heap w \<and> tw_refs w' = tw_refs w)"
  using assms by (auto simp: bind_one_def bind_res_Inr_iff new_socket_def Let_def split: if_splits dest: Socket_listen_valid)

lemma bind_loop_effect:
  assumes "bind_loop E addrs socks fails w = Inr (socks', fails', w')" "\<forall>p\<in>set socks. p < tw_next w" "distinct socks"
  shows "\<exists>ps bad. socks' = socks @ ps \<and> fails' = fails @ bad \<and> length ps + length bad = length addrs \<and> set bad \<subseteq> set addrs \<and>
    distinct socks' \<and> (\<forall>p\<in>set ps. tw_next w \<le> p \<and> isValid (tw_heap w' p) \<and> tw_refs w' p = 0) \<and>
    (\<forall>p<tw_next w. tw_heap w' p = tw_heap w p \<and> tw_refs w' p = tw_refs w p) \<and> tw_next w \<le> tw_next w' \<and>
    (\<forall>p\<in>set socks'. p < tw_next w')"
  using assms
proof (induction addrs arbitrary: socks fails w)
  case Nil
  then show ?case by auto
next
  case (Cons addr addrs)
  obtain p w1 where w1: "bind_one E addr w = Inr (p, w1)"
      "(case p of None \<Rightarrow> bind_loop E addrs socks (fails @ [addr]) w1 | Some p \<Rightarrow> bind_loop E addrs (socks @ [p]) fails w1) =
        Inr (socks', fails', w')"
    using Cons.prems(1) by (auto simp: bind_res_Inr_iff)
  note e = bind_one_effect [OF w1(1)]
  show ?case
  proof (cases p)
    case None
    have "\<forall>p\<in>set socks. p < tw_next w1" using Cons.prems(2) e by (meson order_less_le_trans)
    then obtain ps bad where i: "socks' = socks @ ps" "fails' = (fails @ [addr]) @ bad" "length ps + length bad = length addrs"
        "set bad \<subseteq> set addrs" "distinct socks'" "\<forall>p\<in>set ps. tw_next w1 \<le> p \<and> isValid (tw_heap w' p) \<and> tw_refs w' p = 0"
        "\<forall>p<tw_next w1. tw_heap w' p = tw_heap w1 p \<and> tw_refs w' p = tw_refs w1 p" "tw_next w1 \<le> tw_next w'"
        "\<forall>p\<in>set socks'. p < tw_next w'"
      using Cons.IH [of socks "fails @ [addr]" w1] w1(2) None Cons.prems(3) by auto
    show ?thesis
      by (intro exI [of _ ps] exI [of _ "addr # bad"]) (use i e None in auto)
  next
    case (Some q)
    then have q: "q = tw_next w" "tw_next w1 = tw_next w + 1" "isValid (tw_heap w1 q)" "tw_refs w1 q = 0" using e by auto
    have "\<forall>p\<in>set (socks @ [q]). p < tw_next w1" "distinct (socks @ [q])" using Cons.prems(2,3) q by auto
    then obtain ps bad where i: "socks' = (socks @ [q]) @ ps" "fails' = fails @ bad" "length ps + length bad = length addrs"
        "set bad \<subseteq> set addrs" "distinct socks'" "\<forall>p\<in>set ps. tw_next w1 \<le> p \<and> isValid (tw_heap w' p) \<and> tw_refs w' p = 0"
        "\<forall>p<tw_next w1. tw_heap w' p = tw_heap w1 p \<and> tw_refs w' p = tw_refs w1 p" "tw_next w1 \<le> tw_next w'"
        "\<forall>p\<in>set socks'. p < tw_next w'"
      using Cons.IH [of "socks @ [q]" fails w1] w1(2) Some by auto
    have "tw_heap w' q = tw_heap w1 q" "tw_refs w' q = tw_refs w1 q" using i(7) q(1,2) by simp_all
    then have "isValid (tw_heap w' q)" "tw_refs w' q = 0" using q(3,4) by simp_all
    then show ?thesis
      by (intro exI [of _ "q # ps"] exI [of _ bad]) (use i e q in auto)
  qed
qed

section \<open>Properties\<close>

text \<open>
  Binding a server. When \<open>bind\<close> returns, its result tells whether every address was bound, and the others are in
  \<open>fails\<close>. After success the server has one new socket per address, in order behind the ones it had, each with a
  descriptor that listens. After a failure it has no socket at all: those of the addresses that were bound and also
  those of earlier successful calls are given up, and closed unless a task still accepts on them.
\<close>

theorem tcp_bind_behaviour:
  assumes "TcpServer_bind E addrs [] srv w = Inr (ok, fails, srv', w')"
    and "\<forall>p\<in>set (ts_socks srv). p < tw_next w" "distinct (ts_socks srv)"
  shows "(ok \<longleftrightarrow> fails = []) \<and> set fails \<subseteq> set addrs \<and>
    (ok \<longrightarrow> (\<exists>ps. ts_socks srv' = ts_socks srv @ ps \<and> length ps = length addrs \<and> distinct (ts_socks srv') \<and>
       (\<forall>p\<in>set ps. tw_next w \<le> p \<and> isValid (tw_heap w' p)) \<and> (\<forall>p<tw_next w. tw_heap w' p = tw_heap w p))) \<and>
    (\<not> ok \<longrightarrow> ts_socks srv' = [] \<and>
       (\<forall>p\<in>set (ts_socks srv). m_sock (tw_heap w' p) = (if tw_refs w p = 0 then - 1 else m_sock (tw_heap w p))))"
proof -
  obtain socks bad w1 where l: "bind_loop E addrs (ts_socks srv) [] w = Inr (socks, bad, w1)"
      "(if bad \<noteq> [] then bind_res (release_socks E socks w1) (\<lambda>w. Inr (False, bad, srv\<lparr>ts_socks := []\<rparr>, w))
        else Inr (True, bad, srv\<lparr>ts_socks := socks\<rparr>, w1)) = Inr (ok, fails, srv', w')"
    using assms(1) by (auto simp: TcpServer_bind_def bind_res_Inr_iff)
  obtain ps where e: "socks = ts_socks srv @ ps" "length ps + length bad = length addrs" "set bad \<subseteq> set addrs" "distinct socks"
      "\<forall>p\<in>set ps. tw_next w \<le> p \<and> isValid (tw_heap w1 p)"
      "\<forall>p<tw_next w. tw_heap w1 p = tw_heap w p \<and> tw_refs w1 p = tw_refs w p"
    using bind_loop_effect [OF l(1) assms(2,3)] by auto
  show ?thesis
  proof (cases "bad = []")
    case True
    then show ?thesis using l(2) e by auto
  next
    case False
    then have r: "release_socks E socks w1 = Inr w'" "\<not> ok" "fails = bad" "srv' = srv\<lparr>ts_socks := []\<rparr>"
      using l(2) by (auto simp: bind_res_Inr_iff)
    have "m_sock (tw_heap w' p) = (if tw_refs w p = 0 then - 1 else m_sock (tw_heap w p))" if "p \<in> set (ts_socks srv)" for p
      using release_socks_effect [OF r(1), of p] e(1,6) that assms(2) by simp
    then show ?thesis using r e(3) False by simp
  qed
qed

text \<open>
  A server that is started again before the task of \<open>stop\<close> has run loses its sockets and spins. \<open>start\<close> returns
  \<open>true\<close> and schedules an accepting loop for every socket, behind the task of \<open>stop\<close>; that task then closes the sockets
  and empties the list. The server counts as running, and every round of every accepting loop, those of the first start
  included, fails on the descriptor -1, changes nothing and goes on, without end.
\<close>

theorem tcp_restart_loses_sockets:
  assumes "\<not> ts_isStop srv" "(\<forall>os. sys_accept (te_sys E) (- 1) os = (- 1, os))"
    and "TcpServer_stop srv w = (srv1, w1)" "TcpServer_start srv1 w1 = (ok, srv2, w2)"
    and "run_stop_task E srv2 w2 = Inr (srv3, w3)"
  shows "ok \<and> \<not> ts_isStop srv3 \<and> ts_socks srv3 = [] \<and>
    queued w2 (ts_acceptworker srv) = queued w (ts_acceptworker srv) @ stop_task # map startAccpet_task (ts_socks srv) \<and>
    (\<forall>p\<in>set (ts_socks srv). m_sock (tw_heap w3 p) = - 1 \<and> startAccpet_round E srv3 p w3 = Inr (True, w3))"
proof -
  let ?a = "ts_acceptworker srv"
  have 1: "srv1 = srv\<lparr>ts_isStop := True\<rparr>" "w1 = schedule_task ?a stop_task w" using assms(3) by (simp_all add: TcpServer_stop_def)
  then have 2: "ok" "srv2 = srv\<lparr>ts_isStop := False\<rparr>" "w2 = schedule_accepts ?a (ts_socks srv) w1"
    using assms(4) by (simp_all add: TcpServer_start_def Let_def)
  have q: "queued w2 ?a = queued w ?a @ stop_task # map startAccpet_task (ts_socks srv)"
    by (simp add: 1 2 queued_accepts queued_schedule)
  obtain w4 where w4: "cancel_and_close E (ts_socks srv) w2 = Inr w4" "release_socks E (ts_socks srv) w4 = Inr w3"
      "srv3 = srv2\<lparr>ts_socks := []\<rparr>"
    using assms(5) 2(2) by (auto simp: run_stop_task_def bind_res_Inr_iff)
  have c: "m_sock (tw_heap w3 p) = - 1" if "p \<in> set (ts_socks srv)" for p
    using cancel_and_close_effect [OF w4(1), of p] release_socks_effect [OF w4(2), of p] that by simp
  have "startAccpet_round E srv3 p w3 = Inr (True, w3)" if "p \<in> set (ts_socks srv)" for p
    using c [OF that] assms(2) w4(3) 2(2) by (simp add: startAccpet_round_def Socket_accept_def call_accept_def hook_accept_def Let_def)
  then show ?thesis using 2 w4(3) q c by simp
qed

definition tcp_sample_env :: "unit tcp_env" where
  "tcp_sample_env = \<lparr>te_bo = LITTLE_ENDIAN, te_api = sample_api, te_sys = sample_sys 0, te_epoll = (\<lambda>_ _ _. 0)\<rparr>"

definition tcp_sample_sched :: "server_task Timers.callback Scheduler" where
  "tcp_sample_sched = \<lparr>m_fibers = [], m_sname = [], m_threads = 1, m_threadIds = [1], m_rootFiber = None, m_threadCount = 1,
     m_activeThreadCount = 0, m_idleThreadCount = 0, m_stopping = False, m_autoStop = False, m_rootThread = - 1\<rparr>"

definition tcp_sample_world :: "unit tcp_world" where
  "tcp_sample_world = \<lparr>tw_heap = (\<lambda>p. CreateTCPSocket\<lparr>m_sock := 3\<rparr>), tw_refs = (\<lambda>p. if p = 0 then 1 else 0), tw_next = 1,
     tw_io = \<lparr>m_FdContexts = [], m_pendingEventCount = 0, io_scheds = (\<lambda>s. tcp_sample_sched), io_self = 0,
       io_timers = TimerManager_new (\<lambda>_. Timer_new 0 0 None False)\<rparr>, tw_hook = sample_world\<rparr>"

theorem tcp_bind_behaviour_witness:
  "\<exists>srv w p. TcpServer_bind tcp_sample_env [sample_addr] [] (TcpServer_new 0 0 tcp_readtimeout_default) tcp_sample_world =
     Inr (True, [], srv, w) \<and> ts_socks srv = [p] \<and> isValid (tw_heap w p)"
proof -
  let ?s = "TcpServer_new 0 0 tcp_readtimeout_default"
  have "case TcpServer_bind tcp_sample_env [sample_addr] [] ?s tcp_sample_world of
      Inl e \<Rightarrow> False | Inr (ok, fails, srv, w) \<Rightarrow> ok"
    by code_simp
  then obtain fails srv w where b: "TcpServer_bind tcp_sample_env [sample_addr] [] ?s tcp_sample_world = Inr (True, fails, srv, w)"
    by (auto split: sum.splits)
  have "ts_socks ?s = []" by (simp add: TcpServer_new_def)
  then show ?thesis using tcp_bind_behaviour [OF b] b by (auto simp: length_Suc_conv)
qed

theorem tcp_restart_loses_sockets_witness:
  "\<exists>w. startAccpet_round tcp_sample_env ((TcpServer_new 0 0 5)\<lparr>ts_isStop := False\<rparr>) 0 w = Inr (True, w) \<and>
     m_sock (tw_heap w 0) = - 1"
proof -
  let ?s = "(TcpServer_new 0 0 5)\<lparr>ts_socks := [0], ts_isStop := False\<rparr>" and ?w = tcp_sample_world
  let ?s1 = "fst (TcpServer_stop ?s ?w)" and ?w1 = "snd (TcpServer_stop ?s ?w)"
  let ?s2 = "fst (snd (TcpServer_start ?s1 ?w1))" and ?w2 = "snd (snd (TcpServer_start ?s1 ?w1))"
  have c: "case cancel_and_close tcp_sample_env [0] ?w2 of Inl e \<Rightarrow> False | Inr w \<Rightarrow> tw_refs w 0 = 2"
    by code_simp
  have s2: "?s2 = ?s" by (simp add: TcpServer_stop_def TcpServer_start_def Let_def)
  obtain w3 where w3: "cancel_and_close tcp_sample_env [0] ?w2 = Inr w3" "tw_refs w3 0 = 2" using c by (auto split: sum.splits)
  then have r: "run_stop_task tcp_sample_env ?s2 ?w2 = Inr (?s\<lparr>ts_socks := []\<rparr>, w3)"
    unfolding s2 by (simp add: run_stop_task_def)
  have st: "TcpServer_stop ?s ?w = (?s1, ?w1)" "TcpServer_start ?s1 ?w1 = (True, ?s2, ?w2)"
    by (simp_all add: TcpServer_stop_def TcpServer_start_def Let_def)
  have "\<forall>os. sys_accept (te_sys tcp_sample_env) (- 1) os = (- 1, os)" by (simp add: tcp_sample_env_def sample_sys_def)
  from tcp_restart_loses_sockets [OF _ this st r] show ?thesis by (auto simp: TcpServer_new_def)
qed

end
