(* ===== verification/Http_Server.thy ===== *)
theory Http_Server
  imports Tcp_Server Http11_Roundtrip Servlet
begin

text \<open>
  The class \<open>HttpServer\<close> of \<open>mingfwq/http/http_server.h\<close> and \<open>http_server.cpp\<close>, a \<open>TcpServer\<close> whose \<open>handleClient\<close>
  receives requests, dispatches them to servlets and sends the responses. \<open>'s\<close> is the state of the session, with
  \<open>read\<close>, \<open>write\<close> and \<open>close\<close> of its stream, which the servlets may use. Every request has a new parser, whose
  uninitialised members are \<open>raws i\<close>, and a new buffer \<open>buffers i\<close>. \<open>None\<close> means that a call does not return.
\<close>

record 's HttpServer = TcpServer +
  hs_isKeepalive :: bool
  hs_dispath :: "'s ServletDispath"

definition HttpServer_new :: "bool \<Rightarrow> nat \<Rightarrow> nat \<Rightarrow> u64 \<Rightarrow> 's HttpServer" where
  "HttpServer_new Keepalive worker accept_work read_timeout =
     TcpServer.extend (TcpServer_new worker accept_work read_timeout)
       \<lparr>hs_isKeepalive = Keepalive, hs_dispath = ServletDispath_new\<rparr>"

definition getServletDispath :: "'s HttpServer \<Rightarrow> 's ServletDispath" where
  "getServletDispath srv = hs_dispath srv"

definition setServletDispath :: "'s HttpServer \<Rightarrow> 's ServletDispath \<Rightarrow> 's HttpServer" where
  "setServletDispath srv v = srv\<lparr>hs_dispath := v\<rparr>"

text \<open>The response that the servlets start from.\<close>

definition initial_response :: "'s HttpServer \<Rightarrow> HttpRequest \<Rightarrow> HttpResponse" where
  "initial_response srv req =
     resp_setHeader (HttpResponse_new (rq_version req) (rq_close req \<or> \<not> hs_isKeepalive srv)) ''Server'' (ts_name srv)"

text \<open>One turn of the loop; the result says whether a request was received.\<close>

definition handle_request ::
    "(string \<Rightarrow> u64 option) \<Rightarrow> 's reader \<Rightarrow> 's writer \<Rightarrow> ('s \<Rightarrow> 's) \<Rightarrow> 's HttpServer \<Rightarrow> http_parser \<Rightarrow> char list \<Rightarrow> 's \<Rightarrow>
     (bool \<times> 's) res option" where
  "handle_request lexical_cast read write close srv raw buffer s =
     (case recvRequest http_machine lexical_cast read close raw buffer s of
        None \<Rightarrow> None
      | Some (Inl e) \<Rightarrow> Some (Inl e)
      | Some (Inr (None, s)) \<Rightarrow> Some (Inr (False, s))
      | Some (Inr (Some req, s)) \<Rightarrow>
          (case ServletDispath_handle (hs_dispath srv) (req, initial_response srv req, s) of
             (_, req, res, s) \<Rightarrow>
               map_option (\<lambda>(rt, s). Inr (True, s)) (sendResponse write res s)))"

partial_function (option) handle_loop ::
    "(string \<Rightarrow> u64 option) \<Rightarrow> 's reader \<Rightarrow> 's writer \<Rightarrow> ('s \<Rightarrow> 's) \<Rightarrow> 's HttpServer \<Rightarrow> (nat \<Rightarrow> http_parser) \<Rightarrow>
     (nat \<Rightarrow> char list) \<Rightarrow> nat \<Rightarrow> 's \<Rightarrow> 's res option" where
  "handle_loop lexical_cast read write close srv raws buffers i s =
     (case handle_request lexical_cast read write close srv (raws i) (buffers i) s of
        None \<Rightarrow> None
      | Some (Inl e) \<Rightarrow> Some (Inl e)
      | Some (Inr (received, s)) \<Rightarrow>
          if received \<and> hs_isKeepalive srv
          then handle_loop lexical_cast read write close srv raws buffers (i + 1) s
          else Some (Inr s))"

text \<open>\<open>handleClient\<close>; an exception ends it before the session is closed.\<close>

definition HttpServer_handleClient ::
    "(string \<Rightarrow> u64 option) \<Rightarrow> 's reader \<Rightarrow> 's writer \<Rightarrow> ('s \<Rightarrow> 's) \<Rightarrow> 's HttpServer \<Rightarrow> (nat \<Rightarrow> http_parser) \<Rightarrow>
     (nat \<Rightarrow> char list) \<Rightarrow> 's \<Rightarrow> 's res option" where
  "HttpServer_handleClient lexical_cast read write close srv raws buffers s =
     (case handle_loop lexical_cast read write close srv raws buffers 0 s of
        None \<Rightarrow> None
      | Some (Inl e) \<Rightarrow> Some (Inl e)
      | Some (Inr s) \<Rightarrow> Some (Inr (close s)))"

section \<open>Lemmas\<close>

lemma fetch_as_memory: "fetch (as_memory data 0) 0 (length data) = data"
  by (rule nth_equalityI) (auto simp: fetch_def as_memory_def)

text \<open>Sending a response when the stream takes all of it at once.\<close>

lemma sendResponse_once:
  assumes "write s (HttpResponse_dump res) = (len, s')" "sint len = int (length (HttpResponse_dump res))"
  shows "sendResponse write res s = Some (len, s')"
proof -
  let ?d = "HttpResponse_dump res" let ?n = "of_nat (length ?d) :: u64"
  have l: "length ?d < 2 ^ 31" using assms(2) sint_less [of len] by simp
  then have n: "unat ?n = length ?d" by (simp add: unat_of_nat take_bit_nat_eq_self)
  have s: "(scast len :: u64) = ?n" using assms(2) by (simp add: scast_eq)
  have "len = word_of_int (sint len)" by simp
  also have "\<dots> = of_nat (length ?d)" by (simp only: assms(2) of_int_of_nat_eq)
  also have "\<dots> = ucast ?n" using n by (simp add: ucast_eq uint_nat)
  finally have c: "ucast ?n = len" by simp
  have p: "?n \<noteq> 0" "0 < ?n"
  proof -
    have "length ?d \<noteq> 0" by (simp add: HttpResponse_dump_def)
    then have "unat ?n \<noteq> unat (0 :: u64)" using n by simp
    then show "?n \<noteq> 0" by metis
    then show "0 < ?n" by (simp add: word_gt_0)
  qed
  have "write s (fetch (as_memory ?d 0) (sint (0 :: u64)) (unat ?n)) = (len, s')"
    using assms(1) n fetch_as_memory by simp
  then have "writeFixSize write (as_memory ?d 0) ?n s = Some (ucast ?n, s')"
    unfolding writeFixSize_def using p s by (subst fix_loop.simps) (simp add: Let_def, subst fix_loop.simps, simp)
  then show ?thesis using c by (simp add: sendResponse_def Let_def)
qed

text \<open>
  C12: A request that a client prints is answered over the whole server. When a request without a body, whose characters
  need no encoding, arrives in one packet, the servlet that the dispatcher finds for its path gets a request with the
  method, version, path, query, fragment and headers of the client's, and a response that has the server's name and
  is marked to close, whatever the client asked for and whether or not the server keeps connections; when the
  stream takes the servlet's response at once, the text of that response is what is written, and without keep-alive the
  session is then closed.
\<close>

theorem http_server_answers:
  assumes "request_ok r" "built_map (rq_headers r)" "rq_body r = []" "map_has (rq_headers r) ''content-length'' = None"
    and "read s (of_nat (length (buffers 0))) = (len, HttpRequest_dump r, s1)" "sint len = int (length (HttpRequest_dump r))"
    and "length (HttpRequest_dump r) \<le> length (buffers 0)" "length (buffers 0) < 2 ^ 63 - 1"
  shows "\<exists>req. rq_method req = rq_method r \<and> rq_version req = rq_version r \<and> rq_path req = rq_path r \<and>
    rq_query req = rq_query r \<and> rq_fragment req = rq_fragment r \<and>
    (\<forall>key. \<not> strcasecmp_eq ''connection'' key \<longrightarrow> map_has (rq_headers req) key = map_has (rq_headers r) key) \<and>
    initial_response srv req = resp_setHeader (HttpResponse_new (rq_version r) True) ''Server'' (ts_name srv) \<and>
    (\<forall>rt req' res s2 len2 s3.
       ServletDispath_handle (hs_dispath srv) (req, initial_response srv req, s1) = (rt, req', res, s2) \<and>
       write s2 (HttpResponse_dump res) = (len2, s3) \<and> sint len2 = int (length (HttpResponse_dump res)) \<longrightarrow>
         handle_request lexical_cast read write close srv (raws 0) (buffers 0) s = Some (Inr (True, s3)) \<and>
         (\<not> hs_isKeepalive srv \<longrightarrow>
            HttpServer_handleClient lexical_cast read write close srv raws buffers s = Some (Inr (close s3))))"
proof -
  let ?t = "HttpRequest_dump r" and ?b = "buffers 0"
  let ?d = "?t @ drop (length ?t) ?b"
  have o: "ci.ordered fst (rq_headers r)" using assms(2) by (rule built_ordered)
  have "length ?d < 2 ^ 63 - 1" using assms(7,8) by simp
  then obtain q k where q: "request_execute http_machine (HttpRequestParser_new (raws 0)) ?d (length ?t) 0 =
        Inr (q, dump_rest r @ drop (length (dump_rest r)) ?d, k)"
      "k + length (dump_rest r) = length ?t" "request_isFinished q = 1" "\<not> request_hasError q"
      "rq_method (rp_data q) = rq_method r" "rq_version (rp_data q) = rq_version r" "rq_path (rp_data q) = rq_path r"
      "rq_query (rp_data q) = rq_query r" "rq_fragment (rp_data q) = rq_fragment r"
      "\<forall>key. map_has (rq_headers (rp_data q)) key = field_lookup (dump_fields r) key" "rq_close (rp_data q)"
    using dump_parsed [OF assms(1,2) refl, of "drop (length ?t) ?b" "raws 0"] by blast
  have k: "k = length ?t" "dump_rest r = []" using q(2) assms(3) by (simp_all add: dump_rest_def)
  have h: "map_has (rq_headers (rp_data q)) key = (if strcasecmp_eq ''connection'' key
      then Some (if rq_close r then ''close'' else ''keep-alive'') else map_has (rq_headers r) key)" for key
    using q(10) dump_fields_lookup [OF o, of key] assms(3) by simp
  have ne: "0 < length ?t" "?b \<noteq> []" using assms(7) by (auto simp: HttpRequest_dump_def)
  have p: "put_bytes ?b 0 ?t = Inr ?d" using assms(7) by (simp add: put_bytes_def)
  have loop: "recv_loop http_machine read close (length ?b) (HttpRequestParser_new (raws 0)) ?b 0 s = Some (Inr (Some (q, ?d, 0), s1))"
    using assms(5,6) p q(1,3,4) k ne by (subst recv_loop.simps) (simp add: Let_def)
  have c: "\<not> strcasecmp_eq ''connection'' ''content-length''" by code_simp
  have "map_lookup CaseInsensitiveLess ''content-length'' (rq_headers (rp_data q)) = None"
    using h [of "''content-length''"] c assms(4) by (simp add: map_has_def)
  then have "getContentLength lexical_cast q = 0" by (simp add: getContentLength_def getHeaderAs_def getAs_def)
  then have recv: "recvRequest http_machine lexical_cast read close (raws 0) ?b s = Some (Inr (Some (rp_data q), s1))"
    using loop by (simp add: recvRequest_def recv_body_def)
  show ?thesis
  proof (intro exI [of _ "rp_data q"] conjI allI impI)
    show "initial_response srv (rp_data q) = resp_setHeader (HttpResponse_new (rq_version r) True) ''Server'' (ts_name srv)"
      using q(6,11) by (simp add: initial_response_def)
    show "map_has (rq_headers (rp_data q)) key = map_has (rq_headers r) key" if "\<not> strcasecmp_eq ''connection'' key" for key
      using h that by simp
    fix rt req' res s2 len2 s3
    assume a: "ServletDispath_handle (hs_dispath srv) (rp_data q, initial_response srv (rp_data q), s1) = (rt, req', res, s2) \<and>
       write s2 (HttpResponse_dump res) = (len2, s3) \<and> sint len2 = int (length (HttpResponse_dump res))"
    then have "sendResponse write res s2 = Some (len2, s3)" by (intro sendResponse_once) auto
    then show *: "handle_request lexical_cast read write close srv (raws 0) (buffers 0) s = Some (Inr (True, s3))"
      using recv a by (simp add: handle_request_def)
    show "HttpServer_handleClient lexical_cast read write close srv raws buffers s = Some (Inr (close s3))" if "\<not> hs_isKeepalive srv"
      using * that by (simp add: HttpServer_handleClient_def, subst handle_loop.simps, simp)
  qed (use q(5-9) in simp_all)
qed

text \<open>A peer that sends packets and keeps what it gets, and a server without servlets.\<close>

fun peer_read :: "(char list list \<times> string) reader" where
  "peer_read ([], out) n = (0, [], [], out)"
| "peer_read (p # ps, out) n = (of_nat (length p), p, ps, out)"

definition peer_write :: "(char list list \<times> string) writer" where
  "peer_write s bs = (of_nat (length bs), fst s, snd s @ bs)"

definition sample_get :: HttpRequest where
  "sample_get = (setHeader (HttpRequest_new 0x11 False) ''Host'' ''a'')\<lparr>rq_path := ''/x''\<rparr>"

definition not_found :: HttpResponse where
  "not_found = fst (snd (snd (NotFoundServlet_handle
     (sample_get, resp_setHeader (HttpResponse_new 0x11 True) ''Server'' ''mingfwq/1.0.0'', ()))))"

theorem http_server_answers_witness:
  "HttpServer_handleClient (\<lambda>v. None) peer_read peer_write (\<lambda>s. s) (HttpServer_new False 0 0 5) (\<lambda>i. sample_raw_http)
     (\<lambda>i. replicate 100 (CHR ''x'')) ([HttpRequest_dump sample_get], []) = Some (Inr ([], HttpResponse_dump not_found))"
proof -
  let ?srv = "HttpServer_new False 0 0 5 :: (char list list \<times> string) HttpServer"
  have ok: "request_ok sample_get" by code_simp
  have b: "built_map (rq_headers sample_get)"
    by (simp add: sample_get_def setHeader_def HttpRequest_new_def built_set built_empty)
  have h: "rq_body sample_get = []" "map_has (rq_headers sample_get) ''content-length'' = None" "rq_version sample_get = 0x11"
    by code_simp+
  have l: "length (HttpRequest_dump sample_get) = 51" "length (HttpResponse_dump not_found) = 254" by code_simp+
  let ?s = "([HttpRequest_dump sample_get], [])" and ?b = "\<lambda>i :: nat. replicate 100 (CHR ''x'')"
  have pre: "peer_read ?s (of_nat (length (?b 0))) = (51, HttpRequest_dump sample_get, ([], []))"
      "sint (51 :: u32) = int (length (HttpRequest_dump sample_get))" "length (HttpRequest_dump sample_get) \<le> length (?b 0)"
      "length (?b 0) < 2 ^ 63 - 1"
    by (simp_all add: l)
  obtain req where r: "initial_response ?srv req = resp_setHeader (HttpResponse_new (rq_version sample_get) True) ''Server'' (ts_name ?srv)"
      "\<forall>rt req' res s2 len2 s3. ServletDispath_handle (hs_dispath ?srv) (req, initial_response ?srv req, ([], [])) = (rt, req', res, s2) \<and>
         peer_write s2 (HttpResponse_dump res) = (len2, s3) \<and> sint len2 = int (length (HttpResponse_dump res)) \<longrightarrow>
         handle_request (\<lambda>v. None) peer_read peer_write (\<lambda>s. s) ?srv sample_raw_http (?b 0) ?s = Some (Inr (True, s3)) \<and>
         (\<not> hs_isKeepalive ?srv \<longrightarrow>
            HttpServer_handleClient (\<lambda>v. None) peer_read peer_write (\<lambda>s. s) ?srv (\<lambda>i. sample_raw_http) ?b ?s = Some (Inr s3))"
    using http_server_answers [of sample_get peer_read ?s ?b 51 "([], [])" ?srv peer_write "\<lambda>v. None" "\<lambda>s. s" "\<lambda>i. sample_raw_http",
        OF ok b h(1,2) pre] by blast
  have d: "hs_dispath ?srv = ServletDispath_new" "\<not> hs_isKeepalive ?srv" "ts_name ?srv = ''mingfwq/1.0.0''"
    by (simp_all add: HttpServer_new_def TcpServer_new_def TcpServer.defs)
  have "ServletDispath_handle (hs_dispath ?srv) (req, initial_response ?srv req, ([], [])) = (0, req, not_found, ([], []))"
    unfolding r(1) h(3) d by (simp add: ServletDispath_handle_def getMatchedServlet_def ServletDispath_new_def servlet_handle_def
        NotFoundServlet_handle_def not_found_def Let_def)
  moreover have "peer_write ([], []) (HttpResponse_dump not_found) = (254, ([], HttpResponse_dump not_found))"
    using l(2) by (simp add: peer_write_def)
  ultimately show ?thesis using r(2) d(2) l(2) by fastforce
qed

end
