(* ===== verification/Config.thy ===== *)
theory Config
  imports Std_Set
begin

text \<open>
  The configuration of \<open>mingfwq/config.h\<close> and \<open>config.cpp\<close>: variables with listeners, the registry of named
  variables and the loading of YAML documents.

  A \<open>ConfigVar<T>\<close> carries the type's name \<open>typeid(T).name()\<close> in \<open>cv_type\<close>, so that a
  \<open>dynamic_pointer_cast<ConfigVar<T>>\<close> is a comparison of that name; the values of all types are one type \<open>'v\<close>
  of the model. The variables are held by the registry and never removed: a \<open>ConfigVar::ptr\<close> is the name.
  The conversions \<open>FromStr\<close> and \<open>ToStr\<close> of a type are parameters, \<open>None\<close> when they throw a
  \<open>std::exception\<close>. Listeners are functions on the rest of the program's state \<open>'s\<close>; a listener that throws,
  or that calls back into the configuration, is not modelled. The counter \<open>s_fun_id\<close> of \<open>addListener\<close> is one
  static variable for each \<open>T\<close>. A YAML node (library yaml-cpp) is null, a scalar, a sequence or a map;
  its output with \<open>operator<<\<close> is a parameter.
\<close>

section \<open>Variables\<close>

type_synonym ('v, 's) on_change_cb = "'v \<Rightarrow> 'v \<Rightarrow> 's \<Rightarrow> 's"

record ('v, 's) ConfigVar =
  cv_name :: string
  cv_description :: string
  cv_type :: string
  cv_val :: 'v
  cv_cbs :: "(u64 \<times> ('v, 's) on_change_cb) list"

definition ConfigVar_new :: "string \<Rightarrow> string \<Rightarrow> 'v \<Rightarrow> string \<Rightarrow> ('v, 's) ConfigVar" where
  "ConfigVar_new T name default_value description =
     \<lparr>cv_name = name, cv_description = description, cv_type = T, cv_val = default_value, cv_cbs = []\<rparr>"

definition ConfigVar_toString :: "(string \<Rightarrow> 'v \<Rightarrow> string option) \<Rightarrow> ('v, 's) ConfigVar \<Rightarrow> string" where
  "ConfigVar_toString ToStr cv = (case ToStr (cv_type cv) (cv_val cv) of Some x \<Rightarrow> x | None \<Rightarrow> [])"

definition getValue :: "('v, 's) ConfigVar \<Rightarrow> 'v" where
  "getValue cv = cv_val cv"

fun call_listeners :: "(u64 \<times> ('v, 's) on_change_cb) list \<Rightarrow> 'v \<Rightarrow> 'v \<Rightarrow> 's \<Rightarrow> 's" where
  "call_listeners [] old_value new_value s = s"
| "call_listeners (i # cbs) old_value new_value s =
     call_listeners cbs old_value new_value (snd i old_value new_value s)"

definition setValue :: "('v, 's) ConfigVar \<Rightarrow> 'v \<Rightarrow> 's \<Rightarrow> ('v, 's) ConfigVar \<times> 's" where
  "setValue cv v s =
     (if v = cv_val cv then (cv, s)
      else let s' = call_listeners (cv_cbs cv) (cv_val cv) v s in (cv\<lparr>cv_val := v\<rparr>, s'))"

definition fromString ::
    "(string \<Rightarrow> string \<Rightarrow> 'v option) \<Rightarrow> ('v, 's) ConfigVar \<Rightarrow> string \<Rightarrow> 's \<Rightarrow> bool \<times> ('v, 's) ConfigVar \<times> 's" where
  "fromString FromStr cv val s =
     (case FromStr (cv_type cv) val of
        Some v \<Rightarrow> (False, setValue cv v s)
      | None \<Rightarrow> (False, cv, s))"

text \<open>\<open>addListener\<close> returns the variable, the new value of \<open>s_fun_id\<close> and the key.\<close>

definition addListener :: "u64 \<Rightarrow> ('v, 's) ConfigVar \<Rightarrow> ('v, 's) on_change_cb \<Rightarrow> ('v, 's) ConfigVar \<times> u64 \<times> u64" where
  "addListener s_fun_id cv cb =
     (let s_fun_id = s_fun_id + 1
      in (cv\<lparr>cv_cbs := map_assign (<) s_fun_id cb (cv_cbs cv)\<rparr>, s_fun_id, s_fun_id))"

definition delListener :: "('v, 's) ConfigVar \<Rightarrow> u64 \<Rightarrow> ('v, 's) ConfigVar" where
  "delListener cv key = cv\<lparr>cv_cbs := set_erase (<) fst key (cv_cbs cv)\<rparr>"

definition getListener :: "('v, 's) ConfigVar \<Rightarrow> u64 \<Rightarrow> ('v, 's) on_change_cb option" where
  "getListener cv key = map_lookup (<) key (cv_cbs cv)"

definition clearListener :: "('v, 's) ConfigVar \<Rightarrow> ('v, 's) ConfigVar" where
  "clearListener cv = cv\<lparr>cv_cbs := []\<rparr>"

section \<open>The registry\<close>

record ('v, 's) config =
  GetDatas :: "string \<rightharpoonup> ('v, 's) ConfigVar"
  s_fun_ids :: "string \<Rightarrow> u64"
  cfg_env :: 's

text \<open>The static variables at program start.\<close>

definition config_init :: "'s \<Rightarrow> ('v, 's) config" where
  "config_init e = \<lparr>GetDatas = Map.empty, s_fun_ids = (\<lambda>T. 0), cfg_env = e\<rparr>"

definition lookup_chars :: string where
  "lookup_chars = ''abcdefghijklmnopqrstuvwxyz._012345678''"

definition member_chars :: string where
  "member_chars = ''abcdefghijklmnopqrstuvwxyz._0123456789''"

definition find_first_not_of :: "string \<Rightarrow> string \<Rightarrow> bool" where
  "find_first_not_of s cs = list_ex (\<lambda>c. c \<notin> set cs) s"

definition Lookup :: "string \<Rightarrow> string \<Rightarrow> 'v \<Rightarrow> string \<Rightarrow> ('v, 's) config \<Rightarrow> (('v, 's) config \<times> string option) res" where
  "Lookup T name default_value description c =
     (case GetDatas c name of
        Some v \<Rightarrow> if cv_type v = T then Inr (c, Some name) else Inr (c, None)
      | None \<Rightarrow>
          if find_first_not_of name lookup_chars then Inl (Invalid_argument name)
          else Inr (c\<lparr>GetDatas := (GetDatas c)(name \<mapsto> ConfigVar_new T name default_value description)\<rparr>, Some name))"

definition Lookup_name :: "string \<Rightarrow> string \<Rightarrow> ('v, 's) config \<Rightarrow> string option" where
  "Lookup_name T name c =
     (case GetDatas c name of
        None \<Rightarrow> None
      | Some v \<Rightarrow> if cv_type v = T then Some name else None)"

definition LookupBase :: "string \<Rightarrow> ('v, 's) config \<Rightarrow> ('v, 's) ConfigVar option" where
  "LookupBase name c = GetDatas c name"

text \<open>The calls on a variable that the registry holds.\<close>

definition cfg_setValue :: "string \<Rightarrow> 'v \<Rightarrow> ('v, 's) config \<Rightarrow> ('v, 's) config" where
  "cfg_setValue name v c =
     (case GetDatas c name of
        None \<Rightarrow> c
      | Some cv \<Rightarrow> let (cv', s') = setValue cv v (cfg_env c)
                   in c\<lparr>GetDatas := (GetDatas c)(name \<mapsto> cv'), cfg_env := s'\<rparr>)"

definition cfg_fromString :: "(string \<Rightarrow> string \<Rightarrow> 'v option) \<Rightarrow> string \<Rightarrow> string \<Rightarrow> ('v, 's) config \<Rightarrow> ('v, 's) config" where
  "cfg_fromString FromStr name val c =
     (case GetDatas c name of
        None \<Rightarrow> c
      | Some cv \<Rightarrow> let (_, cv', s') = fromString FromStr cv val (cfg_env c)
                   in c\<lparr>GetDatas := (GetDatas c)(name \<mapsto> cv'), cfg_env := s'\<rparr>)"

definition cfg_addListener :: "string \<Rightarrow> ('v, 's) on_change_cb \<Rightarrow> ('v, 's) config \<Rightarrow> ('v, 's) config" where
  "cfg_addListener name cb c =
     (case GetDatas c name of
        None \<Rightarrow> c
      | Some cv \<Rightarrow> let (cv', n, _) = addListener (s_fun_ids c (cv_type cv)) cv cb
                   in c\<lparr>GetDatas := (GetDatas c)(name \<mapsto> cv'), s_fun_ids := (s_fun_ids c)(cv_type cv := n)\<rparr>)"

definition cfg_delListener :: "string \<Rightarrow> u64 \<Rightarrow> ('v, 's) config \<Rightarrow> ('v, 's) config" where
  "cfg_delListener name key c =
     c\<lparr>GetDatas := (GetDatas c)(name := map_option (\<lambda>cv. delListener cv key) (GetDatas c name))\<rparr>"

definition cfg_clearListener :: "string \<Rightarrow> ('v, 's) config \<Rightarrow> ('v, 's) config" where
  "cfg_clearListener name c =
     c\<lparr>GetDatas := (GetDatas c)(name := map_option clearListener (GetDatas c name))\<rparr>"

section \<open>YAML\<close>

datatype Node = Null | Scalar string | Sequence "Node list" | Map "(Node \<times> Node) list"

fun Node_Scalar :: "Node \<Rightarrow> string" where
  "Node_Scalar (Scalar s) = s"
| "Node_Scalar _ = []"

fun IsScalar :: "Node \<Rightarrow> bool" where
  "IsScalar (Scalar s) = True"
| "IsScalar _ = False"

fun ListAllMember :: "string \<Rightarrow> Node \<Rightarrow> (string \<times> Node) list" where
  "ListAllMember prefix node =
     (if find_first_not_of prefix member_chars then []
      else (prefix, node) #
        (case node of
           Map kvs \<Rightarrow> concat (map (\<lambda>kv. ListAllMember
             (if prefix = [] then Node_Scalar (fst kv) else prefix @ ''.'' @ Node_Scalar (fst kv)) (snd kv)) kvs)
         | _ \<Rightarrow> []))"

declare ListAllMember.simps [simp del]

definition tolower :: "char \<Rightarrow> char" where
  "tolower c = (let n = of_char c :: nat in if 65 \<le> n \<and> n \<le> 90 then char_of (n + 32) else c)"

definition node_text :: "(Node \<Rightarrow> string) \<Rightarrow> Node \<Rightarrow> string" where
  "node_text emit n = (if IsScalar n then Node_Scalar n else emit n)"

fun load_nodes :: "(string \<Rightarrow> string \<Rightarrow> 'v option) \<Rightarrow> (Node \<Rightarrow> string) \<Rightarrow> (string \<times> Node) list \<Rightarrow>
    ('v, 's) config \<Rightarrow> ('v, 's) config" where
  "load_nodes FromStr emit [] c = c"
| "load_nodes FromStr emit (i # is) c =
     load_nodes FromStr emit is
       (if fst i = [] then c
        else let key = map tolower (fst i)
             in case LookupBase key c of
                  Some var \<Rightarrow> cfg_fromString FromStr key (node_text emit (snd i)) c
                | None \<Rightarrow> c)"

definition LoadFromYaml :: "(string \<Rightarrow> string \<Rightarrow> 'v option) \<Rightarrow> (Node \<Rightarrow> string) \<Rightarrow> Node \<Rightarrow>
    ('v, 's) config \<Rightarrow> ('v, 's) config" where
  "LoadFromYaml FromStr emit root c = load_nodes FromStr emit (ListAllMember [] root) c"

section \<open>Listeners\<close>

interpretation idlt: strict_weak "(<) :: u64 \<Rightarrow> u64 \<Rightarrow> bool"
  by unfold_locales auto

lemma id_equiv [simp]: "idlt.equiv a b \<longleftrightarrow> a = b"
  by (auto simp: idlt.equiv_def)

lemma call_listeners_append:
  "call_listeners (as @ bs) x y s = call_listeners bs x y (call_listeners as x y s)"
  by (induction as arbitrary: s) auto

lemma less_succ_word: "(n :: u64) \<noteq> - 1 \<Longrightarrow> n < n + 1"
  by (metis inc_less_eq_triv_imp not_less)

lemma assign_last:
  assumes "\<forall>p\<in>set xs. fst p < (k :: u64)"
  shows "map_assign (<) k v xs = xs @ [(k, v)]"
proof -
  have "before_bound (<) fst k xs = xs" using assms by (auto simp: before_bound_def)
  moreover have "lower_bound (<) fst k xs = []" using assms by (auto simp: lower_bound_def)
  ultimately show ?thesis by (simp add: map_assign_def)
qed

lemma erase_last:
  assumes "\<forall>p\<in>set xs. fst p < (k :: u64)"
  shows "set_erase (<) fst k (xs @ [(k, v)]) = xs"
proof -
  have "before_bound (<) fst k (xs @ [(k, v)]) = xs"
    using assms by (auto simp: before_bound_def takeWhile_append)
  moreover have "lower_bound (<) fst k (xs @ [(k, v)]) = [(k, v)]"
    using assms by (auto simp: lower_bound_def dropWhile_append)
  ultimately show ?thesis by (simp add: set_erase_def)
qed

section \<open>Invariant of the registry\<close>

definition var_ok :: "u64 \<Rightarrow> string \<Rightarrow> ('v, 's) ConfigVar \<Rightarrow> bool" where
  "var_ok n name cv \<longleftrightarrow> cv_name cv = name \<and> \<not> find_first_not_of name lookup_chars \<and>
     idlt.ordered fst (cv_cbs cv) \<and> (\<forall>p\<in>set (cv_cbs cv). fst p \<le> n)"

definition config_inv :: "('v, 's) config \<Rightarrow> bool" where
  "config_inv c \<longleftrightarrow> (\<forall>name cv. GetDatas c name = Some cv \<longrightarrow> var_ok (s_fun_ids c (cv_type cv)) name cv)"

text \<open>What no operation takes away: a variable stays in the registry with its name, type and description.\<close>

definition keeps :: "('v, 's) config \<Rightarrow> ('v, 's) config \<Rightarrow> bool" where
  "keeps c c' \<longleftrightarrow> (\<forall>name cv. GetDatas c name = Some cv \<longrightarrow>
     (\<exists>cv'. GetDatas c' name = Some cv' \<and> cv_name cv' = cv_name cv \<and> cv_type cv' = cv_type cv \<and>
        cv_description cv' = cv_description cv))"

text \<open>
  The steps of the program on the configuration: any operation, or any change of the rest of the program's
  state. \<open>addListener\<close> is a step while its counter does not wrap.
\<close>

inductive config_step :: "(string \<Rightarrow> string \<Rightarrow> 'v option) \<Rightarrow> (Node \<Rightarrow> string) \<Rightarrow> ('v, 's) config \<Rightarrow> ('v, 's) config \<Rightarrow> bool"
  for FromStr emit where
  step_Lookup: "Lookup T name d desc c = Inr (c', r) \<Longrightarrow> config_step FromStr emit c c'"
| step_setValue: "config_step FromStr emit c (cfg_setValue name v c)"
| step_fromString: "config_step FromStr emit c (cfg_fromString FromStr name val c)"
| step_addListener: "(\<And>cv. GetDatas c name = Some cv \<Longrightarrow> s_fun_ids c (cv_type cv) \<noteq> - 1) \<Longrightarrow>
    config_step FromStr emit c (cfg_addListener name cb c)"
| step_delListener: "config_step FromStr emit c (cfg_delListener name key c)"
| step_clearListener: "config_step FromStr emit c (cfg_clearListener name c)"
| step_LoadFromYaml: "config_step FromStr emit c (LoadFromYaml FromStr emit root c)"
| step_env: "config_step FromStr emit c (c\<lparr>cfg_env := e\<rparr>)"

lemma keeps_refl [simp]: "keeps c c"
  by (simp add: keeps_def)

lemma keeps_trans: "keeps a b \<Longrightarrow> keeps b c \<Longrightarrow> keeps a c"
  unfolding keeps_def by metis

lemma setValue_fields:
  assumes "setValue cv v s = (cv', s')"
  shows "cv_name cv' = cv_name cv" "cv_type cv' = cv_type cv" "cv_description cv' = cv_description cv"
    "cv_cbs cv' = cv_cbs cv" "cv_val cv' = v"
  using assms by (auto simp: setValue_def Let_def split: if_splits)

lemma update_ok:
  assumes "config_inv c" "GetDatas c name = Some cv" "cv_name cv' = cv_name cv" "cv_type cv' = cv_type cv"
    "cv_description cv' = cv_description cv" "cv_cbs cv' = cv_cbs cv"
  shows "config_inv (c\<lparr>GetDatas := (GetDatas c)(name \<mapsto> cv'), cfg_env := s\<rparr>) \<and>
    keeps c (c\<lparr>GetDatas := (GetDatas c)(name \<mapsto> cv'), cfg_env := s\<rparr>)"
proof -
  have "var_ok n x cv' = var_ok n x cv" for n x using assms(3,6) by (simp add: var_ok_def)
  then show ?thesis using assms by (auto simp: config_inv_def keeps_def)
qed

lemma cfg_setValue_ok:
  assumes "config_inv c"
  shows "config_inv (cfg_setValue name v c) \<and> keeps c (cfg_setValue name v c)"
proof (cases "GetDatas c name")
  case (Some cv)
  obtain cv' s' where "setValue cv v (cfg_env c) = (cv', s')" by fastforce
  then show ?thesis using update_ok [OF assms Some setValue_fields(1-4)] Some by (simp add: cfg_setValue_def)
qed (use assms in \<open>simp add: cfg_setValue_def\<close>)

lemma cfg_fromString_alt:
  "cfg_fromString f name x c =
     (case GetDatas c name of None \<Rightarrow> c
      | Some cv \<Rightarrow> (case f (cv_type cv) x of None \<Rightarrow> c | Some v \<Rightarrow> cfg_setValue name v c))"
  by (auto simp: cfg_fromString_def fromString_def cfg_setValue_def fun_upd_idem split: option.splits)

lemma cfg_fromString_ok:
  "config_inv c \<Longrightarrow> config_inv (cfg_fromString f name x c) \<and> keeps c (cfg_fromString f name x c)"
  by (simp add: cfg_fromString_alt cfg_setValue_ok split: option.split)

lemma load_nodes_ok:
  "config_inv c \<Longrightarrow> config_inv (load_nodes f emit is c) \<and> keeps c (load_nodes f emit is c)"
proof (induction "is" arbitrary: c)
  case (Cons i "is")
  let ?c = "if fst i = [] then c else case LookupBase (map tolower (fst i)) c of
     Some var \<Rightarrow> cfg_fromString f (map tolower (fst i)) (node_text emit (snd i)) c | None \<Rightarrow> c"
  have "config_inv ?c \<and> keeps c ?c" using Cons.prems cfg_fromString_ok by (auto split: option.splits)
  then have "config_inv (load_nodes f emit is ?c) \<and> keeps c (load_nodes f emit is ?c)"
    using Cons.IH keeps_trans by blast
  then show ?case by (simp add: Let_def cong: if_cong)
qed simp

lemma cfg_addListener_ok:
  assumes "config_inv c" "\<And>cv. GetDatas c name = Some cv \<Longrightarrow> s_fun_ids c (cv_type cv) \<noteq> - 1"
  shows "config_inv (cfg_addListener name cb c) \<and> keeps c (cfg_addListener name cb c)"
proof (cases "GetDatas c name")
  case (Some cv)
  let ?n = "s_fun_ids c (cv_type cv)"
  have n: "?n < ?n + 1" using assms(2) [OF Some] by (rule less_succ_word)
  have o: "var_ok ?n name cv" using assms(1) Some by (simp add: config_inv_def)
  have "\<forall>p\<in>set (cv_cbs cv). fst p < ?n + 1" using o n unfolding var_ok_def by (meson le_less_trans)
  then have "cv_cbs (cv\<lparr>cv_cbs := map_assign (<) (?n + 1) cb (cv_cbs cv)\<rparr>) = cv_cbs cv @ [(?n + 1, cb)]"
    by (simp add: assign_last)
  then have "var_ok (?n + 1) name (cv\<lparr>cv_cbs := map_assign (<) (?n + 1) cb (cv_cbs cv)\<rparr>)"
    using o n by (fastforce simp: var_ok_def idlt.ordered_append idlt.ordered_Cons)
  moreover have "var_ok (?n + 1) x w" if "var_ok ?n x w" for x and w :: "('a, 'b) ConfigVar"
    using that n unfolding var_ok_def by (meson less_imp_le order_trans)
  moreover have "var_ok ?n x w" if "GetDatas c x = Some w" "cv_type w = cv_type cv" for x w
    using assms(1) that unfolding config_inv_def by metis
  ultimately show ?thesis using assms(1) Some
    by (auto simp: cfg_addListener_def addListener_def Let_def config_inv_def keeps_def)
qed (use assms(1) in \<open>simp add: cfg_addListener_def\<close>)

lemma cfg_drop_ok:
  assumes "config_inv c"
  shows "config_inv (cfg_delListener name key c) \<and> keeps c (cfg_delListener name key c)"
    "config_inv (cfg_clearListener name c) \<and> keeps c (cfg_clearListener name c)"
  using assms idlt.set_erase_spec
  by (fastforce simp: config_inv_def keeps_def cfg_delListener_def cfg_clearListener_def delListener_def
      clearListener_def var_ok_def)+

lemma Lookup_ok:
  assumes "config_inv c" "Lookup T name d desc c = Inr (c', r)"
  shows "config_inv c' \<and> keeps c c'"
proof (cases "GetDatas c name")
  case None
  then have "c' = c\<lparr>GetDatas := (GetDatas c)(name \<mapsto> ConfigVar_new T name d desc)\<rparr>"
    and "\<not> find_first_not_of name lookup_chars" using assms(2) by (simp_all add: Lookup_def split: if_splits)
  moreover from this have "var_ok n name (ConfigVar_new T name d desc :: ('a, 'b) ConfigVar)" for n
    by (simp add: var_ok_def ConfigVar_new_def)
  ultimately show ?thesis using assms(1) None by (auto simp: config_inv_def keeps_def)
qed (use assms in \<open>auto simp: Lookup_def split: if_splits\<close>)

lemma config_step_ok: "config_step f emit c c' \<Longrightarrow> config_inv c \<Longrightarrow> config_inv c' \<and> keeps c c'"
proof (induction rule: config_step.induct)
  case (step_Lookup T name d desc c c' r)
  then show ?case by (simp add: Lookup_ok [of c T name d desc c' r])
next
  case (step_addListener c name cb)
  then show ?case by (simp add: cfg_addListener_ok [of c name cb])
next
  case (step_env c e)
  then show ?case by (simp add: config_inv_def keeps_def)
qed (simp_all add: cfg_setValue_ok cfg_fromString_ok cfg_drop_ok LoadFromYaml_def load_nodes_ok)

lemma config_steps_ok: "(config_step f emit)\<^sup>*\<^sup>* c c' \<Longrightarrow> config_inv c \<Longrightarrow> config_inv c' \<and> keeps c c'"
  by (induction rule: rtranclp_induct) (auto dest: config_step_ok intro: keeps_trans)

section \<open>Loading\<close>

lemma tolower_member: "c \<in> set member_chars \<Longrightarrow> tolower c = c"
proof -
  have "\<forall>c\<in>set member_chars. tolower c = c" by code_simp
  then show "c \<in> set member_chars \<Longrightarrow> tolower c = c" by blast
qed

lemma members_valid: "(k, x) \<in> set (ListAllMember p n) \<Longrightarrow> set k \<subseteq> set member_chars"
proof (induction p n rule: ListAllMember.induct)
  case (1 p n)
  have "set p \<subseteq> set member_chars" if "\<not> find_first_not_of p member_chars"
    using that by (auto simp: find_first_not_of_def list_ex_iff)
  moreover have "set k \<subseteq> set member_chars"
    if "n = Map kvs" "\<not> find_first_not_of p member_chars" "kv \<in> set kvs"
      "(k, x) \<in> set (ListAllMember (if p = [] then Node_Scalar (fst kv) else p @ ''.'' @ Node_Scalar (fst kv)) (snd kv))"
    for kvs kv using "1.IH" [OF that(2,1,3)] that(4) by blast
  ultimately show ?case using "1.prems" ListAllMember.simps [of p n]
    by (fastforce split: if_splits Node.splits)
qed

lemma tolower_key: "(k, x) \<in> set (ListAllMember p n) \<Longrightarrow> map tolower k = k"
  by (rule map_idI) (use members_valid tolower_member in blast)

text \<open>The values that the members of a document with the key \<open>name\<close> give to a variable of type \<open>T\<close>.\<close>

fun loaded :: "(string \<Rightarrow> string \<Rightarrow> 'v option) \<Rightarrow> (Node \<Rightarrow> string) \<Rightarrow> string \<Rightarrow> string \<Rightarrow>
    (string \<times> Node) list \<Rightarrow> 'v list" where
  "loaded FromStr emit T name [] = []"
| "loaded FromStr emit T name (i # is) =
     (case if fst i = name then FromStr T (node_text emit (snd i)) else None of
        Some v \<Rightarrow> v # loaded FromStr emit T name is
      | None \<Rightarrow> loaded FromStr emit T name is)"

lemma cfg_fromString_lookup:
  "GetDatas (cfg_fromString f k x c) n =
     (case GetDatas c n of None \<Rightarrow> None
      | Some cv \<Rightarrow> Some (if n = k then (case f (cv_type cv) x of None \<Rightarrow> cv | Some v \<Rightarrow> cv\<lparr>cv_val := v\<rparr>) else cv))"
  by (auto simp: cfg_fromString_alt cfg_setValue_def setValue_def Let_def split: option.splits)

lemma load_nodes_value:
  assumes "\<forall>i\<in>set is. map tolower (fst i) = fst i" "name \<noteq> []"
  shows "GetDatas (load_nodes f emit is c) name =
     map_option (\<lambda>cv. cv\<lparr>cv_val := last (cv_val cv # loaded f emit (cv_type cv) name is)\<rparr>) (GetDatas c name)"
  using assms(1)
proof (induction "is" arbitrary: c)
  case Nil
  then show ?case by (cases "GetDatas c name") simp_all
next
  case (Cons i "is")
  have "map tolower (fst i) = fst i" using Cons.prems by simp
  then show ?case using Cons assms(2)
    by (cases "GetDatas c name")
      (auto simp: Let_def LookupBase_def cfg_fromString_lookup split: option.splits)
qed

section \<open>Properties\<close>

lemma config_inv_init: "config_inv (config_init e)"
  by (simp add: config_inv_def config_init_def)

lemma ordered_ids_distinct: "idlt.ordered fst xs \<Longrightarrow> distinct (map fst xs)"
  by (induction xs) (auto simp: idlt.ordered_Cons)

text \<open>
  C29: The registry never loses or replaces a variable. In every state reachable from program start, and
  whatever operations follow (lookups, changes of values, listeners, documents loaded), a variable that is
  registered stays registered under its name with its type; a further \<open>Lookup\<close> with that type returns it and
  ignores the default value, one with another type returns null, and neither changes anything. Its name has
  only the characters that \<open>Lookup\<close> accepts, and the keys of its listeners are distinct.
\<close>

theorem config_registry_stable:
  assumes "(config_step FromStr emit)\<^sup>*\<^sup>* (config_init e) c" "(config_step FromStr emit)\<^sup>*\<^sup>* c c'"
    "GetDatas c name = Some cv"
  shows "\<exists>cv'. GetDatas c' name = Some cv' \<and> cv_name cv' = name \<and> cv_type cv' = cv_type cv \<and>
     cv_description cv' = cv_description cv \<and> set name \<subseteq> set lookup_chars \<and> distinct (map fst (cv_cbs cv')) \<and>
     Lookup T name d desc c' = Inr (c', if T = cv_type cv then Some name else None) \<and>
     Lookup_name T name c' = (if T = cv_type cv then Some name else None)"
proof -
  have i: "config_inv c'" "keeps c c'"
    using config_steps_ok [OF assms(2)] config_steps_ok [OF assms(1) config_inv_init] by blast+
  obtain cv' where v: "GetDatas c' name = Some cv'" "cv_type cv' = cv_type cv" "cv_description cv' = cv_description cv"
    using i(2) assms(3) unfolding keeps_def by blast
  have "var_ok (s_fun_ids c' (cv_type cv')) name cv'" using i(1) v(1) by (simp add: config_inv_def)
  then have "cv_name cv' = name" "set name \<subseteq> set lookup_chars" "distinct (map fst (cv_cbs cv'))"
    by (auto simp: var_ok_def find_first_not_of_def list_ex_iff ordered_ids_distinct)
  then show ?thesis using v by (auto simp: Lookup_def Lookup_name_def)
qed

theorem config_registry_stable_witness:
  "\<exists>c cv'. GetDatas (LoadFromYaml (\<lambda>T v. Some (length v)) (\<lambda>n. []) (Map [(Scalar ''a'', Scalar ''xyz'')]) c) ''a'' = Some cv' \<and>
     cv_type (cv' :: (nat, unit) ConfigVar) = ''int''"
proof -
  let ?f = "\<lambda>T v. Some (length v)" let ?e = "\<lambda>n. []" let ?root = "Map [(Scalar ''a'', Scalar ''xyz'')]"
  let ?i = "config_init () :: (nat, unit) config"
  let ?c = "?i\<lparr>GetDatas := [''a'' \<mapsto> ConfigVar_new ''int'' ''a'' 0 []]\<rparr>"
  have "\<not> find_first_not_of ''a'' lookup_chars" by code_simp
  then have "Lookup ''int'' ''a'' 0 [] ?i = Inr (?c, Some ''a'')" by (simp add: Lookup_def config_init_def)
  then have "(config_step ?f ?e)\<^sup>*\<^sup>* ?i ?c" by (blast intro: config_step.step_Lookup)
  moreover have "(config_step ?f ?e)\<^sup>*\<^sup>* ?c (LoadFromYaml ?f ?e ?root ?c)"
    by (blast intro: config_step.step_LoadFromYaml)
  moreover have "GetDatas ?c ''a'' = Some (ConfigVar_new ''int'' ''a'' 0 [])" by simp
  ultimately show ?thesis using config_registry_stable [of ?f ?e "()" ?c _ "''a''"]
    by (fastforce simp: ConfigVar_new_def)
qed

text \<open>
  C30: Loading a document. A registered variable takes, of the members of the document whose dotted path is its
  name, the last that its type can convert, and keeps its value when there is none; no variable is added
  and nothing but values changes. The paths that are considered have only the characters \<open>a-z._0-9\<close>: a
  member whose path has another character, an upper-case letter for instance, is ignored together with
  everything below it, so that the conversion of keys to lower case in \<open>LoadFromYaml\<close> changes no key.
\<close>

theorem LoadFromYaml_behaviour:
  assumes "name \<noteq> []"
  shows "GetDatas (LoadFromYaml FromStr emit root c) name =
       map_option (\<lambda>cv. cv\<lparr>cv_val := last (cv_val cv # loaded FromStr emit (cv_type cv) name (ListAllMember [] root))\<rparr>)
         (GetDatas c name) \<and>
     (\<forall>(k, x)\<in>set (ListAllMember [] root). set k \<subseteq> set member_chars \<and> map tolower k = k)"
proof -
  have "\<forall>i\<in>set (ListAllMember [] root). map tolower (fst i) = fst i" by (auto dest: tolower_key)
  from load_nodes_value [OF this assms] show ?thesis
    by (auto simp: LoadFromYaml_def tolower_key dest: members_valid)
qed

theorem LoadFromYaml_behaviour_witness:
  "GetDatas (LoadFromYaml (\<lambda>T v. Some (length v)) (\<lambda>n. []) (Map [(Scalar ''a'', Map [(Scalar ''b'', Scalar ''xyz'')])])
      ((config_init () :: (nat, unit) config)\<lparr>GetDatas := [''a.b'' \<mapsto> ConfigVar_new ''int'' ''a.b'' 0 []]\<rparr>)) ''a.b'' =
   Some (ConfigVar_new ''int'' ''a.b'' 3 [])"
proof -
  let ?r = "Map [(Scalar ''a'', Map [(Scalar ''b'', Scalar ''xyz'')])]"
  have "loaded (\<lambda>T v. Some (length v)) (\<lambda>n. []) ''int'' ''a.b'' (ListAllMember [] ?r) = [3]" by code_simp
  then show ?thesis
    using LoadFromYaml_behaviour [of "''a.b''" "\<lambda>T v. Some (length v)" "\<lambda>n. []" ?r
        "(config_init () :: (nat, unit) config)\<lparr>GetDatas := [''a.b'' \<mapsto> ConfigVar_new ''int'' ''a.b'' 0 []]\<rparr>"]
    by (simp add: ConfigVar_new_def)
qed

text \<open>
  Listeners. While the counter has not wrapped, \<open>addListener\<close> gives a fresh key and puts the listener behind
  all others of the variable; a later change of the value calls every listener once, in the order of their
  keys, with the old and the new value, before the value changes; setting the value it has calls none.
  \<open>delListener\<close> with the key undoes the addition. \<open>fromString\<close> returns false also when it succeeds.
\<close>

theorem listener_behaviour:
  fixes cv :: "('v, 's) ConfigVar"
  assumes "var_ok n name cv" "n \<noteq> - 1"
  shows "\<exists>cv'. addListener n cv cb = (cv', n + 1, n + 1) \<and> getListener cv (n + 1) = None \<and>
     getListener cv' (n + 1) = Some cb \<and> (\<forall>k. k \<noteq> n + 1 \<longrightarrow> getListener cv' k = getListener cv k) \<and>
     delListener cv' (n + 1) = cv \<and> var_ok (n + 1) name cv' \<and>
     setValue cv' v s = (if v = getValue cv then (cv', s)
       else (cv'\<lparr>cv_val := v\<rparr>, cb (getValue cv) v (snd (setValue cv v s)))) \<and>
     fst (fromString FromStr cv' txt s) = False"
proof -
  let ?cv = "cv\<lparr>cv_cbs := cv_cbs cv @ [(n + 1, cb)]\<rparr>"
  have l: "\<forall>p\<in>set (cv_cbs cv). fst p < n + 1"
    using assms(1) less_succ_word [OF assms(2)] unfolding var_ok_def by (meson le_less_trans)
  have o: "idlt.ordered fst (cv_cbs cv)" using assms(1) by (simp add: var_ok_def)
  note a = assign_last [OF l, of cb] and e = erase_last [OF l, of cb]
  have "getListener ?cv k = (if k = n + 1 then Some cb else getListener cv k)" for k
    using idlt.map_assign_spec [OF o, where k = "n + 1" and v = cb and k' = k] by (auto simp: getListener_def a)
  moreover have "getListener cv (n + 1) = None" using idlt.set_find_None_iff [OF o] l
    by (auto simp: getListener_def map_lookup_def)
  moreover have "var_ok (n + 1) name ?cv"
    using assms(1) l by (auto simp: var_ok_def idlt.ordered_append idlt.ordered_Cons intro: less_imp_le)
  ultimately show ?thesis using a e
    by (intro exI [of _ ?cv]) (auto simp: addListener_def delListener_def setValue_def getValue_def
        call_listeners_append fromString_def Let_def split: option.split)
qed

theorem listener_behaviour_witness:
  "snd (setValue (fst (addListener 4 (ConfigVar_new ''int'' ''a'' 1 []) (\<lambda>x y (s :: nat). s + x + y))) (2 :: nat) 0) = 3"
proof -
  have "\<not> find_first_not_of ''a'' lookup_chars" by code_simp
  then have "var_ok 4 ''a'' (ConfigVar_new ''int'' ''a'' 1 [] :: (nat, nat) ConfigVar)"
    by (simp add: var_ok_def ConfigVar_new_def)
  then obtain cv' where "addListener 4 (ConfigVar_new ''int'' ''a'' 1 []) (\<lambda>x y s. s + x + y) = (cv', 5, 5)"
    "setValue cv' 2 0 = (cv'\<lparr>cv_val := 2\<rparr>, snd (setValue (ConfigVar_new ''int'' ''a'' 1 [] :: (nat, nat) ConfigVar) 2 0) + 1 + 2)"
    using listener_behaviour [where n = 4 and cb = "\<lambda>x y s. s + x + y" and v = 2 and s = 0 and FromStr = "\<lambda>_ _. None"]
    by (fastforce simp: getValue_def ConfigVar_new_def)
  then show ?thesis by (simp add: setValue_def ConfigVar_new_def)
qed

end
