(* ===== verification/Log_Format.thy ===== *)
theory Log_Format
  imports Cstring
begin

text \<open>
  Levels, events and formatters of \<open>mingfwq/log.h\<close> and \<open>log.cpp\<close>: the conversions of \<open>LogLevel\<close>, the items a
  pattern consists of, \<open>LogFormatter::init\<close>, which splits a pattern into items, and \<open>LogFormatter::format\<close>.

  The loops of \<open>init\<close> run over positions of the pattern: \<open>fmt_scan\<close> is the inner \<open>while\<close>, \<open>init_loop\<close> the outer
  \<open>for\<close>, whose termination rests on the inner loop moving forward. \<open>localtime_r\<close> with \<open>strftime\<close> is a parameter,
  the text in the buffer for a format and a time. A formatter never changes after its construction, so a shared
  pointer to it is its value. The level that \<open>LogIniter\<close> makes with the cast \<open>(LogLevel::Level)100\<close> is a
  constructor of its own.
\<close>

section \<open>Levels\<close>

datatype Level = UNKNOW | DEBUG | INFO | WARN | ERROR | FATAL | Level_100

fun level_value :: "Level \<Rightarrow> nat" where
  "level_value UNKNOW = 0"
| "level_value DEBUG = 1"
| "level_value INFO = 2"
| "level_value WARN = 3"
| "level_value ERROR = 4"
| "level_value FATAL = 5"
| "level_value Level_100 = 100"

lemma level_value_inj: "level_value a = level_value b \<longleftrightarrow> a = b"
  by (cases a; cases b) simp_all

instantiation Level :: linorder
begin

definition less_eq_Level :: "Level \<Rightarrow> Level \<Rightarrow> bool" where
  "less_eq_Level a b \<longleftrightarrow> level_value a \<le> level_value b"

definition less_Level :: "Level \<Rightarrow> Level \<Rightarrow> bool" where
  "less_Level a b \<longleftrightarrow> level_value a < level_value b"

instance
  by standard (auto simp: less_eq_Level_def less_Level_def level_value_inj)

end

fun LogLevel_ToString :: "Level \<Rightarrow> string" where
  "LogLevel_ToString DEBUG = ''DEBUG''"
| "LogLevel_ToString INFO = ''INFO''"
| "LogLevel_ToString WARN = ''WARN''"
| "LogLevel_ToString ERROR = ''ERROR''"
| "LogLevel_ToString FATAL = ''FATAL''"
| "LogLevel_ToString _ = ''UNKOWN''"

definition LogLevel_FromString :: "string \<Rightarrow> Level" where
  "LogLevel_FromString str =
     (if str = ''debug'' then DEBUG
      else if str = ''info'' then INFO
      else if str = ''warn'' then WARN
      else if str = ''error'' then ERROR
      else if str = ''fatal'' then FATAL
      else if str = ''DEBUG'' then DEBUG
      else if str = ''INFO'' then INFO
      else if str = ''WARN'' then WARN
      else if str = ''ERROR'' then ERROR
      else if str = ''FATAL'' then FATAL
      else UNKNOW)"

section \<open>Events\<close>

text \<open>\<open>ev_logger\<close> identifies the logger; \<open>ev_fun\<close> says whether \<open>m_fun\<close> holds a function.\<close>

record LogEvent =
  ev_file :: string
  ev_line :: int
  ev_elapse :: u32
  ev_threadId :: u32
  ev_fiberId :: u32
  ev_time :: u64
  ev_threadName :: string
  ev_ss :: string
  ev_logger :: nat
  ev_level :: Level
  ev_isBan :: bool
  ev_fun :: bool
  ev_aa :: string

definition LogEvent_new ::
    "nat \<Rightarrow> Level \<Rightarrow> string \<Rightarrow> int \<Rightarrow> u32 \<Rightarrow> u32 \<Rightarrow> u32 \<Rightarrow> u64 \<Rightarrow> string \<Rightarrow> LogEvent" where
  "LogEvent_new logger level file line elapse thread_id fiber_id time thread_name =
     \<lparr>ev_file = file, ev_line = line, ev_elapse = elapse, ev_threadId = thread_id, ev_fiberId = fiber_id,
      ev_time = time, ev_threadName = thread_name, ev_ss = [], ev_logger = logger, ev_level = level,
      ev_isBan = False, ev_fun = False, ev_aa = []\<rparr>"

text \<open>
  The constructor with a limit: \<open>fn\<close> is \<open>None\<close> for an empty \<open>std::function\<close>, whose call throws
  \<open>std::bad_function_call\<close>, and otherwise the value its call in \<open>setisBan\<close> returns.
\<close>

definition setisBan :: "bool option \<Rightarrow> LogEvent \<Rightarrow> LogEvent res" where
  "setisBan fn ev =
     (case fn of
        None \<Rightarrow> Inl (Logic_error ''bad_function_call'')
      | Some r \<Rightarrow> if \<not> r then Inr (ev\<lparr>ev_isBan := False\<rparr>) else Inr (ev\<lparr>ev_isBan := True\<rparr>))"

definition LogEvent_new_limit ::
    "nat \<Rightarrow> Level \<Rightarrow> string \<Rightarrow> int \<Rightarrow> u32 \<Rightarrow> u32 \<Rightarrow> u32 \<Rightarrow> u64 \<Rightarrow> string \<Rightarrow> bool option \<Rightarrow> LogEvent res" where
  "LogEvent_new_limit logger level file line elapse thread_id fiber_id time thread_name fn =
     setisBan fn
       ((LogEvent_new logger level file line elapse thread_id fiber_id time thread_name)\<lparr>ev_fun := fn \<noteq> None\<rparr>)"

text \<open>The stream that \<open>getLimitSS\<close> and \<open>LogEventWrap::getSS\<close> return, and text written to it.\<close>

datatype event_stream = SS | AA

definition getLimitSS :: "LogEvent \<Rightarrow> event_stream" where
  "getLimitSS ev = (if ev_isBan ev \<and> ev_fun ev then AA else SS)"

definition LogEventWrap_getSS :: "LogEvent \<Rightarrow> event_stream" where
  "LogEventWrap_getSS ev = (if ev_isBan ev then getLimitSS ev else SS)"

fun stream_write :: "event_stream \<Rightarrow> string \<Rightarrow> LogEvent \<Rightarrow> LogEvent" where
  "stream_write SS s ev = ev\<lparr>ev_ss := ev_ss ev @ s\<rparr>"
| "stream_write AA s ev = ev\<lparr>ev_aa := ev_aa ev @ s\<rparr>"

text \<open>\<open>LogEvent::format\<close>: \<open>out\<close> is what \<open>vasprintf\<close> gives, \<open>None\<close> when it returns -1.\<close>

definition LogEvent_format :: "string option \<Rightarrow> LogEvent \<Rightarrow> LogEvent" where
  "LogEvent_format out ev = (case out of Some s \<Rightarrow> ev\<lparr>ev_ss := ev_ss ev @ s\<rparr> | None \<Rightarrow> ev)"

section \<open>Format items\<close>

datatype FormatItem =
    MessageFormatItem
  | LevelFormatItem
  | ElapseFormatItem
  | NameFormatItem
  | ThreadNameFormatItem
  | ThreadIdFormatItem
  | FiberIdFormatItem
  | DateTimeFormatItem string
  | FilenameFormatItem
  | LineFormatItem
  | NewLineFormatItem
  | StringFormatItem string
  | TabFormatItem

definition DateTimeFormatItem_new :: "string \<Rightarrow> FormatItem" where
  "DateTimeFormatItem_new format =
     DateTimeFormatItem (if format = [] then ''%Y-%m-%d %H:%M:%S '' else format)"

text \<open>\<open>strftime fmt t\<close> stands for \<open>localtime_r\<close> and \<open>strftime\<close>; \<open>name_of\<close> gives the name of a logger.\<close>

fun item_format ::
    "(string \<Rightarrow> u64 \<Rightarrow> string) \<Rightarrow> (nat \<Rightarrow> string) \<Rightarrow> Level \<Rightarrow> LogEvent \<Rightarrow> FormatItem \<Rightarrow> string" where
  "item_format strftime name_of level ev MessageFormatItem = ev_ss ev"
| "item_format strftime name_of level ev LevelFormatItem = LogLevel_ToString level"
| "item_format strftime name_of level ev ElapseFormatItem = nat_to_string (unat (ev_elapse ev))"
| "item_format strftime name_of level ev NameFormatItem = name_of (ev_logger ev)"
| "item_format strftime name_of level ev ThreadNameFormatItem = ev_threadName ev"
| "item_format strftime name_of level ev ThreadIdFormatItem = nat_to_string (unat (ev_threadId ev))"
| "item_format strftime name_of level ev FiberIdFormatItem = nat_to_string (unat (ev_fiberId ev))"
| "item_format strftime name_of level ev (DateTimeFormatItem m_format) = strftime (c_str m_format) (ev_time ev)"
| "item_format strftime name_of level ev FilenameFormatItem = c_str (ev_file ev)"
| "item_format strftime name_of level ev LineFormatItem = int_to_string (ev_line ev)"
| "item_format strftime name_of level ev NewLineFormatItem = [CHR 0x0A]"
| "item_format strftime name_of level ev (StringFormatItem m_string) = m_string"
| "item_format strftime name_of level ev TabFormatItem = [CHR 0x09]"

definition s_format_items :: "string \<Rightarrow> (string \<Rightarrow> FormatItem) option" where
  "s_format_items str =
     (if str = ''m'' then Some (\<lambda>fmt. MessageFormatItem)
      else if str = ''p'' then Some (\<lambda>fmt. LevelFormatItem)
      else if str = ''r'' then Some (\<lambda>fmt. ElapseFormatItem)
      else if str = ''c'' then Some (\<lambda>fmt. NameFormatItem)
      else if str = ''t'' then Some (\<lambda>fmt. ThreadIdFormatItem)
      else if str = ''n'' then Some (\<lambda>fmt. NewLineFormatItem)
      else if str = ''d'' then Some DateTimeFormatItem_new
      else if str = ''f'' then Some (\<lambda>fmt. FilenameFormatItem)
      else if str = ''l'' then Some (\<lambda>fmt. LineFormatItem)
      else if str = ''T'' then Some (\<lambda>fmt. TabFormatItem)
      else if str = ''F'' then Some (\<lambda>fmt. FiberIdFormatItem)
      else if str = ''N'' then Some (\<lambda>fmt. ThreadNameFormatItem)
      else None)"

section \<open>Patterns\<close>

definition isalpha :: "char \<Rightarrow> bool" where
  "isalpha c = (let n = of_char c :: nat in 65 \<le> n \<and> n \<le> 90 \<or> 97 \<le> n \<and> n \<le> 122)"

definition substr :: "string \<Rightarrow> nat \<Rightarrow> nat \<Rightarrow> string" where
  "substr s p n = take n (drop p s)"

text \<open>The inner loop returns \<open>n\<close>, \<open>fmt_status\<close> (\<open>True\<close> for 1), \<open>str\<close> and \<open>fmt\<close>.\<close>

function fmt_scan ::
    "string \<Rightarrow> nat \<Rightarrow> nat \<Rightarrow> bool \<Rightarrow> nat \<Rightarrow> string \<Rightarrow> string \<Rightarrow> nat \<times> bool \<times> string \<times> string" where
  "fmt_scan pat i n fmt_status fmt_begin str fmt =
     (if n < length pat then
        (let c = pat ! n in
         if \<not> fmt_status \<and> \<not> isalpha c \<and> c \<noteq> CHR ''{'' \<and> c \<noteq> CHR ''}'' then
           (n, fmt_status, substr pat (i + 1) (n - i - 1), fmt)
         else if \<not> fmt_status \<and> c = CHR ''{'' then
           fmt_scan pat i (n + 1) True n (substr pat (i + 1) (n - i - 1)) fmt
         else if fmt_status \<and> c = CHR ''}'' then
           (n + 1, False, str, substr pat (fmt_begin + 1) (n - fmt_begin - 1))
         else
           fmt_scan pat i (n + 1) fmt_status fmt_begin
             (if n + 1 = length pat \<and> str = [] then drop (i + 1) pat else str) fmt)
      else (n, fmt_status, str, fmt))"
  by auto
termination by (relation "measure (\<lambda>(pat, i, n, _). length pat - n)") auto

declare fmt_scan.simps [simp del]

lemma fmt_scan_forward_fst: "n \<le> fst (fmt_scan pat i n st b str fmt)"
proof (induction pat i n st b str fmt rule: fmt_scan.induct)
  case (1 pat i n st b str fmt)
  show ?case
    by (subst fmt_scan.simps) (use 1 in \<open>auto simp: Let_def intro: Suc_leD\<close>)
qed

lemma fmt_scan_forward: "fmt_scan pat i n st b str fmt = (n', r) \<Longrightarrow> n \<le> n'"
  using fmt_scan_forward_fst [of n pat i st b str fmt] by simp

text \<open>An entry of \<open>vec\<close>: the text or name, the format, and whether it names an item (type 1).\<close>

type_synonym fmt_entry = "string \<times> string \<times> bool"

function init_loop ::
    "string \<Rightarrow> nat \<Rightarrow> fmt_entry list \<Rightarrow> string \<Rightarrow> bool \<Rightarrow> fmt_entry list \<times> string \<times> bool" where
  "init_loop pat i vec nstr err =
     (if i < length pat then
        if pat ! i \<noteq> CHR ''%'' then init_loop pat (i + 1) vec (nstr @ [pat ! i]) err
        else if i + 1 < length pat \<and> pat ! (i + 1) = CHR ''%'' then
          init_loop pat (i + 1) vec (nstr @ ''%'') err
        else
          (let (n, fmt_status, str, fmt) = fmt_scan pat i (i + 1) False 0 [] []
           in if \<not> fmt_status then
                init_loop pat n ((if nstr \<noteq> [] then vec @ [(nstr, [], False)] else vec) @ [(str, fmt, True)]) [] err
              else
                init_loop pat (i + 1) (vec @ [(''<pattern_error>'', fmt, False)]) nstr True)
      else (vec, nstr, err))"
  by auto
termination
  by (relation "measure (\<lambda>(pat, i, _). length pat - i)") (auto dest!: fmt_scan_forward [OF sym])

declare init_loop.simps [simp del]

fun make_items :: "fmt_entry list \<Rightarrow> FormatItem list \<times> bool" where
  "make_items [] = ([], False)"
| "make_items ((str, fmt, item) # vec) =
     (let (items, err) = make_items vec
      in if \<not> item then (StringFormatItem str # items, err)
         else case s_format_items str of
                None \<Rightarrow> (StringFormatItem (''<<error_format %'' @ str @ ''>>'') # items, True)
              | Some mk \<Rightarrow> (mk fmt # items, err))"

record LogFormatter =
  m_pattern :: string
  m_items :: "FormatItem list"
  m_error :: bool

definition pattern_vec :: "string \<Rightarrow> fmt_entry list \<times> bool" where
  "pattern_vec pat =
     (let (vec, nstr, err) = init_loop pat 0 [] [] False
      in (if nstr \<noteq> [] then vec @ [(nstr, [], False)] else vec, err))"

definition LogFormatter_init :: "LogFormatter \<Rightarrow> LogFormatter" where
  "LogFormatter_init f =
     (let (vec, err) = pattern_vec (m_pattern f);
          (items, err') = make_items vec
      in f\<lparr>m_items := m_items f @ items, m_error := m_error f \<or> err \<or> err'\<rparr>)"

definition LogFormatter_new :: "string \<Rightarrow> LogFormatter" where
  "LogFormatter_new pattern = LogFormatter_init \<lparr>m_pattern = pattern, m_items = [], m_error = False\<rparr>"

definition LogFormatter_format ::
    "(string \<Rightarrow> u64 \<Rightarrow> string) \<Rightarrow> (nat \<Rightarrow> string) \<Rightarrow> LogFormatter \<Rightarrow> Level \<Rightarrow> LogEvent \<Rightarrow> string" where
  "LogFormatter_format strftime name_of f level ev =
     concat (map (item_format strftime name_of level ev) (m_items f))"

section \<open>Well-formed patterns\<close>

text \<open>
  A pattern written as the list of what it means: literal text followed by a number of percent signs, or an
  item with its name and possibly a format. \<open>pattern_ok\<close> says which lists can be written so that they are read
  back: a percent sign is literal only directly before an item, and a name ends where the next text begins.
\<close>

datatype pattern_elem = Lit string nat | Item string "string option"

fun elem_text :: "pattern_elem \<Rightarrow> string" where
  "elem_text (Lit s k) = s @ replicate k (CHR ''%'')"
| "elem_text (Item name None) = CHR ''%'' # name"
| "elem_text (Item name (Some f)) = CHR ''%'' # name @ ''{'' @ f @ ''}''"

definition pattern_text :: "pattern_elem list \<Rightarrow> string" where
  "pattern_text es = concat (map elem_text es)"

fun elem_entry :: "pattern_elem \<Rightarrow> fmt_entry" where
  "elem_entry (Lit s k) = (s @ replicate k (CHR ''%''), [], False)"
| "elem_entry (Item name f) = (name, case f of None \<Rightarrow> [] | Some f \<Rightarrow> f, True)"

definition name_char :: "char \<Rightarrow> bool" where
  "name_char c \<longleftrightarrow> isalpha c \<or> c = CHR ''{'' \<or> c = CHR ''}''"

fun is_lit :: "pattern_elem list \<Rightarrow> bool" where
  "is_lit (Lit s k # es) = True"
| "is_lit _ = False"

fun is_item :: "pattern_elem list \<Rightarrow> bool" where
  "is_item (Item name f # es) = True"
| "is_item _ = False"

fun pattern_ok :: "pattern_elem list \<Rightarrow> bool" where
  "pattern_ok [] = True"
| "pattern_ok (Lit s k # es) =
     ((s \<noteq> [] \<or> 0 < k) \<and> CHR ''%'' \<notin> set s \<and> (0 < k \<longrightarrow> is_item es) \<and> \<not> is_lit es \<and> pattern_ok es)"
| "pattern_ok (Item name f # es) =
     (name \<noteq> [] \<and> list_all isalpha name \<and> pattern_ok es \<and>
      (case f of
         Some f \<Rightarrow> CHR ''}'' \<notin> set f
       | None \<Rightarrow> (case pattern_text es of [] \<Rightarrow> True | c # _ \<Rightarrow> \<not> name_char c)))"

lemma drop_Cons_nth: "drop n xs = y # ys \<Longrightarrow> n < length xs \<and> xs ! n = y \<and> drop (Suc n) xs = ys"
  by (metis drop_Suc_Cons drop_eq_Nil2 drop_drop plus_1_eq_Suc drop0 hd_drop_conv_nth leI
      list.sel(1) list.simps(3))

lemma drop_append_length: "drop n xs = ys @ zs \<Longrightarrow> drop (n + length ys) xs = zs"
  by (metis add.commute append_eq_conv_conj drop_drop)

lemma not_name_char_percent [simp]: "\<not> isalpha (CHR ''%'')" "\<not> isalpha (CHR ''{'')" "\<not> isalpha (CHR ''}'')"
  by (simp_all add: isalpha_def)

subsection \<open>The inner loop\<close>

lemma scan_name_step:
  assumes "drop n pat = c # cs" "isalpha c" "cs \<noteq> []"
  shows "fmt_scan pat i n False b [] fmt = fmt_scan pat i (n + 1) False b [] fmt"
proof -
  from drop_Cons_nth [OF assms(1)] have c: "n < length pat" "pat ! n = c" "drop (n + 1) pat = cs" by auto
  with assms(3) have "n + 1 \<noteq> length pat" by (metis drop_eq_Nil2 order_refl)
  then show ?thesis using c assms(2) by (subst fmt_scan.simps) (auto simp: Let_def)
qed

lemma scan_name:
  "drop n pat = nm @ rest \<Longrightarrow> list_all isalpha nm \<Longrightarrow> rest \<noteq> [] \<Longrightarrow>
   fmt_scan pat i n False b [] fmt = fmt_scan pat i (n + length nm) False b [] fmt"
proof (induction nm arbitrary: n)
  case (Cons c nm)
  then have "fmt_scan pat i n False b [] fmt = fmt_scan pat i (n + 1) False b [] fmt"
    by (intro scan_name_step [where cs = "nm @ rest"]) auto
  then show ?case using Cons drop_Cons_nth [of n pat c "nm @ rest"] by simp
qed simp

lemma scan_name_end:
  assumes "drop n pat = nm" "list_all isalpha nm" "nm \<noteq> []"
  shows "fmt_scan pat i n False b [] fmt = (length pat, False, drop (i + 1) pat, fmt)"
proof -
  obtain ns c where nm: "nm = ns @ [c]" using assms(3) by (metis rev_exhaust)
  with assms have "fmt_scan pat i n False b [] fmt = fmt_scan pat i (n + length ns) False b [] fmt"
    by (intro scan_name) auto
  moreover have d: "drop (n + length ns) pat = [c]" using assms(1) nm by (simp add: drop_append_length)
  then have "n + length ns < length pat" "pat ! (n + length ns) = c" "length pat = n + length ns + 1"
    using drop_Cons_nth [OF d] by auto
  moreover have "isalpha c" using assms(2) nm by simp
  ultimately show ?thesis
    by (subst (asm) (2) fmt_scan.simps) (auto simp: Let_def fmt_scan.simps [of pat i "Suc _"])
qed

lemma scan_format:
  "drop n pat = f @ CHR ''}'' # rest \<Longrightarrow> CHR ''}'' \<notin> set f \<Longrightarrow>
   fmt_scan pat i n True b str fmt = (n + length f + 1, False, str, substr pat (b + 1) (n + length f - b - 1))"
proof (induction f arbitrary: n)
  case Nil
  then show ?case using drop_Cons_nth [of n pat] by (subst fmt_scan.simps) (auto simp: Let_def)
next
  case (Cons c f)
  from drop_Cons_nth [of n pat c] Cons.prems
  have c: "n < length pat" "pat ! n = c" "drop (n + 1) pat = f @ CHR ''}'' # rest" by auto
  then have "n + 1 \<noteq> length pat" by auto
  then have "fmt_scan pat i n True b str fmt = fmt_scan pat i (n + 1) True b str fmt"
    using c Cons.prems(2) by (subst fmt_scan.simps) (auto simp: Let_def)
  then show ?case using Cons c by simp
qed

text \<open>The three ways a name ends: with the pattern, at another character, and with a format.\<close>

lemma substr_after: "drop i pat = c # nm @ rest \<Longrightarrow> substr pat (i + 1) (length nm) = nm"
  by (simp add: substr_def drop_Cons_nth)

lemma scan_item_plain:
  assumes "drop i pat = CHR ''%'' # nm @ rest" "list_all isalpha nm" "nm \<noteq> []"
    "case rest of [] \<Rightarrow> True | c # _ \<Rightarrow> \<not> name_char c"
  shows "fmt_scan pat i (i + 1) False 0 [] [] = (i + 1 + length nm, False, nm, [])"
proof -
  have d: "drop (i + 1) pat = nm @ rest" using drop_Cons_nth [OF assms(1)] by simp
  show ?thesis
  proof (cases rest)
    case Nil
    then have "length pat = i + 1 + length nm" using d drop_Cons_nth [OF assms(1)]
      by (metis add_diff_inverse_nat append_Nil2 length_drop not_less_eq Suc_eq_plus1)
    then show ?thesis using scan_name_end [of "i + 1" pat nm] d assms(2,3) Nil by simp
  next
    case (Cons c cs)
    with d drop_append_length [OF d] have c: "i + 1 + length nm < length pat" "pat ! (i + 1 + length nm) = c"
      using drop_Cons_nth by metis+
    have "fmt_scan pat i (i + 1 + length nm) False 0 [] [] = (i + 1 + length nm, False, nm, [])"
      using c assms(4) Cons substr_after [OF assms(1)]
      by (subst fmt_scan.simps) (auto simp: Let_def name_char_def)
    then show ?thesis using scan_name [OF d assms(2)] Cons by simp
  qed
qed

lemma scan_item_format:
  assumes "drop i pat = CHR ''%'' # nm @ ''{'' @ f @ ''}'' @ rest" "list_all isalpha nm" "CHR ''}'' \<notin> set f"
  shows "fmt_scan pat i (i + 1) False 0 [] [] = (i + length nm + length f + 3, False, nm, f)"
proof -
  let ?n = "i + 1 + length nm"
  have d: "drop (i + 1) pat = nm @ CHR ''{'' # f @ CHR ''}'' # rest" using drop_Cons_nth [OF assms(1)] by simp
  have b: "drop ?n pat = CHR ''{'' # f @ CHR ''}'' # rest" using drop_append_length [OF d] by simp
  have e: "?n < length pat" "pat ! ?n = CHR ''{''" "drop (?n + 1) pat = f @ CHR ''}'' # rest"
    using drop_Cons_nth [OF b] by auto
  have s: "substr pat (i + 1) (length nm) = nm" using d by (simp add: substr_def)
  have "fmt_scan pat i (i + 1) False 0 [] [] = fmt_scan pat i ?n False 0 [] []"
    by (rule scan_name [OF d assms(2)]) simp
  also have "\<dots> = fmt_scan pat i (?n + 1) True ?n nm []"
    using e s by (subst fmt_scan.simps) (simp add: Let_def)
  also have "\<dots> = (?n + 1 + length f + 1, False, nm, substr pat (?n + 1) (?n + 1 + length f - ?n - 1))"
    by (rule scan_format [OF e(3) assms(3)])
  finally show ?thesis using e(3) by (simp add: substr_def)
qed

subsection \<open>The outer loop\<close>

definition flush :: "fmt_entry list \<Rightarrow> string \<Rightarrow> fmt_entry list" where
  "flush vec nstr = (if nstr \<noteq> [] then vec @ [(nstr, [], False)] else vec)"

lemma loop_char:
  "drop i pat = c # cs \<Longrightarrow> c \<noteq> CHR ''%'' \<Longrightarrow>
   init_loop pat i vec nstr err = init_loop pat (i + 1) vec (nstr @ [c]) err"
  using drop_Cons_nth [of i pat c cs] by (subst init_loop.simps) simp

lemma loop_escape:
  assumes "drop i pat = CHR ''%'' # CHR ''%'' # cs"
  shows "init_loop pat i vec nstr err = init_loop pat (i + 1) vec (nstr @ ''%'') err"
  using drop_Cons_nth [OF assms] drop_Cons_nth [of "Suc i" pat "CHR ''%''" cs]
  by (subst init_loop.simps) simp

lemma loop_end: "drop i pat = [] \<Longrightarrow> init_loop pat i vec nstr err = (vec, nstr, err)"
  by (subst init_loop.simps) simp

lemma loop_lit:
  "drop i pat = s @ rest \<Longrightarrow> CHR ''%'' \<notin> set s \<Longrightarrow>
   init_loop pat i vec nstr err = init_loop pat (i + length s) vec (nstr @ s) err"
proof (induction s arbitrary: i nstr)
  case (Cons c s)
  have "drop (i + 1) pat = s @ rest" using drop_Cons_nth [of i pat c "s @ rest"] Cons.prems by simp
  then have "init_loop pat (i + 1) vec (nstr @ [c]) err = init_loop pat (i + 1 + length s) vec ((nstr @ [c]) @ s) err"
    using Cons by auto
  then show ?case using loop_char [of i pat c "s @ rest"] Cons.prems by auto
qed simp

lemma loop_percent:
  "drop i pat = replicate k (CHR ''%'') @ CHR ''%'' # rest \<Longrightarrow>
   init_loop pat i vec nstr err = init_loop pat (i + k) vec (nstr @ replicate k (CHR ''%'')) err"
proof (induction k arbitrary: i nstr)
  case (Suc k)
  have d: "drop i pat = CHR ''%'' # replicate k (CHR ''%'') @ CHR ''%'' # rest" using Suc.prems by simp
  then have "drop (i + 1) pat = replicate k (CHR ''%'') @ CHR ''%'' # rest" using drop_Cons_nth [OF d] by simp
  note IH = Suc.IH [OF this]
  have "\<exists>ys. drop i pat = CHR ''%'' # CHR ''%'' # ys" using d by (cases k) auto
  then show ?case using IH [of "nstr @ ''%''"] loop_escape by auto
qed simp

lemma loop_item:
  assumes "drop i pat = CHR ''%'' # nm @ rest" "nm \<noteq> []" "list_all isalpha nm"
    "fmt_scan pat i (i + 1) False 0 [] [] = (n, False, nm, fmt)"
  shows "init_loop pat i vec nstr err = init_loop pat n (flush vec nstr @ [(nm, fmt, True)]) [] err"
proof -
  obtain c cs where nm: "nm = c # cs" using assms(2) by (cases nm) auto
  with assms(3) have "c \<noteq> CHR ''%''" by (auto simp: isalpha_def)
  moreover from nm drop_Cons_nth [OF assms(1)] have "pat ! (i + 1) = c"
    by (metis Suc_eq_plus1 append_Cons drop_Cons_nth)
  ultimately show ?thesis using drop_Cons_nth [OF assms(1)] assms(4)
    by (subst init_loop.simps) (simp add: flush_def)
qed

lemma pattern_text_Cons [simp]:
  "pattern_text [] = []" "pattern_text (e # es) = elem_text e @ pattern_text es"
  by (simp_all add: pattern_text_def)

lemma loop_pattern:
  "drop i pat = pattern_text es \<Longrightarrow> pattern_ok es \<Longrightarrow> (nstr \<noteq> [] \<longrightarrow> \<not> is_lit es) \<Longrightarrow>
   (case init_loop pat i vec nstr err of (vec', nstr', err') \<Rightarrow>
      flush vec' nstr' = flush vec nstr @ map elem_entry es \<and> err' = err)"
proof (induction es arbitrary: i vec nstr)
  case Nil
  then show ?case by (simp add: loop_end)
next
  case (Cons e es)
  show ?case
  proof (cases e)
    case (Lit s k)
    let ?t = "s @ replicate k (CHR ''%'')"
    have d: "drop i pat = s @ (replicate k (CHR ''%'') @ pattern_text es)" using Cons.prems(1) Lit by simp
    have t: "drop (i + length ?t) pat = pattern_text es" using Cons.prems(1) Lit drop_append_length [of i pat ?t] by simp
    have "init_loop pat (i + length s) vec s err = init_loop pat (i + length s + k) vec ?t err"
    proof (cases k)
      case (Suc l)
      then obtain nm f es' where "es = Item nm f # es'"
        using Cons.prems(2) Lit by (cases es rule: is_item.cases) auto
      then have "\<exists>rest. pattern_text es = CHR ''%'' # rest" by (cases f) auto
      then show ?thesis using drop_append_length [OF d] loop_percent by metis
    qed simp
    then have "init_loop pat i vec nstr err = init_loop pat (i + length ?t) vec ?t err"
      using loop_lit [OF d] Cons.prems Lit by (auto simp: add.assoc)
    then show ?thesis using Cons.IH [OF t, of ?t vec] Cons.prems Lit by (simp add: flush_def)
  next
    case (Item nm fo)
    let ?f = "case fo of None \<Rightarrow> [] | Some f \<Rightarrow> f"
    let ?n = "i + length (elem_text e)"
    have n: "nm \<noteq> []" "list_all isalpha nm" "pattern_ok es" using Cons.prems(2) Item by auto
    have t: "drop ?n pat = pattern_text es" using Cons.prems(1) drop_append_length [of i pat "elem_text e"] by simp
    have "fmt_scan pat i (i + 1) False 0 [] [] = (?n, False, nm, ?f)"
    proof (cases fo)
      case None
      then show ?thesis using scan_item_plain [of i pat nm "pattern_text es"] Cons.prems Item n by simp
    next
      case (Some f)
      then show ?thesis using scan_item_format [of i pat nm f "pattern_text es"] Cons.prems Item n
        by (simp add: add.assoc)
    qed
    moreover have "\<exists>rest. drop i pat = CHR ''%'' # nm @ rest" using Cons.prems(1) Item by (cases fo) auto
    ultimately have "init_loop pat i vec nstr err = init_loop pat ?n (flush vec nstr @ [(nm, ?f, True)]) [] err"
      using loop_item n by metis
    then show ?thesis using Cons.IH [OF t, of "[]" "flush vec nstr @ [(nm, ?f, True)]"] n Item
      by (simp add: flush_def [of _ "[]"])
  qed
qed

lemma pattern_vec_text:
  assumes "pattern_ok es"
  shows "pattern_vec (pattern_text es) = (map elem_entry es, False)"
  using loop_pattern [of 0 "pattern_text es" es "[]" "[]" False] assms
  by (auto simp: pattern_vec_def flush_def)

section \<open>Correctness of formatters\<close>

fun elem_item :: "pattern_elem \<Rightarrow> FormatItem" where
  "elem_item (Lit s k) = StringFormatItem (s @ replicate k (CHR ''%''))"
| "elem_item (Item name f) =
     (case s_format_items name of
        Some mk \<Rightarrow> mk (case f of None \<Rightarrow> [] | Some f \<Rightarrow> f)
      | None \<Rightarrow> StringFormatItem (''<<error_format %'' @ name @ ''>>''))"

fun elem_known :: "pattern_elem \<Rightarrow> bool" where
  "elem_known (Lit s k) = True"
| "elem_known (Item name f) = (s_format_items name \<noteq> None)"

lemma make_items_entries: "make_items (map elem_entry es) = (map elem_item es, \<not> list_all elem_known es)"
proof (induction es)
  case (Cons e es)
  then show ?case by (cases e) (auto simp: Let_def split: option.splits)
qed simp



lemma scan_unclosed:
  "drop n pat = f \<Longrightarrow> CHR ''}'' \<notin> set f \<Longrightarrow> str \<noteq> [] \<Longrightarrow>
   fmt_scan pat i n True b str fmt = (max n (length pat), True, str, fmt)"
proof (induction f arbitrary: n)
  case Nil
  then show ?case by (subst fmt_scan.simps) auto
next
  case (Cons c f)
  from drop_Cons_nth [OF Cons.prems(1)] have c: "n < length pat" "pat ! n = c" "drop (n + 1) pat = f" by auto
  then have "fmt_scan pat i n True b str fmt = fmt_scan pat i (n + 1) True b str fmt"
    using Cons.prems by (subst fmt_scan.simps) (auto simp: Let_def)
  then show ?case using Cons.IH [OF c(3)] Cons.prems c by (auto simp: max_def)
qed

lemma scan_item_unclosed:
  assumes "drop i pat = CHR ''%'' # nm @ ''{'' @ f" "list_all isalpha nm" "nm \<noteq> []" "CHR ''}'' \<notin> set f"
  shows "\<exists>n. fmt_scan pat i (i + 1) False 0 [] [] = (n, True, nm, [])"
proof -
  let ?n = "i + 1 + length nm"
  have d: "drop (i + 1) pat = nm @ CHR ''{'' # f" using drop_Cons_nth [OF assms(1)] by simp
  have b: "drop ?n pat = CHR ''{'' # f" using drop_append_length [OF d] by simp
  have s: "substr pat (i + 1) (length nm) = nm" using d by (simp add: substr_def)
  have "fmt_scan pat i (i + 1) False 0 [] [] = fmt_scan pat i ?n False 0 [] []"
    by (rule scan_name [OF d assms(2)]) simp
  also have "\<dots> = fmt_scan pat i (?n + 1) True ?n nm []"
    using drop_Cons_nth [OF b] s by (subst fmt_scan.simps) (simp add: Let_def)
  finally show ?thesis using scan_unclosed [of "?n + 1" pat f nm i ?n "[]"] drop_Cons_nth [OF b] assms by simp
qed

lemma loop_unclosed:
  assumes "drop i pat = CHR ''%'' # nm @ ''{'' @ f" "list_all isalpha nm" "nm \<noteq> []" "CHR ''}'' \<notin> set f"
  shows "init_loop pat i vec nstr err =
    init_loop pat (i + 1) (vec @ [(''<pattern_error>'', [], False)]) nstr True"
proof -
  obtain c cs where nm: "nm = c # cs" using assms(3) by (cases nm) auto
  with assms(2) have "c \<noteq> CHR ''%''" by (auto simp: isalpha_def)
  moreover from nm drop_Cons_nth [OF assms(1)] have "pat ! (i + 1) = c"
    by (metis Suc_eq_plus1 append_Cons drop_Cons_nth)
  moreover obtain n where "fmt_scan pat i (i + 1) False 0 [] [] = (n, True, nm, [])"
    using scan_item_unclosed [OF assms] by blast
  ultimately show ?thesis using drop_Cons_nth [OF assms(1)] by (subst init_loop.simps) simp
qed

lemma escape_vec:
  assumes "CHR ''%'' \<notin> set s"
  shows "pattern_vec (s @ ''%%'') = ([(s @ ''%'', [], False), ([], [], True)], False)"
proof -
  let ?p = "s @ ''%%''"
  have "init_loop ?p 0 [] [] False = init_loop ?p (length s) [] s False"
    using loop_lit [of 0 ?p s "''%%''"] assms by simp
  also have "\<dots> = init_loop ?p (length s + 1) [] (s @ ''%'') False"
    using loop_escape [of "length s" ?p "[]"] by simp
  also have "\<dots> = init_loop ?p (length s + 2) [(s @ ''%'', [], False), ([], [], True)] [] False"
    by (subst init_loop.simps) (simp add: fmt_scan.simps nth_append)
  finally show ?thesis by (simp add: pattern_vec_def loop_end)
qed

lemma unclosed_vec:
  assumes "CHR ''%'' \<notin> set s" "list_all isalpha nm" "nm \<noteq> []" "CHR ''%'' \<notin> set f" "CHR ''}'' \<notin> set f"
  shows "pattern_vec (s @ ''%'' @ nm @ ''{'' @ f) =
    ([(''<pattern_error>'', [], False), (s @ nm @ ''{'' @ f, [], False)], True)"
proof -
  let ?p = "s @ ''%'' @ nm @ ''{'' @ f" and ?t = "nm @ ''{'' @ f"
  have "CHR ''%'' \<notin> set nm" using assms(2) by (auto simp: list_all_iff)
  then have t: "CHR ''%'' \<notin> set ?t" using assms(4) by auto
  have "init_loop ?p 0 [] [] False = init_loop ?p (length s) [] s False"
    using loop_lit [of 0 ?p s "CHR ''%'' # ?t"] assms(1) by simp
  also have "\<dots> = init_loop ?p (length s + 1) [(''<pattern_error>'', [], False)] s True"
    using loop_unclosed [of "length s" ?p nm f] assms by simp
  also have "\<dots> = init_loop ?p (length s + 1 + length ?t) [(''<pattern_error>'', [], False)] (s @ ?t) True"
    using loop_lit [of "length s + 1" ?p ?t "[]"] t by simp
  finally show ?thesis by (simp add: pattern_vec_def loop_end)
qed

text \<open>
  Two patterns that end in an error. A text that ends with the escape \<open>%%\<close> of the comment on the function
  gives the text with one percent sign and then an item with an empty name, because the second sign is read
  again. A format that is not closed gives the error text in front of the whole rest of the pattern, which
  becomes literal. Both formatters report the error.
\<close>

theorem LogFormatter_errors:
  assumes "CHR ''%'' \<notin> set s" "list_all isalpha nm" "nm \<noteq> []" "CHR ''%'' \<notin> set f" "CHR ''}'' \<notin> set f"
  shows "LogFormatter_new (s @ ''%%'') =
      \<lparr>m_pattern = s @ ''%%'',
       m_items = [StringFormatItem (s @ ''%''), StringFormatItem ''<<error_format %>>''], m_error = True\<rparr>"
    and "LogFormatter_new (s @ ''%'' @ nm @ ''{'' @ f) =
      \<lparr>m_pattern = s @ ''%'' @ nm @ ''{'' @ f,
       m_items = [StringFormatItem ''<pattern_error>'', StringFormatItem (s @ nm @ ''{'' @ f)], m_error = True\<rparr>"
  unfolding LogFormatter_new_def LogFormatter_init_def
  using escape_vec [OF assms(1)] unclosed_vec [OF assms] by (simp_all add: s_format_items_def)

theorem LogFormatter_errors_witness:
  "m_items (LogFormatter_new ''at 100%%'') =
     [StringFormatItem ''at 100%'', StringFormatItem ''<<error_format %>>''] \<and>
   m_error (LogFormatter_new ''at 100%%'') \<and>
   m_items (LogFormatter_new ''at 100%d{H:M'') =
     [StringFormatItem ''<pattern_error>'', StringFormatItem ''at 100d{H:M''] \<and>
   m_error (LogFormatter_new ''at 100%d{H:M'')"
  using LogFormatter_errors [of "''at 100''" "''d''" "''H:M''"] by (simp add: isalpha_def)

text \<open>The text of a level, in either case, gives the level back.\<close>

lemma level_roundtrip [simp]:
  "l \<notin> {UNKNOW, Level_100} \<Longrightarrow> LogLevel_FromString (LogLevel_ToString l) = l"
  "LogLevel_FromString [] = UNKNOW"
  "LogLevel_FromString ''UNKOWN'' = UNKNOW"
  by (cases l) (simp_all add: LogLevel_FromString_def)

end
