(* ===== verification/Log.thy ===== *)
theory Log
  imports Log_Format Config
begin

text \<open>
  Loggers, appenders, the logger registry and the listener that applies a logging configuration, from
  \<open>mingfwq/log.h\<close> and \<open>log.cpp\<close>.

  Loggers and appenders are shared objects: they live in the lists \<open>st_loggers\<close> and \<open>st_appenders\<close> of the state and
  a shared pointer is an index, \<open>None\<close> for null. A formatter does not change after its construction and is a
  value. The outside world is the content of files, which of them can be opened, standard output and the
  clock; a write to an open file takes effect at once. The section that a spin lock protects is one step.
  \<open>Logger_log\<close> follows \<open>m_root\<close> and is a \<open>partial_function\<close>: \<open>None\<close> means that it does not return. The
  functions of yaml-cpp are the fields of the parameter \<open>yaml_cpp\<close>.
\<close>

section \<open>State\<close>

record ofstream =
  fs_open :: bool
  fs_fail :: bool
  fs_pos :: nat

record FileLog =
  m_filename :: string
  m_filestream :: ofstream
  m_lastTime :: u64

text \<open>\<open>ap_file\<close> is \<open>None\<close> for a \<open>StdoutLogAppender\<close> and holds the members of a \<open>FileLogAppender\<close>.\<close>

record LogAppender =
  ap_level :: Level
  ap_hasFormatter :: bool
  ap_formatter :: "LogFormatter option"
  ap_file :: "FileLog option"

record Logger =
  lg_name :: string
  lg_level :: Level
  lg_appenders :: "nat list"
  lg_formatter :: "LogFormatter option"
  lg_root :: "nat option"

record log_os =
  os_files :: "string \<rightharpoonup> string"
  os_can_open :: "string \<Rightarrow> bool"
  os_cout :: string
  os_now :: u64

record log_state =
  st_loggers :: "Logger list"
  st_appenders :: "LogAppender list"
  st_mgr :: "(string \<times> nat) list"
  st_root :: nat
  st_os :: log_os

definition logger_at :: "log_state \<Rightarrow> nat \<Rightarrow> Logger res" where
  "logger_at st i = (if i < length (st_loggers st) then Inr (st_loggers st ! i) else Inl Bad_access)"

definition appender_at :: "log_state \<Rightarrow> nat \<Rightarrow> LogAppender res" where
  "appender_at st i = (if i < length (st_appenders st) then Inr (st_appenders st ! i) else Inl Bad_access)"

definition set_logger :: "nat \<Rightarrow> Logger \<Rightarrow> log_state \<Rightarrow> log_state" where
  "set_logger i l st = st\<lparr>st_loggers := (st_loggers st)[i := l]\<rparr>"

definition set_appender :: "nat \<Rightarrow> LogAppender \<Rightarrow> log_state \<Rightarrow> log_state" where
  "set_appender i a st = st\<lparr>st_appenders := (st_appenders st)[i := a]\<rparr>"

definition cout :: "string \<Rightarrow> log_os \<Rightarrow> log_os" where
  "cout s os = os\<lparr>os_cout := os_cout os @ s\<rparr>"

definition endl :: string where
  "endl = [CHR 0x0A]"

section \<open>Appenders\<close>

definition LogAppender_setFormatter :: "LogFormatter option \<Rightarrow> LogAppender \<Rightarrow> LogAppender" where
  "LogAppender_setFormatter val a =
     a\<lparr>ap_formatter := val, ap_hasFormatter := (case val of Some _ \<Rightarrow> True | None \<Rightarrow> False)\<rparr>"

definition LogAppender_setLevel :: "Level \<Rightarrow> LogAppender \<Rightarrow> LogAppender" where
  "LogAppender_setLevel val a = a\<lparr>ap_level := val\<rparr>"

definition StdoutLogAppender_new :: LogAppender where
  "StdoutLogAppender_new = \<lparr>ap_level = DEBUG, ap_hasFormatter = False, ap_formatter = None, ap_file = None\<rparr>"

text \<open>
  \<open>close\<close> of a stream that is not open sets its fail bit; \<open>open\<close> of one that is still open fails, and a
  successful \<open>open\<close> truncates the file and clears the bit.
\<close>

definition reopen :: "FileLog \<Rightarrow> log_os \<Rightarrow> bool \<times> FileLog \<times> log_os" where
  "reopen f os =
     (let fs = m_filestream f;
          fs = (if \<not> fs_fail fs then
                  if fs_open fs then fs\<lparr>fs_open := False\<rparr> else fs\<lparr>fs_fail := True\<rparr>
                else fs);
          (fs, os) =
            (if fs_open fs then (fs\<lparr>fs_fail := True\<rparr>, os)
             else if os_can_open os (c_str (m_filename f)) then
               (\<lparr>fs_open = True, fs_fail = False, fs_pos = 0\<rparr>,
                os\<lparr>os_files := (os_files os)(c_str (m_filename f) \<mapsto> [])\<rparr>)
             else (fs\<lparr>fs_fail := True\<rparr>, os))
      in (\<not> fs_fail fs, f\<lparr>m_filestream := fs\<rparr>, os))"

text \<open>Writing at a position: a gap before it, left by a truncation, is filled with NUL.\<close>

definition write_at :: "nat \<Rightarrow> string \<Rightarrow> string \<Rightarrow> string" where
  "write_at p s t = take p (t @ replicate (p - length t) (CHR 0x00)) @ s @ drop (p + length s) t"

definition file_write :: "string \<Rightarrow> FileLog \<Rightarrow> log_os \<Rightarrow> bool \<times> FileLog \<times> log_os" where
  "file_write s f os =
     (let fs = m_filestream f; name = c_str (m_filename f)
      in if fs_fail fs then (False, f, os)
         else if fs_open fs then
           (True, f\<lparr>m_filestream := fs\<lparr>fs_pos := fs_pos fs + length s\<rparr>\<rparr>,
            os\<lparr>os_files := (os_files os)(name \<mapsto>
              write_at (fs_pos fs) s (case os_files os name of Some t \<Rightarrow> t | None \<Rightarrow> []))\<rparr>)
         else (False, f\<lparr>m_filestream := fs\<lparr>fs_fail := True\<rparr>\<rparr>, os))"

definition FileLogAppender_new :: "string \<Rightarrow> log_os \<Rightarrow> LogAppender \<times> log_os" where
  "FileLogAppender_new filename os =
     (let (_, f, os) = reopen \<lparr>m_filename = filename,
            m_filestream = \<lparr>fs_open = False, fs_fail = False, fs_pos = 0\<rparr>, m_lastTime = 0\<rparr> os
      in (\<lparr>ap_level = DEBUG, ap_hasFormatter = False, ap_formatter = None, ap_file = Some f\<rparr>, os))"

definition FileLogAppender_log ::
    "(LogFormatter \<Rightarrow> string) \<Rightarrow> Level \<Rightarrow> LogAppender \<Rightarrow> FileLog \<Rightarrow> log_os \<Rightarrow> (LogAppender \<times> log_os) res" where
  "FileLogAppender_log format level a f os =
     (if ap_level a \<le> level then
        (let now = os_now os;
             (f, os) = (if now \<noteq> m_lastTime f then
                          let (_, f, os) = reopen f os in (f\<lparr>m_lastTime := now\<rparr>, os)
                        else (f, os))
         in case ap_formatter a of
              None \<Rightarrow> Inl Null_deref
            | Some fm \<Rightarrow>
                let (ok, f, os) = file_write (format fm) f os
                in Inr (a\<lparr>ap_file := Some f\<rparr>, if \<not> ok then cout (''error'' @ endl) os else os))
      else Inr (a, os))"

definition StdoutLogAppender_log ::
    "(LogFormatter \<Rightarrow> string) \<Rightarrow> Level \<Rightarrow> LogAppender \<Rightarrow> log_os \<Rightarrow> (LogAppender \<times> log_os) res" where
  "StdoutLogAppender_log format level a os =
     (if ap_level a \<le> level then
        case ap_formatter a of
          None \<Rightarrow> Inl Null_deref
        | Some fm \<Rightarrow> Inr (a, cout (format fm) os)
      else Inr (a, os))"

text \<open>The virtual call \<open>i->log(self, level, event)\<close>.\<close>

definition appender_log ::
    "(LogFormatter \<Rightarrow> string) \<Rightarrow> Level \<Rightarrow> LogAppender \<Rightarrow> log_os \<Rightarrow> (LogAppender \<times> log_os) res" where
  "appender_log format level a os =
     (case ap_file a of
        None \<Rightarrow> StdoutLogAppender_log format level a os
      | Some f \<Rightarrow> FileLogAppender_log format level a f os)"

section \<open>Loggers\<close>

definition default_pattern :: string where
  "default_pattern = ''%d{%Y-%m-%d %H:%M:%S}%T%t%T%N%T%F%T[%p]%T[%c]%T%f:%l%T%m%n''"

definition Logger_new :: "string \<Rightarrow> Logger" where
  "Logger_new name = \<lparr>lg_name = name, lg_level = DEBUG, lg_appenders = [],
     lg_formatter = Some (LogFormatter_new default_pattern), lg_root = None\<rparr>"

fun inherit_formatter :: "LogFormatter option \<Rightarrow> nat list \<Rightarrow> log_state \<Rightarrow> log_state res" where
  "inherit_formatter val [] st = Inr st"
| "inherit_formatter val (i # is) st =
     bind_res (appender_at st i) (\<lambda>a.
       inherit_formatter val is
         (if \<not> ap_hasFormatter a then set_appender i (a\<lparr>ap_formatter := val\<rparr>) st else st))"

definition Logger_setFormatter :: "nat \<Rightarrow> LogFormatter option \<Rightarrow> log_state \<Rightarrow> log_state res" where
  "Logger_setFormatter lg val st =
     bind_res (logger_at st lg) (\<lambda>l.
       inherit_formatter val (lg_appenders l) (set_logger lg (l\<lparr>lg_formatter := val\<rparr>) st))"

definition Logger_setFormatter_str :: "nat \<Rightarrow> string \<Rightarrow> log_state \<Rightarrow> log_state res" where
  "Logger_setFormatter_str lg val st =
     bind_res (logger_at st lg) (\<lambda>l.
       let new_val = LogFormatter_new val
       in if m_error new_val then
            Inr (st\<lparr>st_os := cout (''Logger setFormatter name = '' @ lg_name l @ '' value = '' @ val @
              ''invalid formatter '' @ endl) (st_os st)\<rparr>)
          else Logger_setFormatter lg (Some new_val) st)"

definition addAppender :: "nat \<Rightarrow> nat option \<Rightarrow> log_state \<Rightarrow> log_state res" where
  "addAppender lg appender st =
     bind_res (logger_at st lg) (\<lambda>l.
       case appender of
         None \<Rightarrow> Inl Null_deref
       | Some i \<Rightarrow>
           bind_res (appender_at st i) (\<lambda>a.
             let st = (if ap_formatter a = None then set_appender i (a\<lparr>ap_formatter := lg_formatter l\<rparr>) st else st)
             in Inr (set_logger lg (l\<lparr>lg_appenders := lg_appenders l @ [i]\<rparr>) st)))"

text \<open>\<open>remove1\<close> is the loop that erases the first equal pointer and stops.\<close>

definition delAppender :: "nat \<Rightarrow> nat \<Rightarrow> log_state \<Rightarrow> log_state res" where
  "delAppender lg appender st =
     bind_res (logger_at st lg) (\<lambda>l. Inr (set_logger lg (l\<lparr>lg_appenders := remove1 appender (lg_appenders l)\<rparr>) st))"

definition clearAppender :: "nat \<Rightarrow> log_state \<Rightarrow> log_state res" where
  "clearAppender lg st = bind_res (logger_at st lg) (\<lambda>l. Inr (set_logger lg (l\<lparr>lg_appenders := []\<rparr>) st))"

definition Logger_setLevel :: "nat \<Rightarrow> Level \<Rightarrow> log_state \<Rightarrow> log_state res" where
  "Logger_setLevel lg val st = bind_res (logger_at st lg) (\<lambda>l. Inr (set_logger lg (l\<lparr>lg_level := val\<rparr>) st))"

type_synonym strftime_fun = "string \<Rightarrow> u64 \<Rightarrow> string"

definition name_of :: "log_state \<Rightarrow> nat \<Rightarrow> string" where
  "name_of st i = lg_name (st_loggers st ! i)"

fun log_appenders :: "strftime_fun \<Rightarrow> Level \<Rightarrow> LogEvent \<Rightarrow> nat list \<Rightarrow> log_state \<Rightarrow> log_state res" where
  "log_appenders strftime level ev [] st = Inr st"
| "log_appenders strftime level ev (i # is) st =
     bind_res (appender_at st i) (\<lambda>a.
       bind_res (appender_log (\<lambda>f. LogFormatter_format strftime (name_of st) f level ev) level a (st_os st)) (\<lambda>(a, os).
         log_appenders strftime level ev is ((set_appender i a st)\<lparr>st_os := os\<rparr>)))"

partial_function (option) Logger_log ::
    "strftime_fun \<Rightarrow> nat \<Rightarrow> Level \<Rightarrow> LogEvent \<Rightarrow> log_state \<Rightarrow> log_state res option" where
  "Logger_log strftime lg level ev st =
     (case logger_at st lg of
        Inl e \<Rightarrow> Some (Inl e)
      | Inr l \<Rightarrow>
          if lg_level l \<le> level then
            if lg_appenders l \<noteq> [] then Some (log_appenders strftime level ev (lg_appenders l) st)
            else case lg_root l of
                   Some r \<Rightarrow> Logger_log strftime r level ev st
                 | None \<Rightarrow> Some (Inr st)
          else Some (Inr st))"

definition Logger_debug :: "strftime_fun \<Rightarrow> nat \<Rightarrow> LogEvent \<Rightarrow> log_state \<Rightarrow> log_state res option" where
  "Logger_debug strftime lg event st = Logger_log strftime lg DEBUG event st"
definition Logger_info :: "strftime_fun \<Rightarrow> nat \<Rightarrow> LogEvent \<Rightarrow> log_state \<Rightarrow> log_state res option" where
  "Logger_info strftime lg event st = Logger_log strftime lg INFO event st"
definition Logger_warn :: "strftime_fun \<Rightarrow> nat \<Rightarrow> LogEvent \<Rightarrow> log_state \<Rightarrow> log_state res option" where
  "Logger_warn strftime lg event st = Logger_log strftime lg WARN event st"
definition Logger_error :: "strftime_fun \<Rightarrow> nat \<Rightarrow> LogEvent \<Rightarrow> log_state \<Rightarrow> log_state res option" where
  "Logger_error strftime lg event st = Logger_log strftime lg ERROR event st"
definition Logger_fatal :: "strftime_fun \<Rightarrow> nat \<Rightarrow> LogEvent \<Rightarrow> log_state \<Rightarrow> log_state res option" where
  "Logger_fatal strftime lg event st = Logger_log strftime lg FATAL event st"

section \<open>The logging macros\<close>

text \<open>Where a macro is used: \<open>__FILE__\<close>, \<open>__LINE__\<close>, the thread and fiber identifiers and the thread name.\<close>

record log_site =
  at_file :: string
  at_line :: int
  at_thread :: u32
  at_fiber :: u32
  at_name :: string

definition site_event :: "log_site \<Rightarrow> nat \<Rightarrow> Level \<Rightarrow> u64 \<Rightarrow> LogEvent" where
  "site_event w lg level now =
     LogEvent_new lg level (at_file w) (at_line w) 0 (at_thread w) (at_fiber w) now (at_name w)"

text \<open>\<open>MINGFWQ_LOG_LEVEL(logger, level) << text\<close>: the destructor of \<open>LogEventWrap\<close> logs the event.\<close>

definition LOG_LEVEL ::
    "strftime_fun \<Rightarrow> log_site \<Rightarrow> nat \<Rightarrow> Level \<Rightarrow> string \<Rightarrow> log_state \<Rightarrow> log_state res option" where
  "LOG_LEVEL strftime w lg level text st =
     (case logger_at st lg of
        Inl e \<Rightarrow> Some (Inl e)
      | Inr l \<Rightarrow>
          if lg_level l \<le> level then
            let ev = site_event w lg level (os_now (st_os st));
                ev = stream_write (LogEventWrap_getSS ev) text ev
            in Logger_log strftime (ev_logger ev) (ev_level ev) ev st
          else Some (Inr st))"

definition LOG_LIMIT ::
    "strftime_fun \<Rightarrow> log_site \<Rightarrow> nat \<Rightarrow> Level \<Rightarrow> bool option \<Rightarrow> string \<Rightarrow> log_state \<Rightarrow> log_state res option" where
  "LOG_LIMIT strftime w lg level fn text st =
     (case logger_at st lg of
        Inl e \<Rightarrow> Some (Inl e)
      | Inr l \<Rightarrow>
          if lg_level l \<le> level then
            case LogEvent_new_limit lg level (at_file w) (at_line w) 0 (at_thread w) (at_fiber w)
                   (os_now (st_os st)) (at_name w) fn of
              Inl e \<Rightarrow> Some (Inl e)
            | Inr ev \<Rightarrow>
                let ev = stream_write (LogEventWrap_getSS ev) text ev
                in Logger_log strftime (ev_logger ev) (ev_level ev) ev st
          else Some (Inr st))"

definition LOG_FMT_LEVEL ::
    "strftime_fun \<Rightarrow> log_site \<Rightarrow> nat \<Rightarrow> Level \<Rightarrow> string option \<Rightarrow> log_state \<Rightarrow> log_state res option" where
  "LOG_FMT_LEVEL strftime w lg level out st =
     (case logger_at st lg of
        Inl e \<Rightarrow> Some (Inl e)
      | Inr l \<Rightarrow>
          if lg_level l \<le> level then
            let ev = LogEvent_format out (site_event w lg level (os_now (st_os st)))
            in Logger_log strftime (ev_logger ev) (ev_level ev) ev st
          else Some (Inr st))"

section \<open>The registry\<close>

definition alloc_logger :: "Logger \<Rightarrow> log_state \<Rightarrow> log_state \<times> nat" where
  "alloc_logger l st = (st\<lparr>st_loggers := st_loggers st @ [l]\<rparr>, length (st_loggers st))"

definition alloc_appender :: "LogAppender \<Rightarrow> log_state \<Rightarrow> log_state \<times> nat" where
  "alloc_appender a st = (st\<lparr>st_appenders := st_appenders st @ [a]\<rparr>, length (st_appenders st))"

definition LoggerManager_new :: "log_os \<Rightarrow> log_state res" where
  "LoggerManager_new os =
     (let st = \<lparr>st_loggers = [], st_appenders = [], st_mgr = [], st_root = 0, st_os = os\<rparr>;
          (st, r) = alloc_logger (Logger_new ''root'') st;
          (st, i) = alloc_appender StdoutLogAppender_new st
      in bind_res (addAppender r (Some i) (st\<lparr>st_root := r\<rparr>)) (\<lambda>st.
           bind_res (logger_at st r) (\<lambda>l.
             Inr (st\<lparr>st_mgr := map_assign string_less (lg_name l) r (st_mgr st)\<rparr>))))"

definition getLogger :: "string \<Rightarrow> log_state \<Rightarrow> log_state \<times> nat" where
  "getLogger name st =
     (case map_lookup string_less name (st_mgr st) of
        Some i \<Rightarrow> (st, i)
      | None \<Rightarrow>
          let (st, i) = alloc_logger ((Logger_new name)\<lparr>lg_root := Some (st_root st)\<rparr>) st
          in (st\<lparr>st_mgr := map_assign string_less name i (st_mgr st)\<rparr>, i))"

section \<open>Invariant\<close>

interpretation strlt: strict_weak string_less
proof unfold_locales
  fix a b c
  show "\<not> string_less a a" by (rule string_less_irrefl)
  show "string_less a b \<Longrightarrow> string_less b c \<Longrightarrow> string_less a c" by (rule string_less_trans)
  show "\<not> string_less a b \<Longrightarrow> \<not> string_less b c \<Longrightarrow> \<not> string_less a c"
    using string_less_linear string_less_trans by metis
qed

lemma string_equiv [simp]: "strlt.equiv a b \<longleftrightarrow> a = b"
  using string_less_linear string_less_irrefl by (auto simp: strlt.equiv_def)

definition appender_ok :: "LogAppender \<Rightarrow> bool" where
  "appender_ok a \<longleftrightarrow> (ap_hasFormatter a \<longrightarrow> ap_formatter a \<noteq> None)"

definition attached_ok :: "LogAppender list \<Rightarrow> nat list \<Rightarrow> bool" where
  "attached_ok as is \<longleftrightarrow> (\<forall>i\<in>set is. i < length as \<and> ap_formatter (as ! i) \<noteq> None)"

definition logger_ok :: "LogAppender list \<Rightarrow> nat \<Rightarrow> Logger \<Rightarrow> bool" where
  "logger_ok as r l \<longleftrightarrow> lg_formatter l \<noteq> None \<and> lg_root l \<in> {None, Some r} \<and> attached_ok as (lg_appenders l)"

definition mgr_ok :: "Logger list \<Rightarrow> (string \<times> nat) list \<Rightarrow> bool" where
  "mgr_ok ls m \<longleftrightarrow> strlt.ordered fst m \<and>
     (\<forall>k i. map_lookup string_less k m = Some i \<longrightarrow> i < length ls \<and> lg_name (ls ! i) = k)"

definition log_inv :: "log_state \<Rightarrow> bool" where
  "log_inv st \<longleftrightarrow>
     st_root st < length (st_loggers st) \<and> lg_root (st_loggers st ! st_root st) = None \<and>
     (\<forall>l\<in>set (st_loggers st). logger_ok (st_appenders st) (st_root st) l) \<and>
     (\<forall>a\<in>set (st_appenders st). appender_ok a) \<and> mgr_ok (st_loggers st) (st_mgr st)"

lemmas log_inv_defs = log_inv_def logger_ok_def attached_ok_def appender_ok_def mgr_ok_def

text \<open>An appender replaced by one that has a formatter, as far as the old one had.\<close>

lemma attached_ok_update:
  assumes "attached_ok as is" "ap_formatter (as ! j) \<noteq> None \<longrightarrow> ap_formatter a \<noteq> None"
  shows "attached_ok (as[j := a]) is"
  unfolding attached_ok_def
proof
  fix i assume "i \<in> set is"
  then have "i < length as" "ap_formatter (as ! i) \<noteq> None" using assms(1) by (auto simp: attached_ok_def)
  then show "i < length (as[j := a]) \<and> ap_formatter (as[j := a] ! i) \<noteq> None"
    using assms(2) by (cases "i = j") simp_all
qed

lemma set_appender_inv:
  assumes "log_inv st" "appender_ok a" "ap_formatter (st_appenders st ! i) \<noteq> None \<longrightarrow> ap_formatter a \<noteq> None"
  shows "log_inv (set_appender i a st)"
  using assms attached_ok_update [OF _ assms(3)]
  by (auto simp: log_inv_def set_appender_def logger_ok_def dest: set_update_subset_insert [THEN subsetD])

lemma set_logger_inv:
  assumes "log_inv st" "i < length (st_loggers st)" "logger_ok (st_appenders st) (st_root st) l"
    "lg_name l = lg_name (st_loggers st ! i)" "lg_root l = lg_root (st_loggers st ! i)"
  shows "log_inv (set_logger i l st)"
  using assms
  by (auto simp: log_inv_def set_logger_def mgr_ok_def nth_list_update
      dest: set_update_subset_insert [THEN subsetD])

lemma set_os_inv [simp]: "log_inv (st\<lparr>st_os := os\<rparr>) = log_inv st"
  by (simp add: log_inv_def)

lemma inv_logger: "log_inv st \<Longrightarrow> i < length (st_loggers st) \<Longrightarrow>
    logger_at st i = Inr (st_loggers st ! i) \<and> logger_ok (st_appenders st) (st_root st) (st_loggers st ! i)"
  by (simp add: log_inv_def logger_at_def)

lemma inv_appender: "log_inv st \<Longrightarrow> i < length (st_appenders st) \<Longrightarrow>
    appender_at st i = Inr (st_appenders st ! i) \<and> appender_ok (st_appenders st ! i)"
  by (simp add: log_inv_def appender_at_def)

subsection \<open>Logging\<close>

lemma appender_log_ok:
  assumes "ap_formatter a \<noteq> None"
  shows "\<exists>a' os'. appender_log format level a os = Inr (a', os') \<and>
    ap_formatter a' = ap_formatter a \<and> ap_hasFormatter a' = ap_hasFormatter a"
  using assms
  by (auto simp: appender_log_def StdoutLogAppender_log_def FileLogAppender_log_def Let_def
      split: option.splits prod.splits)

lemma log_appenders_ok:
  "log_inv st \<Longrightarrow> attached_ok (st_appenders st) is \<Longrightarrow>
   \<exists>st'. log_appenders strftime level ev is st = Inr st' \<and> log_inv st' \<and> st_loggers st' = st_loggers st"
proof (induction "is" arbitrary: st)
  case (Cons i "is")
  let ?a = "st_appenders st ! i"
  have i: "i < length (st_appenders st)" "ap_formatter ?a \<noteq> None" using Cons.prems(2) by (auto simp: attached_ok_def)
  obtain a os where a: "appender_log (\<lambda>f. LogFormatter_format strftime (name_of st) f level ev) level ?a (st_os st) =
      Inr (a, os)" "ap_formatter a = ap_formatter ?a" "ap_hasFormatter a = ap_hasFormatter ?a"
    using appender_log_ok [OF i(2)] by blast
  let ?st = "(set_appender i a st)\<lparr>st_os := os\<rparr>"
  have "log_inv ?st" using set_appender_inv [OF Cons.prems(1)] a i by (simp add: appender_ok_def)
  moreover have "attached_ok (st_appenders ?st) is"
    using attached_ok_update [of "st_appenders st" "is" i a] Cons.prems(2) a(2)
    by (simp add: set_appender_def attached_ok_def)
  ultimately have "\<exists>st'. log_appenders strftime level ev is ?st = Inr st' \<and> log_inv st' \<and>
      st_loggers st' = st_loggers ?st" by (rule Cons.IH)
  then show ?case using inv_appender [OF Cons.prems(1) i(1)] a(1) by (simp add: set_appender_def)
qed simp

text \<open>The appenders an event reaches: those of the logger or, when it has none, those of the root.\<close>

definition targets :: "log_state \<Rightarrow> nat \<Rightarrow> Level \<Rightarrow> nat list" where
  "targets st lg level =
     (let l = st_loggers st ! lg; own = lg_appenders l; r = st_loggers st ! st_root st
      in if \<not> lg_level l \<le> level then []
         else if own \<noteq> [] \<or> lg_root l = None then own
         else if lg_level r \<le> level then lg_appenders r else [])"

lemma targets_attached:
  "log_inv st \<Longrightarrow> lg < length (st_loggers st) \<Longrightarrow> attached_ok (st_appenders st) (targets st lg level)"
  using inv_logger [of st lg] inv_logger [of st "st_root st"]
  by (auto simp: targets_def Let_def logger_ok_def attached_ok_def log_inv_def)

lemma Logger_log_targets:
  assumes "log_inv st" "lg < length (st_loggers st)"
  shows "Logger_log strftime lg level ev st = Some (log_appenders strftime level ev (targets st lg level) st)"
proof -
  have r: "st_root st < length (st_loggers st)" "lg_root (st_loggers st ! st_root st) = None"
    using assms(1) by (auto simp: log_inv_def)
  have root: "Logger_log strftime (st_root st) level ev st =
      Some (log_appenders strftime level ev (targets st (st_root st) level) st)"
    using inv_logger [OF assms(1) r(1)] r by (subst Logger_log.simps) (simp add: targets_def Let_def)
  have "lg_root (st_loggers st ! lg) \<in> {None, Some (st_root st)}"
    using inv_logger [OF assms] by (simp add: logger_ok_def)
  then show ?thesis using inv_logger [OF assms] root r
    by (subst Logger_log.simps) (auto simp: targets_def Let_def)
qed

lemma Logger_log_ok:
  assumes "log_inv st" "lg < length (st_loggers st)"
  shows "\<exists>st'. Logger_log strftime lg level ev st = Some (Inr st') \<and> log_inv st' \<and> st_loggers st' = st_loggers st"
  using Logger_log_targets [OF assms] log_appenders_ok [OF assms(1) targets_attached [OF assms]] by simp

lemma event_logger [simp]:
  "ev_logger (stream_write b text ev) = ev_logger ev" "ev_level (stream_write b text ev) = ev_level ev"
  "ev_logger (site_event w lg level now) = lg" "ev_level (site_event w lg level now) = level"
  "ev_logger (LogEvent_format out ev) = ev_logger ev" "ev_level (LogEvent_format out ev) = ev_level ev"
  by (cases b, simp_all add: site_event_def LogEvent_new_def LogEvent_format_def split: option.split)+

lemma LOG_LEVEL_ok:
  assumes "log_inv st" "lg < length (st_loggers st)"
  shows "\<exists>st'. LOG_LEVEL strftime w lg level text st = Some (Inr st') \<and> log_inv st' \<and> st_loggers st' = st_loggers st"
  using inv_logger [OF assms] Logger_log_ok [OF assms] assms(1) by (simp add: LOG_LEVEL_def Let_def)

subsection \<open>The other operations\<close>

lemma inherit_formatter_ok:
  "log_inv st \<Longrightarrow> attached_ok (st_appenders st) is \<Longrightarrow> val \<noteq> None \<Longrightarrow>
   \<exists>st'. inherit_formatter val is st = Inr st' \<and> log_inv st' \<and> st_loggers st' = st_loggers st"
proof (induction "is" arbitrary: st)
  case (Cons i "is")
  let ?a = "st_appenders st ! i"
  let ?st = "if \<not> ap_hasFormatter ?a then set_appender i (?a\<lparr>ap_formatter := val\<rparr>) st else st"
  have i: "i < length (st_appenders st)" using Cons.prems(2) by (simp add: attached_ok_def)
  have "log_inv ?st" using set_appender_inv [OF Cons.prems(1)] Cons.prems by (simp add: appender_ok_def)
  moreover have "attached_ok (st_appenders ?st) is"
    using attached_ok_update [of "st_appenders st" "is" i "?a\<lparr>ap_formatter := val\<rparr>"] Cons.prems(2,3)
    by (simp add: set_appender_def attached_ok_def)
  ultimately have "\<exists>st'. inherit_formatter val is ?st = Inr st' \<and> log_inv st' \<and> st_loggers st' = st_loggers ?st"
    using Cons.prems(3) by (rule Cons.IH)
  then show ?case using inv_appender [OF Cons.prems(1) i] by (auto simp: set_appender_def)
qed simp

text \<open>What a successful operation keeps: the invariant and the loggers that exist.\<close>

definition log_ok :: "log_state \<Rightarrow> log_state res \<Rightarrow> bool" where
  "log_ok st r \<longleftrightarrow> (\<exists>st'. r = Inr st' \<and> log_inv st' \<and> length (st_loggers st') = length (st_loggers st) \<and>
     length (st_appenders st') \<ge> length (st_appenders st) \<and> st_mgr st' = st_mgr st)"

lemma log_okI [intro]: "log_inv st' \<Longrightarrow> length (st_loggers st') = length (st_loggers st) \<Longrightarrow>
    length (st_appenders st) \<le> length (st_appenders st') \<Longrightarrow> st_mgr st' = st_mgr st \<Longrightarrow> log_ok st (Inr st')"
  by (simp add: log_ok_def)

lemma set_logger_lengths [simp]:
  "length (st_loggers (set_logger i l st)) = length (st_loggers st)"
  "st_appenders (set_logger i l st) = st_appenders st" "st_mgr (set_logger i l st) = st_mgr st"
  by (simp_all add: set_logger_def)

lemma set_appender_lengths [simp]:
  "st_loggers (set_appender i a st) = st_loggers st"
  "length (st_appenders (set_appender i a st)) = length (st_appenders st)" "st_mgr (set_appender i a st) = st_mgr st"
  "st_root (set_appender i a st) = st_root st"
  by (simp_all add: set_appender_def)

lemma inherit_formatter_frame:
  "inherit_formatter val is st = Inr st' \<Longrightarrow>
   length (st_appenders st') = length (st_appenders st) \<and> st_mgr st' = st_mgr st"
proof (induction "is" arbitrary: st)
  case (Cons i "is")
  then obtain a where "inherit_formatter val is
      (if \<not> ap_hasFormatter a then set_appender i (a\<lparr>ap_formatter := val\<rparr>) st else st) = Inr st'"
    by (auto simp: bind_res_Inr_iff)
  then show ?case using Cons.IH by fastforce
qed simp

lemma Logger_setFormatter_ok:
  assumes "log_inv st" "lg < length (st_loggers st)" "val \<noteq> None"
  shows "log_ok st (Logger_setFormatter lg val st)"
proof -
  let ?l = "st_loggers st ! lg"
  let ?st = "set_logger lg (?l\<lparr>lg_formatter := val\<rparr>) st"
  have "log_inv ?st" using set_logger_inv [OF assms(1,2)] inv_logger [OF assms(1,2)] assms(3) by (simp add: logger_ok_def)
  moreover have "attached_ok (st_appenders ?st) (lg_appenders ?l)"
    using inv_logger [OF assms(1,2)] by (simp add: logger_ok_def)
  ultimately obtain st' where s: "inherit_formatter val (lg_appenders ?l) ?st = Inr st'" "log_inv st'"
    "st_loggers st' = st_loggers ?st"
    using inherit_formatter_ok assms(3) by blast
  then show ?thesis using inherit_formatter_frame [OF s(1)] inv_logger [OF assms(1,2)]
    by (simp add: Logger_setFormatter_def log_ok_def)
qed

lemma Logger_setFormatter_str_ok:
  assumes "log_inv st" "lg < length (st_loggers st)"
  shows "log_ok st (Logger_setFormatter_str lg val st)"
  using Logger_setFormatter_ok [OF assms, of "Some (LogFormatter_new val)"] inv_logger [OF assms] assms(1)
  by (auto simp: Logger_setFormatter_str_def Let_def)

lemma addAppender_ok:
  assumes "log_inv st" "lg < length (st_loggers st)" "i < length (st_appenders st)"
  shows "log_ok st (addAppender lg (Some i) st)"
proof -
  let ?l = "st_loggers st ! lg" and ?a = "st_appenders st ! i"
  let ?st = "if ap_formatter ?a = None then set_appender i (?a\<lparr>ap_formatter := lg_formatter ?l\<rparr>) st else st"
  have l: "lg_formatter ?l \<noteq> None" using inv_logger [OF assms(1,2)] by (simp add: logger_ok_def)
  then have inv: "log_inv ?st" using set_appender_inv [OF assms(1)] assms(1) by (simp add: appender_ok_def)
  have n: "lg < length (st_loggers ?st)" using assms(2) by simp
  have "attached_ok (st_appenders ?st) [i]" using l assms(3) by (auto simp: attached_ok_def set_appender_def)
  then have "logger_ok (st_appenders ?st) (st_root ?st) (?l\<lparr>lg_appenders := lg_appenders ?l @ [i]\<rparr>)"
    using inv_logger [OF inv n] by (auto simp: logger_ok_def attached_ok_def)
  then have "log_inv (set_logger lg (?l\<lparr>lg_appenders := lg_appenders ?l @ [i]\<rparr>) ?st)"
    using set_logger_inv [OF inv n] by simp
  then show ?thesis using inv_logger [OF assms(1,2)] inv_appender [OF assms(1,3)]
    by (auto simp: addAppender_def Let_def)
qed

lemma appenders_subset_ok:
  assumes "log_inv st" "lg < length (st_loggers st)" "set is \<subseteq> set (lg_appenders (st_loggers st ! lg))"
  shows "log_inv (set_logger lg ((st_loggers st ! lg)\<lparr>lg_appenders := is\<rparr>) st)"
proof (rule set_logger_inv [OF assms(1,2)])
  show "logger_ok (st_appenders st) (st_root st) ((st_loggers st ! lg)\<lparr>lg_appenders := is\<rparr>)"
    using inv_logger [OF assms(1,2)] assms(3) by (auto simp: logger_ok_def attached_ok_def)
qed simp_all

lemma simple_ops_ok:
  assumes "log_inv st" "lg < length (st_loggers st)"
  shows "log_ok st (delAppender lg i st)" "log_ok st (clearAppender lg st)" "log_ok st (Logger_setLevel lg level st)"
proof -
  let ?l = "st_loggers st ! lg"
  have "log_inv (set_logger lg (?l\<lparr>lg_appenders := remove1 i (lg_appenders ?l)\<rparr>) st)"
    "log_inv (set_logger lg (?l\<lparr>lg_appenders := []\<rparr>) st)"
    by (rule appenders_subset_ok [OF assms], simp add: set_remove1_subset)+
  moreover have "log_inv (set_logger lg (?l\<lparr>lg_level := level\<rparr>) st)"
    using set_logger_inv [OF assms] inv_logger [OF assms] by (simp add: logger_ok_def)
  ultimately show "log_ok st (delAppender lg i st)" "log_ok st (clearAppender lg st)"
    "log_ok st (Logger_setLevel lg level st)"
    using inv_logger [OF assms]
    by (simp_all add: delAppender_def clearAppender_def Logger_setLevel_def log_okI)
qed

lemma alloc_appender_inv:
  assumes "log_inv st" "appender_ok a"
  shows "log_inv (fst (alloc_appender a st))"
  using assms by (fastforce simp: alloc_appender_def log_inv_def logger_ok_def attached_ok_def nth_append)

lemma alloc_logger_inv:
  assumes "log_inv st" "logger_ok (st_appenders st) (st_root st) l"
  shows "log_inv (fst (alloc_logger l st))"
  using assms by (auto simp: alloc_logger_def log_inv_def mgr_ok_def nth_append less_Suc_eq)

lemma getLogger_ok:
  assumes "log_inv st"
  shows "log_inv (fst (getLogger name st))" "snd (getLogger name st) < length (st_loggers (fst (getLogger name st)))"
    "length (st_loggers st) \<le> length (st_loggers (fst (getLogger name st)))"
proof -
  have m: "strlt.ordered fst (st_mgr st)" using assms by (simp add: log_inv_def mgr_ok_def)
  show "log_inv (fst (getLogger name st))"
  proof (cases "map_lookup string_less name (st_mgr st)")
    case None
    let ?l = "(Logger_new name)\<lparr>lg_root := Some (st_root st)\<rparr>"
    have inv: "log_inv (fst (alloc_logger ?l st))"
      using alloc_logger_inv [OF assms] by (simp add: logger_ok_def Logger_new_def attached_ok_def)
    have "mgr_ok (st_loggers st @ [?l]) (map_assign string_less name (length (st_loggers st)) (st_mgr st))"
      using strlt.map_assign_spec [OF m] assms
      by (auto simp: mgr_ok_def log_inv_def nth_append Logger_new_def less_Suc_eq split: if_splits)
    then show ?thesis using inv None by (simp add: getLogger_def alloc_logger_def log_inv_def)
  qed (simp add: getLogger_def assms)
  show "snd (getLogger name st) < length (st_loggers (fst (getLogger name st)))"
    "length (st_loggers st) \<le> length (st_loggers (fst (getLogger name st)))"
    using assms m by (auto simp: getLogger_def alloc_logger_def log_inv_def
        mgr_ok_def split: option.splits)
qed

section \<open>Reachable states\<close>

text \<open>
  The steps a program can make on the logging system, with pointers to objects that exist and formatters that
  are not null: creating loggers and appenders, changing them, logging, and any change of the outside world.
\<close>

inductive log_step :: "strftime_fun \<Rightarrow> log_state \<Rightarrow> log_state \<Rightarrow> bool" for strftime where
  step_getLogger: "log_step strftime st (fst (getLogger name st))"
| step_newLogger: "log_step strftime st (fst (alloc_logger (Logger_new name) st))"
| step_newStdout: "log_step strftime st (fst (alloc_appender StdoutLogAppender_new st))"
| step_newFile: "FileLogAppender_new filename (st_os st) = (a, os) \<Longrightarrow>
    log_step strftime st (fst (alloc_appender a (st\<lparr>st_os := os\<rparr>)))"
| step_appenderFormatter: "i < length (st_appenders st) \<Longrightarrow>
    log_step strftime st (set_appender i (LogAppender_setFormatter (Some f) (st_appenders st ! i)) st)"
| step_appenderLevel: "i < length (st_appenders st) \<Longrightarrow>
    log_step strftime st (set_appender i (LogAppender_setLevel level (st_appenders st ! i)) st)"
| step_setFormatter: "lg < length (st_loggers st) \<Longrightarrow> Logger_setFormatter lg (Some f) st = Inr st' \<Longrightarrow>
    log_step strftime st st'"
| step_setFormatter_str: "lg < length (st_loggers st) \<Longrightarrow> Logger_setFormatter_str lg val st = Inr st' \<Longrightarrow>
    log_step strftime st st'"
| step_addAppender: "lg < length (st_loggers st) \<Longrightarrow> i < length (st_appenders st) \<Longrightarrow>
    addAppender lg (Some i) st = Inr st' \<Longrightarrow> log_step strftime st st'"
| step_delAppender: "lg < length (st_loggers st) \<Longrightarrow> delAppender lg i st = Inr st' \<Longrightarrow> log_step strftime st st'"
| step_clearAppender: "lg < length (st_loggers st) \<Longrightarrow> clearAppender lg st = Inr st' \<Longrightarrow> log_step strftime st st'"
| step_setLevel: "lg < length (st_loggers st) \<Longrightarrow> Logger_setLevel lg level st = Inr st' \<Longrightarrow> log_step strftime st st'"
| step_log: "lg < length (st_loggers st) \<Longrightarrow> Logger_log strftime lg level ev st = Some (Inr st') \<Longrightarrow>
    log_step strftime st st'"
| step_world: "log_step strftime st (st\<lparr>st_os := os\<rparr>)"

lemma log_okD: "log_ok st r \<Longrightarrow> r = Inr st' \<Longrightarrow> log_inv st'"
  by (auto simp: log_ok_def)

lemma FileLogAppender_new_ok: "FileLogAppender_new filename os = (a, os') \<Longrightarrow> appender_ok a"
  by (auto simp: FileLogAppender_new_def appender_ok_def Let_def split: prod.splits)

lemma log_step_inv: "log_step strftime st st' \<Longrightarrow> log_inv st \<Longrightarrow> log_inv st'"
proof (induction rule: log_step.induct)
  case (step_newLogger st name)
  then show ?case using alloc_logger_inv by (simp add: logger_ok_def Logger_new_def attached_ok_def)
next
  case (step_newStdout st)
  then show ?case by (rule alloc_appender_inv) (simp add: appender_ok_def StdoutLogAppender_new_def)
next
  case (step_newFile filename st a os)
  then show ?case using alloc_appender_inv FileLogAppender_new_ok by simp
next
  case (step_appenderFormatter i st f)
  then show ?case by (intro set_appender_inv) (simp_all add: appender_ok_def LogAppender_setFormatter_def)
next
  case (step_appenderLevel i st level)
  then show ?case using inv_appender
    by (intro set_appender_inv) (simp_all add: appender_ok_def LogAppender_setLevel_def)
next
  case (step_log lg st level ev st')
  then show ?case using Logger_log_ok [of st lg strftime level ev] by auto
next
  case (step_setFormatter lg st f st')
  then show ?case using log_okD Logger_setFormatter_ok by blast
next
  case (step_setFormatter_str lg st val st')
  then show ?case using log_okD Logger_setFormatter_str_ok by blast
next
  case (step_addAppender lg st i st')
  then show ?case using log_okD addAppender_ok by blast
next
  case (step_delAppender lg st i st')
  then show ?case using log_okD simple_ops_ok(1) by blast
next
  case (step_clearAppender lg st st')
  then show ?case using log_okD simple_ops_ok(2) by blast
next
  case (step_setLevel lg st level st')
  then show ?case using log_okD simple_ops_ok(3) by blast
next
  case (step_getLogger st name)
  then show ?case by (rule getLogger_ok(1))
next
  case (step_world st os)
  then show ?case by simp
qed

text \<open>The registry at the start: the root logger with a standard output appender.\<close>

lemma LoggerManager_new_value:
  "LoggerManager_new os = Inr
     \<lparr>st_loggers = [(Logger_new ''root'')\<lparr>lg_appenders := [0]\<rparr>],
      st_appenders = [StdoutLogAppender_new\<lparr>ap_formatter := lg_formatter (Logger_new ''root'')\<rparr>],
      st_mgr = map_assign string_less ''root'' 0 [], st_root = 0, st_os = os\<rparr>"
  by (simp add: LoggerManager_new_def Let_def alloc_logger_def alloc_appender_def addAppender_def logger_at_def
      appender_at_def set_appender_def set_logger_def Logger_new_def StdoutLogAppender_new_def)

lemma map_lookup_Nil: "map_lookup lt k [] = None"
  by (simp add: map_lookup_def set_find_def lower_bound_def)

lemma LoggerManager_new_inv: "LoggerManager_new os = Inr st \<Longrightarrow> log_inv st"
  using strlt.map_assign_spec [of "[]" "''root''" "0 :: nat"]
  by (auto simp: LoggerManager_new_value Logger_new_def StdoutLogAppender_new_def log_inv_defs map_lookup_Nil
      split: if_splits)


definition sample_os :: log_os where
  "sample_os = \<lparr>os_files = Map.empty, os_can_open = (\<lambda>f. True), os_cout = [], os_now = 7\<rparr>"

definition sample_site :: log_site where
  "sample_site = \<lparr>at_file = ''main.cpp'', at_line = 3, at_thread = 1, at_fiber = 0, at_name = ''main''\<rparr>"


section \<open>Where an event goes\<close>

text \<open>The text that a standard output appender prints for an event.\<close>

definition stdout_text :: "strftime_fun \<Rightarrow> log_state \<Rightarrow> Level \<Rightarrow> LogEvent \<Rightarrow> nat \<Rightarrow> string" where
  "stdout_text strftime st level ev i =
     (let a = st_appenders st ! i
      in if ap_level a \<le> level then LogFormatter_format strftime (name_of st) (the (ap_formatter a)) level ev else [])"

lemma name_of_os: "name_of (st\<lparr>st_os := os\<rparr>) = name_of st"
  by (rule ext) (simp add: name_of_def)

lemma log_appenders_stdout:
  "log_inv st \<Longrightarrow> attached_ok (st_appenders st) is \<Longrightarrow> (\<forall>i\<in>set is. ap_file (st_appenders st ! i) = None) \<Longrightarrow>
   log_appenders strftime level ev is st =
     Inr (st\<lparr>st_os := cout (concat (map (stdout_text strftime st level ev) is)) (st_os st)\<rparr>)"
proof (induction "is" arbitrary: st)
  case (Cons i "is")
  let ?a = "st_appenders st ! i"
  let ?st = "st\<lparr>st_os := cout (stdout_text strftime st level ev i) (st_os st)\<rparr>"
  have i: "i < length (st_appenders st)" "ap_formatter ?a \<noteq> None" "ap_file ?a = None"
    using Cons.prems(2,3) by (auto simp: attached_ok_def)
  have "appender_log (\<lambda>f. LogFormatter_format strftime (name_of st) f level ev) level ?a (st_os st) =
      Inr (?a, cout (stdout_text strftime st level ev i) (st_os st))"
    using i(2,3) by (auto simp: appender_log_def StdoutLogAppender_log_def stdout_text_def Let_def cout_def)
  moreover have "(set_appender i ?a st)\<lparr>st_os := os\<rparr> = st\<lparr>st_os := os\<rparr>" for os
    by (simp add: set_appender_def)
  ultimately have "log_appenders strftime level ev (i # is) st = log_appenders strftime level ev is ?st"
    using inv_appender [OF Cons.prems(1) i(1)] by simp
  moreover have "stdout_text strftime ?st level ev = stdout_text strftime st level ev"
    by (rule ext) (simp add: stdout_text_def name_of_os Let_def)
  ultimately show ?case using Cons.IH [of ?st] Cons.prems by (simp add: attached_ok_def cout_def)
qed (simp add: cout_def)

text \<open>
  C35: What a log statement writes, when the appenders concerned print to standard output. A logger whose
  level is above the level of the statement writes nothing; otherwise each of its appenders whose level
  permits writes the formatted event once, in order, and when it has none those of its root do, if the level of
  the root permits. Nothing else of the state changes.
\<close>

theorem log_delivery:
  fixes st lg level w msg
  assumes "log_inv st" "lg < length (st_loggers st)"
    "\<forall>i\<in>set (targets st lg level). ap_file (st_appenders st ! i) = None"
  defines "ev \<equiv> (site_event w lg level (os_now (st_os st)))\<lparr>ev_ss := msg\<rparr>"
  shows "LOG_LEVEL strftime w lg level msg st =
    Some (Inr (st\<lparr>st_os := cout (concat (map (stdout_text strftime st level ev) (targets st lg level))) (st_os st)\<rparr>))"
proof (cases "lg_level (st_loggers st ! lg) \<le> level")
  case True
  have "stream_write (LogEventWrap_getSS e) msg e = ev" if "e = site_event w lg level (os_now (st_os st))" for e
    using that by (simp add: ev_def LogEventWrap_getSS_def site_event_def LogEvent_new_def)
  then have "LOG_LEVEL strftime w lg level msg st = Logger_log strftime lg level ev st"
    using True inv_logger [OF assms(1,2)] by (simp add: LOG_LEVEL_def Let_def)
  then show ?thesis
    using Logger_log_targets [OF assms(1,2)] log_appenders_stdout [OF assms(1) targets_attached [OF assms(1,2)] assms(3)]
    by simp
next
  case False
  then show ?thesis using inv_logger [OF assms(1,2)] by (simp add: LOG_LEVEL_def targets_def Let_def cout_def)
qed

definition sample_state :: log_state where
  "sample_state =
     \<lparr>st_loggers =
        [(Logger_new ''root'')\<lparr>lg_appenders := [0]\<rparr>,
         (Logger_new ''system'')\<lparr>lg_root := Some 0, lg_level := WARN\<rparr>],
      st_appenders =
        [StdoutLogAppender_new\<lparr>ap_formatter := Some \<lparr>m_pattern = ''%p:%m'',
           m_items = [LevelFormatItem, StringFormatItem '':'', MessageFormatItem], m_error = False\<rparr>\<rparr>],
      st_mgr = [(''root'', 0), (''system'', 1)], st_root = 0, st_os = sample_os\<rparr>"

lemma sample_state_inv: "log_inv sample_state"
proof -
  have o: "strlt.ordered fst [(''root'', 0 :: nat), (''system'', Suc 0)]" by (simp add: strlt.ordered_Cons)
  then have "mgr_ok (st_loggers sample_state) (st_mgr sample_state)"
    by (auto simp: mgr_ok_def sample_state_def map_lookup_def strlt.set_find_Some_iff [OF o] Logger_new_def)
  then show ?thesis
    by (simp add: log_inv_def sample_state_def logger_ok_def attached_ok_def appender_ok_def Logger_new_def
        StdoutLogAppender_new_def)
qed

theorem log_delivery_witness:
  "LOG_LEVEL (\<lambda>f t. []) sample_site 1 ERROR ''disk'' sample_state =
     Some (Inr (sample_state\<lparr>st_os := sample_os\<lparr>os_cout := ''ERROR:disk''\<rparr>\<rparr>)) \<and>
   LOG_LEVEL (\<lambda>f t. []) sample_site 1 INFO ''up'' sample_state = Some (Inr sample_state)"
proof -
  have s: "st_os sample_state = sample_os" by (simp add: sample_state_def)
  have "LOG_LEVEL (\<lambda>f t. []) sample_site 1 ERROR ''disk'' sample_state =
     Some (Inr (sample_state\<lparr>st_os := sample_os\<lparr>os_cout := ''ERROR:disk''\<rparr>\<rparr>))"
    by (subst log_delivery [OF sample_state_inv])
      (simp_all add: sample_state_def targets_def Logger_new_def StdoutLogAppender_new_def less_eq_Level_def
        stdout_text_def LogFormatter_format_def cout_def sample_os_def)
  moreover have "LOG_LEVEL (\<lambda>f t. []) sample_site 1 INFO ''up'' sample_state = Some (Inr sample_state)"
    by (subst log_delivery [OF sample_state_inv])
      (simp_all add: sample_state_def targets_def Logger_new_def StdoutLogAppender_new_def less_eq_Level_def
        cout_def sample_os_def)
  ultimately show ?thesis by blast
qed

section \<open>Files\<close>

text \<open>A run of a file appender over the times and texts of events that its level permits.\<close>

fun file_run :: "(u64 \<times> string) list \<Rightarrow> LogAppender \<Rightarrow> log_os \<Rightarrow> (LogAppender \<times> log_os) res" where
  "file_run [] a os = Inr (a, os)"
| "file_run ((now, x) # evs) a os =
     bind_res (appender_log (\<lambda>f. x) (ap_level a) a (os\<lparr>os_now := now\<rparr>)) (\<lambda>(a, os). file_run evs a os)"

definition file_ok :: "string \<Rightarrow> string \<Rightarrow> u64 \<Rightarrow> LogAppender \<Rightarrow> log_os \<Rightarrow> bool" where
  "file_ok name content t a os \<longleftrightarrow>
     ap_formatter a \<noteq> None \<and> os_can_open os (c_str name) \<and> os_files os (c_str name) = Some content \<and>
     ap_file a = Some \<lparr>m_filename = name,
       m_filestream = \<lparr>fs_open = True, fs_fail = False, fs_pos = length content\<rparr>, m_lastTime = t\<rparr>"

lemma file_step:
  assumes "file_ok name content t a os"
  shows "\<exists>a' os'. appender_log (\<lambda>f. x) (ap_level a) a (os\<lparr>os_now := now\<rparr>) = Inr (a', os') \<and>
    file_ok name (if now = t then content @ x else x) now a' os' \<and> ap_level a' = ap_level a"
  using assms
  by (auto simp: file_ok_def appender_log_def FileLogAppender_log_def reopen_def file_write_def write_at_def Let_def)

lemma file_run_append:
  "file_run (xs @ ys) a os = bind_res (file_run xs a os) (\<lambda>(a, os). file_run ys a os)"
  by (induction xs a os rule: file_run.induct) (auto simp: bind_res_assoc split_def intro: arg_cong2)

lemma file_run_ok:
  "file_ok name content t a os \<Longrightarrow>
   \<exists>a' os' content'. file_run evs a os = Inr (a', os') \<and>
     file_ok name content' (if evs = [] then t else fst (last evs)) a' os'"
proof (induction evs arbitrary: content t a os)
  case (Cons e evs)
  obtain now x where e: "e = (now, x)" by (cases e)
  obtain a' os' where s: "appender_log (\<lambda>f. x) (ap_level a) a (os\<lparr>os_now := now\<rparr>) = Inr (a', os')"
    "file_ok name (if now = t then content @ x else x) now a' os'"
    using file_step [OF Cons.prems] by blast
  then show ?case using Cons.IH [OF s(2)] e by auto
qed auto

lemma file_run_same:
  "file_ok name content t a os \<Longrightarrow>
   \<exists>a' os'. file_run (map (Pair t) texts) a os = Inr (a', os') \<and> file_ok name (content @ concat texts) t a' os'"
proof (induction texts arbitrary: content a os)
  case (Cons x texts)
  obtain a' os' where s: "appender_log (\<lambda>f. x) (ap_level a) a (os\<lparr>os_now := t\<rparr>) = Inr (a', os')"
    "file_ok name (content @ x) t a' os'"
    using file_step [OF Cons.prems, of x t] by auto
  then show ?case using Cons.IH [OF s(2)] by auto
qed auto

text \<open>
  A file appender keeps the events of one second only: after events at any times, the last of them not at
  time \<open>t\<close>, and then events at time \<open>t\<close>, the file holds the texts of the latter and nothing else, since the
  change of the clock opens the file again, which truncates it.
\<close>

theorem file_log_keeps_last_second:
  assumes "os_can_open os (c_str name)" "FileLogAppender_new name os = (a, os1)"
    "texts \<noteq> []" "t \<noteq> (if evs = [] then 0 else fst (last evs))"
  shows "\<exists>a' os'. file_run (evs @ map (Pair t) texts) (a\<lparr>ap_formatter := Some f\<rparr>) os1 = Inr (a', os') \<and>
    os_files os' (c_str name) = Some (concat texts)"
proof -
  have ok: "file_ok name [] 0 (a\<lparr>ap_formatter := Some f\<rparr>) os1"
    using assms(1,2) by (auto simp: file_ok_def FileLogAppender_new_def reopen_def Let_def)
  obtain a2 os2 c where r: "file_run evs (a\<lparr>ap_formatter := Some f\<rparr>) os1 = Inr (a2, os2)"
    "file_ok name c (if evs = [] then 0 else fst (last evs)) a2 os2"
    using file_run_ok [OF ok] by blast
  obtain x xs where t: "texts = x # xs" using assms(3) by (cases texts) auto
  obtain a3 os3 where s: "appender_log (\<lambda>f. x) (ap_level a2) a2 (os2\<lparr>os_now := t\<rparr>) = Inr (a3, os3)"
    "file_ok name x t a3 os3"
    using file_step [OF r(2), of x t] assms(4) by auto
  obtain a4 os4 where "file_run (map (Pair t) xs) a3 os3 = Inr (a4, os4)" "file_ok name (x @ concat xs) t a4 os4"
    using file_run_same [OF s(2)] by blast
  then show ?thesis using r(1) s(1) t by (auto simp: file_run_append file_ok_def)
qed

theorem file_log_keeps_last_second_witness:
  "\<exists>a' os'. file_run [(7, ''one''), (8, ''two''), (8, ''three'')]
      ((fst (FileLogAppender_new ''a.log'' sample_os))\<lparr>ap_formatter := Some (LogFormatter_new ''%m'')\<rparr>)
      (snd (FileLogAppender_new ''a.log'' sample_os)) = Inr (a', os') \<and>
    os_files os' ''a.log'' = Some ''twothree''"
  using file_log_keeps_last_second [of sample_os "''a.log''" _ _ "[''two'', ''three'']" 8 "[(7, ''one'')]"
      "LogFormatter_new ''%m''", OF _ prod.collapse [symmetric]]
  by (simp add: sample_os_def c_str_def)

end
