(* ===== verification/Log_Config.thy ===== *)
theory Log_Config
  imports Log
begin

text \<open>
  The configuration of the logging system in \<open>mingfwq/log.cpp\<close>: the definitions of loggers and appenders, their
  conversion from and to YAML, the listener of the variable \<open>logs\<close> that applies a changed configuration, and the
  output of the logging system as YAML.

  The functions of yaml-cpp are the parameter \<open>yaml_cpp\<close>: loading, emission, and the access to nodes, where
  \<open>None\<close> is an exception. What the proofs need of them is \<open>yaml_laws\<close>. The messages that the conversions
  print to standard output are not modelled. A \<open>std::set<LogDefine>\<close> is the list of its elements in the order of
  their names.
\<close>

section \<open>Definitions of loggers\<close>

record LogAppenderDefine =
  lad_type :: int
  lad_level :: Level
  lad_formatter :: string
  lad_file :: string

record LogDefine =
  ld_name :: string
  ld_level :: Level
  ld_formatter :: string
  ld_appenders :: "LogAppenderDefine list"

definition LogAppenderDefine_new :: LogAppenderDefine where
  "LogAppenderDefine_new = \<lparr>lad_type = 0, lad_level = UNKNOW, lad_formatter = [], lad_file = []\<rparr>"

text \<open>\<open>operator<\<close> of \<open>LogDefine\<close> is the order of the set; \<open>operator==\<close> compares all members and is equality.\<close>

abbreviation find_define :: "LogDefine \<Rightarrow> LogDefine list \<Rightarrow> LogDefine option" where
  "find_define i ds \<equiv> set_find string_less ld_name (ld_name i) ds"

section \<open>Conversion from YAML\<close>

record yaml_cpp =
  yaml_load :: "string \<Rightarrow> Node option"
  yaml_emit :: "Node \<Rightarrow> string"
  yaml_size :: "Node \<Rightarrow> nat"
  yaml_at :: "Node \<Rightarrow> nat \<Rightarrow> Node"
  yaml_field :: "Node \<Rightarrow> string \<Rightarrow> Node option option"
  yaml_as_string :: "Node \<Rightarrow> string option"

text \<open>\<open>n[k].IsDefined() ? n[k].as<std::string>() : d\<close>\<close>

definition field_or :: "yaml_cpp \<Rightarrow> Node \<Rightarrow> string \<Rightarrow> string \<Rightarrow> string option" where
  "field_or Y n k d =
     (case yaml_field Y n k of
        None \<Rightarrow> None
      | Some None \<Rightarrow> Some d
      | Some (Some v) \<Rightarrow> yaml_as_string Y v)"

text \<open>One appender: \<open>Some None\<close> is the \<open>continue\<close> of an invalid one.\<close>

definition appender_of_node :: "yaml_cpp \<Rightarrow> Node \<Rightarrow> LogAppenderDefine option option" where
  "appender_of_node Y a =
     (case yaml_field Y a ''type'' of
        None \<Rightarrow> None
      | Some None \<Rightarrow> Some None
      | Some (Some t) \<Rightarrow>
          (case yaml_as_string Y t of
             None \<Rightarrow> None
           | Some type \<Rightarrow>
               let lad = LogAppenderDefine_new
               in if type = ''FileLogAppender'' then
                    let lad = lad\<lparr>lad_type := 1\<rparr>
                    in (case yaml_field Y a ''file'' of
                          None \<Rightarrow> None
                        | Some None \<Rightarrow> Some None
                        | Some (Some f) \<Rightarrow>
                            (case yaml_as_string Y f of
                               None \<Rightarrow> None
                             | Some file \<Rightarrow>
                                 (case field_or Y a ''formatter'' (lad_formatter lad) of
                                    None \<Rightarrow> None
                                  | Some fmt \<Rightarrow> Some (Some (lad\<lparr>lad_file := file, lad_formatter := fmt\<rparr>)))))
                  else if type = ''StdoutLogAppender'' then Some (Some (lad\<lparr>lad_type := 2\<rparr>))
                  else Some None))"

fun appenders_of_nodes :: "yaml_cpp \<Rightarrow> Node list \<Rightarrow> LogAppenderDefine list option" where
  "appenders_of_nodes Y [] = Some []"
| "appenders_of_nodes Y (a # as) =
     (case appender_of_node Y a of
        None \<Rightarrow> None
      | Some lad \<Rightarrow>
          (case appenders_of_nodes Y as of
             None \<Rightarrow> None
           | Some lads \<Rightarrow> Some (case lad of None \<Rightarrow> lads | Some lad \<Rightarrow> lad # lads)))"

definition node_elems :: "yaml_cpp \<Rightarrow> Node \<Rightarrow> Node list" where
  "node_elems Y n = map (yaml_at Y n) [0..<yaml_size Y n]"

definition define_of_node :: "yaml_cpp \<Rightarrow> Node \<Rightarrow> LogDefine option option" where
  "define_of_node Y n =
     (case yaml_field Y n ''name'' of
        None \<Rightarrow> None
      | Some None \<Rightarrow> Some None
      | Some (Some m) \<Rightarrow>
          (case yaml_as_string Y m of
             None \<Rightarrow> None
           | Some name \<Rightarrow>
               (case field_or Y n ''level'' [] of
                  None \<Rightarrow> None
                | Some level \<Rightarrow>
                    (case field_or Y n ''formatter'' [] of
                       None \<Rightarrow> None
                     | Some fmt \<Rightarrow>
                         (case yaml_field Y n ''appenders'' of
                            None \<Rightarrow> None
                          | Some apps \<Rightarrow>
                              (case appenders_of_nodes Y (case apps of None \<Rightarrow> [] | Some v \<Rightarrow> node_elems Y v) of
                                 None \<Rightarrow> None
                               | Some lads \<Rightarrow>
                                   Some (Some \<lparr>ld_name = name, ld_level = LogLevel_FromString level,
                                     ld_formatter = fmt, ld_appenders = lads\<rparr>)))))))"

fun defines_of_nodes :: "yaml_cpp \<Rightarrow> Node list \<Rightarrow> LogDefine list \<Rightarrow> LogDefine list option" where
  "defines_of_nodes Y [] vec = Some vec"
| "defines_of_nodes Y (n # ns) vec =
     (case define_of_node Y n of
        None \<Rightarrow> None
      | Some None \<Rightarrow> defines_of_nodes Y ns vec
      | Some (Some ld) \<Rightarrow> defines_of_nodes Y ns (set_insert string_less ld_name ld vec))"

definition LogDefines_of_string :: "yaml_cpp \<Rightarrow> string \<Rightarrow> LogDefine list option" where
  "LogDefines_of_string Y v =
     (case yaml_load Y v of
        None \<Rightarrow> None
      | Some node \<Rightarrow> defines_of_nodes Y (node_elems Y node) [])"

section \<open>Conversion to YAML\<close>

definition map_node :: "(string \<times> Node) list \<Rightarrow> Node" where
  "map_node kvs = (if kvs = [] then Null else Map (map (\<lambda>(k, v). (Scalar k, v)) kvs))"

definition seq_node :: "Node list \<Rightarrow> Node" where
  "seq_node ns = (if ns = [] then Null else Sequence ns)"

definition node_of_appender :: "LogAppenderDefine \<Rightarrow> Node" where
  "node_of_appender a =
     map_node
       ((if lad_type a = 1 then [(''type'', Scalar ''FileLogAppender''), (''file'', Scalar (lad_file a))]
         else if lad_type a = 1 then [(''type'', Scalar ''StdoutLogAppender'')]
         else []) @
        (if lad_level a \<noteq> UNKNOW then [(''level'', Scalar (LogLevel_ToString (lad_level a)))] else []) @
        (if lad_formatter a \<noteq> [] then [(''formatter'', Scalar (lad_formatter a))] else []))"

definition node_of_define :: "LogDefine \<Rightarrow> Node" where
  "node_of_define i =
     map_node
       ([(''name'', Scalar (ld_name i))] @
        (if ld_level i \<noteq> UNKNOW then [(''level'', Scalar (LogLevel_ToString (ld_level i)))] else []) @
        (if ld_formatter i = [] then [(''formatter'', Scalar (ld_formatter i))] else []) @
        (if ld_appenders i \<noteq> [] then [(''appender'', Sequence (map node_of_appender (ld_appenders i)))] else []))"

definition node_of_defines :: "LogDefine list \<Rightarrow> Node" where
  "node_of_defines v = seq_node (map node_of_define v)"

definition string_of_LogDefines :: "yaml_cpp \<Rightarrow> LogDefine list \<Rightarrow> string" where
  "string_of_LogDefines Y v = yaml_emit Y (node_of_defines v)"

section \<open>The state of the logging system as YAML\<close>

definition level_formatter_fields :: "Level \<Rightarrow> LogFormatter option \<Rightarrow> (string \<times> Node) list" where
  "level_formatter_fields level f =
     (if level \<noteq> UNKNOW then [(''level'', Scalar (LogLevel_ToString level))] else []) @
     (case f of Some f \<Rightarrow> [(''formatter'', Scalar (m_pattern f))] | None \<Rightarrow> [])"

definition appender_toYamlString :: "yaml_cpp \<Rightarrow> LogAppender \<Rightarrow> string" where
  "appender_toYamlString Y a =
     yaml_emit Y (map_node
       ((case ap_file a of
           Some f \<Rightarrow> [(''type'', Scalar ''FileLogAppender''), (''file'', Scalar ''m_filename'')]
         | None \<Rightarrow> [(''type'', Scalar ''StdoutLogAppender'')]) @
        level_formatter_fields (ap_level a) (if ap_hasFormatter a then ap_formatter a else None)))"

fun load_all :: "yaml_cpp \<Rightarrow> string list \<Rightarrow> Node list option" where
  "load_all Y [] = Some []"
| "load_all Y (s # ss) =
     (case yaml_load Y s of
        None \<Rightarrow> None
      | Some n \<Rightarrow> map_option ((#) n) (load_all Y ss))"

definition Logger_toYamlString :: "yaml_cpp \<Rightarrow> log_state \<Rightarrow> nat \<Rightarrow> string option" where
  "Logger_toYamlString Y st i =
     (let l = st_loggers st ! i
      in case load_all Y (map (\<lambda>a. appender_toYamlString Y (st_appenders st ! a)) (lg_appenders l)) of
           None \<Rightarrow> None
         | Some as \<Rightarrow>
             Some (yaml_emit Y (map_node
               ([(''name'', Scalar (lg_name l))] @ level_formatter_fields (lg_level l) (lg_formatter l) @
                (if as \<noteq> [] then [(''appenders'', Sequence as)] else [])))))"

fun all_some :: "'a option list \<Rightarrow> 'a list option" where
  "all_some [] = Some []"
| "all_some (x # xs) =
     (case x of None \<Rightarrow> None | Some y \<Rightarrow> map_option ((#) y) (all_some xs))"

definition LoggerManager_toYamlString :: "yaml_cpp \<Rightarrow> log_state \<Rightarrow> string option" where
  "LoggerManager_toYamlString Y st =
     (case all_some (map (\<lambda>(name, i). Logger_toYamlString Y st i) (st_mgr st)) of
        None \<Rightarrow> None
      | Some ss \<Rightarrow> map_option (\<lambda>ns. yaml_emit Y (seq_node ns)) (load_all Y ss))"

section \<open>Applying a configuration\<close>

definition define_appender :: "LogDefine \<Rightarrow> nat \<Rightarrow> LogAppenderDefine \<Rightarrow> log_state \<Rightarrow> log_state res" where
  "define_appender i logger a st =
     bind_res
       (if lad_type a = 1 then
          let (ap, os) = FileLogAppender_new (lad_file a) (st_os st) in Inr (ap, st\<lparr>st_os := os\<rparr>)
        else if lad_type a = 2 then Inr (StdoutLogAppender_new, st)
        else Inl Null_deref)
       (\<lambda>(ap, st).
          let ap = LogAppender_setLevel (lad_level a) ap;
              fmt = LogFormatter_new (lad_formatter a);
              (ap, st) =
                (if lad_formatter a \<noteq> [] then
                   if \<not> m_error fmt then (LogAppender_setFormatter (Some fmt) ap, st)
                   else (ap, st\<lparr>st_os := cout (''log name = '' @ ld_name i @ '' appender type= '' @
                     int_to_string (lad_type a) @ '' formatter ='' @ lad_formatter a @ ''is invalid'' @ endl) (st_os st)\<rparr>)
                 else (ap, st));
              (st, p) = alloc_appender ap st
          in addAppender logger (Some p) st)"

fun define_appenders :: "LogDefine \<Rightarrow> nat \<Rightarrow> LogAppenderDefine list \<Rightarrow> log_state \<Rightarrow> log_state res" where
  "define_appenders i logger [] st = Inr st"
| "define_appenders i logger (a # as) st =
     bind_res (define_appender i logger a st) (define_appenders i logger as)"

definition define_logger :: "LogDefine list \<Rightarrow> LogDefine \<Rightarrow> log_state \<Rightarrow> log_state res" where
  "define_logger old_value i st =
     (let (st, logger) =
        (case find_define i old_value of
           None \<Rightarrow> let (st, l) = getLogger (ld_name i) st in (st, Some l)
         | Some it \<Rightarrow> if i \<noteq> it then let (st, l) = getLogger (ld_name i) st in (st, Some l) else (st, None))
      in case logger of
           None \<Rightarrow> Inl Null_deref
         | Some logger \<Rightarrow>
             bind_res (Logger_setLevel logger (ld_level i) st) (\<lambda>st.
             bind_res (if ld_formatter i \<noteq> [] then Logger_setFormatter_str logger (ld_formatter i) st else Inr st) (\<lambda>st.
             bind_res (clearAppender logger st) (\<lambda>st.
             define_appenders i logger (ld_appenders i) st))))"

fun define_loggers :: "LogDefine list \<Rightarrow> LogDefine list \<Rightarrow> log_state \<Rightarrow> log_state res" where
  "define_loggers old_value [] st = Inr st"
| "define_loggers old_value (i # new_value) st =
     bind_res (define_logger old_value i st) (define_loggers old_value new_value)"

fun remove_loggers :: "LogDefine list \<Rightarrow> LogDefine list \<Rightarrow> log_state \<Rightarrow> log_state res" where
  "remove_loggers new_value [] st = Inr st"
| "remove_loggers new_value (i # old_value) st =
     (if find_define i new_value = None then
        let (st, logger) = getLogger (ld_name i) st
        in bind_res (Logger_setLevel logger Level_100 st) (\<lambda>st.
           bind_res (clearAppender logger st) (remove_loggers new_value old_value))
      else remove_loggers new_value old_value st)"

definition on_logger_conf_changed ::
    "strftime_fun \<Rightarrow> log_site \<Rightarrow> LogDefine list \<Rightarrow> LogDefine list \<Rightarrow> log_state \<Rightarrow> log_state res option" where
  "on_logger_conf_changed strftime w old_value new_value st =
     map_option
       (\<lambda>r. bind_res r (\<lambda>st. bind_res (define_loggers old_value new_value st) (remove_loggers new_value old_value)))
       (LOG_LEVEL strftime w (st_root st) INFO ''on_logger_conf_changed '' st)"

section \<open>Effect of a configuration\<close>

text \<open>What the changes of one logger leave alone.\<close>

definition keeps_appenders :: "LogAppender list \<Rightarrow> LogAppender list \<Rightarrow> bool" where
  "keeps_appenders as as' \<longleftrightarrow> length as \<le> length as' \<and>
     (\<forall>p<length as. ap_level (as' ! p) = ap_level (as ! p) \<and> ap_file (as' ! p) = ap_file (as ! p))"

definition on_logger :: "nat \<Rightarrow> log_state \<Rightarrow> log_state \<Rightarrow> bool" where
  "on_logger lg st st' \<longleftrightarrow> log_inv st' \<and> st_mgr st' = st_mgr st \<and> length (st_loggers st') = length (st_loggers st) \<and>
     (\<forall>j. j \<noteq> lg \<longrightarrow> st_loggers st' ! j = st_loggers st ! j) \<and> keeps_appenders (st_appenders st) (st_appenders st')"

lemma keeps_appenders_refl [simp]: "keeps_appenders as as"
  by (simp add: keeps_appenders_def)

lemma keeps_appenders_append [simp]: "keeps_appenders as (as @ bs)"
  by (simp add: keeps_appenders_def nth_append)

lemma keeps_appenders_trans: "keeps_appenders as bs \<Longrightarrow> keeps_appenders bs cs \<Longrightarrow> keeps_appenders as cs"
  by (simp add: keeps_appenders_def)

lemma on_logger_trans: "on_logger lg st st1 \<Longrightarrow> on_logger lg st1 st2 \<Longrightarrow> on_logger lg st st2"
  unfolding on_logger_def using keeps_appenders_trans by auto

text \<open>Operations on one logger that only replace its record.\<close>

lemma setLevel_effect:
  assumes "log_inv st" "lg < length (st_loggers st)"
  shows "\<exists>st'. Logger_setLevel lg v st = Inr st' \<and> on_logger lg st st' \<and>
    lg_level (st_loggers st' ! lg) = v \<and> lg_appenders (st_loggers st' ! lg) = lg_appenders (st_loggers st ! lg)"
proof -
  have "log_inv (set_logger lg ((st_loggers st ! lg)\<lparr>lg_level := v\<rparr>) st)"
    using simple_ops_ok(3) [OF assms, of v] inv_logger [OF assms] by (simp add: log_ok_def Logger_setLevel_def)
  then show ?thesis using inv_logger [OF assms] assms(2)
    by (simp add: Logger_setLevel_def on_logger_def set_logger_def)
qed

lemma clearAppender_effect:
  assumes "log_inv st" "lg < length (st_loggers st)"
  shows "\<exists>st'. clearAppender lg st = Inr st' \<and> on_logger lg st st' \<and>
    lg_level (st_loggers st' ! lg) = lg_level (st_loggers st ! lg) \<and> lg_appenders (st_loggers st' ! lg) = []"
proof -
  have "log_inv (set_logger lg ((st_loggers st ! lg)\<lparr>lg_appenders := []\<rparr>) st)"
    using simple_ops_ok(2) [OF assms] inv_logger [OF assms] by (simp add: log_ok_def clearAppender_def)
  then show ?thesis using inv_logger [OF assms] assms(2)
    by (simp add: clearAppender_def on_logger_def set_logger_def)
qed

lemma inherit_formatter_keeps:
  "inherit_formatter val is st = Inr st' \<Longrightarrow>
   st_loggers st' = st_loggers st \<and> keeps_appenders (st_appenders st) (st_appenders st')"
proof (induction "is" arbitrary: st)
  case (Cons i "is")
  then obtain a where a: "appender_at st i = Inr a" "inherit_formatter val is
      (if \<not> ap_hasFormatter a then set_appender i (a\<lparr>ap_formatter := val\<rparr>) st else st) = Inr st'"
    by (auto simp: bind_res_Inr_iff)
  have "keeps_appenders (st_appenders st) (st_appenders (set_appender i (a\<lparr>ap_formatter := val\<rparr>) st))"
    using a(1) by (auto simp: keeps_appenders_def set_appender_def appender_at_def nth_list_update split: if_splits)
  then show ?case using Cons.IH [OF a(2)] keeps_appenders_trans by (auto split: if_splits)
qed simp

lemma setFormatter_str_effect:
  assumes "log_inv st" "lg < length (st_loggers st)"
  shows "\<exists>st'. Logger_setFormatter_str lg v st = Inr st' \<and> on_logger lg st st' \<and>
    lg_level (st_loggers st' ! lg) = lg_level (st_loggers st ! lg) \<and>
    lg_appenders (st_loggers st' ! lg) = lg_appenders (st_loggers st ! lg)"
proof -
  obtain st' where s: "Logger_setFormatter_str lg v st = Inr st'" "log_inv st'" "st_mgr st' = st_mgr st"
    "length (st_loggers st') = length (st_loggers st)"
    using Logger_setFormatter_str_ok [OF assms] by (auto simp: log_ok_def)
  have "st_loggers st' = st_loggers st \<and> keeps_appenders (st_appenders st) (st_appenders st') \<or>
      (\<exists>f. st_loggers st' = (st_loggers st)[lg := (st_loggers st ! lg)\<lparr>lg_formatter := f\<rparr>] \<and>
        keeps_appenders (st_appenders st) (st_appenders st'))"
    using s(1) inv_logger [OF assms] inherit_formatter_keeps
    by (fastforce simp: Logger_setFormatter_str_def Logger_setFormatter_def Let_def set_logger_def split: if_splits)
  then show ?thesis using s assms(2) by (auto simp: on_logger_def)
qed

subsection \<open>Appenders as defined\<close>

definition appender_type_ok :: "LogAppenderDefine \<Rightarrow> bool" where
  "appender_type_ok a \<longleftrightarrow> lad_type a \<in> {1, 2}"

definition as_defined :: "LogAppender list \<Rightarrow> LogAppenderDefine \<Rightarrow> nat \<Rightarrow> bool" where
  "as_defined as a p \<longleftrightarrow> p < length as \<and> ap_level (as ! p) = lad_level a \<and>
     (ap_file (as ! p) \<noteq> None \<longleftrightarrow> lad_type a = 1)"

lemma as_defined_keeps: "keeps_appenders as bs \<Longrightarrow> as_defined as a p \<Longrightarrow> as_defined bs a p"
  by (simp add: keeps_appenders_def as_defined_def)

lemma FileLogAppender_new_fields:
  "ap_file (fst (FileLogAppender_new f os)) \<noteq> None" "\<not> ap_hasFormatter (fst (FileLogAppender_new f os))"
  by (simp_all add: FileLogAppender_new_def Let_def split_def)

lemma define_appender_alloc:
  assumes "appender_type_ok a"
  obtains ap os where "define_appender i lg a st =
      addAppender lg (Some (length (st_appenders st))) (fst (alloc_appender ap (st\<lparr>st_os := os\<rparr>)))"
    "appender_ok ap" "ap_level ap = lad_level a" "ap_file ap \<noteq> None \<longleftrightarrow> lad_type a = 1"
proof -
  let ?new = "FileLogAppender_new (lad_file a) (st_os st)"
  define base where "base = (if lad_type a = 1 then ?new else (StdoutLogAppender_new, st_os st))"
  let ?fm = "LogFormatter_new (lad_formatter a)" and ?ap = "LogAppender_setLevel (lad_level a) (fst base)"
  define ap where "ap = (if lad_formatter a \<noteq> [] \<and> \<not> m_error ?fm then LogAppender_setFormatter (Some ?fm) ?ap else ?ap)"
  define os where "os = (if lad_formatter a \<noteq> [] \<and> m_error ?fm then
    cout (''log name = '' @ ld_name i @ '' appender type= '' @ int_to_string (lad_type a) @ '' formatter ='' @
      lad_formatter a @ ''is invalid'' @ endl) (snd base) else snd base)"
  show thesis
  proof
    show "define_appender i lg a st =
      addAppender lg (Some (length (st_appenders st))) (fst (alloc_appender ap (st\<lparr>st_os := os\<rparr>)))"
      using assms by (auto simp: define_appender_def ap_def os_def base_def appender_type_ok_def alloc_appender_def
          Let_def split_def)
    show "appender_ok ap" "ap_level ap = lad_level a" "ap_file ap \<noteq> None \<longleftrightarrow> lad_type a = 1"
      using FileLogAppender_new_fields [of "lad_file a" "st_os st"]
      by (auto simp: ap_def base_def appender_ok_def LogAppender_setLevel_def LogAppender_setFormatter_def
          StdoutLogAppender_new_def)
  qed
qed

lemma define_appender_effect:
  assumes "log_inv st" "lg < length (st_loggers st)" "appender_type_ok a"
  shows "\<exists>st' p. define_appender i lg a st = Inr st' \<and> on_logger lg st st' \<and>
    lg_level (st_loggers st' ! lg) = lg_level (st_loggers st ! lg) \<and>
    lg_appenders (st_loggers st' ! lg) = lg_appenders (st_loggers st ! lg) @ [p] \<and> as_defined (st_appenders st') a p"
proof -
  obtain ap os where d: "define_appender i lg a st =
      addAppender lg (Some (length (st_appenders st))) (fst (alloc_appender ap (st\<lparr>st_os := os\<rparr>)))"
    and ap: "appender_ok ap" "ap_level ap = lad_level a" "ap_file ap \<noteq> None \<longleftrightarrow> lad_type a = 1"
    using define_appender_alloc [OF assms(3)] by blast
  let ?st = "fst (alloc_appender ap (st\<lparr>st_os := os\<rparr>))" and ?n = "length (st_appenders st)"
  have s: "st_loggers ?st = st_loggers st" "st_appenders ?st = st_appenders st @ [ap]" "st_mgr ?st = st_mgr st"
    by (simp_all add: alloc_appender_def)
  have inv: "log_inv ?st" using alloc_appender_inv ap(1) assms(1) by simp
  have n: "lg < length (st_loggers ?st)" "?n < length (st_appenders ?st)" using assms(2) s by simp_all
  obtain st' where st': "addAppender lg (Some ?n) ?st = Inr st'" "log_inv st'"
    using addAppender_ok [OF inv n] by (auto simp: log_ok_def)
  then have "st_loggers st' = (st_loggers st)[lg := (st_loggers st ! lg)\<lparr>lg_appenders := lg_appenders (st_loggers st ! lg) @ [?n]\<rparr>]"
    "st_mgr st' = st_mgr st" "\<exists>f. st_appenders st' = st_appenders st @ [ap\<lparr>ap_formatter := f\<rparr>]"
    using inv_logger [OF inv n(1)] inv_appender [OF inv n(2)] s
    by (auto simp: addAppender_def set_logger_def set_appender_def Let_def split: if_splits
        intro: exI [of _ "ap_formatter ap"])
  then show ?thesis using d st' assms(2) ap by (auto simp: on_logger_def as_defined_def nth_append)
qed

lemma define_appenders_effect:
  "log_inv st \<Longrightarrow> lg < length (st_loggers st) \<Longrightarrow> list_all appender_type_ok as \<Longrightarrow>
   \<exists>st' ps. define_appenders i lg as st = Inr st' \<and> on_logger lg st st' \<and>
    lg_level (st_loggers st' ! lg) = lg_level (st_loggers st ! lg) \<and>
    lg_appenders (st_loggers st' ! lg) = lg_appenders (st_loggers st ! lg) @ ps \<and>
    list_all2 (as_defined (st_appenders st')) as ps"
proof (induction as arbitrary: st)
  case Nil
  then show ?case by (simp add: on_logger_def)
next
  case (Cons a as)
  obtain st1 p where s: "define_appender i lg a st = Inr st1" "on_logger lg st st1"
    "lg_level (st_loggers st1 ! lg) = lg_level (st_loggers st ! lg)"
    "lg_appenders (st_loggers st1 ! lg) = lg_appenders (st_loggers st ! lg) @ [p]" "as_defined (st_appenders st1) a p"
    using define_appender_effect [OF Cons.prems(1,2), of a i] Cons.prems(3) by auto
  have "log_inv st1" "lg < length (st_loggers st1)" using s(2) Cons.prems(2) by (simp_all add: on_logger_def)
  from Cons.IH [OF this] Cons.prems(3) obtain st2 ps where
    t: "define_appenders i lg as st1 = Inr st2" "on_logger lg st1 st2"
    "lg_level (st_loggers st2 ! lg) = lg_level (st_loggers st1 ! lg)"
    "lg_appenders (st_loggers st2 ! lg) = lg_appenders (st_loggers st1 ! lg) @ ps"
    "list_all2 (as_defined (st_appenders st2)) as ps" by auto
  have "as_defined (st_appenders st2) a p" using as_defined_keeps [OF _ s(5)] t(2) by (simp add: on_logger_def)
  then show ?case using s t on_logger_trans by (intro exI [of _ st2] exI [of _ "p # ps"]) auto
qed

subsection \<open>Loggers as configured\<close>

definition named :: "log_state \<Rightarrow> string \<Rightarrow> nat option" where
  "named st name = map_lookup string_less name (st_mgr st)"

definition configured :: "log_state \<Rightarrow> LogDefine \<Rightarrow> bool" where
  "configured st i \<longleftrightarrow> (\<exists>g. named st (ld_name i) = Some g \<and> lg_level (st_loggers st ! g) = ld_level i \<and>
     list_all2 (as_defined (st_appenders st)) (ld_appenders i) (lg_appenders (st_loggers st ! g)))"

definition disabled :: "log_state \<Rightarrow> LogDefine \<Rightarrow> bool" where
  "disabled st i \<longleftrightarrow> (\<exists>g. named st (ld_name i) = Some g \<and> lg_level (st_loggers st ! g) = Level_100 \<and>
     lg_appenders (st_loggers st ! g) = [])"

text \<open>A change of the logger \<open>name\<close> leaves the other names, their loggers and the existing appenders.\<close>

definition touches :: "string \<Rightarrow> log_state \<Rightarrow> log_state \<Rightarrow> bool" where
  "touches name st st' \<longleftrightarrow> log_inv st' \<and> (\<forall>k. k \<noteq> name \<longrightarrow> named st' k = named st k) \<and>
     (\<forall>k g. k \<noteq> name \<longrightarrow> named st k = Some g \<longrightarrow> st_loggers st' ! g = st_loggers st ! g) \<and>
     keeps_appenders (st_appenders st) (st_appenders st')"

lemma touches_keeps:
  assumes "touches name st st'" "ld_name i \<noteq> name"
  shows "configured st i \<Longrightarrow> configured st' i" "disabled st i \<Longrightarrow> disabled st' i"
proof -
  note t = assms(1) [unfolded touches_def]
  assume "configured st i"
  then obtain g where g: "named st (ld_name i) = Some g" "lg_level (st_loggers st ! g) = ld_level i"
    "list_all2 (as_defined (st_appenders st)) (ld_appenders i) (lg_appenders (st_loggers st ! g))"
    by (auto simp: configured_def)
  have "list_all2 (as_defined (st_appenders st')) (ld_appenders i) (lg_appenders (st_loggers st ! g))"
    using g(3) by (rule list_all2_mono) (use t as_defined_keeps in blast)
  then show "configured st' i" using t g assms(2) by (auto simp: configured_def)
next
  assume "disabled st i"
  then show "disabled st' i" using assms by (auto simp: disabled_def touches_def)
qed

lemma getLogger_effect:
  assumes "log_inv st" "getLogger name st = (st', g)"
  shows "log_inv st'" "g < length (st_loggers st')" "named st' name = Some g" "touches name st st'"
proof -
  show inv: "log_inv st'" "g < length (st_loggers st')" using getLogger_ok [OF assms(1), of name] assms(2) by simp_all
  have m: "strlt.ordered fst (st_mgr st)" "\<And>k i. named st k = Some i \<Longrightarrow> i < length (st_loggers st)"
    using assms(1) by (auto simp: log_inv_def mgr_ok_def named_def)
  show "named st' name = Some g"
    using assms(2) strlt.map_assign_spec [OF m(1)]
    by (auto simp: getLogger_def alloc_logger_def named_def split: option.splits)
  show "touches name st st'"
    using inv(1) assms(2) strlt.map_assign_spec [OF m(1)] m(2)
    by (auto simp: getLogger_def alloc_logger_def named_def touches_def nth_append split: option.splits)
qed

lemma on_logger_touches:
  assumes "log_inv st" "named st name = Some g" "on_logger g st st'"
  shows "touches name st st'" "named st' name = Some g"
proof -
  have n: "k = name" if "named st k = Some g" for k
    using that assms(1,2) unfolding log_inv_def mgr_ok_def named_def by metis
  have "st_loggers st' ! h = st_loggers st ! h" if "k \<noteq> name" "named st k = Some h" for k h
    using that n [of k] assms(3) by (cases "h = g") (auto simp: on_logger_def)
  then show "touches name st st'" using assms(3) by (simp add: touches_def on_logger_def named_def)
  show "named st' name = Some g" using assms(2,3) by (simp add: named_def on_logger_def)
qed

lemma touches_trans: "touches name st st1 \<Longrightarrow> touches name st1 st2 \<Longrightarrow> touches name st st2"
  unfolding touches_def using keeps_appenders_trans by auto

definition unchanged :: "LogDefine list \<Rightarrow> LogDefine \<Rightarrow> bool" where
  "unchanged old_value i \<longleftrightarrow> find_define i old_value = Some i"

lemma define_logger_unchanged: "unchanged old_value i \<Longrightarrow> define_logger old_value i st = Inl Null_deref"
  by (simp add: define_logger_def unchanged_def)

lemma define_logger_effect:
  assumes "log_inv st" "\<not> unchanged old_value i" "list_all appender_type_ok (ld_appenders i)"
  shows "\<exists>st'. define_logger old_value i st = Inr st' \<and> touches (ld_name i) st st' \<and> configured st' i"
proof -
  obtain st0 g where g: "getLogger (ld_name i) st = (st0, g)" by fastforce
  note g0 = getLogger_effect [OF assms(1) g]
  obtain st1 where s1: "Logger_setLevel g (ld_level i) st0 = Inr st1" "on_logger g st0 st1"
    "lg_level (st_loggers st1 ! g) = ld_level i" using setLevel_effect [OF g0(1,2)] by blast
  have i1: "log_inv st1" "g < length (st_loggers st1)" using s1 g0 by (simp_all add: on_logger_def)
  obtain st2 where s2: "(if ld_formatter i \<noteq> [] then Logger_setFormatter_str g (ld_formatter i) st1 else Inr st1) = Inr st2"
    "on_logger g st1 st2" "lg_level (st_loggers st2 ! g) = ld_level i"
    using setFormatter_str_effect [OF i1, of "ld_formatter i"] s1(3) i1 by (cases "ld_formatter i = []") (auto simp: on_logger_def)
  have i2: "log_inv st2" "g < length (st_loggers st2)" using s2 i1 by (simp_all add: on_logger_def)
  obtain st3 where s3: "clearAppender g st2 = Inr st3" "on_logger g st2 st3" "lg_level (st_loggers st3 ! g) = ld_level i"
    "lg_appenders (st_loggers st3 ! g) = []" using clearAppender_effect [OF i2] s2(3) by auto
  have i3: "log_inv st3" "g < length (st_loggers st3)" using s3 i2 by (simp_all add: on_logger_def)
  obtain st4 ps where s4: "define_appenders i g (ld_appenders i) st3 = Inr st4" "on_logger g st3 st4"
    "lg_level (st_loggers st4 ! g) = ld_level i" "lg_appenders (st_loggers st4 ! g) = ps"
    "list_all2 (as_defined (st_appenders st4)) (ld_appenders i) ps"
    using define_appenders_effect [OF i3 assms(3), of i] s3(3,4) by auto
  have "on_logger g st0 st4" using s1(2) s2(2) s3(2) s4(2) on_logger_trans by meson
  note t = on_logger_touches [OF g0(1,3) this]
  have "define_logger old_value i st = Inr st4"
    using assms(2) g s1(1) s2(1) s3(1) s4(1)
    by (auto simp: define_logger_def unchanged_def split: option.splits)
  moreover have "configured st4 i" using t(2) s4 by (auto simp: configured_def)
  ultimately show ?thesis using touches_trans [OF g0(4) t(1)] by blast
qed

text \<open>All definitions of a set have different names, so that later changes leave earlier ones in effect.\<close>

lemma define_loggers_effect:
  "log_inv st \<Longrightarrow> strlt.ordered ld_name new_value \<Longrightarrow>
   \<forall>i\<in>set new_value. \<not> unchanged old_value i \<and> list_all appender_type_ok (ld_appenders i) \<Longrightarrow>
   \<exists>st'. define_loggers old_value new_value st = Inr st' \<and> log_inv st' \<and> (\<forall>i\<in>set new_value. configured st' i) \<and>
     (\<forall>i. ld_name i \<notin> ld_name ` set new_value \<longrightarrow> configured st i \<longrightarrow> configured st' i)"
proof (induction new_value arbitrary: st)
  case (Cons i new_value)
  obtain st1 where s: "define_logger old_value i st = Inr st1" "touches (ld_name i) st st1" "configured st1 i"
    using define_logger_effect [OF Cons.prems(1), of old_value i] Cons.prems(3) by auto
  have i: "log_inv st1" using s(2) by (simp add: touches_def)
  obtain st2 where t: "define_loggers old_value new_value st1 = Inr st2" "log_inv st2"
    "\<forall>i\<in>set new_value. configured st2 i"
    "\<forall>i. ld_name i \<notin> ld_name ` set new_value \<longrightarrow> configured st1 i \<longrightarrow> configured st2 i"
    using Cons.IH [OF i] Cons.prems(2,3) by (auto simp: strlt.ordered_Cons)
  have "ld_name i \<notin> ld_name ` set new_value"
    using Cons.prems(2) string_less_irrefl by (auto simp: strlt.ordered_Cons)
  then have "configured st2 i" using t(4) s(3) by blast
  moreover have "configured st2 k" if "ld_name k \<notin> ld_name ` set (i # new_value)" "configured st k" for k
    using that t(4) touches_keeps(1) [OF s(2), of k] by auto
  ultimately show ?case using s(1) t by auto
qed simp

lemma remove_loggers_effect:
  "log_inv st \<Longrightarrow> strlt.ordered ld_name old_value \<Longrightarrow>
   \<exists>st'. remove_loggers new_value old_value st = Inr st' \<and> log_inv st' \<and>
     (\<forall>i\<in>set old_value. find_define i new_value = None \<longrightarrow> disabled st' i) \<and>
     (\<forall>i. find_define i new_value \<noteq> None \<longrightarrow> configured st i \<longrightarrow> configured st' i) \<and>
     (\<forall>i. ld_name i \<notin> ld_name ` set old_value \<longrightarrow> disabled st i \<longrightarrow> disabled st' i)"
proof (induction old_value arbitrary: st)
  case (Cons i old_value)
  have n: "ld_name i \<notin> ld_name ` set old_value"
    using Cons.prems(2) string_less_irrefl by (auto simp: strlt.ordered_Cons)
  have o: "strlt.ordered ld_name old_value" using Cons.prems(2) by (simp add: strlt.ordered_Cons)
  show ?case
  proof (cases "find_define i new_value = None")
    case True
    obtain st0 g where g: "getLogger (ld_name i) st = (st0, g)" by fastforce
    note g0 = getLogger_effect [OF Cons.prems(1) g]
    obtain st1 where s1: "Logger_setLevel g Level_100 st0 = Inr st1" "on_logger g st0 st1"
      "lg_level (st_loggers st1 ! g) = Level_100" using setLevel_effect [OF g0(1,2)] by blast
    have i1: "log_inv st1" "g < length (st_loggers st1)" using s1 g0 by (simp_all add: on_logger_def)
    obtain st2 where s2: "clearAppender g st1 = Inr st2" "on_logger g st1 st2"
      "lg_level (st_loggers st2 ! g) = Level_100" "lg_appenders (st_loggers st2 ! g) = []"
      using clearAppender_effect [OF i1] s1(3) by auto
    note t = on_logger_touches [OF g0(1,3) on_logger_trans [OF s1(2) s2(2)]]
    have tt: "touches (ld_name i) st st2" by (rule touches_trans [OF g0(4) t(1)])
    have d: "disabled st2 i" using t(2) s2(3,4) by (simp add: disabled_def)
    have i2: "log_inv st2" using s2(2) by (simp add: on_logger_def)
    obtain st3 where r: "remove_loggers new_value old_value st2 = Inr st3" "log_inv st3"
      "\<forall>i\<in>set old_value. find_define i new_value = None \<longrightarrow> disabled st3 i"
      "\<forall>i. find_define i new_value \<noteq> None \<longrightarrow> configured st2 i \<longrightarrow> configured st3 i"
      "\<forall>i. ld_name i \<notin> ld_name ` set old_value \<longrightarrow> disabled st2 i \<longrightarrow> disabled st3 i"
      using Cons.IH [OF i2 o] by blast
    have e: "remove_loggers new_value (i # old_value) st = Inr st3" using True g s1(1) s2(1) r(1) by simp
    have "configured st3 k" if "find_define k new_value \<noteq> None" "configured st k" for k
    proof -
      have "ld_name k \<noteq> ld_name i" using that(1) True by auto
      then show ?thesis using touches_keeps(1) [OF tt, of k] that r(4) by blast
    qed
    moreover have "disabled st3 k" if "ld_name k \<notin> ld_name ` set (i # old_value)" "disabled st k" for k
      using touches_keeps(2) [OF tt, of k] that r(5) by auto
    moreover have "disabled st3 i" using n r(5) d by blast
    ultimately show ?thesis using e r(2,3) by auto
  next
    case False
    then show ?thesis using Cons.IH [OF Cons.prems(1) o] by auto
  qed
qed simp

lemma define_loggers_crash:
  "log_inv st \<Longrightarrow> strlt.ordered ld_name new_value \<Longrightarrow> list_all (\<lambda>i. list_all appender_type_ok (ld_appenders i)) new_value \<Longrightarrow>
   \<exists>i\<in>set new_value. unchanged old_value i \<Longrightarrow> define_loggers old_value new_value st = Inl Null_deref"
proof (induction new_value arbitrary: st)
  case (Cons i new_value)
  show ?case
  proof (cases "unchanged old_value i")
    case True
    then show ?thesis by (simp add: define_logger_unchanged)
  next
    case False
    obtain st1 where s: "define_logger old_value i st = Inr st1" "touches (ld_name i) st st1"
      using define_logger_effect [OF Cons.prems(1) False] Cons.prems(3) by auto
    then show ?thesis using Cons False by (auto simp: strlt.ordered_Cons touches_def)
  qed
qed simp

lemma unchanged_iff: "strlt.ordered ld_name old_value \<Longrightarrow> unchanged old_value i \<longleftrightarrow> i \<in> set old_value"
  by (simp add: unchanged_def strlt.set_find_Some_iff)

text \<open>
  C36: What applying a changed logging configuration does. If one of the new definitions is also among the old
  ones, unchanged, the listener dereferences a null logger. Otherwise it returns; each defined logger then
  exists with the level of its definition and exactly its appenders, of the defined kinds and levels, and each
  logger that is no longer defined has the level 100 and no appender.
\<close>

theorem logger_configuration:
  assumes "log_inv st" "strlt.ordered ld_name old_value" "strlt.ordered ld_name new_value"
    "list_all (\<lambda>i. list_all appender_type_ok (ld_appenders i)) new_value"
  shows "(set old_value \<inter> set new_value \<noteq> {} \<longrightarrow>
      on_logger_conf_changed strftime w old_value new_value st = Some (Inl Null_deref)) \<and>
    (set old_value \<inter> set new_value = {} \<longrightarrow>
      (\<exists>st'. on_logger_conf_changed strftime w old_value new_value st = Some (Inr st') \<and>
        (\<forall>i\<in>set new_value. configured st' i) \<and>
        (\<forall>i\<in>set old_value. ld_name i \<notin> ld_name ` set new_value \<longrightarrow> disabled st' i)))"
proof (intro conjI impI)
  have r: "st_root st < length (st_loggers st)" using assms(1) by (simp add: log_inv_def)
  obtain st1 where s: "LOG_LEVEL strftime w (st_root st) INFO ''on_logger_conf_changed '' st = Some (Inr st1)" "log_inv st1"
    using LOG_LEVEL_ok [OF assms(1) r] by blast
  show "on_logger_conf_changed strftime w old_value new_value st = Some (Inl Null_deref)"
    if "set old_value \<inter> set new_value \<noteq> {}"
  proof -
    have "\<exists>i\<in>set new_value. unchanged old_value i" using that unchanged_iff [OF assms(2)] by blast
    from define_loggers_crash [OF s(2) assms(3,4) this] show ?thesis using s(1) by (simp add: on_logger_conf_changed_def)
  qed
  assume d: "set old_value \<inter> set new_value = {}"
  obtain st2 where t: "define_loggers old_value new_value st1 = Inr st2" "log_inv st2"
    "\<forall>i\<in>set new_value. configured st2 i"
    using define_loggers_effect [OF s(2) assms(3), of old_value] d unchanged_iff [OF assms(2)] assms(4)
    by (auto simp: list_all_iff)
  obtain st3 where u: "remove_loggers new_value old_value st2 = Inr st3"
    "\<forall>i\<in>set old_value. find_define i new_value = None \<longrightarrow> disabled st3 i"
    "\<forall>i. find_define i new_value \<noteq> None \<longrightarrow> configured st2 i \<longrightarrow> configured st3 i"
    using remove_loggers_effect [OF t(2) assms(2), of new_value] by blast
  have f: "find_define i new_value = None \<longleftrightarrow> ld_name i \<notin> ld_name ` set new_value" for i
    by (auto simp: strlt.set_find_None_iff [OF assms(3)])
  show "\<exists>st'. on_logger_conf_changed strftime w old_value new_value st = Some (Inr st') \<and>
        (\<forall>i\<in>set new_value. configured st' i) \<and>
        (\<forall>i\<in>set old_value. ld_name i \<notin> ld_name ` set new_value \<longrightarrow> disabled st' i)"
    using s(1) t u(1,2) u(3) unfolding f by (auto simp: on_logger_conf_changed_def)
qed

definition sample_define :: "string \<Rightarrow> LogDefine" where
  "sample_define name = \<lparr>ld_name = name, ld_level = INFO, ld_formatter = [],
     ld_appenders = [LogAppenderDefine_new\<lparr>lad_type := 2\<rparr>]\<rparr>"

theorem logger_configuration_witness:
  "on_logger_conf_changed (\<lambda>f t. []) sample_site [sample_define ''a''] [sample_define ''a'', sample_define ''b''] sample_state =
     Some (Inl Null_deref) \<and>
   (\<exists>st'. on_logger_conf_changed (\<lambda>f t. []) sample_site [sample_define ''a''] [sample_define ''b''] sample_state =
      Some (Inr st') \<and> configured st' (sample_define ''b'') \<and> disabled st' (sample_define ''a''))"
proof -
  have d: "strlt.ordered ld_name [sample_define ''a'']" "strlt.ordered ld_name [sample_define ''b'']"
    "strlt.ordered ld_name [sample_define ''a'', sample_define ''b'']"
    "list_all appender_type_ok (ld_appenders (sample_define x))" for x
    by (simp_all add: strlt.ordered_Cons sample_define_def appender_type_ok_def)
  show ?thesis
    using logger_configuration [OF sample_state_inv d(1,3), of "\<lambda>f t. []" sample_site]
      logger_configuration [OF sample_state_inv d(1,2), of "\<lambda>f t. []" sample_site] d(4)
    by (simp add: sample_define_def)
qed

section \<open>Conversions\<close>

text \<open>
  What the conversions use of yaml-cpp: the elements of a sequence, the fields of a map and the text of a scalar.
\<close>

definition yaml_laws :: "yaml_cpp \<Rightarrow> bool" where
  "yaml_laws Y \<longleftrightarrow>
     (\<forall>ns. yaml_size Y (Sequence ns) = length ns) \<and> yaml_size Y Null = 0 \<and>
     (\<forall>ns i. i < length ns \<longrightarrow> yaml_at Y (Sequence ns) i = ns ! i) \<and>
     (\<forall>kvs k. yaml_field Y (Map kvs) k = Some (map_of kvs (Scalar k))) \<and>
     (\<forall>s. yaml_as_string Y (Scalar s) = Some s)"

lemma node_elems_seq:
  assumes "yaml_laws Y"
  shows "node_elems Y (seq_node ns) = ns"
proof (cases "ns = []")
  case False
  have "map (yaml_at Y (Sequence ns)) [0..<length ns] = map ((!) ns) [0..<length ns]"
    using assms by (intro map_cong) (auto simp: yaml_laws_def)
  then show ?thesis using assms False by (simp add: node_elems_def seq_node_def yaml_laws_def map_nth)
qed (use assms in \<open>simp add: node_elems_def seq_node_def yaml_laws_def\<close>)

lemma map_node_field:
  assumes "yaml_laws Y" "kvs \<noteq> []"
  shows "yaml_field Y (map_node kvs) k = Some (map_of kvs k)"
proof -
  have "map_of (map (\<lambda>(k, v). (Scalar k, v)) kvs) (Scalar k) = map_of kvs k" by (induction kvs) auto
  then show ?thesis using assms by (simp add: map_node_def yaml_laws_def)
qed

lemma set_insert_last: "strlt.ordered key (xs @ [x]) \<Longrightarrow> set_insert string_less key x xs = xs @ [x]"
proof -
  assume "strlt.ordered key (xs @ [x])"
  then have "\<forall>y\<in>set xs. string_less (key y) (key x)" by (simp add: strlt.ordered_append)
  then have "before_bound string_less key (key x) xs = xs" "lower_bound string_less key (key x) xs = []"
    by (simp_all add: before_bound_def lower_bound_def)
  then show ?thesis by (simp add: set_insert_def)
qed

definition stripped :: "LogDefine \<Rightarrow> LogDefine" where
  "stripped d = d\<lparr>ld_formatter := [], ld_appenders := []\<rparr>"

lemma define_of_node_of_define:
  assumes "yaml_laws Y" "ld_level d \<noteq> Level_100"
  shows "define_of_node Y (node_of_define d) = Some (Some (stripped d))"
proof -
  have s: "yaml_as_string Y (Scalar x) = Some x" for x using assms(1) by (simp add: yaml_laws_def)
  show ?thesis using assms(2)
    by (cases "ld_level d = UNKNOW")
      (auto simp: define_of_node_def node_of_define_def map_node_field [OF assms(1)] field_or_def s stripped_def)
qed

lemma defines_of_nodes_of_defines:
  "yaml_laws Y \<Longrightarrow> \<forall>d\<in>set v. ld_level d \<noteq> Level_100 \<Longrightarrow> strlt.ordered ld_name (acc @ map stripped v) \<Longrightarrow>
   defines_of_nodes Y (map node_of_define v) acc = Some (acc @ map stripped v)"
proof (induction v arbitrary: acc)
  case (Cons d v)
  have "strlt.ordered ld_name ((acc @ [stripped d]) @ map stripped v)" using Cons.prems(3) by simp
  then have "set_insert string_less ld_name (stripped d) acc = acc @ [stripped d]"
    by (intro set_insert_last) (simp add: strlt.ordered_append strlt.ordered_Cons)
  then show ?case using Cons define_of_node_of_define [of Y d] by simp
qed simp

text \<open>
  The conversion of logger definitions to text and back keeps the names and levels and loses everything
  else, provided the library reads back what it wrote: formatters are written only when they are empty, and
  appenders are written under a key that is not read.
\<close>

theorem LogDefine_roundtrip_loses:
  assumes "yaml_laws Y" "strlt.ordered ld_name v" "\<forall>d\<in>set v. ld_level d \<noteq> Level_100"
    "yaml_load Y (yaml_emit Y (node_of_defines v)) = Some (node_of_defines v)"
  shows "LogDefines_of_string Y (string_of_LogDefines Y v) =
    Some (map (\<lambda>d. d\<lparr>ld_formatter := [], ld_appenders := []\<rparr>) v)"
proof -
  have "strlt.ordered ld_name (map stripped v)"
    using assms(2) by (induction v) (simp_all add: strlt.ordered_Cons stripped_def)
  then have "defines_of_nodes Y (map node_of_define v) [] = Some (map stripped v)"
    using defines_of_nodes_of_defines [OF assms(1,3), of "[]"] by simp
  then show ?thesis
    using assms(4) node_elems_seq [OF assms(1)]
    by (simp add: LogDefines_of_string_def string_of_LogDefines_def node_of_defines_def stripped_def)
qed

text \<open>An instance of the library functions for one document.\<close>

definition sample_yaml :: "Node \<Rightarrow> yaml_cpp" where
  "sample_yaml n =
     \<lparr>yaml_load = (\<lambda>s. Some n), yaml_emit = (\<lambda>m. ''doc''),
      yaml_size = (\<lambda>m. case m of Sequence ns \<Rightarrow> length ns | _ \<Rightarrow> 0),
      yaml_at = (\<lambda>m i. case m of Sequence ns \<Rightarrow> ns ! i | _ \<Rightarrow> Null),
      yaml_field = (\<lambda>m k. case m of Map kvs \<Rightarrow> Some (map_of kvs (Scalar k)) | _ \<Rightarrow> None),
      yaml_as_string = (\<lambda>m. case m of Scalar s \<Rightarrow> Some s | _ \<Rightarrow> None)\<rparr>"

theorem LogDefine_roundtrip_loses_witness:
  "LogDefines_of_string (sample_yaml (node_of_defines [sample_define ''a'']))
     (string_of_LogDefines (sample_yaml (node_of_defines [sample_define ''a''])) [sample_define ''a'']) =
   Some [(sample_define ''a'')\<lparr>ld_appenders := []\<rparr>] \<and> ld_appenders (sample_define ''a'') \<noteq> []"
proof -
  let ?Y = "sample_yaml (node_of_defines [sample_define ''a''])"
  have "yaml_laws ?Y" by (simp add: yaml_laws_def sample_yaml_def)
  moreover have "yaml_load ?Y (yaml_emit ?Y n) = Some (node_of_defines [sample_define ''a''])" for n
    by (simp add: sample_yaml_def)
  ultimately show ?thesis using LogDefine_roundtrip_loses [of ?Y "[sample_define ''a'']"]
    by (simp add: strlt.ordered_Cons sample_define_def)
qed

text \<open>Every set of definitions read from text can be applied, and no appender has a level of its own.\<close>

lemma appender_of_node_ok:
  "appender_of_node Y n = Some (Some a) \<Longrightarrow>
   appender_type_ok a \<and> lad_level a = UNKNOW \<and> (lad_type a = 2 \<longrightarrow> lad_formatter a = [])"
  by (auto simp: appender_of_node_def appender_type_ok_def LogAppenderDefine_new_def Let_def
      split: option.splits if_splits)

lemma appenders_of_nodes_ok:
  "appenders_of_nodes Y ns = Some as \<Longrightarrow>
   list_all (\<lambda>a. appender_type_ok a \<and> lad_level a = UNKNOW \<and> (lad_type a = 2 \<longrightarrow> lad_formatter a = [])) as"
  by (induction ns arbitrary: as) (auto split: option.splits dest: appender_of_node_ok)

lemma define_of_node_appenders:
  "define_of_node Y n = Some (Some d) \<Longrightarrow> \<exists>ns. appenders_of_nodes Y ns = Some (ld_appenders d)"
  by (auto simp: define_of_node_def split: option.splits intro: exI [of _ "[]"])

lemma defines_of_nodes_ok:
  assumes "defines_of_nodes Y ns acc = Some v" "strlt.ordered ld_name acc"
    "\<forall>d\<in>set acc. list_all (\<lambda>a. appender_type_ok a \<and> lad_level a = UNKNOW) (ld_appenders d)"
  shows "strlt.ordered ld_name v \<and> (\<forall>d\<in>set v. list_all (\<lambda>a. appender_type_ok a \<and> lad_level a = UNKNOW) (ld_appenders d))"
  using assms
proof (induction ns arbitrary: acc)
  case (Cons n ns)
  show ?case
  proof (cases "define_of_node Y n = Some None")
    case False
    then obtain d where d: "define_of_node Y n = Some (Some d)"
      using Cons.prems(1) by (auto split: option.splits)
    obtain ns' where "appenders_of_nodes Y ns' = Some (ld_appenders d)" using define_of_node_appenders [OF d] by blast
    then have a: "list_all (\<lambda>a. appender_type_ok a \<and> lad_level a = UNKNOW) (ld_appenders d)"
      using appenders_of_nodes_ok by (simp add: list_all_iff)
    note i = strlt.set_insert_spec [OF Cons.prems(2), of d]
    have "\<forall>d\<in>set (set_insert string_less ld_name d acc).
        list_all (\<lambda>a. appender_type_ok a \<and> lad_level a = UNKNOW) (ld_appenders d)"
      using i a Cons.prems(3) by (simp split: if_splits)
    then show ?thesis using Cons.IH [of "set_insert string_less ld_name d acc"] Cons.prems(1) d i by simp
  qed (use Cons in simp)
qed simp

lemma LogDefines_of_string_ok:
  assumes "LogDefines_of_string Y s = Some v"
  shows "strlt.ordered ld_name v" "list_all (\<lambda>i. list_all appender_type_ok (ld_appenders i)) v"
  using assms defines_of_nodes_ok [of Y _ "[]" v]
  by (auto simp: LogDefines_of_string_def list_all_iff split: option.splits)

end
