(* ===== verification/Sleep.thy ===== *)
theory Sleep
  imports Hook
begin

text \<open>
  The hooked \<open>sleep\<close>, \<open>usleep\<close> and \<open>nanosleep\<close> of \<open>mingfwq/hook.cpp\<close> over the models of the timers, the IO manager and the
  scheduler: the calling fiber sets a timer that schedules it, and gives up the processor. A function in a timer is either the
  \<open>std::bind\<close> of \<open>IOManager::schedule\<close> with a fiber, or one of the user's.
\<close>

section \<open>Definitions\<close>

datatype 'f timer_fun = Bind_schedule nat | User_fun 'f

definition onTimerInsertedAtFront :: "'f IOManager \<Rightarrow> int \<Rightarrow> unit res" where
  "onTimerInsertedAtFront io rt = IOManager_tickle io rt"

text \<open>\<open>addTimer\<close> of the manager: the lock is released before the virtual call.\<close>

definition IOManager_addTimer ::
    "u64 \<Rightarrow> nat \<Rightarrow> int \<Rightarrow> u64 \<Rightarrow> 'f callback option \<Rightarrow> bool \<Rightarrow> 'f IOManager \<Rightarrow> 'f IOManager res" where
  "IOManager_addTimer now addr rt ms cb recurring io =
     (let (tm, at_front) = addTimer now (io_timers io) addr ms cb recurring;
          io = io\<lparr>io_timers := tm\<rparr>
      in bind_res (if at_front then onTimerInsertedAtFront io rt else Inr ()) (\<lambda>_. Inr io))"

text \<open>
  The common part of the three functions, up to \<open>YieldToHold\<close>; \<open>origin\<close> is the result of the original function, \<open>fiber\<close>
  the current fiber and \<open>iom\<close> the manager of the thread, if any.
\<close>

definition hook_sleep_for ::
    "bool \<Rightarrow> int \<Rightarrow> u64 \<Rightarrow> nat \<Rightarrow> int \<Rightarrow> nat \<Rightarrow> u64 \<Rightarrow> 'f timer_fun IOManager option \<Rightarrow>
     (int \<times> io_action list \<times> 'f timer_fun IOManager option) res" where
  "hook_sleep_for hook_enable origin now addr rt fiber ms iom =
     (if \<not> hook_enable then Inr (origin, [Call], iom)
      else case iom of
          None \<Rightarrow> Inl Null_deref
        | Some io \<Rightarrow>
            bind_res (IOManager_addTimer now addr rt ms (Some (Plain (Bind_schedule fiber))) False io) (\<lambda>io.
              Inr (0, [Add_timer ms, Yield], Some io)))"

definition hook_sleep ::
    "bool \<Rightarrow> int \<Rightarrow> u64 \<Rightarrow> nat \<Rightarrow> int \<Rightarrow> nat \<Rightarrow> u32 \<Rightarrow> 'f timer_fun IOManager option \<Rightarrow>
     (int \<times> io_action list \<times> 'f timer_fun IOManager option) res" where
  "hook_sleep hook_enable origin now addr rt fiber seconds iom =
     hook_sleep_for hook_enable origin now addr rt fiber (sleep_ms seconds) iom"

definition hook_usleep ::
    "bool \<Rightarrow> int \<Rightarrow> u64 \<Rightarrow> nat \<Rightarrow> int \<Rightarrow> nat \<Rightarrow> u32 \<Rightarrow> 'f timer_fun IOManager option \<Rightarrow>
     (int \<times> io_action list \<times> 'f timer_fun IOManager option) res" where
  "hook_usleep hook_enable origin now addr rt fiber usec iom =
     hook_sleep_for hook_enable origin now addr rt fiber (usleep_ms usec) iom"

definition hook_nanosleep ::
    "bool \<Rightarrow> int \<Rightarrow> u64 \<Rightarrow> nat \<Rightarrow> int \<Rightarrow> nat \<Rightarrow> u64 \<Rightarrow> u64 \<Rightarrow> 'f timer_fun IOManager option \<Rightarrow>
     (int \<times> io_action list \<times> 'f timer_fun IOManager option) res" where
  "hook_nanosleep hook_enable origin now addr rt fiber tv_sec tv_nsec iom =
     hook_sleep_for hook_enable origin now addr rt fiber (nanosleep_ms tv_sec tv_nsec) iom"

text \<open>What a worker does with a function that a timer has queued: the bound call, or the user's function \<open>user\<close>.\<close>

fun timer_fun_call :: "('f \<Rightarrow> 'f timer_fun IOManager \<Rightarrow> 'f timer_fun IOManager) \<Rightarrow> int \<Rightarrow> 'f timer_fun \<Rightarrow>
    'f timer_fun IOManager \<Rightarrow> 'f timer_fun IOManager res" where
  "timer_fun_call user rt (User_fun f) io = Inr (user f io)"
| "timer_fun_call user rt (Bind_schedule fiber) io =
     (let (need_tickle, s) = schedule (io_scheds io (io_self io)) (ft_of_fiber (Some fiber) (-1));
          io = io\<lparr>io_scheds := (io_scheds io)(io_self io := s)\<rparr>
      in bind_res (if need_tickle then IOManager_tickle io rt else Inr ()) (\<lambda>_. Inr io))"

section \<open>A sleeping fiber\<close>

text \<open>
  The timer at \<open>addr\<close> is due at \<open>d\<close> and calls \<open>f\<close>, and no other timer does. Nobody has a pointer to it, so the other operations work on other
  timers; they do not set timers with \<open>f\<close>, which only the sleeping fiber itself makes. \<open>ss_other\<close> is any
  step that does not touch the timers.
\<close>

definition sleeping :: "nat \<Rightarrow> u64 \<Rightarrow> 'f callback \<Rightarrow> 'f TimerManager \<Rightarrow> bool" where
  "sleeping addr d f m \<longleftrightarrow> timer_inv m \<and> addr \<in> set (m_timers m) \<and>
     m_next (t_heap m addr) = d \<and> m_cb (t_heap m addr) = Some f \<and> \<not> m_recurring (t_heap m addr) \<and>
     (\<forall>a. a \<noteq> addr \<longrightarrow> m_cb (t_heap m a) \<noteq> Some f)"

inductive sleep_step :: "nat \<Rightarrow> u64 \<Rightarrow> 'f callback \<Rightarrow> 'f IOManager \<Rightarrow> 'f IOManager \<Rightarrow> bool" for addr d f where
  ss_add: "a \<notin> set (m_timers (io_timers io)) \<Longrightarrow> cb \<noteq> Some f \<Longrightarrow>
    sleep_step addr d f io (io\<lparr>io_timers := fst (addTimer now (io_timers io) a ms cb recurring)\<rparr>)"
| ss_cancel: "a \<noteq> addr \<Longrightarrow> Timer_cancel (io_timers io) a = Inr (r, m') \<Longrightarrow>
    sleep_step addr d f io (io\<lparr>io_timers := m'\<rparr>)"
| ss_refresh: "a \<noteq> addr \<Longrightarrow> sleep_step addr d f io (io\<lparr>io_timers := snd (Timer_refresh now (io_timers io) a)\<rparr>)"
| ss_reset: "a \<noteq> addr \<Longrightarrow>
    sleep_step addr d f io (io\<lparr>io_timers := fst (snd (Timer_reset now (io_timers io) a ms from_now))\<rparr>)"
| ss_stopping: "sleep_step addr d f io (snd (snd (IOManager_stopping now io)))"
| ss_expired: "now < d \<Longrightarrow> probe \<notin> set (m_timers (io_timers io)) \<Longrightarrow> sleep_step addr d f io (idle_expired now probe io)"
| ss_other: "io_timers io' = io_timers io \<Longrightarrow> sleep_step addr d f io io'"

inductive sleep_reach :: "nat \<Rightarrow> u64 \<Rightarrow> 'f callback \<Rightarrow> 'f IOManager \<Rightarrow> 'f IOManager \<Rightarrow> bool" for addr d f io where
  sr_start: "sleep_reach addr d f io io"
| sr_step: "sleep_reach addr d f io io1 \<Longrightarrow> sleep_step addr d f io1 io2 \<Longrightarrow> sleep_reach addr d f io io2"

lemma sleeping_keeps:
  assumes "sleeping addr d f m" "timer_inv m'" "set (m_timers m) \<inter> {addr} \<subseteq> set (m_timers m')"
    and "t_heap m' addr = t_heap m addr" "\<And>a. a \<noteq> addr \<Longrightarrow> m_cb (t_heap m' a) = Some f \<Longrightarrow> m_cb (t_heap m a) = Some f"
  shows "sleeping addr d f m'"
  using assms unfolding sleeping_def by auto

lemma refresh_other:
  assumes "timer_inv m" "a \<noteq> addr"
  shows "set (m_timers m) \<inter> {addr} \<subseteq> set (m_timers (snd (Timer_refresh now m a)))"
    and "t_heap (snd (Timer_refresh now m a)) addr = t_heap m addr"
    and "m_cb (t_heap (snd (Timer_refresh now m a)) b) = m_cb (t_heap m b)"
proof -
  let ?m = "timers_erase m a"
  let ?u = "?m\<lparr>t_heap := (t_heap ?m)(a := (t_heap ?m a)\<lparr>m_next := now + m_ms (t_heap ?m a)\<rparr>)\<rparr>"
  have o: "timers_ordered (t_heap m) (m_timers m)" using assms(1) by (simp add: timer_inv_def)
  have u: "detached ?u a" by (intro detached_update detached_erase assms)
  have i: "set (m_timers (timers_insert ?u a)) = insert a (set (m_timers ?u))" "t_heap (timers_insert ?u a) = t_heap ?u"
    using detached_insert [OF u] u timers_insert_spec(3) [of ?u a] by (auto simp: detached_def)
  have r: "snd (Timer_refresh now m a) = (if m_cb (t_heap m a) = None \<or> a \<notin> set (m_timers m) then m else timers_insert ?u a)"
    by (simp add: Timer_refresh_def Let_def timers_find_iff [OF o])
  show "set (m_timers m) \<inter> {addr} \<subseteq> set (m_timers (snd (Timer_refresh now m a)))"
    "t_heap (snd (Timer_refresh now m a)) addr = t_heap m addr"
    "m_cb (t_heap (snd (Timer_refresh now m a)) b) = m_cb (t_heap m b)"
    unfolding r using assms(2) i timers_erase_spec(2,3) [OF o, of a] by auto
qed

lemma reset_other:
  assumes "timer_inv m" "a \<noteq> addr" "m' = fst (snd (Timer_reset now m a ms from_now))"
  shows "set (m_timers m) \<inter> {addr} \<subseteq> set (m_timers m')" "t_heap m' addr = t_heap m addr"
    "m_cb (t_heap m' b) = m_cb (t_heap m b)"
proof -
  let ?m = "timers_erase m a"
  let ?start = "if from_now then now else m_next (t_heap ?m a) - m_ms (t_heap ?m a)"
  let ?u = "?m\<lparr>t_heap := (t_heap ?m)(a := (t_heap ?m a)\<lparr>m_ms := ms, m_next := ?start + ms\<rparr>)\<rparr>"
  have o: "timers_ordered (t_heap m) (m_timers m)" using assms(1) by (simp add: timer_inv_def)
  have u: "detached ?u a" by (intro detached_update detached_erase assms)
  note i = addTimer_lock_spec [OF u]
  have r: "m' = m \<or> m' = fst (addTimer_lock ?u a)"
    by (auto simp: assms(3) Timer_reset_def Let_def timers_find_iff [OF o])
  show "set (m_timers m) \<inter> {addr} \<subseteq> set (m_timers m')" "t_heap m' addr = t_heap m addr"
    "m_cb (t_heap m' b) = m_cb (t_heap m b)"
    using r assms(2) i timers_erase_spec(2,3) [OF o, of a] by auto
qed

lemma sleep_step_keeps:
  assumes "sleep_step addr d f io io'" "sleeping addr d f (io_timers io)"
  shows "sleeping addr d f (io_timers io')"
  using assms
proof (cases rule: sleep_step.cases)
  case (ss_add a cb now ms recurring)
  let ?m = "(io_timers io)\<lparr>t_heap := (t_heap (io_timers io))(a := Timer_new now ms cb recurring)\<rparr>"
  have inv: "timer_inv (io_timers io)" "a \<noteq> addr" using assms(2) ss_add by (auto simp: sleeping_def)
  note s = addTimer_lock_spec [OF detached_update [OF detached_fresh [OF inv(1) ss_add(2)]],
      of "Timer_new now ms cb recurring"]
  show ?thesis
    using s ss_add(3) inv(2)
    by (intro sleeping_keeps [OF assms(2)]) (auto simp: ss_add(1) addTimer_def Timer_new_def split: if_splits)
next
  case (ss_cancel a r m')
  have "timer_inv (io_timers io)" using assms(2) by (simp add: sleeping_def)
  then have c: "timer_inv m'" "set (m_timers (io_timers io)) - {a} \<subseteq> set (m_timers m')" "m_cb (t_heap m' a) = None"
      "\<And>b. b \<noteq> a \<Longrightarrow> t_heap m' b = t_heap (io_timers io) b"
    using cancel_inv [of "io_timers io" a] ss_cancel(3) by (auto split: if_splits)
  have "m_cb (t_heap m' b) = Some f \<Longrightarrow> m_cb (t_heap (io_timers io) b) = Some f" for b
    using c(3,4) by (cases "b = a") auto
  then show ?thesis
    using c ss_cancel(2) by (intro sleeping_keeps [OF assms(2)]) (auto simp: ss_cancel(1))
next
  case (ss_refresh a now)
  then show ?thesis using refresh_other [of "io_timers io" a addr now] assms(2)
    by (intro sleeping_keeps [OF assms(2)]) (auto simp: sleeping_def intro: refresh_inv)
next
  case (ss_reset a now ms from_now)
  then show ?thesis using reset_other [of "io_timers io" a addr _ now ms from_now] assms(2)
    by (intro sleeping_keeps [OF assms(2)]) (auto simp: sleeping_def intro: reset_inv)
next
  case (ss_stopping now)
  then show ?thesis using assms(2) getNextTimer_state [of now "io_timers io"]
    by (auto simp: IOManager_stopping_def Let_def sleeping_def split: prod.splits)
next
  case (ss_expired now probe)
  have inv: "timer_inv (io_timers io)" using assms(2) by (simp add: sleeping_def)
  obtain cbs m' where l: "listExpiredCb now probe (io_timers io) = (cbs, m')" by fastforce
  have "timers_ordered (t_heap (io_timers io)) (m_timers (io_timers io))" using inv by (simp add: timer_inv_def)
  note s = listExpiredCb_spec [OF this ss_expired(3) l] and i = listExpiredCb_inv [OF inv ss_expired(3), of now]
  have e: "io_timers io' = m'" by (simp add: ss_expired(1) idle_expired_def l Let_def split: prod.splits)
  show ?thesis
    using s i l assms(2) ss_expired(2)
    by (intro sleeping_keeps [OF assms(2)]) (auto simp: e sleeping_def after_expiry_def split: if_splits)
qed simp

lemma sleep_reach_keeps:
  "sleep_reach addr d f io io' \<Longrightarrow> sleeping addr d f (io_timers io) \<Longrightarrow> sleeping addr d f (io_timers io')"
  by (induction rule: sleep_reach.induct) (auto dest: sleep_step_keeps)

lemma addTimer_sleeping:
  assumes "timer_inv m" "addr \<notin> set (m_timers m)" "\<And>a. m_cb (t_heap m a) \<noteq> Some f"
  shows "sleeping addr (now + ms) f (fst (addTimer now m addr ms (Some f) False))"
  using addTimer_lock_spec [OF detached_update [OF detached_fresh [OF assms(1,2)]], of "Timer_new now ms (Some f) False"] assms(3)
  by (auto simp: sleeping_def addTimer_def Timer_new_def)

text \<open>The expiry that is not before the deadline queues the function once and takes the timer out.\<close>

lemma schedule_range_all:
  "m_fibers (snd (schedule_range s cbs)) = m_fibers s @ map (\<lambda>cb. ft_of_cb cb (-1)) (filter (\<lambda>cb. cb \<noteq> None) cbs)"
proof (induction cbs arbitrary: s)
  case (Cons cb cbs)
  then show ?case by (auto simp: Let_def case_prod_beta scheduleNoLock_def ft_of_cb_def)
qed simp

lemma expired_wakes:
  assumes "sleeping addr d f (io_timers io)" "d \<le> now" "probe \<notin> set (m_timers (io_timers io))"
  shows "\<exists>q. m_fibers (io_scheds (idle_expired now probe io) (io_self io)) = m_fibers (io_scheds io (io_self io)) @ q \<and>
      count_list q (ft_of_cb (Some f) (-1)) = 1 \<and>
      addr \<notin> set (m_timers (io_timers (idle_expired now probe io))) \<and>
      (\<forall>a. m_cb (t_heap (io_timers (idle_expired now probe io)) a) \<noteq> Some f)"
proof -
  let ?m = "io_timers io"
  have inv: "timer_inv ?m" and o: "timers_ordered (t_heap ?m) (m_timers ?m)" using assms(1) by (auto simp: sleeping_def timer_inv_def)
  obtain cbs m' where l: "listExpiredCb now probe ?m = (cbs, m')" by fastforce
  note s = listExpiredCb_spec [OF o assms(3) l]
  let ?e = "filter (\<lambda>a. m_next (t_heap ?m a) \<le> now) (m_timers ?m)"
  let ?q = "map (\<lambda>cb. ft_of_cb cb (-1 :: int)) (filter (\<lambda>cb. cb \<noteq> None) cbs)"
  have d: "distinct ?e" using tc.ordered_distinct [OF o] by simp
  have a: "addr \<in> set ?e" using assms(1,2) by (simp add: sleeping_def)
  have count: "count_list (map (\<lambda>cb. ft_of_cb cb (-1 :: int)) (filter (\<lambda>cb. cb \<noteq> None) (map (\<lambda>a. m_cb (t_heap ?m a)) xs)))
      (ft_of_cb (Some f) (-1)) = count_list xs addr" for xs
    using assms(1) by (induction xs) (auto simp: sleeping_def ft_of_cb_def)
  have one: "distinct xs \<Longrightarrow> x \<in> set xs \<Longrightarrow> count_list xs x = 1" for xs and x :: nat
    by (induction xs) auto
  have q: "m_fibers (io_scheds (idle_expired now probe io) (io_self io)) = m_fibers (io_scheds io (io_self io)) @ ?q"
    using schedule_range_all [of "io_scheds io (io_self io)" cbs]
    by (simp add: idle_expired_def l Let_def case_prod_beta)
  have t: "io_timers (idle_expired now probe io) = m'"
    by (simp add: idle_expired_def l Let_def split: prod.splits)
  have "count_list ?q (ft_of_cb (Some f) (-1)) = 1" using s count [of ?e] one [OF d a] by simp
  moreover have "addr \<notin> set (m_timers m')" using s assms(1,2) by (auto simp: sleeping_def)
  moreover have "m_cb (t_heap m' b) \<noteq> Some f" for b
    using s a assms(1) by (auto simp: sleeping_def after_expiry_def)
  ultimately show ?thesis using q unfolding t by (intro exI [of _ ?q]) simp
qed

section \<open>Properties\<close>

text \<open>
  C23: A fiber that calls the hooked \<open>sleep\<close> gets 0 after it has set a timer and yielded. Whatever the other fibers and threads do
  with their timers and with the scheduler, no expiry before the deadline wakes the fiber; the first one from the deadline on queues
  the bound function exactly once and clears it, so that it is never queued again; and when a worker calls the
  function, the fiber joins the end of the scheduler's queue.
\<close>

theorem sleep_wakes_once:
  assumes "timer_reachable (io_timers io)" "addr \<notin> set (m_timers (io_timers io))"
    and "\<And>a. m_cb (t_heap (io_timers io) a) \<noteq> Some (Plain (Bind_schedule fiber))"
    and "hook_sleep True origin now addr rt fiber seconds (Some io) = Inr (r, tr, iom)"
    and "d = now + sleep_ms seconds" "sleep_reach addr d (Plain (Bind_schedule fiber)) (the iom) io1"
    and "d \<le> t" "probe \<notin> set (m_timers (io_timers io1))" "io2 = idle_expired t probe io1"
  shows "r = 0 \<and> tr = [Add_timer (sleep_ms seconds), Yield] \<and>
    addr \<in> set (m_timers (io_timers io1)) \<and> m_cb (t_heap (io_timers io1) addr) = Some (Plain (Bind_schedule fiber)) \<and>
    (\<exists>q. m_fibers (io_scheds io2 (io_self io1)) = m_fibers (io_scheds io1 (io_self io1)) @ q \<and>
      count_list q (ft_of_cb (Some (Plain (Bind_schedule fiber))) (-1)) = 1) \<and>
    addr \<notin> set (m_timers (io_timers io2)) \<and> (\<forall>a. m_cb (t_heap (io_timers io2) a) \<noteq> Some (Plain (Bind_schedule fiber))) \<and>
    (timer_fun_call user rt2 (Bind_schedule fiber) io2 = Inr io3 \<longrightarrow>
      m_fibers (io_scheds io3 (io_self io2)) = m_fibers (io_scheds io2 (io_self io2)) @ [ft_of_fiber (Some fiber) (-1)])"
proof -
  let ?f = "Plain (Bind_schedule fiber)"
  obtain io0 where io0: "iom = Some io0" "r = 0" "tr = [Add_timer (sleep_ms seconds), Yield]"
      "IOManager_addTimer now addr rt (sleep_ms seconds) (Some ?f) False io = Inr io0"
    using assms(4) by (auto simp: hook_sleep_def hook_sleep_for_def bind_res_Inr_iff)
  have "io_timers io0 = fst (addTimer now (io_timers io) addr (sleep_ms seconds) (Some ?f) False)"
    using io0(4) by (auto simp: IOManager_addTimer_def Let_def bind_res_Inr_iff split: prod.splits)
  then have "sleeping addr d ?f (io_timers io0)"
    using addTimer_sleeping [OF timer_reachable_inv [OF assms(1)] assms(2,3)] assms(5) by simp
  then have s: "sleeping addr d ?f (io_timers io1)" using sleep_reach_keeps assms(6) io0(1) by fastforce
  have "m_fibers (io_scheds io3 (io_self io2)) = m_fibers (io_scheds io2 (io_self io2)) @ [ft_of_fiber (Some fiber) (-1)]"
    if "timer_fun_call user rt2 (Bind_schedule fiber) io2 = Inr io3"
    using that by (auto simp: schedule_def scheduleNoLock_def ft_of_fiber_def Let_def bind_res_Inr_iff)
  then show ?thesis using expired_wakes [OF s assms(7,8)] s io0(2,3) unfolding assms(9) by (auto simp: sleeping_def)
qed


text \<open>An empty manager; fiber 3 sleeps one second from time 5 on.\<close>

definition sleep_example :: "unit timer_fun IOManager" where
  "sleep_example = \<lparr>m_FdContexts = [], m_pendingEventCount = 0,
     io_scheds = (\<lambda>_. \<lparr>m_fibers = [], m_sname = [], m_threads = 0, m_threadIds = [], m_rootFiber = None,
       m_threadCount = 1, m_activeThreadCount = 0, m_idleThreadCount = 0, m_stopping = False,
       m_autoStop = False, m_rootThread = -1\<rparr>),
     io_self = 0, io_timers = TimerManager_new (\<lambda>_. Timer_new 0 0 None False)\<rparr>"

lemma sleep_example_run:
  "\<exists>io1. hook_sleep True 0 5 7 1 3 1 (Some sleep_example) = Inr (0, [Add_timer 1000, Yield], Some io1) \<and>
     m_fibers (io_scheds io1 (io_self io1)) = [] \<and> m_timers (io_timers io1) = [7]"
proof -
  have t: "io_timers sleep_example = TimerManager_new (\<lambda>_. Timer_new 0 0 None False)" by (simp add: sleep_example_def)
  have "\<not> hasIdleThreads (sleep_example\<lparr>io_timers := tm\<rparr>)" for tm
    by (simp add: hasIdleThreads_def sleep_example_def)
  moreover have "m_timers (fst (addTimer 5 (io_timers sleep_example) 7 1000 cb False)) = [7]" for cb :: "unit timer_fun callback option"
    by (simp add: t addTimer_def addTimer_lock_def timers_insert_def TimerManager_new_def Let_def set_insert_def set_find_def
        before_bound_def lower_bound_def)
  ultimately show ?thesis
    by (auto simp: hook_sleep_def hook_sleep_for_def sleep_ms_def IOManager_addTimer_def onTimerInsertedAtFront_def
        IOManager_tickle_def Let_def bind_res_def case_prod_beta) (simp_all add: sleep_example_def)
qed

theorem sleep_wakes_once_witness:
  "\<exists>io1. hook_sleep True 0 5 7 1 3 1 (Some sleep_example) = Inr (0, [Add_timer 1000, Yield], Some io1) \<and>
     count_list (m_fibers (io_scheds (idle_expired 1005 1 io1) 0)) (ft_of_cb (Some (Plain (Bind_schedule 3))) (-1)) = 1"
proof -
  obtain io1 where io1: "hook_sleep True 0 5 7 1 3 1 (Some sleep_example) = Inr (0, [Add_timer 1000, Yield], Some io1)"
      "m_fibers (io_scheds io1 (io_self io1)) = []" "m_timers (io_timers io1) = [7]"
    using sleep_example_run by blast
  have s: "io_self io1 = 0"
    using io1(1) by (auto simp: hook_sleep_def hook_sleep_for_def IOManager_addTimer_def Let_def bind_res_Inr_iff case_prod_beta
        sleep_example_def)
  have "timer_reachable (io_timers sleep_example)"
    by (simp add: sleep_example_def Timer_new_def reach_new)
  moreover have "7 \<notin> set (m_timers (io_timers sleep_example))"
    "m_cb (t_heap (io_timers sleep_example) a) \<noteq> Some (Plain (Bind_schedule 3))" for a
    by (simp_all add: sleep_example_def TimerManager_new_def Timer_new_def)
  moreover have "(1005 :: u64) = 5 + sleep_ms 1" by (simp add: sleep_ms_def)
  moreover have "sleep_reach 7 1005 (Plain (Bind_schedule 3)) (the (Some io1)) io1" using sr_start by simp
  moreover have "1 \<notin> set (m_timers (io_timers io1))" using io1(3) by simp
  ultimately show ?thesis
    using sleep_wakes_once [of sleep_example 7 3 0 5 1 1 0 "[Add_timer 1000, Yield]" "Some io1" 1005 io1 1005 1
        "idle_expired 1005 1 io1"] io1 s by auto
qed

end
