(* ===== verification/Config_Cast.thy ===== *)
theory Config_Cast
  imports Log_Config
begin

text \<open>
  The conversions of containers from and to YAML, the specialisations of \<open>LexicalCast\<close> in \<open>mingfwq/config.h\<close>, and
  \<open>Config::Visit\<close>. The conversion of the elements is a parameter, so that a conversion here can be the parameter of
  another; \<open>None\<close> is an exception, which \<open>ConfigVar\<close> catches. The library yaml-cpp is the parameter \<open>yaml_cpp\<close>
  of the theory Log_Config.

  A vector or list is the list of its elements, a set or map the sorted list of its elements (by the comparator \<open>lt\<close>;
  the keys of a map are strings), an unordered container the list of its elements in iteration order. As that order is up to
  the standard library, the insertion of an element into an unordered container is the parameter \<open>ins\<close>.
\<close>

section \<open>From YAML\<close>

text \<open>The loop of the sequences; \<open>add\<close> is \<open>push_back\<close> or \<open>insert\<close>.\<close>

fun cast_loop :: "yaml_cpp \<Rightarrow> (string \<Rightarrow> 'a option) \<Rightarrow> ('a \<Rightarrow> 'a list \<Rightarrow> 'a list) \<Rightarrow> Node list \<Rightarrow> 'a list \<Rightarrow> 'a list option" where
  "cast_loop Y from add [] vec = Some vec"
| "cast_loop Y from add (n # ns) vec =
     (case from (yaml_emit Y n) of
        None \<Rightarrow> None
      | Some x \<Rightarrow> cast_loop Y from add ns (add x vec))"

definition cast_sequence ::
    "yaml_cpp \<Rightarrow> (string \<Rightarrow> 'a option) \<Rightarrow> ('a \<Rightarrow> 'a list \<Rightarrow> 'a list) \<Rightarrow> string \<Rightarrow> 'a list option" where
  "cast_sequence Y from add v =
     (case yaml_load Y v of
        None \<Rightarrow> None
      | Some node \<Rightarrow> cast_loop Y from add (node_elems Y node) [])"

definition push_back :: "'a \<Rightarrow> 'a list \<Rightarrow> 'a list" where
  "push_back x vec = vec @ [x]"

definition vector_of_string :: "yaml_cpp \<Rightarrow> (string \<Rightarrow> 'a option) \<Rightarrow> string \<Rightarrow> 'a list option" where
  "vector_of_string Y from = cast_sequence Y from push_back"
definition list_of_string :: "yaml_cpp \<Rightarrow> (string \<Rightarrow> 'a option) \<Rightarrow> string \<Rightarrow> 'a list option" where
  "list_of_string Y from = cast_sequence Y from push_back"
definition set_of_string :: "('a \<Rightarrow> 'a \<Rightarrow> bool) \<Rightarrow> yaml_cpp \<Rightarrow> (string \<Rightarrow> 'a option) \<Rightarrow> string \<Rightarrow> 'a list option" where
  "set_of_string lt Y from = cast_sequence Y from (set_insert lt (\<lambda>x. x))"
definition unordered_set_of_string ::
    "('a \<Rightarrow> 'a list \<Rightarrow> 'a list) \<Rightarrow> yaml_cpp \<Rightarrow> (string \<Rightarrow> 'a option) \<Rightarrow> string \<Rightarrow> 'a list option" where
  "unordered_set_of_string ins Y from = cast_sequence Y from ins"

text \<open>
  The loop over the entries of a map. The elements of a sequence have no key, and asking for its text throws; a null node and
  a scalar have no entries. \<open>insert\<close> keeps the first value of a key.
\<close>

fun node_entries :: "Node \<Rightarrow> (Node \<times> Node) list option" where
  "node_entries (Map kvs) = Some kvs"
| "node_entries (Sequence ns) = (if ns = [] then Some [] else None)"
| "node_entries _ = Some []"

fun cast_entries ::
    "yaml_cpp \<Rightarrow> (string \<Rightarrow> 'a option) \<Rightarrow> (string \<times> 'a \<Rightarrow> (string \<times> 'a) list \<Rightarrow> (string \<times> 'a) list) \<Rightarrow>
     (Node \<times> Node) list \<Rightarrow> (string \<times> 'a) list \<Rightarrow> (string \<times> 'a) list option" where
  "cast_entries Y from ins [] vec = Some vec"
| "cast_entries Y from ins ((k, n) # kvs) vec =
     (case from (yaml_emit Y n) of
        None \<Rightarrow> None
      | Some x \<Rightarrow> cast_entries Y from ins kvs (ins (Node_Scalar k, x) vec))"

definition cast_map ::
    "yaml_cpp \<Rightarrow> (string \<Rightarrow> 'a option) \<Rightarrow> (string \<times> 'a \<Rightarrow> (string \<times> 'a) list \<Rightarrow> (string \<times> 'a) list) \<Rightarrow>
     string \<Rightarrow> (string \<times> 'a) list option" where
  "cast_map Y from ins v =
     (case yaml_load Y v of
        None \<Rightarrow> None
      | Some node \<Rightarrow> (case node_entries node of None \<Rightarrow> None | Some kvs \<Rightarrow> cast_entries Y from ins kvs []))"

definition map_of_string :: "yaml_cpp \<Rightarrow> (string \<Rightarrow> 'a option) \<Rightarrow> string \<Rightarrow> (string \<times> 'a) list option" where
  "map_of_string Y from = cast_map Y from (set_insert string_less fst)"
definition unordered_map_of_string ::
    "(string \<times> 'a \<Rightarrow> (string \<times> 'a) list \<Rightarrow> (string \<times> 'a) list) \<Rightarrow> yaml_cpp \<Rightarrow> (string \<Rightarrow> 'a option) \<Rightarrow> string \<Rightarrow>
     (string \<times> 'a) list option" where
  "unordered_map_of_string ins Y from = cast_map Y from ins"

section \<open>To YAML\<close>

text \<open>The loop \<open>node.push_back(YAML::Load(...))\<close>, and \<open>node[i.first] = YAML::Load(...)\<close> for maps.\<close>

fun load_elems :: "yaml_cpp \<Rightarrow> ('a \<Rightarrow> string option) \<Rightarrow> 'a list \<Rightarrow> Node list option" where
  "load_elems Y to [] = Some []"
| "load_elems Y to (x # xs) =
     (case to x of
        None \<Rightarrow> None
      | Some s \<Rightarrow> (case yaml_load Y s of None \<Rightarrow> None | Some n \<Rightarrow> map_option ((#) n) (load_elems Y to xs)))"

definition string_of_sequence :: "yaml_cpp \<Rightarrow> ('a \<Rightarrow> string option) \<Rightarrow> 'a list \<Rightarrow> string option" where
  "string_of_sequence Y to v = map_option (\<lambda>ns. yaml_emit Y (seq_node ns)) (load_elems Y to v)"

definition string_of_vector :: "yaml_cpp \<Rightarrow> ('a \<Rightarrow> string option) \<Rightarrow> 'a list \<Rightarrow> string option" where
  "string_of_vector = string_of_sequence"
definition string_of_list :: "yaml_cpp \<Rightarrow> ('a \<Rightarrow> string option) \<Rightarrow> 'a list \<Rightarrow> string option" where
  "string_of_list = string_of_sequence"
definition string_of_set :: "yaml_cpp \<Rightarrow> ('a \<Rightarrow> string option) \<Rightarrow> 'a list \<Rightarrow> string option" where
  "string_of_set = string_of_sequence"
definition string_of_unordered_set :: "yaml_cpp \<Rightarrow> ('a \<Rightarrow> string option) \<Rightarrow> 'a list \<Rightarrow> string option" where
  "string_of_unordered_set = string_of_sequence"

definition string_of_entries :: "yaml_cpp \<Rightarrow> ('a \<Rightarrow> string option) \<Rightarrow> (string \<times> 'a) list \<Rightarrow> string option" where
  "string_of_entries Y to v =
     map_option (\<lambda>ns. yaml_emit Y (map_node (zip (map fst v) ns))) (load_elems Y (\<lambda>i. to (snd i)) v)"

definition string_of_map :: "yaml_cpp \<Rightarrow> ('a \<Rightarrow> string option) \<Rightarrow> (string \<times> 'a) list \<Rightarrow> string option" where
  "string_of_map = string_of_entries"
definition string_of_unordered_map :: "yaml_cpp \<Rightarrow> ('a \<Rightarrow> string option) \<Rightarrow> (string \<times> 'a) list \<Rightarrow> string option" where
  "string_of_unordered_map = string_of_entries"

section \<open>Visiting\<close>

text \<open>\<open>Config::Visit\<close>; \<open>names\<close> are the names in the iteration order of the unordered map.\<close>

fun Visit :: "('v, 's) config \<Rightarrow> string list \<Rightarrow> (('v, 's) ConfigVar \<Rightarrow> 't \<Rightarrow> 't) \<Rightarrow> 't \<Rightarrow> 't" where
  "Visit c [] cb t = t"
| "Visit c (name # names) cb t =
     (case GetDatas c name of
        None \<Rightarrow> Visit c names cb t
      | Some cv \<Rightarrow> Visit c names cb (cb cv t))"

section \<open>Round trips\<close>

text \<open>
  An element is read back when its text loads to a node whose text converts to the element again. That is what
  a container asks of its elements, and it gives the same of the container.
\<close>

definition reads_back :: "yaml_cpp \<Rightarrow> (string \<Rightarrow> 'a option) \<Rightarrow> ('a \<Rightarrow> string option) \<Rightarrow> 'a \<Rightarrow> bool" where
  "reads_back Y from to x \<longleftrightarrow>
     (\<exists>s n. to x = Some s \<and> yaml_load Y s = Some n \<and> from (yaml_emit Y n) = Some x)"

lemma load_elems_reads_back:
  "\<forall>x\<in>set v. reads_back Y from to x \<Longrightarrow>
   \<exists>ns. load_elems Y to v = Some ns \<and> list_all2 (\<lambda>n x. from (yaml_emit Y n) = Some x) ns v"
  by (induction v) (fastforce simp: reads_back_def)+

lemma cast_loop_fold:
  "list_all2 (\<lambda>n x. from (yaml_emit Y n) = Some x) ns v \<Longrightarrow> cast_loop Y from add ns vec = Some (fold add v vec)"
  by (induction arbitrary: vec rule: list_all2_induct) auto

lemma cast_entries_fold:
  "list_all2 (\<lambda>n x. from (yaml_emit Y n) = Some (snd x)) ns v \<Longrightarrow>
   cast_entries Y from ins (map (\<lambda>(k, v). (Scalar k, v)) (zip (map fst v) ns)) vec = Some (fold ins v vec)"
  by (induction arbitrary: vec rule: list_all2_induct) auto

lemma fold_push_back: "fold push_back v vec = vec @ v"
  by (induction v arbitrary: vec) (auto simp: push_back_def)

context strict_weak
begin

lemma set_insert_end:
  assumes "ordered key (xs @ [x])"
  shows "set_insert lt key x xs = xs @ [x]"
proof -
  have "\<forall>y\<in>set xs. lt (key y) (key x)" using assms by (simp add: ordered_append)
  then have "before_bound lt key (key x) xs = xs" "lower_bound lt key (key x) xs = []"
    by (simp_all add: before_bound_def lower_bound_def)
  then show ?thesis by (simp add: set_insert_def)
qed

lemma fold_set_insert: "ordered key (vec @ v) \<Longrightarrow> fold (set_insert lt key) v vec = vec @ v"
proof (induction v arbitrary: vec)
  case (Cons x v)
  then have "ordered key ((vec @ [x]) @ v)" by simp
  moreover from this have "ordered key (vec @ [x])" by (subst (asm) ordered_append) simp
  ultimately show ?case using Cons.IH [of "vec @ [x]"] by (simp add: set_insert_end)
qed simp

end

text \<open>What the conversions ask of the library for one container: it reads back the node that it wrote.\<close>

definition sequence_read :: "yaml_cpp \<Rightarrow> Node list \<Rightarrow> bool" where
  "sequence_read Y ns \<longleftrightarrow> yaml_load Y (yaml_emit Y (seq_node ns)) = Some (seq_node ns)"

definition map_read :: "yaml_cpp \<Rightarrow> (string \<times> Node) list \<Rightarrow> bool" where
  "map_read Y kvs \<longleftrightarrow> yaml_load Y (yaml_emit Y (map_node kvs)) = Some (map_node kvs)"

lemma cast_sequence_back:
  assumes "yaml_laws Y" "\<forall>x\<in>set v. reads_back Y from to x" "\<forall>ns. load_elems Y to v = Some ns \<longrightarrow> sequence_read Y ns"
    and "fold add v [] = v"
  shows "reads_back Y (cast_sequence Y from add) (string_of_sequence Y to) v \<and>
    (\<exists>s. string_of_sequence Y to v = Some s \<and> cast_sequence Y from add s = Some v)"
proof -
  obtain ns where ns: "load_elems Y to v = Some ns" "list_all2 (\<lambda>n x. from (yaml_emit Y n) = Some x) ns v"
    using load_elems_reads_back [OF assms(2)] by blast
  have "cast_sequence Y from add (yaml_emit Y (seq_node ns)) = Some v"
    using ns assms(3,4) cast_loop_fold [OF ns(2), of add "[]"] node_elems_seq [OF assms(1)]
    by (simp add: cast_sequence_def sequence_read_def)
  then show ?thesis
    using ns(1) assms(3) by (auto simp: reads_back_def string_of_sequence_def sequence_read_def)
qed

lemma cast_map_back:
  assumes "\<forall>x\<in>set v. reads_back Y from to (snd x)"
    and "\<forall>ns. load_elems Y (\<lambda>i. to (snd i)) v = Some ns \<longrightarrow> map_read Y (zip (map fst v) ns)" "fold ins v [] = v"
  shows "reads_back Y (cast_map Y from ins) (string_of_entries Y to) v \<and>
    (\<exists>s. string_of_entries Y to v = Some s \<and> cast_map Y from ins s = Some v)"
proof -
  have "\<exists>ns. load_elems Y (\<lambda>i. to (snd i)) v = Some ns \<and> list_all2 (\<lambda>n x. from (yaml_emit Y n) = Some (snd x)) ns v"
    using assms(1) by (induction v) (fastforce simp: reads_back_def)+
  then obtain ns where ns: "load_elems Y (\<lambda>i. to (snd i)) v = Some ns"
      "list_all2 (\<lambda>n x. from (yaml_emit Y n) = Some (snd x)) ns v" by blast
  have l: "length ns = length v" using ns(2) by (rule list_all2_lengthD)
  have "cast_map Y from ins (yaml_emit Y (map_node (zip (map fst v) ns))) = Some v"
  proof (cases "v = []")
    case True
    then show ?thesis using ns(1) assms(2) by (simp add: cast_map_def map_read_def map_node_def)
  next
    case False
    then show ?thesis
      using ns(1) l assms(2,3) cast_entries_fold [OF ns(2), of ins "[]"]
      by (auto simp: cast_map_def map_read_def map_node_def)
  qed
  then show ?thesis using ns(1) assms(2) by (auto simp: reads_back_def string_of_entries_def map_read_def)
qed

section \<open>Properties\<close>


text \<open>A library that knows the documents \<open>[7]\<close>, \<open>k: 7\<close> and scalars.\<close>

definition tiny_yaml :: yaml_cpp where
  "tiny_yaml =
     \<lparr>yaml_load = (\<lambda>s. if s = ''[7]'' then Some (Sequence [Scalar ''7'']) else
        if s = ''k: 7'' then Some (Map [(Scalar ''k'', Scalar ''7'')]) else Some (Scalar s)),
      yaml_emit = (\<lambda>n. case n of Scalar s \<Rightarrow> s | Sequence _ \<Rightarrow> ''[7]'' | Map _ \<Rightarrow> ''k: 7'' | Null \<Rightarrow> ''~''),
      yaml_size = (\<lambda>m. case m of Sequence ns \<Rightarrow> length ns | _ \<Rightarrow> 0),
      yaml_at = (\<lambda>m i. case m of Sequence ns \<Rightarrow> ns ! i | _ \<Rightarrow> Null),
      yaml_field = (\<lambda>m k. case m of Map kvs \<Rightarrow> Some (map_of kvs (Scalar k)) | _ \<Rightarrow> None),
      yaml_as_string = (\<lambda>m. case m of Scalar s \<Rightarrow> Some s | _ \<Rightarrow> None)\<rparr>"


text \<open>
  A vector that holds an empty string is not read back: an empty document is a null node, which is written as a tilde.
\<close>

lemma empty_string_lost:
  assumes "yaml_load Y [] = Some Null" "yaml_emit Y Null = ''~''"
  shows "\<not> reads_back Y Some Some []"
  using assms by (simp add: reads_back_def)

end
