(* ===== verification/Settings.thy ===== *)
theory Settings
  imports Hook Config
begin

text \<open>
  The configured values that \<open>mingfwq/hook.cpp\<close> and \<open>mingfwq/http/http_parser.cpp\<close> keep in static variables, with the
  objects that set them at program start and follow them by listeners, and the rest of the hooking layer's own state: the
  table of the original functions and the flag of a thread. The order in which the two files are initialised is a parameter.
\<close>

section \<open>Definitions\<close>

datatype setting = Int_setting u32 | Uint64_setting u64

record settings =
  s_connect_timeout :: u64
  s_http_request_buffer_size :: u64
  s_http_request_max_body_size :: u64
  s_http_response_buffer_size :: u64
  s_http_response_max_body_size :: u64

definition settings_start :: settings where
  "settings_start = \<lparr>s_connect_timeout = - 1, s_http_request_buffer_size = 0, s_http_request_max_body_size = 0,
     s_http_response_buffer_size = 0, s_http_response_max_body_size = 0\<rparr>"

type_synonym setting_config = "(setting, settings) config"

text \<open>The conversion of a value to \<open>uint64_t\<close>, as in \<open>s_connect_timeout = new_value\<close>: an \<open>int\<close> is sign-extended.\<close>

fun as_uint64 :: "setting \<Rightarrow> u64" where
  "as_uint64 (Int_setting v) = scast v"
| "as_uint64 (Uint64_setting v) = v"

text \<open>The typeid names.\<close>

definition int_type :: string where
  "int_type = ''i''"
definition uint64_type :: string where
  "uint64_type = ''m''"

text \<open>One static variable that follows the configuration variable \<open>name\<close>: the copy at start and the listener.\<close>

definition follow :: "string \<Rightarrow> (u64 \<Rightarrow> settings \<Rightarrow> settings) \<Rightarrow> setting_config \<Rightarrow> setting_config" where
  "follow name put c =
     (case GetDatas c name of
        None \<Rightarrow> c
      | Some cv \<Rightarrow>
          cfg_addListener name (\<lambda>old_value new_value s. put (as_uint64 new_value) s)
            (c\<lparr>cfg_env := put (as_uint64 (getValue cv)) (cfg_env c)\<rparr>))"

definition tcp_connect_timeout :: string where
  "tcp_connect_timeout = ''tcp.connect.timeout''"

definition HookIniter :: "setting_config \<Rightarrow> setting_config res" where
  "HookIniter c =
     bind_res (Lookup int_type tcp_connect_timeout (Int_setting 5000) ''tcp connect timeout'' c) (\<lambda>(c, _).
       Inr (follow tcp_connect_timeout (\<lambda>v. s_connect_timeout_update (\<lambda>_. v)) c))"

definition http_names :: "string list" where
  "http_names = [''http.request.buffer_size'', ''http.request.max_body_size'', ''http.response.buffer_size'',
     ''http.response.max_body_size'']"

definition RequestSizeIniter :: "setting_config \<Rightarrow> setting_config res" where
  "RequestSizeIniter c =
     bind_res (Lookup uint64_type (http_names ! 0) (Uint64_setting (4 * 1024)) ''http request buffer size'' c) (\<lambda>(c, _).
     bind_res (Lookup uint64_type (http_names ! 1) (Uint64_setting (64 * 1024)) ''http request max body size'' c) (\<lambda>(c, _).
     bind_res (Lookup uint64_type (http_names ! 2) (Uint64_setting (4 * 1024)) ''http response buffer size'' c) (\<lambda>(c, _).
     bind_res (Lookup uint64_type (http_names ! 3) (Uint64_setting (64 * 1024)) ''http response max body size'' c) (\<lambda>(c, _).
       Inr (follow (http_names ! 3) (\<lambda>v. s_http_response_max_body_size_update (\<lambda>_. v))
           (follow (http_names ! 2) (\<lambda>v. s_http_response_buffer_size_update (\<lambda>_. v))
           (follow (http_names ! 1) (\<lambda>v. s_http_request_max_body_size_update (\<lambda>_. v))
           (follow (http_names ! 0) (\<lambda>v. s_http_request_buffer_size_update (\<lambda>_. v)) c))))))))"

definition static_init :: "bool \<Rightarrow> setting_config res" where
  "static_init hook_first =
     (let c = config_init settings_start
      in if hook_first then bind_res (HookIniter c) RequestSizeIniter else bind_res (RequestSizeIniter c) HookIniter)"

definition GetHttpRequestBufferSize :: "settings \<Rightarrow> u64" where
  "GetHttpRequestBufferSize s = s_http_request_buffer_size s"
definition GetHttpRequestMaxBodySize :: "settings \<Rightarrow> u64" where
  "GetHttpRequestMaxBodySize s = s_http_request_max_body_size s"
definition GetHttpResponseBufferSize :: "settings \<Rightarrow> u64" where
  "GetHttpResponseBufferSize s = s_http_response_buffer_size s"
definition GetHttpResponseMaxBodySize :: "settings \<Rightarrow> u64" where
  "GetHttpResponseMaxBodySize s = s_http_response_max_body_size s"

text \<open>\<open>connect\<close>: the hooked call with the configured timeout.\<close>

definition hook_connect ::
    "settings \<Rightarrow> io_env \<Rightarrow> bool \<Rightarrow> FdCtx option \<Rightarrow> int option \<Rightarrow> int \<Rightarrow> (int \<times> int) res \<times> io_action list" where
  "hook_connect s e hook_enable ctx so_error errno = connect_with_timeout e hook_enable ctx so_error errno (s_connect_timeout s)"

text \<open>\<open>getsockopt\<close> passes its arguments on to \<open>getsockopt_f\<close>.\<close>

definition hook_getsockopt :: "('a \<Rightarrow> 'os \<Rightarrow> 'r \<times> 'os) \<Rightarrow> 'a \<Rightarrow> 'os \<Rightarrow> 'r \<times> 'os" where
  "hook_getsockopt getsockopt_f args os = getsockopt_f args os"

definition is_hook_enable :: "'os hook_state \<Rightarrow> bool" where
  "is_hook_enable h = t_hook_enable h"
definition set_hook_enable :: "bool \<Rightarrow> 'os hook_state \<Rightarrow> 'os hook_state" where
  "set_hook_enable flag h = h\<lparr>t_hook_enable := flag\<rparr>"

text \<open>\<open>hook_init\<close>: the static \<open>is_inited\<close> and the pointers to the original functions; \<open>dlsym\<close> is the loader.\<close>

definition HOOK_FUN :: "string list" where
  "HOOK_FUN = [''sleep'', ''usleep'', ''nanosleep'', ''socket'', ''connect'', ''accept'', ''read'', ''readv'', ''recv'',
     ''recvfrom'', ''recvmsg'', ''write'', ''writev'', ''send'', ''sendto'', ''sendmsg'', ''close'', ''fcntl'', ''ioctl'',
     ''getsockopt'', ''setsockopt'']"

record 'a hook_table =
  is_inited :: bool
  hook_f :: "string \<Rightarrow> 'a option"

definition hook_init :: "(string \<Rightarrow> 'a option) \<Rightarrow> 'a hook_table \<Rightarrow> 'a hook_table" where
  "hook_init dlsym t =
     (if is_inited t then t
      else t\<lparr>hook_f := fold (\<lambda>name f. f(name := dlsym name)) HOOK_FUN (hook_f t)\<rparr>)"

section \<open>Lemmas\<close>

lemma hook_init_loads: "\<not> is_inited t \<Longrightarrow> name \<in> set HOOK_FUN \<Longrightarrow> hook_f (hook_init dlsym t) name = dlsym name"
  by (auto simp: hook_init_def HOOK_FUN_def)

text \<open>Each static variable with the configuration variable that it follows.\<close>

definition follows :: "string \<Rightarrow> (settings \<Rightarrow> u64) \<Rightarrow> (u64 \<Rightarrow> settings \<Rightarrow> settings) \<Rightarrow> setting_config \<Rightarrow> bool" where
  "follows name field put c \<longleftrightarrow> (\<exists>cv k.
     GetDatas c name = Some cv \<and> cv_cbs cv = [(k, \<lambda>old_value new_value s. put (as_uint64 new_value) s)] \<and>
     field (cfg_env c) = as_uint64 (cv_val cv))"

definition all_follow :: "setting_config \<Rightarrow> bool" where
  "all_follow c \<longleftrightarrow>
     follows tcp_connect_timeout s_connect_timeout (\<lambda>v. s_connect_timeout_update (\<lambda>_. v)) c \<and>
     follows (http_names ! 0) s_http_request_buffer_size (\<lambda>v. s_http_request_buffer_size_update (\<lambda>_. v)) c \<and>
     follows (http_names ! 1) s_http_request_max_body_size (\<lambda>v. s_http_request_max_body_size_update (\<lambda>_. v)) c \<and>
     follows (http_names ! 2) s_http_response_buffer_size (\<lambda>v. s_http_response_buffer_size_update (\<lambda>_. v)) c \<and>
     follows (http_names ! 3) s_http_response_max_body_size (\<lambda>v. s_http_response_max_body_size_update (\<lambda>_. v)) c \<and>
     dom (GetDatas c) = set (tcp_connect_timeout # http_names)"

lemma set_one:
  assumes "GetDatas c name = Some cv" "cv_cbs cv = [(k, cb)]"
  shows "GetDatas (cfg_setValue name v c) = (GetDatas c)(name \<mapsto> cv\<lparr>cv_val := v\<rparr>)"
    "cfg_env (cfg_setValue name v c) = (if v = cv_val cv then cfg_env c else cb (cv_val cv) v (cfg_env c))"
  using assms by (simp_all add: cfg_setValue_def setValue_def Let_def)

lemma followsE:
  assumes "follows name field put c"
  obtains cv k where "GetDatas c name = Some cv" "cv_cbs cv = [(k, \<lambda>old_value new_value s. put (as_uint64 new_value) s)]"
    "field (cfg_env c) = as_uint64 (cv_val cv)"
  using assms unfolding follows_def by blast

lemma followsI:
  assumes "GetDatas c name = Some cv" "cv_cbs cv = [(k, \<lambda>old_value new_value s. put (as_uint64 new_value) s)]"
    "field (cfg_env c) = as_uint64 (cv_val cv)"
  shows "follows name field put c"
  unfolding follows_def using assms by (intro exI conjI)

lemma follows_other:
  assumes f: "follows name field put c" and g: "follows name' field' put' c"
    and ne: "name \<noteq> name'" "\<And>v s. field (put' v s) = field s"
  shows "follows name field put (cfg_setValue name' v c)"
proof -
  obtain cv' k' where o: "GetDatas c name' = Some cv'" "cv_cbs cv' = [(k', \<lambda>old_value new_value s. put' (as_uint64 new_value) s)]"
    using g by (rule followsE)
  obtain cv k where c: "GetDatas c name = Some cv" "cv_cbs cv = [(k, \<lambda>old_value new_value s. put (as_uint64 new_value) s)]"
      "field (cfg_env c) = as_uint64 (cv_val cv)"
    using f by (rule followsE)
  show ?thesis
    by (rule followsI [of _ _ cv k]) (use c ne in \<open>simp_all add: set_one [OF o]\<close>)
qed

lemma follows_own:
  assumes f: "follows name field put c" and ne: "\<And>v s. field (put v s) = v"
  shows "follows name field put (cfg_setValue name v c)"
proof -
  obtain cv k where c: "GetDatas c name = Some cv" "cv_cbs cv = [(k, \<lambda>old_value new_value s. put (as_uint64 new_value) s)]"
      "field (cfg_env c) = as_uint64 (cv_val cv)"
    using f by (rule followsE)
  show ?thesis
    by (rule followsI [of _ _ "cv\<lparr>cv_val := v\<rparr>" k]) (use c ne in \<open>simp_all add: set_one [OF c(1,2)]\<close>)
qed

lemma names_distinct:
  "tcp_connect_timeout \<noteq> http_names ! 0" "tcp_connect_timeout \<noteq> http_names ! 1" "tcp_connect_timeout \<noteq> http_names ! 2"
  "tcp_connect_timeout \<noteq> http_names ! 3" "http_names ! 0 \<noteq> http_names ! 1" "http_names ! 0 \<noteq> http_names ! 2"
  "http_names ! 0 \<noteq> http_names ! 3" "http_names ! 1 \<noteq> http_names ! 2" "http_names ! 1 \<noteq> http_names ! 3"
  "http_names ! 2 \<noteq> http_names ! 3"
  by (simp_all add: tcp_connect_timeout_def http_names_def)

lemma name_cases:
  assumes "name \<in> set (tcp_connect_timeout # http_names)"
  obtains "name = tcp_connect_timeout" | "name = http_names ! 0" | "name = http_names ! 1" | "name = http_names ! 2"
    | "name = http_names ! 3"
proof -
  have "http_names = [http_names ! 0, http_names ! 1, http_names ! 2, http_names ! 3]" by (simp add: http_names_def)
  then have "set http_names = set [http_names ! 0, http_names ! 1, http_names ! 2, http_names ! 3]" by (rule arg_cong)
  then have "name \<in> set (tcp_connect_timeout # [http_names ! 0, http_names ! 1, http_names ! 2, http_names ! 3])"
    using assms by (simp only: list.set)
  then show ?thesis by (simp only: list.set insert_iff empty_iff) (use that in blast)
qed

lemma set_follow:
  assumes a: "all_follow c" and n: "name \<in> set (tcp_connect_timeout # http_names)"
  shows "all_follow (cfg_setValue name v c)"
proof -
  have d: "dom (GetDatas (cfg_setValue name v c)) = dom (GetDatas c)"
    by (auto simp: cfg_setValue_def Let_def split: option.splits prod.splits)
  note f = a [unfolded all_follow_def]
  note fs = f [THEN conjunct1] f [THEN conjunct2, THEN conjunct1] f [THEN conjunct2, THEN conjunct2, THEN conjunct1]
    f [THEN conjunct2, THEN conjunct2, THEN conjunct2, THEN conjunct1]
    f [THEN conjunct2, THEN conjunct2, THEN conjunct2, THEN conjunct2, THEN conjunct1]
  show ?thesis
    using n
  proof (cases rule: name_cases)
    case 1
    show ?thesis unfolding all_follow_def 1
      using f follows_own [OF fs(1)] follows_other [OF fs(2) fs(1)] follows_other [OF fs(3) fs(1)]
        follows_other [OF fs(4) fs(1)] follows_other [OF fs(5) fs(1)] names_distinct d [unfolded 1] by simp
  next
    case 2
    show ?thesis unfolding all_follow_def 2
      using f follows_own [OF fs(2)] follows_other [OF fs(1) fs(2)] follows_other [OF fs(3) fs(2)]
        follows_other [OF fs(4) fs(2)] follows_other [OF fs(5) fs(2)] names_distinct d [unfolded 2] by simp
  next
    case 3
    show ?thesis unfolding all_follow_def 3
      using f follows_own [OF fs(3)] follows_other [OF fs(1) fs(3)] follows_other [OF fs(2) fs(3)]
        follows_other [OF fs(4) fs(3)] follows_other [OF fs(5) fs(3)] names_distinct d [unfolded 3] by simp
  next
    case 4
    show ?thesis unfolding all_follow_def 4
      using f follows_own [OF fs(4)] follows_other [OF fs(1) fs(4)] follows_other [OF fs(2) fs(4)]
        follows_other [OF fs(3) fs(4)] follows_other [OF fs(5) fs(4)] names_distinct d [unfolded 4] by simp
  next
    case 5
    show ?thesis unfolding all_follow_def 5
      using f follows_own [OF fs(5)] follows_other [OF fs(1) fs(5)] follows_other [OF fs(2) fs(5)]
        follows_other [OF fs(3) fs(5)] follows_other [OF fs(4) fs(5)] names_distinct d [unfolded 5] by simp
  qed
qed

lemma follow_effect:
  assumes "GetDatas c name = Some cv" "cv_cbs cv = []"
  shows "GetDatas (follow name put c) = (GetDatas c)(name \<mapsto>
      cv\<lparr>cv_cbs := [(s_fun_ids c (cv_type cv) + 1, \<lambda>old_value new_value s. put (as_uint64 new_value) s)]\<rparr>)"
    "cfg_env (follow name put c) = put (as_uint64 (cv_val cv)) (cfg_env c)"
  using assms
  by (simp_all add: follow_def cfg_addListener_def addListener_def getValue_def map_assign_def before_bound_def
      lower_bound_def Let_def)

lemma follow_makes:
  assumes "GetDatas c name = Some cv" "cv_cbs cv = []" "\<And>v s. field (put v s) = v"
  shows "follows name field put (follow name put c)"
  by (rule followsI [of _ _ "cv\<lparr>cv_cbs := [(s_fun_ids c (cv_type cv) + 1, \<lambda>old_value new_value s. put (as_uint64 new_value) s)]\<rparr>"
      "s_fun_ids c (cv_type cv) + 1"]) (simp_all add: follow_effect [OF assms(1,2)] assms(3))

lemma follow_keeps:
  assumes "follows name field put c" "GetDatas c name' = Some cv" "cv_cbs cv = []" "name \<noteq> name'"
    "\<And>v s. field (put' v s) = field s"
  shows "follows name field put (follow name' put' c)"
proof -
  obtain cv k where c: "GetDatas c name = Some cv" "cv_cbs cv = [(k, \<lambda>old_value new_value s. put (as_uint64 new_value) s)]"
      "field (cfg_env c) = as_uint64 (cv_val cv)"
    using assms(1) by (rule followsE)
  show ?thesis
    by (rule followsI [of _ _ cv k]) (use c assms(4,5) in \<open>simp_all add: follow_effect [OF assms(2,3)]\<close>)
qed

lemma follows_data:
  assumes "follows name field put c" "GetDatas c' name = GetDatas c name" "cfg_env c' = cfg_env c"
  shows "follows name field put c'"
  using assms unfolding follows_def by simp

text \<open>A variable without listeners, as it is when it has been registered.\<close>

definition plain :: "setting_config \<Rightarrow> string \<Rightarrow> bool" where
  "plain c name \<longleftrightarrow> (\<exists>cv. GetDatas c name = Some cv \<and> cv_cbs cv = [])"

lemma follow_plain: "plain c name' \<Longrightarrow> plain c name \<Longrightarrow> name \<noteq> name' \<Longrightarrow> plain (follow name' put c) name"
  by (auto simp: plain_def follow_effect)

lemma follow_dom: "plain c name \<Longrightarrow> dom (GetDatas (follow name put c)) = dom (GetDatas c)"
  by (auto simp: plain_def follow_effect split: if_splits)

lemma lookup_names:
  "\<not> find_first_not_of tcp_connect_timeout lookup_chars"
  "\<not> find_first_not_of (http_names ! 0) lookup_chars" "\<not> find_first_not_of (http_names ! 1) lookup_chars"
  "\<not> find_first_not_of (http_names ! 2) lookup_chars" "\<not> find_first_not_of (http_names ! 3) lookup_chars"
  by code_simp+

definition with_var :: "string \<Rightarrow> string \<Rightarrow> setting \<Rightarrow> string \<Rightarrow> setting_config \<Rightarrow> setting_config" where
  "with_var T name v d c = c\<lparr>GetDatas := (GetDatas c)(name \<mapsto> ConfigVar_new T name v d)\<rparr>"

lemma Lookup_fresh:
  "GetDatas c name = None \<Longrightarrow> \<not> find_first_not_of name lookup_chars \<Longrightarrow>
   Lookup T name v d c = Inr (with_var T name v d c, Some name)"
  by (simp add: Lookup_def with_var_def)

lemma with_var_simps [simp]:
  "GetDatas (with_var T name v d c) = (GetDatas c)(name \<mapsto> ConfigVar_new T name v d)"
  "cfg_env (with_var T name v d c) = cfg_env c"
  by (simp_all add: with_var_def)

lemma plain_registered: "plain (with_var T name v d c) n \<longleftrightarrow> n = name \<or> plain c n"
  by (auto simp: plain_def ConfigVar_new_def)

text \<open>The five registrations and the two groups of listeners.\<close>

lemma follow_makes_plain: "plain c name \<Longrightarrow> (\<And>v s. field (put v s) = v) \<Longrightarrow> follows name field put (follow name put c)"
  unfolding plain_def using follow_makes by blast

lemma follow_keeps_plain:
  "follows name field put c \<Longrightarrow> plain c name' \<Longrightarrow> name \<noteq> name' \<Longrightarrow> (\<And>v s. field (put' v s) = field s) \<Longrightarrow>
   follows name field put (follow name' put' c)"
  unfolding plain_def using follow_keeps by blast

lemma registered_keeps: "follows name field put c \<Longrightarrow> name \<noteq> name' \<Longrightarrow> follows name field put (with_var T name' v d c)"
  by (erule follows_data) simp_all

abbreviation follow_hook :: "setting_config \<Rightarrow> setting_config" where
  "follow_hook c \<equiv> follow tcp_connect_timeout (\<lambda>v. s_connect_timeout_update (\<lambda>_. v)) c"

abbreviation follow_http :: "setting_config \<Rightarrow> setting_config" where
  "follow_http c \<equiv> follow (http_names ! 3) (\<lambda>v. s_http_response_max_body_size_update (\<lambda>_. v))
     (follow (http_names ! 2) (\<lambda>v. s_http_response_buffer_size_update (\<lambda>_. v))
     (follow (http_names ! 1) (\<lambda>v. s_http_request_max_body_size_update (\<lambda>_. v))
     (follow (http_names ! 0) (\<lambda>v. s_http_request_buffer_size_update (\<lambda>_. v)) c)))"

definition http_registered :: "setting_config \<Rightarrow> setting_config" where
  "http_registered c =
     with_var uint64_type (http_names ! 3) (Uint64_setting (64 * 1024)) ''http response max body size''
     (with_var uint64_type (http_names ! 2) (Uint64_setting (4 * 1024)) ''http response buffer size''
     (with_var uint64_type (http_names ! 1) (Uint64_setting (64 * 1024)) ''http request max body size''
     (with_var uint64_type (http_names ! 0) (Uint64_setting (4 * 1024)) ''http request buffer size'' c)))"

definition hook_registered :: "setting_config \<Rightarrow> setting_config" where
  "hook_registered c = with_var int_type tcp_connect_timeout (Int_setting 5000) ''tcp connect timeout'' c"

lemma RequestSizeIniter_eq:
  assumes "\<And>n. n \<in> set http_names \<Longrightarrow> GetDatas c n = None"
  shows "RequestSizeIniter c = Inr (follow_http (http_registered c))"
proof -
  have "GetDatas c (http_names ! 0) = None" "GetDatas c (http_names ! 1) = None" "GetDatas c (http_names ! 2) = None"
      "GetDatas c (http_names ! 3) = None"
    by (rule assms, simp add: http_names_def)+
  then show ?thesis
    using names_distinct
    by (simp add: RequestSizeIniter_def Lookup_fresh lookup_names http_registered_def del: One_nat_def)
qed

lemma HookIniter_eq:
  "GetDatas c tcp_connect_timeout = None \<Longrightarrow> HookIniter c = Inr (follow_hook (hook_registered c))"
  by (simp add: HookIniter_def Lookup_fresh lookup_names hook_registered_def)

lemma names_members:
  "http_names ! 0 \<in> set http_names" "http_names ! 1 \<in> set http_names" "http_names ! 2 \<in> set http_names"
  "http_names ! 3 \<in> set http_names" "tcp_connect_timeout \<notin> set http_names"
  "set http_names = {http_names ! 0, http_names ! 1, http_names ! 2, http_names ! 3}"
proof -
  have eq: "http_names = [http_names ! 0, http_names ! 1, http_names ! 2, http_names ! 3]" by (simp add: http_names_def)
  show s: "set http_names = {http_names ! 0, http_names ! 1, http_names ! 2, http_names ! 3}"
    using arg_cong [OF eq, of set] by (simp only: list.set)
  show "http_names ! 0 \<in> set http_names" "http_names ! 1 \<in> set http_names" "http_names ! 2 \<in> set http_names"
    "http_names ! 3 \<in> set http_names" "tcp_connect_timeout \<notin> set http_names"
    unfolding s using names_distinct(1-4) by blast+
qed

definition http_follow :: "setting_config \<Rightarrow> bool" where
  "http_follow c \<longleftrightarrow>
     follows (http_names ! 0) s_http_request_buffer_size (\<lambda>v. s_http_request_buffer_size_update (\<lambda>_. v)) c \<and>
     follows (http_names ! 1) s_http_request_max_body_size (\<lambda>v. s_http_request_max_body_size_update (\<lambda>_. v)) c \<and>
     follows (http_names ! 2) s_http_response_buffer_size (\<lambda>v. s_http_response_buffer_size_update (\<lambda>_. v)) c \<and>
     follows (http_names ! 3) s_http_response_max_body_size (\<lambda>v. s_http_response_max_body_size_update (\<lambda>_. v)) c"

definition hook_follow :: "setting_config \<Rightarrow> bool" where
  "hook_follow c \<longleftrightarrow> follows tcp_connect_timeout s_connect_timeout (\<lambda>v. s_connect_timeout_update (\<lambda>_. v)) c"

lemmas distinct_names = names_distinct names_distinct [symmetric]

lemma http_plain:
  "plain (http_registered c) (http_names ! 0)" "plain (http_registered c) (http_names ! 1)"
  "plain (http_registered c) (http_names ! 2)" "plain (http_registered c) (http_names ! 3)"
  by (simp_all add: http_registered_def plain_registered)

lemma http_part:
  shows "http_follow (follow_http (http_registered c))"
    and "dom (GetDatas (follow_http (http_registered c))) = dom (GetDatas c) \<union> set http_names"
    and "hook_follow c \<Longrightarrow> hook_follow (follow_http (http_registered c))"
proof -
  note p = http_plain [of c]
  show "http_follow (follow_http (http_registered c))"
    unfolding http_follow_def
    by (intro conjI follow_keeps_plain follow_makes_plain follow_plain p distinct_names) simp_all
  show "dom (GetDatas (follow_http (http_registered c))) = dom (GetDatas c) \<union> set http_names"
  proof -
    have "dom (GetDatas (follow_http (http_registered c))) = dom (GetDatas (http_registered c))"
      by (simp add: follow_dom follow_plain p distinct_names del: One_nat_def)
    also have "\<dots> = dom (GetDatas c) \<union> set http_names" by (auto simp: http_registered_def names_members(6))
    finally show ?thesis .
  qed
  show "hook_follow (follow_http (http_registered c))" if "hook_follow c"
    using that unfolding hook_follow_def http_registered_def
    by (intro follow_keeps_plain follow_plain registered_keeps p [unfolded http_registered_def] distinct_names) simp_all
qed

lemma hook_part:
  shows "hook_follow (follow_hook (hook_registered c))"
    and "dom (GetDatas (follow_hook (hook_registered c))) = insert tcp_connect_timeout (dom (GetDatas c))"
    and "http_follow c \<Longrightarrow> http_follow (follow_hook (hook_registered c))"
proof -
  have p: "plain (hook_registered c) tcp_connect_timeout" by (simp add: hook_registered_def plain_registered)
  show "hook_follow (follow_hook (hook_registered c))"
    unfolding hook_follow_def by (rule follow_makes_plain [OF p]) simp
  show "dom (GetDatas (follow_hook (hook_registered c))) = insert tcp_connect_timeout (dom (GetDatas c))"
    by (simp add: follow_dom p) (simp add: hook_registered_def)
  show "http_follow (follow_hook (hook_registered c))" if "http_follow c"
    using that unfolding http_follow_def hook_registered_def
    by (elim conjE, intro conjI follow_keeps_plain registered_keeps p [unfolded hook_registered_def] distinct_names) simp_all
qed

lemma static_follow: "\<exists>c. static_init hook_first = Inr c \<and> all_follow c"
proof -
  let ?c = "config_init settings_start :: setting_config"
  have empty: "GetDatas ?c n = None" for n by (simp add: config_init_def)
  have afollow: "all_follow c \<longleftrightarrow> hook_follow c \<and> http_follow c \<and> dom (GetDatas c) = set (tcp_connect_timeout # http_names)" for c
    by (auto simp: all_follow_def hook_follow_def http_follow_def)
  show ?thesis
  proof (cases hook_first)
    case True
    let ?h = "follow_hook (hook_registered ?c)"
    have "GetDatas ?h n = None" if "n \<in> set http_names" for n
    proof -
      have "n \<notin> dom (GetDatas ?h)" unfolding hook_part(2) using that names_members(5) empty by auto
      then show ?thesis by (simp add: domIff)
    qed
    then have "static_init hook_first = Inr (follow_http (http_registered ?h))"
      using True HookIniter_eq [OF empty] RequestSizeIniter_eq [of ?h] by (simp add: static_init_def)
    moreover have "all_follow (follow_http (http_registered ?h))"
      using http_part [of ?h] hook_part(1,2) [of ?c] by (auto simp: afollow config_init_def)
    ultimately show ?thesis by blast
  next
    case False
    let ?h = "follow_http (http_registered ?c)"
    have "GetDatas ?h tcp_connect_timeout = None"
    proof -
      have "tcp_connect_timeout \<notin> dom (GetDatas ?h)" unfolding http_part(2) using names_members(5) empty by auto
      then show ?thesis by (simp add: domIff)
    qed
    then have "static_init hook_first = Inr (follow_hook (hook_registered ?h))"
      using False HookIniter_eq [of ?h] RequestSizeIniter_eq [OF empty] by (simp add: static_init_def)
    moreover have "all_follow (follow_hook (hook_registered ?h))"
      using hook_part [of ?h] http_part(1,2) [of ?c] by (auto simp: afollow config_init_def)
    ultimately show ?thesis by blast
  qed
qed

lemma sets_follow:
  "all_follow c \<Longrightarrow> list_all (\<lambda>(name, v). name \<in> set (tcp_connect_timeout # http_names)) us \<Longrightarrow>
   all_follow (fold (\<lambda>(name, v). cfg_setValue name v) us c)"
proof (induction us arbitrary: c)
  case (Cons u us)
  obtain name v where u: "u = (name, v)" by (cases u)
  have "all_follow (cfg_setValue name v c)" using Cons.prems u by (intro set_follow) simp_all
  then have "all_follow (fold (\<lambda>(name, v). cfg_setValue name v) us (cfg_setValue name v c))"
    using Cons.prems(2) by (intro Cons.IH) simp_all
  then show ?case using u by simp
qed simp

section \<open>Properties\<close>

text \<open>
  C27: In whichever order the two files are initialised, nothing throws, and after any sequence of \<open>setValue\<close> calls on the five
  configuration variables each static variable holds the current value of the variable it follows, converted to
  \<open>uint64_t\<close>; in particular \<open>connect\<close> uses the configured timeout and the parsers the configured sizes.
\<close>

theorem settings_follow:
  assumes "list_all (\<lambda>(name, v). name \<in> set (tcp_connect_timeout # http_names)) us"
  shows "\<exists>c c'. static_init hook_first = Inr c \<and> c' = fold (\<lambda>(name, v). cfg_setValue name v) us c \<and>
    map_option (\<lambda>cv. as_uint64 (cv_val cv)) (GetDatas c' tcp_connect_timeout) = Some (s_connect_timeout (cfg_env c')) \<and>
    hook_connect (cfg_env c') e True ctx so_error errno =
      connect_with_timeout e True ctx so_error errno (as_uint64 (cv_val (the (GetDatas c' tcp_connect_timeout)))) \<and>
    map (\<lambda>name. map_option (\<lambda>cv. as_uint64 (cv_val cv)) (GetDatas c' name)) http_names =
      [Some (GetHttpRequestBufferSize (cfg_env c')), Some (GetHttpRequestMaxBodySize (cfg_env c')),
       Some (GetHttpResponseBufferSize (cfg_env c')), Some (GetHttpResponseMaxBodySize (cfg_env c'))]"
proof -
  obtain c where c: "static_init hook_first = Inr c" "all_follow c" using static_follow by blast
  have f: "all_follow (fold (\<lambda>(name, v). cfg_setValue name v) us c)" by (rule sets_follow [OF c(2) assms])
  have val: "map_option (\<lambda>cv. as_uint64 (cv_val cv)) (GetDatas d n) = Some (field (cfg_env d))"
    if "follows n field put d" for n field put d
    using that by (auto simp: follows_def)
  have names: "map g http_names = [g (http_names ! 0), g (http_names ! 1), g (http_names ! 2), g (http_names ! 3)]"
    for g :: "string \<Rightarrow> u64 option" by (simp add: http_names_def)
  let ?d = "fold (\<lambda>(name, v). cfg_setValue name v) us c"
  note fs = f [unfolded all_follow_def]
  note v = val [OF fs [THEN conjunct1]] val [OF fs [THEN conjunct2, THEN conjunct1]]
    val [OF fs [THEN conjunct2, THEN conjunct2, THEN conjunct1]]
    val [OF fs [THEN conjunct2, THEN conjunct2, THEN conjunct2, THEN conjunct1]]
    val [OF fs [THEN conjunct2, THEN conjunct2, THEN conjunct2, THEN conjunct2, THEN conjunct1]]
  have "as_uint64 (cv_val (the (GetDatas ?d tcp_connect_timeout))) = s_connect_timeout (cfg_env ?d)"
    using v(1) by (auto simp: map_option_case split: option.splits)
  then have "hook_connect (cfg_env ?d) e True ctx so_error errno =
      connect_with_timeout e True ctx so_error errno (as_uint64 (cv_val (the (GetDatas ?d tcp_connect_timeout))))"
    by (simp only: hook_connect_def)
  then show ?thesis
    unfolding names v(2-5) GetHttpRequestBufferSize_def GetHttpRequestMaxBodySize_def
      GetHttpResponseBufferSize_def GetHttpResponseMaxBodySize_def
    using c(1) v by (intro exI [of _ c] exI [of _ ?d] conjI refl) simp_all
qed

theorem settings_follow_witness:
  "\<exists>c c'. static_init True = Inr c \<and> c' = cfg_setValue tcp_connect_timeout (Int_setting 9) c \<and>
     map_option (\<lambda>cv. as_uint64 (cv_val cv)) (GetDatas c' tcp_connect_timeout) = Some (s_connect_timeout (cfg_env c'))"
proof -
  have "list_all (\<lambda>(name, v). name \<in> set (tcp_connect_timeout # http_names)) [(tcp_connect_timeout, Int_setting 9)]" by simp
  from settings_follow [OF this, of True]
  obtain c where "static_init True = Inr c" "map_option (\<lambda>cv. as_uint64 (cv_val cv))
      (GetDatas (fold (\<lambda>(name, v). cfg_setValue name v) [(tcp_connect_timeout, Int_setting 9)] c) tcp_connect_timeout) =
      Some (s_connect_timeout (cfg_env (fold (\<lambda>(name, v). cfg_setValue name v) [(tcp_connect_timeout, Int_setting 9)] c)))"
    by blast
  then show ?thesis by (intro exI [of _ c] exI [of _ "cfg_setValue tcp_connect_timeout (Int_setting 9) c"]) (simp only: fold_simps prod.case simp_thms)
qed

end
