(* ===== verification/Locks.thy ===== *)
theory Locks
  imports Prelude
begin

text \<open>
  The locks of \<open>mingfwq/thread.h\<close>: the semaphore, the mutexes, the spin locks, the read-write locks, and the scoped
  locks (guards) over them. The locks of the pthread library are given by their documented behaviour: an operation
  that has to wait is \<open>None\<close>, and a release by a thread that does not hold the lock is undefined. A thread is a number.
\<close>

section \<open>Locks\<close>

type_synonym tid = nat

text \<open>A semaphore is its value; \<open>intr\<close> says that a signal handler interrupts the wait.\<close>

definition SEM_VALUE_MAX :: nat where
  "SEM_VALUE_MAX = 2 ^ 31 - 1"

definition Semaphore_new :: "nat \<Rightarrow> nat res" where
  "Semaphore_new count = (if count > SEM_VALUE_MAX then Inl (Logic_error ''sem_init error'') else Inr count)"

definition Semaphore_wait :: "bool \<Rightarrow> nat \<Rightarrow> nat res option" where
  "Semaphore_wait intr sem =
     (if sem > 0 then Some (Inr (sem - 1))
      else if intr then Some (Inl (Logic_error ''sem_wait error''))
      else None)"

definition Semaphore_notify :: "nat \<Rightarrow> nat res" where
  "Semaphore_notify sem = (if sem = SEM_VALUE_MAX then Inl (Logic_error ''sem_post error'') else Inr (sem + 1))"

text \<open>\<open>Mutex\<close> and \<open>Spinlock\<close>: the thread that holds the lock.\<close>

type_synonym Mutex = "tid option"

definition Mutex_new :: Mutex where
  "Mutex_new = None"
definition Mutex_lock :: "tid \<Rightarrow> Mutex \<Rightarrow> Mutex option" where
  "Mutex_lock t m = (case m of None \<Rightarrow> Some (Some t) | Some _ \<Rightarrow> None)"
definition Mutex_unlock :: "tid \<Rightarrow> Mutex \<Rightarrow> Mutex res" where
  "Mutex_unlock t m = (if m = Some t then Inr None else Inl Bad_unlock)"

type_synonym Spinlock = "tid option"

definition Spinlock_new :: Spinlock where
  "Spinlock_new = None"
definition Spinlock_lock :: "tid \<Rightarrow> Spinlock \<Rightarrow> Spinlock option" where
  "Spinlock_lock t m = (case m of None \<Rightarrow> Some (Some t) | Some _ \<Rightarrow> None)"
definition Spinlock_unlock :: "tid \<Rightarrow> Spinlock \<Rightarrow> Spinlock res" where
  "Spinlock_unlock t m = (if m = Some t then Inr None else Inl Bad_unlock)"

text \<open>\<open>CASLock\<close>: the flag. Its \<open>lock\<close> repeats \<open>test_and_set\<close> while it returns true.\<close>

type_synonym CASLock = bool

definition CASLock_new :: CASLock where
  "CASLock_new = False"
definition test_and_set :: "bool \<Rightarrow> bool \<times> bool" where
  "test_and_set flag = (flag, True)"
definition CASLock_lock :: "tid \<Rightarrow> CASLock \<Rightarrow> CASLock option" where
  "CASLock_lock t m = (let (old, m) = test_and_set m in if old then None else Some m)"
definition CASLock_unlock :: "tid \<Rightarrow> CASLock \<Rightarrow> CASLock res" where
  "CASLock_unlock t m = Inr False"

definition NullMutex_lock :: "tid \<Rightarrow> unit \<Rightarrow> unit option" where
  "NullMutex_lock t m = Some m"
definition NullMutex_unlock :: "tid \<Rightarrow> unit \<Rightarrow> unit res" where
  "NullMutex_unlock t m = Inr m"

text \<open>
  \<open>RWMutex\<close>: the writer or the readers, one entry for each read lock. A thread that asks for a lock while it holds the
  write lock deadlocks or, when the library \<open>detects\<close> this, gets an error, which the code ignores.
\<close>

record RWMutex =
  rw_writer :: "tid option"
  rw_readers :: "tid list"

definition RWMutex_new :: RWMutex where
  "RWMutex_new = \<lparr>rw_writer = None, rw_readers = []\<rparr>"

definition RWMutex_rdlock :: "bool \<Rightarrow> tid \<Rightarrow> RWMutex \<Rightarrow> RWMutex option" where
  "RWMutex_rdlock detects t m =
     (if detects \<and> rw_writer m = Some t then Some m
      else if rw_writer m \<noteq> None then None
      else Some (m\<lparr>rw_readers := t # rw_readers m\<rparr>))"

definition RWMutex_wrlock :: "bool \<Rightarrow> tid \<Rightarrow> RWMutex \<Rightarrow> RWMutex option" where
  "RWMutex_wrlock detects t m =
     (if detects \<and> rw_writer m = Some t then Some m
      else if rw_writer m \<noteq> None \<or> rw_readers m \<noteq> [] then None
      else Some (m\<lparr>rw_writer := Some t\<rparr>))"

definition RWMutex_unlock :: "tid \<Rightarrow> RWMutex \<Rightarrow> RWMutex res" where
  "RWMutex_unlock t m =
     (if rw_writer m = Some t then Inr (m\<lparr>rw_writer := None\<rparr>)
      else if t \<in> set (rw_readers m) then Inr (m\<lparr>rw_readers := remove1 t (rw_readers m)\<rparr>)
      else Inl Bad_unlock)"

definition NullRWMutex_rdlock :: "tid \<Rightarrow> unit \<Rightarrow> unit option" where
  "NullRWMutex_rdlock t m = Some m"
definition NullRWMutex_wrlock :: "tid \<Rightarrow> unit \<Rightarrow> unit option" where
  "NullRWMutex_wrlock t m = Some m"
definition NullRWMutex_unlock :: "tid \<Rightarrow> unit \<Rightarrow> unit res" where
  "NullRWMutex_unlock t m = Inr m"

section \<open>Scoped locks\<close>

text \<open>
  The three templates differ in the operation of the mutex that they lock with, the parameter \<open>lock\<close>. The guard is its
  flag \<open>m_locked\<close>; the mutex it refers to is passed along.
\<close>

record ScopedLockImpl =
  sl_locked :: bool

definition ScopedLock_new :: "(tid \<Rightarrow> 'm \<Rightarrow> 'm option) \<Rightarrow> tid \<Rightarrow> 'm \<Rightarrow> (ScopedLockImpl \<times> 'm) option" where
  "ScopedLock_new lock t m = map_option (\<lambda>m. (\<lparr>sl_locked = True\<rparr>, m)) (lock t m)"

definition ScopedLock_lock ::
    "(tid \<Rightarrow> 'm \<Rightarrow> 'm option) \<Rightarrow> tid \<Rightarrow> ScopedLockImpl \<Rightarrow> 'm \<Rightarrow> (ScopedLockImpl \<times> 'm) option" where
  "ScopedLock_lock lock t g m = (if \<not> sl_locked g then map_option (\<lambda>m. (g, m)) (lock t m) else Some (g, m))"

definition ScopedLock_unlock ::
    "(tid \<Rightarrow> 'm \<Rightarrow> 'm res) \<Rightarrow> tid \<Rightarrow> ScopedLockImpl \<Rightarrow> 'm \<Rightarrow> (ScopedLockImpl \<times> 'm) res" where
  "ScopedLock_unlock unlock t g m =
     (if sl_locked g then bind_res (unlock t m) (\<lambda>m. Inr (g\<lparr>sl_locked := False\<rparr>, m)) else Inr (g, m))"

definition ScopedLock_destroy :: "(tid \<Rightarrow> 'm \<Rightarrow> 'm res) \<Rightarrow> tid \<Rightarrow> ScopedLockImpl \<Rightarrow> 'm \<Rightarrow> 'm res" where
  "ScopedLock_destroy unlock t g m = bind_res (ScopedLock_unlock unlock t g m) (\<lambda>(_, m). Inr m)"

section \<open>Threads that share a lock\<close>

text \<open>
  Every thread uses one guard at a time: it constructs it, may unlock and lock it again, and destroys it.
  \<open>gs_inside\<close> records which threads are between a locking and an unlocking call.
\<close>

datatype guard_op = Construct | Unlock | Lock_again | Destruct

record 'm guarded =
  gs_mutex :: 'm
  gs_guard :: "tid \<Rightarrow> ScopedLockImpl option"
  gs_inside :: "tid \<Rightarrow> bool"

definition guarded_init :: "'m \<Rightarrow> 'm guarded" where
  "guarded_init m = \<lparr>gs_mutex = m, gs_guard = (\<lambda>_. None), gs_inside = (\<lambda>_. False)\<rparr>"

definition gs_put :: "tid \<Rightarrow> ScopedLockImpl option \<Rightarrow> bool \<Rightarrow> 'm \<Rightarrow> 'm guarded \<Rightarrow> 'm guarded" where
  "gs_put t g inside m s =
     s\<lparr>gs_mutex := m, gs_guard := (gs_guard s)(t := g), gs_inside := (gs_inside s)(t := inside)\<rparr>"

text \<open>\<open>None\<close>: the operation waits, or there is no guard (or already one) to apply it to.\<close>

fun guard_act ::
    "(tid \<Rightarrow> 'm \<Rightarrow> 'm option) \<Rightarrow> (tid \<Rightarrow> 'm \<Rightarrow> 'm res) \<Rightarrow> tid \<Rightarrow> guard_op \<Rightarrow> 'm guarded \<Rightarrow> 'm guarded res option" where
  "guard_act lock unlock t Construct s =
     (case gs_guard s t of
        None \<Rightarrow> map_option (\<lambda>(g, m). Inr (gs_put t (Some g) True m s)) (ScopedLock_new lock t (gs_mutex s))
      | Some _ \<Rightarrow> None)"
| "guard_act lock unlock t Unlock s =
     (case gs_guard s t of
        None \<Rightarrow> None
      | Some g \<Rightarrow> Some (bind_res (ScopedLock_unlock unlock t g (gs_mutex s)) (\<lambda>(g, m). Inr (gs_put t (Some g) False m s))))"
| "guard_act lock unlock t Lock_again s =
     (case gs_guard s t of
        None \<Rightarrow> None
      | Some g \<Rightarrow> map_option (\<lambda>(g, m). Inr (gs_put t (Some g) True m s)) (ScopedLock_lock lock t g (gs_mutex s)))"
| "guard_act lock unlock t Destruct s =
     (case gs_guard s t of
        None \<Rightarrow> None
      | Some g \<Rightarrow> Some (bind_res (ScopedLock_destroy unlock t g (gs_mutex s)) (\<lambda>m. Inr (gs_put t None False m s))))"

text \<open>The states that interleaved operations reach; with \<open>again\<close> unset, no guard is locked again after \<open>unlock\<close>.\<close>

inductive guard_reach ::
    "(tid \<Rightarrow> 'm \<Rightarrow> 'm option) \<Rightarrow> (tid \<Rightarrow> 'm \<Rightarrow> 'm res) \<Rightarrow> bool \<Rightarrow> 'm guarded \<Rightarrow> 'm guarded \<Rightarrow> bool"
  for lock unlock again where
  start: "guard_reach lock unlock again s s"
| step: "guard_reach lock unlock again s s' \<Longrightarrow> op \<noteq> Lock_again \<or> again \<Longrightarrow>
    guard_act lock unlock t op s' = Some (Inr s'') \<Longrightarrow> guard_reach lock unlock again s s''"

inductive_cases guard_reach_stepE: "guard_reach lock unlock again s s'"

definition gs_locked :: "'m guarded \<Rightarrow> tid \<Rightarrow> bool" where
  "gs_locked s t \<longleftrightarrow> (\<exists>g. gs_guard s t = Some g \<and> sl_locked g)"

lemma gs_put_simps [simp]:
  "gs_mutex (gs_put t g i m s) = m"
  "gs_inside (gs_put t g i m s) u = (if u = t then i else gs_inside s u)"
  "gs_guard (gs_put t g i m s) u = (if u = t then g else gs_guard s u)"
  "gs_locked (gs_put t g i m s) u = (if u = t then (case g of None \<Rightarrow> False | Some g \<Rightarrow> sl_locked g) else gs_locked s u)"
  by (auto simp: gs_put_def gs_locked_def split: option.splits)

lemma guarded_init_simps [simp]:
  "gs_mutex (guarded_init m) = m" "gs_guard (guarded_init m) t = None" "\<not> gs_inside (guarded_init m) t" "\<not> gs_locked (guarded_init m) t"
  by (simp_all add: guarded_init_def gs_locked_def)

section \<open>The contract of an exclusive lock\<close>

locale exclusive_lock =
  fixes lock :: "tid \<Rightarrow> 'm \<Rightarrow> 'm option"
    and unlock :: "tid \<Rightarrow> 'm \<Rightarrow> 'm res"
    and free :: "'m \<Rightarrow> bool"
    and held :: "'m \<Rightarrow> tid \<Rightarrow> bool"
  assumes lock_takes: "lock t m = Some m' \<Longrightarrow> free m \<and> \<not> free m' \<and> held m' t"
    and lock_waits: "\<not> free m \<Longrightarrow> lock t m = None"
    and unlock_frees: "held m t \<Longrightarrow> \<exists>m'. unlock t m = Inr m' \<and> free m'"
begin

definition guard_inv :: "'m guarded \<Rightarrow> bool" where
  "guard_inv s \<longleftrightarrow>
     (\<forall>t. gs_locked s t \<longrightarrow> gs_inside s t \<and> held (gs_mutex s) t) \<and>
     (\<forall>t u. gs_inside s t \<and> gs_inside s u \<longrightarrow> t = u) \<and>
     (free (gs_mutex s) \<longrightarrow> (\<forall>t. \<not> gs_inside s t))"

lemma guard_inv_init: "free m \<Longrightarrow> guard_inv (guarded_init m)"
  by (simp add: guard_inv_def)

lemma guard_inv_take:
  assumes "guard_inv s" "lock t (gs_mutex s) = Some m'"
  shows "guard_inv (gs_put t (Some g) True m' s)"
  using assms lock_takes [OF assms(2)] by (auto simp: guard_inv_def)

lemma guard_inv_leave:
  assumes "guard_inv s" "gs_guard s t = Some g" "g' = None \<or> (\<exists>g1. g' = Some g1 \<and> \<not> sl_locked g1)"
  shows "\<exists>m'. ScopedLock_unlock unlock t g (gs_mutex s) = Inr (g\<lparr>sl_locked := False\<rparr>, m') \<and> guard_inv (gs_put t g' False m' s)"
proof (cases "sl_locked g")
  case True
  then have l: "gs_locked s t" using assms(2) by (simp add: gs_locked_def)
  then have "held (gs_mutex s) t" using assms(1) by (auto simp: guard_inv_def)
  then obtain m' where m': "unlock t (gs_mutex s) = Inr m'" "free m'" using unlock_frees by blast
  have "guard_inv (gs_put t g' False m' s)"
    using assms(1,3) l m'(2) unfolding guard_inv_def by auto
  then show ?thesis using m'(1) True by (simp add: ScopedLock_unlock_def)
next
  case False
  then have "guard_inv (gs_put t g' False (gs_mutex s) s)"
    using assms unfolding guard_inv_def by auto
  moreover have "g\<lparr>sl_locked := False\<rparr> = g" using False by simp
  ultimately show ?thesis using False by (auto simp: ScopedLock_unlock_def)
qed

lemma guard_act_inv:
  assumes "guard_inv s" "guard_act lock unlock t op s = Some r"
  shows "\<exists>s'. r = Inr s' \<and> guard_inv s'"
proof (cases op)
  case Construct
  then show ?thesis
    using assms by (auto simp: ScopedLock_new_def split: option.splits intro: guard_inv_take)
next
  case Unlock
  then obtain g where g: "gs_guard s t = Some g" using assms(2) by (auto split: option.splits)
  show ?thesis
    using guard_inv_leave [OF assms(1) g, of "Some (g\<lparr>sl_locked := False\<rparr>)"] assms(2) g Unlock by auto
next
  case Lock_again
  then obtain g where g: "gs_guard s t = Some g" using assms(2) by (auto split: option.splits)
  show ?thesis
  proof (cases "sl_locked g")
    case True
    then have "guard_inv (gs_put t (Some g) True (gs_mutex s) s)"
      using assms(1) g unfolding guard_inv_def by (auto simp: gs_locked_def)
    then show ?thesis using assms(2) g True Lock_again by (auto simp: ScopedLock_lock_def)
  next
    case False
    then show ?thesis
      using assms g Lock_again by (auto simp: ScopedLock_lock_def intro: guard_inv_take)
  qed
next
  case Destruct
  then obtain g where g: "gs_guard s t = Some g" using assms(2) by (auto split: option.splits)
  show ?thesis
    using guard_inv_leave [OF assms(1) g, of None] assms(2) g Destruct by (auto simp: ScopedLock_destroy_def)
qed

lemma guard_reach_inv:
  assumes "guard_reach lock unlock again s s'" "guard_inv s"
  shows "guard_inv s'"
  using assms by induction (auto dest: guard_act_inv)

lemma exclusion:
  assumes "free m" "guard_reach lock unlock again (guarded_init m) s"
  shows "(gs_inside s t \<and> gs_inside s u \<longrightarrow> t = u) \<and> guard_act lock unlock t op s \<noteq> Some (Inl e)"
  using guard_reach_inv [OF assms(2) guard_inv_init [OF assms(1)]] guard_act_inv
  by (fastforce simp: guard_inv_def)

text \<open>Without a second \<open>lock\<close> on a guard, the lock is free whenever no thread is inside.\<close>

definition guard_fair :: "'m guarded \<Rightarrow> bool" where
  "guard_fair s \<longleftrightarrow> guard_inv s \<and> (\<forall>t. gs_inside s t \<longleftrightarrow> gs_locked s t) \<and>
     (\<not> free (gs_mutex s) \<longrightarrow> (\<exists>t. gs_locked s t))"

lemma guard_fair_leave:
  assumes "guard_fair s" "gs_guard s t = Some g" "g' = None \<or> (\<exists>g1. g' = Some g1 \<and> \<not> sl_locked g1)"
  shows "\<exists>m'. ScopedLock_unlock unlock t g (gs_mutex s) = Inr (g\<lparr>sl_locked := False\<rparr>, m') \<and> guard_fair (gs_put t g' False m' s)"
proof -
  obtain m' where m': "ScopedLock_unlock unlock t g (gs_mutex s) = Inr (g\<lparr>sl_locked := False\<rparr>, m')"
      "guard_inv (gs_put t g' False m' s)"
    using guard_inv_leave [OF _ assms(2,3)] assms(1) by (auto simp: guard_fair_def)
  have "\<exists>u. gs_locked (gs_put t g' False m' s) u" if nf: "\<not> free m'"
  proof -
    have "\<not> sl_locked g"
    proof
      assume l: "sl_locked g"
      then have "held (gs_mutex s) t" using assms(1,2) by (auto simp: guard_fair_def guard_inv_def gs_locked_def)
      then show False using unlock_frees l m'(1) nf by (fastforce simp: ScopedLock_unlock_def)
    qed
    then have "m' = gs_mutex s" "\<not> gs_locked s t" using m'(1) assms(2) by (auto simp: ScopedLock_unlock_def gs_locked_def)
    moreover from this obtain u where "gs_locked s u" using assms(1) nf by (auto simp: guard_fair_def)
    ultimately show ?thesis by (intro exI [of _ u]) auto
  qed
  then have "guard_fair (gs_put t g' False m' s)"
    using assms(1,3) m'(2) by (auto simp: guard_fair_def split: option.splits)
  then show ?thesis using m'(1) by blast
qed

lemma guard_act_fair:
  assumes "guard_fair s" "op \<noteq> Lock_again" "guard_act lock unlock t op s = Some (Inr s')"
  shows "guard_fair s'"
proof (cases op)
  case Construct
  then obtain m' where m': "lock t (gs_mutex s) = Some m'" "s' = gs_put t (Some \<lparr>sl_locked = True\<rparr>) True m' s"
    using assms(3) by (auto simp: ScopedLock_new_def split: option.splits)
  have "gs_locked s' t" using m'(2) by simp
  then show ?thesis
    using assms(1) guard_inv_take [OF _ m'(1)] m'(2) by (auto simp: guard_fair_def)
next
  case Unlock
  then obtain g where g: "gs_guard s t = Some g" using assms(3) by (auto split: option.splits)
  show ?thesis
    using guard_fair_leave [OF assms(1) g, of "Some (g\<lparr>sl_locked := False\<rparr>)"] assms(3) g Unlock by auto
next
  case Destruct
  then obtain g where g: "gs_guard s t = Some g" using assms(3) by (auto split: option.splits)
  show ?thesis
    using guard_fair_leave [OF assms(1) g, of None] assms(3) g Destruct by (auto simp: ScopedLock_destroy_def)
qed (use assms in simp)

lemma released:
  assumes "free m" "guard_reach lock unlock False (guarded_init m) s" "\<forall>t. \<not> gs_inside s t"
  shows "free (gs_mutex s)"
proof -
  have "guard_reach lock unlock False s0 s \<Longrightarrow> guard_fair s0 \<Longrightarrow> guard_fair s" for s0
    by (induction rule: guard_reach.induct) (auto dest: guard_act_fair)
  moreover have "guard_fair (guarded_init m)" using assms(1) by (simp add: guard_fair_def guard_inv_init)
  ultimately have "guard_fair s" using assms(2) by blast
  then show ?thesis using assms(3) by (auto simp: guard_fair_def)
qed

text \<open>With a second \<open>lock\<close> the guard does not know that it holds the lock: nobody ever releases it.\<close>

definition lost :: "'m guarded \<Rightarrow> bool" where
  "lost s \<longleftrightarrow> \<not> free (gs_mutex s) \<and> (\<forall>t. \<not> gs_locked s t)"

lemma lost_act:
  assumes "lost s" "guard_act lock unlock t op s = Some (Inr s')"
  shows "lost s'"
proof -
  have "lock t (gs_mutex s) = None" using assms(1) lock_waits by (simp add: lost_def)
  moreover have "\<not> sl_locked g" if "gs_guard s t = Some g" for g
    using assms(1) that by (auto simp: lost_def gs_locked_def)
  ultimately show ?thesis
    using assms
    by (cases op) (auto simp: lost_def ScopedLock_new_def ScopedLock_lock_def ScopedLock_unlock_def ScopedLock_destroy_def
        split: option.splits if_splits)
qed

lemma lost_forever:
  assumes "guard_reach lock unlock again s s'" "lost s"
  shows "lost s' \<and> lock t (gs_mutex s') = None"
proof -
  have "lost s'" using assms by induction (blast intro: lost_act)+
  then show ?thesis by (simp add: lost_def lock_waits)
qed

lemma locked_again_lost:
  assumes "guard_inv s" "gs_guard s t = Some g" "\<not> sl_locked g" "guard_act lock unlock t Lock_again s = Some (Inr s')"
  shows "lost s'"
proof -
  obtain m' where m': "lock t (gs_mutex s) = Some m'" "s' = gs_put t (Some g) True m' s"
    using assms(2-4) by (auto simp: ScopedLock_lock_def)
  have "free (gs_mutex s)" "\<not> free m'" using lock_takes [OF m'(1)] by auto
  then show ?thesis using assms(1,3) m'(2) by (auto simp: lost_def guard_inv_def)
qed

end

interpretation mutex: exclusive_lock Mutex_lock Mutex_unlock "\<lambda>m. m = None" "\<lambda>m t. m = Some t"
  by unfold_locales (auto simp: Mutex_lock_def Mutex_unlock_def split: option.splits)

interpretation spin: exclusive_lock Spinlock_lock Spinlock_unlock "\<lambda>m. m = None" "\<lambda>m t. m = Some t"
  by unfold_locales (auto simp: Spinlock_lock_def Spinlock_unlock_def split: option.splits)

interpretation cas: exclusive_lock CASLock_lock CASLock_unlock "\<lambda>m. \<not> m" "\<lambda>m t. m"
  by unfold_locales (auto simp: CASLock_lock_def CASLock_unlock_def test_and_set_def split: if_splits)

section \<open>Readers and writers\<close>

datatype rw_kind = Read_guard | Write_guard

datatype rw_op = RW_Construct rw_kind | RW_Unlock | RW_Lock_again | RW_Destruct

record rw_guarded =
  rg_mutex :: RWMutex
  rg_guard :: "tid \<Rightarrow> (rw_kind \<times> ScopedLockImpl) option"
  rg_inside :: "tid \<Rightarrow> rw_kind option"

definition rw_guarded_init :: rw_guarded where
  "rw_guarded_init = \<lparr>rg_mutex = RWMutex_new, rg_guard = (\<lambda>_. None), rg_inside = (\<lambda>_. None)\<rparr>"

definition rg_put ::
    "tid \<Rightarrow> (rw_kind \<times> ScopedLockImpl) option \<Rightarrow> rw_kind option \<Rightarrow> RWMutex \<Rightarrow> rw_guarded \<Rightarrow> rw_guarded" where
  "rg_put t g inside m s =
     s\<lparr>rg_mutex := m, rg_guard := (rg_guard s)(t := g), rg_inside := (rg_inside s)(t := inside)\<rparr>"

text \<open>The operation that \<open>ReadScopedLockImpl\<close> and \<open>WriteScopedLockImpl\<close> lock with.\<close>

definition rw_lock :: "bool \<Rightarrow> rw_kind \<Rightarrow> tid \<Rightarrow> RWMutex \<Rightarrow> RWMutex option" where
  "rw_lock detects k = (case k of Read_guard \<Rightarrow> RWMutex_rdlock detects | Write_guard \<Rightarrow> RWMutex_wrlock detects)"

fun rw_act :: "bool \<Rightarrow> tid \<Rightarrow> rw_op \<Rightarrow> rw_guarded \<Rightarrow> rw_guarded res option" where
  "rw_act detects t (RW_Construct k) s =
     (case rg_guard s t of
        None \<Rightarrow> map_option (\<lambda>(g, m). Inr (rg_put t (Some (k, g)) (Some k) m s))
                  (ScopedLock_new (rw_lock detects k) t (rg_mutex s))
      | Some _ \<Rightarrow> None)"
| "rw_act detects t RW_Unlock s =
     (case rg_guard s t of
        None \<Rightarrow> None
      | Some (k, g) \<Rightarrow> Some (bind_res (ScopedLock_unlock RWMutex_unlock t g (rg_mutex s))
          (\<lambda>(g, m). Inr (rg_put t (Some (k, g)) None m s))))"
| "rw_act detects t RW_Lock_again s =
     (case rg_guard s t of
        None \<Rightarrow> None
      | Some (k, g) \<Rightarrow> map_option (\<lambda>(g, m). Inr (rg_put t (Some (k, g)) (Some k) m s))
          (ScopedLock_lock (rw_lock detects k) t g (rg_mutex s)))"
| "rw_act detects t RW_Destruct s =
     (case rg_guard s t of
        None \<Rightarrow> None
      | Some (k, g) \<Rightarrow> Some (bind_res (ScopedLock_destroy RWMutex_unlock t g (rg_mutex s))
          (\<lambda>m. Inr (rg_put t None None m s))))"

inductive rw_reach :: "bool \<Rightarrow> rw_guarded \<Rightarrow> bool" for detects where
  rw_start: "rw_reach detects rw_guarded_init"
| rw_step: "rw_reach detects s \<Longrightarrow> rw_act detects t op s = Some (Inr s') \<Longrightarrow> rw_reach detects s'"

definition rw_holds :: "RWMutex \<Rightarrow> tid \<Rightarrow> rw_kind \<Rightarrow> bool" where
  "rw_holds m t k \<longleftrightarrow> rw_writer m = Some t \<or> k = Read_guard \<and> t \<in> set (rw_readers m)"

definition rw_inv :: "rw_guarded \<Rightarrow> bool" where
  "rw_inv s \<longleftrightarrow>
     (rw_writer (rg_mutex s) \<noteq> None \<longrightarrow> rw_readers (rg_mutex s) = []) \<and>
     (\<forall>t k. rg_inside s t = Some k \<longrightarrow> rw_holds (rg_mutex s) t k) \<and>
     (\<forall>t k g. rg_guard s t = Some (k, g) \<and> sl_locked g \<longrightarrow> rg_inside s t = Some k)"

lemma rw_take:
  assumes "rw_inv s" "rw_lock detects k t (rg_mutex s) = Some m'"
  shows "rw_inv (rg_put t (Some (k, g)) (Some k) m' s)"
proof -
  have "(rw_writer m' \<noteq> None \<longrightarrow> rw_readers m' = []) \<and> rw_holds m' t k \<and>
      (\<forall>u j. rw_holds (rg_mutex s) u j \<longrightarrow> rw_holds m' u j)"
    using assms
    by (cases k) (auto simp: rw_lock_def RWMutex_rdlock_def RWMutex_wrlock_def rw_holds_def rw_inv_def split: if_splits)
  then show ?thesis using assms(1) by (auto simp: rw_inv_def rg_put_def)
qed

lemma rw_leave:
  assumes "rw_inv s" "rg_guard s t = Some (k, g)" "g' = None \<or> (\<exists>g1. g' = Some (k, g1) \<and> \<not> sl_locked g1)"
  shows "\<exists>m'. ScopedLock_unlock RWMutex_unlock t g (rg_mutex s) = Inr (g\<lparr>sl_locked := False\<rparr>, m') \<and>
    rw_inv (rg_put t g' None m' s)"
proof (cases "sl_locked g")
  case True
  then have h: "rw_holds (rg_mutex s) t k" using assms(1,2) by (auto simp: rw_inv_def)
  then have "\<exists>m'. RWMutex_unlock t (rg_mutex s) = Inr m'" by (auto simp: RWMutex_unlock_def rw_holds_def)
  then obtain m' where m': "RWMutex_unlock t (rg_mutex s) = Inr m'" by blast
  have "rw_holds m' u j" if "rw_holds (rg_mutex s) u j" "u \<noteq> t" for u j
    using that m' h assms(1) by (auto simp: RWMutex_unlock_def rw_holds_def rw_inv_def split: if_splits)
  moreover have "rw_writer m' \<noteq> None \<longrightarrow> rw_readers m' = []"
    using m' assms(1) by (auto simp: RWMutex_unlock_def rw_inv_def split: if_splits)
  ultimately have "rw_inv (rg_put t g' None m' s)"
    using assms(1,3) by (auto simp: rw_inv_def rg_put_def)
  then show ?thesis using m' True by (simp add: ScopedLock_unlock_def)
next
  case False
  then have "rw_inv (rg_put t g' None (rg_mutex s) s)" using assms(1,3) by (auto simp: rw_inv_def rg_put_def)
  moreover have "g\<lparr>sl_locked := False\<rparr> = g" using False by simp
  ultimately show ?thesis using False by (auto simp: ScopedLock_unlock_def)
qed

lemma rw_act_inv:
  assumes "rw_inv s" "rw_act detects t op s = Some r"
  shows "\<exists>s'. r = Inr s' \<and> rw_inv s'"
proof (cases op)
  case (RW_Construct k)
  then show ?thesis
    using assms by (auto simp: ScopedLock_new_def split: option.splits intro: rw_take)
next
  case RW_Unlock
  then obtain k g where g: "rg_guard s t = Some (k, g)" using assms(2) by (auto split: option.splits)
  show ?thesis
    using rw_leave [OF assms(1) g, of "Some (k, g\<lparr>sl_locked := False\<rparr>)"] assms(2) g RW_Unlock by auto
next
  case RW_Lock_again
  then obtain k g where g: "rg_guard s t = Some (k, g)" using assms(2) by (auto split: option.splits)
  show ?thesis
  proof (cases "sl_locked g")
    case True
    then have "rw_inv (rg_put t (Some (k, g)) (Some k) (rg_mutex s) s)"
      using assms(1) g by (auto simp: rw_inv_def rg_put_def)
    then show ?thesis using assms(2) g True RW_Lock_again by (auto simp: ScopedLock_lock_def)
  next
    case False
    then show ?thesis
      using assms g RW_Lock_again by (auto simp: ScopedLock_lock_def intro: rw_take)
  qed
next
  case RW_Destruct
  then obtain k g where g: "rg_guard s t = Some (k, g)" using assms(2) by (auto split: option.splits)
  show ?thesis
    using rw_leave [OF assms(1) g, of None] assms(2) g RW_Destruct by (auto simp: ScopedLock_destroy_def)
qed

lemma rw_reach_inv: "rw_reach detects s \<Longrightarrow> rw_inv s"
proof (induction rule: rw_reach.induct)
  case rw_start
  show ?case by (simp add: rw_inv_def rw_guarded_init_def RWMutex_new_def)
next
  case (rw_step s t op s')
  then show ?case using rw_act_inv by fastforce
qed

section \<open>Properties\<close>


definition guard_demo :: "tid option guarded" where
  "guard_demo = gs_put 7 (Some \<lparr>sl_locked = True\<rparr>) True (Some 7) (guarded_init None)"

lemma guard_demo_simps:
  "gs_guard guard_demo 7 = Some \<lparr>sl_locked = True\<rparr>" "gs_guard guard_demo 8 = None"
  "gs_mutex guard_demo = Some 7" "gs_inside guard_demo 7"
  by (simp_all add: guard_demo_def)

lemma guard_demo_reach: "guard_reach Mutex_lock Mutex_unlock again (guarded_init Mutex_new) guard_demo"
  by (rule guard_reach.step [OF guard_reach.start, of Construct again Mutex_lock Mutex_unlock 7])
    (simp_all add: guard_demo_def ScopedLock_new_def Mutex_new_def Mutex_lock_def)


text \<open>
  A scoped lock over a \<open>Mutex\<close> that was unlocked and then locked again keeps \<open>m_locked\<close> false, so that neither another
  \<open>unlock\<close> nor the destructor releases the mutex: in every state reached from there no thread ever gets it.
\<close>

theorem locked_again_never_released:
  assumes "guard_reach Mutex_lock Mutex_unlock True (guarded_init Mutex_new) s"
    and "gs_guard s t = Some g" "\<not> sl_locked g" "guard_act Mutex_lock Mutex_unlock t Lock_again s = Some (Inr s1)"
    and "guard_reach Mutex_lock Mutex_unlock True s1 s2"
  shows "Mutex_lock u (gs_mutex s2) = None \<and> guard_act Mutex_lock Mutex_unlock u Construct s2 = None"
proof -
  have "mutex.guard_inv s"
    using mutex.guard_reach_inv [OF assms(1)] mutex.guard_inv_init by (simp add: Mutex_new_def)
  then have "mutex.lost s1" using assms(2-4) by (rule mutex.locked_again_lost)
  then have "Mutex_lock u (gs_mutex s2) = None" using mutex.lost_forever [OF assms(5)] by blast
  then show ?thesis by (simp add: ScopedLock_new_def split: option.splits)
qed

theorem locked_again_never_released_witness:
  "let s = gs_put 7 (Some \<lparr>sl_locked = False\<rparr>) False None guard_demo;
      s1 = gs_put 7 (Some \<lparr>sl_locked = False\<rparr>) True (Some 7) s; s2 = gs_put 7 None False (Some 7) s1
   in guard_act Mutex_lock Mutex_unlock 7 Destruct s1 = Some (Inr s2) \<and> Mutex_lock 8 (gs_mutex s2) = None"
proof -
  let ?s = "gs_put 7 (Some \<lparr>sl_locked = False\<rparr>) False None guard_demo"
  let ?s1 = "gs_put 7 (Some \<lparr>sl_locked = False\<rparr>) True (Some 7) ?s"
  let ?s2 = "gs_put 7 None False (Some 7) ?s1"
  have r: "guard_reach Mutex_lock Mutex_unlock True (guarded_init Mutex_new) ?s"
    by (rule guard_reach.step [OF guard_demo_reach, of Unlock True 7])
      (simp_all add: guard_demo_simps ScopedLock_unlock_def Mutex_unlock_def)
  have a: "guard_act Mutex_lock Mutex_unlock 7 Lock_again ?s = Some (Inr ?s1)"
    by (simp add: ScopedLock_lock_def Mutex_lock_def)
  have f: "guard_act Mutex_lock Mutex_unlock 7 Destruct ?s1 = Some (Inr ?s2)"
    by (simp add: ScopedLock_destroy_def ScopedLock_unlock_def)
  have r2: "guard_reach Mutex_lock Mutex_unlock True ?s1 ?s2"
    by (rule guard_reach.step [OF guard_reach.start, of Destruct True Mutex_lock Mutex_unlock 7]) (simp, rule f)
  have "Mutex_lock 8 (gs_mutex ?s2) = None"
    using locked_again_never_released [OF r _ _ a r2, of "\<lparr>sl_locked = False\<rparr>" 8] by simp
  then show ?thesis using f by (simp only: Let_def simp_thms)
qed

text \<open>
  Over a \<open>RWMutex\<close>, whether or not the library detects deadlocks, a thread inside a write lock excludes every other
  thread from its read and write locks, and no operation releases a lock that its thread does not hold.
\<close>

theorem rw_guards_exclude:
  assumes "rw_reach detects s"
  shows "(rg_inside s t = Some Write_guard \<and> rg_inside s u \<noteq> None \<longrightarrow> t = u) \<and> rw_act detects t op s \<noteq> Some (Inl e)"
proof -
  have inv: "rw_inv s" by (rule rw_reach_inv [OF assms])
  have "t = u" if a: "rg_inside s t = Some Write_guard" "rg_inside s u = Some k" for k
  proof -
    have "rw_holds (rg_mutex s) t Write_guard" "rw_holds (rg_mutex s) u k" using inv a by (auto simp: rw_inv_def)
    moreover have "rw_writer (rg_mutex s) \<noteq> None \<longrightarrow> rw_readers (rg_mutex s) = []" using inv by (simp add: rw_inv_def)
    ultimately show ?thesis by (auto simp: rw_holds_def)
  qed
  then show ?thesis using rw_act_inv [OF inv, of detects t op "Inl e"] by auto
qed

theorem rw_guards_exclude_witness:
  "\<exists>s. rw_reach True s \<and> rg_inside s 7 = Some Write_guard \<and> rg_inside s 8 = None \<and>
     rw_act True 7 RW_Destruct s \<noteq> Some (Inl Bad_unlock)"
proof -
  let ?s = "rg_put 7 (Some (Write_guard, \<lparr>sl_locked = True\<rparr>)) (Some Write_guard) \<lparr>rw_writer = Some 7, rw_readers = []\<rparr> rw_guarded_init"
  have r: "rw_reach True ?s"
    by (rule rw_step [OF rw_start, of True 7 "RW_Construct Write_guard"])
      (simp add: rw_guarded_init_def ScopedLock_new_def rw_lock_def RWMutex_wrlock_def RWMutex_new_def)
  have i: "rg_inside ?s 7 = Some Write_guard" by (simp add: rg_put_def)
  then have "rg_inside ?s 8 = None" using rw_guards_exclude [OF r, of 7 8 RW_Destruct Bad_unlock] by auto
  then show ?thesis
    using r i rw_guards_exclude [OF r, of 7 8 RW_Destruct Bad_unlock] by blast
qed

end
