(* ===== verification/Threads.thy ===== *)
theory Threads
  imports Locks
begin

text \<open>
  The class \<open>Thread\<close> of \<open>mingfwq/thread.h\<close> and \<open>thread.cpp\<close>. The objects are in a heap, a destroyed object is \<open>None\<close>;
  a thread of the system has its place in \<open>run\<close>, its thread-local variables \<open>t_thread\<close> and \<open>t_thread_name\<close>, and the
  name the system knows. An identifier of a thread serves as its \<open>pthread_t\<close> and as its \<open>pid_t\<close>. The functions that
  threads run are not empty; what they do is the interleaving of operations below. Log messages are left out.
\<close>

section \<open>State\<close>

record 'cb Thread =
  th_id :: int
  th_thread :: tid
  th_cb :: "'cb option"
  th_name :: string
  th_semaphore :: nat

text \<open>
  Where a thread is: before the first access to its object, before \<open>notify\<close>, in its function, at the end; a thread that
  was not made by the class is \<open>Foreign\<close>.
\<close>

datatype 'cb run_pc = Run_start nat | Run_notify nat "'cb option" | Run_cb "'cb option" | Run_end | Foreign

record 'cb os_thread =
  ot_pc :: "'cb run_pc"
  ot_this :: "nat option"
  ot_name :: string
  ot_sysname :: string
  ot_detached :: bool

text \<open>\<open>pw_creating k\<close> is the object whose constructor thread \<open>k\<close> runs; \<open>pw_built\<close> says that a constructor has returned.\<close>

record 'cb thread_world =
  pw_objs :: "nat \<Rightarrow> 'cb Thread option"
  pw_built :: "nat \<Rightarrow> bool"
  pw_threads :: "tid \<Rightarrow> 'cb os_thread option"
  pw_creating :: "tid \<Rightarrow> nat option"
  pw_next_obj :: nat
  pw_next_tid :: tid

definition foreign_thread :: "'cb os_thread" where
  "foreign_thread = \<lparr>ot_pc = Foreign, ot_this = None, ot_name = ''UNKONW'', ot_sysname = [], ot_detached = False\<rparr>"

definition thread_world_init :: "'cb thread_world" where
  "thread_world_init =
     \<lparr>pw_objs = (\<lambda>_. None), pw_built = (\<lambda>_. False), pw_threads = [1 \<mapsto> foreign_thread], pw_creating = (\<lambda>_. None),
      pw_next_obj = 0, pw_next_tid = 2\<rparr>"

section \<open>Operations\<close>

text \<open>
  The constructor up to its wait for the new thread; \<open>rt\<close> is the result of \<open>pthread_create\<close>. When it throws, the object
  is gone.
\<close>

definition Thread_create :: "'cb \<Rightarrow> string \<Rightarrow> int \<Rightarrow> tid \<Rightarrow> 'cb thread_world \<Rightarrow> nat res \<times> 'cb thread_world" where
  "Thread_create cb name rt k w =
     (if rt \<noteq> 0 then (Inl (Logic_error ''pthread_creat error''), w)
      else
        let p = pw_next_obj w; t = pw_next_tid w;
            th = \<lparr>th_id = - 1, th_thread = t, th_cb = Some cb, th_name = (if name = [] then ''UNKNOW'' else name),
                  th_semaphore = 0\<rparr>
        in (Inr p, w\<lparr>pw_objs := (pw_objs w)(p \<mapsto> th), pw_next_obj := p + 1,
                     pw_threads := (pw_threads w)(t \<mapsto> foreign_thread\<lparr>ot_pc := Run_start p\<rparr>), pw_next_tid := t + 1,
                     pw_creating := (pw_creating w)(k \<mapsto> p)\<rparr>))"

text \<open>The end of the constructor. An interrupted wait throws, and the object is destroyed.\<close>

definition Thread_wait :: "bool \<Rightarrow> tid \<Rightarrow> nat \<Rightarrow> 'cb thread_world \<Rightarrow> (nat res \<times> 'cb thread_world) res option" where
  "Thread_wait intr k p w =
     (case pw_objs w p of
        None \<Rightarrow> Some (Inl Bad_access)
      | Some th \<Rightarrow>
          (case Semaphore_wait intr (th_semaphore th) of
             None \<Rightarrow> None
           | Some (Inl e) \<Rightarrow>
               Some (Inr (Inl e, w\<lparr>pw_objs := (pw_objs w)(p := None), pw_creating := (pw_creating w)(k := None)\<rparr>))
           | Some (Inr sem) \<Rightarrow>
               Some (Inr (Inr p, w\<lparr>pw_objs := (pw_objs w)(p \<mapsto> th\<lparr>th_semaphore := sem\<rparr>),
                                   pw_built := (pw_built w)(p := True), pw_creating := (pw_creating w)(k := None)\<rparr>))))"

text \<open>\<open>run\<close>: up to \<open>notify\<close>, \<open>notify\<close>, and the end of the function.\<close>

definition Thread_run_start :: "tid \<Rightarrow> nat \<Rightarrow> 'cb os_thread \<Rightarrow> 'cb thread_world \<Rightarrow> 'cb thread_world res" where
  "Thread_run_start k p ot w =
     (case pw_objs w p of
        None \<Rightarrow> Inl Bad_access
      | Some th \<Rightarrow>
          Inr (w\<lparr>pw_objs := (pw_objs w)(p \<mapsto> th\<lparr>th_id := int k, th_cb := None\<rparr>),
                 pw_threads := (pw_threads w)(k \<mapsto> ot\<lparr>ot_pc := Run_notify p (th_cb th), ot_this := Some p,
                                                     ot_name := th_name th, ot_sysname := take 15 (th_name th)\<rparr>)\<rparr>))"

definition Thread_run_notify :: "tid \<Rightarrow> nat \<Rightarrow> 'cb option \<Rightarrow> 'cb os_thread \<Rightarrow> 'cb thread_world \<Rightarrow> 'cb thread_world res" where
  "Thread_run_notify k p cb ot w =
     (case pw_objs w p of
        None \<Rightarrow> Inl Bad_access
      | Some th \<Rightarrow>
          bind_res (Semaphore_notify (th_semaphore th)) (\<lambda>sem.
            Inr (w\<lparr>pw_objs := (pw_objs w)(p \<mapsto> th\<lparr>th_semaphore := sem\<rparr>),
                   pw_threads := (pw_threads w)(k \<mapsto> ot\<lparr>ot_pc := Run_cb cb\<rparr>)\<rparr>)))"

definition Thread_run_end :: "tid \<Rightarrow> 'cb os_thread \<Rightarrow> 'cb thread_world \<Rightarrow> 'cb thread_world" where
  "Thread_run_end k ot w = w\<lparr>pw_threads := (pw_threads w)(k \<mapsto> ot\<lparr>ot_pc := Run_end\<rparr>)\<rparr>"

text \<open>\<open>join\<close>, called by the thread \<open>k\<close>; a thread that joins itself gets an error from the system.\<close>

definition Thread_join :: "tid \<Rightarrow> nat \<Rightarrow> 'cb thread_world \<Rightarrow> (unit res \<times> 'cb thread_world) res option" where
  "Thread_join k p w =
     (case pw_objs w p of
        None \<Rightarrow> Some (Inl Bad_access)
      | Some th \<Rightarrow>
          if th_thread th = 0 then Some (Inr (Inr (), w))
          else if th_thread th = k then Some (Inr (Inl (Logic_error ''pthread_join error''), w))
          else if map_option ot_pc (pw_threads w (th_thread th)) = Some Run_end
          then Some (Inr (Inr (), w\<lparr>pw_objs := (pw_objs w)(p \<mapsto> th\<lparr>th_thread := 0\<rparr>)\<rparr>))
          else None)"

definition Thread_destroy :: "nat \<Rightarrow> 'cb thread_world \<Rightarrow> 'cb thread_world res" where
  "Thread_destroy p w =
     (case pw_objs w p of
        None \<Rightarrow> Inl Bad_access
      | Some th \<Rightarrow>
          let w = (if th_thread th = 0 then w
                   else w\<lparr>pw_threads := (pw_threads w)(th_thread th :=
                            map_option (\<lambda>ot. ot\<lparr>ot_detached := True\<rparr>) (pw_threads w (th_thread th)))\<rparr>)
          in Inr (w\<lparr>pw_objs := (pw_objs w)(p := None), pw_built := (pw_built w)(p := False)\<rparr>))"

definition Thread_SetName :: "tid \<Rightarrow> string \<Rightarrow> 'cb os_thread \<Rightarrow> 'cb thread_world \<Rightarrow> 'cb thread_world res" where
  "Thread_SetName k name ot w =
     bind_res
       (case ot_this ot of
          None \<Rightarrow> Inr w
        | Some p \<Rightarrow>
            (case pw_objs w p of
               None \<Rightarrow> Inl Bad_access
             | Some th \<Rightarrow> Inr (w\<lparr>pw_objs := (pw_objs w)(p \<mapsto> th\<lparr>th_name := name\<rparr>)\<rparr>)))
       (\<lambda>w. Inr (w\<lparr>pw_threads := (pw_threads w)(k \<mapsto> ot\<lparr>ot_name := name\<rparr>)\<rparr>))"

definition Thread_GetThis :: "'cb os_thread \<Rightarrow> nat option" where
  "Thread_GetThis ot = ot_this ot"
definition Thread_GetName :: "'cb os_thread \<Rightarrow> string" where
  "Thread_GetName ot = ot_name ot"
definition Thread_getId :: "'cb Thread \<Rightarrow> int" where
  "Thread_getId th = th_id th"
definition Thread_getName :: "'cb Thread \<Rightarrow> string" where
  "Thread_getName th = th_name th"

section \<open>Interleaving\<close>

datatype 'cb thread_op =
    Op_create 'cb string int | Op_wait bool | Op_run | Op_join nat | Op_destroy nat | Op_SetName string

text \<open>
  One operation of the thread \<open>k\<close>; \<open>None\<close>: it waits, or the operation is not its next one. User code, in a foreign
  thread or in the function of a thread, joins and destroys objects whose constructor has returned. An exception leaves
  the world that the operation leaves.
\<close>

definition in_user_code :: "tid \<Rightarrow> 'cb thread_world \<Rightarrow> bool" where
  "in_user_code k w \<longleftrightarrow> pw_creating w k = None \<and>
     (case pw_threads w k of None \<Rightarrow> False | Some ot \<Rightarrow> (case ot_pc ot of Foreign \<Rightarrow> True | Run_cb _ \<Rightarrow> True | _ \<Rightarrow> False))"

fun thread_act :: "tid \<Rightarrow> 'cb thread_op \<Rightarrow> 'cb thread_world \<Rightarrow> 'cb thread_world res option" where
  "thread_act k (Op_create cb name rt) w =
     (if in_user_code k w then Some (Inr (snd (Thread_create cb name rt k w))) else None)"
| "thread_act k (Op_wait intr) w =
     (case pw_creating w k of
        None \<Rightarrow> None
      | Some p \<Rightarrow> map_option (\<lambda>r. bind_res r (\<lambda>(_, w). Inr w)) (Thread_wait intr k p w))"
| "thread_act k Op_run w =
     (case pw_threads w k of
        None \<Rightarrow> None
      | Some ot \<Rightarrow>
          (case ot_pc ot of
             Run_start p \<Rightarrow> Some (Thread_run_start k p ot w)
           | Run_notify p cb \<Rightarrow> Some (Thread_run_notify k p cb ot w)
           | Run_cb cb \<Rightarrow> if pw_creating w k = None then Some (Inr (Thread_run_end k ot w)) else None
           | _ \<Rightarrow> None))"
| "thread_act k (Op_join p) w =
     (if in_user_code k w \<and> pw_built w p
      then map_option (\<lambda>r. bind_res r (\<lambda>(_, w). Inr w)) (Thread_join k p w) else None)"
| "thread_act k (Op_destroy p) w =
     (if in_user_code k w \<and> pw_built w p then Some (Thread_destroy p w) else None)"
| "thread_act k (Op_SetName name) w =
     (if in_user_code k w
      then (case pw_threads w k of None \<Rightarrow> None | Some ot \<Rightarrow> Some (Thread_SetName k name ot w)) else None)"

inductive thread_reach :: "'cb thread_world \<Rightarrow> bool" where
  threads_start: "thread_reach thread_world_init"
| threads_step: "thread_reach w \<Longrightarrow> op \<noteq> Op_wait True \<Longrightarrow> thread_act k op w = Some (Inr w') \<Longrightarrow> thread_reach w'"

section \<open>Invariant\<close>

text \<open>
  The new thread and the constructor are tied together: as long as the new thread may still access its object, the constructor
  waits; and once the semaphore is up, the thread has done with the object.
\<close>

definition begun :: "nat \<Rightarrow> 'cb Thread \<Rightarrow> 'cb os_thread \<Rightarrow> bool" where
  "begun p th ot \<longleftrightarrow> th_id th = int (th_thread th) \<and> th_cb th = None \<and> ot_this ot = Some p"

definition constructing :: "nat \<Rightarrow> 'cb Thread \<Rightarrow> 'cb os_thread \<Rightarrow> bool" where
  "constructing p th ot \<longleftrightarrow>
     (case ot_pc ot of
        Run_start q \<Rightarrow> q = p \<and> th_semaphore th = 0
      | Run_notify q cb \<Rightarrow> q = p \<and> th_semaphore th = 0 \<and> begun p th ot
      | Run_cb cb \<Rightarrow> th_semaphore th = 1 \<and> begun p th ot
      | Run_end \<Rightarrow> th_semaphore th = 1 \<and> begun p th ot
      | Foreign \<Rightarrow> False)"

definition uses :: "'cb os_thread \<Rightarrow> nat \<Rightarrow> bool" where
  "uses ot p \<longleftrightarrow> (case ot_pc ot of Run_start q \<Rightarrow> q = p | Run_notify q cb \<Rightarrow> q = p | _ \<Rightarrow> False)"

definition thread_inv :: "'cb thread_world \<Rightarrow> bool" where
  "thread_inv w \<longleftrightarrow>
     (\<forall>k p. pw_creating w k = Some p \<longrightarrow> \<not> pw_built w p \<and>
       (\<exists>th ot. pw_objs w p = Some th \<and> pw_threads w (th_thread th) = Some ot \<and> constructing p th ot)) \<and>
     (\<forall>t ot p. pw_threads w t = Some ot \<and> uses ot p \<longrightarrow>
       (\<exists>k. pw_creating w k = Some p) \<and> (\<exists>th. pw_objs w p = Some th \<and> th_thread th = t)) \<and>
     (\<forall>k l p. pw_creating w k = Some p \<and> pw_creating w l = Some p \<longrightarrow> k = l) \<and>
     (\<forall>p. pw_built w p \<longrightarrow> pw_objs w p \<noteq> None) \<and>
     (\<forall>p. pw_objs w p \<noteq> None \<longrightarrow> p < pw_next_obj w) \<and>
     (\<forall>t. pw_threads w t \<noteq> None \<longrightarrow> t < pw_next_tid w)"

lemma thread_inv_init: "thread_inv thread_world_init"
  by (auto simp: thread_inv_def thread_world_init_def uses_def foreign_thread_def)

lemma thread_invI:
  assumes "\<And>k p. pw_creating w k = Some p \<Longrightarrow> \<not> pw_built w p"
    and "\<And>k p. pw_creating w k = Some p \<Longrightarrow>
      \<exists>th ot. pw_objs w p = Some th \<and> pw_threads w (th_thread th) = Some ot \<and> constructing p th ot"
    and "\<And>t ot p. pw_threads w t = Some ot \<Longrightarrow> uses ot p \<Longrightarrow>
      (\<exists>k. pw_creating w k = Some p) \<and> (\<exists>th. pw_objs w p = Some th \<and> th_thread th = t)"
    and "\<And>k l p. pw_creating w k = Some p \<Longrightarrow> pw_creating w l = Some p \<Longrightarrow> k = l"
    and "\<And>p. pw_built w p \<Longrightarrow> pw_objs w p \<noteq> None"
    and "\<And>p. pw_objs w p \<noteq> None \<Longrightarrow> p < pw_next_obj w"
    and "\<And>t. pw_threads w t \<noteq> None \<Longrightarrow> t < pw_next_tid w"
  shows "thread_inv w"
  unfolding thread_inv_def using assms by blast

lemma thread_invD:
  assumes "thread_inv w"
  shows "pw_creating w k = Some p \<Longrightarrow> \<not> pw_built w p"
    and "pw_creating w k = Some p \<Longrightarrow>
      \<exists>th ot. pw_objs w p = Some th \<and> pw_threads w (th_thread th) = Some ot \<and> constructing p th ot"
    and "pw_threads w t = Some ot \<Longrightarrow> uses ot p \<Longrightarrow>
      (\<exists>k. pw_creating w k = Some p) \<and> (\<exists>th. pw_objs w p = Some th \<and> th_thread th = t)"
    and "pw_creating w k = Some p \<Longrightarrow> pw_creating w l = Some p \<Longrightarrow> k = l"
    and "pw_built w p \<Longrightarrow> pw_objs w p \<noteq> None"
    and "pw_objs w p \<noteq> None \<Longrightarrow> p < pw_next_obj w"
    and "pw_threads w t \<noteq> None \<Longrightarrow> t < pw_next_tid w"
  using assms unfolding thread_inv_def by blast+

lemma thread_inv_fresh:
  assumes "thread_inv w"
  shows "pw_objs w (pw_next_obj w) = None" "pw_threads w (pw_next_tid w) = None" "\<not> pw_built w (pw_next_obj w)"
    "pw_creating w k \<noteq> Some (pw_next_obj w)"
proof -
  show n: "pw_objs w (pw_next_obj w) = None" using thread_invD(6) [OF assms, of "pw_next_obj w"] by blast
  show "pw_threads w (pw_next_tid w) = None" using thread_invD(7) [OF assms, of "pw_next_tid w"] by blast
  show "\<not> pw_built w (pw_next_obj w)" using n thread_invD(5) [OF assms] by blast
  show "pw_creating w k \<noteq> Some (pw_next_obj w)" using n thread_invD(2) [OF assms, of k] by fastforce
qed

lemma constructing_simps [simp]:
  "constructing p (th\<lparr>th_name := n\<rparr>) ot = constructing p th ot"
  "constructing p th (ot\<lparr>ot_name := n\<rparr>) = constructing p th ot"
  "constructing p th (ot\<lparr>ot_detached := d\<rparr>) = constructing p th ot"
  "uses (ot\<lparr>ot_name := n\<rparr>) q = uses ot q" "uses (ot\<lparr>ot_detached := d\<rparr>) q = uses ot q"
  by (auto simp: constructing_def begun_def uses_def split: run_pc.splits)

lemma thread_inv_create:
  assumes inv: "thread_inv w" and user: "in_user_code k w"
  shows "thread_inv (snd (Thread_create cb name rt k w))"
proof (cases "rt = 0")
  case True
  note fresh = thread_inv_fresh [OF inv]
  let ?p = "pw_next_obj w" and ?t = "pw_next_tid w" and ?w = "snd (Thread_create cb name rt k w)"
  let ?th = "\<lparr>th_id = - 1, th_thread = ?t, th_cb = Some cb, th_name = (if name = [] then ''UNKNOW'' else name), th_semaphore = 0\<rparr>"
  let ?ot = "foreign_thread\<lparr>ot_pc := Run_start ?p\<rparr> :: 'a os_thread"
  have w: "pw_objs ?w = (pw_objs w)(?p \<mapsto> ?th)" "pw_threads ?w = (pw_threads w)(?t \<mapsto> ?ot)" "pw_built ?w = pw_built w"
      "pw_creating ?w = (pw_creating w)(k \<mapsto> ?p)" "pw_next_obj ?w = Suc ?p" "pw_next_tid ?w = Suc ?t"
    using True by (simp_all add: Thread_create_def Let_def)
  have new: "constructing ?p ?th ?ot" "\<And>q. uses ?ot q \<longleftrightarrow> q = ?p"
    by (auto simp: constructing_def uses_def foreign_thread_def)
  show ?thesis
  proof (rule thread_invI)
    fix l p assume c: "pw_creating ?w l = Some p"
    show "\<not> pw_built ?w p" using c fresh thread_invD(1) [OF inv, of l p] by (auto simp: w split: if_splits)
    show "\<exists>th ot. pw_objs ?w p = Some th \<and> pw_threads ?w (th_thread th) = Some ot \<and> constructing p th ot"
    proof (cases "l = k")
      case True
      then show ?thesis using c new by (auto simp: w)
    next
      case False
      then obtain th ot where "pw_objs w p = Some th" "pw_threads w (th_thread th) = Some ot" "constructing p th ot"
        using c thread_invD(2) [OF inv, of l p] by (auto simp: w)
      moreover from this have "p \<noteq> ?p" "th_thread th \<noteq> ?t" using fresh by auto
      ultimately show ?thesis by (simp add: w)
    qed
    fix l' assume "pw_creating ?w l' = Some p"
    then show "l = l'" using c fresh thread_invD(4) [OF inv, of l p l'] by (auto simp: w split: if_splits)
  next
    fix t ot p assume a: "pw_threads ?w t = Some ot" "uses ot p"
    show "(\<exists>k. pw_creating ?w k = Some p) \<and> (\<exists>th. pw_objs ?w p = Some th \<and> th_thread th = t)"
    proof (cases "t = ?t")
      case True
      then show ?thesis using a new by (auto simp: w)
    next
      case False
      then obtain l th where "pw_creating w l = Some p" "pw_objs w p = Some th" "th_thread th = t"
        using a thread_invD(3) [OF inv, of t ot p] by (auto simp: w)
      moreover from this have "p \<noteq> ?p" "l \<noteq> k" using fresh user by (auto simp: in_user_code_def)
      ultimately show ?thesis by (auto simp: w)
    qed
  qed (use thread_invD(5-7) [OF inv] in \<open>auto simp: w less_Suc_eq split: if_splits\<close>)
next
  case False
  then show ?thesis using inv by (simp add: Thread_create_def)
qed

lemma thread_inv_wait:
  assumes inv: "thread_inv w" and c: "pw_creating w k = Some p" and r: "Thread_wait False k p w = Some r"
  shows "\<exists>w' th. r = Inr (Inr p, w') \<and> thread_inv w' \<and> pw_objs w' p = Some th \<and> pw_built w' p \<and>
    (\<exists>ot. pw_threads w' (th_thread th) = Some ot \<and> begun p th ot)"
proof -
  obtain th ot where th: "pw_objs w p = Some th" "pw_threads w (th_thread th) = Some ot" "constructing p th ot"
    using thread_invD(2) [OF inv c] by blast
  have sem: "th_semaphore th > 0" using th(1) r by (auto simp: Thread_wait_def Semaphore_wait_def split: if_splits)
  then have run: "begun p th ot" "\<not> uses ot p"
    using th(3) by (auto simp: constructing_def uses_def split: run_pc.splits)
  let ?th = "th\<lparr>th_semaphore := th_semaphore th - 1\<rparr>"
  let ?w = "w\<lparr>pw_objs := (pw_objs w)(p \<mapsto> ?th), pw_built := (pw_built w)(p := True), pw_creating := (pw_creating w)(k := None)\<rparr>"
  have eq: "r = Inr (Inr p, ?w)" using th(1) r sem by (auto simp: Thread_wait_def Semaphore_wait_def)
  have other: "q \<noteq> p" if "pw_creating w l = Some q" "l \<noteq> k" for l q
    using that thread_invD(4) [OF inv, of l q k] c by auto
  have "thread_inv ?w"
  proof (rule thread_invI)
    fix l q assume "pw_creating ?w l = Some q"
    then have a: "pw_creating w l = Some q" "q \<noteq> p" using other by (auto split: if_splits)
    then show "\<not> pw_built ?w q" using thread_invD(1) [OF inv, of l q] by simp
    show "\<exists>th ot. pw_objs ?w q = Some th \<and> pw_threads ?w (th_thread th) = Some ot \<and> constructing q th ot"
      using a thread_invD(2) [OF inv, of l q] by simp
    fix l' assume "pw_creating ?w l' = Some q"
    then show "l = l'" using a thread_invD(4) [OF inv, of l q l'] by (auto split: if_splits)
  next
    fix t o2 q assume a: "pw_threads ?w t = Some o2" "uses o2 q"
    then obtain l th2 where b: "pw_creating w l = Some q" "pw_objs w q = Some th2" "th_thread th2 = t"
      using thread_invD(3) [OF inv, of t o2 q] by auto
    have "q \<noteq> p" using a b th run by auto
    moreover from this have "l \<noteq> k" using b c by auto
    ultimately show "(\<exists>k. pw_creating ?w k = Some q) \<and> (\<exists>th. pw_objs ?w q = Some th \<and> th_thread th = t)" using b by auto
  qed (use thread_invD(5-7) [OF inv] th(1) in \<open>auto split: if_splits\<close>)
  moreover have "begun p ?th ot" using run by (simp add: begun_def)
  ultimately show ?thesis using eq th(2) by (intro exI [of _ ?w] exI [of _ ?th]) auto
qed

text \<open>Steps that neither start nor finish a constructor.\<close>

lemma thread_inv_frame:
  assumes inv: "thread_inv w" and same: "pw_creating w' = pw_creating w" "pw_next_obj w' = pw_next_obj w"
      "pw_next_tid w' = pw_next_tid w"
    and obj: "\<And>k q th ot. pw_creating w k = Some q \<Longrightarrow> pw_objs w q = Some th \<Longrightarrow> pw_threads w (th_thread th) = Some ot \<Longrightarrow>
      constructing q th ot \<Longrightarrow> \<exists>th' ot'. pw_objs w' q = Some th' \<and> th_thread th' = th_thread th \<and>
        pw_threads w' (th_thread th) = Some ot' \<and> constructing q th' ot'"
    and use: "\<And>t ot' q. pw_threads w' t = Some ot' \<Longrightarrow> uses ot' q \<Longrightarrow> \<exists>ot. pw_threads w t = Some ot \<and> uses ot q"
    and built: "\<And>q. pw_built w' q \<Longrightarrow> pw_built w q \<and> pw_objs w' q \<noteq> None"
    and bound: "\<And>q. pw_objs w' q \<noteq> None \<Longrightarrow> pw_objs w q \<noteq> None" "\<And>t. pw_threads w' t \<noteq> None \<Longrightarrow> pw_threads w t \<noteq> None"
  shows "thread_inv w'"
proof (rule thread_invI)
  fix k q assume c: "pw_creating w' k = Some q"
  then have c: "pw_creating w k = Some q" by (simp add: same)
  show "\<not> pw_built w' q" using thread_invD(1) [OF inv c] built by blast
  show "\<exists>th ot. pw_objs w' q = Some th \<and> pw_threads w' (th_thread th) = Some ot \<and> constructing q th ot"
    using thread_invD(2) [OF inv c] obj [OF c] by fastforce
next
  fix t ot' q assume a: "pw_threads w' t = Some ot'" "uses ot' q"
  then obtain ot where "pw_threads w t = Some ot" "uses ot q" using use by blast
  then obtain k th where c: "pw_creating w k = Some q" "pw_objs w q = Some th" "th_thread th = t"
    using thread_invD(3) [OF inv] by blast
  obtain th2 ot2 where "pw_objs w q = Some th2" "pw_threads w (th_thread th2) = Some ot2" "constructing q th2 ot2"
    using thread_invD(2) [OF inv c(1)] by blast
  then show "(\<exists>k. pw_creating w' k = Some q) \<and> (\<exists>th. pw_objs w' q = Some th \<and> th_thread th = t)"
    using obj [OF c(1), of th2 ot2] c by (auto simp: same)
qed (use thread_invD(4-7) [OF inv] built bound in \<open>auto simp: same\<close>)

text \<open>A step of \<open>run\<close> finds its object alive.\<close>

lemma uses_alive:
  assumes "thread_inv w" "pw_threads w t = Some ot" "uses ot p"
  shows "\<exists>th. pw_objs w p = Some th \<and> th_thread th = t \<and> constructing p th ot"
proof -
  obtain k th where c: "pw_creating w k = Some p" "pw_objs w p = Some th" "th_thread th = t"
    using thread_invD(3) [OF assms] by blast
  then show ?thesis using thread_invD(2) [OF assms(1) c(1)] assms(2) by auto
qed

lemma thread_inv_run:
  assumes inv: "thread_inv w" and t: "pw_threads w t = Some ot" "uses ot p" "pw_objs w p = Some th"
    and th': "th_thread th' = t" "constructing p th' ot'" "\<And>q. uses ot' q \<Longrightarrow> q = p"
  shows "thread_inv (w\<lparr>pw_objs := (pw_objs w)(p \<mapsto> th'), pw_threads := (pw_threads w)(t \<mapsto> ot')\<rparr>)"
proof (rule thread_inv_frame [OF inv])
  fix k q th2 ot2
  assume a: "pw_creating w k = Some q" "pw_objs w q = Some th2" "pw_threads w (th_thread th2) = Some ot2" "constructing q th2 ot2"
  show "\<exists>th2' ot2'. pw_objs (w\<lparr>pw_objs := (pw_objs w)(p \<mapsto> th'), pw_threads := (pw_threads w)(t \<mapsto> ot')\<rparr>) q = Some th2' \<and>
      th_thread th2' = th_thread th2 \<and>
      pw_threads (w\<lparr>pw_objs := (pw_objs w)(p \<mapsto> th'), pw_threads := (pw_threads w)(t \<mapsto> ot')\<rparr>) (th_thread th2) = Some ot2' \<and>
      constructing q th2' ot2'"
  proof (cases "q = p")
    case True
    then show ?thesis using a uses_alive [OF inv t(1,2)] th' by auto
  next
    case False
    have "th_thread th2 \<noteq> t"
    proof
      assume "th_thread th2 = t"
      then show False
        using a(3,4) t(1,2) False by (auto simp: constructing_def uses_def split: run_pc.splits)
    qed
    then show ?thesis using False a by auto
  qed
next
  fix t2 ot2 q
  assume "pw_threads (w\<lparr>pw_objs := (pw_objs w)(p \<mapsto> th'), pw_threads := (pw_threads w)(t \<mapsto> ot')\<rparr>) t2 = Some ot2" "uses ot2 q"
  then show "\<exists>ot. pw_threads w t2 = Some ot \<and> uses ot q"
    using t th'(3) by (auto split: if_splits)
next
  fix q assume "pw_built (w\<lparr>pw_objs := (pw_objs w)(p \<mapsto> th'), pw_threads := (pw_threads w)(t \<mapsto> ot')\<rparr>) q"
  then show "pw_built w q \<and> pw_objs (w\<lparr>pw_objs := (pw_objs w)(p \<mapsto> th'), pw_threads := (pw_threads w)(t \<mapsto> ot')\<rparr>) q \<noteq> None"
    using thread_invD(5) [OF inv] by auto
qed (use t in \<open>auto split: if_splits\<close>)

lemma run_start_ok:
  assumes inv: "thread_inv w" and t: "pw_threads w t = Some ot" "ot_pc ot = Run_start p"
  shows "\<exists>w'. Thread_run_start t p ot w = Inr w' \<and> thread_inv w'"
proof -
  have u: "uses ot p" using t by (simp add: uses_def)
  then obtain th where th: "pw_objs w p = Some th" "th_thread th = t" "constructing p th ot"
    using uses_alive [OF inv t(1)] by blast
  show ?thesis
    using th t thread_inv_run [OF inv t(1) u th(1), of "th\<lparr>th_id := int t, th_cb := None\<rparr>"
      "ot\<lparr>ot_pc := Run_notify p (th_cb th), ot_this := Some p, ot_name := th_name th, ot_sysname := take 15 (th_name th)\<rparr>"]
    by (auto simp: Thread_run_start_def constructing_def begun_def uses_def)
qed

lemma run_notify_ok:
  assumes inv: "thread_inv w" and t: "pw_threads w t = Some ot" "ot_pc ot = Run_notify p cb"
  shows "\<exists>w'. Thread_run_notify t p cb ot w = Inr w' \<and> thread_inv w'"
proof -
  have u: "uses ot p" using t by (simp add: uses_def)
  then obtain th where th: "pw_objs w p = Some th" "th_thread th = t" "constructing p th ot"
    using uses_alive [OF inv t(1)] by blast
  show ?thesis
    using th t thread_inv_run [OF inv t(1) u th(1), of "th\<lparr>th_semaphore := 1\<rparr>" "ot\<lparr>ot_pc := Run_cb cb\<rparr>"]
    by (auto simp: Thread_run_notify_def Semaphore_notify_def SEM_VALUE_MAX_def constructing_def begun_def uses_def)
qed

lemma run_end_ok:
  assumes inv: "thread_inv w" and t: "pw_threads w t = Some ot" "ot_pc ot = Run_cb cb"
  shows "thread_inv (Thread_run_end t ot w)"
proof (rule thread_inv_frame [OF inv])
  fix k q th o2
  assume a: "pw_objs w q = Some th" "pw_threads w (th_thread th) = Some o2" "constructing q th o2"
  show "\<exists>th' ot'. pw_objs (Thread_run_end t ot w) q = Some th' \<and> th_thread th' = th_thread th \<and>
      pw_threads (Thread_run_end t ot w) (th_thread th) = Some ot' \<and> constructing q th' ot'"
  proof (cases "th_thread th = t")
    case True
    then have "constructing q th (ot\<lparr>ot_pc := Run_end\<rparr>)" using a t by (simp add: constructing_def begun_def)
    then show ?thesis using a True by (simp add: Thread_run_end_def)
  next
    case False
    then show ?thesis using a by (simp add: Thread_run_end_def)
  qed
next
  fix t2 o2 q assume "pw_threads (Thread_run_end t ot w) t2 = Some o2" "uses o2 q"
  then show "\<exists>ot. pw_threads w t2 = Some ot \<and> uses ot q"
    by (auto simp: Thread_run_end_def uses_def split: if_splits)
qed (use t thread_invD(5) [OF inv] in \<open>auto simp: Thread_run_end_def split: if_splits\<close>)

lemma join_ok:
  assumes inv: "thread_inv w" and p: "pw_built w p" and r: "Thread_join k p w = Some r"
  shows "\<exists>x w'. r = Inr (x, w') \<and> thread_inv w'"
proof -
  obtain th where th: "pw_objs w p = Some th" using thread_invD(5) [OF inv p] by blast
  let ?w = "w\<lparr>pw_objs := (pw_objs w)(p \<mapsto> th\<lparr>th_thread := 0\<rparr>)\<rparr>"
  have "thread_inv ?w"
  proof (rule thread_inv_frame [OF inv])
    fix l q th2 ot
    assume a: "pw_creating w l = Some q" "pw_objs w q = Some th2" "pw_threads w (th_thread th2) = Some ot" "constructing q th2 ot"
    have "q \<noteq> p" using p thread_invD(1) [OF inv a(1)] by auto
    then show "\<exists>th' ot'. pw_objs ?w q = Some th' \<and> th_thread th' = th_thread th2 \<and>
        pw_threads ?w (th_thread th2) = Some ot' \<and> constructing q th' ot'" using a by auto
  qed (use th thread_invD(5) [OF inv] in \<open>auto split: if_splits\<close>)
  then show ?thesis using inv r th by (auto simp: Thread_join_def split: if_splits)
qed

lemma destroy_ok:
  assumes inv: "thread_inv w" and p: "pw_built w p"
  shows "\<exists>w'. Thread_destroy p w = Inr w' \<and> thread_inv w'"
proof -
  obtain th where th: "pw_objs w p = Some th" using thread_invD(5) [OF inv p] by blast
  define w' where "w' = w\<lparr>pw_threads := (if th_thread th = 0 then pw_threads w
    else (pw_threads w)(th_thread th := map_option (\<lambda>ot. ot\<lparr>ot_detached := True\<rparr>) (pw_threads w (th_thread th)))),
    pw_objs := (pw_objs w)(p := None), pw_built := (pw_built w)(p := False)\<rparr>"
  have "thread_inv w'"
  proof (rule thread_inv_frame [OF inv])
    fix l q th2 ot
    assume a: "pw_creating w l = Some q" "pw_objs w q = Some th2" "pw_threads w (th_thread th2) = Some ot" "constructing q th2 ot"
    have "q \<noteq> p" using p thread_invD(1) [OF inv a(1)] by auto
    then show "\<exists>th' ot'. pw_objs w' q = Some th' \<and> th_thread th' = th_thread th2 \<and>
        pw_threads w' (th_thread th2) = Some ot' \<and> constructing q th' ot'" using a by (auto simp: w'_def)
  qed (use th thread_invD(5) [OF inv] in \<open>auto simp: w'_def split: if_splits\<close>)
  then show ?thesis using th by (auto simp: Thread_destroy_def w'_def)
qed

lemma SetName_ok:
  assumes inv: "thread_inv w" and t: "pw_threads w t = Some ot" "Thread_SetName t name ot w = Inr w'"
  shows "thread_inv w'"
proof (rule thread_inv_frame [OF inv])
  fix k q th o2
  assume a: "pw_objs w q = Some th" "pw_threads w (th_thread th) = Some o2" "constructing q th o2"
  then show "\<exists>th' ot'. pw_objs w' q = Some th' \<and> th_thread th' = th_thread th \<and>
      pw_threads w' (th_thread th) = Some ot' \<and> constructing q th' ot'"
    using t by (auto simp: Thread_SetName_def split: option.splits)
qed (use t thread_invD(5) [OF inv] in \<open>auto simp: Thread_SetName_def split: option.splits if_splits\<close>)

lemma act_ok:
  assumes inv: "thread_inv w" and r: "thread_act k op w = Some r"
  shows "(\<exists>w'. r = Inr w' \<and> (op \<noteq> Op_wait True \<longrightarrow> thread_inv w')) \<or>
    r = Inl Bad_access \<and> (\<exists>name ot p. op = Op_SetName name \<and> pw_threads w k = Some ot \<and> ot_this ot = Some p \<and> pw_objs w p = None)"
proof (cases op)
  case (Op_create cb name rt)
  then show ?thesis using r thread_inv_create [OF inv] by (auto split: if_splits)
next
  case (Op_wait intr)
  then obtain p where p: "pw_creating w k = Some p" using r by (auto split: option.splits)
  then obtain th where th: "pw_objs w p = Some th" using thread_invD(2) [OF inv] by blast
  show ?thesis
  proof (cases intr)
    case True
    then show ?thesis
      using r p th Op_wait by (auto simp: Thread_wait_def Semaphore_wait_def split: if_splits)
  next
    case False
    then obtain s where "Thread_wait False k p w = Some s" using r p Op_wait by (auto split: option.splits)
    then show ?thesis using thread_inv_wait [OF inv p] r p False Op_wait by fastforce
  qed
next
  case Op_run
  then obtain ot where ot: "pw_threads w k = Some ot" using r by (auto split: option.splits)
  show ?thesis
    using r Op_run ot run_start_ok [OF inv ot] run_notify_ok [OF inv ot] run_end_ok [OF inv ot]
    by (cases "ot_pc ot") (fastforce split: if_splits)+
next
  case (Op_join p)
  then obtain s where "pw_built w p" "Thread_join k p w = Some s" using r by (auto split: if_splits)
  then show ?thesis using join_ok [OF inv] r Op_join by (fastforce split: if_splits)
next
  case (Op_destroy p)
  then show ?thesis using r destroy_ok [OF inv] by (fastforce split: if_splits)
next
  case (Op_SetName name)
  then obtain ot where ot: "pw_threads w k = Some ot" "r = Thread_SetName k name ot w"
    using r by (auto split: if_splits option.splits)
  show ?thesis
  proof (cases r)
    case (Inl e)
    then show ?thesis using ot Op_SetName by (auto simp: Thread_SetName_def split: option.splits)
  next
    case (Inr w')
    then show ?thesis using SetName_ok [OF inv ot(1)] ot(2) by fastforce
  qed
qed

lemma thread_reach_inv: "thread_reach w \<Longrightarrow> thread_inv w"
proof (induction rule: thread_reach.induct)
  case threads_start
  show ?case by (rule thread_inv_init)
next
  case (threads_step w op k w')
  then show ?case using act_ok by fastforce
qed

section \<open>Properties\<close>


text \<open>Thread 1 creates a thread, which runs its function; object 0 is then destroyed and thread 2 renames itself.\<close>

definition demo_ops :: "(tid \<times> nat thread_op) list" where
  "demo_ops = [(1, Op_create 5 ''worker'' 0), (2, Op_run), (2, Op_run), (1, Op_wait False), (1, Op_destroy 0)]"

fun thread_acts :: "(tid \<times> 'cb thread_op) list \<Rightarrow> 'cb thread_world \<Rightarrow> 'cb thread_world option" where
  "thread_acts [] w = Some w"
| "thread_acts ((k, op) # ops) w =
     (case thread_act k op w of Some (Inr w) \<Rightarrow> thread_acts ops w | _ \<Rightarrow> None)"

lemma thread_acts_reach:
  "thread_acts ops w = Some w' \<Longrightarrow> thread_reach w \<Longrightarrow> list_all (\<lambda>(k, op). op \<noteq> Op_wait True) ops \<Longrightarrow> thread_reach w'"
  by (induction ops w rule: thread_acts.induct) (auto split: option.splits sum.splits intro: threads_step)

lemma demo_run:
  "\<exists>w ot. thread_acts (take 3 demo_ops) thread_world_init = Some w \<and> pw_creating w 1 = Some 0 \<and> Thread_wait False 1 0 w \<noteq> None"
  "\<exists>w ot. thread_acts demo_ops thread_world_init = Some w \<and> pw_threads w 2 = Some ot \<and> ot_this ot = Some 0 \<and>
     ot_name ot = ''worker'' \<and> pw_objs w 0 = None \<and> thread_act 2 (Op_SetName ''x'') w = Some (Inl Bad_access)"
  by (simp_all add: demo_ops_def thread_world_init_def foreign_thread_def in_user_code_def Thread_create_def Let_def
      Thread_run_start_def Thread_run_notify_def Semaphore_notify_def SEM_VALUE_MAX_def Thread_wait_def Semaphore_wait_def
      Thread_destroy_def Thread_SetName_def)


text \<open>
  When a signal handler interrupts the wait at the end of the constructor before the new thread has notified, the constructor
  throws and the object is destroyed, and the next step of the new thread accesses it.
\<close>

theorem interrupted_constructor:
  assumes "thread_reach w" "pw_creating w k = Some p" "pw_objs w p = Some th" "th_semaphore th = 0"
  shows "\<exists>w'. Thread_wait True k p w = Some (Inr (Inl (Logic_error ''sem_wait error''), w')) \<and> pw_objs w' p = None \<and>
    thread_act k (Op_wait True) w = Some (Inr w') \<and> thread_act (th_thread th) Op_run w' = Some (Inl Bad_access)"
proof -
  obtain ot where ot: "pw_threads w (th_thread th) = Some ot" "constructing p th ot"
    using thread_invD(2) [OF thread_reach_inv [OF assms(1)] assms(2)] assms(3) by auto
  then have "ot_pc ot = Run_start p \<or> (\<exists>cb. ot_pc ot = Run_notify p cb)"
    using assms(4) by (auto simp: constructing_def split: run_pc.splits)
  then show ?thesis
    using assms(2-4) ot(1)
    by (auto simp: Thread_wait_def Semaphore_wait_def Thread_run_start_def Thread_run_notify_def)
qed

lemma demo_start:
  "\<exists>w th. thread_acts (take 1 demo_ops) thread_world_init = Some w \<and> pw_creating w 1 = Some 0 \<and> pw_objs w 0 = Some th \<and>
     th_semaphore th = 0 \<and> th_thread th = 2"
  by (simp add: demo_ops_def thread_world_init_def foreign_thread_def in_user_code_def Thread_create_def Let_def)

theorem interrupted_constructor_witness:
  "\<exists>w w'. thread_acts (take 1 demo_ops) thread_world_init = Some w \<and> thread_act 1 (Op_wait True) w = Some (Inr w') \<and>
     thread_act 2 Op_run w' = Some (Inl Bad_access)"
proof -
  obtain w th where w: "thread_acts (take 1 demo_ops) thread_world_init = Some w" "pw_creating w 1 = Some 0"
      "pw_objs w 0 = Some th" "th_semaphore th = 0" "th_thread th = 2"
    using demo_start by blast
  have "thread_reach w"
    by (rule thread_acts_reach [OF w(1) threads_start]) (simp add: demo_ops_def)
  then show ?thesis using interrupted_constructor [of w 1 0 th] w by auto
qed

end
