(* ===== verification/Util.thy ===== *)
theory Util
  imports Fiber "HOL-Library.Signed_Division"
begin

text \<open>
  The utilities of \<open>mingfwq/util.cpp\<close>, the assertion of \<open>macro.h\<close> and the singletons of \<open>singleton.h\<close>. What the
  system and the C library return is a parameter: the time, the call stack, its symbols.
\<close>

section \<open>Definitions\<close>

text \<open>The identifiers of the current thread, a system call, and of the current fiber, of which 32 bits are left.\<close>

definition GetThreadId :: "int \<Rightarrow> int" where
  "GetThreadId gettid = gettid"
definition util_GetFiberId :: "'f fthread \<Rightarrow> u32 res" where
  "util_GetFiberId th = bind_res (Fiber.GetFiberId th) (\<lambda>fid. Inr (ucast fid))"

text \<open>
  The clock, of the fields \<open>tv_sec\<close> and \<open>tv_usec\<close>, 64 bit signed integers. The first product of \<open>GetCurrentUS\<close> is
  signed, the others are unsigned.
\<close>

definition GetCurrentMS :: "int \<Rightarrow> int \<Rightarrow> u64" where
  "GetCurrentMS tv_sec tv_usec = word_of_int tv_sec * 1000 + word_of_int (tv_usec sdiv 1000)"

definition GetCurrentUS :: "int \<Rightarrow> int \<Rightarrow> u64 res" where
  "GetCurrentUS tv_sec tv_usec =
     (if tv_sec * 1000 < - (2 ^ 63) \<or> tv_sec * 1000 \<ge> 2 ^ 63 then Inl Signed_overflow
      else Inr (word_of_int (tv_sec * 1000) * 1000 + word_of_int tv_usec))"

text \<open>
  \<open>Backtrace\<close>: \<open>frames\<close> is the stack, \<open>symbols\<close> the result of \<open>backtrace_symbols\<close> for it, \<open>None\<close> when it has no
  memory. The comparison with \<open>size_t\<close> makes a negative \<open>skip\<close> a huge one. The second part of the result
  counts the blocks of memory that are not freed.
\<close>

definition Backtrace :: "nat list \<Rightarrow> (nat list \<Rightarrow> string list option) \<Rightarrow> string list \<Rightarrow> nat \<Rightarrow> int \<Rightarrow> string list \<times> nat" where
  "Backtrace frames symbols bt size1 skip =
     (let array = take size1 frames
      in case symbols array of
           None \<Rightarrow> (bt, 1)
         | Some strings \<Rightarrow> (bt @ (if skip < 0 then [] else drop (nat skip) (take (length array) strings)), 0))"

fun backtrace_lines :: "string \<Rightarrow> string list \<Rightarrow> string" where
  "backtrace_lines prefix [] = []"
| "backtrace_lines prefix (l # ls) = prefix @ l @ [CHR 0x0A] @ backtrace_lines prefix ls"

definition BacktraceToString :: "nat list \<Rightarrow> (nat list \<Rightarrow> string list option) \<Rightarrow> nat \<Rightarrow> int \<Rightarrow> string \<Rightarrow> string" where
  "BacktraceToString frames symbols size1 skip prefix = backtrace_lines prefix (fst (Backtrace frames symbols [] size1 skip))"

text \<open>
  \<open>MINGFWQ_ASSERT\<close>: a failed condition is logged with the stack, and \<open>assert\<close> ends the program unless \<open>NDEBUG\<close>
  is defined. \<open>log\<close> is the message's way into the rest of the state.
\<close>

definition MINGFWQ_ASSERT :: "bool \<Rightarrow> (string \<Rightarrow> 's \<Rightarrow> 's) \<Rightarrow> string \<Rightarrow> string \<Rightarrow> bool \<Rightarrow> 's \<Rightarrow> 's res" where
  "MINGFWQ_ASSERT ndebug log expr stack x s =
     (if \<not> x then
        let s = log (''ASSERTON: '' @ expr @ [CHR 0x0A] @ ''backtrace:'' @ [CHR 0x0A] @ stack) s
        in if ndebug then Inr s else Inl Assert_failed
      else Inr s)"

definition MINGFWQ_ASSERT2 :: "bool \<Rightarrow> (string \<Rightarrow> 's \<Rightarrow> 's) \<Rightarrow> string \<Rightarrow> string \<Rightarrow> string \<Rightarrow> bool \<Rightarrow> 's \<Rightarrow> 's res" where
  "MINGFWQ_ASSERT2 ndebug log expr w stack x s =
     (if \<not> x then
        let s = log (''ASSERTON: '' @ expr @ [CHR 0x0A] @ w @ [CHR 0x0A] @ ''backtrace:'' @ [CHR 0x0A] @ stack) s
        in if ndebug then Inr s else Inl Assert_failed
      else Inr s)"

text \<open>\<open>Singleton\<close> and \<open>SingletonPtr\<close>: a static variable of the function, made by the first call.\<close>

definition GetInstance :: "('s \<Rightarrow> 'a \<times> 's) \<Rightarrow> 'a option \<Rightarrow> 's \<Rightarrow> 'a \<times> 'a option \<times> 's" where
  "GetInstance create v s = (case v of Some x \<Rightarrow> (x, v, s) | None \<Rightarrow> (case create s of (x, s) \<Rightarrow> (x, Some x, s)))"

section \<open>Lemmas\<close>

lemma assert_holds: "MINGFWQ_ASSERT ndebug log expr stack True s = Inr s"
  by (simp add: MINGFWQ_ASSERT_def)

lemma assert_fails: "MINGFWQ_ASSERT False log expr stack False s = Inl Assert_failed"
  by (simp add: MINGFWQ_ASSERT_def Let_def)

lemma GetInstance_once:
  "GetInstance create v s = (x, v', s') \<Longrightarrow> GetInstance create v' s'' = (x, v', s'')"
  by (auto simp: GetInstance_def split: option.splits prod.splits)

lemma length_backtrace_lines:
  "length (backtrace_lines prefix ls) = sum_list (map length ls) + length ls * (length prefix + 1)"
  by (induction ls) auto

lemma word_time:
  "0 \<le> x \<Longrightarrow> x < 2 ^ 64 \<Longrightarrow> uint (word_of_int x :: u64) = x"
  by (simp add: uint_word_of_int)

text \<open>
  Within the range of the clock the two functions return the time in their units, so that the milliseconds are the
  microseconds divided by 1000.
\<close>

theorem clock_units:
  assumes "0 \<le> sec" "sec < 9223372036854" "0 \<le> usec" "usec < 1000000"
  shows "\<exists>us. GetCurrentUS sec usec = Inr us \<and> uint us = sec * 1000000 + usec \<and>
    uint (GetCurrentMS sec usec) = sec * 1000 + usec div 1000 \<and> uint (GetCurrentMS sec usec) = uint us div 1000"
proof -
  have ms: "GetCurrentMS sec usec = word_of_int (sec * 1000 + usec div 1000)"
  proof -
    have "usec sdiv 1000 = usec div 1000" using assms(3) by (cases "usec = 0") (simp_all add: signed_divide_int_def)
    then show ?thesis by (simp add: GetCurrentMS_def)
  qed
  have us: "GetCurrentUS sec usec = Inr (word_of_int (sec * 1000000 + usec))"
  proof -
    have "(1000 :: u64) = word_of_int 1000" by simp
    then have "(word_of_int (sec * 1000) * 1000 + word_of_int usec :: u64) = word_of_int (sec * 1000 * 1000 + usec)"
      by (simp only: wi_hom_mult wi_hom_add)
    moreover have "sec * 1000 * 1000 = sec * 1000000" by simp
    ultimately show ?thesis using assms(1,2) by (simp add: GetCurrentUS_def)
  qed
  have "uint (word_of_int (sec * 1000 + usec div 1000) :: u64) = sec * 1000 + usec div 1000"
    using assms by (intro word_time) auto
  moreover have "uint (word_of_int (sec * 1000000 + usec) :: u64) = sec * 1000000 + usec"
    using assms by (intro word_time) auto
  moreover have "(sec * 1000000 + usec) div 1000 = sec * 1000 + usec div 1000"
    using div_mult_self3 [of 1000 "sec * 1000" usec] by (simp add: algebra_simps)
  ultimately show ?thesis using ms us by (auto simp: mult.commute)
qed

end
