(* ===== verification/IOManager_Life.thy ===== *)
theory IOManager_Life
  imports IOManager Util
begin

text \<open>
  The constructor and the destructor of \<open>IOManager\<close> (\<open>mingfwq/iomanager.cpp\<close>). The results of the system calls are
  parameters: the descriptor of \<open>epoll_create\<close>, the pipe of the wake-ups, and the codes of \<open>pipe\<close>, \<open>fcntl\<close> and \<open>epoll_ctl\<close>.
  The base class \<open>Scheduler\<close> is constructed before the constructor's body and destroyed after the destructor's.
\<close>

record io_descriptors =
  iod_epfd :: int
  iod_tickleFds :: "int \<times> int"

text \<open>
  \<open>m_FdContexts\<close> and \<open>m_pendingEventCount\<close> start empty; \<open>ids\<close> gives the ids of the threads that \<open>start\<close> creates. An
  assertion that fails ends the program.
\<close>

definition IOManager_new ::
    "int \<Rightarrow> int \<Rightarrow> int \<times> int \<Rightarrow> int \<Rightarrow> int \<Rightarrow> (nat \<Rightarrow> 'f callback Scheduler) \<Rightarrow> nat \<Rightarrow> 'f TimerManager \<Rightarrow> (nat \<Rightarrow> int) \<Rightarrow>
     (io_descriptors \<times> 'f IOManager) res" where
  "IOManager_new epfd pipe_rt fds fcntl_rt ctl_rt scheds self timers ids =
     (if \<not> epfd > 0 then Inl Assert_failed
      else if pipe_rt \<noteq> 0 then Inl Assert_failed
      else if fcntl_rt \<noteq> 0 then Inl Assert_failed
      else if ctl_rt \<noteq> 0 then Inl Assert_failed
      else
        let io = contextResize \<lparr>m_FdContexts = [], m_pendingEventCount = 0, io_scheds = scheds, io_self = self,
                                io_timers = timers\<rparr> 32
        in bind_res (Scheduler_start (io_scheds io self) ids) (\<lambda>s.
             Inr (\<lparr>iod_epfd = epfd, iod_tickleFds = fds\<rparr>, io\<lparr>io_scheds := (io_scheds io)(self := s)\<rparr>)))"

text \<open>
  The destructor's body after \<open>stop\<close>, which is \<open>Scheduler_stop\<close>: the closed descriptors, in order, and the manager
  without contexts.
\<close>

definition IOManager_destroy :: "io_descriptors \<Rightarrow> 'f IOManager \<Rightarrow> int list \<times> 'f IOManager" where
  "IOManager_destroy d io =
     ([iod_epfd d, fst (iod_tickleFds d), snd (iod_tickleFds d)], io\<lparr>m_FdContexts := []\<rparr>)"

text \<open>A constructed manager is one of the reachable ones, so that their invariant holds for it.\<close>

lemma IOManager_new_reachable:
  assumes "IOManager_new epfd pipe_rt fds fcntl_rt ctl_rt scheds self timers ids = Inr (d, io)"
  shows "io_reachable io \<and> io_inv32 io \<and> length (m_FdContexts io) = 32 \<and> iod_epfd d > 0"
proof -
  obtain s where s: "Scheduler_start (scheds self) ids = Inr s" "epfd > 0" "d = \<lparr>iod_epfd = epfd, iod_tickleFds = fds\<rparr>"
      "io = contextResize \<lparr>m_FdContexts = [], m_pendingEventCount = 0, io_scheds = scheds(self := s), io_self = self,
        io_timers = timers\<rparr> 32"
    using assms by (auto simp: IOManager_new_def Let_def bind_res_Inr_iff contextResize_def split: if_splits)
  have "io_reachable io" unfolding s(4) by (rule ir_new) simp_all
  then show ?thesis using s by (auto intro: io_reachable_inv simp: contextResize_def)
qed

end
