(* ===== verification/Spec2Isabelle.thy ===== *)
theory Spec2Isabelle
  imports Prelude Cstring Endian Byte_Store ByteArray ByteArray_IO ByteArray_Codec Std_Set Timers Fiber Scheduler IOManager
    Fd_Manager Hook Address Socket Stream_IO Socket_Stream Http Servlet Ragel Http11_Machine Http_Parser Http_Session Http11_Bounds Http11_Text
    Http11_Roundtrip Uri_Machine Uri Uri_Text Httpclient_Machine Http_Client Http_Connection
    Tcp_Server Http_Server Config Log_Format Log Log_Config
    Sleep Config_Cast Settings Locks Threads Util IOManager_Life
begin

text \<open>
  A verification library for \<open>mingfwq\<close>, a C++ server framework built on fibers. Paths are relative to
  \<open>src/mingfwq\<close>; definitions carry the names of the functions and types that they translate, preceded by the name of the class
  where two classes share a name.

  \<^bold>\<open>The program.\<close> Threads (\<open>thread.h\<close>) run schedulers (\<open>scheduler.cpp\<close>), which hand a queue of fibers (\<open>fiber.cpp\<close>) and
  callbacks to their threads. An \<open>IOManager\<close> (\<open>iomanager.cpp\<close>) is a scheduler with a manager of timers (\<open>timer.cpp\<close>); its idle fiber
  waits with epoll and queues the fibers and callbacks of what has become ready or due. The hooked system calls (\<open>hook.cpp\<close>, with the
  descriptor table of \<open>fd_manager.cpp\<close>) turn blocking calls into such waits. Sockets (\<open>socket.cpp\<close>) and streams
  (\<open>stream.cpp\<close>, \<open>socket_stream.cpp\<close>) use them; addresses are in \<open>address.cpp\<close>, and \<open>bytearray.cpp\<close> serialises values. On top are the TCP
  server (\<open>tcp_server.cpp\<close>) and HTTP (directory \<open>http\<close>): messages, two parsers generated by Ragel, the
  session, the servlets, the server and the client with its pool; a third generated machine parses URIs (\<open>uri.rl.cpp\<close>).
  Configuration (\<open>config.h\<close>) and logging (\<open>log.cpp\<close>) are used by all of them.

  \<^bold>\<open>How code is modelled.\<close> Objects are records, enumerations and tagged unions datatypes. Integers are words of their width,
  so that they wrap as in C++; a conversion is \<open>ucast\<close> or \<open>scast\<close>. An operation that can throw, fail an assertion or have undefined
  behaviour has its result in \<open>'a res\<close>, with the failure as a value of \<open>cxx_error\<close> (theory Prelude). Heap objects that are shared have
  addresses. A critical section is one step, and threads interleave between steps. A loop that may not
  return is a \<open>partial_function (option)\<close>, whose value \<open>None\<close> means that it does not; there is no fuel, and theorems that state a
  return state that the value is \<open>Some\<close>. An operation that waits for another thread is \<open>None\<close> as well.

  What is not code of the repository is a parameter: the system calls, epoll, \<open>getaddrinfo\<close>, \<open>getifaddrs\<close> and \<open>inet_pton\<close>, \<open>fnmatch\<close>, \<open>strftime\<close>,
  \<open>dlsym\<close>, boost's \<open>lexical_cast\<close>, yaml-cpp, the clock, the addresses of new objects, the contents of uninitialised memory, the order of unordered
  containers. Where a theorem relies on their behaviour, its premise says so. The pthread
  locks are defined by their documented behaviour.

  \<^bold>\<open>Theories and sources.\<close>

  \<^item> Prelude, Cstring: machine types, results, lists, C strings. Std_Set: \<open>std::set\<close> and \<open>std::map\<close> as sorted
    sequences, in the locale \<open>strict_weak\<close> of comparators, which the timers, the header maps, addresses, loggers and listeners interpret.
  \<^item> Endian: \<open>endian.h\<close>.
  \<^item> Byte_Store: the contract of a store of bytes with a cursor; ByteArray: the chain of nodes of \<open>bytearray.cpp\<close>, which is shown to
    implement it (\<open>ba_write\<close>, \<open>ba_read\<close>, \<open>setPosition\<close>, \<open>addCapacity\<close>); ByteArray_Codec: the typed reads and writes, proved once against the contract;
    ByteArray_IO: buffer vectors, files and the hexadecimal dump.
  \<^item> Timers: \<open>timer.cpp\<close>. Fiber: \<open>fiber.cpp\<close>, the contexts of one thread. Scheduler: \<open>scheduler.cpp\<close>, with \<open>run\<close> cut at the
    points where threads interleave. IOManager, IOManager_Life: \<open>iomanager.cpp\<close>.
  \<^item> Locks, Threads: \<open>thread.h\<close> and \<open>thread.cpp\<close>, with the locale \<open>exclusive_lock\<close> for what the scoped locks ask of a lock. Util: \<open>util.cpp\<close>,
    \<open>macro.h\<close>, \<open>singleton.h\<close>.
  \<^item> Fd_Manager: \<open>fd_manager.cpp\<close> as an implementation of the locale \<open>fd_table\<close>. Hook: \<open>hook.cpp\<close>; Sleep: its sleep functions over timers and
    scheduler; Settings: the configured values that \<open>hook.cpp\<close> and \<open>http_parser.cpp\<close> keep.
  \<^item> Address: \<open>address.cpp\<close>. Socket: \<open>socket.cpp\<close>. Stream_IO: \<open>stream.cpp\<close>. Socket_Stream: \<open>socket_stream.cpp\<close>. Tcp_Server:
    \<open>tcp_server.cpp\<close>.
  \<^item> Http: \<open>http/http.cpp\<close>. Servlet: \<open>http/servlet.cpp\<close>. Ragel: the control flow of the generated machines; Http11_Machine,
    Httpclient_Machine and Uri_Machine: their transitions, label by label. Http_Parser, Http_Client, Uri: the actions and the classes around the
    machines. Http_Session, Http_Connection, Http_Server: \<open>http/http_session.cpp\<close>, \<open>http/http_connection.cpp\<close>, \<open>http/http_server.cpp\<close>.
  \<^item> Http11_Bounds, Http11_Text, Http11_Roundtrip, Uri_Text: what the machines do with all inputs, and with the texts that the library prints.
  \<^item> Config, Config_Cast: \<open>config.h\<close>, \<open>config.cpp\<close>. Log_Format, Log, Log_Config: \<open>log.cpp\<close>.

  \<^bold>\<open>What is shown.\<close>

  \<^item> Invariants of all reachable states, by rule induction over the steps of an interleaving: the timer set and the safety of \<open>cancel\<close>; the states and
    contexts of fibers; no task is lost or run twice by a scheduler; the pending events of an IO manager; the connections of a pool;
    mutual exclusion of scoped locks; the handshake of \<open>Thread\<close>; registered variables; cached settings.
  \<^item> Functional behaviour on every branch: expiry and insertion of timers, the search of the queue, registering and triggering
    events, \<open>do_io\<close>, sleeping, reading and writing byte arrays and streams, headers, servlets, listeners, appenders and formatters.
  \<^item> Round trips: fixed-width integers, varints and strings, files, socket streams, requests, URIs, addresses, patterns of
    formatters, YAML of containers and of loggers.
  \<^item> Refinement and equivalence: the node chain is a byte store, \<open>FdManager\<close> a partial map, the optimised bit counting a population count.
  \<^item> Termination: logging, the search of the pool, the server's loop on an incoming request; liveness: \<open>getConnection\<close> returns in every
    interleaving.
  \<^item> The parser of requests is safe for arbitrary bytes (theory Http11_Bounds).
  \<^item> Composition: a request printed by a client goes through the session, the parser, the dispatcher and the servlet, and its response is what the
    server writes (theory Http_Server).
  \<^item> Behaviour that is surely not intended is stated as it is: hanging up on a descriptor fails an assertion, \<open>readFixSize\<close> ignores errors, a
    query in two packets throws, only the first chunk of a response is read, \<open>close\<close> leaves a stale context, a guard that is locked again is never
    released, and others.

  \<^bold>\<open>Bounds.\<close> Buffers are shorter than \<open>2 ^ 31\<close> or \<open>2 ^ 63\<close> bytes where a length passes through \<open>int\<close> or a signed 64 bit
  integer; each such bound is a premise. Deadlines are 64 bit sums, which wrap as in the code. Where the code truncates or wraps, a theorem
  says what happens beyond the bound.

  \<^bold>\<open>Not modelled.\<close> The tests and examples. Log messages of the components other than logging, since no state depends on
  them. The labels \<open>_test_eof\<close> of the generated files, which store the state at the end of the buffer, appear as the end of the run
  (the actions that the URI machine takes there are \<open>uri_eof\<close>), and the tables and directives that Ragel copies and the code does not read are left
  out. The function \<open>Socket::dump\<close>, which prints pointers. \<open>Noncopyable\<close> and \<open>mingfwq.h\<close>, which have no operations. Memory that is only freed: the
  destructors of \<open>ByteArray\<close> and of the pthread objects, the stack allocator of fibers. Exceptions for lack of memory.
\<close>

end
